(* ===== verification/Go_Prelude.thy ===== *)
theory Go_Prelude
  imports Complex_Main "HOL-Library.Word"
begin

text \<open>
  Shared vocabulary of the development: Go errors as values, the functions of the packages
  \<^verbatim>\<open>strings\<close>, \<^verbatim>\<open>strconv\<close> and \<^verbatim>\<open>errors\<close> that the sources call, time stamps, and the
  generic lemmas on lists and options the component theories use.

  Strings are HOL strings read as byte sequences.  \<^verbatim>\<open>strings.TrimSpace\<close>,
  \<^verbatim>\<open>strings.ToUpper\<close>, \<^verbatim>\<open>strings.ToLower\<close> and \<^verbatim>\<open>strings.EqualFold\<close> are modelled on
  the ASCII range; bytes of other characters are left unchanged.

  A \<^verbatim>\<open>time.Time\<close> is its distance in nanoseconds from the zero time, so that
  \<^verbatim>\<open>IsZero\<close> is equality with 0, \<^verbatim>\<open>Add\<close> is addition and \<^verbatim>\<open>Before\<close>/\<^verbatim>\<open>After\<close> are the
  orders on integers.  \<^verbatim>\<open>UTC()\<close> only changes the location, hence is the identity.
\<close>

named_theorems str_simps \<open>simplification rules for the string functions\<close>
named_theorems code_tables \<open>definitions of the status code tables\<close>

type_synonym time = int
type_synonym duration = int

abbreviation is_zero :: "time \<Rightarrow> bool" where "is_zero t \<equiv> t = 0"

definition nanosecond :: duration where "nanosecond = 1"
definition millisecond :: duration where "millisecond = 1000000"
definition second :: duration where "second = 1000000000"
definition minute :: duration where "minute = 60 * second"
definition hour :: duration where "hour = 60 * minute"

subsection \<open>Package strings\<close>

definition is_space :: "char \<Rightarrow> bool" where
  "is_space c = (let n = of_char c :: int in n = 32 \<or> (9 \<le> n \<and> n \<le> 13))"

definition trim_space :: "string \<Rightarrow> string" where
  "trim_space s = rev (dropWhile is_space (rev (dropWhile is_space s)))"

definition upper_char :: "char \<Rightarrow> char" where
  "upper_char c = (let n = of_char c :: int in if 97 \<le> n \<and> n \<le> 122 then char_of (n - 32) else c)"

definition lower_char :: "char \<Rightarrow> char" where
  "lower_char c = (let n = of_char c :: int in if 65 \<le> n \<and> n \<le> 90 then char_of (n + 32) else c)"

definition to_upper :: "string \<Rightarrow> string" where "to_upper = map upper_char"
definition to_lower :: "string \<Rightarrow> string" where "to_lower = map lower_char"

definition equal_fold :: "string \<Rightarrow> string \<Rightarrow> bool" where
  "equal_fold s t = (to_lower s = to_lower t)"

definition has_prefix :: "string \<Rightarrow> string \<Rightarrow> bool" where
  "has_prefix s p = (take (length p) s = p)"

definition has_suffix :: "string \<Rightarrow> string \<Rightarrow> bool" where
  "has_suffix s p = (length p \<le> length s \<and> drop (length s - length p) s = p)"

definition trim_suffix :: "string \<Rightarrow> string \<Rightarrow> string" where
  "trim_suffix s p = (if has_suffix s p then take (length s - length p) s else s)"

fun contains_str :: "string \<Rightarrow> string \<Rightarrow> bool" where
  "contains_str [] p = (p = [])"
| "contains_str (c # s) p = (has_prefix (c # s) p \<or> contains_str s p)"

fun join :: "string list \<Rightarrow> string \<Rightarrow> string" where
  "join [] sep = []"
| "join [s] sep = s"
| "join (s # t # ss) sep = s @ sep @ join (t # ss) sep"

fun remove_char :: "char \<Rightarrow> string \<Rightarrow> string" where
  "remove_char c s = filter (\<lambda>d. d \<noteq> c) s"

subsection \<open>Decimal integers\<close>

definition digit_char :: "int \<Rightarrow> char" where "digit_char n = char_of (48 + n)"

function show_digits :: "int \<Rightarrow> string" where
  "show_digits n = (if n < 10 then [digit_char n] else show_digits (n div 10) @ [digit_char (n mod 10)])"
  by pat_completeness auto
termination by (relation "measure nat") auto

declare show_digits.simps [simp del]

definition show_int :: "int \<Rightarrow> string" where
  "show_int i = (if i < 0 then CHR ''-'' # show_digits (- i) else show_digits i)"

definition char_digit :: "char \<Rightarrow> int option" where
  "char_digit c = (let n = of_char c :: int in if 48 \<le> n \<and> n \<le> 57 then Some (n - 48) else None)"

fun parse_digits :: "int \<Rightarrow> string \<Rightarrow> int option" where
  "parse_digits a [] = Some a"
| "parse_digits a (c # cs) = (case char_digit c of None \<Rightarrow> None | Some d \<Rightarrow> parse_digits (10 * a + d) cs)"

subsection \<open>Errors\<close>

text \<open>
  An error is a sentinel compared with \<^verbatim>\<open>errors.Is\<close>, a message made by \<^verbatim>\<open>fmt.Errorf\<close>
  or \<^verbatim>\<open>errors.New\<close>, a message wrapped around another error by \<^verbatim>\<open>%w\<close>, an error with a
  text of its own whose \<^verbatim>\<open>Unwrap\<close> gives another error, or a gRPC status.
\<close>

datatype grpc_code = InvalidArgument | NotFound | AlreadyExists | PermissionDenied
  | FailedPrecondition | Unimplemented | Internal | Unavailable | Unauthenticated | Canceled
  | DeadlineExceeded

primrec code_text :: "grpc_code \<Rightarrow> string" where
  "code_text InvalidArgument = ''InvalidArgument''"
| "code_text NotFound = ''NotFound''"
| "code_text AlreadyExists = ''AlreadyExists''"
| "code_text PermissionDenied = ''PermissionDenied''"
| "code_text FailedPrecondition = ''FailedPrecondition''"
| "code_text Unimplemented = ''Unimplemented''"
| "code_text Internal = ''Internal''"
| "code_text Unavailable = ''Unavailable''"
| "code_text Unauthenticated = ''Unauthenticated''"
| "code_text Canceled = ''Canceled''"
| "code_text DeadlineExceeded = ''DeadlineExceeded''"

datatype error =
    Sentinel string
  | Errorf string
  | Wrapf string error
  | Unwrapping string error
  | Status grpc_code string

primrec err_text :: "error \<Rightarrow> string" where
  "err_text (Sentinel s) = s"
| "err_text (Errorf s) = s"
| "err_text (Wrapf s e) = s @ err_text e"
| "err_text (Unwrapping s e) = s"
| "err_text (Status c s) = ''rpc error: code = '' @ code_text c @ '' desc = '' @ s"

primrec errors_is :: "error \<Rightarrow> string \<Rightarrow> bool" where
  "errors_is (Sentinel s) t = (s = t)"
| "errors_is (Errorf s) t = False"
| "errors_is (Wrapf s e) t = errors_is e t"
| "errors_is (Unwrapping s e) t = errors_is e t"
| "errors_is (Status c s) t = False"

type_synonym 'a result = "error + 'a"

primrec is_ok :: "'e + 'a \<Rightarrow> bool" where
  "is_ok (Inl e) = False"
| "is_ok (Inr x) = True"

primrec bind_result :: "'a result \<Rightarrow> ('a \<Rightarrow> 'b result) \<Rightarrow> 'b result" where
  "bind_result (Inl e) f = Inl e"
| "bind_result (Inr x) f = f x"

primrec check_first :: "(bool \<times> 'e) list \<Rightarrow> 'e option" where
  "check_first [] = None"
| "check_first (ge # ges) = (if fst ge then Some (snd ge) else check_first ges)"

subsection \<open>Lemmas on strings\<close>

lemma upper_upper_char [str_simps]: "upper_char (upper_char c) = upper_char c"
proof -
  have "of_char (char_of (of_char c - 32 :: int) :: char) = (of_char c - 32 :: int)"
    if "97 \<le> (of_char c :: int) \<and> of_char c \<le> (122::int)" using that by simp
  then show ?thesis by (auto simp: upper_char_def Let_def)
qed

lemma to_upper_idem [simp, str_simps]: "to_upper (to_upper s) = to_upper s"
  by (simp add: to_upper_def comp_def str_simps)

lemma length_to_upper [simp]: "length (to_upper s) = length s"
  by (simp add: to_upper_def)

lemma to_upper_Nil [simp]: "to_upper [] = []" "to_upper s = [] \<longleftrightarrow> s = []"
  by (simp_all add: to_upper_def)

lemma is_space_upper_char [str_simps]: "is_space (upper_char c) = is_space c"
proof -
  have "of_char (char_of (of_char c - 32 :: int) :: char) = (of_char c - 32 :: int)"
    if "97 \<le> (of_char c :: int) \<and> of_char c \<le> (122::int)" using that by simp
  then show ?thesis by (auto simp: upper_char_def is_space_def Let_def)
qed

lemma trim_space_Nil [simp]: "trim_space [] = []"
  by (simp add: trim_space_def)

lemma dropWhile_map_pred:
  "(\<And>x. P (f x) = P x) \<Longrightarrow> dropWhile P (map f xs) = map f (dropWhile P xs)"
  by (induction xs) auto

lemma trim_space_to_upper: "trim_space (to_upper s) = to_upper (trim_space s)"
  by (simp add: trim_space_def to_upper_def rev_map dropWhile_map_pred
      is_space_upper_char)

lemma dropWhile_id_hd: "xs \<noteq> [] \<Longrightarrow> \<not> P (hd xs) \<Longrightarrow> dropWhile P xs = xs"
  by (cases xs) auto

lemma trim_space_idem [simp, str_simps]: "trim_space (trim_space s) = trim_space s"
proof -
  define u where "u = dropWhile is_space s"
  define v where "v = dropWhile is_space (rev u)"
  have t: "trim_space s = rev v" by (simp add: trim_space_def u_def v_def)
  have "dropWhile is_space (rev v) = rev v"
  proof (cases "v = []")
    case False
    then have "u \<noteq> []" by (auto simp: v_def)
    then have "\<not> is_space (hd u)" unfolding u_def by (simp add: hd_dropWhile)
    moreover have "last v = hd u"
    proof -
      have "rev u = takeWhile is_space (rev u) @ v" unfolding v_def by simp
      then have "last (rev u) = last v" using False by (metis last_appendR)
      then show ?thesis using \<open>u \<noteq> []\<close> by (simp add: last_rev)
    qed
    ultimately show ?thesis using False by (intro dropWhile_id_hd) (simp_all add: hd_rev)
  qed simp
  moreover have "dropWhile is_space v = v" unfolding v_def by simp
  ultimately show ?thesis by (simp add: t trim_space_def [of "rev v"])
qed

lemma equal_fold_refl [simp]: "equal_fold s s"
  by (simp add: equal_fold_def)

lemma equal_fold_sym: "equal_fold s t \<longleftrightarrow> equal_fold t s"
  by (auto simp: equal_fold_def)

lemma check_first_None: "check_first ges = None \<longleftrightarrow> (\<forall>g\<in>set ges. \<not> fst g)"
  by (induction ges) auto

lemma check_first_Some:
  "check_first ges = Some e \<Longrightarrow> \<exists>g\<in>set ges. fst g \<and> snd g = e"
  by (induction ges) (auto split: if_splits)

lemma bind_result_Inr: "bind_result r f = Inr y \<longleftrightarrow> (\<exists>x. r = Inr x \<and> f x = Inr y)"
  by (cases r) auto

lemma bind_result_Inl: "bind_result r f = Inl e \<longleftrightarrow> r = Inl e \<or> (\<exists>x. r = Inr x \<and> f x = Inl e)"
  by (cases r) auto

end
