(* ===== verification/Float64.thy ===== *)
theory Float64
  imports Go_Prelude "HOL-Library.Log_Nat"
begin

text \<open>
  Go's \<^verbatim>\<open>float64\<close> is IEEE 754 binary64.  A value is not-a-number, an infinity (with its
  sign) or a finite rational number; the two zeros are identified, which no comparison and no
  arithmetic result used by the sources distinguishes (a division by zero is guarded everywhere
  it occurs in the modelled code).  Arithmetic computes the exact result and rounds it to the
  nearest representable number, ties to even, with gradual underflow below the normal range and
  overflow to infinity: the definitions are executable, so concrete prices and quantities
  evaluate to the numbers the program computes.
\<close>

subsection \<open>Rounding\<close>

definition round_ne :: "rat \<Rightarrow> int" where
  "round_ne x = (let f = \<lfloor>x\<rfloor>; d = x - of_int f in
     if d < 1/2 then f else if 1/2 < d then f + 1 else if even f then f else f + 1)"

definition pow2 :: "int \<Rightarrow> rat" where
  "pow2 k = (if 0 \<le> k then 2 ^ nat k else 1 / 2 ^ nat (- k))"

definition ilog2 :: "rat \<Rightarrow> int" where
  "ilog2 q = (let (n, d) = quotient_of \<bar>q\<bar>; k = bitlen n - bitlen d in
     if pow2 k \<le> \<bar>q\<bar> then k else k - 1)"

definition ulp_exp :: "rat \<Rightarrow> int" where
  "ulp_exp q = max (ilog2 q - 52) (-1074)"

definition rndq :: "rat \<Rightarrow> rat" where
  "rndq q = (if q = 0 then 0 else of_int (round_ne (q / pow2 (ulp_exp q))) * pow2 (ulp_exp q))"

definition max_finite :: rat where
  "max_finite = (2 ^ 53 - 1) * 2 ^ 971"

subsection \<open>Lemmas on rounding to the nearest integer\<close>

lemma round_ne_error: "\<bar>of_int (round_ne x) - x\<bar> \<le> 1/2"
proof -
  have "of_int \<lfloor>x\<rfloor> \<le> x" "x < of_int \<lfloor>x\<rfloor> + 1" by linarith+
  then show ?thesis by (auto simp: round_ne_def Let_def)
qed

lemma round_ne_of_int [simp]: "round_ne (of_int n) = n"
  by (simp add: round_ne_def)

lemma round_ne_floor_bounds: "\<lfloor>x\<rfloor> \<le> round_ne x" "round_ne x \<le> \<lfloor>x\<rfloor> + 1"
  by (auto simp: round_ne_def Let_def)

lemma round_ne_mono: assumes "x \<le> y" shows "round_ne x \<le> round_ne y"
proof (cases "\<lfloor>x\<rfloor> = \<lfloor>y\<rfloor>")
  case True
  then show ?thesis using assms by (auto simp: round_ne_def Let_def)
next
  case False
  then have "\<lfloor>x\<rfloor> + 1 \<le> \<lfloor>y\<rfloor>" using floor_mono [OF assms] by linarith
  then show ?thesis using round_ne_floor_bounds [of x] round_ne_floor_bounds [of y] by linarith
qed

lemma round_ne_le_int: "x \<le> of_int n \<Longrightarrow> round_ne x \<le> n"
  using round_ne_mono [of x "of_int n"] by simp

lemma round_ne_ge_int: "of_int n \<le> x \<Longrightarrow> n \<le> round_ne x"
  using round_ne_mono [of "of_int n" x] by simp

lemma round_ne_neg: "round_ne (- x) = - round_ne x"
proof (cases "x = of_int \<lfloor>x\<rfloor>")
  case True
  then show ?thesis by (metis of_int_minus round_ne_of_int)
next
  case False
  then have f: "\<lfloor>- x\<rfloor> = - \<lfloor>x\<rfloor> - 1" by linarith
  show ?thesis unfolding round_ne_def Let_def f
    by (auto simp: field_simps)
qed

subsection \<open>Powers of two and binary exponents\<close>

lemma pow2_pos [simp]: "0 < pow2 k"
  by (simp add: pow2_def)

lemma abs_pow2 [simp]: "\<bar>pow2 k\<bar> = pow2 k"
  using pow2_pos [of k] by linarith

lemma pow2_nonzero [simp]: "pow2 k \<noteq> 0"
  using pow2_pos [of k] by linarith

lemma pow2_powi: "pow2 k = 2 powi k"
  by (simp add: pow2_def power_int_def inverse_eq_divide power_one_over)

lemma pow2_add: "pow2 (a + b) = pow2 a * pow2 b"
  by (simp add: pow2_powi power_int_add)

lemma pow2_Suc: "pow2 (k + 1) = 2 * pow2 k"
  by (simp add: pow2_add) (simp add: pow2_def)

lemma pow2_mono: "a \<le> b \<Longrightarrow> pow2 a \<le> pow2 b"
  by (simp add: pow2_powi power_int_increasing)

lemma pow2_mono_iff: "pow2 a \<le> pow2 b \<longleftrightarrow> a \<le> b"
proof
  assume "pow2 a \<le> pow2 b"
  show "a \<le> b"
  proof (rule ccontr)
    assume "\<not> a \<le> b"
    then have "pow2 (b + 1) \<le> pow2 a" by (intro pow2_mono) simp
    then show False using \<open>pow2 a \<le> pow2 b\<close> pow2_pos [of b] unfolding pow2_Suc by linarith
  qed
qed (rule pow2_mono)

lemma pow2_nat: "pow2 (int n) = 2 ^ n"
  by (simp add: pow2_def)

lemma pow2_int: "0 \<le> k \<Longrightarrow> pow2 k = of_int (2 ^ nat k)"
  by (simp add: pow2_def)

lemma bitlen_pow2: "0 < n \<Longrightarrow> pow2 (bitlen n - 1) \<le> of_int n" "0 < n \<Longrightarrow> of_int n < pow2 (bitlen n)"
proof -
  assume n: "0 < n"
  have bn: "2 ^ nat (bitlen n - 1) \<le> n" "n < 2 ^ nat (bitlen n)" using bitlen_bounds [OF n] by auto
  have b: "0 < bitlen n"
  proof (rule ccontr)
    assume "\<not> 0 < bitlen n"
    then show False using bn(2) n by simp
  qed
  have "(of_int (2 ^ nat (bitlen n - 1)) :: rat) \<le> of_int n" "of_int n < (of_int (2 ^ nat (bitlen n)) :: rat)"
    using bn by (simp_all only: of_int_le_iff of_int_less_iff)
  then show "pow2 (bitlen n - 1) \<le> of_int n" "of_int n < pow2 (bitlen n)"
    using b by (simp_all add: pow2_def)
qed

lemma ilog2_bounds: assumes "q \<noteq> 0" shows "pow2 (ilog2 q) \<le> \<bar>q\<bar>" "\<bar>q\<bar> < pow2 (ilog2 q + 1)"
proof -
  obtain n d where nd: "quotient_of \<bar>q\<bar> = (n, d)" by fastforce
  then have d: "0 < d" and q: "\<bar>q\<bar> = of_int n / of_int d"
    using quotient_of_denom_pos quotient_of_div by blast+
  have "0 < \<bar>q\<bar>" using assms by simp
  then have n: "0 < n" using d by (simp add: q zero_less_divide_iff)
  let ?k = "bitlen n - bitlen d"
  have "pow2 (?k - 1) * of_int d \<le> pow2 (?k - 1) * pow2 (bitlen d)"
    using bitlen_pow2(2) [OF d] by (simp add: mult_left_mono less_imp_le)
  also have "\<dots> = pow2 (bitlen n - 1)" by (simp add: pow2_add [symmetric])
  finally have lo: "pow2 (?k - 1) \<le> \<bar>q\<bar>"
    using bitlen_pow2(1) [OF n] d by (simp add: q pos_le_divide_eq)
  have "of_int n < pow2 (bitlen n)" by (rule bitlen_pow2(2) [OF n])
  also have "\<dots> = pow2 (?k + 1) * pow2 (bitlen d - 1)" by (simp add: pow2_add [symmetric])
  also have "\<dots> \<le> pow2 (?k + 1) * of_int d"
    using bitlen_pow2(1) [OF d] by (simp add: mult_left_mono less_imp_le)
  finally have hi: "\<bar>q\<bar> < pow2 (?k + 1)" using d by (simp add: q pos_divide_less_eq)
  show "pow2 (ilog2 q) \<le> \<bar>q\<bar>" "\<bar>q\<bar> < pow2 (ilog2 q + 1)"
    using lo hi by (auto simp: ilog2_def nd Let_def)
qed


lemma ilog2_mono: assumes "q \<noteq> 0" "\<bar>q\<bar> \<le> \<bar>r\<bar>" shows "ilog2 q \<le> ilog2 r"
proof -
  have "r \<noteq> 0" using assms by auto
  then have "pow2 (ilog2 q) < pow2 (ilog2 r + 1)"
    using ilog2_bounds [of q] ilog2_bounds [of r] assms by linarith
  then have "ilog2 q < ilog2 r + 1" using pow2_mono_iff by (meson not_le)
  then show ?thesis by simp
qed

lemma ilog2_neg [simp]: "ilog2 (- q) = ilog2 q"
  by (simp add: ilog2_def)

lemma ilog2_eqI: assumes "pow2 k \<le> \<bar>q\<bar>" "\<bar>q\<bar> < pow2 (k + 1)" shows "ilog2 q = k"
proof -
  have "0 < \<bar>q\<bar>" using assms(1) pow2_pos [of k] by linarith
  then have "q \<noteq> 0" by simp
  then have "pow2 k < pow2 (ilog2 q + 1)" "pow2 (ilog2 q) < pow2 (k + 1)"
    using ilog2_bounds [of q] assms by linarith+
  then have "k < ilog2 q + 1" "ilog2 q < k + 1" using pow2_mono_iff by (meson not_le)+
  then show ?thesis by simp
qed

lemma ulp_exp_neg [simp]: "ulp_exp (- q) = ulp_exp q"
  by (simp add: ulp_exp_def)

lemma ulp_exp_mono: "q \<noteq> 0 \<Longrightarrow> \<bar>q\<bar> \<le> \<bar>r\<bar> \<Longrightarrow> ulp_exp q \<le> ulp_exp r"
  unfolding ulp_exp_def using ilog2_mono [of q r] by linarith

subsection \<open>Rounding to the nearest double\<close>

lemma rndq_0 [simp]: "rndq 0 = 0"
  by (simp add: rndq_def)

lemma rndq_neg: "rndq (- q) = - rndq q"
  by (simp add: rndq_def round_ne_neg)

lemma rndq_error: "\<bar>rndq q - q\<bar> \<le> pow2 (ulp_exp q) / 2"
proof (cases "q = 0")
  case False
  let ?u = "pow2 (ulp_exp q)"
  have "rndq q - q = (of_int (round_ne (q / ?u)) - q / ?u) * ?u"
    using False by (simp add: rndq_def left_diff_distrib)
  then have "\<bar>rndq q - q\<bar> = \<bar>of_int (round_ne (q / ?u)) - q / ?u\<bar> * ?u"
    by (simp add: abs_mult)
  also have "\<dots> \<le> 1/2 * ?u" by (intro mult_right_mono round_ne_error less_imp_le [OF pow2_pos])
  finally show ?thesis by simp
qed (simp add: less_imp_le)

lemma rndq_grid_le:
  assumes "q \<noteq> 0" "ulp_exp q \<le> k" "q \<le> of_int n * pow2 k"
  shows "rndq q \<le> of_int n * pow2 k"
proof -
  let ?e = "ulp_exp q"
  have "of_int n * pow2 k = of_int (n * 2 ^ nat (k - ?e)) * pow2 ?e"
    using assms(2) pow2_add [of "k - ?e" ?e] by (simp add: pow2_int)
  moreover from this have "q / pow2 ?e \<le> of_int (n * 2 ^ nat (k - ?e))"
    using assms(3) by (simp only: pos_divide_le_eq pow2_pos)
  ultimately show ?thesis
    using round_ne_le_int [of "q / pow2 ?e"] assms(1)
    by (simp only: rndq_def if_False mult_le_cancel_right_pos pow2_pos of_int_le_iff)
qed

lemma rndq_grid_ge:
  assumes "q \<noteq> 0" "ulp_exp q \<le> k" "of_int n * pow2 k \<le> q"
  shows "of_int n * pow2 k \<le> rndq q"
  using rndq_grid_le [of "- q" k "- n"] assms by (simp add: rndq_neg)

lemma rndq_mono_pos:
  assumes "0 < q" "q \<le> r" shows "rndq q \<le> rndq r"
proof (cases "ulp_exp q = ulp_exp r")
  case True
  then show ?thesis using assms
    by (simp add: rndq_def round_ne_mono divide_right_mono less_imp_le)
next
  case False
  let ?k = "ilog2 r"
  have le: "ulp_exp q < ulp_exp r" using False ulp_exp_mono [of q r] assms by simp
  then have i: "ilog2 q < ?k" "-1074 \<le> ?k" "ulp_exp r \<le> ?k" by (auto simp: ulp_exp_def)
  have "q \<le> pow2 (ilog2 q + 1)" using ilog2_bounds [of q] assms by simp
  also have "\<dots> \<le> pow2 ?k" using i by (intro pow2_mono) simp
  finally have "q \<le> of_int 1 * pow2 ?k" by simp
  then have "rndq q \<le> of_int 1 * pow2 ?k" using assms le i by (intro rndq_grid_le) auto
  also have "\<dots> \<le> rndq r"
    using ilog2_bounds [of r] assms i by (intro rndq_grid_ge) auto
  finally show ?thesis .
qed

lemma rndq_nonneg: assumes "0 \<le> q" shows "0 \<le> rndq q"
  using rndq_grid_ge [of q "ulp_exp q" 0] assms by (cases "q = 0") auto

lemma rndq_mono: assumes "q \<le> r" shows "rndq q \<le> rndq r"
proof -
  consider "0 < q" | "q \<le> 0" "0 \<le> r" | "r < 0" by linarith
  then show ?thesis
  proof cases
    case 1 then show ?thesis using assms by (rule rndq_mono_pos)
  next
    case 2
    then have "0 \<le> rndq (- q)" "0 \<le> rndq r" by (simp_all add: rndq_nonneg)
    then show ?thesis by (simp add: rndq_neg)
  next
    case 3
    then show ?thesis using rndq_mono_pos [of "- r" "- q"] assms by (simp add: rndq_neg)
  qed
qed

lemma rndq_fix:
  assumes "r = of_int n * pow2 k" "ulp_exp r \<le> k" shows "rndq r = r"
proof (cases "r = 0")
  case False
  then show ?thesis using rndq_grid_le [of r k n] rndq_grid_ge [of r k n] assms by simp
qed simp

lemma rndq_below_next_pow2:
  assumes "q \<noteq> 0" "-1074 \<le> ilog2 q + 1" shows "\<bar>rndq q\<bar> \<le> pow2 (ilog2 q + 1)"
proof -
  let ?k = "ilog2 q + 1"
  have "ulp_exp q \<le> ?k" using assms(2) by (simp add: ulp_exp_def)
  moreover have "q \<le> of_int 1 * pow2 ?k" "of_int (-1) * pow2 ?k \<le> q"
    using ilog2_bounds [OF assms(1)] by (simp_all add: abs_le_iff less_imp_le abs_less_iff)
  ultimately show ?thesis
    using rndq_grid_le [OF assms(1), of ?k 1] rndq_grid_ge [OF assms(1), of ?k "-1"] by (simp add: abs_le_iff)
qed

lemma rndq_tiny:
  assumes "q \<noteq> 0" "ilog2 q + 1 < -1074" shows "rndq q = 0"
proof -
  have e: "ulp_exp q = -1074" using assms(2) by (simp add: ulp_exp_def)
  have "\<bar>q\<bar> < pow2 (ilog2 q + 1)" using ilog2_bounds assms(1) by simp
  also have "\<dots> \<le> pow2 (-1075)" using assms(2) by (intro pow2_mono) simp
  also have "\<dots> = pow2 (-1074) / 2" using pow2_Suc [of "-1075"] by simp
  finally have "\<bar>q / pow2 (-1074)\<bar> < 1/2" by (simp add: field_simps)
  then have "round_ne (q / pow2 (-1074)) = 0"
    using round_ne_error [of "q / pow2 (-1074)"] by linarith
  then show ?thesis by (simp add: rndq_def e)
qed

lemma rndq_idem [simp]: "rndq (rndq q) = rndq q"
proof (cases "q = 0 \<or> rndq q = 0")
  case False
  let ?k = "ilog2 q + 1" and ?r = "rndq q"
  have k: "-1074 \<le> ?k" using False rndq_tiny by fastforce
  have le: "\<bar>?r\<bar> \<le> pow2 ?k" using rndq_below_next_pow2 False k by blast
  show ?thesis
  proof (cases "\<bar>?r\<bar> = pow2 ?k")
    case True
    then have "ilog2 ?r = ?k"
      using pow2_Suc [of ?k] pow2_pos [of ?k] by (intro ilog2_eqI) linarith+
    then have "ulp_exp ?r \<le> ?k" using k by (simp add: ulp_exp_def)
    moreover have "?r = of_int (if ?r < 0 then -1 else 1) * pow2 ?k" using True by auto
    ultimately show ?thesis by (rule rndq_fix [rotated])
  next
    case lt: False
    have "pow2 (ilog2 ?r) < pow2 ?k" using ilog2_bounds(1) [of ?r] False lt le by linarith
    then have "ilog2 ?r < ?k" using pow2_mono_iff by (meson not_le)
    then have "ulp_exp ?r \<le> ulp_exp q" by (simp add: ulp_exp_def)
    moreover have "?r = of_int (round_ne (q / pow2 (ulp_exp q))) * pow2 (ulp_exp q)"
      using False by (simp add: rndq_def)
    ultimately show ?thesis by (intro rndq_fix)
  qed
qed auto

lemma rndq_rel_error:
  assumes "pow2 (-1022) \<le> \<bar>q\<bar>" shows "\<bar>rndq q - q\<bar> \<le> \<bar>q\<bar> / 2 ^ 53"
proof -
  have "0 < \<bar>q\<bar>" using assms pow2_pos [of "-1022"] by linarith
  then have q: "q \<noteq> 0" by simp
  then have "pow2 (-1022) < pow2 (ilog2 q + 1)" using ilog2_bounds(2) [of q] assms by linarith
  then have "-1022 < ilog2 q + 1" using pow2_mono_iff by (meson not_le)
  then have "ulp_exp q = ilog2 q + (-52)" by (simp add: ulp_exp_def)
  then have "pow2 (ulp_exp q) = pow2 (ilog2 q) / 2 ^ 52"
    by (simp only: pow2_add) (simp add: pow2_def)
  then have "\<bar>rndq q - q\<bar> \<le> pow2 (ilog2 q) / 2 ^ 53" using rndq_error [of q] by simp
  also have "\<dots> \<le> \<bar>q\<bar> / 2 ^ 53" using ilog2_bounds(1) [OF q] by (simp add: divide_right_mono)
  finally show ?thesis .
qed

subsection \<open>What a rounding promises\<close>

text \<open>
  The components only use that rounding is monotone, odd and leaves representable numbers alone.
\<close>

locale rounding =
  fixes rnd :: "rat \<Rightarrow> rat"
  assumes mono: "q \<le> r \<Longrightarrow> rnd q \<le> rnd r"
    and odd: "rnd (- q) = - rnd q"
    and idem: "rnd (rnd q) = rnd q"
begin

definition rep :: "rat \<Rightarrow> bool" where "rep q = (rnd q = q)"

lemma zero: "rnd 0 = 0"
  using odd [of 0] by simp

lemma rep_rnd: "rep (rnd q)"
  by (simp add: rep_def idem)

lemma le_rep: "q \<le> r \<Longrightarrow> rep r \<Longrightarrow> rnd q \<le> r"
  using mono [of q r] by (simp add: rep_def)

lemma ge_rep: "r \<le> q \<Longrightarrow> rep r \<Longrightarrow> r \<le> rnd q"
  using mono [of r q] by (simp add: rep_def)

lemma rnd_gt_rep: "rep r \<Longrightarrow> r < rnd q \<Longrightarrow> r < q"
  using le_rep [of q r] by (meson not_less)

lemma rnd_lt_rep: "rep r \<Longrightarrow> rnd q < r \<Longrightarrow> q < r"
  using ge_rep [of r q] by (meson not_less)

lemma nonneg: "0 \<le> q \<Longrightarrow> 0 \<le> rnd q"
  using mono [of 0 q] by (simp add: zero)

lemma nonpos: "q \<le> 0 \<Longrightarrow> rnd q \<le> 0"
  using mono [of q 0] by (simp add: zero)

lemma abs_rnd: "\<bar>rnd q\<bar> = rnd \<bar>q\<bar>"
  using nonneg [of q] nonpos [of q] by (cases "0 \<le> q") (simp_all add: odd)

end

interpretation dbl: rounding rndq
  by unfold_locales (simp_all add: rndq_mono rndq_neg)

subsection \<open>Values and arithmetic\<close>

datatype float64 = NaN | Inf bool | Fin rat

definition rnd64 :: "rat \<Rightarrow> float64" where
  "rnd64 q = (let r = rndq q in if max_finite < \<bar>r\<bar> then Inf (r < 0) else Fin r)"

fun fneg :: "float64 \<Rightarrow> float64" where
  "fneg NaN = NaN"
| "fneg (Inf s) = Inf (\<not> s)"
| "fneg (Fin q) = Fin (- q)"

fun fadd :: "float64 \<Rightarrow> float64 \<Rightarrow> float64" where
  "fadd (Fin a) (Fin b) = rnd64 (a + b)"
| "fadd (Inf s) (Fin b) = Inf s"
| "fadd (Fin a) (Inf s) = Inf s"
| "fadd (Inf s) (Inf t) = (if s = t then Inf s else NaN)"
| "fadd NaN y = NaN"
| "fadd x NaN = NaN"

fun fmul :: "float64 \<Rightarrow> float64 \<Rightarrow> float64" where
  "fmul (Fin a) (Fin b) = rnd64 (a * b)"
| "fmul (Inf s) (Fin b) = (if b = 0 then NaN else Inf (s \<noteq> (b < 0)))"
| "fmul (Fin a) (Inf s) = (if a = 0 then NaN else Inf (s \<noteq> (a < 0)))"
| "fmul (Inf s) (Inf t) = Inf (s \<noteq> t)"
| "fmul NaN y = NaN"
| "fmul x NaN = NaN"

fun fdiv :: "float64 \<Rightarrow> float64 \<Rightarrow> float64" where
  "fdiv (Fin a) (Fin b) = (if b = 0 then (if a = 0 then NaN else Inf (a < 0)) else rnd64 (a / b))"
| "fdiv (Inf s) (Fin b) = Inf (s \<noteq> (b < 0))"
| "fdiv (Fin a) (Inf s) = Fin 0"
| "fdiv (Inf s) (Inf t) = NaN"
| "fdiv NaN y = NaN"
| "fdiv x NaN = NaN"

fun flt :: "float64 \<Rightarrow> float64 \<Rightarrow> bool" where
  "flt (Fin a) (Fin b) = (a < b)"
| "flt (Inf s) (Fin b) = s"
| "flt (Fin a) (Inf s) = (\<not> s)"
| "flt (Inf s) (Inf t) = (s \<and> \<not> t)"
| "flt NaN y = False"
| "flt x NaN = False"

fun feq :: "float64 \<Rightarrow> float64 \<Rightarrow> bool" where
  "feq NaN y = False"
| "feq x y = (x = y)"

instantiation float64 :: "{zero, one, plus, minus, uminus, times, inverse, abs, ord}"
begin

definition zero_float64 :: float64 where "zero_float64 = Fin 0"
definition one_float64 :: float64 where "one_float64 = Fin 1"
definition plus_float64 :: "float64 \<Rightarrow> float64 \<Rightarrow> float64" where "plus_float64 = fadd"
definition uminus_float64 :: "float64 \<Rightarrow> float64" where "uminus_float64 = fneg"
definition minus_float64 :: "float64 \<Rightarrow> float64 \<Rightarrow> float64" where "minus_float64 x y = fadd x (fneg y)"
definition times_float64 :: "float64 \<Rightarrow> float64 \<Rightarrow> float64" where "times_float64 = fmul"
definition divide_float64 :: "float64 \<Rightarrow> float64 \<Rightarrow> float64" where "divide_float64 = fdiv"
definition inverse_float64 :: "float64 \<Rightarrow> float64" where "inverse_float64 x = fdiv (Fin 1) x"
definition less_float64 :: "float64 \<Rightarrow> float64 \<Rightarrow> bool" where "less_float64 = flt"
definition less_eq_float64 :: "float64 \<Rightarrow> float64 \<Rightarrow> bool" where "less_eq_float64 x y = (flt x y \<or> feq x y)"
definition abs_float64 :: "float64 \<Rightarrow> float64" where "abs_float64 x = (case x of NaN \<Rightarrow> NaN | Inf s \<Rightarrow> Inf False | Fin q \<Rightarrow> Fin \<bar>q\<bar>)"

instance ..

end

text \<open>A floating point constant of the source: the exact constant, rounded.\<close>

definition flit :: "rat \<Rightarrow> float64" where "flit q = rnd64 q"

definition fmax :: "float64 \<Rightarrow> float64 \<Rightarrow> float64" where
  "fmax x y = (if x = Inf False \<or> y = Inf False then Inf False
     else if x = NaN \<or> y = NaN then NaN else if y < x then x else y)"

definition fround :: "float64 \<Rightarrow> float64" where
  "fround x = (case x of Fin q \<Rightarrow> Fin (of_int (if 0 \<le> q then \<lfloor>q + 1/2\<rfloor> else - \<lfloor>- q + 1/2\<rfloor>)) | y \<Rightarrow> y)"

subsection \<open>The values that occur\<close>

fun wf64 :: "float64 \<Rightarrow> bool" where
  "wf64 (Fin q) = (rndq q = q \<and> \<bar>q\<bar> \<le> max_finite)"
| "wf64 x = True"

definition finite64 :: "float64 \<Rightarrow> bool" where
  "finite64 x = (case x of Fin q \<Rightarrow> True | _ \<Rightarrow> False)"

lemmas float_defs = zero_float64_def one_float64_def plus_float64_def uminus_float64_def
  minus_float64_def times_float64_def divide_float64_def inverse_float64_def less_float64_def
  less_eq_float64_def abs_float64_def

lemma float_less_simps [simp]:
  "(Fin a < Fin b) = (a < b)" "(Inf s < Fin b) = s" "(Fin a < Inf s) = (\<not> s)"
  "(Inf s < Inf t) = (s \<and> \<not> t)" "\<not> NaN < y" "\<not> x < NaN"
  by (simp_all add: less_float64_def) (cases x; simp)

lemma float_le_simps [simp]:
  "(Fin a \<le> Fin b) = (a \<le> b)" "(Inf s \<le> Fin b) = s" "(Fin a \<le> Inf s) = (\<not> s)"
  "(Inf s \<le> Inf t) = (s \<or> \<not> t)" "\<not> NaN \<le> y" "\<not> x \<le> NaN"
  by (auto simp: less_eq_float64_def) (cases x; simp)+

lemma float_arith_simps [simp]:
  "Fin a + Fin b = rnd64 (a + b)" "Fin a - Fin b = rnd64 (a - b)" "Fin a * Fin b = rnd64 (a * b)"
  "b \<noteq> 0 \<Longrightarrow> Fin a / Fin b = rnd64 (a / b)" "- Fin a = Fin (- a)" "\<bar>Fin a\<bar> = Fin \<bar>a\<bar>"
  by (simp_all add: float_defs)

lemma float_zero_one: "(0::float64) = Fin 0" "(1::float64) = Fin 1"
  by (simp_all add: float_defs)

lemma float_not_less: "x \<noteq> NaN \<Longrightarrow> y \<noteq> NaN \<Longrightarrow> (\<not> x < y) = (y \<le> (x::float64))"
  by (cases x; cases y) auto

lemma float_less_imp_le: "x < y \<Longrightarrow> x \<le> (y::float64)"
  by (cases x; cases y) auto

lemma float_le_trans: "x \<le> y \<Longrightarrow> y \<le> z \<Longrightarrow> x \<le> (z::float64)"
  by (cases x; cases y; cases z) auto

lemma float_less_le_trans: "x < y \<Longrightarrow> y \<le> z \<Longrightarrow> x < (z::float64)"
  by (cases x; cases y; cases z) auto

lemma float_le_less_trans: "x \<le> y \<Longrightarrow> y < z \<Longrightarrow> x < (z::float64)"
  by (cases x; cases y; cases z) auto

lemma float_less_irrefl [simp]: "\<not> x < (x::float64)"
  by (cases x) auto

lemma float_less_asym: "x < y \<Longrightarrow> \<not> y < (x::float64)"
  by (cases x; cases y) auto

lemma feq_sym: "feq x y = feq y x"
  by (cases x; cases y) auto

lemma ulp_exp_max_finite: "ulp_exp max_finite = 971"
proof -
  have "ilog2 max_finite = 1023"
  proof (rule ilog2_eqI)
    show "pow2 1023 \<le> \<bar>max_finite\<bar>" by (simp add: pow2_def max_finite_def)
    show "\<bar>max_finite\<bar> < pow2 (1023 + 1)" by (simp add: pow2_def max_finite_def)
  qed
  then show ?thesis by (simp add: ulp_exp_def)
qed

lemma rndq_max_finite [simp]: "rndq max_finite = max_finite"
proof (rule rndq_fix)
  show "max_finite = of_int (2 ^ 53 - 1) * pow2 971" by (simp add: max_finite_def pow2_def)
qed (simp add: ulp_exp_max_finite)

lemma wf64_rnd64 [simp]: "wf64 (rnd64 q)"
  by (simp add: rnd64_def Let_def)

lemma rnd64_id: "wf64 (Fin q) \<Longrightarrow> rnd64 q = Fin q"
  by (simp add: rnd64_def)

lemma wf64_int53: assumes "\<bar>k\<bar> < (2::int) ^ 53" shows "wf64 (Fin (of_int k))"
proof (cases "k = 0")
  case False
  let ?q = "of_int k :: rat"
  have lt: "\<bar>?q\<bar> < 2 ^ 53" using assms by (metis of_int_abs of_int_less_iff of_int_numeral of_int_power)
  then have "pow2 (ilog2 ?q) < pow2 53" using ilog2_bounds(1) [of ?q] False by (simp add: pow2_def)
  then have "ilog2 ?q < 53" using pow2_mono_iff by (meson not_le)
  then have "rndq ?q = ?q" by (intro rndq_fix [of _ k 0]) (simp_all add: ulp_exp_def pow2_def)
  moreover have "\<bar>?q\<bar> \<le> max_finite" using lt by (simp add: max_finite_def)
  ultimately show ?thesis by simp
qed (simp add: max_finite_def)

text \<open>
  For evaluation: a fraction of a short numerator and a small power of two is representable as it is, which spares most
  roundings, and a rounding is computed on integers.
\<close>

lemma wf64_dyadic: assumes "\<bar>k\<bar> < (2::int) ^ 53" "j \<le> 1000" shows "wf64 (Fin (of_int k / 2 ^ j))"
proof (cases "k = 0")
  case False
  let ?q = "of_int k / 2 ^ j :: rat"
  have q: "?q = of_int k * pow2 (- int j)" by (simp add: pow2_def)
  have k: "\<bar>of_int k\<bar> < pow2 53"
  proof -
    have "of_int \<bar>k\<bar> < (of_int (2 ^ 53) :: rat)" using assms(1) by (simp only: of_int_less_iff)
    then show ?thesis using pow2_int [of 53] by simp
  qed
  have "\<bar>?q\<bar> < pow2 53 * pow2 (- int j)" using k unfolding q abs_mult abs_pow2 by (rule mult_strict_right_mono) simp
  then have "\<bar>?q\<bar> < pow2 (53 - int j)" using pow2_add [of 53 "- int j"] by simp
  then have "pow2 (ilog2 ?q) < pow2 (53 - int j)" using ilog2_bounds(1) [of ?q] False by simp
  then have "ilog2 ?q < 53 - int j" using pow2_mono_iff by (meson not_le)
  then have "rndq ?q = ?q" using assms(2) by (intro rndq_fix [OF q]) (simp add: ulp_exp_def)
  moreover have "\<bar>?q\<bar> \<le> max_finite"
  proof -
    have "\<bar>of_int k\<bar> / 2 ^ j \<le> \<bar>of_int k :: rat\<bar> / 1" by (intro divide_left_mono) simp_all
    also have "\<dots> \<le> pow2 53" using k by simp
    also have "pow2 53 = 2 ^ 53" using pow2_nat [of 53] by simp
    finally show ?thesis by (simp add: max_finite_def)
  qed
  ultimately show ?thesis by simp
qed (simp add: max_finite_def)

definition short_fraction :: "rat \<Rightarrow> bool" where
  "short_fraction q = (let (n, d) = quotient_of q in
     if \<bar>n\<bar> < 9007199254740992 then if d = 1 then True else d \<in> {2, 4, 8, 16, 32, 64, 128, 256, 512, 1024} else False)"

lemma short_fraction_wf64: assumes "short_fraction q" shows "wf64 (Fin q)"
proof -
  obtain n d where nd: "quotient_of q = (n, d)" by fastforce
  then have q: "q = of_int n / of_int d" by (rule quotient_of_div)
  have n: "\<bar>n\<bar> < 2 ^ 53" and d: "d \<in> {1, 2, 4, 8, 16, 32, 64, 128, 256, 512, 1024}"
    using assms nd by (auto simp: short_fraction_def split: if_splits)
  have "\<exists>j\<le>10. d = 2 ^ j"
  proof -
    have "{1, 2, 4, 8, 16, 32, 64, 128, 256, 512, 1024 :: int} \<subseteq> (\<lambda>j. 2 ^ j) ` {..10}"
      by (simp add: atMost_Suc eval_nat_numeral)
    then show ?thesis using d by auto
  qed
  then obtain j where "j \<le> 10" "d = 2 ^ j" by blast
  then show ?thesis using wf64_dyadic [OF n, of j] q by simp
qed

lemma rndq_code [code]:
  "rndq q = (if q = 0 then 0 else let e = ulp_exp q in
     if 0 \<le> e then of_int (round_ne (q / pow2 e)) * pow2 e
     else let (n, d) = quotient_of q; p = 2 ^ nat (- e); f = n * p div d; r = 2 * (n * p mod d);
       k = (if r < d then f else if d < r then f + 1 else if even f then f else f + 1)
     in of_int k / of_int p)"
proof -
  define e where "e = ulp_exp q"
  obtain n d where nd: "quotient_of q = (n, d)" by fastforce
  define p where "p = (2 :: int) ^ nat (- e)"
  have d: "0 < d" using quotient_of_denom_pos [OF nd] .
  have q: "q = of_int n / of_int d" using quotient_of_div [OF nd] .
  show ?thesis
  proof (cases "e < 0")
    case True
    have pow: "pow2 e = 1 / of_int p" using True by (simp add: pow2_def p_def)
    have x: "q / pow2 e = of_int (n * p) / of_int d" by (simp add: q pow)
    have fl: "\<lfloor>q / pow2 e\<rfloor> = n * p div d" unfolding x by (rule floor_divide_of_int_eq)
    have "of_int (n * p) = of_int (n * p div d) * of_int d + (of_int (n * p mod d) :: rat)"
      by (metis div_mult_mod_eq of_int_add of_int_mult)
    then have fr: "q / pow2 e - of_int \<lfloor>q / pow2 e\<rfloor> = of_int (n * p mod d) / of_int d"
      unfolding fl unfolding x using d by (simp add: field_simps)
    have half: "of_int (n * p mod d) / of_int d < (1/2 :: rat) \<longleftrightarrow> 2 * (n * p mod d) < d"
      "(1/2 :: rat) < of_int (n * p mod d) / of_int d \<longleftrightarrow> d < 2 * (n * p mod d)"
    proof -
      have "of_int (n * p mod d) / of_int d < (1/2 :: rat) \<longleftrightarrow> of_int (2 * (n * p mod d)) < (of_int d :: rat)"
        using d by (simp add: divide_less_eq mult.commute)
      moreover have "(1/2 :: rat) < of_int (n * p mod d) / of_int d \<longleftrightarrow> (of_int d :: rat) < of_int (2 * (n * p mod d))"
        using d by (simp add: less_divide_eq mult.commute)
      ultimately show "of_int (n * p mod d) / of_int d < (1/2 :: rat) \<longleftrightarrow> 2 * (n * p mod d) < d"
        "(1/2 :: rat) < of_int (n * p mod d) / of_int d \<longleftrightarrow> d < 2 * (n * p mod d)" by (simp_all only: of_int_less_iff)
    qed
    have "round_ne (q / pow2 e) = (if 2 * (n * p mod d) < d then n * p div d else if d < 2 * (n * p mod d) then n * p div d + 1
        else if even (n * p div d) then n * p div d else n * p div d + 1)"
      unfolding round_ne_def Let_def fr half unfolding fl ..
    then show ?thesis using True by (simp add: rndq_def e_def [symmetric] nd p_def [symmetric] pow Let_def)
  qed (simp add: rndq_def e_def Let_def)
qed

lemma rnd64_code [code]:
  "rnd64 q = (if short_fraction q then Fin q else let r = rndq q in if \<bar>r\<bar> \<le> 1152921504606846976 then Fin r
     else if max_finite < \<bar>r\<bar> then Inf (r < 0) else Fin r)"
  using rnd64_id [OF short_fraction_wf64, of q] by (auto simp: rnd64_def Let_def max_finite_def)

lemma wf64_code [code]:
  "wf64 NaN = True" "wf64 (Inf b) = True"
  "wf64 (Fin q) = (if short_fraction q then True else if rndq q = q then if \<bar>q\<bar> \<le> 1152921504606846976 then True else \<bar>q\<bar> \<le> max_finite else False)"
  using short_fraction_wf64 [of q] by (auto simp: max_finite_def)

lemma rnd64_mono: assumes "q \<le> r" shows "rnd64 q \<le> rnd64 r"
  using rndq_mono [OF assms] by (auto simp: rnd64_def Let_def abs_if split: if_splits)

lemma rnd64_neg: "rnd64 (- q) = - rnd64 q"
  by (auto simp: rnd64_def Let_def rndq_neg float_defs abs_if max_finite_def)

lemma rnd64_nonneg: "0 \<le> q \<Longrightarrow> 0 \<le> rnd64 q"
  using rnd64_mono [of 0 q] by (simp add: rnd64_def float_zero_one max_finite_def)

lemma rnd64_not_NaN [simp]: "rnd64 q \<noteq> NaN" "NaN \<noteq> rnd64 q"
  by (auto simp: rnd64_def Let_def)

lemma wf64_plus: "wf64 (x + y)" and wf64_minus: "wf64 (x - y)" and wf64_times: "wf64 (x * y)"
  and wf64_divide: "wf64 (x / y)" for x y :: float64
proof -
  show "wf64 (x + y)" by (cases x; cases y) (simp_all add: float_defs)
  show "wf64 (x - y)" by (cases x; cases y) (simp_all add: float_defs)
  show "wf64 (x * y)" by (cases x; cases y) (simp_all add: float_defs)
  show "wf64 (x / y)" by (cases x; cases y) (simp_all add: float_defs max_finite_def)
qed

lemma wf64_abs: "wf64 x \<Longrightarrow> wf64 \<bar>x\<bar>"
  by (cases x) (auto simp: float_defs dbl.abs_rnd [symmetric])

text \<open>
  A product that passes an upper bound check exceeds the bound by no more than one rounding
  error, whatever the two factors are.
\<close>

lemma prod_le_exact:
  assumes "Fin a * Fin b \<le> Fin c" "pow2 (-1022) \<le> a * b"
  shows "a * b * (1 - 1 / 2 ^ 53) \<le> c"
proof -
  have "rndq (a * b) \<le> c" using assms(1) rndq_mono [of 0 "a * b"] assms(2) pow2_pos [of "-1022"]
    by (auto simp: rnd64_def Let_def split: if_splits)
  moreover have "0 < a * b" using assms(2) pow2_pos [of "-1022"] by linarith
  moreover have "\<bar>rndq (a * b) - a * b\<bar> \<le> \<bar>a * b\<bar> / 2 ^ 53"
    using rndq_rel_error [of "a * b"] assms(2) by linarith
  ultimately have "a * b - a * b / 2 ^ 53 \<le> c" by (simp only: abs_le_iff abs_of_pos) linarith
  then show ?thesis by (simp add: algebra_simps)
qed

end
