(* ===== verification/Go_Format.thy ===== *)
theory Go_Format
  imports Float64
begin

text \<open>
  The textual forms that end up in identity keys and messages:
  \<^verbatim>\<open>strconv.FormatFloat(x, 'f', -1, 64)\<close>, the shortest decimal that reads back as the same
  double, and the layout \<^verbatim>\<open>time.RFC3339Nano\<close> of a UTC time.
\<close>

subsection \<open>Shortest decimals\<close>

fun dec_exp_up :: "nat \<Rightarrow> rat \<Rightarrow> int" where
  "dec_exp_up 0 q = 0"
| "dec_exp_up (Suc n) q = (if q < 10 then 0 else 1 + dec_exp_up n (q / 10))"

fun dec_exp_down :: "nat \<Rightarrow> rat \<Rightarrow> int" where
  "dec_exp_down 0 q = 0"
| "dec_exp_down (Suc n) q = (if 1 \<le> q then 0 else dec_exp_down n (q * 10) - 1)"

text \<open>Exponent of the leading decimal digit; 400 steps cover the whole range of doubles.\<close>

definition dec_exp :: "rat \<Rightarrow> int" where
  "dec_exp q = (if 1 \<le> q then dec_exp_up 400 q else dec_exp_down 400 q)"

definition pow10 :: "int \<Rightarrow> rat" where
  "pow10 k = (if 0 \<le> k then 10 ^ nat k else 1 / 10 ^ nat (- k))"

fun shortest :: "nat \<Rightarrow> nat \<Rightarrow> rat \<Rightarrow> int \<times> int" where
  "shortest fuel p q =
     (let s = dec_exp q - int p + 1; x = q / pow10 s; lo = \<lfloor>x\<rfloor>; hi = lo + 1;
          lo_ok = (rndq (of_int lo * pow10 s) = q); hi_ok = (rndq (of_int hi * pow10 s) = q);
          near = round_ne x
      in if lo_ok \<and> hi_ok then (near, s)
         else if lo_ok then (lo, s)
         else if hi_ok then (hi, s)
         else case fuel of 0 \<Rightarrow> (near, s) | Suc f \<Rightarrow> shortest f (Suc p) q)"

declare shortest.simps [simp del]

definition render_dec :: "int \<Rightarrow> int \<Rightarrow> string" where
  "render_dec m s =
     (if 0 \<le> s then show_int (m * 10 ^ nat s)
      else let d = 10 ^ nat (- s); w = show_int (m mod d)
           in show_int (m div d) @ ''.'' @ replicate (nat (- s) - length w) (CHR ''0'') @ w)"

definition format_float :: "float64 \<Rightarrow> string" where
  "format_float x = (case x of
     NaN \<Rightarrow> ''NaN'' | Inf s \<Rightarrow> (if s then ''-Inf'' else ''+Inf'')
   | Fin q \<Rightarrow> if q = 0 then ''0''
       else let (m, s) = shortest 16 1 \<bar>q\<bar> in (if q < 0 then ''-'' else []) @ render_dec m s)"

text \<open>
  The verb \<^verbatim>\<open>%g\<close>: the same shortest digits, written with an exponent of at least two digits when
  the exponent of the leading digit is below -4 or at least 6.
\<close>

definition strip_zeros :: "string \<Rightarrow> string" where
  "strip_zeros s = rev (dropWhile (\<lambda>c. c = CHR ''0'') (rev s))"

definition render_exp :: "int \<Rightarrow> string" where
  "render_exp e = ''e'' @ (if e < 0 then ''-'' else ''+'') @ (if \<bar>e\<bar> < 10 then ''0'' else []) @ show_int \<bar>e\<bar>"

definition format_g :: "float64 \<Rightarrow> string" where
  "format_g x = (case x of
     Fin q \<Rightarrow> if q = 0 then ''0''
       else let (m, s) = shortest 16 1 \<bar>q\<bar>; e = s + int (length (show_int m)) - 1
            in if e < -4 \<or> 6 \<le> e
               then let ds = strip_zeros (show_int m)
                    in (if q < 0 then ''-'' else []) @ take 1 ds
                       @ (if length ds \<le> 1 then [] else CHR ''.'' # drop 1 ds) @ render_exp e
               else format_float x
   | _ \<Rightarrow> format_float x)"

subsection \<open>Civil dates\<close>

text \<open>Days are counted from 1 January of the year 1, the zero of the time type.\<close>

definition civil_of_days :: "int \<Rightarrow> int \<times> int \<times> int" where
  "civil_of_days d =
     (let z = d + 306; era = z div 146097; doe = z mod 146097;
          yoe = (doe - doe div 1460 + doe div 36524 - doe div 146096) div 365;
          doy = doe - (365 * yoe + yoe div 4 - yoe div 100);
          mp = (5 * doy + 2) div 153;
          day = doy - (153 * mp + 2) div 5 + 1;
          month = (if mp < 10 then mp + 3 else mp - 9);
          year = yoe + era * 400 + (if month \<le> 2 then 1 else 0)
      in (year, month, day))"

definition pad0 :: "nat \<Rightarrow> int \<Rightarrow> string" where
  "pad0 w i = (let s = show_int i in replicate (w - length s) (CHR ''0'') @ s)"

definition frac_nanos :: "int \<Rightarrow> string" where
  "frac_nanos n = (if n = 0 then []
     else CHR ''.'' # rev (dropWhile (\<lambda>c. c = CHR ''0'') (rev (pad0 9 n))))"

definition format_rfc3339nano :: "time \<Rightarrow> string" where
  "format_rfc3339nano t =
     (let days = t div 86400000000000; r = t mod 86400000000000; sec = r div 1000000000;
          (y, m, d) = civil_of_days days
      in pad0 4 y @ ''-'' @ pad0 2 m @ ''-'' @ pad0 2 d @ ''T'' @ pad0 2 (sec div 3600) @ '':''
         @ pad0 2 (sec div 60 mod 60) @ '':'' @ pad0 2 (sec mod 60) @ frac_nanos (r mod 1000000000) @ ''Z'')"

text \<open>The formats on sample values: a price, a small quantity, and two time stamps.\<close>

lemma format_float_samples:
  "format_float (Fin 200) = ''200''" "format_float (Fin (5/2)) = ''2.5''"
  by code_simp+

lemma format_g_samples:
  "format_g (Fin 1000000) = ''1e+06'' \<and> format_g (flit (1/8)) = ''0.125''
   \<and> format_g (Fin 1234567) = ''1.234567e+06'' \<and> format_g (flit (1/100000)) = ''1e-05''
   \<and> format_g (flit (- 1/100)) = ''-0.01''"
  by code_simp

lemma format_time_samples:
  "format_rfc3339nano 0 = ''0001-01-01T00:00:00Z''"
  "format_rfc3339nano 63858672000120000000 = ''2024-08-08T00:00:00.12Z''"
  by code_simp+

end
