(* ===== verification/Lifecycle.thy ===== *)
theory Lifecycle
  imports Go_Format
begin

text \<open>
  Models \<^verbatim>\<open>internal/order/lifecycle\<close>: the event records and their identity
  (\<^verbatim>\<open>events.go\<close>), the matcher for resting limit orders in a backtest
  (\<^verbatim>\<open>backtest_matcher.go\<close>) and the cancellation of open orders when a session stops
  (\<^verbatim>\<open>cancel.go\<close>).  A composite literal of the source that omits fields is an update of the
  zero record.
\<close>

subsection \<open>Records of events.go\<close>

record FillDelta =
  fd_ExchangeTradeID :: string
  fd_ExchangeOrderID :: string
  fd_Symbol :: string
  fd_Qty :: float64
  fd_FillPrice :: float64
  fd_Fee :: float64
  fd_FeeAsset :: string
  fd_FeeMissing :: bool
  fd_TradeTime :: time

record OrderState =
  os_ExchangeOrderID :: string
  os_ClientOrderID :: string
  os_Symbol :: string
  os_Status :: string
  os_OrigQty :: float64
  os_ExecutedQty :: float64
  os_RemainingQty :: float64
  os_AvgPrice :: float64
  os_UpdatedAt :: time

record Event =
  ev_EventID :: int
  ev_SessionID :: string
  ev_AccountID :: int
  ev_VenueID :: int
  ev_Environment :: int
  ev_Exchange :: int
  ev_Market :: int
  ev_PositionSide :: int
  ev_Side :: string
  ev_IntentID :: string
  ev_AttemptID :: string
  ev_OrderID :: string
  ev_ExchangeOrderID :: string
  ev_ExchangeTradeID :: string
  ev_EventType :: string
  ev_EventSource :: string
  ev_OrderStatus :: string
  ev_FillDelta :: FillDelta
  ev_OrderState :: OrderState
  ev_OccurredAt :: time
  ev_CreatedAt :: time

definition zero_FillDelta :: FillDelta where
  "zero_FillDelta = \<lparr>fd_ExchangeTradeID = [], fd_ExchangeOrderID = [], fd_Symbol = [], fd_Qty = 0,
     fd_FillPrice = 0, fd_Fee = 0, fd_FeeAsset = [], fd_FeeMissing = False, fd_TradeTime = 0\<rparr>"

definition zero_OrderState :: OrderState where
  "zero_OrderState = \<lparr>os_ExchangeOrderID = [], os_ClientOrderID = [], os_Symbol = [], os_Status = [],
     os_OrigQty = 0, os_ExecutedQty = 0, os_RemainingQty = 0, os_AvgPrice = 0, os_UpdatedAt = 0\<rparr>"

definition zero_Event :: Event where
  "zero_Event = \<lparr>ev_EventID = 0, ev_SessionID = [], ev_AccountID = 0, ev_VenueID = 0,
     ev_Environment = 0, ev_Exchange = 0, ev_Market = 0, ev_PositionSide = 0, ev_Side = [],
     ev_IntentID = [], ev_AttemptID = [], ev_OrderID = [], ev_ExchangeOrderID = [],
     ev_ExchangeTradeID = [], ev_EventType = [], ev_EventSource = [], ev_OrderStatus = [],
     ev_FillDelta = zero_FillDelta, ev_OrderState = zero_OrderState, ev_OccurredAt = 0,
     ev_CreatedAt = 0\<rparr>"

definition EventSourcePlaceOrder :: string where "EventSourcePlaceOrder = ''place_order''"
definition EventSourceWebsocket :: string where "EventSourceWebsocket = ''websocket''"
definition EventSourceRESTRecovery :: string where "EventSourceRESTRecovery = ''rest_recovery''"
definition EventSourceForceClose :: string where "EventSourceForceClose = ''force_close''"

lemmas event_sources = EventSourcePlaceOrder_def EventSourceWebsocket_def
  EventSourceRESTRecovery_def EventSourceForceClose_def

primrec firstNonEmpty :: "string list \<Rightarrow> string" where
  "firstNonEmpty [] = []"
| "firstNonEmpty (v # vs) = (if v \<noteq> [] then v else firstNonEmpty vs)"

definition isAllowedEventSource :: "string \<Rightarrow> bool" where
  "isAllowedEventSource source = (trim_space source \<in>
     {EventSourcePlaceOrder, EventSourceWebsocket, EventSourceRESTRecovery, EventSourceForceClose})"

definition ValidateEventRouteFacts :: "Event \<Rightarrow> error option" where
  "ValidateEventRouteFacts event = check_first
     [(trim_space (ev_EventType event) = [], Errorf ''event_type is required''),
      (\<not> isAllowedEventSource (ev_EventSource event),
         Errorf (''unsupported event_source: '' @ ev_EventSource event)),
      (ev_AccountID event \<le> 0, Errorf ''account_id is required''),
      (ev_VenueID event \<le> 0, Errorf ''venue_id is required''),
      (ev_Exchange event \<le> 0, Errorf ''exchange is required''),
      (ev_Market event \<le> 0, Errorf ''market is required''),
      (ev_PositionSide event \<notin> {0, 1, 2},
         Errorf (''unsupported position_side: '' @ show_int (ev_PositionSide event))),
      (trim_space (ev_Side event) = [], Errorf ''side is required''),
      (trim_space (firstNonEmpty [fd_Symbol (ev_FillDelta event), os_Symbol (ev_OrderState event)]) = [],
         Errorf ''symbol is required'')]"

definition eventOrderRef :: "Event \<Rightarrow> string" where
  "eventOrderRef event = trim_space (firstNonEmpty
     [ev_ExchangeOrderID event, fd_ExchangeOrderID (ev_FillDelta event),
      os_ExchangeOrderID (ev_OrderState event)])"

definition eventTradeRef :: "Event \<Rightarrow> string" where
  "eventTradeRef event = trim_space (firstNonEmpty
     [ev_ExchangeTradeID event, fd_ExchangeTradeID (ev_FillDelta event)])"

definition EventIdentityKey :: "Event \<Rightarrow> string" where
  "EventIdentityKey event =
     (let orderID = eventOrderRef event; tradeID = eventTradeRef event in
      if orderID = [] then []
      else if tradeID \<noteq> [] then join [''trade'', to_upper orderID, to_upper tradeID] ''|''
      else
        let status = trim_space (firstNonEmpty [ev_OrderStatus event, os_Status (ev_OrderState event)]);
            updated = os_UpdatedAt (ev_OrderState event);
            identityTime = (if is_zero updated then ev_OccurredAt event else updated)
        in if status = [] \<or> is_zero identityTime then []
           else join [''state'', to_upper orderID, to_upper status,
                  format_float (os_ExecutedQty (ev_OrderState event)),
                  format_rfc3339nano identityTime] ''|'')"

subsection \<open>Records and operations of backtest\_matcher.go\<close>

record BacktestBar =
  bar_Symbol :: string
  bar_Time :: time
  bar_Open :: float64
  bar_High :: float64
  bar_Low :: float64
  bar_Close :: float64

record BacktestLimitOrder =
  bo_SessionID :: string
  bo_AccountID :: int
  bo_VenueID :: int
  bo_Environment :: int
  bo_Exchange :: int
  bo_Market :: int
  bo_PositionSide :: int
  bo_IntentID :: string
  bo_AttemptID :: string
  bo_OrderID :: string
  bo_ExchangeOrderID :: string
  bo_ClientOrderID :: string
  bo_Symbol :: string
  bo_Side :: string
  bo_Qty :: float64
  bo_LimitPrice :: float64
  bo_FeeRate :: float64

record BacktestMatchResult =
  bm_State :: OrderState
  bm_Event :: "Event option"
  bm_Filled :: bool

definition limitTouched :: "string \<Rightarrow> float64 \<Rightarrow> BacktestBar \<Rightarrow> bool" where
  "limitTouched side price bar =
     (let s = to_upper (trim_space side) in
      if s = ''BUY'' then bar_Low bar \<le> price
      else if s = ''SELL'' then price \<le> bar_High bar
      else False)"

definition MatchBacktestLimitGTC :: "BacktestLimitOrder \<Rightarrow> BacktestBar \<Rightarrow> BacktestMatchResult" where
  "MatchBacktestLimitGTC order bar =
     (let state = zero_OrderState\<lparr>os_ExchangeOrderID := bo_ExchangeOrderID order,
            os_ClientOrderID := bo_ClientOrderID order,
            os_Symbol := firstNonEmpty [bo_Symbol order, bar_Symbol bar],
            os_Status := ''NEW'', os_OrigQty := \<bar>bo_Qty order\<bar>, os_ExecutedQty := 0,
            os_RemainingQty := \<bar>bo_Qty order\<bar>, os_UpdatedAt := bar_Time bar\<rparr>
      in if bo_LimitPrice order \<le> 0 \<or> feq (bo_Qty order) 0
            \<or> \<not> limitTouched (bo_Side order) (bo_LimitPrice order) bar
         then \<lparr>bm_State = state, bm_Event = None, bm_Filled = False\<rparr>
         else
           let qty = \<bar>bo_Qty order\<bar>;
               fee = qty * bo_LimitPrice order * bo_FeeRate order;
               fill = zero_FillDelta\<lparr>fd_ExchangeOrderID := bo_ExchangeOrderID order,
                 fd_Symbol := os_Symbol state, fd_Qty := qty, fd_FillPrice := bo_LimitPrice order,
                 fd_Fee := fee, fd_TradeTime := bar_Time bar\<rparr>;
               state' = state\<lparr>os_Status := ''FILLED'', os_ExecutedQty := qty,
                 os_RemainingQty := 0, os_AvgPrice := bo_LimitPrice order\<rparr>
           in \<lparr>bm_State = state',
               bm_Event = Some (zero_Event\<lparr>ev_SessionID := bo_SessionID order,
                 ev_AccountID := bo_AccountID order, ev_VenueID := bo_VenueID order,
                 ev_Environment := bo_Environment order, ev_Exchange := bo_Exchange order,
                 ev_Market := bo_Market order, ev_PositionSide := bo_PositionSide order,
                 ev_Side := bo_Side order, ev_IntentID := bo_IntentID order,
                 ev_AttemptID := bo_AttemptID order, ev_OrderID := bo_OrderID order,
                 ev_ExchangeOrderID := bo_ExchangeOrderID order, ev_EventType := ''fill'',
                 ev_OrderStatus := os_Status state', ev_FillDelta := fill,
                 ev_OrderState := state', ev_OccurredAt := bar_Time bar\<rparr>),
               bm_Filled = True\<rparr>)"

definition CancelBacktestLimitOrder :: "BacktestLimitOrder \<Rightarrow> time \<Rightarrow> Event" where
  "CancelBacktestLimitOrder order cancelledAt =
     (let state = zero_OrderState\<lparr>os_ExchangeOrderID := bo_ExchangeOrderID order,
            os_ClientOrderID := bo_ClientOrderID order, os_Symbol := bo_Symbol order,
            os_Status := ''CANCELED'', os_OrigQty := \<bar>bo_Qty order\<bar>,
            os_RemainingQty := \<bar>bo_Qty order\<bar>, os_UpdatedAt := cancelledAt\<rparr>
      in zero_Event\<lparr>ev_SessionID := bo_SessionID order, ev_AccountID := bo_AccountID order,
           ev_VenueID := bo_VenueID order, ev_Environment := bo_Environment order,
           ev_Exchange := bo_Exchange order, ev_Market := bo_Market order,
           ev_PositionSide := bo_PositionSide order, ev_Side := bo_Side order,
           ev_IntentID := bo_IntentID order, ev_AttemptID := bo_AttemptID order,
           ev_OrderID := bo_OrderID order, ev_ExchangeOrderID := bo_ExchangeOrderID order,
           ev_EventType := ''canceled'', ev_OrderStatus := ''CANCELED'', ev_OrderState := state,
           ev_OccurredAt := cancelledAt\<rparr>)"

subsection \<open>Records and operations of cancel.go\<close>

record CancelTarget =
  ct_SessionID :: string
  ct_AccountID :: int
  ct_VenueID :: int
  ct_OrderID :: string
  ct_ExchangeOrderID :: string
  ct_ClientOrderID :: string
  ct_Symbol :: string

record CancelResult =
  cr_ExchangeOrderID :: string
  cr_ClientOrderID :: string
  cr_Status :: string

definition zero_CancelResult :: CancelResult where
  "zero_CancelResult = \<lparr>cr_ExchangeOrderID = [], cr_ClientOrderID = [], cr_Status = []\<rparr>"

record StopCancelResult =
  sc_Cancelled :: nat
  sc_StoppingFailed :: bool
  sc_ErrorMessage :: string
  sc_AttemptsPerOrder :: "string \<Rightarrow> int option"

text \<open>
  The venue's cancel endpoint is a function of the number of the call and of the target; the log
  records the calls in order, each with its outcome.
\<close>

type_synonym cancel_log = "(CancelTarget \<times> error option) list"
type_synonym canceller = "nat \<Rightarrow> CancelTarget \<Rightarrow> error option"

text \<open>The open order the scanner and the stream ingestor work on (\<^verbatim>\<open>scanner.go\<close>).\<close>

record OpenOrder =
  oo_SessionID :: string
  oo_AccountID :: int
  oo_VenueID :: int
  oo_Environment :: int
  oo_Exchange :: int
  oo_Market :: int
  oo_PositionSide :: int
  oo_Side :: string
  oo_IntentID :: string
  oo_AttemptID :: string
  oo_OrderID :: string
  oo_ExchangeOrderID :: string
  oo_ClientOrderID :: string
  oo_Symbol :: string
  oo_RecoveryStatus :: string
  oo_RecoveryStartedAt :: time
  oo_NextCheckAt :: time
  oo_RecoveryDeadlineAt :: time
  oo_LastRecoveryError :: string

definition cancelTargetKey :: "CancelTarget \<Rightarrow> string" where
  "cancelTargetKey target =
     (if ct_OrderID target \<noteq> [] then ct_OrderID target
      else if ct_ExchangeOrderID target \<noteq> [] then ct_ExchangeOrderID target
      else if ct_ClientOrderID target \<noteq> [] then ct_ClientOrderID target
      else ct_Symbol target)"

function cancelAttempts :: "canceller \<Rightarrow> CancelTarget \<Rightarrow> int \<Rightarrow> int \<Rightarrow> error option \<Rightarrow>
    cancel_log \<times> StopCancelResult \<Rightarrow> error option \<times> cancel_log \<times> StopCancelResult" where
  "cancelAttempts canceller target attempt maxAttempts lastErr (calls, result) =
     (if maxAttempts < attempt then (lastErr, calls, result)
      else
        let result = result\<lparr>sc_AttemptsPerOrder :=
              (sc_AttemptsPerOrder result)(cancelTargetKey target \<mapsto> attempt)\<rparr>;
            err = canceller (length calls) target;
            calls = calls @ [(target, err)]
        in case err of
             None \<Rightarrow> (None, calls, result\<lparr>sc_Cancelled := sc_Cancelled result + 1\<rparr>)
           | Some e \<Rightarrow> cancelAttempts canceller target (attempt + 1) maxAttempts (Some e) (calls, result))"
  by pat_completeness auto
termination by (relation "measure (\<lambda>(c, t, a, m, l, s). nat (m + 1 - a))") auto

declare cancelAttempts.simps [simp del]

fun cancelTargets :: "canceller \<Rightarrow> int \<Rightarrow> CancelTarget list \<Rightarrow>
    cancel_log \<times> StopCancelResult \<Rightarrow> cancel_log \<times> StopCancelResult" where
  "cancelTargets canceller maxAttempts [] s = s"
| "cancelTargets canceller maxAttempts (target # targets) s =
     (let (lastErr, calls, result) = cancelAttempts canceller target 1 maxAttempts None s in
      case lastErr of
        Some e \<Rightarrow> (calls, result\<lparr>sc_StoppingFailed := True, sc_ErrorMessage :=
            ''cancel open order failed after '' @ show_int maxAttempts @ '' attempts: '' @
            cancelTargetKey target @ '': '' @ err_text e\<rparr>)
      | None \<Rightarrow> cancelTargets canceller maxAttempts targets (calls, result))"

definition cancelLimit :: "int \<Rightarrow> int" where
  "cancelLimit maxAttempts = (if maxAttempts \<le> 0 then 3 else maxAttempts)"

definition CancelOpenOrders :: "CancelTarget list \<Rightarrow> canceller \<Rightarrow> int \<Rightarrow> cancel_log \<times> StopCancelResult" where
  "CancelOpenOrders targets canceller maxAttempts =
     cancelTargets canceller (cancelLimit maxAttempts) targets
       ([], \<lparr>sc_Cancelled = 0, sc_StoppingFailed = False, sc_ErrorMessage = [],
             sc_AttemptsPerOrder = Map.empty\<rparr>)"

subsection \<open>Identity keys\<close>

lemma firstNonEmpty_eq_Nil [simp]: "firstNonEmpty vs = [] \<longleftrightarrow> (\<forall>v\<in>set vs. v = [])"
  by (induction vs) auto

lemma upper_char_bar [simp]: "upper_char c = CHR ''|'' \<longleftrightarrow> c = CHR ''|''"
proof
  assume c: "upper_char c = CHR ''|''"
  have n: "\<not> (97 \<le> (of_char c :: int) \<and> of_char c \<le> (122 :: int))"
  proof
    assume r: "97 \<le> (of_char c :: int) \<and> of_char c \<le> (122 :: int)"
    then have "of_char (upper_char c) = (of_char c - 32 :: int)"
      by (simp add: upper_char_def Let_def)
    moreover have "of_char (upper_char c) = (124 :: int)" by (simp add: c)
    ultimately show False using r by simp
  qed
  then show "c = CHR ''|''" using c by (auto simp: upper_char_def Let_def split: if_splits)
qed (simp add: upper_char_def)

lemma bar_in_to_upper [simp]: "CHR ''|'' \<in> set (to_upper s) \<longleftrightarrow> CHR ''|'' \<in> set s"
  by (simp add: to_upper_def image_iff eq_commute [of "CHR ''|''" "upper_char _"])

lemma split_at_sep:
  "c \<notin> set a \<Longrightarrow> c \<notin> set b \<Longrightarrow> a @ c # x = b @ c # y \<longleftrightarrow> a = b \<and> x = y"
proof (induction a arbitrary: b)
  case Nil
  then show ?case by (cases b) auto
next
  case (Cons z a)
  then show ?case by (cases b) auto
qed

definition hasTradeIdentity :: "Event \<Rightarrow> bool" where
  "hasTradeIdentity event = (eventOrderRef event \<noteq> [] \<and> eventTradeRef event \<noteq> [])"

lemma EventIdentityKey_trade:
  "hasTradeIdentity event \<Longrightarrow> EventIdentityKey event =
     ''trade|'' @ to_upper (eventOrderRef event) @ CHR ''|'' # to_upper (eventTradeRef event)"
  by (simp add: EventIdentityKey_def hasTradeIdentity_def)

lemma EventIdentityKey_state_prefix:
  "\<not> hasTradeIdentity event \<Longrightarrow> EventIdentityKey event \<noteq> [] \<Longrightarrow>
     take 6 (EventIdentityKey event) = ''state|''"
  by (auto simp: EventIdentityKey_def hasTradeIdentity_def Let_def split: if_splits)

lemma trade_keys_equal_iff:
  assumes "hasTradeIdentity e" "hasTradeIdentity f"
    and "CHR ''|'' \<notin> set (eventOrderRef e)" "CHR ''|'' \<notin> set (eventOrderRef f)"
  shows "EventIdentityKey e = EventIdentityKey f \<longleftrightarrow>
     to_upper (eventOrderRef e) = to_upper (eventOrderRef f)
     \<and> to_upper (eventTradeRef e) = to_upper (eventTradeRef f)"
  using assms by (simp add: EventIdentityKey_trade split_at_sep)

lemma trade_key_not_state_key:
  assumes "hasTradeIdentity e" "\<not> hasTradeIdentity f"
  shows "EventIdentityKey e \<noteq> EventIdentityKey f"
proof
  assume eq: "EventIdentityKey e = EventIdentityKey f"
  then have "EventIdentityKey f \<noteq> []" using assms by (simp add: EventIdentityKey_trade flip: eq)
  then have "take 6 (EventIdentityKey e) = ''state|''"
    using EventIdentityKey_state_prefix [of f] assms eq by simp
  then show False using assms by (simp add: EventIdentityKey_trade)
qed

lemma ValidateEventRouteFacts_None:
  assumes "ValidateEventRouteFacts event = None"
  shows "0 < ev_AccountID event" "0 < ev_VenueID event" "0 < ev_Exchange event"
    "0 < ev_Market event" "ev_PositionSide event \<in> {0, 1, 2}" "trim_space (ev_Side event) \<noteq> []"
    "trim_space (ev_EventType event) \<noteq> []" "isAllowedEventSource (ev_EventSource event)"
  using assms by (simp_all add: ValidateEventRouteFacts_def split: if_splits)

subsection \<open>Cancellation\<close>

lemma cancelAttempts_spec:
  assumes "cancelAttempts canceller t a m l (calls, r) = (e', calls', r')" "a \<le> m"
  shows "\<exists>errs. calls' = calls @ map (\<lambda>e. (t, Some e)) errs @ (if e' = None then [(t, None)] else [])
    \<and> sc_Cancelled r' = sc_Cancelled r + (if e' = None then 1 else 0)
    \<and> (e' \<noteq> None \<longrightarrow> errs \<noteq> [] \<and> e' = Some (last errs) \<and> int (length errs) = m - a + 1)
    \<and> (e' = None \<longrightarrow> int (length errs) \<le> m - a)
    \<and> sc_StoppingFailed r' = sc_StoppingFailed r"
  using assms
proof (induction canceller t a m l "(calls, r)" arbitrary: calls r rule: cancelAttempts.induct)
  case (1 canceller t a m l calls r)
  show ?case
  proof (cases "canceller (length calls) t")
    case None
    then show ?thesis using 1(2,3)
      by (intro exI [of _ "[]"]) (auto simp: cancelAttempts.simps Let_def)
  next
    case (Some e)
    let ?r = "r\<lparr>sc_AttemptsPerOrder := (sc_AttemptsPerOrder r)(cancelTargetKey t \<mapsto> a)\<rparr>"
    let ?calls = "calls @ [(t, Some e)]"
    have rec: "cancelAttempts canceller t (a + 1) m (Some e) (?calls, ?r) = (e', calls', r')"
      using 1(2,3) Some by (subst (asm) cancelAttempts.simps) (simp add: Let_def)
    show ?thesis
    proof (cases "a + 1 \<le> m")
      case True
      from 1(1) [OF _ refl refl refl Some] rec True 1(3) Some
      obtain errs where "calls' = ?calls @ map (\<lambda>e. (t, Some e)) errs @ (if e' = None then [(t, None)] else [])"
        "sc_Cancelled r' = sc_Cancelled r + (if e' = None then 1 else 0)"
        "e' \<noteq> None \<longrightarrow> errs \<noteq> [] \<and> e' = Some (last errs) \<and> int (length errs) = m - (a + 1) + 1"
        "e' = None \<longrightarrow> int (length errs) \<le> m - (a + 1)"
        "sc_StoppingFailed r' = sc_StoppingFailed r" by auto
      then show ?thesis by (intro exI [of _ "e # errs"]) auto
    next
      case False
      then have "(e', calls', r') = (Some e, ?calls, ?r)"
        using rec by (subst (asm) cancelAttempts.simps) auto
      then show ?thesis using False 1(3) by (intro exI [of _ "[e]"]) auto
    qed
  qed
qed

text \<open>
  The calls for the orders come one block after the other: the block of a cancelled order is its failures and one success, and
  the block of an order given up is exactly the limit of failures, after which nothing is called.
\<close>

lemma cancelTargets_blocks:
  assumes "1 \<le> m" "\<not> sc_StoppingFailed r" "cancelTargets canceller m ts (calls, r) = (calls', r')"
  shows "\<exists>cancelled rest blocks. ts = cancelled @ rest \<and> sc_Cancelled r' = sc_Cancelled r + length cancelled
    \<and> list_all2 (\<lambda>t b. \<exists>errs. b = map (\<lambda>e. (t, Some e)) errs @ [(t, None)] \<and> int (length b) \<le> m) cancelled blocks
    \<and> (if sc_StoppingFailed r'
       then \<exists>t left errs. rest = t # left \<and> calls' = calls @ concat blocks @ map (\<lambda>e. (t, Some e)) errs \<and> int (length errs) = m
         \<and> sc_ErrorMessage r' = ''cancel open order failed after '' @ show_int m @ '' attempts: '' @ cancelTargetKey t @ '': '' @ err_text (last errs)
       else rest = [] \<and> calls' = calls @ concat blocks)"
  using assms(2,3)
proof (induction ts arbitrary: calls r)
  case (Cons t ts)
  obtain e' calls1 r1 where c: "cancelAttempts canceller t 1 m None (calls, r) = (e', calls1, r1)"
    by (metis prod_cases3)
  from cancelAttempts_spec [OF c assms(1)] obtain errs where
    E: "calls1 = calls @ map (\<lambda>e. (t, Some e)) errs @ (if e' = None then [(t, None)] else [])"
       "sc_Cancelled r1 = sc_Cancelled r + (if e' = None then 1 else 0)"
       "e' \<noteq> None \<longrightarrow> errs \<noteq> [] \<and> e' = Some (last errs) \<and> int (length errs) = m" "e' = None \<longrightarrow> int (length errs) \<le> m - 1"
       "sc_StoppingFailed r1 = sc_StoppingFailed r" by auto
  show ?case
  proof (cases e')
    case (Some e)
    then have "calls' = calls1" "sc_StoppingFailed r'" "sc_Cancelled r' = sc_Cancelled r1"
      "sc_ErrorMessage r' = ''cancel open order failed after '' @ show_int m @ '' attempts: '' @ cancelTargetKey t @ '': '' @ err_text e"
      using Cons.prems(2) by (auto simp: c)
    then show ?thesis using E Some
      by (intro exI [of _ "[]"] exI [of _ "t # ts"]) (auto intro!: exI [of _ errs])
  next
    case None
    then have "cancelTargets canceller m ts (calls1, r1) = (calls', r')" "\<not> sc_StoppingFailed r1"
      using Cons.prems E(5) by (simp_all add: c)
    from Cons.IH [OF this(2,1)] obtain cancelled rest blocks where
      ih: "ts = cancelled @ rest" "sc_Cancelled r' = sc_Cancelled r1 + length cancelled"
        "list_all2 (\<lambda>t b. \<exists>errs. b = map (\<lambda>e. (t, Some e)) errs @ [(t, None)] \<and> int (length b) \<le> m) cancelled blocks"
        "if sc_StoppingFailed r'
         then \<exists>t left errs. rest = t # left \<and> calls' = calls1 @ concat blocks @ map (\<lambda>e. (t, Some e)) errs \<and> int (length errs) = m
           \<and> sc_ErrorMessage r' = ''cancel open order failed after '' @ show_int m @ '' attempts: '' @ cancelTargetKey t @ '': '' @ err_text (last errs)
         else rest = [] \<and> calls' = calls1 @ concat blocks" by blast
    let ?b = "map (\<lambda>e. (t, Some e)) errs @ [(t, None)]"
    have b: "\<exists>es. ?b = map (\<lambda>e. (t, Some e)) es @ [(t, None)] \<and> int (length ?b) \<le> m" using E(4) None by auto
    show ?thesis using ih b E(1,2) None
      by (intro exI [of _ "t # cancelled"] exI [of _ rest] exI [of _ "?b # blocks"]) (auto split: if_splits)
  qed
qed (auto intro!: exI [of _ "[]"])

text \<open>The log of calls holds what the exchange answered to each of them.\<close>

definition answered_by :: "canceller \<Rightarrow> cancel_log \<Rightarrow> bool" where
  "answered_by canceller calls = (\<forall>k<length calls. snd (calls ! k) = canceller k (fst (calls ! k)))"

lemma answered_next: "answered_by canceller calls \<Longrightarrow> answered_by canceller (calls @ [(t, canceller (length calls) t)])"
  by (auto simp: answered_by_def nth_append less_Suc_eq)

lemma cancelAttempts_answers:
  assumes "cancelAttempts canceller t a m l (calls, r) = (e', calls', r')" "answered_by canceller calls"
  shows "answered_by canceller calls'"
  using assms
proof (induction canceller t a m l "(calls, r)" arbitrary: calls r rule: cancelAttempts.induct)
  case (1 canceller t a m l calls r)
  have a: "answered_by canceller (calls @ [(t, canceller (length calls) t)])" by (rule answered_next [OF 1(3)])
  show ?case
  proof (cases "m < a")
    case True
    then show ?thesis using 1(2,3) by (subst (asm) cancelAttempts.simps) simp
  next
    case m: False
    show ?thesis
    proof (cases "canceller (length calls) t")
      case None
      then show ?thesis using 1(2) m a by (subst (asm) cancelAttempts.simps) (auto simp: Let_def)
    next
      case (Some e)
      then show ?thesis using 1(1) [OF m refl refl refl Some] 1(2) m a by (subst (asm) (2) cancelAttempts.simps) (simp add: Let_def)
    qed
  qed
qed

lemma cancelTargets_answers:
  assumes "cancelTargets canceller m ts (calls, r) = (calls', r')" "answered_by canceller calls"
  shows "answered_by canceller calls'"
  using assms
proof (induction ts arbitrary: calls r)
  case (Cons t ts)
  obtain e' calls1 r1 where c: "cancelAttempts canceller t 1 m None (calls, r) = (e', calls1, r1)" by (metis prod_cases3)
  then show ?case using Cons cancelAttempts_answers [OF c Cons.prems(2)] by (cases e') auto
qed simp

end
