(* ===== verification/Order_Tables.thy ===== *)
theory Order_Tables
  imports Lifecycle
begin

text \<open>
  The data of \<^verbatim>\<open>internal/order/repository\<close>: the records handed to and from the repository
  (\<^verbatim>\<open>repository.go\<close>), the rows of the tables the migrations create, the status code tables
  of \<^verbatim>\<open>timescale.go\<close>, and the SQL engine as the repository sees it: statements that may
  fail before or after taking effect, and transactions that roll back.

  A database is a record of tables, each a list of rows; \<^verbatim>\<open>db_faults\<close> is the script of
  the faults of the connection, one entry per statement, so that a theorem about every database
  is a theorem about every placement of faults.  Quantities are kept as doubles: the rounding of
  \<^verbatim>\<open>NUMERIC(38,18)\<close> and the microsecond resolution of \<^verbatim>\<open>TIMESTAMPTZ\<close> are not modelled,
  and a JSON column holds the value it encodes.
\<close>

subsection \<open>Records of repository.go\<close>

record OrderIntent =
  oi_IntentID :: string
  oi_Time :: time
  oi_AccountID :: int
  oi_VenueID :: int
  oi_UserID :: int
  oi_StrategyID :: int
  oi_SessionID :: string
  oi_Environment :: int
  oi_Exchange :: int
  oi_Market :: int
  oi_PositionSide :: int
  oi_OrderType :: int
  oi_Symbol :: string
  oi_Side :: string
  oi_RequestedQty :: float64
  oi_RequestedPrice :: float64
  oi_PostOnly :: bool
  oi_GoodTillDate :: "time option"
  oi_ReduceOnly :: bool
  oi_Status :: string
  oi_RejectCode :: string
  oi_RejectMessage :: string

record OrderAttempt =
  oa_AttemptID :: string
  oa_IntentID :: string
  oa_Time :: time
  oa_AccountID :: int
  oa_VenueID :: int
  oa_UserID :: int
  oa_StrategyID :: int
  oa_SessionID :: string
  oa_Environment :: int
  oa_Exchange :: int
  oa_Market :: int
  oa_PositionSide :: int
  oa_OrderType :: int
  oa_Symbol :: string
  oa_Side :: string
  oa_RequestedQty :: float64
  oa_RequestedPrice :: float64
  oa_PostOnly :: bool
  oa_GoodTillDate :: "time option"
  oa_ReduceOnly :: bool
  oa_MarkPrice :: float64
  oa_Status :: string
  oa_ErrorMessage :: string
  oa_ClientOrderID :: string
  oa_RecoveryError :: string
  oa_RiskStatus :: string
  oa_RiskReasonsJSON :: string
  oa_OrderID :: string
  oa_ExchangeOrderID :: string

record Order =
  or_OrderID :: string
  or_ExchangeOrderID :: string
  or_ClientOrderID :: string
  or_AttemptID :: string
  or_IntentID :: string
  or_Time :: time
  or_AccountID :: int
  or_VenueID :: int
  or_UserID :: int
  or_StrategyID :: int
  or_SessionID :: string
  or_Environment :: int
  or_Exchange :: int
  or_Market :: int
  or_PositionSide :: int
  or_Symbol :: string
  or_Side :: string
  or_OrigQty :: float64
  or_ExecutedQty :: float64
  or_RemainingQty :: float64
  or_AvgPrice :: float64
  or_Price :: float64
  or_PostOnly :: bool
  or_GoodTillDate :: "time option"
  or_ReduceOnly :: bool
  or_Status :: string
  or_ErrorMessage :: string
  or_RecoveryStatus :: string
  or_RecoveryStartedAt :: "time option"
  or_NextCheckAt :: "time option"
  or_RecoveryDeadlineAt :: "time option"
  or_LastRecoveryError :: string
  or_ForceClosedAt :: "time option"

record OrderFill =
  of_FillID :: string
  of_ExchangeTradeID :: string
  of_OrderID :: string
  of_ExchangeOrderID :: string
  of_AttemptID :: string
  of_IntentID :: string
  of_Time :: time
  of_AccountID :: int
  of_VenueID :: int
  of_UserID :: int
  of_Symbol :: string
  of_Side :: string
  of_Qty :: float64
  of_FillPrice :: float64
  of_Fee :: float64
  of_Status :: string
  of_StrategyID :: int
  of_Environment :: int
  of_Exchange :: int
  of_Market :: int
  of_PositionSide :: int
  of_SessionID :: string

subsection \<open>Rows of the tables\<close>

record intent_row =
  ri_intent_id :: string
  ri_time :: time
  ri_updated_at :: time
  ri_account_id :: int
  ri_venue_id :: int
  ri_user_id :: int
  ri_strategy_id :: "int option"
  ri_session_id :: "string option"
  ri_environment :: int
  ri_exchange :: int
  ri_market :: int
  ri_symbol :: string
  ri_side :: int
  ri_position_side :: int
  ri_order_type :: int
  ri_requested_qty :: float64
  ri_requested_price :: "float64 option"
  ri_post_only :: bool
  ri_good_till_date :: "time option"
  ri_reduce_only :: bool
  ri_status :: int
  ri_reject_code :: string
  ri_reject_message :: string

record attempt_row =
  ra_attempt_id :: string
  ra_intent_id :: string
  ra_time :: time
  ra_updated_at :: time
  ra_mark_price :: "float64 option"
  ra_client_order_id :: "string option"
  ra_status :: int
  ra_error_message :: string
  ra_exchange_order_id :: "string option"
  ra_recovery_error :: string
  ra_post_only :: bool
  ra_good_till_date :: "time option"
  ra_reduce_only :: bool
  ra_risk_status :: string
  ra_risk_reasons :: string

record order_row =
  ro_order_id :: string
  ro_exchange_order_id :: "string option"
  ro_attempt_id :: string
  ro_intent_id :: string
  ro_time :: time
  ro_updated_at :: time
  ro_client_order_id :: "string option"
  ro_orig_qty :: float64
  ro_executed_qty :: float64
  ro_remaining_qty :: float64
  ro_avg_price :: float64
  ro_price :: "float64 option"
  ro_post_only :: bool
  ro_good_till_date :: "time option"
  ro_reduce_only :: bool
  ro_status :: int
  ro_error_message :: string
  ro_recovery_status :: string
  ro_recovery_started_at :: "time option"
  ro_next_check_at :: "time option"
  ro_recovery_deadline_at :: "time option"
  ro_last_recovery_error :: string
  ro_force_closed_at :: "time option"

record fill_row =
  rf_time :: time
  rf_fill_id :: string
  rf_exchange_trade_id :: "string option"
  rf_order_id :: string
  rf_exchange_order_id :: "string option"
  rf_attempt_id :: string
  rf_intent_id :: string
  rf_qty :: float64
  rf_fill_price :: float64
  rf_fee :: float64
  rf_fee_asset :: string
  rf_status :: int

record event_row =
  re_event_id :: int
  re_session_id :: "string option"
  re_account_id :: int
  re_venue_id :: int
  re_environment :: int
  re_exchange :: int
  re_market :: int
  re_position_side :: int
  re_side :: string
  re_intent_id :: "string option"
  re_attempt_id :: "string option"
  re_order_id :: "string option"
  re_exchange_order_id :: "string option"
  re_exchange_trade_id :: "string option"
  re_event_type :: string
  re_event_source :: string
  re_order_status :: string
  re_fill_delta :: FillDelta
  re_order_state :: OrderState
  re_occurred_at :: time
  re_created_at :: time
  re_event_identity :: "string option"

subsection \<open>The database and its connection\<close>

datatype fault = NoFault | FailBefore error | FailAfter error

record order_db =
  db_intents :: "intent_row list"
  db_attempts :: "attempt_row list"
  db_orders :: "order_row list"
  db_fills :: "fill_row list"
  db_events :: "event_row list"
  db_next_event_id :: int
  db_faults :: "fault list"

definition empty_db :: order_db where
  "empty_db = \<lparr>db_intents = [], db_attempts = [], db_orders = [], db_fills = [], db_events = [],
     db_next_event_id = 1, db_faults = []\<rparr>"

type_synonym 'a dbm = "order_db \<Rightarrow> 'a result \<times> order_db"

definition next_fault :: "order_db \<Rightarrow> fault \<times> order_db" where
  "next_fault db = (case db_faults db of [] \<Rightarrow> (NoFault, db)
     | f # fs \<Rightarrow> (f, db\<lparr>db_faults := fs\<rparr>))"

definition stmt :: "'a dbm \<Rightarrow> 'a dbm" where
  "stmt f db = (case next_fault db of
     (NoFault, db) \<Rightarrow> f db
   | (FailBefore e, db) \<Rightarrow> (Inl e, db)
   | (FailAfter e, db) \<Rightarrow> (Inl e, snd (f db)))"

definition then_db :: "'a dbm \<Rightarrow> ('a \<Rightarrow> 'b dbm) \<Rightarrow> 'b dbm" where
  "then_db m f db = (case m db of (Inl e, db) \<Rightarrow> (Inl e, db) | (Inr x, db) \<Rightarrow> f x db)"

definition wrap_db :: "string \<Rightarrow> 'a dbm \<Rightarrow> 'a dbm" where
  "wrap_db msg m db = (case m db of (Inl e, db) \<Rightarrow> (Inl (Wrapf msg e), db) | (Inr x, db) \<Rightarrow> (Inr x, db))"

definition commit_tx :: "order_db \<Rightarrow> unit dbm" where
  "commit_tx before db = (case next_fault db of
     (NoFault, db) \<Rightarrow> (Inr (), db)
   | (FailBefore e, db) \<Rightarrow> (Inl e, before\<lparr>db_faults := db_faults db\<rparr>)
   | (FailAfter e, db) \<Rightarrow> (Inl e, db))"

definition in_tx :: "string \<Rightarrow> string \<Rightarrow> unit dbm \<Rightarrow> unit dbm" where
  "in_tx begin_msg commit_msg body db =
     (case wrap_db begin_msg (stmt (\<lambda>db. (Inr (), db))) db of
        (Inl e, db) \<Rightarrow> (Inl e, db)
      | (Inr _, db0) \<Rightarrow>
          (case body db0 of
             (Inl e, db) \<Rightarrow> (Inl e, db0\<lparr>db_faults := db_faults db\<rparr>)
           | (Inr _, db) \<Rightarrow> wrap_db commit_msg (commit_tx db0) db))"

definition sql_violation :: "string \<Rightarrow> error" where
  "sql_violation c = Errorf (''pq: constraint violation: '' @ c)"

definition require_db :: "bool \<Rightarrow> string \<Rightarrow> unit dbm" where
  "require_db ok c db = (if ok then (Inr (), db) else (Inl (sql_violation c), db))"

subsection \<open>Nulls, widths and text helpers of timescale.go\<close>

definition int16_of :: "int \<Rightarrow> int" where
  "int16_of i = signed_take_bit 15 i"

definition nullableString :: "string \<Rightarrow> string option" where
  "nullableString v = (if trim_space v = [] then None else Some v)"

primrec firstNonEmptyString :: "string list \<Rightarrow> string" where
  "firstNonEmptyString [] = []"
| "firstNonEmptyString (v # vs) = (if trim_space v \<noteq> [] then v else firstNonEmptyString vs)"

definition nullableInt64 :: "int \<Rightarrow> int option" where
  "nullableInt64 v = (if v = 0 then None else Some v)"

definition nullableFloat64 :: "float64 \<Rightarrow> float64 option" where
  "nullableFloat64 v = (if feq v 0 then None else Some v)"

definition nullableTimePtr :: "time option \<Rightarrow> time option" where
  "nullableTimePtr v = (case v of None \<Rightarrow> None | Some t \<Rightarrow> if is_zero t then None else Some t)"

definition timePtrFromNull :: "time option \<Rightarrow> time option" where
  "timePtrFromNull v = (case v of None \<Rightarrow> None | Some t \<Rightarrow> if is_zero t then None else Some t)"

definition riskReasonsJSON :: "string \<Rightarrow> string" where
  "riskReasonsJSON v = (if trim_space v = [] then ''[]'' else v)"

definition coalesce_str :: "string option \<Rightarrow> string" where
  "coalesce_str v = (case v of None \<Rightarrow> [] | Some s \<Rightarrow> s)"

definition coalesce_int :: "int option \<Rightarrow> int" where
  "coalesce_int v = (case v of None \<Rightarrow> 0 | Some i \<Rightarrow> i)"

definition coalesce_float :: "float64 option \<Rightarrow> float64" where
  "coalesce_float v = (case v of None \<Rightarrow> 0 | Some x \<Rightarrow> x)"

definition or_else :: "'a option \<Rightarrow> 'a option \<Rightarrow> 'a option" where
  "or_else x y = (case x of None \<Rightarrow> y | Some v \<Rightarrow> Some v)"

definition nullif_empty :: "string \<Rightarrow> string option" where
  "nullif_empty s = (if s = [] then None else Some s)"

subsection \<open>Status codes\<close>

definition orderSideCode :: "string \<Rightarrow> int result" where
  "orderSideCode side = (let s = to_upper (trim_space side) in
     if s = ''BUY'' then Inr 1 else if s = ''SELL'' then Inr 2
     else Inl (Errorf (''unsupported order side: '' @ [CHR 0x22] @ side @ [CHR 0x22])))"

definition orderSideText :: "int \<Rightarrow> string" where
  "orderSideText code = (if code = 1 then ''BUY'' else if code = 2 then ''SELL'' else [])"

definition intentStatusCode :: "string \<Rightarrow> int" where
  "intentStatusCode status = (if to_upper (trim_space status) \<in> {''REJECTED'', ''FAILED''} then 2 else 1)"

definition intentStatusText :: "int \<Rightarrow> string" where
  "intentStatusText code = (if code = 2 then ''REJECTED'' else ''REQUESTED'')"

definition attemptStatusCode :: "string \<Rightarrow> int" where
  "attemptStatusCode status = (let s = to_upper (trim_space status) in
     if s = ''FAILED'' then 2 else if s = ''ACCEPTED'' then 3 else if s = ''UNKNOWN'' then 4
     else if s = ''RECOVERING'' then 5 else if s = ''RECOVERED'' then 6
     else if s = ''RECOVERY_FAILED'' then 7 else if s = ''RISK_REJECTED'' then 8 else 1)"

definition attemptStatusText :: "int \<Rightarrow> string" where
  "attemptStatusText code =
     (if code = 2 then ''FAILED'' else if code = 3 then ''ACCEPTED'' else if code = 4 then ''UNKNOWN''
      else if code = 5 then ''RECOVERING'' else if code = 6 then ''RECOVERED''
      else if code = 7 then ''RECOVERY_FAILED'' else if code = 8 then ''RISK_REJECTED'' else ''PENDING'')"

definition orderStatusCode :: "string \<Rightarrow> int" where
  "orderStatusCode status = (let s = to_upper (trim_space status) in
     if s = ''PARTIALLY_FILLED'' then 2 else if s = ''FILLED'' then 3
     else if s = ''CANCELED'' \<or> s = ''CANCELLED'' then 4
     else if s = ''FAILED'' \<or> s = ''REJECTED'' then 5 else if s = ''EXPIRED'' then 6 else 1)"

definition orderStatusText :: "int \<Rightarrow> string" where
  "orderStatusText code =
     (if code = 2 then ''PARTIALLY_FILLED'' else if code = 3 then ''FILLED''
      else if code = 4 then ''CANCELED'' else if code = 5 then ''FAILED''
      else if code = 6 then ''EXPIRED'' else ''NEW'')"

definition fillStatusCode :: "string \<Rightarrow> int" where
  "fillStatusCode status = (if equal_fold (trim_space status) ''FEE_MISSING'' then 2 else 1)"

definition fillStatusText :: "int \<Rightarrow> string" where
  "fillStatusText code = (if code = 2 then ''FEE_MISSING'' else ''FILLED'')"

subsection \<open>What a pair of code tables promises\<close>

text \<open>
  A column stores a code, reads come back as canonical texts.  Writing a text that was read must
  store the code it came from, and every code written lies in the range the schema allows.
\<close>

locale status_codec =
  fixes code :: "string \<Rightarrow> int" and text_of :: "int \<Rightarrow> string" and allowed :: "int set"
  assumes code_allowed: "code s \<in> allowed"
    and code_text_of: "c \<in> allowed \<Longrightarrow> code (text_of c) = c"
begin

lemma text_of_inj: "inj_on text_of allowed"
  by (metis code_text_of inj_onI)

lemma canonical_idem: "text_of (code (text_of (code s))) = text_of (code s)"
  by (simp add: code_text_of code_allowed)

lemma stored_eq_iff: "code s = code t \<longleftrightarrow> text_of (code s) = text_of (code t)"
  using text_of_inj code_allowed by (metis inj_onD)

end

lemma to_upper_consts [simp]:
  "to_upper ''FAILED'' = ''FAILED''" "to_upper ''ACCEPTED'' = ''ACCEPTED''"
  "to_upper ''UNKNOWN'' = ''UNKNOWN''" "to_upper ''RECOVERING'' = ''RECOVERING''"
  "to_upper ''RECOVERED'' = ''RECOVERED''" "to_upper ''RECOVERY_FAILED'' = ''RECOVERY_FAILED''"
  "to_upper ''RISK_REJECTED'' = ''RISK_REJECTED''" "to_upper ''PENDING'' = ''PENDING''"
  "to_upper ''PARTIALLY_FILLED'' = ''PARTIALLY_FILLED''" "to_upper ''FILLED'' = ''FILLED''"
  "to_upper ''CANCELED'' = ''CANCELED''" "to_upper ''EXPIRED'' = ''EXPIRED''"
  "to_upper ''NEW'' = ''NEW''" "to_upper ''REJECTED'' = ''REJECTED''"
  "to_upper ''REQUESTED'' = ''REQUESTED''" "to_upper ''BUY'' = ''BUY''" "to_upper ''SELL'' = ''SELL''"
  by (simp_all add: to_upper_def upper_char_def)

lemma trim_space_consts [simp]:
  "trim_space ''FAILED'' = ''FAILED''" "trim_space ''ACCEPTED'' = ''ACCEPTED''"
  "trim_space ''UNKNOWN'' = ''UNKNOWN''" "trim_space ''RECOVERING'' = ''RECOVERING''"
  "trim_space ''RECOVERED'' = ''RECOVERED''" "trim_space ''RECOVERY_FAILED'' = ''RECOVERY_FAILED''"
  "trim_space ''RISK_REJECTED'' = ''RISK_REJECTED''" "trim_space ''PENDING'' = ''PENDING''"
  "trim_space ''PARTIALLY_FILLED'' = ''PARTIALLY_FILLED''" "trim_space ''FILLED'' = ''FILLED''"
  "trim_space ''CANCELED'' = ''CANCELED''" "trim_space ''EXPIRED'' = ''EXPIRED''"
  "trim_space ''NEW'' = ''NEW''" "trim_space ''REJECTED'' = ''REJECTED''"
  "trim_space ''REQUESTED'' = ''REQUESTED''" "trim_space ''BUY'' = ''BUY''" "trim_space ''SELL'' = ''SELL''"
  "trim_space ''FEE_MISSING'' = ''FEE_MISSING''"
  by (simp_all add: trim_space_def is_space_def)

interpretation intent_codec: status_codec intentStatusCode intentStatusText "{1, 2}"
  by unfold_locales (auto simp: intentStatusCode_def intentStatusText_def)

interpretation attempt_codec: status_codec attemptStatusCode attemptStatusText "{1..8}"
proof
  fix c :: int
  assume "c \<in> {1..8}"
  then have "c \<in> {1, 2, 3, 4, 5, 6, 7, 8}" by auto
  then show "attemptStatusCode (attemptStatusText c) = c"
    by (auto simp: attemptStatusCode_def attemptStatusText_def Let_def)
qed (simp add: attemptStatusCode_def Let_def)

interpretation order_codec: status_codec orderStatusCode orderStatusText "{1..6}"
proof
  fix c :: int
  assume "c \<in> {1..6}"
  then have "c \<in> {1, 2, 3, 4, 5, 6}" by auto
  then show "orderStatusCode (orderStatusText c) = c"
    by (auto simp: orderStatusCode_def orderStatusText_def Let_def)
qed (simp add: orderStatusCode_def Let_def)

interpretation fill_codec: status_codec fillStatusCode fillStatusText "{1, 2}"
  by unfold_locales
    (auto simp: fillStatusCode_def fillStatusText_def equal_fold_def to_lower_def lower_char_def)

end
