(* ===== verification/Domain.thy ===== *)
theory Domain
  imports Order_Tables
begin

text \<open>
  Models the parts of \<^verbatim>\<open>internal/domain/model.go\<close> the order path and the reconciliation share:
  the enumerations of environments, exchanges, markets and modes (integers of 16 bits in the
  source, integers here), the venue with its check of margin and position modes, and the wallet
  records an exchange snapshot is made of.
\<close>

subsection \<open>Enumerations\<close>

definition EnvironmentBacktest :: int where "EnvironmentBacktest = 0"
definition EnvironmentDemo :: int where "EnvironmentDemo = 1"
definition EnvironmentLive :: int where "EnvironmentLive = 2"
definition ExchangeBinance :: int where "ExchangeBinance = 1"
definition ExchangeOKX :: int where "ExchangeOKX = 2"
definition MarketSpot :: int where "MarketSpot = 1"
definition MarketPerpetualFutures :: int where "MarketPerpetualFutures = 2"
definition MarketDeliveryFutures :: int where "MarketDeliveryFutures = 3"
definition MarginModeNone :: int where "MarginModeNone = 0"
definition MarginModeCross :: int where "MarginModeCross = 1"
definition MarginModeIsolated :: int where "MarginModeIsolated = 2"
definition PositionModeNone :: int where "PositionModeNone = 0"
definition PositionModeOneWay :: int where "PositionModeOneWay = 1"
definition PositionModeHedge :: int where "PositionModeHedge = 2"

lemmas domain_codes [code_tables] =
  EnvironmentBacktest_def EnvironmentDemo_def EnvironmentLive_def ExchangeBinance_def
  ExchangeOKX_def MarketSpot_def MarketPerpetualFutures_def MarketDeliveryFutures_def
  MarginModeNone_def MarginModeCross_def MarginModeIsolated_def
  PositionModeNone_def PositionModeOneWay_def PositionModeHedge_def

definition Environment_String :: "int \<Rightarrow> string" where
  "Environment_String e = (if e = EnvironmentBacktest then ''backtest''
     else if e = EnvironmentDemo then ''demo'' else if e = EnvironmentLive then ''live'' else ''unknown'')"

definition Exchange_String :: "int \<Rightarrow> string" where
  "Exchange_String e = (if e = ExchangeBinance then ''binance''
     else if e = ExchangeOKX then ''okx'' else ''unknown'')"

definition Market_String :: "int \<Rightarrow> string" where
  "Market_String m = (if m = MarketSpot then ''spot''
     else if m = MarketPerpetualFutures then ''perpetual_futures''
     else if m = MarketDeliveryFutures then ''delivery_futures'' else ''unknown'')"

definition ErrInvalidVenueModes :: error where
  "ErrInvalidVenueModes = Sentinel ''invalid venue margin/position modes for market''"

definition ValidateMarketModes :: "int \<Rightarrow> int \<Rightarrow> int \<Rightarrow> error option" where
  "ValidateMarketModes market marginMode positionMode =
     (if market = MarketSpot then
        (if marginMode \<noteq> MarginModeNone \<or> positionMode \<noteq> PositionModeNone
         then Some ErrInvalidVenueModes else None)
      else if market = MarketPerpetualFutures then
        (if (marginMode \<noteq> MarginModeCross \<and> marginMode \<noteq> MarginModeIsolated)
            \<or> (positionMode \<noteq> PositionModeOneWay \<and> positionMode \<noteq> PositionModeHedge)
         then Some ErrInvalidVenueModes else None)
      else None)"

subsection \<open>Wallets\<close>

record FuturesPosition =
  fp_Symbol :: string
  fp_Direction :: int
  fp_InitialBalance :: float64
  fp_Leverage :: float64
  fp_FeeRate :: float64
  fp_MarkPrice :: float64
  fp_Qty :: float64
  fp_PositionQty :: float64
  fp_EntryPrice :: float64
  fp_UnrealizedPnl :: float64
  fp_PositionSide :: string
  fp_MarginType :: string
  fp_MarginMode :: string
  fp_Notional :: float64
  fp_InitialMargin :: float64
  fp_PositionInitialMargin :: float64
  fp_OpenOrderInitialMargin :: float64
  fp_MaintMargin :: float64
  fp_IsolatedWallet :: float64
  fp_LiquidationPrice :: float64
  fp_BreakEvenPrice :: float64

record FuturesRiskBracket =
  rb_Bracket :: int
  rb_NotionalFloor :: float64
  rb_NotionalCap :: float64
  rb_InitialLeverage :: float64
  rb_MaintMarginRatio :: float64
  rb_Cumulative :: float64

record WalletRiskMetadata =
  wm_Symbol :: string
  wm_ConfiguredLeverage :: float64
  wm_ConfiguredMarginMode :: string
  wm_PricePrecision :: int
  wm_QuantityPrecision :: int
  wm_TickSize :: float64
  wm_StepSize :: float64
  wm_Brackets :: "FuturesRiskBracket list"

record FuturesWallet =
  fw_MarginMode :: string
  fw_PositionMode :: string
  fw_InitialBalance :: float64
  fw_DepositSum :: float64
  fw_WithdrawalSum :: float64
  fw_Positions :: "FuturesPosition list"
  fw_WalletBalance :: float64
  fw_AvailableBalance :: float64
  fw_TotalUnrealizedPnl :: float64
  fw_UnrealizedPnl :: float64
  fw_MarginBalance :: float64
  fw_TotalMarginBalance :: float64
  fw_TotalPositionInitialMargin :: float64
  fw_TotalOpenOrderInitialMargin :: float64
  fw_TotalMaintMargin :: float64
  fw_TotalCrossWalletBalance :: float64
  fw_TotalCrossUnPnl :: float64
  fw_RiskMetadata :: "WalletRiskMetadata list"
  fw_MultiAssetsMode :: bool
  fw_PortfolioMargin :: bool
  fw_DisplayWalletBalanceUsd :: float64
  fw_DisplayMarginBalanceUsd :: float64
  fw_DisplayUnrealizedPnlUsd :: float64

record SpotAsset =
  sa_Symbol :: string
  sa_Qty :: float64
  sa_Locked :: float64
  sa_AvgEntryPrice :: float64
  sa_Price :: "float64 option"

record SpotWallet =
  sw_Free :: float64
  sw_Locked :: float64
  sw_Assets :: "SpotAsset list"

record OnlineAccountInfo =
  oai_AccountID :: int
  oai_Environment :: int
  oai_Futures :: FuturesWallet
  oai_Spot :: SpotWallet
  oai_TotalValue :: float64
  oai_WalletBalance :: float64
  oai_AvailableBalance :: float64
  oai_UpdatedAt :: time

definition zero_FuturesPosition :: FuturesPosition where
  "zero_FuturesPosition = \<lparr>fp_Symbol = [], fp_Direction = 0, fp_InitialBalance = 0, fp_Leverage = 0,
     fp_FeeRate = 0, fp_MarkPrice = 0, fp_Qty = 0, fp_PositionQty = 0, fp_EntryPrice = 0,
     fp_UnrealizedPnl = 0, fp_PositionSide = [], fp_MarginType = [], fp_MarginMode = [],
     fp_Notional = 0, fp_InitialMargin = 0, fp_PositionInitialMargin = 0,
     fp_OpenOrderInitialMargin = 0, fp_MaintMargin = 0, fp_IsolatedWallet = 0,
     fp_LiquidationPrice = 0, fp_BreakEvenPrice = 0\<rparr>"

definition zero_FuturesWallet :: FuturesWallet where
  "zero_FuturesWallet = \<lparr>fw_MarginMode = [], fw_PositionMode = [], fw_InitialBalance = 0,
     fw_DepositSum = 0, fw_WithdrawalSum = 0, fw_Positions = [], fw_WalletBalance = 0,
     fw_AvailableBalance = 0, fw_TotalUnrealizedPnl = 0, fw_UnrealizedPnl = 0, fw_MarginBalance = 0,
     fw_TotalMarginBalance = 0, fw_TotalPositionInitialMargin = 0, fw_TotalOpenOrderInitialMargin = 0,
     fw_TotalMaintMargin = 0, fw_TotalCrossWalletBalance = 0, fw_TotalCrossUnPnl = 0,
     fw_RiskMetadata = [], fw_MultiAssetsMode = False, fw_PortfolioMargin = False,
     fw_DisplayWalletBalanceUsd = 0, fw_DisplayMarginBalanceUsd = 0, fw_DisplayUnrealizedPnlUsd = 0\<rparr>"

definition zero_SpotWallet :: SpotWallet where
  "zero_SpotWallet = \<lparr>sw_Free = 0, sw_Locked = 0, sw_Assets = []\<rparr>"

definition zero_OnlineAccountInfo :: OnlineAccountInfo where
  "zero_OnlineAccountInfo = \<lparr>oai_AccountID = 0, oai_Environment = 0, oai_Futures = zero_FuturesWallet,
     oai_Spot = zero_SpotWallet, oai_TotalValue = 0, oai_WalletBalance = 0, oai_AvailableBalance = 0,
     oai_UpdatedAt = 0\<rparr>"

end
