(* ===== verification/Reconciliation.thy ===== *)
theory Reconciliation
  imports Domain "HOL-Library.Multiset"
begin

text \<open>
  Models \<^verbatim>\<open>internal/reconciliation\<close>: the comparison of a wallet computed by the strategy with the
  wallet the exchange reports, per venue, and the coordinator that runs a comparison, counts its
  outcome and stores it.  The thresholds are the record of \<^verbatim>\<open>internal/config\<close>; the records of a run
  are those of \<^verbatim>\<open>internal/domain\<close>.

  Go iterates over maps in an unspecified order.  The order is an argument of the definitions: a function
  that arranges the distinct keys.  What does not depend on it is proved below.
\<close>

subsection \<open>Records\<close>

record ReconciliationThresholds =
  th_PositionQtyStepTolerance :: float64
  th_EntryPriceTickTolerance :: float64
  th_EntryPriceRatioTolerance :: float64
  th_WalletBalanceAbsToleranceUSDT :: float64
  th_WalletBalanceRatioTolerance :: float64
  th_DerivedRiskAbsToleranceUSDT :: float64
  th_DerivedRiskRatioTolerance :: float64
  th_LiquidationPriceAbsToleranceUSDT :: float64
  th_LiquidationPriceRatioTolerance :: float64
  th_MarkPriceDriftTickWarn :: float64

definition DefaultThresholds :: ReconciliationThresholds where
  "DefaultThresholds = \<lparr>th_PositionQtyStepTolerance = flit (1/2), th_EntryPriceTickTolerance = flit 1,
     th_EntryPriceRatioTolerance = flit (2/10000), th_WalletBalanceAbsToleranceUSDT = flit (1/100),
     th_WalletBalanceRatioTolerance = flit (2/10000), th_DerivedRiskAbsToleranceUSDT = flit (5/100),
     th_DerivedRiskRatioTolerance = flit (2/1000), th_LiquidationPriceAbsToleranceUSDT = flit (5/100),
     th_LiquidationPriceRatioTolerance = flit (5/1000), th_MarkPriceDriftTickWarn = flit 3\<rparr>"

datatype threshold_value = Num float64 | Text string

definition FieldDiffHard :: string where "FieldDiffHard = ''hard''"
definition FieldDiffSoft :: string where "FieldDiffSoft = ''soft''"
definition FieldDiffAdvisory :: string where "FieldDiffAdvisory = ''advisory''"

record FieldDiff =
  df_Field :: string
  df_Severity :: string
  df_Exchange :: float64
  df_Local :: float64
  df_DiffAbs :: float64
  df_DiffRatio :: float64
  df_Threshold :: "(string \<times> threshold_value) list"
  df_Passed :: bool

record CompareResult =
  cr_FieldDiffs :: "FieldDiff list"
  cr_AdvisoryDiffs :: "FieldDiff list"
  cr_HardPass :: bool
  cr_SoftPass :: bool

definition emptyCompareResult :: CompareResult where
  "emptyCompareResult = \<lparr>cr_FieldDiffs = [], cr_AdvisoryDiffs = [], cr_HardPass = True, cr_SoftPass = True\<rparr>"

subsection \<open>The field tiers\<close>

definition diffDenom :: "float64 \<Rightarrow> float64 \<Rightarrow> float64" where
  "diffDenom exchange local = fmax \<bar>exchange\<bar> \<bar>local\<bar>"

definition diffRatioOf :: "float64 \<Rightarrow> float64 \<Rightarrow> float64" where
  "diffRatioOf exchange local =
     (let denom = diffDenom exchange local in if 0 < denom then \<bar>exchange - local\<bar> / denom else 0)"

definition addSoft :: "string \<Rightarrow> float64 \<Rightarrow> float64 \<Rightarrow> float64 \<Rightarrow> float64 \<Rightarrow> CompareResult \<Rightarrow> CompareResult" where
  "addSoft field exchange local absTol ratioTol r =
     (let diffAbs = \<bar>exchange - local\<bar>;
          effectiveThreshold = fmax absTol (diffDenom exchange local * ratioTol);
          passed = (diffAbs \<le> effectiveThreshold)
      in r\<lparr>cr_SoftPass := cr_SoftPass r \<and> passed,
           cr_FieldDiffs := cr_FieldDiffs r @ [\<lparr>df_Field = field, df_Severity = FieldDiffSoft, df_Exchange = exchange,
             df_Local = local, df_DiffAbs = diffAbs, df_DiffRatio = diffRatioOf exchange local,
             df_Threshold = [(''abs'', Num absTol), (''ratio'', Num ratioTol), (''effective'', Num effectiveThreshold)],
             df_Passed = passed\<rparr>]\<rparr>)"

definition addHardStepTolerance :: "string \<Rightarrow> float64 \<Rightarrow> float64 \<Rightarrow> float64 \<Rightarrow> float64 \<Rightarrow> CompareResult \<Rightarrow> CompareResult" where
  "addHardStepTolerance field exchange local stepSize multiplier r =
     (let diffAbs = \<bar>exchange - local\<bar>;
          threshold = (if 0 < stepSize then stepSize * multiplier else 0);
          ruleDesc = (if 0 < stepSize
            then [(''step_size'', Num stepSize), (''tolerance_multiple'', Num multiplier), (''effective'', Num threshold)]
            else [(''step_size'', Num 0), (''rule'', Text ''exact_match_no_stepsize_known'')]);
          passed = (diffAbs \<le> threshold)
      in r\<lparr>cr_HardPass := cr_HardPass r \<and> passed,
           cr_FieldDiffs := cr_FieldDiffs r @ [\<lparr>df_Field = field, df_Severity = FieldDiffHard, df_Exchange = exchange,
             df_Local = local, df_DiffAbs = diffAbs, df_DiffRatio = diffRatioOf exchange local,
             df_Threshold = ruleDesc, df_Passed = passed\<rparr>]\<rparr>)"

definition addHardPriceTolerance :: "string \<Rightarrow> float64 \<Rightarrow> float64 \<Rightarrow> float64 \<Rightarrow> float64 \<Rightarrow> float64 \<Rightarrow>
    CompareResult \<Rightarrow> CompareResult" where
  "addHardPriceTolerance field exchange local tickSize tickMultiplier ratioTol r =
     (let diffAbs = \<bar>exchange - local\<bar>;
          tickThreshold = (if 0 < tickSize then tickSize * tickMultiplier else 0);
          threshold = fmax tickThreshold (diffDenom exchange local * ratioTol);
          passed = (diffAbs \<le> threshold)
      in r\<lparr>cr_HardPass := cr_HardPass r \<and> passed,
           cr_FieldDiffs := cr_FieldDiffs r @ [\<lparr>df_Field = field, df_Severity = FieldDiffHard, df_Exchange = exchange,
             df_Local = local, df_DiffAbs = diffAbs, df_DiffRatio = diffRatioOf exchange local,
             df_Threshold = [(''tick_size'', Num tickSize), (''tick_multiple'', Num tickMultiplier),
               (''ratio'', Num ratioTol), (''effective'', Num threshold)], df_Passed = passed\<rparr>]\<rparr>)"

definition addAdvisory :: "string \<Rightarrow> float64 \<Rightarrow> float64 \<Rightarrow> (string \<times> threshold_value) list \<Rightarrow> CompareResult \<Rightarrow> CompareResult" where
  "addAdvisory field exchange local rule r =
     r\<lparr>cr_AdvisoryDiffs := cr_AdvisoryDiffs r @ [\<lparr>df_Field = field, df_Severity = FieldDiffAdvisory, df_Exchange = exchange,
         df_Local = local, df_DiffAbs = \<bar>exchange - local\<bar>, df_DiffRatio = diffRatioOf exchange local,
         df_Threshold = rule, df_Passed = True\<rparr>]\<rparr>"

subsection \<open>Positions by symbol and side\<close>

record positionKey =
  psk_Symbol :: string
  psk_Side :: string

definition positionKey_label :: "positionKey \<Rightarrow> string" where
  "positionKey_label k = (if psk_Side k = [] \<or> equal_fold (psk_Side k) ''BOTH'' then psk_Symbol k
     else psk_Symbol k @ ''/'' @ to_upper (psk_Side k))"

definition normalizePositionSide :: "string \<Rightarrow> string" where
  "normalizePositionSide side = (let s = to_upper (trim_space side) in if s = [] then ''BOTH'' else s)"

definition keyOfPosition :: "FuturesPosition \<Rightarrow> positionKey" where
  "keyOfPosition p = \<lparr>psk_Symbol = to_upper (fp_Symbol p), psk_Side = normalizePositionSide (fp_PositionSide p)\<rparr>"

definition indexPositions :: "FuturesPosition list \<Rightarrow> positionKey \<rightharpoonup> FuturesPosition" where
  "indexPositions positions = foldl (\<lambda>out p. out(keyOfPosition p \<mapsto> p)) Map.empty positions"

definition indexRiskMetadata :: "WalletRiskMetadata list \<Rightarrow> WalletRiskMetadata list \<Rightarrow> string \<rightharpoonup> WalletRiskMetadata" where
  "indexRiskMetadata exchangeMeta localMeta =
     foldl (\<lambda>out m. out(to_upper (wm_Symbol m) \<mapsto> m)) Map.empty (localMeta @ exchangeMeta)"

definition boolToFloat :: "bool \<Rightarrow> float64" where
  "boolToFloat b = (if b then 1 else 0)"

definition positionQty :: "FuturesPosition option \<Rightarrow> float64" where
  "positionQty p = (case p of None \<Rightarrow> 0
     | Some pos \<Rightarrow> if \<not> feq (fp_PositionQty pos) 0 then fp_PositionQty pos else fp_Qty pos)"

subsection \<open>Comparing two wallets\<close>

definition compareAccount :: "ReconciliationThresholds \<Rightarrow> FuturesWallet \<Rightarrow> FuturesWallet \<Rightarrow> CompareResult \<Rightarrow> CompareResult" where
  "compareAccount t ex lo res =
     (let derived = (\<lambda>field sel. addSoft (''futures.'' @ field) (sel ex) (sel lo)
            (th_DerivedRiskAbsToleranceUSDT t) (th_DerivedRiskRatioTolerance t))
      in (derived ''total_maint_margin'' fw_TotalMaintMargin
          \<circ> derived ''total_open_order_initial_margin'' fw_TotalOpenOrderInitialMargin
          \<circ> derived ''total_position_initial_margin'' fw_TotalPositionInitialMargin
          \<circ> derived ''total_unrealized_pnl'' fw_TotalUnrealizedPnl
          \<circ> derived ''unrealized_pnl'' fw_UnrealizedPnl
          \<circ> derived ''total_margin_balance'' fw_TotalMarginBalance
          \<circ> derived ''margin_balance'' fw_MarginBalance
          \<circ> derived ''available_balance'' fw_AvailableBalance
          \<circ> addSoft ''futures.wallet_balance'' (fw_WalletBalance ex) (fw_WalletBalance lo)
              (th_WalletBalanceAbsToleranceUSDT t) (th_WalletBalanceRatioTolerance t)) res)"

definition missingPosition :: "string \<Rightarrow> FuturesPosition option \<Rightarrow> FuturesPosition option \<Rightarrow> CompareResult \<Rightarrow> CompareResult" where
  "missingPosition prefix ep lp res = res\<lparr>cr_FieldDiffs := cr_FieldDiffs res @
      [\<lparr>df_Field = prefix @ ''.exists'', df_Severity = FieldDiffHard, df_Exchange = boolToFloat (ep \<noteq> None),
        df_Local = boolToFloat (lp \<noteq> None), df_DiffAbs = \<bar>positionQty ep - positionQty lp\<bar>, df_DiffRatio = 0,
        df_Threshold = [(''rule'', Text ''exact_match_required'')], df_Passed = False\<rparr>], cr_HardPass := False\<rparr>"

definition comparePositionFields :: "ReconciliationThresholds \<Rightarrow> float64 \<Rightarrow> float64 \<Rightarrow> string \<Rightarrow>
    FuturesPosition \<Rightarrow> FuturesPosition \<Rightarrow> CompareResult \<Rightarrow> CompareResult" where
  "comparePositionFields t stepSize tickSize prefix ep lp =
     (let derived = (\<lambda>field sel. addSoft (prefix @ field) (sel ep) (sel lp)
            (th_DerivedRiskAbsToleranceUSDT t) (th_DerivedRiskRatioTolerance t));
          observed = (\<lambda>field sel. addAdvisory (prefix @ field) (sel ep) (sel lp))
      in observed ''.notional'' fp_Notional [(''rule'', Text ''observation_only'')]
         \<circ> observed ''.isolated_wallet'' fp_IsolatedWallet [(''rule'', Text ''observation_only'')]
         \<circ> observed ''.break_even_price'' fp_BreakEvenPrice [(''rule'', Text ''observation_only'')]
         \<circ> observed ''.mark_price'' fp_MarkPrice [(''rule'', Text ''drift_only''),
             (''tick_warn_multiple'', Num (th_MarkPriceDriftTickWarn t)), (''tick_size'', Num tickSize)]
         \<circ> addSoft (prefix @ ''.liquidation_price'') (fp_LiquidationPrice ep) (fp_LiquidationPrice lp)
             (th_LiquidationPriceAbsToleranceUSDT t) (th_LiquidationPriceRatioTolerance t)
         \<circ> derived ''.maint_margin'' fp_MaintMargin
         \<circ> derived ''.open_order_initial_margin'' fp_OpenOrderInitialMargin
         \<circ> derived ''.position_initial_margin'' fp_PositionInitialMargin
         \<circ> derived ''.initial_margin'' fp_InitialMargin
         \<circ> derived ''.unrealized_pnl'' fp_UnrealizedPnl
         \<circ> addHardPriceTolerance (prefix @ ''.entry_price'') (fp_EntryPrice ep) (fp_EntryPrice lp) tickSize
             (th_EntryPriceTickTolerance t) (th_EntryPriceRatioTolerance t)
         \<circ> addHardStepTolerance (prefix @ ''.position_qty'') (positionQty (Some ep)) (positionQty (Some lp))
             stepSize (th_PositionQtyStepTolerance t))"

definition isFlat :: "FuturesPosition option \<Rightarrow> bool" where
  "isFlat p = (case p of None \<Rightarrow> True | Some pos \<Rightarrow> feq (positionQty (Some pos)) 0)"

definition comparePosition :: "ReconciliationThresholds \<Rightarrow> (string \<rightharpoonup> WalletRiskMetadata) \<Rightarrow>
    (positionKey \<rightharpoonup> FuturesPosition) \<Rightarrow> (positionKey \<rightharpoonup> FuturesPosition) \<Rightarrow> positionKey \<Rightarrow> CompareResult \<Rightarrow> CompareResult" where
  "comparePosition t metadataBySymbol exPos loPos k res =
     (let prefix = ''futures.positions['' @ positionKey_label k @ '']''; ep = exPos k; lp = loPos k
      in if isFlat ep \<and> isFlat lp then res
         else case (ep, lp) of
           (Some e, Some l) \<Rightarrow>
             let md = metadataBySymbol (to_upper (fp_Symbol e));
                 stepSize = (case md of None \<Rightarrow> 0 | Some m \<Rightarrow> wm_StepSize m);
                 tickSize = (case md of None \<Rightarrow> 0 | Some m \<Rightarrow> wm_TickSize m)
             in comparePositionFields t stepSize tickSize prefix e l res
         | _ \<Rightarrow> missingPosition prefix ep lp res)"

definition positionKeys :: "FuturesWallet \<Rightarrow> FuturesWallet \<Rightarrow> positionKey list" where
  "positionKeys ex lo = remdups (map keyOfPosition (fw_Positions ex @ fw_Positions lo))"

definition Compare :: "(positionKey list \<Rightarrow> positionKey list) \<Rightarrow> OnlineAccountInfo \<Rightarrow> OnlineAccountInfo \<Rightarrow>
    ReconciliationThresholds \<Rightarrow> CompareResult" where
  "Compare iter local exchange t =
     (let ex = oai_Futures exchange; lo = oai_Futures local;
          exPos = indexPositions (fw_Positions ex); loPos = indexPositions (fw_Positions lo);
          metadataBySymbol = indexRiskMetadata (fw_RiskMetadata ex) (fw_RiskMetadata lo)
      in foldl (\<lambda>res k. comparePosition t metadataBySymbol exPos loPos k res)
           (compareAccount t ex lo emptyCompareResult) (iter (positionKeys ex lo)))"

subsection \<open>Comparing venues\<close>

record VenueWalletSnapshot =
  vs_VenueID :: int
  vs_Exchange :: int
  vs_Environment :: int
  vs_Market :: int
  vs_Snapshot :: OnlineAccountInfo

record VenueReconciliationDiff =
  vd_VenueID :: int
  vd_Exchange :: int
  vd_Environment :: int
  vd_Market :: int
  vd_ExchangeSnapshot :: OnlineAccountInfo
  vd_LocalSnapshot :: OnlineAccountInfo
  vd_FieldDiffs :: "FieldDiff list"
  vd_AdvisoryDiffs :: "FieldDiff list"
  vd_HardPass :: bool
  vd_SoftPass :: bool

definition snapshotsByVenue :: "VenueWalletSnapshot list \<Rightarrow> int \<rightharpoonup> VenueWalletSnapshot" where
  "snapshotsByVenue items = foldl (\<lambda>out item. out(vs_VenueID item \<mapsto> item)) Map.empty items"

definition venueDiff :: "(positionKey list \<Rightarrow> positionKey list) \<Rightarrow> ReconciliationThresholds \<Rightarrow> int \<Rightarrow>
    VenueWalletSnapshot option \<Rightarrow> VenueWalletSnapshot option \<Rightarrow> VenueReconciliationDiff" where
  "venueDiff iter t venueID localItem exchangeItem =
     (let meta = (case localItem of Some item \<Rightarrow> Some item | None \<Rightarrow> exchangeItem);
          diff = \<lparr>vd_VenueID = venueID, vd_Exchange = (case meta of None \<Rightarrow> 0 | Some m \<Rightarrow> vs_Exchange m),
            vd_Environment = (case meta of None \<Rightarrow> 0 | Some m \<Rightarrow> vs_Environment m),
            vd_Market = (case meta of None \<Rightarrow> 0 | Some m \<Rightarrow> vs_Market m),
            vd_ExchangeSnapshot = (case exchangeItem of None \<Rightarrow> zero_OnlineAccountInfo | Some item \<Rightarrow> vs_Snapshot item),
            vd_LocalSnapshot = (case localItem of None \<Rightarrow> zero_OnlineAccountInfo | Some item \<Rightarrow> vs_Snapshot item),
            vd_FieldDiffs = [], vd_AdvisoryDiffs = [], vd_HardPass = True, vd_SoftPass = True\<rparr>
      in case (localItem, exchangeItem) of
           (Some lo, Some ex) \<Rightarrow>
             let result = Compare iter (vs_Snapshot lo) (vs_Snapshot ex) t
             in diff\<lparr>vd_FieldDiffs := cr_FieldDiffs result, vd_AdvisoryDiffs := cr_AdvisoryDiffs result,
                  vd_HardPass := cr_HardPass result, vd_SoftPass := cr_SoftPass result\<rparr>
         | _ \<Rightarrow> diff\<lparr>vd_HardPass := False, vd_SoftPass := False,
               vd_FieldDiffs := [\<lparr>df_Field = ''venue.exists'', df_Severity = FieldDiffHard,
                 df_Exchange = boolToFloat (exchangeItem \<noteq> None), df_Local = boolToFloat (localItem \<noteq> None),
                 df_DiffAbs = 1, df_DiffRatio = 0, df_Threshold = [(''rule'', Text ''exact_match_required'')],
                 df_Passed = False\<rparr>]\<rparr>)"

definition CompareVenues :: "(int list \<Rightarrow> int list) \<Rightarrow> (positionKey list \<Rightarrow> positionKey list) \<Rightarrow>
    VenueWalletSnapshot list \<Rightarrow> VenueWalletSnapshot list \<Rightarrow> ReconciliationThresholds \<Rightarrow> VenueReconciliationDiff list" where
  "CompareVenues venueIter iter local exchange t =
     (if local = [] \<and> exchange = [] then []
      else let keys = remdups (map vs_VenueID (local @ exchange))
      in map (\<lambda>v. venueDiff iter t v (snapshotsByVenue local v) (snapshotsByVenue exchange v)) (venueIter keys))"

subsection \<open>The coordinator\<close>

definition RunTypeFromReason :: "int \<Rightarrow> string" where
  "RunTypeFromReason reason =
     (if reason = 1 then ''event'' else if reason \<in> {2, 3, 7} then ''checkpoint''
      else if reason = 6 then ''sampled'' else [])"

definition MetricRunsTotal :: string where "MetricRunsTotal = ''reconciliation_runs_total''"
definition MetricHardFailTotal :: string where "MetricHardFailTotal = ''reconciliation_hard_fail_total''"
definition MetricSoftFailTotal :: string where "MetricSoftFailTotal = ''reconciliation_soft_fail_total''"
definition MetricErrorTotal :: string where "MetricErrorTotal = ''reconciliation_error_total''"

record Task =
  tk_AccountID :: int
  tk_UserID :: int
  tk_Environment :: int
  tk_Local :: OnlineAccountInfo
  tk_Exchange :: OnlineAccountInfo
  tk_LocalVenues :: "VenueWalletSnapshot list"
  tk_ExchangeVenues :: "VenueWalletSnapshot list"
  tk_SessionID :: string
  tk_StrategyID :: int
  tk_SnapshotReason :: int
  tk_TriggerTime :: time

record ReconciliationRun =
  rn_Time :: time
  rn_AccountID :: int
  rn_UserID :: int
  rn_SessionID :: string
  rn_StrategyID :: int
  rn_Environment :: int
  rn_SnapshotReason :: int
  rn_RunType :: string
  rn_ExchangeSnapshot :: OnlineAccountInfo
  rn_LocalSnapshot :: OnlineAccountInfo
  rn_VenueDiffs :: "VenueReconciliationDiff list"
  rn_FieldDiffs :: "FieldDiff list"
  rn_AdvisoryDiffs :: "FieldDiff list"
  rn_HardPass :: bool
  rn_SoftPass :: bool

record metricEvent =
  mt_Metric :: string
  mt_AccountID :: int
  mt_UserID :: int
  mt_RunType :: string
  mt_Cause :: "string option"

text \<open>Storing a run may fail or panic; the deferred recover of the goroutine stops the panic.\<close>

datatype save_outcome = SaveDone | SaveFailed error | SavePanicked

record ReconciliationService =
  rs_Enabled :: bool
  rs_Thresholds :: ReconciliationThresholds
  rs_SaveReconciliationRun :: "(ReconciliationRun \<Rightarrow> save_outcome) option"

text \<open>What a run leaves behind: the counters it emitted and the runs the store accepted, in order.\<close>

record recon_log =
  rl_counters :: "metricEvent list"
  rl_runs :: "ReconciliationRun list"

definition emitCounter :: "string \<Rightarrow> Task \<Rightarrow> string option \<Rightarrow> recon_log \<Rightarrow> recon_log" where
  "emitCounter name task cause l = l\<lparr>rl_counters := rl_counters l @
     [\<lparr>mt_Metric = name, mt_AccountID = tk_AccountID task, mt_UserID = tk_UserID task,
       mt_RunType = RunTypeFromReason (tk_SnapshotReason task), mt_Cause = cause\<rparr>]\<rparr>"

definition runOf :: "Task \<Rightarrow> VenueReconciliationDiff list \<Rightarrow> ReconciliationRun" where
  "runOf task venueDiffs = \<lparr>rn_Time = tk_TriggerTime task, rn_AccountID = tk_AccountID task, rn_UserID = tk_UserID task,
     rn_SessionID = tk_SessionID task, rn_StrategyID = tk_StrategyID task, rn_Environment = tk_Environment task,
     rn_SnapshotReason = tk_SnapshotReason task, rn_RunType = RunTypeFromReason (tk_SnapshotReason task),
     rn_ExchangeSnapshot = tk_Exchange task, rn_LocalSnapshot = tk_Local task, rn_VenueDiffs = venueDiffs,
     rn_FieldDiffs = [], rn_AdvisoryDiffs = [], rn_HardPass = list_all vd_HardPass venueDiffs,
     rn_SoftPass = list_all vd_SoftPass venueDiffs\<rparr>"

definition countVerdict :: "Task \<Rightarrow> ReconciliationRun \<Rightarrow> recon_log \<Rightarrow> recon_log" where
  "countVerdict task run l =
     (if \<not> rn_HardPass run then emitCounter MetricHardFailTotal task None l
      else if \<not> rn_SoftPass run then emitCounter MetricSoftFailTotal task None l else l)"

definition runIsolated :: "(int list \<Rightarrow> int list) \<Rightarrow> (positionKey list \<Rightarrow> positionKey list) \<Rightarrow> ReconciliationThresholds \<Rightarrow>
    (ReconciliationRun \<Rightarrow> save_outcome) \<Rightarrow> Task \<Rightarrow> recon_log \<Rightarrow> recon_log" where
  "runIsolated venueIter iter thresholds save task l0 =
     (let l1 = emitCounter MetricRunsTotal task None l0;
          run = runOf task (CompareVenues venueIter iter (tk_LocalVenues task) (tk_ExchangeVenues task) thresholds);
          l2 = countVerdict task run l1
      in case save run of
           SaveDone \<Rightarrow> l2\<lparr>rl_runs := rl_runs l2 @ [run]\<rparr>
         | SaveFailed err \<Rightarrow> emitCounter MetricErrorTotal task (Some ''db_write_failed'') l2
         | SavePanicked \<Rightarrow> emitCounter MetricErrorTotal task (Some ''panic'') l2)"

definition LaunchAsync :: "(int list \<Rightarrow> int list) \<Rightarrow> (positionKey list \<Rightarrow> positionKey list) \<Rightarrow> ReconciliationService option \<Rightarrow>
    Task \<Rightarrow> recon_log \<Rightarrow> recon_log" where
  "LaunchAsync venueIter iter svc task l =
     (case svc of None \<Rightarrow> l | Some s \<Rightarrow>
       (case rs_SaveReconciliationRun s of None \<Rightarrow> l | Some save \<Rightarrow>
         if \<not> rs_Enabled s then l
         else if tk_Environment task = EnvironmentBacktest then l
         else if RunTypeFromReason (tk_SnapshotReason task) = [] then l
         else runIsolated venueIter iter (rs_Thresholds s) save task l))"

subsection \<open>Verdicts follow from the recorded differences\<close>

definition consistent :: "CompareResult \<Rightarrow> bool" where
  "consistent r =
     ((\<forall>d\<in>set (cr_FieldDiffs r). df_Severity d = FieldDiffHard \<or> df_Severity d = FieldDiffSoft)
      \<and> (cr_HardPass r \<longleftrightarrow> (\<forall>d\<in>set (cr_FieldDiffs r). df_Severity d = FieldDiffHard \<longrightarrow> df_Passed d))
      \<and> (cr_SoftPass r \<longleftrightarrow> (\<forall>d\<in>set (cr_FieldDiffs r). df_Severity d = FieldDiffSoft \<longrightarrow> df_Passed d))
      \<and> (\<forall>d\<in>set (cr_AdvisoryDiffs r). df_Severity d = FieldDiffAdvisory \<and> df_Passed d))"

text \<open>
  The operations on a result only append: what they append does not depend on the result, and they keep
  its verdicts consistent.  The locale collects this contract; the combinators of the comparison keep it.
\<close>

locale tier_operation =
  fixes f :: "CompareResult \<Rightarrow> CompareResult" and fields :: "FieldDiff list" and advisory :: "FieldDiff list"
  assumes appends: "cr_FieldDiffs (f r) = cr_FieldDiffs r @ fields" "cr_AdvisoryDiffs (f r) = cr_AdvisoryDiffs r @ advisory"
    and keeps: "consistent r \<Longrightarrow> consistent (f r)"

definition tier_op :: "(CompareResult \<Rightarrow> CompareResult) \<Rightarrow> bool" where
  "tier_op f = (\<exists>fields advisory. tier_operation f fields advisory)"

lemma tier_opI:
  assumes "\<And>r. cr_FieldDiffs (f r) = cr_FieldDiffs r @ fd" "\<And>r. cr_AdvisoryDiffs (f r) = cr_AdvisoryDiffs r @ ad"
    "\<And>r. consistent r \<Longrightarrow> consistent (f r)"
  shows "tier_op f"
  using assms unfolding tier_op_def tier_operation_def by blast

lemma severities [simp]:
  "FieldDiffHard \<noteq> FieldDiffSoft" "FieldDiffSoft \<noteq> FieldDiffHard" "FieldDiffHard \<noteq> FieldDiffAdvisory" "FieldDiffSoft \<noteq> FieldDiffAdvisory"
  by (simp_all add: FieldDiffHard_def FieldDiffSoft_def FieldDiffAdvisory_def)

interpretation soft: tier_operation "addSoft field ex lo a q"
  "cr_FieldDiffs (addSoft field ex lo a q emptyCompareResult)" "[]" for field ex lo a q
  by unfold_locales (auto simp: addSoft_def Let_def emptyCompareResult_def consistent_def)

interpretation step: tier_operation "addHardStepTolerance field ex lo stepSize m"
  "cr_FieldDiffs (addHardStepTolerance field ex lo stepSize m emptyCompareResult)" "[]" for field ex lo stepSize m
  by unfold_locales (auto simp: addHardStepTolerance_def Let_def emptyCompareResult_def consistent_def)

interpretation price: tier_operation "addHardPriceTolerance field ex lo tick m q"
  "cr_FieldDiffs (addHardPriceTolerance field ex lo tick m q emptyCompareResult)" "[]" for field ex lo tick m q
  by unfold_locales (auto simp: addHardPriceTolerance_def Let_def emptyCompareResult_def consistent_def)

interpretation advisory: tier_operation "addAdvisory field ex lo rule" "[]"
  "cr_AdvisoryDiffs (addAdvisory field ex lo rule emptyCompareResult)" for field ex lo rule
  by unfold_locales (auto simp: addAdvisory_def Let_def emptyCompareResult_def consistent_def)

interpretation missing: tier_operation "missingPosition prefix ep lp"
  "cr_FieldDiffs (missingPosition prefix ep lp emptyCompareResult)" "[]" for prefix ep lp
  by unfold_locales (auto simp: missingPosition_def Let_def emptyCompareResult_def consistent_def)

lemma tier_op_id: "tier_op (\<lambda>r. r)"
  by (rule tier_opI [of _ "[]" "[]"]) simp_all

lemma tier_op_comp:
  assumes "tier_op f" "tier_op g" shows "tier_op (f \<circ> g)"
proof -
  obtain ff fa gf ga where f: "tier_operation f ff fa" and g: "tier_operation g gf ga"
    using assms unfolding tier_op_def by blast
  show ?thesis
    by (rule tier_opI [of _ "gf @ ff" "ga @ fa"])
      (simp_all add: tier_operation.appends [OF f] tier_operation.appends [OF g] tier_operation.keeps [OF f] tier_operation.keeps [OF g])
qed

lemma tier_operation_op: "tier_operation f fd ad \<Longrightarrow> tier_op f"
  unfolding tier_op_def by (intro exI)

lemmas tier_ops =
  soft.tier_operation_axioms [THEN tier_operation_op] step.tier_operation_axioms [THEN tier_operation_op]
  price.tier_operation_axioms [THEN tier_operation_op] advisory.tier_operation_axioms [THEN tier_operation_op]
  missing.tier_operation_axioms [THEN tier_operation_op]

lemma compareAccount_op: "tier_op (compareAccount t ex lo)"
  unfolding compareAccount_def [abs_def] Let_def by (intro tier_op_comp tier_ops)

lemma comparePositionFields_op: "tier_op (comparePositionFields t st ti prefix ep lp)"
  unfolding comparePositionFields_def Let_def by (intro tier_op_comp tier_ops)

text \<open>The three outcomes of one position: nothing to compare, compared field by field, or missing on one side.\<close>

definition positionPrefix :: "positionKey \<Rightarrow> string" where
  "positionPrefix k = ''futures.positions['' @ positionKey_label k @ '']''"

definition stepOf :: "WalletRiskMetadata option \<Rightarrow> float64" where
  "stepOf md = (case md of None \<Rightarrow> 0 | Some m \<Rightarrow> wm_StepSize m)"

definition tickOf :: "WalletRiskMetadata option \<Rightarrow> float64" where
  "tickOf md = (case md of None \<Rightarrow> 0 | Some m \<Rightarrow> wm_TickSize m)"

lemma comparePosition_flat:
  "isFlat (ep k) \<Longrightarrow> isFlat (lp k) \<Longrightarrow> comparePosition t md ep lp k = (\<lambda>r. r)"
  by (simp add: comparePosition_def [abs_def])

lemma comparePosition_both:
  assumes "ep k = Some e" "lp k = Some l" "\<not> (isFlat (ep k) \<and> isFlat (lp k))"
  shows "comparePosition t md ep lp k = comparePositionFields t (stepOf (md (to_upper (fp_Symbol e))))
    (tickOf (md (to_upper (fp_Symbol e)))) (positionPrefix k) e l"
  using assms(3) unfolding comparePosition_def [abs_def] Let_def assms(1,2)
  by (simp only: if_False option.case prod.case positionPrefix_def stepOf_def tickOf_def)

lemma comparePosition_missing:
  assumes "ep k = None \<or> lp k = None" "\<not> (isFlat (ep k) \<and> isFlat (lp k))"
  shows "comparePosition t md ep lp k = missingPosition (positionPrefix k) (ep k) (lp k)"
  using assms unfolding comparePosition_def [abs_def] Let_def positionPrefix_def [symmetric]
  by (auto split: option.split)

lemma comparePosition_cases:
  obtains (flat) "isFlat (ep k)" "isFlat (lp k)"
  | (both) e l where "ep k = Some e" "lp k = Some l" "\<not> (isFlat (ep k) \<and> isFlat (lp k))"
  | (missing) "ep k = None \<or> lp k = None" "\<not> (isFlat (ep k) \<and> isFlat (lp k))"
  by (cases "ep k"; cases "lp k"; blast)

lemma comparePosition_op: "tier_op (comparePosition t md ep lp k)"
  by (cases rule: comparePosition_cases [of ep k lp])
    (simp_all add: comparePosition_flat comparePosition_both comparePosition_missing tier_op_id comparePositionFields_op tier_ops)

lemma tier_op_fold: "(\<And>k. tier_op (f k)) \<Longrightarrow> tier_op (\<lambda>r. foldl (\<lambda>res k. f k res) r ks)"
proof (induction ks)
  case Nil
  then show ?case by (simp add: tier_op_id)
next
  case (Cons k ks)
  have "(\<lambda>r. foldl (\<lambda>res k. f k res) r (k # ks)) = (\<lambda>r. foldl (\<lambda>res k. f k res) r ks) \<circ> f k" by (rule ext) simp
  then show ?case using tier_op_comp [OF Cons.IH [OF Cons.prems] Cons.prems] by simp
qed

lemma tier_op_keeps: "tier_op f \<Longrightarrow> consistent r \<Longrightarrow> consistent (f r)"
  unfolding tier_op_def using tier_operation.keeps by blast

lemma Compare_consistent: "consistent (Compare iter local exchange t)"
proof -
  have "consistent emptyCompareResult" by (simp add: consistent_def emptyCompareResult_def)
  then show ?thesis unfolding Compare_def Let_def
    by (intro tier_op_keeps [OF tier_op_fold] tier_op_keeps [OF compareAccount_op] comparePosition_op)
qed

subsection \<open>The order of iteration\<close>

text \<open>What an operation appends, computed on the empty result.\<close>

definition fieldsOf :: "(CompareResult \<Rightarrow> CompareResult) \<Rightarrow> FieldDiff list" where
  "fieldsOf f = cr_FieldDiffs (f emptyCompareResult)"

definition advisoryOf :: "(CompareResult \<Rightarrow> CompareResult) \<Rightarrow> FieldDiff list" where
  "advisoryOf f = cr_AdvisoryDiffs (f emptyCompareResult)"

lemma tier_op_appends:
  assumes "tier_op f"
  shows "cr_FieldDiffs (f r) = cr_FieldDiffs r @ fieldsOf f" "cr_AdvisoryDiffs (f r) = cr_AdvisoryDiffs r @ advisoryOf f"
proof -
  obtain fd ad where f: "tier_operation f fd ad" using assms unfolding tier_op_def by blast
  note a = tier_operation.appends [OF f]
  have "fieldsOf f = fd" "advisoryOf f = ad"
    by (simp_all add: fieldsOf_def advisoryOf_def a) (simp_all add: emptyCompareResult_def)
  then show "cr_FieldDiffs (f r) = cr_FieldDiffs r @ fieldsOf f" "cr_AdvisoryDiffs (f r) = cr_AdvisoryDiffs r @ advisoryOf f"
    by (simp_all add: a)
qed

lemma fold_appends:
  assumes "\<And>k. tier_op (f k)"
  shows "cr_FieldDiffs (foldl (\<lambda>res k. f k res) r ks) = cr_FieldDiffs r @ concat (map (\<lambda>k. fieldsOf (f k)) ks)"
    "cr_AdvisoryDiffs (foldl (\<lambda>res k. f k res) r ks) = cr_AdvisoryDiffs r @ concat (map (\<lambda>k. advisoryOf (f k)) ks)"
  by (induction ks arbitrary: r) (simp_all add: tier_op_appends [OF assms])

lemma mset_concat_map: "mset xs = mset ys \<Longrightarrow> mset (concat (map f xs)) = mset (concat (map f ys))"
  by (simp add: mset_concat flip: sum_mset_sum_list)

lemma Compare_appends:
  "cr_FieldDiffs (Compare iter local exchange t) = fieldsOf (compareAccount t (oai_Futures exchange) (oai_Futures local)) @
     concat (map (\<lambda>k. fieldsOf (comparePosition t (indexRiskMetadata (fw_RiskMetadata (oai_Futures exchange)) (fw_RiskMetadata (oai_Futures local)))
       (indexPositions (fw_Positions (oai_Futures exchange))) (indexPositions (fw_Positions (oai_Futures local))) k))
       (iter (positionKeys (oai_Futures exchange) (oai_Futures local))))"
  "cr_AdvisoryDiffs (Compare iter local exchange t) = advisoryOf (compareAccount t (oai_Futures exchange) (oai_Futures local)) @
     concat (map (\<lambda>k. advisoryOf (comparePosition t (indexRiskMetadata (fw_RiskMetadata (oai_Futures exchange)) (fw_RiskMetadata (oai_Futures local)))
       (indexPositions (fw_Positions (oai_Futures exchange))) (indexPositions (fw_Positions (oai_Futures local))) k))
       (iter (positionKeys (oai_Futures exchange) (oai_Futures local))))"
  by (simp_all add: Compare_def Let_def fold_appends [OF comparePosition_op] fieldsOf_def advisoryOf_def)

lemma consistent_verdicts:
  assumes "consistent r" "consistent r'" "mset (cr_FieldDiffs r) = mset (cr_FieldDiffs r')"
  shows "cr_HardPass r = cr_HardPass r'" "cr_SoftPass r = cr_SoftPass r'"
  using assms mset_eq_setD [OF assms(3)] by (simp_all add: consistent_def)

lemma Compare_order:
  assumes "\<And>ks. mset (iter1 ks) = mset (iter2 ks)"
  shows "mset (cr_FieldDiffs (Compare iter1 local exchange t)) = mset (cr_FieldDiffs (Compare iter2 local exchange t))"
    "mset (cr_AdvisoryDiffs (Compare iter1 local exchange t)) = mset (cr_AdvisoryDiffs (Compare iter2 local exchange t))"
    "cr_HardPass (Compare iter1 local exchange t) = cr_HardPass (Compare iter2 local exchange t)"
    "cr_SoftPass (Compare iter1 local exchange t) = cr_SoftPass (Compare iter2 local exchange t)"
proof -
  show f: "mset (cr_FieldDiffs (Compare iter1 local exchange t)) = mset (cr_FieldDiffs (Compare iter2 local exchange t))"
    unfolding Compare_appends mset_append by (simp only: mset_concat_map [OF assms])
  show "mset (cr_AdvisoryDiffs (Compare iter1 local exchange t)) = mset (cr_AdvisoryDiffs (Compare iter2 local exchange t))"
    unfolding Compare_appends mset_append by (simp only: mset_concat_map [OF assms])
  show "cr_HardPass (Compare iter1 local exchange t) = cr_HardPass (Compare iter2 local exchange t)"
    "cr_SoftPass (Compare iter1 local exchange t) = cr_SoftPass (Compare iter2 local exchange t)"
    by (rule consistent_verdicts [OF Compare_consistent Compare_consistent f])+
qed

subsection \<open>Hard verdicts\<close>

text \<open>
  The reference meaning of a hard pass: every position that is open on either side is known to both, with
  quantities and entry prices within their tolerances.
\<close>

definition within_step :: "float64 \<Rightarrow> float64 \<Rightarrow> float64 \<Rightarrow> float64 \<Rightarrow> bool" where
  "within_step stepSize multiplier x y = (\<bar>x - y\<bar> \<le> (if 0 < stepSize then stepSize * multiplier else 0))"

definition within_price :: "float64 \<Rightarrow> float64 \<Rightarrow> float64 \<Rightarrow> float64 \<Rightarrow> float64 \<Rightarrow> bool" where
  "within_price tickSize multiplier ratio x y =
     (\<bar>x - y\<bar> \<le> fmax (if 0 < tickSize then tickSize * multiplier else 0) (fmax \<bar>x\<bar> \<bar>y\<bar> * ratio))"

definition positions_agree :: "ReconciliationThresholds \<Rightarrow> WalletRiskMetadata option \<Rightarrow> FuturesPosition option \<Rightarrow>
    FuturesPosition option \<Rightarrow> bool" where
  "positions_agree t md ep lp =
     ((isFlat ep \<and> isFlat lp) \<or>
      (case (ep, lp) of
         (Some e, Some l) \<Rightarrow>
           within_step (stepOf md) (th_PositionQtyStepTolerance t) (positionQty ep) (positionQty lp)
           \<and> within_price (tickOf md) (th_EntryPriceTickTolerance t) (th_EntryPriceRatioTolerance t) (fp_EntryPrice e) (fp_EntryPrice l)
       | _ \<Rightarrow> False))"

lemma hard_tiers:
  "cr_HardPass (addSoft f ex lo a q r) = cr_HardPass r"
  "cr_HardPass (addAdvisory f ex lo rule r) = cr_HardPass r"
  "cr_HardPass (addHardStepTolerance f ex lo st m r) = (cr_HardPass r \<and> within_step st m ex lo)"
  "cr_HardPass (addHardPriceTolerance f ex lo ti m q r) = (cr_HardPass r \<and> within_price ti m q ex lo)"
  "cr_HardPass (missingPosition prefix ep lp r) = False"
  by (simp_all add: addSoft_def addAdvisory_def addHardStepTolerance_def addHardPriceTolerance_def missingPosition_def
      Let_def within_step_def within_price_def diffDenom_def)

lemma compareAccount_hard: "cr_HardPass (compareAccount t ex lo r) = cr_HardPass r"
  by (simp add: compareAccount_def Let_def hard_tiers)

lemma comparePositionFields_hard:
  "cr_HardPass (comparePositionFields t st ti prefix e l r) = (cr_HardPass r
     \<and> within_step st (th_PositionQtyStepTolerance t) (positionQty (Some e)) (positionQty (Some l))
     \<and> within_price ti (th_EntryPriceTickTolerance t) (th_EntryPriceRatioTolerance t) (fp_EntryPrice e) (fp_EntryPrice l))"
  by (simp add: comparePositionFields_def Let_def hard_tiers)

lemma indexPositions_key:
  "indexPositions ps k = Some p \<Longrightarrow> keyOfPosition p = k \<and> p \<in> set ps"
proof (induction ps rule: rev_induct)
  case (snoc x xs)
  then show ?case by (auto simp: indexPositions_def split: if_splits)
qed (simp add: indexPositions_def)

lemma indexPositions_None: "indexPositions ps k = None \<longleftrightarrow> k \<notin> keyOfPosition ` set ps"
  by (induction ps rule: rev_induct) (auto simp: indexPositions_def)

lemma comparePosition_hard:
  assumes "\<And>e. ep k = Some e \<Longrightarrow> keyOfPosition e = k"
  shows "cr_HardPass (comparePosition t md ep lp k r) = (cr_HardPass r \<and> positions_agree t (md (psk_Symbol k)) (ep k) (lp k))"
proof (cases rule: comparePosition_cases [of ep k lp])
  case flat
  then show ?thesis by (simp add: comparePosition_flat positions_agree_def)
next
  case (both e l)
  then have "psk_Symbol k = to_upper (fp_Symbol e)" using assms by (auto simp: keyOfPosition_def)
  then show ?thesis using both
    by (simp only: comparePosition_both comparePositionFields_hard positions_agree_def option.case prod.case simp_thms)
next
  case missing
  then show ?thesis
    by (auto simp: comparePosition_missing hard_tiers positions_agree_def split: option.split)
qed

lemma Compare_hard:
  assumes "\<And>ks. set (iter ks) = set ks"
  shows "cr_HardPass (Compare iter local exchange t) \<longleftrightarrow>
    (\<forall>k. positions_agree t (indexRiskMetadata (fw_RiskMetadata (oai_Futures exchange)) (fw_RiskMetadata (oai_Futures local)) (psk_Symbol k))
       (indexPositions (fw_Positions (oai_Futures exchange)) k) (indexPositions (fw_Positions (oai_Futures local)) k))"
    (is "_ \<longleftrightarrow> (\<forall>k. ?agree k)")
proof -
  let ?ep = "indexPositions (fw_Positions (oai_Futures exchange))" and ?lp = "indexPositions (fw_Positions (oai_Futures local))"
  let ?md = "indexRiskMetadata (fw_RiskMetadata (oai_Futures exchange)) (fw_RiskMetadata (oai_Futures local))"
  have fold: "cr_HardPass (foldl (\<lambda>res k. comparePosition t ?md ?ep ?lp k res) r ks) \<longleftrightarrow> cr_HardPass r \<and> (\<forall>k\<in>set ks. ?agree k)" for r ks
    by (induction ks arbitrary: r) (auto simp: comparePosition_hard [of ?ep, OF conjunct1 [OF indexPositions_key]])
  have "?agree k" if "k \<notin> set (positionKeys (oai_Futures exchange) (oai_Futures local))" for k
  proof -
    have "?ep k = None" "?lp k = None" using that unfolding indexPositions_None by (auto simp: positionKeys_def)
    then show ?thesis by (simp add: positions_agree_def isFlat_def)
  qed
  then show ?thesis
    by (simp add: Compare_def Let_def fold compareAccount_hard emptyCompareResult_def assms) blast
qed

subsection \<open>Exchanging the two sides\<close>

lemma abs_minus_sym: "\<bar>x - y\<bar> = \<bar>y - (x::float64)\<bar>"
proof (cases x; cases y)
  fix a b assume "x = Fin a" "y = Fin b"
  moreover have "\<bar>- z\<bar> = \<bar>z :: float64\<bar>" for z by (cases z) (simp_all add: float_defs)
  ultimately show ?thesis using rnd64_neg [of "b - a"] by simp
qed (auto simp: float_defs)

lemma fmax_comm: "fmax x y = fmax y x"
  by (cases x; cases y) (auto simp: fmax_def)

definition mirror :: "FieldDiff \<Rightarrow> FieldDiff" where
  "mirror d = d\<lparr>df_Exchange := df_Local d, df_Local := df_Exchange d\<rparr>"

definition mirrorResult :: "CompareResult \<Rightarrow> CompareResult" where
  "mirrorResult r = r\<lparr>cr_FieldDiffs := map mirror (cr_FieldDiffs r), cr_AdvisoryDiffs := map mirror (cr_AdvisoryDiffs r)\<rparr>"

definition mirrors :: "(CompareResult \<Rightarrow> CompareResult) \<Rightarrow> (CompareResult \<Rightarrow> CompareResult) \<Rightarrow> bool" where
  "mirrors f g = (\<forall>r. g (mirrorResult r) = mirrorResult (f r))"

lemma mirrors_id: "mirrors (\<lambda>r. r) (\<lambda>r. r)"
  by (simp add: mirrors_def)

lemma mirrors_comp: "mirrors f f' \<Longrightarrow> mirrors g g' \<Longrightarrow> mirrors (f \<circ> g) (f' \<circ> g')"
  by (simp add: mirrors_def)

lemma diffRatioOf_sym: "diffRatioOf x y = diffRatioOf y x"
  by (simp add: diffRatioOf_def diffDenom_def Let_def fmax_comm [of "\<bar>x\<bar>"] abs_minus_sym [of x])

lemma mirrors_tiers:
  "mirrors (addSoft f ex lo a q) (addSoft f lo ex a q)"
  "mirrors (addAdvisory f ex lo rule) (addAdvisory f lo ex rule)"
  "mirrors (addHardStepTolerance f ex lo st m) (addHardStepTolerance f lo ex st m)"
  "mirrors (addHardPriceTolerance f ex lo ti m q) (addHardPriceTolerance f lo ex ti m q)"
  "mirrors (missingPosition prefix ep lp) (missingPosition prefix lp ep)"
  by (simp_all add: mirrors_def mirrorResult_def mirror_def addSoft_def addAdvisory_def addHardStepTolerance_def
      addHardPriceTolerance_def missingPosition_def Let_def diffDenom_def diffRatioOf_sym [of ex]
      abs_minus_sym [of ex] fmax_comm [of "\<bar>ex\<bar>"] abs_minus_sym [of "positionQty ep"])

lemma mirrors_account: "mirrors (compareAccount t ex lo) (compareAccount t lo ex)"
  unfolding compareAccount_def [abs_def] Let_def by (intro mirrors_comp mirrors_tiers)

lemma mirrors_fields: "mirrors (comparePositionFields t st ti prefix e l) (comparePositionFields t st ti prefix l e)"
  unfolding comparePositionFields_def Let_def by (intro mirrors_comp mirrors_tiers)

lemma mirrors_position:
  assumes "\<And>e. ep k = Some e \<Longrightarrow> keyOfPosition e = k" "\<And>l. lp k = Some l \<Longrightarrow> keyOfPosition l = k"
  shows "mirrors (comparePosition t md ep lp k) (comparePosition t md lp ep k)"
proof (cases rule: comparePosition_cases [of ep k lp])
  case flat
  then show ?thesis by (simp add: comparePosition_flat mirrors_id)
next
  case (both e l)
  then have "to_upper (fp_Symbol e) = to_upper (fp_Symbol l)" using assms by (auto simp: keyOfPosition_def)
  moreover have n: "\<not> (isFlat (lp k) \<and> isFlat (ep k))" using both by blast
  ultimately show ?thesis
    by (simp only: comparePosition_both [of ep k e lp l, OF both] comparePosition_both [of lp k l ep e, OF both(2,1) n] mirrors_fields)
next
  case missing
  then have m: "lp k = None \<or> ep k = None" "\<not> (isFlat (lp k) \<and> isFlat (ep k))" by auto
  show ?thesis unfolding comparePosition_missing [of ep k lp, OF missing] comparePosition_missing [of lp k ep, OF m]
    by (rule mirrors_tiers)
qed

lemma mirrors_fieldsOf: "mirrors f g \<Longrightarrow> fieldsOf g = map mirror (fieldsOf f)" "mirrors f g \<Longrightarrow> advisoryOf g = map mirror (advisoryOf f)"
proof -
  assume "mirrors f g"
  then have "g (mirrorResult emptyCompareResult) = mirrorResult (f emptyCompareResult)" by (simp add: mirrors_def)
  moreover have "mirrorResult emptyCompareResult = emptyCompareResult" by (simp add: mirrorResult_def emptyCompareResult_def)
  ultimately show "fieldsOf g = map mirror (fieldsOf f)" "advisoryOf g = map mirror (advisoryOf f)"
    by (simp_all add: fieldsOf_def advisoryOf_def mirrorResult_def)
qed

lemma positionKeys_swap: "mset (positionKeys ex lo) = mset (positionKeys lo ex)"
  by (subst set_eq_iff_mset_eq_distinct [symmetric]) (auto simp: positionKeys_def)

lemma mirror_verdict [simp]: "df_Severity (mirror d) = df_Severity d" "df_Passed (mirror d) = df_Passed d"
  by (simp_all add: mirror_def)

lemma Compare_swap:
  assumes iter: "\<And>ks. mset (iter ks) = mset ks"
    and md: "indexRiskMetadata (fw_RiskMetadata (oai_Futures b)) (fw_RiskMetadata (oai_Futures a)) =
      indexRiskMetadata (fw_RiskMetadata (oai_Futures a)) (fw_RiskMetadata (oai_Futures b))"
  shows "mset (cr_FieldDiffs (Compare iter b a t)) = image_mset mirror (mset (cr_FieldDiffs (Compare iter a b t)))"
    "mset (cr_AdvisoryDiffs (Compare iter b a t)) = image_mset mirror (mset (cr_AdvisoryDiffs (Compare iter a b t)))"
    "cr_HardPass (Compare iter b a t) = cr_HardPass (Compare iter a b t)"
    "cr_SoftPass (Compare iter b a t) = cr_SoftPass (Compare iter a b t)"
proof -
  let ?A = "oai_Futures a" and ?B = "oai_Futures b"
  have keys: "mset (iter (positionKeys ?A ?B)) = mset (iter (positionKeys ?B ?A))"
    using positionKeys_swap by (simp add: iter)
  have m: "mirrors (comparePosition t md (indexPositions (fw_Positions ?B)) (indexPositions (fw_Positions ?A)) k)
    (comparePosition t md (indexPositions (fw_Positions ?A)) (indexPositions (fw_Positions ?B)) k)" for md k
    by (rule mirrors_position) (simp_all add: indexPositions_key)
  show f: "mset (cr_FieldDiffs (Compare iter b a t)) = image_mset mirror (mset (cr_FieldDiffs (Compare iter a b t)))"
    unfolding Compare_appends mset_append image_mset_union md mset_concat_map [OF keys] mirrors_fieldsOf(1) [OF m]
      mirrors_fieldsOf(1) [OF mirrors_account [of t ?B ?A]]
    by (simp flip: mset_map add: map_concat o_def)
  show "mset (cr_AdvisoryDiffs (Compare iter b a t)) = image_mset mirror (mset (cr_AdvisoryDiffs (Compare iter a b t)))"
    unfolding Compare_appends mset_append image_mset_union md mset_concat_map [OF keys] mirrors_fieldsOf(2) [OF m]
      mirrors_fieldsOf(2) [OF mirrors_account [of t ?B ?A]]
    by (simp flip: mset_map add: map_concat o_def)
  have "set (cr_FieldDiffs (Compare iter b a t)) = mirror ` set (cr_FieldDiffs (Compare iter a b t))"
    using arg_cong [OF f, of set_mset] by simp
  then show "cr_HardPass (Compare iter b a t) = cr_HardPass (Compare iter a b t)"
    "cr_SoftPass (Compare iter b a t) = cr_SoftPass (Compare iter a b t)"
    using Compare_consistent [of iter b a t] Compare_consistent [of iter a b t] by (simp_all add: consistent_def)
qed

subsection \<open>Venues and runs\<close>

lemma snapshotsByVenue_None: "snapshotsByVenue items v = None \<longleftrightarrow> v \<notin> vs_VenueID ` set items"
  by (induction items rule: rev_induct) (auto simp: snapshotsByVenue_def)

text \<open>The reference meaning of a hard pass for one venue, and for a run.\<close>

definition venue_agrees :: "ReconciliationThresholds \<Rightarrow> VenueWalletSnapshot option \<Rightarrow> VenueWalletSnapshot option \<Rightarrow> bool" where
  "venue_agrees t lo ex = (case (lo, ex) of
     (Some l, Some e) \<Rightarrow>
       let lf = oai_Futures (vs_Snapshot l); ef = oai_Futures (vs_Snapshot e)
       in (\<forall>k\<in>set (positionKeys ef lf). positions_agree t (indexRiskMetadata (fw_RiskMetadata ef) (fw_RiskMetadata lf) (psk_Symbol k))
            (indexPositions (fw_Positions ef) k) (indexPositions (fw_Positions lf) k))
   | _ \<Rightarrow> False)"

lemma Compare_hard_keys:
  assumes "\<And>ks. set (iter ks) = set ks"
  shows "cr_HardPass (Compare iter (vs_Snapshot l) (vs_Snapshot e) t) = venue_agrees t (Some l) (Some e)"
proof -
  let ?lf = "oai_Futures (vs_Snapshot l)" and ?ef = "oai_Futures (vs_Snapshot e)"
  have "positions_agree t md (indexPositions (fw_Positions ?ef) k) (indexPositions (fw_Positions ?lf) k)"
    if "k \<notin> set (positionKeys ?ef ?lf)" for k md
  proof -
    have "indexPositions (fw_Positions ?ef) k = None" "indexPositions (fw_Positions ?lf) k = None"
      using that unfolding indexPositions_None by (auto simp: positionKeys_def)
    then show ?thesis by (simp add: positions_agree_def isFlat_def)
  qed
  then show ?thesis unfolding Compare_hard [OF assms] venue_agrees_def by (auto simp: Let_def)
qed

lemma venueDiff_hard:
  assumes "\<And>ks. set (iter ks) = set ks"
  shows "vd_HardPass (venueDiff iter t v lo ex) = venue_agrees t lo ex"
proof (cases "lo = None \<or> ex = None")
  case True
  then show ?thesis by (auto simp: venueDiff_def venue_agrees_def Let_def split: option.split)
next
  case False
  then obtain l e where le: "lo = Some l" "ex = Some e" by auto
  show ?thesis unfolding le Compare_hard_keys [OF assms, symmetric] by (simp add: venueDiff_def Let_def)
qed

lemma venueDiff_verdicts:
  "(\<forall>d\<in>set (vd_FieldDiffs (venueDiff iter t v lo ex)). df_Severity d = FieldDiffHard \<longrightarrow> df_Passed d) = vd_HardPass (venueDiff iter t v lo ex)"
  "vd_SoftPass (venueDiff iter t v lo ex) \<longleftrightarrow> lo \<noteq> None \<and> ex \<noteq> None \<and>
     (\<forall>d\<in>set (vd_FieldDiffs (venueDiff iter t v lo ex)). df_Severity d = FieldDiffSoft \<longrightarrow> df_Passed d)"
  using Compare_consistent [of iter "vs_Snapshot (the lo)" "vs_Snapshot (the ex)" t]
  by (auto simp: venueDiff_def Let_def consistent_def split: option.splits)

lemma CompareVenues_set:
  assumes "\<And>ks. set (venueIter ks) = set ks"
  shows "set (CompareVenues venueIter iter local exchange t) =
    (\<lambda>v. venueDiff iter t v (snapshotsByVenue local v) (snapshotsByVenue exchange v)) ` vs_VenueID ` (set local \<union> set exchange)"
  by (auto simp: CompareVenues_def assms Let_def)

lemma CompareVenues_ids:
  assumes "\<And>ks. mset (venueIter ks) = mset ks"
  shows "distinct (map vd_VenueID (CompareVenues venueIter iter local exchange t))"
    "set (map vd_VenueID (CompareVenues venueIter iter local exchange t)) = vs_VenueID ` (set local \<union> set exchange)"
proof -
  have id: "vd_VenueID (venueDiff iter t v lo ex) = v" for v lo ex
    by (simp add: venueDiff_def Let_def split: option.split)
  have ids: "map vd_VenueID (CompareVenues venueIter iter local exchange t) =
    (if local = [] \<and> exchange = [] then [] else venueIter (remdups (map vs_VenueID (local @ exchange))))"
    by (simp add: CompareVenues_def Let_def o_def id)
  show "distinct (map vd_VenueID (CompareVenues venueIter iter local exchange t))"
    unfolding ids using mset_eq_imp_distinct_iff [OF assms] by simp
  show "set (map vd_VenueID (CompareVenues venueIter iter local exchange t)) = vs_VenueID ` (set local \<union> set exchange)"
    unfolding ids using mset_eq_setD [OF assms] by auto
qed

lemma runOf_hard:
  assumes "\<And>ks. set (venueIter ks) = set ks" "\<And>ks. set (iter ks) = set ks"
  shows "rn_HardPass (runOf task (CompareVenues venueIter iter local exchange t)) \<longleftrightarrow>
    (\<forall>v\<in>vs_VenueID ` (set local \<union> set exchange). venue_agrees t (snapshotsByVenue local v) (snapshotsByVenue exchange v))"
  by (auto simp: runOf_def list_all_iff CompareVenues_set [OF assms(1)] venueDiff_hard [OF assms(2)])

lemma LaunchAsync_run:
  assumes "rs_SaveReconciliationRun s = Some save" "rs_Enabled s" "tk_Environment task \<noteq> EnvironmentBacktest"
    "RunTypeFromReason (tk_SnapshotReason task) \<noteq> []"
  shows "LaunchAsync venueIter iter (Some s) task l = runIsolated venueIter iter (rs_Thresholds s) save task l"
  using assms by (simp add: LaunchAsync_def)

definition counterNames :: "recon_log \<Rightarrow> string list" where
  "counterNames l = map mt_Metric (rl_counters l)"

lemma emitCounter_simps [simp]:
  "counterNames (emitCounter name task cause l) = counterNames l @ [name]" "rl_runs (emitCounter name task cause l) = rl_runs l"
  by (simp_all add: emitCounter_def counterNames_def)

lemma runIsolated_log:
  assumes run: "run = runOf task (CompareVenues venueIter iter (tk_LocalVenues task) (tk_ExchangeVenues task) t)"
  shows "counterNames (runIsolated venueIter iter t save task l) = counterNames l @ [MetricRunsTotal]
      @ (if \<not> rn_HardPass run then [MetricHardFailTotal] else if \<not> rn_SoftPass run then [MetricSoftFailTotal] else [])
      @ (if save run = SaveDone then [] else [MetricErrorTotal])"
    "rl_runs (runIsolated venueIter iter t save task l) = rl_runs l @ (if save run = SaveDone then [run] else [])"
  by (auto simp: runIsolated_def Let_def countVerdict_def counterNames_def emitCounter_def run [symmetric] split: save_outcome.split)

subsection \<open>Properties\<close>

definition demoReconciler :: ReconciliationService where
  "demoReconciler = \<lparr>rs_Enabled = True, rs_Thresholds = DefaultThresholds, rs_SaveReconciliationRun = Some (\<lambda>run. SaveDone)\<rparr>"

definition demoVenueSnapshot :: "int \<Rightarrow> VenueWalletSnapshot" where
  "demoVenueSnapshot v = \<lparr>vs_VenueID = v, vs_Exchange = 1, vs_Environment = 2, vs_Market = 2, vs_Snapshot = zero_OnlineAccountInfo\<rparr>"

definition demoTask :: Task where
  "demoTask = \<lparr>tk_AccountID = 1, tk_UserID = 2, tk_Environment = 2, tk_Local = zero_OnlineAccountInfo,
     tk_Exchange = zero_OnlineAccountInfo, tk_LocalVenues = [demoVenueSnapshot 7, demoVenueSnapshot 8], tk_ExchangeVenues = [demoVenueSnapshot 7],
     tk_SessionID = ''s'', tk_StrategyID = 3, tk_SnapshotReason = 2, tk_TriggerTime = 100\<rparr>"

text \<open>
  C31.  A reconciliation run.  Once launched for an account that is not a backtest and for a snapshot
  reason that has a run type, a run counts itself once, counts a hard failure exactly when
  some venue is reported by one side only or some position that is open on either side differs in quantity or
  entry price by more than its tolerance, counts a soft failure only when there is no hard one, and
  stores the run with these verdicts; a store that fails or panics is counted and changes nothing else.
\<close>

theorem LaunchAsync_outcome:
  assumes "rs_SaveReconciliationRun s = Some save" "rs_Enabled s" "tk_Environment task \<noteq> EnvironmentBacktest"
    "RunTypeFromReason (tk_SnapshotReason task) \<noteq> []"
    "\<And>ks. set (venueIter ks) = set ks" "\<And>ks. set (iter ks) = set ks"
  shows "\<exists>run. (rn_HardPass run \<longleftrightarrow> (\<forall>v\<in>vs_VenueID ` (set (tk_LocalVenues task) \<union> set (tk_ExchangeVenues task)).
        venue_agrees (rs_Thresholds s) (snapshotsByVenue (tk_LocalVenues task) v) (snapshotsByVenue (tk_ExchangeVenues task) v)))
    \<and> (rn_SoftPass run \<longleftrightarrow> (\<forall>d\<in>set (rn_VenueDiffs run). vd_SoftPass d))
    \<and> counterNames (LaunchAsync venueIter iter (Some s) task l) = counterNames l @ [MetricRunsTotal]
        @ (if \<not> rn_HardPass run then [MetricHardFailTotal] else if \<not> rn_SoftPass run then [MetricSoftFailTotal] else [])
        @ (if save run = SaveDone then [] else [MetricErrorTotal])
    \<and> rl_runs (LaunchAsync venueIter iter (Some s) task l) = rl_runs l @ (if save run = SaveDone then [run] else [])"
proof -
  define run where "run = runOf task (CompareVenues venueIter iter (tk_LocalVenues task) (tk_ExchangeVenues task) (rs_Thresholds s))"
  have "rn_SoftPass run \<longleftrightarrow> (\<forall>d\<in>set (rn_VenueDiffs run). vd_SoftPass d)" by (simp add: run_def runOf_def list_all_iff)
  then show ?thesis unfolding LaunchAsync_run [OF assms(1-4)]
    using runOf_hard [OF assms(5,6), of task "tk_LocalVenues task" "tk_ExchangeVenues task" "rs_Thresholds s"]
      runIsolated_log [OF run_def, of save l] by (intro exI [of _ run]) (simp only: run_def [symmetric] simp_thms)
qed

theorem LaunchAsync_outcome_witness:
  "counterNames (LaunchAsync rev id (Some demoReconciler) demoTask \<lparr>rl_counters = [], rl_runs = []\<rparr>)
   = [''reconciliation_runs_total'', ''reconciliation_hard_fail_total'']"
proof -
  have e: "rs_Enabled demoReconciler" "rs_SaveReconciliationRun demoReconciler = Some (\<lambda>run. SaveDone)"
    "tk_Environment demoTask \<noteq> EnvironmentBacktest" "RunTypeFromReason (tk_SnapshotReason demoTask) \<noteq> []"
    by (simp_all add: demoReconciler_def demoTask_def EnvironmentBacktest_def RunTypeFromReason_def)
  let ?l = "\<lparr>rl_counters = [], rl_runs = []\<rparr>"
  have i: "set (id ks) = set ks" for ks :: "positionKey list" by simp
  obtain run :: ReconciliationRun where run: "rn_HardPass run \<longleftrightarrow> (\<forall>v\<in>vs_VenueID ` (set (tk_LocalVenues demoTask) \<union> set (tk_ExchangeVenues demoTask)).
        venue_agrees (rs_Thresholds demoReconciler) (snapshotsByVenue (tk_LocalVenues demoTask) v) (snapshotsByVenue (tk_ExchangeVenues demoTask) v))"
    "counterNames (LaunchAsync rev id (Some demoReconciler) demoTask ?l) = counterNames ?l @ [MetricRunsTotal]
        @ (if \<not> rn_HardPass run then [MetricHardFailTotal] else if \<not> rn_SoftPass run then [MetricSoftFailTotal] else []) @ []"
    using LaunchAsync_outcome [OF e(2,1,3,4) set_rev i, of ?l] unfolding if_P [OF refl] by blast
  have "\<not> rn_HardPass run" unfolding run(1)
    by (simp add: demoTask_def demoVenueSnapshot_def snapshotsByVenue_def venue_agrees_def)
  with run(2) show ?thesis by (simp add: counterNames_def MetricRunsTotal_def MetricHardFailTotal_def)
qed

text \<open>
  C32.  The comparison treats both sides alike: when they carry the same symbol metadata, exchanging the two
  wallets gives the same verdicts and the same recorded differences with the two values exchanged.
\<close>

theorem Compare_symmetric:
  assumes "\<And>ks. mset (iter ks) = mset ks" "fw_RiskMetadata (oai_Futures a) = fw_RiskMetadata (oai_Futures b)"
  shows "mset (cr_FieldDiffs (Compare iter b a t)) = image_mset mirror (mset (cr_FieldDiffs (Compare iter a b t)))
    \<and> mset (cr_AdvisoryDiffs (Compare iter b a t)) = image_mset mirror (mset (cr_AdvisoryDiffs (Compare iter a b t)))
    \<and> cr_HardPass (Compare iter b a t) = cr_HardPass (Compare iter a b t)
    \<and> cr_SoftPass (Compare iter b a t) = cr_SoftPass (Compare iter a b t)"
  using Compare_swap [of iter b a t] assms by simp

definition demoWalletBalance :: "float64 \<Rightarrow> OnlineAccountInfo" where
  "demoWalletBalance x = zero_OnlineAccountInfo\<lparr>oai_Futures := zero_FuturesWallet\<lparr>fw_WalletBalance := x\<rparr>\<rparr>"

theorem Compare_symmetric_witness:
  "cr_FieldDiffs (Compare rev (demoWalletBalance 0) (demoWalletBalance 1) DefaultThresholds) \<noteq> []
   \<and> cr_SoftPass (Compare rev (demoWalletBalance 1) (demoWalletBalance 0) DefaultThresholds)
     = cr_SoftPass (Compare rev (demoWalletBalance 0) (demoWalletBalance 1) DefaultThresholds)"
  using Compare_symmetric [of rev "demoWalletBalance 0" "demoWalletBalance 1" DefaultThresholds]
  by (simp add: demoWalletBalance_def Compare_appends fieldsOf_def compareAccount_def Let_def addSoft_def)

text \<open>
  The verdicts are what the recorded differences say, and nothing else: a comparison passes hard (soft) exactly when every
  recorded hard (soft) difference passed, advisory differences never count, and the recorded differences and the
  verdicts do not depend on the order in which Go iterates over the position map.
\<close>

theorem Compare_verdicts:
  assumes "\<And>ks. mset (iter1 ks) = mset (iter2 ks)"
  shows "consistent (Compare iter1 local exchange t)
    \<and> mset (cr_FieldDiffs (Compare iter1 local exchange t)) = mset (cr_FieldDiffs (Compare iter2 local exchange t))
    \<and> cr_HardPass (Compare iter1 local exchange t) = cr_HardPass (Compare iter2 local exchange t)
    \<and> cr_SoftPass (Compare iter1 local exchange t) = cr_SoftPass (Compare iter2 local exchange t)"
  using Compare_order [of iter1 iter2, OF assms] Compare_consistent by simp

theorem Compare_verdicts_witness:
  "consistent (Compare rev (demoWalletBalance 0) (demoWalletBalance 1) DefaultThresholds)
   \<and> cr_SoftPass (Compare rev (demoWalletBalance 0) (demoWalletBalance 1) DefaultThresholds)
     = cr_SoftPass (Compare id (demoWalletBalance 0) (demoWalletBalance 1) DefaultThresholds)"
  using Compare_verdicts [of rev id "demoWalletBalance 0" "demoWalletBalance 1" DefaultThresholds] by simp

end
