(* ===== verification/Sql_Store.thy ===== *)
theory Sql_Store
  imports Order_Tables
begin

text \<open>
  The connection of the account repository (\<^verbatim>\<open>internal/repository/timescale.go\<close>) to its database, over
  any record of tables.  A connection carries the tables and the script of its faults, one entry per
  statement; a statement may fail before or after it took effect, and so may a commit.  A transaction
  whose body or commit fails leaves the tables as they were, except that a commit may fail after it took effect.

  The locale \<open>sql_relation\<close> collects what statements, sequences and transactions do for any reflexive
  and transitive relation between tables: an invariant of the tables, tables that do not change, and rows
  that only grow are all such relations.
\<close>

record 't conn =
  cn_tables :: 't
  cn_faults :: "fault list"

type_synonym ('t, 'a) sqlm = "'t conn \<Rightarrow> 'a result \<times> 't conn"

definition connected :: "'t \<Rightarrow> 't conn" where
  "connected t = \<lparr>cn_tables = t, cn_faults = []\<rparr>"

definition take_fault :: "'t conn \<Rightarrow> fault \<times> 't conn" where
  "take_fault c = (case cn_faults c of [] \<Rightarrow> (NoFault, c) | f # fs \<Rightarrow> (f, c\<lparr>cn_faults := fs\<rparr>))"

definition exec_sql :: "('t \<Rightarrow> 'a result \<times> 't) \<Rightarrow> ('t, 'a) sqlm" where
  "exec_sql f c = (case take_fault c of
     (NoFault, c) \<Rightarrow> (case f (cn_tables c) of (r, t) \<Rightarrow> (r, c\<lparr>cn_tables := t\<rparr>))
   | (FailBefore e, c) \<Rightarrow> (Inl e, c)
   | (FailAfter e, c) \<Rightarrow> (Inl e, c\<lparr>cn_tables := snd (f (cn_tables c))\<rparr>))"

definition query_sql :: "('t \<Rightarrow> 'a) \<Rightarrow> ('t, 'a) sqlm" where
  "query_sql f = exec_sql (\<lambda>t. (Inr (f t), t))"

definition return_sql :: "'a result \<Rightarrow> ('t, 'a) sqlm" where
  "return_sql r c = (r, c)"

definition then_sql :: "('t, 'a) sqlm \<Rightarrow> ('a \<Rightarrow> ('t, 'b) sqlm) \<Rightarrow> ('t, 'b) sqlm" where
  "then_sql m f c = (case m c of (Inl e, c) \<Rightarrow> (Inl e, c) | (Inr x, c) \<Rightarrow> f x c)"

text \<open>The error of a step handled by the code around it, and the error replaced by another.\<close>

definition handle_sql :: "('t, 'a) sqlm \<Rightarrow> ('a result \<Rightarrow> ('t, 'b) sqlm) \<Rightarrow> ('t, 'b) sqlm" where
  "handle_sql m f c = (case m c of (r, c) \<Rightarrow> f r c)"

definition map_error :: "(error \<Rightarrow> error) \<Rightarrow> ('t, 'a) sqlm \<Rightarrow> ('t, 'a) sqlm" where
  "map_error h m c = (case m c of (Inl e, c) \<Rightarrow> (Inl (h e), c) | (Inr x, c) \<Rightarrow> (Inr x, c))"

definition commit_sql :: "'t \<Rightarrow> 'a \<Rightarrow> ('t, 'a) sqlm" where
  "commit_sql prior x c = (case take_fault c of
     (NoFault, c) \<Rightarrow> (Inr x, c)
   | (FailBefore e, c) \<Rightarrow> (Inl e, c\<lparr>cn_tables := prior\<rparr>)
   | (FailAfter e, c) \<Rightarrow> (Inl e, c))"

definition tx_sql :: "('t, 'a) sqlm \<Rightarrow> ('t, 'a) sqlm" where
  "tx_sql body = then_sql (exec_sql (\<lambda>t. (Inr (), t)))
     (\<lambda>_ c. case body c of
        (Inl e, c') \<Rightarrow> (Inl e, c'\<lparr>cn_tables := cn_tables c\<rparr>)
      | (Inr x, c') \<Rightarrow> commit_sql (cn_tables c) x c')"

primrec each_sql :: "('x \<Rightarrow> ('t, unit) sqlm) \<Rightarrow> 'x list \<Rightarrow> ('t, unit) sqlm" where
  "each_sql f [] = return_sql (Inr ())"
| "each_sql f (x # xs) = then_sql (f x) (\<lambda>_. each_sql f xs)"

lemma then_sql_Inr:
  "then_sql m f c = (Inr y, c') \<longleftrightarrow> (\<exists>x c1. m c = (Inr x, c1) \<and> f x c1 = (Inr y, c'))"
  by (auto simp: then_sql_def split: prod.splits sum.splits)

lemma return_sql_Inr [simp]: "return_sql r c = (Inr y, c') \<longleftrightarrow> r = Inr y \<and> c' = c"
  by (auto simp: return_sql_def)

lemma map_error_Inr [simp]: "map_error h m c = (Inr y, c') \<longleftrightarrow> m c = (Inr y, c')"
  by (auto simp: map_error_def split: prod.splits sum.splits)

lemma take_fault_tables [simp]: "take_fault c = (f, c') \<Longrightarrow> cn_tables c' = cn_tables c"
  by (auto simp: take_fault_def split: list.splits)

lemma exec_sql_Inr: "exec_sql f c = (Inr y, c') \<Longrightarrow> f (cn_tables c) = (Inr y, cn_tables c')"
  by (auto simp: exec_sql_def split: prod.splits fault.splits)

lemma query_sql_Inr: "query_sql f c = (Inr y, c') \<Longrightarrow> y = f (cn_tables c) \<and> cn_tables c' = cn_tables c"
  unfolding query_sql_def by (drule exec_sql_Inr) auto

lemma query_sql_tables [simp]: "cn_tables (snd (query_sql f c)) = cn_tables c"
  by (auto simp: query_sql_def exec_sql_def split: prod.splits fault.splits)

lemma tx_sql_Inr:
  assumes "tx_sql body c = (Inr y, c')"
  obtains c0 c1 where "cn_tables c0 = cn_tables c" "body c0 = (Inr y, c1)" "cn_tables c' = cn_tables c1"
proof -
  obtain u c0 where b: "exec_sql (\<lambda>t. (Inr (), t)) c = (Inr u, c0)"
      and r: "(case body c0 of (Inl e, c') \<Rightarrow> (Inl e, c'\<lparr>cn_tables := cn_tables c0\<rparr>)
        | (Inr x, c') \<Rightarrow> commit_sql (cn_tables c0) x c') = (Inr y, c')"
    using assms unfolding tx_sql_def then_sql_Inr by blast
  obtain q c1 where q: "body c0 = (q, c1)" by fastforce
  show ?thesis
    using that [of c0 c1] exec_sql_Inr [OF b] r q
    by (cases q) (auto simp: commit_sql_def split: prod.splits fault.splits)
qed

text \<open>A transaction either leaves the tables alone or takes the effect of its whole body.\<close>

lemma tx_sql_atomic:
  "cn_tables (snd (tx_sql body c)) = cn_tables c \<or>
   (\<exists>c0 x c1. cn_tables c0 = cn_tables c \<and> body c0 = (Inr x, c1) \<and> cn_tables (snd (tx_sql body c)) = cn_tables c1)"
proof -
  obtain u c0 where b: "exec_sql (\<lambda>t. (Inr (), t)) c = (u, c0)" by fastforce
  then have t: "cn_tables c0 = cn_tables c" by (auto simp: exec_sql_def split: prod.splits fault.splits)
  obtain q c1 where q: "body c0 = (q, c1)" by fastforce
  show ?thesis
  proof (cases u)
    case (Inl e)
    then show ?thesis using b t by (simp add: tx_sql_def then_sql_def)
  next
    case (Inr v)
    then have tx: "tx_sql body c = (case q of Inl e \<Rightarrow> (Inl e, c1\<lparr>cn_tables := cn_tables c0\<rparr>) | Inr x \<Rightarrow> commit_sql (cn_tables c0) x c1)"
      using b q by (simp add: tx_sql_def then_sql_def split: sum.split)
    show ?thesis
    proof (cases q)
      case Inl
      then show ?thesis using tx t by simp
    next
      case (Inr x)
      have "cn_tables (snd (commit_sql (cn_tables c0) x c1)) \<in> {cn_tables c0, cn_tables c1}"
        by (auto simp: commit_sql_def split: prod.splits fault.splits)
      then show ?thesis using tx t Inr q by auto
    qed
  qed
qed

subsection \<open>Relations every step keeps\<close>

locale sql_relation =
  fixes R :: "'t \<Rightarrow> 't \<Rightarrow> bool"
  assumes refl: "R t t" and trans: "R s t \<Longrightarrow> R t u \<Longrightarrow> R s u"
begin

definition moves :: "('t, 'a) sqlm \<Rightarrow> bool" where
  "moves m = (\<forall>c. R (cn_tables c) (cn_tables (snd (m c))))"

lemma movesD: "moves m \<Longrightarrow> m c = (r, c') \<Longrightarrow> R (cn_tables c) (cn_tables c')"
  unfolding moves_def by (metis snd_conv)

lemma return_moves: "moves (return_sql r)"
  by (simp add: moves_def return_sql_def refl)

lemma exec_moves: assumes "\<And>t. R t (snd (f t))" shows "moves (exec_sql f)"
  using assms refl by (auto simp: moves_def exec_sql_def split: prod.splits fault.splits) (metis snd_conv)+

lemma query_moves: "moves (query_sql f)"
  by (simp add: moves_def refl)

lemma then_moves: assumes "moves m" "\<And>x. moves (f x)" shows "moves (then_sql m f)"
  unfolding moves_def
proof
  fix c
  obtain r c1 where m: "m c = (r, c1)" by fastforce
  then have "R (cn_tables c) (cn_tables c1)" using assms(1) movesD by blast
  moreover have "R (cn_tables c1) (cn_tables (snd (f x c1)))" for x using assms(2) by (simp add: moves_def)
  ultimately show "R (cn_tables c) (cn_tables (snd (then_sql m f c)))"
    using trans by (auto simp: then_sql_def m split: sum.split)
qed

lemma handle_moves: assumes "moves m" "\<And>r. moves (f r)" shows "moves (handle_sql m f)"
  unfolding moves_def
proof
  fix c
  obtain r c1 where m: "m c = (r, c1)" by fastforce
  then have "R (cn_tables c) (cn_tables c1)" using assms(1) movesD by blast
  moreover have "R (cn_tables c1) (cn_tables (snd (f r c1)))" using assms(2) by (simp add: moves_def)
  ultimately show "R (cn_tables c) (cn_tables (snd (handle_sql m f c)))" using trans by (simp add: handle_sql_def m)
qed

lemma map_error_moves: "moves m \<Longrightarrow> moves (map_error h m)"
  by (auto simp: moves_def map_error_def split: prod.splits sum.splits) (metis snd_conv)+

lemma tx_moves: assumes "moves m" shows "moves (tx_sql m)"
  unfolding moves_def
proof
  fix c
  consider "cn_tables (snd (tx_sql m c)) = cn_tables c"
    | c0 x c1 where "cn_tables c0 = cn_tables c" "m c0 = (Inr x, c1)" "cn_tables (snd (tx_sql m c)) = cn_tables c1"
    using tx_sql_atomic [of m c] by blast
  then show "R (cn_tables c) (cn_tables (snd (tx_sql m c)))"
  proof cases
    case 1
    then show ?thesis using refl by simp
  next
    case 2
    then show ?thesis using movesD [OF assms] by metis
  qed
qed

lemma each_moves: "(\<And>x. moves (f x)) \<Longrightarrow> moves (each_sql f xs)"
  by (induction xs) (simp_all add: return_moves then_moves)

lemma if_moves: "moves m \<Longrightarrow> moves n \<Longrightarrow> moves (if b then m else n)"
  by simp

lemmas moves_rules = return_moves query_moves then_moves handle_moves map_error_moves tx_moves each_moves if_moves

end

definition keeps_inv :: "('t \<Rightarrow> bool) \<Rightarrow> 't \<Rightarrow> 't \<Rightarrow> bool" where
  "keeps_inv I s t = (I s \<longrightarrow> I t)"

definition same_view :: "('t \<Rightarrow> 'v) \<Rightarrow> 't \<Rightarrow> 't \<Rightarrow> bool" where
  "same_view v s t = (v t = v s)"

interpretation invariant: sql_relation "keeps_inv I" for I
  by unfold_locales (auto simp: keeps_inv_def)

interpretation view: sql_relation "same_view v" for v
  by unfold_locales (auto simp: same_view_def)

subsection \<open>Triples\<close>

text \<open>
  What holds of the tables before a step, after it succeeded with a value, and after it failed; every placement of
  faults is covered.
\<close>

definition triple :: "('t \<Rightarrow> bool) \<Rightarrow> ('t, 'a) sqlm \<Rightarrow> ('a \<Rightarrow> 't \<Rightarrow> bool) \<Rightarrow> ('t \<Rightarrow> bool) \<Rightarrow> bool" where
  "triple P m Q E = (\<forall>c. P (cn_tables c) \<longrightarrow> (case m c of (Inr x, c') \<Rightarrow> Q x (cn_tables c') | (Inl e, c') \<Rightarrow> E (cn_tables c')))"

lemma tripleD: "triple P m Q E \<Longrightarrow> P (cn_tables c) \<Longrightarrow> m c = (Inr x, c') \<Longrightarrow> Q x (cn_tables c')"
  unfolding triple_def by fastforce

lemma triple_error: "triple P m Q E \<Longrightarrow> P (cn_tables c) \<Longrightarrow> m c = (Inl e, c') \<Longrightarrow> E (cn_tables c')"
  unfolding triple_def by fastforce

lemma triple_any: "triple P m (\<lambda>_. Q) Q \<Longrightarrow> P (cn_tables c) \<Longrightarrow> Q (cn_tables (snd (m c)))"
  unfolding triple_def by (fastforce split: prod.splits sum.splits)

lemma triple_return: "(\<And>t x. P t \<Longrightarrow> r = Inr x \<Longrightarrow> Q x t) \<Longrightarrow> (\<And>t e. P t \<Longrightarrow> r = Inl e \<Longrightarrow> E t) \<Longrightarrow> triple P (return_sql r) Q E"
  by (auto simp: triple_def return_sql_def split: sum.split)

lemma triple_exec:
  fixes P :: "'t \<Rightarrow> bool"
  assumes "\<And>t. P t \<Longrightarrow> E t" "\<And>t x t'. P t \<Longrightarrow> f t = (Inr x, t') \<Longrightarrow> Q x t' \<and> E t'" "\<And>t e t'. P t \<Longrightarrow> f t = (Inl e, t') \<Longrightarrow> E t'"
  shows "triple P (exec_sql f) Q E"
  unfolding triple_def
proof (intro allI impI)
  fix c :: "'t conn" assume P: "P (cn_tables c)"
  obtain r t' where f: "f (cn_tables c) = (r, t')" by fastforce
  obtain q c1 where q: "take_fault c = (q, c1)" by fastforce
  then have tc: "cn_tables c1 = cn_tables c" by (rule take_fault_tables)
  show "case exec_sql f c of (Inr x, c') \<Rightarrow> Q x (cn_tables c') | (Inl e, c') \<Rightarrow> E (cn_tables c')"
    using assms(1) [OF P] assms(2,3) [OF P] by (cases q; cases r) (auto simp: exec_sql_def q f tc)
qed

lemma triple_query: "(\<And>t. P t \<Longrightarrow> Q (f t) t) \<Longrightarrow> (\<And>t. P t \<Longrightarrow> E t) \<Longrightarrow> triple P (query_sql f) Q E"
  unfolding query_sql_def by (rule triple_exec) auto

lemma triple_then:
  fixes P :: "'t \<Rightarrow> bool"
  assumes "triple P m R E" "\<And>x. triple (R x) (f x) Q E" shows "triple P (then_sql m f) Q E"
  unfolding triple_def
proof (intro allI impI)
  fix c :: "'t conn" assume P: "P (cn_tables c)"
  obtain r c1 where m: "m c = (r, c1)" by fastforce
  show "case then_sql m f c of (Inr x, c') \<Rightarrow> Q x (cn_tables c') | (Inl e, c') \<Rightarrow> E (cn_tables c')"
  proof (cases r)
    case (Inl e)
    then show ?thesis using triple_error [OF assms(1) P] m by (simp add: then_sql_def)
  next
    case (Inr x)
    then have "R x (cn_tables c1)" using tripleD [OF assms(1) P] m by simp
    then show ?thesis using assms(2) [of x] Inr m by (simp add: then_sql_def triple_def)
  qed
qed

lemma triple_map_error: "triple P m Q E \<Longrightarrow> triple P (map_error h m) Q E"
  unfolding triple_def map_error_def by (fastforce split: prod.splits sum.splits)

lemma triple_conseq:
  "triple P m Q E \<Longrightarrow> (\<And>t. P' t \<Longrightarrow> P t) \<Longrightarrow> (\<And>x t. Q x t \<Longrightarrow> Q' x t) \<Longrightarrow> (\<And>t. E t \<Longrightarrow> E' t) \<Longrightarrow> triple P' m Q' E'"
  unfolding triple_def by (fastforce split: prod.splits sum.splits)

lemma triple_tx:
  fixes P :: "'t \<Rightarrow> bool"
  assumes "triple P m Q (\<lambda>_. True)" "\<And>t. P t \<Longrightarrow> E t" "\<And>x t. Q x t \<Longrightarrow> E t"
  shows "triple P (tx_sql m) Q E"
  unfolding triple_def
proof (intro allI impI)
  fix c :: "'t conn" assume P: "P (cn_tables c)"
  obtain r c' where r: "tx_sql m c = (r, c')" by fastforce
  show "case tx_sql m c of (Inr x, c') \<Rightarrow> Q x (cn_tables c') | (Inl e, c') \<Rightarrow> E (cn_tables c')"
  proof (cases r)
    case (Inl e)
    consider "cn_tables c' = cn_tables c"
      | c0 x c1 where "cn_tables c0 = cn_tables c" "m c0 = (Inr x, c1)" "cn_tables c' = cn_tables c1"
      using tx_sql_atomic [of m c] r by fastforce
    then have "E (cn_tables c')"
    proof cases
      case 1
      then show ?thesis using assms(2) P by simp
    next
      case 2
      then show ?thesis using tripleD [OF assms(1)] P assms(3) by metis
    qed
    then show ?thesis using r Inl by simp
  next
    case (Inr x)
    then obtain c0 c1 where b: "cn_tables c0 = cn_tables c" "m c0 = (Inr x, c1)" "cn_tables c' = cn_tables c1"
      using tx_sql_Inr r by metis
    then have "Q x (cn_tables c1)" using tripleD [OF assms(1), of c0] P by simp
    then show ?thesis using r Inr b(3) by simp
  qed
qed

text \<open>An invariant that a successful body keeps is kept by the transaction, whatever fails.\<close>

lemma tx_inv:
  fixes I :: "'t \<Rightarrow> bool"
  assumes "\<And>c x c'. I (cn_tables c) \<Longrightarrow> body c = (Inr x, c') \<Longrightarrow> I (cn_tables c')" shows "triple I (tx_sql body) (\<lambda>_. I) I"
proof (rule triple_tx [of I body "\<lambda>_. I"])
  show "triple I body (\<lambda>_. I) (\<lambda>_. True)" using assms by (fastforce simp: triple_def split: prod.splits sum.splits)
qed simp_all

lemma triple_if: "(b \<Longrightarrow> triple P m Q E) \<Longrightarrow> (\<not> b \<Longrightarrow> triple P n Q E) \<Longrightarrow> triple P (if b then m else n) Q E"
  by simp

lemma triple_pre: "(\<And>t. P t \<Longrightarrow> triple ((=) t) m Q E) \<Longrightarrow> triple P m Q E"
  unfolding triple_def by fastforce

text \<open>A step that keeps a view of the tables, and one that keeps an invariant.\<close>

definition keeps :: "('t \<Rightarrow> 'v) \<Rightarrow> ('t, 'a) sqlm \<Rightarrow> bool" where
  "keeps v m = sql_relation.moves (same_view v) m"

lemmas keeps_rules = view.moves_rules [folded keeps_def]

lemma keeps_exec: "(\<And>t. v (snd (f t)) = v t) \<Longrightarrow> keeps v (exec_sql f)"
  unfolding keeps_def by (rule view.exec_moves) (simp add: same_view_def)

lemma keepsD: "keeps v m \<Longrightarrow> v (cn_tables (snd (m c))) = v (cn_tables c)"
  by (simp add: keeps_def view.moves_def same_view_def)

lemma triple_inv: "triple I m (\<lambda>_. I) I \<longleftrightarrow> invariant.moves I m"
  unfolding triple_def invariant.moves_def keeps_inv_def by (fastforce split: prod.splits sum.splits)

lemma triple_frame:
  assumes "keeps v m" "\<And>t t'. v t = v t' \<Longrightarrow> I t \<Longrightarrow> I t'" shows "triple I m (\<lambda>_. I) I"
  unfolding triple_inv invariant.moves_def keeps_inv_def using keepsD [OF assms(1)] assms(2) by metis

end
