(* ===== verification/Account_Tables.thy ===== *)
theory Account_Tables
  imports Sql_Store Domain "HOL-Library.Product_Lexorder"
begin

text \<open>
  The data of the account repository (\<^verbatim>\<open>internal/repository\<close>): the records of
  \<^verbatim>\<open>internal/domain/model.go\<close> it reads and writes, the rows of the tables the migrations create, the
  session status tables, and the encoding of wallets as JSON, which fails on values that are not finite.

  A row is the record of the domain where the columns are its fields.  A JSON column holds the value it
  encodes.  Identifiers drawn from a sequence are counted up; that a failed insert skips a number is not modelled.
\<close>

subsection \<open>Records of model.go\<close>

definition AccountStatusActive :: int where "AccountStatusActive = 1"
definition AccountStatusArchived :: int where "AccountStatusArchived = 2"
definition VenueStatusActive :: int where "VenueStatusActive = 1"
definition VenueStatusDisabled :: int where "VenueStatusDisabled = 2"
definition VenueStatusRevoked :: int where "VenueStatusRevoked = 3"
definition VenueStatusArchived :: int where "VenueStatusArchived = 4"
definition SessionStatusPreflightFailed :: string where "SessionStatusPreflightFailed = ''preflight_failed''"

lemmas account_codes [code_tables] = AccountStatusActive_def AccountStatusArchived_def VenueStatusActive_def
  VenueStatusDisabled_def VenueStatusRevoked_def VenueStatusArchived_def

record User =
  us_ID :: int
  us_Username :: string
  us_PasswordHash :: string
  us_CreatedAt :: time
  us_PlanCode :: string

record Account =
  ac_AccountID :: int
  ac_UserID :: int
  ac_Name :: string
  ac_Description :: string
  ac_Environment :: int
  ac_Status :: int
  ac_APIKey :: string
  ac_APISecret :: string
  ac_MarginMode :: string
  ac_PositionMode :: string
  ac_SlippageBps :: float64
  ac_DefaultFeeRate :: float64
  ac_CreatedAt :: time
  ac_FuturesJSON :: "FuturesWallet option"
  ac_SpotJSON :: "SpotWallet option"
  ac_TotalValue :: float64
  ac_WalletBalance :: float64
  ac_AvailableBalance :: float64
  ac_StateUpdatedAt :: "time option"

record Venue =
  ve_VenueID :: int
  ve_UserID :: int
  ve_AccountID :: "int option"
  ve_Exchange :: int
  ve_Market :: int
  ve_Environment :: int
  ve_Status :: int
  ve_DisplayName :: string
  ve_Description :: string
  ve_APIKey :: string
  ve_CredentialInfo :: string
  ve_CredentialKeyVersion :: string
  ve_CredentialFingerprint :: string
  ve_MarginMode :: int
  ve_PositionMode :: int
  ve_CreatedAt :: time
  ve_UpdatedAt :: time
  ve_LastUsedAt :: "time option"
  ve_ArchivedAt :: "time option"
  ve_ArchivedReason :: string

record VenueEvent =
  vn_EventID :: int
  vn_VenueID :: int
  vn_AccountID :: "int option"
  vn_UserID :: int
  vn_EventType :: int
  vn_Reason :: string
  vn_CreatedAt :: time

record SessionVenue =
  sv_SessionID :: string
  sv_VenueID :: int
  sv_AccountID :: int
  sv_UserID :: int
  sv_Exchange :: int
  sv_Market :: int
  sv_Environment :: int
  sv_DisplayName :: string
  sv_APIKey :: string
  sv_CredentialFingerprint :: string
  sv_MarginMode :: int
  sv_PositionMode :: int
  sv_VenueStatus :: int
  sv_CapturedAt :: time

record VenueRouteMeta =
  vm_AccountID :: int
  vm_VenueID :: int
  vm_UserID :: int
  vm_Environment :: int
  vm_Exchange :: int
  vm_Market :: int
  vm_MarginMode :: int
  vm_PositionMode :: int
  vm_APIKey :: string
  vm_CredentialInfo :: string
  vm_DefaultFeeRate :: float64
  vm_SlippageBps :: float64

record StrategySession =
  ss_SessionID :: string
  ss_AccountID :: int
  ss_UserID :: int
  ss_StrategyID :: int
  ss_Environment :: int
  ss_Status :: string
  ss_Interval :: string
  ss_StartTimeMs :: "int option"
  ss_EndTimeMs :: "int option"
  ss_BarsProcessed :: int
  ss_Error :: string
  ss_ErrorCode :: string
  ss_ErrorMessage :: string
  ss_ErrorDetailJSON :: string
  ss_RuntimeID :: string
  ss_RuntimeSource :: string
  ss_RuntimeName :: string
  ss_SessionType :: string
  ss_RuntimeVersion :: string
  ss_SessionName :: string
  ss_StartedAt :: time
  ss_CompletedAt :: "time option"
  ss_CreatedAt :: time

record Strategy =
  sg_StrategyID :: int
  sg_UserID :: int
  sg_Name :: string
  sg_Version :: string
  sg_Description :: string
  sg_Code :: string
  sg_Archived :: bool
  sg_CreatedAt :: time
  sg_RuntimeVersion :: string
  sg_RuntimeProfile :: string

record AccountStrategy =
  at_AccountID :: int
  at_StrategyID :: int
  at_Active :: bool
  at_MountedAt :: time
  at_Strategy :: Strategy

record PageMeta =
  pm_Total :: int
  pm_HasMore :: bool

subsection \<open>Rows and tables\<close>

record account_row =
  ar_account_id :: int
  ar_user_id :: int
  ar_name :: string
  ar_description :: string
  ar_environment :: int
  ar_status :: int
  ar_slippage_bps :: float64
  ar_default_fee_rate :: float64
  ar_created_at :: time
  ar_updated_at :: time
  ar_futures :: FuturesWallet
  ar_spot :: SpotWallet
  ar_total_value :: float64
  ar_wallet_balance :: float64
  ar_available_balance :: float64
  ar_state_updated_at :: "time option"

record wallet_row =
  wr_venue_id :: int
  wr_account_id :: "int option"
  wr_user_id :: int
  wr_exchange :: int
  wr_environment :: int
  wr_market :: int
  wr_total_value :: float64
  wr_wallet_balance :: float64
  wr_available_balance :: float64
  wr_futures :: FuturesWallet
  wr_spot :: SpotWallet
  wr_updated_at :: time

record session_row =
  sr_session_id :: string
  sr_account_id :: int
  sr_user_id :: int
  sr_strategy_id :: "int option"
  sr_environment :: int
  sr_status :: int
  sr_interval :: string
  sr_start_time_ms :: "int option"
  sr_end_time_ms :: "int option"
  sr_bars_processed :: int
  sr_error :: string
  sr_error_code :: string
  sr_error_message :: string
  sr_error_detail_json :: string
  sr_runtime_id :: string
  sr_runtime_source :: string
  sr_runtime_name :: string
  sr_session_type :: string
  sr_runtime_version :: string
  sr_session_name :: string
  sr_started_at :: "time option"
  sr_completed_at :: "time option"
  sr_created_at :: time

record mount_row =
  mr_account_id :: int
  mr_strategy_id :: int
  mr_active :: bool
  mr_mounted_at :: time

record snapshot_row =
  sn_time :: time
  sn_account_id :: int
  sn_user_id :: int
  sn_environment :: int
  sn_total_value :: float64
  sn_wallet_balance :: float64
  sn_available_balance :: float64
  sn_snapshot_reason :: int
  sn_strategy_id :: "int option"
  sn_session_id :: "string option"
  sn_futures :: FuturesWallet
  sn_spot :: SpotWallet

record account_tables =
  tb_users :: "User list"
  tb_accounts :: "account_row list"
  tb_venues :: "Venue list"
  tb_venue_events :: "VenueEvent list"
  tb_wallets :: "wallet_row list"
  tb_sessions :: "session_row list"
  tb_session_venues :: "SessionVenue list"
  tb_strategies :: "Strategy list"
  tb_mounts :: "mount_row list"
  tb_snapshots :: "snapshot_row list"
  tb_next_user :: int
  tb_next_account :: int
  tb_next_venue :: int
  tb_next_event :: int
  tb_next_strategy :: int

definition empty_tables :: account_tables where
  "empty_tables = \<lparr>tb_users = [], tb_accounts = [], tb_venues = [], tb_venue_events = [], tb_wallets = [],
     tb_sessions = [], tb_session_venues = [], tb_strategies = [], tb_mounts = [], tb_snapshots = [],
     tb_next_user = 1, tb_next_account = 1, tb_next_venue = 1, tb_next_event = 1, tb_next_strategy = 1\<rparr>"

type_synonym 'a adb = "(account_tables, 'a) sqlm"

subsection \<open>Errors of the database\<close>

definition RepoNotFound :: error where "RepoNotFound = Sentinel ''not found''"
definition RepoConflict :: error where "RepoConflict = Sentinel ''conflict''"

definition unique_violation :: "string \<Rightarrow> error" where
  "unique_violation index = Errorf (''pq: duplicate key value violates unique constraint '' @ index)"

definition check_violation :: "string \<Rightarrow> error" where
  "check_violation check = Errorf (''pq: new row violates check constraint '' @ check)"

definition fk_violation :: "string \<Rightarrow> error" where
  "fk_violation key = Errorf (''pq: insert or update violates foreign key constraint '' @ key)"

definition isUniqueViolation :: "error \<Rightarrow> bool" where
  "isUniqueViolation err = (let msg = to_lower (err_text err) in
     contains_str msg ''duplicate key'' \<or> contains_str msg ''unique constraint'' \<or> contains_str msg ''violates unique'')"

text \<open>A unique violation becomes \<^verbatim>\<open>ErrConflict\<close>, every other error is passed on.\<close>

definition conflict_on_unique :: "error \<Rightarrow> error" where
  "conflict_on_unique e = (if isUniqueViolation e then RepoConflict else e)"

subsection \<open>Session statuses\<close>

definition normalizeRuntimeVersion :: "string \<Rightarrow> string" where
  "normalizeRuntimeVersion version = (let v = trim_space version in if v = [] then ''1.0.0'' else v)"

definition normalizeRuntimeProfile :: "string \<Rightarrow> string" where
  "normalizeRuntimeProfile profile = (let p = trim_space profile in if p = [] then ''platform-python-3.13'' else p)"

definition normalizeSessionType :: "int \<Rightarrow> string \<Rightarrow> string" where
  "normalizeSessionType env sessionType = (let s = trim_space sessionType in
     if s \<noteq> [] then s else if env = EnvironmentDemo then ''demo'' else ''backtest'')"

definition sessionStatusCode :: "string \<Rightarrow> int" where
  "sessionStatusCode status = (let s = to_lower (trim_space status) in
     if s \<in> {''queued'', ''created'', ''pending''} then 1
     else if s = ''preflight'' then 2
     else if s \<in> {''running'', ''''} then 3
     else if s = ''stopping'' then 4
     else if s = ''recoverable'' then 5
     else if s \<in> {''completed'', ''finished''} then 6
     else if s = ''stopped'' then 7
     else if s \<in> {''failed'', ''stop_failed''} then 8
     else if s = SessionStatusPreflightFailed then 9
     else 8)"

definition sessionStatusText :: "int \<Rightarrow> string" where
  "sessionStatusText status =
     (if status = 1 then ''pending'' else if status = 2 then ''preflight'' else if status = 3 then ''running''
      else if status = 4 then ''stopping'' else if status = 5 then ''recoverable'' else if status = 6 then ''finished''
      else if status = 7 then ''stopped'' else if status = 8 then ''failed''
      else if status = 9 then SessionStatusPreflightFailed else ''failed'')"

subsection \<open>Wallets as JSON\<close>

definition position_floats :: "FuturesPosition \<Rightarrow> float64 list" where
  "position_floats p = [fp_InitialBalance p, fp_Leverage p, fp_FeeRate p, fp_MarkPrice p, fp_Qty p, fp_PositionQty p,
     fp_EntryPrice p, fp_UnrealizedPnl p, fp_Notional p, fp_InitialMargin p, fp_PositionInitialMargin p,
     fp_OpenOrderInitialMargin p, fp_MaintMargin p, fp_IsolatedWallet p, fp_LiquidationPrice p, fp_BreakEvenPrice p]"

definition metadata_floats :: "WalletRiskMetadata \<Rightarrow> float64 list" where
  "metadata_floats m = [wm_ConfiguredLeverage m, wm_TickSize m, wm_StepSize m] @
     concat (map (\<lambda>b. [rb_NotionalFloor b, rb_NotionalCap b, rb_InitialLeverage b, rb_MaintMarginRatio b, rb_Cumulative b])
       (wm_Brackets m))"

definition futures_floats :: "FuturesWallet \<Rightarrow> float64 list" where
  "futures_floats w = [fw_InitialBalance w, fw_DepositSum w, fw_WithdrawalSum w] @ concat (map position_floats (fw_Positions w)) @
     [fw_WalletBalance w, fw_AvailableBalance w, fw_TotalUnrealizedPnl w, fw_UnrealizedPnl w, fw_MarginBalance w,
      fw_TotalMarginBalance w, fw_TotalPositionInitialMargin w, fw_TotalOpenOrderInitialMargin w, fw_TotalMaintMargin w,
      fw_TotalCrossWalletBalance w, fw_TotalCrossUnPnl w] @ concat (map metadata_floats (fw_RiskMetadata w)) @
     [fw_DisplayWalletBalanceUsd w, fw_DisplayMarginBalanceUsd w, fw_DisplayUnrealizedPnlUsd w]"

definition spot_floats :: "SpotWallet \<Rightarrow> float64 list" where
  "spot_floats w = [sw_Free w, sw_Locked w] @
     concat (map (\<lambda>a. [sa_Qty a, sa_Locked a, sa_AvgEntryPrice a] @ (case sa_Price a of None \<Rightarrow> [] | Some p \<Rightarrow> [p])) (sw_Assets w))"

definition unsupported_text :: "float64 \<Rightarrow> string" where
  "unsupported_text x = (case x of Inf s \<Rightarrow> if s then ''-Inf'' else ''+Inf'' | _ \<Rightarrow> ''NaN'')"

definition marshal_error :: "FuturesWallet \<Rightarrow> SpotWallet \<Rightarrow> error option" where
  "marshal_error f s = (case filter (\<lambda>x. \<not> finite64 x) (futures_floats f @ spot_floats s) of
     [] \<Rightarrow> None | x # _ \<Rightarrow> Some (Errorf (''json: unsupported value: '' @ unsupported_text x)))"

end
