(* ===== verification/Account_Repository.thy ===== *)
theory Account_Repository
  imports Account_Tables
begin

text \<open>
  The operations of \<^verbatim>\<open>internal/repository/timescale.go\<close> on users, accounts, venues, sessions, strategies and wallet
  states.  Every constraint of the migrations is checked where the database checks it: the primary keys and
  unique indexes, the check constraints and the foreign keys.  The clock of the database is an argument
  (\<open>now\<close>); rows with equal sort keys keep the order of insertion.
\<close>

subsection \<open>Users\<close>

definition insert_user :: "User \<Rightarrow> account_tables \<Rightarrow> User result \<times> account_tables" where
  "insert_user user t =
     (if \<exists>u\<in>set (tb_users t). us_Username u = us_Username user then (Inl (unique_violation ''idx_users_username''), t)
      else let created = user\<lparr>us_ID := tb_next_user t, us_PlanCode := ''pro''\<rparr>
           in (Inr created, t\<lparr>tb_users := tb_users t @ [created], tb_next_user := tb_next_user t + 1\<rparr>))"

definition CreateUser :: "User \<Rightarrow> User adb" where
  "CreateUser user = exec_sql (insert_user user)"

definition first_or_not_found :: "'a list \<Rightarrow> 'a result" where
  "first_or_not_found rows = (case rows of [] \<Rightarrow> Inl RepoNotFound | r # _ \<Rightarrow> Inr r)"

definition query_row :: "(account_tables \<Rightarrow> 'a list) \<Rightarrow> 'a adb" where
  "query_row rows = then_sql (query_sql rows) (\<lambda>rs. return_sql (first_or_not_found rs))"

definition GetUserByUsername :: "string \<Rightarrow> User adb" where
  "GetUserByUsername username = query_row (\<lambda>t. filter (\<lambda>u. us_Username u = username) (tb_users t))"

definition GetUser :: "int \<Rightarrow> User adb" where
  "GetUser userID = query_row (\<lambda>t. map (\<lambda>u. u\<lparr>us_PasswordHash := []\<rparr>) (filter (\<lambda>u. us_ID u = userID) (tb_users t)))"

subsection \<open>Accounts\<close>

definition normalizeAccountEnvironment :: "Account \<Rightarrow> int" where
  "normalizeAccountEnvironment a = (if ac_Environment a \<in> {EnvironmentDemo, EnvironmentLive} then ac_Environment a else EnvironmentBacktest)"

definition insert_account :: "time \<Rightarrow> Account \<Rightarrow> account_tables \<Rightarrow> int result \<times> account_tables" where
  "insert_account wallclock a t =
     (let env = normalizeAccountEnvironment a;
          status = (if ac_Status a = 0 then AccountStatusActive else ac_Status a);
          createdAt = (if is_zero (ac_CreatedAt a) then wallclock else ac_CreatedAt a);
          row = \<lparr>ar_account_id = tb_next_account t, ar_user_id = ac_UserID a, ar_name = ac_Name a, ar_description = ac_Description a,
            ar_environment = env, ar_status = status, ar_slippage_bps = ac_SlippageBps a, ar_default_fee_rate = ac_DefaultFeeRate a,
            ar_created_at = createdAt, ar_updated_at = createdAt, ar_futures = zero_FuturesWallet, ar_spot = zero_SpotWallet,
            ar_total_value = 0, ar_wallet_balance = 0, ar_available_balance = 0, ar_state_updated_at = None\<rparr>
      in if status \<notin> {1, 2} then (Inl (check_violation ''chk_accounts_status''), t)
         else if \<exists>r\<in>set (tb_accounts t). ar_user_id r = ac_UserID a \<and> ar_name r = ac_Name a
           then (Inl (unique_violation ''uq_accounts_user_name''), t)
         else (Inr (tb_next_account t), t\<lparr>tb_accounts := tb_accounts t @ [row], tb_next_account := tb_next_account t + 1\<rparr>))"

definition CreateAccount :: "time \<Rightarrow> Account \<Rightarrow> int adb" where
  "CreateAccount wallclock a = map_error conflict_on_unique (exec_sql (insert_account wallclock a))"

definition scanAccount :: "account_row \<Rightarrow> Account" where
  "scanAccount r = \<lparr>ac_AccountID = ar_account_id r, ac_UserID = ar_user_id r, ac_Name = ar_name r, ac_Description = ar_description r,
     ac_Environment = ar_environment r, ac_Status = ar_status r, ac_APIKey = [], ac_APISecret = [], ac_MarginMode = [], ac_PositionMode = [],
     ac_SlippageBps = ar_slippage_bps r, ac_DefaultFeeRate = ar_default_fee_rate r, ac_CreatedAt = ar_created_at r,
     ac_FuturesJSON = Some (ar_futures r), ac_SpotJSON = Some (ar_spot r), ac_TotalValue = ar_total_value r,
     ac_WalletBalance = ar_wallet_balance r, ac_AvailableBalance = ar_available_balance r, ac_StateUpdatedAt = ar_state_updated_at r\<rparr>"

definition GetAccount :: "int \<Rightarrow> int \<Rightarrow> Account adb" where
  "GetAccount accountID userID = query_row (\<lambda>t. map scanAccount
     (filter (\<lambda>r. ar_account_id r = accountID \<and> (0 < userID \<longrightarrow> ar_user_id r = userID)) (tb_accounts t)))"

definition ListAccounts :: "int \<Rightarrow> Account list adb" where
  "ListAccounts userID = query_sql (\<lambda>t. map scanAccount
     (sort_key (\<lambda>r. - ar_created_at r) (filter (\<lambda>r. 0 < userID \<longrightarrow> ar_user_id r = userID) (tb_accounts t))))"

definition repoPage :: "int \<Rightarrow> int \<Rightarrow> int \<times> int" where
  "repoPage limit offset = (let l = (if limit \<le> 0 then 50 else limit)
     in (if 200 < l then 200 else l, if offset < 0 then 0 else offset))"

text \<open>The two statements of a page: the count, then one row more than the page shows.\<close>

definition pageOf :: "(account_tables \<Rightarrow> 'a list) \<Rightarrow> int \<Rightarrow> int \<Rightarrow> ('a list \<times> PageMeta) adb" where
  "pageOf rows limit offset =
     then_sql (query_sql (\<lambda>t. int (length (rows t)))) (\<lambda>total.
     then_sql (query_sql (\<lambda>t. take (nat (limit + 1)) (drop (nat offset) (rows t)))) (\<lambda>items.
     return_sql (Inr (take (nat limit) items, \<lparr>pm_Total = total, pm_HasMore = limit < int (length items)\<rparr>))))"

definition ListAccountsPage :: "int \<Rightarrow> int \<Rightarrow> int \<Rightarrow> (Account list \<times> PageMeta) adb" where
  "ListAccountsPage userID limit offset = (case repoPage limit offset of (l, o') \<Rightarrow>
     pageOf (\<lambda>t. map scanAccount (sort_key (\<lambda>r. - ar_created_at r)
       (filter (\<lambda>r. 0 < userID \<longrightarrow> ar_user_id r = userID) (tb_accounts t)))) l o')"

subsection \<open>Venues\<close>

definition is_hex_digit :: "char \<Rightarrow> bool" where
  "is_hex_digit c = (let n = of_char c :: int in (48 \<le> n \<and> n \<le> 57) \<or> (97 \<le> n \<and> n \<le> 102))"

definition matches_sim_key :: "string \<Rightarrow> bool" where
  "matches_sim_key s = (has_prefix s ''sim_btv_'' \<and> length s = 40 \<and> list_all is_hex_digit (drop 8 s))"

definition venue_check :: "Venue \<Rightarrow> string option" where
  "venue_check v =
     (if ve_Exchange v \<notin> {1, 2} then Some ''chk_venues_exchange''
      else if ve_Market v \<notin> {1, 2, 3} then Some ''chk_venues_market''
      else if ve_Environment v \<notin> {0, 1, 2} then Some ''chk_venues_environment''
      else if ve_Status v \<notin> {1, 2, 3, 4} then Some ''chk_venues_status''
      else if ve_MarginMode v \<notin> {0, 1, 2} then Some ''chk_venues_margin_mode''
      else if ve_PositionMode v \<notin> {0, 1, 2} then Some ''chk_venues_position_mode''
      else if ve_Market v = 1 \<and> \<not> (ve_MarginMode v = 0 \<and> ve_PositionMode v = 0) then Some ''chk_venues_spot_modes''
      else if \<not> ((ve_Environment v = 0 \<and> matches_sim_key (ve_APIKey v) \<and> ve_CredentialInfo v = []
            \<and> ve_CredentialKeyVersion v = ''synthetic'' \<and> ve_CredentialFingerprint v = [])
          \<or> (ve_Environment v \<in> {1, 2} \<and> ve_APIKey v \<noteq> [] \<and> ve_CredentialInfo v \<noteq> [] \<and> ve_CredentialKeyVersion v \<noteq> ''synthetic''))
        then Some ''chk_venues_credentials_by_environment''
      else if ve_Market v = 2 \<and> \<not> (ve_MarginMode v \<in> {1, 2} \<and> ve_PositionMode v \<in> {1, 2}) then Some ''chk_venues_perp_modes''
      else None)"

definition api_key_scope :: "Venue \<Rightarrow> int \<times> int \<times> int \<times> string" where
  "api_key_scope v = (ve_Exchange v, ve_Environment v, ve_Market v, ve_APIKey v)"

text \<open>The key of the partial index on active, bound venues, if the row is in it.\<close>

definition active_route :: "Venue \<Rightarrow> (int \<times> int \<times> int) option" where
  "active_route v = (case ve_AccountID v of None \<Rightarrow> None
     | Some a \<Rightarrow> if ve_Status v = VenueStatusActive then Some (a, ve_Exchange v, ve_Market v) else None)"

definition venue_unique :: "Venue \<Rightarrow> Venue list \<Rightarrow> string option" where
  "venue_unique v others =
     (if \<exists>w\<in>set others. api_key_scope w = api_key_scope v then Some ''uidx_venues_api_key_scope''
      else if active_route v \<noteq> None \<and> (\<exists>w\<in>set others. active_route w = active_route v)
        then Some ''uidx_venues_active_account_market''
      else None)"

definition account_exists :: "int \<Rightarrow> account_tables \<Rightarrow> bool" where
  "account_exists a t = (a \<in> ar_account_id ` set (tb_accounts t))"

definition venue_violation :: "Venue \<Rightarrow> account_tables \<Rightarrow> error option" where
  "venue_violation v t =
     (case venue_check v of Some c \<Rightarrow> Some (check_violation c)
      | None \<Rightarrow> (case venue_unique v (filter (\<lambda>w. ve_VenueID w \<noteq> ve_VenueID v) (tb_venues t)) of
           Some i \<Rightarrow> Some (unique_violation i)
         | None \<Rightarrow> (case ve_AccountID v of None \<Rightarrow> None
             | Some a \<Rightarrow> if account_exists a t then None else Some (fk_violation ''venues_account_id_fkey''))))"

definition insert_venue :: "time \<Rightarrow> Venue \<Rightarrow> account_tables \<Rightarrow> Venue result \<times> account_tables" where
  "insert_venue now venue t =
     (let row = venue\<lparr>ve_VenueID := tb_next_venue t, ve_CreatedAt := now, ve_UpdatedAt := now, ve_LastUsedAt := None,
            ve_ArchivedAt := None, ve_ArchivedReason := []\<rparr>
      in case venue_violation row t of Some e \<Rightarrow> (Inl e, t)
         | None \<Rightarrow> (Inr row, t\<lparr>tb_venues := tb_venues t @ [row], tb_next_venue := tb_next_venue t + 1\<rparr>))"

definition CreateVenue :: "time \<Rightarrow> Venue \<Rightarrow> Venue adb" where
  "CreateVenue now venue =
     (case ValidateMarketModes (ve_Market venue) (ve_MarginMode venue) (ve_PositionMode venue) of
        Some err \<Rightarrow> return_sql (Inl err)
      | None \<Rightarrow>
          let status = (if ve_Status venue = 0 then VenueStatusActive else ve_Status venue);
              keyVersion = (let k = trim_space (ve_CredentialKeyVersion venue) in if k = [] then ''v1'' else k)
          in map_error conflict_on_unique
               (exec_sql (insert_venue now (venue\<lparr>ve_Status := status, ve_CredentialKeyVersion := keyVersion\<rparr>))))"

definition GetVenue :: "int \<Rightarrow> int \<Rightarrow> Venue adb" where
  "GetVenue venueID userID = query_row (\<lambda>t.
     filter (\<lambda>v. ve_VenueID v = venueID \<and> (0 < userID \<longrightarrow> ve_UserID v = userID)) (tb_venues t))"

definition ListVenues :: "int \<Rightarrow> int \<Rightarrow> bool \<Rightarrow> bool \<Rightarrow> int \<Rightarrow> int \<Rightarrow> (Venue list \<times> PageMeta) adb" where
  "ListVenues userID accountID includeUnbound includeInactive limit offset = (case repoPage limit offset of (l, o') \<Rightarrow>
     pageOf (\<lambda>t. sort_key (\<lambda>v. - ve_CreatedAt v) (filter (\<lambda>v. ve_UserID v = userID
         \<and> (if 0 < accountID then (if includeUnbound then ve_AccountID v = Some accountID \<or> ve_AccountID v = None
              else ve_AccountID v = Some accountID)
            else (\<not> includeUnbound \<longrightarrow> ve_AccountID v \<noteq> None))
         \<and> (\<not> includeInactive \<longrightarrow> ve_Status v = VenueStatusActive)) (tb_venues t))) l o')"

definition lockAccountEnvironment :: "int \<Rightarrow> int \<Rightarrow> int adb" where
  "lockAccountEnvironment userID accountID = query_row (\<lambda>t. map ar_environment
     (filter (\<lambda>r. ar_account_id r = accountID \<and> ar_user_id r = userID \<and> ar_status r = AccountStatusActive) (tb_accounts t)))"

definition is_active_code :: "int \<Rightarrow> bool" where
  "is_active_code status = (status = 3 \<or> status = 4)"

definition active_sessions :: "int \<Rightarrow> int \<Rightarrow> account_tables \<Rightarrow> session_row list" where
  "active_sessions userID accountID t =
     filter (\<lambda>s. sr_user_id s = userID \<and> sr_account_id s = accountID \<and> is_active_code (sr_status s)) (tb_sessions t)"

definition CountActiveSessionsForAccount :: "int \<Rightarrow> int \<Rightarrow> int adb" where
  "CountActiveSessionsForAccount userID accountID = query_sql (\<lambda>t. int (length (active_sessions userID accountID t)))"

definition ensureNoActiveAccountSessions :: "int \<Rightarrow> int \<Rightarrow> unit adb" where
  "ensureNoActiveAccountSessions userID accountID =
     then_sql (CountActiveSessionsForAccount userID accountID)
       (\<lambda>n. return_sql (if 0 < n then Inl RepoConflict else Inr ()))"

definition insertVenueEvent :: "time \<Rightarrow> int \<Rightarrow> int option \<Rightarrow> int \<Rightarrow> int \<Rightarrow> string \<Rightarrow> unit adb" where
  "insertVenueEvent now venueID accountID userID eventType reason = exec_sql (\<lambda>t.
     (Inr (), t\<lparr>tb_venue_events := tb_venue_events t @ [\<lparr>vn_EventID = tb_next_event t, vn_VenueID = venueID, vn_AccountID = accountID,
        vn_UserID = userID, vn_EventType = eventType, vn_Reason = reason, vn_CreatedAt = now\<rparr>],
        tb_next_event := tb_next_event t + 1\<rparr>))"

text \<open>An update of one venue row returns the new row, or nothing when no row matches.\<close>

definition replace_venue :: "Venue \<Rightarrow> Venue list \<Rightarrow> Venue list" where
  "replace_venue v vs = map (\<lambda>w. if ve_VenueID w = ve_VenueID v then v else w) vs"

definition update_venue :: "int \<Rightarrow> int \<Rightarrow> (Venue \<Rightarrow> Venue) \<Rightarrow> account_tables \<Rightarrow> Venue result \<times> account_tables" where
  "update_venue venueID userID f t =
     (case filter (\<lambda>v. ve_VenueID v = venueID \<and> ve_UserID v = userID) (tb_venues t) of
        [] \<Rightarrow> (Inl RepoNotFound, t)
      | v # _ \<Rightarrow> (case venue_violation (f v) t of Some e \<Rightarrow> (Inl e, t)
          | None \<Rightarrow> (Inr (f v), t\<lparr>tb_venues := replace_venue (f v) (tb_venues t)\<rparr>)))"

definition selectVenueForUpdate :: "int \<Rightarrow> int \<Rightarrow> Venue adb" where
  "selectVenueForUpdate venueID userID = query_row (\<lambda>t. filter (\<lambda>v. ve_VenueID v = venueID \<and> ve_UserID v = userID) (tb_venues t))"

definition set_wallet_account :: "int option \<Rightarrow> int \<Rightarrow> unit adb" where
  "set_wallet_account accountID venueID = exec_sql (\<lambda>t. (Inr (), t\<lparr>tb_wallets :=
     map (\<lambda>w. if wr_venue_id w = venueID then w\<lparr>wr_account_id := accountID\<rparr> else w) (tb_wallets t)\<rparr>))"

definition bindVenueTx :: "time \<Rightarrow> int \<Rightarrow> int \<Rightarrow> int \<Rightarrow> string \<Rightarrow> Venue adb" where
  "bindVenueTx now userID accountID venueID reason =
     then_sql (lockAccountEnvironment userID accountID) (\<lambda>accountEnv.
     then_sql (ensureNoActiveAccountSessions userID accountID) (\<lambda>_.
     then_sql (selectVenueForUpdate venueID userID) (\<lambda>venue.
     if ve_Environment venue \<noteq> accountEnv \<or> ve_Status venue \<noteq> VenueStatusActive then return_sql (Inl RepoConflict)
     else
     then_sql (case ve_AccountID venue of None \<Rightarrow> return_sql (Inr ())
         | Some a \<Rightarrow> if a \<noteq> accountID then ensureNoActiveAccountSessions userID a else return_sql (Inr ())) (\<lambda>_.
     then_sql (map_error conflict_on_unique (exec_sql (update_venue venueID userID
         (\<lambda>v. v\<lparr>ve_AccountID := Some accountID, ve_UpdatedAt := now\<rparr>)))) (\<lambda>updated.
     then_sql (case ve_AccountID venue of None \<Rightarrow> return_sql (Inr ())
         | Some a \<Rightarrow> if a \<noteq> accountID then insertVenueEvent now venueID (Some a) userID 2 reason else return_sql (Inr ())) (\<lambda>_.
     then_sql (insertVenueEvent now venueID (Some accountID) userID 1 reason) (\<lambda>_.
     then_sql (set_wallet_account (Some accountID) venueID) (\<lambda>_.
     return_sql (Inr updated)))))))))"

definition BindVenue :: "time \<Rightarrow> int \<Rightarrow> int \<Rightarrow> int \<Rightarrow> string \<Rightarrow> Venue adb" where
  "BindVenue now userID accountID venueID reason = tx_sql (bindVenueTx now userID accountID venueID reason)"

definition releaseVenueTx :: "time \<Rightarrow> int \<Rightarrow> int \<Rightarrow> string \<Rightarrow> Venue adb" where
  "releaseVenueTx now userID venueID reason =
     then_sql (selectVenueForUpdate venueID userID) (\<lambda>venue.
     then_sql (case ve_AccountID venue of None \<Rightarrow> return_sql (Inr ()) | Some a \<Rightarrow> ensureNoActiveAccountSessions userID a) (\<lambda>_.
     then_sql (exec_sql (update_venue venueID userID (\<lambda>v. v\<lparr>ve_AccountID := None, ve_UpdatedAt := now\<rparr>))) (\<lambda>updated.
     then_sql (insertVenueEvent now venueID (ve_AccountID venue) userID 2 reason) (\<lambda>_.
     then_sql (set_wallet_account None venueID) (\<lambda>_.
     return_sql (Inr updated))))))"

definition ReleaseVenue :: "time \<Rightarrow> int \<Rightarrow> int \<Rightarrow> string \<Rightarrow> Venue adb" where
  "ReleaseVenue now userID venueID reason = tx_sql (releaseVenueTx now userID venueID reason)"

text \<open>The update of an archived venue is a plain statement: matching no row is not an error.\<close>

definition archive_row :: "time \<Rightarrow> int \<Rightarrow> int \<Rightarrow> string \<Rightarrow> account_tables \<Rightarrow> unit result \<times> account_tables" where
  "archive_row now venueID userID reason t =
     (case update_venue venueID userID (\<lambda>v. v\<lparr>ve_AccountID := None, ve_Status := VenueStatusArchived, ve_ArchivedAt := Some now,
         ve_ArchivedReason := reason, ve_UpdatedAt := now\<rparr>) t of
        (Inl e, t') \<Rightarrow> (if e = RepoNotFound then Inr () else Inl e, t')
      | (Inr v, t') \<Rightarrow> (Inr (), t'))"

definition archiveVenueTx :: "time \<Rightarrow> int \<Rightarrow> int \<Rightarrow> string \<Rightarrow> unit adb" where
  "archiveVenueTx now userID venueID reason =
     then_sql (selectVenueForUpdate venueID userID) (\<lambda>venue.
     then_sql (case ve_AccountID venue of None \<Rightarrow> return_sql (Inr ()) | Some a \<Rightarrow> ensureNoActiveAccountSessions userID a) (\<lambda>_.
     then_sql (exec_sql (archive_row now venueID userID reason)) (\<lambda>_.
     then_sql (insertVenueEvent now venueID (ve_AccountID venue) userID 3 reason) (\<lambda>_.
     exec_sql (\<lambda>t. (Inr (), t\<lparr>tb_wallets := filter (\<lambda>w. wr_venue_id w \<noteq> venueID) (tb_wallets t)\<rparr>))))))"

definition ArchiveVenue :: "time \<Rightarrow> int \<Rightarrow> int \<Rightarrow> string \<Rightarrow> unit adb" where
  "ArchiveVenue now userID venueID reason = tx_sql (archiveVenueTx now userID venueID reason)"

definition by_route :: "Venue list \<Rightarrow> Venue list" where
  "by_route = sort_key (\<lambda>v. (ve_Exchange v, ve_Market v))"

definition ListActiveAccountVenues :: "int \<Rightarrow> int \<Rightarrow> Venue list adb" where
  "ListActiveAccountVenues userID accountID = query_sql (\<lambda>t. by_route
     (filter (\<lambda>v. ve_UserID v = userID \<and> ve_AccountID v = Some accountID \<and> ve_Status v = VenueStatusActive) (tb_venues t)))"

definition listActiveAccountVenuesTx :: "int \<Rightarrow> Venue list adb" where
  "listActiveAccountVenuesTx accountID = query_sql (\<lambda>t. by_route
     (filter (\<lambda>v. ve_AccountID v = Some accountID \<and> ve_Status v = VenueStatusActive) (tb_venues t)))"

definition ResolveVenueRouteMeta :: "int \<Rightarrow> int \<Rightarrow> int \<Rightarrow> VenueRouteMeta adb" where
  "ResolveVenueRouteMeta accountID exchange market = query_row (\<lambda>t.
     concat (map (\<lambda>a. map (\<lambda>v. \<lparr>vm_AccountID = ar_account_id a, vm_VenueID = ve_VenueID v, vm_UserID = ar_user_id a,
         vm_Environment = ar_environment a, vm_Exchange = ve_Exchange v, vm_Market = ve_Market v, vm_MarginMode = ve_MarginMode v,
         vm_PositionMode = ve_PositionMode v, vm_APIKey = ve_APIKey v, vm_CredentialInfo = ve_CredentialInfo v,
         vm_DefaultFeeRate = ar_default_fee_rate a, vm_SlippageBps = ar_slippage_bps a\<rparr>)
       (filter (\<lambda>v. ve_AccountID v = Some (ar_account_id a) \<and> ve_Status v = VenueStatusActive \<and> ve_Exchange v = exchange
          \<and> ve_Market v = market) (tb_venues t)))
     (filter (\<lambda>a. ar_account_id a = accountID \<and> ar_status a = AccountStatusActive) (tb_accounts t))))"

subsection \<open>Sessions\<close>

definition session_venue_of :: "time \<Rightarrow> string \<Rightarrow> int \<Rightarrow> Venue \<Rightarrow> SessionVenue" where
  "session_venue_of now sessionID accountID v = \<lparr>sv_SessionID = sessionID, sv_VenueID = ve_VenueID v, sv_AccountID = accountID,
     sv_UserID = ve_UserID v, sv_Exchange = ve_Exchange v, sv_Market = ve_Market v, sv_Environment = ve_Environment v,
     sv_DisplayName = ve_DisplayName v, sv_APIKey = ve_APIKey v, sv_CredentialFingerprint = ve_CredentialFingerprint v,
     sv_MarginMode = ve_MarginMode v, sv_PositionMode = ve_PositionMode v, sv_VenueStatus = ve_Status v, sv_CapturedAt = now\<rparr>"

definition same_session_venue :: "SessionVenue \<Rightarrow> SessionVenue \<Rightarrow> bool" where
  "same_session_venue a b = (sv_SessionID a = sv_SessionID b \<and> sv_VenueID a = sv_VenueID b)"

definition upsert_session_venue :: "SessionVenue \<Rightarrow> account_tables \<Rightarrow> unit result \<times> account_tables" where
  "upsert_session_venue n t =
     (if sv_SessionID n \<notin> sr_session_id ` set (tb_sessions t) then (Inl (fk_violation ''session_venues_session_id_fkey''), t)
      else if \<exists>o'\<in>set (tb_session_venues t). same_session_venue o' n
        then (Inr (), t\<lparr>tb_session_venues := map (\<lambda>o'. if same_session_venue o' n
          then o'\<lparr>sv_DisplayName := sv_DisplayName n, sv_APIKey := sv_APIKey n, sv_CredentialFingerprint := sv_CredentialFingerprint n,
            sv_MarginMode := sv_MarginMode n, sv_PositionMode := sv_PositionMode n, sv_VenueStatus := sv_VenueStatus n,
            sv_CapturedAt := sv_CapturedAt n\<rparr> else o') (tb_session_venues t)\<rparr>)
      else (Inr (), t\<lparr>tb_session_venues := tb_session_venues t @ [n]\<rparr>))"

definition saveSessionVenuesTx :: "time \<Rightarrow> string \<Rightarrow> Venue list \<Rightarrow> unit adb" where
  "saveSessionVenuesTx now sessionID = each_sql (\<lambda>v.
     let accountID = (case ve_AccountID v of None \<Rightarrow> 0 | Some a \<Rightarrow> a)
     in if accountID = 0 then return_sql (Inl RepoNotFound)
        else exec_sql (upsert_session_venue (session_venue_of now sessionID accountID v)))"

definition SaveSessionVenues :: "time \<Rightarrow> string \<Rightarrow> Venue list \<Rightarrow> unit adb" where
  "SaveSessionVenues now sessionID venues = tx_sql (saveSessionVenuesTx now sessionID venues)"

definition sessionEnvironment :: "StrategySession \<Rightarrow> int" where
  "sessionEnvironment s = (if ss_Environment s \<noteq> EnvironmentDemo \<and> ss_Environment s \<noteq> EnvironmentLive then EnvironmentBacktest
     else ss_Environment s)"

definition session_row_of :: "time \<Rightarrow> StrategySession \<Rightarrow> account_row \<Rightarrow> session_row" where
  "session_row_of now s a = \<lparr>sr_session_id = ss_SessionID s, sr_account_id = ar_account_id a, sr_user_id = ar_user_id a,
     sr_strategy_id = (if ss_StrategyID s \<noteq> 0 then Some (ss_StrategyID s) else None), sr_environment = sessionEnvironment s,
     sr_status = sessionStatusCode (ss_Status s), sr_interval = ss_Interval s, sr_start_time_ms = ss_StartTimeMs s,
     sr_end_time_ms = ss_EndTimeMs s, sr_bars_processed = ss_BarsProcessed s, sr_error = ss_Error s, sr_error_code = ss_ErrorCode s,
     sr_error_message = ss_ErrorMessage s,
     sr_error_detail_json = (let d = trim_space (ss_ErrorDetailJSON s) in if d = [] then ''{}'' else d),
     sr_runtime_id = ss_RuntimeID s, sr_runtime_source = ss_RuntimeSource s, sr_runtime_name = ss_RuntimeName s,
     sr_session_type = normalizeSessionType (sessionEnvironment s) (ss_SessionType s),
     sr_runtime_version = normalizeRuntimeVersion (ss_RuntimeVersion s), sr_session_name = ss_SessionName s,
     sr_started_at = (if is_zero (ss_StartedAt s) then None else Some (ss_StartedAt s)), sr_completed_at = ss_CompletedAt s,
     sr_created_at = now\<rparr>"

definition session_unique :: "session_row \<Rightarrow> session_row list \<Rightarrow> string option" where
  "session_unique r others =
     (if \<exists>o'\<in>set others. sr_session_id o' = sr_session_id r then Some ''strategy_sessions_pkey''
      else if is_active_code (sr_status r) \<and> (\<exists>o'\<in>set others. is_active_code (sr_status o') \<and> sr_account_id o' = sr_account_id r)
        then Some ''uq_strategy_sessions_active_account''
      else None)"

definition insert_session :: "time \<Rightarrow> StrategySession \<Rightarrow> account_tables \<Rightarrow> int result \<times> account_tables" where
  "insert_session now s t =
     (case filter (\<lambda>a. ar_account_id a = ss_AccountID s \<and> ar_environment a = sessionEnvironment s) (tb_accounts t) of
        [] \<Rightarrow> (Inr 0, t)
      | a # _ \<Rightarrow> (case session_unique (session_row_of now s a) (tb_sessions t) of
            Some i \<Rightarrow> (Inl (unique_violation i), t)
          | None \<Rightarrow> (Inr 1, t\<lparr>tb_sessions := tb_sessions t @ [session_row_of now s a]\<rparr>)))"

definition saveSessionTx :: "time \<Rightarrow> StrategySession \<Rightarrow> unit adb" where
  "saveSessionTx now s =
     then_sql (map_error conflict_on_unique (exec_sql (insert_session now s))) (\<lambda>n.
     if n = 0 then return_sql (Inl RepoNotFound)
     else
     then_sql (listActiveAccountVenuesTx (ss_AccountID s)) (\<lambda>venues.
     saveSessionVenuesTx now (ss_SessionID s) venues))"

definition SaveSession :: "time \<Rightarrow> StrategySession \<Rightarrow> unit adb" where
  "SaveSession now s = tx_sql (saveSessionTx now s)"

text \<open>An update of the matching session rows reports how many there were.\<close>

definition update_sessions :: "(session_row \<Rightarrow> bool) \<Rightarrow> (session_row \<Rightarrow> session_row) \<Rightarrow> account_tables \<Rightarrow> int result \<times> account_tables" where
  "update_sessions P f t = (Inr (int (length (filter P (tb_sessions t)))),
     t\<lparr>tb_sessions := map (\<lambda>r. if P r then f r else r) (tb_sessions t)\<rparr>)"

definition UpdateSession :: "time \<Rightarrow> string \<Rightarrow> string \<Rightarrow> int \<Rightarrow> string \<Rightarrow> string \<Rightarrow> unit adb" where
  "UpdateSession now sessionID status barsProcessed errMsg runtimeID =
     (let statusCode = sessionStatusCode status
      in then_sql (exec_sql (update_sessions
             (\<lambda>r. sr_session_id r = sessionID \<and> is_active_code (sr_status r) \<and> (runtimeID \<noteq> [] \<longrightarrow> sr_runtime_id r = runtimeID))
             (\<lambda>r. r\<lparr>sr_status := statusCode, sr_bars_processed := barsProcessed, sr_error := errMsg,
                sr_completed_at := (if \<not> is_active_code statusCode then Some now else sr_completed_at r)\<rparr>)))
           (\<lambda>n. return_sql (if n = 0 then Inl RepoNotFound else Inr ())))"

definition MarkRuntimeSessionsRecoverable :: "time \<Rightarrow> string \<Rightarrow> string \<Rightarrow> int adb" where
  "MarkRuntimeSessionsRecoverable now runtimeID errMsg =
     (let rid = trim_space runtimeID
      in if rid = [] then return_sql (Inl RepoNotFound)
         else exec_sql (update_sessions (\<lambda>r. sr_runtime_id r = rid \<and> is_active_code (sr_status r))
           (\<lambda>r. r\<lparr>sr_status := 5, sr_error := errMsg,
              sr_completed_at := (case sr_completed_at r of None \<Rightarrow> Some now | Some c \<Rightarrow> Some c)\<rparr>)))"

definition scanSession :: "session_row \<Rightarrow> StrategySession" where
  "scanSession r = \<lparr>ss_SessionID = sr_session_id r, ss_AccountID = sr_account_id r, ss_UserID = sr_user_id r,
     ss_StrategyID = (case sr_strategy_id r of None \<Rightarrow> 0 | Some i \<Rightarrow> i), ss_Environment = sr_environment r,
     ss_Status = sessionStatusText (sr_status r), ss_Interval = sr_interval r, ss_StartTimeMs = sr_start_time_ms r,
     ss_EndTimeMs = sr_end_time_ms r, ss_BarsProcessed = sr_bars_processed r, ss_Error = sr_error r, ss_ErrorCode = sr_error_code r,
     ss_ErrorMessage = sr_error_message r, ss_ErrorDetailJSON = sr_error_detail_json r, ss_RuntimeID = sr_runtime_id r,
     ss_RuntimeSource = sr_runtime_source r, ss_RuntimeName = sr_runtime_name r,
     ss_SessionType = normalizeSessionType (sr_environment r) (sr_session_type r),
     ss_RuntimeVersion = normalizeRuntimeVersion (sr_runtime_version r), ss_SessionName = sr_session_name r,
     ss_StartedAt = (case sr_started_at r of None \<Rightarrow> 0 | Some s \<Rightarrow> s), ss_CompletedAt = sr_completed_at r,
     ss_CreatedAt = sr_created_at r\<rparr>"

definition GetSession :: "string \<Rightarrow> int \<Rightarrow> StrategySession adb" where
  "GetSession sessionID userID = query_row (\<lambda>t. map scanSession
     (filter (\<lambda>r. sr_session_id r = sessionID \<and> (0 < userID \<longrightarrow> sr_user_id r = userID)) (tb_sessions t)))"

definition ListSessions :: "int \<Rightarrow> int \<Rightarrow> int \<Rightarrow> int \<Rightarrow> StrategySession list adb" where
  "ListSessions accountID userID limit offset =
     (let l = (if limit \<le> 0 then 50 else limit); o' = (if offset < 0 then 0 else offset)
      in query_sql (\<lambda>t. map scanSession (take (nat l) (drop (nat o') (sort_key (\<lambda>r. - sr_created_at r)
           (filter (\<lambda>r. sr_account_id r = accountID \<and> (0 < userID \<longrightarrow> sr_user_id r = userID)) (tb_sessions t)))))))"

text \<open>The \<^verbatim>\<open>ILIKE\<close> operator: a percent sign stands for any text, an underscore for one character, a backslash escapes.\<close>

fun sql_like :: "string \<Rightarrow> string \<Rightarrow> bool" where
  "sql_like [] s = (s = [])"
| "sql_like (p # ps) s =
     (if p = CHR ''%'' then sql_like ps s \<or> (case s of [] \<Rightarrow> False | _ # s' \<Rightarrow> sql_like (p # ps) s')
      else case s of [] \<Rightarrow> False
        | c # s' \<Rightarrow> if p = CHR ''_'' then sql_like ps s'
            else if p = CHR 0x5C then (case ps of [] \<Rightarrow> False | q # qs \<Rightarrow> q = c \<and> sql_like qs s')
            else p = c \<and> sql_like ps s')"

record SessionListFilter =
  sf_AccountID :: int
  sf_UserID :: int
  sf_RuntimeID :: string
  sf_StrategyID :: int
  sf_Environment :: int
  sf_EnvironmentSet :: bool
  sf_Status :: string
  sf_SessionIDContains :: string
  sf_StartedAfterMs :: int
  sf_StartedBeforeMs :: int
  sf_Limit :: int
  sf_Offset :: int

definition unix_epoch :: time where "unix_epoch = 62135596800 * second"

definition unix_milli :: "int \<Rightarrow> time" where "unix_milli ms = unix_epoch + ms * millisecond"

definition session_matches :: "SessionListFilter \<Rightarrow> session_row \<Rightarrow> bool" where
  "session_matches f r =
     ((0 < sf_AccountID f \<longrightarrow> sr_account_id r = sf_AccountID f)
      \<and> (0 < sf_UserID f \<longrightarrow> sr_user_id r = sf_UserID f)
      \<and> (sf_RuntimeID f \<noteq> [] \<longrightarrow> sr_runtime_id r = sf_RuntimeID f)
      \<and> (0 < sf_StrategyID f \<longrightarrow> sr_strategy_id r = Some (sf_StrategyID f))
      \<and> (sf_EnvironmentSet f \<longrightarrow> sr_environment r = int16_of (sf_Environment f))
      \<and> (trim_space (sf_Status f) \<noteq> [] \<longrightarrow> sr_status r = sessionStatusCode (trim_space (sf_Status f)))
      \<and> (trim_space (sf_SessionIDContains f) \<noteq> [] \<longrightarrow>
           sql_like (''%'' @ to_lower (trim_space (sf_SessionIDContains f)) @ ''%'') (to_lower (sr_session_id r)))
      \<and> (0 < sf_StartedAfterMs f \<longrightarrow> (case sr_started_at r of None \<Rightarrow> False | Some s \<Rightarrow> unix_milli (sf_StartedAfterMs f) \<le> s))
      \<and> (0 < sf_StartedBeforeMs f \<longrightarrow> (case sr_started_at r of None \<Rightarrow> False | Some s \<Rightarrow> s \<le> unix_milli (sf_StartedBeforeMs f))))"

definition ListSessionsPage :: "SessionListFilter \<Rightarrow> (StrategySession list \<times> PageMeta) adb" where
  "ListSessionsPage f = (case repoPage (sf_Limit f) (sf_Offset f) of (l, o') \<Rightarrow>
     pageOf (\<lambda>t. map scanSession (sort_key (\<lambda>r. - sr_created_at r) (filter (session_matches f) (tb_sessions t)))) l o')"

definition ListRunningSessions :: "string \<Rightarrow> StrategySession list adb" where
  "ListRunningSessions runtimeID = query_sql (\<lambda>t. map scanSession
     (filter (\<lambda>r. is_active_code (sr_status r) \<and> (runtimeID \<noteq> [] \<longrightarrow> sr_runtime_id r = runtimeID)) (tb_sessions t)))"

subsection \<open>Strategies\<close>

definition insert_strategy :: "time \<Rightarrow> Strategy \<Rightarrow> account_tables \<Rightarrow> int result \<times> account_tables" where
  "insert_strategy now s t =
     (let row = s\<lparr>sg_StrategyID := tb_next_strategy t, sg_Archived := False, sg_CreatedAt := now,
            sg_RuntimeVersion := normalizeRuntimeVersion (sg_RuntimeVersion s), sg_RuntimeProfile := normalizeRuntimeProfile (sg_RuntimeProfile s)\<rparr>
      in if \<exists>r\<in>set (tb_strategies t). sg_UserID r = sg_UserID s \<and> sg_Name r = sg_Name s \<and> sg_Version r = sg_Version s
           then (Inl (unique_violation ''idx_strategies_user_name_version''), t)
         else if sg_UserID s \<notin> us_ID ` set (tb_users t) then (Inl (fk_violation ''fk_strategies_user_id''), t)
         else (Inr (tb_next_strategy t), t\<lparr>tb_strategies := tb_strategies t @ [row], tb_next_strategy := tb_next_strategy t + 1\<rparr>))"

definition CreateStrategy :: "time \<Rightarrow> Strategy \<Rightarrow> int adb" where
  "CreateStrategy now s = exec_sql (insert_strategy now s)"

definition scanStrategy :: "Strategy \<Rightarrow> Strategy" where
  "scanStrategy s = s\<lparr>sg_RuntimeVersion := normalizeRuntimeVersion (sg_RuntimeVersion s),
     sg_RuntimeProfile := normalizeRuntimeProfile (sg_RuntimeProfile s)\<rparr>"

definition GetStrategy :: "int \<Rightarrow> int \<Rightarrow> Strategy adb" where
  "GetStrategy strategyID userID = query_row (\<lambda>t. map scanStrategy
     (filter (\<lambda>s. sg_StrategyID s = strategyID \<and> (0 < userID \<longrightarrow> sg_UserID s = userID)) (tb_strategies t)))"

definition listed_strategies :: "int \<Rightarrow> string \<Rightarrow> bool \<Rightarrow> account_tables \<Rightarrow> Strategy list" where
  "listed_strategies userID namePrefix activeOnly t = map (\<lambda>s. scanStrategy (s\<lparr>sg_Code := []\<rparr>))
     (sort_key (\<lambda>s. (- sg_CreatedAt s, - sg_StrategyID s)) (filter (\<lambda>s. (0 < userID \<longrightarrow> sg_UserID s = userID)
        \<and> (namePrefix \<noteq> [] \<longrightarrow> sql_like (namePrefix @ ''%'') (sg_Name s)) \<and> (activeOnly \<longrightarrow> \<not> sg_Archived s)) (tb_strategies t)))"

definition ListStrategies :: "int \<Rightarrow> string \<Rightarrow> bool \<Rightarrow> Strategy list adb" where
  "ListStrategies userID namePrefix activeOnly = query_sql (listed_strategies userID namePrefix activeOnly)"

definition ListStrategiesPage :: "int \<Rightarrow> string \<Rightarrow> bool \<Rightarrow> int \<Rightarrow> int \<Rightarrow> (Strategy list \<times> PageMeta) adb" where
  "ListStrategiesPage userID namePrefix activeOnly limit offset = (case repoPage limit offset of (l, o') \<Rightarrow>
     pageOf (listed_strategies userID namePrefix activeOnly) l o')"

definition not_found_if_none :: "int adb \<Rightarrow> unit adb" where
  "not_found_if_none m = then_sql m (\<lambda>n. return_sql (if n = 0 then Inl RepoNotFound else Inr ()))"

definition ArchiveStrategy :: "int \<Rightarrow> unit adb" where
  "ArchiveStrategy strategyID = not_found_if_none (exec_sql (\<lambda>t.
     (Inr (int (length (filter (\<lambda>s. sg_StrategyID s = strategyID) (tb_strategies t)))),
      t\<lparr>tb_strategies := map (\<lambda>s. if sg_StrategyID s = strategyID then s\<lparr>sg_Archived := True\<rparr> else s) (tb_strategies t)\<rparr>)))"

subsection \<open>Mounted strategies\<close>

definition is_mount :: "int \<Rightarrow> int \<Rightarrow> mount_row \<Rightarrow> bool" where
  "is_mount accountID strategyID m = (mr_account_id m = accountID \<and> mr_strategy_id m = strategyID)"

definition insert_mount :: "time \<Rightarrow> int \<Rightarrow> int \<Rightarrow> account_tables \<Rightarrow> unit result \<times> account_tables" where
  "insert_mount now accountID strategyID t =
     (if \<exists>m\<in>set (tb_mounts t). is_mount accountID strategyID m then (Inr (), t)
      else if \<not> account_exists accountID t then (Inl (fk_violation ''account_strategies_account_id_fkey''), t)
      else if strategyID \<notin> sg_StrategyID ` set (tb_strategies t) then (Inl (fk_violation ''account_strategies_strategy_id_fkey''), t)
      else (Inr (), t\<lparr>tb_mounts := tb_mounts t @ [\<lparr>mr_account_id = accountID, mr_strategy_id = strategyID, mr_active = False, mr_mounted_at = now\<rparr>]\<rparr>))"

definition MountStrategy :: "time \<Rightarrow> int \<Rightarrow> int \<Rightarrow> unit adb" where
  "MountStrategy now accountID strategyID = exec_sql (insert_mount now accountID strategyID)"

definition UnmountStrategy :: "int \<Rightarrow> int \<Rightarrow> unit adb" where
  "UnmountStrategy accountID strategyID = not_found_if_none (exec_sql (\<lambda>t.
     (Inr (int (length (filter (is_mount accountID strategyID) (tb_mounts t)))),
      t\<lparr>tb_mounts := filter (\<lambda>m. \<not> is_mount accountID strategyID m) (tb_mounts t)\<rparr>)))"

definition set_active :: "(mount_row \<Rightarrow> bool) \<Rightarrow> bool \<Rightarrow> int adb" where
  "set_active P b = exec_sql (\<lambda>t. (Inr (int (length (filter P (tb_mounts t)))),
     t\<lparr>tb_mounts := map (\<lambda>m. if P m then m\<lparr>mr_active := b\<rparr> else m) (tb_mounts t)\<rparr>))"

definition ActivateStrategy :: "int \<Rightarrow> int \<Rightarrow> unit adb" where
  "ActivateStrategy accountID strategyID = tx_sql (
     then_sql (set_active (\<lambda>m. mr_account_id m = accountID) False) (\<lambda>_.
     not_found_if_none (set_active (is_mount accountID strategyID) True)))"

definition DeactivateStrategy :: "int \<Rightarrow> int \<Rightarrow> unit adb" where
  "DeactivateStrategy accountID strategyID = not_found_if_none (set_active (is_mount accountID strategyID) False)"

definition mounted :: "(mount_row \<Rightarrow> bool) \<Rightarrow> account_tables \<Rightarrow> (mount_row \<times> Strategy) list" where
  "mounted P t = concat (map (\<lambda>m. map (Pair m) (filter (\<lambda>s. sg_StrategyID s = mr_strategy_id m) (tb_strategies t))) (filter P (tb_mounts t)))"

definition ListAccountStrategies :: "int \<Rightarrow> AccountStrategy list adb" where
  "ListAccountStrategies accountID = query_sql (\<lambda>t. map (\<lambda>(m, s). \<lparr>at_AccountID = accountID, at_StrategyID = sg_StrategyID s,
       at_Active = mr_active m, at_MountedAt = mr_mounted_at m, at_Strategy = scanStrategy (s\<lparr>sg_Code := []\<rparr>)\<rparr>)
     (sort_key (\<lambda>(m, s). - mr_mounted_at m) (mounted (\<lambda>m. mr_account_id m = accountID) t)))"

definition GetActiveStrategy :: "int \<Rightarrow> Strategy adb" where
  "GetActiveStrategy accountID = query_row (\<lambda>t. map (\<lambda>(m, s). scanStrategy s) (mounted (\<lambda>m. mr_account_id m = accountID \<and> mr_active m) t))"

subsection \<open>Wallet states and snapshots\<close>

definition UpdateAccountState :: "time \<Rightarrow> OnlineAccountInfo \<Rightarrow> unit adb" where
  "UpdateAccountState wallclock info =
     (case marshal_error (oai_Futures info) (oai_Spot info) of
        Some e \<Rightarrow> return_sql (Inl (Wrapf ''marshal snapshot: '' e))
      | None \<Rightarrow> exec_sql (\<lambda>t. (Inr (), t\<lparr>tb_accounts := map (\<lambda>a. if ar_account_id a = oai_AccountID info
          then a\<lparr>ar_futures := oai_Futures info, ar_spot := oai_Spot info, ar_total_value := oai_TotalValue info,
            ar_wallet_balance := oai_WalletBalance info, ar_available_balance := oai_AvailableBalance info,
            ar_state_updated_at := Some wallclock, ar_updated_at := wallclock\<rparr> else a) (tb_accounts t)\<rparr>)))"

definition state_info :: "account_row \<Rightarrow> OnlineAccountInfo" where
  "state_info a = \<lparr>oai_AccountID = ar_account_id a, oai_Environment = ar_environment a, oai_Futures = ar_futures a, oai_Spot = ar_spot a,
     oai_TotalValue = ar_total_value a, oai_WalletBalance = ar_wallet_balance a, oai_AvailableBalance = ar_available_balance a,
     oai_UpdatedAt = (case ar_state_updated_at a of None \<Rightarrow> 0 | Some u \<Rightarrow> u)\<rparr>"

definition GetAccountState :: "int \<Rightarrow> OnlineAccountInfo adb" where
  "GetAccountState accountID = query_row (\<lambda>t. map state_info (filter (\<lambda>a. ar_account_id a = accountID) (tb_accounts t)))"

definition wallet_row_of :: "time \<Rightarrow> Venue \<Rightarrow> OnlineAccountInfo \<Rightarrow> wallet_row" where
  "wallet_row_of wallclock venue info = \<lparr>wr_venue_id = ve_VenueID venue, wr_account_id = ve_AccountID venue, wr_user_id = ve_UserID venue,
     wr_exchange = ve_Exchange venue, wr_environment = ve_Environment venue, wr_market = ve_Market venue,
     wr_total_value = oai_TotalValue info, wr_wallet_balance = oai_WalletBalance info, wr_available_balance = oai_AvailableBalance info,
     wr_futures = oai_Futures info, wr_spot = oai_Spot info,
     wr_updated_at = (if is_zero (oai_UpdatedAt info) then wallclock else oai_UpdatedAt info)\<rparr>"

definition wallet_violation :: "wallet_row \<Rightarrow> account_tables \<Rightarrow> error option" where
  "wallet_violation w t =
     (if wr_exchange w \<notin> {1, 2} then Some (check_violation ''chk_venue_wallet_states_exchange'')
      else if wr_environment w \<notin> {0, 1, 2} then Some (check_violation ''chk_venue_wallet_states_environment'')
      else if wr_market w \<notin> {1, 2, 3} then Some (check_violation ''chk_venue_wallet_states_market'')
      else if wr_venue_id w \<notin> ve_VenueID ` set (tb_venues t) then Some (fk_violation ''venue_wallet_states_venue_id_fkey'')
      else case wr_account_id w of None \<Rightarrow> None
        | Some a \<Rightarrow> if account_exists a t then None else Some (fk_violation ''venue_wallet_states_account_id_fkey''))"

definition upsert_wallet :: "wallet_row \<Rightarrow> account_tables \<Rightarrow> unit result \<times> account_tables" where
  "upsert_wallet w t =
     (case wallet_violation w t of Some e \<Rightarrow> (Inl e, t)
      | None \<Rightarrow> (Inr (), t\<lparr>tb_wallets := (if wr_venue_id w \<in> wr_venue_id ` set (tb_wallets t)
          then map (\<lambda>o'. if wr_venue_id o' = wr_venue_id w then w else o') (tb_wallets t)
          else tb_wallets t @ [w])\<rparr>))"

definition UpsertVenueWalletState :: "time \<Rightarrow> Venue \<Rightarrow> OnlineAccountInfo \<Rightarrow> unit adb" where
  "UpsertVenueWalletState wallclock venue info =
     (case marshal_error (oai_Futures info) (oai_Spot info) of
        Some e \<Rightarrow> return_sql (Inl (Wrapf ''marshal venue wallet state: '' e))
      | None \<Rightarrow> exec_sql (upsert_wallet (wallet_row_of wallclock venue info)))"

definition wallet_info :: "wallet_row \<Rightarrow> OnlineAccountInfo" where
  "wallet_info w = \<lparr>oai_AccountID = (case wr_account_id w of None \<Rightarrow> 0 | Some a \<Rightarrow> a), oai_Environment = wr_environment w,
     oai_Futures = wr_futures w, oai_Spot = wr_spot w, oai_TotalValue = wr_total_value w, oai_WalletBalance = wr_wallet_balance w,
     oai_AvailableBalance = wr_available_balance w, oai_UpdatedAt = wr_updated_at w\<rparr>"

definition GetVenueWalletState :: "int \<Rightarrow> int \<Rightarrow> OnlineAccountInfo adb" where
  "GetVenueWalletState venueID userID = query_row (\<lambda>t. map wallet_info
     (filter (\<lambda>w. wr_venue_id w = venueID \<and> (0 < userID \<longrightarrow> wr_user_id w = userID)) (tb_wallets t)))"

definition insert_snapshot :: "time \<Rightarrow> OnlineAccountInfo \<Rightarrow> int \<Rightarrow> int \<Rightarrow> string \<Rightarrow> account_tables \<Rightarrow> int result \<times> account_tables" where
  "insert_snapshot recordedAt info reason strategyID sessionID t =
     (let accounts = filter (\<lambda>a. ar_account_id a = oai_AccountID info) (tb_accounts t)
      in (Inr (int (length accounts)), t\<lparr>tb_snapshots := tb_snapshots t @ map (\<lambda>a. \<lparr>sn_time = recordedAt, sn_account_id = ar_account_id a,
            sn_user_id = ar_user_id a, sn_environment = ar_environment a, sn_total_value = oai_TotalValue info,
            sn_wallet_balance = oai_WalletBalance info, sn_available_balance = oai_AvailableBalance info, sn_snapshot_reason = reason,
            sn_strategy_id = (if strategyID \<noteq> 0 then Some strategyID else None),
            sn_session_id = (if sessionID \<noteq> [] then Some sessionID else None),
            sn_futures = oai_Futures info, sn_spot = oai_Spot info\<rparr>) accounts\<rparr>))"

definition SaveSnapshot :: "time \<Rightarrow> int \<Rightarrow> int \<Rightarrow> int \<Rightarrow> string \<Rightarrow> time \<Rightarrow> unit adb" where
  "SaveSnapshot wallclock accountID reason strategyID sessionID snapshotTime =
     then_sql (map_error (Wrapf ''get account state for snapshot: '') (GetAccountState accountID)) (\<lambda>info.
     case marshal_error (oai_Futures info) (oai_Spot info) of
       Some e \<Rightarrow> return_sql (Inl (Wrapf ''marshal snapshot: '' e))
     | None \<Rightarrow> not_found_if_none (exec_sql (insert_snapshot (if is_zero snapshotTime then wallclock else snapshotTime)
         info reason strategyID sessionID)))"

record SnapshotRow =
  st_Time :: time
  st_AccountID :: int
  st_SnapshotReason :: int
  st_TotalValue :: float64
  st_WalletBalance :: float64
  st_AvailableBalance :: float64
  st_Futures :: FuturesWallet
  st_Spot :: SpotWallet
  st_SessionID :: string
  st_StrategyID :: int

definition scanSnapshot :: "snapshot_row \<Rightarrow> SnapshotRow" where
  "scanSnapshot r = \<lparr>st_Time = sn_time r, st_AccountID = sn_account_id r, st_SnapshotReason = sn_snapshot_reason r,
     st_TotalValue = sn_total_value r, st_WalletBalance = sn_wallet_balance r, st_AvailableBalance = sn_available_balance r,
     st_Futures = sn_futures r, st_Spot = sn_spot r, st_SessionID = (case sn_session_id r of None \<Rightarrow> [] | Some s \<Rightarrow> s),
     st_StrategyID = (case sn_strategy_id r of None \<Rightarrow> 0 | Some i \<Rightarrow> i)\<rparr>"

definition session_snapshots :: "string \<Rightarrow> int \<Rightarrow> account_tables \<Rightarrow> SnapshotRow list" where
  "session_snapshots sessionID userID t = map scanSnapshot (sort_key (\<lambda>r. - sn_time r)
     (filter (\<lambda>r. sn_session_id r = Some sessionID \<and> (0 < userID \<longrightarrow> sn_user_id r = userID)) (tb_snapshots t)))"

definition ListSessionSnapshots :: "string \<Rightarrow> int \<Rightarrow> int \<Rightarrow> int \<Rightarrow> (SnapshotRow list \<times> int \<times> bool) adb" where
  "ListSessionSnapshots sessionID userID limit offset =
     (let l = (if limit \<le> 0 then 20 else limit); o' = (if offset < 0 then 0 else offset) in
      then_sql (query_sql (\<lambda>t. take (nat (l + 1)) (drop (nat o') (session_snapshots sessionID userID t)))) (\<lambda>rows.
      then_sql (query_sql (\<lambda>t. int (length (session_snapshots sessionID userID t)))) (\<lambda>total.
      return_sql (Inr (take (nat l) rows, total, l < int (length rows))))))"

end
