(* ===== verification/Exchange_Adapter.thy ===== *)
theory Exchange_Adapter
  imports Domain Lifecycle
begin

text \<open>
  Models \<^verbatim>\<open>internal/exchange/adapter\<close>: the route that selects an implementation, the
  capability records of \<^verbatim>\<open>capabilities.go\<close>, the errors of \<^verbatim>\<open>errors.go\<close> and the
  registry of \<^verbatim>\<open>registry.go\<close>.  A capability interface is the function it offers; a factory is
  the record of the capabilities it hands out, each of which may be refused with an error.  The
  credential a request carries is opaque and left out of the request records.
\<close>

record Route =
  rt_Exchange :: int
  rt_Environment :: int
  rt_Market :: int

record SymbolRule =
  sy_Symbol :: string
  sy_Market :: int
  sy_MinQty :: float64
  sy_StepSize :: float64
  sy_MinNotional :: float64
  sy_TickSize :: float64

record OrderCapability =
  cap_Market :: int
  cap_OrderTypes :: "string list"
  cap_TimeInForce :: "string list"
  cap_SupportsPostOnly :: bool
  cap_SupportsGTD :: bool
  cap_SupportsReduceOnly :: bool

record AdapterOrderRequest =
  aq_UserID :: int
  aq_AccountID :: int
  aq_VenueID :: int
  aq_Exchange :: int
  aq_Environment :: int
  aq_Market :: int
  aq_Symbol :: string
  aq_Side :: string
  aq_PositionSide :: string
  aq_MarginMode :: int
  aq_PositionMode :: int
  aq_OrderType :: string
  aq_TimeInForce :: string
  aq_PostOnly :: bool
  aq_GoodTillDate :: "time option"
  aq_ReduceOnly :: bool
  aq_Qty :: float64
  aq_Price :: "float64 option"
  aq_MarkPrice :: float64
  aq_DefaultFeeRate :: float64
  aq_SlippageBps :: float64
  aq_ClientOrderID :: string

record AdapterOrderResult =
  ar_ExchangeOrderID :: string
  ar_ClientOrderID :: string
  ar_Symbol :: string
  ar_Side :: string
  ar_PositionSide :: string
  ar_OrderType :: string
  ar_TimeInForce :: string
  ar_Status :: string
  ar_OrigQty :: float64
  ar_ExecutedQty :: float64
  ar_RemainingQty :: float64
  ar_AvgPrice :: float64
  ar_Price :: float64
  ar_Fills :: "FillDelta list"
  ar_ErrorMessage :: string
  ar_FillPending :: bool

record QueryOrderRequest =
  qo_AccountID :: int
  qo_VenueID :: int
  qo_Symbol :: string
  qo_ClientOrderID :: string
  qo_ExchangeOrderID :: string

record QueryTradesRequest =
  qt_AccountID :: int
  qt_VenueID :: int
  qt_Symbol :: string
  qt_ExchangeOrderID :: string

record UserDataOrderEvent =
  ud_EventSource :: string
  ud_EventTime :: time
  ud_Symbol :: string
  ud_ClientOrderID :: string
  ud_ExchangeOrderID :: string
  ud_ExchangeTradeID :: string
  ud_Side :: string
  ud_PositionSide :: string
  ud_OrderType :: string
  ud_TimeInForce :: string
  ud_OrderStatus :: string
  ud_ExecutionType :: string
  ud_LastFilledQty :: float64
  ud_LastFilledPrice :: float64
  ud_AccumulatedFilledQty :: float64
  ud_Fee :: float64
  ud_FeeAsset :: string
  ud_ReduceOnly :: bool

record AdapterStateReader =
  asr_QueryOrder :: "QueryOrderRequest \<Rightarrow> OrderState result"
  asr_QueryTrades :: "QueryTradesRequest \<Rightarrow> FillDelta list result"

type_synonym SymbolRulesReader = "string list \<Rightarrow> SymbolRule list result"
type_synonym OrderExecutor = "AdapterOrderRequest \<Rightarrow> AdapterOrderResult result"
type_synonym OrderCapabilityProvider = "OrderCapability result"

record Factory =
  fac_SymbolRulesReader :: "SymbolRulesReader result"
  fac_OrderExecutor :: "OrderExecutor result"
  fac_OrderCapabilityProvider :: "OrderCapabilityProvider result"
  fac_OrderStateReader :: "AdapterStateReader result"

type_synonym Registry = "Route \<rightharpoonup> Factory"

definition CodeRouteUnsupported :: string where "CodeRouteUnsupported = ''route_unsupported''"
definition CodeCapabilityUnsupported :: string where
  "CodeCapabilityUnsupported = ''capability_unsupported''"

definition RouteUnsupported :: "Route \<Rightarrow> error" where
  "RouteUnsupported route = Unwrapping
     (CodeRouteUnsupported @ '': exchange='' @ Exchange_String (rt_Exchange route)
      @ '' environment='' @ Environment_String (rt_Environment route)
      @ '' market='' @ Market_String (rt_Market route))
     (Sentinel CodeRouteUnsupported)"

definition CapabilityUnsupported :: "string \<Rightarrow> error" where
  "CapabilityUnsupported capability = Unwrapping
     (if capability \<noteq> [] then CodeCapabilityUnsupported @ '': '' @ capability else CodeCapabilityUnsupported)
     (Sentinel CodeCapabilityUnsupported)"

definition NewRegistry :: Registry where "NewRegistry = Map.empty"

definition Register :: "Route \<Rightarrow> Factory \<Rightarrow> Registry \<Rightarrow> Registry" where
  "Register route factory r = r(route \<mapsto> factory)"

definition factory_of :: "Registry \<Rightarrow> Route \<Rightarrow> Factory result" where
  "factory_of r route = (case r route of None \<Rightarrow> Inl (RouteUnsupported route) | Some f \<Rightarrow> Inr f)"

definition Registry_SymbolRulesReader :: "Registry \<Rightarrow> Route \<Rightarrow> SymbolRulesReader result" where
  "Registry_SymbolRulesReader r route = bind_result (factory_of r route) fac_SymbolRulesReader"

definition Registry_OrderExecutor :: "Registry \<Rightarrow> Route \<Rightarrow> OrderExecutor result" where
  "Registry_OrderExecutor r route = bind_result (factory_of r route) fac_OrderExecutor"

definition Registry_OrderCapabilityProvider :: "Registry \<Rightarrow> Route \<Rightarrow> OrderCapabilityProvider result" where
  "Registry_OrderCapabilityProvider r route = bind_result (factory_of r route) fac_OrderCapabilityProvider"

definition Registry_OrderStateReader :: "Registry \<Rightarrow> Route \<Rightarrow> AdapterStateReader result" where
  "Registry_OrderStateReader r route = bind_result (factory_of r route) fac_OrderStateReader"

lemma factory_of_unregistered:
  "r route = None \<Longrightarrow> factory_of r route = Inl (RouteUnsupported route)"
  by (simp add: factory_of_def)

lemma factory_of_Register:
  "factory_of (Register route f r) route' = (if route' = route then Inr f else factory_of r route')"
  by (simp add: factory_of_def Register_def)

lemma RouteUnsupported_is [simp]: "errors_is (RouteUnsupported route) CodeRouteUnsupported"
  by (simp add: RouteUnsupported_def)

end
