(* ===== verification/Order_Repository.thy ===== *)
theory Order_Repository
  imports Order_Tables "HOL-Library.Product_Lexorder" "HOL-Library.List_Lexorder" "HOL-Library.Char_ord"
begin

text \<open>
  The operations of \<^verbatim>\<open>internal/order/repository/timescale.go\<close>, each as the SQL statements
  it sends: the upsert of intents, attempts and their finalisation in one transaction, lookups,
  the scans of open orders, the recovery marks, and the lifecycle event log with its backfill of
  fills.
\<close>

subsection \<open>Intents\<close>

definition intent_checks :: "intent_row \<Rightarrow> bool" where
  "intent_checks r = (ri_environment r \<in> {0, 1, 2} \<and> ri_exchange r \<in> {1, 2} \<and> ri_market r \<in> {1, 2, 3}
     \<and> ri_side r \<in> {1, 2} \<and> ri_order_type r \<in> {1, 2} \<and> ri_status r \<in> {1, 2})"

definition intent_row_of :: "OrderIntent \<Rightarrow> int \<Rightarrow> intent_row" where
  "intent_row_of intent sideCode =
     \<lparr>ri_intent_id = oi_IntentID intent, ri_time = oi_Time intent, ri_updated_at = oi_Time intent,
      ri_account_id = oi_AccountID intent, ri_venue_id = oi_VenueID intent,
      ri_user_id = oi_UserID intent, ri_strategy_id = nullableInt64 (oi_StrategyID intent),
      ri_session_id = nullableString (oi_SessionID intent),
      ri_environment = int16_of (oi_Environment intent), ri_exchange = int16_of (oi_Exchange intent),
      ri_market = int16_of (oi_Market intent), ri_symbol = oi_Symbol intent, ri_side = sideCode,
      ri_position_side = int16_of (oi_PositionSide intent),
      ri_order_type = (let t = int16_of (oi_OrderType intent) in if t = 0 then 1 else t),
      ri_requested_qty = oi_RequestedQty intent,
      ri_requested_price = nullableFloat64 (oi_RequestedPrice intent),
      ri_post_only = oi_PostOnly intent, ri_good_till_date = nullableTimePtr (oi_GoodTillDate intent),
      ri_reduce_only = oi_ReduceOnly intent, ri_status = intentStatusCode (oi_Status intent),
      ri_reject_code = oi_RejectCode intent, ri_reject_message = oi_RejectMessage intent\<rparr>"

definition upsert_intent_row :: "intent_row \<Rightarrow> unit dbm" where
  "upsert_intent_row r db =
     (if \<not> intent_checks r then (Inl (sql_violation ''order_intents''), db)
      else if (\<exists>q\<in>set (db_intents db). ri_intent_id q = ri_intent_id r)
      then (Inr (), db\<lparr>db_intents := map (\<lambda>q. if ri_intent_id q = ri_intent_id r
              then r\<lparr>ri_time := ri_time q\<rparr> else q) (db_intents db)\<rparr>)
      else (Inr (), db\<lparr>db_intents := db_intents db @ [r]\<rparr>))"

definition UpsertOrderIntent :: "OrderIntent \<Rightarrow> unit dbm" where
  "UpsertOrderIntent intent db =
     (case orderSideCode (oi_Side intent) of
        Inl e \<Rightarrow> (Inl e, db)
      | Inr sideCode \<Rightarrow> stmt (upsert_intent_row (intent_row_of intent sideCode)) db)"

subsection \<open>Attempts\<close>

definition client_id_free :: "string \<Rightarrow> string option \<Rightarrow> attempt_row list \<Rightarrow> bool" where
  "client_id_free attemptID clientID rows = (case clientID of None \<Rightarrow> True
     | Some c \<Rightarrow> c = [] \<or> (\<forall>q\<in>set rows. ra_attempt_id q = attemptID \<or> ra_client_order_id q \<noteq> Some c))"

definition attempt_row_of :: "OrderAttempt \<Rightarrow> attempt_row" where
  "attempt_row_of attempt =
     \<lparr>ra_attempt_id = oa_AttemptID attempt, ra_intent_id = oa_IntentID attempt,
      ra_time = oa_Time attempt, ra_updated_at = oa_Time attempt,
      ra_mark_price = nullableFloat64 (oa_MarkPrice attempt),
      ra_client_order_id = nullableString (oa_ClientOrderID attempt),
      ra_status = attemptStatusCode (oa_Status attempt), ra_error_message = oa_ErrorMessage attempt,
      ra_exchange_order_id = nullableString (oa_ExchangeOrderID attempt),
      ra_recovery_error = oa_RecoveryError attempt, ra_post_only = oa_PostOnly attempt,
      ra_good_till_date = nullableTimePtr (oa_GoodTillDate attempt),
      ra_reduce_only = oa_ReduceOnly attempt, ra_risk_status = oa_RiskStatus attempt,
      ra_risk_reasons = riskReasonsJSON (oa_RiskReasonsJSON attempt)\<rparr>"

definition insert_attempt_row :: "attempt_row \<Rightarrow> unit dbm" where
  "insert_attempt_row r db =
     (if ra_status r \<notin> {1..8} then (Inl (sql_violation ''chk_order_attempts_status''), db)
      else if (\<exists>q\<in>set (db_attempts db). ra_attempt_id q = ra_attempt_id r)
      then (Inl (sql_violation ''order_attempts_pkey''), db)
      else if \<not> client_id_free (ra_attempt_id r) (ra_client_order_id r) (db_attempts db)
      then (Inl (sql_violation ''uidx_order_attempts_client_order''), db)
      else if \<not> (\<exists>q\<in>set (db_intents db). ri_intent_id q = ra_intent_id r)
      then (Inl (sql_violation ''order_attempts_intent_id_fkey''), db)
      else (Inr (), db\<lparr>db_attempts := db_attempts db @ [r]\<rparr>))"

definition CreateOrderAttempt :: "OrderAttempt \<Rightarrow> unit dbm" where
  "CreateOrderAttempt attempt = stmt (insert_attempt_row (attempt_row_of attempt))"

text \<open>
  The update shared by both finalisations: all columns but the identity, the time and the mark
  price.
\<close>

definition finalized_row :: "OrderAttempt \<Rightarrow> attempt_row \<Rightarrow> attempt_row" where
  "finalized_row attempt q = (attempt_row_of attempt)\<lparr>ra_attempt_id := ra_attempt_id q,
     ra_intent_id := ra_intent_id q, ra_time := ra_time q, ra_mark_price := ra_mark_price q\<rparr>"

definition update_attempt_row :: "OrderAttempt \<Rightarrow> unit dbm" where
  "update_attempt_row attempt db =
     (if \<not> client_id_free (oa_AttemptID attempt) (nullableString (oa_ClientOrderID attempt)) (db_attempts db)
         \<and> (\<exists>q\<in>set (db_attempts db). ra_attempt_id q = oa_AttemptID attempt)
      then (Inl (sql_violation ''uidx_order_attempts_client_order''), db)
      else (Inr (), db\<lparr>db_attempts := map (\<lambda>q. if ra_attempt_id q = oa_AttemptID attempt
              then finalized_row attempt q else q) (db_attempts db)\<rparr>))"

subsection \<open>Orders and fills\<close>

definition order_row_of :: "Order \<Rightarrow> order_row" where
  "order_row_of order =
     \<lparr>ro_order_id = or_OrderID order, ro_exchange_order_id = nullableString (or_ExchangeOrderID order),
      ro_attempt_id = or_AttemptID order, ro_intent_id = or_IntentID order, ro_time = or_Time order,
      ro_updated_at = or_Time order, ro_client_order_id = nullableString (or_ClientOrderID order),
      ro_orig_qty = or_OrigQty order, ro_executed_qty = or_ExecutedQty order,
      ro_remaining_qty = or_RemainingQty order, ro_avg_price = or_AvgPrice order,
      ro_price = nullableFloat64 (or_Price order), ro_post_only = or_PostOnly order,
      ro_good_till_date = nullableTimePtr (or_GoodTillDate order), ro_reduce_only = or_ReduceOnly order,
      ro_status = orderStatusCode (or_Status order), ro_error_message = or_ErrorMessage order,
      ro_recovery_status = or_RecoveryStatus order,
      ro_recovery_started_at = nullableTimePtr (or_RecoveryStartedAt order),
      ro_next_check_at = nullableTimePtr (or_NextCheckAt order),
      ro_recovery_deadline_at = nullableTimePtr (or_RecoveryDeadlineAt order),
      ro_last_recovery_error = or_LastRecoveryError order,
      ro_force_closed_at = nullableTimePtr (or_ForceClosedAt order)\<rparr>"

definition upsert_order_row :: "order_row \<Rightarrow> unit dbm" where
  "upsert_order_row r db =
     (if (\<exists>q\<in>set (db_orders db). ro_order_id q = ro_order_id r)
      then (Inr (), db\<lparr>db_orders := map (\<lambda>q. if ro_order_id q = ro_order_id r
              then r\<lparr>ro_attempt_id := ro_attempt_id q, ro_intent_id := ro_intent_id q,
                     ro_time := ro_time q, ro_orig_qty := ro_orig_qty q\<rparr> else q) (db_orders db)\<rparr>)
      else if (\<exists>q\<in>set (db_orders db). ro_attempt_id q = ro_attempt_id r)
      then (Inl (sql_violation ''orders_attempt_id_key''), db)
      else if \<not> (\<exists>a\<in>set (db_attempts db). ra_attempt_id a = ro_attempt_id r)
              \<or> \<not> (\<exists>i\<in>set (db_intents db). ri_intent_id i = ro_intent_id r)
      then (Inl (sql_violation ''orders_fkey''), db)
      else (Inr (), db\<lparr>db_orders := db_orders db @ [r]\<rparr>))"

definition fill_row_of :: "OrderFill \<Rightarrow> fill_row" where
  "fill_row_of fill =
     \<lparr>rf_time = of_Time fill, rf_fill_id = of_FillID fill,
      rf_exchange_trade_id = nullableString (of_ExchangeTradeID fill), rf_order_id = of_OrderID fill,
      rf_exchange_order_id = nullableString (of_ExchangeOrderID fill),
      rf_attempt_id = of_AttemptID fill, rf_intent_id = of_IntentID fill, rf_qty = of_Qty fill,
      rf_fill_price = of_FillPrice fill, rf_fee = of_Fee fill, rf_fee_asset = [],
      rf_status = fillStatusCode (of_Status fill)\<rparr>"

definition insert_fill_row :: "fill_row \<Rightarrow> unit dbm" where
  "insert_fill_row r db =
     (if (\<exists>q\<in>set (db_fills db). rf_time q = rf_time r \<and> rf_fill_id q = rf_fill_id r)
      then (Inl (sql_violation ''order_fills_pkey''), db)
      else if \<not> (\<exists>o'\<in>set (db_orders db). ro_order_id o' = rf_order_id r)
              \<or> \<not> (\<exists>a\<in>set (db_attempts db). ra_attempt_id a = rf_attempt_id r)
              \<or> \<not> (\<exists>i\<in>set (db_intents db). ri_intent_id i = rf_intent_id r)
      then (Inl (sql_violation ''order_fills_fkey''), db)
      else (Inr (), db\<lparr>db_fills := db_fills db @ [r]\<rparr>))"

primrec insert_fills :: "OrderFill list \<Rightarrow> unit dbm" where
  "insert_fills [] db = (Inr (), db)"
| "insert_fills (f # fs) db =
     then_db (wrap_db ''insert order_fills: '' (stmt (insert_fill_row (fill_row_of f)))) (\<lambda>_. insert_fills fs) db"

definition finalize_body :: "OrderAttempt \<Rightarrow> Order option \<Rightarrow> OrderFill list \<Rightarrow> unit dbm" where
  "finalize_body attempt order fills =
     then_db (wrap_db ''update order_attempts: '' (stmt (update_attempt_row attempt)))
      (\<lambda>_. then_db (case order of None \<Rightarrow> (\<lambda>db. (Inr (), db))
              | Some ord \<Rightarrow> wrap_db ''upsert orders: '' (stmt (upsert_order_row (order_row_of ord))))
      (\<lambda>_. insert_fills fills))"

definition FinalizeOrderAttempt :: "OrderAttempt \<Rightarrow> Order option \<Rightarrow> OrderFill list \<Rightarrow> unit dbm" where
  "FinalizeOrderAttempt attempt order fills =
     in_tx ''begin finalize attempt: '' ''commit finalize attempt: '' (finalize_body attempt order fills)"

definition update_rejected_intent :: "OrderIntent \<Rightarrow> OrderAttempt \<Rightarrow> unit dbm" where
  "update_rejected_intent intent attempt db =
     (Inr (), db\<lparr>db_intents := map (\<lambda>q. if ri_intent_id q = oi_IntentID intent
        then q\<lparr>ri_updated_at := oa_Time attempt, ri_status := intentStatusCode (oi_Status intent),
               ri_reject_code := oi_RejectCode intent, ri_reject_message := oi_RejectMessage intent,
               ri_post_only := oi_PostOnly intent,
               ri_good_till_date := nullableTimePtr (oi_GoodTillDate intent),
               ri_reduce_only := oi_ReduceOnly intent\<rparr> else q) (db_intents db)\<rparr>)"

definition FinalizeRiskRejectedAttempt :: "OrderIntent \<Rightarrow> OrderAttempt \<Rightarrow> unit dbm" where
  "FinalizeRiskRejectedAttempt intent attempt =
     in_tx ''begin finalize risk rejected attempt: '' ''commit finalize risk rejected attempt: ''
      (then_db (wrap_db ''update risk rejected order_intents: '' (stmt (update_rejected_intent intent attempt)))
       (\<lambda>_. wrap_db ''update risk rejected order_attempts: '' (stmt (update_attempt_row attempt))))"

subsection \<open>Lookups\<close>

text \<open>
  Identifiers are primary keys, so a join on one is a lookup.  \<^verbatim>\<open>ORDER BY\<close> is a stable
  sort: rows with equal keys keep the order of the table.
\<close>

definition ErrNotFound :: error where "ErrNotFound = Sentinel ''not found''"

definition intent_of :: "order_db \<Rightarrow> string \<Rightarrow> intent_row option" where
  "intent_of db iid = find (\<lambda>i. ri_intent_id i = iid) (db_intents db)"

definition attempt_of :: "order_db \<Rightarrow> string \<Rightarrow> attempt_row option" where
  "attempt_of db aid = find (\<lambda>a. ra_attempt_id a = aid) (db_attempts db)"

definition order_of_attempt :: "order_db \<Rightarrow> string \<Rightarrow> order_row option" where
  "order_of_attempt db aid = find (\<lambda>o'. ro_attempt_id o' = aid) (db_orders db)"

definition scan_attempt :: "order_db \<Rightarrow> attempt_row \<Rightarrow> intent_row \<Rightarrow> OrderAttempt" where
  "scan_attempt db a i =
     \<lparr>oa_AttemptID = ra_attempt_id a, oa_IntentID = ra_intent_id a, oa_Time = ra_time a,
      oa_AccountID = ri_account_id i, oa_VenueID = ri_venue_id i, oa_UserID = ri_user_id i,
      oa_StrategyID = coalesce_int (ri_strategy_id i), oa_SessionID = coalesce_str (ri_session_id i),
      oa_Environment = ri_environment i, oa_Exchange = ri_exchange i, oa_Market = ri_market i,
      oa_PositionSide = ri_position_side i, oa_OrderType = ri_order_type i, oa_Symbol = ri_symbol i,
      oa_Side = orderSideText (ri_side i), oa_RequestedQty = ri_requested_qty i,
      oa_RequestedPrice = coalesce_float (ri_requested_price i), oa_PostOnly = ra_post_only a,
      oa_GoodTillDate = timePtrFromNull (ra_good_till_date a), oa_ReduceOnly = ra_reduce_only a,
      oa_MarkPrice = coalesce_float (ra_mark_price a), oa_Status = attemptStatusText (ra_status a),
      oa_ErrorMessage = ra_error_message a, oa_ClientOrderID = coalesce_str (ra_client_order_id a),
      oa_RecoveryError = ra_recovery_error a, oa_RiskStatus = ra_risk_status a,
      oa_RiskReasonsJSON = ra_risk_reasons a,
      oa_OrderID = (case order_of_attempt db (ra_attempt_id a) of None \<Rightarrow> [] | Some o' \<Rightarrow> ro_order_id o'),
      oa_ExchangeOrderID = coalesce_str (ra_exchange_order_id a)\<rparr>"

definition scan_order :: "order_row \<Rightarrow> intent_row \<Rightarrow> Order" where
  "scan_order o' i =
     \<lparr>or_OrderID = ro_order_id o', or_ExchangeOrderID = coalesce_str (ro_exchange_order_id o'),
      or_ClientOrderID = coalesce_str (ro_client_order_id o'), or_AttemptID = ro_attempt_id o',
      or_IntentID = ro_intent_id o', or_Time = ro_time o', or_AccountID = ri_account_id i,
      or_VenueID = ri_venue_id i, or_UserID = ri_user_id i,
      or_StrategyID = coalesce_int (ri_strategy_id i), or_SessionID = coalesce_str (ri_session_id i),
      or_Environment = ri_environment i, or_Exchange = ri_exchange i, or_Market = ri_market i,
      or_PositionSide = ri_position_side i, or_Symbol = ri_symbol i,
      or_Side = orderSideText (ri_side i), or_OrigQty = ro_orig_qty o',
      or_ExecutedQty = ro_executed_qty o', or_RemainingQty = ro_remaining_qty o',
      or_AvgPrice = ro_avg_price o', or_Price = coalesce_float (ro_price o'),
      or_PostOnly = ro_post_only o', or_GoodTillDate = timePtrFromNull (ro_good_till_date o'),
      or_ReduceOnly = ro_reduce_only o', or_Status = orderStatusText (ro_status o'),
      or_ErrorMessage = ro_error_message o', or_RecoveryStatus = ro_recovery_status o',
      or_RecoveryStartedAt = timePtrFromNull (ro_recovery_started_at o'),
      or_NextCheckAt = timePtrFromNull (ro_next_check_at o'),
      or_RecoveryDeadlineAt = timePtrFromNull (ro_recovery_deadline_at o'),
      or_LastRecoveryError = ro_last_recovery_error o',
      or_ForceClosedAt = timePtrFromNull (ro_force_closed_at o')\<rparr>"

definition scan_fill :: "fill_row \<Rightarrow> intent_row \<Rightarrow> OrderFill" where
  "scan_fill f i =
     \<lparr>of_FillID = rf_fill_id f, of_ExchangeTradeID = coalesce_str (rf_exchange_trade_id f),
      of_OrderID = rf_order_id f, of_ExchangeOrderID = coalesce_str (rf_exchange_order_id f),
      of_AttemptID = rf_attempt_id f, of_IntentID = rf_intent_id f, of_Time = rf_time f,
      of_AccountID = ri_account_id i, of_VenueID = ri_venue_id i, of_UserID = ri_user_id i,
      of_Symbol = ri_symbol i, of_Side = orderSideText (ri_side i), of_Qty = rf_qty f,
      of_FillPrice = rf_fill_price f, of_Fee = rf_fee f, of_Status = fillStatusText (rf_status f),
      of_StrategyID = coalesce_int (ri_strategy_id i), of_Environment = ri_environment i,
      of_Exchange = ri_exchange i, of_Market = ri_market i, of_PositionSide = ri_position_side i,
      of_SessionID = coalesce_str (ri_session_id i)\<rparr>"

definition join_intent :: "order_db \<Rightarrow> ('r \<Rightarrow> string) \<Rightarrow> 'r list \<Rightarrow> ('r \<times> intent_row) list" where
  "join_intent db iid rows =
     concat (map (\<lambda>r. case intent_of db (iid r) of None \<Rightarrow> [] | Some i \<Rightarrow> [(r, i)]) rows)"

definition query :: "(order_db \<Rightarrow> 'a) \<Rightarrow> 'a dbm" where
  "query f = stmt (\<lambda>db. (Inr (f db), db))"

definition FindOrderAttempt :: "int \<Rightarrow> int \<Rightarrow> string \<Rightarrow> string \<Rightarrow> string \<Rightarrow> OrderAttempt dbm" where
  "FindOrderAttempt userID accountID intentID attemptID clientOrderID db =
     (if trim_space attemptID = [] \<and> trim_space clientOrderID = [] \<and> trim_space intentID = []
      then (Inl (Errorf ''intent_id, attempt_id, or client_order_id is required''), db)
      else
        let matches = (\<lambda>(a, i). ri_account_id i = accountID \<and> (0 < userID \<longrightarrow> ri_user_id i = userID) \<and>
              (if trim_space attemptID \<noteq> [] then ra_attempt_id a = attemptID
               else if trim_space clientOrderID \<noteq> [] then ra_client_order_id a = Some clientOrderID
               else ra_intent_id a = intentID));
            rows = (\<lambda>db. sort_key (\<lambda>(a, i). - ra_time a)
              (filter matches (join_intent db ra_intent_id (db_attempts db))))
        in case wrap_db ''find order attempt: '' (query rows) db of
             (Inl e, db) \<Rightarrow> (Inl e, db)
           | (Inr [], db) \<Rightarrow> (Inl ErrNotFound, db)
           | (Inr ((a, i) # _), db) \<Rightarrow> (Inr (scan_attempt db a i), db))"

definition FindOrderByAttempt :: "string \<Rightarrow> Order dbm" where
  "FindOrderByAttempt attemptID db =
     (case wrap_db ''find order by attempt: ''
         (query (\<lambda>db. filter (\<lambda>(o', i). ro_attempt_id o' = attemptID)
            (join_intent db ro_intent_id (db_orders db)))) db of
        (Inl e, db) \<Rightarrow> (Inl e, db)
      | (Inr [], db) \<Rightarrow> (Inl ErrNotFound, db)
      | (Inr ((o', i) # _), db) \<Rightarrow> (Inr (scan_order o' i), db))"

definition ListOrderFillsByAttempt :: "string \<Rightarrow> OrderFill list dbm" where
  "ListOrderFillsByAttempt attemptID = wrap_db ''list order fills by attempt: ''
     (query (\<lambda>db. map (\<lambda>(f, i). scan_fill f i)
        (sort_key (\<lambda>(f, i). (rf_time f, rf_fill_id f))
          (filter (\<lambda>(f, i). rf_attempt_id f = attemptID)
            (join_intent db rf_intent_id (db_fills db))))))"

subsection \<open>Paginated queries\<close>

definition buildIntentScopedWhere :: "int \<Rightarrow> int \<Rightarrow> int \<Rightarrow> string \<Rightarrow> (intent_row \<Rightarrow> bool) result" where
  "buildIntentScopedWhere userID accountID strategyID sessionID =
     (if userID \<le> 0 then Inl (Errorf ''userID is required'')
      else Inr (\<lambda>i. ri_user_id i = userID
        \<and> (if sessionID \<noteq> [] then ri_session_id i = Some sessionID
           else if 0 < accountID then ri_account_id i = accountID else True)
        \<and> (0 < strategyID \<longrightarrow> ri_strategy_id i = Some strategyID)))"

definition ancestor_match :: "string \<Rightarrow> string \<Rightarrow> bool" where
  "ancestor_match val col = (val = [] \<or> col = val)"

definition applyLimitOffset :: "int \<Rightarrow> int \<Rightarrow> 'a list \<Rightarrow> 'a list" where
  "applyLimitOffset limit offset rows =
     (let rest = (if 0 < offset then drop (nat offset) rows else rows)
      in if 0 < limit then take (nat limit) rest else rest)"

definition paginated :: "string \<Rightarrow> (intent_row \<Rightarrow> bool) result \<Rightarrow>
    (order_db \<Rightarrow> (intent_row \<Rightarrow> bool) \<Rightarrow> 'r list) \<Rightarrow> (order_db \<Rightarrow> 'r \<Rightarrow> 'a) \<Rightarrow> int \<Rightarrow> int \<Rightarrow>
    ('a list \<times> int) dbm" where
  "paginated table wh rows scan limit offset db =
     (case wh of
        Inl e \<Rightarrow> (Inl e, db)
      | Inr p \<Rightarrow>
          then_db (wrap_db (''count '' @ table @ '': '') (query (\<lambda>db. int (length (rows db p)))))
            (\<lambda>total. then_db (wrap_db (''query '' @ table @ '': '')
                (query (\<lambda>db. map (scan db) (applyLimitOffset limit offset (rows db p)))))
              (\<lambda>items db. (Inr (items, total), db))) db)"

definition scan_intent :: "intent_row \<Rightarrow> OrderIntent" where
  "scan_intent i =
     \<lparr>oi_IntentID = ri_intent_id i, oi_Time = ri_time i, oi_AccountID = ri_account_id i,
      oi_VenueID = ri_venue_id i, oi_UserID = ri_user_id i,
      oi_StrategyID = coalesce_int (ri_strategy_id i), oi_SessionID = coalesce_str (ri_session_id i),
      oi_Environment = ri_environment i, oi_Exchange = ri_exchange i, oi_Market = ri_market i,
      oi_PositionSide = ri_position_side i, oi_OrderType = ri_order_type i, oi_Symbol = ri_symbol i,
      oi_Side = orderSideText (ri_side i), oi_RequestedQty = ri_requested_qty i,
      oi_RequestedPrice = coalesce_float (ri_requested_price i), oi_PostOnly = ri_post_only i,
      oi_GoodTillDate = timePtrFromNull (ri_good_till_date i), oi_ReduceOnly = ri_reduce_only i,
      oi_Status = intentStatusText (ri_status i), oi_RejectCode = ri_reject_code i,
      oi_RejectMessage = ri_reject_message i\<rparr>"

definition QueryOrderIntentsPaginated ::
    "int \<Rightarrow> int \<Rightarrow> int \<Rightarrow> string \<Rightarrow> int \<Rightarrow> int \<Rightarrow> (OrderIntent list \<times> int) dbm" where
  "QueryOrderIntentsPaginated userID accountID strategyID sessionID limit offset =
     paginated ''order_intents'' (buildIntentScopedWhere userID accountID strategyID sessionID)
       (\<lambda>db p. rev (sort_key (\<lambda>i. (ri_time i, ri_intent_id i)) (filter p (db_intents db))))
       (\<lambda>db i. scan_intent i) limit offset"

definition QueryOrderAttemptsPaginated ::
    "int \<Rightarrow> int \<Rightarrow> int \<Rightarrow> string \<Rightarrow> string \<Rightarrow> int \<Rightarrow> int \<Rightarrow> (OrderAttempt list \<times> int) dbm" where
  "QueryOrderAttemptsPaginated userID accountID strategyID sessionID intentID limit offset =
     paginated ''order_attempts'' (buildIntentScopedWhere userID accountID strategyID sessionID)
       (\<lambda>db p. sort_key (\<lambda>(a, i). - ra_time a)
          (filter (\<lambda>(a, i). p i \<and> ancestor_match intentID (ra_intent_id a))
            (join_intent db ra_intent_id (db_attempts db))))
       (\<lambda>db (a, i). scan_attempt db a i) limit offset"

definition QueryOrdersPaginated ::
    "int \<Rightarrow> int \<Rightarrow> int \<Rightarrow> string \<Rightarrow> string \<Rightarrow> string \<Rightarrow> int \<Rightarrow> int \<Rightarrow> (Order list \<times> int) dbm" where
  "QueryOrdersPaginated userID accountID strategyID sessionID intentID attemptID limit offset =
     paginated ''orders'' (buildIntentScopedWhere userID accountID strategyID sessionID)
       (\<lambda>db p. sort_key (\<lambda>(o', i). - ro_time o')
          (filter (\<lambda>(o', i). p i \<and> ancestor_match intentID (ro_intent_id o')
                     \<and> ancestor_match attemptID (ro_attempt_id o'))
            (join_intent db ro_intent_id (db_orders db))))
       (\<lambda>db (o', i). scan_order o' i) limit offset"

definition QueryOrderFillsPaginated ::
    "int \<Rightarrow> int \<Rightarrow> int \<Rightarrow> string \<Rightarrow> string \<Rightarrow> string \<Rightarrow> string \<Rightarrow> int \<Rightarrow> int \<Rightarrow> (OrderFill list \<times> int) dbm" where
  "QueryOrderFillsPaginated userID accountID strategyID sessionID intentID attemptID orderID limit offset =
     paginated ''order_fills'' (buildIntentScopedWhere userID accountID strategyID sessionID)
       (\<lambda>db p. sort_key (\<lambda>(f, i). - rf_time f)
          (filter (\<lambda>(f, i). p i \<and> ancestor_match intentID (rf_intent_id f)
                     \<and> ancestor_match attemptID (rf_attempt_id f) \<and> ancestor_match orderID (rf_order_id f))
            (join_intent db rf_intent_id (db_fills db))))
       (\<lambda>db (f, i). scan_fill f i) limit offset"

subsection \<open>Open orders\<close>

definition effective_recovery_status :: "order_row \<Rightarrow> string" where
  "effective_recovery_status o' =
     (if ro_recovery_status o' \<noteq> [] then ro_recovery_status o'
      else if ro_status o' = 1 then ''OPEN''
      else if ro_status o' = 2 then ''PARTIALLY_FILLED'' else [])"

definition open_recovery_statuses :: "string list" where
  "open_recovery_statuses = [''OPEN'', ''PARTIALLY_FILLED'', ''FILL_PENDING'', ''FEE_MISSING'', ''RECOVERING'']"

definition is_open_row :: "order_row \<Rightarrow> bool" where
  "is_open_row o' = (effective_recovery_status o' \<in> set open_recovery_statuses)"

definition effective_client_id :: "order_row \<Rightarrow> attempt_row \<Rightarrow> string" where
  "effective_client_id o' a =
     (case or_else (nullif_empty (coalesce_str (ro_client_order_id o')))
                   (nullif_empty (coalesce_str (ra_client_order_id a))) of
        None \<Rightarrow> [] | Some c \<Rightarrow> c)"

definition zero_if_null :: "time option \<Rightarrow> time" where
  "zero_if_null t = (case t of None \<Rightarrow> 0 | Some x \<Rightarrow> x)"

definition scanOpenOrder :: "order_row \<Rightarrow> intent_row \<Rightarrow> attempt_row \<Rightarrow> OpenOrder" where
  "scanOpenOrder o' i a =
     \<lparr>oo_SessionID = coalesce_str (ri_session_id i), oo_AccountID = ri_account_id i,
      oo_VenueID = ri_venue_id i, oo_Environment = ri_environment i, oo_Exchange = ri_exchange i,
      oo_Market = ri_market i, oo_PositionSide = ri_position_side i,
      oo_Side = orderSideText (ri_side i), oo_IntentID = ri_intent_id i,
      oo_AttemptID = ro_attempt_id o', oo_OrderID = ro_order_id o',
      oo_ExchangeOrderID = coalesce_str (ro_exchange_order_id o'),
      oo_ClientOrderID = effective_client_id o' a, oo_Symbol = ri_symbol i,
      oo_RecoveryStatus = effective_recovery_status o',
      oo_RecoveryStartedAt = zero_if_null (ro_recovery_started_at o'),
      oo_NextCheckAt = zero_if_null (ro_next_check_at o'),
      oo_RecoveryDeadlineAt = zero_if_null (ro_recovery_deadline_at o'),
      oo_LastRecoveryError = ro_last_recovery_error o'\<rparr>"

definition join_order :: "order_db \<Rightarrow> (order_row \<times> intent_row \<times> attempt_row) list" where
  "join_order db = concat (map (\<lambda>(o', i). case attempt_of db (ro_attempt_id o') of
       None \<Rightarrow> [] | Some a \<Rightarrow> [(o', i, a)]) (join_intent db ro_intent_id (db_orders db)))"

definition open_order_key :: "order_row \<times> intent_row \<times> attempt_row \<Rightarrow> time \<times> time \<times> string" where
  "open_order_key = (\<lambda>(o', i, a). (ro_updated_at o', ro_time o', ro_order_id o'))"

definition open_order_limit :: "int \<Rightarrow> int" where
  "open_order_limit limit = (let l = (if limit \<le> 0 then 50 else limit) in if 500 < l then 500 else l)"

definition listed_open :: "time \<Rightarrow> bool \<Rightarrow> order_row \<times> intent_row \<times> attempt_row \<Rightarrow> bool" where
  "listed_open now dueOnly = (\<lambda>(o', i, a). is_open_row o'
     \<and> (dueOnly \<longrightarrow> (case ro_next_check_at o' of None \<Rightarrow> True | Some t \<Rightarrow> t \<le> now))
     \<and> 0 < ri_venue_id i
     \<and> (coalesce_str (ro_exchange_order_id o') \<noteq> [] \<or> coalesce_str (ro_client_order_id o') \<noteq> []
        \<or> coalesce_str (ra_client_order_id a) \<noteq> []))"

definition listOpenOrders :: "time \<Rightarrow> int \<Rightarrow> bool \<Rightarrow> OpenOrder list dbm" where
  "listOpenOrders now limit dueOnly = wrap_db ''list open orders: ''
     (query (\<lambda>db. map (\<lambda>(o', i, a). scanOpenOrder o' i a)
        (take (nat (open_order_limit limit))
          (sort_key open_order_key (filter (listed_open now dueOnly) (join_order db))))))"

definition ListOpenOrders :: "time \<Rightarrow> int \<Rightarrow> OpenOrder list dbm" where
  "ListOpenOrders now limit = listOpenOrders now limit False"

definition ListDueOpenOrders :: "time \<Rightarrow> int \<Rightarrow> OpenOrder list dbm" where
  "ListDueOpenOrders now limit = listOpenOrders now limit True"

definition ErrOpenOrderNotFound :: error where
  "ErrOpenOrderNotFound = Sentinel ''open order not found''"

definition ResolveOpenOrderByExchangeRef :: "int \<Rightarrow> string \<Rightarrow> string \<Rightarrow> OpenOrder dbm" where
  "ResolveOpenOrderByExchangeRef venueID exchangeOrderID0 clientOrderID0 db =
     (let exchangeOrderID = trim_space exchangeOrderID0; clientOrderID = trim_space clientOrderID0 in
      if venueID \<le> 0 \<or> (exchangeOrderID = [] \<and> clientOrderID = []) then (Inl ErrOpenOrderNotFound, db)
      else
        case wrap_db ''resolve open order by exchange ref: ''
          (query (\<lambda>db. sort_key open_order_key (filter (\<lambda>(o', i, a). is_open_row o' \<and> ri_venue_id i = venueID
              \<and> ((exchangeOrderID \<noteq> [] \<and> coalesce_str (ro_exchange_order_id o') = exchangeOrderID)
                 \<or> (clientOrderID \<noteq> [] \<and> effective_client_id o' a = clientOrderID))) (join_order db)))) db of
          (Inl e, db) \<Rightarrow> (Inl e, db)
        | (Inr [], db) \<Rightarrow> (Inl ErrOpenOrderNotFound, db)
        | (Inr ((o', i, a) # _), db) \<Rightarrow> (Inr (scanOpenOrder o' i a), db))"

subsection \<open>Recovery marks\<close>

definition update_order_rows :: "string \<Rightarrow> (order_row \<Rightarrow> order_row) \<Rightarrow> nat dbm" where
  "update_order_rows orderID f db =
     (Inr (length (filter (\<lambda>o'. ro_order_id o' = orderID) (db_orders db))),
      db\<lparr>db_orders := map (\<lambda>o'. if ro_order_id o' = orderID then f o' else o') (db_orders db)\<rparr>)"

definition not_found_if_zero :: "nat \<Rightarrow> unit dbm" where
  "not_found_if_zero rows db = (if rows = 0 then (Inl ErrNotFound, db) else (Inr (), db))"

definition expired_row :: "time \<Rightarrow> string \<Rightarrow> order_row \<Rightarrow> order_row" where
  "expired_row forceClosedAt lastError o' = o'\<lparr>ro_recovery_status := ''RECOVERY_EXPIRED'',
     ro_next_check_at := None, ro_force_closed_at := Some forceClosedAt,
     ro_last_recovery_error := trim_space lastError, ro_updated_at := forceClosedAt\<rparr>"

definition MarkRecoveryExpired :: "time \<Rightarrow> string \<Rightarrow> time \<Rightarrow> string \<Rightarrow> unit dbm" where
  "MarkRecoveryExpired now orderID0 forceClosedAt0 lastError db =
     (let orderID = trim_space orderID0;
          forceClosedAt = (if is_zero forceClosedAt0 then now else forceClosedAt0)
      in if orderID = [] then (Inl (Errorf ''order_id is required''), db)
         else then_db (wrap_db ''mark recovery expired: ''
                (stmt (update_order_rows orderID (expired_row forceClosedAt lastError))))
              not_found_if_zero db)"

definition resolved_status :: "OrderState \<Rightarrow> string" where
  "resolved_status state = (let status = to_upper (trim_space (os_Status state)) in
     if status = [] \<and> 0 < os_OrigQty state \<and> os_RemainingQty state \<le> 0 then ''FILLED'' else status)"

definition resolved_row :: "OrderState \<Rightarrow> string \<Rightarrow> time \<Rightarrow> order_row \<Rightarrow> order_row" where
  "resolved_row state status resolvedAt o' =
     (let hasQtyState = 0 < os_OrigQty state; hasAvgPrice = 0 < os_AvgPrice state in
      o'\<lparr>ro_updated_at := resolvedAt, ro_status := orderStatusCode status,
         ro_exchange_order_id := or_else (nullif_empty (trim_space (os_ExchangeOrderID state)))
                                         (ro_exchange_order_id o'),
         ro_client_order_id := or_else (nullif_empty (trim_space (os_ClientOrderID state)))
                                       (ro_client_order_id o'),
         ro_orig_qty := (if hasQtyState then os_OrigQty state else ro_orig_qty o'),
         ro_executed_qty := (if hasQtyState then os_ExecutedQty state else ro_executed_qty o'),
         ro_remaining_qty := (if hasQtyState then os_RemainingQty state else ro_remaining_qty o'),
         ro_avg_price := (if hasAvgPrice then os_AvgPrice state else ro_avg_price o'),
         ro_recovery_status := status, ro_next_check_at := None, ro_last_recovery_error := []\<rparr>)"

definition MarkRecoveryResolved :: "time \<Rightarrow> string \<Rightarrow> OrderState \<Rightarrow> time \<Rightarrow> unit dbm" where
  "MarkRecoveryResolved now orderID0 state resolvedAt0 db =
     (let orderID = trim_space orderID0; status = resolved_status state;
          resolvedAt1 = (if is_zero resolvedAt0 then os_UpdatedAt state else resolvedAt0);
          resolvedAt = (if is_zero resolvedAt1 then now else resolvedAt1)
      in if orderID = [] then (Inl (Errorf ''order_id is required''), db)
         else if status = [] then (Inl (Errorf ''order status is required''), db)
         else then_db (wrap_db ''mark recovery resolved: ''
                (stmt (update_order_rows orderID (resolved_row state status resolvedAt))))
              not_found_if_zero db)"

subsection \<open>Lifecycle events\<close>

text \<open>
  \<^verbatim>\<open>json.Marshal\<close> refuses a number that is not finite and a time whose year has more than
  four digits.
\<close>

definition json_time_ok :: "time \<Rightarrow> bool" where
  "json_time_ok t = (let (y, m, d) = civil_of_days (t div 86400000000000) in 0 \<le> y \<and> y \<le> 9999)"

definition marshal_fill_ok :: "FillDelta \<Rightarrow> bool" where
  "marshal_fill_ok f = (finite64 (fd_Qty f) \<and> finite64 (fd_FillPrice f) \<and> finite64 (fd_Fee f)
     \<and> json_time_ok (fd_TradeTime f))"

definition marshal_state_ok :: "OrderState \<Rightarrow> bool" where
  "marshal_state_ok st = (finite64 (os_OrigQty st) \<and> finite64 (os_ExecutedQty st)
     \<and> finite64 (os_RemainingQty st) \<and> finite64 (os_AvgPrice st) \<and> json_time_ok (os_UpdatedAt st))"

definition smallint :: "int \<Rightarrow> bool" where
  "smallint i = (- 32768 \<le> i \<and> i \<le> 32767)"

definition event_row_of :: "Event \<Rightarrow> string \<Rightarrow> int \<Rightarrow> time \<Rightarrow> event_row" where
  "event_row_of event identity eid created =
     \<lparr>re_event_id = eid, re_session_id = nullableString (ev_SessionID event),
      re_account_id = ev_AccountID event, re_venue_id = ev_VenueID event,
      re_environment = ev_Environment event, re_exchange = ev_Exchange event,
      re_market = ev_Market event, re_position_side = ev_PositionSide event, re_side = ev_Side event,
      re_intent_id = nullableString (ev_IntentID event),
      re_attempt_id = nullableString (ev_AttemptID event),
      re_order_id = nullableString (ev_OrderID event),
      re_exchange_order_id = nullableString (ev_ExchangeOrderID event),
      re_exchange_trade_id = nullableString (ev_ExchangeTradeID event),
      re_event_type = ev_EventType event, re_event_source = ev_EventSource event,
      re_order_status = ev_OrderStatus event, re_fill_delta = ev_FillDelta event,
      re_order_state = ev_OrderState event, re_occurred_at = ev_OccurredAt event,
      re_created_at = created, re_event_identity = nullableString identity\<rparr>"

text \<open>The \<^verbatim>\<open>DO UPDATE\<close> clause: the new row wins, nulls keep the old value.\<close>

definition merge_event_row :: "event_row \<Rightarrow> event_row \<Rightarrow> event_row" where
  "merge_event_row old new =
     new\<lparr>re_event_id := re_event_id old, re_created_at := re_created_at old,
         re_venue_id := re_venue_id old,
         re_session_id := or_else (re_session_id new) (re_session_id old),
         re_intent_id := or_else (re_intent_id new) (re_intent_id old),
         re_attempt_id := or_else (re_attempt_id new) (re_attempt_id old),
         re_order_id := or_else (re_order_id new) (re_order_id old),
         re_exchange_order_id := or_else (re_exchange_order_id new) (re_exchange_order_id old),
         re_exchange_trade_id := or_else (re_exchange_trade_id new) (re_exchange_trade_id old),
         re_event_identity := or_else (re_event_identity new) (re_event_identity old)\<rparr>"

text \<open>The two partial unique indexes of the table, as relations between rows.\<close>

definition same_trade :: "event_row \<Rightarrow> event_row \<Rightarrow> bool" where
  "same_trade r q = (re_venue_id r = re_venue_id q
     \<and> re_exchange_order_id r \<noteq> None \<and> re_exchange_order_id r = re_exchange_order_id q
     \<and> re_exchange_trade_id r \<noteq> None \<and> re_exchange_trade_id r = re_exchange_trade_id q)"

definition same_identity :: "event_row \<Rightarrow> event_row \<Rightarrow> bool" where
  "same_identity r q = (re_venue_id r = re_venue_id q
     \<and> re_event_identity r \<noteq> None \<and> re_event_identity r = re_event_identity q)"

definition pair_clash :: "event_row \<Rightarrow> event_row \<Rightarrow> bool" where
  "pair_clash r q = (re_event_id q \<noteq> re_event_id r \<and> (same_trade r q \<or> same_identity r q))"

definition event_clash :: "event_row \<Rightarrow> event_row list \<Rightarrow> bool" where
  "event_clash r rows = (\<exists>q\<in>set rows. pair_clash r q)"

definition conflict_row :: "event_row \<Rightarrow> event_row list \<Rightarrow> event_row option" where
  "conflict_row r rows =
     (if re_exchange_order_id r \<noteq> None \<and> re_exchange_trade_id r \<noteq> None then find (same_trade r) rows
      else if re_event_identity r \<noteq> None then find (same_identity r) rows else None)"

definition upsert_event_row :: "event_row \<Rightarrow> (int \<times> time) dbm" where
  "upsert_event_row r db0 =
     (let db = db0\<lparr>db_next_event_id := db_next_event_id db0 + 1\<rparr> in
      if \<not> (smallint (re_environment r) \<and> smallint (re_exchange r) \<and> smallint (re_market r)
            \<and> smallint (re_position_side r))
      then (Inl (sql_violation ''smallint out of range''), db0)
      else case conflict_row r (db_events db) of
        None \<Rightarrow>
          if event_clash r (db_events db)
          then (Inl (sql_violation ''order_lifecycle_events unique index''), db)
          else (Inr (re_event_id r, re_created_at r), db\<lparr>db_events := db_events db @ [r]\<rparr>)
      | Some q \<Rightarrow>
          let m = merge_event_row q r in
          if event_clash m (db_events db)
          then (Inl (sql_violation ''order_lifecycle_events unique index''), db)
          else (Inr (re_event_id q, re_created_at q),
                db\<lparr>db_events := map (\<lambda>x. if re_event_id x = re_event_id q then m else x) (db_events db)\<rparr>))"

definition shouldBackfillOrderFill :: "Event \<Rightarrow> bool" where
  "shouldBackfillOrderFill event =
     (if \<not> equal_fold (trim_space (ev_EventType event)) ''fill'' then False
      else if equal_fold (trim_space (ev_EventSource event)) EventSourcePlaceOrder then False
      else if trim_space (ev_OrderID event) = [] then False
      else if trim_space (firstNonEmptyString [ev_ExchangeTradeID event, fd_ExchangeTradeID (ev_FillDelta event)]) = []
      then False
      else 0 < fd_Qty (ev_FillDelta event))"

definition matches_fill :: "string \<Rightarrow> string \<Rightarrow> fill_row \<Rightarrow> bool" where
  "matches_fill orderID tradeID f = (rf_order_id f = orderID \<and> rf_exchange_trade_id f = Some tradeID)"

definition backfilled_fill :: "Event \<Rightarrow> string \<Rightarrow> int \<Rightarrow> fill_row \<Rightarrow> fill_row" where
  "backfilled_fill event exchangeOrderID statusCode f =
     f\<lparr>rf_exchange_order_id := or_else (nullif_empty exchangeOrderID) (rf_exchange_order_id f),
       rf_qty := fd_Qty (ev_FillDelta event), rf_fill_price := fd_FillPrice (ev_FillDelta event),
       rf_fee := fd_Fee (ev_FillDelta event), rf_fee_asset := fd_FeeAsset (ev_FillDelta event),
       rf_status := statusCode\<rparr>"

definition update_fills :: "Event \<Rightarrow> string \<Rightarrow> string \<Rightarrow> string \<Rightarrow> int \<Rightarrow> nat dbm" where
  "update_fills event orderID tradeID exchangeOrderID statusCode db =
     (Inr (length (filter (matches_fill orderID tradeID) (db_fills db))),
      db\<lparr>db_fills := map (\<lambda>f. if matches_fill orderID tradeID f
            then backfilled_fill event exchangeOrderID statusCode f else f) (db_fills db)\<rparr>)"

definition insert_backfill :: "Event \<Rightarrow> string \<Rightarrow> string \<Rightarrow> string \<Rightarrow> int \<Rightarrow> time \<Rightarrow> unit dbm" where
  "insert_backfill event orderID tradeID exchangeOrderID statusCode fillTime db =
     (case find (\<lambda>o'. ro_order_id o' = orderID) (db_orders db) of
        None \<Rightarrow> (Inr (), db)
      | Some o' \<Rightarrow>
          if (\<exists>f\<in>set (db_fills db). matches_fill orderID tradeID f) then (Inr (), db)
          else insert_fill_row
            \<lparr>rf_time = fillTime, rf_fill_id = ''lifecycle-'' @ orderID @ ''-'' @ tradeID,
             rf_exchange_trade_id = Some tradeID, rf_order_id = ro_order_id o',
             rf_exchange_order_id = or_else (nullif_empty exchangeOrderID) (ro_exchange_order_id o'),
             rf_attempt_id = ro_attempt_id o', rf_intent_id = ro_intent_id o',
             rf_qty = fd_Qty (ev_FillDelta event), rf_fill_price = fd_FillPrice (ev_FillDelta event),
             rf_fee = fd_Fee (ev_FillDelta event), rf_fee_asset = fd_FeeAsset (ev_FillDelta event),
             rf_status = statusCode\<rparr> db)"

definition backfillOrderFillFromLifecycleEvent :: "time \<Rightarrow> Event \<Rightarrow> unit dbm" where
  "backfillOrderFillFromLifecycleEvent now event db =
     (if \<not> shouldBackfillOrderFill event then (Inr (), db)
      else
        let orderID = trim_space (ev_OrderID event);
            tradeID = trim_space (firstNonEmptyString [ev_ExchangeTradeID event, fd_ExchangeTradeID (ev_FillDelta event)]);
            exchangeOrderID = trim_space (firstNonEmptyString [ev_ExchangeOrderID event,
              fd_ExchangeOrderID (ev_FillDelta event), os_ExchangeOrderID (ev_OrderState event)]);
            fillTime1 = (if is_zero (fd_TradeTime (ev_FillDelta event)) then ev_OccurredAt event
                         else fd_TradeTime (ev_FillDelta event));
            fillTime = (if is_zero fillTime1 then now else fillTime1);
            status = (if fd_FeeMissing (ev_FillDelta event) then ''FEE_MISSING'' else ''FILLED'')
        in then_db (wrap_db ''update lifecycle order fill: ''
              (stmt (update_fills event orderID tradeID exchangeOrderID (fillStatusCode status))))
            (\<lambda>rows. if 0 < rows then (\<lambda>db. (Inr (), db))
               else wrap_db ''insert lifecycle order fill: ''
                 (stmt (insert_backfill event orderID tradeID exchangeOrderID (fillStatusCode status) fillTime))) db)"

definition normalized_event :: "time \<Rightarrow> Event \<Rightarrow> Event" where
  "normalized_event now event =
     event\<lparr>ev_EventType := trim_space (ev_EventType event),
       ev_EventSource := trim_space (ev_EventSource event),
       ev_ExchangeOrderID := trim_space (firstNonEmptyString [ev_ExchangeOrderID event,
          fd_ExchangeOrderID (ev_FillDelta event), os_ExchangeOrderID (ev_OrderState event)]),
       ev_ExchangeTradeID := trim_space (firstNonEmptyString [ev_ExchangeTradeID event,
          fd_ExchangeTradeID (ev_FillDelta event)]),
       ev_OccurredAt := (if is_zero (ev_OccurredAt event) then now else ev_OccurredAt event)\<rparr>"

definition insert_event :: "time \<Rightarrow> Event \<Rightarrow> (int \<times> time) dbm" where
  "insert_event now event db =
     upsert_event_row (event_row_of event (EventIdentityKey event) (db_next_event_id db) now) db"

definition SaveLifecycleEvent :: "time \<Rightarrow> Event \<Rightarrow> Event dbm" where
  "SaveLifecycleEvent now event0 db =
     (let event = normalized_event now event0 in
      if ev_EventType event = [] then (Inl (Errorf ''event_type is required''), db)
      else case ValidateEventRouteFacts event of
        Some e \<Rightarrow> (Inl (Wrapf ''invalid lifecycle event route facts: '' e), db)
      | None \<Rightarrow>
          if \<not> marshal_fill_ok (ev_FillDelta event)
          then (Inl (Wrapf ''marshal fill delta: '' (Errorf ''json: unsupported value'')), db)
          else if \<not> marshal_state_ok (ev_OrderState event)
          then (Inl (Wrapf ''marshal order state: '' (Errorf ''json: unsupported value'')), db)
          else then_db (wrap_db ''save lifecycle event: '' (stmt (insert_event now event)))
            (\<lambda>(eid, created).
               let saved = event\<lparr>ev_EventID := eid, ev_CreatedAt := created\<rparr>
               in then_db (backfillOrderFillFromLifecycleEvent now saved) (\<lambda>_ db. (Inr saved, db))) db)"

definition scan_event :: "event_row \<Rightarrow> Event" where
  "scan_event r =
     \<lparr>ev_EventID = re_event_id r, ev_SessionID = coalesce_str (re_session_id r),
      ev_AccountID = re_account_id r, ev_VenueID = re_venue_id r,
      ev_Environment = re_environment r, ev_Exchange = re_exchange r, ev_Market = re_market r,
      ev_PositionSide = re_position_side r, ev_Side = re_side r,
      ev_IntentID = coalesce_str (re_intent_id r), ev_AttemptID = coalesce_str (re_attempt_id r),
      ev_OrderID = coalesce_str (re_order_id r),
      ev_ExchangeOrderID = coalesce_str (re_exchange_order_id r),
      ev_ExchangeTradeID = coalesce_str (re_exchange_trade_id r), ev_EventType = re_event_type r,
      ev_EventSource = re_event_source r, ev_OrderStatus = re_order_status r,
      ev_FillDelta = re_fill_delta r, ev_OrderState = re_order_state r,
      ev_OccurredAt = re_occurred_at r, ev_CreatedAt = re_created_at r\<rparr>"

definition event_limit :: "int \<Rightarrow> int" where
  "event_limit limit = (let l = (if limit \<le> 0 then 100 else limit) in if 500 < l then 500 else l)"

definition ListLifecycleEvents :: "string \<Rightarrow> int \<Rightarrow> int \<Rightarrow> Event list dbm" where
  "ListLifecycleEvents sessionID0 afterEventID limit db =
     (let sessionID = trim_space sessionID0 in
      if sessionID = [] then (Inl (Errorf ''session_id is required''), db)
      else wrap_db ''list lifecycle events: ''
        (query (\<lambda>db. map scan_event (take (nat (event_limit limit))
          (sort_key re_event_id (filter (\<lambda>r. re_session_id r = Some sessionID \<and> afterEventID < re_event_id r)
            (db_events db)))))) db)"

end
