(* ===== verification/Risk_Gate.thy ===== *)
theory Risk_Gate
  imports Exchange_Adapter Order_Repository "HOL-Library.AList"
begin

text \<open>
  Models \<^verbatim>\<open>internal/order/risk\<close>: the pre-trade review of \<^verbatim>\<open>gate.go\<close>, the balance and
  reduce-only checks of \<^verbatim>\<open>balance.go\<close>, the capability and symbol rule checks of
  \<^verbatim>\<open>symbol_rules.go\<close> and the readers of \<^verbatim>\<open>pending.go\<close>.

  The reader interfaces of the gate are optional functions (\<^verbatim>\<open>nil\<close> is \<^term>\<open>None\<close>); the reader of
  pending orders threads the state \<open>'db\<close> of the order store.  \<^verbatim>\<open>mergeRiskMetadata\<close> ranges over a
  Go map, whose iteration order the language leaves open: the order is the parameter \<open>iter\<close>, and the
  lemmas below show that no decision depends on it.
\<close>

subsection \<open>Records of types.go\<close>

definition DecisionAllow :: string where "DecisionAllow = ''ALLOW''"
definition DecisionReject :: string where "DecisionReject = ''REJECT''"

record Violation =
  vi_Code :: string
  vi_Message :: string

definition zero_Violation :: Violation where
  "zero_Violation = \<lparr>vi_Code = [], vi_Message = []\<rparr>"

abbreviation violation :: "string \<Rightarrow> string \<Rightarrow> Violation" where
  "violation code message \<equiv> \<lparr>vi_Code = code, vi_Message = message\<rparr>"

record Decision =
  dc_Status :: string
  dc_ReasonCode :: string
  dc_Violations :: "Violation list"
  dc_Warnings :: "Violation list"
  dc_ReviewedAt :: time

record RouteKey =
  rk_AccountID :: int
  rk_VenueID :: int
  rk_UserID :: int
  rk_Environment :: int
  rk_Exchange :: int
  rk_Market :: int

record PendingRouteKey =
  pk_AccountID :: int
  pk_VenueID :: int
  pk_Environment :: int
  pk_Exchange :: int
  pk_Market :: int
  pk_PositionSide :: int
  pk_Symbol :: string

record SnapshotRequest =
  sq_RouteKey :: RouteKey
  sq_Symbol :: string

record ReviewRequest =
  rq_AccountID :: int
  rq_VenueID :: int
  rq_UserID :: int
  rq_Environment :: int
  rq_Exchange :: int
  rq_Market :: int
  rq_PositionSide :: int
  rq_Symbol :: string
  rq_Side :: string
  rq_Qty :: float64
  rq_Price :: "float64 option"
  rq_MarkPrice :: float64
  rq_OrderType :: string
  rq_TimeInForce :: string
  rq_PostOnly :: bool
  rq_GoodTillDate :: "time option"
  rq_ReduceOnly :: bool

record Balance =
  ba_Asset :: string
  ba_Available :: float64
  ba_Locked :: float64

record Position =
  po_Symbol :: string
  po_PositionSide :: string
  po_Qty :: float64

record FuturesRiskMetadata =
  fr_Symbol :: string
  fr_ConfiguredLeverage :: float64
  fr_StepSize :: float64
  fr_TickSize :: float64
  fr_MinQty :: float64
  fr_MinNotional :: float64

record Snapshot =
  sn_AvailableBalance :: float64
  sn_Balances :: "Balance list"
  sn_Positions :: "Position list"
  sn_FuturesRiskMetadata :: "FuturesRiskMetadata list"

definition zero_FuturesRiskMetadata :: FuturesRiskMetadata where
  "zero_FuturesRiskMetadata = \<lparr>fr_Symbol = [], fr_ConfiguredLeverage = 0, fr_StepSize = 0,
     fr_TickSize = 0, fr_MinQty = 0, fr_MinNotional = 0\<rparr>"

definition zero_Snapshot :: Snapshot where
  "zero_Snapshot = \<lparr>sn_AvailableBalance = 0, sn_Balances = [], sn_Positions = [],
     sn_FuturesRiskMetadata = []\<rparr>"

abbreviation norm_sym :: "string \<Rightarrow> string" where "norm_sym s \<equiv> to_upper (trim_space s)"

subsection \<open>Capability and symbol rules\<close>

definition riskEpsilon :: float64 where "riskEpsilon = flit (1 / 10 ^ 12)"

definition containsFold :: "string list \<Rightarrow> string \<Rightarrow> bool" where
  "containsFold values needle = (\<exists>value\<in>set values. norm_sym value = norm_sym needle)"

definition validateCapability :: "ReviewRequest \<Rightarrow> OrderCapability \<Rightarrow> Violation" where
  "validateCapability req capability =
     (let orderType0 = norm_sym (rq_OrderType req);
          orderType = (if orderType0 = [] then ''MARKET'' else orderType0);
          tif0 = norm_sym (rq_TimeInForce req);
          tif = (if orderType = ''LIMIT'' \<and> tif0 = [] then ''GTC'' else tif0);
          combination = violation ''UNSUPPORTED_ORDER_COMBINATION''
      in if \<not> containsFold (cap_OrderTypes capability) orderType
           then violation ''ORDER_TYPE_UNSUPPORTED'' (''order_type '' @ orderType @ '' is unsupported'')
         else if orderType = ''MARKET'' \<and> rq_Price req \<noteq> None
           then combination ''market order must not set price''
         else if orderType = ''MARKET'' \<and> rq_PostOnly req
           then combination ''market order must not set post_only''
         else if orderType = ''MARKET'' \<and> trim_space (rq_TimeInForce req) \<noteq> []
           then combination ''market order must not set time_in_force''
         else if orderType = ''MARKET'' \<and> rq_GoodTillDate req \<noteq> None
           then combination ''market order must not set good_till_date''
         else if rq_PostOnly req \<and> \<not> cap_SupportsPostOnly capability
           then violation ''POST_ONLY_UNSUPPORTED'' ''post_only is unsupported''
         else if tif \<noteq> [] \<and> \<not> containsFold (cap_TimeInForce capability) tif
           then violation ''TIME_IN_FORCE_UNSUPPORTED'' (''time_in_force '' @ tif @ '' is unsupported'')
         else if rq_PostOnly req \<and> (tif = ''IOC'' \<or> tif = ''FOK'' \<or> tif = ''GTD'')
           then combination (''post_only cannot be combined with time_in_force='' @ tif)
         else if (tif = ''GTD'' \<or> rq_GoodTillDate req \<noteq> None) \<and> \<not> cap_SupportsGTD capability
           then violation ''GTD_UNSUPPORTED'' ''good_till_date is unsupported''
         else if rq_ReduceOnly req \<and> \<not> cap_SupportsReduceOnly capability
           then violation ''REDUCE_ONLY_UNSUPPORTED'' ''reduce_only is unsupported''
         else zero_Violation)"

definition priceBasis :: "ReviewRequest \<Rightarrow> float64" where
  "priceBasis req = (case rq_Price req of
     Some p \<Rightarrow> if 0 < p then p else rq_MarkPrice req | None \<Rightarrow> rq_MarkPrice req)"

definition orderNotional :: "ReviewRequest \<Rightarrow> float64" where
  "orderNotional req = (let price = priceBasis req in if price \<le> 0 then 0 else \<bar>rq_Qty req\<bar> * price)"

definition alignsToIncrement :: "float64 \<Rightarrow> float64 \<Rightarrow> bool" where
  "alignsToIncrement val increment =
     (if increment \<le> 0 then True
      else let scaled = val / increment; nearest = fround scaled
           in \<bar>scaled - nearest\<bar> \<le> flit (1 / 10 ^ 9)
              \<or> \<bar>val - nearest * increment\<bar> \<le> fmax riskEpsilon (increment * flit (1 / 10 ^ 9)))"

definition validateSymbolRules :: "ReviewRequest \<Rightarrow> FuturesRiskMetadata \<Rightarrow> Violation" where
  "validateSymbolRules req metadata =
     (let qty = \<bar>rq_Qty req\<bar>; notional = orderNotional req;
          price = (case rq_Price req of Some p \<Rightarrow> p | None \<Rightarrow> 0)
      in if 0 < fr_MinQty metadata \<and> qty + riskEpsilon < fr_MinQty metadata
           then violation ''MIN_QTY_VIOLATION''
             (''qty '' @ format_g qty @ '' is below min_qty '' @ format_g (fr_MinQty metadata))
         else if 0 < fr_StepSize metadata \<and> \<not> alignsToIncrement qty (fr_StepSize metadata)
           then violation ''STEP_SIZE_VIOLATION''
             (''qty '' @ format_g qty @ '' is not aligned to step_size '' @ format_g (fr_StepSize metadata))
         else if equal_fold (trim_space (rq_OrderType req)) ''LIMIT'' \<and> rq_Price req \<noteq> None
            \<and> 0 < fr_TickSize metadata \<and> \<not> alignsToIncrement price (fr_TickSize metadata)
           then violation ''TICK_SIZE_VIOLATION''
             (''price '' @ format_g price @ '' is not aligned to tick_size '' @ format_g (fr_TickSize metadata))
         else if 0 < fr_MinNotional metadata \<and> notional + riskEpsilon < fr_MinNotional metadata
           then violation ''MIN_NOTIONAL_VIOLATION''
             (''notional '' @ format_g notional @ '' is below min_notional '' @ format_g (fr_MinNotional metadata))
         else zero_Violation)"

subsection \<open>Balances and positions\<close>

definition quoteAssets :: "string list" where
  "quoteAssets = [''USDT'', ''USDC'', ''BUSD'', ''FDUSD'', ''TUSD'', ''BTC'', ''ETH'', ''BNB'']"

definition matchedQuote :: "string \<Rightarrow> string option" where
  "matchedQuote symbol =
     find (\<lambda>quote. has_suffix symbol quote \<and> length quote < length symbol) quoteAssets"

definition baseAsset :: "string \<Rightarrow> string" where
  "baseAsset symbol0 = (let symbol = norm_sym symbol0 in
     case matchedQuote symbol of Some quote \<Rightarrow> trim_suffix symbol quote | None \<Rightarrow> [])"

definition quoteAsset :: "string \<Rightarrow> string" where
  "quoteAsset symbol0 = (let symbol = norm_sym symbol0 in
     case matchedQuote symbol of Some quote \<Rightarrow> quote | None \<Rightarrow> [])"

definition positionSideText :: "int \<Rightarrow> string" where
  "positionSideText positionSide =
     (if positionSide = 1 then ''LONG'' else if positionSide = 2 then ''SHORT'' else ''BOTH'')"

definition availableBalance :: "Snapshot \<Rightarrow> string \<Rightarrow> float64 option" where
  "availableBalance snapshot asset = map_option ba_Available
     (find (\<lambda>item. norm_sym (ba_Asset item) = norm_sym asset) (sn_Balances snapshot))"

definition futuresMetadata :: "Snapshot \<Rightarrow> string \<Rightarrow> FuturesRiskMetadata option" where
  "futuresMetadata snapshot symbol =
     find (\<lambda>item. norm_sym (fr_Symbol item) = norm_sym symbol) (sn_FuturesRiskMetadata snapshot)"

definition futuresPosition :: "Snapshot \<Rightarrow> string \<Rightarrow> int \<Rightarrow> Position option" where
  "futuresPosition snapshot symbol positionSide =
     find (\<lambda>item. norm_sym (po_Symbol item) = norm_sym symbol
         \<and> (let itemSide = norm_sym (po_PositionSide item)
            in (if itemSide = [] then ''BOTH'' else itemSide) = positionSideText positionSide))
       (sn_Positions snapshot)"

definition short_of :: "float64 option \<Rightarrow> float64 \<Rightarrow> bool" where
  "short_of available need = (case available of None \<Rightarrow> True | Some a \<Rightarrow> a + riskEpsilon < need)"

definition validateSpotBalance :: "ReviewRequest \<Rightarrow> Snapshot \<Rightarrow> Violation" where
  "validateSpotBalance req snapshot =
     (let base = baseAsset (rq_Symbol req); quote = quoteAsset (rq_Symbol req);
          buy = equal_fold (rq_Side req) ''BUY''; sell = equal_fold (rq_Side req) ''SELL'';
          notional = orderNotional req
      in if rq_ReduceOnly req \<and> buy
           then violation ''SPOT_REDUCE_ONLY_BUY'' ''spot reduce_only only supports SELL''
         else if base = [] \<or> quote = []
           then violation ''SYMBOL_RULES_MISSING'' ''cannot infer base asset from symbol''
         else if sell \<and> short_of (availableBalance snapshot base) \<bar>rq_Qty req\<bar>
           then violation ''INSUFFICIENT_UNLOCKED_QTY'' (''available '' @ base @ '' qty is insufficient'')
         else if buy \<and> notional \<le> 0
           then violation ''PRICE_REQUIRED_FOR_RISK''
             ''positive price or mark_price is required for spot buy risk check''
         else if buy \<and> short_of (availableBalance snapshot quote) notional
           then violation ''INSUFFICIENT_QUOTE_BALANCE''
             (''available '' @ quote @ '' balance is below required notional '' @ format_g notional)
         else zero_Violation)"

definition validateFuturesReduceOnly :: "ReviewRequest \<Rightarrow> Snapshot \<Rightarrow> Violation" where
  "validateFuturesReduceOnly req snapshot =
     (let missing = violation ''REDUCE_ONLY_POSITION_MISSING'' ''reduce_only requires an existing position'' in
      case futuresPosition snapshot (rq_Symbol req) (rq_PositionSide req) of
        None \<Rightarrow> missing
      | Some position \<Rightarrow>
          if \<bar>po_Qty position\<bar> \<le> riskEpsilon then missing
          else if equal_fold (rq_Side req) ''SELL'' \<and> po_Qty position \<le> 0
            then violation ''REDUCE_ONLY_POSITION_MISMATCH'' ''reduce_only SELL requires a long position''
          else if \<not> equal_fold (rq_Side req) ''SELL'' \<and> equal_fold (rq_Side req) ''BUY'' \<and> 0 \<le> po_Qty position
            then violation ''REDUCE_ONLY_POSITION_MISMATCH'' ''reduce_only BUY requires a short position''
          else if \<bar>po_Qty position\<bar> + riskEpsilon < \<bar>rq_Qty req\<bar>
            then violation ''REDUCE_ONLY_QTY_EXCEEDS_POSITION''
              (''reduce_only qty '' @ format_g \<bar>rq_Qty req\<bar> @ '' exceeds position qty ''
               @ format_g \<bar>po_Qty position\<bar>)
          else zero_Violation)"

definition validateFuturesBalance :: "ReviewRequest \<Rightarrow> Snapshot \<Rightarrow> Violation" where
  "validateFuturesBalance req snapshot =
     (let missing = violation ''RISK_METADATA_MISSING'' ''futures risk metadata is missing'' in
      case futuresMetadata snapshot (rq_Symbol req) of
        None \<Rightarrow> missing
      | Some metadata \<Rightarrow>
          if fr_ConfiguredLeverage metadata \<le> 0 then missing
          else let v = validateSymbolRules req metadata in
          if vi_Code v \<noteq> [] then v
          else if rq_ReduceOnly req then validateFuturesReduceOnly req snapshot
          else let notional = orderNotional req in
          if notional \<le> 0
            then violation ''PRICE_REQUIRED_FOR_RISK''
              ''positive price or mark_price is required for futures risk check''
          else let requiredMargin = notional / fr_ConfiguredLeverage metadata in
          if sn_AvailableBalance snapshot + riskEpsilon < requiredMargin
            then violation ''INSUFFICIENT_AVAILABLE_BALANCE''
              (''available_balance '' @ format_g (sn_AvailableBalance snapshot)
               @ '' is below required_margin '' @ format_g requiredMargin)
          else zero_Violation)"

subsection \<open>The gate\<close>

definition mergeItem :: "FuturesRiskMetadata \<Rightarrow> FuturesRiskMetadata \<Rightarrow> FuturesRiskMetadata" where
  "mergeItem merged item = merged
     \<lparr>fr_Symbol := firstNonEmptyString [fr_Symbol merged, fr_Symbol item],
      fr_StepSize := (if 0 < fr_StepSize item then fr_StepSize item else fr_StepSize merged),
      fr_TickSize := (if 0 < fr_TickSize item then fr_TickSize item else fr_TickSize merged),
      fr_MinQty := (if 0 < fr_MinQty item then fr_MinQty item else fr_MinQty merged),
      fr_MinNotional := (if 0 < fr_MinNotional item then fr_MinNotional item else fr_MinNotional merged)\<rparr>"

fun bySymbol_primary :: "FuturesRiskMetadata list \<Rightarrow> (string \<times> FuturesRiskMetadata) list \<Rightarrow>
    (string \<times> FuturesRiskMetadata) list" where
  "bySymbol_primary [] m = m"
| "bySymbol_primary (item # items) m = bySymbol_primary items (AList.update (norm_sym (fr_Symbol item)) item m)"

fun bySymbol_secondary :: "FuturesRiskMetadata list \<Rightarrow> (string \<times> FuturesRiskMetadata) list \<Rightarrow>
    (string \<times> FuturesRiskMetadata) list" where
  "bySymbol_secondary [] m = m"
| "bySymbol_secondary (item # items) m =
     (let key = norm_sym (fr_Symbol item);
          merged = (case map_of m key of Some x \<Rightarrow> x | None \<Rightarrow> zero_FuturesRiskMetadata)
      in bySymbol_secondary items (AList.update key (mergeItem merged item) m))"

type_synonym range_order = "FuturesRiskMetadata list \<Rightarrow> FuturesRiskMetadata list"

definition mergeRiskMetadata :: "range_order \<Rightarrow> FuturesRiskMetadata list \<Rightarrow> FuturesRiskMetadata list \<Rightarrow>
    FuturesRiskMetadata list" where
  "mergeRiskMetadata iter primary secondary =
     (if secondary = [] then primary
      else iter (map snd (bySymbol_secondary secondary (bySymbol_primary primary []))))"

record 'db DefaultGate =
  dg_capabilityReader :: "(RouteKey \<Rightarrow> OrderCapability result) option"
  dg_snapshotReader :: "(SnapshotRequest \<Rightarrow> Snapshot result) option"
  dg_pendingReader :: "(PendingRouteKey \<Rightarrow> 'db \<Rightarrow> bool result \<times> 'db) option"
  dg_symbolRulesReader :: "(SnapshotRequest \<Rightarrow> FuturesRiskMetadata list result) option"

definition routeKey :: "ReviewRequest \<Rightarrow> RouteKey" where
  "routeKey req = \<lparr>rk_AccountID = rq_AccountID req, rk_VenueID = rq_VenueID req,
     rk_UserID = rq_UserID req, rk_Environment = rq_Environment req,
     rk_Exchange = rq_Exchange req, rk_Market = rq_Market req\<rparr>"

definition pendingKey :: "ReviewRequest \<Rightarrow> PendingRouteKey" where
  "pendingKey req = \<lparr>pk_AccountID = rq_AccountID req, pk_VenueID = rq_VenueID req,
     pk_Environment = rq_Environment req, pk_Exchange = rq_Exchange req,
     pk_Market = rq_Market req, pk_PositionSide = rq_PositionSide req,
     pk_Symbol = norm_sym (rq_Symbol req)\<rparr>"

definition rejectViolation :: "time \<Rightarrow> Violation \<Rightarrow> Decision" where
  "rejectViolation reviewedAt v = \<lparr>dc_Status = DecisionReject, dc_ReasonCode = vi_Code v,
     dc_Violations = [v], dc_Warnings = [], dc_ReviewedAt = reviewedAt\<rparr>"

definition reject :: "time \<Rightarrow> string \<Rightarrow> string \<Rightarrow> Decision" where
  "reject reviewedAt code message = rejectViolation reviewedAt (violation code message)"

definition allowDecision :: "time \<Rightarrow> Decision" where
  "allowDecision reviewedAt = \<lparr>dc_Status = DecisionAllow, dc_ReasonCode = [], dc_Violations = [],
     dc_Warnings = [], dc_ReviewedAt = reviewedAt\<rparr>"

definition normalizeReview :: "ReviewRequest \<Rightarrow> ReviewRequest" where
  "normalizeReview req0 =
     (let orderType0 = norm_sym (rq_OrderType req0);
          orderType = (if orderType0 = [] then (if rq_Price req0 \<noteq> None then ''LIMIT'' else ''MARKET'')
                       else orderType0);
          tif0 = norm_sym (rq_TimeInForce req0);
          tif = (if orderType = ''LIMIT'' \<and> tif0 = [] then ''GTC'' else tif0)
      in req0\<lparr>rq_Symbol := norm_sym (rq_Symbol req0), rq_Side := norm_sym (rq_Side req0),
              rq_OrderType := orderType, rq_TimeInForce := tif\<rparr>)"

definition snapshotRequest :: "ReviewRequest \<Rightarrow> SnapshotRequest" where
  "snapshotRequest req = \<lparr>sq_RouteKey = routeKey req, sq_Symbol = rq_Symbol req\<rparr>"

definition marketViolation :: "ReviewRequest \<Rightarrow> Snapshot \<Rightarrow> Violation" where
  "marketViolation req snapshot =
     (if int16_of (rq_Market req) = MarketSpot then validateSpotBalance req snapshot
      else if int16_of (rq_Market req) = MarketPerpetualFutures then validateFuturesBalance req snapshot
      else zero_Violation)"

definition capabilityViolation :: "'db DefaultGate \<Rightarrow> ReviewRequest \<Rightarrow> Violation result" where
  "capabilityViolation g req = (case dg_capabilityReader g of
     None \<Rightarrow> Inr zero_Violation
   | Some readCap \<Rightarrow> bind_result (readCap (routeKey req)) (\<lambda>c. Inr (validateCapability req c)))"

definition reviewSnapshot :: "range_order \<Rightarrow> 'db DefaultGate \<Rightarrow> ReviewRequest \<Rightarrow> Snapshot result" where
  "reviewSnapshot iter g req =
     bind_result (case dg_snapshotReader g of None \<Rightarrow> Inr zero_Snapshot | Some rd \<Rightarrow> rd (snapshotRequest req))
       (\<lambda>snapshot. case dg_symbolRulesReader g of
          None \<Rightarrow> Inr snapshot
        | Some rulesOf \<Rightarrow>
            if int16_of (rq_Market req) \<noteq> MarketPerpetualFutures then Inr snapshot
            else bind_result (rulesOf (snapshotRequest req)) (\<lambda>rules.
              Inr (snapshot\<lparr>sn_FuturesRiskMetadata :=
                     mergeRiskMetadata iter (sn_FuturesRiskMetadata snapshot) rules\<rparr>)))"

definition reviewPure :: "range_order \<Rightarrow> 'db DefaultGate \<Rightarrow> time \<Rightarrow> ReviewRequest \<Rightarrow> Decision result" where
  "reviewPure iter g reviewedAt req =
     bind_result (capabilityViolation g req) (\<lambda>v.
       if vi_Code v \<noteq> [] then Inr (rejectViolation reviewedAt v)
       else bind_result (reviewSnapshot iter g req) (\<lambda>snapshot.
         let w = marketViolation req snapshot
         in if vi_Code w \<noteq> [] then Inr (rejectViolation reviewedAt w)
            else Inr (allowDecision reviewedAt)))"

definition hasPending :: "'db DefaultGate \<Rightarrow> ReviewRequest \<Rightarrow> 'db \<Rightarrow> bool result \<times> 'db" where
  "hasPending g req db = (case dg_pendingReader g of
     None \<Rightarrow> (Inr False, db) | Some pending \<Rightarrow> pending (pendingKey req) db)"

definition Review :: "range_order \<Rightarrow> 'db DefaultGate \<Rightarrow> time \<Rightarrow> ReviewRequest \<Rightarrow> 'db \<Rightarrow> Decision result \<times> 'db" where
  "Review iter g reviewedAt req0 db =
     (if rq_AccountID req0 \<le> 0 \<or> rq_VenueID req0 \<le> 0
      then (Inr (reject reviewedAt ''INVALID_ROUTE'' ''account_id and venue_id are required''), db)
      else let req = normalizeReview req0; (pending, db') = hasPending g req db in
        case pending of
          Inl err \<Rightarrow> (Inl err, db')
        | Inr True \<Rightarrow> (Inr (reject reviewedAt ''ROUTE_PENDING_EXECUTION'' ''route has pending execution''), db')
        | Inr False \<Rightarrow> (reviewPure iter g reviewedAt req, db'))"

definition AllowGate_Review :: "time \<Rightarrow> ReviewRequest \<Rightarrow> 'db \<Rightarrow> Decision result \<times> 'db" where
  "AllowGate_Review now req db = (Inr (allowDecision now), db)"

subsection \<open>The readers of pending.go\<close>

definition adapterRoute :: "RouteKey \<Rightarrow> Route" where
  "adapterRoute key = \<lparr>rt_Exchange = int16_of (rk_Exchange key), rt_Environment = int16_of (rk_Environment key),
     rt_Market = int16_of (rk_Market key)\<rparr>"

definition AdapterCapabilityReader :: "Registry \<Rightarrow> RouteKey \<Rightarrow> OrderCapability result" where
  "AdapterCapabilityReader registry route =
     bind_result (Registry_OrderCapabilityProvider registry (adapterRoute route)) (\<lambda>provider. provider)"

definition AdapterSymbolRulesReader :: "Registry \<Rightarrow> SnapshotRequest \<Rightarrow> FuturesRiskMetadata list result" where
  "AdapterSymbolRulesReader registry req =
     bind_result (Registry_SymbolRulesReader registry (adapterRoute (sq_RouteKey req))) (\<lambda>reader.
       bind_result (reader [norm_sym (sq_Symbol req)]) (\<lambda>rules.
         Inr (map (\<lambda>rule. zero_FuturesRiskMetadata
           \<lparr>fr_Symbol := norm_sym (sy_Symbol rule), fr_MinQty := sy_MinQty rule,
            fr_MinNotional := sy_MinNotional rule, fr_StepSize := sy_StepSize rule,
            fr_TickSize := sy_TickSize rule\<rparr>) rules)))"

definition snapshotFromOnlineInfo :: "OnlineAccountInfo \<Rightarrow> Snapshot" where
  "snapshotFromOnlineInfo info =
     \<lparr>sn_AvailableBalance = (if feq (oai_AvailableBalance info) 0
        then fw_AvailableBalance (oai_Futures info) else oai_AvailableBalance info),
      sn_Balances = map (\<lambda>asset. \<lparr>ba_Asset = sa_Symbol asset, ba_Available = sa_Qty asset - sa_Locked asset,
        ba_Locked = sa_Locked asset\<rparr>) (sw_Assets (oai_Spot info)),
      sn_Positions = map (\<lambda>pos. \<lparr>po_Symbol = fp_Symbol pos, po_PositionSide = fp_PositionSide pos,
        po_Qty = fp_PositionQty pos\<rparr>) (fw_Positions (oai_Futures info)),
      sn_FuturesRiskMetadata = map (\<lambda>item. zero_FuturesRiskMetadata
        \<lparr>fr_Symbol := wm_Symbol item, fr_ConfiguredLeverage := wm_ConfiguredLeverage item,
         fr_StepSize := wm_StepSize item, fr_TickSize := wm_TickSize item\<rparr>)
        (fw_RiskMetadata (oai_Futures info))\<rparr>"

definition VenueWalletSnapshotReader :: "(int \<Rightarrow> int \<Rightarrow> OnlineAccountInfo result) \<Rightarrow> SnapshotRequest \<Rightarrow> Snapshot result" where
  "VenueWalletSnapshotReader getVenueWalletState req =
     bind_result (getVenueWalletState (rk_VenueID (sq_RouteKey req)) (rk_UserID (sq_RouteKey req)))
       (\<lambda>info. Inr (snapshotFromOnlineInfo info))"

definition pendingOrderMatches :: "OpenOrder \<Rightarrow> PendingRouteKey \<Rightarrow> bool" where
  "pendingOrderMatches order key =
     (oo_AccountID order = pk_AccountID key \<and> oo_VenueID order = pk_VenueID key
      \<and> oo_Environment order = pk_Environment key \<and> oo_Exchange order = pk_Exchange key
      \<and> oo_Market order = pk_Market key \<and> oo_PositionSide order = pk_PositionSide key
      \<and> equal_fold (trim_space (oo_Symbol order)) (trim_space (pk_Symbol key)))"

definition HasPendingRoute :: "(int \<Rightarrow> 'db \<Rightarrow> OpenOrder list result \<times> 'db) \<Rightarrow> int \<Rightarrow> PendingRouteKey \<Rightarrow> 'db \<Rightarrow>
    bool result \<times> 'db" where
  "HasPendingRoute listOpen limit0 key db =
     (let limit = (if limit0 \<le> 0 then 500 else limit0); (orders, db') = listOpen limit db
      in (bind_result orders (\<lambda>os. Inr (\<exists>order\<in>set os. pendingOrderMatches order key)), db'))"

definition NewOpenOrderPendingReader :: "time \<Rightarrow> PendingRouteKey \<Rightarrow> order_db \<Rightarrow> bool result \<times> order_db" where
  "NewOpenOrderPendingReader now = HasPendingRoute (ListOpenOrders now) 500"

end
