(* ===== verification/Executor.thy ===== *)
theory Executor
  imports Risk_Gate
begin

text \<open>
  Models \<^verbatim>\<open>internal/order/executor\<close> and the account metadata of \<^verbatim>\<open>internal/order/accountmeta\<close>:
  the request and result records (\<^verbatim>\<open>executor.go\<close>), the backtest executor (\<^verbatim>\<open>mock.go\<close>), the
  router over fixed executors (\<^verbatim>\<open>router.go\<close>), the router over the adapter registry
  (\<^verbatim>\<open>adapter_router.go\<close>), the session check of \<^verbatim>\<open>accountmeta/adapter.go\<close> and the time-to-live
  cache of \<^verbatim>\<open>accountmeta/cache.go\<close>.

  \<^verbatim>\<open>uuid.New()\<close> and \<^verbatim>\<open>time.Now()\<close> are arguments.  Credentials stay opaque: what
  \<^verbatim>\<open>parseCredential\<close> does outside a backtest is the argument \<open>validate\<close>, which fails or not.
\<close>

subsection \<open>Records\<close>

record Meta =
  me_AccountID :: int
  me_VenueID :: int
  me_UserID :: int
  me_Environment :: int
  me_Exchange :: int
  me_Market :: int
  me_MarginMode :: string
  me_PositionMode :: string
  me_APIKey :: string
  me_APISecret :: string
  me_CredentialJSON :: string
  me_DefaultFeeRate :: float64
  me_SlippageBps :: float64

record OrderRequest =
  xq_AccountID :: int
  xq_Exchange :: int
  xq_Market :: int
  xq_Symbol :: string
  xq_Side :: string
  xq_PositionSide :: int
  xq_OrderType :: string
  xq_TimeInForce :: string
  xq_PostOnly :: bool
  xq_GoodTillDate :: "time option"
  xq_ReduceOnly :: bool
  xq_Qty :: float64
  xq_Price :: "float64 option"
  xq_MarkPrice :: float64
  xq_ClientOrderID :: string

record RecoveryRequest =
  rr_AccountID :: int
  rr_Symbol :: string
  rr_ClientOrderID :: string
  rr_ExchangeOrderID :: string

record FillResult =
  fl_ExchangeTradeID :: string
  fl_Qty :: float64
  fl_FillPrice :: float64
  fl_Fee :: float64
  fl_FeeMissing :: bool

record OrderResult =
  xr_ExchangeOrderID :: string
  xr_ClientOrderID :: string
  xr_Symbol :: string
  xr_Side :: string
  xr_OrderType :: string
  xr_TimeInForce :: string
  xr_Status :: string
  xr_OrigQty :: float64
  xr_ExecutedQty :: float64
  xr_RemainingQty :: float64
  xr_AvgPrice :: float64
  xr_Price :: float64
  xr_Fills :: "FillResult list"
  xr_ErrorMessage :: string
  xr_FillPending :: bool

definition zero_OrderResult :: OrderResult where
  "zero_OrderResult = \<lparr>xr_ExchangeOrderID = [], xr_ClientOrderID = [], xr_Symbol = [], xr_Side = [],
     xr_OrderType = [], xr_TimeInForce = [], xr_Status = [], xr_OrigQty = 0, xr_ExecutedQty = 0,
     xr_RemainingQty = 0, xr_AvgPrice = 0, xr_Price = 0, xr_Fills = [], xr_ErrorMessage = [],
     xr_FillPending = False\<rparr>"

definition ErrOrderNotFound :: error where "ErrOrderNotFound = Sentinel ''exchange order not found''"

record Executor =
  ex_Execute :: "OrderRequest \<Rightarrow> Meta \<Rightarrow> OrderResult result"
  ex_Resolve :: "RecoveryRequest \<Rightarrow> Meta \<Rightarrow> OrderResult result"

subsection \<open>The backtest executor\<close>

primrec executorFirstNonEmpty :: "string list \<Rightarrow> string" where
  "executorFirstNonEmpty [] = []"
| "executorFirstNonEmpty (v # vs) = (if trim_space v \<noteq> [] then trim_space v else executorFirstNonEmpty vs)"

definition normalizeMockOrderSide :: "string \<Rightarrow> string option" where
  "normalizeMockOrderSide side = (let normalized = norm_sym side in
     if normalized = ''BUY'' \<or> normalized = ''SELL'' then Some normalized else None)"

definition openLimitResult :: "OrderRequest \<Rightarrow> string \<Rightarrow> float64 \<Rightarrow> OrderResult" where
  "openLimitResult req exchangeOrderID limitPrice = zero_OrderResult
     \<lparr>xr_ExchangeOrderID := exchangeOrderID, xr_ClientOrderID := xq_ClientOrderID req,
      xr_Symbol := xq_Symbol req, xr_Side := xq_Side req, xr_OrderType := ''LIMIT'',
      xr_TimeInForce := executorFirstNonEmpty [xq_TimeInForce req, ''GTC''], xr_Status := ''NEW'',
      xr_OrigQty := \<bar>xq_Qty req\<bar>, xr_ExecutedQty := 0, xr_RemainingQty := \<bar>xq_Qty req\<bar>,
      xr_Price := limitPrice\<rparr>"

definition zero_BacktestLimitOrder :: BacktestLimitOrder where
  "zero_BacktestLimitOrder = \<lparr>bo_SessionID = [], bo_AccountID = 0, bo_VenueID = 0, bo_Environment = 0,
     bo_Exchange = 0, bo_Market = 0, bo_PositionSide = 0, bo_IntentID = [], bo_AttemptID = [],
     bo_OrderID = [], bo_ExchangeOrderID = [], bo_ClientOrderID = [], bo_Symbol = [], bo_Side = [],
     bo_Qty = 0, bo_LimitPrice = 0, bo_FeeRate = 0\<rparr>"

definition mockLimitOrder :: "string \<Rightarrow> OrderRequest \<Rightarrow> Meta \<Rightarrow> string \<Rightarrow> float64 \<Rightarrow> BacktestLimitOrder" where
  "mockLimitOrder exchangeOrderID req meta side limitPrice = zero_BacktestLimitOrder
     \<lparr>bo_AccountID := xq_AccountID req, bo_VenueID := me_VenueID meta,
      bo_ExchangeOrderID := exchangeOrderID, bo_ClientOrderID := xq_ClientOrderID req,
      bo_Symbol := xq_Symbol req, bo_Side := side, bo_Qty := xq_Qty req,
      bo_LimitPrice := limitPrice, bo_FeeRate := me_DefaultFeeRate meta\<rparr>"

definition mockBar :: "OrderRequest \<Rightarrow> time \<Rightarrow> BacktestBar" where
  "mockBar req now = \<lparr>bar_Symbol = xq_Symbol req, bar_Time = now, bar_Open = xq_MarkPrice req,
     bar_High = xq_MarkPrice req, bar_Low = xq_MarkPrice req, bar_Close = xq_MarkPrice req\<rparr>"

definition executeLimit :: "string \<Rightarrow> time \<Rightarrow> OrderRequest \<Rightarrow> Meta \<Rightarrow> OrderResult" where
  "executeLimit exchangeOrderID now req meta = (case normalizeMockOrderSide (xq_Side req) of
     None \<Rightarrow> zero_OrderResult\<lparr>xr_ExchangeOrderID := exchangeOrderID, xr_ClientOrderID := xq_ClientOrderID req,
       xr_Symbol := xq_Symbol req, xr_Side := xq_Side req, xr_OrderType := ''LIMIT'',
       xr_TimeInForce := executorFirstNonEmpty [xq_TimeInForce req, ''GTC''], xr_Status := ''FAILED'',
       xr_ErrorMessage := ''unsupported order side: '' @ xq_Side req\<rparr>
   | Some side \<Rightarrow>
       let limitPrice = (case xq_Price req of Some p \<Rightarrow> p | None \<Rightarrow> 0) in
       if xq_MarkPrice req \<le> 0 \<or> limitPrice \<le> 0
       then openLimitResult (req\<lparr>xq_Side := side\<rparr>) exchangeOrderID limitPrice
       else
         let result = MatchBacktestLimitGTC (mockLimitOrder exchangeOrderID req meta side limitPrice) (mockBar req now);
             state = bm_State result
         in zero_OrderResult\<lparr>xr_ExchangeOrderID := exchangeOrderID, xr_ClientOrderID := xq_ClientOrderID req,
              xr_Symbol := xq_Symbol req, xr_Side := side, xr_OrderType := ''LIMIT'',
              xr_TimeInForce := executorFirstNonEmpty [xq_TimeInForce req, ''GTC''],
              xr_Status := os_Status state, xr_OrigQty := os_OrigQty state,
              xr_ExecutedQty := os_ExecutedQty state, xr_RemainingQty := os_RemainingQty state,
              xr_AvgPrice := os_AvgPrice state, xr_Price := limitPrice,
              xr_Fills := (case bm_Event result of None \<Rightarrow> []
                | Some event \<Rightarrow> [\<lparr>fl_ExchangeTradeID = [], fl_Qty = fd_Qty (ev_FillDelta event),
                    fl_FillPrice = fd_FillPrice (ev_FillDelta event), fl_Fee = fd_Fee (ev_FillDelta event),
                    fl_FeeMissing = False\<rparr>])\<rparr>)"

definition mockFillPrice :: "string \<Rightarrow> float64 \<Rightarrow> float64 \<Rightarrow> float64" where
  "mockFillPrice side basePrice slippageFactor =
     (let fillPrice = (if side = ''BUY'' then basePrice * (1 + slippageFactor) else basePrice * (1 - slippageFactor))
      in fround (fillPrice * Fin 100000000) / Fin 100000000)"

definition executeMarket :: "string \<Rightarrow> string \<Rightarrow> OrderRequest \<Rightarrow> Meta \<Rightarrow> OrderResult" where
  "executeMarket exchangeOrderID orderType req meta =
     (let basePrice = (case xq_Price req of Some p \<Rightarrow> p | None \<Rightarrow> xq_MarkPrice req);
          slippageFactor = me_SlippageBps meta / Fin 10000
      in case normalizeMockOrderSide (xq_Side req) of
           None \<Rightarrow> zero_OrderResult\<lparr>xr_ClientOrderID := xq_ClientOrderID req, xr_Symbol := xq_Symbol req,
             xr_Side := xq_Side req, xr_OrderType := orderType, xr_TimeInForce := xq_TimeInForce req,
             xr_Status := ''FAILED'', xr_ErrorMessage := ''unsupported order side: '' @ xq_Side req\<rparr>
         | Some side \<Rightarrow>
             let fillPrice = mockFillPrice side basePrice slippageFactor;
                 qty = \<bar>xq_Qty req\<bar>;
                 fee = qty * fillPrice * me_DefaultFeeRate meta
             in zero_OrderResult\<lparr>xr_ExchangeOrderID := exchangeOrderID, xr_ClientOrderID := xq_ClientOrderID req,
                  xr_Symbol := xq_Symbol req, xr_Side := side, xr_OrderType := orderType,
                  xr_TimeInForce := xq_TimeInForce req, xr_Status := ''FILLED'', xr_OrigQty := qty,
                  xr_ExecutedQty := qty, xr_RemainingQty := 0, xr_AvgPrice := fillPrice,
                  xr_Price := basePrice,
                  xr_Fills := [\<lparr>fl_ExchangeTradeID = [], fl_Qty = qty, fl_FillPrice = fillPrice,
                    fl_Fee = fee, fl_FeeMissing = False\<rparr>]\<rparr>)"

definition MockExecutor_Execute :: "string \<Rightarrow> time \<Rightarrow> OrderRequest \<Rightarrow> Meta \<Rightarrow> OrderResult result" where
  "MockExecutor_Execute uuid now req meta =
     (let orderType = norm_sym (executorFirstNonEmpty [xq_OrderType req, ''MARKET''])
      in Inr (if orderType = ''LIMIT'' then executeLimit uuid now req meta
              else executeMarket uuid orderType req meta))"

definition MockExecutor_Resolve :: "RecoveryRequest \<Rightarrow> Meta \<Rightarrow> OrderResult result" where
  "MockExecutor_Resolve req meta = Inl ErrOrderNotFound"

definition MockExecutor :: "string \<Rightarrow> time \<Rightarrow> Executor" where
  "MockExecutor uuid now = \<lparr>ex_Execute = MockExecutor_Execute uuid now, ex_Resolve = MockExecutor_Resolve\<rparr>"

subsection \<open>The router over fixed executors\<close>

record Router =
  ro_mock :: Executor
  ro_binanceLive :: Executor
  ro_binanceTestnet :: Executor

definition binancePerpetual :: "Meta \<Rightarrow> bool" where
  "binancePerpetual meta = (me_Exchange meta = ExchangeBinance \<and> me_Market meta = MarketPerpetualFutures)"

definition unsupportedRoute :: "Meta \<Rightarrow> string" where
  "unsupportedRoute meta = ''unsupported order route: environment='' @ show_int (me_Environment meta)
     @ '' exchange='' @ show_int (me_Exchange meta) @ '' market='' @ show_int (me_Market meta)"

definition Router_Execute :: "Router \<Rightarrow> OrderRequest \<Rightarrow> Meta \<Rightarrow> OrderResult result" where
  "Router_Execute r req meta =
     (if me_Environment meta = EnvironmentBacktest then ex_Execute (ro_mock r) req meta
      else if binancePerpetual meta \<and> me_Environment meta = EnvironmentLive
        then ex_Execute (ro_binanceLive r) req meta
      else if binancePerpetual meta \<and> me_Environment meta = EnvironmentDemo
        then ex_Execute (ro_binanceTestnet r) req meta
      else Inr (zero_OrderResult\<lparr>xr_Status := ''FAILED'', xr_ErrorMessage := unsupportedRoute meta\<rparr>))"

definition Router_Resolve :: "Router \<Rightarrow> RecoveryRequest \<Rightarrow> Meta \<Rightarrow> OrderResult result" where
  "Router_Resolve r req meta =
     (if me_Environment meta = EnvironmentBacktest then ex_Resolve (ro_mock r) req meta
      else if binancePerpetual meta \<and> me_Environment meta = EnvironmentLive
        then ex_Resolve (ro_binanceLive r) req meta
      else if binancePerpetual meta \<and> me_Environment meta = EnvironmentDemo
        then ex_Resolve (ro_binanceTestnet r) req meta
      else Inl (Errorf (unsupportedRoute meta)))"

subsection \<open>The router over the registry\<close>

definition routeFromMeta :: "Meta \<Rightarrow> Route" where
  "routeFromMeta meta = \<lparr>rt_Exchange = int16_of (me_Exchange meta),
     rt_Environment = int16_of (me_Environment meta), rt_Market = int16_of (me_Market meta)\<rparr>"

definition parseCredential :: "(Route \<Rightarrow> Meta \<Rightarrow> unit result) \<Rightarrow> Route \<Rightarrow> Meta \<Rightarrow> unit result" where
  "parseCredential validate route meta =
     (if rt_Environment route = EnvironmentBacktest then Inr () else validate route meta)"

definition marginModeDomain :: "string \<Rightarrow> int" where
  "marginModeDomain v = (let m = to_lower (trim_space v) in
     if m = ''cross'' then MarginModeCross else if m = ''isolated'' then MarginModeIsolated else MarginModeNone)"

definition positionModeDomain :: "string \<Rightarrow> int" where
  "positionModeDomain v = (let m = to_lower (trim_space v) in
     if m = ''one_way'' then PositionModeOneWay else if m = ''hedge'' then PositionModeHedge else PositionModeNone)"

definition toAdapterOrderRequest :: "OrderRequest \<Rightarrow> Meta \<Rightarrow> AdapterOrderRequest" where
  "toAdapterOrderRequest req meta = \<lparr>aq_UserID = me_UserID meta, aq_AccountID = xq_AccountID req,
     aq_VenueID = me_VenueID meta, aq_Exchange = int16_of (me_Exchange meta),
     aq_Environment = int16_of (me_Environment meta), aq_Market = int16_of (me_Market meta),
     aq_Symbol = xq_Symbol req, aq_Side = xq_Side req,
     aq_PositionSide = positionSideText (xq_PositionSide req),
     aq_MarginMode = marginModeDomain (me_MarginMode meta),
     aq_PositionMode = positionModeDomain (me_PositionMode meta), aq_OrderType = xq_OrderType req,
     aq_TimeInForce = xq_TimeInForce req, aq_PostOnly = xq_PostOnly req,
     aq_GoodTillDate = xq_GoodTillDate req, aq_ReduceOnly = xq_ReduceOnly req, aq_Qty = xq_Qty req,
     aq_Price = xq_Price req, aq_MarkPrice = xq_MarkPrice req,
     aq_DefaultFeeRate = me_DefaultFeeRate meta, aq_SlippageBps = me_SlippageBps meta,
     aq_ClientOrderID = xq_ClientOrderID req\<rparr>"

definition fillResultOf :: "FillDelta \<Rightarrow> FillResult" where
  "fillResultOf fill = \<lparr>fl_ExchangeTradeID = fd_ExchangeTradeID fill, fl_Qty = fd_Qty fill,
     fl_FillPrice = fd_FillPrice fill, fl_Fee = fd_Fee fill, fl_FeeMissing = fd_FeeMissing fill\<rparr>"

definition fromAdapterOrderResult :: "AdapterOrderResult \<Rightarrow> OrderResult" where
  "fromAdapterOrderResult result = \<lparr>xr_ExchangeOrderID = ar_ExchangeOrderID result,
     xr_ClientOrderID = ar_ClientOrderID result, xr_Symbol = ar_Symbol result, xr_Side = ar_Side result,
     xr_OrderType = ar_OrderType result, xr_TimeInForce = ar_TimeInForce result,
     xr_Status = ar_Status result, xr_OrigQty = ar_OrigQty result, xr_ExecutedQty = ar_ExecutedQty result,
     xr_RemainingQty = ar_RemainingQty result, xr_AvgPrice = ar_AvgPrice result, xr_Price = ar_Price result,
     xr_Fills = map fillResultOf (ar_Fills result), xr_ErrorMessage = ar_ErrorMessage result,
     xr_FillPending = ar_FillPending result\<rparr>"

definition fromAdapterOrderState :: "OrderState \<Rightarrow> FillDelta list \<Rightarrow> OrderResult" where
  "fromAdapterOrderState state trades = zero_OrderResult
     \<lparr>xr_ExchangeOrderID := os_ExchangeOrderID state, xr_ClientOrderID := os_ClientOrderID state,
      xr_Symbol := os_Symbol state, xr_Status := os_Status state, xr_OrigQty := os_OrigQty state,
      xr_ExecutedQty := os_ExecutedQty state, xr_RemainingQty := os_RemainingQty state,
      xr_AvgPrice := os_AvgPrice state, xr_Fills := map fillResultOf trades\<rparr>"

definition tradedQty :: "FillDelta list \<Rightarrow> float64" where
  "tradedQty trades = foldl (\<lambda>q fill. q + \<bar>fd_Qty fill\<bar>) 0 trades"

definition adapterRecoveredFillQtyEpsilon :: float64 where
  "adapterRecoveredFillQtyEpsilon = flit (1 / 10 ^ 12)"

definition recoveredFillPendingMessage :: "OrderState \<Rightarrow> FillDelta list \<Rightarrow> string" where
  "recoveredFillPendingMessage state trades =
     (if os_ExecutedQty state \<le> 0 then []
      else if trades = []
        then ''order trades pending: executed_qty='' @ format_g (os_ExecutedQty state) @ '' trade_qty=0''
      else if adapterRecoveredFillQtyEpsilon < \<bar>tradedQty trades - os_ExecutedQty state\<bar>
        then ''order trades inconsistent: executed_qty='' @ format_g (os_ExecutedQty state)
          @ '' trade_qty='' @ format_g (tradedQty trades)
      else [])"

definition failedOrderResult :: "error \<Rightarrow> OrderResult" where
  "failedOrderResult err = zero_OrderResult\<lparr>xr_Status := ''FAILED'', xr_ErrorMessage := err_text err\<rparr>"

definition AdapterRouter_Execute :: "Registry \<Rightarrow> (Route \<Rightarrow> Meta \<Rightarrow> unit result) \<Rightarrow> OrderRequest \<Rightarrow> Meta \<Rightarrow> OrderResult result" where
  "AdapterRouter_Execute registry validate req meta =
     (let route = routeFromMeta meta in
      case Registry_OrderExecutor registry route of
        Inl err \<Rightarrow> Inr (failedOrderResult err)
      | Inr exec \<Rightarrow>
          (case parseCredential validate route meta of
             Inl err \<Rightarrow> Inr (failedOrderResult err)
           | Inr _ \<Rightarrow> bind_result (exec (toAdapterOrderRequest req meta)) (\<lambda>r. Inr (fromAdapterOrderResult r))))"

definition pendingResult :: "OrderState \<Rightarrow> string \<Rightarrow> OrderResult" where
  "pendingResult state msg = (fromAdapterOrderState state [])\<lparr>xr_FillPending := True, xr_ErrorMessage := msg\<rparr>"

definition recoveredResult :: "OrderState \<Rightarrow> FillDelta list result \<Rightarrow> OrderResult" where
  "recoveredResult state answer = (case answer of
     Inl err \<Rightarrow> pendingResult state (err_text err)
   | Inr trades \<Rightarrow> (let pendingMsg = recoveredFillPendingMessage state trades in
       if pendingMsg \<noteq> [] then pendingResult state pendingMsg else fromAdapterOrderState state trades))"

definition AdapterRouter_Resolve :: "Registry \<Rightarrow> (Route \<Rightarrow> Meta \<Rightarrow> unit result) \<Rightarrow> RecoveryRequest \<Rightarrow> Meta \<Rightarrow> OrderResult result" where
  "AdapterRouter_Resolve registry validate req meta =
     (let route = routeFromMeta meta in
      bind_result (Registry_OrderStateReader registry route) (\<lambda>reader.
      bind_result (parseCredential validate route meta) (\<lambda>_.
      bind_result (asr_QueryOrder reader \<lparr>qo_AccountID = rr_AccountID req, qo_VenueID = me_VenueID meta,
         qo_Symbol = rr_Symbol req, qo_ClientOrderID = rr_ClientOrderID req,
         qo_ExchangeOrderID = rr_ExchangeOrderID req\<rparr>) (\<lambda>state.
      Inr (recoveredResult state (asr_QueryTrades reader \<lparr>qt_AccountID = rr_AccountID req, qt_VenueID = me_VenueID meta,
         qt_Symbol = executorFirstNonEmpty [rr_Symbol req, os_Symbol state],
         qt_ExchangeOrderID = executorFirstNonEmpty [rr_ExchangeOrderID req, os_ExchangeOrderID state]\<rparr>))))))"

definition AdapterRouter :: "Registry \<Rightarrow> (Route \<Rightarrow> Meta \<Rightarrow> unit result) \<Rightarrow> Executor" where
  "AdapterRouter registry validate = \<lparr>ex_Execute = AdapterRouter_Execute registry validate,
     ex_Resolve = AdapterRouter_Resolve registry validate\<rparr>"

subsection \<open>Account metadata\<close>

definition marginModeText :: "int \<Rightarrow> string" where
  "marginModeText mode = (if mode = MarginModeCross then ''cross''
     else if mode = MarginModeIsolated then ''isolated'' else [])"

definition positionModeText :: "int \<Rightarrow> string" where
  "positionModeText mode = (if mode = PositionModeOneWay then ''one_way''
     else if mode = PositionModeHedge then ''hedge'' else [])"

definition mapRepositoryError :: "error \<Rightarrow> error" where
  "mapRepositoryError err =
     (if errors_is err ''context canceled'' then Status Canceled (err_text err)
      else if errors_is err ''context deadline exceeded'' then Status DeadlineExceeded (err_text err)
      else if errors_is err ''not found'' then Status NotFound (err_text err)
      else if errors_is err ''permission denied'' then Status PermissionDenied (err_text err)
      else Status Internal (''repository error: '' @ err_text err))"

record SessionFacts =
  se_AccountID :: int
  se_StrategyID :: int
  se_Status :: string

definition ValidateActiveSession :: "(string \<Rightarrow> int \<Rightarrow> SessionFacts result) \<Rightarrow> Meta \<Rightarrow> int \<Rightarrow> string \<Rightarrow> error option" where
  "ValidateActiveSession getSession meta strategyID sessionID0 =
     (let sessionID = trim_space sessionID0 in
      if sessionID = [] then None
      else case getSession sessionID (me_UserID meta) of
        Inl err \<Rightarrow> Some (mapRepositoryError err)
      | Inr session \<Rightarrow>
          if se_AccountID session \<noteq> me_AccountID meta
            then Some (Status PermissionDenied (''session '' @ sessionID @ '' does not belong to account ''
              @ show_int (me_AccountID meta)))
          else if strategyID \<noteq> 0 \<and> se_StrategyID session \<noteq> strategyID
            then Some (Status PermissionDenied (''session '' @ sessionID @ '' does not belong to strategy ''
              @ show_int strategyID))
          else let sessionStatus = trim_space (se_Status session) in
          if to_lower sessionStatus = ''running'' \<or> to_lower sessionStatus = ''stopping'' then None
          else Some (Status FailedPrecondition (''session '' @ sessionID @ '' status '' @ sessionStatus @ '' is not active'')))"

type_synonym cache_key = "int \<times> int \<times> int"

record Cache =
  ch_m :: "cache_key \<rightharpoonup> Meta \<times> time"
  ch_ttl :: duration

definition NewCache :: "duration \<Rightarrow> Cache" where
  "NewCache ttl = \<lparr>ch_m = Map.empty, ch_ttl = ttl\<rparr>"

definition Cache_Get :: "time \<Rightarrow> int \<Rightarrow> int \<Rightarrow> int \<Rightarrow> Cache \<Rightarrow> Meta option" where
  "Cache_Get now accountID exchange market c = (case ch_m c (accountID, exchange, market) of
     None \<Rightarrow> None | Some (meta, expiresAt) \<Rightarrow> if expiresAt < now then None else Some meta)"

definition Cache_Set :: "time \<Rightarrow> int \<Rightarrow> int \<Rightarrow> int \<Rightarrow> Meta \<Rightarrow> Cache \<Rightarrow> Cache" where
  "Cache_Set now accountID exchange market meta c =
     c\<lparr>ch_m := (ch_m c)((accountID, exchange, market) \<mapsto> (meta, now + ch_ttl c))\<rparr>"

subsection \<open>What an execution returns\<close>

lemma Cache_Get_Set:
  "Cache_Get t' a' e' m' (Cache_Set t a e m meta c) =
     (if (a', e', m') = (a, e, m) then (if t' \<le> t + ch_ttl c then Some meta else None)
      else Cache_Get t' a' e' m' c)"
  by (auto simp: Cache_Get_def Cache_Set_def)

lemma Cache_Get_expired:
  "Cache_Get t a e m c = None \<Longrightarrow> t \<le> t' \<Longrightarrow> Cache_Get t' a e m c = None"
  by (auto simp: Cache_Get_def split: option.splits if_splits)

definition complete_fill :: "OrderResult \<Rightarrow> OrderRequest \<Rightarrow> bool" where
  "complete_fill r req = (xr_Status r = ''FILLED'' \<and> xr_OrigQty r = \<bar>xq_Qty req\<bar> \<and> xr_ExecutedQty r = \<bar>xq_Qty req\<bar>
     \<and> xr_RemainingQty r = 0 \<and> map fl_Qty (xr_Fills r) = [\<bar>xq_Qty req\<bar>])"

definition resting :: "OrderResult \<Rightarrow> OrderRequest \<Rightarrow> bool" where
  "resting r req = (xr_Status r = ''NEW'' \<and> xr_OrigQty r = \<bar>xq_Qty req\<bar> \<and> xr_ExecutedQty r = 0
     \<and> xr_RemainingQty r = \<bar>xq_Qty req\<bar> \<and> xr_Fills r = [])"

lemma zero_OrderResult_fills [simp]: "xr_Fills zero_OrderResult = []"
  by (simp add: zero_OrderResult_def)

text \<open>
  A backtest order with a known side is filled completely or rests untouched; a limit order is
  filled exactly when the mark price has reached its limit, and never at a worse price.
\<close>

lemma executeMarket_complete:
  "normalizeMockOrderSide (xq_Side req) = Some side \<Longrightarrow> complete_fill (executeMarket uuid orderType req meta) req"
  by (simp add: executeMarket_def complete_fill_def Let_def)

definition limit_reached :: "OrderRequest \<Rightarrow> string \<Rightarrow> float64 \<Rightarrow> bool" where
  "limit_reached req side limit =
     (if side = ''BUY'' then xq_MarkPrice req \<le> limit else limit \<le> xq_MarkPrice req)"

lemma normalizeMockOrderSide_Some:
  "normalizeMockOrderSide s = Some side \<longleftrightarrow> norm_sym s = side \<and> (side = ''BUY'' \<or> side = ''SELL'')"
  by (auto simp: normalizeMockOrderSide_def Let_def)

lemma executeLimit_cases:
  assumes "normalizeMockOrderSide (xq_Side req) = Some side" "xq_Price req = Some limit"
    "\<not> limit \<le> 0" "\<not> xq_MarkPrice req \<le> 0" "\<not> feq (xq_Qty req) 0"
  shows "limit_reached req side limit \<Longrightarrow> complete_fill (executeLimit uuid now req meta) req
      \<and> xr_AvgPrice (executeLimit uuid now req meta) = limit"
    and "\<not> limit_reached req side limit \<Longrightarrow> resting (executeLimit uuid now req meta) req"
proof -
  have "to_upper (trim_space side) = side" "side = ''BUY'' \<or> side = ''SELL''"
    using assms(1) by (auto simp: normalizeMockOrderSide_Some trim_space_to_upper)
  then have touched: "limitTouched side limit (mockBar req now) = limit_reached req side limit"
    by (auto simp: limitTouched_def limit_reached_def mockBar_def)
  show "limit_reached req side limit \<Longrightarrow> complete_fill (executeLimit uuid now req meta) req
      \<and> xr_AvgPrice (executeLimit uuid now req meta) = limit"
    using assms touched
    by (simp add: executeLimit_def MatchBacktestLimitGTC_def mockLimitOrder_def complete_fill_def
        zero_Event_def zero_FillDelta_def Let_def)
  show "\<not> limit_reached req side limit \<Longrightarrow> resting (executeLimit uuid now req meta) req"
    using assms touched
    by (simp add: executeLimit_def MatchBacktestLimitGTC_def mockLimitOrder_def resting_def Let_def)
qed

text \<open>
  A recovered order is reported as pending exactly when the exchange has executed something that
  the listed trades do not account for; only a result that is not pending carries fills.
\<close>

lemma pendingResult_simps [simp]:
  "xr_FillPending (pendingResult state msg)" "xr_Fills (pendingResult state msg) = []"
  "xr_ErrorMessage (pendingResult state msg) = msg"
  by (simp_all add: pendingResult_def fromAdapterOrderState_def)

lemma fromAdapterOrderState_simps [simp]:
  "\<not> xr_FillPending (fromAdapterOrderState state trades)"
  "xr_Fills (fromAdapterOrderState state trades) = map fillResultOf trades"
  "xr_ExecutedQty (fromAdapterOrderState state trades) = os_ExecutedQty state"
  by (simp_all add: fromAdapterOrderState_def zero_OrderResult_def)

lemma recoveredResult_pending:
  "xr_FillPending (recoveredResult state answer) \<longleftrightarrow>
     (\<forall>trades. answer = Inr trades \<longrightarrow> \<not> os_ExecutedQty state \<le> 0 \<and>
        (trades = [] \<or> adapterRecoveredFillQtyEpsilon < \<bar>tradedQty trades - os_ExecutedQty state\<bar>))"
  by (auto simp: recoveredResult_def recoveredFillPendingMessage_def Let_def split: sum.splits)

end
