(* ===== verification/Wallet_View.thy ===== *)
theory Wallet_View
  imports Reconciliation Account_Repository Executor
begin

text \<open>
  The wallets the account service works with: the display metrics of \<^verbatim>\<open>internal/walletmetrics/display.go\<close>,
  the conversions between wallets and protobuf messages, the defaults of a backtest venue, and the portfolio
  snapshots with their merging (the pure functions of \<^verbatim>\<open>internal/service/grpc.go\<close>).

  A protobuf wallet has the fields of the domain wallet; the display equity a message carries per
  position is a list beside it.  The nested venue snapshots of a venue snapshot are never read by the code
  and are left out.  The process clock is an argument (\<open>now\<close>).
\<close>

abbreviation unset :: "float64 \<Rightarrow> bool" where "unset x \<equiv> feq x 0"

definition or_else :: "float64 \<Rightarrow> float64 \<Rightarrow> float64" where
  "or_else x y = (if unset x then y else x)"

definition text_or :: "string \<Rightarrow> string \<Rightarrow> string" where
  "text_or s d = (if s = [] then d else s)"

definition or_now :: "time \<Rightarrow> time \<Rightarrow> time" where
  "or_now t now = (if is_zero t then now else t)"

subsection \<open>Display metrics\<close>

definition qtyEps :: float64 where "qtyEps = flit (1 / 10 ^ 12)"

definition SpotEstimatedExchangeAligned :: "SpotWallet \<Rightarrow> float64" where
  "SpotEstimatedExchangeAligned sw = foldl (\<lambda>total a. case sa_Price a of None \<Rightarrow> total
     | Some price \<Rightarrow> total + (sa_Qty a + sa_Locked a) * price) (sw_Free sw + sw_Locked sw) (sw_Assets sw)"

definition SumMatchesTotal :: "float64 \<Rightarrow> float64 \<Rightarrow> bool" where
  "SumMatchesTotal x tot =
     (let absTol = flit (1/20); relTol = flit (1 / 10 ^ 8); d = \<bar>x - tot\<bar>; s = fmax \<bar>x\<bar> \<bar>tot\<bar>
      in if d \<le> absTol then True else if s \<le> absTol then d \<le> absTol else d / s \<le> relTol)"

definition crossMargin :: "FuturesPosition list \<Rightarrow> float64" where
  "crossMargin = foldl (\<lambda>im p.
     if \<bar>fp_Qty p\<bar> \<le> qtyEps then im
     else if fp_Leverage p \<le> 0 then im
     else im + \<bar>fp_Qty p\<bar> * or_else (fp_MarkPrice p) (fp_EntryPrice p) / fp_Leverage p) 0"

definition isolatedMargin :: "FuturesPosition \<Rightarrow> float64" where
  "isolatedMargin p = (if 0 < fp_Leverage p \<and> 0 < fp_EntryPrice p then \<bar>fp_Qty p\<bar> * fp_EntryPrice p / fp_Leverage p else 0)"

definition FuturesPositionEquityDomain :: "FuturesWallet \<Rightarrow> float64" where
  "FuturesPositionEquityDomain fw =
     (if to_lower (trim_space (fw_MarginMode fw)) = ''cross'' then
        if fw_Positions fw = [] then fw_InitialBalance fw
        else let wb = fw_WalletBalance fw; upnl = fw_TotalUnrealizedPnl fw; im = crossMargin (fw_Positions fw)
          in if unset wb \<and> unset upnl \<and> unset im \<and> 0 < fw_InitialBalance fw then fw_InitialBalance fw
             else wb + upnl + im
      else foldl (\<lambda>acc p. if \<bar>fp_Qty p\<bar> \<le> qtyEps then acc + fp_InitialBalance p
         else acc + (isolatedMargin p + fp_InitialBalance p + fp_UnrealizedPnl p)) 0 (fw_Positions fw))"

definition IsolatedPositionDisplayEquity :: "FuturesPosition \<Rightarrow> float64" where
  "IsolatedPositionDisplayEquity p = (if \<bar>fp_Qty p\<bar> \<le> qtyEps then fp_InitialBalance p
     else isolatedMargin p + fp_InitialBalance p + fp_UnrealizedPnl p)"

text \<open>No display at all, or one value per position.\<close>

record Bundle =
  bu_SpotEstimated :: float64
  bu_FuturesEquity :: float64
  bu_Authoritative :: bool
  bu_PositionDisplay :: "float64 list option"

definition positionDisplaySlice :: "FuturesWallet \<Rightarrow> float64 list option" where
  "positionDisplaySlice fw = (if to_lower (trim_space (fw_MarginMode fw)) \<noteq> ''isolated'' then None
     else Some (map IsolatedPositionDisplayEquity (fw_Positions fw)))"

definition futuresEquity :: "OnlineAccountInfo \<Rightarrow> float64 \<Rightarrow> float64" where
  "futuresEquity info se =
     (if oai_Environment info \<in> {EnvironmentDemo, EnvironmentLive}
      then or_else (or_else (fw_MarginBalance (oai_Futures info)) (fw_TotalMarginBalance (oai_Futures info))) (fw_WalletBalance (oai_Futures info))
      else let fe = FuturesPositionEquityDomain (oai_Futures info); fe2 = oai_TotalValue info - se
        in if \<not> SumMatchesTotal (se + fe) (oai_TotalValue info) \<and> SumMatchesTotal (se + fe2) (oai_TotalValue info) then fe2 else fe)"

definition ComputeDisplay :: "OnlineAccountInfo \<Rightarrow> Bundle" where
  "ComputeDisplay info =
     (let se = SpotEstimatedExchangeAligned (oai_Spot info); fe = futuresEquity info se
      in \<lparr>bu_SpotEstimated = se, bu_FuturesEquity = fe, bu_Authoritative = SumMatchesTotal (se + fe) (oai_TotalValue info),
          bu_PositionDisplay = positionDisplaySlice (oai_Futures info)\<rparr>)"

subsection \<open>Wallet messages\<close>

definition positionMarginMode :: "FuturesWallet \<Rightarrow> FuturesPosition \<Rightarrow> string" where
  "positionMarginMode fw p = text_or (text_or (text_or (fp_MarginMode p) (fp_MarginType p)) (fw_MarginMode fw)) ''cross''"

definition messagePosition :: "FuturesWallet \<Rightarrow> FuturesPosition \<Rightarrow> FuturesPosition" where
  "messagePosition fw p = p\<lparr>fp_PositionQty := or_else (fp_PositionQty p) (fp_Qty p), fp_MarginMode := positionMarginMode fw p\<rparr>"

text \<open>The wallet of a message, and the display equity of each of its positions.\<close>

definition toProtoFuturesWalletWithDisplay :: "FuturesWallet \<Rightarrow> float64 list option \<Rightarrow> FuturesWallet \<times> float64 option list" where
  "toProtoFuturesWalletWithDisplay fw display =
     (fw\<lparr>fw_MarginMode := text_or (fw_MarginMode fw) ''cross'', fw_PositionMode := text_or (fw_PositionMode fw) ''one_way'',
        fw_Positions := map (messagePosition fw) (fw_Positions fw),
        fw_MarginBalance := or_else (fw_MarginBalance fw) (fw_TotalMarginBalance fw),
        fw_UnrealizedPnl := or_else (fw_UnrealizedPnl fw) (fw_TotalUnrealizedPnl fw)\<rparr>,
      map (\<lambda>i. case display of None \<Rightarrow> None | Some d \<Rightarrow> if i < length d then Some (d ! i) else None) [0..<length (fw_Positions fw)])"

definition fromProtoFuturesWallet :: "FuturesWallet \<Rightarrow> FuturesWallet" where
  "fromProtoFuturesWallet f =
     (let unrealizedPnL = or_else (fw_UnrealizedPnl f) (fw_TotalUnrealizedPnl f);
          marginBalance = or_else (or_else (fw_MarginBalance f) (fw_TotalMarginBalance f)) (fw_WalletBalance f + unrealizedPnL)
      in f\<lparr>fw_MarginMode := text_or (fw_MarginMode f) ''cross'', fw_PositionMode := text_or (fw_PositionMode f) ''one_way'',
          fw_Positions := map (messagePosition f) (fw_Positions f),
          fw_TotalMarginBalance := or_else (fw_TotalMarginBalance f) marginBalance,
          fw_MarginBalance := marginBalance, fw_UnrealizedPnl := unrealizedPnL\<rparr>)"

definition toProtoSpotWallet :: "SpotWallet \<Rightarrow> SpotWallet" where
  "toProtoSpotWallet sw = \<lparr>sw_Free = sw_Free sw, sw_Locked = sw_Locked sw, sw_Assets = sw_Assets sw\<rparr>"

definition fromProtoSpotWallet :: "SpotWallet \<Rightarrow> SpotWallet" where
  "fromProtoSpotWallet s = \<lparr>sw_Free = sw_Free s, sw_Locked = sw_Locked s, sw_Assets = sw_Assets s\<rparr>"

record AccountWalletState =
  aw_Futures :: FuturesWallet
  aw_DisplayEquity :: "float64 option list"
  aw_Spot :: SpotWallet
  aw_TotalValue :: float64
  aw_Environment :: int
  aw_UpdatedAt :: time
  aw_SpotEstimatedValue :: float64
  aw_FuturesPositionEquity :: float64
  aw_MetricsAuthoritative :: bool

definition toProtoAccountWalletState :: "OnlineAccountInfo \<Rightarrow> AccountWalletState" where
  "toProtoAccountWalletState info =
     (let disp = ComputeDisplay info; futures = toProtoFuturesWalletWithDisplay (oai_Futures info) (bu_PositionDisplay disp)
      in \<lparr>aw_Futures = fst futures, aw_DisplayEquity = snd futures, aw_Spot = toProtoSpotWallet (oai_Spot info),
          aw_TotalValue = oai_TotalValue info, aw_Environment = oai_Environment info, aw_UpdatedAt = oai_UpdatedAt info,
          aw_SpotEstimatedValue = bu_SpotEstimated disp, aw_FuturesPositionEquity = bu_FuturesEquity disp,
          aw_MetricsAuthoritative = bu_Authoritative disp\<rparr>)"

subsection \<open>The wallet of one venue\<close>

definition environmentFromAccount :: "Account \<Rightarrow> int" where
  "environmentFromAccount a = (if ac_Environment a \<in> {EnvironmentDemo, EnvironmentLive} then ac_Environment a else EnvironmentBacktest)"

definition is_futures :: "int \<Rightarrow> bool" where
  "is_futures m = (m = MarketPerpetualFutures \<or> m = MarketDeliveryFutures)"

definition venueMarginModeText :: "int \<Rightarrow> string" where
  "venueMarginModeText mode = (if mode = MarginModeCross then ''cross'' else if mode = MarginModeIsolated then ''isolated'' else [])"

definition venuePositionModeText :: "int \<Rightarrow> string" where
  "venuePositionModeText mode = (if mode = PositionModeOneWay then ''one_way'' else if mode = PositionModeHedge then ''hedge'' else [])"

definition futuresDefaults :: "Account \<Rightarrow> Venue \<Rightarrow> OnlineAccountInfo \<Rightarrow> OnlineAccountInfo" where
  "futuresDefaults account venue info =
     (let f = oai_Futures info;
          f = f\<lparr>fw_MarginMode := text_or (text_or (text_or (fw_MarginMode f) (venueMarginModeText (ve_MarginMode venue))) (ac_MarginMode account)) ''cross'',
            fw_PositionMode := text_or (text_or (text_or (fw_PositionMode f) (venuePositionModeText (ve_PositionMode venue))) (ac_PositionMode account)) ''one_way'',
            fw_WalletBalance := (if unset (fw_WalletBalance f) \<and> \<not> unset (oai_WalletBalance info) then oai_WalletBalance info else fw_WalletBalance f),
            fw_AvailableBalance := (if unset (fw_AvailableBalance f) \<and> \<not> unset (oai_AvailableBalance info) then oai_AvailableBalance info else fw_AvailableBalance f),
            fw_UnrealizedPnl := (if unset (fw_UnrealizedPnl f) \<and> \<not> unset (fw_TotalUnrealizedPnl f) then fw_TotalUnrealizedPnl f else fw_UnrealizedPnl f)\<rparr>;
          f = f\<lparr>fw_MarginBalance := or_else (fw_MarginBalance f) (fw_WalletBalance f + fw_UnrealizedPnl f)\<rparr>;
          f = f\<lparr>fw_TotalMarginBalance := or_else (fw_TotalMarginBalance f) (fw_MarginBalance f)\<rparr>
      in info\<lparr>oai_Futures := f,
          oai_WalletBalance := (if unset (oai_WalletBalance info) \<and> \<not> unset (fw_WalletBalance f) then fw_WalletBalance f else oai_WalletBalance info),
          oai_AvailableBalance := (if unset (oai_AvailableBalance info) \<and> \<not> unset (fw_AvailableBalance f) then fw_AvailableBalance f else oai_AvailableBalance info),
          oai_TotalValue := (if unset (oai_TotalValue info) \<and> \<not> unset (fw_MarginBalance f) then fw_MarginBalance f else oai_TotalValue info)\<rparr>)"

definition spotDefaults :: "OnlineAccountInfo \<Rightarrow> OnlineAccountInfo" where
  "spotDefaults info =
     (let free = sw_Free (oai_Spot info); walletBalance = free + sw_Locked (oai_Spot info)
      in info\<lparr>oai_WalletBalance := (if unset (oai_WalletBalance info) \<and> \<not> unset walletBalance then walletBalance else oai_WalletBalance info),
          oai_AvailableBalance := (if unset (oai_AvailableBalance info) \<and> \<not> unset free then free else oai_AvailableBalance info),
          oai_TotalValue := (if unset (oai_TotalValue info) \<and> \<not> unset walletBalance then walletBalance else oai_TotalValue info)\<rparr>)"

definition ensureBacktestVenueOnlineInfoDefaults :: "time \<Rightarrow> OnlineAccountInfo \<Rightarrow> Account \<Rightarrow> Venue \<Rightarrow> OnlineAccountInfo" where
  "ensureBacktestVenueOnlineInfoDefaults now info account venue =
     (let info = info\<lparr>oai_AccountID := (case ve_AccountID venue of Some a \<Rightarrow> a | None \<Rightarrow> ac_AccountID account),
            oai_Environment := ve_Environment venue, oai_UpdatedAt := or_now (oai_UpdatedAt info) now\<rparr>
      in if is_futures (ve_Market venue) then futuresDefaults account venue info
         else if ve_Market venue = MarketSpot then spotDefaults info else info)"

definition defaultBacktestVenueOnlineInfo :: "time \<Rightarrow> Account \<Rightarrow> Venue \<Rightarrow> OnlineAccountInfo" where
  "defaultBacktestVenueOnlineInfo now account venue = ensureBacktestVenueOnlineInfoDefaults now
     (zero_OnlineAccountInfo\<lparr>oai_AccountID := ac_AccountID account, oai_Environment := ve_Environment venue, oai_UpdatedAt := now\<rparr>) account venue"

definition futuresWalletBootstrapValue :: "FuturesWallet \<Rightarrow> float64" where
  "futuresWalletBootstrapValue f =
     (if \<not> unset (fw_MarginBalance f) then fw_MarginBalance f
      else if \<not> unset (fw_WalletBalance f) then fw_WalletBalance f
      else if \<not> unset (fw_InitialBalance f) then fw_InitialBalance f
      else foldl (\<lambda>total p. total + fp_InitialBalance p) 0 (fw_Positions f))"

definition spotWalletBootstrapValue :: "SpotWallet \<Rightarrow> float64" where
  "spotWalletBootstrapValue s = foldl (\<lambda>total a.
     let price = (case sa_Price a of None \<Rightarrow> sa_AvgEntryPrice a | Some p \<Rightarrow> p)
     in if 0 < price then total + (sa_Qty a + sa_Locked a) * price else total) (sw_Free s + sw_Locked s) (sw_Assets s)"

definition futuresOnlyBacktestVenueInfo :: "OnlineAccountInfo \<Rightarrow> OnlineAccountInfo" where
  "futuresOnlyBacktestVenueInfo info =
     (let f = oai_Futures info; v = futuresWalletBootstrapValue f
      in info\<lparr>oai_TotalValue := v, oai_WalletBalance := or_else (fw_WalletBalance f) v,
          oai_AvailableBalance := or_else (fw_AvailableBalance f) v\<rparr>)"

definition spotOnlyBacktestVenueInfo :: "OnlineAccountInfo \<Rightarrow> OnlineAccountInfo" where
  "spotOnlyBacktestVenueInfo info =
     (let v = spotWalletBootstrapValue (oai_Spot info)
      in info\<lparr>oai_TotalValue := v, oai_WalletBalance := v, oai_AvailableBalance := sw_Free (oai_Spot info)\<rparr>)"

end
