(* ===== verification/Portfolio.thy ===== *)
theory Portfolio
  imports Wallet_View
begin

text \<open>
  Portfolio snapshots (\<^verbatim>\<open>internal/service/grpc.go\<close>): the snapshot of one venue, the account view merged
  from the venues, and the wallet of an update request split over the venues.
\<close>

record BalanceEntry =
  be_Asset :: string
  be_WalletBalance :: float64
  be_AvailableBalance :: float64
  be_Locked :: float64
  be_ValueUSDT :: float64

record PositionEntry =
  pe_Symbol :: string
  pe_PositionSide :: string
  pe_Qty :: float64
  pe_EntryPrice :: float64
  pe_MarkPrice :: float64
  pe_UnrealizedPnl :: float64
  pe_MarginBalance :: float64
  pe_LiquidationPrice :: float64

record VenuePortfolio =
  pf_UserID :: int
  pf_AccountID :: int
  pf_VenueID :: int
  pf_Exchange :: int
  pf_Environment :: int
  pf_Market :: int
  pf_TotalValue :: float64
  pf_WalletBalance :: float64
  pf_AvailableBalance :: float64
  pf_Balances :: "BalanceEntry list"
  pf_Positions :: "PositionEntry list"
  pf_OnlineInfo :: "OnlineAccountInfo option"
  pf_UpdatedAt :: time
  pf_RawPayload :: string

record PortfolioSnapshot = VenuePortfolio +
  pf_VenueSnapshots :: "VenuePortfolio list"

definition zero_VenuePortfolio :: VenuePortfolio where
  "zero_VenuePortfolio = \<lparr>pf_UserID = 0, pf_AccountID = 0, pf_VenueID = 0, pf_Exchange = 0, pf_Environment = 0, pf_Market = 0,
     pf_TotalValue = 0, pf_WalletBalance = 0, pf_AvailableBalance = 0, pf_Balances = [], pf_Positions = [], pf_OnlineInfo = None,
     pf_UpdatedAt = 0, pf_RawPayload = []\<rparr>"

definition portfolio_of :: "VenuePortfolio \<Rightarrow> VenuePortfolio list \<Rightarrow> PortfolioSnapshot" where
  "portfolio_of p vs = VenuePortfolio.extend p \<lparr>pf_VenueSnapshots = vs\<rparr>"

subsection \<open>The snapshot of one venue\<close>

definition positionEntry :: "FuturesPosition \<Rightarrow> PositionEntry" where
  "positionEntry p = \<lparr>pe_Symbol = fp_Symbol p, pe_PositionSide = fp_PositionSide p, pe_Qty = fp_PositionQty p, pe_EntryPrice = fp_EntryPrice p,
     pe_MarkPrice = fp_MarkPrice p, pe_UnrealizedPnl = fp_UnrealizedPnl p, pe_MarginBalance = 0, pe_LiquidationPrice = fp_LiquidationPrice p\<rparr>"

definition usdtBalance :: "float64 \<Rightarrow> float64 \<Rightarrow> float64 \<Rightarrow> BalanceEntry" where
  "usdtBalance wallet free locked = \<lparr>be_Asset = ''USDT'', be_WalletBalance = wallet,
     be_AvailableBalance = free, be_Locked = locked, be_ValueUSDT = wallet\<rparr>"

definition portfolioSnapshotFromOnlineInfo :: "time \<Rightarrow> OnlineAccountInfo \<Rightarrow> Account \<Rightarrow> VenuePortfolio" where
  "portfolioSnapshotFromOnlineInfo now info0 account =
     (let info = info0\<lparr>oai_UpdatedAt := or_now (oai_UpdatedAt info0) now\<rparr>
      in zero_VenuePortfolio\<lparr>pf_UserID := ac_UserID account, pf_AccountID := ac_AccountID account, pf_Environment := ac_Environment account,
          pf_TotalValue := oai_TotalValue info, pf_WalletBalance := oai_WalletBalance info, pf_AvailableBalance := oai_AvailableBalance info,
          pf_Balances := [usdtBalance (oai_WalletBalance info) (oai_AvailableBalance info) 0], pf_OnlineInfo := Some info,
          pf_UpdatedAt := oai_UpdatedAt info, pf_Positions := map positionEntry (fw_Positions (oai_Futures info))\<rparr>)"

definition venuePortfolio :: "Account \<Rightarrow> Venue \<Rightarrow> OnlineAccountInfo \<Rightarrow> VenuePortfolio" where
  "venuePortfolio account venue venueInfo = zero_VenuePortfolio\<lparr>pf_UserID := ac_UserID account, pf_AccountID := ac_AccountID account,
     pf_VenueID := ve_VenueID venue, pf_Exchange := ve_Exchange venue, pf_Environment := ve_Environment venue, pf_Market := ve_Market venue,
     pf_TotalValue := oai_TotalValue venueInfo, pf_WalletBalance := oai_WalletBalance venueInfo,
     pf_AvailableBalance := oai_AvailableBalance venueInfo, pf_OnlineInfo := Some venueInfo, pf_UpdatedAt := oai_UpdatedAt venueInfo\<rparr>"

definition futuresPortfolioSnapshotFromOnlineInfoForVenue :: "time \<Rightarrow> OnlineAccountInfo \<Rightarrow> Account \<Rightarrow> Venue \<Rightarrow> VenuePortfolio" where
  "futuresPortfolioSnapshotFromOnlineInfoForVenue now info account venue =
     (let f = oai_Futures info;
          f = f\<lparr>fw_MarginMode := text_or (fw_MarginMode f) (venueMarginModeText (ve_MarginMode venue)),
            fw_PositionMode := text_or (fw_PositionMode f) (venuePositionModeText (ve_PositionMode venue))\<rparr>;
          marginBalance = or_else (or_else (fw_MarginBalance f) (fw_TotalMarginBalance f)) (fw_WalletBalance f + fw_UnrealizedPnl f);
          venueInfo = \<lparr>oai_AccountID = ac_AccountID account, oai_Environment = ve_Environment venue, oai_Futures = f, oai_Spot = zero_SpotWallet,
            oai_TotalValue = or_else marginBalance (fw_WalletBalance f), oai_WalletBalance = fw_WalletBalance f,
            oai_AvailableBalance = fw_AvailableBalance f, oai_UpdatedAt = or_now (oai_UpdatedAt info) now\<rparr>
      in (venuePortfolio account venue venueInfo)\<lparr>pf_Balances := [usdtBalance (fw_WalletBalance f) (fw_AvailableBalance f) 0],
          pf_Positions := map positionEntry (fw_Positions f)\<rparr>)"

definition assetValue :: "SpotAsset \<Rightarrow> float64" where
  "assetValue a = (case sa_Price a of None \<Rightarrow> 0 | Some price \<Rightarrow> (sa_Qty a + sa_Locked a) * price)"

definition assetBalance :: "SpotAsset \<Rightarrow> BalanceEntry" where
  "assetBalance a = \<lparr>be_Asset = sa_Symbol a, be_WalletBalance = sa_Qty a + sa_Locked a, be_AvailableBalance = sa_Qty a,
     be_Locked = sa_Locked a, be_ValueUSDT = assetValue a\<rparr>"

definition spotPortfolioSnapshotFromOnlineInfoForVenue :: "time \<Rightarrow> OnlineAccountInfo \<Rightarrow> Account \<Rightarrow> Venue \<Rightarrow> VenuePortfolio" where
  "spotPortfolioSnapshotFromOnlineInfoForVenue now info account venue =
     (let spot = oai_Spot info; walletBalance = sw_Free spot + sw_Locked spot;
          totalValue = foldl (\<lambda>total a. if sa_Price a = None then total else total + assetValue a) walletBalance (sw_Assets spot);
          venueInfo = \<lparr>oai_AccountID = ac_AccountID account, oai_Environment = ve_Environment venue, oai_Futures = zero_FuturesWallet, oai_Spot = spot,
            oai_TotalValue = totalValue, oai_WalletBalance = walletBalance, oai_AvailableBalance = sw_Free spot,
            oai_UpdatedAt = or_now (oai_UpdatedAt info) now\<rparr>
      in (venuePortfolio account venue venueInfo)\<lparr>pf_Balances :=
          usdtBalance walletBalance (sw_Free spot) (sw_Locked spot) # map assetBalance (sw_Assets spot)\<rparr>)"

definition portfolioSnapshotFromOnlineInfoForVenue :: "time \<Rightarrow> OnlineAccountInfo \<Rightarrow> Account \<Rightarrow> Venue \<Rightarrow> VenuePortfolio" where
  "portfolioSnapshotFromOnlineInfoForVenue now info account venue =
     (if ve_Market venue = MarketSpot then spotPortfolioSnapshotFromOnlineInfoForVenue now info account venue
      else if is_futures (ve_Market venue) then futuresPortfolioSnapshotFromOnlineInfoForVenue now info account venue
      else (portfolioSnapshotFromOnlineInfo now info account)\<lparr>pf_VenueID := ve_VenueID venue, pf_Exchange := ve_Exchange venue,
        pf_Environment := ve_Environment venue, pf_Market := ve_Market venue\<rparr>)"

subsection \<open>The merged view\<close>

definition mergePortfolioOnlineInfo :: "OnlineAccountInfo option \<Rightarrow> OnlineAccountInfo option \<Rightarrow> Account \<Rightarrow> OnlineAccountInfo option" where
  "mergePortfolioOnlineInfo current nxt account =
     (case nxt of None \<Rightarrow> current
      | Some n \<Rightarrow>
          let merged = n\<lparr>oai_AccountID := ac_AccountID account, oai_Environment := environmentFromAccount account\<rparr>
          in (case current of None \<Rightarrow> Some merged
              | Some c \<Rightarrow> Some (merged\<lparr>oai_TotalValue := oai_TotalValue merged + oai_TotalValue c,
                  oai_WalletBalance := oai_WalletBalance merged + oai_WalletBalance c,
                  oai_AvailableBalance := oai_AvailableBalance merged + oai_AvailableBalance c,
                  oai_Futures := (oai_Futures merged)\<lparr>fw_Positions := fw_Positions (oai_Futures c) @ fw_Positions (oai_Futures merged)\<rparr>,
                  oai_Spot := (oai_Spot merged)\<lparr>sw_Assets := sw_Assets (oai_Spot c) @ sw_Assets (oai_Spot merged)\<rparr>,
                  oai_UpdatedAt := (if oai_UpdatedAt merged < oai_UpdatedAt c then oai_UpdatedAt c else oai_UpdatedAt merged)\<rparr>)))"

definition onlineInfoFromPortfolioSnapshot :: "VenuePortfolio \<Rightarrow> Account \<Rightarrow> OnlineAccountInfo" where
  "onlineInfoFromPortfolioSnapshot snapshot account =
     (case pf_OnlineInfo snapshot of
        Some info \<Rightarrow> info\<lparr>oai_AccountID := ac_AccountID account, oai_Environment := environmentFromAccount account,
          oai_UpdatedAt := or_now (oai_UpdatedAt info) (pf_UpdatedAt snapshot)\<rparr>
      | None \<Rightarrow> \<lparr>oai_AccountID = ac_AccountID account, oai_Environment = environmentFromAccount account,
          oai_Futures = zero_FuturesWallet\<lparr>fw_MarginMode := ac_MarginMode account, fw_PositionMode := ac_PositionMode account,
            fw_WalletBalance := pf_WalletBalance snapshot, fw_AvailableBalance := pf_AvailableBalance snapshot,
            fw_MarginBalance := pf_WalletBalance snapshot,
            fw_Positions := map (\<lambda>p. zero_FuturesPosition\<lparr>fp_Symbol := pe_Symbol p, fp_PositionSide := pe_PositionSide p,
              fp_PositionQty := pe_Qty p, fp_Qty := pe_Qty p, fp_EntryPrice := pe_EntryPrice p, fp_MarkPrice := pe_MarkPrice p,
              fp_UnrealizedPnl := pe_UnrealizedPnl p, fp_LiquidationPrice := pe_LiquidationPrice p\<rparr>) (pf_Positions snapshot)\<rparr>,
          oai_Spot = zero_SpotWallet, oai_TotalValue = pf_TotalValue snapshot, oai_WalletBalance = pf_WalletBalance snapshot,
          oai_AvailableBalance = pf_AvailableBalance snapshot, oai_UpdatedAt = pf_UpdatedAt snapshot\<rparr>)"

definition emptyPortfolioSnapshot :: "time \<Rightarrow> Account \<Rightarrow> PortfolioSnapshot" where
  "emptyPortfolioSnapshot now account = portfolio_of (zero_VenuePortfolio\<lparr>pf_UserID := ac_UserID account, pf_AccountID := ac_AccountID account,
     pf_Environment := environmentFromAccount account, pf_UpdatedAt := now,
     pf_OnlineInfo := Some (zero_OnlineAccountInfo\<lparr>oai_AccountID := ac_AccountID account,
       oai_Environment := environmentFromAccount account, oai_UpdatedAt := now\<rparr>)\<rparr>) []"

text \<open>One round of the loop that collects the venues.\<close>

definition addVenueSnapshot :: "Account \<Rightarrow> PortfolioSnapshot \<Rightarrow> VenuePortfolio \<Rightarrow> PortfolioSnapshot" where
  "addVenueSnapshot account s v = s\<lparr>pf_TotalValue := pf_TotalValue s + pf_TotalValue v, pf_WalletBalance := pf_WalletBalance s + pf_WalletBalance v,
     pf_AvailableBalance := pf_AvailableBalance s + pf_AvailableBalance v, pf_Balances := pf_Balances s @ pf_Balances v,
     pf_Positions := pf_Positions s @ pf_Positions v, pf_OnlineInfo := mergePortfolioOnlineInfo (pf_OnlineInfo s) (pf_OnlineInfo v) account,
     pf_UpdatedAt := (if pf_UpdatedAt s < pf_UpdatedAt v then pf_UpdatedAt v else pf_UpdatedAt s),
     pf_VenueSnapshots := pf_VenueSnapshots s @ [v]\<rparr>"

definition aggregateVenueWalletSnapshots :: "Account \<Rightarrow> VenueWalletSnapshot list \<Rightarrow> time \<Rightarrow> OnlineAccountInfo" where
  "aggregateVenueWalletSnapshots account venues updatedAt =
     (case foldl (\<lambda>merged v. mergePortfolioOnlineInfo merged (Some (vs_Snapshot v)) account) None venues of
        None \<Rightarrow> zero_OnlineAccountInfo\<lparr>oai_AccountID := ac_AccountID account, oai_Environment := environmentFromAccount account,
          oai_UpdatedAt := updatedAt\<rparr>
      | Some merged \<Rightarrow> merged\<lparr>oai_UpdatedAt := or_now (oai_UpdatedAt merged) updatedAt\<rparr>)"

definition matchVenueWalletSnapshots :: "VenueWalletSnapshot list \<Rightarrow> VenueWalletSnapshot list \<Rightarrow> VenueWalletSnapshot list" where
  "matchVenueWalletSnapshots source wanted = filter (\<lambda>v. vs_VenueID v \<in> vs_VenueID ` set wanted) source"

definition venueWalletSnapshotsFromPortfolioSnapshot :: "PortfolioSnapshot \<Rightarrow> Account \<Rightarrow> VenueWalletSnapshot list" where
  "venueWalletSnapshotsFromPortfolioSnapshot snapshot account =
     (let sourceVenues = (if pf_VenueSnapshots snapshot = [] \<and> pf_VenueID snapshot \<noteq> 0 then [VenuePortfolio.truncate snapshot]
            else pf_VenueSnapshots snapshot)
      in map (\<lambda>v. \<lparr>vs_VenueID = pf_VenueID v, vs_Exchange = pf_Exchange v, vs_Environment = pf_Environment v, vs_Market = pf_Market v,
           vs_Snapshot = onlineInfoFromPortfolioSnapshot v account\<rparr>) (filter (\<lambda>v. pf_VenueID v \<noteq> 0) sourceVenues))"

subsection \<open>The wallet of an update\<close>

text \<open>The wallet payload of a request: totals, and the futures and spot wallets if they are there.\<close>

record WalletPayload =
  wp_Futures :: "FuturesWallet option"
  wp_Spot :: "SpotWallet option"
  wp_TotalValue :: float64
  wp_WalletBalance :: float64
  wp_AvailableBalance :: float64

definition onlineInfoFromWalletStateRequest :: "WalletPayload \<Rightarrow> Account \<Rightarrow> int \<Rightarrow> time \<Rightarrow> OnlineAccountInfo" where
  "onlineInfoFromWalletStateRequest p account accountID updatedAt =
     \<lparr>oai_AccountID = accountID, oai_Environment = environmentFromAccount account,
      oai_Futures = (case wp_Futures p of None \<Rightarrow> zero_FuturesWallet | Some f \<Rightarrow> fromProtoFuturesWallet f),
      oai_Spot = (case wp_Spot p of None \<Rightarrow> zero_SpotWallet | Some s \<Rightarrow> fromProtoSpotWallet s),
      oai_TotalValue = wp_TotalValue p, oai_WalletBalance = wp_WalletBalance p, oai_AvailableBalance = wp_AvailableBalance p,
      oai_UpdatedAt = updatedAt\<rparr>"

text \<open>The part of a wallet that belongs on a venue, if the payload has it.\<close>

definition venueShare :: "bool \<Rightarrow> bool \<Rightarrow> OnlineAccountInfo \<Rightarrow> Venue \<Rightarrow> OnlineAccountInfo option" where
  "venueShare hasFutures hasSpot info venue =
     (if is_futures (ve_Market venue)
        then (if hasFutures then Some (futuresOnlyBacktestVenueInfo (info\<lparr>oai_Spot := zero_SpotWallet\<rparr>)) else None)
      else if ve_Market venue = MarketSpot
        then (if hasSpot then Some (spotOnlyBacktestVenueInfo (info\<lparr>oai_Futures := zero_FuturesWallet\<rparr>)) else None)
      else None)"

definition localVenueWallets :: "time \<Rightarrow> WalletPayload \<Rightarrow> Account \<Rightarrow> int \<Rightarrow> time \<Rightarrow> Venue list \<Rightarrow> VenueWalletSnapshot list" where
  "localVenueWallets now p account accountID updatedAt venues =
     (let base = onlineInfoFromWalletStateRequest p account accountID updatedAt
      in List.map_filter (\<lambda>v. case venueShare (wp_Futures p \<noteq> None) (wp_Spot p \<noteq> None) base v of None \<Rightarrow> None
          | Some info \<Rightarrow> Some \<lparr>vs_VenueID = ve_VenueID v, vs_Exchange = ve_Exchange v, vs_Environment = ve_Environment v, vs_Market = ve_Market v,
              vs_Snapshot = ensureBacktestVenueOnlineInfoDefaults now info account v\<rparr>) venues)"

end
