(* ===== verification/Account_Service.thy ===== *)
theory Account_Service
  imports Portfolio
begin

text \<open>
  The handlers of the account service (\<^verbatim>\<open>internal/service/grpc.go\<close>) on users, accounts, venues, strategies,
  sessions and wallets, with every branch and every error code.  A handler is a function of the service's
  environment, the request and the connection to the database; it runs its repository calls one after the other,
  each a transaction of its own, so that other calls may come in between.

  The environment collects what is not part of this code: the clock, the random bytes of a backtest key,
  password hashing, the credential manager, reading and writing JSON, and the exchange adapters.  All readings of the clock within one call give the same instant.  A request or response is
  the record of its fields; a handler whose response is empty returns the unit value.
\<close>

subsection \<open>The environment\<close>

text \<open>The fields of a JSON object, or nothing for \<^verbatim>\<open>null\<close>, which Go reads into a nil map without an error.\<close>

datatype JsonValue = JsonText string | JsonOther string

record CredentialManager =
  cm_Encrypt :: "string \<Rightarrow> string result"
  cm_Decrypt :: "string \<Rightarrow> string result"
  cm_KeyVersion :: string

record ParsedCredential =
  cr_Exchange :: int
  cr_Environment :: int
  cr_Raw :: string

record PortfolioSnapshotRequest =
  pq_UserID :: int
  pq_AccountID :: int
  pq_VenueID :: int
  pq_Credential :: ParsedCredential

record AccountEnv =
  ae_now :: time
  ae_random :: "int list result"
  ae_hash :: "string \<Rightarrow> string result"
  ae_compare :: "string \<Rightarrow> string \<Rightarrow> bool result"
  ae_creds :: "CredentialManager option"
  ae_fingerprint :: "string \<Rightarrow> string"
  ae_unmarshal :: "string \<Rightarrow> (string \<times> JsonValue) list option result"
  ae_marshal :: "(string \<times> JsonValue) list \<Rightarrow> string result"
  ae_registry :: "Registry option"
  ae_validator :: "Route \<Rightarrow> (string \<Rightarrow> ParsedCredential result) result"
  ae_snapshotReader :: "Route \<Rightarrow> (PortfolioSnapshotRequest \<Rightarrow> VenuePortfolio result) result"
  ae_online :: "Account \<Rightarrow> OnlineAccountInfo result"

subsection \<open>Backtest keys\<close>

definition BacktestPrefix :: string where "BacktestPrefix = ''sim_btv_''"

definition hex_digit :: "int \<Rightarrow> char" where
  "hex_digit n = char_of (if n < 10 then 48 + n else 87 + n)"

definition hex_string :: "int list \<Rightarrow> string" where
  "hex_string bs = concat (map (\<lambda>b. [hex_digit (b div 16), hex_digit (b mod 16)]) bs)"

text \<open>A new key from the sixteen random bytes, or the error of the random source.\<close>

definition NewBacktestAPIKey :: "int list result \<Rightarrow> string result" where
  "NewBacktestAPIKey random = (case random of Inl e \<Rightarrow> Inl e | Inr raw \<Rightarrow> Inr (BacktestPrefix @ hex_string raw))"

definition IsBacktestAPIKey :: "string \<Rightarrow> bool" where
  "IsBacktestAPIKey value = (let v = trim_space value
     in length v = length BacktestPrefix + 32 \<and> has_prefix v BacktestPrefix \<and> list_all is_hex_digit (drop (length BacktestPrefix) v))"

abbreviation newKey :: "AccountEnv \<Rightarrow> string result" where "newKey env \<equiv> NewBacktestAPIKey (ae_random env)"

abbreviation abort :: "error \<Rightarrow> ('t, 'a) sqlm" where "abort e \<equiv> return_sql (Inl e)"
abbreviation ok_sql :: "'a \<Rightarrow> ('t, 'a) sqlm" where "ok_sql x \<equiv> return_sql (Inr x)"

definition mapRepoErr :: "error \<Rightarrow> error" where
  "mapRepoErr err = (if errors_is err ''not found'' then Status NotFound ''resource not found''
     else if errors_is err ''conflict'' then Status FailedPrecondition ''resource conflict''
     else Status Unavailable (''repository error: '' @ err_text err))"

definition mapStrategyErr :: "error \<Rightarrow> error" where
  "mapStrategyErr err = (if errors_is err ''not found'' then Status NotFound ''strategy not found''
     else Status Internal (''repository error: '' @ err_text err))"

text \<open>An error reported under a code and a prefix; one whose absence is reported separately.\<close>

definition coded :: "grpc_code \<Rightarrow> string \<Rightarrow> error \<Rightarrow> error" where
  "coded code prefix err = Status code (prefix @ err_text err)"

definition coded_unless_missing :: "error \<Rightarrow> grpc_code \<Rightarrow> string \<Rightarrow> error \<Rightarrow> error" where
  "coded_unless_missing missing code prefix err = (if errors_is err ''not found'' then missing else coded code prefix err)"

definition isDuplicateErr :: "error \<Rightarrow> bool" where
  "isDuplicateErr err = (let msg = to_lower (err_text err) in contains_str msg ''duplicate'' \<or> contains_str msg ''unique'')"

definition requireUserID :: "int \<Rightarrow> error option" where
  "requireUserID userID = (if userID \<le> 0 then Some (Status InvalidArgument ''user_id is required'') else None)"

definition guarded :: "error option \<Rightarrow> ('t, 'a) sqlm \<Rightarrow> ('t, 'a) sqlm" where
  "guarded e m = (case e of Some err \<Rightarrow> abort err | None \<Rightarrow> m)"

definition for_user :: "int \<Rightarrow> ('t, 'a) sqlm \<Rightarrow> ('t, 'a) sqlm" where
  "for_user userID m = guarded (requireUserID userID) m"

definition invalid :: "bool \<Rightarrow> string \<Rightarrow> ('t, 'a) sqlm \<Rightarrow> ('t, 'a) sqlm" where
  "invalid b msg m = (if b then abort (Status InvalidArgument msg) else m)"

definition try_sql :: "'a result \<Rightarrow> ('a \<Rightarrow> ('t, 'b) sqlm) \<Rightarrow> ('t, 'b) sqlm" where
  "try_sql r f = then_sql (return_sql r) f"

definition requestTimestampOrZero :: "time option \<Rightarrow> time" where
  "requestTimestampOrZero value = (case value of None \<Rightarrow> 0 | Some t \<Rightarrow> t)"

definition validateEnvironment :: "int \<Rightarrow> int result" where
  "validateEnvironment raw = (let env = int16_of raw
     in if env \<in> {EnvironmentBacktest, EnvironmentDemo, EnvironmentLive} then Inr env else Inl (Status InvalidArgument ''environment is invalid''))"

definition validateExchange :: "int \<Rightarrow> int result" where
  "validateExchange raw = (let exchange = int16_of raw
     in if exchange \<in> {ExchangeBinance, ExchangeOKX} then Inr exchange else Inl (Status InvalidArgument ''exchange is invalid''))"

definition validateMarket :: "int \<Rightarrow> int result" where
  "validateMarket raw = (let market = int16_of raw
     in if market \<in> {MarketSpot, MarketPerpetualFutures, MarketDeliveryFutures} then Inr market else Inl (Status InvalidArgument ''market is invalid''))"

definition normalizeVenueModes :: "int \<Rightarrow> int \<Rightarrow> int \<Rightarrow> (int \<times> int) result" where
  "normalizeVenueModes market rawMargin rawPosition =
     (let margin = (if rawMargin = 0 \<and> market = MarketSpot then MarginModeNone
            else if rawMargin = 0 \<and> market = MarketPerpetualFutures then MarginModeCross else int16_of rawMargin);
          position = (if rawPosition = 0 \<and> market = MarketSpot then PositionModeNone
            else if rawPosition = 0 \<and> market = MarketPerpetualFutures then PositionModeOneWay else int16_of rawPosition)
      in case ValidateMarketModes market margin position of
           Some err \<Rightarrow> Inl (Status InvalidArgument (err_text err))
         | None \<Rightarrow> Inr (margin, position))"

definition isActiveSessionStatus :: "string \<Rightarrow> bool" where
  "isActiveSessionStatus raw = (to_lower (trim_space raw) \<in> {''running'', ''stopping''})"

definition requireActiveSessionForAccount :: "string \<Rightarrow> int \<Rightarrow> int \<Rightarrow> int \<Rightarrow> unit adb" where
  "requireActiveSessionForAccount sessionID0 accountID strategyID userID =
     (let sessionID = trim_space sessionID0 in
      if sessionID = [] then ok_sql ()
      else then_sql (map_error (coded_unless_missing (Status NotFound ''session not found'') Unavailable ''get session: '') (GetSession sessionID userID)) (\<lambda>sess.
        if ss_AccountID sess \<noteq> accountID then abort (Status PermissionDenied ''session account_id does not match wallet update account_id'')
        else if strategyID \<noteq> 0 \<and> ss_StrategyID sess \<noteq> strategyID
          then abort (Status PermissionDenied ''session strategy_id does not match wallet update strategy_id'')
        else if \<not> isActiveSessionStatus (ss_Status sess)
          then abort (Status FailedPrecondition (''session '' @ sessionID @ '' is not active: '' @ ss_Status sess))
        else ok_sql ()))"

subsection \<open>Users\<close>

definition normalizeUsername :: "string \<Rightarrow> string" where
  "normalizeUsername username = to_lower (trim_space username)"

definition username_char :: "char \<Rightarrow> bool" where
  "username_char c = (let n = of_char c :: int in (97 \<le> n \<and> n \<le> 122) \<or> (48 \<le> n \<and> n \<le> 57) \<or> c = CHR ''_'' \<or> c = CHR ''-'')"

definition validateUsername :: "string \<Rightarrow> error option" where
  "validateUsername username =
     (if 3 \<le> length username \<and> length username \<le> 32 \<and> list_all username_char username then None
      else Some (Status InvalidArgument ''username must match [a-z0-9_-]{3,32}''))"

record UserMessage =
  um_Id :: int
  um_Username :: string
  um_CreatedAt :: time
  um_PlanCode :: string

definition toProtoUser :: "User \<Rightarrow> UserMessage" where
  "toProtoUser u = \<lparr>um_Id = us_ID u, um_Username = us_Username u, um_CreatedAt = us_CreatedAt u, um_PlanCode = us_PlanCode u\<rparr>"

definition CreateUserRPC :: "AccountEnv \<Rightarrow> string \<Rightarrow> string \<Rightarrow> UserMessage adb" where
  "CreateUserRPC env rawName password =
     (let username = normalizeUsername rawName in
      guarded (validateUsername username) (
      invalid (password = []) ''password is required'' (
      then_sql (map_error (coded Internal ''hash password: '') (return_sql (ae_hash env password))) (\<lambda>passwordHash.
      then_sql (map_error (\<lambda>e. if isDuplicateErr e then Status AlreadyExists (''username \"'' @ username @ ''\" already exists'')
          else coded Internal ''create user: '' e)
        (CreateUser \<lparr>us_ID = 0, us_Username = username, us_PasswordHash = passwordHash, us_CreatedAt = ae_now env, us_PlanCode = []\<rparr>)) (\<lambda>user.
      ok_sql (toProtoUser user))))))"

text \<open>The user of a password that matches, or nothing.\<close>

definition VerifyUserPasswordRPC :: "AccountEnv \<Rightarrow> string \<Rightarrow> string \<Rightarrow> UserMessage option adb" where
  "VerifyUserPasswordRPC env rawName password =
     (let username = normalizeUsername rawName in
      guarded (validateUsername username) (
      invalid (password = []) ''password is required'' (
      handle_sql (GetUserByUsername username) (\<lambda>r. case r of
        Inl e \<Rightarrow> if errors_is e ''not found'' then ok_sql None else abort (coded Unavailable ''lookup user: '' e)
      | Inr user \<Rightarrow> then_sql (map_error (coded Internal ''verify password: '') (return_sql (ae_compare env (us_PasswordHash user) password)))
          (\<lambda>matches. ok_sql (if matches then Some (toProtoUser user) else None))))))"

definition GetUserRPC :: "int \<Rightarrow> UserMessage adb" where
  "GetUserRPC userID = for_user userID (
     then_sql (map_error (coded_unless_missing (Status NotFound ''user not found'') Unavailable ''get user: '') (GetUser userID))
       (\<lambda>user. ok_sql (toProtoUser user)))"

subsection \<open>Accounts\<close>

record AccountEntry =
  an_AccountID :: int
  an_Name :: string
  an_Environment :: int
  an_CreatedAt :: time
  an_UserID :: int
  an_Description :: string
  an_Status :: int

definition toProtoRegistryEntry :: "Account \<Rightarrow> AccountEntry" where
  "toProtoRegistryEntry a = \<lparr>an_AccountID = ac_AccountID a, an_Name = ac_Name a, an_Environment = environmentFromAccount a,
     an_CreatedAt = ac_CreatedAt a, an_UserID = ac_UserID a, an_Description = ac_Description a,
     an_Status = (if ac_Status a = 0 then AccountStatusActive else ac_Status a)\<rparr>"

record CreateAccountRequest =
  ca_UserId :: int
  ca_Name :: string
  ca_Description :: string
  ca_Environment :: int
  ca_DefaultFeeRate :: float64
  ca_SlippageBps :: float64

definition defaultFeeRate :: float64 where "defaultFeeRate = flit (4 / 10000)"

definition requestedAccount :: "AccountEnv \<Rightarrow> CreateAccountRequest \<Rightarrow> int \<Rightarrow> Account" where
  "requestedAccount env req environment = \<lparr>ac_AccountID = 0, ac_UserID = ca_UserId req, ac_Name = trim_space (ca_Name req),
     ac_Description = trim_space (ca_Description req), ac_Environment = environment, ac_Status = AccountStatusActive, ac_APIKey = [], ac_APISecret = [],
     ac_MarginMode = ''cross'', ac_PositionMode = ''one_way'', ac_SlippageBps = ca_SlippageBps req,
     ac_DefaultFeeRate = or_else (ca_DefaultFeeRate req) defaultFeeRate, ac_CreatedAt = ae_now env, ac_FuturesJSON = None, ac_SpotJSON = None,
     ac_TotalValue = 0, ac_WalletBalance = 0, ac_AvailableBalance = 0, ac_StateUpdatedAt = None\<rparr>"

definition zero_Venue :: Venue where
  "zero_Venue = \<lparr>ve_VenueID = 0, ve_UserID = 0, ve_AccountID = None, ve_Exchange = 0, ve_Market = 0, ve_Environment = 0, ve_Status = 0,
     ve_DisplayName = [], ve_Description = [], ve_APIKey = [], ve_CredentialInfo = [], ve_CredentialKeyVersion = [], ve_CredentialFingerprint = [],
     ve_MarginMode = 0, ve_PositionMode = 0, ve_CreatedAt = 0, ve_UpdatedAt = 0, ve_LastUsedAt = None, ve_ArchivedAt = None, ve_ArchivedReason = []\<rparr>"

definition prepareDefaultBacktestVenues :: "AccountEnv \<Rightarrow> int \<Rightarrow> Venue list result" where
  "prepareDefaultBacktestVenues env userID =
     (case newKey env of Inl e \<Rightarrow> Inl (coded Internal ''generate backtest venue key: '' e)
      | Inr apiKey \<Rightarrow> Inr [zero_Venue\<lparr>ve_UserID := userID, ve_Exchange := ExchangeBinance, ve_Market := MarketPerpetualFutures,
          ve_Environment := EnvironmentBacktest, ve_Status := VenueStatusActive, ve_DisplayName := ''Simulated Binance Perpetual Futures'',
          ve_Description := ''default simulated venue'', ve_APIKey := apiKey, ve_CredentialKeyVersion := ''synthetic'',
          ve_MarginMode := MarginModeCross, ve_PositionMode := PositionModeOneWay, ve_CreatedAt := ae_now env, ve_UpdatedAt := ae_now env\<rparr>])"

definition both_backtest :: "Account \<Rightarrow> Venue \<Rightarrow> bool" where
  "both_backtest account venue = (environmentFromAccount account = EnvironmentBacktest \<and> ve_Environment venue = EnvironmentBacktest)"

definition upsertBacktestVenueWalletState :: "AccountEnv \<Rightarrow> Account \<Rightarrow> Venue \<Rightarrow> OnlineAccountInfo \<Rightarrow> unit adb" where
  "upsertBacktestVenueWalletState env account venue info =
     (if \<not> both_backtest account venue then ok_sql ()
      else UpsertVenueWalletState (ae_now env) venue (ensureBacktestVenueOnlineInfoDefaults (ae_now env) info account venue))"

definition ensureBacktestVenueWalletState :: "AccountEnv \<Rightarrow> Account \<Rightarrow> Venue \<Rightarrow> unit adb" where
  "ensureBacktestVenueWalletState env account venue =
     (if \<not> both_backtest account venue then ok_sql ()
      else upsertBacktestVenueWalletState env account venue (defaultBacktestVenueOnlineInfo (ae_now env) account venue))"

definition attachBacktestVenueWalletState :: "AccountEnv \<Rightarrow> Account \<Rightarrow> Venue \<Rightarrow> unit adb" where
  "attachBacktestVenueWalletState env account venue =
     (if \<not> both_backtest account venue then ok_sql ()
      else handle_sql (GetVenueWalletState (ve_VenueID venue) (ac_UserID account)) (\<lambda>r. case r of
        Inl e \<Rightarrow> if errors_is e ''not found'' then ensureBacktestVenueWalletState env account venue else abort e
      | Inr info \<Rightarrow> UpsertVenueWalletState (ae_now env) venue
          (ensureBacktestVenueOnlineInfoDefaults (ae_now env) (info\<lparr>oai_AccountID := ac_AccountID account\<rparr>) account venue)))"

definition createDefaultBacktestVenues :: "AccountEnv \<Rightarrow> Account \<Rightarrow> Venue list \<Rightarrow> unit adb" where
  "createDefaultBacktestVenues env account = each_sql (\<lambda>venue.
     then_sql (CreateVenue (ae_now env) (venue\<lparr>ve_AccountID := Some (ac_AccountID account)\<rparr>)) (\<lambda>created.
     ensureBacktestVenueWalletState env account created))"

definition CreateAccountRPC :: "AccountEnv \<Rightarrow> CreateAccountRequest \<Rightarrow> AccountEntry adb" where
  "CreateAccountRPC env req = for_user (ca_UserId req) (
     invalid (trim_space (ca_Name req) = []) ''name is required'' (
     try_sql (validateEnvironment (ca_Environment req)) (\<lambda>environment.
     try_sql (if environment = EnvironmentBacktest then prepareDefaultBacktestVenues env (ca_UserId req) else Inr []) (\<lambda>venues.
     let account = requestedAccount env req environment in
     then_sql (map_error (\<lambda>e. if errors_is e ''conflict'' then Status AlreadyExists (''account \"'' @ ac_Name account @ ''\" already exists'')
         else coded Internal ''create account: '' e) (CreateAccount (ae_now env) account)) (\<lambda>newID.
     let account = account\<lparr>ac_AccountID := newID\<rparr> in
     then_sql (if environment = EnvironmentBacktest
         then map_error (coded Internal ''create default venues: '') (createDefaultBacktestVenues env account venues) else ok_sql ()) (\<lambda>_.
     ok_sql \<lparr>an_AccountID = newID, an_Name = ac_Name account, an_Environment = ac_Environment account, an_CreatedAt = ac_CreatedAt account,
       an_UserID = 0, an_Description = ac_Description account, an_Status = ac_Status account\<rparr>))))))"

definition paged :: "int \<Rightarrow> int \<Rightarrow> bool" where
  "paged limit offset = (0 < limit \<or> 0 < offset)"

definition ListAccountsRPC :: "int \<Rightarrow> int \<Rightarrow> int \<Rightarrow> (AccountEntry list \<times> PageMeta) adb" where
  "ListAccountsRPC userID limit offset = for_user userID (
     if paged limit offset
     then then_sql (map_error (coded Unavailable ''list accounts: '') (ListAccountsPage userID limit offset)) (\<lambda>(accounts, meta).
       ok_sql (map toProtoRegistryEntry accounts, meta))
     else then_sql (map_error (coded Unavailable ''list accounts: '') (ListAccounts userID)) (\<lambda>accounts.
       ok_sql (map toProtoRegistryEntry accounts, \<lparr>pm_Total = int (length accounts), pm_HasMore = False\<rparr>)))"

definition GetAccountRPC :: "int \<Rightarrow> int \<Rightarrow> AccountEntry adb" where
  "GetAccountRPC userID accountID = for_user userID (
     invalid (accountID = 0) ''account_id is required'' (
     then_sql (map_error mapRepoErr (GetAccount accountID userID)) (\<lambda>account. ok_sql (toProtoRegistryEntry account))))"

subsection \<open>Venues\<close>

record VenueEntry =
  vy_VenueID :: int
  vy_UserID :: int
  vy_AccountID :: int
  vy_Exchange :: int
  vy_Market :: int
  vy_Environment :: int
  vy_Status :: int
  vy_DisplayName :: string
  vy_Description :: string
  vy_APIKey :: string
  vy_CredentialFingerprint :: string
  vy_MarginMode :: int
  vy_PositionMode :: int
  vy_CreatedAt :: time
  vy_UpdatedAt :: time
  vy_ArchivedReason :: string
  vy_LastUsedAt :: "time option"
  vy_ArchivedAt :: "time option"

definition toProtoVenue :: "Venue \<Rightarrow> VenueEntry" where
  "toProtoVenue v = \<lparr>vy_VenueID = ve_VenueID v, vy_UserID = ve_UserID v, vy_AccountID = (case ve_AccountID v of None \<Rightarrow> 0 | Some a \<Rightarrow> a),
     vy_Exchange = ve_Exchange v, vy_Market = ve_Market v, vy_Environment = ve_Environment v, vy_Status = ve_Status v,
     vy_DisplayName = ve_DisplayName v, vy_Description = ve_Description v, vy_APIKey = ve_APIKey v,
     vy_CredentialFingerprint = ve_CredentialFingerprint v, vy_MarginMode = ve_MarginMode v, vy_PositionMode = ve_PositionMode v,
     vy_CreatedAt = ve_CreatedAt v, vy_UpdatedAt = ve_UpdatedAt v, vy_ArchivedReason = ve_ArchivedReason v,
     vy_LastUsedAt = ve_LastUsedAt v, vy_ArchivedAt = ve_ArchivedAt v\<rparr>"

definition accountHasSessions :: error where
  "accountHasSessions = Status FailedPrecondition ''account has active sessions''"

definition requireIdle :: "int \<Rightarrow> int \<Rightarrow> unit adb" where
  "requireIdle userID accountID = then_sql (map_error mapRepoErr (CountActiveSessionsForAccount userID accountID))
     (\<lambda>n. if 0 < n then abort accountHasSessions else ok_sql ())"

definition ensureVenueCanAttachAccount :: "int \<Rightarrow> int \<Rightarrow> int \<Rightarrow> unit adb" where
  "ensureVenueCanAttachAccount userID accountID environment =
     (if accountID = 0 then ok_sql ()
      else then_sql (map_error mapRepoErr (GetAccount accountID userID)) (\<lambda>account.
        if ac_Status account \<noteq> 0 \<and> ac_Status account \<noteq> AccountStatusActive then abort (Status FailedPrecondition ''account is not active'')
        else if environmentFromAccount account \<noteq> environment
          then abort (Status FailedPrecondition ''venue environment does not match account environment'')
        else requireIdle userID accountID))"

record CreateVenueRequest =
  cv_UserId :: int
  cv_AccountId :: int
  cv_Exchange :: int
  cv_Market :: int
  cv_Environment :: int
  cv_Status :: int
  cv_DisplayName :: string
  cv_Description :: string
  cv_ApiKey :: string
  cv_CredentialJson :: string
  cv_MarginMode :: int
  cv_PositionMode :: int
  cv_Wallet :: WalletPayload

text \<open>The key, encrypted credential, key version and fingerprint of a new venue.\<close>

definition venueCredentials :: "AccountEnv \<Rightarrow> CreateVenueRequest \<Rightarrow> int \<Rightarrow> (string \<times> string \<times> string \<times> string) result" where
  "venueCredentials env req environment =
     (let apiKey = trim_space (cv_ApiKey req); credentialJSON = trim_space (cv_CredentialJson req) in
      if environment = EnvironmentBacktest then
        (if apiKey \<noteq> [] \<or> credentialJSON \<noteq> []
           then Inl (Status InvalidArgument ''backtest venue credentials are generated by core-service'')
         else case newKey env of Inl e \<Rightarrow> Inl (coded Internal ''generate backtest venue key: '' e)
           | Inr key \<Rightarrow> Inr (key, [], ''synthetic'', []))
      else case ae_creds env of
        None \<Rightarrow> Inl (Status FailedPrecondition ''credential manager is not configured'')
      | Some creds \<Rightarrow>
          if apiKey = [] then Inl (Status InvalidArgument ''api_key is required'')
          else if credentialJSON = [] then Inl (Status InvalidArgument ''credential_json is required'')
          else case cm_Encrypt creds credentialJSON of Inl e \<Rightarrow> Inl (coded InvalidArgument ''encrypt credential: '' e)
            | Inr sealed \<Rightarrow> Inr (apiKey, sealed, cm_KeyVersion creds, ae_fingerprint env apiKey))"

definition bare_account :: "int \<Rightarrow> Account" where
  "bare_account userID = \<lparr>ac_AccountID = 0, ac_UserID = userID, ac_Name = [], ac_Description = [], ac_Environment = EnvironmentBacktest,
     ac_Status = 0, ac_APIKey = [], ac_APISecret = [], ac_MarginMode = [], ac_PositionMode = [], ac_SlippageBps = 0, ac_DefaultFeeRate = 0,
     ac_CreatedAt = 0, ac_FuturesJSON = None, ac_SpotJSON = None, ac_TotalValue = 0, ac_WalletBalance = 0, ac_AvailableBalance = 0,
     ac_StateUpdatedAt = None\<rparr>"

definition account_of_venue :: "int \<Rightarrow> int option \<Rightarrow> Account adb" where
  "account_of_venue userID accountID = (case accountID of None \<Rightarrow> ok_sql (bare_account userID)
     | Some a \<Rightarrow> map_error mapRepoErr (GetAccount a userID))"

definition backtestVenueOnlineInfoFromCreateRequest :: "AccountEnv \<Rightarrow> CreateVenueRequest \<Rightarrow> Account \<Rightarrow> Venue \<Rightarrow> OnlineAccountInfo" where
  "backtestVenueOnlineInfoFromCreateRequest env req account venue =
     ensureBacktestVenueOnlineInfoDefaults (ae_now env)
       ((onlineInfoFromWalletStateRequest (cv_Wallet req) account (ac_AccountID account) (ae_now env))\<lparr>oai_Environment := ve_Environment venue\<rparr>)
       account venue"

definition requestedVenue :: "AccountEnv \<Rightarrow> CreateVenueRequest \<Rightarrow> int \<Rightarrow> int \<Rightarrow> int \<Rightarrow> int \<Rightarrow> int \<times> int \<Rightarrow> string \<times> string \<times> string \<times> string \<Rightarrow> Venue" where
  "requestedVenue env req environment exchange market statusValue modes credentials =
     (case modes of (marginMode, positionMode) \<Rightarrow> case credentials of (apiKey, sealed, keyVersion, fingerprint) \<Rightarrow>
      zero_Venue\<lparr>ve_UserID := cv_UserId req, ve_AccountID := (if 0 < cv_AccountId req then Some (cv_AccountId req) else None),
        ve_Exchange := exchange, ve_Market := market, ve_Environment := environment, ve_Status := statusValue,
        ve_DisplayName := trim_space (cv_DisplayName req), ve_Description := trim_space (cv_Description req), ve_APIKey := apiKey,
        ve_CredentialInfo := sealed, ve_CredentialKeyVersion := keyVersion, ve_CredentialFingerprint := fingerprint,
        ve_MarginMode := marginMode, ve_PositionMode := positionMode, ve_CreatedAt := ae_now env, ve_UpdatedAt := ae_now env\<rparr>)"

text \<open>The part of CreateVenue before the venue is stored, and the part from there on.\<close>

definition checkCreateVenue :: "AccountEnv \<Rightarrow> CreateVenueRequest \<Rightarrow> Venue adb" where
  "checkCreateVenue env req = for_user (cv_UserId req) (
     try_sql (validateEnvironment (cv_Environment req)) (\<lambda>environment.
     try_sql (validateExchange (cv_Exchange req)) (\<lambda>exchange.
     try_sql (validateMarket (cv_Market req)) (\<lambda>market.
     try_sql (normalizeVenueModes market (cv_MarginMode req) (cv_PositionMode req)) (\<lambda>modes.
     let statusValue = (if int16_of (cv_Status req) = 0 then VenueStatusActive else int16_of (cv_Status req)) in
     invalid (statusValue \<notin> {VenueStatusActive, VenueStatusDisabled, VenueStatusRevoked}) ''venue status is invalid'' (
     then_sql (ensureVenueCanAttachAccount (cv_UserId req) (cv_AccountId req) environment) (\<lambda>_.
     try_sql (venueCredentials env req environment) (\<lambda>credentials.
     ok_sql (requestedVenue env req environment exchange market statusValue modes credentials)))))))))"

definition storeNewVenue :: "AccountEnv \<Rightarrow> CreateVenueRequest \<Rightarrow> Venue \<Rightarrow> VenueEntry adb" where
  "storeNewVenue env req wanted =
     then_sql (map_error (\<lambda>e. if errors_is e ''conflict'' then Status AlreadyExists ''venue already exists for account route or api key scope''
         else mapRepoErr e) (CreateVenue (ae_now env) wanted)) (\<lambda>venue.
     then_sql (if ve_Environment wanted = EnvironmentBacktest
         then then_sql (account_of_venue (cv_UserId req) (ve_AccountID wanted)) (\<lambda>account.
           map_error (coded Internal ''initialize backtest venue wallet state: '')
             (upsertBacktestVenueWalletState env account venue (backtestVenueOnlineInfoFromCreateRequest env req account venue)))
         else ok_sql ()) (\<lambda>_.
     ok_sql (toProtoVenue venue)))"

definition CreateVenueRPC :: "AccountEnv \<Rightarrow> CreateVenueRequest \<Rightarrow> VenueEntry adb" where
  "CreateVenueRPC env req = then_sql (checkCreateVenue env req) (storeNewVenue env req)"

definition ListVenuesRPC :: "int \<Rightarrow> int \<Rightarrow> bool \<Rightarrow> bool \<Rightarrow> int \<Rightarrow> int \<Rightarrow> (VenueEntry list \<times> PageMeta) adb" where
  "ListVenuesRPC userID accountID includeUnbound includeInactive limit offset = for_user userID (
     then_sql (map_error mapRepoErr (ListVenues userID accountID includeUnbound includeInactive limit offset)) (\<lambda>(venues, meta).
     ok_sql (map toProtoVenue venues, meta)))"

definition GetVenueRPC :: "int \<Rightarrow> int \<Rightarrow> VenueEntry adb" where
  "GetVenueRPC userID venueID = for_user userID (
     invalid (venueID = 0) ''venue_id is required'' (
     then_sql (map_error mapRepoErr (GetVenue venueID userID)) (\<lambda>venue. ok_sql (toProtoVenue venue))))"

definition openCredential :: "AccountEnv \<Rightarrow> string \<Rightarrow> string result" where
  "openCredential env credentialInfo =
     (case ae_creds env of None \<Rightarrow> Inl (Status FailedPrecondition ''credential manager is not configured'')
      | Some creds \<Rightarrow> if trim_space credentialInfo = [] then Inl (Status FailedPrecondition ''venue credential is missing'')
          else case cm_Decrypt creds credentialInfo of Inl e \<Rightarrow> Inl (coded FailedPrecondition ''decrypt venue credential: '' e)
            | Inr json \<Rightarrow> Inr json)"

definition backtestVenueWallet :: "AccountEnv \<Rightarrow> int \<Rightarrow> Venue \<Rightarrow> OnlineAccountInfo adb" where
  "backtestVenueWallet env userID venue =
     then_sql (account_of_venue userID (ve_AccountID venue)) (\<lambda>account.
     then_sql (handle_sql (GetVenueWalletState (ve_VenueID venue) userID) (\<lambda>r. case r of
         Inr info \<Rightarrow> ok_sql info
       | Inl e \<Rightarrow> if \<not> errors_is e ''not found'' then abort (coded Unavailable ''read backtest venue wallet state: '' e)
           else then_sql (map_error (coded Internal ''initialize backtest venue wallet state: '') (ensureBacktestVenueWalletState env account venue)) (\<lambda>_.
             map_error (coded Unavailable ''read backtest venue wallet state: '') (GetVenueWalletState (ve_VenueID venue) userID)))) (\<lambda>info.
     ok_sql (ensureBacktestVenueOnlineInfoDefaults (ae_now env) info account venue)))"

definition payload_text :: "(string \<times> JsonValue) list option \<Rightarrow> string \<Rightarrow> string option" where
  "payload_text payload key = (case payload of None \<Rightarrow> None | Some obj \<Rightarrow>
     (case map_of obj key of Some (JsonText v) \<Rightarrow> if trim_space v = [] then None else Some (trim_space v) | _ \<Rightarrow> None))"

definition apiSecretFromCredentialJSON :: "AccountEnv \<Rightarrow> string \<Rightarrow> string result" where
  "apiSecretFromCredentialJSON env raw =
     (case ae_unmarshal env raw of Inl e \<Rightarrow> Inl (coded FailedPrecondition ''invalid venue credential json: '' e)
      | Inr payload \<Rightarrow> (case List.map_filter (payload_text payload) [''api_secret'', ''secret'', ''secret_key''] of
            [] \<Rightarrow> Inl (Status FailedPrecondition ''venue credential missing api_secret'')
          | v # _ \<Rightarrow> Inr v))"

definition exchangeAccount :: "Venue \<Rightarrow> string \<Rightarrow> Account" where
  "exchangeAccount venue apiSecret = (bare_account (ve_UserID venue))\<lparr>ac_AccountID := (case ve_AccountID venue of None \<Rightarrow> 0 | Some a \<Rightarrow> a),
     ac_Environment := ve_Environment venue, ac_APIKey := ve_APIKey venue, ac_APISecret := apiSecret,
     ac_MarginMode := venueMarginModeText (ve_MarginMode venue), ac_PositionMode := venuePositionModeText (ve_PositionMode venue),
     ac_DefaultFeeRate := defaultFeeRate\<rparr>"

definition GetVenueOnlineInfoRPC :: "AccountEnv \<Rightarrow> int \<Rightarrow> int \<Rightarrow> (VenueEntry \<times> AccountWalletState) adb" where
  "GetVenueOnlineInfoRPC env userID venueID = for_user userID (
     invalid (venueID = 0) ''venue_id is required'' (
     then_sql (map_error mapRepoErr (GetVenue venueID userID)) (\<lambda>venue.
     if ve_Status venue \<noteq> VenueStatusActive then abort (Status FailedPrecondition ''venue is not active'')
     else
     then_sql (if ve_Environment venue = EnvironmentBacktest then backtestVenueWallet env userID venue
       else if ve_Exchange venue \<noteq> ExchangeBinance \<or> ve_Market venue \<noteq> MarketPerpetualFutures
         then abort (Status FailedPrecondition (''venue wallet fetch unsupported for exchange='' @ show_int (ve_Exchange venue)
           @ '' market='' @ show_int (ve_Market venue)))
       else try_sql (openCredential env (ve_CredentialInfo venue)) (\<lambda>json.
         try_sql (apiSecretFromCredentialJSON env json) (\<lambda>apiSecret.
         map_error (coded Unavailable ''get venue online info: '') (return_sql (ae_online env (exchangeAccount venue apiSecret)))))) (\<lambda>info.
     ok_sql (toProtoVenue venue, toProtoAccountWalletState info)))))"

definition BindVenueRPC :: "AccountEnv \<Rightarrow> int \<Rightarrow> int \<Rightarrow> int \<Rightarrow> string \<Rightarrow> VenueEntry adb" where
  "BindVenueRPC env userID accountID venueID reason = for_user userID (
     invalid (accountID = 0 \<or> venueID = 0) ''account_id and venue_id are required'' (
     then_sql (requireIdle userID accountID) (\<lambda>_.
     then_sql (map_error mapRepoErr (BindVenue (ae_now env) userID accountID venueID (trim_space reason))) (\<lambda>venue.
     then_sql (if ve_Environment venue = EnvironmentBacktest
         then then_sql (map_error mapRepoErr (GetAccount accountID userID)) (\<lambda>account.
           map_error (coded Internal ''initialize backtest venue wallet state: '') (attachBacktestVenueWalletState env account venue))
         else ok_sql ()) (\<lambda>_.
     ok_sql (toProtoVenue venue))))))"

definition idleVenue :: "int \<Rightarrow> int \<Rightarrow> unit adb" where
  "idleVenue userID venueID = then_sql (map_error mapRepoErr (GetVenue venueID userID)) (\<lambda>venue.
     case ve_AccountID venue of None \<Rightarrow> ok_sql () | Some a \<Rightarrow> requireIdle userID a)"

definition ReleaseVenueRPC :: "AccountEnv \<Rightarrow> int \<Rightarrow> int \<Rightarrow> string \<Rightarrow> VenueEntry adb" where
  "ReleaseVenueRPC env userID venueID reason = for_user userID (
     invalid (venueID = 0) ''venue_id is required'' (
     then_sql (idleVenue userID venueID) (\<lambda>_.
     then_sql (map_error mapRepoErr (ReleaseVenue (ae_now env) userID venueID (trim_space reason))) (\<lambda>venue.
     ok_sql (toProtoVenue venue)))))"

definition ArchiveVenueRPC :: "AccountEnv \<Rightarrow> int \<Rightarrow> int \<Rightarrow> string \<Rightarrow> unit adb" where
  "ArchiveVenueRPC env userID venueID reason = for_user userID (
     invalid (venueID = 0) ''venue_id is required'' (
     then_sql (idleVenue userID venueID) (\<lambda>_.
     map_error mapRepoErr (ArchiveVenue (ae_now env) userID venueID (trim_space reason)))))"

record RouteMetaMessage =
  rm_AccountID :: int
  rm_VenueID :: int
  rm_UserID :: int
  rm_Environment :: int
  rm_Exchange :: int
  rm_Market :: int
  rm_MarginMode :: int
  rm_PositionMode :: int
  rm_APIKey :: string
  rm_CredentialJSON :: string
  rm_DefaultFeeRate :: float64
  rm_SlippageBps :: float64

definition GetVenueRouteMetaRPC :: "AccountEnv \<Rightarrow> int \<Rightarrow> int \<Rightarrow> int \<Rightarrow> RouteMetaMessage adb" where
  "GetVenueRouteMetaRPC env accountID rawExchange rawMarket =
     invalid (accountID = 0) ''account_id is required'' (
     try_sql (validateExchange rawExchange) (\<lambda>exchange.
     try_sql (validateMarket rawMarket) (\<lambda>market.
     then_sql (map_error mapRepoErr (ResolveVenueRouteMeta accountID exchange market)) (\<lambda>meta.
     try_sql (if vm_Environment meta \<noteq> EnvironmentBacktest then openCredential env (vm_CredentialInfo meta) else Inr []) (\<lambda>json.
     ok_sql \<lparr>rm_AccountID = vm_AccountID meta, rm_VenueID = vm_VenueID meta, rm_UserID = vm_UserID meta, rm_Environment = vm_Environment meta,
       rm_Exchange = vm_Exchange meta, rm_Market = vm_Market meta, rm_MarginMode = vm_MarginMode meta, rm_PositionMode = vm_PositionMode meta,
       rm_APIKey = vm_APIKey meta, rm_CredentialJSON = json, rm_DefaultFeeRate = vm_DefaultFeeRate meta, rm_SlippageBps = vm_SlippageBps meta\<rparr>)))))"

end
