(* ===== verification/Go_Regexp.thy ===== *)
theory Go_Regexp
  imports Go_Prelude
begin

text \<open>
  The regular expressions the account service uses: literals, one character of a class, any number of
  characters of a class, options and sequences.  A match is what remains of the text after the match; a
  search tries every position.  The matcher is proved to agree with the language of the expression.
\<close>

datatype regexp = Lit string | Many "char \<Rightarrow> bool" | Some1 "char \<Rightarrow> bool" | Opt regexp | Then regexp regexp

text \<open>What may remain after a match at the start of the text.\<close>

definition rest_many :: "(char \<Rightarrow> bool) \<Rightarrow> string \<Rightarrow> string list" where
  "rest_many P s = map (\<lambda>k. drop k s) [0..<Suc (length (takeWhile P s))]"

primrec rests :: "regexp \<Rightarrow> string \<Rightarrow> string list" where
  "rests (Lit l) s = (if has_prefix s l then [drop (length l) s] else [])"
| "rests (Many P) s = rest_many P s"
| "rests (Some1 P) s = tl (rest_many P s)"
| "rests (Opt r) s = s # rests r s"
| "rests (Then r q) s = concat (map (rests q) (rests r s))"

fun suffixes_of :: "'a list \<Rightarrow> 'a list list" where
  "suffixes_of [] = [[]]"
| "suffixes_of (x # xs) = (x # xs) # suffixes_of xs"

definition search :: "regexp \<Rightarrow> string \<Rightarrow> bool" where
  "search r s = list_ex (\<lambda>t. rests r t \<noteq> []) (suffixes_of s)"

subsection \<open>The language\<close>

primrec lang :: "regexp \<Rightarrow> string set" where
  "lang (Lit l) = {l}"
| "lang (Many P) = {s. list_all P s}"
| "lang (Some1 P) = {s. s \<noteq> [] \<and> list_all P s}"
| "lang (Opt r) = insert [] (lang r)"
| "lang (Then r q) = {s @ t | s t. s \<in> lang r \<and> t \<in> lang q}"

lemma prefix_takeWhile: "list_all P u \<Longrightarrow> length u \<le> length (takeWhile P (u @ t))"
  by (induction u) auto

lemma rest_many_upto: "t \<in> set (rest_many P s) \<longleftrightarrow> (\<exists>u. list_all P u \<and> s = u @ t)"
proof
  assume "t \<in> set (rest_many P s)"
  then obtain k where k: "k \<le> length (takeWhile P s)" "t = drop k s" by (auto simp: rest_many_def less_Suc_eq_le simp del: upt_Suc)
  have "take k s = take k (takeWhile P s)" using k(1) by (metis append_take_drop_id length_takeWhile_le take_append takeWhile_dropWhile_id diff_is_0_eq take0 append.right_neutral)
  then have "list_all P (take k s)" by (metis in_set_takeD list_all_iff set_takeWhileD)
  then show "\<exists>u. list_all P u \<and> s = u @ t" using k(2) by (metis append_take_drop_id)
next
  assume "\<exists>u. list_all P u \<and> s = u @ t"
  then obtain u where u: "list_all P u" "s = u @ t" by blast
  then have "length u \<le> length (takeWhile P s)" using prefix_takeWhile by simp
  moreover have "t = drop (length u) s" using u by simp
  ultimately show "t \<in> set (rest_many P s)" by (auto simp: rest_many_def simp del: upt_Suc)
qed

lemma rest_some_upto: "t \<in> set (tl (rest_many P s)) \<longleftrightarrow> (\<exists>u. u \<noteq> [] \<and> list_all P u \<and> s = u @ t)"
proof -
  have tl: "tl (rest_many P s) = map (\<lambda>k. drop k s) [1..<Suc (length (takeWhile P s))]"
    by (simp add: rest_many_def upt_conv_Cons del: upt_Suc)
  show ?thesis
  proof
    assume "t \<in> set (tl (rest_many P s))"
    then obtain k where k: "1 \<le> k" "k \<le> length (takeWhile P s)" "t = drop k s" unfolding tl by (auto simp: less_Suc_eq_le simp del: upt_Suc)
    then have "t \<in> set (rest_many P s)" by (auto simp: rest_many_def simp del: upt_Suc)
    then obtain u where u: "list_all P u" "s = u @ t" unfolding rest_many_upto by blast
    have "length t < length s" using k(1,3) k(2) length_takeWhile_le [of P s] by (simp add: k(3))
    then show "\<exists>u. u \<noteq> [] \<and> list_all P u \<and> s = u @ t" using u by auto
  next
    assume "\<exists>u. u \<noteq> [] \<and> list_all P u \<and> s = u @ t"
    then obtain u where u: "u \<noteq> []" "list_all P u" "s = u @ t" by blast
    then have "length u \<le> length (takeWhile P s)" "1 \<le> length u" using prefix_takeWhile by (auto simp: Suc_le_eq)
    moreover have "t = drop (length u) s" using u by simp
    ultimately show "t \<in> set (tl (rest_many P s))" unfolding tl by (auto simp: less_Suc_eq_le simp del: upt_Suc)
  qed
qed

lemma rests_lang: "t \<in> set (rests r s) \<longleftrightarrow> (\<exists>u\<in>lang r. s = u @ t)"
proof (induction r arbitrary: s t)
  case (Lit l)
  have "has_prefix s l \<longleftrightarrow> (\<exists>t. s = l @ t)" unfolding has_prefix_def by (metis append_eq_conv_conj)
  then show ?case by auto
next
  case (Then r q)
  have "t \<in> set (rests (Then r q) s) \<longleftrightarrow> (\<exists>m. (\<exists>u\<in>lang r. s = u @ m) \<and> (\<exists>v\<in>lang q. m = v @ t))"
    using Then by auto
  also have "\<dots> \<longleftrightarrow> (\<exists>u\<in>lang r. \<exists>v\<in>lang q. s = (u @ v) @ t)" unfolding append_assoc by blast
  also have "\<dots> \<longleftrightarrow> (\<exists>u\<in>lang (Then r q). s = u @ t)" unfolding lang.simps by blast
  finally show ?case .
qed (auto simp: rest_many_upto rest_some_upto)

lemma set_suffixes_of: "set (suffixes_of s) = {t. \<exists>u. s = u @ t}"
  by (induction s) (auto simp: Cons_eq_append_conv)

text \<open>A search succeeds exactly when some part of the text is in the language.\<close>

lemma search_lang: "search r s \<longleftrightarrow> (\<exists>u v w. s = u @ v @ w \<and> v \<in> lang r)"
proof -
  have "rests r t \<noteq> [] \<longleftrightarrow> (\<exists>w. w \<in> set (rests r t))" for t by (cases "rests r t") auto
  then have "rests r t \<noteq> [] \<longleftrightarrow> (\<exists>v w. t = v @ w \<and> v \<in> lang r)" for t unfolding rests_lang by blast
  then show ?thesis unfolding search_def list_ex_iff set_suffixes_of by blast
qed

end
