(* ===== verification/Session_Service.thy ===== *)
theory Session_Service
  imports Account_Service Go_Regexp
begin

text \<open>
  The handlers of the account service on strategies and sessions, and the preflight check of a session
  (\<^verbatim>\<open>internal/service/grpc.go\<close>).
\<close>

subsection \<open>Strategies\<close>

definition re_space :: "char \<Rightarrow> bool" where
  "re_space c = (c \<in> {CHR 0x09, CHR 0x0A, CHR 0x0C, CHR 0x0D, CHR '' ''})"

definition is_digit :: "char \<Rightarrow> bool" where
  "is_digit c = (let n = of_char c :: int in 48 \<le> n \<and> n \<le> 57)"

primrec Sequence :: "regexp list \<Rightarrow> regexp" where
  "Sequence [] = Lit []"
| "Sequence (r # rs) = Then r (Sequence rs)"

definition reMyStrategyClass :: regexp where
  "reMyStrategyClass = Sequence [Lit ''class'', Some1 re_space, Lit ''MyStrategy'']"

text \<open>A parameter, and its optional annotation up to a comma, a closing parenthesis or the end of the line.\<close>

definition annotation :: regexp where
  "annotation = Opt (Sequence [Many re_space, Lit '':'', Many re_space, Some1 (\<lambda>c. c \<notin> {CHR '','', CHR '')'', CHR 0x0A})])"

definition re_comma :: regexp where
  "re_comma = Sequence [Many re_space, Lit '','', Many re_space]"

definition reOnMarketData :: regexp where
  "reOnMarketData = Sequence [Lit ''def'', Some1 re_space, Lit ''on_market_data'', Many re_space, Lit ''('', Many re_space,
     Lit ''self'', annotation, re_comma, Lit ''data'', annotation, re_comma, Lit ''wallet'', annotation,
     Many re_space, Opt (Lit '',''), Many re_space, Lit '')'', Many re_space,
     Opt (Sequence [Lit ''->'', Many re_space, Some1 (\<lambda>c. c \<notin> {CHR '':'', CHR 0x0A})]), Many re_space, Lit '':'']"

definition reValidVersion :: regexp where
  "reValidVersion = Sequence [Some1 is_digit, Lit ''.'', Some1 is_digit, Lit ''.'', Some1 is_digit]"

text \<open>A match of the whole text, the anchors of the pattern.\<close>

definition full_match :: "regexp \<Rightarrow> string \<Rightarrow> bool" where
  "full_match r s = ([] \<in> set (rests r s))"

definition normalizeServiceRuntimeVersion :: "string \<Rightarrow> string" where
  "normalizeServiceRuntimeVersion version = text_or (trim_space version) ''1.0.0''"

definition normalizeServiceRuntimeProfile :: "string \<Rightarrow> string" where
  "normalizeServiceRuntimeProfile profile = text_or (trim_space profile) ''platform-python-3.13''"

definition normalizeServiceSessionType :: "int \<Rightarrow> string \<Rightarrow> string" where
  "normalizeServiceSessionType environment sessionType = text_or (trim_space sessionType)
     (if environment = EnvironmentDemo then ''demo'' else ''backtest'')"

definition quoted :: "string \<Rightarrow> string" where
  "quoted s = CHR 0x27 # s @ [CHR 0x27]"

record StrategyEntry =
  te_StrategyID :: int
  te_Name :: string
  te_Version :: string
  te_Description :: string
  te_Archived :: bool
  te_CreatedAt :: time
  te_UserID :: int
  te_RuntimeVersion :: string
  te_RuntimeProfile :: string
  te_Code :: string

definition toProtoStrategy :: "Strategy \<Rightarrow> bool \<Rightarrow> StrategyEntry" where
  "toProtoStrategy st includeCode = \<lparr>te_StrategyID = sg_StrategyID st, te_Name = sg_Name st, te_Version = sg_Version st,
     te_Description = sg_Description st, te_Archived = sg_Archived st, te_CreatedAt = sg_CreatedAt st, te_UserID = sg_UserID st,
     te_RuntimeVersion = normalizeServiceRuntimeVersion (sg_RuntimeVersion st),
     te_RuntimeProfile = normalizeServiceRuntimeProfile (sg_RuntimeProfile st), te_Code = (if includeCode then sg_Code st else [])\<rparr>"

record CreateStrategyRequest =
  cs_UserId :: int
  cs_Name :: string
  cs_Version :: string
  cs_Description :: string
  cs_Code :: string
  cs_RuntimeVersion :: string
  cs_RuntimeProfile :: string

definition requestedStrategy :: "CreateStrategyRequest \<Rightarrow> Strategy" where
  "requestedStrategy req = \<lparr>sg_StrategyID = 0, sg_UserID = cs_UserId req, sg_Name = trim_space (cs_Name req),
     sg_Version = trim_space (cs_Version req), sg_Description = trim_space (cs_Description req), sg_Code = cs_Code req,
     sg_Archived = False, sg_CreatedAt = 0, sg_RuntimeVersion = normalizeServiceRuntimeVersion (cs_RuntimeVersion req),
     sg_RuntimeProfile = normalizeServiceRuntimeProfile (cs_RuntimeProfile req)\<rparr>"

definition CreateStrategyRPC :: "AccountEnv \<Rightarrow> CreateStrategyRequest \<Rightarrow> StrategyEntry adb" where
  "CreateStrategyRPC env req = for_user (cs_UserId req) (
     let st = requestedStrategy req in
     invalid (sg_Name st = []) ''name is required'' (
     invalid (\<not> full_match reValidVersion (sg_Version st)) ''version must be semver (e.g. 1.0.0)'' (
     invalid (\<not> search reMyStrategyClass (cs_Code req)) (''code must define '' @ quoted ''class MyStrategy'') (
     invalid (\<not> search reOnMarketData (cs_Code req)) (''code must define '' @ quoted ''def on_market_data(self, data, wallet)'') (
     then_sql (map_error (\<lambda>e. if isDuplicateErr e then Status AlreadyExists (''strategy '' @ sg_Name st @ ''@'' @ sg_Version st @ '' already exists'')
         else coded Internal ''create strategy: '' e) (CreateStrategy (ae_now env) st)) (\<lambda>strategyID.
     ok_sql (toProtoStrategy (st\<lparr>sg_StrategyID := strategyID\<rparr>) True)))))))"

definition ListStrategiesRPC :: "int \<Rightarrow> string \<Rightarrow> bool \<Rightarrow> int \<Rightarrow> int \<Rightarrow> (StrategyEntry list \<times> PageMeta) adb" where
  "ListStrategiesRPC userID namePrefix activeOnly limit offset = for_user userID (
     if paged limit offset
     then then_sql (map_error (coded Internal ''list strategies: '') (ListStrategiesPage userID namePrefix activeOnly limit offset)) (\<lambda>(xs, meta).
       ok_sql (map (\<lambda>st. toProtoStrategy st False) xs, meta))
     else then_sql (map_error (coded Internal ''list strategies: '') (ListStrategies userID namePrefix activeOnly)) (\<lambda>xs.
       ok_sql (map (\<lambda>st. toProtoStrategy st False) xs, \<lparr>pm_Total = int (length xs), pm_HasMore = False\<rparr>)))"

definition GetStrategyRPC :: "int \<Rightarrow> int \<Rightarrow> StrategyEntry adb" where
  "GetStrategyRPC userID strategyID = for_user userID (
     invalid (strategyID = 0) ''strategy_id is required'' (
     then_sql (map_error mapStrategyErr (GetStrategy strategyID userID)) (\<lambda>st. ok_sql (toProtoStrategy st True))))"

definition ArchiveStrategyRPC :: "int \<Rightarrow> int \<Rightarrow> unit adb" where
  "ArchiveStrategyRPC userID strategyID = for_user userID (
     invalid (strategyID = 0) ''strategy_id is required'' (
     then_sql (map_error mapStrategyErr (GetStrategy strategyID userID)) (\<lambda>_.
     map_error mapStrategyErr (ArchiveStrategy strategyID))))"

text \<open>The checks the four operations on a mounted strategy share: both ids, the account and the strategy of the user.\<close>

definition with_mount :: "int \<Rightarrow> int \<Rightarrow> int \<Rightarrow> (Strategy \<Rightarrow> unit adb) \<Rightarrow> unit adb" where
  "with_mount userID accountID strategyID f = for_user userID (
     invalid (accountID = 0 \<or> strategyID = 0) ''account_id and strategy_id are required'' (
     then_sql (map_error mapRepoErr (GetAccount accountID userID)) (\<lambda>_.
     then_sql (map_error mapStrategyErr (GetStrategy strategyID userID)) f)))"

definition MountStrategyRPC :: "AccountEnv \<Rightarrow> int \<Rightarrow> int \<Rightarrow> int \<Rightarrow> unit adb" where
  "MountStrategyRPC env userID accountID strategyID = with_mount userID accountID strategyID (\<lambda>st.
     if sg_Archived st then abort (Status FailedPrecondition ''cannot mount an archived strategy'')
     else map_error (coded Internal ''mount strategy: '') (MountStrategy (ae_now env) accountID strategyID))"

definition UnmountStrategyRPC :: "int \<Rightarrow> int \<Rightarrow> int \<Rightarrow> unit adb" where
  "UnmountStrategyRPC userID accountID strategyID = with_mount userID accountID strategyID (\<lambda>_.
     handle_sql (GetActiveStrategy accountID) (\<lambda>r.
       if (case r of Inl e \<Rightarrow> False | Inr active \<Rightarrow> sg_StrategyID active = strategyID)
       then abort (Status FailedPrecondition ''cannot unmount the active strategy; deactivate it first'')
       else map_error mapStrategyErr (UnmountStrategy accountID strategyID)))"

definition ActivateStrategyRPC :: "int \<Rightarrow> int \<Rightarrow> int \<Rightarrow> unit adb" where
  "ActivateStrategyRPC userID accountID strategyID = with_mount userID accountID strategyID (\<lambda>_.
     map_error mapStrategyErr (ActivateStrategy accountID strategyID))"

definition DeactivateStrategyRPC :: "int \<Rightarrow> int \<Rightarrow> int \<Rightarrow> unit adb" where
  "DeactivateStrategyRPC userID accountID strategyID = with_mount userID accountID strategyID (\<lambda>_.
     map_error mapStrategyErr (DeactivateStrategy accountID strategyID))"

definition ListAccountStrategiesRPC :: "int \<Rightarrow> int \<Rightarrow> (StrategyEntry \<times> bool \<times> time) list adb" where
  "ListAccountStrategiesRPC userID accountID = for_user userID (
     invalid (accountID = 0) ''account_id is required'' (
     then_sql (map_error mapRepoErr (GetAccount accountID userID)) (\<lambda>_.
     then_sql (map_error (coded Internal ''list account strategies: '') (ListAccountStrategies accountID)) (\<lambda>xs.
     ok_sql (map (\<lambda>e. (toProtoStrategy (at_Strategy e) False, at_Active e, at_MountedAt e))
       (filter (\<lambda>e. sg_UserID (at_Strategy e) = 0 \<or> sg_UserID (at_Strategy e) = userID) xs))))))"

text \<open>No active strategy is not an error.\<close>

definition GetActiveStrategyRPC :: "int \<Rightarrow> Strategy option adb" where
  "GetActiveStrategyRPC accountID =
     invalid (accountID = 0) ''account_id is required'' (
     handle_sql (GetActiveStrategy accountID) (\<lambda>r. case r of
       Inl e \<Rightarrow> if errors_is e ''not found'' then ok_sql None else abort (coded Internal ''get active strategy: '' e)
     | Inr st \<Rightarrow> ok_sql (Some st)))"

subsection \<open>Preflight\<close>

record PreflightIssue =
  pi_Code :: string
  pi_Message :: string
  pi_Exchange :: int
  pi_Market :: int
  pi_Symbol :: string

record PreflightRequest =
  pl_UserId :: int
  pl_AccountId :: int
  pl_SessionId :: string
  pl_StrategyId :: int
  pl_Routes :: "(int \<times> int) list"
  pl_Symbols :: "(int \<times> int \<times> string) list"

definition resolvedVenue :: "VenueRouteMeta \<Rightarrow> VenueEntry" where
  "resolvedVenue meta = \<lparr>vy_VenueID = vm_VenueID meta, vy_UserID = vm_UserID meta, vy_AccountID = vm_AccountID meta, vy_Exchange = vm_Exchange meta,
     vy_Market = vm_Market meta, vy_Environment = vm_Environment meta, vy_Status = VenueStatusActive, vy_DisplayName = [], vy_Description = [],
     vy_APIKey = vm_APIKey meta, vy_CredentialFingerprint = [], vy_MarginMode = vm_MarginMode meta, vy_PositionMode = vm_PositionMode meta,
     vy_CreatedAt = 0, vy_UpdatedAt = 0, vy_ArchivedReason = [], vy_LastUsedAt = None, vy_ArchivedAt = None\<rparr>"

text \<open>One required route: an issue, or the venue that serves it.\<close>

definition checkRoute :: "int \<Rightarrow> int \<Rightarrow> int \<times> int \<Rightarrow> (PreflightIssue + VenueEntry) adb" where
  "checkRoute accountID environment route =
     try_sql (validateExchange (fst route)) (\<lambda>exchange.
     try_sql (validateMarket (snd route)) (\<lambda>market.
     let issue = (\<lambda>code msg. ok_sql (Inl \<lparr>pi_Code = code, pi_Message = msg, pi_Exchange = exchange, pi_Market = market, pi_Symbol = []\<rparr>)) in
     handle_sql (ResolveVenueRouteMeta accountID exchange market) (\<lambda>r. case r of
       Inl e \<Rightarrow> if errors_is e ''not found'' then issue ''VENUE_MISSING'' ''active venue is missing'' else abort (mapRepoErr e)
     | Inr meta \<Rightarrow>
         if vm_Environment meta \<noteq> environment then issue ''VENUE_ENVIRONMENT_MISMATCH'' ''venue environment does not match account environment''
         else if vm_Environment meta \<noteq> EnvironmentBacktest \<and> trim_space (vm_CredentialInfo meta) = []
           then issue ''VENUE_CREDENTIAL_MISSING'' ''venue credential is missing''
         else ok_sql (Inr (resolvedVenue meta)))))"

definition symbolRulesContain :: "SymbolRule list \<Rightarrow> string \<Rightarrow> bool" where
  "symbolRulesContain rules symbol = list_ex (\<lambda>r. equal_fold (trim_space (sy_Symbol r)) symbol) rules"

definition checkSymbol :: "AccountEnv \<Rightarrow> int \<Rightarrow> int \<times> int \<times> string \<Rightarrow> PreflightIssue list adb" where
  "checkSymbol env environment required =
     try_sql (validateExchange (fst required)) (\<lambda>exchange.
     try_sql (validateMarket (fst (snd required))) (\<lambda>market.
     let symbol = to_upper (trim_space (snd (snd required)));
         issue = (\<lambda>msg sym. ok_sql [\<lparr>pi_Code = ''symbol_rules_missing'', pi_Message = msg, pi_Exchange = exchange, pi_Market = market, pi_Symbol = sym\<rparr>]) in
     if symbol = [] then issue ''symbol is required for symbol rules preflight'' []
     else case ae_registry env of
       None \<Rightarrow> issue ''symbol rules registry is not configured'' symbol
     | Some registry \<Rightarrow>
         (case Registry_SymbolRulesReader registry \<lparr>rt_Exchange = exchange, rt_Environment = environment, rt_Market = market\<rparr> of
            Inl e \<Rightarrow> issue ''symbol rules reader is unavailable'' symbol
          | Inr reader \<Rightarrow> (case reader [symbol] of
                Inl e \<Rightarrow> issue ''symbol rules are missing for requested symbol'' symbol
              | Inr rules \<Rightarrow> if symbolRulesContain rules symbol then ok_sql []
                  else issue ''symbol rules are missing for requested symbol'' symbol))))"

primrec collect_sql :: "('x \<Rightarrow> 'a adb) \<Rightarrow> 'x list \<Rightarrow> 'a list adb" where
  "collect_sql f [] = ok_sql []"
| "collect_sql f (x # xs) = then_sql (f x) (\<lambda>y. then_sql (collect_sql f xs) (\<lambda>ys. ok_sql (y # ys)))"

text \<open>The JSON text of the issues; text outside ASCII is passed through.\<close>

definition json_char :: "char \<Rightarrow> string" where
  "json_char c = (let n = of_char c :: int in
     if n = 34 then [CHR 0x5C, CHR 0x22] else if n = 92 then [CHR 0x5C, CHR 0x5C]
     else if n = 8 then [CHR 0x5C, CHR ''b''] else if n = 12 then [CHR 0x5C, CHR ''f'']
     else if n = 10 then [CHR 0x5C, CHR ''n''] else if n = 13 then [CHR 0x5C, CHR ''r''] else if n = 9 then [CHR 0x5C, CHR ''t'']
     else if n < 32 \<or> n \<in> {38, 60, 62} then CHR 0x5C # ''u00'' @ [hex_digit (n div 16), hex_digit (n mod 16)]
     else [c])"

definition json_string :: "string \<Rightarrow> string" where
  "json_string s = [CHR 0x22] @ concat (map json_char s) @ [CHR 0x22]"

definition json_field :: "string \<Rightarrow> string \<Rightarrow> string" where
  "json_field name value = json_string name @ '':'' @ value"

definition issueJSON :: "PreflightIssue \<Rightarrow> string" where
  "issueJSON i = ''{'' @ join ([json_field ''code'' (json_string (pi_Code i)), json_field ''message'' (json_string (pi_Message i))]
     @ (if pi_Exchange i = 0 then [] else [json_field ''exchange'' (show_int (pi_Exchange i))])
     @ (if pi_Market i = 0 then [] else [json_field ''market'' (show_int (pi_Market i))])
     @ (if pi_Symbol i = [] then [] else [json_field ''symbol'' (json_string (pi_Symbol i))])) '','' @ ''}''"

definition issuesJSON :: "PreflightIssue list \<Rightarrow> string" where
  "issuesJSON issues = ''{'' @ json_field ''issues'' (''['' @ join (map issueJSON issues) '','' @ '']'') @ ''}''"

definition zero_StrategySession :: StrategySession where
  "zero_StrategySession = \<lparr>ss_SessionID = [], ss_AccountID = 0, ss_UserID = 0, ss_StrategyID = 0, ss_Environment = 0, ss_Status = [],
     ss_Interval = [], ss_StartTimeMs = None, ss_EndTimeMs = None, ss_BarsProcessed = 0, ss_Error = [], ss_ErrorCode = [], ss_ErrorMessage = [],
     ss_ErrorDetailJSON = [], ss_RuntimeID = [], ss_RuntimeSource = [], ss_RuntimeName = [], ss_SessionType = [], ss_RuntimeVersion = [],
     ss_SessionName = [], ss_StartedAt = 0, ss_CompletedAt = None, ss_CreatedAt = 0\<rparr>"

definition savePreflightFailedSession :: "AccountEnv \<Rightarrow> PreflightRequest \<Rightarrow> Account \<Rightarrow> PreflightIssue list \<Rightarrow> unit adb" where
  "savePreflightFailedSession env req account issues =
     (let sessionID = trim_space (pl_SessionId req) in
      if sessionID = [] \<or> issues = [] then ok_sql ()
      else map_error mapRepoErr (SaveSession (ae_now env) (zero_StrategySession\<lparr>ss_SessionID := sessionID, ss_AccountID := pl_AccountId req,
        ss_UserID := ac_UserID account, ss_StrategyID := pl_StrategyId req, ss_Environment := environmentFromAccount account,
        ss_Status := SessionStatusPreflightFailed, ss_Error := pi_Message (hd issues), ss_ErrorCode := pi_Code (hd issues),
        ss_ErrorMessage := pi_Message (hd issues), ss_ErrorDetailJSON := issuesJSON issues, ss_CompletedAt := Some (ae_now env)\<rparr>)))"

definition accountIssue :: "string \<Rightarrow> string \<Rightarrow> PreflightIssue" where
  "accountIssue code msg = \<lparr>pi_Code = code, pi_Message = msg, pi_Exchange = 0, pi_Market = 0, pi_Symbol = []\<rparr>"

text \<open>Whether the session may start, the issues found and the venues that will serve it.\<close>

definition PreflightStrategySessionRPC :: "AccountEnv \<Rightarrow> PreflightRequest \<Rightarrow> (bool \<times> PreflightIssue list \<times> VenueEntry list) adb" where
  "PreflightStrategySessionRPC env req = for_user (pl_UserId req) (
     invalid (pl_AccountId req = 0) ''account_id is required'' (
     then_sql (map_error mapRepoErr (GetAccount (pl_AccountId req) (pl_UserId req))) (\<lambda>account.
     then_sql (map_error mapRepoErr (CountActiveSessionsForAccount (pl_UserId req) (pl_AccountId req))) (\<lambda>n.
     then_sql (collect_sql (checkRoute (pl_AccountId req) (environmentFromAccount account)) (pl_Routes req)) (\<lambda>routes.
     then_sql (collect_sql (checkSymbol env (environmentFromAccount account)) (pl_Symbols req)) (\<lambda>symbols.
     let issues = (if ac_Status account \<noteq> 0 \<and> ac_Status account \<noteq> AccountStatusActive then [accountIssue ''ACCOUNT_INACTIVE'' ''account is not active''] else [])
           @ (if 0 < n then [accountIssue ''ACTIVE_SESSION_EXISTS'' ''account already has an active session''] else [])
           @ concat (map (\<lambda>r. case r of Inl i \<Rightarrow> [i] | Inr v \<Rightarrow> []) routes) @ concat symbols;
         resolved = concat (map (\<lambda>r. case r of Inl i \<Rightarrow> [] | Inr v \<Rightarrow> [v]) routes) in
     then_sql (if issues = [] then ok_sql () else savePreflightFailedSession env req account issues) (\<lambda>_.
     ok_sql (issues = [], issues, resolved))))))))"

subsection \<open>Sessions\<close>

definition int32_of :: "int \<Rightarrow> int" where
  "int32_of i = signed_take_bit 31 i"

record SaveSessionRequest =
  rs_SessionId :: string
  rs_AccountId :: int
  rs_UserId :: int
  rs_StrategyId :: int
  rs_Interval :: string
  rs_StartTimeMs :: int
  rs_EndTimeMs :: int
  rs_RuntimeId :: string
  rs_RuntimeSource :: string
  rs_RuntimeName :: string
  rs_SessionType :: string
  rs_RuntimeVersion :: string
  rs_SessionName :: string

definition requestedSession :: "AccountEnv \<Rightarrow> SaveSessionRequest \<Rightarrow> Account \<Rightarrow> StrategySession" where
  "requestedSession env req account = zero_StrategySession\<lparr>ss_SessionID := rs_SessionId req, ss_AccountID := rs_AccountId req,
     ss_UserID := ac_UserID account, ss_StrategyID := rs_StrategyId req, ss_Environment := environmentFromAccount account,
     ss_Status := ''running'', ss_Interval := text_or (rs_Interval req) ''1m'', ss_RuntimeID := rs_RuntimeId req,
     ss_RuntimeSource := rs_RuntimeSource req, ss_RuntimeName := rs_RuntimeName req,
     ss_SessionType := normalizeServiceSessionType (environmentFromAccount account) (rs_SessionType req),
     ss_RuntimeVersion := normalizeServiceRuntimeVersion (rs_RuntimeVersion req), ss_SessionName := trim_space (rs_SessionName req),
     ss_StartTimeMs := (if rs_StartTimeMs req = 0 then None else Some (rs_StartTimeMs req)),
     ss_EndTimeMs := (if rs_EndTimeMs req = 0 then None else Some (rs_EndTimeMs req)), ss_StartedAt := ae_now env\<rparr>"

definition SaveSessionRPC :: "AccountEnv \<Rightarrow> SaveSessionRequest \<Rightarrow> unit adb" where
  "SaveSessionRPC env req =
     invalid (rs_SessionId req = [] \<or> rs_AccountId req = 0) ''session_id and account_id are required'' (
     invalid (rs_StrategyId req = 0 \<and> trim_space (rs_SessionType req) \<noteq> ''debugging'') ''strategy_id is required unless session_type=debugging'' (
     invalid (trim_space (rs_RuntimeId req) = []) ''runtime_id is required'' (
     then_sql (map_error mapRepoErr (GetAccount (rs_AccountId req) (rs_UserId req))) (\<lambda>account.
     map_error mapRepoErr (SaveSession (ae_now env) (requestedSession env req account))))))"

definition UpdateSessionRPC :: "AccountEnv \<Rightarrow> string \<Rightarrow> string \<Rightarrow> int \<Rightarrow> string \<Rightarrow> string \<Rightarrow> unit adb" where
  "UpdateSessionRPC env sessionID status bars err runtimeID =
     invalid (sessionID = []) ''session_id is required'' (
     then_sql (map_error (coded_unless_missing (Status NotFound ''session not found'') Internal ''get session: '') (GetSession sessionID 0)) (\<lambda>existing.
     if \<not> isActiveSessionStatus (ss_Status existing)
     then abort (Status FailedPrecondition (''session '' @ sessionID @ '' is not active: '' @ ss_Status existing))
     else map_error (coded_unless_missing (Status NotFound ''session not found'') Internal ''update session: '')
       (UpdateSession (ae_now env) sessionID status bars err runtimeID)))"

record SessionEntry =
  sx_SessionID :: string
  sx_AccountID :: int
  sx_StrategyID :: int
  sx_Environment :: int
  sx_Status :: string
  sx_Interval :: string
  sx_BarsProcessed :: int
  sx_Error :: string
  sx_CreatedAt :: time
  sx_UserID :: int
  sx_RuntimeID :: string
  sx_RuntimeSource :: string
  sx_RuntimeName :: string
  sx_SessionType :: string
  sx_RuntimeVersion :: string
  sx_SessionName :: string
  sx_ErrorCode :: string
  sx_ErrorMessage :: string
  sx_ErrorDetailJSON :: string
  sx_StartedAt :: "time option"
  sx_StartTimeMs :: int
  sx_EndTimeMs :: int
  sx_CompletedAt :: "time option"

definition toProtoSession :: "StrategySession \<Rightarrow> SessionEntry" where
  "toProtoSession s = \<lparr>sx_SessionID = ss_SessionID s, sx_AccountID = ss_AccountID s, sx_StrategyID = ss_StrategyID s, sx_Environment = ss_Environment s,
     sx_Status = ss_Status s, sx_Interval = ss_Interval s, sx_BarsProcessed = int32_of (ss_BarsProcessed s), sx_Error = ss_Error s,
     sx_CreatedAt = ss_CreatedAt s, sx_UserID = ss_UserID s, sx_RuntimeID = ss_RuntimeID s, sx_RuntimeSource = ss_RuntimeSource s,
     sx_RuntimeName = ss_RuntimeName s, sx_SessionType = normalizeServiceSessionType (ss_Environment s) (ss_SessionType s),
     sx_RuntimeVersion = normalizeServiceRuntimeVersion (ss_RuntimeVersion s), sx_SessionName = ss_SessionName s, sx_ErrorCode = ss_ErrorCode s,
     sx_ErrorMessage = ss_ErrorMessage s, sx_ErrorDetailJSON = ss_ErrorDetailJSON s,
     sx_StartedAt = (if is_zero (ss_StartedAt s) then None else Some (ss_StartedAt s)),
     sx_StartTimeMs = (case ss_StartTimeMs s of None \<Rightarrow> 0 | Some v \<Rightarrow> v), sx_EndTimeMs = (case ss_EndTimeMs s of None \<Rightarrow> 0 | Some v \<Rightarrow> v),
     sx_CompletedAt = ss_CompletedAt s\<rparr>"

definition GetSessionRPC :: "int \<Rightarrow> string \<Rightarrow> SessionEntry adb" where
  "GetSessionRPC userID sessionID = for_user userID (
     invalid (sessionID = []) ''session_id is required'' (
     then_sql (map_error (coded_unless_missing (Status NotFound ''session not found'') Internal ''get session: '') (GetSession sessionID userID))
       (\<lambda>sess. ok_sql (toProtoSession sess))))"

definition ListSessionsRPC :: "SessionListFilter \<Rightarrow> (SessionEntry list \<times> PageMeta) adb" where
  "ListSessionsRPC req = for_user (sf_UserID req) (
     then_sql (map_error (coded Internal ''list sessions: '') (ListSessionsPage (req\<lparr>sf_RuntimeID := trim_space (sf_RuntimeID req),
       sf_Environment := int16_of (sf_Environment req), sf_Status := trim_space (sf_Status req),
       sf_SessionIDContains := trim_space (sf_SessionIDContains req)\<rparr>))) (\<lambda>(xs, meta).
     ok_sql (map toProtoSession xs, meta)))"

definition ListRunningSessionsRPC :: "string \<Rightarrow> SessionEntry list adb" where
  "ListRunningSessionsRPC runtimeID =
     then_sql (map_error (coded Internal ''list running sessions: '') (ListRunningSessions runtimeID)) (\<lambda>xs. ok_sql (map toProtoSession xs))"

definition MarkRuntimeSessionsRecoverableRPC :: "AccountEnv \<Rightarrow> string \<Rightarrow> string \<Rightarrow> int adb" where
  "MarkRuntimeSessionsRecoverableRPC env runtimeID err =
     invalid (trim_space runtimeID = []) ''runtime_id is required'' (
     map_error mapRepoErr (MarkRuntimeSessionsRecoverable (ae_now env) (trim_space runtimeID) err))"

definition clampAuditListLimit :: "int \<Rightarrow> int" where
  "clampAuditListLimit v = (if v \<le> 0 then 20 else if 200 < v then 200 else v)"

definition clampAuditListOffset :: "int \<Rightarrow> int" where
  "clampAuditListOffset v = (if v < 0 then 0 else v)"

text \<open>A page of the audit list of a session: its items, the offset of the next page, whether there is one, and the total.\<close>

record 'a audit_page =
  ap_Items :: "'a list"
  ap_NextOffset :: int
  ap_HasMore :: bool
  ap_Total :: int

definition ListSessionSnapshotsRPC :: "int \<Rightarrow> string \<Rightarrow> int \<Rightarrow> int \<Rightarrow> SnapshotRow audit_page adb" where
  "ListSessionSnapshotsRPC userID sessionID rawLimit rawOffset = for_user userID (
     invalid (sessionID = []) ''session_id is required'' (
     let limit = clampAuditListLimit rawLimit; offset = clampAuditListOffset rawOffset in
     then_sql (map_error (coded Internal ''list session snapshots: '') (ListSessionSnapshots sessionID userID limit offset)) (\<lambda>(rows, total, hasMore).
     ok_sql \<lparr>ap_Items = rows, ap_NextOffset = int32_of (offset + int (length rows)), ap_HasMore = hasMore, ap_Total = total\<rparr>)))"

end
