(* ===== verification/Wallet_Service.thy ===== *)
theory Wallet_Service
  imports Session_Service
begin

text \<open>
  The handlers of the account service on wallets (\<^verbatim>\<open>internal/service/grpc.go\<close>): reading the portfolio of an
  account from its stored backtest wallets or from its exchanges, and the two updates that store it.  The task
  an update hands to the reconciliation is part of its result.
\<close>

subsection \<open>Reading the portfolio\<close>

definition no_wallet :: "int \<Rightarrow> error" where
  "no_wallet venueID = Status FailedPrecondition (''backtest venue wallet state is missing for venue_id='' @ show_int venueID)"

definition readBacktestVenue :: "AccountEnv \<Rightarrow> Account \<Rightarrow> Venue \<Rightarrow> VenuePortfolio adb" where
  "readBacktestVenue env account venue =
     then_sql (map_error (coded_unless_missing (no_wallet (ve_VenueID venue)) Unavailable ''read backtest venue wallet state: '')
       (GetVenueWalletState (ve_VenueID venue) (ac_UserID account))) (\<lambda>info.
     ok_sql (portfolioSnapshotFromOnlineInfoForVenue (ae_now env)
       (ensureBacktestVenueOnlineInfoDefaults (ae_now env) info account venue) account venue))"

text \<open>
  The credential with the venue's key in it.  Writing into the nil map of a \<^verbatim>\<open>null\<close> credential
  panics; the panic is the value \<open>nil_map_write\<close>, the one error of the service that is not a gRPC status.
\<close>

definition nil_map_write :: error where
  "nil_map_write = Errorf ''assignment to entry in nil map''"

definition credentialWithKey :: "AccountEnv \<Rightarrow> string \<Rightarrow> string \<Rightarrow> string result" where
  "credentialWithKey env json apiKey =
     (case ae_unmarshal env json of Inl e \<Rightarrow> Inl (coded FailedPrecondition ''invalid venue credential json: '' e)
      | Inr None \<Rightarrow> Inl nil_map_write
      | Inr (Some obj) \<Rightarrow> (case ae_marshal env ((''api_key'', JsonText apiKey) # filter (\<lambda>f. fst f \<noteq> ''api_key'') obj) of
            Inl e \<Rightarrow> Inl (coded FailedPrecondition ''marshal venue credential json: '' e) | Inr raw \<Rightarrow> Inr raw))"

definition parsedCredentialForVenue :: "AccountEnv \<Rightarrow> Venue \<Rightarrow> (string \<Rightarrow> ParsedCredential result) \<Rightarrow> ParsedCredential result" where
  "parsedCredentialForVenue env venue validator =
     (if ve_Environment venue = EnvironmentBacktest
      then Inr \<lparr>cr_Exchange = ve_Exchange venue, cr_Environment = ve_Environment venue, cr_Raw = []\<rparr>
      else bind_result (openCredential env (ve_CredentialInfo venue)) (\<lambda>json.
        bind_result (credentialWithKey env json (ve_APIKey venue)) (\<lambda>raw.
        case validator raw of Inl e \<Rightarrow> Inl (coded FailedPrecondition ''validate venue credential: '' e)
        | Inr parsed \<Rightarrow> Inr (parsed\<lparr>cr_Exchange := (if cr_Exchange parsed = 0 then ve_Exchange venue else cr_Exchange parsed),
            cr_Environment := (if cr_Environment parsed = 0 then ve_Environment venue else cr_Environment parsed)\<rparr>))))"

definition or_int :: "int \<Rightarrow> int \<Rightarrow> int" where
  "or_int a b = (if a = 0 then b else a)"

definition readExchangeVenue :: "AccountEnv \<Rightarrow> Account \<Rightarrow> Venue \<Rightarrow> VenuePortfolio result" where
  "readExchangeVenue env account venue =
     (let route = \<lparr>rt_Exchange = ve_Exchange venue, rt_Environment = ve_Environment venue, rt_Market = ve_Market venue\<rparr> in
      case ae_validator env route of Inl e \<Rightarrow> Inl (coded FailedPrecondition ''credential validator: '' e)
      | Inr validator \<Rightarrow> (case ae_snapshotReader env route of Inl e \<Rightarrow> Inl (coded FailedPrecondition ''portfolio snapshot reader: '' e)
        | Inr reader \<Rightarrow> bind_result (parsedCredentialForVenue env venue validator) (\<lambda>parsed.
            case reader \<lparr>pq_UserID = ac_UserID account, pq_AccountID = ac_AccountID account, pq_VenueID = ve_VenueID venue, pq_Credential = parsed\<rparr> of
              Inl e \<Rightarrow> Inl (coded Unavailable ''read venue portfolio snapshot: '' e)
            | Inr v \<Rightarrow> Inr (v\<lparr>pf_VenueID := or_int (pf_VenueID v) (ve_VenueID venue), pf_AccountID := or_int (pf_AccountID v) (ac_AccountID account),
                pf_UserID := or_int (pf_UserID v) (ac_UserID account), pf_Exchange := or_int (pf_Exchange v) (ve_Exchange venue),
                pf_Environment := or_int (pf_Environment v) (ve_Environment venue), pf_Market := or_int (pf_Market v) (ve_Market venue)\<rparr>))))"

definition startSnapshot :: "time \<Rightarrow> Account \<Rightarrow> int \<Rightarrow> PortfolioSnapshot" where
  "startSnapshot now account environment = portfolio_of (zero_VenuePortfolio\<lparr>pf_UserID := ac_UserID account, pf_AccountID := ac_AccountID account,
     pf_Environment := environment, pf_UpdatedAt := now\<rparr>) []"

definition with_online_info :: "Account \<Rightarrow> PortfolioSnapshot \<Rightarrow> PortfolioSnapshot" where
  "with_online_info account s = (case pf_OnlineInfo s of Some info \<Rightarrow> s
     | None \<Rightarrow> s\<lparr>pf_OnlineInfo := Some (zero_OnlineAccountInfo\<lparr>oai_AccountID := ac_AccountID account,
         oai_Environment := environmentFromAccount account, oai_UpdatedAt := pf_UpdatedAt s\<rparr>)\<rparr>)"

definition addExchangeSnapshot :: "Account \<Rightarrow> PortfolioSnapshot \<Rightarrow> VenuePortfolio \<Rightarrow> PortfolioSnapshot" where
  "addExchangeSnapshot account s v = (addVenueSnapshot account s v)\<lparr>pf_RawPayload := pf_RawPayload v\<rparr>"

definition readPortfolioSnapshot :: "AccountEnv \<Rightarrow> Account \<Rightarrow> PortfolioSnapshot adb" where
  "readPortfolioSnapshot env account =
     then_sql (map_error mapRepoErr (ListActiveAccountVenues (ac_UserID account) (ac_AccountID account))) (\<lambda>venues.
     if venues = [] then ok_sql (emptyPortfolioSnapshot (ae_now env) account)
     else if environmentFromAccount account = EnvironmentBacktest
     then then_sql (collect_sql (readBacktestVenue env account) venues) (\<lambda>vs.
       ok_sql (with_online_info account (foldl (addVenueSnapshot account) (startSnapshot (ae_now env) account (environmentFromAccount account)) vs)))
     else if ae_registry env = None then abort (Status FailedPrecondition ''exchange capability registry is not configured'')
     else then_sql (collect_sql (\<lambda>v. return_sql (readExchangeVenue env account v)) venues) (\<lambda>vs.
       ok_sql (foldl (addExchangeSnapshot account) (startSnapshot (ae_now env) account (ac_Environment account)) vs)))"

subsection \<open>The messages\<close>

record VenueSnapshotMessage =
  vz_VenueID :: int
  vz_Exchange :: int
  vz_Environment :: int
  vz_Market :: int
  vz_TotalValue :: float64
  vz_WalletBalance :: float64
  vz_AvailableBalance :: float64
  vz_UpdatedAt :: time
  vz_Wallet :: AccountWalletState
  vz_Balances :: "BalanceEntry list"
  vz_Positions :: "PositionEntry list"

record PortfolioMessage =
  pz_AccountID :: int
  pz_UserID :: int
  pz_TotalValue :: float64
  pz_WalletBalance :: float64
  pz_AvailableBalance :: float64
  pz_UpdatedAt :: time
  pz_Wallet :: AccountWalletState
  pz_Venues :: "VenueSnapshotMessage list"

definition snapshotWallet :: "VenuePortfolio \<Rightarrow> AccountWalletState" where
  "snapshotWallet s = toProtoAccountWalletState (onlineInfoFromPortfolioSnapshot s
     ((bare_account (pf_UserID s))\<lparr>ac_AccountID := pf_AccountID s, ac_Environment := pf_Environment s\<rparr>))"

definition toProtoVenueSnapshot :: "VenuePortfolio \<Rightarrow> VenueSnapshotMessage" where
  "toProtoVenueSnapshot s = \<lparr>vz_VenueID = pf_VenueID s, vz_Exchange = pf_Exchange s, vz_Environment = pf_Environment s, vz_Market = pf_Market s,
     vz_TotalValue = pf_TotalValue s, vz_WalletBalance = pf_WalletBalance s, vz_AvailableBalance = pf_AvailableBalance s,
     vz_UpdatedAt = pf_UpdatedAt s, vz_Wallet = snapshotWallet s, vz_Balances = pf_Balances s, vz_Positions = pf_Positions s\<rparr>"

definition toProtoPortfolioSnapshot :: "PortfolioSnapshot \<Rightarrow> PortfolioMessage" where
  "toProtoPortfolioSnapshot s = \<lparr>pz_AccountID = pf_AccountID s, pz_UserID = pf_UserID s, pz_TotalValue = pf_TotalValue s,
     pz_WalletBalance = pf_WalletBalance s, pz_AvailableBalance = pf_AvailableBalance s, pz_UpdatedAt = pf_UpdatedAt s,
     pz_Wallet = snapshotWallet (VenuePortfolio.truncate s),
     pz_Venues = map toProtoVenueSnapshot (if pf_VenueSnapshots s = [] \<and> pf_VenueID s \<noteq> 0 then [VenuePortfolio.truncate s] else pf_VenueSnapshots s)\<rparr>"

definition GetPortfolioSnapshotRPC :: "AccountEnv \<Rightarrow> int \<Rightarrow> int \<Rightarrow> PortfolioMessage adb" where
  "GetPortfolioSnapshotRPC env userID accountID = for_user userID (
     invalid (accountID = 0) ''account_id is required'' (
     then_sql (map_error mapRepoErr (GetAccount accountID userID)) (\<lambda>account.
     then_sql (readPortfolioSnapshot env account) (\<lambda>snapshot. ok_sql (toProtoPortfolioSnapshot snapshot)))))"

subsection \<open>Updates\<close>

record WalletUpdate =
  wu_UserId :: int
  wu_AccountId :: int
  wu_SessionId :: string
  wu_StrategyId :: int
  wu_SnapshotReason :: int
  wu_SnapshotTime :: "time option"
  wu_Payload :: WalletPayload

text \<open>The account of the update, if it and the session it names are the caller's.\<close>

definition updatedAccount :: "WalletUpdate \<Rightarrow> Account adb" where
  "updatedAccount req = for_user (wu_UserId req) (
     invalid (wu_AccountId req = 0) ''account_id is required'' (
     then_sql (map_error mapRepoErr (GetAccount (wu_AccountId req) (wu_UserId req))) (\<lambda>account.
     then_sql (requireActiveSessionForAccount (wu_SessionId req) (wu_AccountId req) (wu_StrategyId req) (ac_UserID account)) (\<lambda>_.
     ok_sql account))))"

definition updateReason :: "WalletUpdate \<Rightarrow> int" where
  "updateReason req = int16_of (wu_SnapshotReason req)"

definition saveUpdateSnapshot :: "AccountEnv \<Rightarrow> WalletUpdate \<Rightarrow> unit adb" where
  "saveUpdateSnapshot env req =
     (if 0 < updateReason req
      then map_error (coded Unavailable ''save snapshot: '') (SaveSnapshot (ae_now env) (wu_AccountId req) (updateReason req) (wu_StrategyId req)
        (wu_SessionId req) (requestTimestampOrZero (wu_SnapshotTime req)))
      else ok_sql ())"

definition storeAccountInfo :: "AccountEnv \<Rightarrow> OnlineAccountInfo \<Rightarrow> unit adb" where
  "storeAccountInfo env info = map_error (coded Unavailable ''update account state: '') (UpdateAccountState (ae_now env) info)"

definition UpdatePortfolioSnapshotRPC :: "AccountEnv \<Rightarrow> WalletUpdate \<Rightarrow> PortfolioMessage adb" where
  "UpdatePortfolioSnapshotRPC env req =
     then_sql (updatedAccount req) (\<lambda>account.
     then_sql (readPortfolioSnapshot env account) (\<lambda>snapshot.
     then_sql (storeAccountInfo env (onlineInfoFromPortfolioSnapshot (VenuePortfolio.truncate snapshot) account)) (\<lambda>_.
     then_sql (saveUpdateSnapshot env req) (\<lambda>_.
     ok_sql (toProtoPortfolioSnapshot snapshot)))))"

definition no_venue :: error where
  "no_venue = Status FailedPrecondition ''account has no active venue''"

definition no_venue_for_payload :: error where
  "no_venue_for_payload = Status FailedPrecondition ''account has no active venue for wallet payload''"

definition localVenueWalletSnapshotsFromWalletStateRequest :: "AccountEnv \<Rightarrow> WalletUpdate \<Rightarrow> Account \<Rightarrow> time \<Rightarrow> VenueWalletSnapshot list adb" where
  "localVenueWalletSnapshotsFromWalletStateRequest env req account updatedAt =
     then_sql (map_error mapRepoErr (ListActiveAccountVenues (ac_UserID account) (ac_AccountID account))) (\<lambda>venues.
     let out = localVenueWallets (ae_now env) (wu_Payload req) account (wu_AccountId req) updatedAt venues in
     if venues = [] then abort no_venue else if out = [] then abort no_venue_for_payload else ok_sql out)"

text \<open>The wallet a backtest venue gets from the merged wallet of the account.\<close>

definition backtestVenueShare :: "AccountEnv \<Rightarrow> Account \<Rightarrow> OnlineAccountInfo \<Rightarrow> bool \<Rightarrow> bool \<Rightarrow> Venue \<Rightarrow> OnlineAccountInfo option" where
  "backtestVenueShare env account info hasFutures hasSpot venue =
     (if ve_Environment venue \<noteq> EnvironmentBacktest then None
      else case (if is_futures (ve_Market venue) \<and> \<not> hasFutures \<and> \<not> hasSpot then Some (info\<lparr>oai_Spot := zero_SpotWallet\<rparr>)
          else venueShare hasFutures hasSpot info venue) of
        None \<Rightarrow> None
      | Some share \<Rightarrow> Some (ensureBacktestVenueOnlineInfoDefaults (ae_now env) share account venue))"

definition updateBacktestVenueWalletStates :: "AccountEnv \<Rightarrow> Account \<Rightarrow> OnlineAccountInfo \<Rightarrow> bool \<Rightarrow> bool \<Rightarrow> unit adb" where
  "updateBacktestVenueWalletStates env account info hasFutures hasSpot =
     then_sql (map_error mapRepoErr (ListActiveAccountVenues (ac_UserID account) (ac_AccountID account))) (\<lambda>venues.
     let shares = List.map_filter (\<lambda>v. case backtestVenueShare env account info hasFutures hasSpot v of None \<Rightarrow> None | Some i \<Rightarrow> Some (v, i)) venues in
     if venues = [] then abort no_venue
     else then_sql (each_sql (\<lambda>(v, i). map_error (coded Unavailable ''update backtest venue wallet state: '')
         (UpsertVenueWalletState (ae_now env) v i)) shares) (\<lambda>_.
       if shares = [] then abort no_venue_for_payload else ok_sql ()))"

definition updateVenueWalletStatesFromSnapshots :: "AccountEnv \<Rightarrow> Account \<Rightarrow> VenueWalletSnapshot list \<Rightarrow> unit adb" where
  "updateVenueWalletStatesFromSnapshots env account snapshots =
     (if snapshots = [] then ok_sql ()
      else then_sql (map_error mapRepoErr (ListActiveAccountVenues (ac_UserID account) (ac_AccountID account))) (\<lambda>venues.
        each_sql (\<lambda>s. case map_of (map (\<lambda>v. (ve_VenueID v, v)) (rev venues)) (vs_VenueID s) of None \<Rightarrow> ok_sql ()
          | Some venue \<Rightarrow> map_error (coded Unavailable ''update venue wallet state: '') (UpsertVenueWalletState (ae_now env) venue
              (ensureBacktestVenueOnlineInfoDefaults (ae_now env) (vs_Snapshot s) account venue))) snapshots))"

definition reconciliationTask :: "WalletUpdate \<Rightarrow> Account \<Rightarrow> OnlineAccountInfo \<Rightarrow> VenueWalletSnapshot list \<Rightarrow> VenueWalletSnapshot list \<Rightarrow> time \<Rightarrow> Task" where
  "reconciliationTask req account localInfo localVenues exchangeVenues updatedAt = \<lparr>tk_AccountID = ac_AccountID account, tk_UserID = ac_UserID account,
     tk_Environment = ac_Environment account, tk_Local = localInfo, tk_Exchange = aggregateVenueWalletSnapshots account exchangeVenues updatedAt,
     tk_LocalVenues = localVenues, tk_ExchangeVenues = exchangeVenues, tk_SessionID = wu_SessionId req, tk_StrategyID = wu_StrategyId req,
     tk_SnapshotReason = updateReason req, tk_TriggerTime = updatedAt\<rparr>"

definition UpdateAccountWalletStateRPC :: "AccountEnv \<Rightarrow> WalletUpdate \<Rightarrow> (AccountWalletState \<times> Task option) adb" where
  "UpdateAccountWalletStateRPC env req =
     then_sql (updatedAccount req) (\<lambda>account.
     let hasFutures = (wp_Futures (wu_Payload req) \<noteq> None); hasSpot = (wp_Spot (wu_Payload req) \<noteq> None);
         updatedAt = or_now (requestTimestampOrZero (wu_SnapshotTime req)) (ae_now env);
         backtest = (environmentFromAccount account = EnvironmentBacktest) in
     invalid (\<not> hasFutures \<and> \<not> hasSpot) ''futures or spot wallet payload is required'' (
     then_sql (localVenueWalletSnapshotsFromWalletStateRequest env req account updatedAt) (\<lambda>localVenues.
     let localInfo = aggregateVenueWalletSnapshots account localVenues updatedAt in
     then_sql (if backtest then updateBacktestVenueWalletStates env account localInfo hasFutures hasSpot else ok_sql ()) (\<lambda>_.
     then_sql (readPortfolioSnapshot env account) (\<lambda>snapshot.
     let exchangeVenues = (if backtest then [] else matchVenueWalletSnapshots (venueWalletSnapshotsFromPortfolioSnapshot snapshot account) localVenues);
         accountInfo = onlineInfoFromPortfolioSnapshot (VenuePortfolio.truncate snapshot) account in
     then_sql (if backtest then ok_sql () else updateVenueWalletStatesFromSnapshots env account exchangeVenues) (\<lambda>_.
     then_sql (storeAccountInfo env accountInfo) (\<lambda>_.
     then_sql (saveUpdateSnapshot env req) (\<lambda>_.
     ok_sql (toProtoAccountWalletState accountInfo,
       if 0 < updateReason req \<and> \<not> backtest then Some (reconciliationTask req account localInfo localVenues exchangeVenues updatedAt)
       else None)))))))))"

subsection \<open>Account configuration\<close>

definition GetAccountMetaRPC :: "int \<Rightarrow> Account adb" where
  "GetAccountMetaRPC accountID =
     invalid (accountID = 0) ''account_id is required'' (
     then_sql (map_error mapRepoErr (GetAccount accountID 0)) (\<lambda>account.
     ok_sql ((bare_account (ac_UserID account))\<lparr>ac_AccountID := ac_AccountID account, ac_Environment := environmentFromAccount account,
       ac_MarginMode := ac_MarginMode account, ac_PositionMode := ac_PositionMode account, ac_APIKey := ac_APIKey account,
       ac_APISecret := ac_APISecret account, ac_DefaultFeeRate := ac_DefaultFeeRate account, ac_SlippageBps := ac_SlippageBps account\<rparr>)))"

end
