(* ===== verification/Account_Invariant.thy ===== *)
theory Account_Invariant
  imports Account_Repository
begin

text \<open>
  The integrity of the account tables.  Keys are unique, references resolve, the checks of the migrations hold; a bound venue
  belongs to the user and the environment of its account; an account has at most one active session and one
  active strategy; and the venues captured for an active session are exactly the active venues of its account,
  which is why a running strategy can rely on them.  Every write keeps all of this, whatever fails.
\<close>

subsection \<open>Keys\<close>

text \<open>A key that determines the identity of the rows that have it: a unique index, possibly a partial one.\<close>

definition determines :: "('a \<Rightarrow> 'k) \<Rightarrow> ('a \<Rightarrow> 'i) \<Rightarrow> 'a set \<Rightarrow> bool" where
  "determines k i S = (\<forall>x\<in>S. \<forall>y\<in>S. k x = k y \<longrightarrow> i x = i y)"

lemma determinesD: "determines k i S \<Longrightarrow> x \<in> S \<Longrightarrow> y \<in> S \<Longrightarrow> k x = k y \<Longrightarrow> i x = i y"
  unfolding determines_def by blast

lemma determines_empty [simp]: "determines k i {}"
  by (simp add: determines_def)

lemma determines_mono: "determines k i T \<Longrightarrow> S \<subseteq> T \<Longrightarrow> determines k i S"
  unfolding determines_def by blast

lemma determines_insert: "determines k i S \<Longrightarrow> (\<And>x. x \<in> S \<Longrightarrow> k x \<noteq> k a) \<Longrightarrow> determines k i (insert a S)"
  unfolding determines_def by (metis insert_iff)

lemma determines_image:
  assumes "determines k i S" "\<And>y. y \<in> T \<Longrightarrow> \<exists>x\<in>S. k x = k y \<and> i x = i y" shows "determines k i T"
  unfolding determines_def
proof (intro ballI impI)
  fix y z assume "y \<in> T" "z \<in> T" "k y = k z"
  moreover from this obtain x w where "x \<in> S" "k x = k y" "i x = i y" "w \<in> S" "k w = k z" "i w = i z"
    using assms(2) by meson
  ultimately show "i y = i z" using determinesD [OF assms(1), of x w] by simp
qed

subsection \<open>The invariant\<close>

definition accounts_ok :: "account_tables \<Rightarrow> bool" where
  "accounts_ok t = (0 < tb_next_account t \<and> distinct (map ar_account_id (tb_accounts t))
     \<and> (\<forall>r\<in>set (tb_accounts t). 0 < ar_account_id r \<and> ar_account_id r < tb_next_account t \<and> ar_environment r \<in> {0, 1, 2} \<and> ar_status r \<in> {1, 2})
     \<and> determines (\<lambda>r. (ar_user_id r, ar_name r)) ar_account_id (set (tb_accounts t)))"

definition venues_ok :: "account_tables \<Rightarrow> bool" where
  "venues_ok t = (0 < tb_next_venue t \<and> distinct (map ve_VenueID (tb_venues t))
     \<and> (\<forall>v\<in>set (tb_venues t). 0 < ve_VenueID v \<and> ve_VenueID v < tb_next_venue t \<and> venue_check v = None)
     \<and> determines api_key_scope ve_VenueID (set (tb_venues t))
     \<and> determines active_route ve_VenueID {v \<in> set (tb_venues t). active_route v \<noteq> None})"

definition owned_by :: "account_tables \<Rightarrow> int \<Rightarrow> int \<Rightarrow> int \<Rightarrow> bool" where
  "owned_by t a user env = (\<exists>r\<in>set (tb_accounts t). ar_account_id r = a \<and> ar_user_id r = user \<and> ar_environment r = env)"

definition bindings_ok :: "account_tables \<Rightarrow> bool" where
  "bindings_ok t = (\<forall>v\<in>set (tb_venues t). \<forall>a. ve_AccountID v = Some a \<longrightarrow> owned_by t a (ve_UserID v) (ve_Environment v))"

definition sessions_ok :: "account_tables \<Rightarrow> bool" where
  "sessions_ok t = (distinct (map sr_session_id (tb_sessions t))
     \<and> (\<forall>s\<in>set (tb_sessions t). owned_by t (sr_account_id s) (sr_user_id s) (sr_environment s))
     \<and> determines sr_account_id sr_session_id {s \<in> set (tb_sessions t). is_active_code (sr_status s)})"

definition session_venues_ok :: "account_tables \<Rightarrow> bool" where
  "session_venues_ok t = (distinct (map (\<lambda>x. (sv_SessionID x, sv_VenueID x)) (tb_session_venues t))
     \<and> sv_SessionID ` set (tb_session_venues t) \<subseteq> sr_session_id ` set (tb_sessions t))"

definition captured :: "string \<Rightarrow> account_tables \<Rightarrow> int set" where
  "captured sid t = sv_VenueID ` {x \<in> set (tb_session_venues t). sv_SessionID x = sid}"

definition bound_venues :: "int \<Rightarrow> account_tables \<Rightarrow> int set" where
  "bound_venues a t = ve_VenueID ` {v \<in> set (tb_venues t). ve_AccountID v = Some a \<and> ve_Status v = VenueStatusActive}"

definition frozen :: "account_tables \<Rightarrow> bool" where
  "frozen t = (\<forall>s\<in>set (tb_sessions t). is_active_code (sr_status s) \<longrightarrow> captured (sr_session_id s) t = bound_venues (sr_account_id s) t)"

definition mounts_ok :: "account_tables \<Rightarrow> bool" where
  "mounts_ok t = (distinct (map (\<lambda>m. (mr_account_id m, mr_strategy_id m)) (tb_mounts t))
     \<and> determines mr_account_id mr_strategy_id {m \<in> set (tb_mounts t). mr_active m})"

definition wallets_ok :: "account_tables \<Rightarrow> bool" where
  "wallets_ok t = (distinct (map wr_venue_id (tb_wallets t)) \<and> wr_venue_id ` set (tb_wallets t) \<subseteq> ve_VenueID ` set (tb_venues t))"

definition account_ok :: "account_tables \<Rightarrow> bool" where
  "account_ok t = (accounts_ok t \<and> venues_ok t \<and> bindings_ok t \<and> sessions_ok t \<and> session_venues_ok t \<and> frozen t \<and> mounts_ok t \<and> wallets_ok t)"

lemma empty_tables_ok: "account_ok empty_tables"
  by (simp add: account_ok_def accounts_ok_def venues_ok_def bindings_ok_def sessions_ok_def session_venues_ok_def frozen_def
      mounts_ok_def wallets_ok_def empty_tables_def)

text \<open>No active session of any user on an account.\<close>

definition idle :: "int \<Rightarrow> account_tables \<Rightarrow> bool" where
  "idle a t = (\<forall>s\<in>set (tb_sessions t). sr_account_id s = a \<longrightarrow> \<not> is_active_code (sr_status s))"

lemma owned_unique:
  "accounts_ok t \<Longrightarrow> owned_by t a u e \<Longrightarrow> owned_by t a u' e' \<Longrightarrow> u = u' \<and> e = e'"
proof -
  assume ok: "accounts_ok t" and "owned_by t a u e" "owned_by t a u' e'"
  then obtain r r' where r: "r \<in> set (tb_accounts t)" "ar_account_id r = a" "ar_user_id r = u" "ar_environment r = e"
    and r': "r' \<in> set (tb_accounts t)" "ar_account_id r' = a" "ar_user_id r' = u'" "ar_environment r' = e'"
    unfolding owned_by_def by blast
  have "inj_on ar_account_id (set (tb_accounts t))" using ok by (simp add: accounts_ok_def distinct_map)
  then have "r = r'" using r r' by (simp add: inj_on_def)
  then show ?thesis using r r' by simp
qed

text \<open>The active sessions of an account are those of its owner, so the check the code makes for the owner is enough.\<close>

lemma no_active_idle:
  assumes "account_ok t" "owned_by t a u e" "active_sessions u a t = []" shows "idle a t"
  unfolding idle_def
proof (intro ballI impI notI)
  fix s assume s: "s \<in> set (tb_sessions t)" "sr_account_id s = a" "is_active_code (sr_status s)"
  then have "owned_by t a (sr_user_id s) (sr_environment s)" using assms(1) by (auto simp: account_ok_def sessions_ok_def)
  then have "sr_user_id s = u" using owned_unique [OF _ assms(2)] assms(1) by (auto simp: account_ok_def)
  then show False using s assms(3) by (auto simp: active_sessions_def filter_empty_conv)
qed

subsection \<open>What a relation on the rows preserves\<close>

lemma set_replace:
  "v \<in> set vs \<Longrightarrow> ve_VenueID v' = ve_VenueID v \<Longrightarrow> set (replace_venue v' vs) = insert v' {w \<in> set vs. ve_VenueID w \<noteq> ve_VenueID v}"
  by (force simp: replace_venue_def)

lemma ids_replace: "map ve_VenueID (replace_venue v' vs) = map ve_VenueID vs"
  by (induction vs) (auto simp: replace_venue_def)

lemma venue_unique_None:
  "venue_unique v others = None \<longleftrightarrow> (\<forall>w\<in>set others. api_key_scope w \<noteq> api_key_scope v)
     \<and> (active_route v \<noteq> None \<longrightarrow> (\<forall>w\<in>set others. active_route w \<noteq> active_route v))"
  by (simp add: venue_unique_def del: not_None_eq)

lemma venue_violation_None:
  "venue_violation v t = None \<longleftrightarrow> venue_check v = None
     \<and> venue_unique v (filter (\<lambda>w. ve_VenueID w \<noteq> ve_VenueID v) (tb_venues t)) = None
     \<and> (\<forall>a. ve_AccountID v = Some a \<longrightarrow> account_exists a t)"
  by (simp add: venue_violation_def split: option.split)

lemma venues_okD:
  assumes "venues_ok t"
  shows "distinct (map ve_VenueID (tb_venues t))"
    "\<And>v. v \<in> set (tb_venues t) \<Longrightarrow> 0 < ve_VenueID v \<and> ve_VenueID v < tb_next_venue t \<and> venue_check v = None"
    "determines api_key_scope ve_VenueID (set (tb_venues t))"
    "determines active_route ve_VenueID {v \<in> set (tb_venues t). active_route v \<noteq> None}" "0 < tb_next_venue t"
  using assms unfolding venues_ok_def by simp_all

lemma venues_ok_insert:
  assumes vs: "set vs = insert v S" and S: "S \<subseteq> set (tb_venues t)" "\<And>w. w \<in> S \<Longrightarrow> ve_VenueID w \<noteq> ve_VenueID v"
    and ok: "venues_ok t" and viol: "venue_violation v t = None"
    and d: "distinct (map ve_VenueID vs)" and n: "0 < ve_VenueID v" "ve_VenueID v < n" "tb_next_venue t \<le> n"
  shows "venues_ok (t\<lparr>tb_venues := vs, tb_next_venue := n\<rparr>)"
proof -
  have u: "venue_unique v (filter (\<lambda>w. ve_VenueID w \<noteq> ve_VenueID v) (tb_venues t)) = None" "venue_check v = None"
    using viol unfolding venue_violation_None by simp_all
  have k: "api_key_scope w \<noteq> api_key_scope v" "active_route v \<noteq> None \<Longrightarrow> active_route w \<noteq> active_route v" if "w \<in> S" for w
    using u(1) that S unfolding venue_unique_None by auto
  have "determines api_key_scope ve_VenueID (set vs)"
    unfolding vs by (rule determines_insert [OF determines_mono [OF venues_okD(3) [OF ok] S(1)] k(1)])
  moreover have "determines active_route ve_VenueID {x \<in> set vs. active_route x \<noteq> None}"
  proof (rule determines_mono)
    have "determines active_route ve_VenueID {x \<in> S. active_route x \<noteq> None}"
      by (rule determines_mono [OF venues_okD(4) [OF ok]]) (use S(1) in blast)
    then show "determines active_route ve_VenueID (if active_route v = None then {x \<in> S. active_route x \<noteq> None} else insert v {x \<in> S. active_route x \<noteq> None})"
      using determines_insert [of active_route ve_VenueID "{x \<in> S. active_route x \<noteq> None}" v] k(2) by auto
    show "{x \<in> set vs. active_route x \<noteq> None} \<subseteq> (if active_route v = None then {x \<in> S. active_route x \<noteq> None} else insert v {x \<in> S. active_route x \<noteq> None})"
      unfolding vs by auto
  qed
  moreover have "\<forall>x\<in>set vs. 0 < ve_VenueID x \<and> ve_VenueID x < n \<and> venue_check x = None"
    using S(1) n u(2) venues_okD(2) [OF ok] unfolding vs by fastforce
  ultimately show ?thesis using d n venues_okD(5) [OF ok] unfolding venues_ok_def by simp
qed

text \<open>A venue row replaced by one with the same identity, owner and environment, while both accounts involved are idle.\<close>

lemma replace_venue_ok:
  assumes ok: "account_ok t" and v: "v \<in> set (tb_venues t)" "ve_VenueID v' = ve_VenueID v" and viol: "venue_violation v' t = None"
    and bind: "\<And>a. ve_AccountID v' = Some a \<Longrightarrow> owned_by t a (ve_UserID v') (ve_Environment v')"
    and idle: "\<And>a. ve_AccountID v = Some a \<or> ve_AccountID v' = Some a \<Longrightarrow> idle a t"
  shows "account_ok (t\<lparr>tb_venues := replace_venue v' (tb_venues t)\<rparr>)"
proof -
  let ?t = "t\<lparr>tb_venues := replace_venue v' (tb_venues t)\<rparr>"
  have set: "set (tb_venues ?t) = insert v' {w \<in> set (tb_venues t). ve_VenueID w \<noteq> ve_VenueID v}"
    using set_replace [OF v] by simp
  have vk: "venues_ok t" using ok by (simp add: account_ok_def)
  have id: "0 < ve_VenueID v'" "ve_VenueID v' < tb_next_venue t" using venues_okD(2) [OF vk v(1)] v(2) by simp_all
  have "venues_ok (t\<lparr>tb_venues := replace_venue v' (tb_venues t), tb_next_venue := tb_next_venue t\<rparr>)"
    by (rule venues_ok_insert [OF set_replace [OF v] _ _ vk viol]) (use venues_okD(1) [OF vk] id v(2) in \<open>auto simp: ids_replace\<close>)
  then have "venues_ok ?t" by simp
  moreover have "bindings_ok ?t"
    using ok bind unfolding account_ok_def bindings_ok_def set by (auto simp: owned_by_def)
  moreover have "bound_venues a ?t = bound_venues a t" if "\<not> idle a t" for a
  proof -
    have "ve_AccountID v \<noteq> Some a" "ve_AccountID v' \<noteq> Some a" using idle that by blast+
    then have "{w \<in> set (tb_venues ?t). ve_AccountID w = Some a \<and> ve_Status w = VenueStatusActive}
        = {w \<in> set (tb_venues t). ve_AccountID w = Some a \<and> ve_Status w = VenueStatusActive}"
      unfolding set using v venues_okD(1) [OF vk] by (auto simp: distinct_map inj_on_def)
    then show ?thesis by (simp add: bound_venues_def)
  qed
  then have "frozen ?t" using ok unfolding account_ok_def frozen_def by (auto simp: captured_def idle_def)
  moreover have "ve_VenueID ` set (tb_venues ?t) = ve_VenueID ` set (tb_venues t)"
    using arg_cong [OF ids_replace [of v' "tb_venues t"], of set] by simp
  then have "wallets_ok ?t" using ok by (simp add: account_ok_def wallets_ok_def)
  ultimately show ?thesis using ok
    by (simp add: account_ok_def accounts_ok_def sessions_ok_def session_venues_ok_def mounts_ok_def owned_by_def)
qed

subsection \<open>New venues and accounts\<close>

lemma insert_venue_ok:
  assumes ok: "account_ok t" and ins: "insert_venue now v t = (Inr row, t')"
    and bind: "\<And>a. ve_AccountID v = Some a \<Longrightarrow> owned_by t a (ve_UserID v) (ve_Environment v) \<and> idle a t"
  shows "account_ok t'"
proof -
  have row: "ve_VenueID row = tb_next_venue t" "ve_AccountID row = ve_AccountID v" "ve_UserID row = ve_UserID v" "ve_Environment row = ve_Environment v"
    and viol: "venue_violation row t = None" and t': "t' = t\<lparr>tb_venues := tb_venues t @ [row], tb_next_venue := tb_next_venue t + 1\<rparr>"
    using ins by (auto simp: insert_venue_def Let_def split: option.splits)
  have vk: "venues_ok t" "accounts_ok t" using ok by (simp_all add: account_ok_def)
  have fresh: "ve_VenueID w < tb_next_venue t" if "w \<in> set (tb_venues t)" for w using venues_okD(2) [OF vk(1) that] by simp
  have "bound_venues a t' = bound_venues a t" if "\<not> idle a t" for a
  proof -
    have "ve_AccountID row \<noteq> Some a" using bind row(2) that by auto
    then show ?thesis unfolding t' bound_venues_def by (intro arg_cong [of _ _ "image ve_VenueID"]) auto
  qed
  then have "frozen t'" using ok unfolding account_ok_def frozen_def t' by (auto simp: captured_def idle_def)
  moreover have "bindings_ok t'" using ok bind row unfolding account_ok_def bindings_ok_def t' by (auto simp: owned_by_def)
  moreover have "wallets_ok t'" using ok unfolding account_ok_def wallets_ok_def t' by auto
  moreover have "venues_ok t'"
    unfolding t' by (rule venues_ok_insert [of _ row "set (tb_venues t)", OF _ _ _ vk(1) viol])
      (use row(1) fresh venues_okD(1,5) [OF vk(1)] in \<open>force simp: image_iff\<close>)+
  ultimately show ?thesis using ok
    by (simp add: account_ok_def accounts_ok_def sessions_ok_def session_venues_ok_def mounts_ok_def owned_by_def t')
qed

lemma owned_by_more: "owned_by t a u e \<Longrightarrow> set (tb_accounts t) \<subseteq> set (tb_accounts t') \<Longrightarrow> owned_by t' a u e"
  unfolding owned_by_def by blast

lemma insert_account_ok:
  assumes ok: "account_ok t" and ins: "insert_account now a t = (Inr n, t')" shows "account_ok t'"
proof -
  obtain row where t': "t' = t\<lparr>tb_accounts := tb_accounts t @ [row], tb_next_account := tb_next_account t + 1\<rparr>"
    and row: "ar_account_id row = tb_next_account t" "ar_environment row \<in> {0, 1, 2}" "ar_status row \<in> {1, 2}"
    and new: "\<And>r. r \<in> set (tb_accounts t) \<Longrightarrow> (ar_user_id r, ar_name r) \<noteq> (ar_user_id row, ar_name row)"
    using ins by (auto simp: insert_account_def Let_def normalizeAccountEnvironment_def domain_codes split: if_splits)
  have ao: "accounts_ok t" using ok by (simp add: account_ok_def)
  have "determines (\<lambda>r. (ar_user_id r, ar_name r)) ar_account_id (insert row (set (tb_accounts t)))"
    by (rule determines_insert) (use ao new in \<open>simp_all add: accounts_ok_def\<close>)
  then have "determines (\<lambda>r. (ar_user_id r, ar_name r)) ar_account_id (set (tb_accounts t'))" by (simp add: t')
  moreover have "ar_account_id r < tb_next_account t" if "r \<in> set (tb_accounts t)" for r using ao that by (simp add: accounts_ok_def)
  ultimately have "accounts_ok t'" using ao row unfolding accounts_ok_def t' by fastforce
  moreover have "owned_by t' b u e" if "owned_by t b u e" for b u e by (rule owned_by_more [OF that]) (auto simp: t')
  then have "bindings_ok t'" "sessions_ok t'" using ok by (auto simp: account_ok_def bindings_ok_def sessions_ok_def t')
  ultimately show ?thesis using ok
    by (simp add: account_ok_def venues_ok_def session_venues_ok_def frozen_def captured_def bound_venues_def mounts_ok_def wallets_ok_def t')
qed

subsection \<open>Sessions\<close>

text \<open>Rows whose status changes but which do not become active.\<close>

lemma update_sessions_ok:
  assumes ok: "account_ok t" and upd: "update_sessions P f t = (Inr n, t')"
    and same: "\<And>r. P r \<Longrightarrow> sr_session_id (f r) = sr_session_id r \<and> sr_account_id (f r) = sr_account_id r \<and> sr_user_id (f r) = sr_user_id r
      \<and> sr_environment (f r) = sr_environment r \<and> (is_active_code (sr_status (f r)) \<longrightarrow> is_active_code (sr_status r))"
  shows "account_ok t'"
proof -
  let ?g = "\<lambda>r. if P r then f r else r"
  have t': "t' = t\<lparr>tb_sessions := map ?g (tb_sessions t)\<rparr>" using upd by (simp add: update_sessions_def)
  have g: "sr_session_id (?g r) = sr_session_id r" "sr_account_id (?g r) = sr_account_id r" "sr_user_id (?g r) = sr_user_id r"
    "sr_environment (?g r) = sr_environment r" "is_active_code (sr_status (?g r)) \<Longrightarrow> is_active_code (sr_status r)" for r
    using same [of r] by (auto split: if_splits)
  have in_t': "\<exists>r\<in>set (tb_sessions t). s = ?g r" if "s \<in> set (tb_sessions t')" for s using that by (simp add: t' image_iff) blast
  have so: "sessions_ok t" using ok by (simp add: account_ok_def)
  have "determines sr_account_id sr_session_id {s \<in> set (tb_sessions t'). is_active_code (sr_status s)}"
  proof (rule determines_image)
    show "determines sr_account_id sr_session_id {s \<in> set (tb_sessions t). is_active_code (sr_status s)}" using so by (simp add: sessions_ok_def)
    fix y assume "y \<in> {s \<in> set (tb_sessions t'). is_active_code (sr_status s)}"
    then obtain r where r: "r \<in> set (tb_sessions t)" "y = ?g r" "is_active_code (sr_status (?g r))" unfolding t' by auto
    then have "r \<in> {s \<in> set (tb_sessions t). is_active_code (sr_status s)}" using g(5) by blast
    moreover have "sr_account_id r = sr_account_id y \<and> sr_session_id r = sr_session_id y" unfolding r(2) g(1,2) by simp
    ultimately show "\<exists>x\<in>{s \<in> set (tb_sessions t). is_active_code (sr_status s)}. sr_account_id x = sr_account_id y \<and> sr_session_id x = sr_session_id y" by blast
  qed
  moreover have ids: "map sr_session_id (tb_sessions t') = map sr_session_id (tb_sessions t)" by (simp add: t' o_def g(1))
  moreover have "owned_by t' (sr_account_id s) (sr_user_id s) (sr_environment s)" if s: "s \<in> set (tb_sessions t')" for s
  proof -
    obtain r where r: "r \<in> set (tb_sessions t)" "s = ?g r" using in_t' [OF s] by blast
    then have "owned_by t (sr_account_id r) (sr_user_id r) (sr_environment r)" using so by (simp add: sessions_ok_def)
    then show ?thesis unfolding r(2) g by (simp add: t' owned_by_def)
  qed
  ultimately have "sessions_ok t'" using so unfolding sessions_ok_def by simp
  moreover have "sr_session_id ` set (tb_sessions t') = sr_session_id ` set (tb_sessions t)" using arg_cong [OF ids, of set] by simp
  moreover have "frozen t'"
    unfolding frozen_def
  proof (intro ballI impI)
    fix s assume s: "s \<in> set (tb_sessions t')" "is_active_code (sr_status s)"
    then obtain r where r: "r \<in> set (tb_sessions t)" "s = ?g r" "is_active_code (sr_status (?g r))" using in_t' [OF s(1)] by blast
    then have "captured (sr_session_id r) t = bound_venues (sr_account_id r) t"
      using ok g(5) unfolding account_ok_def frozen_def by blast
    then show "captured (sr_session_id s) t' = bound_venues (sr_account_id s) t'"
      unfolding r(2) g by (simp add: t' captured_def bound_venues_def)
  qed
  ultimately show ?thesis using ok
    by (simp add: account_ok_def accounts_ok_def venues_ok_def bindings_ok_def owned_by_def session_venues_ok_def mounts_ok_def wallets_ok_def t')
qed

lemma session_venue_of_fields [simp]:
  "sv_SessionID (session_venue_of now sid a v) = sid" "sv_VenueID (session_venue_of now sid a v) = ve_VenueID v"
  by (simp_all add: session_venue_of_def)

text \<open>Capturing the venues of a new session appends one row per venue.\<close>

lemma captured_append:
  "captured sid (t\<lparr>tb_session_venues := xs @ ys\<rparr>) = captured sid (t\<lparr>tb_session_venues := xs\<rparr>) \<union> captured sid (t\<lparr>tb_session_venues := ys\<rparr>)"
  unfolding captured_def by auto

lemma saveSessionVenues_appends:
  assumes "saveSessionVenuesTx now sid vs c = (Inr u, c')" "sid \<in> sr_session_id ` set (tb_sessions (cn_tables c))"
    "distinct (map ve_VenueID vs)" "captured sid (cn_tables c) \<inter> ve_VenueID ` set vs = {}"
  shows "cn_tables c' = (cn_tables c)\<lparr>tb_session_venues := tb_session_venues (cn_tables c) @
    map (\<lambda>v. session_venue_of now sid (the (ve_AccountID v)) v) vs\<rparr>"
  using assms
proof (induction vs arbitrary: c)
  case Nil
  then show ?case by (simp add: saveSessionVenuesTx_def)
next
  case (Cons v vs)
  let ?row = "session_venue_of now sid (the (ve_AccountID v)) v"
  obtain c1 where step: "exec_sql (upsert_session_venue ?row) c = (Inr (), c1)" and rest: "saveSessionVenuesTx now sid vs c1 = (Inr u, c')"
    using Cons.prems(1) by (auto simp: saveSessionVenuesTx_def then_sql_Inr Let_def split: if_splits option.splits)
  have "\<not> (\<exists>o'\<in>set (tb_session_venues (cn_tables c)). same_session_venue o' ?row)"
    using Cons.prems(4) by (force simp: captured_def same_session_venue_def)
  then have c1: "cn_tables c1 = (cn_tables c)\<lparr>tb_session_venues := tb_session_venues (cn_tables c) @ [?row]\<rparr>"
    using exec_sql_Inr [OF step] Cons.prems(2) by (simp add: upsert_session_venue_def split: if_splits)
  have "captured sid (cn_tables c1) \<inter> ve_VenueID ` set vs = {}"
    using Cons.prems(3,4) unfolding c1 captured_append by (auto simp: captured_def) (metis image_eqI)+
  then show ?case using Cons.IH [OF rest] Cons.prems(2,3) by (simp add: c1)
qed

lemma session_row_of_fields [simp]:
  "sr_session_id (session_row_of now s a) = ss_SessionID s" "sr_account_id (session_row_of now s a) = ar_account_id a"
  "sr_user_id (session_row_of now s a) = ar_user_id a" "sr_environment (session_row_of now s a) = sessionEnvironment s"
  "sr_status (session_row_of now s a) = sessionStatusCode (ss_Status s)"
  by (simp_all add: session_row_of_def)

lemma session_unique_None:
  "session_unique r others = None \<longleftrightarrow> sr_session_id r \<notin> sr_session_id ` set others
     \<and> (is_active_code (sr_status r) \<longrightarrow> (\<forall>o'\<in>set others. is_active_code (sr_status o') \<longrightarrow> sr_account_id o' \<noteq> sr_account_id r))"
proof -
  have "(\<exists>o'\<in>set others. sr_session_id o' = sr_session_id r) \<longleftrightarrow> sr_session_id r \<in> sr_session_id ` set others"
    unfolding image_iff by (rule bex_cong [OF refl eq_commute])
  then show ?thesis unfolding session_unique_def by auto
qed

lemma set_by_route [simp]: "set (by_route vs) = set vs"
  by (simp add: by_route_def)

lemma distinct_by_route: "distinct (map ve_VenueID vs) \<Longrightarrow> distinct (map ve_VenueID (by_route (filter P vs)))"
  by (simp add: distinct_map by_route_def inj_on_def)

lemma uncaptured:
  assumes "account_ok t" "sid \<notin> sr_session_id ` set (tb_sessions t)" shows "captured sid t = {}"
proof -
  have "sv_SessionID x \<noteq> sid" if "x \<in> set (tb_session_venues t)" for x
    using that assms unfolding account_ok_def session_venues_ok_def by (metis image_eqI subsetD)
  then show ?thesis by (auto simp: captured_def)
qed

text \<open>A new session row together with the active venues of its account.\<close>

lemma new_session_ok:
  assumes ok: "account_ok t" and row: "owned_by t (sr_account_id row) (sr_user_id row) (sr_environment row)"
    and uni: "session_unique row (tb_sessions t) = None"
    and vs: "distinct (map ve_VenueID vs)" "ve_VenueID ` set vs = bound_venues (sr_account_id row) t"
  shows "account_ok (t\<lparr>tb_sessions := tb_sessions t @ [row],
    tb_session_venues := tb_session_venues t @ map (\<lambda>v. session_venue_of now (sr_session_id row) (acc v) v) vs\<rparr>)" (is "account_ok ?t")
proof -
  have so: "sessions_ok t" "session_venues_ok t" using ok by (simp_all add: account_ok_def)
  have new: "sr_session_id row \<notin> sr_session_id ` set (tb_sessions t)"
    and act: "is_active_code (sr_status row) \<Longrightarrow> s \<in> set (tb_sessions t) \<Longrightarrow> is_active_code (sr_status s) \<Longrightarrow> sr_account_id s \<noteq> sr_account_id row" for s
    using uni unfolding session_unique_None by auto
  have none: "sv_SessionID x \<noteq> sr_session_id row" if "x \<in> set (tb_session_venues t)" for x
    using so(2) that new unfolding session_venues_ok_def by (metis image_eqI subsetD)
  have "determines sr_account_id sr_session_id {s \<in> set (tb_sessions ?t). is_active_code (sr_status s)}"
  proof (cases "is_active_code (sr_status row)")
    case True
    then have "{s \<in> set (tb_sessions ?t). is_active_code (sr_status s)} = insert row {s \<in> set (tb_sessions t). is_active_code (sr_status s)}" by auto
    then show ?thesis using determines_insert [of sr_account_id sr_session_id "{s \<in> set (tb_sessions t). is_active_code (sr_status s)}" row]
      so(1) act [OF True] by (simp add: sessions_ok_def)
  next
    case False
    then have "{s \<in> set (tb_sessions ?t). is_active_code (sr_status s)} = {s \<in> set (tb_sessions t). is_active_code (sr_status s)}" by auto
    then show ?thesis using so(1) by (simp add: sessions_ok_def)
  qed
  then have "sessions_ok ?t" using so(1) new row unfolding sessions_ok_def by (auto simp: owned_by_def)
  moreover have "session_venues_ok ?t"
    using so(2) vs(1) none unfolding session_venues_ok_def by (auto simp: o_def distinct_map inj_on_def)
  moreover have "frozen ?t"
    unfolding frozen_def
  proof (intro ballI impI)
    fix s assume s: "s \<in> set (tb_sessions ?t)" "is_active_code (sr_status s)"
    have bv: "bound_venues a ?t = bound_venues a t" for a by (simp add: bound_venues_def)
    show "captured (sr_session_id s) ?t = bound_venues (sr_account_id s) ?t"
    proof (cases "s \<in> set (tb_sessions t)")
      case True
      then have "sr_session_id s \<noteq> sr_session_id row" using new by (metis image_eqI)
      then have "captured (sr_session_id s) ?t = captured (sr_session_id s) t" by (auto simp: captured_def)
      then show ?thesis using True s(2) ok bv unfolding account_ok_def frozen_def by simp
    next
      case False
      then have row: "s = row" using s(1) by simp
      have "{x \<in> set (tb_session_venues ?t). sv_SessionID x = sr_session_id row} = {x \<in> set (tb_session_venues t). sv_SessionID x = sr_session_id row}
          \<union> (\<lambda>v. session_venue_of now (sr_session_id row) (acc v) v) ` set vs" by auto
      then have "captured (sr_session_id row) ?t = captured (sr_session_id row) t \<union> ve_VenueID ` set vs"
        by (simp add: captured_def image_Un image_image)
      moreover have "captured (sr_session_id row) t = {}" using none by (auto simp: captured_def)
      ultimately show ?thesis using vs(2) bv row by simp
    qed
  qed
  ultimately have "sessions_ok ?t" "session_venues_ok ?t" "frozen ?t" by simp_all
  then show ?thesis using ok
    by (simp add: account_ok_def accounts_ok_def venues_ok_def bindings_ok_def owned_by_def mounts_ok_def wallets_ok_def)
qed

lemma insert_session_row:
  assumes "insert_session now s t = (Inr n, t')" "n \<noteq> 0"
  obtains a where "a \<in> set (tb_accounts t)" "ar_account_id a = ss_AccountID s" "ar_environment a = sessionEnvironment s"
    "session_unique (session_row_of now s a) (tb_sessions t) = None"
    "t' = t\<lparr>tb_sessions := tb_sessions t @ [session_row_of now s a]\<rparr>"
proof (cases "filter (\<lambda>a. ar_account_id a = ss_AccountID s \<and> ar_environment a = sessionEnvironment s) (tb_accounts t)")
  case Nil
  then show ?thesis using assms by (simp add: insert_session_def)
next
  case (Cons a as)
  then have "a \<in> set (filter (\<lambda>a. ar_account_id a = ss_AccountID s \<and> ar_environment a = sessionEnvironment s) (tb_accounts t))" by simp
  then have "a \<in> set (tb_accounts t)" "ar_account_id a = ss_AccountID s" "ar_environment a = sessionEnvironment s" by simp_all
  moreover have "session_unique (session_row_of now s a) (tb_sessions t) = None"
    "t' = t\<lparr>tb_sessions := tb_sessions t @ [session_row_of now s a]\<rparr>"
    using assms Cons by (simp_all add: insert_session_def split: option.splits)
  ultimately show ?thesis by (rule that)
qed

subsection \<open>Steps that succeed\<close>

lemma query_row_Inr: "query_row rows c = (Inr r, c') \<Longrightarrow> (\<exists>rs. rows (cn_tables c) = r # rs) \<and> cn_tables c' = cn_tables c"
proof -
  assume "query_row rows c = (Inr r, c')"
  then obtain rs where q: "query_sql rows c = (Inr rs, c')" and "first_or_not_found rs = Inr r"
    unfolding query_row_def then_sql_Inr return_sql_Inr by blast
  then obtain rest where "rs = r # rest" by (cases rs) (auto simp: first_or_not_found_def)
  then show ?thesis using query_sql_Inr [OF q] by metis
qed

lemma ensureNoActive_Inr:
  "ensureNoActiveAccountSessions u a c = (Inr x, c') \<Longrightarrow> active_sessions u a (cn_tables c) = [] \<and> cn_tables c' = cn_tables c"
  unfolding ensureNoActiveAccountSessions_def CountActiveSessionsForAccount_def then_sql_Inr
  by (auto split: if_splits dest!: query_sql_Inr)

lemma update_venue_Inr:
  "update_venue vid u f t = (Inr w, t') \<Longrightarrow> \<exists>v vs. filter (\<lambda>v. ve_VenueID v = vid \<and> ve_UserID v = u) (tb_venues t) = v # vs \<and> w = f v
     \<and> venue_violation (f v) t = None \<and> t' = t\<lparr>tb_venues := replace_venue (f v) (tb_venues t)\<rparr>"
  by (auto simp: update_venue_def split: list.splits option.splits)

definition log_event :: "time \<Rightarrow> int \<Rightarrow> int option \<Rightarrow> int \<Rightarrow> int \<Rightarrow> string \<Rightarrow> account_tables \<Rightarrow> account_tables" where
  "log_event now vid a u ty reason t = t\<lparr>tb_venue_events := tb_venue_events t @ [\<lparr>vn_EventID = tb_next_event t, vn_VenueID = vid,
     vn_AccountID = a, vn_UserID = u, vn_EventType = ty, vn_Reason = reason, vn_CreatedAt = now\<rparr>], tb_next_event := tb_next_event t + 1\<rparr>"

lemma insertVenueEvent_Inr:
  "insertVenueEvent now vid a u ty reason c = (Inr x, c') \<Longrightarrow> cn_tables c' = log_event now vid a u ty reason (cn_tables c)"
  unfolding insertVenueEvent_def by (drule exec_sql_Inr) (simp add: log_event_def)

definition wallets_to :: "int option \<Rightarrow> int \<Rightarrow> account_tables \<Rightarrow> account_tables" where
  "wallets_to a vid t = t\<lparr>tb_wallets := map (\<lambda>w. if wr_venue_id w = vid then w\<lparr>wr_account_id := a\<rparr> else w) (tb_wallets t)\<rparr>"

lemma set_wallet_account_Inr: "set_wallet_account a vid c = (Inr x, c') \<Longrightarrow> cn_tables c' = wallets_to a vid (cn_tables c)"
  unfolding set_wallet_account_def by (drule exec_sql_Inr) (simp add: wallets_to_def)

lemma row_in: "filter P xs = x # ys \<Longrightarrow> x \<in> set xs \<and> P x"
  by (metis filter_eq_ConsD in_set_conv_decomp)

text \<open>What a successful body of a transaction on a venue does to the tables.\<close>

lemma bindVenueTx_effect:
  assumes "bindVenueTx now u a vid reason c = (Inr w, c')"
  obtains v vs where "filter (\<lambda>v. ve_VenueID v = vid \<and> ve_UserID v = u) (tb_venues (cn_tables c)) = v # vs"
    "owned_by (cn_tables c) a u (ve_Environment v)" "ve_Status v = VenueStatusActive" "active_sessions u a (cn_tables c) = []"
    "\<And>b. ve_AccountID v = Some b \<Longrightarrow> active_sessions u b (cn_tables c) = []"
    "w = v\<lparr>ve_AccountID := Some a, ve_UpdatedAt := now\<rparr>" "venue_violation w (cn_tables c) = None"
    "cn_tables c' = wallets_to (Some a) vid (log_event now vid (Some a) u 1 reason
       ((case ve_AccountID v of Some b \<Rightarrow> if b \<noteq> a then log_event now vid (Some b) u 2 reason else id | None \<Rightarrow> id)
          ((cn_tables c)\<lparr>tb_venues := replace_venue w (tb_venues (cn_tables c))\<rparr>)))"
proof -
  let ?t = "cn_tables c"
  obtain env v and c1 c2 c3 c4 c5 c6 c7 :: "account_tables conn" where
    e: "lockAccountEnvironment u a c = (Inr env, c1)" and n: "ensureNoActiveAccountSessions u a c1 = (Inr (), c2)"
    and s: "selectVenueForUpdate vid u c2 = (Inr v, c3)" and ok: "ve_Environment v = env" "ve_Status v = VenueStatusActive"
    and m: "(case ve_AccountID v of None \<Rightarrow> return_sql (Inr ())
         | Some b \<Rightarrow> if b \<noteq> a then ensureNoActiveAccountSessions u b else return_sql (Inr ())) c3 = (Inr (), c4)"
    and up: "exec_sql (update_venue vid u (\<lambda>v. v\<lparr>ve_AccountID := Some a, ve_UpdatedAt := now\<rparr>)) c4 = (Inr w, c5)"
    and l1: "(case ve_AccountID v of None \<Rightarrow> return_sql (Inr ())
         | Some b \<Rightarrow> if b \<noteq> a then insertVenueEvent now vid (Some b) u 2 reason else return_sql (Inr ())) c5 = (Inr (), c6)"
    and l2: "insertVenueEvent now vid (Some a) u 1 reason c6 = (Inr (), c7)" and wl: "set_wallet_account (Some a) vid c7 = (Inr (), c')"
    using assms unfolding bindVenueTx_def then_sql_Inr by (auto split: if_splits simp: then_sql_Inr)
  have c1: "\<exists>rs. map ar_environment (filter (\<lambda>r. ar_account_id r = a \<and> ar_user_id r = u \<and> ar_status r = AccountStatusActive) (tb_accounts ?t)) = env # rs"
    "cn_tables c1 = ?t" using query_row_Inr [OF e [unfolded lockAccountEnvironment_def]] by simp_all
  have "env \<in> set (map ar_environment (filter (\<lambda>r. ar_account_id r = a \<and> ar_user_id r = u \<and> ar_status r = AccountStatusActive) (tb_accounts ?t)))"
    using c1(1) by (metis list.set_intros(1))
  then have own: "owned_by ?t a u (ve_Environment v)" unfolding ok(1) owned_by_def by auto
  have c2: "active_sessions u a ?t = []" "cn_tables c2 = ?t" using ensureNoActive_Inr [OF n] c1 by simp_all
  obtain vs where f: "filter (\<lambda>v. ve_VenueID v = vid \<and> ve_UserID v = u) (tb_venues ?t) = v # vs" and c3: "cn_tables c3 = ?t"
    using query_row_Inr [OF s [unfolded selectVenueForUpdate_def]] c2 by auto
  have old: "active_sessions u b ?t = []" if "ve_AccountID v = Some b" for b
    using m that c2(1) c3 by (auto split: if_splits dest!: ensureNoActive_Inr)
  have c4: "cn_tables c4 = ?t" using m c3 by (auto split: option.splits if_splits dest!: ensureNoActive_Inr)
  have w: "w = v\<lparr>ve_AccountID := Some a, ve_UpdatedAt := now\<rparr>" "venue_violation w ?t = None"
    and c5: "cn_tables c5 = ?t\<lparr>tb_venues := replace_venue w (tb_venues ?t)\<rparr>"
    using update_venue_Inr [OF exec_sql_Inr [OF up]] f c4 by auto
  have c6: "cn_tables c6 = (case ve_AccountID v of Some b \<Rightarrow> if b \<noteq> a then log_event now vid (Some b) u 2 reason else id | None \<Rightarrow> id) (cn_tables c5)"
    using l1 by (auto split: option.splits if_splits dest!: insertVenueEvent_Inr)
  show ?thesis
    by (rule that [OF f own ok(2) c2(1) old w])
      (simp_all add: set_wallet_account_Inr [OF wl] insertVenueEvent_Inr [OF l2] c6 c5)
qed

lemma releaseVenueTx_effect:
  assumes "releaseVenueTx now u vid reason c = (Inr w, c')"
  obtains v vs where "filter (\<lambda>v. ve_VenueID v = vid \<and> ve_UserID v = u) (tb_venues (cn_tables c)) = v # vs"
    "\<And>b. ve_AccountID v = Some b \<Longrightarrow> active_sessions u b (cn_tables c) = []"
    "w = v\<lparr>ve_AccountID := None, ve_UpdatedAt := now\<rparr>" "venue_violation w (cn_tables c) = None"
    "cn_tables c' = wallets_to None vid (log_event now vid (ve_AccountID v) u 2 reason
       ((cn_tables c)\<lparr>tb_venues := replace_venue w (tb_venues (cn_tables c))\<rparr>))"
proof -
  let ?t = "cn_tables c"
  obtain v and c1 c2 c3 c4 :: "account_tables conn" where s: "selectVenueForUpdate vid u c = (Inr v, c1)"
    and m: "(case ve_AccountID v of None \<Rightarrow> return_sql (Inr ()) | Some b \<Rightarrow> ensureNoActiveAccountSessions u b) c1 = (Inr (), c2)"
    and up: "exec_sql (update_venue vid u (\<lambda>v. v\<lparr>ve_AccountID := None, ve_UpdatedAt := now\<rparr>)) c2 = (Inr w, c3)"
    and l: "insertVenueEvent now vid (ve_AccountID v) u 2 reason c3 = (Inr (), c4)" and wl: "set_wallet_account None vid c4 = (Inr (), c')"
    using assms unfolding releaseVenueTx_def then_sql_Inr by (auto simp: then_sql_Inr)
  obtain vs where f: "filter (\<lambda>v. ve_VenueID v = vid \<and> ve_UserID v = u) (tb_venues ?t) = v # vs" and c1: "cn_tables c1 = ?t"
    using query_row_Inr [OF s [unfolded selectVenueForUpdate_def]] by auto
  have old: "active_sessions u b ?t = []" if "ve_AccountID v = Some b" for b using m that c1 by (auto dest!: ensureNoActive_Inr)
  have c2: "cn_tables c2 = ?t" using m c1 by (auto split: option.splits dest!: ensureNoActive_Inr)
  have w: "w = v\<lparr>ve_AccountID := None, ve_UpdatedAt := now\<rparr>" "venue_violation w ?t = None"
    and c3: "cn_tables c3 = ?t\<lparr>tb_venues := replace_venue w (tb_venues ?t)\<rparr>"
    using update_venue_Inr [OF exec_sql_Inr [OF up]] f c2 by auto
  show ?thesis by (rule that [OF f old w]) (simp_all add: set_wallet_account_Inr [OF wl] insertVenueEvent_Inr [OF l] c3)
qed

lemma archive_row_Inr:
  assumes "archive_row now vid u reason t = (Inr x, t')" "filter (\<lambda>v. ve_VenueID v = vid \<and> ve_UserID v = u) (tb_venues t) = v # vs"
    "w = v\<lparr>ve_AccountID := None, ve_Status := VenueStatusArchived, ve_ArchivedAt := Some now, ve_ArchivedReason := reason, ve_UpdatedAt := now\<rparr>"
  shows "venue_violation w t = None" "t' = t\<lparr>tb_venues := replace_venue w (tb_venues t)\<rparr>"
proof -
  have "venue_violation w t = None \<and> t' = t\<lparr>tb_venues := replace_venue w (tb_venues t)\<rparr>"
  proof (cases "venue_violation w t")
    case None
    then show ?thesis using assms by (simp add: archive_row_def update_venue_def)
  next
    case (Some e)
    then have "e \<noteq> RepoNotFound"
      by (auto simp: venue_violation_def check_violation_def unique_violation_def fk_violation_def RepoNotFound_def split: option.splits if_splits)
    then show ?thesis using assms Some by (simp add: archive_row_def update_venue_def)
  qed
  then show "venue_violation w t = None" "t' = t\<lparr>tb_venues := replace_venue w (tb_venues t)\<rparr>" by simp_all
qed

lemma archiveVenueTx_effect:
  assumes "archiveVenueTx now u vid reason c = (Inr x, c')"
  obtains v vs w where "filter (\<lambda>v. ve_VenueID v = vid \<and> ve_UserID v = u) (tb_venues (cn_tables c)) = v # vs"
    "\<And>b. ve_AccountID v = Some b \<Longrightarrow> active_sessions u b (cn_tables c) = []"
    "w = v\<lparr>ve_AccountID := None, ve_Status := VenueStatusArchived, ve_ArchivedAt := Some now, ve_ArchivedReason := reason, ve_UpdatedAt := now\<rparr>"
    "venue_violation w (cn_tables c) = None"
    "cn_tables c' = (log_event now vid (ve_AccountID v) u 3 reason ((cn_tables c)\<lparr>tb_venues := replace_venue w (tb_venues (cn_tables c))\<rparr>))
       \<lparr>tb_wallets := filter (\<lambda>w. wr_venue_id w \<noteq> vid) (tb_wallets (cn_tables c))\<rparr>"
proof -
  let ?t = "cn_tables c"
  obtain v and c1 c2 c3 c4 :: "account_tables conn" where s: "selectVenueForUpdate vid u c = (Inr v, c1)"
    and m: "(case ve_AccountID v of None \<Rightarrow> return_sql (Inr ()) | Some b \<Rightarrow> ensureNoActiveAccountSessions u b) c1 = (Inr (), c2)"
    and up: "exec_sql (archive_row now vid u reason) c2 = (Inr (), c3)"
    and l: "insertVenueEvent now vid (ve_AccountID v) u 3 reason c3 = (Inr (), c4)"
    and wl: "exec_sql (\<lambda>t. (Inr (), t\<lparr>tb_wallets := filter (\<lambda>w. wr_venue_id w \<noteq> vid) (tb_wallets t)\<rparr>)) c4 = (Inr x, c')"
    using assms unfolding archiveVenueTx_def then_sql_Inr by (auto simp: then_sql_Inr)
  obtain vs where f: "filter (\<lambda>v. ve_VenueID v = vid \<and> ve_UserID v = u) (tb_venues ?t) = v # vs" and c1: "cn_tables c1 = ?t"
    using query_row_Inr [OF s [unfolded selectVenueForUpdate_def]] by auto
  have old: "active_sessions u b ?t = []" if "ve_AccountID v = Some b" for b using m that c1 by (auto dest!: ensureNoActive_Inr)
  have c2: "cn_tables c2 = ?t" using m c1 by (auto split: option.splits dest!: ensureNoActive_Inr)
  note row = archive_row_Inr [OF exec_sql_Inr [OF up, unfolded c2] f refl]
  show ?thesis
    by (rule that [OF f old refl row(1)]) (use exec_sql_Inr [OF wl] in \<open>simp_all add: insertVenueEvent_Inr [OF l] row(2) log_event_def\<close>)
qed

subsection \<open>Every write keeps the integrity of the tables\<close>

lemma saveSessionTx_ok:
  assumes ok: "account_ok (cn_tables c)" and s: "saveSessionTx now s c = (Inr x, c')" shows "account_ok (cn_tables c')"
proof -
  from s obtain n and c1 :: "account_tables conn" and vs and c2 :: "account_tables conn" where
    ins: "insert_session now s (cn_tables c) = (Inr n, cn_tables c1)" and "n \<noteq> 0"
    and lst: "vs = by_route (filter (\<lambda>v. ve_AccountID v = Some (ss_AccountID s) \<and> ve_Status v = VenueStatusActive) (tb_venues (cn_tables c1)))"
      "cn_tables c2 = cn_tables c1"
    and sav: "saveSessionVenuesTx now (ss_SessionID s) vs c2 = (Inr x, c')"
    unfolding saveSessionTx_def by (auto simp: then_sql_Inr listActiveAccountVenuesTx_def split: if_splits dest!: exec_sql_Inr query_sql_Inr)
  from insert_session_row [OF ins \<open>n \<noteq> 0\<close>] obtain a where a: "a \<in> set (tb_accounts (cn_tables c))" "ar_account_id a = ss_AccountID s" "ar_environment a = sessionEnvironment s"
    and uni: "session_unique (session_row_of now s a) (tb_sessions (cn_tables c)) = None"
    and c1: "cn_tables c1 = (cn_tables c)\<lparr>tb_sessions := tb_sessions (cn_tables c) @ [session_row_of now s a]\<rparr>"
    by metis
  have d: "distinct (map ve_VenueID vs)"
    unfolding lst(1) c1 using ok by (intro distinct_by_route) (simp add: account_ok_def venues_ok_def)
  have "captured (ss_SessionID s) (cn_tables c2) = {}"
    using uncaptured [OF ok] uni unfolding session_unique_None lst(2) c1 by (simp add: captured_def)
  then have "cn_tables c' = (cn_tables c2)\<lparr>tb_session_venues := tb_session_venues (cn_tables c2) @
      map (\<lambda>v. session_venue_of now (ss_SessionID s) (the (ve_AccountID v)) v) vs\<rparr>"
    by (intro saveSessionVenues_appends [OF sav _ d]) (simp_all add: lst(2) c1)
  moreover have "ve_VenueID ` set vs = bound_venues (sr_account_id (session_row_of now s a)) (cn_tables c)"
    unfolding lst(1) c1 by (auto simp: bound_venues_def a(2))
  moreover have "owned_by (cn_tables c) (ar_account_id a) (ar_user_id a) (sessionEnvironment s)" using a unfolding owned_by_def by blast
  ultimately show "account_ok (cn_tables c')"
    using new_session_ok [OF ok _ uni d, of now "\<lambda>v. the (ve_AccountID v)"] by (simp add: lst(2) c1)
qed

lemma SaveSession_ok: "triple account_ok (SaveSession now s) (\<lambda>_. account_ok) account_ok"
  unfolding SaveSession_def by (rule tx_inv) (rule saveSessionTx_ok)

text \<open>The integrity depends on the rows only through this view.\<close>

definition account_key :: "account_row \<Rightarrow> int \<times> int \<times> string \<times> int \<times> int" where
  "account_key r = (ar_account_id r, ar_user_id r, ar_name r, ar_environment r, ar_status r)"

definition integrity_view :: "account_tables \<Rightarrow> (int \<times> int \<times> string \<times> int \<times> int) list \<times> Venue list \<times> session_row list
    \<times> SessionVenue list \<times> mount_row list \<times> int list \<times> int \<times> int" where
  "integrity_view t = (map account_key (tb_accounts t), tb_venues t, tb_sessions t, tb_session_venues t, tb_mounts t,
     map wr_venue_id (tb_wallets t), tb_next_account t, tb_next_venue t)"

lemma account_keys:
  assumes "map account_key xs = map account_key ys" "y \<in> set ys" shows "\<exists>x\<in>set xs. account_key x = account_key y"
proof -
  have "account_key y \<in> account_key ` set xs" using arg_cong [OF assms(1), of set] assms(2) by simp
  then show ?thesis by (auto simp: image_iff intro: sym)
qed

lemma accounts_ok_keys:
  assumes k: "map account_key (tb_accounts t) = map account_key (tb_accounts t')" "tb_next_account t = tb_next_account t'" and ok: "accounts_ok t"
  shows "accounts_ok t'" "owned_by t a u e \<Longrightarrow> owned_by t' a u e"
proof -
  have "map fst (map account_key (tb_accounts t)) = map fst (map account_key (tb_accounts t'))" using k by simp
  then have ids: "map ar_account_id (tb_accounts t) = map ar_account_id (tb_accounts t')" by (simp add: o_def account_key_def)
  have key: "determines (\<lambda>r. (ar_user_id r, ar_name r)) ar_account_id (set (tb_accounts t'))"
    by (rule determines_image [of _ _ "set (tb_accounts t)"])
      (use ok account_keys [OF k(1)] in \<open>simp_all add: accounts_ok_def account_key_def, blast\<close>)
  show "accounts_ok t'"
    unfolding accounts_ok_def
  proof (intro conjI ballI)
    fix y assume "y \<in> set (tb_accounts t')"
    then obtain x where x: "x \<in> set (tb_accounts t)" "account_key x = account_key y" using account_keys [OF k(1)] by blast
    show "0 < ar_account_id y" "ar_account_id y < tb_next_account t'" "ar_environment y \<in> {0, 1, 2}" "ar_status y \<in> {1, 2}"
      using x k(2) ok by (auto simp: accounts_ok_def account_key_def)
  qed (use ok k(2) ids key in \<open>simp_all add: accounts_ok_def\<close>)
  assume "owned_by t a u e"
  then obtain x where x: "x \<in> set (tb_accounts t)" "ar_account_id x = a" "ar_user_id x = u" "ar_environment x = e" unfolding owned_by_def by blast
  then obtain y where "y \<in> set (tb_accounts t')" "account_key y = account_key x" using account_keys [OF k(1) [symmetric]] by blast
  then show "owned_by t' a u e" using x unfolding owned_by_def account_key_def by blast
qed

lemma integrity_view_ok:
  assumes v: "integrity_view t = integrity_view t'" and ok: "account_ok t" shows "account_ok t'"
proof -
  have k: "map account_key (tb_accounts t) = map account_key (tb_accounts t')" "tb_next_account t = tb_next_account t'"
    and rows: "tb_venues t' = tb_venues t" "tb_sessions t' = tb_sessions t" "tb_session_venues t' = tb_session_venues t" "tb_mounts t' = tb_mounts t"
      "tb_next_venue t' = tb_next_venue t"
    and w: "map wr_venue_id (tb_wallets t') = map wr_venue_id (tb_wallets t)"
    using v by (simp_all add: integrity_view_def)
  have ao: "accounts_ok t" using ok by (simp add: account_ok_def)
  have "wr_venue_id ` set (tb_wallets t') = wr_venue_id ` set (tb_wallets t)" using arg_cong [OF w, of set] by simp
  then have "wallets_ok t'" using ok w by (simp add: account_ok_def wallets_ok_def rows)
  moreover have "bindings_ok t'" using ok accounts_ok_keys(2) [OF k ao] by (simp add: account_ok_def bindings_ok_def rows)
  moreover have "sessions_ok t'" using ok accounts_ok_keys(2) [OF k ao] by (simp add: account_ok_def sessions_ok_def rows)
  ultimately show ?thesis using ok accounts_ok_keys(1) [OF k ao]
    by (simp add: account_ok_def venues_ok_def session_venues_ok_def frozen_def captured_def bound_venues_def mounts_ok_def rows)
qed

lemma wallets_to_ok: "account_ok t \<Longrightarrow> account_ok (wallets_to a vid t)"
  by (erule integrity_view_ok [rotated]) (simp add: integrity_view_def wallets_to_def o_def)

lemma log_event_ok: "account_ok t \<Longrightarrow> account_ok (log_event now vid a u ty reason t)"
  by (erule integrity_view_ok [rotated]) (simp add: integrity_view_def log_event_def)

text \<open>A venue is bound, released and archived only while the accounts it leaves and joins are idle.\<close>

lemma venue_account_idle:
  assumes ok: "account_ok t" and f: "filter (\<lambda>v. ve_VenueID v = vid \<and> ve_UserID v = u) (tb_venues t) = v # vs"
    and b: "ve_AccountID v = Some b" "active_sessions u b t = []"
  shows "idle b t"
proof -
  have "v \<in> set (tb_venues t)" "ve_UserID v = u" using row_in [OF f] by simp_all
  then have "owned_by t b u (ve_Environment v)" using ok b unfolding account_ok_def bindings_ok_def by blast
  then show ?thesis using no_active_idle [OF ok] b(2) by blast
qed

lemma BindVenue_ok: "triple account_ok (BindVenue now u a vid reason) (\<lambda>_. account_ok) account_ok"
  unfolding BindVenue_def
proof (rule tx_inv)
  fix c :: "account_tables conn" and x c' assume ok: "account_ok (cn_tables c)" and b: "bindVenueTx now u a vid reason c = (Inr x, c')"
  from b show "account_ok (cn_tables c')"
  proof (rule bindVenueTx_effect)
    fix v vs assume f: "filter (\<lambda>v. ve_VenueID v = vid \<and> ve_UserID v = u) (tb_venues (cn_tables c)) = v # vs"
      and own: "owned_by (cn_tables c) a u (ve_Environment v)" and idle: "active_sessions u a (cn_tables c) = []"
        "\<And>b. ve_AccountID v = Some b \<Longrightarrow> active_sessions u b (cn_tables c) = []"
      and w: "x = v\<lparr>ve_AccountID := Some a, ve_UpdatedAt := now\<rparr>" "venue_violation x (cn_tables c) = None"
      and c': "cn_tables c' = wallets_to (Some a) vid (log_event now vid (Some a) u 1 reason
       ((case ve_AccountID v of Some b \<Rightarrow> if b \<noteq> a then log_event now vid (Some b) u 2 reason else id | None \<Rightarrow> id)
          ((cn_tables c)\<lparr>tb_venues := replace_venue x (tb_venues (cn_tables c))\<rparr>)))"
    have v: "v \<in> set (tb_venues (cn_tables c))" "ve_UserID v = u" using row_in [OF f] by simp_all
    have "account_ok ((cn_tables c)\<lparr>tb_venues := replace_venue x (tb_venues (cn_tables c))\<rparr>)"
      by (rule replace_venue_ok [OF ok v(1) _ w(2)])
        (use own v no_active_idle [OF ok own idle(1)] venue_account_idle [OF ok f _ idle(2)] in \<open>auto simp: w(1)\<close>)
    then show ?thesis unfolding c' by (auto intro!: wallets_to_ok log_event_ok split: option.split)
  qed
qed

lemma ReleaseVenue_ok: "triple account_ok (ReleaseVenue now u vid reason) (\<lambda>_. account_ok) account_ok"
  unfolding ReleaseVenue_def
proof (rule tx_inv)
  fix c :: "account_tables conn" and x c' assume ok: "account_ok (cn_tables c)" and b: "releaseVenueTx now u vid reason c = (Inr x, c')"
  from b show "account_ok (cn_tables c')"
  proof (rule releaseVenueTx_effect)
    fix v vs assume f: "filter (\<lambda>v. ve_VenueID v = vid \<and> ve_UserID v = u) (tb_venues (cn_tables c)) = v # vs"
      and idle: "\<And>b. ve_AccountID v = Some b \<Longrightarrow> active_sessions u b (cn_tables c) = []"
      and w: "x = v\<lparr>ve_AccountID := None, ve_UpdatedAt := now\<rparr>" "venue_violation x (cn_tables c) = None"
      and c': "cn_tables c' = wallets_to None vid (log_event now vid (ve_AccountID v) u 2 reason
       ((cn_tables c)\<lparr>tb_venues := replace_venue x (tb_venues (cn_tables c))\<rparr>))"
    have "account_ok ((cn_tables c)\<lparr>tb_venues := replace_venue x (tb_venues (cn_tables c))\<rparr>)"
      by (rule replace_venue_ok [OF ok _ _ w(2)])
        (use row_in [OF f] venue_account_idle [OF ok f _ idle] in \<open>auto simp: w(1)\<close>)
    then show ?thesis unfolding c' by (auto intro!: wallets_to_ok log_event_ok)
  qed
qed

lemma ArchiveVenue_ok: "triple account_ok (ArchiveVenue now u vid reason) (\<lambda>_. account_ok) account_ok"
  unfolding ArchiveVenue_def
proof (rule tx_inv)
  fix c :: "account_tables conn" and x c' assume ok: "account_ok (cn_tables c)" and b: "archiveVenueTx now u vid reason c = (Inr x, c')"
  from b show "account_ok (cn_tables c')"
  proof (rule archiveVenueTx_effect)
    fix v vs w assume f: "filter (\<lambda>v. ve_VenueID v = vid \<and> ve_UserID v = u) (tb_venues (cn_tables c)) = v # vs"
      and idle: "\<And>b. ve_AccountID v = Some b \<Longrightarrow> active_sessions u b (cn_tables c) = []"
      and w: "w = v\<lparr>ve_AccountID := None, ve_Status := VenueStatusArchived, ve_ArchivedAt := Some now, ve_ArchivedReason := reason, ve_UpdatedAt := now\<rparr>"
        "venue_violation w (cn_tables c) = None"
      and c': "cn_tables c' = (log_event now vid (ve_AccountID v) u 3 reason ((cn_tables c)\<lparr>tb_venues := replace_venue w (tb_venues (cn_tables c))\<rparr>))
       \<lparr>tb_wallets := filter (\<lambda>w. wr_venue_id w \<noteq> vid) (tb_wallets (cn_tables c))\<rparr>"
    have "account_ok ((cn_tables c)\<lparr>tb_venues := replace_venue w (tb_venues (cn_tables c))\<rparr>)"
      by (rule replace_venue_ok [OF ok _ _ w(2)])
        (use row_in [OF f] venue_account_idle [OF ok f _ idle] in \<open>auto simp: w(1)\<close>)
    then have "account_ok (log_event now vid (ve_AccountID v) u 3 reason ((cn_tables c)\<lparr>tb_venues := replace_venue w (tb_venues (cn_tables c))\<rparr>))"
      by (rule log_event_ok)
    then show ?thesis unfolding c'
      by (auto simp: account_ok_def accounts_ok_def venues_ok_def bindings_ok_def owned_by_def sessions_ok_def session_venues_ok_def frozen_def
        captured_def bound_venues_def mounts_ok_def wallets_ok_def log_event_def distinct_map_filter)
  qed
qed

text \<open>A statement that fails changes nothing.\<close>

lemma triple_exec_inv:
  assumes "\<And>t x t'. P t \<Longrightarrow> account_ok t \<Longrightarrow> f t = (Inr x, t') \<Longrightarrow> account_ok t'" "\<And>t e t'. f t = (Inl e, t') \<Longrightarrow> t' = t"
  shows "triple (\<lambda>t. account_ok t \<and> P t) (exec_sql f) (\<lambda>_. account_ok) account_ok"
proof (rule triple_exec)
  fix t e t' assume "account_ok t \<and> P t" "f t = (Inl e, t')"
  then show "account_ok t'" using assms(2) [of t e t'] by simp
qed (use assms(1) in blast)+

lemmas triple_exec_ok = triple_exec_inv [where P = "\<lambda>_. True", simplified]

lemma CreateAccount_ok: "triple account_ok (CreateAccount now a) (\<lambda>_. account_ok) account_ok"
  unfolding CreateAccount_def
proof (intro triple_map_error triple_exec_ok)
  show "t' = t" if "insert_account now a t = (Inl e, t')" for t e t' using that by (auto simp: insert_account_def Let_def split: if_splits)
qed (rule insert_account_ok)

text \<open>A venue may be created on an account only by its owner, in its environment, and while the account is idle.\<close>

definition venue_allowed :: "Venue \<Rightarrow> account_tables \<Rightarrow> bool" where
  "venue_allowed v t = (\<forall>a. ve_AccountID v = Some a \<longrightarrow> owned_by t a (ve_UserID v) (ve_Environment v) \<and> idle a t)"

lemma CreateVenue_ok: "triple (\<lambda>t. account_ok t \<and> venue_allowed v t) (CreateVenue now v) (\<lambda>_. account_ok) account_ok"
proof (cases "ValidateMarketModes (ve_Market v) (ve_MarginMode v) (ve_PositionMode v)")
  case None
  let ?v = "v\<lparr>ve_Status := (if ve_Status v = 0 then VenueStatusActive else ve_Status v),
    ve_CredentialKeyVersion := (let k = trim_space (ve_CredentialKeyVersion v) in if k = [] then ''v1'' else k)\<rparr>"
  have "triple (\<lambda>t. account_ok t \<and> venue_allowed v t) (exec_sql (insert_venue now ?v)) (\<lambda>_. account_ok) account_ok"
  proof (rule triple_exec_inv)
    fix t x t' assume "venue_allowed v t" "account_ok t" "insert_venue now ?v t = (Inr x, t')"
    then show "account_ok t'" by (rule_tac insert_venue_ok) (auto simp: venue_allowed_def)
  qed (auto simp: insert_venue_def Let_def split: option.splits)
  then show ?thesis using None by (simp add: CreateVenue_def Let_def triple_map_error)
next
  case (Some e)
  then show ?thesis by (auto simp: CreateVenue_def intro: triple_return)
qed

lemma UpdateSession_ok: "triple account_ok (UpdateSession now sid st bars err rid) (\<lambda>_. account_ok) account_ok"
  unfolding UpdateSession_def Let_def
proof (rule triple_then [where R = "\<lambda>_. account_ok"])
  show "triple account_ok (exec_sql (update_sessions
      (\<lambda>r. sr_session_id r = sid \<and> is_active_code (sr_status r) \<and> (rid \<noteq> [] \<longrightarrow> sr_runtime_id r = rid))
      (\<lambda>r. r\<lparr>sr_status := sessionStatusCode st, sr_bars_processed := bars, sr_error := err,
         sr_completed_at := (if \<not> is_active_code (sessionStatusCode st) then Some now else sr_completed_at r)\<rparr>))) (\<lambda>_. account_ok) account_ok"
    by (rule triple_exec_ok, rule update_sessions_ok, assumption, assumption) (auto simp: update_sessions_def)
qed (auto intro: triple_return)

lemma MarkRuntimeSessionsRecoverable_ok: "triple account_ok (MarkRuntimeSessionsRecoverable now rid err) (\<lambda>_. account_ok) account_ok"
  unfolding MarkRuntimeSessionsRecoverable_def Let_def
proof (rule triple_if)
  show "triple account_ok (exec_sql (update_sessions (\<lambda>r. sr_runtime_id r = trim_space rid \<and> is_active_code (sr_status r))
      (\<lambda>r. r\<lparr>sr_status := 5, sr_error := err, sr_completed_at := (case sr_completed_at r of None \<Rightarrow> Some now | Some c \<Rightarrow> Some c)\<rparr>)))
      (\<lambda>_. account_ok) account_ok"
    by (rule triple_exec_ok, rule update_sessions_ok, assumption, assumption) (auto simp: update_sessions_def)
qed (auto intro: triple_return)

subsection \<open>Writes on one table\<close>

lemma mounts_only_ok: "account_ok t \<Longrightarrow> mounts_ok (t\<lparr>tb_mounts := ms\<rparr>) \<Longrightarrow> account_ok (t\<lparr>tb_mounts := ms\<rparr>)"
  by (simp add: account_ok_def accounts_ok_def venues_ok_def bindings_ok_def owned_by_def sessions_ok_def session_venues_ok_def frozen_def
      captured_def bound_venues_def wallets_ok_def)

lemma MountStrategy_ok: "triple account_ok (MountStrategy now a sid) (\<lambda>_. account_ok) account_ok"
  unfolding MountStrategy_def
proof (rule triple_exec_ok)
  fix t x t' assume ok: "account_ok t" and ins: "insert_mount now a sid t = (Inr x, t')"
  show "account_ok t'"
  proof (cases "t' = t")
    case False
    then have t': "t' = t\<lparr>tb_mounts := tb_mounts t @ [\<lparr>mr_account_id = a, mr_strategy_id = sid, mr_active = False, mr_mounted_at = now\<rparr>]\<rparr>"
      and new: "\<forall>m\<in>set (tb_mounts t). \<not> is_mount a sid m"
      using ins by (auto simp: insert_mount_def split: if_splits)
    have "{m \<in> set (tb_mounts t'). mr_active m} = {m \<in> set (tb_mounts t). mr_active m}" unfolding t' by auto
    then have "mounts_ok t'" using ok new unfolding account_ok_def mounts_ok_def t' by (auto simp: is_mount_def)
    then show ?thesis using mounts_only_ok [OF ok] unfolding t' by blast
  qed (use ok in simp)
qed (auto simp: insert_mount_def split: if_splits)

lemma not_found_if_none_inv: "triple I m (\<lambda>_. I) I \<Longrightarrow> triple I (not_found_if_none m) (\<lambda>_. I) I"
  unfolding not_found_if_none_def by (rule triple_then [where R = "\<lambda>_. I"]) (auto intro: triple_return)

lemma UnmountStrategy_ok: "triple account_ok (UnmountStrategy a sid) (\<lambda>_. account_ok) account_ok"
  unfolding UnmountStrategy_def
proof (intro not_found_if_none_inv triple_exec_ok)
  fix t x t' assume ok: "account_ok t" and e: "(Inr (int (length (filter (is_mount a sid) (tb_mounts t)))),
      t\<lparr>tb_mounts := filter (\<lambda>m. \<not> is_mount a sid m) (tb_mounts t)\<rparr>) = (Inr x :: int result, t')"
  have "determines mr_account_id mr_strategy_id {m \<in> set (filter (\<lambda>m. \<not> is_mount a sid m) (tb_mounts t)). mr_active m}"
    by (rule determines_mono [of _ _ "{m \<in> set (tb_mounts t). mr_active m}"]) (use ok in \<open>auto simp: account_ok_def mounts_ok_def\<close>)
  then show "account_ok t'" using mounts_only_ok [OF ok] ok e by (auto simp: account_ok_def mounts_ok_def distinct_map_filter)
qed simp

text \<open>Setting the active flag of the mounts that satisfy a condition.\<close>

definition flagged :: "(mount_row \<Rightarrow> bool) \<Rightarrow> bool \<Rightarrow> account_tables \<Rightarrow> account_tables" where
  "flagged P b t = t\<lparr>tb_mounts := map (\<lambda>m. if P m then m\<lparr>mr_active := b\<rparr> else m) (tb_mounts t)\<rparr>"

lemma flagged_keys: "map (\<lambda>m. (mr_account_id m, mr_strategy_id m)) (tb_mounts (flagged P b t)) = map (\<lambda>m. (mr_account_id m, mr_strategy_id m)) (tb_mounts t)"
  by (simp add: flagged_def o_def if_distrib [of mr_account_id] if_distrib [of mr_strategy_id] cong: if_cong)

lemma flagged_False_ok: assumes ok: "account_ok t" shows "account_ok (flagged P False t)"
proof -
  have "determines mr_account_id mr_strategy_id {m \<in> set (tb_mounts (flagged P False t)). mr_active m}"
    by (rule determines_mono [of _ _ "{m \<in> set (tb_mounts t). mr_active m}"]) (use ok in \<open>auto simp: account_ok_def mounts_ok_def flagged_def split: if_splits\<close>)
  then have "mounts_ok (flagged P False t)" using ok flagged_keys [of P False t] by (simp add: account_ok_def mounts_ok_def)
  then show ?thesis using mounts_only_ok [OF ok] by (simp add: flagged_def)
qed

lemma flagged_one_ok:
  assumes ok: "account_ok t" and none: "\<forall>m\<in>set (tb_mounts t). mr_account_id m = a \<longrightarrow> \<not> mr_active m"
  shows "account_ok (flagged (is_mount a sid) True t)"
proof -
  have d: "determines mr_account_id mr_strategy_id {m \<in> set (tb_mounts t). mr_active m}" using ok by (simp add: account_ok_def mounts_ok_def)
  have "determines mr_account_id mr_strategy_id {m \<in> set (tb_mounts (flagged (is_mount a sid) True t)). mr_active m}"
    unfolding determines_def
  proof (intro ballI impI)
    fix x y assume x: "x \<in> {m \<in> set (tb_mounts (flagged (is_mount a sid) True t)). mr_active m}"
      and y: "y \<in> {m \<in> set (tb_mounts (flagged (is_mount a sid) True t)). mr_active m}" and k: "mr_account_id x = mr_account_id y"
    have cases: "is_mount a sid m \<or> m \<in> {m \<in> set (tb_mounts t). mr_active m} \<and> mr_account_id m \<noteq> a"
      if "m \<in> {m \<in> set (tb_mounts (flagged (is_mount a sid) True t)). mr_active m}" for m
      using that none by (auto simp: flagged_def is_mount_def split: if_splits)
    show "mr_strategy_id x = mr_strategy_id y"
      using cases [OF x] cases [OF y] k determinesD [OF d, of x y] unfolding is_mount_def by metis
  qed
  then have "mounts_ok (flagged (is_mount a sid) True t)" using ok flagged_keys [of "is_mount a sid" True t] by (simp add: account_ok_def mounts_ok_def)
  then show ?thesis using mounts_only_ok [OF ok] by (simp add: flagged_def)
qed

lemma flagged_mounts: "tb_mounts (flagged P b t) = map (\<lambda>m. if P m then m\<lparr>mr_active := b\<rparr> else m) (tb_mounts t)"
  by (simp add: flagged_def)

lemma flagged_inactive: "\<forall>m\<in>set (tb_mounts (flagged (\<lambda>m. mr_account_id m = a) False t)). mr_account_id m = a \<longrightarrow> \<not> mr_active m"
proof (intro ballI impI)
  fix m assume m: "m \<in> set (tb_mounts (flagged (\<lambda>m. mr_account_id m = a) False t))" "mr_account_id m = a"
  have "m \<in> (\<lambda>m. if mr_account_id m = a then m\<lparr>mr_active := False\<rparr> else m) ` set (tb_mounts t)"
    using m(1) unfolding flagged_mounts set_map .
  then obtain x where "m = (if mr_account_id x = a then x\<lparr>mr_active := False\<rparr> else x)" by blast
  then show "\<not> mr_active m" using m(2) by (cases "mr_account_id x = a") simp_all
qed

lemma set_active_flagged: "set_active P b c = (Inr n, c') \<Longrightarrow> cn_tables c' = flagged P b (cn_tables c)"
  unfolding set_active_def by (drule exec_sql_Inr) (simp add: flagged_def)

lemma DeactivateStrategy_ok: "triple account_ok (DeactivateStrategy a sid) (\<lambda>_. account_ok) account_ok"
  unfolding DeactivateStrategy_def set_active_def
  by (intro not_found_if_none_inv triple_exec_ok) (auto simp: flagged_False_ok [unfolded flagged_def])

lemma ActivateStrategy_ok: "triple account_ok (ActivateStrategy a sid) (\<lambda>_. account_ok) account_ok"
  unfolding ActivateStrategy_def
proof (rule tx_inv)
  fix c :: "account_tables conn" and x c' assume ok: "account_ok (cn_tables c)"
    and s: "then_sql (set_active (\<lambda>m. mr_account_id m = a) False) (\<lambda>_. not_found_if_none (set_active (is_mount a sid) True)) c = (Inr x, c')"
  then obtain n m and c1 :: "account_tables conn" where one: "set_active (\<lambda>m. mr_account_id m = a) False c = (Inr n, c1)"
    and two: "set_active (is_mount a sid) True c1 = (Inr m, c')"
    unfolding then_sql_Inr not_found_if_none_def return_sql_Inr by blast
  have c': "cn_tables c' = flagged (is_mount a sid) True (flagged (\<lambda>m. mr_account_id m = a) False (cn_tables c))"
    unfolding set_active_flagged [OF two] set_active_flagged [OF one] by simp
  show "account_ok (cn_tables c')" unfolding c'
    by (rule flagged_one_ok [OF flagged_False_ok [OF ok] flagged_inactive])
qed

subsection \<open>Wallets, strategies and users\<close>

lemma wallets_only_ok: "account_ok t \<Longrightarrow> wallets_ok (t\<lparr>tb_wallets := ws\<rparr>) \<Longrightarrow> account_ok (t\<lparr>tb_wallets := ws\<rparr>)"
  by (simp add: account_ok_def accounts_ok_def venues_ok_def bindings_ok_def owned_by_def sessions_ok_def session_venues_ok_def frozen_def
      captured_def bound_venues_def mounts_ok_def)

lemma upsert_wallet_ok:
  assumes ok: "account_ok t" and up: "upsert_wallet w t = (Inr x, t')" shows "account_ok t'"
proof -
  let ?ws = "if wr_venue_id w \<in> wr_venue_id ` set (tb_wallets t) then map (\<lambda>o'. if wr_venue_id o' = wr_venue_id w then w else o') (tb_wallets t)
    else tb_wallets t @ [w]"
  have t': "t' = t\<lparr>tb_wallets := ?ws\<rparr>" and v: "wr_venue_id w \<in> ve_VenueID ` set (tb_venues t)"
    using up by (auto simp: upsert_wallet_def wallet_violation_def split: option.splits if_splits)
  have ids: "map wr_venue_id (map (\<lambda>o'. if wr_venue_id o' = wr_venue_id w then w else o') (tb_wallets t)) = map wr_venue_id (tb_wallets t)"
    by (induction "tb_wallets t") auto
  have "distinct (map wr_venue_id ?ws) \<and> wr_venue_id ` set ?ws \<subseteq> ve_VenueID ` set (tb_venues t)"
    using ok v ids by (auto simp: account_ok_def wallets_ok_def simp del: map_map split: if_splits)
  then show ?thesis unfolding t' by (intro wallets_only_ok [OF ok]) (simp add: wallets_ok_def)
qed

lemma UpsertVenueWalletState_ok: "triple account_ok (UpsertVenueWalletState now v info) (\<lambda>_. account_ok) account_ok"
proof (cases "marshal_error (oai_Futures info) (oai_Spot info)")
  case None
  have "triple account_ok (exec_sql (upsert_wallet (wallet_row_of now v info))) (\<lambda>_. account_ok) account_ok"
  proof (rule triple_exec_ok)
    show "t' = t" if "upsert_wallet (wallet_row_of now v info) t = (Inl e, t')" for t e t'
      using that by (auto simp: upsert_wallet_def split: option.splits)
  qed (rule upsert_wallet_ok)
  then show ?thesis using None by (simp add: UpsertVenueWalletState_def)
qed (auto simp: UpsertVenueWalletState_def intro: triple_return)

lemma keeps_view_ok: "keeps integrity_view m \<Longrightarrow> triple account_ok m (\<lambda>_. account_ok) account_ok"
  by (rule triple_frame [OF _ integrity_view_ok])

lemma UpdateAccountState_view: "keeps integrity_view (UpdateAccountState now info)"
  unfolding UpdateAccountState_def
  by (auto split: option.split intro!: keeps_rules keeps_exec simp: integrity_view_def account_key_def)

lemma query_row_view: "keeps integrity_view (query_row rows)"
  unfolding query_row_def by (intro keeps_rules)

lemma SaveSnapshot_view: "keeps integrity_view (SaveSnapshot now a reason sid sess tm)"
  unfolding SaveSnapshot_def GetAccountState_def not_found_if_none_def
  by (auto split: option.split intro!: keeps_rules keeps_exec query_row_view simp: integrity_view_def insert_snapshot_def Let_def)

lemma CreateStrategy_view: "keeps integrity_view (CreateStrategy now s)"
  unfolding CreateStrategy_def by (rule keeps_exec) (simp add: insert_strategy_def Let_def integrity_view_def)

lemma ArchiveStrategy_view: "keeps integrity_view (ArchiveStrategy sid)"
  unfolding ArchiveStrategy_def not_found_if_none_def by (intro keeps_rules keeps_exec) (simp add: integrity_view_def)

lemma CreateUser_view: "keeps integrity_view (CreateUser u)"
  unfolding CreateUser_def by (rule keeps_exec) (simp add: insert_user_def Let_def integrity_view_def)

lemmas write_ok = CreateAccount_ok CreateVenue_ok BindVenue_ok ReleaseVenue_ok ArchiveVenue_ok SaveSession_ok UpdateSession_ok
  MarkRuntimeSessionsRecoverable_ok MountStrategy_ok UnmountStrategy_ok ActivateStrategy_ok DeactivateStrategy_ok UpsertVenueWalletState_ok
  keeps_view_ok [OF UpdateAccountState_view] keeps_view_ok [OF SaveSnapshot_view] keeps_view_ok [OF CreateStrategy_view]
  keeps_view_ok [OF ArchiveStrategy_view] keeps_view_ok [OF CreateUser_view]

end
