(* ===== verification/Account_Calls.thy ===== *)
theory Account_Calls
  imports Wallet_Service Account_Invariant
begin

text \<open>
  What the handlers of the account service do to the tables, from what the repository's writes do to them.  The locale
  \<open>account_writes\<close> takes a reflexive and transitive relation that every write but CreateVenue respects, and
  shows that the handlers made of these writes respect it, wherever a statement fails.  Creating an account or a venue is a
  contract of its own: \<open>account_frame\<close> has it from the write alone, and \<open>account_relation\<close>
  asks for it of the two handlers, which establish the conditions under which the write is allowed.
\<close>

subsection \<open>Reads and writes respect a relation\<close>

locale account_writes = sql_relation R for R :: "account_tables \<Rightarrow> account_tables \<Rightarrow> bool" +
  assumes CreateUser_moves: "moves (CreateUser u)"
    and CreateAccount_moves: "moves (CreateAccount now a)"
    and BindVenue_moves: "moves (BindVenue now user acc v reason)"
    and ReleaseVenue_moves: "moves (ReleaseVenue now user v reason)"
    and ArchiveVenue_moves: "moves (ArchiveVenue now user v reason)"
    and SaveSession_moves: "moves (SaveSession now s)"
    and UpdateSession_moves: "moves (UpdateSession now sid st bars err rid)"
    and MarkRuntimeSessionsRecoverable_moves: "moves (MarkRuntimeSessionsRecoverable now rid err)"
    and CreateStrategy_moves: "moves (CreateStrategy now st')"
    and ArchiveStrategy_moves: "moves (ArchiveStrategy strat)"
    and MountStrategy_moves: "moves (MountStrategy now acc strat)"
    and UnmountStrategy_moves: "moves (UnmountStrategy acc strat)"
    and ActivateStrategy_moves: "moves (ActivateStrategy acc strat)"
    and DeactivateStrategy_moves: "moves (DeactivateStrategy acc strat)"
    and UpdateAccountState_moves: "moves (UpdateAccountState now info)"
    and UpsertVenueWalletState_moves: "moves (UpsertVenueWalletState now w info)"
    and SaveSnapshot_moves: "moves (SaveSnapshot now acc reason' strat sess tm)"
begin

lemmas write_moves = CreateUser_moves CreateAccount_moves BindVenue_moves ReleaseVenue_moves ArchiveVenue_moves SaveSession_moves
  UpdateSession_moves MarkRuntimeSessionsRecoverable_moves CreateStrategy_moves ArchiveStrategy_moves MountStrategy_moves
  UnmountStrategy_moves ActivateStrategy_moves DeactivateStrategy_moves UpdateAccountState_moves UpsertVenueWalletState_moves
  SaveSnapshot_moves

lemma query_row_moves: "moves (query_row rows)"
  unfolding query_row_def by (intro moves_rules)

lemma pageOf_moves: "moves (pageOf rows l o')"
  unfolding pageOf_def by (intro moves_rules)

lemma guarded_moves: "moves m \<Longrightarrow> moves (guarded e m)"
  by (cases e) (simp_all add: guarded_def return_moves)

lemma for_user_moves: "moves m \<Longrightarrow> moves (for_user u m)"
  unfolding for_user_def by (rule guarded_moves)

lemma invalid_moves: "moves m \<Longrightarrow> moves (invalid b msg m)"
  by (simp add: invalid_def return_moves)

lemma try_moves: "(\<And>x. moves (f x)) \<Longrightarrow> moves (try_sql r f)"
  unfolding try_sql_def by (intro moves_rules)

lemma collect_moves: "(\<And>x. moves (f x)) \<Longrightarrow> moves (collect_sql f xs)"
  by (induction xs) (simp_all add: return_moves then_moves)

lemma case_sum_moves: "(\<And>e. moves (f e)) \<Longrightarrow> (\<And>x. moves (g x)) \<Longrightarrow> moves (case r of Inl e \<Rightarrow> f e | Inr x \<Rightarrow> g x)"
  by (cases r) simp_all

lemma case_option_moves: "moves m \<Longrightarrow> (\<And>x. moves (g x)) \<Longrightarrow> moves (case r of None \<Rightarrow> m | Some x \<Rightarrow> g x)"
  by (cases r) simp_all

lemma case_prod_moves: "(\<And>a b. moves (f a b)) \<Longrightarrow> moves (case p of (a, b) \<Rightarrow> f a b)"
  by (cases p) simp

lemma let_moves: "(\<And>x. moves (f x)) \<Longrightarrow> moves (Let x f)"
  by (simp add: Let_def)

lemmas code_moves = moves_rules guarded_moves for_user_moves invalid_moves try_moves collect_moves case_sum_moves case_option_moves
  case_prod_moves let_moves query_row_moves pageOf_moves write_moves

lemma read_moves:
  "moves (GetUserByUsername name)" "moves (GetUser u)" "moves (GetAccount acc u)" "moves (ListAccounts u)" "moves (ListAccountsPage u l k)"
  "moves (GetVenue v u)" "moves (ListVenues u acc b b' l k)" "moves (CountActiveSessionsForAccount u acc)"
  "moves (ListActiveAccountVenues u acc)" "moves (ResolveVenueRouteMeta acc ex mk)" "moves (GetSession sid u)"
  "moves (ListSessionsPage filt)" "moves (ListRunningSessions rid)" "moves (GetStrategy strat u)" "moves (ListStrategies u prefix act)"
  "moves (ListStrategiesPage u prefix act l k)" "moves (ListAccountStrategies acc)" "moves (GetActiveStrategy acc)"
  "moves (GetVenueWalletState v u)" "moves (ListSessionSnapshots sid u l k)"
  unfolding GetUserByUsername_def GetUser_def GetAccount_def ListAccounts_def ListAccountsPage_def GetVenue_def ListVenues_def
    CountActiveSessionsForAccount_def ListActiveAccountVenues_def ResolveVenueRouteMeta_def GetSession_def ListSessionsPage_def
    ListRunningSessions_def GetStrategy_def ListStrategies_def ListStrategiesPage_def ListAccountStrategies_def GetActiveStrategy_def
    GetVenueWalletState_def ListSessionSnapshots_def
  by (intro code_moves)+

subsection \<open>The handlers\<close>

lemmas handler_moves = code_moves read_moves

lemma wallet_state_moves:
  "moves (upsertBacktestVenueWalletState env account venue info)" "moves (ensureBacktestVenueWalletState env account venue)"
  "moves (attachBacktestVenueWalletState env account venue)"
  unfolding upsertBacktestVenueWalletState_def ensureBacktestVenueWalletState_def attachBacktestVenueWalletState_def
  by (intro handler_moves)+

lemma requireIdle_moves: "moves (requireIdle u acc)"
  unfolding requireIdle_def by (intro handler_moves)

lemma account_of_venue_moves: "moves (account_of_venue u acc)"
  unfolding account_of_venue_def by (intro handler_moves)

lemma ensureVenueCanAttachAccount_moves: "moves (ensureVenueCanAttachAccount u acc en)"
  unfolding ensureVenueCanAttachAccount_def by (intro handler_moves requireIdle_moves)

lemma requireActiveSessionForAccount_moves: "moves (requireActiveSessionForAccount sid acc strat u)"
  unfolding requireActiveSessionForAccount_def by (intro handler_moves)

lemmas helper_moves = handler_moves wallet_state_moves requireIdle_moves account_of_venue_moves requireActiveSessionForAccount_moves

lemma user_calls:
  "moves (CreateUserRPC env name pw)" "moves (VerifyUserPasswordRPC env name pw)" "moves (GetUserRPC u)"
  unfolding CreateUserRPC_def VerifyUserPasswordRPC_def GetUserRPC_def by (intro helper_moves)+

lemma account_reads:
  "moves (ListAccountsRPC u l k)" "moves (GetAccountRPC u acc)" "moves (ListVenuesRPC u acc b b' l k)" "moves (GetVenueRPC u v)"
  "moves (GetVenueRouteMetaRPC env acc ex mk)" "moves (GetAccountMetaRPC acc)"
  unfolding ListAccountsRPC_def GetAccountRPC_def ListVenuesRPC_def GetVenueRPC_def GetVenueRouteMetaRPC_def GetAccountMetaRPC_def
  by (intro helper_moves)+

lemma venue_calls:
  "moves (BindVenueRPC env u acc v reason)" "moves (ReleaseVenueRPC env u v reason)" "moves (ArchiveVenueRPC env u v reason)"
  "moves (GetVenueOnlineInfoRPC env u v)" "moves (checkCreateVenue env req)"
  unfolding BindVenueRPC_def ReleaseVenueRPC_def ArchiveVenueRPC_def GetVenueOnlineInfoRPC_def idleVenue_def backtestVenueWallet_def
    checkCreateVenue_def
  by (intro helper_moves ensureVenueCanAttachAccount_moves)+

lemma strategy_calls:
  "moves (CreateStrategyRPC env cs)" "moves (ListStrategiesRPC u prefix act l k)" "moves (GetStrategyRPC u strat)"
  "moves (ArchiveStrategyRPC u strat)" "moves (MountStrategyRPC env u acc strat)" "moves (UnmountStrategyRPC u acc strat)"
  "moves (ActivateStrategyRPC u acc strat)" "moves (DeactivateStrategyRPC u acc strat)" "moves (ListAccountStrategiesRPC u acc)"
  "moves (GetActiveStrategyRPC acc)"
  unfolding CreateStrategyRPC_def ListStrategiesRPC_def GetStrategyRPC_def ArchiveStrategyRPC_def MountStrategyRPC_def UnmountStrategyRPC_def
    ActivateStrategyRPC_def DeactivateStrategyRPC_def ListAccountStrategiesRPC_def GetActiveStrategyRPC_def with_mount_def
  by (intro helper_moves)+

lemma checkRoute_moves: "moves (checkRoute acc en route)"
  unfolding checkRoute_def Let_def by (intro helper_moves)

lemma checkSymbol_moves: "moves (checkSymbol env en required)"
  unfolding checkSymbol_def Let_def by (intro helper_moves)

lemma savePreflight_moves: "moves (savePreflightFailedSession env req account issues)"
  unfolding savePreflightFailedSession_def by (intro helper_moves)

lemma session_calls:
  "moves (PreflightStrategySessionRPC env pre)" "moves (SaveSessionRPC env save)" "moves (UpdateSessionRPC env sid st bars err rid)"
  "moves (GetSessionRPC u sid)" "moves (ListSessionsRPC filt)" "moves (ListRunningSessionsRPC rid)"
  "moves (MarkRuntimeSessionsRecoverableRPC env rid err)" "moves (ListSessionSnapshotsRPC u sid l k)"
  unfolding PreflightStrategySessionRPC_def SaveSessionRPC_def UpdateSessionRPC_def GetSessionRPC_def ListSessionsRPC_def
    ListRunningSessionsRPC_def MarkRuntimeSessionsRecoverableRPC_def ListSessionSnapshotsRPC_def
  by (intro helper_moves checkRoute_moves checkSymbol_moves savePreflight_moves)+

lemma readPortfolioSnapshot_moves: "moves (readPortfolioSnapshot env account)"
  unfolding readPortfolioSnapshot_def readBacktestVenue_def by (intro helper_moves)

lemma update_moves:
  "moves (updatedAccount req)" "moves (saveUpdateSnapshot env req)" "moves (storeAccountInfo env info)"
  "moves (localVenueWalletSnapshotsFromWalletStateRequest env req account tm)"
  "moves (updateBacktestVenueWalletStates env account info b b')" "moves (updateVenueWalletStatesFromSnapshots env account snaps)"
  unfolding updatedAccount_def saveUpdateSnapshot_def storeAccountInfo_def localVenueWalletSnapshotsFromWalletStateRequest_def
    updateBacktestVenueWalletStates_def updateVenueWalletStatesFromSnapshots_def
  by (intro helper_moves)+

lemma wallet_calls:
  "moves (GetPortfolioSnapshotRPC env u acc)" "moves (UpdatePortfolioSnapshotRPC env req)" "moves (UpdateAccountWalletStateRPC env req)"
  unfolding GetPortfolioSnapshotRPC_def UpdatePortfolioSnapshotRPC_def UpdateAccountWalletStateRPC_def
  by (intro helper_moves readPortfolioSnapshot_moves update_moves)+

end

subsection \<open>Creating accounts and venues\<close>

text \<open>
  The calls of the service on users, accounts, venues, strategies, sessions and wallets, the parameters of the request with each.  The
  calls on notifications, reconciliation runs and symbols use other tables; \<open>Service_Errors\<close> has all of them.
\<close>

datatype AccountRequest =
  Call_CreateUser string string | Call_VerifyUserPassword string string | Call_GetUser int
  | Call_CreateAccount CreateAccountRequest | Call_ListAccounts int int int | Call_GetAccount int int
  | Call_CreateVenue CreateVenueRequest | Call_ListVenues int int bool bool int int | Call_GetVenue int int | Call_GetVenueOnlineInfo int int
  | Call_BindVenue int int int string | Call_ReleaseVenue int int string | Call_ArchiveVenue int int string | Call_GetVenueRouteMeta int int int
  | Call_CreateStrategy CreateStrategyRequest | Call_ListStrategies int string bool int int | Call_GetStrategy int int
  | Call_ArchiveStrategy int int | Call_MountStrategy int int int | Call_UnmountStrategy int int int | Call_ActivateStrategy int int int
  | Call_DeactivateStrategy int int int | Call_ListAccountStrategies int int | Call_GetActiveStrategy int
  | Call_PreflightStrategySession PreflightRequest | Call_SaveSession SaveSessionRequest | Call_UpdateSession string string int string string
  | Call_GetSession int string | Call_ListSessions SessionListFilter | Call_ListRunningSessions string
  | Call_MarkRuntimeSessionsRecoverable string string | Call_ListSessionSnapshots int string int int
  | Call_GetPortfolioSnapshot int int | Call_UpdatePortfolioSnapshot WalletUpdate | Call_UpdateAccountWalletState WalletUpdate
  | Call_GetAccountMeta int

definition answered :: "'a adb \<Rightarrow> unit adb" where
  "answered m = then_sql m (\<lambda>_. ok_sql ())"

primrec account_call :: "AccountEnv \<Rightarrow> AccountRequest \<Rightarrow> unit adb" where
  "account_call env (Call_CreateUser name pw) = answered (CreateUserRPC env name pw)"
| "account_call env (Call_VerifyUserPassword name pw) = answered (VerifyUserPasswordRPC env name pw)"
| "account_call env (Call_GetUser u) = answered (GetUserRPC u)"
| "account_call env (Call_CreateAccount req) = answered (CreateAccountRPC env req)"
| "account_call env (Call_ListAccounts u l k) = answered (ListAccountsRPC u l k)"
| "account_call env (Call_GetAccount u acc) = answered (GetAccountRPC u acc)"
| "account_call env (Call_CreateVenue req) = answered (CreateVenueRPC env req)"
| "account_call env (Call_ListVenues u acc b b' l k) = answered (ListVenuesRPC u acc b b' l k)"
| "account_call env (Call_GetVenue u v) = answered (GetVenueRPC u v)"
| "account_call env (Call_GetVenueOnlineInfo u v) = answered (GetVenueOnlineInfoRPC env u v)"
| "account_call env (Call_BindVenue u acc v reason) = answered (BindVenueRPC env u acc v reason)"
| "account_call env (Call_ReleaseVenue u v reason) = answered (ReleaseVenueRPC env u v reason)"
| "account_call env (Call_ArchiveVenue u v reason) = answered (ArchiveVenueRPC env u v reason)"
| "account_call env (Call_GetVenueRouteMeta acc ex mk) = answered (GetVenueRouteMetaRPC env acc ex mk)"
| "account_call env (Call_CreateStrategy req) = answered (CreateStrategyRPC env req)"
| "account_call env (Call_ListStrategies u prefix act l k) = answered (ListStrategiesRPC u prefix act l k)"
| "account_call env (Call_GetStrategy u s) = answered (GetStrategyRPC u s)"
| "account_call env (Call_ArchiveStrategy u s) = answered (ArchiveStrategyRPC u s)"
| "account_call env (Call_MountStrategy u acc s) = answered (MountStrategyRPC env u acc s)"
| "account_call env (Call_UnmountStrategy u acc s) = answered (UnmountStrategyRPC u acc s)"
| "account_call env (Call_ActivateStrategy u acc s) = answered (ActivateStrategyRPC u acc s)"
| "account_call env (Call_DeactivateStrategy u acc s) = answered (DeactivateStrategyRPC u acc s)"
| "account_call env (Call_ListAccountStrategies u acc) = answered (ListAccountStrategiesRPC u acc)"
| "account_call env (Call_GetActiveStrategy acc) = answered (GetActiveStrategyRPC acc)"
| "account_call env (Call_PreflightStrategySession req) = answered (PreflightStrategySessionRPC env req)"
| "account_call env (Call_SaveSession req) = answered (SaveSessionRPC env req)"
| "account_call env (Call_UpdateSession sid st bars err rid) = answered (UpdateSessionRPC env sid st bars err rid)"
| "account_call env (Call_GetSession u sid) = answered (GetSessionRPC u sid)"
| "account_call env (Call_ListSessions filt) = answered (ListSessionsRPC filt)"
| "account_call env (Call_ListRunningSessions rid) = answered (ListRunningSessionsRPC rid)"
| "account_call env (Call_MarkRuntimeSessionsRecoverable rid err) = answered (MarkRuntimeSessionsRecoverableRPC env rid err)"
| "account_call env (Call_ListSessionSnapshots u sid l k) = answered (ListSessionSnapshotsRPC u sid l k)"
| "account_call env (Call_GetPortfolioSnapshot u acc) = answered (GetPortfolioSnapshotRPC env u acc)"
| "account_call env (Call_UpdatePortfolioSnapshot req) = answered (UpdatePortfolioSnapshotRPC env req)"
| "account_call env (Call_UpdateAccountWalletState req) = answered (UpdateAccountWalletStateRPC env req)"
| "account_call env (Call_GetAccountMeta acc) = answered (GetAccountMetaRPC acc)"

locale account_relation = account_writes +
  assumes CreateAccountRPC_moves: "moves (CreateAccountRPC env ca)"
    and CreateVenueRPC_moves: "moves (CreateVenueRPC env cv)"
begin

lemma answered_moves: "moves m \<Longrightarrow> moves (answered m)"
  unfolding answered_def by (intro moves_rules)

lemma account_call_moves: "moves (account_call env req)"
  by (cases req) (simp_all add: answered_moves user_calls account_reads venue_calls strategy_calls session_calls wallet_calls
      CreateAccountRPC_moves CreateVenueRPC_moves)

end

text \<open>A relation that the bare write of a venue respects.\<close>

locale account_frame = account_writes +
  assumes CreateVenue_moves: "moves (CreateVenue now w)"
begin

lemma venue_handlers:
  "moves (CreateAccountRPC env ca)" "moves (CreateVenueRPC env cv)"
  unfolding CreateAccountRPC_def CreateVenueRPC_def storeNewVenue_def createDefaultBacktestVenues_def
  by (intro helper_moves venue_calls CreateVenue_moves)+

end

sublocale account_frame \<subseteq> account_relation
  by unfold_locales (rule venue_handlers)+

end
