(* ===== verification/Account_History.thy ===== *)
theory Account_History
  imports Account_Calls
begin

text \<open>
  The histories of the account tables: any calls of the account service, one after the other, with any environment, any
  request and any placement of faults.  Two relations are carried through every call.  The integrity of the tables
  (\<open>account_ok\<close>), which needs the checks CreateVenue and CreateAccount make before they write; and what
  is never taken back: a session that has ended does not start again, the venues captured for a session do not change, and an
  account keeps its owner, its name and its environment.
\<close>

subsection \<open>What is never taken back\<close>

text \<open>A later state of a session row: only the progress, the error and the end may differ, and an ended session stays ended.\<close>

definition session_terms :: "session_row \<Rightarrow> session_row" where
  "session_terms r = r\<lparr>sr_status := 0, sr_bars_processed := 0, sr_error := [], sr_completed_at := None\<rparr>"

definition later_session :: "session_row \<Rightarrow> session_row \<Rightarrow> bool" where
  "later_session r r' = (session_terms r' = session_terms r \<and> (is_active_code (sr_status r') \<longrightarrow> is_active_code (sr_status r)))"

lemma later_session_refl: "later_session r r"
  by (simp add: later_session_def)

lemma later_session_trans: "later_session r s \<Longrightarrow> later_session s u \<Longrightarrow> later_session r u"
  by (simp add: later_session_def)

lemma session_terms_fields:
  "sr_session_id (session_terms r) = sr_session_id r" "sr_account_id (session_terms r) = sr_account_id r"
  "sr_user_id (session_terms r) = sr_user_id r" "sr_environment (session_terms r) = sr_environment r"
  by (simp_all add: session_terms_def)

lemma later_session_id: "later_session r s \<Longrightarrow> sr_session_id s = sr_session_id r"
  unfolding later_session_def by (metis session_terms_fields(1))

definition session_ids :: "account_tables \<Rightarrow> string set" where
  "session_ids t = sr_session_id ` set (tb_sessions t)"

definition kept :: "account_tables \<Rightarrow> account_tables \<Rightarrow> bool" where
  "kept s t = ((\<forall>r\<in>set (tb_sessions s). \<exists>r'\<in>set (tb_sessions t). later_session r r')
     \<and> (\<forall>x. sv_SessionID x \<in> session_ids s \<longrightarrow> (x \<in> set (tb_session_venues t) \<longleftrightarrow> x \<in> set (tb_session_venues s)))
     \<and> (\<forall>r\<in>set (tb_accounts s). \<exists>r'\<in>set (tb_accounts t). account_key r' = account_key r))"

lemma kept_ids: "kept s t \<Longrightarrow> session_ids s \<subseteq> session_ids t"
  unfolding kept_def session_ids_def by (metis image_eqI image_subsetI later_session_id)

lemma kept_trans: assumes "kept s t" "kept t u" shows "kept s u"
proof -
  have "\<exists>r'\<in>set (tb_sessions u). later_session r r'" if "r \<in> set (tb_sessions s)" for r
    using assms that later_session_trans unfolding kept_def by meson
  moreover have "x \<in> set (tb_session_venues u) \<longleftrightarrow> x \<in> set (tb_session_venues s)" if "sv_SessionID x \<in> session_ids s" for x
    using assms kept_ids [OF assms(1)] that unfolding kept_def by blast
  moreover have "\<exists>r'\<in>set (tb_accounts u). account_key r' = account_key r" if "r \<in> set (tb_accounts s)" for r
    using assms that unfolding kept_def by metis
  ultimately show ?thesis unfolding kept_def by blast
qed

lemma kept_refl: "kept t t"
  unfolding kept_def using later_session_refl by blast

text \<open>Tables whose sessions and accounts did not change.\<close>

lemma kept_same:
  "tb_sessions t = tb_sessions s \<Longrightarrow> tb_session_venues t = tb_session_venues s \<Longrightarrow> map account_key (tb_accounts t) = map account_key (tb_accounts s)
     \<Longrightarrow> kept s t"
  unfolding kept_def by (auto intro: later_session_refl dest: account_keys)

interpretation kept: sql_relation kept
  by unfold_locales (auto intro: kept_refl kept_trans)

text \<open>Capturing the venues of a session touches no other session.\<close>

definition other_rows :: "string \<Rightarrow> account_tables \<Rightarrow> account_tables \<Rightarrow> bool" where
  "other_rows sid s t = (tb_sessions t = tb_sessions s \<and> tb_accounts t = tb_accounts s
     \<and> (\<forall>x. sv_SessionID x \<noteq> sid \<longrightarrow> (x \<in> set (tb_session_venues t) \<longleftrightarrow> x \<in> set (tb_session_venues s))))"

interpretation other_rows: sql_relation "other_rows sid" for sid
  by unfold_locales (auto simp: other_rows_def)

lemma upsert_other_rows: "other_rows sid t (snd (upsert_session_venue (session_venue_of now sid a v) t))"
proof -
  let ?n = "session_venue_of now sid a v"
  let ?g = "\<lambda>o'. o'\<lparr>sv_DisplayName := sv_DisplayName ?n, sv_APIKey := sv_APIKey ?n, sv_CredentialFingerprint := sv_CredentialFingerprint ?n,
    sv_MarginMode := sv_MarginMode ?n, sv_PositionMode := sv_PositionMode ?n, sv_VenueStatus := sv_VenueStatus ?n, sv_CapturedAt := sv_CapturedAt ?n\<rparr>"
  have "x \<in> (\<lambda>o'. if same_session_venue o' ?n then ?g o' else o') ` S \<longleftrightarrow> x \<in> S" if x: "sv_SessionID x \<noteq> sid" for x S
  proof
    assume "x \<in> (\<lambda>o'. if same_session_venue o' ?n then ?g o' else o') ` S"
    then obtain y where y: "y \<in> S" "x = (if same_session_venue y ?n then ?g y else y)" by blast
    have "\<not> same_session_venue y ?n" using y(2) x by (auto simp: same_session_venue_def)
    then show "x \<in> S" using y by simp
  next
    assume "x \<in> S"
    moreover have "\<not> same_session_venue x ?n" using x by (simp add: same_session_venue_def)
    ultimately show "x \<in> (\<lambda>o'. if same_session_venue o' ?n then ?g o' else o') ` S" by (intro image_eqI [of _ _ x]) simp_all
  qed
  then show ?thesis unfolding upsert_session_venue_def other_rows_def by auto
qed

lemma saveSessionVenues_other_rows: "other_rows.moves sid (saveSessionVenuesTx now sid vs)"
  unfolding saveSessionVenuesTx_def Let_def by (intro other_rows.moves_rules other_rows.exec_moves upsert_other_rows)

lemma saveSessionTx_kept:
  assumes "saveSessionTx now s c = (Inr x, c')" shows "kept (cn_tables c) (cn_tables c')"
proof -
  from assms obtain n and c1 :: "account_tables conn" and vs and c2 :: "account_tables conn" where
    ins: "insert_session now s (cn_tables c) = (Inr n, cn_tables c1)" and "n \<noteq> 0" and c2: "cn_tables c2 = cn_tables c1"
    and sav: "saveSessionVenuesTx now (ss_SessionID s) vs c2 = (Inr x, c')"
    unfolding saveSessionTx_def by (auto simp: then_sql_Inr listActiveAccountVenuesTx_def split: if_splits dest!: exec_sql_Inr query_sql_Inr)
  from insert_session_row [OF ins \<open>n \<noteq> 0\<close>] obtain a where
      uni: "session_unique (session_row_of now s a) (tb_sessions (cn_tables c)) = None"
    and c1: "cn_tables c1 = (cn_tables c)\<lparr>tb_sessions := tb_sessions (cn_tables c) @ [session_row_of now s a]\<rparr>"
    by metis
  have fresh: "ss_SessionID s \<notin> session_ids (cn_tables c)" using uni unfolding session_unique_None session_ids_def by simp
  have "other_rows (ss_SessionID s) (cn_tables c1) (cn_tables c')"
    using other_rows.movesD [OF saveSessionVenues_other_rows sav] c2 by simp
  then have rows: "tb_sessions (cn_tables c') = tb_sessions (cn_tables c) @ [session_row_of now s a]" "tb_accounts (cn_tables c') = tb_accounts (cn_tables c)"
    and sv: "\<And>x. sv_SessionID x \<noteq> ss_SessionID s \<Longrightarrow> x \<in> set (tb_session_venues (cn_tables c')) \<longleftrightarrow> x \<in> set (tb_session_venues (cn_tables c))"
    by (simp_all add: other_rows_def c1)
  have "x \<in> set (tb_session_venues (cn_tables c')) \<longleftrightarrow> x \<in> set (tb_session_venues (cn_tables c))" if "sv_SessionID x \<in> session_ids (cn_tables c)" for x
    by (rule sv) (use that fresh in metis)
  then show ?thesis using later_session_refl unfolding kept_def rows by auto
qed

context sql_relation begin

lemma tx_body_moves:
  assumes "\<And>c x c'. body c = (Inr x, c') \<Longrightarrow> R (cn_tables c) (cn_tables c')" shows "moves (tx_sql body)"
  unfolding moves_def
proof
  fix c show "R (cn_tables c) (cn_tables (snd (tx_sql body c)))"
    using tx_sql_atomic [of body c] assms refl by metis
qed

end

lemma update_sessions_kept:
  assumes "\<And>r. P r \<Longrightarrow> later_session r (f r)" shows "kept t (snd (update_sessions P f t))"
proof -
  have "\<exists>r'\<in>set (tb_sessions (snd (update_sessions P f t))). later_session r r'" if "r \<in> set (tb_sessions t)" for r
  proof (rule bexI [of _ "if P r then f r else r"])
    show "later_session r (if P r then f r else r)" using assms later_session_refl by simp
    show "(if P r then f r else r) \<in> set (tb_sessions (snd (update_sessions P f t)))"
      unfolding update_sessions_def using that by (simp add: image_eqI [of _ _ r])
  qed
  then show ?thesis unfolding kept_def by (auto simp: update_sessions_def)
qed

text \<open>Writes that touch neither sessions nor the identity of accounts.\<close>

definition session_view :: "account_tables \<Rightarrow> session_row list \<times> SessionVenue list \<times> (int \<times> int \<times> string \<times> int \<times> int) list" where
  "session_view t = (tb_sessions t, tb_session_venues t, map account_key (tb_accounts t))"

lemma view_kept: "keeps session_view m \<Longrightarrow> kept.moves m"
proof -
  assume m: "keeps session_view m"
  have "kept (cn_tables c) (cn_tables (snd (m c)))" for c
    by (rule kept_same) (use keepsD [OF m, of c] in \<open>simp_all add: session_view_def\<close>)
  then show ?thesis by (simp add: kept.moves_def)
qed

lemma of_integrity_view: "keeps integrity_view m \<Longrightarrow> keeps session_view m"
  unfolding keeps_def view.moves_def same_view_def integrity_view_def session_view_def by simp

lemmas view_rules = keeps_rules keeps_exec query_row_view [THEN of_integrity_view]

lemma set_wallet_account_view: "keeps session_view (set_wallet_account a v)"
  unfolding set_wallet_account_def by (rule keeps_exec) (simp add: session_view_def)

lemma insertVenueEvent_view: "keeps session_view (insertVenueEvent now v a u ty reason)"
  unfolding insertVenueEvent_def by (rule keeps_exec) (simp add: session_view_def)

lemma update_venue_view: "session_view (snd (update_venue v u f t)) = session_view t"
  by (simp add: update_venue_def session_view_def split: list.split option.split)

lemma archive_row_view: "session_view (snd (archive_row now v u reason t)) = session_view t"
  using update_venue_view unfolding archive_row_def by (auto split: prod.split sum.split) (metis snd_conv)+

lemma case_option_view: "keeps w m \<Longrightarrow> (\<And>x. keeps w (g x)) \<Longrightarrow> keeps w (case r of None \<Rightarrow> m | Some x \<Rightarrow> g x)"
  by (cases r) simp_all

lemma venue_writes_view:
  "keeps session_view (BindVenue now u a v reason)" "keeps session_view (ReleaseVenue now u v reason)" "keeps session_view (ArchiveVenue now u v reason)"
  unfolding BindVenue_def bindVenueTx_def ReleaseVenue_def releaseVenueTx_def ArchiveVenue_def archiveVenueTx_def lockAccountEnvironment_def
    selectVenueForUpdate_def ensureNoActiveAccountSessions_def CountActiveSessionsForAccount_def
  by (intro view_rules case_option_view set_wallet_account_view insertVenueEvent_view update_venue_view archive_row_view;
      simp add: session_view_def)+

lemma CreateVenue_view: "keeps session_view (CreateVenue now v)"
  unfolding CreateVenue_def Let_def
  by (intro view_rules case_option_view) (simp add: insert_venue_def Let_def session_view_def split: option.split)

lemma mount_writes_view:
  "keeps session_view (MountStrategy now a s)" "keeps session_view (UnmountStrategy a s)" "keeps session_view (ActivateStrategy a s)"
  "keeps session_view (DeactivateStrategy a s)"
  unfolding MountStrategy_def UnmountStrategy_def ActivateStrategy_def DeactivateStrategy_def not_found_if_none_def set_active_def
  by (intro view_rules; simp add: session_view_def insert_mount_def)+

lemma UpsertVenueWalletState_view: "keeps session_view (UpsertVenueWalletState now v info)"
  unfolding UpsertVenueWalletState_def
  by (intro view_rules case_option_view) (simp add: upsert_wallet_def session_view_def split: option.split)

lemma CreateAccount_kept: "kept.moves (CreateAccount now a)"
  unfolding CreateAccount_def
  by (intro kept.moves_rules kept.exec_moves) (auto simp: insert_account_def Let_def kept_def intro: later_session_refl)

lemma session_writes_kept:
  "kept.moves (SaveSession now s)" "kept.moves (UpdateSession now sid st bars err rid)" "kept.moves (MarkRuntimeSessionsRecoverable now rid err)"
proof -
  show "kept.moves (SaveSession now s)" unfolding SaveSession_def by (rule kept.tx_body_moves) (rule saveSessionTx_kept)
  show "kept.moves (UpdateSession now sid st bars err rid)" unfolding UpdateSession_def Let_def
    by (intro kept.moves_rules kept.exec_moves update_sessions_kept) (auto simp: later_session_def session_terms_def)
  show "kept.moves (MarkRuntimeSessionsRecoverable now rid err)" unfolding MarkRuntimeSessionsRecoverable_def Let_def
    by (intro kept.moves_rules kept.exec_moves update_sessions_kept) (auto simp: later_session_def session_terms_def is_active_code_def)
qed

interpretation kept: account_frame kept
  by unfold_locales
    (rule session_writes_kept CreateAccount_kept
      view_kept [OF venue_writes_view(1)] view_kept [OF venue_writes_view(2)] view_kept [OF venue_writes_view(3)] view_kept [OF CreateVenue_view]
      view_kept [OF mount_writes_view(1)] view_kept [OF mount_writes_view(2)] view_kept [OF mount_writes_view(3)] view_kept [OF mount_writes_view(4)]
      view_kept [OF UpsertVenueWalletState_view] view_kept [OF of_integrity_view [OF CreateUser_view]] view_kept [OF of_integrity_view [OF CreateStrategy_view]]
      view_kept [OF of_integrity_view [OF ArchiveStrategy_view]] view_kept [OF of_integrity_view [OF UpdateAccountState_view]]
      view_kept [OF of_integrity_view [OF SaveSnapshot_view]])+


subsection \<open>The checks before a venue or an account is written\<close>

interpretation integrity: account_writes "keeps_inv account_ok"
  by unfold_locales (rule write_ok [unfolded triple_inv])+

lemma triple_query_row:
  assumes "\<And>t. P t \<Longrightarrow> E t" "\<And>t r. P t \<Longrightarrow> r \<in> set (rows t) \<Longrightarrow> Q r t" shows "triple P (query_row rows) Q E"
  unfolding query_row_def
proof (rule triple_then [where R = "\<lambda>rs t. P t \<and> rs = rows t"])
  show "triple P (query_sql rows) (\<lambda>rs t. P t \<and> rs = rows t) E" by (rule triple_query) (use assms(1) in auto)
  show "triple (\<lambda>t. P t \<and> rs = rows t) (return_sql (first_or_not_found rs)) Q E" for rs
    by (rule triple_return) (use assms in \<open>auto simp: first_or_not_found_def split: list.splits\<close>)
qed

lemma GetAccount_triple:
  "triple account_ok (GetAccount a u) (\<lambda>acc t. account_ok t \<and> (0 < u \<longrightarrow> owned_by t a u (environmentFromAccount acc))) account_ok"
  unfolding GetAccount_def
  by (rule triple_query_row)
    (auto simp: owned_by_def scanAccount_def environmentFromAccount_def account_ok_def accounts_ok_def normalizeAccountEnvironment_def domain_codes)

lemma requireIdle_triple:
  "triple (\<lambda>t. account_ok t \<and> owned_by t a u e) (requireIdle u a) (\<lambda>_ t. account_ok t \<and> owned_by t a u e \<and> idle a t) account_ok"
  unfolding requireIdle_def
proof (rule triple_then)
  show "triple (\<lambda>t. account_ok t \<and> owned_by t a u e) (map_error mapRepoErr (CountActiveSessionsForAccount u a))
      (\<lambda>n t. account_ok t \<and> owned_by t a u e \<and> n = int (length (active_sessions u a t))) account_ok"
    unfolding CountActiveSessionsForAccount_def by (intro triple_map_error triple_query) auto
  show "triple (\<lambda>t. account_ok t \<and> owned_by t a u e \<and> n = int (length (active_sessions u a t)))
      (if 0 < n then abort accountHasSessions else ok_sql ()) (\<lambda>_ t. account_ok t \<and> owned_by t a u e \<and> idle a t) account_ok" for n
    by (rule triple_if; rule triple_return) (auto intro: no_active_idle)
qed

lemma ensureVenueCanAttachAccount_triple:
  assumes u: "0 < u"
  shows "triple account_ok (ensureVenueCanAttachAccount u a e) (\<lambda>_ t. account_ok t \<and> (a \<noteq> 0 \<longrightarrow> owned_by t a u e \<and> idle a t)) account_ok"
proof (cases "a = 0")
  case True
  then show ?thesis by (auto simp: ensureVenueCanAttachAccount_def intro!: triple_return)
next
  case False
  have "triple (\<lambda>t. account_ok t \<and> owned_by t a u (environmentFromAccount acc))
      (if ac_Status acc \<noteq> 0 \<and> ac_Status acc \<noteq> AccountStatusActive then abort (Status FailedPrecondition ''account is not active'')
        else if environmentFromAccount acc \<noteq> e then abort (Status FailedPrecondition ''venue environment does not match account environment'')
        else requireIdle u a) (\<lambda>_ t. account_ok t \<and> owned_by t a u e \<and> idle a t) account_ok" for acc
    by (intro triple_if) (auto intro!: triple_return requireIdle_triple)
  then show ?thesis
    unfolding ensureVenueCanAttachAccount_def using False u
    by (auto intro!: triple_then [OF triple_map_error [OF GetAccount_triple]] elim: triple_conseq)
qed

lemma triple_guarded: "(e = None \<Longrightarrow> triple P m Q E) \<Longrightarrow> (\<And>t. P t \<Longrightarrow> E t) \<Longrightarrow> triple P (guarded e m) Q E"
  by (cases e) (auto simp: guarded_def intro: triple_return)

lemma triple_invalid: "triple P m Q E \<Longrightarrow> (\<And>t. P t \<Longrightarrow> E t) \<Longrightarrow> triple P (invalid b msg m) Q E"
  by (auto simp: invalid_def intro: triple_return)

lemma triple_try: "(\<And>x. r = Inr x \<Longrightarrow> triple P (f x) Q E) \<Longrightarrow> (\<And>t. P t \<Longrightarrow> E t) \<Longrightarrow> triple P (try_sql r f) Q E"
  by (cases r) (auto simp: try_sql_def then_sql_def return_sql_def triple_def)

text \<open>CreateVenue looks before it writes: the account of the new venue is the caller's, of the same environment, and idle.\<close>

lemma checkCreateVenue_triple: "triple account_ok (checkCreateVenue env req) (\<lambda>v t. account_ok t \<and> venue_allowed v t) account_ok"
proof -
  have allowed: "venue_allowed (requestedVenue env req e ex mk st modes cr) t"
    if "cv_AccountId req \<noteq> 0 \<longrightarrow> owned_by t (cv_AccountId req) (cv_UserId req) e \<and> idle (cv_AccountId req) t" for e ex mk st modes cr t
    using that by (auto simp: venue_allowed_def requestedVenue_def zero_Venue_def split: prod.splits)
  show ?thesis
    unfolding checkCreateVenue_def for_user_def Let_def
    by (intro triple_guarded triple_try triple_invalid triple_then [OF ensureVenueCanAttachAccount_triple] triple_return)
      (auto simp: requireUserID_def allowed split: if_splits)
qed

lemma inv_then:
  "triple P m (\<lambda>_. account_ok) account_ok \<Longrightarrow> (\<And>x. invariant.moves account_ok (f x)) \<Longrightarrow> triple P (then_sql m f) (\<lambda>_. account_ok) account_ok"
  by (rule triple_then [where R = "\<lambda>_. account_ok"]) (simp_all add: triple_inv)

lemma storeNewVenue_triple: "triple (\<lambda>t. account_ok t \<and> venue_allowed v t) (storeNewVenue env req v) (\<lambda>_. account_ok) account_ok"
  unfolding storeNewVenue_def by (rule inv_then [OF triple_map_error [OF CreateVenue_ok]]) (intro integrity.helper_moves)

lemma CreateVenueRPC_ok: "triple account_ok (CreateVenueRPC env req) (\<lambda>_. account_ok) account_ok"
  unfolding CreateVenueRPC_def by (rule triple_then [OF checkCreateVenue_triple]) (rule storeNewVenue_triple)

text \<open>The account CreateAccount has just written is idle, so its default venue may be added.\<close>

definition new_account :: "int \<Rightarrow> Account \<Rightarrow> account_tables \<Rightarrow> bool" where
  "new_account n a t = (account_ok t \<and> owned_by t n (ac_UserID a) (normalizeAccountEnvironment a) \<and> idle n t)"

lemma insert_account_new:
  assumes ok: "account_ok t" and ins: "insert_account now a t = (Inr n, t')" shows "new_account n a t'"
proof -
  have n: "n = tb_next_account t" and s: "tb_sessions t' = tb_sessions t" and owned: "owned_by t' n (ac_UserID a) (normalizeAccountEnvironment a)"
    using ins by (auto simp: insert_account_def Let_def owned_by_def split: if_splits)
  have "sr_account_id r \<noteq> n" if r: "r \<in> set (tb_sessions t)" for r
  proof -
    have "owned_by t (sr_account_id r) (sr_user_id r) (sr_environment r)" using ok r by (simp add: account_ok_def sessions_ok_def)
    then show ?thesis using ok unfolding n account_ok_def accounts_ok_def owned_by_def by force
  qed
  then have "idle n t'" by (simp add: idle_def s)
  then show ?thesis using owned insert_account_ok [OF ok ins] by (simp add: new_account_def)
qed

lemma CreateAccount_new: "triple account_ok (CreateAccount now a) (\<lambda>n. new_account n a) account_ok"
  unfolding CreateAccount_def
proof (intro triple_map_error triple_exec)
  fix t e t' assume "account_ok t" "insert_account now a t = (Inl e, t')"
  then show "account_ok t'" by (auto simp: insert_account_def Let_def split: if_splits)
next
  fix t x t' assume "account_ok t" "insert_account now a t = (Inr x, t')"
  then show "new_account x a t' \<and> account_ok t'" using insert_account_new by (simp add: new_account_def)
qed

lemma default_venue_ok:
  assumes "ve_UserID v = ac_UserID a" "ve_Environment v = normalizeAccountEnvironment a"
  shows "triple (new_account n a) (createDefaultBacktestVenues env (a\<lparr>ac_AccountID := n\<rparr>) [v]) (\<lambda>_. account_ok) account_ok"
proof -
  have "triple (new_account n a) (CreateVenue (ae_now env) (v\<lparr>ve_AccountID := Some n\<rparr>)) (\<lambda>_. account_ok) account_ok"
    by (rule triple_conseq [OF CreateVenue_ok]) (use assms in \<open>auto simp: new_account_def venue_allowed_def\<close>)
  then show ?thesis
    unfolding createDefaultBacktestVenues_def each_sql.simps
    by (intro inv_then) (auto intro!: integrity.helper_moves)
qed

lemma CreateAccountRPC_ok: "triple account_ok (CreateAccountRPC env req) (\<lambda>_. account_ok) account_ok"
proof -
  have stored: "triple account_ok (CreateAccount (ae_now env) a) (\<lambda>n. new_account n a) account_ok" for a by (rule CreateAccount_new)
  have venues: "triple (new_account n (requestedAccount env req e))
      (if e = EnvironmentBacktest then map_error h (createDefaultBacktestVenues env ((requestedAccount env req e)\<lparr>ac_AccountID := n\<rparr>) vs) else ok_sql ())
      (\<lambda>_. account_ok) account_ok"
    if prep: "(if e = EnvironmentBacktest then prepareDefaultBacktestVenues env (ca_UserId req) else Inr []) = Inr vs" for n e h vs
  proof (cases "e = EnvironmentBacktest")
    case True
    then obtain v where v: "vs = [v]" "ve_UserID v = ca_UserId req" "ve_Environment v = EnvironmentBacktest"
      using prep by (auto simp: prepareDefaultBacktestVenues_def zero_Venue_def split: sum.splits)
    have "triple (new_account n (requestedAccount env req e))
        (createDefaultBacktestVenues env ((requestedAccount env req e)\<lparr>ac_AccountID := n\<rparr>) [v]) (\<lambda>_. account_ok) account_ok"
      by (rule default_venue_ok) (use v True in \<open>simp_all add: requestedAccount_def normalizeAccountEnvironment_def domain_codes\<close>)
    then show ?thesis unfolding v(1) using True by (simp add: triple_map_error)
  qed (auto simp: new_account_def intro!: triple_return)
  show ?thesis
    unfolding CreateAccountRPC_def for_user_def Let_def
    by (intro triple_guarded triple_try triple_invalid triple_then [OF triple_map_error [OF stored]] inv_then venues invariant.moves_rules)
qed

interpretation integrity: account_relation "keeps_inv account_ok"
  by unfold_locales (rule CreateVenueRPC_ok [unfolded triple_inv] CreateAccountRPC_ok [unfolded triple_inv])+

subsection \<open>Histories\<close>

inductive account_history :: "account_tables \<Rightarrow> account_tables \<Rightarrow> bool" where
  start: "account_history s s"
| call: "account_history s (cn_tables c) \<Longrightarrow> account_call env req c = (r, c') \<Longrightarrow> account_history s (cn_tables c')"

lemma history_integrity: "account_history s t \<Longrightarrow> account_ok s \<Longrightarrow> account_ok t"
proof (induction rule: account_history.induct)
  case (call s c env req r c')
  then show ?case using invariant.movesD [OF integrity.account_call_moves call.hyps(2)] by (simp add: keeps_inv_def)
qed

lemma history_kept: "account_history s t \<Longrightarrow> kept s t"
proof (induction rule: account_history.induct)
  case (call s c env req r c')
  then show ?case using kept.movesD [OF kept.account_call_moves call.hyps(2)] kept_trans by blast
qed (rule kept_refl)

end
