(* ===== verification/Account_Scenario.thy ===== *)
theory Account_Scenario
  imports Account_History
begin

text \<open>
  A concrete life of one backtest account, on which the properties of the account service are seen to hold: it is
  created with its default venue, a session runs on it, its runtime is lost, and another session takes over.
\<close>

definition homeEnv :: AccountEnv where
  "homeEnv = \<lparr>ae_now = 63900000000 * second, ae_random = Inr (replicate 16 171), ae_hash = Inr, ae_compare = (\<lambda>h p. Inr (h = p)), ae_creds = None,
     ae_fingerprint = id, ae_unmarshal = (\<lambda>json. Inr None), ae_marshal = (\<lambda>obj. Inr []), ae_registry = None,
     ae_validator = (\<lambda>route. Inl (RouteUnsupported route)), ae_snapshotReader = (\<lambda>route. Inl (RouteUnsupported route)),
     ae_online = (\<lambda>account. Inl (Errorf ''offline''))\<rparr>"

definition homeAccount :: CreateAccountRequest where
  "homeAccount = \<lparr>ca_UserId = 7, ca_Name = ''alpha'', ca_Description = [], ca_Environment = 0, ca_DefaultFeeRate = 0, ca_SlippageBps = 0\<rparr>"

definition homeSession :: "string \<Rightarrow> SaveSessionRequest" where
  "homeSession sid = \<lparr>rs_SessionId = sid, rs_AccountId = 1, rs_UserId = 7, rs_StrategyId = 3, rs_Interval = [], rs_StartTimeMs = 0, rs_EndTimeMs = 0,
     rs_RuntimeId = ''rt'', rs_RuntimeSource = [], rs_RuntimeName = [], rs_SessionType = [], rs_RuntimeVersion = [], rs_SessionName = []\<rparr>"

definition after_calls :: "AccountRequest list \<Rightarrow> account_tables" where
  "after_calls = foldl (\<lambda>t req. cn_tables (snd (account_call homeEnv req (connected t)))) empty_tables"

lemma foldl_history: "account_history s t \<Longrightarrow> account_history s (foldl (\<lambda>t req. cn_tables (snd (account_call homeEnv req (connected t)))) t reqs)"
proof (induction reqs arbitrary: t)
  case (Cons req reqs)
  have "account_history s (cn_tables (snd (account_call homeEnv req (connected t))))"
    using account_history.call [of s "connected t"] Cons.prems by (metis connected_def conn.select_convs(1) prod.collapse)
  then show ?case using Cons.IH by simp
qed simp

lemma after_calls_history: "account_history empty_tables (after_calls reqs)"
  unfolding after_calls_def by (rule foldl_history) (rule account_history.start)

lemma after_calls_append: "account_history (after_calls xs) (after_calls (xs @ ys))"
  unfolding after_calls_def foldl_append by (rule foldl_history) (rule account_history.start)

definition homeStart :: "AccountRequest list" where
  "homeStart = [Call_CreateAccount homeAccount, Call_SaveSession (homeSession ''s1'')]"

definition homeLost :: "AccountRequest list" where
  "homeLost = homeStart @ [Call_MarkRuntimeSessionsRecoverable ''rt'' ''gone'']"

definition homeAgain :: "AccountRequest list" where
  "homeAgain = homeLost @ [Call_SaveSession (homeSession ''s2'')]"

definition statuses :: "account_tables \<Rightarrow> (string \<times> int) list" where
  "statuses t = map (\<lambda>r. (sr_session_id r, sr_status r)) (tb_sessions t)"

lemma home_started: "statuses (after_calls homeStart) = [(''s1'', 3)]"
  by code_simp

lemma home_again: "statuses (after_calls homeAgain) = [(''s1'', 5), (''s2'', 3)]
   \<and> map (\<lambda>x. (sv_SessionID x, sv_VenueID x)) (tb_session_venues (after_calls homeAgain)) = [(''s1'', 1), (''s2'', 1)]"
  by code_simp

end
