(* ===== verification/Account_Guarantees.thy ===== *)
theory Account_Guarantees
  imports Account_Scenario
begin

text \<open>
  The properties of the account service: the integrity of its tables over every history, what no history takes
  back, the atomic effect of binding a venue, and that an account whose runtime is lost can always run again.
\<close>

subsection \<open>Histories\<close>

text \<open>
  C34.  Whatever calls the account service receives one after another, in whatever order, with whatever requests and wherever statements
  and commits fail, the tables keep their integrity: keys are unique and references resolve, a bound venue has the owner and the environment of its account,
  an account has at most one active session and one active strategy, and the venues captured for an active session are
  exactly the active venues of its account, so that no call changes the venues a running strategy trades on.
\<close>

theorem account_calls_keep_integrity:
  assumes "account_history empty_tables t" shows "account_ok t"
  using history_integrity [OF assms empty_tables_ok] .

lemma account_calls_keep_integrity_witness:
  "account_ok (after_calls homeAgain) \<and> length (tb_sessions (after_calls homeAgain)) = 2"
  using account_calls_keep_integrity [OF after_calls_history] arg_cong [OF conjunct1 [OF home_again], of length]
  by (simp add: statuses_def)

text \<open>
  C35.  A session that is not active never becomes active again, its terms (account, user, environment, strategy, interval, runtime)
  never change, and neither do the venues captured for it, whatever calls follow.
\<close>

theorem sessions_never_revive:
  assumes "account_history empty_tables s" "account_history s t" "r \<in> set (tb_sessions s)" "r' \<in> set (tb_sessions t)"
    and "sr_session_id r' = sr_session_id r"
  shows "(is_active_code (sr_status r') \<longrightarrow> is_active_code (sr_status r)) \<and> session_terms r' = session_terms r
    \<and> {x \<in> set (tb_session_venues t). sv_SessionID x = sr_session_id r} = {x \<in> set (tb_session_venues s). sv_SessionID x = sr_session_id r}"
proof -
  have k: "kept s t" by (rule history_kept [OF assms(2)])
  obtain q where q: "q \<in> set (tb_sessions t)" "later_session r q" using k assms(3) unfolding kept_def by blast
  have "account_ok t" by (rule history_integrity [OF assms(2) history_integrity [OF assms(1) empty_tables_ok]])
  then have "inj_on sr_session_id (set (tb_sessions t))" by (simp add: account_ok_def sessions_ok_def distinct_map)
  then have "q = r'" using q assms(4,5) later_session_id [OF q(2)] by (simp add: inj_on_def)
  moreover have "sr_session_id r \<in> session_ids s" using assms(3) by (simp add: session_ids_def)
  ultimately show ?thesis using q(2) k unfolding later_session_def kept_def by auto
qed

lemma sessions_never_revive_witness:
  "\<exists>r r'. r \<in> set (tb_sessions (after_calls homeLost)) \<and> r' \<in> set (tb_sessions (after_calls homeAgain))
     \<and> sr_session_id r' = sr_session_id r \<and> \<not> is_active_code (sr_status r')"
proof -
  have "statuses (after_calls homeLost) = [(''s1'', 5)]" by code_simp
  then obtain r where r: "tb_sessions (after_calls homeLost) = [r]" "sr_session_id r = ''s1''" "sr_status r = 5"
    by (auto simp: statuses_def)
  have "length (statuses (after_calls homeAgain)) = 2" "fst (hd (statuses (after_calls homeAgain))) = ''s1''" using home_again by simp_all
  then obtain r' r2 where r': "tb_sessions (after_calls homeAgain) = [r', r2]" "sr_session_id r' = ''s1''"
    by (auto simp: statuses_def length_Suc_conv numeral_2_eq_2)
  have "account_history (after_calls homeLost) (after_calls homeAgain)" unfolding homeAgain_def by (rule after_calls_append)
  from sessions_never_revive [OF after_calls_history this, of r r'] show ?thesis using r r' by (auto simp: is_active_code_def)
qed

subsection \<open>Binding a venue\<close>

definition venue_bindings :: "account_tables \<Rightarrow> int \<Rightarrow> int option option" where
  "venue_bindings t = map_of (map (\<lambda>v. (ve_VenueID v, ve_AccountID v)) (tb_venues t))"

text \<open>The entries of the venue's log for a move from one account to another: released if it was bound elsewhere, then bound.\<close>

definition move_log :: "int option \<Rightarrow> int \<Rightarrow> (int \<times> int option) list" where
  "move_log old a = (case old of None \<Rightarrow> [] | Some b \<Rightarrow> if b \<noteq> a then [(2, Some b)] else []) @ [(1, Some a)]"

definition event_log :: "account_tables \<Rightarrow> (int \<times> int \<times> int option) list" where
  "event_log t = map (\<lambda>e. (vn_VenueID e, vn_EventType e, vn_AccountID e)) (tb_venue_events t)"

definition wallet_owners :: "account_tables \<Rightarrow> (int \<times> int option) list" where
  "wallet_owners t = map (\<lambda>w. (wr_venue_id w, wr_account_id w)) (tb_wallets t)"

definition bind_spec :: "int \<Rightarrow> int \<Rightarrow> int \<Rightarrow> account_tables \<Rightarrow> account_tables \<Rightarrow> bool" where
  "bind_spec user a vid s t = (\<exists>old env. venue_bindings s vid = Some old \<and> owned_by s a user env
     \<and> idle a s \<and> (\<forall>b. old = Some b \<longrightarrow> idle b s)
     \<and> venue_bindings t = (venue_bindings s)(vid \<mapsto> Some a)
     \<and> event_log t = event_log s @ map (Pair vid) (move_log old a)
     \<and> wallet_owners t = map (\<lambda>(v, b). if v = vid then (v, Some a) else (v, b)) (wallet_owners s)
     \<and> tb_accounts t = tb_accounts s \<and> tb_sessions t = tb_sessions s \<and> tb_session_venues t = tb_session_venues s)"

lemma map_of_replace:
  assumes "v \<in> set vs" "ve_VenueID w = ve_VenueID v"
  shows "map_of (map (\<lambda>v. (ve_VenueID v, ve_AccountID v)) (replace_venue w vs))
    = (map_of (map (\<lambda>v. (ve_VenueID v, ve_AccountID v)) vs))(ve_VenueID v \<mapsto> ve_AccountID w)"
proof -
  have "map_of (map (\<lambda>v. (ve_VenueID v, ve_AccountID v)) (replace_venue w us)) x
      = (if x = ve_VenueID w \<and> x \<in> ve_VenueID ` set us then Some (ve_AccountID w) else map_of (map (\<lambda>v. (ve_VenueID v, ve_AccountID v)) us) x)" for us x
    by (induction us) (auto simp: replace_venue_def)
  then show ?thesis using assms by (auto simp: fun_eq_iff)
qed

lemma venue_binding_of:
  assumes "venues_ok t" "v \<in> set (tb_venues t)" shows "venue_bindings t (ve_VenueID v) = Some (ve_AccountID v)"
  unfolding venue_bindings_def
  by (rule map_of_is_SomeI) (use assms in \<open>simp_all add: venues_ok_def o_def image_iff\<close>, metis)

lemma bindVenueTx_spec:
  assumes ok: "account_ok (cn_tables c)" and b: "bindVenueTx now u a vid reason c = (Inr w, c')"
  shows "bind_spec u a vid (cn_tables c) (cn_tables c')"
  using b
proof (rule bindVenueTx_effect)
  fix v vs assume f: "filter (\<lambda>v. ve_VenueID v = vid \<and> ve_UserID v = u) (tb_venues (cn_tables c)) = v # vs"
    and own: "owned_by (cn_tables c) a u (ve_Environment v)" and none: "active_sessions u a (cn_tables c) = []"
      "\<And>b. ve_AccountID v = Some b \<Longrightarrow> active_sessions u b (cn_tables c) = []"
    and w: "w = v\<lparr>ve_AccountID := Some a, ve_UpdatedAt := now\<rparr>"
    and c': "cn_tables c' = wallets_to (Some a) vid (log_event now vid (Some a) u 1 reason
       ((case ve_AccountID v of Some b \<Rightarrow> if b \<noteq> a then log_event now vid (Some b) u 2 reason else id | None \<Rightarrow> id)
          ((cn_tables c)\<lparr>tb_venues := replace_venue w (tb_venues (cn_tables c))\<rparr>)))"
  have v: "v \<in> set (tb_venues (cn_tables c))" "ve_VenueID v = vid" using row_in [OF f] by simp_all
  have "venue_bindings (cn_tables c) vid = Some (ve_AccountID v)" using venue_binding_of [OF _ v(1)] ok v(2) by (simp add: account_ok_def)
  moreover have "idle a (cn_tables c)" by (rule no_active_idle [OF ok own none(1)])
  moreover have "idle b (cn_tables c)" if "ve_AccountID v = Some b" for b using venue_account_idle [OF ok f that none(2) [OF that]] .
  moreover have "tb_venues (cn_tables c') = replace_venue w (tb_venues (cn_tables c))"
    unfolding c' by (simp add: wallets_to_def log_event_def split: option.split)
  then have "venue_bindings (cn_tables c') = (venue_bindings (cn_tables c))(vid \<mapsto> Some a)"
    using map_of_replace [OF v(1), of w] v(2) by (simp add: venue_bindings_def w)
  moreover have "event_log (cn_tables c') = event_log (cn_tables c) @ map (Pair vid) (move_log (ve_AccountID v) a)"
    unfolding c' by (simp add: event_log_def move_log_def wallets_to_def log_event_def split: option.split)
  moreover have "wallet_owners (cn_tables c') = map (\<lambda>(x, b). if x = vid then (x, Some a) else (x, b)) (wallet_owners (cn_tables c))"
    unfolding c' by (simp add: wallet_owners_def wallets_to_def log_event_def split: option.split)
  moreover have "tb_accounts (cn_tables c') = tb_accounts (cn_tables c)" "tb_sessions (cn_tables c') = tb_sessions (cn_tables c)"
      "tb_session_venues (cn_tables c') = tb_session_venues (cn_tables c)"
    unfolding c' by (simp_all add: wallets_to_def log_event_def split: option.split)
  ultimately show ?thesis unfolding bind_spec_def using own by blast
qed

text \<open>
  C36.  BindVenue implements its specification atomically.  When it succeeds, the venue's binding, and no other, is now the account, both accounts
  involved had no active session, the log of the venue has the release and the binding in order, and the venue's wallet has moved with it.
  When it fails, nothing has changed, except that an error of the commit may hide a binding that took effect completely.
\<close>

theorem BindVenue_atomic:
  assumes "account_ok (cn_tables c)" "BindVenue now user a vid reason c = (r, c')"
  shows "bind_spec user a vid (cn_tables c) (cn_tables c') \<or> cn_tables c' = cn_tables c \<and> (\<exists>e. r = Inl e)"
proof (cases r)
  case (Inr w)
  then obtain c0 c1 where "cn_tables c0 = cn_tables c" "bindVenueTx now user a vid reason c0 = (Inr w, c1)" "cn_tables c' = cn_tables c1"
    using assms(2) unfolding BindVenue_def by (metis tx_sql_Inr)
  then show ?thesis using bindVenueTx_spec [of c0] assms(1) by metis
next
  case (Inl e)
  then show ?thesis using tx_sql_atomic [of "bindVenueTx now user a vid reason" c] bindVenueTx_spec assms unfolding BindVenue_def
    by (metis snd_conv)
qed

lemma BindVenue_atomic_witness:
  "\<exists>w c'. BindVenue 0 7 1 1 [] (connected (after_calls homeLost)) = (Inr w, c') \<and> bind_spec 7 1 1 (after_calls homeLost) (cn_tables c')"
proof -
  have "case fst (BindVenue 0 7 1 1 [] (connected (after_calls homeLost))) of Inr w \<Rightarrow> True | Inl e \<Rightarrow> False" by code_simp
  then obtain w c' where b: "BindVenue 0 7 1 1 [] (connected (after_calls homeLost)) = (Inr w, c')"
    by (cases "BindVenue 0 7 1 1 [] (connected (after_calls homeLost))"; cases "fst (BindVenue 0 7 1 1 [] (connected (after_calls homeLost)))") auto
  have "account_ok (cn_tables (connected (after_calls homeLost)))"
    using history_integrity [OF after_calls_history empty_tables_ok] by (simp add: connected_def)
  from BindVenue_atomic [OF this b] show ?thesis using b by (auto simp: connected_def)
qed

subsection \<open>Runs without faults\<close>

lemma exec_clean:
  "cn_faults c = [] \<Longrightarrow> exec_sql f c = (fst (f (cn_tables c)), c\<lparr>cn_tables := snd (f (cn_tables c))\<rparr>)"
  by (simp add: exec_sql_def take_fault_def split: prod.split)

lemma query_clean: "cn_faults c = [] \<Longrightarrow> query_sql f c = (Inr (f (cn_tables c)), c)"
  by (simp add: query_sql_def exec_clean)

lemma tx_clean: "cn_faults c = [] \<Longrightarrow> body c = (Inr x, c') \<Longrightarrow> cn_faults c' = [] \<Longrightarrow> tx_sql body c = (Inr x, c')"
  by (simp add: tx_sql_def then_sql_def exec_clean commit_sql_def take_fault_def)

lemma then_clean: "m c = (Inr x, c1) \<Longrightarrow> then_sql m f c = f x c1"
  by (simp add: then_sql_def)

lemma query_row_clean: "cn_faults c = [] \<Longrightarrow> rows (cn_tables c) = x # xs \<Longrightarrow> query_row rows c = (Inr x, c)"
  by (simp add: query_row_def then_sql_def query_clean first_or_not_found_def return_sql_def)

lemma upsert_session_venue_succeeds:
  "sv_SessionID n \<in> session_ids t \<Longrightarrow> fst (upsert_session_venue n t) = Inr ()
     \<and> tb_sessions (snd (upsert_session_venue n t)) = tb_sessions t \<and> tb_venues (snd (upsert_session_venue n t)) = tb_venues t"
  by (simp add: upsert_session_venue_def session_ids_def)

lemma saveSessionVenues_succeeds:
  assumes "cn_faults c = []" "sid \<in> session_ids (cn_tables c)" "\<And>v. v \<in> set vs \<Longrightarrow> \<exists>a. ve_AccountID v = Some a \<and> a \<noteq> 0"
  shows "\<exists>c'. saveSessionVenuesTx now sid vs c = (Inr (), c') \<and> cn_faults c' = [] \<and> tb_sessions (cn_tables c') = tb_sessions (cn_tables c)
     \<and> tb_venues (cn_tables c') = tb_venues (cn_tables c)"
  using assms
proof (induction vs arbitrary: c)
  case Nil
  then show ?case by (simp add: saveSessionVenuesTx_def return_sql_def)
next
  case (Cons v vs)
  obtain a where a: "ve_AccountID v = Some a" "a \<noteq> 0" using Cons.prems(3) [of v] by auto
  let ?n = "session_venue_of now sid a v"
  let ?c = "c\<lparr>cn_tables := snd (upsert_session_venue ?n (cn_tables c))\<rparr>"
  have u: "fst (upsert_session_venue ?n (cn_tables c)) = Inr ()" "tb_sessions (cn_tables ?c) = tb_sessions (cn_tables c)" "tb_venues (cn_tables ?c) = tb_venues (cn_tables c)"
    using upsert_session_venue_succeeds [of ?n "cn_tables c"] Cons.prems(2) by simp_all
  have "saveSessionVenuesTx now sid (v # vs) c = saveSessionVenuesTx now sid vs ?c"
    unfolding saveSessionVenuesTx_def each_sql.simps by (rule then_clean) (simp add: a exec_clean Cons.prems(1) u(1))
  moreover have "sid \<in> session_ids (cn_tables ?c)" using Cons.prems(2) u(2) by (simp add: session_ids_def)
  ultimately show ?case using Cons.IH [of ?c] Cons.prems u by simp
qed

text \<open>Saving a session of an idle account under a new id succeeds.\<close>

lemma SaveSession_succeeds:
  assumes ok: "account_ok (cn_tables c)" and f: "cn_faults c = []"
    and a: "a \<in> set (tb_accounts (cn_tables c))" "ar_account_id a = ss_AccountID s" "ar_environment a = sessionEnvironment s"
    and new: "ss_SessionID s \<notin> session_ids (cn_tables c)" and idle: "idle (ss_AccountID s) (cn_tables c)"
  shows "\<exists>c' r. SaveSession now s c = (Inr (), c') \<and> cn_faults c' = [] \<and> r \<in> set (tb_sessions (cn_tables c'))
    \<and> sr_session_id r = ss_SessionID s \<and> sr_account_id r = ss_AccountID s \<and> sr_status r = sessionStatusCode (ss_Status s)
    \<and> tb_venues (cn_tables c') = tb_venues (cn_tables c)"
proof -
  let ?t = "cn_tables c"
  let ?P = "\<lambda>a. ar_account_id a = ss_AccountID s \<and> ar_environment a = sessionEnvironment s"
  have "filter ?P (tb_accounts ?t) \<noteq> []" unfolding filter_empty_conv using a by blast
  then obtain b bs where b: "filter ?P (tb_accounts ?t) = b # bs" by (meson neq_Nil_conv)
  then have bid: "ar_account_id b = ss_AccountID s" by (auto dest: row_in)
  let ?row = "session_row_of now s b"
  let ?c = "c\<lparr>cn_tables := ?t\<lparr>tb_sessions := tb_sessions ?t @ [?row]\<rparr>\<rparr>"
  have "session_unique ?row (tb_sessions ?t) = None"
    using new idle bid unfolding session_unique_None session_ids_def idle_def by auto
  then have ins: "insert_session now s ?t = (Inr 1, cn_tables ?c)" by (simp add: insert_session_def b)
  let ?vs = "by_route (filter (\<lambda>v. ve_AccountID v = Some (ss_AccountID s) \<and> ve_Status v = VenueStatusActive) (tb_venues ?t))"
  have pos: "0 < ar_account_id a" using ok a(1) by (simp add: account_ok_def accounts_ok_def)
  have "ss_AccountID s \<noteq> 0" using pos a(2) by simp
  then obtain c' where c': "saveSessionVenuesTx now (ss_SessionID s) ?vs ?c = (Inr (), c')" "cn_faults c' = []"
      "tb_sessions (cn_tables c') = tb_sessions (cn_tables ?c)" "tb_venues (cn_tables c') = tb_venues (cn_tables ?c)"
    using saveSessionVenues_succeeds [of ?c "ss_SessionID s" ?vs now] f by (auto simp: session_ids_def)
  have "saveSessionTx now s c = saveSessionVenuesTx now (ss_SessionID s) ?vs ?c"
    unfolding saveSessionTx_def listActiveAccountVenuesTx_def
    by (subst then_clean [of _ c 1 ?c]) (simp_all add: map_error_def exec_clean f ins query_clean then_clean)
  then have "SaveSession now s c = (Inr (), c')" unfolding SaveSession_def using c' by (intro tx_clean [OF f]) simp_all
  then show ?thesis using c' bid by (intro exI [of _ c'] exI [of _ ?row]) simp
qed

lemma session_ids_map: "(\<And>r. sr_session_id (f r) = sr_session_id r) \<Longrightarrow> session_ids (t\<lparr>tb_sessions := map f (tb_sessions t)\<rparr>) = session_ids t"
  by (simp add: session_ids_def image_image)

lemma marked_idle:
  assumes "cn_faults c = []" "trim_space rid \<noteq> []"
    and "\<And>s. s \<in> set (tb_sessions (cn_tables c)) \<Longrightarrow> sr_account_id s = a \<Longrightarrow> is_active_code (sr_status s) \<Longrightarrow> sr_runtime_id s = trim_space rid"
  shows "\<exists>n c1. MarkRuntimeSessionsRecoverableRPC env rid err c = (Inr n, c1) \<and> cn_faults c1 = [] \<and> idle a (cn_tables c1)
     \<and> tb_accounts (cn_tables c1) = tb_accounts (cn_tables c) \<and> tb_venues (cn_tables c1) = tb_venues (cn_tables c)
     \<and> session_ids (cn_tables c1) = session_ids (cn_tables c)"
proof -
  let ?f = "\<lambda>r. if sr_runtime_id r = trim_space rid \<and> is_active_code (sr_status r)
     then r\<lparr>sr_status := 5, sr_error := err, sr_completed_at := (case sr_completed_at r of None \<Rightarrow> Some (ae_now env) | Some c \<Rightarrow> Some c)\<rparr> else r"
  let ?c = "c\<lparr>cn_tables := (cn_tables c)\<lparr>tb_sessions := map ?f (tb_sessions (cn_tables c))\<rparr>\<rparr>"
  have t: "trim_space (trim_space rid) = trim_space rid" by (rule trim_space_idem)
  have "\<exists>n. MarkRuntimeSessionsRecoverableRPC env rid err c = (Inr n, ?c)"
    using assms(1,2) by (simp add: MarkRuntimeSessionsRecoverableRPC_def MarkRuntimeSessionsRecoverable_def invalid_def map_error_def
        exec_clean update_sessions_def t)
  moreover have "idle a (cn_tables ?c)" using assms(3) by (auto simp: idle_def is_active_code_def split: if_splits)
  moreover have "session_ids (cn_tables ?c) = session_ids (cn_tables c)" by (simp add: session_ids_map)
  ultimately show ?thesis using assms(1) by (elim exE) (intro exI conjI, assumption, simp_all)
qed

text \<open>The owner finds the account by its id.\<close>

lemma own_account:
  assumes "account_ok (cn_tables c)" "cn_faults c = []" "a \<in> set (tb_accounts (cn_tables c))"
  shows "GetAccount (ar_account_id a) (ar_user_id a) c = (Inr (scanAccount a), c)"
proof -
  let ?P = "\<lambda>r. ar_account_id r = ar_account_id a \<and> (0 < ar_user_id a \<longrightarrow> ar_user_id r = ar_user_id a)"
  have "filter ?P (tb_accounts (cn_tables c)) \<noteq> []" unfolding filter_empty_conv using assms(3) by blast
  then obtain b bs where b: "filter ?P (tb_accounts (cn_tables c)) = b # bs" by (meson neq_Nil_conv)
  then have "b \<in> set (tb_accounts (cn_tables c))" "ar_account_id b = ar_account_id a" by (auto dest: row_in)
  then have "b = a" using assms(1,3) by (auto simp: account_ok_def accounts_ok_def distinct_map inj_on_def)
  then show ?thesis
    unfolding GetAccount_def by (intro query_row_clean [of c _ "scanAccount a" "map scanAccount bs"]) (simp_all add: b assms(2))
qed

text \<open>
  C39.  An account is never lost to a dead runtime.  When the runtime that holds the account's active session, if it has one, is reported
  gone and the store answers, the sessions of that runtime end, and the next session the owner saves on the account under a new id
  starts: it is active and captures exactly the active venues of the account.
\<close>

theorem account_restarts_after_loss:
  assumes "account_ok (cn_tables c)" "cn_faults c = []" "a \<in> set (tb_accounts (cn_tables c))"
    and "\<And>s. s \<in> set (tb_sessions (cn_tables c)) \<Longrightarrow> sr_account_id s = ar_account_id a \<Longrightarrow> is_active_code (sr_status s) \<Longrightarrow> sr_runtime_id s = trim_space rid"
    and "trim_space rid \<noteq> []" "rs_SessionId req \<noteq> []" "rs_SessionId req \<notin> session_ids (cn_tables c)"
    and "rs_AccountId req = ar_account_id a" "rs_UserId req = ar_user_id a" "rs_StrategyId req \<noteq> 0" "trim_space (rs_RuntimeId req) \<noteq> []"
  shows "\<exists>n c1 c2. MarkRuntimeSessionsRecoverableRPC env rid err c = (Inr n, c1) \<and> SaveSessionRPC env req c1 = (Inr (), c2)
    \<and> (\<exists>s\<in>set (tb_sessions (cn_tables c2)). sr_session_id s = rs_SessionId req \<and> sr_account_id s = ar_account_id a \<and> is_active_code (sr_status s))
    \<and> captured (rs_SessionId req) (cn_tables c2) = bound_venues (ar_account_id a) (cn_tables c)"
proof -
  obtain n c1 where m: "MarkRuntimeSessionsRecoverableRPC env rid err c = (Inr n, c1)" "cn_faults c1 = []" "idle (ar_account_id a) (cn_tables c1)"
      "tb_accounts (cn_tables c1) = tb_accounts (cn_tables c)" "tb_venues (cn_tables c1) = tb_venues (cn_tables c)"
      "session_ids (cn_tables c1) = session_ids (cn_tables c)"
    using marked_idle [OF assms(2,5,4), where env = env and err = err] by blast
  have ok1: "account_ok (cn_tables c1)"
    using invariant.movesD [OF integrity.session_calls(7) m(1)] assms(1) by (simp add: keeps_inv_def)
  have "0 < ar_account_id a \<and> ar_environment a \<in> {0, 1, 2}" using assms(1,3) by (simp add: account_ok_def accounts_ok_def)
  then have row: "ar_account_id a \<noteq> 0" "ar_environment a \<in> {0, 1, 2}" by simp_all
  have get: "GetAccount (rs_AccountId req) (rs_UserId req) c1 = (Inr (scanAccount a), c1)"
    using own_account [OF ok1 m(2), of a] assms(3,8,9) m(4) by simp
  have env: "environmentFromAccount (scanAccount a) = ar_environment a"
    using row(2) by (auto simp: scanAccount_def environmentFromAccount_def domain_codes)
  have running: "is_active_code (sessionStatusCode ''running'')" by code_simp
  let ?s = "requestedSession env req (scanAccount a)"
  have s: "ss_SessionID ?s = rs_SessionId req" "ss_AccountID ?s = ar_account_id a" "sessionEnvironment ?s = ar_environment a"
      "is_active_code (sessionStatusCode (ss_Status ?s))"
    using assms(8) row(2) by (auto simp: requestedSession_def zero_StrategySession_def sessionEnvironment_def env domain_codes running)
  obtain c2 r where c2: "SaveSession (ae_now env) ?s c1 = (Inr (), c2)" and r: "r \<in> set (tb_sessions (cn_tables c2))"
      "sr_session_id r = rs_SessionId req" "sr_account_id r = ar_account_id a" "is_active_code (sr_status r)"
    and v: "tb_venues (cn_tables c2) = tb_venues (cn_tables c1)"
    using SaveSession_succeeds [OF ok1 m(2), of a ?s "ae_now env"] assms(3,7) m s by auto
  have rpc: "SaveSessionRPC env req c1 = (Inr (), c2)"
    using assms(6,8,10,11) row(1) c2 get by (simp add: SaveSessionRPC_def invalid_def then_sql_def map_error_def)
  have "account_ok (cn_tables c2)"
    using invariant.movesD [OF integrity.session_calls(2) rpc] ok1 by (simp add: keeps_inv_def)
  then have "captured (rs_SessionId req) (cn_tables c2) = bound_venues (ar_account_id a) (cn_tables c2)"
    using r unfolding account_ok_def frozen_def by metis
  then show ?thesis using m(1,5) rpc r v by (auto simp: bound_venues_def)
qed

lemma account_restarts_after_loss_witness:
  "\<exists>n c1 c2. MarkRuntimeSessionsRecoverableRPC homeEnv ''rt'' [] (connected (after_calls homeStart)) = (Inr n, c1)
     \<and> SaveSessionRPC homeEnv (homeSession ''s2'') c1 = (Inr (), c2) \<and> captured ''s2'' (cn_tables c2) = bound_venues 1 (after_calls homeStart)"
proof -
  let ?c = "connected (after_calls homeStart)"
  have "map (\<lambda>a. (ar_account_id a, ar_user_id a)) (tb_accounts (after_calls homeStart)) = [(1, 7)]
      \<and> map (\<lambda>r. (sr_session_id r, sr_runtime_id r)) (tb_sessions (after_calls homeStart)) = [(''s1'', ''rt'')]
      \<and> trim_space ''rt'' = ''rt''" by code_simp
  then obtain a s where a: "tb_accounts (after_calls homeStart) = [a]" "ar_account_id a = 1" "ar_user_id a = 7"
    and s: "tb_sessions (after_calls homeStart) = [s]" "sr_session_id s = ''s1''" "sr_runtime_id s = ''rt''" and t: "trim_space ''rt'' = ''rt''"
    by auto
  have "account_ok (cn_tables ?c)" using history_integrity [OF after_calls_history empty_tables_ok] by (simp add: connected_def)
  from account_restarts_after_loss [OF this, of a "''rt''" "homeSession ''s2''" homeEnv "[]"] show ?thesis
    using a s t by (auto simp: connected_def homeSession_def session_ids_def)
qed

subsection \<open>Where the guarantees end\<close>

text \<open>
  CreateVenue checks that the account is idle in one statement and inserts the venue in another.  A session saved between
  the two runs with a venue of its account it has not captured.
\<close>

definition spotVenue :: CreateVenueRequest where
  "spotVenue = \<lparr>cv_UserId = 7, cv_AccountId = 1, cv_Exchange = 1, cv_Market = 1, cv_Environment = 0, cv_Status = 0, cv_DisplayName = [],
     cv_Description = [], cv_ApiKey = [], cv_CredentialJson = [], cv_MarginMode = 0, cv_PositionMode = 0,
     cv_Wallet = \<lparr>wp_Futures = None, wp_Spot = None, wp_TotalValue = 0, wp_WalletBalance = 0, wp_AvailableBalance = 0\<rparr>\<rparr>"

definition raceTables :: "account_tables option" where
  "raceTables = (let t0 = after_calls [Call_CreateAccount homeAccount] in
     case checkCreateVenue homeEnv spotVenue (connected t0) of
       (Inl e, c) \<Rightarrow> None
     | (Inr v, c) \<Rightarrow> (case SaveSessionRPC homeEnv (homeSession ''s1'') c of
           (Inl e, c) \<Rightarrow> None
         | (Inr u, c) \<Rightarrow> (case storeNewVenue homeEnv spotVenue v c of (Inl e, c) \<Rightarrow> None | (Inr w, c) \<Rightarrow> Some (cn_tables c))))"

lemma create_venue_races_with_save_session: "\<exists>t. raceTables = Some t \<and> \<not> frozen t"
proof -
  have "case raceTables of None \<Rightarrow> False | Some t \<Rightarrow> \<not> frozen t" by code_simp
  then show ?thesis by (metis option.case_eq_if option.collapse)
qed

text \<open>
  The account view merged from the venues adds up the totals, but takes the cash of the spot wallet and the balances of the futures
  wallet from the last venue alone.
\<close>

lemma mergePortfolioOnlineInfo_wallets:
  "\<exists>m. mergePortfolioOnlineInfo merged (Some info) acc = Some m
     \<and> oai_Spot m = (oai_Spot info)\<lparr>sw_Assets := (case merged of None \<Rightarrow> [] | Some p \<Rightarrow> sw_Assets (oai_Spot p)) @ sw_Assets (oai_Spot info)\<rparr>
     \<and> oai_Futures m = (oai_Futures info)\<lparr>fw_Positions := (case merged of None \<Rightarrow> [] | Some p \<Rightarrow> fw_Positions (oai_Futures p)) @ fw_Positions (oai_Futures info)\<rparr>"
  by (cases merged) (simp_all add: mergePortfolioOnlineInfo_def Let_def)

abbreviation merged_views :: "Account \<Rightarrow> VenueWalletSnapshot list \<Rightarrow> OnlineAccountInfo option" where
  "merged_views acc vs \<equiv> foldl (\<lambda>merged v. mergePortfolioOnlineInfo merged (Some (vs_Snapshot v)) acc) None vs"

lemma merged_views_lists:
  "(case merged_views acc vs of None \<Rightarrow> [] | Some p \<Rightarrow> sw_Assets (oai_Spot p)) = concat (map (\<lambda>w. sw_Assets (oai_Spot (vs_Snapshot w))) vs)
   \<and> (case merged_views acc vs of None \<Rightarrow> [] | Some p \<Rightarrow> fw_Positions (oai_Futures p)) = concat (map (\<lambda>w. fw_Positions (oai_Futures (vs_Snapshot w))) vs)"
proof (induction vs rule: rev_induct)
  case (snoc v vs)
  then show ?case using mergePortfolioOnlineInfo_wallets [of "merged_views acc vs" "vs_Snapshot v" acc] by auto
qed simp

lemma merged_view_keeps_last_cash:
  "oai_Spot (aggregateVenueWalletSnapshots acc (vs @ [v]) updatedAt) =
     (oai_Spot (vs_Snapshot v))\<lparr>sw_Assets := concat (map (\<lambda>w. sw_Assets (oai_Spot (vs_Snapshot w))) (vs @ [v]))\<rparr>
   \<and> oai_Futures (aggregateVenueWalletSnapshots acc (vs @ [v]) updatedAt) =
     (oai_Futures (vs_Snapshot v))\<lparr>fw_Positions := concat (map (\<lambda>w. fw_Positions (oai_Futures (vs_Snapshot w))) (vs @ [v]))\<rparr>"
  using mergePortfolioOnlineInfo_wallets [of "merged_views acc vs" "vs_Snapshot v" acc] merged_views_lists [of acc vs]
  by (auto simp: aggregateVenueWalletSnapshots_def)

end
