(* ===== verification/Account_Errors.thy ===== *)
theory Account_Errors
  imports Account_Scenario
begin

text \<open>
  What kind of error the account service answers with.  Every handler turns the errors of the repository, of
  hashing, encryption, JSON and the exchanges into a gRPC status; the one exception is the panic of writing into the nil
  map of a \<^verbatim>\<open>null\<close> credential.
\<close>

definition is_status :: "error \<Rightarrow> bool" where
  "is_status e = (case e of Status c msg \<Rightarrow> True | _ \<Rightarrow> False)"

definition answer_error :: "error \<Rightarrow> bool" where
  "answer_error e = (is_status e \<or> e = nil_map_write)"

lemma status_answers [simp, intro]: "answer_error (Status c msg)"
  by (simp add: answer_error_def is_status_def)

lemma coded_answers [simp]:
  "answer_error (coded c prefix e)" "answer_error (mapRepoErr e)" "answer_error (mapStrategyErr e)" "answer_error accountHasSessions"
  "answer_error no_venue" "answer_error no_venue_for_payload" "answer_error (no_wallet n)" "answer_error nil_map_write"
  "answer_error m \<Longrightarrow> answer_error (coded_unless_missing m c prefix e)"
  by (simp_all add: coded_def mapRepoErr_def mapStrategyErr_def coded_unless_missing_def accountHasSessions_def no_venue_def
      no_venue_for_payload_def no_wallet_def) (simp add: answer_error_def)

subsection \<open>Results and steps whose errors are answers\<close>

definition coded_result :: "'a result \<Rightarrow> bool" where
  "coded_result r = (case r of Inl e \<Rightarrow> answer_error e | Inr x \<Rightarrow> True)"

definition answers :: "('t, 'a) sqlm \<Rightarrow> bool" where
  "answers m = (\<forall>c. coded_result (fst (m c)))"

lemma coded_result_simps [simp]: "coded_result (Inl e) = answer_error e" "coded_result (Inr x)"
  by (simp_all add: coded_result_def)

lemma answers_return: "coded_result r \<Longrightarrow> answers (return_sql r)"
  by (simp add: answers_def return_sql_def)

lemma answers_then: assumes "answers m" "\<And>x. answers (f x)" shows "answers (then_sql m f)"
  unfolding answers_def
proof
  fix c
  obtain r c1 where m: "m c = (r, c1)" by fastforce
  have "coded_result r" using assms(1) m unfolding answers_def by (metis fst_conv)
  then show "coded_result (fst (then_sql m f c))" using assms(2) by (cases r) (simp_all add: then_sql_def m answers_def)
qed

lemma answers_handle: assumes "\<And>r. answers (f r)" shows "answers (handle_sql m f)"
  using assms unfolding answers_def handle_sql_def by (auto split: prod.split)

lemma answers_map_error: assumes "\<And>e. answer_error (h e)" shows "answers (map_error h m)"
  using assms unfolding answers_def map_error_def by (auto split: prod.split sum.split)

lemma answers_guarded: "(\<And>err. e = Some err \<Longrightarrow> answer_error err) \<Longrightarrow> answers m \<Longrightarrow> answers (guarded e m)"
  by (cases e) (simp_all add: guarded_def answers_return)

lemma answers_for_user: "answers m \<Longrightarrow> answers (for_user u m)"
  unfolding for_user_def by (rule answers_guarded) (auto simp: requireUserID_def split: if_splits)

lemma answers_invalid: "answers m \<Longrightarrow> answers (invalid b msg m)"
  by (simp add: invalid_def answers_return)

lemma answers_try: "coded_result r \<Longrightarrow> (\<And>x. answers (f x)) \<Longrightarrow> answers (try_sql r f)"
  unfolding try_sql_def by (intro answers_then answers_return)

lemma answers_if: "answers m \<Longrightarrow> answers n \<Longrightarrow> answers (if b then m else n)"
  by simp

lemma answers_sum: "(\<And>e. answers (f e)) \<Longrightarrow> (\<And>x. answers (g x)) \<Longrightarrow> answers (case r of Inl e \<Rightarrow> f e | Inr x \<Rightarrow> g x)"
  by (cases r) simp_all

lemma answers_option: "answers m \<Longrightarrow> (\<And>x. answers (g x)) \<Longrightarrow> answers (case r of None \<Rightarrow> m | Some x \<Rightarrow> g x)"
  by (cases r) simp_all

lemma answers_prod: "(\<And>a b. answers (f a b)) \<Longrightarrow> answers (case p of (a, b) \<Rightarrow> f a b)"
  by (cases p) simp

lemma answers_each: "(\<And>x. answers (f x)) \<Longrightarrow> answers (each_sql f xs)"
  by (induction xs) (auto intro: answers_then answers_return)

lemma answers_collect: "(\<And>x. answers (f x)) \<Longrightarrow> answers (collect_sql f xs)"
  by (induction xs) (auto intro!: answers_then answers_return)

lemmas answers_rules = answers_then answers_handle answers_map_error answers_for_user answers_invalid answers_try answers_if answers_sum
  answers_option answers_prod answers_each answers_collect answers_return

lemma coded_validations [simp]:
  "coded_result (validateEnvironment i)" "coded_result (validateExchange i)" "coded_result (validateMarket i)"
  "coded_result (normalizeVenueModes m a b)" "coded_result (prepareDefaultBacktestVenues env u)" "coded_result (venueCredentials env req i)"
  "coded_result (openCredential env s)" "coded_result (apiSecretFromCredentialJSON env s)" "coded_result (credentialWithKey env s k)"
  by (auto simp: validateEnvironment_def validateExchange_def validateMarket_def normalizeVenueModes_def prepareDefaultBacktestVenues_def
      venueCredentials_def openCredential_def apiSecretFromCredentialJSON_def credentialWithKey_def Let_def
      split: option.split sum.split list.split)

lemma coded_bind [simp]: "coded_result r \<Longrightarrow> (\<And>x. coded_result (f x)) \<Longrightarrow> coded_result (bind_result r f)"
  by (cases r) simp_all

lemma coded_venue_reads [simp]: "coded_result (parsedCredentialForVenue env v validator)" "coded_result (readExchangeVenue env acc v)"
  by (auto simp: parsedCredentialForVenue_def readExchangeVenue_def Let_def split: sum.split)

lemma validateUsername_answers: "validateUsername u = Some e \<Longrightarrow> answer_error e"
  by (auto simp: validateUsername_def split: if_splits)

subsection \<open>The handlers\<close>

lemmas handler_answers = answers_rules answers_guarded

lemma helper_answers:
  "answers (requireIdle u acc)" "answers (account_of_venue u a)" "answers (idleVenue u v)" "answers (requireActiveSessionForAccount sid acc strat u)"
  unfolding requireIdle_def account_of_venue_def idleVenue_def requireActiveSessionForAccount_def Let_def
  by (intro handler_answers; simp)+

lemma ensureVenueCanAttachAccount_answers: "answers (ensureVenueCanAttachAccount u acc en)"
  unfolding ensureVenueCanAttachAccount_def by (intro handler_answers helper_answers; simp)

lemma user_answers: "answers (CreateUserRPC env n p)" "answers (VerifyUserPasswordRPC env n p)" "answers (GetUserRPC u)"
  unfolding CreateUserRPC_def VerifyUserPasswordRPC_def GetUserRPC_def Let_def
  by (intro handler_answers; simp add: validateUsername_answers)+

lemma account_answers:
  "answers (CreateAccountRPC env ca)" "answers (ListAccountsRPC u l k)" "answers (GetAccountRPC u a)" "answers (GetAccountMetaRPC a)"
  unfolding CreateAccountRPC_def ListAccountsRPC_def GetAccountRPC_def GetAccountMetaRPC_def Let_def
  by (intro handler_answers; simp)+

lemma venue_answers:
  "answers (CreateVenueRPC env cv)" "answers (ListVenuesRPC u acc b b' l k)" "answers (GetVenueRPC u v)" "answers (GetVenueOnlineInfoRPC env u v)"
  "answers (BindVenueRPC env u acc v reason)" "answers (ReleaseVenueRPC env u v reason)" "answers (ArchiveVenueRPC env u v reason)"
  "answers (GetVenueRouteMetaRPC env acc ex mk)"
  unfolding CreateVenueRPC_def checkCreateVenue_def storeNewVenue_def ListVenuesRPC_def GetVenueRPC_def GetVenueOnlineInfoRPC_def
    backtestVenueWallet_def BindVenueRPC_def ReleaseVenueRPC_def ArchiveVenueRPC_def GetVenueRouteMetaRPC_def Let_def
  by (intro handler_answers helper_answers ensureVenueCanAttachAccount_answers; simp)+

lemma strategy_answers:
  "answers (CreateStrategyRPC env cs)" "answers (ListStrategiesRPC u prefix act l k)" "answers (GetStrategyRPC u strat)"
  "answers (ArchiveStrategyRPC u strat)" "answers (MountStrategyRPC env u acc strat)" "answers (UnmountStrategyRPC u acc strat)"
  "answers (ActivateStrategyRPC u acc strat)" "answers (DeactivateStrategyRPC u acc strat)" "answers (ListAccountStrategiesRPC u acc)"
  "answers (GetActiveStrategyRPC acc)"
  unfolding CreateStrategyRPC_def ListStrategiesRPC_def GetStrategyRPC_def ArchiveStrategyRPC_def MountStrategyRPC_def UnmountStrategyRPC_def
    ActivateStrategyRPC_def DeactivateStrategyRPC_def ListAccountStrategiesRPC_def GetActiveStrategyRPC_def with_mount_def Let_def
  by (intro handler_answers; simp)+

lemma session_answers:
  "answers (PreflightStrategySessionRPC env pre)" "answers (SaveSessionRPC env save)" "answers (UpdateSessionRPC env sid st bars err rid)"
  "answers (GetSessionRPC u sid)" "answers (ListSessionsRPC filt)" "answers (ListRunningSessionsRPC rid)"
  "answers (MarkRuntimeSessionsRecoverableRPC env rid err)" "answers (ListSessionSnapshotsRPC u sid l k)"
  unfolding PreflightStrategySessionRPC_def checkRoute_def checkSymbol_def savePreflightFailedSession_def SaveSessionRPC_def UpdateSessionRPC_def
    GetSessionRPC_def ListSessionsRPC_def ListRunningSessionsRPC_def MarkRuntimeSessionsRecoverableRPC_def ListSessionSnapshotsRPC_def Let_def
  by (intro handler_answers; simp)+

lemma readPortfolioSnapshot_answers: "answers (readPortfolioSnapshot env account)"
  unfolding readPortfolioSnapshot_def readBacktestVenue_def by (intro handler_answers; simp)

lemma wallet_answers:
  "answers (GetPortfolioSnapshotRPC env u acc)" "answers (UpdatePortfolioSnapshotRPC env req)" "answers (UpdateAccountWalletStateRPC env req)"
  unfolding GetPortfolioSnapshotRPC_def UpdatePortfolioSnapshotRPC_def UpdateAccountWalletStateRPC_def updatedAccount_def saveUpdateSnapshot_def
    storeAccountInfo_def localVenueWalletSnapshotsFromWalletStateRequest_def updateBacktestVenueWalletStates_def
    updateVenueWalletStatesFromSnapshots_def Let_def
  by (intro handler_answers helper_answers readPortfolioSnapshot_answers; simp)+

lemma answered_answers: "answers m \<Longrightarrow> answers (answered m)"
  unfolding answered_def by (intro answers_rules) simp_all

subsection \<open>The error of a call\<close>

definition nullEnv :: AccountEnv where
  "nullEnv = homeEnv\<lparr>ae_creds := Some \<lparr>cm_Encrypt = Inr, cm_Decrypt = Inr, cm_KeyVersion = ''v1''\<rparr>, ae_registry := Some NewRegistry,
     ae_validator := (\<lambda>route. Inr (\<lambda>raw. Inl (Errorf ''unused''))), ae_snapshotReader := (\<lambda>route. Inr (\<lambda>req. Inl (Errorf ''unused'')))\<rparr>"

definition nullVenue :: CreateVenueRequest where
  "nullVenue = \<lparr>cv_UserId = 7, cv_AccountId = 1, cv_Exchange = 1, cv_Market = 2, cv_Environment = 1, cv_Status = 0, cv_DisplayName = [],
     cv_Description = [], cv_ApiKey = ''key'', cv_CredentialJson = ''null'', cv_MarginMode = 0, cv_PositionMode = 0,
     cv_Wallet = \<lparr>wp_Futures = None, wp_Spot = None, wp_TotalValue = 0, wp_WalletBalance = 0, wp_AvailableBalance = 0\<rparr>\<rparr>"

definition nullTables :: account_tables where
  "nullTables = foldl (\<lambda>t req. cn_tables (snd (account_call nullEnv req (connected t)))) empty_tables
     [Call_CreateAccount (homeAccount\<lparr>ca_Environment := 1\<rparr>), Call_CreateVenue nullVenue]"

text \<open>
  Every error of a call to the modelled part on the account tables is a gRPC status with a code of the service's choosing, whatever the environment, the
  request and the faults; the only other way a call ends is the panic of writing the key into the nil map of a venue credential that is
  a JSON null.  \<open>Service_Errors\<close> adds the calls on the notifications, the audit lists and the symbols.
\<close>

lemma account_call_answers: "answers (account_call env req)"
  by (cases req) (simp_all add: answered_answers user_answers account_answers venue_answers strategy_answers session_answers wallet_answers)

lemma null_credential_panics:
  "\<exists>e c'. account_call nullEnv (Call_GetPortfolioSnapshot 7 1) (connected nullTables) = (Inl e, c') \<and> \<not> is_status e"
proof -
  have "case fst (account_call nullEnv (Call_GetPortfolioSnapshot 7 1) (connected nullTables)) of Inl e \<Rightarrow> \<not> is_status e | Inr u \<Rightarrow> False"
    by code_simp
  then show ?thesis
    by (cases "account_call nullEnv (Call_GetPortfolioSnapshot 7 1) (connected nullTables)"; cases "fst (account_call nullEnv (Call_GetPortfolioSnapshot 7 1) (connected nullTables))") auto
qed

end
