(* ===== verification/Audit_Log.thy ===== *)
theory Audit_Log
  imports Session_Service Reconciliation "HOL-Library.List_Lexorder" "HOL-Library.Char_ord"
begin

text \<open>
  The audit lists of a session.  The reconciliation runs have a table of their own
  (\<^verbatim>\<open>reconciliation_runs\<close>): saving a run, listing the runs of a session page by page, and their summary.  A client
  reads a list by following the offset of the next page; the locale \<open>audit_list\<close> states what a page has to be for
  this to end with every row exactly once, and both lists of the service are instances of it.
\<close>

subsection \<open>Reconciliation runs\<close>

record run_row =
  ru_run_id :: string
  ru_run :: ReconciliationRun

record audit_tables =
  au_runs :: "run_row list"

type_synonym 'a audb = "(audit_tables, 'a) sqlm"

definition info_floats :: "OnlineAccountInfo \<Rightarrow> float64 list" where
  "info_floats i = futures_floats (oai_Futures i) @ spot_floats (oai_Spot i) @ [oai_TotalValue i, oai_WalletBalance i, oai_AvailableBalance i]"

definition diff_floats :: "FieldDiff \<Rightarrow> float64 list" where
  "diff_floats d = [df_Exchange d, df_Local d, df_DiffAbs d, df_DiffRatio d]
     @ List.map_filter (\<lambda>(k, v). case v of Num x \<Rightarrow> Some x | Text s \<Rightarrow> None) (df_Threshold d)"

definition account_diff_floats :: "ReconciliationRun \<Rightarrow> float64 list" where
  "account_diff_floats r = info_floats (rn_ExchangeSnapshot r) @ info_floats (rn_LocalSnapshot r)
     @ concat (map diff_floats (rn_FieldDiffs r @ rn_AdvisoryDiffs r))"

definition venue_diff_floats :: "VenueReconciliationDiff \<Rightarrow> float64 list" where
  "venue_diff_floats d = info_floats (vd_ExchangeSnapshot d) @ info_floats (vd_LocalSnapshot d)
     @ concat (map diff_floats (vd_FieldDiffs d @ vd_AdvisoryDiffs d))"

definition json_error :: "float64 list \<Rightarrow> error option" where
  "json_error xs = (case filter (\<lambda>x. \<not> finite64 x) xs of
     [] \<Rightarrow> None | x # _ \<Rightarrow> Some (Errorf (''json: unsupported value: '' @ unsupported_text x)))"

text \<open>The column of the session has a NOT NULL constraint, and the code writes NULL for a run without a session.\<close>

definition not_null_violation :: error where
  "not_null_violation = Errorf ''pq: null value in column session_id violates not-null constraint''"

definition insert_run :: "run_row \<Rightarrow> audit_tables \<Rightarrow> unit result \<times> audit_tables" where
  "insert_run r t =
     (if rn_SessionID (ru_run r) = [] then (Inl not_null_violation, t)
      else if \<exists>q\<in>set (au_runs t). rn_Time (ru_run q) = rn_Time (ru_run r) \<and> ru_run_id q = ru_run_id r
        then (Inl (unique_violation ''reconciliation_runs_pkey''), t)
      else (Inr (), t\<lparr>au_runs := au_runs t @ [r]\<rparr>))"

definition stored_run :: "time \<Rightarrow> string \<Rightarrow> string \<Rightarrow> ReconciliationRun \<Rightarrow> run_row" where
  "stored_run now newID runID run = \<lparr>ru_run_id = text_or (trim_space runID) newID,
     ru_run = run\<lparr>rn_Time := or_now (rn_Time run) now,
       rn_Environment := (if rn_Environment run \<notin> {EnvironmentDemo, EnvironmentLive} then EnvironmentBacktest else rn_Environment run)\<rparr>\<rparr>"

definition SaveReconciliationRun :: "time \<Rightarrow> string \<Rightarrow> string \<Rightarrow> ReconciliationRun \<Rightarrow> unit audb" where
  "SaveReconciliationRun now newID runID run =
     (case json_error (account_diff_floats run) of Some e \<Rightarrow> return_sql (Inl (Wrapf ''marshal account_diff_json: '' e))
      | None \<Rightarrow> (case json_error (concat (map venue_diff_floats (rn_VenueDiffs run))) of
            Some e \<Rightarrow> return_sql (Inl (Wrapf ''marshal venue_diffs_json: '' e))
          | None \<Rightarrow> exec_sql (insert_run (stored_run now newID runID run))))"

definition runs_of :: "int \<Rightarrow> string \<Rightarrow> audit_tables \<Rightarrow> run_row list" where
  "runs_of userID sessionID t = filter (\<lambda>r. rn_UserID (ru_run r) = userID \<and> rn_SessionID (ru_run r) = sessionID) (au_runs t)"

text \<open>Newest first, and by descending id among runs of the same time.\<close>

definition session_runs :: "int \<Rightarrow> string \<Rightarrow> audit_tables \<Rightarrow> run_row list" where
  "session_runs userID sessionID t = rev (sort_key (\<lambda>r. (rn_Time (ru_run r), ru_run_id r)) (runs_of userID sessionID t))"

definition ListReconciliationRuns :: "string \<Rightarrow> int \<Rightarrow> int \<Rightarrow> int \<Rightarrow> (run_row list \<times> int \<times> bool) audb" where
  "ListReconciliationRuns sessionID userID limit offset =
     (let l = (if limit \<le> 0 then 20 else limit); o' = (if offset < 0 then 0 else offset) in
      then_sql (map_error (Wrapf ''query reconciliation runs: '') (query_sql (\<lambda>t. take (nat (l + 1)) (drop (nat o') (session_runs userID sessionID t))))) (\<lambda>rows.
      then_sql (map_error (Wrapf ''count reconciliation runs: '') (query_sql (\<lambda>t. int (length (runs_of userID sessionID t))))) (\<lambda>total.
      return_sql (Inr (take (nat l) rows, total, l < int (length rows))))))"

definition GetSessionReconciliationSummary :: "string \<Rightarrow> int \<Rightarrow> (int \<times> int \<times> int) audb" where
  "GetSessionReconciliationSummary sessionID userID =
     map_error (Wrapf ''scan reconciliation summary: '') (query_sql (\<lambda>t. let rows = map ru_run (runs_of userID sessionID t) in
       (int (length rows), int (length (filter (\<lambda>r. \<not> rn_HardPass r) rows)), int (length (filter (\<lambda>r. \<not> rn_SoftPass r) rows)))))"

definition ListReconciliationRunsRPC :: "int \<Rightarrow> string \<Rightarrow> int \<Rightarrow> int \<Rightarrow> run_row audit_page audb" where
  "ListReconciliationRunsRPC userID sessionID rawLimit rawOffset = for_user userID (
     invalid (sessionID = []) ''session_id is required'' (
     let limit = clampAuditListLimit rawLimit; offset = clampAuditListOffset rawOffset in
     then_sql (map_error (coded Internal ''list reconciliation runs: '') (ListReconciliationRuns sessionID userID limit offset)) (\<lambda>(rows, total, hasMore).
     return_sql (Inr \<lparr>ap_Items = rows, ap_NextOffset = int32_of (offset + int (length rows)), ap_HasMore = hasMore, ap_Total = total\<rparr>))))"

definition GetSessionReconciliationSummaryRPC :: "int \<Rightarrow> string \<Rightarrow> (int \<times> int \<times> int) audb" where
  "GetSessionReconciliationSummaryRPC userID sessionID = for_user userID (
     invalid (sessionID = []) ''session_id is required'' (
     map_error (coded Internal ''session reconciliation summary: '') (GetSessionReconciliationSummary sessionID userID)))"

subsection \<open>Following the pages\<close>

text \<open>The client of an audit list: it asks for the page at an offset and goes on at the next offset while there is more.\<close>

partial_function (option) follow_pages :: "(int \<Rightarrow> 'a audit_page result) \<Rightarrow> int \<Rightarrow> 'a list option" where
  "follow_pages ask offset = (case ask offset of Inl e \<Rightarrow> Some []
     | Inr p \<Rightarrow> if ap_HasMore p then Option.bind (follow_pages ask (ap_NextOffset p)) (\<lambda>rest. Some (ap_Items p @ rest)) else Some (ap_Items p))"

definition audit_page_of :: "'a list \<Rightarrow> int \<Rightarrow> int \<Rightarrow> 'a audit_page" where
  "audit_page_of rows limit offset = (let items = take (nat limit) (drop (nat offset) rows) in
     \<lparr>ap_Items = items, ap_NextOffset = int32_of (offset + int (length items)), ap_HasMore = offset + limit < int (length rows),
      ap_Total = int (length rows)\<rparr>)"

lemma int32_of_small: "0 \<le> i \<Longrightarrow> i < 2 ^ 31 \<Longrightarrow> int32_of i = i"
  unfolding int32_of_def by (rule signed_take_bit_int_eq_self) simp_all

locale audit_list =
  fixes rows :: "'q \<Rightarrow> 'a list" and ask :: "'q \<Rightarrow> int \<Rightarrow> int \<Rightarrow> 'a audit_page result" and valid :: "'q \<Rightarrow> bool"
  assumes page: "valid q \<Longrightarrow> 0 \<le> offset \<Longrightarrow> ask q limit offset = Inr (audit_page_of (rows q) (clampAuditListLimit limit) offset)"
begin

lemma limit_pos: "0 < clampAuditListLimit limit"
  by (simp add: clampAuditListLimit_def)

lemma follow_from:
  assumes "valid q" "0 \<le> offset" "offset \<le> int (length (rows q))" "int (length (rows q)) < 2 ^ 31"
  shows "follow_pages (ask q limit) offset = Some (drop (nat offset) (rows q))"
  using assms(2,3)
proof (induction "length (rows q) - nat offset" arbitrary: offset rule: less_induct)
  case less
  let ?l = "clampAuditListLimit limit"
  let ?p = "audit_page_of (rows q) ?l offset"
  have p: "ask q limit offset = Inr ?p" by (rule page [OF assms(1) less.prems(1)])
  show ?case
  proof (cases "offset + ?l < int (length (rows q))")
    case False
    then have "drop (nat offset) (rows q) = ap_Items ?p" using less.prems by (simp add: audit_page_of_def Let_def)
    then show ?thesis using False by (subst follow_pages.simps) (simp add: p audit_page_of_def Let_def)
  next
    case True
    have items: "ap_Items ?p = take (nat ?l) (drop (nat offset) (rows q))" by (simp add: audit_page_of_def Let_def)
    then have "int (length (ap_Items ?p)) = ?l" using True less.prems limit_pos [of limit] by simp
    then have nxt: "ap_NextOffset ?p = offset + ?l"
      using True less.prems assms(4) limit_pos [of limit] by (simp add: audit_page_of_def Let_def int32_of_small)
    have "follow_pages (ask q limit) (offset + ?l) = Some (drop (nat (offset + ?l)) (rows q))"
      by (rule less.hyps) (use True less.prems limit_pos [of limit] in auto)
    then have "follow_pages (ask q limit) offset = Some (ap_Items ?p @ drop (nat (offset + ?l)) (rows q))"
      using True by (subst follow_pages.simps) (simp add: p nxt, simp add: audit_page_of_def Let_def)
    also have "ap_Items ?p @ drop (nat (offset + ?l)) (rows q) = drop (nat offset) (rows q)"
    proof -
      have "drop (nat (offset + ?l)) (rows q) = drop (nat ?l) (drop (nat offset) (rows q))"
        using less.prems limit_pos [of limit] by (simp add: nat_add_distrib add.commute)
      then show ?thesis unfolding items by (simp only: append_take_drop_id)
    qed
    finally show ?thesis .
  qed
qed

text \<open>Every row once, in order, after finitely many pages.\<close>

lemma follow_all: "valid q \<Longrightarrow> int (length (rows q)) < 2 ^ 31 \<Longrightarrow> follow_pages (ask q limit) 0 = Some (rows q)"
  using follow_from [of q 0 limit] by simp

end

subsection \<open>The two lists\<close>

lemma query_connected: "query_sql f (connected t) = (Inr (f t), connected t)"
  by (simp add: query_sql_def exec_sql_def take_fault_def connected_def)

lemma clamped: "0 < clampAuditListLimit limit" "0 \<le> offset \<Longrightarrow> clampAuditListOffset offset = offset"
  by (simp_all add: clampAuditListLimit_def clampAuditListOffset_def)

text \<open>One row more than the page decides whether there is another page.\<close>

lemma page_cut:
  "0 < l \<Longrightarrow> min (nat l) (nat (l + 1)) = nat l"
  "0 < l \<Longrightarrow> 0 \<le> k \<Longrightarrow> l < int (min (n - nat k) (nat (l + 1))) \<longleftrightarrow> k + l < int n"
  by auto

lemma ListSessionSnapshots_page:
  "0 < l \<Longrightarrow> 0 \<le> k \<Longrightarrow> ListSessionSnapshots sid u l k (connected t) = (Inr (take (nat l) (drop (nat k) (session_snapshots sid u t)),
     int (length (session_snapshots sid u t)), k + l < int (length (session_snapshots sid u t))), connected t)"
  by (simp add: ListSessionSnapshots_def then_sql_def query_connected return_sql_def page_cut)

lemma length_session_runs [simp]: "length (session_runs u sid t) = length (runs_of u sid t)"
  by (simp add: session_runs_def)

lemma ListReconciliationRuns_page:
  "0 < l \<Longrightarrow> 0 \<le> k \<Longrightarrow> ListReconciliationRuns sid u l k (connected t) = (Inr (take (nat l) (drop (nat k) (session_runs u sid t)),
     int (length (session_runs u sid t)), k + l < int (length (session_runs u sid t))), connected t)"
  by (simp add: ListReconciliationRuns_def then_sql_def map_error_def query_connected return_sql_def page_cut)

definition snapshots_asked :: "int \<times> string \<times> account_tables \<Rightarrow> int \<Rightarrow> int \<Rightarrow> SnapshotRow audit_page result" where
  "snapshots_asked q limit offset = (case q of (u, sid, t) \<Rightarrow> fst (ListSessionSnapshotsRPC u sid limit offset (connected t)))"

definition runs_asked :: "int \<times> string \<times> audit_tables \<Rightarrow> int \<Rightarrow> int \<Rightarrow> run_row audit_page result" where
  "runs_asked q limit offset = (case q of (u, sid, t) \<Rightarrow> fst (ListReconciliationRunsRPC u sid limit offset (connected t)))"

definition asked_rightly :: "int \<times> string \<times> 't \<Rightarrow> bool" where
  "asked_rightly q = (case q of (u, sid, t) \<Rightarrow> 0 < u \<and> sid \<noteq> [])"

lemmas audit_defs = asked_rightly_def for_user_def requireUserID_def guarded_def invalid_def Let_def then_sql_def map_error_def
  return_sql_def audit_page_of_def clamped

interpretation snapshot_list: audit_list "\<lambda>(u, sid, t). session_snapshots sid u t" snapshots_asked asked_rightly
proof (unfold_locales, goal_cases)
  case (1 q offset limit)
  then show ?case using clamped(1) [of limit]
    by (cases q) (simp add: snapshots_asked_def ListSessionSnapshotsRPC_def ListSessionSnapshots_page audit_defs)
qed

interpretation run_list: audit_list "\<lambda>(u, sid, t). session_runs u sid t" runs_asked asked_rightly
proof (unfold_locales, goal_cases)
  case (1 q offset limit)
  then show ?case using clamped(1) [of limit]
    by (cases q) (simp add: runs_asked_def ListReconciliationRunsRPC_def ListReconciliationRuns_page audit_defs)
qed



definition run_json_ok :: "ReconciliationRun \<Rightarrow> bool" where
  "run_json_ok run = (json_error (account_diff_floats run) = None \<and> json_error (concat (map venue_diff_floats (rn_VenueDiffs run))) = None)"

lemma SaveReconciliationRun_result:
  "SaveReconciliationRun now newID runID run (connected t) =
     (if \<not> run_json_ok run then (Inl (case json_error (account_diff_floats run) of Some e \<Rightarrow> Wrapf ''marshal account_diff_json: '' e
        | None \<Rightarrow> Wrapf ''marshal venue_diffs_json: '' (the (json_error (concat (map venue_diff_floats (rn_VenueDiffs run)))))), connected t)
      else map_prod id connected (insert_run (stored_run now newID runID run) t))"
  by (auto simp: SaveReconciliationRun_def run_json_ok_def return_sql_def exec_sql_def take_fault_def connected_def split: option.split prod.split)

lemma session_runs_filter: "length (filter P (session_runs u sid t)) = length (filter P (runs_of u sid t))"
  by (simp add: session_runs_def filter_sort flip: rev_filter)

lemma stored_run_fields [simp]:
  "rn_SessionID (ru_run (stored_run now newID runID run)) = rn_SessionID run" "rn_UserID (ru_run (stored_run now newID runID run)) = rn_UserID run"
  "rn_Time (ru_run (stored_run now newID runID run)) = or_now (rn_Time run) now"
  "ru_run_id (stored_run now newID runID run) = text_or (trim_space runID) newID"
  by (simp_all add: stored_run_def)

lemma stored_run_listed:
  "stored_run now newID runID run \<in> set (session_runs (rn_UserID run) (rn_SessionID run) (t\<lparr>au_runs := au_runs t @ [stored_run now newID runID run]\<rparr>))"
  by (simp add: session_runs_def runs_of_def)

lemma all_runs_listed:
  "fst (ListReconciliationRuns sid u (int (length (au_runs t))) 0 (connected t)) = Inr (session_runs u sid t, int (length (session_runs u sid t)), False)"
  if "au_runs t \<noteq> []"
  using that length_filter_le [of _ "au_runs t"] by (simp add: ListReconciliationRuns_page runs_of_def not_less)

lemma summary_counts:
  "fst (GetSessionReconciliationSummary sid u (connected t)) = Inr (int (length (session_runs u sid t)),
     int (length (filter (\<lambda>q. \<not> rn_HardPass (ru_run q)) (session_runs u sid t))), int (length (filter (\<lambda>q. \<not> rn_SoftPass (ru_run q)) (session_runs u sid t))))"
  by (simp add: GetSessionReconciliationSummary_def map_error_def query_connected Let_def session_runs_filter filter_map o_def)

text \<open>
  C37.  A reconciliation run is stored if and only if its wallets and differences have a JSON encoding, it names a session, and no run
  of the same time and id is stored; then it is listed for its user and session with its verdicts, and the summary counts it.  A run without a session,
  which the reconciliation produces for a wallet update without one, is therefore always lost.
\<close>

theorem SaveReconciliationRun_lists:
  assumes "SaveReconciliationRun now newID runID run (connected t) = (r, c)"
  shows "((\<exists>u. r = Inr u) \<longleftrightarrow> run_json_ok run \<and> rn_SessionID run \<noteq> []
      \<and> (\<forall>q\<in>set (au_runs t). (rn_Time (ru_run q), ru_run_id q) \<noteq> (or_now (rn_Time run) now, text_or (trim_space runID) newID)))
    \<and> (if \<exists>u. r = Inr u
       then \<exists>rows. fst (ListReconciliationRuns (rn_SessionID run) (rn_UserID run) (int (length (au_runs t)) + 1) 0 c) = Inr (rows, int (length rows), False)
         \<and> stored_run now newID runID run \<in> set rows
         \<and> fst (GetSessionReconciliationSummary (rn_SessionID run) (rn_UserID run) c) =
             Inr (int (length rows), int (length (filter (\<lambda>q. \<not> rn_HardPass (ru_run q)) rows)), int (length (filter (\<lambda>q. \<not> rn_SoftPass (ru_run q)) rows)))
       else cn_tables c = t)"
proof -
  let ?row = "stored_run now newID runID run"
  let ?stored = "run_json_ok run \<and> rn_SessionID run \<noteq> []
      \<and> (\<forall>q\<in>set (au_runs t). (rn_Time (ru_run q), ru_run_id q) \<noteq> (or_now (rn_Time run) now, text_or (trim_space runID) newID))"
  show ?thesis
  proof (cases ?stored)
    case True
    then have "\<not> (\<exists>q\<in>set (au_runs t). rn_Time (ru_run q) = or_now (rn_Time run) now \<and> ru_run_id q = text_or (trim_space runID) newID)" by auto
    then have "insert_run ?row t = (Inr (), t\<lparr>au_runs := au_runs t @ [?row]\<rparr>)" using True by (simp add: insert_run_def)
    then have res: "r = Inr ()" "c = connected (t\<lparr>au_runs := au_runs t @ [?row]\<rparr>)"
      using assms True unfolding SaveReconciliationRun_result by simp_all
    let ?t = "t\<lparr>au_runs := au_runs t @ [?row]\<rparr>"
    have "fst (ListReconciliationRuns (rn_SessionID run) (rn_UserID run) (int (length (au_runs t)) + 1) 0 c)
        = Inr (session_runs (rn_UserID run) (rn_SessionID run) ?t, int (length (session_runs (rn_UserID run) (rn_SessionID run) ?t)), False)"
      using all_runs_listed [of ?t "rn_SessionID run" "rn_UserID run"] by (simp add: res(2) add.commute)
    moreover have "\<exists>u. r = Inr u" using res(1) by simp
    ultimately show ?thesis
      using True summary_counts [of "rn_SessionID run" "rn_UserID run" ?t] stored_run_listed [of now newID runID run t]
      unfolding res(2) by (auto intro!: exI [of _ "session_runs (rn_UserID run) (rn_SessionID run) ?t"])
  next
    case False
    then have "(\<exists>e. r = Inl e) \<and> cn_tables c = t"
      using assms unfolding SaveReconciliationRun_result by (auto simp: insert_run_def connected_def split: if_splits)
    then show ?thesis using False by auto
  qed
qed

definition sampleRun :: ReconciliationRun where
  "sampleRun = \<lparr>rn_Time = 5, rn_AccountID = 1, rn_UserID = 7, rn_SessionID = ''s1'', rn_StrategyID = 0, rn_Environment = 1, rn_SnapshotReason = 4,
     rn_RunType = ''event'', rn_ExchangeSnapshot = zero_OnlineAccountInfo, rn_LocalSnapshot = zero_OnlineAccountInfo, rn_VenueDiffs = [],
     rn_FieldDiffs = [], rn_AdvisoryDiffs = [], rn_HardPass = False, rn_SoftPass = True\<rparr>"

lemma SaveReconciliationRun_lists_witness:
  "(\<exists>u c. SaveReconciliationRun 9 ''u1'' [] sampleRun (connected \<lparr>au_runs = []\<rparr>) = (Inr u, c))
   \<and> (\<exists>e c. SaveReconciliationRun 9 ''u1'' [] (sampleRun\<lparr>rn_SessionID := []\<rparr>) (connected \<lparr>au_runs = []\<rparr>) = (Inl e, c) \<and> cn_tables c = \<lparr>au_runs = []\<rparr>)"
proof -
  obtain r c r' c' where runs: "SaveReconciliationRun 9 ''u1'' [] sampleRun (connected \<lparr>au_runs = []\<rparr>) = (r, c)"
      "SaveReconciliationRun 9 ''u1'' [] (sampleRun\<lparr>rn_SessionID := []\<rparr>) (connected \<lparr>au_runs = []\<rparr>) = (r', c')"
    by fastforce
  have json: "run_json_ok sampleRun" by code_simp
  show ?thesis
    using runs json SaveReconciliationRun_lists [OF runs(1)] SaveReconciliationRun_lists [OF runs(2)]
    by (cases r; cases r') (simp_all add: sampleRun_def)
qed

end
