(* ===== verification/Notification_Store.thy ===== *)
theory Notification_Store
  imports Account_Repository
begin

text \<open>
  The store of the notification settings of a user (\<^verbatim>\<open>notification_settings\<close>), of the channels they are
  sent on (\<^verbatim>\<open>notification_channels\<close>) and of the plans that allow them (\<^verbatim>\<open>notification_plans\<close>):
  the rows with their NULLs, the constraints of the migrations, and the operations of \<^verbatim>\<open>internal/repository/timescale.go\<close>.
\<close>

subsection \<open>Values\<close>

definition ChannelTelegram :: string where "ChannelTelegram = ''telegram''"

definition StatusUnbound :: string where "StatusUnbound = ''unbound''"
definition StatusPending :: string where "StatusPending = ''pending''"
definition StatusBound :: string where "StatusBound = ''bound''"
definition StatusRevoked :: string where "StatusRevoked = ''revoked''"

record NotificationSettings =
  nf_UserID :: int
  nf_Enabled :: bool
  nf_SystemEnabled :: bool
  nf_StrategyEnabled :: bool
  nf_CustomEnabled :: bool
  nf_LastDeliveryStatus :: string
  nf_LastDeliveryError :: string
  nf_LastDeliveryAt :: "time option"
  nf_LastTestMessageAt :: "time option"
  nf_CreatedAt :: time
  nf_UpdatedAt :: time

record NotificationChannel =
  nc_ID :: int
  nc_UserID :: int
  nc_Channel :: string
  nc_Status :: string
  nc_TargetID :: string
  nc_TargetType :: string
  nc_TargetLabel :: string
  nc_BindCodeHash :: string
  nc_BindCodeExpiresAt :: "time option"
  nc_BoundAt :: "time option"
  nc_RevokedAt :: "time option"
  nc_LastDeliveryStatus :: string
  nc_LastDeliveryError :: string
  nc_LastDeliveryAt :: "time option"
  nc_CreatedAt :: time
  nc_UpdatedAt :: time

record NotificationPlan =
  np_PlanCode :: string
  np_NotificationEnabled :: bool
  np_AllowSystem :: bool
  np_AllowStrategy :: bool
  np_AllowCustom :: bool
  np_CustomRateLimitPerMinute :: int
  np_CustomRateLimitBurst :: int
  np_UpdatedAt :: time

subsection \<open>Rows\<close>

record settings_row =
  se_user_id :: int
  se_enabled :: bool
  se_system_enabled :: bool
  se_strategy_enabled :: bool
  se_custom_enabled :: bool
  se_last_delivery_status :: "string option"
  se_last_delivery_error :: "string option"
  se_last_delivery_at :: "time option"
  se_last_test_message_at :: "time option"
  se_created_at :: time
  se_updated_at :: time

record channel_row =
  ch_id :: int
  ch_user_id :: int
  ch_channel :: string
  ch_status :: string
  ch_target_id :: "string option"
  ch_target_type :: "string option"
  ch_target_label :: "string option"
  ch_bind_code_hash :: "string option"
  ch_bind_code_expires_at :: "time option"
  ch_bound_at :: "time option"
  ch_revoked_at :: "time option"
  ch_last_delivery_status :: "string option"
  ch_last_delivery_error :: "string option"
  ch_last_delivery_at :: "time option"
  ch_created_at :: time
  ch_updated_at :: time

record notice_tables =
  nt_accounts :: account_tables
  nt_settings :: "settings_row list"
  nt_channels :: "channel_row list"
  nt_plans :: "NotificationPlan list"
  nt_next_channel :: int

type_synonym 'a ndb = "(notice_tables, 'a) sqlm"

text \<open>A statement on the tables of the accounts, which stand in the same database.\<close>

definition on_accounts :: "'a adb \<Rightarrow> 'a ndb" where
  "on_accounts m c = (case m \<lparr>cn_tables = nt_accounts (cn_tables c), cn_faults = cn_faults c\<rparr> of
     (r, d) \<Rightarrow> (r, \<lparr>cn_tables = (cn_tables c)\<lparr>nt_accounts := cn_tables d\<rparr>, cn_faults = cn_faults d\<rparr>))"

definition nullString :: "string option \<Rightarrow> string" where
  "nullString v = (case v of Some s \<Rightarrow> s | None \<Rightarrow> [])"

definition scanNotificationSettings :: "settings_row \<Rightarrow> NotificationSettings" where
  "scanNotificationSettings r = \<lparr>nf_UserID = se_user_id r, nf_Enabled = se_enabled r, nf_SystemEnabled = se_system_enabled r,
     nf_StrategyEnabled = se_strategy_enabled r, nf_CustomEnabled = se_custom_enabled r,
     nf_LastDeliveryStatus = nullString (se_last_delivery_status r), nf_LastDeliveryError = nullString (se_last_delivery_error r),
     nf_LastDeliveryAt = se_last_delivery_at r, nf_LastTestMessageAt = se_last_test_message_at r,
     nf_CreatedAt = se_created_at r, nf_UpdatedAt = se_updated_at r\<rparr>"

definition scanNotificationChannel :: "channel_row \<Rightarrow> NotificationChannel" where
  "scanNotificationChannel r = \<lparr>nc_ID = ch_id r, nc_UserID = ch_user_id r, nc_Channel = ch_channel r, nc_Status = ch_status r,
     nc_TargetID = nullString (ch_target_id r), nc_TargetType = nullString (ch_target_type r), nc_TargetLabel = nullString (ch_target_label r),
     nc_BindCodeHash = nullString (ch_bind_code_hash r), nc_BindCodeExpiresAt = ch_bind_code_expires_at r, nc_BoundAt = ch_bound_at r,
     nc_RevokedAt = ch_revoked_at r, nc_LastDeliveryStatus = nullString (ch_last_delivery_status r),
     nc_LastDeliveryError = nullString (ch_last_delivery_error r), nc_LastDeliveryAt = ch_last_delivery_at r,
     nc_CreatedAt = ch_created_at r, nc_UpdatedAt = ch_updated_at r\<rparr>"

text \<open>The first row of a query, or the error of the repository that there is none.\<close>

definition fetch_row :: "(notice_tables \<Rightarrow> 'a list) \<Rightarrow> 'a ndb" where
  "fetch_row rows = then_sql (query_sql rows) (\<lambda>rs. return_sql (first_or_not_found rs))"

text \<open>The value read, a default where there is no row, and every other error as it is.\<close>

definition or_default :: "'a \<Rightarrow> 'a ndb \<Rightarrow> 'a ndb" where
  "or_default d m = handle_sql m (\<lambda>r. return_sql (case r of Inl e \<Rightarrow> if e = RepoNotFound then Inr d else Inl e | Inr x \<Rightarrow> Inr x))"

subsection \<open>Settings\<close>

definition defaultNotificationSettings :: "int \<Rightarrow> NotificationSettings" where
  "defaultNotificationSettings userID = \<lparr>nf_UserID = userID, nf_Enabled = True, nf_SystemEnabled = True, nf_StrategyEnabled = True,
     nf_CustomEnabled = True, nf_LastDeliveryStatus = [], nf_LastDeliveryError = [], nf_LastDeliveryAt = None, nf_LastTestMessageAt = None,
     nf_CreatedAt = 0, nf_UpdatedAt = 0\<rparr>"

definition GetNotificationSettings :: "int \<Rightarrow> NotificationSettings ndb" where
  "GetNotificationSettings userID = or_default (defaultNotificationSettings userID)
     (fetch_row (\<lambda>t. map scanNotificationSettings (filter (\<lambda>r. se_user_id r = userID) (nt_settings t))))"

definition user_known :: "int \<Rightarrow> notice_tables \<Rightarrow> bool" where
  "user_known userID t = list_ex (\<lambda>u. us_ID u = userID) (tb_users (nt_accounts t))"

definition upsert_settings :: "settings_row \<Rightarrow> (settings_row \<Rightarrow> settings_row) \<Rightarrow> notice_tables \<Rightarrow> settings_row result \<times> notice_tables" where
  "upsert_settings new change t =
     (case filter (\<lambda>r. se_user_id r = se_user_id new) (nt_settings t) of
        r # _ \<Rightarrow> (Inr (change r), t\<lparr>nt_settings := map (\<lambda>q. if se_user_id q = se_user_id new then change q else q) (nt_settings t)\<rparr>)
      | [] \<Rightarrow> if user_known (se_user_id new) t then (Inr new, t\<lparr>nt_settings := nt_settings t @ [new]\<rparr>)
              else (Inl (fk_violation ''notification_settings_user_id_fkey''), t))"

definition UpsertNotificationSettings :: "time \<Rightarrow> NotificationSettings \<Rightarrow> NotificationSettings ndb" where
  "UpsertNotificationSettings now s =
     then_sql (exec_sql (upsert_settings
        \<lparr>se_user_id = nf_UserID s, se_enabled = nf_Enabled s, se_system_enabled = nf_SystemEnabled s, se_strategy_enabled = nf_StrategyEnabled s,
           se_custom_enabled = nf_CustomEnabled s, se_last_delivery_status = None, se_last_delivery_error = None, se_last_delivery_at = None,
           se_last_test_message_at = None, se_created_at = now, se_updated_at = now\<rparr>
        (\<lambda>r. r\<lparr>se_enabled := nf_Enabled s, se_system_enabled := nf_SystemEnabled s, se_strategy_enabled := nf_StrategyEnabled s,
           se_custom_enabled := nf_CustomEnabled s, se_updated_at := now\<rparr>)))
     (\<lambda>r. return_sql (Inr (scanNotificationSettings r)))"

subsection \<open>Channels\<close>

definition normalizeNotificationChannel :: "string \<Rightarrow> string" where
  "normalizeNotificationChannel channel = (let ch = to_lower (trim_space channel) in if ch = [] then ChannelTelegram else ch)"

definition defaultNotificationChannel :: "int \<Rightarrow> string \<Rightarrow> NotificationChannel" where
  "defaultNotificationChannel userID channel = \<lparr>nc_ID = 0, nc_UserID = userID,
     nc_Channel = (if trim_space channel = [] then ChannelTelegram else channel), nc_Status = StatusUnbound, nc_TargetID = [], nc_TargetType = [],
     nc_TargetLabel = [], nc_BindCodeHash = [], nc_BindCodeExpiresAt = None, nc_BoundAt = None, nc_RevokedAt = None,
     nc_LastDeliveryStatus = [], nc_LastDeliveryError = [], nc_LastDeliveryAt = None, nc_CreatedAt = 0, nc_UpdatedAt = 0\<rparr>"

definition GetNotificationChannel :: "int \<Rightarrow> string \<Rightarrow> NotificationChannel ndb" where
  "GetNotificationChannel userID channel = (let ch = normalizeNotificationChannel channel in
     or_default (defaultNotificationChannel userID ch)
       (fetch_row (\<lambda>t. map scanNotificationChannel (filter (\<lambda>r. ch_user_id r = userID \<and> ch_channel r = ch) (nt_channels t)))))"

text \<open>The rows a bind code names at a time, the one that expires last first.\<close>

definition code_rows :: "string \<Rightarrow> time \<Rightarrow> notice_tables \<Rightarrow> channel_row list" where
  "code_rows codeHash now t = sort_key (\<lambda>r. case ch_bind_code_expires_at r of Some e \<Rightarrow> - e | None \<Rightarrow> 0)
     (filter (\<lambda>r. ch_bind_code_hash r = Some codeHash \<and> (case ch_bind_code_expires_at r of None \<Rightarrow> False | Some e \<Rightarrow> now < e)
        \<and> ch_status r \<in> {StatusPending, StatusBound}) (nt_channels t))"

definition FindNotificationChannelByBindCodeHash :: "string \<Rightarrow> time \<Rightarrow> NotificationChannel ndb" where
  "FindNotificationChannelByBindCodeHash codeHash now = fetch_row (\<lambda>t. map scanNotificationChannel (code_rows codeHash now t))"

text \<open>
  An insert of a channel that changes the row of the same user and channel if there is one.  The check of the channel's name comes
  first; the number of the row is drawn from its sequence in any case.
\<close>

definition upsert_channel :: "channel_row \<Rightarrow> (channel_row \<Rightarrow> channel_row) \<Rightarrow> notice_tables \<Rightarrow> channel_row result \<times> notice_tables" where
  "upsert_channel new change t =
     (let same = (\<lambda>r. ch_user_id r = ch_user_id new \<and> ch_channel r = ch_channel new);
          row = new\<lparr>ch_id := nt_next_channel t\<rparr>; t' = t\<lparr>nt_next_channel := nt_next_channel t + 1\<rparr>
      in if ch_channel new \<noteq> ChannelTelegram then (Inl (check_violation ''notification_channels_channel_check''), t')
         else case filter same (nt_channels t) of
           r # _ \<Rightarrow> (Inr (change r), t'\<lparr>nt_channels := map (\<lambda>q. if same q then change q else q) (nt_channels t)\<rparr>)
         | [] \<Rightarrow> if user_known (ch_user_id new) t then (Inr row, t'\<lparr>nt_channels := nt_channels t @ [row]\<rparr>)
                 else (Inl (fk_violation ''notification_channels_user_id_fkey''), t'))"

definition new_channel :: "time \<Rightarrow> int \<Rightarrow> string \<Rightarrow> string \<Rightarrow> channel_row" where
  "new_channel now userID channel status = \<lparr>ch_id = 0, ch_user_id = userID, ch_channel = channel, ch_status = status, ch_target_id = None,
     ch_target_type = None, ch_target_label = None, ch_bind_code_hash = None, ch_bind_code_expires_at = None, ch_bound_at = None,
     ch_revoked_at = None, ch_last_delivery_status = None, ch_last_delivery_error = None, ch_last_delivery_at = None,
     ch_created_at = now, ch_updated_at = now\<rparr>"

definition UpsertNotificationBindCode :: "time \<Rightarrow> int \<Rightarrow> string \<Rightarrow> string \<Rightarrow> time \<Rightarrow> NotificationChannel ndb" where
  "UpsertNotificationBindCode now userID channel codeHash expiresAt =
     (let ch = normalizeNotificationChannel channel in
      then_sql (exec_sql (upsert_channel
         ((new_channel now userID ch StatusPending)\<lparr>ch_bind_code_hash := Some codeHash, ch_bind_code_expires_at := Some expiresAt\<rparr>)
         (\<lambda>r. r\<lparr>ch_status := (if ch_status r = ''bound'' \<and> nullString (ch_target_id r) \<noteq> [] then ch_status r else StatusPending),
            ch_bind_code_hash := Some codeHash, ch_bind_code_expires_at := Some expiresAt, ch_revoked_at := None, ch_updated_at := now\<rparr>)))
      (\<lambda>r. return_sql (Inr (scanNotificationChannel r))))"

definition BindNotificationChannel :: "time \<Rightarrow> int \<Rightarrow> string \<Rightarrow> string \<Rightarrow> string \<Rightarrow> string \<Rightarrow> NotificationChannel ndb" where
  "BindNotificationChannel now userID channel targetID targetType targetLabel =
     (let ch = normalizeNotificationChannel channel;
          bound = (\<lambda>r. r\<lparr>ch_status := StatusBound, ch_target_id := Some targetID, ch_target_type := Some targetType,
            ch_target_label := Some targetLabel, ch_bind_code_hash := None, ch_bind_code_expires_at := None, ch_bound_at := Some now,
            ch_revoked_at := None, ch_updated_at := now\<rparr>)
      in then_sql (exec_sql (upsert_channel (bound (new_channel now userID ch StatusBound)) bound))
           (\<lambda>r. return_sql (Inr (scanNotificationChannel r))))"

definition RevokeNotificationChannel :: "time \<Rightarrow> int \<Rightarrow> string \<Rightarrow> unit ndb" where
  "RevokeNotificationChannel now userID channel =
     (let ch = normalizeNotificationChannel channel;
          revoked = (\<lambda>r. r\<lparr>ch_status := StatusRevoked, ch_target_id := None, ch_target_type := None, ch_target_label := None,
            ch_bind_code_hash := None, ch_bind_code_expires_at := None, ch_revoked_at := Some now, ch_updated_at := now\<rparr>)
      in then_sql (exec_sql (upsert_channel (revoked (new_channel now userID ch StatusRevoked)) revoked)) (\<lambda>_. return_sql (Inr ())))"

text \<open>The outcome of a delivery is written to the settings and to the channel, in one transaction.\<close>

definition UpdateNotificationDeliveryStatus :: "time \<Rightarrow> int \<Rightarrow> string \<Rightarrow> string \<Rightarrow> string \<Rightarrow> unit ndb" where
  "UpdateNotificationDeliveryStatus now userID channel statusText errText =
     (let ch = normalizeNotificationChannel channel in
      tx_sql (
        then_sql (exec_sql (upsert_settings
           \<lparr>se_user_id = userID, se_enabled = True, se_system_enabled = True, se_strategy_enabled = True, se_custom_enabled = True,
              se_last_delivery_status = Some statusText, se_last_delivery_error = Some errText, se_last_delivery_at = Some now,
              se_last_test_message_at = None, se_created_at = now, se_updated_at = now\<rparr>
           (\<lambda>r. r\<lparr>se_last_delivery_status := Some statusText, se_last_delivery_error := Some errText, se_last_delivery_at := Some now,
              se_updated_at := now\<rparr>))) (\<lambda>_.
        then_sql (exec_sql (upsert_channel
           ((new_channel now userID ch StatusUnbound)\<lparr>ch_last_delivery_status := Some statusText, ch_last_delivery_error := Some errText,
              ch_last_delivery_at := Some now\<rparr>)
           (\<lambda>r. r\<lparr>ch_last_delivery_status := Some statusText, ch_last_delivery_error := Some errText, ch_last_delivery_at := Some now,
              ch_updated_at := now\<rparr>))) (\<lambda>_.
        return_sql (Inr ())))))"

subsection \<open>Plans\<close>

definition getNotificationPlan :: "string \<Rightarrow> NotificationPlan ndb" where
  "getNotificationPlan planCode = fetch_row (\<lambda>t. filter (\<lambda>p. np_PlanCode p = planCode) (nt_plans t))"

definition freePlan :: NotificationPlan where
  "freePlan = \<lparr>np_PlanCode = ''free'', np_NotificationEnabled = False, np_AllowSystem = False, np_AllowStrategy = False, np_AllowCustom = False,
     np_CustomRateLimitPerMinute = 0, np_CustomRateLimitBurst = 0, np_UpdatedAt = 0\<rparr>"

definition GetNotificationPlan :: "string \<Rightarrow> NotificationPlan ndb" where
  "GetNotificationPlan planCode0 =
     (let planCode = (if trim_space planCode0 = [] then ''free'' else trim_space planCode0) in
      handle_sql (getNotificationPlan planCode) (\<lambda>r. case r of
        Inr plan \<Rightarrow> return_sql (Inr plan)
      | Inl e \<Rightarrow> if e = RepoNotFound \<and> planCode \<noteq> ''free'' then or_default freePlan (getNotificationPlan ''free'')
          else if e = RepoNotFound then return_sql (Inr freePlan)
          else return_sql (Inl e)))"

end
