(* ===== verification/Notification_Service.thy ===== *)
theory Notification_Service
  imports Notification_Store Account_Service
begin

text \<open>
  The notification service (\<^verbatim>\<open>internal/notification\<close>): which events are valid, the rate limiter of custom
  events, the delivery of an event to the chat of its user, the binding of a chat by a code, and the handlers of the account service
  on top.  The state is the connection, the memory of the rate limiter, and the messages handed to the sender.
\<close>

subsection \<open>Events\<close>

record NotificationEvent =
  ne_SchemaVersion :: int
  ne_EventID :: string
  ne_CreatedAt :: time
  ne_UserID :: int
  ne_Category :: string
  ne_EventType :: string
  ne_Severity :: string
  ne_SourceService :: string
  ne_RuntimeID :: string
  ne_RuntimeName :: string
  ne_AccountID :: int
  ne_StrategyID :: int
  ne_SessionID :: string
  ne_OrderID :: string
  ne_AttemptID :: string
  ne_Title :: string
  ne_Message :: string
  ne_DedupeKey :: string
  ne_Metadata :: "(string \<times> string) list"

definition knownCategories :: "string list" where
  "knownCategories = [''system'', ''strategy'', ''custom'']"

definition knownSeverities :: "string list" where
  "knownSeverities = [''info'', ''warn'', ''error'']"

definition knownEventTypes :: "string list" where
  "knownEventTypes = [''runtime.started'', ''runtime.ended'', ''runtime.unhealthy'', ''runtime.recovered'', ''runtime.heartbeat_lost'',
     ''runtime.heartbeat_recovered'', ''session.started'', ''session.stopped'', ''session.failed'', ''order.accepted'', ''order.failed'',
     ''order.recovering'', ''order.recovered'', ''order.recovery_failed'', ''custom.info'', ''custom.warn'', ''custom.error'', ''test.message'']"

definition ErrInvalidEvent :: error where
  "ErrInvalidEvent = Sentinel ''invalid notification event''"

definition ValidateEvent :: "NotificationEvent \<Rightarrow> error option" where
  "ValidateEvent event =
     (let severity = trim_space (ne_Severity event) in
      if ne_SchemaVersion event \<noteq> 1 then Some ErrInvalidEvent
      else if ne_UserID event \<le> 0 then Some ErrInvalidEvent
      else if trim_space (ne_Category event) \<notin> set knownCategories then Some ErrInvalidEvent
      else if trim_space (ne_EventType event) \<notin> set knownEventTypes then Some ErrInvalidEvent
      else if severity \<noteq> [] \<and> severity \<notin> set knownSeverities then Some ErrInvalidEvent
      else if trim_space (ne_Message event) = [] then Some ErrInvalidEvent
      else None)"

definition ParseEvent :: "(string \<Rightarrow> NotificationEvent result) \<Rightarrow> string \<Rightarrow> NotificationEvent result" where
  "ParseEvent unmarshal raw = (case unmarshal raw of Inl e \<Rightarrow> Inl e
     | Inr event \<Rightarrow> (case ValidateEvent event of Some e \<Rightarrow> Inl e | None \<Rightarrow> Inr event))"

definition formatMessage :: "NotificationEvent \<Rightarrow> string" where
  "formatMessage event =
     (let title = trim_space (ne_Title event); msg = trim_space (ne_Message event)
      in if title = [] then msg else if msg = [] then title else title @ [CHR 0x0A] @ msg)"

subsection \<open>The rate limiter\<close>

type_synonym hits = "string \<Rightarrow> time list"

definition Allow :: "time \<Rightarrow> string \<Rightarrow> int \<Rightarrow> int \<Rightarrow> hits \<Rightarrow> bool \<times> hits" where
  "Allow now key limit window hit =
     (if limit \<le> 0 \<or> window \<le> 0 then (False, hit)
      else let cutoff = now - window; keep = filter (\<lambda>t. cutoff < t) (hit key)
           in if limit \<le> int (length keep) then (False, hit(key := keep))
              else (True, hit(key := keep @ [now])))"

subsection \<open>The service\<close>

record NotifyConfig =
  ng_BotUsername :: string
  ng_BindCodeTTL :: int
  ng_CustomRateWindow :: int
  ng_DeliveryEnabled :: "bool option"

text \<open>The environment of a call: the configuration, the clock, the random bytes, SHA-256, and the sender if there is one.\<close>

record NotifyEnv =
  nv_cfg :: NotifyConfig
  nv_now :: time
  nv_random :: "int list result"
  nv_sha256 :: "string \<Rightarrow> int list"
  nv_sender :: "(string \<Rightarrow> string \<Rightarrow> unit result) option"

definition NewService :: "NotifyConfig \<Rightarrow> NotifyConfig" where
  "NewService cfg = cfg\<lparr>ng_BindCodeTTL := (if ng_BindCodeTTL cfg \<le> 0 then 10 * minute else ng_BindCodeTTL cfg),
     ng_CustomRateWindow := (if ng_CustomRateWindow cfg \<le> 0 then minute else ng_CustomRateWindow cfg)\<rparr>"

record notify_state =
  ns_conn :: "notice_tables conn"
  ns_hits :: hits
  ns_sent :: "(string \<times> string) list"

type_synonym 'a notify = "notify_state \<Rightarrow> 'a result \<times> notify_state"

definition in_store :: "'a ndb \<Rightarrow> 'a notify" where
  "in_store m s = (case m (ns_conn s) of (r, c) \<Rightarrow> (r, s\<lparr>ns_conn := c\<rparr>))"

definition done_with :: "'a result \<Rightarrow> 'a notify" where
  "done_with r s = (r, s)"

definition and_then :: "'a notify \<Rightarrow> ('a \<Rightarrow> 'b notify) \<Rightarrow> 'b notify" where
  "and_then m f s = (case m s of (Inl e, s) \<Rightarrow> (Inl e, s) | (Inr x, s) \<Rightarrow> f x s)"

definition with_error :: "(error \<Rightarrow> error) \<Rightarrow> 'a notify \<Rightarrow> 'a notify" where
  "with_error h m s = (case m s of (Inl e, s) \<Rightarrow> (Inl (h e), s) | (Inr x, s) \<Rightarrow> (Inr x, s))"

text \<open>The outcome of a delivery is noted; an error of this is ignored.\<close>

definition noted :: "NotifyEnv \<Rightarrow> int \<Rightarrow> string \<Rightarrow> string \<Rightarrow> notify_state \<Rightarrow> notify_state" where
  "noted env userID st msg s = snd (in_store (UpdateNotificationDeliveryStatus (nv_now env) userID ChannelTelegram st msg) s)"

definition deliveryEnabled :: "NotifyEnv \<Rightarrow> bool" where
  "deliveryEnabled env = (case ng_DeliveryEnabled (nv_cfg env) of None \<Rightarrow> True | Some b \<Rightarrow> b)"

definition categoryBlocked :: "NotificationEvent \<Rightarrow> NotificationSettings \<Rightarrow> NotificationPlan \<Rightarrow> string option" where
  "categoryBlocked event settings plan =
     (if ne_Category event = ''system'' then
        (if \<not> np_AllowSystem plan then Some ''plan_disabled'' else if \<not> nf_SystemEnabled settings then Some ''disabled'' else None)
      else if ne_Category event = ''strategy'' then
        (if \<not> np_AllowStrategy plan then Some ''plan_disabled'' else if \<not> nf_StrategyEnabled settings then Some ''disabled'' else None)
      else if ne_Category event = ''custom'' then
        (if \<not> np_AllowCustom plan then Some ''plan_disabled'' else if \<not> nf_CustomEnabled settings then Some ''disabled'' else None)
      else None)"

definition blockedStatus :: "NotificationEvent \<Rightarrow> NotificationSettings \<Rightarrow> NotificationPlan \<Rightarrow> NotificationChannel \<Rightarrow> string option" where
  "blockedStatus event settings plan channel =
     (if \<not> np_NotificationEnabled plan then Some ''plan_disabled''
      else if \<not> nf_Enabled settings then Some ''disabled''
      else case categoryBlocked event settings plan of Some st \<Rightarrow> Some st
      | None \<Rightarrow> if nc_Status channel \<noteq> StatusBound \<or> trim_space (nc_TargetID channel) = [] then Some ''unbound'' else None)"

definition customLimit :: "NotificationPlan \<Rightarrow> int" where
  "customLimit plan = (if 0 < np_CustomRateLimitBurst plan \<and> np_CustomRateLimitBurst plan < np_CustomRateLimitPerMinute plan
     then np_CustomRateLimitBurst plan else np_CustomRateLimitPerMinute plan)"

definition admitted :: "NotifyEnv \<Rightarrow> NotificationEvent \<Rightarrow> NotificationPlan \<Rightarrow> notify_state \<Rightarrow> bool \<times> notify_state" where
  "admitted env event plan s =
     (if ne_Category event = ''custom''
      then case Allow (nv_now env) (''user:'' @ show_int (ne_UserID event)) (customLimit plan) (ng_CustomRateWindow (nv_cfg env)) (ns_hits s) of
        (ok, hit) \<Rightarrow> (ok, s\<lparr>ns_hits := hit\<rparr>)
      else (True, s))"

definition sendMessage :: "NotifyEnv \<Rightarrow> NotificationEvent \<Rightarrow> NotificationChannel \<Rightarrow> unit notify" where
  "sendMessage env event channel s = (case nv_sender env of
      None \<Rightarrow> (Inr (), noted env (ne_UserID event) ''failed'' ''telegram sender is not configured'' s)
    | Some send \<Rightarrow>
        let s1 = s\<lparr>ns_sent := ns_sent s @ [(nc_TargetID channel, formatMessage event)]\<rparr> in
        (case send (nc_TargetID channel) (formatMessage event) of
           Inl e \<Rightarrow> (Inr (), noted env (ne_UserID event) ''failed'' (err_text e) s1)
         | Inr _ \<Rightarrow> in_store (UpdateNotificationDeliveryStatus (nv_now env) (ne_UserID event) ChannelTelegram ''ok'' []) s1))"

definition deliverTo :: "NotifyEnv \<Rightarrow> NotificationEvent \<Rightarrow> NotificationSettings \<Rightarrow> NotificationPlan \<Rightarrow> NotificationChannel \<Rightarrow> unit notify" where
  "deliverTo env event settings plan channel s = (case blockedStatus event settings plan channel of
      Some st \<Rightarrow> (Inr (), noted env (ne_UserID event) st [] s)
    | None \<Rightarrow> (case admitted env event plan s of
         (False, s) \<Rightarrow> (Inr (), noted env (ne_UserID event) ''rate_limited'' [] s)
       | (True, s) \<Rightarrow> sendMessage env event channel s))"

definition deliverToUser :: "NotifyEnv \<Rightarrow> NotificationEvent \<Rightarrow> unit notify" where
  "deliverToUser env event =
     and_then (in_store (on_accounts (GetUser (ne_UserID event)))) (\<lambda>user.
     and_then (in_store (GetNotificationSettings (ne_UserID event))) (\<lambda>settings.
     and_then (in_store (GetNotificationPlan (us_PlanCode user))) (\<lambda>plan.
     and_then (in_store (GetNotificationChannel (ne_UserID event) ChannelTelegram)) (\<lambda>channel.
     deliverTo env event settings plan channel))))"

definition DeliverEvent :: "NotifyEnv \<Rightarrow> NotificationEvent \<Rightarrow> unit notify" where
  "DeliverEvent env event s = (case ValidateEvent event of
      Some e \<Rightarrow> (Inl e, if 0 < ne_UserID event then noted env (ne_UserID event) ''invalid_event'' ''invalid notification event'' s else s)
    | None \<Rightarrow> if \<not> deliveryEnabled env then (Inr (), noted env (ne_UserID event) ''disabled'' ''notification delivery disabled'' s)
        else deliverToUser env event s)"

definition GetSettings :: "int \<Rightarrow> (NotificationSettings \<times> NotificationPlan \<times> NotificationChannel) notify" where
  "GetSettings userID =
     and_then (in_store (on_accounts (GetUser userID))) (\<lambda>user.
     and_then (in_store (GetNotificationSettings userID)) (\<lambda>settings.
     and_then (in_store (GetNotificationPlan (us_PlanCode user))) (\<lambda>plan.
     and_then (in_store (GetNotificationChannel userID ChannelTelegram)) (\<lambda>channel.
     done_with (Inr (settings, plan, channel))))))"

definition UpdatePreferences :: "NotifyEnv \<Rightarrow> NotificationSettings \<Rightarrow> NotificationSettings notify" where
  "UpdatePreferences env settings = (if nf_UserID settings \<le> 0 then done_with (Inl ErrInvalidEvent)
     else in_store (UpsertNotificationSettings (nv_now env) settings))"

subsection \<open>Binding a chat\<close>

definition HashBindCode :: "(string \<Rightarrow> int list) \<Rightarrow> string \<Rightarrow> string" where
  "HashBindCode sha code = hex_string (sha (trim_space code))"

definition bindAlphabet :: string where "bindAlphabet = ''ABCDEFGHJKLMNPQRSTUVWXYZ23456789''"

text \<open>Ten characters from six random bytes.\<close>

definition randomBindCode :: "int list result \<Rightarrow> string result" where
  "randomBindCode random = (case random of Inl e \<Rightarrow> Inl e
     | Inr b \<Rightarrow> Inr (map (\<lambda>i. bindAlphabet ! nat (b ! (i mod 6) mod int (length bindAlphabet))) [0..<10]))"

definition CreateBindCode :: "NotifyEnv \<Rightarrow> int \<Rightarrow> (string \<times> time) notify" where
  "CreateBindCode env userID =
     (if userID \<le> 0 then done_with (Inl ErrInvalidEvent)
      else and_then (done_with (randomBindCode (nv_random env))) (\<lambda>code.
        let expiresAt = nv_now env + ng_BindCodeTTL (nv_cfg env) in
        and_then (in_store (UpsertNotificationBindCode (nv_now env) userID ChannelTelegram (HashBindCode (nv_sha256 env) code) expiresAt)) (\<lambda>_.
        done_with (Inr (code, expiresAt)))))"

definition ConfirmBinding :: "int \<Rightarrow> NotificationChannel notify" where
  "ConfirmBinding userID = in_store (GetNotificationChannel userID ChannelTelegram)"

record TelegramChat =
  tc_ID :: int
  tc_Type :: string
  tc_Username :: string
  tc_FirstName :: string
  tc_LastName :: string
  tc_Title :: string

record TelegramUpdate =
  tu_UpdateID :: int
  tu_Text :: string
  tu_Chat :: TelegramChat

definition telegramChatLabel :: "TelegramChat \<Rightarrow> string" where
  "telegramChatLabel chat =
     (let username = trim_space (tc_Username chat); name = trim_space (trim_space (tc_FirstName chat) @ '' '' @ trim_space (tc_LastName chat))
      in if username \<noteq> [] then (if has_prefix username ''@'' then username else ''@'' @ username)
         else if name \<noteq> [] then name else trim_space (tc_Title chat))"

definition HandleTelegramUpdate :: "NotifyEnv \<Rightarrow> TelegramUpdate \<Rightarrow> unit notify" where
  "HandleTelegramUpdate env update s =
     (let code = trim_space (tu_Text update); chat = tu_Chat update in
      if code = [] then (Inr (), s)
      else case in_store (FindNotificationChannelByBindCodeHash (HashBindCode (nv_sha256 env) code) (nv_now env)) s of
        (Inl e, s) \<Rightarrow> (Inr (), s)
      | (Inr pending, s) \<Rightarrow>
          and_then (in_store (BindNotificationChannel (nv_now env) (nc_UserID pending) (nc_Channel pending) (show_int (tc_ID chat))
             (trim_space (tc_Type chat)) (telegramChatLabel chat))) (\<lambda>_. done_with (Inr ())) s)"

text \<open>The updates of one poll, in order: the offset of the next poll follows the largest number seen, and errors are ignored.\<close>

primrec handle_updates :: "NotifyEnv \<Rightarrow> int \<Rightarrow> TelegramUpdate list \<Rightarrow> notify_state \<Rightarrow> int \<times> notify_state" where
  "handle_updates env offset [] s = (offset, s)"
| "handle_updates env offset (u # us) s =
     handle_updates env (if offset \<le> tu_UpdateID u then tu_UpdateID u + 1 else offset) us (snd (HandleTelegramUpdate env u s))"

text \<open>The messages of one claim of the consumer, in order: what does not parse is skipped, and errors are ignored.\<close>

primrec consume_claim :: "(string \<Rightarrow> NotificationEvent result) \<Rightarrow> NotifyEnv \<Rightarrow> string list \<Rightarrow> notify_state \<Rightarrow> notify_state" where
  "consume_claim unmarshal env [] s = s"
| "consume_claim unmarshal env (m # ms) s = consume_claim unmarshal env ms
     (case ParseEvent unmarshal m of Inl e \<Rightarrow> s | Inr event \<Rightarrow> snd (DeliverEvent env event s))"

definition Unbind :: "NotifyEnv \<Rightarrow> int \<Rightarrow> unit notify" where
  "Unbind env userID = in_store (RevokeNotificationChannel (nv_now env) userID ChannelTelegram)"

definition zero_NotificationEvent :: NotificationEvent where
  "zero_NotificationEvent = \<lparr>ne_SchemaVersion = 0, ne_EventID = [], ne_CreatedAt = 0, ne_UserID = 0, ne_Category = [], ne_EventType = [],
     ne_Severity = [], ne_SourceService = [], ne_RuntimeID = [], ne_RuntimeName = [], ne_AccountID = 0, ne_StrategyID = 0, ne_SessionID = [],
     ne_OrderID = [], ne_AttemptID = [], ne_Title = [], ne_Message = [], ne_DedupeKey = [], ne_Metadata = []\<rparr>"

definition SendTest :: "NotifyEnv \<Rightarrow> int \<Rightarrow> unit notify" where
  "SendTest env userID = DeliverEvent env (zero_NotificationEvent\<lparr>ne_SchemaVersion := 1, ne_UserID := userID, ne_Category := ''system'',
     ne_EventType := ''test.message'', ne_Severity := ''info'', ne_Message := ''Hushine test notification.''\<rparr>)"

subsection \<open>The handlers\<close>

record NotificationMessage =
  nm_Enabled :: bool
  nm_SystemEnabled :: bool
  nm_StrategyEnabled :: bool
  nm_CustomEnabled :: bool
  nm_PlanCode :: string
  nm_PlanEnabled :: bool
  nm_AllowSystem :: bool
  nm_AllowStrategy :: bool
  nm_AllowCustom :: bool
  nm_RatePerMinute :: int
  nm_RateBurst :: int
  nm_Channel :: string
  nm_Status :: string
  nm_Label :: string
  nm_LastDeliveryStatus :: string
  nm_LastDeliveryError :: string
  nm_BoundAt :: "time option"
  nm_LastDeliveryAt :: "time option"
  nm_BotUsername :: string

definition toProtoNotificationSettings :: "NotifyEnv \<Rightarrow> NotificationSettings \<times> NotificationPlan \<times> NotificationChannel \<Rightarrow> NotificationMessage" where
  "toProtoNotificationSettings env = (\<lambda>(settings, plan, channel). \<lparr>nm_Enabled = nf_Enabled settings, nm_SystemEnabled = nf_SystemEnabled settings,
     nm_StrategyEnabled = nf_StrategyEnabled settings, nm_CustomEnabled = nf_CustomEnabled settings, nm_PlanCode = np_PlanCode plan,
     nm_PlanEnabled = np_NotificationEnabled plan, nm_AllowSystem = np_AllowSystem plan, nm_AllowStrategy = np_AllowStrategy plan,
     nm_AllowCustom = np_AllowCustom plan, nm_RatePerMinute = np_CustomRateLimitPerMinute plan, nm_RateBurst = np_CustomRateLimitBurst plan,
     nm_Channel = nc_Channel channel, nm_Status = nc_Status channel, nm_Label = nc_TargetLabel channel,
     nm_LastDeliveryStatus = nc_LastDeliveryStatus channel, nm_LastDeliveryError = nc_LastDeliveryError channel, nm_BoundAt = nc_BoundAt channel,
     nm_LastDeliveryAt = nc_LastDeliveryAt channel, nm_BotUsername = ng_BotUsername (nv_cfg env)\<rparr>)"

text \<open>A handler needs a user and a notifier; those on a channel accept telegram only.\<close>

definition requireNotifier :: "NotifyEnv option \<Rightarrow> (NotifyEnv \<Rightarrow> 'a notify) \<Rightarrow> 'a notify" where
  "requireNotifier notifier f = (case notifier of
     None \<Rightarrow> done_with (Inl (Status FailedPrecondition ''notification service is not configured'')) | Some env \<Rightarrow> f env)"

definition for_subscriber :: "int \<Rightarrow> 'a notify \<Rightarrow> 'a notify" where
  "for_subscriber userID m = (case requireUserID userID of Some e \<Rightarrow> done_with (Inl e) | None \<Rightarrow> m)"

definition telegram_only :: "string \<Rightarrow> 'a notify \<Rightarrow> 'a notify" where
  "telegram_only channel m = (let ch = trim_space channel in
     if ch \<noteq> [] \<and> ch \<noteq> ChannelTelegram then done_with (Inl (Status InvalidArgument ''only telegram notification channel is supported'')) else m)"

definition repo_errors :: "'a notify \<Rightarrow> 'a notify" where
  "repo_errors = with_error mapRepoErr"

definition settingsReply :: "NotifyEnv \<Rightarrow> int \<Rightarrow> NotificationMessage notify" where
  "settingsReply env userID = and_then (repo_errors (GetSettings userID)) (\<lambda>x. done_with (Inr (toProtoNotificationSettings env x)))"

definition GetNotificationSettingsRPC :: "NotifyEnv option \<Rightarrow> int \<Rightarrow> NotificationMessage notify" where
  "GetNotificationSettingsRPC notifier userID = for_subscriber userID (requireNotifier notifier (\<lambda>env. settingsReply env userID))"

record Preferences =
  pr_Enabled :: "bool option"
  pr_SystemEnabled :: bool
  pr_StrategyEnabled :: bool
  pr_CustomEnabled :: bool

definition UpdateNotificationPreferencesRPC :: "NotifyEnv option \<Rightarrow> int \<Rightarrow> Preferences option \<Rightarrow> NotificationMessage notify" where
  "UpdateNotificationPreferencesRPC notifier userID preferences = for_subscriber userID (case preferences of
     None \<Rightarrow> done_with (Inl (Status InvalidArgument ''preferences are required''))
   | Some p \<Rightarrow> requireNotifier notifier (\<lambda>env.
       and_then (case pr_Enabled p of Some b \<Rightarrow> done_with (Inr b)
          | None \<Rightarrow> and_then (repo_errors (GetSettings userID)) (\<lambda>(settings, _, _). done_with (Inr (nf_Enabled settings)))) (\<lambda>enabled.
       and_then (repo_errors (UpdatePreferences env ((defaultNotificationSettings userID)\<lparr>nf_Enabled := enabled,
          nf_SystemEnabled := pr_SystemEnabled p, nf_StrategyEnabled := pr_StrategyEnabled p, nf_CustomEnabled := pr_CustomEnabled p\<rparr>))) (\<lambda>_.
       settingsReply env userID))))"

definition CreateNotificationBindCodeRPC :: "NotifyEnv option \<Rightarrow> int \<Rightarrow> string \<Rightarrow> (string \<times> time \<times> string) notify" where
  "CreateNotificationBindCodeRPC notifier userID channel = for_subscriber userID (telegram_only channel (requireNotifier notifier (\<lambda>env.
     and_then (repo_errors (CreateBindCode env userID)) (\<lambda>(code, expiresAt). done_with (Inr (code, expiresAt, ng_BotUsername (nv_cfg env)))))))"

definition ConfirmNotificationBindingRPC :: "NotifyEnv option \<Rightarrow> int \<Rightarrow> string \<Rightarrow> NotificationMessage notify" where
  "ConfirmNotificationBindingRPC notifier userID channel = for_subscriber userID (telegram_only channel (requireNotifier notifier (\<lambda>env.
     and_then (repo_errors (ConfirmBinding userID)) (\<lambda>_. settingsReply env userID))))"

definition UnbindNotificationChannelRPC :: "NotifyEnv option \<Rightarrow> int \<Rightarrow> string \<Rightarrow> NotificationMessage notify" where
  "UnbindNotificationChannelRPC notifier userID channel = for_subscriber userID (telegram_only channel (requireNotifier notifier (\<lambda>env.
     and_then (repo_errors (Unbind env userID)) (\<lambda>_. settingsReply env userID))))"

definition SendTestNotificationRPC :: "NotifyEnv option \<Rightarrow> int \<Rightarrow> (bool \<times> NotificationMessage) notify" where
  "SendTestNotificationRPC notifier userID = for_subscriber userID (requireNotifier notifier (\<lambda>env.
     and_then (repo_errors (SendTest env userID)) (\<lambda>_.
     and_then (settingsReply env userID) (\<lambda>m. done_with (Inr (True, m))))))"

end
