(* ===== verification/Symbol_Catalog.thy ===== *)
theory Symbol_Catalog
  imports Account_Service "HOL-Library.List_Lexorder" "HOL-Library.Char_ord"
begin

text \<open>
  The catalog of exchange symbols (\<^verbatim>\<open>internal/catalog\<close>): a cache of the symbols of each market that is refreshed when it is
  empty or older than its time to live, and its handler ListSymbols.  A call is split at its locks, because calls run side by
  side: a first look at the cache, a second one under the refresh lock of the market, and the fetch.  The network and the
  decoding of JSON are arguments.  Over all interleavings a market is fetched by one call at a time, and not again before a
  stored list has expired.
\<close>

subsection \<open>Fetching\<close>

record exInfoSymbol =
  ei_Symbol :: string
  ei_Status :: string
  ei_QuoteAsset :: string
  ei_ContractType :: string

definition dedupSorted :: "string list \<Rightarrow> string list" where
  "dedupSorted symbols = remdups_adj symbols"

definition tradedSymbols :: "(exInfoSymbol \<Rightarrow> bool) \<Rightarrow> exInfoSymbol list \<Rightarrow> string list" where
  "tradedSymbols other infos = dedupSorted (sort (map ei_Symbol
     (filter (\<lambda>s. ei_Status s = ''TRADING'' \<and> ei_QuoteAsset s = ''USDT'' \<and> other s) infos)))"

text \<open>The answer to a GET: a status code with its text, and the body.\<close>

definition httpGet :: "(string \<Rightarrow> (int \<times> string \<times> string result) result) \<Rightarrow> string \<Rightarrow> string result" where
  "httpGet web url = bind_result (web url) (\<lambda>(code, status, body).
     if code \<noteq> 200 then Inl (Errorf (''GET '' @ url @ '': status '' @ status)) else body)"

definition spotExchangeInfoURL :: string where "spotExchangeInfoURL = ''https://api.binance.com/api/v3/exchangeInfo''"
definition futExchangeInfoURL :: string where "futExchangeInfoURL = ''https://fapi.binance.com/fapi/v1/exchangeInfo''"

definition fetchSpotSymbolsHTTP :: "(string \<Rightarrow> (int \<times> string \<times> string result) result) \<Rightarrow> (string \<Rightarrow> exInfoSymbol list result) \<Rightarrow> string list result" where
  "fetchSpotSymbolsHTTP web decode = bind_result (httpGet web spotExchangeInfoURL) (\<lambda>body. case decode body of
     Inl err \<Rightarrow> Inl (Wrapf ''decode spot exchangeInfo: '' err) | Inr infos \<Rightarrow> Inr (tradedSymbols (\<lambda>_. True) infos))"

definition fetchFuturesSymbolsHTTP :: "(string \<Rightarrow> (int \<times> string \<times> string result) result) \<Rightarrow> (string \<Rightarrow> exInfoSymbol list result) \<Rightarrow> string list result" where
  "fetchFuturesSymbolsHTTP web decode = bind_result (httpGet web futExchangeInfoURL) (\<lambda>body. case decode body of
     Inl err \<Rightarrow> Inl (Wrapf ''decode futures exchangeInfo: '' err)
   | Inr infos \<Rightarrow> Inr (tradedSymbols (\<lambda>s. ei_ContractType s = ''PERPETUAL'') infos))"

subsection \<open>The catalog\<close>

datatype SymbolMarket = CatalogSpot | CatalogFutures

record Catalog =
  ct_spotSymbols :: "string list"
  ct_futSymbols :: "string list"
  ct_spotFetchedAt :: time
  ct_futFetchedAt :: time
  ct_ttl :: duration

definition NewCatalog :: "duration \<Rightarrow> Catalog" where
  "NewCatalog ttl = \<lparr>ct_spotSymbols = [], ct_futSymbols = [], ct_spotFetchedAt = 0, ct_futFetchedAt = 0,
     ct_ttl = (if ttl \<le> 0 then 6 * hour else ttl)\<rparr>"

definition errInvalidMarket :: error where "errInvalidMarket = Errorf ''invalid market: use spot or usdm_futures''"

definition ParseMarket :: "string \<Rightarrow> SymbolMarket result" where
  "ParseMarket s = (let m = to_lower (trim_space s) in
     if m = ''spot'' then Inr CatalogSpot
     else if m \<in> {''usdm_futures'', ''futures'', ''usdm''} then Inr CatalogFutures
     else Inl errInvalidMarket)"

definition filterSymbols :: "string list \<Rightarrow> string \<Rightarrow> int \<Rightarrow> string list" where
  "filterSymbols symbols queryUpper limit =
     take (nat (if limit \<le> 0 then 80 else limit))
       (filter (\<lambda>su. su \<noteq> [] \<and> (queryUpper = [] \<or> contains_str su queryUpper)) (map (\<lambda>s. to_upper (trim_space s)) symbols))"

primrec cachedSymbols :: "SymbolMarket \<Rightarrow> Catalog \<Rightarrow> string list" where
  "cachedSymbols CatalogSpot c = ct_spotSymbols c"
| "cachedSymbols CatalogFutures c = ct_futSymbols c"

primrec cachedAt :: "SymbolMarket \<Rightarrow> Catalog \<Rightarrow> time" where
  "cachedAt CatalogSpot c = ct_spotFetchedAt c"
| "cachedAt CatalogFutures c = ct_futFetchedAt c"

primrec storeSymbols :: "SymbolMarket \<Rightarrow> string list \<Rightarrow> time \<Rightarrow> Catalog \<Rightarrow> Catalog" where
  "storeSymbols CatalogSpot symbols now c = c\<lparr>ct_spotSymbols := symbols, ct_spotFetchedAt := now\<rparr>"
| "storeSymbols CatalogFutures symbols now c = c\<lparr>ct_futSymbols := symbols, ct_futFetchedAt := now\<rparr>"

definition needRefresh :: "time \<Rightarrow> SymbolMarket \<Rightarrow> Catalog \<Rightarrow> bool" where
  "needRefresh now market c = (cachedSymbols market c = [] \<or> ct_ttl c < now - cachedAt market c)"

definition listing :: "string \<Rightarrow> int \<Rightarrow> string list \<Rightarrow> string list" where
  "listing text limit symbols = filterSymbols symbols (trim_space (to_upper text)) (if limit \<le> 0 \<or> 500 < limit then 80 else limit)"

text \<open>
  The end of a call that has fetched: a list of symbols is stored and listed; otherwise the list read under the lock is listed
  as stale, or, without one, the error is returned, if there is one.
\<close>

definition finishList :: "time \<Rightarrow> SymbolMarket \<Rightarrow> string \<Rightarrow> int \<Rightarrow> string list \<Rightarrow> string list result \<Rightarrow> Catalog
    \<Rightarrow> (string list \<times> bool) result \<times> Catalog" where
  "finishList now market text limit symbols fetched c =
     (if is_ok fetched \<and> fetched \<noteq> Inr [] then
        (map_sum id (\<lambda>fresh. (listing text limit fresh, False)) fetched,
         case fetched of Inl _ \<Rightarrow> c | Inr fresh \<Rightarrow> storeSymbols market fresh now c)
      else if symbols \<noteq> [] then (Inr (listing text limit symbols, True), c)
      else (map_sum id (\<lambda>_. ([], False)) fetched, c))"

text \<open>A call that runs alone.\<close>

definition List :: "time \<Rightarrow> string list result option \<Rightarrow> SymbolMarket \<Rightarrow> string \<Rightarrow> int \<Rightarrow> Catalog \<Rightarrow> (string list \<times> bool) result \<times> Catalog" where
  "List now fetched market text limit c =
     (case fetched of
        Some answer \<Rightarrow> if needRefresh now market c then finishList now market text limit (cachedSymbols market c) answer c
            else (Inr (listing text limit (cachedSymbols market c), False), c)
      | None \<Rightarrow> (Inr (listing text limit (cachedSymbols market c), False), c))"

definition ListSymbols :: "time \<Rightarrow> (SymbolMarket \<Rightarrow> string list result option) \<Rightarrow> string \<Rightarrow> string \<Rightarrow> int \<Rightarrow> Catalog option
    \<Rightarrow> (string list \<times> bool) result \<times> Catalog option" where
  "ListSymbols now fetch marketText text limit symbols = (case symbols of
     None \<Rightarrow> (Inl (Status Unavailable ''symbol catalog not configured''), None)
   | Some c \<Rightarrow> (case ParseMarket marketText of
       Inl err \<Rightarrow> (Inl (Status InvalidArgument (err_text err)), Some c)
     | Inr market \<Rightarrow> (case List now (fetch market) market text limit c of
         (Inl err, c') \<Rightarrow> (Inl (coded Unavailable ''symbol list: '' err), Some c')
       | (Inr answer, c') \<Rightarrow> (Inr answer, Some c'))))"

subsection \<open>What is listed\<close>

lemma filterSymbols_sound:
  "su \<in> set (filterSymbols symbols q limit) \<Longrightarrow> su \<noteq> [] \<and> (q \<noteq> [] \<longrightarrow> contains_str su q) \<and> su \<in> (\<lambda>s. to_upper (trim_space s)) ` set symbols"
  unfolding filterSymbols_def by (drule in_set_takeD) auto

lemma listing_bounds: "length (listing text limit symbols) \<le> 500"
  by (auto simp: listing_def filterSymbols_def)

lemma strictly_sorted_remdups_adj: "sorted xs \<Longrightarrow> sorted_wrt (<) (remdups_adj xs)" for xs :: "string list"
proof (induction xs rule: remdups_adj.induct)
  case (3 x y xs)
  then show ?case by (cases "x = y") (auto simp: less_le_trans dest: order.strict_trans1)
qed simp_all

lemma tradedSymbols_sorted: "sorted_wrt (<) (tradedSymbols other infos)"
  by (simp add: tradedSymbols_def dedupSorted_def strictly_sorted_remdups_adj)

lemma List_bounded: "fst (List now fetched market text limit c) = Inr (symbols, stale) \<Longrightarrow> length symbols \<le> 500"
  using listing_bounds by (cases fetched; cases "the fetched") (auto simp: List_def finishList_def split: if_splits)

text \<open>A failing refresh never loses a list: what was cached stays, and is listed as stale.\<close>

lemma failed_refresh_keeps:
  assumes "cachedSymbols market c \<noteq> []" "\<not> is_ok answer"
  shows "List now (Some answer) market text limit c = (Inr (listing text limit (cachedSymbols market c), needRefresh now market c), c)"
  using assms by (simp add: List_def finishList_def)

lemma stored_is_fresh:
  "symbols \<noteq> [] \<Longrightarrow> now' - now \<le> ct_ttl c \<Longrightarrow> \<not> needRefresh now' market (storeSymbols market symbols now c)"
  by (cases market) (simp_all add: needRefresh_def)

subsection \<open>Calls side by side\<close>

datatype list_call = Idle | Waiting SymbolMarket | Fetching SymbolMarket "string list"

datatype catalog_event = Fetched SymbolMarket time | Refreshed SymbolMarket time

record catalog_state =
  cs_catalog :: Catalog
  cs_now :: time
  cs_calls :: "nat \<Rightarrow> list_call"
  cs_log :: "catalog_event list"

definition lock_free :: "SymbolMarket \<Rightarrow> catalog_state \<Rightarrow> bool" where
  "lock_free market s = (\<forall>i symbols. cs_calls s i \<noteq> Fetching market symbols)"

text \<open>The log is kept newest first.  A refresh is logged when it stores a list.\<close>

definition logged_refresh :: "SymbolMarket \<Rightarrow> time \<Rightarrow> string list result \<Rightarrow> catalog_event list" where
  "logged_refresh market now answer = (if is_ok answer \<and> answer \<noteq> Inr [] then [Refreshed market now] else [])"

inductive catalog_step :: "catalog_state \<Rightarrow> catalog_state \<Rightarrow> bool" where
  pass: "cs_now s \<le> now \<Longrightarrow> catalog_step s (s\<lparr>cs_now := now\<rparr>)"
| wait: "cs_calls s i = Idle \<Longrightarrow> needRefresh (cs_now s) market (cs_catalog s)
    \<Longrightarrow> catalog_step s (s\<lparr>cs_calls := (cs_calls s)(i := Waiting market)\<rparr>)"
| reuse: "cs_calls s i = Waiting market \<Longrightarrow> lock_free market s \<Longrightarrow> \<not> needRefresh (cs_now s) market (cs_catalog s)
    \<Longrightarrow> catalog_step s (s\<lparr>cs_calls := (cs_calls s)(i := Idle)\<rparr>)"
| fetch: "cs_calls s i = Waiting market \<Longrightarrow> lock_free market s \<Longrightarrow> needRefresh (cs_now s) market (cs_catalog s)
    \<Longrightarrow> catalog_step s (s\<lparr>cs_calls := (cs_calls s)(i := Fetching market (cachedSymbols market (cs_catalog s))),
         cs_log := Fetched market (cs_now s) # cs_log s\<rparr>)"
| finish: "cs_calls s i = Fetching market symbols
    \<Longrightarrow> catalog_step s (s\<lparr>cs_calls := (cs_calls s)(i := Idle),
         cs_catalog := snd (finishList (cs_now s) market text limit symbols answer (cs_catalog s)),
         cs_log := logged_refresh market (cs_now s) answer @ cs_log s\<rparr>)"

inductive catalog_reachable :: "duration \<Rightarrow> catalog_state \<Rightarrow> bool" for ttl where
  start: "0 \<le> now \<Longrightarrow> catalog_reachable ttl \<lparr>cs_catalog = NewCatalog ttl, cs_now = now, cs_calls = (\<lambda>_. Idle), cs_log = []\<rparr>"
| step: "catalog_reachable ttl s \<Longrightarrow> catalog_step s s' \<Longrightarrow> catalog_reachable ttl s'"

fun spaced :: "duration \<Rightarrow> catalog_event list \<Rightarrow> bool" where
  "spaced ttl [] = True"
| "spaced ttl (Refreshed market t # evs) = spaced ttl evs"
| "spaced ttl (Fetched market t # evs) = ((\<forall>r. Refreshed market r \<in> set evs \<longrightarrow> r + ttl < t) \<and> spaced ttl evs)"

definition one_fetch :: "catalog_state \<Rightarrow> bool" where
  "one_fetch s = (\<forall>i j market xs ys. cs_calls s i = Fetching market xs \<longrightarrow> cs_calls s j = Fetching market ys \<longrightarrow> i = j)"

definition refreshes_kept :: "catalog_state \<Rightarrow> bool" where
  "refreshes_kept s = (\<forall>market r. Refreshed market r \<in> set (cs_log s) \<longrightarrow>
     cachedSymbols market (cs_catalog s) \<noteq> [] \<and> r \<le> cachedAt market (cs_catalog s) \<and> cachedAt market (cs_catalog s) \<le> cs_now s)"

lemma stored_symbols [simp]:
  "cachedSymbols m (storeSymbols market symbols now c) = (if m = market then symbols else cachedSymbols m c)"
  "cachedAt m (storeSymbols market symbols now c) = (if m = market then now else cachedAt m c)"
  "ct_ttl (storeSymbols market symbols now c) = ct_ttl c"
  by (cases m; cases market; simp)+

lemma spaced_refresh [simp]: "spaced ttl (logged_refresh market now answer @ evs) = spaced ttl evs"
  by (simp add: logged_refresh_def)

lemma finishList_catalog:
  "snd (finishList now market text limit symbols answer c) = (case answer of Inr (x # xs) \<Rightarrow> storeSymbols market (x # xs) now c | _ \<Rightarrow> c)"
  by (auto simp: finishList_def split: sum.split list.split)

lemma catalog_step_keeps:
  assumes "catalog_step s s'" "one_fetch s" "refreshes_kept s" "spaced (ct_ttl (cs_catalog s)) (cs_log s)"
  shows "one_fetch s' \<and> refreshes_kept s' \<and> spaced (ct_ttl (cs_catalog s')) (cs_log s') \<and> ct_ttl (cs_catalog s') = ct_ttl (cs_catalog s)"
  using assms
proof cases
  case (pass now)
  then show ?thesis using assms by (fastforce simp: one_fetch_def refreshes_kept_def)
next
  case (fetch i market)
  then have "r + ct_ttl (cs_catalog s) < cs_now s" if "Refreshed market r \<in> set (cs_log s)" for r
    using that assms(3) by (force simp: refreshes_kept_def needRefresh_def)
  then show ?thesis using fetch assms by (auto simp: one_fetch_def refreshes_kept_def lock_free_def)
next
  case (finish i market symbols q limit answer)
  then show ?thesis using assms
    by (auto simp: one_fetch_def refreshes_kept_def finishList_catalog logged_refresh_def split: sum.splits list.splits) (meson order_trans)
qed (auto simp: one_fetch_def refreshes_kept_def)

text \<open>
  Whatever the interleaving: a market is fetched by one call at a time, and after a list was stored not before it has expired.
\<close>

theorem catalog_fetches_spaced:
  assumes "catalog_reachable ttl s" shows "one_fetch s \<and> spaced (ct_ttl (NewCatalog ttl)) (cs_log s)"
proof -
  from assms have "one_fetch s \<and> refreshes_kept s \<and> spaced (ct_ttl (cs_catalog s)) (cs_log s) \<and> ct_ttl (cs_catalog s) = ct_ttl (NewCatalog ttl)"
  proof induction
    case (start now)
    then show ?case by (simp add: one_fetch_def refreshes_kept_def)
  next
    case (step s s')
    then show ?case using catalog_step_keeps by metis
  qed
  then show ?thesis by metis
qed

end
