(* ===== verification/Service_Errors.thy ===== *)
theory Service_Errors
  imports Account_Errors Audit_Log Notification_Service Symbol_Catalog
begin

text \<open>
  All methods of the account service (\<^verbatim>\<open>internal/service/grpc.go\<close>) as one datatype of requests, and what kind of error they answer
  with.  The requests on users, accounts, venues, strategies, sessions and wallets are those of \<open>account_call\<close>; beside them stand the six
  calls on notifications, the two on reconciliation runs, and the list of symbols.  Account and notification tables share a
  connection, the reconciliation runs have their own, and the catalogue of symbols is the cache of the process.
\<close>

datatype ServiceRequest =
  Account_Request AccountRequest
  | GetNotificationSettings_Request int | UpdateNotificationPreferences_Request int "Preferences option"
  | CreateNotificationBindCode_Request int string | ConfirmNotificationBinding_Request int string
  | UnbindNotificationChannel_Request int string | SendTestNotification_Request int
  | ListReconciliationRuns_Request int string int int | GetSessionReconciliationSummary_Request int string
  | ListSymbols_Request string string int

record ServiceEnv =
  se_account :: AccountEnv
  se_notifier :: "NotifyEnv option"
  se_now :: time
  se_fetch :: "SymbolMarket \<Rightarrow> string list result option"

record ServiceState =
  ss_notify :: notify_state
  ss_audit :: "audit_tables conn"
  ss_symbols :: "Catalog option"

definition outcome :: "'a result \<Rightarrow> unit result" where
  "outcome r = map_sum id (\<lambda>_. ()) r"

definition on_notify :: "'a notify \<Rightarrow> ServiceState \<Rightarrow> unit result \<times> ServiceState" where
  "on_notify m s = (case m (ss_notify s) of (r, n) \<Rightarrow> (outcome r, s\<lparr>ss_notify := n\<rparr>))"

definition on_audit :: "'a audb \<Rightarrow> ServiceState \<Rightarrow> unit result \<times> ServiceState" where
  "on_audit m s = (case m (ss_audit s) of (r, c) \<Rightarrow> (outcome r, s\<lparr>ss_audit := c\<rparr>))"

primrec service_call :: "ServiceEnv \<Rightarrow> ServiceRequest \<Rightarrow> ServiceState \<Rightarrow> unit result \<times> ServiceState" where
  "service_call env (Account_Request req) = on_notify (in_store (on_accounts (account_call (se_account env) req)))"
| "service_call env (GetNotificationSettings_Request u) = on_notify (GetNotificationSettingsRPC (se_notifier env) u)"
| "service_call env (UpdateNotificationPreferences_Request u p) = on_notify (UpdateNotificationPreferencesRPC (se_notifier env) u p)"
| "service_call env (CreateNotificationBindCode_Request u ch) = on_notify (CreateNotificationBindCodeRPC (se_notifier env) u ch)"
| "service_call env (ConfirmNotificationBinding_Request u ch) = on_notify (ConfirmNotificationBindingRPC (se_notifier env) u ch)"
| "service_call env (UnbindNotificationChannel_Request u ch) = on_notify (UnbindNotificationChannelRPC (se_notifier env) u ch)"
| "service_call env (SendTestNotification_Request u) = on_notify (SendTestNotificationRPC (se_notifier env) u)"
| "service_call env (ListReconciliationRuns_Request u sid l k) = on_audit (ListReconciliationRunsRPC u sid l k)"
| "service_call env (GetSessionReconciliationSummary_Request u sid) = on_audit (GetSessionReconciliationSummaryRPC u sid)"
| "service_call env (ListSymbols_Request market q limit) = (\<lambda>s.
     case ListSymbols (se_now env) (se_fetch env) market q limit (ss_symbols s) of (r, c) \<Rightarrow> (outcome r, s\<lparr>ss_symbols := c\<rparr>))"

subsection \<open>The handlers of the notifications\<close>

definition replies :: "'a notify \<Rightarrow> bool" where
  "replies m = (\<forall>s. coded_result (fst (m s)))"

lemma replies_done: "coded_result r \<Longrightarrow> replies (done_with r)"
  by (simp add: replies_def done_with_def)

lemma replies_then: assumes "replies m" "\<And>x. replies (f x)" shows "replies (and_then m f)"
  unfolding replies_def
proof
  fix s
  obtain r s1 where m: "m s = (r, s1)" by fastforce
  then have "coded_result r" using assms(1) unfolding replies_def by (metis fst_conv)
  then show "coded_result (fst (and_then m f s))" using assms(2) m by (cases r) (simp_all add: and_then_def replies_def)
qed

lemma replies_repo: "replies (repo_errors m)"
  unfolding replies_def repo_errors_def with_error_def by (auto split: prod.split sum.split)

lemma replies_notifier: "(\<And>env. replies (f env)) \<Longrightarrow> replies (requireNotifier notifier f)"
  unfolding requireNotifier_def by (cases notifier) (simp_all add: replies_done)

lemma replies_subscriber: "replies m \<Longrightarrow> replies (for_subscriber u m)"
  unfolding for_subscriber_def requireUserID_def by (simp add: replies_done)

lemma replies_telegram: "replies m \<Longrightarrow> replies (telegram_only ch m)"
  unfolding telegram_only_def Let_def by (simp add: replies_done)

lemma replies_option: "replies m \<Longrightarrow> (\<And>x. replies (g x)) \<Longrightarrow> replies (case r of None \<Rightarrow> m | Some x \<Rightarrow> g x)"
  by (cases r) simp_all

lemma replies_prod: "(\<And>a b. replies (f a b)) \<Longrightarrow> replies (case p of (a, b) \<Rightarrow> f a b)"
  by (cases p) simp

lemmas replies_rules = replies_then replies_repo replies_notifier replies_subscriber replies_telegram replies_option replies_prod replies_done

lemma settings_replies: "replies (settingsReply env u)"
  unfolding settingsReply_def by (intro replies_rules) simp

lemma notification_replies:
  "replies (GetNotificationSettingsRPC notifier u)" "replies (UpdateNotificationPreferencesRPC notifier u p)"
  "replies (CreateNotificationBindCodeRPC notifier u ch)" "replies (ConfirmNotificationBindingRPC notifier u ch)"
  "replies (UnbindNotificationChannelRPC notifier u ch)" "replies (SendTestNotificationRPC notifier u)"
  unfolding GetNotificationSettingsRPC_def UpdateNotificationPreferencesRPC_def CreateNotificationBindCodeRPC_def
    ConfirmNotificationBindingRPC_def UnbindNotificationChannelRPC_def SendTestNotificationRPC_def
  by (intro replies_rules settings_replies; simp)+

subsection \<open>The other handlers\<close>

lemma audit_answers: "answers (ListReconciliationRunsRPC u sid l k)" "answers (GetSessionReconciliationSummaryRPC u sid)"
  unfolding ListReconciliationRunsRPC_def GetSessionReconciliationSummaryRPC_def Let_def by (intro handler_answers; simp)+

lemma symbols_answer: "coded_result (fst (ListSymbols now fetch market q limit symbols))"
  unfolding ListSymbols_def by (auto split: option.split sum.split prod.split)

lemma store_replies: "answers m \<Longrightarrow> replies (in_store (on_accounts m))"
  unfolding answers_def replies_def in_store_def on_accounts_def by (auto split: prod.split) (metis fst_conv)

lemma outcome_coded [simp]: "coded_result (outcome r) = coded_result r"
  by (cases r) (simp_all add: outcome_def)

lemma on_notify_coded: "replies m \<Longrightarrow> coded_result (fst (on_notify m s))"
  unfolding replies_def on_notify_def by (auto split: prod.split) (metis fst_conv)

lemma on_audit_coded: "answers m \<Longrightarrow> coded_result (fst (on_audit m s))"
  unfolding answers_def on_audit_def by (auto split: prod.split) (metis fst_conv)

lemma service_call_coded: "coded_result (fst (service_call env req s))"
proof (cases req)
  case (ListSymbols_Request market q limit)
  then show ?thesis using symbols_answer [of "se_now env" "se_fetch env" market q limit "ss_symbols s"] by (auto split: prod.split)
qed (simp_all add: on_notify_coded on_audit_coded store_replies account_call_answers notification_replies audit_answers)

text \<open>
  C38.  Every error that a method of the account service answers with is a gRPC status with a code of the service's choosing, for all of its 45
  methods, whatever the environment, the request, the tables and the faults; the only other way a call ends is the panic of
  writing the key into the nil map of a venue credential that is a JSON null.
\<close>

theorem service_call_errors:
  assumes "service_call env req s = (Inl e, s')" shows "is_status e \<or> e = nil_map_write"
  using service_call_coded [of env req s] by (simp add: assms answer_error_def)

definition nullService :: ServiceEnv where
  "nullService = \<lparr>se_account = nullEnv, se_notifier = None, se_now = 0, se_fetch = \<lambda>_. None\<rparr>"

definition nullState :: ServiceState where
  "nullState = \<lparr>ss_notify = \<lparr>ns_conn = connected \<lparr>nt_accounts = nullTables, nt_settings = [], nt_channels = [], nt_plans = [], nt_next_channel = 1\<rparr>,
     ns_hits = (\<lambda>_. []), ns_sent = []\<rparr>, ss_audit = connected \<lparr>au_runs = []\<rparr>, ss_symbols = None\<rparr>"

theorem service_call_errors_witness:
  "\<exists>e f s' t'. service_call nullService (SendTestNotification_Request 7) nullState = (Inl e, s') \<and> is_status e
     \<and> service_call nullService (Account_Request (Call_GetPortfolioSnapshot 7 1)) nullState = (Inl f, t') \<and> \<not> is_status f \<and> f = nil_map_write"
proof -
  obtain e s' where e: "service_call nullService (SendTestNotification_Request 7) nullState = (Inl e, s')" "e \<noteq> nil_map_write"
    by (simp add: nullService_def SendTestNotificationRPC_def for_subscriber_def requireUserID_def requireNotifier_def done_with_def
        on_notify_def outcome_def nil_map_write_def)
  obtain f c where f: "account_call nullEnv (Call_GetPortfolioSnapshot 7 1) (connected nullTables) = (Inl f, c)" "\<not> is_status f"
    using null_credential_panics by blast
  then obtain t' where t: "service_call nullService (Account_Request (Call_GetPortfolioSnapshot 7 1)) nullState = (Inl f, t')"
    by (simp add: nullService_def nullState_def on_notify_def in_store_def on_accounts_def outcome_def connected_def)
  show ?thesis using service_call_errors [OF e(1)] service_call_errors [OF t] e t f(2) by blast
qed

end
