(* ===== verification/Notification_Guarantees.thy ===== *)
theory Notification_Guarantees
  imports Notification_Service
begin

text \<open>
  The properties of the notification service: the bound of the rate limiter, what a delivered message presupposes, and that
  messages only go to a chat that has presented a code of the user.
\<close>

subsection \<open>The rate limiter\<close>

text \<open>The times of the admitted calls for a key, in order, over calls with a key, a limit and a time each.\<close>

primrec admitted_at :: "string \<Rightarrow> int \<Rightarrow> (string \<times> int \<times> time) list \<Rightarrow> hits \<Rightarrow> time list" where
  "admitted_at k window [] hit = []"
| "admitted_at k window (call # calls) hit = (case call of (key, limit, now) \<Rightarrow>
     (case Allow now key limit window hit of
        (ok, hit') \<Rightarrow> (if ok \<and> key = k then [now] else []) @ admitted_at k window calls hit'))"

definition in_window :: "time \<Rightarrow> int \<Rightarrow> time list \<Rightarrow> time list" where
  "in_window now window ts = filter (\<lambda>t. now - window < t \<and> t \<le> now) ts"

lemma in_window_append [simp]: "in_window now window (xs @ ys) = in_window now window xs @ in_window now window ys"
  by (simp add: in_window_def)

text \<open>What the limiter remembers of a key is every admitted call after some cutoff that no later call looks behind.\<close>

definition remembers :: "int \<Rightarrow> time list \<Rightarrow> time \<Rightarrow> time list \<Rightarrow> bool" where
  "remembers window past clock hs = (\<exists>cutoff. cutoff \<le> clock - window \<and> hs = filter (\<lambda>t. cutoff < t) past \<and> (\<forall>t\<in>set past. t \<le> clock))"

lemma filter_later: "c \<le> (d::int) \<Longrightarrow> filter (\<lambda>t. d < t) (filter (\<lambda>t. c < t) xs) = filter (\<lambda>t. d < t) xs"
  by (induction xs) auto

lemma Allow_remembers:
  assumes "remembers window past clock (hit k)" "clock \<le> now" "0 < window" "Allow now key limit window hit = (ok, hit')"
  shows "remembers window (past @ (if ok \<and> key = k then [now] else [])) now (hit' k)
    \<and> (ok \<and> key = k \<longrightarrow> int (length (in_window now window past)) < limit)"
proof -
  obtain cutoff where c: "cutoff \<le> clock - window" "hit k = filter (\<lambda>t. cutoff < t) past" "\<forall>t\<in>set past. t \<le> clock"
    using assms(1) unfolding remembers_def by blast
  have keep: "filter (\<lambda>t. now - window < t) (hit k) = filter (\<lambda>t. now - window < t) past"
    unfolding c(2) by (rule filter_later) (use c(1) assms(2) in simp)
  have past: "\<forall>t\<in>set past. t \<le> now" using c(3) assms(2) by auto
  then have "in_window now window past = filter (\<lambda>t. now - window < t) past" unfolding in_window_def by (intro filter_cong) auto
  moreover have "remembers window past now (hit k)" unfolding remembers_def using c(1,2) assms(2) past by (intro exI [of _ cutoff]) auto
  moreover have "remembers window past now (filter (\<lambda>t. now - window < t) past)"
    unfolding remembers_def using past by (intro exI [of _ "now - window"]) auto
  moreover have "remembers window (past @ [now]) now (filter (\<lambda>t. now - window < t) past @ [now])"
    unfolding remembers_def using past assms(3) by (intro exI [of _ "now - window"]) auto
  ultimately show ?thesis using assms(4) keep by (auto simp: Allow_def Let_def split: if_splits)
qed

lemma length_filter_mono: "(\<And>x. x \<in> set xs \<Longrightarrow> P x \<Longrightarrow> Q x) \<Longrightarrow> length (filter P xs) \<le> length (filter Q xs)"
  by (induction xs) (auto intro: le_SucI)

lemma limiter_bound:
  assumes "0 < window" "remembers window past clock (hit k)" "sorted (clock # map (snd \<circ> snd) calls)"
    "\<And>limit now. (k, limit, now) \<in> set calls \<Longrightarrow> limit \<le> bound" "\<And>now. int (length (in_window now window past)) \<le> bound"
  shows "int (length (in_window now window (past @ admitted_at k window calls hit))) \<le> bound"
  using assms(2-)
proof (induction calls arbitrary: past clock hit)
  case Nil
  then show ?case by simp
next
  case (Cons call calls)
  obtain key limit t where call: "call = (key, limit, t)" by (cases call)
  obtain ok hit' where a: "Allow t key limit window hit = (ok, hit')" by fastforce
  have t: "clock \<le> t" "\<forall>c\<in>set calls. t \<le> snd (snd c)" using Cons.prems(2) by (auto simp: call)
  let ?new = "if ok \<and> key = k then [t] else []"
  note step = Allow_remembers [OF Cons.prems(1) t(1) assms(1) a]
  have "int (length (in_window now window (past @ ?new))) \<le> bound" for now
  proof (cases "ok \<and> key = k \<and> t \<le> now")
    case True
    have "set past \<subseteq> {x. x \<le> t}" using Cons.prems(1) t(1) unfolding remembers_def by force
    then have "length (in_window now window past) \<le> length (in_window t window past)"
      unfolding in_window_def using True by (intro length_filter_mono) auto
    moreover have "limit \<le> bound" using Cons.prems(3) True by (auto simp: call)
    ultimately show ?thesis using step True by (simp add: in_window_def)
  next
    case False
    then show ?thesis using Cons.prems(4) by (auto simp: in_window_def)
  qed
  moreover have "remembers window (past @ ?new) t (hit' k)" using step by simp
  moreover have "sorted (t # map (snd \<circ> snd) calls)" using Cons.prems(2) by (simp add: call o_def)
  ultimately have "int (length (in_window now window ((past @ ?new) @ admitted_at k window calls hit'))) \<le> bound"
    by (intro Cons.IH [of "past @ ?new" t hit']) (use Cons.prems(3) in \<open>auto simp: o_def\<close>)
  then show ?case by (simp add: call a)
qed

subsection \<open>Consent\<close>

text \<open>What matters for the binding of chats: a code was issued to a user, a chat presented one, a user unbound the chat.\<close>

datatype binding_event = CodeIssued int string time | ChatPresented string int time | ChatUnbound int

datatype NotifyCall =
    Notify_Deliver NotificationEvent
  | Notify_Test int
  | Notify_Update TelegramUpdate
  | Notify_BindCode int
  | Notify_Unbind int
  | Notify_Preferences NotificationSettings
  | Notify_Settings int

primrec notify_call :: "NotifyEnv \<Rightarrow> NotifyCall \<Rightarrow> notify_state \<Rightarrow> notify_state" where
  "notify_call env (Notify_Deliver event) s = snd (DeliverEvent env event s)"
| "notify_call env (Notify_Test user) s = snd (SendTest env user s)"
| "notify_call env (Notify_Update u) s = snd (HandleTelegramUpdate env u s)"
| "notify_call env (Notify_BindCode user) s = snd (CreateBindCode env user s)"
| "notify_call env (Notify_Unbind user) s = snd (Unbind env user s)"
| "notify_call env (Notify_Preferences p) s = snd (UpdatePreferences env p s)"
| "notify_call env (Notify_Settings user) s = snd (GetSettings user s)"

text \<open>A code counts as issued when it may have been stored, a chat as unbound when the call succeeded.\<close>

primrec binding_events :: "NotifyEnv \<Rightarrow> NotifyCall \<Rightarrow> notify_state \<Rightarrow> binding_event list" where
  "binding_events env (Notify_Deliver event) s = []"
| "binding_events env (Notify_Test user) s = []"
| "binding_events env (Notify_Update u) s = [ChatPresented (HashBindCode (nv_sha256 env) (trim_space (tu_Text u))) (tc_ID (tu_Chat u)) (nv_now env)]"
| "binding_events env (Notify_BindCode user) s = (case randomBindCode (nv_random env) of Inl e \<Rightarrow> []
     | Inr code \<Rightarrow> [CodeIssued user (HashBindCode (nv_sha256 env) code) (nv_now env + ng_BindCodeTTL (nv_cfg env))])"
| "binding_events env (Notify_Unbind user) s = (if is_ok (fst (Unbind env user s)) then [ChatUnbound user] else [])"
| "binding_events env (Notify_Preferences p) s = []"
| "binding_events env (Notify_Settings user) s = []"

text \<open>Histories, newest event first.  Between calls anything may change but the channels: the faults to come, the accounts, the memory of the limiter.\<close>

inductive notify_history :: "binding_event list \<Rightarrow> notify_state \<Rightarrow> bool" where
  "nt_channels (cn_tables (ns_conn s)) = [] \<Longrightarrow> notify_history [] s"
| "notify_history tr s \<Longrightarrow> notify_history (binding_events env call s @ tr) (notify_call env call s)"
| "notify_history tr s \<Longrightarrow> nt_channels (cn_tables (ns_conn s')) = nt_channels (cn_tables (ns_conn s)) \<Longrightarrow> notify_history tr s'"

definition since_unbound :: "int \<Rightarrow> binding_event list \<Rightarrow> binding_event list" where
  "since_unbound u tr = takeWhile (\<lambda>e. e \<noteq> ChatUnbound u) tr"

definition issued :: "int \<Rightarrow> string \<Rightarrow> time \<Rightarrow> binding_event list \<Rightarrow> bool" where
  "issued u h expires tr = (CodeIssued u h expires \<in> set (since_unbound u tr))"

text \<open>Since the last unbinding a chat presented a code that had been issued to the user and had not expired.\<close>

definition consented :: "int \<Rightarrow> int \<Rightarrow> binding_event list \<Rightarrow> bool" where
  "consented u cid tr = (\<exists>h expires now newer older. since_unbound u tr = newer @ ChatPresented h cid now # older
     \<and> CodeIssued u h expires \<in> set older \<and> now < expires)"

definition backed :: "binding_event list \<Rightarrow> channel_row \<Rightarrow> bool" where
  "backed tr r = (ch_channel r = ChannelTelegram
     \<and> (\<forall>h e. ch_bind_code_hash r = Some h \<longrightarrow> ch_bind_code_expires_at r = Some e \<longrightarrow> issued (ch_user_id r) h e tr)
     \<and> (\<forall>x. ch_target_id r = Some x \<longrightarrow> (\<exists>cid. x = show_int cid \<and> consented (ch_user_id r) cid tr)))"

definition channels_are :: "(channel_row \<Rightarrow> bool) \<Rightarrow> notice_tables \<Rightarrow> bool" where
  "channels_are P t = (\<forall>r\<in>set (nt_channels t). P r)"

lemma since_unbound_Cons: "e \<noteq> ChatUnbound u \<Longrightarrow> since_unbound u (e # tr) = e # since_unbound u tr"
  by (simp add: since_unbound_def)

lemma consented_later: "consented u cid tr \<Longrightarrow> e \<noteq> ChatUnbound u \<Longrightarrow> consented u cid (e # tr)"
  unfolding consented_def by (metis since_unbound_Cons append_Cons)

lemma issued_later: "issued u h x tr \<Longrightarrow> e \<noteq> ChatUnbound u \<Longrightarrow> issued u h x (e # tr)"
  by (simp add: issued_def since_unbound_Cons)

lemma backed_later: "backed tr r \<Longrightarrow> e \<noteq> ChatUnbound (ch_user_id r) \<Longrightarrow> backed (e # tr) r"
  unfolding backed_def using consented_later issued_later by blast

lemma presented_consents: "issued u h x tr \<Longrightarrow> now < x \<Longrightarrow> consented u cid (ChatPresented h cid now # tr)"
  unfolding issued_def consented_def by (metis since_unbound_Cons append_Nil binding_event.distinct(5))

subsection \<open>What the statements do to the channels\<close>

abbreviation same_channel :: "channel_row \<Rightarrow> channel_row \<Rightarrow> bool" where
  "same_channel new r \<equiv> ch_user_id r = ch_user_id new \<and> ch_channel r = ch_channel new"

lemma upsert_channel_keeps:
  assumes "\<And>r. P r \<Longrightarrow> same_channel new r \<Longrightarrow> P (change r)" "\<And>i. ch_channel new = ChannelTelegram \<Longrightarrow> P (new\<lparr>ch_id := i\<rparr>)"
  shows "keeps_inv (channels_are P) t (snd (upsert_channel new change t))"
  using assms by (auto simp: keeps_inv_def channels_are_def upsert_channel_def Let_def split: list.split)

lemma upsert_channel_done:
  assumes "upsert_channel new change t = (Inr x, t')" "channels_are P t" "\<And>r. P r \<Longrightarrow> \<not> same_channel new r \<Longrightarrow> Q r"
    "\<And>r. P r \<Longrightarrow> same_channel new r \<Longrightarrow> Q (change r)" "\<And>i. Q (new\<lparr>ch_id := i\<rparr>)"
  shows "channels_are Q t'"
  using assms by (fastforce simp: channels_are_def upsert_channel_def Let_def filter_empty_conv split: list.splits if_splits)

lemma upsert_settings_channels: "same_view nt_channels t (snd (upsert_settings new change t))"
  by (simp add: same_view_def upsert_settings_def split: list.split)

lemma same_view_keeps: "same_view nt_channels s t \<Longrightarrow> keeps_inv (channels_are P) s t"
  by (simp add: same_view_def keeps_inv_def channels_are_def)

text \<open>A call of the service that keeps an invariant of the tables.\<close>

definition stays :: "(notice_tables \<Rightarrow> bool) \<Rightarrow> 'a notify \<Rightarrow> bool" where
  "stays I m = (\<forall>s. I (cn_tables (ns_conn s)) \<longrightarrow> I (cn_tables (ns_conn (snd (m s)))))"

lemma stays_in_store: "invariant.moves I m \<Longrightarrow> stays I (in_store m)"
  by (auto simp: stays_def in_store_def invariant.moves_def keeps_inv_def split: prod.split)

lemma stays_done: "stays I (done_with r)"
  by (simp add: stays_def done_with_def)

lemma stays_and_then: assumes "stays I m" "\<And>x. stays I (f x)" shows "stays I (and_then m f)"
  using assms unfolding stays_def and_then_def
  by (auto split: prod.split sum.split)

lemma and_then_done: "and_then (done_with (Inr x)) f = f x"
  by (simp add: and_then_def done_with_def fun_eq_iff)

lemma stays_if: "stays I m \<Longrightarrow> stays I n \<Longrightarrow> stays I (if b then m else n)"
  by simp

lemmas stays_rules = stays_in_store stays_done stays_and_then stays_if

lemma fetch_row_moves: "invariant.moves I (fetch_row rows)"
  unfolding fetch_row_def by (intro invariant.moves_rules)

lemma or_default_moves: "invariant.moves I m \<Longrightarrow> invariant.moves I (or_default d m)"
  unfolding or_default_def by (intro invariant.moves_rules)

lemma notice_reads:
  "invariant.moves I (GetNotificationSettings u)" "invariant.moves I (GetNotificationChannel u ch)" "invariant.moves I (GetNotificationPlan p)"
  "invariant.moves I (FindNotificationChannelByBindCodeHash h now)"
  unfolding GetNotificationSettings_def GetNotificationChannel_def GetNotificationPlan_def getNotificationPlan_def Let_def
    FindNotificationChannelByBindCodeHash_def
  by (intro fetch_row_moves or_default_moves invariant.moves_rules; auto intro!: fetch_row_moves or_default_moves invariant.moves_rules split: sum.split)+

lemma on_accounts_moves: "invariant.moves (channels_are P) (on_accounts m)"
  by (auto simp: invariant.moves_def keeps_inv_def channels_are_def on_accounts_def split: prod.split)

lemma upsert_channel_moves:
  assumes "\<And>r. P r \<Longrightarrow> same_channel new r \<Longrightarrow> P (change r)" "\<And>i. ch_channel new = ChannelTelegram \<Longrightarrow> P (new\<lparr>ch_id := i\<rparr>)"
  shows "invariant.moves (channels_are P) (exec_sql (upsert_channel new change))"
  using assms by (intro invariant.exec_moves upsert_channel_keeps)

lemma upsert_settings_moves: "invariant.moves (channels_are P) (exec_sql (upsert_settings new change))"
  by (intro invariant.exec_moves same_view_keeps upsert_settings_channels)

lemma status_moves: "invariant.moves (channels_are (backed tr)) (UpdateNotificationDeliveryStatus now u ch st msg)"
  unfolding UpdateNotificationDeliveryStatus_def Let_def
  by (intro invariant.moves_rules upsert_settings_moves upsert_channel_moves) (auto simp: backed_def new_channel_def)

lemma code_moves:
  "issued u h e tr \<Longrightarrow> invariant.moves (channels_are (backed tr)) (UpsertNotificationBindCode now u ch h e)"
  unfolding UpsertNotificationBindCode_def Let_def
  by (intro invariant.moves_rules upsert_channel_moves) (auto simp: backed_def new_channel_def)

lemma bind_moves:
  "consented u cid tr \<Longrightarrow> invariant.moves (channels_are (backed tr)) (BindNotificationChannel now u ch (show_int cid) ty lb)"
  unfolding BindNotificationChannel_def Let_def
  by (intro invariant.moves_rules upsert_channel_moves) (auto simp: backed_def new_channel_def)

lemma revoke_moves: "invariant.moves (channels_are (backed tr)) (RevokeNotificationChannel now u ch)"
  unfolding RevokeNotificationChannel_def Let_def
  by (intro invariant.moves_rules upsert_channel_moves) (auto simp: backed_def new_channel_def)

lemma revoke_done:
  assumes "RevokeNotificationChannel now u ChannelTelegram c = (Inr x, c')" "channels_are (backed tr) (cn_tables c)"
  shows "channels_are (backed (ChatUnbound u # tr)) (cn_tables c')"
proof -
  let ?revoked = "\<lambda>r. r\<lparr>ch_status := StatusRevoked, ch_target_id := None, ch_target_type := None, ch_target_label := None,
            ch_bind_code_hash := None, ch_bind_code_expires_at := None, ch_revoked_at := Some now, ch_updated_at := now\<rparr>"
  let ?new = "?revoked (new_channel now u ChannelTelegram StatusRevoked)"
  have n: "normalizeNotificationChannel ChannelTelegram = ChannelTelegram" by code_simp
  obtain y c1 where "exec_sql (upsert_channel ?new ?revoked) c = (Inr y, c1)" "c' = c1"
    using assms(1) unfolding RevokeNotificationChannel_def Let_def n then_sql_Inr by auto
  then have "upsert_channel ?new ?revoked (cn_tables c) = (Inr y, cn_tables c')" by (simp only: exec_sql_Inr)
  then show ?thesis
  proof (rule upsert_channel_done [OF _ assms(2)])
    show "backed (ChatUnbound u # tr) r" if "backed tr r" "\<not> same_channel ?new r" for r
      using that by (intro backed_later) (auto simp: backed_def new_channel_def)
  qed (simp_all add: backed_def new_channel_def)
qed

subsection \<open>What a call does to the channels\<close>

lemma noted_stays: "channels_are (backed tr) (cn_tables (ns_conn s)) \<Longrightarrow> channels_are (backed tr) (cn_tables (ns_conn (noted env u st msg s)))"
  using stays_in_store [OF status_moves] unfolding stays_def noted_def by blast

lemma sendMessage_stays: "stays (channels_are (backed tr)) (sendMessage env event channel)"
  using stays_in_store [OF status_moves, of tr] noted_stays
  by (auto simp: stays_def sendMessage_def Let_def split: option.split sum.split)

lemma admitted_conn: "admitted env event plan s = (ok, s') \<Longrightarrow> ns_conn s' = ns_conn s \<and> ns_sent s' = ns_sent s"
  by (auto simp: admitted_def split: prod.splits if_splits)

lemma deliverTo_stays: "stays (channels_are (backed tr)) (deliverTo env event settings plan channel)"
  using noted_stays sendMessage_stays [of tr env event channel]
  by (auto simp: stays_def deliverTo_def split: option.split prod.split bool.split dest!: admitted_conn)

lemma DeliverEvent_stays: "stays (channels_are (backed tr)) (DeliverEvent env event)"
proof -
  have "stays (channels_are (backed tr)) (deliverToUser env event)"
    unfolding deliverToUser_def by (intro stays_and_then stays_in_store on_accounts_moves notice_reads deliverTo_stays)
  then show ?thesis using noted_stays by (auto simp: stays_def DeliverEvent_def split: option.split)
qed

lemma fetch_row_in:
  assumes "fetch_row rows c = (Inr x, c')" shows "(\<exists>xs. rows (cn_tables c) = x # xs) \<and> cn_tables c' = cn_tables c"
proof -
  obtain rs c1 where q: "query_sql rows c = (Inr rs, c1)" "first_or_not_found rs = Inr x" "c1 = c'"
    using assms unfolding fetch_row_def then_sql_Inr return_sql_Inr by blast
  then show ?thesis using query_sql_Inr [OF q(1)] by (auto simp: first_or_not_found_def split: list.splits)
qed

lemma found_by_code:
  assumes "FindNotificationChannelByBindCodeHash h now c = (Inr pending, c')" "channels_are (backed tr) (cn_tables c)"
  obtains e where "issued (nc_UserID pending) h e tr" "now < e" "cn_tables c' = cn_tables c"
proof -
  obtain xs where x: "map scanNotificationChannel (code_rows h now (cn_tables c)) = pending # xs" "cn_tables c' = cn_tables c"
    using assms(1) fetch_row_in unfolding FindNotificationChannelByBindCodeHash_def by meson
  then have "pending \<in> set (map scanNotificationChannel (code_rows h now (cn_tables c)))" by simp
  then obtain r where r: "r \<in> set (code_rows h now (cn_tables c))" "pending = scanNotificationChannel r" by auto
  then have "r \<in> set (nt_channels (cn_tables c))" "ch_bind_code_hash r = Some h" "case ch_bind_code_expires_at r of None \<Rightarrow> False | Some e \<Rightarrow> now < e"
    by (auto simp: code_rows_def)
  then show ?thesis using that assms(2) x(2) r(2) by (auto simp: channels_are_def backed_def scanNotificationChannel_def split: option.splits)
qed

lemma channels_later:
  assumes "channels_are (backed tr) t" "\<And>u. e \<noteq> ChatUnbound u" shows "channels_are (backed (e # tr)) t"
  using assms backed_later unfolding channels_are_def by blast

lemma update_backed:
  assumes "channels_are (backed tr) (cn_tables (ns_conn s))"
  shows "channels_are (backed (binding_events env (Notify_Update u) s @ tr)) (cn_tables (ns_conn (snd (HandleTelegramUpdate env u s))))"
proof -
  let ?h = "HashBindCode (nv_sha256 env) (trim_space (tu_Text u))"
  let ?tr = "ChatPresented ?h (tc_ID (tu_Chat u)) (nv_now env) # tr"
  let ?find = "FindNotificationChannelByBindCodeHash ?h (nv_now env)"
  have s: "channels_are (backed ?tr) (cn_tables (ns_conn s))" by (rule channels_later [OF assms]) simp
  obtain r c1 where f: "?find (ns_conn s) = (r, c1)" by fastforce
  have "channels_are (backed ?tr) (cn_tables c1)"
    using invariant.movesD [OF notice_reads(4) f, of "channels_are (backed ?tr)"] s by (simp add: keeps_inv_def)
  moreover have "stays (channels_are (backed ?tr)) (and_then
      (in_store (BindNotificationChannel (nv_now env) (nc_UserID p) ch (show_int (tc_ID (tu_Chat u))) ty lb)) (\<lambda>_. done_with (Inr ())))"
    if p: "r = Inr p" for p ch ty lb
  proof -
    obtain e where e: "issued (nc_UserID p) ?h e tr" "nv_now env < e" using found_by_code [OF f [unfolded p] assms] by blast
    show ?thesis by (intro stays_rules bind_moves presented_consents [OF e])
  qed
  moreover have find: "in_store ?find s = (r, s\<lparr>ns_conn := c1\<rparr>)" using f by (simp add: in_store_def)
  ultimately show ?thesis
    using s unfolding HandleTelegramUpdate_def Let_def find
    by (cases "trim_space (tu_Text u) = []"; cases r) (simp_all add: stays_def)
qed

lemma bind_code_backed:
  assumes "channels_are (backed tr) (cn_tables (ns_conn s))"
  shows "channels_are (backed (binding_events env (Notify_BindCode u) s @ tr)) (cn_tables (ns_conn (snd (CreateBindCode env u s))))"
proof (cases "randomBindCode (nv_random env)")
  case (Inl e)
  then show ?thesis using assms by (simp add: CreateBindCode_def and_then_def done_with_def)
next
  case (Inr code)
  let ?h = "HashBindCode (nv_sha256 env) code" and ?x = "nv_now env + ng_BindCodeTTL (nv_cfg env)"
  let ?tr = "CodeIssued u ?h ?x # tr"
  have "channels_are (backed ?tr) (cn_tables (ns_conn s))" by (rule channels_later [OF assms]) simp
  moreover have "issued u ?h ?x ?tr" by (simp add: issued_def since_unbound_Cons)
  then have "stays (channels_are (backed ?tr)) (CreateBindCode env u)"
    unfolding CreateBindCode_def Let_def Inr and_then_done by (intro stays_rules code_moves)
  ultimately show ?thesis by (simp add: Inr stays_def)
qed

lemma unbind_backed:
  assumes "channels_are (backed tr) (cn_tables (ns_conn s))"
  shows "channels_are (backed (binding_events env (Notify_Unbind u) s @ tr)) (cn_tables (ns_conn (snd (Unbind env u s))))"
proof -
  obtain r c where x: "RevokeNotificationChannel (nv_now env) u ChannelTelegram (ns_conn s) = (r, c)" by fastforce
  show ?thesis
  proof (cases r)
    case (Inl e)
    then show ?thesis using invariant.movesD [OF revoke_moves x, of tr] assms x by (simp add: Unbind_def in_store_def keeps_inv_def)
  next
    case (Inr y)
    then show ?thesis using revoke_done [OF x [unfolded Inr] assms] x by (simp add: Unbind_def in_store_def)
  qed
qed

lemma history_backed: "notify_history tr s \<Longrightarrow> channels_are (backed tr) (cn_tables (ns_conn s))"
proof (induction rule: notify_history.induct)
  case (2 tr s env call)
  show ?case
  proof (cases call)
    case (Notify_Deliver event)
    then show ?thesis using 2 DeliverEvent_stays [of tr env event] by (simp add: stays_def)
  next
    case (Notify_Test u)
    then show ?thesis using 2 DeliverEvent_stays [of tr env] by (simp add: stays_def SendTest_def)
  next
    case (Notify_Preferences p)
    have "stays (channels_are (backed tr)) (UpdatePreferences env p)"
      unfolding UpdatePreferences_def UpsertNotificationSettings_def by (intro stays_rules invariant.moves_rules upsert_settings_moves)
    then show ?thesis using 2 Notify_Preferences by (simp add: stays_def)
  next
    case (Notify_Settings u)
    have "stays (channels_are (backed tr)) (GetSettings u)"
      unfolding GetSettings_def by (intro stays_rules notice_reads on_accounts_moves)
    then show ?thesis using 2 Notify_Settings by (simp add: stays_def)
  qed (use 2 update_backed bind_code_backed unbind_backed in simp_all)
qed (simp_all add: channels_are_def)

subsection \<open>What a delivered message presupposes\<close>

definition settings_for :: "int \<Rightarrow> notice_tables \<Rightarrow> NotificationSettings" where
  "settings_for u t = (case filter (\<lambda>r. se_user_id r = u) (nt_settings t) of [] \<Rightarrow> defaultNotificationSettings u | r # _ \<Rightarrow> scanNotificationSettings r)"

definition channel_for :: "int \<Rightarrow> notice_tables \<Rightarrow> NotificationChannel" where
  "channel_for u t = (case filter (\<lambda>r. ch_user_id r = u \<and> ch_channel r = ChannelTelegram) (nt_channels t) of
     [] \<Rightarrow> defaultNotificationChannel u ChannelTelegram | r # _ \<Rightarrow> scanNotificationChannel r)"

definition plan_for :: "string \<Rightarrow> notice_tables \<Rightarrow> NotificationPlan" where
  "plan_for code t = (let stored = (\<lambda>p. find (\<lambda>q. np_PlanCode q = p) (nt_plans t)); named = (if trim_space code = [] then ''free'' else trim_space code) in
     case stored named of Some q \<Rightarrow> q | None \<Rightarrow> (case stored ''free'' of Some q \<Rightarrow> q | None \<Rightarrow> freePlan))"

text \<open>The driver never answers with the repository's own error for a missing row.\<close>

definition driver_faults :: "'t conn \<Rightarrow> bool" where
  "driver_faults c = (\<forall>f\<in>set (cn_faults c). f \<noteq> FailBefore RepoNotFound \<and> f \<noteq> FailAfter RepoNotFound)"

lemma driver_query:
  assumes "driver_faults c" "query_sql f c = (r, c')"
  shows "r \<noteq> Inl RepoNotFound \<and> driver_faults c' \<and> cn_tables c' = cn_tables c \<and> (\<forall>x. r = Inr x \<longrightarrow> x = f (cn_tables c))"
proof (cases "cn_faults c")
  case Nil
  then show ?thesis using assms by (simp add: query_sql_def exec_sql_def take_fault_def) auto
next
  case (Cons x xs)
  then show ?thesis using assms by (cases x) (auto simp: query_sql_def exec_sql_def take_fault_def driver_faults_def)
qed

lemma driver_fetch:
  assumes "driver_faults c" "fetch_row rows c = (r, c')"
  shows "driver_faults c' \<and> cn_tables c' = cn_tables c \<and> (\<forall>x. r = Inr x \<longrightarrow> (\<exists>xs. rows (cn_tables c) = x # xs))
    \<and> (r = Inl RepoNotFound \<longrightarrow> rows (cn_tables c) = [])"
proof -
  obtain q c1 where q: "query_sql rows c = (q, c1)" by fastforce
  then show ?thesis using driver_query [OF assms(1) q] assms(2)
    by (cases q) (auto simp: fetch_row_def then_sql_def return_sql_def first_or_not_found_def split: list.splits)
qed

lemma driver_default:
  assumes "driver_faults c" "or_default d (fetch_row rows) c = (Inr x, c')"
  shows "driver_faults c' \<and> cn_tables c' = cn_tables c \<and> x = (case rows (cn_tables c) of [] \<Rightarrow> d | y # _ \<Rightarrow> y)"
proof -
  obtain r c1 where r: "fetch_row rows c = (r, c1)" by fastforce
  then show ?thesis using driver_fetch [OF assms(1) r] assms(2)
    by (cases r) (auto simp: or_default_def handle_sql_def return_sql_def split: if_splits list.split)
qed

lemma driver_settings:
  assumes "driver_faults c" "GetNotificationSettings u c = (Inr x, c')"
  shows "driver_faults c' \<and> cn_tables c' = cn_tables c \<and> x = settings_for u (cn_tables c)"
  using driver_default [OF assms(1), OF assms(2) [unfolded GetNotificationSettings_def]]
  by (cases "filter (\<lambda>r. se_user_id r = u) (nt_settings (cn_tables c))") (simp_all add: settings_for_def)

lemma driver_channel:
  assumes "driver_faults c" "GetNotificationChannel u ChannelTelegram c = (Inr x, c')"
  shows "driver_faults c' \<and> cn_tables c' = cn_tables c \<and> x = channel_for u (cn_tables c)"
proof -
  have n: "normalizeNotificationChannel ChannelTelegram = ChannelTelegram" by code_simp
  show ?thesis
    using driver_default [OF assms(1), OF assms(2) [unfolded GetNotificationChannel_def Let_def n]]
    by (cases "filter (\<lambda>r. ch_user_id r = u \<and> ch_channel r = ChannelTelegram) (nt_channels (cn_tables c))") (simp_all add: channel_for_def)
qed

lemma find_filter: "find P xs = (case filter P xs of [] \<Rightarrow> None | x # _ \<Rightarrow> Some x)"
  by (induction xs) auto

lemma driver_plan:
  assumes "driver_faults c" "GetNotificationPlan code c = (Inr x, c')"
  shows "driver_faults c' \<and> cn_tables c' = cn_tables c \<and> x = plan_for code (cn_tables c)"
proof -
  let ?p = "if trim_space code = [] then ''free'' else trim_space code"
  let ?rows = "\<lambda>p t. filter (\<lambda>q. np_PlanCode q = p) (nt_plans t)"
  obtain r c1 where r: "fetch_row (?rows ?p) c = (r, c1)" by fastforce
  note f = driver_fetch [OF assms(1) r]
  have g: "GetNotificationPlan code c = (case r of Inr plan \<Rightarrow> (Inr plan, c1)
      | Inl e \<Rightarrow> if e = RepoNotFound \<and> ?p \<noteq> ''free'' then or_default freePlan (fetch_row (?rows ''free'')) c1
          else if e = RepoNotFound then (Inr freePlan, c1) else (Inl e, c1))"
    using r by (simp add: GetNotificationPlan_def Let_def getNotificationPlan_def handle_sql_def return_sql_def split: sum.split)
  show ?thesis
  proof (cases r)
    case (Inr plan)
    then show ?thesis using f g assms(2) by (auto simp: plan_for_def Let_def find_filter)
  next
    case (Inl e)
    then show ?thesis
      using f g assms(2) driver_default [of c1 freePlan "?rows ''free''" x c']
      by (auto simp: plan_for_def Let_def find_filter split: if_splits list.splits)
  qed
qed

lemma driver_faults_of [simp]: "driver_faults \<lparr>cn_tables = t, cn_faults = cn_faults c\<rparr> = driver_faults c"
  by (simp add: driver_faults_def)

lemma driver_user:
  assumes "driver_faults c" "on_accounts (GetUser u) c = (Inr x, c')"
  shows "driver_faults c' \<and> cn_tables c' = cn_tables c \<and> (\<exists>y\<in>set (tb_users (nt_accounts (cn_tables c))). us_ID y = u \<and> us_PlanCode x = us_PlanCode y)"
proof -
  let ?d = "\<lparr>cn_tables = nt_accounts (cn_tables c), cn_faults = cn_faults c\<rparr>"
  obtain r d where g: "GetUser u ?d = (r, d)" by fastforce
  then have r: "r = Inr x" and c': "c' = \<lparr>cn_tables = (cn_tables c)\<lparr>nt_accounts := cn_tables d\<rparr>, cn_faults = cn_faults d\<rparr>"
    using assms(2) by (simp_all add: on_accounts_def)
  let ?users = "\<lambda>t. map (\<lambda>u. u\<lparr>us_PasswordHash := []\<rparr>) (filter (\<lambda>y. us_ID y = u) (tb_users t))"
  obtain rs d1 where q: "query_sql ?users ?d = (Inr rs, d1)" and x: "first_or_not_found rs = Inr x" and "d1 = d"
    using g unfolding r GetUser_def query_row_def then_sql_Inr return_sql_Inr by blast
  then have d: "driver_faults d" "cn_tables d = nt_accounts (cn_tables c)" "rs = ?users (nt_accounts (cn_tables c))"
    using driver_query [OF _ q] assms(1) by simp_all
  have "x \<in> set rs" using x by (cases rs) (simp_all add: first_or_not_found_def)
  then show ?thesis unfolding d(3) c' using d(1,2) by auto
qed

lemma in_store_sent: "in_store m s = (r, s') \<Longrightarrow> ns_sent s' = ns_sent s"
  by (auto simp: in_store_def split: prod.splits)

lemma noted_sent [simp]: "ns_sent (noted env u st msg s) = ns_sent s"
  by (simp add: noted_def in_store_def split: prod.split)

lemma sent_after:
  assumes "and_then (in_store m) f s = (r, s')" "ns_sent s' \<noteq> ns_sent s"
  obtains x c where "m (ns_conn s) = (Inr x, c)" "f x (s\<lparr>ns_conn := c\<rparr>) = (r, s')" "ns_sent s' \<noteq> ns_sent (s\<lparr>ns_conn := c\<rparr>)"
  using assms by (auto simp: and_then_def in_store_def split: prod.splits sum.splits)

lemma sendMessage_sent:
  assumes "sendMessage env event channel s = (r, s')" "ns_sent s' \<noteq> ns_sent s"
  shows "ns_sent s' = ns_sent s @ [(nc_TargetID channel, formatMessage event)]"
  using assms by (auto simp: sendMessage_def Let_def dest: in_store_sent split: option.splits sum.splits)

definition deliverable :: "NotifyEnv \<Rightarrow> NotificationEvent \<Rightarrow> notify_state \<Rightarrow> User \<Rightarrow> bool" where
  "deliverable env event s user = (let t = cn_tables (ns_conn s); plan = plan_for (us_PlanCode user) t in
     user \<in> set (tb_users (nt_accounts t)) \<and> us_ID user = ne_UserID event
     \<and> blockedStatus event (settings_for (ne_UserID event) t) plan (channel_for (ne_UserID event) t) = None
     \<and> (ne_Category event = ''custom'' \<longrightarrow>
          fst (Allow (nv_now env) (''user:'' @ show_int (ne_UserID event)) (customLimit plan) (ng_CustomRateWindow (nv_cfg env)) (ns_hits s))))"

lemma deliverTo_sent:
  assumes "deliverTo env event settings plan channel s = (r, s')" "ns_sent s' \<noteq> ns_sent s"
  shows "blockedStatus event settings plan channel = None \<and> fst (admitted env event plan s)
    \<and> ns_sent s' = ns_sent s @ [(nc_TargetID channel, formatMessage event)]"
proof -
  obtain ok s1 where a: "admitted env event plan s = (ok, s1)" by fastforce
  have "ns_sent s1 = ns_sent s" using admitted_conn [OF a] by simp
  then show ?thesis using assms sendMessage_sent [of env event channel s1 r s']
    by (auto simp: deliverTo_def a split: option.splits bool.splits)
qed

lemma delivered:
  assumes d: "driver_faults (ns_conn s)" and del: "DeliverEvent env event s = (r, s')" and sent: "ns_sent s' \<noteq> ns_sent s"
  shows "ValidateEvent event = None \<and> deliveryEnabled env \<and> (\<exists>user. deliverable env event s user)
    \<and> ns_sent s' = ns_sent s @ [(nc_TargetID (channel_for (ne_UserID event) (cn_tables (ns_conn s))), formatMessage event)]"
proof -
  let ?u = "ne_UserID event" and ?t = "cn_tables (ns_conn s)"
  have v: "ValidateEvent event = None" and e: "deliveryEnabled env" and u: "deliverToUser env event s = (r, s')"
    using del sent by (auto simp: DeliverEvent_def split: option.splits if_splits)
  note s = sent_after [OF u [unfolded deliverToUser_def] sent]
  obtain user c1 where u: "on_accounts (GetUser ?u) (ns_conn s) = (Inr user, c1)" and k1:
      "and_then (in_store (GetNotificationSettings ?u)) (\<lambda>settings. and_then (in_store (GetNotificationPlan (us_PlanCode user))) (\<lambda>plan.
       and_then (in_store (GetNotificationChannel ?u ChannelTelegram)) (deliverTo env event settings plan))) (s\<lparr>ns_conn := c1\<rparr>) = (r, s')"
      "ns_sent s' \<noteq> ns_sent (s\<lparr>ns_conn := c1\<rparr>)"
    using s by blast
  obtain settings c2 where st: "GetNotificationSettings ?u c1 = (Inr settings, c2)" and k2:
      "and_then (in_store (GetNotificationPlan (us_PlanCode user))) (\<lambda>plan.
       and_then (in_store (GetNotificationChannel ?u ChannelTelegram)) (deliverTo env event settings plan)) (s\<lparr>ns_conn := c2\<rparr>) = (r, s')"
      "ns_sent s' \<noteq> ns_sent (s\<lparr>ns_conn := c2\<rparr>)"
    using sent_after [OF k1] by auto
  obtain plan c3 where p: "GetNotificationPlan (us_PlanCode user) c2 = (Inr plan, c3)" and k3:
      "and_then (in_store (GetNotificationChannel ?u ChannelTelegram)) (deliverTo env event settings plan) (s\<lparr>ns_conn := c3\<rparr>) = (r, s')"
      "ns_sent s' \<noteq> ns_sent (s\<lparr>ns_conn := c3\<rparr>)"
    using sent_after [OF k2] by auto
  obtain channel c4 where ch: "GetNotificationChannel ?u ChannelTelegram c3 = (Inr channel, c4)"
      and k4: "deliverTo env event settings plan channel (s\<lparr>ns_conn := c4\<rparr>) = (r, s')" "ns_sent s' \<noteq> ns_sent (s\<lparr>ns_conn := c4\<rparr>)"
    using sent_after [OF k3] by auto
  note f1 = driver_user [OF d u]
  note f2 = driver_settings [OF conjunct1 [OF f1] st]
  note f3 = driver_plan [OF conjunct1 [OF f2] p]
  note f4 = driver_channel [OF conjunct1 [OF f3] ch]
  obtain y where y: "y \<in> set (tb_users (nt_accounts ?t))" "us_ID y = ?u" "us_PlanCode user = us_PlanCode y" using f1 by blast
  have eqs: "settings = settings_for ?u ?t" "plan = plan_for (us_PlanCode y) ?t" "channel = channel_for ?u ?t" using f1 f2 f3 f4 y(3) by simp_all
  note k = deliverTo_sent [OF k4]
  then have "deliverable env event s y"
    using y(1,2) unfolding eqs by (auto simp: deliverable_def Let_def admitted_def split: prod.splits)
  then show ?thesis using v e k unfolding eqs by auto
qed

lemma deliverable_channel:
  assumes "channels_are (backed tr) (cn_tables (ns_conn s))" "deliverable env event s user"
  shows "\<exists>cid. nc_TargetID (channel_for (ne_UserID event) (cn_tables (ns_conn s))) = show_int cid \<and> consented (ne_UserID event) cid tr"
proof -
  let ?u = "ne_UserID event" and ?t = "cn_tables (ns_conn s)"
  let ?c = "channel_for ?u ?t"
  have b: "nc_Status ?c = StatusBound" "trim_space (nc_TargetID ?c) \<noteq> []"
    using assms(2) by (auto simp: deliverable_def Let_def blockedStatus_def split: if_splits option.splits)
  obtain r rs where f: "filter (\<lambda>r. ch_user_id r = ?u \<and> ch_channel r = ChannelTelegram) (nt_channels ?t) = r # rs"
    using b(1) by (cases "filter (\<lambda>r. ch_user_id r = ?u \<and> ch_channel r = ChannelTelegram) (nt_channels ?t)")
      (auto simp: channel_for_def defaultNotificationChannel_def StatusUnbound_def StatusBound_def)
  then have "r \<in> set (filter (\<lambda>r. ch_user_id r = ?u \<and> ch_channel r = ChannelTelegram) (nt_channels ?t))" by simp
  then have r: "backed tr r" "ch_user_id r = ?u" using assms(1) by (auto simp: channels_are_def)
  have c: "?c = scanNotificationChannel r" by (simp add: channel_for_def f)
  obtain x where "ch_target_id r = Some x" "nc_TargetID ?c = x"
    using b(2) unfolding c by (cases "ch_target_id r") (auto simp: scanNotificationChannel_def nullString_def)
  then show ?thesis using r by (auto simp: backed_def)
qed

subsection \<open>A run\<close>

definition chatEnv :: "int \<Rightarrow> NotifyEnv" where
  "chatEnv now = \<lparr>nv_cfg = NewService \<lparr>ng_BotUsername = ''bot'', ng_BindCodeTTL = 0, ng_CustomRateWindow = 0, ng_DeliveryEnabled = None\<rparr>, nv_now = now,
     nv_random = Inr [1, 2, 3, 4, 5, 6], nv_sha256 = map of_char, nv_sender = Some (\<lambda>chat text. Inr ())\<rparr>"

definition chatUser :: User where
  "chatUser = \<lparr>us_ID = 7, us_Username = ''ann'', us_PasswordHash = [], us_CreatedAt = 0, us_PlanCode = ''pro''\<rparr>"

definition proPlan :: NotificationPlan where
  "proPlan = \<lparr>np_PlanCode = ''pro'', np_NotificationEnabled = True, np_AllowSystem = True, np_AllowStrategy = True, np_AllowCustom = True,
     np_CustomRateLimitPerMinute = 30, np_CustomRateLimitBurst = 10, np_UpdatedAt = 0\<rparr>"

definition chatStart :: notify_state where
  "chatStart = \<lparr>ns_conn = connected \<lparr>nt_accounts = empty_tables\<lparr>tb_users := [chatUser]\<rparr>, nt_settings = [], nt_channels = [], nt_plans = [proPlan],
     nt_next_channel = 1\<rparr>, ns_hits = (\<lambda>_. []), ns_sent = []\<rparr>"

definition chatCode :: string where
  "chatCode = (case randomBindCode (Inr [1, 2, 3, 4, 5, 6]) of Inr code \<Rightarrow> code | Inl e \<Rightarrow> [])"

definition chatUpdate :: TelegramUpdate where
  "chatUpdate = \<lparr>tu_UpdateID = 1, tu_Text = chatCode,
     tu_Chat = \<lparr>tc_ID = 42, tc_Type = ''private'', tc_Username = ''ann'', tc_FirstName = [], tc_LastName = [], tc_Title = []\<rparr>\<rparr>"

definition chatBound :: notify_state where
  "chatBound = notify_call (chatEnv 20) (Notify_Update chatUpdate) (notify_call (chatEnv 10) (Notify_BindCode 7) chatStart)"

definition chatNoCustom :: notify_state where
  "chatNoCustom = notify_call (chatEnv 30) (Notify_Preferences ((defaultNotificationSettings 7)\<lparr>nf_CustomEnabled := False\<rparr>)) chatBound"

definition customEvent :: "string \<Rightarrow> NotificationEvent" where
  "customEvent category = zero_NotificationEvent\<lparr>ne_SchemaVersion := 1, ne_UserID := 7, ne_Category := category, ne_EventType := ''custom.info'',
     ne_Message := ''hello''\<rparr>"

text \<open>
  C26.  A notification only goes to a chat that consented.  Whenever a delivery hands a message to the sender, the chat had presented a
  code issued to the user of the event before the code expired, after the user last unbound a chat; and the user's plan and settings allow
  the event as its category is written, a custom event also within its rate.
\<close>

theorem messages_need_consent:
  assumes "notify_history tr s" "driver_faults (ns_conn s)" "DeliverEvent env event s = (r, s')" "ns_sent s' \<noteq> ns_sent s"
  shows "\<exists>cid user. ns_sent s' = ns_sent s @ [(show_int cid, formatMessage event)] \<and> consented (ne_UserID event) cid tr
    \<and> deliverable env event s user"
  using delivered [OF assms(2-4)] deliverable_channel [OF history_backed [OF assms(1)]] by metis

lemma messages_need_consent_witness:
  "\<exists>r s' tr. notify_history tr chatBound \<and> DeliverEvent (chatEnv 40) (customEvent ''custom'') chatBound = (r, s')
     \<and> ns_sent s' \<noteq> ns_sent chatBound \<and> (\<exists>cid. consented 7 cid tr)"
proof -
  obtain r s' where d: "DeliverEvent (chatEnv 40) (customEvent ''custom'') chatBound = (r, s')" by fastforce
  have "ns_sent (snd (DeliverEvent (chatEnv 40) (customEvent ''custom'') chatBound)) \<noteq> ns_sent chatBound"
    "cn_faults (ns_conn chatBound) = []" "nt_channels (cn_tables (ns_conn chatStart)) = []"
    by code_simp+
  then have sent: "ns_sent s' \<noteq> ns_sent chatBound" and f: "driver_faults (ns_conn chatBound)" and start: "notify_history [] chatStart"
    using d by (auto simp: driver_faults_def intro: notify_history.intros(1))
  obtain tr where h: "notify_history tr chatBound"
    unfolding chatBound_def using notify_history.intros(2) [OF notify_history.intros(2) [OF start]] by blast
  have "ne_UserID (customEvent ''custom'') = 7" by (simp add: customEvent_def)
  with messages_need_consent [OF h f d sent] d sent h show ?thesis by metis
qed

text \<open>
  C30.  The rate limiter keeps its limit.  Over calls in the order of their times, with limits of a key up to a bound, no window
  of the configured length ever contains more admitted calls of the key than the bound.
\<close>

theorem rate_limit_kept:
  assumes "0 < window" "sorted (map (snd \<circ> snd) calls)" "\<And>limit now. (k, limit, now) \<in> set calls \<Longrightarrow> limit \<le> bound" "0 \<le> bound"
  shows "int (length (in_window now window (admitted_at k window calls (\<lambda>_. [])))) \<le> bound"
proof -
  define clock where "clock = (case calls of [] \<Rightarrow> 0 | c # _ \<Rightarrow> snd (snd c))"
  have "sorted (clock # map (snd \<circ> snd) calls)" using assms(2) by (cases calls) (auto simp: clock_def)
  moreover have "remembers window [] clock []" by (auto simp: remembers_def)
  ultimately show ?thesis
    using limiter_bound [OF assms(1), of "[]" clock "\<lambda>_. []" k calls bound now] assms(3,4) by (simp add: in_window_def)
qed

lemma rate_limit_kept_witness:
  "length (in_window 25 10 (admitted_at ''u'' 10 [(''u'', 2, 1), (''u'', 2, 2), (''u'', 2, 3), (''u'', 2, 20), (''u'', 2, 25)] (\<lambda>_. []))) = 2
   \<and> int (length (in_window 25 10 (admitted_at ''u'' 10 [(''u'', 2, 1), (''u'', 2, 2), (''u'', 2, 3), (''u'', 2, 20), (''u'', 2, 25)] (\<lambda>_. [])))) \<le> 2"
proof
  show "int (length (in_window 25 10 (admitted_at ''u'' 10 [(''u'', 2, 1), (''u'', 2, 2), (''u'', 2, 3), (''u'', 2, 20), (''u'', 2, 25)] (\<lambda>_. [])))) \<le> 2"
    by (rule rate_limit_kept) auto
qed code_simp

subsection \<open>Where it falls short\<close>

text \<open>
  The category is validated without its spaces, but compared with them: an event of category \<open>" custom"\<close> is delivered to a user
  who has switched custom notifications off, and is not counted by the rate limiter.
\<close>

lemma padded_category_escapes:
  "map snd (ns_sent (snd (DeliverEvent (chatEnv 40) (customEvent '' custom'') chatNoCustom))) = [''hello'']
   \<and> ns_hits (snd (DeliverEvent (chatEnv 40) (customEvent '' custom'') chatNoCustom)) ''user:7'' = []
   \<and> ns_sent (snd (DeliverEvent (chatEnv 40) (customEvent ''custom'') chatNoCustom)) = []"
  by code_simp

text \<open>The last four characters of a code repeat the first four: ten characters carry the 30 bits of six.\<close>

lemma bind_code_repeats: "randomBindCode (Inr b) = Inr code \<Longrightarrow> drop 6 code = take 4 code"
  by (auto simp: randomBindCode_def upt_rec numeral_2_eq_2)

end
