(* ===== verification/Store_Invariant.thy ===== *)
theory Store_Invariant
  imports Order_Repository
begin

text \<open>
  The integrity of the order database: primary keys, unique indexes, references and code ranges.
  The locale gathers what a predicate on databases needs so that statements, sequences of
  statements and transactions preserve it under every placement of faults; it is interpreted on
  the integrity predicate, and every writing operation of the repository preserves it.
\<close>

definition keys_ok :: "order_db \<Rightarrow> bool" where
  "keys_ok db = (distinct (map ri_intent_id (db_intents db)) \<and> distinct (map ra_attempt_id (db_attempts db))
     \<and> distinct (map ro_order_id (db_orders db)) \<and> distinct (map ro_attempt_id (db_orders db))
     \<and> distinct (map (\<lambda>f. (rf_time f, rf_fill_id f)) (db_fills db)))"

definition refs_ok :: "order_db \<Rightarrow> bool" where
  "refs_ok db =
     (set (map ra_intent_id (db_attempts db)) \<subseteq> set (map ri_intent_id (db_intents db))
      \<and> set (map ro_attempt_id (db_orders db)) \<subseteq> set (map ra_attempt_id (db_attempts db))
      \<and> set (map ro_intent_id (db_orders db)) \<subseteq> set (map ri_intent_id (db_intents db))
      \<and> set (map rf_order_id (db_fills db)) \<subseteq> set (map ro_order_id (db_orders db))
      \<and> set (map rf_attempt_id (db_fills db)) \<subseteq> set (map ra_attempt_id (db_attempts db))
      \<and> set (map rf_intent_id (db_fills db)) \<subseteq> set (map ri_intent_id (db_intents db)))"

definition codes_ok :: "order_db \<Rightarrow> bool" where
  "codes_ok db =
     ((\<forall>i\<in>set (db_intents db). intent_checks i) \<and> (\<forall>a\<in>set (db_attempts db). ra_status a \<in> {1..8})
      \<and> (\<forall>o'\<in>set (db_orders db). ro_status o' \<in> {1..6}) \<and> (\<forall>f\<in>set (db_fills db). rf_status f \<in> {1, 2}))"

definition client_ids_ok :: "order_db \<Rightarrow> bool" where
  "client_ids_ok db = (\<forall>a\<in>set (db_attempts db). client_id_free (ra_attempt_id a) (ra_client_order_id a) (db_attempts db))"

definition events_ok :: "order_db \<Rightarrow> bool" where
  "events_ok db = (distinct (map re_event_id (db_events db))
     \<and> (\<forall>r\<in>set (db_events db). re_event_id r < db_next_event_id db)
     \<and> (\<forall>r\<in>set (db_events db). \<not> event_clash r (db_events db)))"

definition db_ok :: "order_db \<Rightarrow> bool" where
  "db_ok db = (keys_ok db \<and> refs_ok db \<and> codes_ok db \<and> client_ids_ok db \<and> events_ok db)"

subsection \<open>Predicates that faults do not touch\<close>

lemma snd_wrap_db: "snd (wrap_db msg m db) = snd (m db)"
  by (cases "m db"; cases "fst (m db)") (auto simp: wrap_db_def)

locale db_invariant =
  fixes I :: "order_db \<Rightarrow> bool"
  assumes faults_irrelevant: "I (db\<lparr>db_faults := fs\<rparr>) \<longleftrightarrow> I db"
begin

definition preserves :: "'a dbm \<Rightarrow> bool" where
  "preserves m = (\<forall>db. I db \<longrightarrow> I (snd (m db)))"

lemma preservesI: "(\<And>db. I db \<Longrightarrow> I (snd (m db))) \<Longrightarrow> preserves m"
  by (simp add: preserves_def)

lemma preservesD: "preserves m \<Longrightarrow> I db \<Longrightarrow> I (snd (m db))"
  by (simp add: preserves_def)

lemma next_fault_inv: "I db \<Longrightarrow> I (snd (next_fault db))"
  by (simp add: next_fault_def faults_irrelevant split: list.splits)

lemma stmt_preserves: "preserves m \<Longrightarrow> preserves (stmt m)"
proof (rule preservesI)
  fix db
  assume m: "preserves m" and I: "I db"
  obtain f db' where n: "next_fault db = (f, db')" by fastforce
  then have "I db'" using next_fault_inv [OF I] by simp
  then show "I (snd (stmt m db))" using preservesD [OF m] by (simp add: stmt_def n split: fault.splits)
qed

lemma then_preserves:
  assumes "preserves m" "\<And>x. preserves (f x)" shows "preserves (then_db m f)"
proof (rule preservesI)
  fix db
  assume "I db"
  then have "I (snd (m db))" using assms(1) preservesD by blast
  then show "I (snd (then_db m f db))" using assms(2) preservesD
    by (fastforce simp: then_db_def split: prod.splits sum.splits)
qed

lemma wrap_preserves: "preserves m \<Longrightarrow> preserves (wrap_db msg m)"
  by (simp add: preserves_def snd_wrap_db)

lemma return_preserves: "preserves (\<lambda>db. (r, db))"
  by (rule preservesI) simp

lemma query_preserves: "preserves (query f)"
  unfolding query_def by (intro stmt_preserves preservesI) simp

lemma commit_inv: "I before \<Longrightarrow> I db \<Longrightarrow> I (snd (commit_tx before db))"
  using next_fault_inv [of db]
  by (cases "next_fault db"; cases "fst (next_fault db)") (auto simp: commit_tx_def faults_irrelevant)

lemma tx_preserves: assumes m: "preserves m" shows "preserves (in_tx b c m)"
proof (rule preservesI)
  fix db
  assume I: "I db"
  let ?beg = "wrap_db b (stmt (\<lambda>db. (Inr (), db)))"
  have "preserves ?beg" by (intro wrap_preserves stmt_preserves return_preserves)
  then have 0: "I (snd (?beg db))" using I preservesD by blast
  then have 1: "I (snd (m (snd (?beg db))))" by (rule preservesD [OF m])
  obtain r db0 where b: "?beg db = (r, db0)" by fastforce
  obtain s db1 where s: "m db0 = (s, db1)" by fastforce
  have "I db0" "I db1" using 0 1 unfolding b by (simp_all add: s)
  then show "I (snd (in_tx b c m db))" unfolding in_tx_def b
    by (auto simp: s snd_wrap_db commit_inv faults_irrelevant split: sum.splits)
qed

lemmas preserves_rules = stmt_preserves then_preserves wrap_preserves return_preserves
  query_preserves tx_preserves

end

lemmas integrity_defs = keys_ok_def refs_ok_def codes_ok_def client_ids_ok_def events_ok_def

interpretation integrity: db_invariant db_ok
  by unfold_locales (simp add: db_ok_def integrity_defs)

subsection \<open>The writing statements\<close>

text \<open>A row update that keeps the column \<open>h\<close>, and its effect on the column.\<close>

lemma map_upd [simp]:
  "(\<And>q. P q \<Longrightarrow> h (g q) = h q) \<Longrightarrow> map h (map (\<lambda>q. if P q then g q else q) qs) = map h qs"
  by (induction qs) auto

lemma ball_upd: "(\<forall>x\<in>set (map (\<lambda>q. if P q then g q else q) qs). R x)
   \<longleftrightarrow> (\<forall>q\<in>set qs. if P q then R (g q) else R q)"
  by auto

lemma upsert_intent_row_ok: "integrity.preserves (upsert_intent_row r)"
proof (rule integrity.preservesI)
  fix db
  assume ok: "db_ok db"
  have chk: "intent_checks (r\<lparr>ri_time := t\<rparr>) = intent_checks r" for t by (simp add: intent_checks_def)
  show "db_ok (snd (upsert_intent_row r db))"
  proof (cases "\<exists>q\<in>set (db_intents db). ri_intent_id q = ri_intent_id r")
    case True
    then show ?thesis using ok unfolding upsert_intent_row_def db_ok_def integrity_defs
      by (simp add: ball_upd chk del: map_map set_map)
  next
    case False
    then show ?thesis using ok unfolding upsert_intent_row_def db_ok_def integrity_defs
      by (auto simp: image_iff)
  qed
qed

lemma client_id_free_sym:
  "client_id_free (ra_attempt_id r) (ra_client_order_id r) [a] \<Longrightarrow>
   client_id_free (ra_attempt_id a) (ra_client_order_id a) [r]"
  by (auto simp: client_id_free_def split: option.splits)

lemma client_id_free_append:
  "client_id_free i c (xs @ ys) \<longleftrightarrow> client_id_free i c xs \<and> client_id_free i c ys"
  by (auto simp: client_id_free_def split: option.splits)

lemma client_id_free_set:
  "client_id_free i c rows \<longleftrightarrow> (\<forall>q\<in>set rows. client_id_free i c [q])"
  by (auto simp: client_id_free_def split: option.splits)

lemma client_id_free_self: "client_id_free (ra_attempt_id r) c [r]"
  by (simp add: client_id_free_def split: option.splits)

lemma insert_attempt_row_ok: "integrity.preserves (insert_attempt_row r)"
proof (rule integrity.preservesI)
  fix db
  assume ok: "db_ok db"
  have "client_id_free (ra_attempt_id a) (ra_client_order_id a) [r]"
    if "client_id_free (ra_attempt_id r) (ra_client_order_id r) (db_attempts db)" "a \<in> set (db_attempts db)" for a
    using that client_id_free_set client_id_free_sym by blast
  then show "db_ok (snd (insert_attempt_row r db))"
    using ok unfolding insert_attempt_row_def db_ok_def integrity_defs
    by (auto simp: image_iff client_id_free_append client_id_free_self; metis)
qed

lemma finalized_row_simps [simp]:
  "ra_attempt_id (finalized_row attempt q) = ra_attempt_id q"
  "ra_intent_id (finalized_row attempt q) = ra_intent_id q"
  "ra_status (finalized_row attempt q) = attemptStatusCode (oa_Status attempt)"
  "ra_client_order_id (finalized_row attempt q) = nullableString (oa_ClientOrderID attempt)"
  by (simp_all add: finalized_row_def attempt_row_of_def)

lemma update_attempt_row_ok: "integrity.preserves (update_attempt_row attempt)"
proof (rule integrity.preservesI)
  fix db
  assume ok: "db_ok db"
  let ?id = "oa_AttemptID attempt" and ?c = "nullableString (oa_ClientOrderID attempt)"
  let ?rows = "map (\<lambda>q. if ra_attempt_id q = ?id then finalized_row attempt q else q) (db_attempts db)"
  have upd: "client_ids_ok (db\<lparr>db_attempts := ?rows\<rparr>)"
    if free: "client_id_free ?id ?c (db_attempts db) \<or> ?id \<notin> ra_attempt_id ` set (db_attempts db)"
  proof -
    have "client_id_free (ra_attempt_id a) (ra_client_order_id a) [b]"
      if mem: "a \<in> set ?rows" "b \<in> set ?rows" for a b
    proof -
      obtain a0 where a: "a = (if ra_attempt_id a0 = ?id then finalized_row attempt a0 else a0)"
        "a0 \<in> set (db_attempts db)" using mem(1) [unfolded set_map] by (rule imageE)
      obtain b0 where b: "b = (if ra_attempt_id b0 = ?id then finalized_row attempt b0 else b0)"
        "b0 \<in> set (db_attempts db)" using mem(2) [unfolded set_map] by (rule imageE)
      note ab = a b
      have "client_id_free (ra_attempt_id a0) (ra_client_order_id a0) [b0]"
        using ok ab by (simp add: db_ok_def client_ids_ok_def client_id_free_set [where rows = "db_attempts db"])
      moreover have "client_id_free ?id ?c [a0] \<and> client_id_free ?id ?c [b0]"
        if "ra_attempt_id a0 = ?id \<or> ra_attempt_id b0 = ?id"
        using that free ab client_id_free_set by (metis image_eqI)
      ultimately show ?thesis using ab by (auto simp: client_id_free_def split: option.splits if_splits)
    qed
    then show ?thesis by (simp add: client_ids_ok_def client_id_free_set [where rows = ?rows] del: set_map)
  qed
  show "db_ok (snd (update_attempt_row attempt db))"
  proof (cases "\<not> client_id_free ?id ?c (db_attempts db) \<and> (\<exists>q\<in>set (db_attempts db). ra_attempt_id q = ?id)")
    case False
    then have "client_ids_ok (db\<lparr>db_attempts := ?rows\<rparr>)" by (intro upd) (auto simp: image_iff)
    then show ?thesis using ok False attempt_codec.code_allowed
      unfolding update_attempt_row_def db_ok_def keys_ok_def refs_ok_def codes_ok_def events_ok_def
      by (simp add: ball_upd del: map_map set_map)
  qed (simp add: update_attempt_row_def ok)
qed

lemma upsert_order_row_ok: "ro_status r \<in> {1..6} \<Longrightarrow> integrity.preserves (upsert_order_row r)"
proof (rule integrity.preservesI)
  fix db
  assume r: "ro_status r \<in> {1..6}" and ok: "db_ok db"
  show "db_ok (snd (upsert_order_row r db))"
  proof (cases "\<exists>q\<in>set (db_orders db). ro_order_id q = ro_order_id r")
    case True
    then show ?thesis using ok r unfolding upsert_order_row_def db_ok_def integrity_defs
      by (simp add: ball_upd del: map_map set_map)
  next
    case False
    then show ?thesis using ok r unfolding upsert_order_row_def db_ok_def integrity_defs
      by (auto simp: image_iff; metis)
  qed
qed

lemma insert_fill_row_ok: "rf_status r \<in> {1, 2} \<Longrightarrow> integrity.preserves (insert_fill_row r)"
  by (rule integrity.preservesI)
    (auto simp: insert_fill_row_def db_ok_def integrity_defs image_iff; metis)

lemma insert_fills_ok: "integrity.preserves (insert_fills fills)"
proof (induction fills)
  case (Cons f fs)
  have "integrity.preserves (insert_fill_row (fill_row_of f))"
    using fill_codec.code_allowed by (intro insert_fill_row_ok) (simp add: fill_row_of_def)
  then have "integrity.preserves (then_db (wrap_db ''insert order_fills: '' (stmt (insert_fill_row (fill_row_of f))))
      (\<lambda>_. insert_fills fs))" by (intro integrity.preserves_rules Cons.IH)
  then show ?case by (simp add: integrity.preserves_def)
qed (simp add: integrity.preserves_def)

lemma update_rejected_intent_ok: "integrity.preserves (update_rejected_intent intent attempt)"
proof (rule integrity.preservesI)
  fix db
  assume "db_ok db"
  then show "db_ok (snd (update_rejected_intent intent attempt db))"
    using intent_codec.code_allowed [of "oi_Status intent"]
    unfolding update_rejected_intent_def db_ok_def integrity_defs
    by (simp add: ball_upd intent_checks_def del: map_map set_map)
qed

lemma update_order_rows_ok:
  assumes "\<And>o'. ro_order_id (f o') = ro_order_id o' \<and> ro_attempt_id (f o') = ro_attempt_id o'
    \<and> ro_intent_id (f o') = ro_intent_id o' \<and> (ro_status o' \<in> {1..6} \<longrightarrow> ro_status (f o') \<in> {1..6})"
  shows "integrity.preserves (update_order_rows orderID f)"
proof (rule integrity.preservesI)
  fix db
  assume "db_ok db"
  then show "db_ok (snd (update_order_rows orderID f db))"
    using assms unfolding update_order_rows_def db_ok_def integrity_defs
    by (simp add: ball_upd del: map_map set_map)
qed

lemma same_trade_sym: "same_trade r q \<longleftrightarrow> same_trade q r"
  unfolding same_trade_def by metis

lemma same_identity_sym: "same_identity r q \<longleftrightarrow> same_identity q r"
  unfolding same_identity_def by metis

lemma pair_clash_sym: "pair_clash r q \<longleftrightarrow> pair_clash q r"
  unfolding pair_clash_def by (metis same_trade_sym same_identity_sym)

lemma pair_clash_self [simp]: "re_event_id q = re_event_id r \<Longrightarrow> \<not> pair_clash r q"
  by (simp add: pair_clash_def)

lemma insert_event_ok: "integrity.preserves (insert_event now event)"
proof (rule integrity.preservesI)
  fix db
  assume ok: "db_ok db"
  define r where "r = event_row_of event (EventIdentityKey event) (db_next_event_id db) now"
  have rid: "re_event_id r = db_next_event_id db" by (simp add: r_def event_row_of_def)
  have ev: "\<forall>a\<in>set (db_events db). \<forall>b\<in>set (db_events db). \<not> pair_clash a b"
    and lt: "\<forall>a\<in>set (db_events db). re_event_id a < db_next_event_id db"
    and dist: "distinct (map re_event_id (db_events db))"
    using ok by (simp_all add: db_ok_def events_ok_def event_clash_def)
  have add: "events_ok (db\<lparr>db_next_event_id := db_next_event_id db + 1, db_events := db_events db @ [r]\<rparr>)"
    if "\<not> event_clash r (db_events db)"
  proof -
    have "\<forall>b\<in>set (db_events db). \<not> pair_clash r b \<and> \<not> pair_clash b r"
      using that pair_clash_sym by (auto simp: event_clash_def)
    then show ?thesis using ev lt dist rid by (auto simp: events_ok_def event_clash_def)
  qed
  have upd: "events_ok (db\<lparr>db_next_event_id := db_next_event_id db + 1,
       db_events := map (\<lambda>x. if re_event_id x = re_event_id q then m else x) (db_events db)\<rparr>)"
    if q: "q \<in> set (db_events db)" and m: "re_event_id m = re_event_id q" and c: "\<not> event_clash m (db_events db)" for q m
  proof -
    define f where "f = (\<lambda>x. if re_event_id x = re_event_id q then m else x)"
    have "\<forall>b\<in>set (db_events db). \<not> pair_clash m b \<and> \<not> pair_clash b m"
      using c pair_clash_sym by (auto simp: event_clash_def)
    then have "\<forall>a\<in>set (db_events db). \<forall>b\<in>set (db_events db). \<not> pair_clash (f a) (f b)"
      using ev by (simp add: f_def)
    moreover have "map re_event_id (map f (db_events db)) = map re_event_id (db_events db)"
      unfolding f_def using m by (intro map_upd) simp
    moreover have "\<forall>a\<in>set (db_events db). re_event_id (f a) < db_next_event_id db + 1"
      using lt m q by (auto simp: f_def)
    ultimately show ?thesis using dist unfolding f_def [symmetric]
      by (simp add: events_ok_def event_clash_def del: map_map)
  qed
  have conf: "conflict_row r rows = Some q \<Longrightarrow> q \<in> set rows" for rows q
    by (auto simp: conflict_row_def find_Some_iff split: if_splits)
  have skip: "events_ok (db\<lparr>db_next_event_id := db_next_event_id db + 1\<rparr>)"
    using ok by (auto simp: db_ok_def events_ok_def)
  have rest: "db_ok (db\<lparr>db_next_event_id := n, db_events := es\<rparr>) \<longleftrightarrow>
      events_ok (db\<lparr>db_next_event_id := n, db_events := es\<rparr>)"
    "db_ok (db\<lparr>db_next_event_id := n\<rparr>) \<longleftrightarrow> events_ok (db\<lparr>db_next_event_id := n\<rparr>)" for n es
    using ok by (simp_all add: db_ok_def keys_ok_def refs_ok_def codes_ok_def client_ids_ok_def)
  have mid: "re_event_id (merge_event_row q r) = re_event_id q" for q by (simp add: merge_event_row_def)
  show "db_ok (snd (insert_event now event db))"
    unfolding insert_event_def r_def [symmetric] upsert_event_row_def Let_def
    using ok add skip upd [OF conf mid] by (auto simp: rest split: option.splits)
qed

lemma update_fills_ok:
  "statusCode \<in> {1, 2} \<Longrightarrow> integrity.preserves (update_fills event orderID tradeID exchangeOrderID statusCode)"
proof (rule integrity.preservesI)
  fix db
  assume "statusCode \<in> {1, 2}" "db_ok db"
  then show "db_ok (snd (update_fills event orderID tradeID exchangeOrderID statusCode db))"
    unfolding update_fills_def db_ok_def integrity_defs
    by (simp add: ball_upd backfilled_fill_def del: map_map set_map)
qed

lemma insert_backfill_ok:
  "statusCode \<in> {1, 2} \<Longrightarrow> integrity.preserves (insert_backfill event orderID tradeID exchangeOrderID statusCode t)"
proof (rule integrity.preservesI)
  fix db
  assume s: "statusCode \<in> {1, 2}" and ok: "db_ok db"
  have "db_ok (snd (insert_fill_row r db))" if "rf_status r = statusCode" for r
    using insert_fill_row_ok [of r] that s ok by (auto intro: integrity.preservesD)
  then show "db_ok (snd (insert_backfill event orderID tradeID exchangeOrderID statusCode t db))"
    using ok by (auto simp: insert_backfill_def split: option.splits)
qed

subsection \<open>The writing operations\<close>

lemma CreateOrderAttempt_ok: "integrity.preserves (CreateOrderAttempt attempt)"
  unfolding CreateOrderAttempt_def by (intro integrity.preserves_rules insert_attempt_row_ok)

lemma UpsertOrderIntent_ok: "integrity.preserves (UpsertOrderIntent intent)"
proof (rule integrity.preservesI)
  fix db
  assume "db_ok db"
  then show "db_ok (snd (UpsertOrderIntent intent db))"
    using integrity.stmt_preserves [OF upsert_intent_row_ok] integrity.preservesD
    by (auto simp: UpsertOrderIntent_def split: sum.splits)
qed

lemma upsert_order_ok: "integrity.preserves (case order of None \<Rightarrow> (\<lambda>db. (Inr (), db))
    | Some ord \<Rightarrow> wrap_db ''upsert orders: '' (stmt (upsert_order_row (order_row_of ord))))"
proof (cases order)
  case (Some ord)
  have "integrity.preserves (upsert_order_row (order_row_of ord))"
    using order_codec.code_allowed by (intro upsert_order_row_ok) (simp add: order_row_of_def)
  then show ?thesis unfolding Some option.case by (intro integrity.preserves_rules)
qed (simp add: integrity.preserves_def)

lemma FinalizeOrderAttempt_ok: "integrity.preserves (FinalizeOrderAttempt attempt order fills)"
  unfolding FinalizeOrderAttempt_def finalize_body_def
  by (intro integrity.tx_preserves integrity.then_preserves integrity.wrap_preserves
      integrity.stmt_preserves update_attempt_row_ok upsert_order_ok insert_fills_ok)

lemma FinalizeRiskRejectedAttempt_ok: "integrity.preserves (FinalizeRiskRejectedAttempt intent attempt)"
  unfolding FinalizeRiskRejectedAttempt_def
  by (intro integrity.preserves_rules update_rejected_intent_ok update_attempt_row_ok)

lemma not_found_if_zero_ok: "integrity.preserves (not_found_if_zero rows)"
  by (rule integrity.preservesI) (simp add: not_found_if_zero_def)

lemma MarkRecoveryExpired_ok: "integrity.preserves (MarkRecoveryExpired now orderID forceClosedAt lastError)"
proof (rule integrity.preservesI)
  fix db
  assume ok: "db_ok db"
  have "integrity.preserves (then_db (wrap_db m (stmt (update_order_rows x (expired_row t lastError)))) not_found_if_zero)"
    for m x t by (intro integrity.preserves_rules update_order_rows_ok not_found_if_zero_ok)
      (simp add: expired_row_def)
  note P = integrity.preservesD [OF this ok]
  show "db_ok (snd (MarkRecoveryExpired now orderID forceClosedAt lastError db))"
    using ok P by (auto simp: MarkRecoveryExpired_def Let_def)
qed

lemma MarkRecoveryResolved_ok: "integrity.preserves (MarkRecoveryResolved now orderID state resolvedAt)"
proof (rule integrity.preservesI)
  fix db
  assume ok: "db_ok db"
  have "integrity.preserves (then_db (wrap_db m (stmt (update_order_rows x (resolved_row state status t)))) not_found_if_zero)"
    for m x t status using order_codec.code_allowed [of status]
    by (intro integrity.preserves_rules update_order_rows_ok not_found_if_zero_ok)
      (simp add: resolved_row_def Let_def)
  note P = integrity.preservesD [OF this ok]
  show "db_ok (snd (MarkRecoveryResolved now orderID state resolvedAt db))"
    using ok P by (auto simp: MarkRecoveryResolved_def Let_def)
qed

lemma backfill_ok: "integrity.preserves (backfillOrderFillFromLifecycleEvent now event)"
proof (rule integrity.preservesI)
  fix db
  assume ok: "db_ok db"
  have "integrity.preserves (then_db (wrap_db m (stmt (update_fills event x y z (fillStatusCode s))))
      (\<lambda>rows. if 0 < rows then (\<lambda>db. (Inr (), db))
         else wrap_db n (stmt (insert_backfill event x y z (fillStatusCode s) t))))" for m n x y z s t
    using fill_codec.code_allowed [of s]
    by (cases "fillStatusCode s = 1") (auto intro!: integrity.preserves_rules update_fills_ok insert_backfill_ok)
  note P = integrity.preservesD [OF this ok]
  show "db_ok (snd (backfillOrderFillFromLifecycleEvent now event db))"
    using ok P by (auto simp: backfillOrderFillFromLifecycleEvent_def Let_def)
qed

lemma SaveLifecycleEvent_ok: "integrity.preserves (SaveLifecycleEvent now event)"
proof (rule integrity.preservesI)
  fix db
  assume ok: "db_ok db"
  have "integrity.preserves (then_db (wrap_db m (stmt (insert_event now e)))
      (\<lambda>(eid, created). let saved = g eid created
         in then_db (backfillOrderFillFromLifecycleEvent now saved) (\<lambda>_ db. (Inr saved, db))))"
    for m e and g :: "int \<Rightarrow> time \<Rightarrow> Event"
    by (auto simp: Let_def split: prod.splits
        intro!: integrity.preserves_rules insert_event_ok backfill_ok)
  note P = integrity.preservesD [OF this ok]
  show "db_ok (snd (SaveLifecycleEvent now event db))"
    using ok P by (auto simp: SaveLifecycleEvent_def Let_def split: option.splits)
qed

lemmas repository_ok = UpsertOrderIntent_ok CreateOrderAttempt_ok FinalizeOrderAttempt_ok
  FinalizeRiskRejectedAttempt_ok MarkRecoveryExpired_ok MarkRecoveryResolved_ok SaveLifecycleEvent_ok

lemma empty_db_ok: "db_ok empty_db"
  by (simp add: db_ok_def integrity_defs empty_db_def)

end
