(* ===== verification/Risk_Facts.thy ===== *)
theory Risk_Facts
  imports Risk_Gate Store_Invariant "HOL-Library.Multiset"
begin

text \<open>
  What an allowed order has passed: the decision contract of the gate, its independence of the
  iteration order of Go maps, the balance, margin and reduce-only bounds behind an ALLOW, and the
  alignment check on exact multiples of a step.
\<close>

subsection \<open>Merging by symbol\<close>

definition keyed :: "(string \<times> FuturesRiskMetadata) list \<Rightarrow> bool" where
  "keyed m = (distinct (map fst m) \<and> (\<forall>(k, item)\<in>set m. norm_sym (fr_Symbol item) = k))"

lemma norm_sym_firstNonEmptyString:
  assumes "norm_sym s = k" "norm_sym t = k"
  shows "norm_sym (firstNonEmptyString [s, t]) = k"
  using assms by (cases "trim_space s = []"; cases "trim_space t = []") auto

lemma keyed_update:
  assumes "keyed m" "norm_sym (fr_Symbol item) = k"
  shows "keyed (AList.update k item m)"
proof -
  have "(k', item') \<in> set (AList.update k item m) \<Longrightarrow> norm_sym (fr_Symbol item') = k'" for k' item'
    using assms by (induction m) (auto simp: keyed_def split: if_splits)
  then show ?thesis using assms by (auto simp: keyed_def distinct_update)
qed

lemma keyed_primary: "keyed m \<Longrightarrow> keyed (bySymbol_primary items m)"
  by (induction items m rule: bySymbol_primary.induct) (auto intro: keyed_update)

lemma keyed_map_of: "keyed m \<Longrightarrow> map_of m k = Some item \<Longrightarrow> norm_sym (fr_Symbol item) = k"
  by (auto simp: keyed_def dest!: map_of_SomeD)

lemma mergeItem_symbol:
  assumes "norm_sym (fr_Symbol merged) = k \<or> fr_Symbol merged = []" "norm_sym (fr_Symbol item) = k"
  shows "norm_sym (fr_Symbol (mergeItem merged item)) = k"
  using assms norm_sym_firstNonEmptyString [of "fr_Symbol merged" k "fr_Symbol item"]
  by (auto simp: mergeItem_def)

lemma keyed_secondary: "keyed m \<Longrightarrow> keyed (bySymbol_secondary items m)"
proof (induction items m rule: bySymbol_secondary.induct)
  case (2 item items m)
  let ?k = "norm_sym (fr_Symbol item)"
  let ?merged = "case map_of m ?k of Some x \<Rightarrow> x | None \<Rightarrow> zero_FuturesRiskMetadata"
  have "norm_sym (fr_Symbol ?merged) = ?k \<or> fr_Symbol ?merged = []"
    using keyed_map_of [OF 2(2), of ?k]
    by (auto simp: zero_FuturesRiskMetadata_def split: option.splits)
  then have "keyed (AList.update ?k (mergeItem ?merged item) m)"
    using 2(2) by (intro keyed_update mergeItem_symbol) auto
  then show ?case using "2.IH" [OF refl refl] by (simp add: Let_def)
qed simp

lemma find_unique:
  assumes "distinct (map f xs)" "mset ys = mset xs"
  shows "find (\<lambda>x. f x = k) ys = find (\<lambda>x. f x = k) xs"
proof -
  have "set ys = set xs" using assms(2) by (rule mset_eq_setD)
  have "x = y" if "f x = k" "f y = k" "x \<in> set xs" "y \<in> set xs" for x y
    using that assms(1) by (auto simp: distinct_map inj_on_def)
  note uniq = this
  show ?thesis
  proof (cases "find (\<lambda>x. f x = k) xs")
    case None
    then have "find (\<lambda>x. f x = k) ys = None" using \<open>set ys = set xs\<close> by (simp add: find_None_iff)
    with None show ?thesis by simp
  next
    case (Some x)
    then have x: "x \<in> set xs" "f x = k" by (auto simp: find_Some_iff)
    then obtain y where "find (\<lambda>x. f x = k) ys = Some y"
      using \<open>set ys = set xs\<close> by (cases "find (\<lambda>x. f x = k) ys") (auto simp: find_None_iff)
    moreover from this have "y \<in> set xs" "f y = k"
      using \<open>set ys = set xs\<close> by (auto simp: find_Some_iff)
    ultimately show ?thesis using Some uniq x by metis
  qed
qed

definition iteration_order :: "range_order \<Rightarrow> bool" where
  "iteration_order iter = (\<forall>xs. mset (iter xs) = mset xs)"

lemma merged_lookup:
  assumes "iteration_order iter"
  shows "find (\<lambda>item. norm_sym (fr_Symbol item) = k) (mergeRiskMetadata iter p s)
       = find (\<lambda>item. norm_sym (fr_Symbol item) = k) (mergeRiskMetadata id p s)"
proof -
  let ?m = "bySymbol_secondary s (bySymbol_primary p [])"
  have "keyed ?m" by (intro keyed_secondary keyed_primary) (simp add: keyed_def)
  then have "map (norm_sym \<circ> fr_Symbol) (map snd ?m) = map fst ?m" "distinct (map fst ?m)"
    by (auto simp: keyed_def)
  then have "distinct (map (\<lambda>item. norm_sym (fr_Symbol item)) (map snd ?m))"
    by (metis (no_types, lifting) comp_apply map_eq_conv)
  then show ?thesis
    using find_unique [of "\<lambda>item. norm_sym (fr_Symbol item)" "map snd ?m" "iter (map snd ?m)" k] assms
    by (simp add: mergeRiskMetadata_def iteration_order_def)
qed

text \<open>Two gates that see different iteration orders of the same map take the same decisions.\<close>

lemma marketViolation_cong:
  assumes "\<And>k. futuresMetadata s k = futuresMetadata s' k"
    "sn_AvailableBalance s = sn_AvailableBalance s'" "sn_Balances s = sn_Balances s'"
    "sn_Positions s = sn_Positions s'"
  shows "marketViolation req s = marketViolation req s'"
  unfolding marketViolation_def validateSpotBalance_def validateFuturesBalance_def
    validateFuturesReduceOnly_def availableBalance_def futuresPosition_def assms ..

lemma reviewPure_order:
  assumes "iteration_order iter"
  shows "reviewPure iter g t req = reviewPure id g t req"
proof -
  define F where "F = (\<lambda>snap. Inr (marketViolation req snap) :: Violation result)"
  have "bind_result (reviewSnapshot iter g req) F = bind_result (reviewSnapshot id g req) F"
    unfolding reviewSnapshot_def F_def
    by (auto simp: bind_result_def split: sum.splits option.splits
        intro!: marketViolation_cong simp: futuresMetadata_def merged_lookup [OF assms])
  then have "bind_result (bind_result (reviewSnapshot iter g req) F) G
      = bind_result (bind_result (reviewSnapshot id g req) F) G" for G :: "Violation \<Rightarrow> Decision result"
    by simp
  moreover have "bind_result (bind_result r F) G = bind_result r (\<lambda>s. G (marketViolation req s))"
    for r :: "Snapshot result" and G :: "Violation \<Rightarrow> Decision result"
    by (cases r) (simp_all add: F_def)
  ultimately have "bind_result (reviewSnapshot iter g req) (\<lambda>s. G (marketViolation req s))
      = bind_result (reviewSnapshot id g req) (\<lambda>s. G (marketViolation req s))"
    for G :: "Violation \<Rightarrow> Decision result" by simp
  note same = this [of "\<lambda>w. if vi_Code w \<noteq> [] then Inr (rejectViolation t w) else Inr (allowDecision t)"]
  show ?thesis unfolding reviewPure_def Let_def same ..
qed

lemma Review_order:
  assumes "iteration_order iter"
  shows "Review iter g t req db = Review id g t req db"
  unfolding Review_def reviewPure_order [OF assms] ..

subsection \<open>The decision contract\<close>

lemma reject_simps [simp]:
  "dc_Status (rejectViolation t v) = DecisionReject" "dc_ReasonCode (rejectViolation t v) = vi_Code v"
  "dc_Violations (rejectViolation t v) = [v]" "dc_Status (allowDecision t) = DecisionAllow"
  "dc_Violations (allowDecision t) = []"
  by (simp_all add: rejectViolation_def allowDecision_def)

lemma allow_not_reject [simp]: "DecisionAllow \<noteq> DecisionReject" "DecisionReject \<noteq> DecisionAllow"
  by (simp_all add: DecisionAllow_def DecisionReject_def)

locale gate_contract =
  fixes review :: "time \<Rightarrow> ReviewRequest \<Rightarrow> 'db \<Rightarrow> Decision result \<times> 'db" and same :: "'db \<Rightarrow> 'db \<Rightarrow> bool"
  assumes decision: "fst (review t req db) = Inr d \<Longrightarrow>
      (dc_Status d = DecisionAllow \<and> dc_Violations d = []) \<or>
      (dc_Status d = DecisionReject \<and> (\<exists>v. dc_Violations d = [v] \<and> vi_Code v = dc_ReasonCode d \<and> vi_Code v \<noteq> []))"
    and reads_only: "same db (snd (review t req db))"
begin

lemma not_reject_is_allow:
  "fst (review t req db) = Inr d \<Longrightarrow> dc_Status d \<noteq> DecisionReject \<longleftrightarrow> dc_Status d = DecisionAllow"
  using decision by fastforce

lemma reject_has_reason:
  "fst (review t req db) = Inr d \<Longrightarrow> dc_Status d = DecisionReject \<Longrightarrow> dc_ReasonCode d \<noteq> []"
  using decision by fastforce

end

definition passes :: "range_order \<Rightarrow> 'db DefaultGate \<Rightarrow> ReviewRequest \<Rightarrow> Snapshot \<Rightarrow> bool" where
  "passes iter g req snapshot =
     ((\<exists>v. capabilityViolation g req = Inr v \<and> vi_Code v = []) \<and> reviewSnapshot iter g req = Inr snapshot
      \<and> vi_Code (marketViolation req snapshot) = [])"

lemma reviewPure_InrE:
  assumes "reviewPure iter g t req = Inr d"
  obtains (rejected) v where "d = rejectViolation t v" "vi_Code v \<noteq> []"
    | (allowed) snapshot where "d = allowDecision t" "passes iter g req snapshot"
proof -
  from assms obtain v where v: "capabilityViolation g req = Inr v"
    by (auto simp: reviewPure_def bind_result_Inr)
  show thesis
  proof (cases "vi_Code v = []")
    case False
    then show thesis using assms v by (intro rejected [of v]) (simp_all add: reviewPure_def)
  next
    case True
    then obtain s where s: "reviewSnapshot iter g req = Inr s"
      using assms v by (auto simp: reviewPure_def bind_result_Inr)
    show thesis
    proof (cases "vi_Code (marketViolation req s) = []")
      case False
      then show thesis using assms v s True
        by (intro rejected [of "marketViolation req s"]) (simp_all add: reviewPure_def)
    next
      case m: True
      then show thesis using assms v s True by (intro allowed [of s]) (simp_all add: reviewPure_def passes_def)
    qed
  qed
qed

lemma Review_InrE:
  assumes "fst (Review iter g t req0 db) = Inr d"
  obtains (rejected) v where "d = rejectViolation t v" "vi_Code v \<noteq> []"
    | (allowed) snapshot where "d = allowDecision t" "0 < rq_AccountID req0" "0 < rq_VenueID req0"
      "fst (hasPending g (normalizeReview req0) db) = Inr False"
      "passes iter g (normalizeReview req0) snapshot"
proof -
  have "(\<exists>code m. code \<noteq> [] \<and> d = rejectViolation t (violation code m)) \<or>
      (0 < rq_AccountID req0 \<and> 0 < rq_VenueID req0 \<and> fst (hasPending g (normalizeReview req0) db) = Inr False
       \<and> reviewPure iter g t (normalizeReview req0) = Inr d)"
    using assms by (auto simp: Review_def reject_def Let_def split: if_splits sum.splits bool.splits prod.splits)
  then show thesis
    by (elim disjE exE conjE reviewPure_InrE) (auto intro: that)
qed

lemma Review_decision:
  assumes "fst (Review iter g t req db) = Inr d"
  shows "(dc_Status d = DecisionAllow \<and> dc_Violations d = []) \<or>
      (dc_Status d = DecisionReject \<and> (\<exists>v. dc_Violations d = [v] \<and> vi_Code v = dc_ReasonCode d \<and> vi_Code v \<noteq> []))"
  using assms by (rule Review_InrE) auto

lemma Review_snd:
  assumes "\<And>k. same db (snd (hasPending g k db))" "same db db"
  shows "same db (snd (Review iter g t req db))"
  using assms(2) assms(1) [of "normalizeReview req"]
  by (auto simp: Review_def Let_def split: sum.splits bool.splits prod.splits)

text \<open>
  The gate as \<^verbatim>\<open>cmd/core-service/main.go\<close> wires it: capabilities and symbol rules from the
  registry, balances from the wallet state of the venue, pending orders from the order store.
\<close>

definition coreGate :: "Registry \<Rightarrow> (int \<Rightarrow> int \<Rightarrow> OnlineAccountInfo result) \<Rightarrow> time \<Rightarrow> order_db DefaultGate" where
  "coreGate registry walletState now = \<lparr>
     dg_capabilityReader = Some (AdapterCapabilityReader registry),
     dg_snapshotReader = Some (VenueWalletSnapshotReader walletState),
     dg_pendingReader = Some (NewOpenOrderPendingReader now),
     dg_symbolRulesReader = Some (AdapterSymbolRulesReader registry)\<rparr>"

definition same_tables :: "order_db \<Rightarrow> order_db \<Rightarrow> bool" where
  "same_tables db db' = (db' = db\<lparr>db_faults := db_faults db'\<rparr>)"

lemma same_tables_refl [simp]: "same_tables db db"
  by (simp add: same_tables_def)

lemma query_same_tables: "same_tables db (snd (query f db))"
  by (auto simp: query_def stmt_def next_fault_def same_tables_def split: list.splits fault.splits)

lemma pending_same_tables: "same_tables db (snd (NewOpenOrderPendingReader now k db))"
  by (auto simp: NewOpenOrderPendingReader_def HasPendingRoute_def ListOpenOrders_def
      listOpenOrders_def Let_def query_same_tables split: prod.splits)
    (metis query_same_tables snd_conv snd_wrap_db)

interpretation core: gate_contract "\<lambda>t. Review iter (coreGate registry walletState t) t" same_tables
  for iter registry walletState
proof
  show "same_tables db (snd (Review iter (coreGate registry walletState t) t req db))" for t req db
    by (rule Review_snd) (simp_all add: hasPending_def coreGate_def pending_same_tables)
qed (rule Review_decision)

interpretation allow: gate_contract AllowGate_Review "(=)"
  by unfold_locales (simp_all add: AllowGate_Review_def)

subsection \<open>What an allowed order has passed\<close>

lemma Review_allowE:
  assumes "fst (Review iter g t req0 db) = Inr d" "dc_Status d = DecisionAllow"
  obtains snapshot where "0 < rq_AccountID req0" "0 < rq_VenueID req0"
    "fst (hasPending g (normalizeReview req0) db) = Inr False"
    "passes iter g (normalizeReview req0) snapshot"
  using assms by (cases rule: Review_InrE) auto

lemma short_of_bound:
  "\<not> short_of available need \<Longrightarrow> need \<noteq> NaN \<Longrightarrow> (\<And>a. available = Some a \<Longrightarrow> a + riskEpsilon \<noteq> NaN) \<Longrightarrow>
     \<exists>a. available = Some a \<and> need \<le> a + riskEpsilon"
  by (cases available) (auto simp: short_of_def float_not_less)

lemma validateSpotBalance_ok:
  assumes "vi_Code (validateSpotBalance req s) = []"
  shows "baseAsset (rq_Symbol req) \<noteq> []" "quoteAsset (rq_Symbol req) \<noteq> []"
    "equal_fold (rq_Side req) ''SELL'' \<Longrightarrow> \<not> short_of (availableBalance s (baseAsset (rq_Symbol req))) \<bar>rq_Qty req\<bar>"
    "equal_fold (rq_Side req) ''BUY'' \<Longrightarrow> \<not> rq_ReduceOnly req \<and> \<not> orderNotional req \<le> 0
       \<and> \<not> short_of (availableBalance s (quoteAsset (rq_Symbol req))) (orderNotional req)"
  using assms by (auto simp: validateSpotBalance_def Let_def split: if_splits)

lemma validateSymbolRules_ok:
  assumes "vi_Code (validateSymbolRules req m) = []"
  shows "0 < fr_MinQty m \<Longrightarrow> \<not> \<bar>rq_Qty req\<bar> + riskEpsilon < fr_MinQty m"
    "0 < fr_StepSize m \<Longrightarrow> alignsToIncrement \<bar>rq_Qty req\<bar> (fr_StepSize m)"
    "0 < fr_MinNotional m \<Longrightarrow> \<not> orderNotional req + riskEpsilon < fr_MinNotional m"
    "equal_fold (trim_space (rq_OrderType req)) ''LIMIT'' \<Longrightarrow> rq_Price req = Some p \<Longrightarrow> 0 < fr_TickSize m \<Longrightarrow> alignsToIncrement p (fr_TickSize m)"
  using assms by (auto simp: validateSymbolRules_def Let_def split: if_splits)

lemma validateFuturesBalance_ok:
  assumes "vi_Code (validateFuturesBalance req s) = []"
  obtains m where "futuresMetadata s (rq_Symbol req) = Some m" "\<not> fr_ConfiguredLeverage m \<le> 0"
    "vi_Code (validateSymbolRules req m) = []"
    "rq_ReduceOnly req \<Longrightarrow> vi_Code (validateFuturesReduceOnly req s) = []"
    "\<not> rq_ReduceOnly req \<Longrightarrow> \<not> orderNotional req \<le> 0
       \<and> \<not> sn_AvailableBalance s + riskEpsilon < orderNotional req / fr_ConfiguredLeverage m"
  using assms by (auto simp: validateFuturesBalance_def Let_def split: option.splits if_splits)

lemma validateFuturesReduceOnly_ok:
  assumes "vi_Code (validateFuturesReduceOnly req s) = []"
  obtains p where "futuresPosition s (rq_Symbol req) (rq_PositionSide req) = Some p"
    "\<not> \<bar>po_Qty p\<bar> \<le> riskEpsilon" "equal_fold (rq_Side req) ''SELL'' \<Longrightarrow> \<not> po_Qty p \<le> 0"
    "\<not> equal_fold (rq_Side req) ''SELL'' \<Longrightarrow> equal_fold (rq_Side req) ''BUY'' \<Longrightarrow> \<not> 0 \<le> po_Qty p"
    "\<not> \<bar>po_Qty p\<bar> + riskEpsilon < \<bar>rq_Qty req\<bar>"
  using assms by (auto simp: validateFuturesReduceOnly_def Let_def split: option.splits if_splits)

subsection \<open>Normalised requests\<close>

lemma normalizeReview_simps [simp]:
  "rq_Side (normalizeReview req) = norm_sym (rq_Side req)" "rq_Qty (normalizeReview req) = rq_Qty req"
  "rq_Symbol (normalizeReview req) = norm_sym (rq_Symbol req)" "rq_Market (normalizeReview req) = rq_Market req"
  "rq_Price (normalizeReview req) = rq_Price req" "rq_MarkPrice (normalizeReview req) = rq_MarkPrice req"
  "rq_ReduceOnly (normalizeReview req) = rq_ReduceOnly req"
  "rq_PositionSide (normalizeReview req) = rq_PositionSide req"
  by (simp_all add: normalizeReview_def Let_def)

lemma orderNotional_normalize [simp]: "orderNotional (normalizeReview req) = orderNotional req"
  by (simp add: orderNotional_def priceBasis_def Let_def split: option.split)

lemma norm_sym_idem: "norm_sym (norm_sym s) = norm_sym s"
  by (simp add: trim_space_to_upper)

lemma symbol_lookups_normalize [simp]:
  "futuresMetadata s (norm_sym symbol) = futuresMetadata s symbol"
  "futuresPosition s (norm_sym symbol) side = futuresPosition s symbol side"
  "baseAsset (norm_sym symbol) = baseAsset symbol" "quoteAsset (norm_sym symbol) = quoteAsset symbol"
  by (simp_all add: futuresMetadata_def futuresPosition_def baseAsset_def quoteAsset_def trim_space_to_upper)

subsection \<open>What the gate of the service allows\<close>

text \<open>
  An order the gate of the service allows was compared with the wallet of its venue: the snapshot that
  passed the checks has the balances and positions of that wallet.
\<close>

lemma core_allowE:
  assumes "fst (Review iter (coreGate registry walletState now) t req db) = Inr d" "dc_Status d = DecisionAllow"
  obtains info snapshot where "walletState (rq_VenueID req) (rq_UserID req) = Inr info"
    "vi_Code (marketViolation (normalizeReview req) snapshot) = []"
    "snapshot = (snapshotFromOnlineInfo info)\<lparr>sn_FuturesRiskMetadata := sn_FuturesRiskMetadata snapshot\<rparr>"
proof -
  from Review_allowE [OF assms] obtain snapshot where
    p: "passes iter (coreGate registry walletState now) (normalizeReview req) snapshot" by blast
  then have "reviewSnapshot iter (coreGate registry walletState now) (normalizeReview req) = Inr snapshot"
    "vi_Code (marketViolation (normalizeReview req) snapshot) = []" by (simp_all add: passes_def)
  moreover from this(1) obtain info where "walletState (rq_VenueID req) (rq_UserID req) = Inr info"
    "snapshot = (snapshotFromOnlineInfo info)\<lparr>sn_FuturesRiskMetadata := sn_FuturesRiskMetadata snapshot\<rparr>"
    by (auto simp: reviewSnapshot_def coreGate_def VenueWalletSnapshotReader_def snapshotRequest_def routeKey_def
        normalizeReview_def Let_def bind_result_Inr split: if_splits)
  ultimately show thesis using that by blast
qed

lemma balance_of_wallet [simp]:
  "availableBalance (s\<lparr>sn_FuturesRiskMetadata := m\<rparr>) asset = availableBalance s asset"
  "futuresPosition (s\<lparr>sn_FuturesRiskMetadata := m\<rparr>) symbol side = futuresPosition s symbol side"
  by (simp_all add: availableBalance_def futuresPosition_def)

lemma spot_sell_covered:
  assumes "fst (Review iter (coreGate registry walletState now) t req db) = Inr d" "dc_Status d = DecisionAllow"
    "int16_of (rq_Market req) = MarketSpot" "equal_fold (norm_sym (rq_Side req)) ''SELL''"
  shows "\<exists>info. walletState (rq_VenueID req) (rq_UserID req) = Inr info
    \<and> \<not> short_of (availableBalance (snapshotFromOnlineInfo info) (baseAsset (rq_Symbol req))) \<bar>rq_Qty req\<bar>"
proof -
  from core_allowE [OF assms(1,2)] obtain info s where i: "walletState (rq_VenueID req) (rq_UserID req) = Inr info"
    and v: "vi_Code (marketViolation (normalizeReview req) s) = []"
    and s: "s = (snapshotFromOnlineInfo info)\<lparr>sn_FuturesRiskMetadata := sn_FuturesRiskMetadata s\<rparr>" .
  have "\<not> short_of (availableBalance s (baseAsset (rq_Symbol req))) \<bar>rq_Qty req\<bar>"
    using validateSpotBalance_ok(3) [of "normalizeReview req" s] v assms(3,4) by (simp add: marketViolation_def)
  moreover have "availableBalance s = availableBalance (snapshotFromOnlineInfo info)"
    by (subst s) (simp add: fun_eq_iff)
  ultimately show ?thesis using i by simp
qed

lemma spot_buy_covered:
  assumes "fst (Review iter (coreGate registry walletState now) t req db) = Inr d" "dc_Status d = DecisionAllow"
    "int16_of (rq_Market req) = MarketSpot" "equal_fold (norm_sym (rq_Side req)) ''BUY''"
  shows "\<exists>info. walletState (rq_VenueID req) (rq_UserID req) = Inr info \<and> \<not> rq_ReduceOnly req
    \<and> \<not> short_of (availableBalance (snapshotFromOnlineInfo info) (quoteAsset (rq_Symbol req))) (orderNotional req)"
proof -
  from core_allowE [OF assms(1,2)] obtain info s where i: "walletState (rq_VenueID req) (rq_UserID req) = Inr info"
    and v: "vi_Code (marketViolation (normalizeReview req) s) = []"
    and s: "s = (snapshotFromOnlineInfo info)\<lparr>sn_FuturesRiskMetadata := sn_FuturesRiskMetadata s\<rparr>" .
  have "\<not> rq_ReduceOnly req" "\<not> short_of (availableBalance s (quoteAsset (rq_Symbol req))) (orderNotional req)"
    using validateSpotBalance_ok(4) [of "normalizeReview req" s] v assms(3,4) by (simp_all add: marketViolation_def)
  moreover have "availableBalance s = availableBalance (snapshotFromOnlineInfo info)"
    by (subst s) (simp add: fun_eq_iff)
  ultimately show ?thesis using i by simp
qed

text \<open>
  The metadata of a symbol after the merge, in terms of the two lists.  The leverage comes from the wallet: its first entry for
  the symbol when the exchange has no rules, and its last one otherwise, because the entries go through a map.  Each
  limit is the last positive one among the rules of the exchange, and that of the wallet when there is none.
\<close>

definition latest :: "('a \<Rightarrow> float64) \<Rightarrow> ('a \<Rightarrow> bool) \<Rightarrow> 'a list \<Rightarrow> float64 \<Rightarrow> float64" where
  "latest f P xs fallback = (let ys = filter (\<lambda>x. P x \<and> 0 < f x) xs in if ys = [] then fallback else f (last ys))"

lemma keyed_find: "keyed m \<Longrightarrow> find (\<lambda>item. norm_sym (fr_Symbol item) = k) (map snd m) = map_of m k"
  by (induction m) (auto simp: keyed_def)

lemma primary_lookup:
  "map_of (bySymbol_primary items m) k
     = (let ys = filter (\<lambda>item. norm_sym (fr_Symbol item) = k) items in if ys = [] then map_of m k else Some (last ys))"
  by (induction items m rule: bySymbol_primary.induct) (auto simp: update_conv Let_def)

lemma secondary_lookup:
  "map_of (bySymbol_secondary items m) k
     = (let ys = filter (\<lambda>item. norm_sym (fr_Symbol item) = k) items in if ys = [] then map_of m k
        else Some (foldl mergeItem (case map_of m k of None \<Rightarrow> zero_FuturesRiskMetadata | Some x \<Rightarrow> x) ys))"
  by (induction items m rule: bySymbol_secondary.induct) (auto simp: update_conv Let_def)

lemma merged_limits:
  "fr_ConfiguredLeverage (foldl mergeItem m ys) = fr_ConfiguredLeverage m"
  "fr_MinQty (foldl mergeItem m ys) = latest fr_MinQty (\<lambda>_. True) ys (fr_MinQty m)"
  "fr_StepSize (foldl mergeItem m ys) = latest fr_StepSize (\<lambda>_. True) ys (fr_StepSize m)"
  "fr_TickSize (foldl mergeItem m ys) = latest fr_TickSize (\<lambda>_. True) ys (fr_TickSize m)"
  "fr_MinNotional (foldl mergeItem m ys) = latest fr_MinNotional (\<lambda>_. True) ys (fr_MinNotional m)"
  by (induction ys rule: rev_induct) (simp_all add: mergeItem_def latest_def Let_def)

definition wallet_entry :: "ReviewRequest \<Rightarrow> OnlineAccountInfo \<Rightarrow> SymbolRule list \<Rightarrow> WalletRiskMetadata option" where
  "wallet_entry req info rules = (let own = filter (\<lambda>i. norm_sym (wm_Symbol i) = norm_sym (rq_Symbol req)) (fw_RiskMetadata (oai_Futures info))
     in if own = [] then None else Some (if rules = [] then hd own else last own))"

definition exchange_limit :: "ReviewRequest \<Rightarrow> (SymbolRule \<Rightarrow> float64) \<Rightarrow> SymbolRule list \<Rightarrow> float64 \<Rightarrow> float64" where
  "exchange_limit req f = latest f (\<lambda>r. norm_sym (sy_Symbol r) = norm_sym (rq_Symbol req))"

lemma find_hd_filter: "find P xs = (if filter P xs = [] then None else Some (hd (filter P xs)))"
  by (induction xs) auto

definition wallet_metadata :: "WalletRiskMetadata \<Rightarrow> FuturesRiskMetadata" where
  "wallet_metadata item = zero_FuturesRiskMetadata\<lparr>fr_Symbol := wm_Symbol item, fr_ConfiguredLeverage := wm_ConfiguredLeverage item,
     fr_StepSize := wm_StepSize item, fr_TickSize := wm_TickSize item\<rparr>"

definition rule_metadata :: "SymbolRule \<Rightarrow> FuturesRiskMetadata" where
  "rule_metadata rule = zero_FuturesRiskMetadata\<lparr>fr_Symbol := norm_sym (sy_Symbol rule), fr_MinQty := sy_MinQty rule,
     fr_MinNotional := sy_MinNotional rule, fr_StepSize := sy_StepSize rule, fr_TickSize := sy_TickSize rule\<rparr>"

lemma zero_metadata_simps [simp]: "fr_MinQty zero_FuturesRiskMetadata = 0" "fr_MinNotional zero_FuturesRiskMetadata = 0"
  "fr_ConfiguredLeverage zero_FuturesRiskMetadata = 0"
  by (simp_all add: zero_FuturesRiskMetadata_def)

lemma wallet_metadata_simps [simp]:
  "fr_Symbol (wallet_metadata w) = wm_Symbol w" "fr_ConfiguredLeverage (wallet_metadata w) = wm_ConfiguredLeverage w"
  "fr_StepSize (wallet_metadata w) = wm_StepSize w" "fr_TickSize (wallet_metadata w) = wm_TickSize w"
  "fr_MinQty (wallet_metadata w) = 0" "fr_MinNotional (wallet_metadata w) = 0"
  by (simp_all add: wallet_metadata_def)

lemma rule_metadata_simps [simp]:
  "fr_Symbol (rule_metadata x) = norm_sym (sy_Symbol x)" "fr_MinQty (rule_metadata x) = sy_MinQty x"
  "fr_MinNotional (rule_metadata x) = sy_MinNotional x" "fr_StepSize (rule_metadata x) = sy_StepSize x"
  "fr_TickSize (rule_metadata x) = sy_TickSize x"
  by (simp_all add: rule_metadata_def)

lemma latest_rules:
  "latest f (\<lambda>_. True) (map rule_metadata (filter (\<lambda>r. norm_sym (sy_Symbol r) = norm_sym (rq_Symbol req)) rules)) d
     = exchange_limit req (\<lambda>r. f (rule_metadata r)) rules d"
proof -
  have "filter (\<lambda>x. True \<and> 0 < f x) (map rule_metadata (filter P rules)) = map rule_metadata (filter (\<lambda>r. P r \<and> 0 < f (rule_metadata r)) rules)"
    for P by (simp add: filter_map comp_def conj_commute)
  then show ?thesis by (simp add: exchange_limit_def latest_def Let_def last_map)
qed

lemma merged_metadata:
  assumes "iteration_order iter" "\<not> fr_ConfiguredLeverage m \<le> 0"
    "find (\<lambda>item. norm_sym (fr_Symbol item) = norm_sym (rq_Symbol req))
       (mergeRiskMetadata iter (map wallet_metadata (fw_RiskMetadata (oai_Futures info))) (map rule_metadata rules)) = Some m"
  obtains own where "wallet_entry req info rules = Some own" "fr_ConfiguredLeverage m = wm_ConfiguredLeverage own"
    "fr_MinQty m = exchange_limit req sy_MinQty rules 0" "fr_MinNotional m = exchange_limit req sy_MinNotional rules 0"
    "fr_StepSize m = exchange_limit req sy_StepSize rules (wm_StepSize own)" "fr_TickSize m = exchange_limit req sy_TickSize rules (wm_TickSize own)"
proof (cases "rules = []")
  case True
  let ?own = "filter (\<lambda>i. norm_sym (wm_Symbol i) = norm_sym (rq_Symbol req)) (fw_RiskMetadata (oai_Futures info))"
  have "?own \<noteq> []" "m = wallet_metadata (hd ?own)"
    using assms(3) by (auto simp: mergeRiskMetadata_def True find_hd_filter filter_map comp_def hd_map split: if_splits)
  then show thesis by (intro that [of "hd ?own"]) (simp_all add: wallet_entry_def True exchange_limit_def latest_def)
next
  case False
  let ?k = "norm_sym (rq_Symbol req)"
  let ?own = "filter (\<lambda>i. norm_sym (wm_Symbol i) = ?k) (fw_RiskMetadata (oai_Futures info))"
  let ?rules = "map rule_metadata (filter (\<lambda>r. norm_sym (sy_Symbol r) = ?k) rules)"
  let ?p = "bySymbol_primary (map wallet_metadata (fw_RiskMetadata (oai_Futures info))) []"
  have "keyed (bySymbol_secondary (map rule_metadata rules) ?p)" by (intro keyed_secondary keyed_primary) (simp add: keyed_def)
  note find = keyed_find [OF this, of ?k]
  have "map_of (bySymbol_secondary (map rule_metadata rules) ?p) ?k = Some m"
    using assms(3) [unfolded merged_lookup [OF assms(1)]] False find by (simp add: mergeRiskMetadata_def)
  moreover have rules: "filter (\<lambda>item. norm_sym (fr_Symbol item) = ?k) (map rule_metadata rules) = ?rules"
    by (simp add: filter_map comp_def norm_sym_idem)
  moreover have own: "map_of ?p ?k = (if ?own = [] then None else Some (wallet_metadata (last ?own)))"
    unfolding primary_lookup by (simp add: filter_map comp_def last_map Let_def)
  ultimately have m: "m = foldl mergeItem (if ?own = [] then zero_FuturesRiskMetadata else wallet_metadata (last ?own)) ?rules \<or>
      ?rules = [] \<and> ?own \<noteq> [] \<and> m = wallet_metadata (last ?own)"
    unfolding secondary_lookup by (auto simp: Let_def split: if_splits)
  then have m: "m = foldl mergeItem (if ?own = [] then zero_FuturesRiskMetadata else wallet_metadata (last ?own)) ?rules" by auto
  have "?own \<noteq> []"
  proof
    assume "?own = []"
    then have "fr_ConfiguredLeverage m = 0" unfolding m merged_limits by simp
    then show False using assms(2) by (simp add: float_zero_one)
  qed
  then show thesis using m
    by (intro that [of "last ?own"]) (simp_all add: wallet_entry_def False merged_limits latest_rules)
qed

text \<open>
  What an allowed futures order has: the wallet gives the symbol a leverage, the order meets the limits of its symbol, and it
  either fits the available balance at that leverage or, when it only reduces, fits the position it reduces.
\<close>

definition futures_fits :: "ReviewRequest \<Rightarrow> OnlineAccountInfo \<Rightarrow> SymbolRule list \<Rightarrow> WalletRiskMetadata \<Rightarrow> bool" where
  "futures_fits req info rules own =
     (let minQty = exchange_limit req sy_MinQty rules 0; minNotional = exchange_limit req sy_MinNotional rules 0;
          step = exchange_limit req sy_StepSize rules (wm_StepSize own); tick = exchange_limit req sy_TickSize rules (wm_TickSize own)
      in wallet_entry req info rules = Some own \<and> \<not> wm_ConfiguredLeverage own \<le> 0
      \<and> (0 < minQty \<longrightarrow> \<not> \<bar>rq_Qty req\<bar> + riskEpsilon < minQty)
      \<and> (0 < step \<longrightarrow> alignsToIncrement \<bar>rq_Qty req\<bar> step)
      \<and> (0 < minNotional \<longrightarrow> \<not> orderNotional req + riskEpsilon < minNotional)
      \<and> (case rq_Price req of Some p \<Rightarrow> norm_sym (rq_OrderType req) \<in> {[], ''LIMIT''} \<and> 0 < tick \<longrightarrow> alignsToIncrement p tick | None \<Rightarrow> True)
      \<and> (if rq_ReduceOnly req
          then \<exists>p. futuresPosition (snapshotFromOnlineInfo info) (rq_Symbol req) (rq_PositionSide req) = Some p
             \<and> \<not> \<bar>po_Qty p\<bar> \<le> riskEpsilon \<and> \<not> \<bar>po_Qty p\<bar> + riskEpsilon < \<bar>rq_Qty req\<bar>
             \<and> (equal_fold (norm_sym (rq_Side req)) ''SELL'' \<longrightarrow> \<not> po_Qty p \<le> 0)
             \<and> (\<not> equal_fold (norm_sym (rq_Side req)) ''SELL'' \<and> equal_fold (norm_sym (rq_Side req)) ''BUY'' \<longrightarrow> \<not> 0 \<le> po_Qty p)
          else \<not> orderNotional req \<le> 0
             \<and> \<not> (if feq (oai_AvailableBalance info) 0 then fw_AvailableBalance (oai_Futures info) else oai_AvailableBalance info) + riskEpsilon
                 < orderNotional req / wm_ConfiguredLeverage own))"

text \<open>The rules of a futures order: those the reader of its route gives for its symbol.\<close>

definition rules_of_order :: "Registry \<Rightarrow> ReviewRequest \<Rightarrow> SymbolRule list result" where
  "rules_of_order registry req = bind_result (Registry_SymbolRulesReader registry
      \<lparr>rt_Exchange = int16_of (rq_Exchange req), rt_Environment = int16_of (rq_Environment req), rt_Market = int16_of (rq_Market req)\<rparr>)
     (\<lambda>reader. reader [norm_sym (rq_Symbol req)])"

lemma normalizeReview_route [simp]: "rq_Exchange (normalizeReview req) = rq_Exchange req" "rq_Environment (normalizeReview req) = rq_Environment req"
  "rq_AccountID (normalizeReview req) = rq_AccountID req" "rq_VenueID (normalizeReview req) = rq_VenueID req" "rq_UserID (normalizeReview req) = rq_UserID req"
  by (simp_all add: normalizeReview_def Let_def)

lemma rules_read:
  "AdapterSymbolRulesReader registry (snapshotRequest (normalizeReview req)) = bind_result (rules_of_order registry req) (\<lambda>rules. Inr (map rule_metadata rules))"
proof -
  have r: "(\<lambda>rule. zero_FuturesRiskMetadata\<lparr>fr_Symbol := norm_sym (sy_Symbol rule), fr_MinQty := sy_MinQty rule,
      fr_MinNotional := sy_MinNotional rule, fr_StepSize := sy_StepSize rule, fr_TickSize := sy_TickSize rule\<rparr>) = rule_metadata"
    by (simp add: fun_eq_iff rule_metadata_def)
  show ?thesis unfolding AdapterSymbolRulesReader_def r
    by (simp add: rules_of_order_def snapshotRequest_def routeKey_def adapterRoute_def norm_sym_idem bind_result_def split: sum.split)
qed

lemma core_allow_futuresE:
  assumes "fst (Review iter (coreGate registry walletState now) t req db) = Inr d" "dc_Status d = DecisionAllow"
    "int16_of (rq_Market req) = MarketPerpetualFutures"
  obtains info rules snapshot where "walletState (rq_VenueID req) (rq_UserID req) = Inr info" "rules_of_order registry req = Inr rules"
    "vi_Code (validateFuturesBalance (normalizeReview req) snapshot) = []"
    "snapshot = (snapshotFromOnlineInfo info)\<lparr>sn_FuturesRiskMetadata :=
       mergeRiskMetadata iter (map wallet_metadata (fw_RiskMetadata (oai_Futures info))) (map rule_metadata rules)\<rparr>"
proof -
  from Review_allowE [OF assms(1,2)] obtain snapshot where
    "passes iter (coreGate registry walletState now) (normalizeReview req) snapshot" by blast
  then have s: "reviewSnapshot iter (coreGate registry walletState now) (normalizeReview req) = Inr snapshot"
    "vi_Code (marketViolation (normalizeReview req) snapshot) = []" by (simp_all add: passes_def)
  have own: "sn_FuturesRiskMetadata (snapshotFromOnlineInfo info) = map wallet_metadata (fw_RiskMetadata (oai_Futures info))" for info
    by (simp add: snapshotFromOnlineInfo_def wallet_metadata_def)
  from s(1) assms(3) obtain info rules where "walletState (rq_VenueID req) (rq_UserID req) = Inr info" "rules_of_order registry req = Inr rules"
    "snapshot = (snapshotFromOnlineInfo info)\<lparr>sn_FuturesRiskMetadata :=
       mergeRiskMetadata iter (map wallet_metadata (fw_RiskMetadata (oai_Futures info))) (map rule_metadata rules)\<rparr>"
    by (auto simp: reviewSnapshot_def coreGate_def VenueWalletSnapshotReader_def bind_result_Inr rules_read own)
      (simp add: snapshotRequest_def routeKey_def)
  moreover have "vi_Code (validateFuturesBalance (normalizeReview req) snapshot) = []"
    using s(2) assms(3) by (simp add: marketViolation_def MarketPerpetualFutures_def MarketSpot_def)
  ultimately show thesis using that by blast
qed

lemma normalized_limit:
  assumes "norm_sym (rq_OrderType req) \<in> {[], ''LIMIT''}" "rq_Price req = Some p"
  shows "equal_fold (trim_space (rq_OrderType (normalizeReview req))) ''LIMIT''"
proof -
  have "equal_fold (trim_space ''LIMIT'') ''LIMIT''" by code_simp
  then show ?thesis using assms by (auto simp: normalizeReview_def Let_def)
qed

lemma futures_covered:
  assumes "iteration_order iter" "fst (Review iter (coreGate registry walletState now) t req db) = Inr d" "dc_Status d = DecisionAllow"
    "int16_of (rq_Market req) = MarketPerpetualFutures"
  shows "\<exists>info rules own. walletState (rq_VenueID req) (rq_UserID req) = Inr info \<and> rules_of_order registry req = Inr rules
    \<and> futures_fits req info rules own"
proof -
  from core_allow_futuresE [OF assms(2-4)] obtain info rules s where i: "walletState (rq_VenueID req) (rq_UserID req) = Inr info"
    "rules_of_order registry req = Inr rules" and v: "vi_Code (validateFuturesBalance (normalizeReview req) s) = []"
    and s: "s = (snapshotFromOnlineInfo info)\<lparr>sn_FuturesRiskMetadata :=
       mergeRiskMetadata iter (map wallet_metadata (fw_RiskMetadata (oai_Futures info))) (map rule_metadata rules)\<rparr>" .
  from validateFuturesBalance_ok [OF v] obtain m where m: "futuresMetadata s (rq_Symbol req) = Some m" "\<not> fr_ConfiguredLeverage m \<le> 0"
    "vi_Code (validateSymbolRules (normalizeReview req) m) = []"
    "rq_ReduceOnly req \<Longrightarrow> vi_Code (validateFuturesReduceOnly (normalizeReview req) s) = []"
    "\<not> rq_ReduceOnly req \<Longrightarrow> \<not> orderNotional req \<le> 0 \<and> \<not> sn_AvailableBalance s + riskEpsilon < orderNotional req / fr_ConfiguredLeverage m"
    by auto
  obtain own where own: "wallet_entry req info rules = Some own" "fr_ConfiguredLeverage m = wm_ConfiguredLeverage own"
    "fr_MinQty m = exchange_limit req sy_MinQty rules 0" "fr_MinNotional m = exchange_limit req sy_MinNotional rules 0"
    "fr_StepSize m = exchange_limit req sy_StepSize rules (wm_StepSize own)" "fr_TickSize m = exchange_limit req sy_TickSize rules (wm_TickSize own)"
    using merged_metadata [of iter m req info rules] assms(1) m(1,2) by (auto simp: futuresMetadata_def s)
  have pos: "\<exists>p. futuresPosition (snapshotFromOnlineInfo info) (rq_Symbol req) (rq_PositionSide req) = Some p
      \<and> \<not> \<bar>po_Qty p\<bar> \<le> riskEpsilon \<and> \<not> \<bar>po_Qty p\<bar> + riskEpsilon < \<bar>rq_Qty req\<bar>
      \<and> (equal_fold (norm_sym (rq_Side req)) ''SELL'' \<longrightarrow> \<not> po_Qty p \<le> 0)
      \<and> (\<not> equal_fold (norm_sym (rq_Side req)) ''SELL'' \<and> equal_fold (norm_sym (rq_Side req)) ''BUY'' \<longrightarrow> \<not> 0 \<le> po_Qty p)"
    if "rq_ReduceOnly req"
    using validateFuturesReduceOnly_ok [OF m(4) [OF that]] unfolding s balance_of_wallet
    by (metis normalizeReview_simps(1,2,3,8) symbol_lookups_normalize(2))
  have rules: "0 < exchange_limit req sy_MinQty rules 0 \<longrightarrow> \<not> \<bar>rq_Qty req\<bar> + riskEpsilon < exchange_limit req sy_MinQty rules 0"
    "0 < exchange_limit req sy_StepSize rules (wm_StepSize own) \<longrightarrow> alignsToIncrement \<bar>rq_Qty req\<bar> (exchange_limit req sy_StepSize rules (wm_StepSize own))"
    "0 < exchange_limit req sy_MinNotional rules 0 \<longrightarrow> \<not> orderNotional req + riskEpsilon < exchange_limit req sy_MinNotional rules 0"
    using validateSymbolRules_ok(1-3) [OF m(3)] unfolding own by simp_all
  have tick: "alignsToIncrement p (exchange_limit req sy_TickSize rules (wm_TickSize own))"
    if "rq_Price req = Some p" "norm_sym (rq_OrderType req) \<in> {[], ''LIMIT''}" "0 < exchange_limit req sy_TickSize rules (wm_TickSize own)" for p
    using validateSymbolRules_ok(4) [OF m(3) normalized_limit [OF that(2,1)]] that(1,3) unfolding own by simp
  have "sn_AvailableBalance s = (if feq (oai_AvailableBalance info) 0 then fw_AvailableBalance (oai_Futures info) else oai_AvailableBalance info)"
    unfolding s by (simp add: snapshotFromOnlineInfo_def)
  then show ?thesis using i m(2,5) own(1,2) pos rules tick
    by (intro exI conjI) (auto simp: futures_fits_def Let_def split: option.split)
qed

subsection \<open>Alignment\<close>

lemma alignsToIncrement_multiple:
  assumes "wf64 (Fin i)" "0 < i" "\<bar>k\<bar> < 2 ^ 53"
  shows "alignsToIncrement (Fin (of_int k * i)) (Fin i)"
proof -
  have "rnd64 (of_int k) = Fin (of_int k)" using wf64_int53 [OF assms(3)] by (rule rnd64_id)
  moreover have "fround (Fin (of_int k)) = Fin (of_int k)"
    by (auto simp: fround_def floor_unique)
  moreover have "\<bar>Fin (of_int k) - Fin (of_int k)\<bar> \<le> flit (1 / 10 ^ 9)"
    using rnd64_nonneg [of "1 / 10 ^ 9"] rnd64_id [of 0] by (simp add: flit_def float_zero_one max_finite_def)
  ultimately show ?thesis using assms(2) by (simp add: alignsToIncrement_def Let_def float_zero_one)
qed

end
