(* ===== verification/Store_Effects.thy ===== *)
theory Store_Effects
  imports Store_Invariant
begin

text \<open>
  What the writing operations of the repository leave in the tables: finalisation is all or
  nothing, a lifecycle event has one row however often it is saved, and the backfill never adds
  a second fill for a trade.
\<close>

definition tables :: "order_db \<Rightarrow> order_db" where
  "tables db = db\<lparr>db_faults := []\<rparr>"

lemma tables_simps [simp]:
  "db_intents (tables db) = db_intents db" "db_attempts (tables db) = db_attempts db"
  "db_orders (tables db) = db_orders db" "db_fills (tables db) = db_fills db"
  "db_events (tables db) = db_events db" "db_next_event_id (tables db) = db_next_event_id db"
  "tables (db\<lparr>db_faults := fs\<rparr>) = tables db" "tables (tables db) = tables db"
  by (simp_all add: tables_def)

lemma tables_eqD:
  assumes "tables db = tables db'"
  shows "db_intents db = db_intents db'" "db_attempts db = db_attempts db'"
    "db_orders db = db_orders db'" "db_fills db = db_fills db'" "db_events db = db_events db'"
    "db_next_event_id db = db_next_event_id db'"
  using assms by (metis tables_simps)+

lemma next_fault_tables: "next_fault db = (f, db') \<Longrightarrow> tables db' = tables db"
  by (auto simp: next_fault_def split: list.splits)

lemma stmt_Inr: "stmt m db = (Inr x, db') \<Longrightarrow> \<exists>d. tables d = tables db \<and> m d = (Inr x, db')"
  by (auto simp: stmt_def next_fault_def split: fault.splits prod.splits list.splits)
    (metis tables_simps(7))+

lemma wrap_db_Inr [simp]: "wrap_db msg m db = (Inr x, db') \<longleftrightarrow> m db = (Inr x, db')"
  by (cases "m db"; cases "fst (m db)") (auto simp: wrap_db_def)

lemma then_db_Inr: "then_db m f db = (Inr y, db') \<longleftrightarrow> (\<exists>x d. m db = (Inr x, d) \<and> f x d = (Inr y, db'))"
  by (cases "m db"; cases "fst (m db)") (auto simp: then_db_def)

lemma wrap_stmt_Inr:
  "wrap_db msg (stmt m) db = (Inr x, db') \<Longrightarrow> \<exists>d. tables d = tables db \<and> m d = (Inr x, db')"
  by (simp add: stmt_Inr)

subsection \<open>Transactions are all or nothing\<close>

lemma in_tx_atomic:
  assumes "in_tx b c m db = (r, db')"
  obtains (rolled_back) "\<not> is_ok r" "tables db' = tables db"
    | (committed) d0 d1 where "tables d0 = tables db" "m d0 = (Inr (), d1)" "tables db' = tables d1"
proof -
  note rolled_back = that(1) and committed = that(2)
  let ?beg = "wrap_db b (stmt (\<lambda>db. (Inr (), db)))"
  obtain s d0 where b: "?beg db = (s, d0)" by fastforce
  have t0: "tables d0 = tables db" using b
    by (auto simp: wrap_db_def stmt_def dest: next_fault_tables split: prod.splits fault.splits)
  show thesis
  proof (cases s)
    case (Inl e)
    then have "\<not> is_ok r" "db' = d0" using assms b by (auto simp: in_tx_def)
    then show ?thesis using t0 rolled_back by blast
  next
    case (Inr u)
    obtain v d1 where m: "m d0 = (v, d1)" by fastforce
    show ?thesis
    proof (cases v)
      case (Inl e)
      then have "\<not> is_ok r" "tables db' = tables d0" using assms b m Inr by (auto simp: in_tx_def)
      then show ?thesis using t0 rolled_back by simp
    next
      case v: (Inr w)
      obtain f d2 where f: "next_fault d1 = (f, d2)" by fastforce
      then have t2: "tables d2 = tables d1" by (rule next_fault_tables)
      have run: "wrap_db c (commit_tx d0) d1 = (r, db')" using assms b Inr m v by (simp add: in_tx_def)
      then have "(\<not> is_ok r \<and> tables db' = tables d0) \<or> tables db' = tables d1"
        using t2 f by (cases f) (auto simp: wrap_db_def commit_tx_def)
      then show ?thesis using t0 m v committed [of d0 d1] rolled_back by auto
    qed
  qed
qed

text \<open>
  The columns of an order's row: those that every write of the order sets, and those that only the insertion sets, so that
  a later write of the same order keeps them.
\<close>

definition order_columns :: "Order \<Rightarrow> order_row \<Rightarrow> bool" where
  "order_columns ord r \<longleftrightarrow> ro_order_id r = or_OrderID ord \<and> ro_exchange_order_id r = nullableString (or_ExchangeOrderID ord)
     \<and> ro_client_order_id r = nullableString (or_ClientOrderID ord) \<and> ro_updated_at r = or_Time ord
     \<and> ro_executed_qty r = or_ExecutedQty ord \<and> ro_remaining_qty r = or_RemainingQty ord
     \<and> ro_avg_price r = or_AvgPrice ord \<and> ro_price r = nullableFloat64 (or_Price ord)
     \<and> ro_post_only r = or_PostOnly ord \<and> ro_good_till_date r = nullableTimePtr (or_GoodTillDate ord) \<and> ro_reduce_only r = or_ReduceOnly ord
     \<and> ro_status r = orderStatusCode (or_Status ord) \<and> ro_error_message r = or_ErrorMessage ord
     \<and> ro_recovery_status r = or_RecoveryStatus ord \<and> ro_recovery_started_at r = nullableTimePtr (or_RecoveryStartedAt ord)
     \<and> ro_next_check_at r = nullableTimePtr (or_NextCheckAt ord) \<and> ro_recovery_deadline_at r = nullableTimePtr (or_RecoveryDeadlineAt ord)
     \<and> ro_last_recovery_error r = or_LastRecoveryError ord \<and> ro_force_closed_at r = nullableTimePtr (or_ForceClosedAt ord)"

definition inserted_columns :: "Order \<Rightarrow> order_row \<Rightarrow> bool" where
  "inserted_columns ord r \<longleftrightarrow> ro_attempt_id r = or_AttemptID ord \<and> ro_intent_id r = or_IntentID ord
     \<and> ro_time r = or_Time ord \<and> ro_orig_qty r = or_OrigQty ord"

definition order_ids :: "order_db \<Rightarrow> string set" where
  "order_ids db = ro_order_id ` set (db_orders db)"

lemma order_row_columns: "order_columns ord (order_row_of ord)" "inserted_columns ord (order_row_of ord)"
  by (simp_all add: order_columns_def inserted_columns_def order_row_of_def)

lemma order_columns_kept: "order_columns ord ((order_row_of ord)\<lparr>ro_attempt_id := a, ro_intent_id := i, ro_time := t, ro_orig_qty := q\<rparr>)"
  by (simp add: order_columns_def order_row_of_def)

definition finalized :: "OrderAttempt \<Rightarrow> Order option \<Rightarrow> OrderFill list \<Rightarrow> order_db \<Rightarrow> order_db \<Rightarrow> bool" where
  "finalized attempt order fills db db' =
     (db_intents db' = db_intents db \<and> db_events db' = db_events db
      \<and> db_attempts db' = map (\<lambda>q. if ra_attempt_id q = oa_AttemptID attempt then finalized_row attempt q else q) (db_attempts db)
      \<and> db_fills db' = db_fills db @ map fill_row_of fills
      \<and> (case order of None \<Rightarrow> db_orders db' = db_orders db
         | Some ord \<Rightarrow> (\<exists>r\<in>set (db_orders db'). order_columns ord r \<and> (or_OrderID ord \<notin> order_ids db \<longrightarrow> inserted_columns ord r))
            \<and> (\<forall>q. ro_order_id q \<noteq> or_OrderID ord \<longrightarrow> (q \<in> set (db_orders db') \<longleftrightarrow> q \<in> set (db_orders db)))))"

lemma insert_fills_Inr:
  "insert_fills fills db = (Inr (), db') \<Longrightarrow>
   tables db' = (tables db)\<lparr>db_fills := db_fills db @ map fill_row_of fills\<rparr>"
proof (induction fills arbitrary: db)
  case Nil
  then show ?case by (simp add: tables_def)
next
  case (Cons f fs)
  then obtain d where 1: "wrap_db ''insert order_fills: '' (stmt (insert_fill_row (fill_row_of f))) db = (Inr (), d)"
    and 2: "insert_fills fs d = (Inr (), db')" by (auto simp: then_db_Inr)
  obtain e where e: "tables e = tables db" "insert_fill_row (fill_row_of f) e = (Inr (), d)"
    using wrap_stmt_Inr [OF 1] by blast
  then have d: "d = e\<lparr>db_fills := db_fills e @ [fill_row_of f]\<rparr>"
    by (auto simp: insert_fill_row_def split: if_splits)
  have "tables d = (tables db)\<lparr>db_fills := db_fills db @ [fill_row_of f]\<rparr>"
    using e(1) tables_eqD [OF e(1)] by (simp add: tables_def d)
  moreover have "db_fills d = db_fills db @ [fill_row_of f]" using tables_eqD(4) [OF e(1)] by (simp add: d)
  ultimately show ?case using Cons.IH [OF 2] by simp
qed

lemma upsert_order_row_Inr:
  assumes "upsert_order_row (order_row_of ord) db = (Inr (), db')"
  shows "db' = db\<lparr>db_orders := db_orders db'\<rparr>"
    "\<exists>r\<in>set (db_orders db'). order_columns ord r \<and> (or_OrderID ord \<notin> order_ids db \<longrightarrow> inserted_columns ord r)"
    "ro_order_id q \<noteq> or_OrderID ord \<Longrightarrow> q \<in> set (db_orders db') \<longleftrightarrow> q \<in> set (db_orders db)"
proof -
  let ?r = "order_row_of ord"
  let ?up = "\<lambda>q. ?r\<lparr>ro_attempt_id := ro_attempt_id q, ro_intent_id := ro_intent_id q,
    ro_time := ro_time q, ro_orig_qty := ro_orig_qty q\<rparr>"
  have id: "ro_order_id ?r = or_OrderID ord" by (simp add: order_row_of_def)
  have "db' = db\<lparr>db_orders := map (\<lambda>q. if ro_order_id q = or_OrderID ord then ?up q else q) (db_orders db)\<rparr>
      \<and> (\<exists>q\<in>set (db_orders db). ro_order_id q = or_OrderID ord)
    \<or> db' = db\<lparr>db_orders := db_orders db @ [?r]\<rparr>"
    using assms by (auto simp: upsert_order_row_def id split: if_splits)
  then consider (upd) q where "q \<in> set (db_orders db)" "ro_order_id q = or_OrderID ord"
      "db' = db\<lparr>db_orders := map (\<lambda>q. if ro_order_id q = or_OrderID ord then ?up q else q) (db_orders db)\<rparr>"
    | (ins) "db' = db\<lparr>db_orders := db_orders db @ [?r]\<rparr>" by blast
  note c = this
  show "db' = db\<lparr>db_orders := db_orders db'\<rparr>" by (rule c) simp_all
  show "\<exists>r\<in>set (db_orders db'). order_columns ord r \<and> (or_OrderID ord \<notin> order_ids db \<longrightarrow> inserted_columns ord r)"
  proof (cases rule: c)
    case (upd q)
    then have "?up q \<in> set (db_orders db')" "or_OrderID ord \<in> order_ids db" by (auto simp: image_iff order_ids_def intro!: bexI [of _ q])
    then show ?thesis using order_columns_kept by blast
  next
    case ins
    then have "?r \<in> set (db_orders db')" by simp
    then show ?thesis using order_row_columns by blast
  qed
  have other: "q \<in> (\<lambda>q. if ro_order_id q = or_OrderID ord then ?up q else q) ` A \<longleftrightarrow> q \<in> A"
    if "ro_order_id q \<noteq> or_OrderID ord" for A
    using that id by (auto simp: image_iff split: if_splits intro: bexI [of _ q])
  show "q \<in> set (db_orders db') \<longleftrightarrow> q \<in> set (db_orders db)" if "ro_order_id q \<noteq> or_OrderID ord"
    using that
  proof (cases rule: c)
    case upd
    then show ?thesis using other [OF that] by simp
  next
    case ins
    then show ?thesis using that id by auto
  qed
qed

lemma finalize_body_Inr:
  assumes "finalize_body attempt order fills db = (Inr (), db')"
  shows "finalized attempt order fills db db'"
proof -
  obtain d1 d2 where
    1: "wrap_db ''update order_attempts: '' (stmt (update_attempt_row attempt)) db = (Inr (), d1)" and
    2: "(case order of None \<Rightarrow> (\<lambda>db. (Inr (), db))
      | Some ord \<Rightarrow> wrap_db ''upsert orders: '' (stmt (upsert_order_row (order_row_of ord)))) d1 = (Inr (), d2)" and
    3: "insert_fills fills d2 = (Inr (), db')"
    using assms unfolding finalize_body_def then_db_Inr by auto
  obtain e1 where e1: "tables e1 = tables db" "update_attempt_row attempt e1 = (Inr (), d1)"
    using wrap_stmt_Inr [OF 1] by blast
  note t1 = tables_eqD [OF e1(1)]
  have d1: "d1 = e1\<lparr>db_attempts := map (\<lambda>q. if ra_attempt_id q = oa_AttemptID attempt
      then finalized_row attempt q else q) (db_attempts e1)\<rparr>"
    using e1(2) by (auto simp: update_attempt_row_def split: if_splits)
  note t3 = insert_fills_Inr [OF 3]
  have f3: "db_fills db' = db_fills d2 @ map fill_row_of fills" "db_orders db' = db_orders d2"
    "db_intents db' = db_intents d2" "db_attempts db' = db_attempts d2" "db_events db' = db_events d2"
    using tables_eqD [of db' "d2\<lparr>db_fills := db_fills d2 @ map fill_row_of fills\<rparr>"] t3 by (simp_all add: tables_def)
  show ?thesis
  proof (cases order)
    case None
    then show ?thesis using 2 f3 d1 t1 by (auto simp: finalized_def)
  next
    case (Some ord)
    then obtain e2 where e2: "tables e2 = tables d1" "upsert_order_row (order_row_of ord) e2 = (Inr (), d2)"
      using 2 wrap_stmt_Inr [of "''upsert orders: ''" "upsert_order_row (order_row_of ord)" d1] by auto
    note t2 = tables_eqD [OF e2(1)] and u = upsert_order_row_Inr [OF e2(2)]
    have "db_fills d2 = db_fills e2" "db_intents d2 = db_intents e2" "db_attempts d2 = db_attempts e2"
      "db_events d2 = db_events e2" by (subst u(1), simp)+
    moreover have "order_ids e2 = order_ids db" using d1 t1 t2 by (simp add: order_ids_def)
    ultimately show ?thesis using f3 d1 t1 t2 u(2,3)
      by (simp add: finalized_def Some)
  qed
qed

lemma FinalizeOrderAttempt_cases:
  assumes "FinalizeOrderAttempt attempt order fills db = (r, db')"
  shows "(\<not> is_ok r \<and> tables db' = tables db) \<or> finalized attempt order fills db db'"
  using assms unfolding FinalizeOrderAttempt_def
proof (cases rule: in_tx_atomic)
  case (committed d0 d1)
  then have "finalized attempt order fills d0 d1" using finalize_body_Inr by blast
  then show ?thesis using tables_eqD [OF committed(1)] tables_eqD [OF committed(3)]
    by (cases order) (simp_all add: finalized_def order_ids_def)
qed auto

subsection \<open>One row per lifecycle event\<close>

lemma stmt_no_faults [simp]: "db_faults db = [] \<Longrightarrow> stmt m db = m db"
  by (simp add: stmt_def next_fault_def)

lemma nullableString_None [simp]: "nullableString v = None \<longleftrightarrow> trim_space v = []"
  by (simp add: nullableString_def)

lemma or_else_simps [simp]: "or_else (Some v) y = Some v" "or_else None y = y" "or_else y y = y"
  by (simp_all add: or_else_def split: option.splits)

text \<open>The columns that decide whether two rows collide.\<close>

definition collides_like :: "event_row \<Rightarrow> event_row \<Rightarrow> bool" where
  "collides_like r q = (re_event_id r = re_event_id q \<and> re_venue_id r = re_venue_id q
     \<and> re_exchange_order_id r = re_exchange_order_id q \<and> re_exchange_trade_id r = re_exchange_trade_id q
     \<and> re_event_identity r = re_event_identity q)"

lemma collides_like_clash: "collides_like r q \<Longrightarrow> event_clash r rows = event_clash q rows"
  by (simp add: collides_like_def event_clash_def pair_clash_def same_trade_def same_identity_def)

lemma conflict_row_sound:
  "conflict_row r rows = Some q \<Longrightarrow> q \<in> set rows \<and> (same_trade r q \<or> same_identity r q)"
  by (auto simp: conflict_row_def find_Some_iff split: if_splits)

lemma conflict_row_complete:
  assumes "re_event_identity r \<noteq> None" "q \<in> set rows" "same_identity r q"
    "re_exchange_order_id r \<noteq> None \<and> re_exchange_trade_id r \<noteq> None \<Longrightarrow> same_trade r q"
  shows "conflict_row r rows \<noteq> None"
  using assms by (auto simp: conflict_row_def find_None_iff simp del: not_None_eq)

text \<open>After a save, a row with the identity of the event carries the returned number.\<close>

definition recorded :: "event_row \<Rightarrow> int \<Rightarrow> order_db \<Rightarrow> bool" where
  "recorded r eid db = (\<exists>q\<in>set (db_events db). re_event_id q = eid \<and> re_venue_id q = re_venue_id r
     \<and> (re_exchange_order_id r \<noteq> None \<longrightarrow> re_exchange_order_id q = re_exchange_order_id r)
     \<and> (re_exchange_trade_id r \<noteq> None \<longrightarrow> re_exchange_trade_id q = re_exchange_trade_id r)
     \<and> (re_event_identity r \<noteq> None \<longrightarrow> re_event_identity q = re_event_identity r)
     \<and> re_event_type q = re_event_type r \<and> re_order_status q = re_order_status r
     \<and> re_fill_delta q = re_fill_delta r \<and> re_order_state q = re_order_state r)"

lemma upsert_event_recorded:
  assumes "upsert_event_row r db = (Inr (eid, created), db')"
  shows "recorded r eid db'"
proof (cases "conflict_row r (db_events db)")
  case None
  then have "r \<in> set (db_events db')" "re_event_id r = eid"
    using assms by (auto simp: upsert_event_row_def Let_def split: if_splits)
  then show ?thesis by (auto simp: recorded_def intro!: bexI [of _ r])
next
  case (Some q)
  note q = conflict_row_sound [OF Some]
  then have v: "re_venue_id q = re_venue_id r" by (auto simp: same_trade_def same_identity_def)
  have "merge_event_row q r \<in> set (db_events db')" "re_event_id q = eid"
    using assms Some q by (auto simp: upsert_event_row_def Let_def split: if_splits)
  then show ?thesis using v
    by (auto simp: recorded_def merge_event_row_def intro!: bexI [of _ "merge_event_row q r"])
qed

lemma upsert_event_again:
  assumes ok: "events_ok db" and rec: "recorded r eid db" and ident: "re_event_identity r \<noteq> None"
    and ord: "re_exchange_order_id r \<noteq> None"
    and small: "smallint (re_environment r)" "smallint (re_exchange r)" "smallint (re_market r)"
      "smallint (re_position_side r)"
  shows "\<exists>created db'. upsert_event_row r db = (Inr (eid, created), db')
    \<and> map re_event_id (db_events db') = map re_event_id (db_events db)
    \<and> db' = db\<lparr>db_events := db_events db', db_next_event_id := db_next_event_id db + 1\<rparr>"
proof -
  obtain q where q: "q \<in> set (db_events db)" "re_event_id q = eid" "re_venue_id q = re_venue_id r"
    "re_exchange_order_id q = re_exchange_order_id r" "re_event_identity q = re_event_identity r"
    "re_exchange_trade_id r \<noteq> None \<longrightarrow> re_exchange_trade_id q = re_exchange_trade_id r"
    using rec ident ord by (auto simp: recorded_def)
  have "conflict_row r (db_events db) \<noteq> None"
    using q ident ord by (intro conflict_row_complete [of r q]) (auto simp: same_identity_def same_trade_def)
  then obtain p where p: "conflict_row r (db_events db) = Some p" by auto
  note ps = conflict_row_sound [OF p]
  have "\<not> pair_clash p q" using ok ps q(1) by (auto simp: events_ok_def event_clash_def)
  moreover have "re_exchange_trade_id r \<noteq> None \<or> \<not> same_trade r p" by (auto simp: same_trade_def)
  ultimately have "re_event_id p = eid"
    using q ps ident ord by (auto simp: pair_clash_def same_trade_def same_identity_def)
  then have pq: "p = q" using ok ps q by (metis distinct_map events_ok_def inj_onD)
  have c: "collides_like (merge_event_row q r) q"
    using q by (cases "re_exchange_trade_id r") (auto simp: collides_like_def merge_event_row_def)
  have "\<not> event_clash q (db_events db)" using ok q(1) by (simp add: events_ok_def)
  then have "\<not> event_clash (merge_event_row q r) (db_events db)" using collides_like_clash [OF c] by simp
  moreover have "map re_event_id (map (\<lambda>x. if re_event_id x = eid then merge_event_row q r else x) (db_events db))
    = map re_event_id (db_events db)"
    using q(2) by (intro map_upd) (simp add: merge_event_row_def)
  ultimately show ?thesis using p pq q(2) small
    by (simp add: upsert_event_row_def Let_def del: map_map)
qed

subsection \<open>Backfilled fills\<close>

definition fillOrderID :: "Event \<Rightarrow> string" where
  "fillOrderID event = trim_space (ev_OrderID event)"

definition fillTradeID :: "Event \<Rightarrow> string" where
  "fillTradeID event = trim_space (firstNonEmptyString [ev_ExchangeTradeID event, fd_ExchangeTradeID (ev_FillDelta event)])"

definition fill_count :: "string \<Rightarrow> string \<Rightarrow> order_db \<Rightarrow> nat" where
  "fill_count orderID tradeID db = length (filter (matches_fill orderID tradeID) (db_fills db))"

lemma matches_backfilled [simp]:
  "matches_fill x y (backfilled_fill event z c f) = matches_fill x y f"
  by (simp add: matches_fill_def backfilled_fill_def)

lemma filter_upd:
  "(\<And>f. Q (g f) = Q f) \<Longrightarrow> length (filter Q (map (\<lambda>f. if P f then g f else f) fs)) = length (filter Q fs)"
  by (induction fs) auto

lemma update_fills_count: "fill_count x y (snd (update_fills event a b c d db)) = fill_count x y db"
  using filter_upd [of "matches_fill x y" "backfilled_fill event c d" "matches_fill a b" "db_fills db"]
  by (simp add: update_fills_def fill_count_def del: filter_map)

lemma insert_backfill_count:
  "fill_count x y (snd (insert_backfill event a b c d t db)) \<le> max (fill_count x y db) (if x = a \<and> y = b then 1 else 0)
   \<and> fill_count x y db \<le> fill_count x y (snd (insert_backfill event a b c d t db))"
proof (cases "find (\<lambda>o'. ro_order_id o' = a) (db_orders db)")
  case (Some o')
  then have o': "ro_order_id o' = a" by (auto simp: find_Some_iff)
  have none: "filter (matches_fill a b) (db_fills db) = []" if "\<not> (\<exists>f\<in>set (db_fills db). matches_fill a b f)"
    using that by (auto simp: filter_empty_conv)
  show ?thesis using o' none
    by (auto simp: insert_backfill_def Some insert_fill_row_def fill_count_def matches_fill_def [of x y])
qed (simp add: insert_backfill_def)

text \<open>
  Two more instances of the interface of fault-independent predicates: a bound on the number of
  fills of a trade, and everything but the fills.
\<close>

definition frame :: "order_db \<Rightarrow> order_db" where
  "frame db = db\<lparr>db_fills := [], db_faults := []\<rparr>"

interpretation fill_bound: db_invariant "\<lambda>db. fill_count x y db \<le> n" for x y n
  by unfold_locales (simp add: fill_count_def)

interpretation fill_frame: db_invariant "\<lambda>db. frame db = c" for c
  by unfold_locales (simp add: frame_def)

lemma insert_event_fills: "db_fills (snd (insert_event now event db)) = db_fills db"
  by (auto simp: insert_event_def upsert_event_row_def Let_def split: option.splits)

lemma backfill_bound:
  assumes "1 \<le> n" shows "fill_bound.preserves x y n (backfillOrderFillFromLifecycleEvent now event)"
proof (rule fill_bound.preservesI)
  fix db
  assume ok: "fill_count x y db \<le> n"
  have u: "fill_bound.preserves x y n (update_fills event a b c d)" for a b c d
    by (rule fill_bound.preservesI) (simp add: update_fills_count)
  have i: "fill_bound.preserves x y n (insert_backfill event a b c d t)" for a b c d t
  proof (rule fill_bound.preservesI)
    fix db
    assume "fill_count x y db \<le> n"
    then show "fill_count x y (snd (insert_backfill event a b c d t db)) \<le> n"
      using insert_backfill_count [of x y event a b c d t db] assms by (auto split: if_splits)
  qed
  have "fill_bound.preserves x y n (then_db (wrap_db m (stmt (update_fills event a b c d)))
      (\<lambda>rows. if 0 < rows then (\<lambda>db. (Inr (), db)) else wrap_db m' (stmt (insert_backfill event a b c d t))))"
    for m m' a b c d t by (auto intro!: fill_bound.preserves_rules u i)
  note P = fill_bound.preservesD [OF this ok]
  show "fill_count x y (snd (backfillOrderFillFromLifecycleEvent now event db)) \<le> n"
    using ok P by (auto simp: backfillOrderFillFromLifecycleEvent_def Let_def)
qed

lemma backfill_frame: "frame (snd (backfillOrderFillFromLifecycleEvent now event db)) = frame db"
proof -
  have u: "fill_frame.preserves e (update_fills event a b c d)" for a b c d e
    by (rule fill_frame.preservesI) (simp add: update_fills_def frame_def)
  have "frame (snd (insert_fill_row f d)) = frame d" for f d by (simp add: insert_fill_row_def frame_def)
  then have i: "fill_frame.preserves e (insert_backfill event a b c d t)" for a b c d t e
    by (intro fill_frame.preservesI) (auto simp: insert_backfill_def split: option.splits)
  have "fill_frame.preserves e (then_db (wrap_db m (stmt (update_fills event a b c d)))
      (\<lambda>rows. if 0 < rows then (\<lambda>db. (Inr (), db)) else wrap_db m' (stmt (insert_backfill event a b c d t))))"
    for m m' a b c d t e by (auto intro!: fill_frame.preserves_rules u i)
  note P = fill_frame.preservesD [OF this refl]
  show ?thesis using P by (auto simp: backfillOrderFillFromLifecycleEvent_def Let_def)
qed

lemma SaveLifecycleEvent_bound:
  assumes "1 \<le> n" shows "fill_bound.preserves x y n (SaveLifecycleEvent now event)"
proof (rule fill_bound.preservesI)
  fix db
  assume ok: "fill_count x y db \<le> n"
  have "fill_bound.preserves x y n (insert_event now e)" for e
    by (rule fill_bound.preservesI) (simp add: fill_count_def insert_event_fills)
  then have "fill_bound.preserves x y n (then_db (wrap_db m (stmt (insert_event now e)))
      (\<lambda>(eid, created). let saved = g eid created
         in then_db (backfillOrderFillFromLifecycleEvent now saved) (\<lambda>_ db. (Inr saved, db))))"
    for m e and g :: "int \<Rightarrow> time \<Rightarrow> Event"
    by (auto simp: Let_def split: prod.splits intro!: fill_bound.preserves_rules backfill_bound assms)
  note P = fill_bound.preservesD [OF this ok]
  show "fill_count x y (snd (SaveLifecycleEvent now event db)) \<le> n"
    using ok P by (auto simp: SaveLifecycleEvent_def Let_def split: option.splits)
qed

lemma SaveLifecycleEvent_Inr:
  assumes "SaveLifecycleEvent now event db = (Inr saved, db')"
  obtains d d' created where "tables d = tables db" "frame db' = frame d'"
    "insert_event now (normalized_event now event) d = (Inr (ev_EventID saved, created), d')"
    "ValidateEventRouteFacts (normalized_event now event) = None"
    "marshal_fill_ok (ev_FillDelta event)" "marshal_state_ok (ev_OrderState event)"
    "saved = (normalized_event now event)\<lparr>ev_EventID := ev_EventID saved, ev_CreatedAt := created\<rparr>"
    "backfillOrderFillFromLifecycleEvent now saved d' = (Inr (), db')"
proof -
  let ?N = "normalized_event now event"
  have fields: "ev_FillDelta ?N = ev_FillDelta event" "ev_OrderState ?N = ev_OrderState event"
    by (simp_all add: normalized_event_def)
  obtain eid created d' where
    1: "wrap_db ''save lifecycle event: '' (stmt (insert_event now ?N)) db = (Inr (eid, created), d')" and
    2: "backfillOrderFillFromLifecycleEvent now (?N\<lparr>ev_EventID := eid, ev_CreatedAt := created\<rparr>) d' = (Inr (), db')" and
    3: "saved = ?N\<lparr>ev_EventID := eid, ev_CreatedAt := created\<rparr>" and
    4: "ValidateEventRouteFacts ?N = None" "marshal_fill_ok (ev_FillDelta event)" "marshal_state_ok (ev_OrderState event)"
    using assms by (auto simp: SaveLifecycleEvent_def Let_def then_db_Inr fields split: if_splits option.splits)
  from wrap_stmt_Inr [OF 1] obtain d where d: "tables d = tables db" "insert_event now ?N d = (Inr (eid, created), d')" by blast
  have "frame db' = frame d'" using backfill_frame [of now "?N\<lparr>ev_EventID := eid, ev_CreatedAt := created\<rparr>" d'] 2 by simp
  then show thesis using that [of d d' created] d 2 3 4 by simp
qed

text \<open>
  Saving the same event a second time: the event keeps its number, and neither a row of the log
  nor a fill is added.
\<close>

definition same_event :: "Event \<Rightarrow> Event \<Rightarrow> bool" where
  "same_event e f = (e\<lparr>ev_EventID := 0, ev_CreatedAt := 0\<rparr> = f\<lparr>ev_EventID := 0, ev_CreatedAt := 0\<rparr>)"

lemma same_event_fields:
  assumes "same_event e f"
  shows "shouldBackfillOrderFill e = shouldBackfillOrderFill f" "fillOrderID e = fillOrderID f"
    "fillTradeID e = fillTradeID f"
proof -
  note eq = assms [unfolded same_event_def]
  have "ev_EventType e = ev_EventType f" "ev_EventSource e = ev_EventSource f" "ev_OrderID e = ev_OrderID f"
    "ev_ExchangeTradeID e = ev_ExchangeTradeID f" "ev_FillDelta e = ev_FillDelta f"
    using arg_cong [OF eq, of ev_EventType] arg_cong [OF eq, of ev_EventSource] arg_cong [OF eq, of ev_OrderID]
      arg_cong [OF eq, of ev_ExchangeTradeID] arg_cong [OF eq, of ev_FillDelta] by simp_all
  then show "shouldBackfillOrderFill e = shouldBackfillOrderFill f" "fillOrderID e = fillOrderID f"
    "fillTradeID e = fillTradeID f"
    by (simp_all add: shouldBackfillOrderFill_def fillOrderID_def fillTradeID_def)
qed

lemma insert_fill_row_adds:
  "insert_fill_row r db = (Inr (), db') \<Longrightarrow> db_fills db' = db_fills db @ [r]"
  by (auto simp: insert_fill_row_def split: if_splits)

lemma insert_backfill_adds:
  assumes "insert_backfill event a b c d t db = (Inr (), db')" "find (\<lambda>o'. ro_order_id o' = a) (db_orders db) \<noteq> None"
  shows "0 < fill_count a b db'"
proof -
  obtain o' where o': "find (\<lambda>o'. ro_order_id o' = a) (db_orders db) = Some o'" using assms(2) by auto
  then have oid: "ro_order_id o' = a" by (auto simp: find_Some_iff)
  show ?thesis
  proof (cases "\<exists>f\<in>set (db_fills db). matches_fill a b f")
    case True
    then have "db' = db" using assms(1) o' by (simp add: insert_backfill_def)
    then show ?thesis using True by (auto simp: fill_count_def filter_empty_conv)
  next
    case False
    then obtain r where "insert_fill_row r db = (Inr (), db')" "rf_order_id r = a" "rf_exchange_trade_id r = Some b"
      using assms(1) o' oid by (auto simp: insert_backfill_def split: if_splits)
    then show ?thesis using insert_fill_row_adds by (auto simp: fill_count_def matches_fill_def)
  qed
qed

lemma frame_eqD:
  assumes "frame db = frame db'"
  shows "db_orders db = db_orders db'" "db_events db = db_events db'" "db_next_event_id db = db_next_event_id db'"
  using arg_cong [OF assms, of db_orders] arg_cong [OF assms, of db_events] arg_cong [OF assms, of db_next_event_id]
  by (simp_all add: frame_def)

lemma backfill_run:
  assumes "shouldBackfillOrderFill event"
  obtains c s t where "\<And>db. backfillOrderFillFromLifecycleEvent now event db =
      then_db (wrap_db ''update lifecycle order fill: '' (stmt (update_fills event (fillOrderID event) (fillTradeID event) c s)))
        (\<lambda>rows. if 0 < rows then (\<lambda>db. (Inr (), db)) else wrap_db ''insert lifecycle order fill: ''
           (stmt (insert_backfill event (fillOrderID event) (fillTradeID event) c s t))) db"
  using assms unfolding backfillOrderFillFromLifecycleEvent_def Let_def fillOrderID_def fillTradeID_def
  by (simp only: not_True_eq_False if_False)

lemma backfill_leaves_fill:
  assumes "backfillOrderFillFromLifecycleEvent now event db = (Inr (), db')" "shouldBackfillOrderFill event"
  shows "0 < fill_count (fillOrderID event) (fillTradeID event) db'
    \<or> find (\<lambda>o'. ro_order_id o' = fillOrderID event) (db_orders db') = None"
proof -
  let ?x = "fillOrderID event" and ?y = "fillTradeID event"
  let ?m = "''update lifecycle order fill: ''" and ?m' = "''insert lifecycle order fill: ''"
  obtain c s t where run: "backfillOrderFillFromLifecycleEvent now event db =
      then_db (wrap_db ?m (stmt (update_fills event ?x ?y c s)))
        (\<lambda>rows. if 0 < rows then (\<lambda>db. (Inr (), db)) else wrap_db ?m' (stmt (insert_backfill event ?x ?y c s t))) db"
    using backfill_run [OF assms(2), of now] by metis
  obtain rows d where
    1: "wrap_db ?m (stmt (update_fills event ?x ?y c s)) db = (Inr rows, d)" and
    2: "(if 0 < rows then (\<lambda>db. (Inr (), db)) else wrap_db ?m' (stmt (insert_backfill event ?x ?y c s t))) d = (Inr (), db')"
    using assms(1) unfolding run then_db_Inr by blast
  from wrap_stmt_Inr [OF 1] obtain d0 where d0: "update_fills event ?x ?y c s d0 = (Inr rows, d)" by blast
  then have "rows = fill_count ?x ?y d" using update_fills_count [of ?x ?y event ?x ?y c s d0]
    by (simp add: update_fills_def fill_count_def)
  show ?thesis
  proof (cases "0 < rows")
    case True
    then show ?thesis using 2 \<open>rows = fill_count ?x ?y d\<close> by simp
  next
    case False
    then obtain e where e: "insert_backfill event ?x ?y c s t e = (Inr (), db')"
      using 2 wrap_stmt_Inr [of ?m' "insert_backfill event ?x ?y c s t" d] by auto
    then have "db_orders db' = db_orders e"
      by (auto simp: insert_backfill_def insert_fill_row_def split: option.splits if_splits)
    then show ?thesis using insert_backfill_adds [OF e] by auto
  qed
qed

lemma backfill_again:
  assumes "backfillOrderFillFromLifecycleEvent now event d = (Inr (), db1)" "same_event event event'"
    "db_faults db = []" "db_fills db = db_fills db1" "db_orders db = db_orders db1"
  shows "\<exists>db2. backfillOrderFillFromLifecycleEvent now' event' db = (Inr (), db2)
    \<and> (\<forall>x y. fill_count x y db2 = fill_count x y db)"
proof (cases "shouldBackfillOrderFill event")
  case False
  then show ?thesis using same_event_fields [OF assms(2)] by (simp add: backfillOrderFillFromLifecycleEvent_def)
next
  case True
  let ?x = "fillOrderID event" and ?y = "fillTradeID event"
  have eq: "fill_count ?x ?y db = fill_count ?x ?y db1" by (simp add: fill_count_def assms(4))
  have should: "shouldBackfillOrderFill event'" and xy: "fillOrderID event' = ?x" "fillTradeID event' = ?y"
    using True same_event_fields [OF assms(2)] by simp_all
  obtain c s t where run: "backfillOrderFillFromLifecycleEvent now' event' db =
      then_db (wrap_db ''update lifecycle order fill: '' (stmt (update_fills event' ?x ?y c s)))
        (\<lambda>rows. if 0 < rows then (\<lambda>db. (Inr (), db)) else wrap_db ''insert lifecycle order fill: ''
           (stmt (insert_backfill event' ?x ?y c s t))) db"
    using backfill_run [OF should, of now'] unfolding xy by metis
  obtain d' where upd: "update_fills event' ?x ?y c s db = (Inr (fill_count ?x ?y db), d')" "db_faults d' = []"
    "db_orders d' = db_orders db" using assms(3) by (simp add: update_fills_def fill_count_def)
  have cnt: "fill_count x y d' = fill_count x y db" for x y
    using update_fills_count [of x y event' ?x ?y c s db] upd(1) by simp
  consider "0 < fill_count ?x ?y db" | "find (\<lambda>o'. ro_order_id o' = ?x) (db_orders db) = None"
    using backfill_leaves_fill [OF assms(1) True] eq assms(5) by auto
  then show ?thesis
  proof cases
    case 1
    then show ?thesis using assms(3) cnt by (simp add: run then_db_def wrap_db_def upd)
  next
    case 2
    then have "insert_backfill event' ?x ?y c s t d' = (Inr (), d')" by (simp add: insert_backfill_def upd(3))
    then show ?thesis using assms(3) cnt upd(2) by (simp add: run then_db_def wrap_db_def upd(1))
  qed
qed

lemma firstNonEmptyString_blank:
  "trim_space (firstNonEmptyString vs) = [] \<longleftrightarrow> (\<forall>v\<in>set vs. trim_space v = [])"
  by (induction vs) auto

lemma firstNonEmpty_blank: "\<forall>v\<in>set vs. trim_space v = [] \<Longrightarrow> trim_space (firstNonEmpty vs) = []"
  by (induction vs) auto

lemma identity_has_order:
  assumes "EventIdentityKey (normalized_event now event) \<noteq> []"
  shows "trim_space (ev_ExchangeOrderID (normalized_event now event)) \<noteq> []"
proof
  let ?N = "normalized_event now event"
  assume a: "trim_space (ev_ExchangeOrderID ?N) = []"
  then have "\<forall>v\<in>set [ev_ExchangeOrderID event, fd_ExchangeOrderID (ev_FillDelta event), os_ExchangeOrderID (ev_OrderState event)].
      trim_space v = []" by (simp add: normalized_event_def firstNonEmptyString_blank del: firstNonEmptyString.simps)
  then have "eventOrderRef ?N = []" using a unfolding eventOrderRef_def
    by (intro firstNonEmpty_blank) (simp add: normalized_event_def)
  then show False using assms by (simp add: EventIdentityKey_def)
qed

lemma identity_not_blank: "EventIdentityKey event \<noteq> [] \<Longrightarrow> nullableString (EventIdentityKey event) \<noteq> None"
proof -
  have "trim_space (c # s) \<noteq> []" if "\<not> is_space c" for c s
    using that by (simp add: trim_space_def)
  then show "EventIdentityKey event \<noteq> [] \<Longrightarrow> nullableString (EventIdentityKey event) \<noteq> None"
    by (auto simp: EventIdentityKey_def Let_def is_space_def split: if_splits)
qed

lemma recorded_frame: "db_events db = db_events db' \<Longrightarrow> recorded r eid db = recorded r eid db'"
  by (simp add: recorded_def)

lemma save_again:
  assumes ok: "db_ok db" and first: "SaveLifecycleEvent now event db = (Inr saved, db1)"
    and nf: "db_faults db1 = []" and occ: "\<not> is_zero (ev_OccurredAt event)"
    and key: "EventIdentityKey (normalized_event now event) \<noteq> []"
  shows "\<exists>saved' db2. SaveLifecycleEvent now' event db1 = (Inr saved', db2)
    \<and> ev_EventID saved' = ev_EventID saved
    \<and> map re_event_id (db_events db2) = map re_event_id (db_events db1)
    \<and> (\<forall>x y. fill_count x y db2 = fill_count x y db1)"
proof -
  define N where "N = normalized_event now event"
  have N': "normalized_event now' event = N" using occ by (simp add: normalized_event_def N_def)
  from SaveLifecycleEvent_Inr [OF first] obtain d d' created where
    I: "insert_event now N d = (Inr (ev_EventID saved, created), d')" and fr: "frame db1 = frame d'" and
    V: "ValidateEventRouteFacts N = None" "marshal_fill_ok (ev_FillDelta event)" "marshal_state_ok (ev_OrderState event)" and
    S: "saved = N\<lparr>ev_EventID := ev_EventID saved, ev_CreatedAt := created\<rparr>" and
    B: "backfillOrderFillFromLifecycleEvent now saved d' = (Inr (), db1)" unfolding N_def by metis
  define r where "r = event_row_of N (EventIdentityKey N) (db_next_event_id db1) now'"
  have rec: "recorded r (ev_EventID saved) db1"
    using upsert_event_recorded [OF I [unfolded insert_event_def]] frame_eqD(2) [OF fr]
    by (simp add: recorded_def r_def event_row_of_def)
  have small: "smallint (re_environment r)" "smallint (re_exchange r)" "smallint (re_market r)" "smallint (re_position_side r)"
    using I by (auto simp: insert_event_def upsert_event_row_def Let_def r_def event_row_of_def split: if_splits)
  have ids: "re_event_identity r \<noteq> None" "re_exchange_order_id r \<noteq> None"
    using identity_not_blank [of N] identity_has_order [of now event] key
    by (simp_all add: r_def event_row_of_def N_def)
  have "events_ok db1" using integrity.preservesD [OF SaveLifecycleEvent_ok ok, of now event] first
    by (simp add: db_ok_def)
  from upsert_event_again [OF this rec ids small] obtain created' db3 where
    U: "upsert_event_row r db1 = (Inr (ev_EventID saved, created'), db3)"
      "map re_event_id (db_events db3) = map re_event_id (db_events db1)"
      "db3 = db1\<lparr>db_events := db_events db3, db_next_event_id := db_next_event_id db1 + 1\<rparr>" by blast
  have U3: "db_faults db3 = []" "db_fills db3 = db_fills db1" "db_orders db3 = db_orders db1"
    by (subst U(3), simp add: nf)+
  define saved' where "saved' = N\<lparr>ev_EventID := ev_EventID saved, ev_CreatedAt := created'\<rparr>"
  have "same_event saved saved'" by (subst S) (simp add: same_event_def saved'_def)
  from backfill_again [OF B this U3, of now'] obtain db2 where
    2: "backfillOrderFillFromLifecycleEvent now' saved' db3 = (Inr (), db2)" "\<forall>x y. fill_count x y db2 = fill_count x y db3" by blast
  have "frame db2 = frame db3" using backfill_frame [of now' saved' db3] 2(1) by simp
  then have ev23: "db_events db2 = db_events db3" by (rule frame_eqD)
  have "ev_EventType N \<noteq> []" using ValidateEventRouteFacts_None(7) [OF V(1)] by auto
  moreover have "ev_FillDelta N = ev_FillDelta event" "ev_OrderState N = ev_OrderState event"
    by (simp_all add: N_def normalized_event_def)
  moreover have "insert_event now' N db1 = (Inr (ev_EventID saved, created'), db3)"
    using U(1) by (simp add: insert_event_def r_def)
  ultimately have "SaveLifecycleEvent now' event db1 = (Inr saved', db2)"
    using V nf 2(1) by (simp add: SaveLifecycleEvent_def N' Let_def then_db_def wrap_db_def saved'_def)
  then show ?thesis using 2(2) U(2) U3(2) ev23
    by (simp add: saved'_def fill_count_def)
qed

end
