(* ===== verification/Scanner.thy ===== *)
theory Scanner
  imports Store_Effects
begin

text \<open>
  Models \<^verbatim>\<open>internal/order/lifecycle/scanner.go\<close>: the recovery scanner, which queries the
  exchange for open orders and records what it learns.

  The Go interfaces are records of operations, polymorphic in the state of the store behind them.
  The exchange side (\<^verbatim>\<open>OrderStateReader\<close>, \<^verbatim>\<open>OrderRecoveryCanceller\<close>) is not part of the
  program: its answers are arbitrary functions of the number of the call.  The state of a scan
  carries a trace of what was done, in order.
\<close>

subsection \<open>Interfaces\<close>

record 'db ScannerStore =
  ss_SaveLifecycleEvent :: "Event \<Rightarrow> 'db \<Rightarrow> Event result \<times> 'db"
  ss_ListDueOpenOrders :: "int \<Rightarrow> 'db \<Rightarrow> OpenOrder list result \<times> 'db"
  ss_MarkRecoveryExpired :: "string \<Rightarrow> time \<Rightarrow> string \<Rightarrow> 'db \<Rightarrow> unit result \<times> 'db"
  ss_MarkRecoveryResolved :: "string \<Rightarrow> OrderState \<Rightarrow> time \<Rightarrow> 'db \<Rightarrow> unit result \<times> 'db"

record OrderStateReader =
  rd_QueryOrder :: "nat \<Rightarrow> OpenOrder \<Rightarrow> OrderState result"
  rd_QueryTrades :: "nat \<Rightarrow> OpenOrder \<Rightarrow> FillDelta list result"
  rd_CancelOrder :: "(nat \<Rightarrow> OpenOrder \<Rightarrow> CancelResult \<times> error option) option"

record ScannerConfig =
  cfg_BatchSize :: int
  cfg_InitialBackoff :: duration
  cfg_MaxBackoff :: duration
  cfg_RecoveryDeadline :: duration

datatype scan_action =
    Queried OpenOrder
  | QueriedTrades OpenOrder
  | CancelSent OpenOrder
  | Saved Event
  | Resolved string string
  | Expired string

record 'db scan_state =
  scn_db :: 'db
  scn_backoff :: "int \<Rightarrow> time option"
  scn_calls :: nat
  scn_trace :: "scan_action list"

definition NewScannerWithCanceller :: "ScannerConfig \<Rightarrow> ScannerConfig" where
  "NewScannerWithCanceller cfg =
     \<lparr>cfg_BatchSize = (if cfg_BatchSize cfg \<le> 0 then 50 else cfg_BatchSize cfg),
      cfg_InitialBackoff = (if cfg_InitialBackoff cfg \<le> 0 then 5 * second else cfg_InitialBackoff cfg),
      cfg_MaxBackoff = (if cfg_MaxBackoff cfg \<le> 0 then 60 * second else cfg_MaxBackoff cfg),
      cfg_RecoveryDeadline = (if cfg_RecoveryDeadline cfg \<le> 0 then 14 * 24 * hour else cfg_RecoveryDeadline cfg)\<rparr>"

definition ErrRecoveryCancellerUnavailable :: error where
  "ErrRecoveryCancellerUnavailable = Sentinel ''order recovery canceller unavailable''"

subsection \<open>Pure helpers\<close>

definition orderRecoveryDeadline :: "ScannerConfig \<Rightarrow> OpenOrder \<Rightarrow> time" where
  "orderRecoveryDeadline cfg order =
     (if \<not> is_zero (oo_RecoveryDeadlineAt order) then oo_RecoveryDeadlineAt order
      else if \<not> is_zero (oo_RecoveryStartedAt order) then oo_RecoveryStartedAt order + cfg_RecoveryDeadline cfg
      else 0)"

definition isTerminalOrderState :: "OrderState \<Rightarrow> bool" where
  "isTerminalOrderState state =
     (if to_upper (trim_space (os_Status state)) \<in>
          {''FILLED'', ''CANCELED'', ''EXPIRED'', ''REJECTED'', ''RECOVERY_EXPIRED'', ''FORCE_CLOSED''}
      then True else 0 < os_OrigQty state \<and> os_RemainingQty state \<le> 0)"

definition terminalOrderStatus :: "OrderState \<Rightarrow> string" where
  "terminalOrderStatus state = (let status = to_upper (trim_space (os_Status state)) in
     if status = [] \<and> 0 < os_OrigQty state \<and> os_RemainingQty state \<le> 0 then ''FILLED'' else status)"

definition enrichOpenOrderFromState :: "OpenOrder \<Rightarrow> OrderState \<Rightarrow> OpenOrder" where
  "enrichOpenOrderFromState order state =
     order\<lparr>oo_ExchangeOrderID := firstNonEmpty [oo_ExchangeOrderID order, os_ExchangeOrderID state],
       oo_ClientOrderID := firstNonEmpty [oo_ClientOrderID order, os_ClientOrderID state],
       oo_Symbol := firstNonEmpty [oo_Symbol order, os_Symbol state]\<rparr>"

definition enrichOrderStateFromOpenOrder :: "OpenOrder \<Rightarrow> OrderState \<Rightarrow> time \<Rightarrow> OrderState" where
  "enrichOrderStateFromOpenOrder order state now =
     state\<lparr>os_ExchangeOrderID := firstNonEmpty [os_ExchangeOrderID state, oo_ExchangeOrderID order],
       os_ClientOrderID := firstNonEmpty [os_ClientOrderID state, oo_ClientOrderID order],
       os_Symbol := firstNonEmpty [os_Symbol state, oo_Symbol order],
       os_Status := to_upper (trim_space (os_Status state)),
       os_UpdatedAt := (if is_zero (os_UpdatedAt state) then now else os_UpdatedAt state)\<rparr>"

definition hasFillDelta :: "OrderState \<Rightarrow> bool" where
  "hasFillDelta state =
     (if to_upper (trim_space (os_Status state)) \<in> {''FILLED'', ''PARTIALLY_FILLED''}
      then 0 < os_ExecutedQty state else False)"

definition hasCompleteFillDetails :: "OrderState \<Rightarrow> FillDelta list \<Rightarrow> bool" where
  "hasCompleteFillDetails state trades =
     (if os_ExecutedQty state \<le> 0 then True
      else os_ExecutedQty state \<le> foldl (\<lambda>total trade. total + \<bar>fd_Qty trade\<bar>) 0 trades + flit (1 / 10 ^ 12))"

definition cancelErrorText :: "error option \<Rightarrow> string" where
  "cancelErrorText e = (case e of None \<Rightarrow> [] | Some e \<Rightarrow> err_text e)"

definition eventFromOpenOrder :: "OpenOrder \<Rightarrow> Event" where
  "eventFromOpenOrder order = zero_Event\<lparr>ev_SessionID := oo_SessionID order,
     ev_AccountID := oo_AccountID order, ev_VenueID := oo_VenueID order,
     ev_Environment := oo_Environment order, ev_Exchange := oo_Exchange order,
     ev_Market := oo_Market order, ev_PositionSide := oo_PositionSide order, ev_Side := oo_Side order,
     ev_IntentID := oo_IntentID order, ev_AttemptID := oo_AttemptID order, ev_OrderID := oo_OrderID order\<rparr>"

definition fillEvent :: "OpenOrder \<Rightarrow> OrderState \<Rightarrow> string \<Rightarrow> time \<Rightarrow> FillDelta \<Rightarrow> Event" where
  "fillEvent order state source now fill0 =
     (let fill = fill0\<lparr>fd_TradeTime := (if is_zero (fd_TradeTime fill0) then now else fd_TradeTime fill0)\<rparr>
      in (eventFromOpenOrder order)\<lparr>
           ev_ExchangeOrderID := firstNonEmpty [fd_ExchangeOrderID fill, os_ExchangeOrderID state, oo_ExchangeOrderID order],
           ev_ExchangeTradeID := fd_ExchangeTradeID fill, ev_EventType := ''fill'',
           ev_EventSource := source, ev_OrderStatus := os_Status state, ev_FillDelta := fill,
           ev_OrderState := state, ev_OccurredAt := fd_TradeTime fill\<rparr>)"

definition terminalEvent :: "OpenOrder \<Rightarrow> OrderState \<Rightarrow> string \<Rightarrow> string \<Rightarrow> time \<Rightarrow> Event" where
  "terminalEvent order state source orderStatus occurredAt =
     (eventFromOpenOrder order)\<lparr>
       ev_ExchangeOrderID := firstNonEmpty [os_ExchangeOrderID state, oo_ExchangeOrderID order],
       ev_EventType := ''terminal'', ev_EventSource := source, ev_OrderStatus := orderStatus,
       ev_OrderState := state, ev_OccurredAt := occurredAt\<rparr>"

subsection \<open>Writing events\<close>

definition traced :: "scan_action \<Rightarrow> 'db scan_state \<Rightarrow> 'db scan_state" where
  "traced a s = s\<lparr>scn_trace := scn_trace s @ [a]\<rparr>"

definition saveEvent :: "'db ScannerStore \<Rightarrow> Event \<Rightarrow> 'db scan_state \<Rightarrow> error option \<times> 'db scan_state" where
  "saveEvent st event s =
     (case ValidateEventRouteFacts event of
        Some e \<Rightarrow> (Some e, s)
      | None \<Rightarrow>
          (case ss_SaveLifecycleEvent st event (scn_db s) of
             (Inl e, db) \<Rightarrow> (Some e, s\<lparr>scn_db := db\<rparr>)
           | (Inr saved, db) \<Rightarrow> (None, traced (Saved event) (s\<lparr>scn_db := db\<rparr>))))"

fun writeFillEvents :: "'db ScannerStore \<Rightarrow> OpenOrder \<Rightarrow> OrderState \<Rightarrow> string \<Rightarrow> time \<Rightarrow> FillDelta list \<Rightarrow>
    nat \<Rightarrow> 'db scan_state \<Rightarrow> nat \<times> error option \<times> 'db scan_state" where
  "writeFillEvents st order state source now [] written s = (written, None, s)"
| "writeFillEvents st order state source now (fill # trades) written s =
     (case saveEvent st (fillEvent order state source now fill) s of
        (Some e, s) \<Rightarrow> (written, Some e, s)
      | (None, s) \<Rightarrow> writeFillEvents st order state source now trades (written + 1) s)"

definition writeTerminalEvent :: "'db ScannerStore \<Rightarrow> time \<Rightarrow> OpenOrder \<Rightarrow> OrderState \<Rightarrow> string \<Rightarrow> string \<Rightarrow> time \<Rightarrow>
    'db scan_state \<Rightarrow> nat \<times> error option \<times> 'db scan_state" where
  "writeTerminalEvent st clock order state source orderStatus occurredAt0 s =
     (let occurredAt = (if is_zero occurredAt0 then clock else occurredAt0) in
      case saveEvent st (terminalEvent order state source orderStatus occurredAt) s of
        (Some e, s) \<Rightarrow> (0, Some e, s)
      | (None, s) \<Rightarrow> (1, None, s))"

definition backoffVenue :: "ScannerConfig \<Rightarrow> int \<Rightarrow> time \<Rightarrow> 'db scan_state \<Rightarrow> 'db scan_state" where
  "backoffVenue cfg venueID now s =
     (let delay = (if cfg_MaxBackoff cfg < cfg_InitialBackoff cfg then cfg_MaxBackoff cfg else cfg_InitialBackoff cfg)
      in s\<lparr>scn_backoff := (scn_backoff s)(venueID \<mapsto> now + delay)\<rparr>)"

subsection \<open>Queries\<close>

definition callQueryOrder :: "OrderStateReader \<Rightarrow> OpenOrder \<Rightarrow> 'db scan_state \<Rightarrow> OrderState result \<times> 'db scan_state" where
  "callQueryOrder rd order s =
     (rd_QueryOrder rd (scn_calls s) order, traced (Queried order) (s\<lparr>scn_calls := scn_calls s + 1\<rparr>))"

definition callQueryTrades :: "OrderStateReader \<Rightarrow> OpenOrder \<Rightarrow> 'db scan_state \<Rightarrow> FillDelta list result \<times> 'db scan_state" where
  "callQueryTrades rd order s =
     (rd_QueryTrades rd (scn_calls s) order, traced (QueriedTrades order) (s\<lparr>scn_calls := scn_calls s + 1\<rparr>))"

subsection \<open>Force close\<close>

definition forceCloseState :: "OpenOrder \<Rightarrow> CancelResult \<Rightarrow> OrderState \<Rightarrow> time \<Rightarrow> OrderState" where
  "forceCloseState order cancelResult state now =
     state\<lparr>os_ExchangeOrderID := firstNonEmpty [os_ExchangeOrderID state, cr_ExchangeOrderID cancelResult, oo_ExchangeOrderID order],
       os_ClientOrderID := firstNonEmpty [os_ClientOrderID state, cr_ClientOrderID cancelResult, oo_ClientOrderID order],
       os_Symbol := firstNonEmpty [os_Symbol state, oo_Symbol order],
       os_Status := firstNonEmpty [os_Status state, cr_Status cancelResult],
       os_UpdatedAt := (if is_zero (os_UpdatedAt state) then now else os_UpdatedAt state)\<rparr>"

definition expireOrder :: "'db ScannerStore \<Rightarrow> OpenOrder \<Rightarrow> time \<Rightarrow> error option \<Rightarrow> nat \<Rightarrow>
    'db scan_state \<Rightarrow> nat \<times> error option \<times> 'db scan_state" where
  "expireOrder st order now cancelErr written s =
     (case ss_MarkRecoveryExpired st (oo_OrderID order) now (cancelErrorText cancelErr) (scn_db s) of
        (Inl e, db) \<Rightarrow> (written + 1, Some e, s\<lparr>scn_db := db\<rparr>)
      | (Inr _, db) \<Rightarrow> (written + 1, None, traced (Expired (oo_OrderID order)) (s\<lparr>scn_db := db\<rparr>)))"

definition forceCloseWrite :: "'db ScannerStore \<Rightarrow> OpenOrder \<Rightarrow> OrderState \<Rightarrow> FillDelta list \<Rightarrow> error option \<Rightarrow>
    time \<Rightarrow> 'db scan_state \<Rightarrow> nat \<times> error option \<times> 'db scan_state" where
  "forceCloseWrite st order state trades cancelErr now s =
     (case writeFillEvents st (enrichOpenOrderFromState order state) state EventSourceForceClose now trades 0 s of
        (written, Some e, s) \<Rightarrow> (written, Some e, s)
      | (written, None, s) \<Rightarrow>
          (case saveEvent st (terminalEvent order state EventSourceForceClose ''RECOVERY_EXPIRED'' now) s of
             (Some e, s) \<Rightarrow> (written, Some e, s)
           | (None, s) \<Rightarrow> expireOrder st order now cancelErr written s))"

definition forceClose :: "'db ScannerStore \<Rightarrow> OrderStateReader \<Rightarrow> OpenOrder \<Rightarrow> time \<Rightarrow>
    'db scan_state \<Rightarrow> nat \<times> error option \<times> 'db scan_state" where
  "forceClose st rd order now s =
     (case rd_CancelOrder rd of
        None \<Rightarrow> (0, Some ErrRecoveryCancellerUnavailable, s)
      | Some cancel \<Rightarrow>
          let (cancelResult, cancelErr) = cancel (scn_calls s) order;
              s = traced (CancelSent order) (s\<lparr>scn_calls := scn_calls s + 1\<rparr>)
          in case callQueryOrder rd order s of
            (Inl e, s) \<Rightarrow> (0, Some (case cancelErr of Some ce \<Rightarrow> ce | None \<Rightarrow> e), s)
          | (Inr state0, s) \<Rightarrow>
              if cancelErr \<noteq> None \<and> \<not> isTerminalOrderState state0 then (0, cancelErr, s)
              else
                let state = forceCloseState order cancelResult state0 now in
                case callQueryTrades rd (enrichOpenOrderFromState order state) s of
                  (Inl e, s) \<Rightarrow> (0, Some (case cancelErr of Some ce \<Rightarrow> ce | None \<Rightarrow> e), s)
                | (Inr trades, s) \<Rightarrow> forceCloseWrite st order state trades cancelErr now s)"

subsection \<open>One pass over the due orders\<close>

definition resolveTerminal :: "'db ScannerStore \<Rightarrow> time \<Rightarrow> OpenOrder \<Rightarrow> OpenOrder \<Rightarrow> OrderState \<Rightarrow>
    'db scan_state \<Rightarrow> nat \<times> error option \<times> 'db scan_state" where
  "resolveTerminal st clock order tradeOrder state0 s =
     (if \<not> isTerminalOrderState state0 then (0, None, s)
      else
        let state = state0\<lparr>os_Status := terminalOrderStatus state0\<rparr> in
        case writeTerminalEvent st clock tradeOrder state EventSourceRESTRecovery (os_Status state) (os_UpdatedAt state) s of
          (written, Some e, s) \<Rightarrow> (written, Some e, s)
        | (written, None, s) \<Rightarrow>
            (case ss_MarkRecoveryResolved st (oo_OrderID order) state (os_UpdatedAt state) (scn_db s) of
               (Inl e, db) \<Rightarrow> (written, Some e, s\<lparr>scn_db := db\<rparr>)
             | (Inr _, db) \<Rightarrow> (written, None, traced (Resolved (oo_OrderID order) (os_Status state)) (s\<lparr>scn_db := db\<rparr>))))"

text \<open>
  One iteration of the loop of \<^verbatim>\<open>ScanOnce\<close>.  The result is the number of events written, the
  error that ends the whole scan (an error that only ends this iteration is \<^verbatim>\<open>None\<close>), and
  the new state.
\<close>

definition scanOrder :: "'db ScannerStore \<Rightarrow> OrderStateReader \<Rightarrow> ScannerConfig \<Rightarrow> time \<Rightarrow> time \<Rightarrow> OpenOrder \<Rightarrow>
    'db scan_state \<Rightarrow> nat \<times> error option \<times> 'db scan_state" where
  "scanOrder st rd cfg clock now order s =
     (if (case scn_backoff s (oo_VenueID order) of None \<Rightarrow> False | Some until \<Rightarrow> now < until) then (0, None, s)
      else if \<not> is_zero (orderRecoveryDeadline cfg order) \<and> orderRecoveryDeadline cfg order \<le> now
      then (case forceClose st rd order now s of
              (written, Some e, s) \<Rightarrow> (written, None, backoffVenue cfg (oo_VenueID order) now s)
            | (written, None, s) \<Rightarrow> (written, None, s))
      else
        case callQueryOrder rd order s of
          (Inl e, s) \<Rightarrow> (0, None, backoffVenue cfg (oo_VenueID order) now s)
        | (Inr state0, s) \<Rightarrow>
            let state = enrichOrderStateFromOpenOrder order state0 now;
                tradeOrder = enrichOpenOrderFromState order state
            in if hasFillDelta state
               then (case callQueryTrades rd tradeOrder s of
                       (Inl e, s) \<Rightarrow> (0, None, backoffVenue cfg (oo_VenueID order) now s)
                     | (Inr trades, s) \<Rightarrow>
                         if \<not> hasCompleteFillDetails state trades then (0, None, s)
                         else (case writeFillEvents st tradeOrder state EventSourceRESTRecovery now trades 0 s of
                                 (written, Some e, s) \<Rightarrow> (written, Some e, s)
                               | (written, None, s) \<Rightarrow>
                                   (case resolveTerminal st clock order tradeOrder state s of
                                      (w, e, s) \<Rightarrow> (written + w, e, s))))
               else resolveTerminal st clock order tradeOrder state s)"

fun scanOrders :: "'db ScannerStore \<Rightarrow> OrderStateReader \<Rightarrow> ScannerConfig \<Rightarrow> time \<Rightarrow> time \<Rightarrow> OpenOrder list \<Rightarrow>
    nat \<Rightarrow> 'db scan_state \<Rightarrow> nat \<times> error option \<times> 'db scan_state" where
  "scanOrders st rd cfg clock now [] written s = (written, None, s)"
| "scanOrders st rd cfg clock now (order # orders) written s =
     (case scanOrder st rd cfg clock now order s of
        (w, Some e, s) \<Rightarrow> (written + w, Some e, s)
      | (w, None, s) \<Rightarrow> scanOrders st rd cfg clock now orders (written + w) s)"

definition ScanOnce :: "'db ScannerStore \<Rightarrow> OrderStateReader \<Rightarrow> ScannerConfig \<Rightarrow> time \<Rightarrow> time \<Rightarrow>
    'db scan_state \<Rightarrow> nat \<times> error option \<times> 'db scan_state" where
  "ScanOnce st rd cfg clock now s =
     (case ss_ListDueOpenOrders st (cfg_BatchSize cfg) (scn_db s) of
        (Inl e, db) \<Rightarrow> (0, Some e, s\<lparr>scn_db := db\<rparr>)
      | (Inr orders, db) \<Rightarrow> scanOrders st rd cfg clock now orders 0 (s\<lparr>scn_db := db\<rparr>))"

subsection \<open>The scanner as a step relation\<close>

text \<open>
  The effects a scan consists of.  A recovery is marked resolved or expired only in a state whose
  trace already has the saved terminal event of the order.
\<close>

definition terminal_saved :: "'db scan_state \<Rightarrow> string \<Rightarrow> bool" where
  "terminal_saved s orderID = (\<exists>ev. Saved ev \<in> set (scn_trace s) \<and> ev_EventType ev = ''terminal'' \<and> ev_OrderID ev = orderID)"

inductive scan_step :: "'db ScannerStore \<Rightarrow> 'db scan_state \<Rightarrow> 'db scan_state \<Rightarrow> bool" for st where
  asked: "a \<in> {Queried order, QueriedTrades order, CancelSent order} \<Longrightarrow>
     scan_step st s (traced a (s\<lparr>scn_calls := Suc (scn_calls s)\<rparr>))"
| backed_off: "scan_step st s (s\<lparr>scn_backoff := b\<rparr>)"
| listed: "ss_ListDueOpenOrders st n (scn_db s) = (r, db) \<Longrightarrow> scan_step st s (s\<lparr>scn_db := db\<rparr>)"
| not_saved: "ss_SaveLifecycleEvent st event (scn_db s) = (Inl e, db) \<Longrightarrow> scan_step st s (s\<lparr>scn_db := db\<rparr>)"
| saved: "ValidateEventRouteFacts event = None \<Longrightarrow> ss_SaveLifecycleEvent st event (scn_db s) = (Inr x, db) \<Longrightarrow>
     scan_step st s (traced (Saved event) (s\<lparr>scn_db := db\<rparr>))"
| not_expired: "ss_MarkRecoveryExpired st orderID t m (scn_db s) = (Inl e, db) \<Longrightarrow> scan_step st s (s\<lparr>scn_db := db\<rparr>)"
| expired: "ss_MarkRecoveryExpired st orderID t m (scn_db s) = (Inr x, db) \<Longrightarrow> terminal_saved s orderID \<Longrightarrow>
     scan_step st s (traced (Expired orderID) (s\<lparr>scn_db := db\<rparr>))"
| not_resolved: "ss_MarkRecoveryResolved st orderID state t (scn_db s) = (Inl e, db) \<Longrightarrow> scan_step st s (s\<lparr>scn_db := db\<rparr>)"
| resolved: "ss_MarkRecoveryResolved st orderID state t (scn_db s) = (Inr x, db) \<Longrightarrow> terminal_saved s orderID \<Longrightarrow>
     scan_step st s (traced (Resolved orderID status) (s\<lparr>scn_db := db\<rparr>))"

inductive_cases scan_stepE [elim]: "scan_step st s s'"

abbreviation scan_steps :: "'db ScannerStore \<Rightarrow> 'db scan_state \<Rightarrow> 'db scan_state \<Rightarrow> bool" where
  "scan_steps st \<equiv> (scan_step st)\<^sup>*\<^sup>*"

fun is_saved :: "scan_action \<Rightarrow> bool" where
  "is_saved (Saved e) = True"
| "is_saved a = False"

definition saved_count :: "'db scan_state \<Rightarrow> nat" where
  "saved_count s = length (filter is_saved (scn_trace s))"

definition runs :: "'db ScannerStore \<Rightarrow> nat \<Rightarrow> 'db scan_state \<Rightarrow> 'db scan_state \<Rightarrow> bool" where
  "runs st w s s' = (scan_steps st s s' \<and> saved_count s' = saved_count s + w)"

lemma runs_refl [simp]: "runs st 0 s s"
  by (simp add: runs_def)

lemma runs_trans: "runs st v s s' \<Longrightarrow> runs st w s' s'' \<Longrightarrow> runs st (v + w) s s''"
  by (auto simp: runs_def intro: rtranclp_trans)

lemma runs_then: "runs st 0 s s' \<Longrightarrow> runs st w s' s'' \<Longrightarrow> runs st w s s''"
  using runs_trans [of st 0 s s' w s''] by simp

lemma traced_trace [simp]: "scn_trace (traced a s) = scn_trace s @ [a]"
  by (simp add: traced_def)

lemma saved_count_simps [simp]:
  "saved_count (traced a s) = saved_count s + (if is_saved a then 1 else 0)"
  "saved_count (s\<lparr>scn_db := db\<rparr>) = saved_count s" "saved_count (s\<lparr>scn_calls := n\<rparr>) = saved_count s"
  "saved_count (s\<lparr>scn_backoff := b\<rparr>) = saved_count s"
  by (simp_all add: saved_count_def traced_def)

lemma saveEvent_runs:
  assumes "saveEvent st event s = (e, s')"
  shows "runs st (if e = None then 1 else 0) s s'"
    "e = None \<Longrightarrow> Saved event \<in> set (scn_trace s') \<and> ValidateEventRouteFacts event = None"
proof -
  obtain r db where db: "ss_SaveLifecycleEvent st event (scn_db s) = (r, db)" by fastforce
  have "runs st (if e = None then 1 else 0) s s'
    \<and> (e = None \<longrightarrow> Saved event \<in> set (scn_trace s') \<and> ValidateEventRouteFacts event = None)"
  proof (cases "ValidateEventRouteFacts event")
    case None
    then show ?thesis using assms db
      by (cases r) (auto simp: saveEvent_def runs_def
          intro!: r_into_rtranclp intro: scan_step.intros)
  next
    case (Some x)
    then have "e = Some x" "s' = s" using assms by (simp_all add: saveEvent_def)
    then show ?thesis by simp
  qed
  then show "runs st (if e = None then 1 else 0) s s'"
    "e = None \<Longrightarrow> Saved event \<in> set (scn_trace s') \<and> ValidateEventRouteFacts event = None" by auto
qed

lemma writeFillEvents_runs:
  "writeFillEvents st order state source now trades w0 s = (w, e, s') \<Longrightarrow> w0 \<le> w \<and> runs st (w - w0) s s'"
proof (induction trades arbitrary: w0 s)
  case (Cons fill trades)
  obtain e1 s1 where 1: "saveEvent st (fillEvent order state source now fill) s = (e1, s1)" by fastforce
  show ?case
  proof (cases e1)
    case None
    then have "w0 + 1 \<le> w" "runs st (w - (w0 + 1)) s1 s'" using Cons 1 by auto
    moreover have "runs st 1 s s1" using saveEvent_runs(1) [OF 1] None by simp
    ultimately show ?thesis using runs_trans [of st 1 s s1 "w - (w0 + 1)" s'] by (simp add: Suc_diff_Suc)
  next
    case (Some x)
    then show ?thesis using Cons.prems 1 saveEvent_runs(1) [OF 1] by auto
  qed
qed auto

lemma callQueryOrder_runs: "callQueryOrder rd order s = (r, s') \<Longrightarrow> runs st 0 s s'"
  by (auto simp: callQueryOrder_def runs_def intro!: r_into_rtranclp intro: scan_step.intros)

lemma callQueryTrades_runs: "callQueryTrades rd order s = (r, s') \<Longrightarrow> runs st 0 s s'"
  by (auto simp: callQueryTrades_def runs_def intro!: r_into_rtranclp intro: scan_step.intros)

lemma backoffVenue_runs: "runs st 0 s (backoffVenue cfg v now s)"
  by (auto simp: backoffVenue_def runs_def Let_def intro!: r_into_rtranclp intro: scan_step.intros)

lemma terminalEvent_fields [simp]:
  "ev_EventType (terminalEvent order state source status t) = ''terminal''"
  "ev_OrderID (terminalEvent order state source status t) = oo_OrderID order"
  by (simp_all add: terminalEvent_def eventFromOpenOrder_def)

lemma enrich_order_id [simp]: "oo_OrderID (enrichOpenOrderFromState order state) = oo_OrderID order"
  by (simp add: enrichOpenOrderFromState_def)

lemma expireOrder_runs:
  assumes "expireOrder st order now cancelErr w0 s = (w, e, s')" "terminal_saved s (oo_OrderID order)"
  shows "w = w0 + 1 \<and> runs st 0 s s'"
proof -
  obtain r db where db: "ss_MarkRecoveryExpired st (oo_OrderID order) now (cancelErrorText cancelErr) (scn_db s) = (r, db)" by fastforce
  show ?thesis using assms db
    by (cases r) (auto simp: expireOrder_def runs_def intro!: r_into_rtranclp intro: scan_step.intros)
qed

lemma forceCloseWrite_runs:
  assumes "forceCloseWrite st order state trades cancelErr now s = (w, e, s')"
  shows "runs st w s s'"
proof -
  obtain w1 e1 s1 where 1: "writeFillEvents st (enrichOpenOrderFromState order state) state EventSourceForceClose now trades 0 s = (w1, e1, s1)"
    by (metis prod_cases3)
  obtain e2 s2 where 2: "saveEvent st (terminalEvent order state EventSourceForceClose ''RECOVERY_EXPIRED'' now) s1 = (e2, s2)" by fastforce
  have r1: "runs st w1 s s1" using writeFillEvents_runs [OF 1] by simp
  note r2 = saveEvent_runs [OF 2]
  show ?thesis
  proof (cases "e1 = None \<and> e2 = None")
    case True
    then have x: "expireOrder st order now cancelErr w1 s2 = (w, e, s')" using assms 1 2 by (simp add: forceCloseWrite_def)
    have "terminal_saved s2 (oo_OrderID order)" using r2(2) True by (auto simp: terminal_saved_def)
    then have "w = w1 + 1" "runs st 0 s2 s'" using expireOrder_runs [OF x] by auto
    moreover have "runs st (w1 + 1) s s2" using runs_trans [OF r1 r2(1)] True by simp
    ultimately show ?thesis using runs_trans [of st "w1 + 1" s s2 0 s'] by simp
  next
    case False
    then show ?thesis using assms 1 2 r1 runs_trans [OF r1 r2(1)]
      by (auto simp: forceCloseWrite_def split: option.splits)
  qed
qed

lemma forceClose_runs:
  assumes "forceClose st rd order now s = (w, e, s')"
  shows "runs st w s s'"
proof (cases "rd_CancelOrder rd")
  case None
  then show ?thesis using assms by (simp add: forceClose_def)
next
  case (Some cancel)
  obtain cr ce where c: "cancel (scn_calls s) order = (cr, ce)" by fastforce
  define s1 where "s1 = traced (CancelSent order) (s\<lparr>scn_calls := Suc (scn_calls s)\<rparr>)"
  have r1: "runs st 0 s s1" by (auto simp: s1_def runs_def intro!: r_into_rtranclp intro: scan_step.intros)
  obtain q s2 where q: "callQueryOrder rd order s1 = (q, s2)" by fastforce
  have r2: "runs st 0 s s2" using runs_trans [OF r1 callQueryOrder_runs [OF q]] by simp
  show ?thesis
  proof (cases "\<exists>state. q = Inr state \<and> (ce = None \<or> isTerminalOrderState state)")
    case True
    then obtain state where st: "q = Inr state" "ce = None \<or> isTerminalOrderState state" by blast
    define fs where "fs = forceCloseState order cr state now"
    obtain t s3 where t: "callQueryTrades rd (enrichOpenOrderFromState order fs) s2 = (t, s3)" by fastforce
    have r3: "runs st 0 s s3" using runs_trans [OF r2 callQueryTrades_runs [OF t]] by simp
    have f: "forceClose st rd order now s = (case t of Inl e \<Rightarrow> (0, Some (case ce of Some ce \<Rightarrow> ce | None \<Rightarrow> e), s3)
        | Inr trades \<Rightarrow> forceCloseWrite st order fs trades ce now s3)"
      using st t q by (auto simp: forceClose_def Some c s1_def [symmetric] fs_def Let_def split: sum.splits)
    show ?thesis
    proof (cases t)
      case (Inr trades)
      then have "forceCloseWrite st order fs trades ce now s3 = (w, e, s')" using f assms by simp
      then show ?thesis using runs_then [OF r3] forceCloseWrite_runs by blast
    qed (use f assms r3 in simp)
  next
    case False
    then show ?thesis using assms r2 q
      by (auto simp: forceClose_def Some c s1_def [symmetric] Let_def split: sum.splits)
  qed
qed

lemma resolveTerminal_runs:
  assumes "resolveTerminal st clock order tradeOrder state0 s = (w, e, s')" "oo_OrderID tradeOrder = oo_OrderID order"
  shows "runs st w s s'"
proof (cases "isTerminalOrderState state0")
  case True
  let ?state = "state0\<lparr>os_Status := terminalOrderStatus state0\<rparr>"
  obtain t where t: "t = (if is_zero (os_UpdatedAt ?state) then clock else os_UpdatedAt ?state)" by simp
  obtain e1 s1 where 1: "saveEvent st (terminalEvent tradeOrder ?state EventSourceRESTRecovery (os_Status ?state) t) s = (e1, s1)" by fastforce
  obtain r db where db: "ss_MarkRecoveryResolved st (oo_OrderID order) ?state (os_UpdatedAt ?state) (scn_db s1) = (r, db)" by fastforce
  note r1 = saveEvent_runs [OF 1]
  show ?thesis
  proof (cases e1)
    case None
    then have "terminal_saved s1 (oo_OrderID order)" using r1(2) assms(2) by (auto simp: terminal_saved_def)
    then have "runs st 0 s1 s'" "w = 1" using assms(1) True 1 db None t
      by (cases r; auto simp: resolveTerminal_def writeTerminalEvent_def Let_def runs_def
          intro!: r_into_rtranclp intro: scan_step.intros)+
    then show ?thesis using runs_trans [OF r1(1), of 0 s'] None by simp
  next
    case (Some x)
    then show ?thesis using assms(1) True 1 t r1(1)
      by (auto simp: resolveTerminal_def writeTerminalEvent_def Let_def)
  qed
next
  case False
  then show ?thesis using assms(1) by (simp add: resolveTerminal_def)
qed

lemma scanOrder_runs:
  assumes "scanOrder st rd cfg clock now order s = (w, e, s')"
  shows "runs st w s s'"
proof -
  consider (skip) "case scn_backoff s (oo_VenueID order) of None \<Rightarrow> False | Some until \<Rightarrow> now < until"
    | (close) "\<not> (case scn_backoff s (oo_VenueID order) of None \<Rightarrow> False | Some until \<Rightarrow> now < until)"
        "\<not> is_zero (orderRecoveryDeadline cfg order) \<and> orderRecoveryDeadline cfg order \<le> now"
    | (check) "\<not> (case scn_backoff s (oo_VenueID order) of None \<Rightarrow> False | Some until \<Rightarrow> now < until)"
        "\<not> (\<not> is_zero (orderRecoveryDeadline cfg order) \<and> orderRecoveryDeadline cfg order \<le> now)" by blast
  then show ?thesis
  proof cases
    case skip
    then show ?thesis using assms by (simp add: scanOrder_def)
  next
    case close
    obtain w1 e1 s1 where 1: "forceClose st rd order now s = (w1, e1, s1)" by (metis prod_cases3)
    have "w = w1" "s' = s1 \<or> s' = backoffVenue cfg (oo_VenueID order) now s1"
      using assms close 1 by (cases e1; simp add: scanOrder_def)+
    then show ?thesis using forceClose_runs [OF 1] runs_trans [OF forceClose_runs [OF 1] backoffVenue_runs] by auto
  next
    case check
    obtain q s1 where q: "callQueryOrder rd order s = (q, s1)" by fastforce
    note r1 = callQueryOrder_runs [OF q, of st]
    show ?thesis
    proof (cases q)
      case (Inl x)
      then show ?thesis using assms check q runs_trans [OF r1 backoffVenue_runs]
        by (auto simp: scanOrder_def)
    next
      case (Inr state0)
      define state where "state = enrichOrderStateFromOpenOrder order state0 now"
      define to where "to = enrichOpenOrderFromState order state"
      have toid: "oo_OrderID to = oo_OrderID order" by (simp add: to_def)
      have body: "scanOrder st rd cfg clock now order s = (if hasFillDelta state
         then (case callQueryTrades rd to s1 of
             (Inl e, s) \<Rightarrow> (0, None, backoffVenue cfg (oo_VenueID order) now s)
           | (Inr trades, s) \<Rightarrow>
               if \<not> hasCompleteFillDetails state trades then (0, None, s)
               else (case writeFillEvents st to state EventSourceRESTRecovery now trades 0 s of
                       (written, Some e, s) \<Rightarrow> (written, Some e, s)
                     | (written, None, s) \<Rightarrow>
                         (case resolveTerminal st clock order to state s of (w, e, s) \<Rightarrow> (written + w, e, s))))
         else resolveTerminal st clock order to state s1)"
        unfolding scanOrder_def using check q Inr by (simp only: if_False prod.case sum.case Let_def state_def to_def)
      obtain t s2 where t: "callQueryTrades rd to s1 = (t, s2)" by fastforce
      have r2: "runs st 0 s s2" using runs_trans [OF r1 callQueryTrades_runs [OF t]] by simp
      show ?thesis
      proof (cases "hasFillDelta state \<and> (\<exists>trades. t = Inr trades \<and> hasCompleteFillDetails state trades)")
        case True
        then obtain trades where tr: "hasFillDelta state" "t = Inr trades" "hasCompleteFillDetails state trades" by blast
        obtain w3 e3 s3 where 3: "writeFillEvents st to state EventSourceRESTRecovery now trades 0 s2 = (w3, e3, s3)" by (metis prod_cases3)
        have r3: "runs st w3 s s3" using runs_then [OF r2] writeFillEvents_runs [OF 3] by simp
        obtain w4 e4 s4 where 4: "resolveTerminal st clock order to state s3 = (w4, e4, s4)" by (metis prod_cases3)
        show ?thesis using assms tr t 3 4 r3 runs_trans [OF r3 resolveTerminal_runs [OF 4 toid]]
          unfolding body by (cases e3) auto
      next
        case False
        then show ?thesis using assms t r2 runs_trans [OF r2 backoffVenue_runs]
            resolveTerminal_runs [OF _ toid, of st clock state s1 w e s'] runs_trans [OF r1, of w s']
          unfolding body by (cases t) (auto split: if_splits)
      qed
    qed
  qed
qed

lemma scanOrders_runs:
  "scanOrders st rd cfg clock now orders w0 s = (w, e, s') \<Longrightarrow> w0 \<le> w \<and> runs st (w - w0) s s'"
proof (induction orders arbitrary: w0 s)
  case (Cons order orders)
  obtain w1 e1 s1 where 1: "scanOrder st rd cfg clock now order s = (w1, e1, s1)" by (metis prod_cases3)
  note r1 = scanOrder_runs [OF 1]
  show ?case
  proof (cases e1)
    case None
    then have "w0 + w1 \<le> w" "runs st (w - (w0 + w1)) s1 s'" using Cons 1 by auto
    then show ?thesis using runs_trans [OF r1, of "w - (w0 + w1)" s'] by simp
  next
    case (Some x)
    then show ?thesis using Cons.prems 1 r1 by auto
  qed
qed auto

lemma ScanOnce_runs:
  assumes "ScanOnce st rd cfg clock now s = (w, e, s')"
  shows "runs st w s s'"
proof -
  obtain r db where db: "ss_ListDueOpenOrders st (cfg_BatchSize cfg) (scn_db s) = (r, db)" by fastforce
  have r1: "runs st 0 s (s\<lparr>scn_db := db\<rparr>)"
    using db by (auto simp: runs_def intro!: r_into_rtranclp intro: scan_step.intros)
  show ?thesis
  proof (cases r)
    case (Inl x)
    then show ?thesis using assms db r1 by (simp add: ScanOnce_def)
  next
    case (Inr orders)
    then have "scanOrders st rd cfg clock now orders 0 (s\<lparr>scn_db := db\<rparr>) = (w, e, s')" using assms db by (simp add: ScanOnce_def)
    from scanOrders_runs [OF this] show ?thesis using runs_then [OF r1] by simp
  qed
qed

subsection \<open>What the scanner needs of its store\<close>

text \<open>
  The contract between scanner and store: an invariant every operation keeps, and a record of
  saved events no operation loses.  From it, for every scan: whatever was counted as written is
  in the log at the end, and no order leaves recovery without its terminal event in the log.
\<close>

locale recovery_store =
  fixes st :: "'db ScannerStore" and inv :: "'db \<Rightarrow> bool" and recorded_in :: "'db \<Rightarrow> Event \<Rightarrow> bool"
  assumes save_inv: "inv db \<Longrightarrow> inv (snd (ss_SaveLifecycleEvent st e db))"
    and list_inv: "inv db \<Longrightarrow> inv (snd (ss_ListDueOpenOrders st n db))"
    and expired_inv: "inv db \<Longrightarrow> inv (snd (ss_MarkRecoveryExpired st i t m db))"
    and resolved_inv: "inv db \<Longrightarrow> inv (snd (ss_MarkRecoveryResolved st i state t db))"
    and save_records: "inv db \<Longrightarrow> ss_SaveLifecycleEvent st e db = (Inr x, db') \<Longrightarrow> recorded_in db' e"
    and save_keeps: "inv db \<Longrightarrow> recorded_in db e \<Longrightarrow> recorded_in (snd (ss_SaveLifecycleEvent st f db)) e"
    and list_keeps: "recorded_in db e \<Longrightarrow> recorded_in (snd (ss_ListDueOpenOrders st n db)) e"
    and expired_keeps: "recorded_in db e \<Longrightarrow> recorded_in (snd (ss_MarkRecoveryExpired st i t m db)) e"
    and resolved_keeps: "recorded_in db e \<Longrightarrow> recorded_in (snd (ss_MarkRecoveryResolved st i state t db)) e"
begin

definition good :: "'db scan_state \<Rightarrow> bool" where
  "good s = (inv (scn_db s)
     \<and> (\<forall>e. Saved e \<in> set (scn_trace s) \<longrightarrow> recorded_in (scn_db s) e \<and> ValidateEventRouteFacts e = None)
     \<and> (\<forall>i x. Resolved i x \<in> set (scn_trace s) \<longrightarrow> terminal_saved s i)
     \<and> (\<forall>i. Expired i \<in> set (scn_trace s) \<longrightarrow> terminal_saved s i))"

lemma good_db:
  assumes "good s" "inv db" "\<And>e. recorded_in (scn_db s) e \<Longrightarrow> recorded_in db e"
  shows "good (s\<lparr>scn_db := db\<rparr>)"
  using assms by (simp add: good_def terminal_saved_def)

lemma good_traced:
  assumes "good s" "\<And>e. a = Saved e \<Longrightarrow> recorded_in (scn_db s) e \<and> ValidateEventRouteFacts e = None"
    "\<And>i x. a = Resolved i x \<Longrightarrow> terminal_saved s i" "\<And>i. a = Expired i \<Longrightarrow> terminal_saved s i"
  shows "good (traced a s)"
  using assms by (auto simp: good_def terminal_saved_def traced_def)

lemma step_good:
  assumes "scan_step st s s'" "good s" shows "good s'"
  using assms
proof (induction rule: scan_step.induct)
  case (asked a order s)
  then have "good (s\<lparr>scn_calls := Suc (scn_calls s)\<rparr>)" by (simp add: good_def terminal_saved_def)
  then show ?case using asked by (intro good_traced) auto
next
  case (backed_off s b)
  then show ?case by (simp add: good_def terminal_saved_def)
next
  case (listed n s r db)
  then show ?case using list_inv [of "scn_db s" n] list_keeps [of "scn_db s" _ n]
    by (intro good_db) (auto simp: good_def)
next
  case (not_saved event s e db)
  then show ?case using save_inv [of "scn_db s" event] save_keeps [of "scn_db s" _ event]
    by (intro good_db) (auto simp: good_def)
next
  case (saved event s x db)
  then have "good (s\<lparr>scn_db := db\<rparr>)" using save_inv [of "scn_db s" event] save_keeps [of "scn_db s" _ event]
    by (intro good_db) (auto simp: good_def)
  moreover have "recorded_in db event" using saved save_records by (auto simp: good_def)
  ultimately show ?case using saved by (intro good_traced) auto
next
  case (not_expired orderID t m s e db)
  then show ?case using expired_inv [of "scn_db s" orderID t m] expired_keeps [of "scn_db s" _ orderID t m]
    by (intro good_db) (auto simp: good_def)
next
  case (expired orderID t m s x db)
  then have "good (s\<lparr>scn_db := db\<rparr>)"
    using expired_inv [of "scn_db s" orderID t m] expired_keeps [of "scn_db s" _ orderID t m]
    by (intro good_db) (auto simp: good_def)
  then show ?case using expired by (intro good_traced) (auto simp: terminal_saved_def)
next
  case (not_resolved orderID state t s e db)
  then show ?case using resolved_inv [of "scn_db s" orderID state t] resolved_keeps [of "scn_db s" _ orderID state t]
    by (intro good_db) (auto simp: good_def)
next
  case (resolved orderID state t s x db status)
  then have "good (s\<lparr>scn_db := db\<rparr>)"
    using resolved_inv [of "scn_db s" orderID state t] resolved_keeps [of "scn_db s" _ orderID state t]
    by (intro good_db) (auto simp: good_def)
  then show ?case using resolved by (intro good_traced) (auto simp: terminal_saved_def)
qed

lemma steps_good: "scan_steps st s s' \<Longrightarrow> good s \<Longrightarrow> good s'"
  by (induction rule: rtranclp_induct) (auto intro: step_good)

lemma ScanOnce_good:
  "ScanOnce st rd cfg clock now s = (w, e, s') \<Longrightarrow> good s \<Longrightarrow> good s' \<and> saved_count s' = saved_count s + w"
  using ScanOnce_runs steps_good by (metis runs_def)

end

subsection \<open>The repository is such a store\<close>

definition timescaleStore :: "time \<Rightarrow> order_db ScannerStore" where
  "timescaleStore now = \<lparr>ss_SaveLifecycleEvent = SaveLifecycleEvent now,
     ss_ListDueOpenOrders = ListDueOpenOrders now,
     ss_MarkRecoveryExpired = MarkRecoveryExpired now,
     ss_MarkRecoveryResolved = MarkRecoveryResolved now\<rparr>"

definition tradeKey :: "string \<Rightarrow> string \<Rightarrow> string" where
  "tradeKey x y = ''trade|'' @ to_upper x @ CHR ''|'' # to_upper y"

text \<open>The identity column always agrees with the exchange identifiers of its row.\<close>

definition row_identity_ok :: "event_row \<Rightarrow> bool" where
  "row_identity_ok r = (case re_exchange_trade_id r of
     None \<Rightarrow> (\<forall>k. re_event_identity r = Some k \<longrightarrow> take 6 k = ''state|'')
   | Some y \<Rightarrow> (case re_exchange_order_id r of
       None \<Rightarrow> re_event_identity r = None
     | Some x \<Rightarrow> re_event_identity r = Some (tradeKey x y)))"

definition log_ok :: "order_db \<Rightarrow> bool" where
  "log_ok db = (db_ok db \<and> (\<forall>r\<in>set (db_events db). row_identity_ok r))"

definition recorded_event :: "time \<Rightarrow> order_db \<Rightarrow> Event \<Rightarrow> bool" where
  "recorded_event now db event = (let k = EventIdentityKey (normalized_event now event) in
     k \<noteq> [] \<longrightarrow> (\<exists>r\<in>set (db_events db). re_venue_id r = ev_VenueID event \<and> re_event_identity r = Some k))"

lemma event_row_identity_ok:
  "row_identity_ok (event_row_of (normalized_event now event) (EventIdentityKey (normalized_event now event)) eid t)"
proof -
  let ?N = "normalized_event now event" and ?K = "EventIdentityKey (normalized_event now event)"
  let ?x = "ev_ExchangeOrderID ?N" and ?y = "ev_ExchangeTradeID ?N"
  have tr: "trim_space ?x = ?x" "trim_space ?y = ?y" by (simp_all add: normalized_event_def)
  have x: "?x \<noteq> [] \<Longrightarrow> eventOrderRef ?N = ?x" using tr by (simp add: eventOrderRef_def)
  have y: "?y \<noteq> [] \<Longrightarrow> eventTradeRef ?N = ?y" using tr by (simp add: eventTradeRef_def)
  have y0: "eventTradeRef ?N = []" if "?y = []"
  proof -
    have "trim_space (firstNonEmptyString [ev_ExchangeTradeID event, fd_ExchangeTradeID (ev_FillDelta event)]) = []"
      using that by (simp add: normalized_event_def)
    then show ?thesis unfolding eventTradeRef_def firstNonEmptyString_blank using that
      by (intro firstNonEmpty_blank) (simp add: normalized_event_def)
  qed
  have k0: "?x = [] \<Longrightarrow> ?K = []" using identity_has_order [of now event] tr by auto
  have ktrade: "?x \<noteq> [] \<Longrightarrow> ?y \<noteq> [] \<Longrightarrow> ?K = tradeKey ?x ?y"
    using EventIdentityKey_trade [of ?N] x y by (simp add: hasTradeIdentity_def tradeKey_def)
  have kstate: "?y = [] \<Longrightarrow> ?K \<noteq> [] \<Longrightarrow> take 6 ?K = ''state|''"
    using EventIdentityKey_state_prefix [of ?N] y0 by (simp add: hasTradeIdentity_def)
  have blank: "trim_space (tradeKey ?x ?y) \<noteq> []" by (simp add: tradeKey_def trim_space_def is_space_def)
  show ?thesis
  proof (cases "?y = []")
    case True
    then show ?thesis using kstate
      by (cases "?K = []") (auto simp: row_identity_ok_def event_row_of_def nullableString_def tr)
  next
    case False
    then show ?thesis using k0 ktrade blank
      by (cases "?x = []") (auto simp: row_identity_ok_def event_row_of_def nullableString_def tr)
  qed
qed

lemma conflict_same_identity:
  assumes "row_identity_ok r" "row_identity_ok q" "conflict_row r rows = Some q"
  shows "re_event_identity q = re_event_identity r \<and> re_event_identity r \<noteq> None \<and> row_identity_ok (merge_event_row q r)
    \<and> re_venue_id q = re_venue_id r"
proof (cases "re_exchange_order_id r \<noteq> None \<and> re_exchange_trade_id r \<noteq> None")
  case True
  then have "same_trade r q" using assms(3) by (auto simp: conflict_row_def find_Some_iff)
  then show ?thesis using assms True
    by (auto simp: same_trade_def row_identity_ok_def merge_event_row_def)
next
  case False
  then have si: "same_identity r q" using assms(3) by (auto simp: conflict_row_def find_Some_iff split: if_splits)
  then have "re_exchange_trade_id r = None" using False assms(1)
    by (auto simp: same_identity_def row_identity_ok_def split: option.splits)
  moreover have "re_exchange_trade_id q = None"
    using si assms(1,2) calculation by (auto simp: same_identity_def row_identity_ok_def tradeKey_def split: option.splits)
  moreover obtain k where "re_event_identity r = Some k" "re_event_identity q = Some k"
    using si unfolding same_identity_def by (metis option.exhaust)
  ultimately show ?thesis using si assms(1) by (simp add: same_identity_def row_identity_ok_def merge_event_row_def)
qed

lemma upsert_event_cases:
  assumes "upsert_event_row n db = (r, db')"
  obtains (unchanged) "db_events db' = db_events db" "\<not> is_ok r"
    | (inserted) "db_events db' = db_events db @ [n]"
    | (merged) q where "conflict_row n (db_events db) = Some q"
       "db_events db' = map (\<lambda>x. if re_event_id x = re_event_id q then merge_event_row q n else x) (db_events db)"
proof (cases "conflict_row n (db_events db)")
  case None
  then show thesis using assms that(1,2) by (auto simp: upsert_event_row_def Let_def split: if_splits)
next
  case (Some q)
  then show thesis using assms that(1) that(3) [OF Some] by (auto simp: upsert_event_row_def Let_def split: if_splits)
qed

lemma insert_event_log:
  assumes "log_ok db" "insert_event now (normalized_event now event) db = (r, db')"
  shows "\<forall>q\<in>set (db_events db'). row_identity_ok q"
    "recorded_event now db e \<Longrightarrow> recorded_event now db' e"
    "is_ok r \<Longrightarrow> recorded_event now db' event"
proof -
  let ?N = "normalized_event now event"
  define n where "n = event_row_of ?N (EventIdentityKey ?N) (db_next_event_id db) now"
  have n: "row_identity_ok n" unfolding n_def by (rule event_row_identity_ok)
  have rows: "\<forall>q\<in>set (db_events db). row_identity_ok q" using assms(1) by (simp add: log_ok_def)
  have run: "upsert_event_row n db = (r, db')" using assms(2) by (simp add: insert_event_def n_def)
  have nk: "EventIdentityKey ?N \<noteq> [] \<Longrightarrow> re_event_identity n = Some (EventIdentityKey ?N)"
    using identity_not_blank [of ?N] by (auto simp: n_def event_row_of_def nullableString_def split: if_splits)
  have nv: "re_venue_id n = ev_VenueID event" by (simp add: n_def event_row_of_def normalized_event_def)
  from run have "(\<forall>q\<in>set (db_events db'). row_identity_ok q) \<and> (recorded_event now db e \<longrightarrow> recorded_event now db' e)
    \<and> (is_ok r \<longrightarrow> recorded_event now db' event)"
  proof (cases rule: upsert_event_cases)
    case unchanged
    then show ?thesis using rows by (simp add: recorded_event_def)
  next
    case inserted
    then show ?thesis using rows n nk nv by (auto simp: recorded_event_def Let_def)
  next
    case (merged q)
    note upd = this
    have q: "q \<in> set (db_events db)" using conflict_row_sound [OF upd(1)] by blast
    note c = conflict_same_identity [OF n _ upd(1)]
    let ?m = "merge_event_row q n"
    have cq: "re_event_identity q = re_event_identity n" "re_event_identity n \<noteq> None" "row_identity_ok ?m" "re_venue_id q = re_venue_id n"
      using c rows q by blast+
    have m: "re_event_identity ?m = re_event_identity n" "re_venue_id ?m = re_venue_id n"
      using cq by (auto simp: merge_event_row_def)
    have sub: "set (db_events db') \<subseteq> insert ?m (set (db_events db))" and mem: "?m \<in> set (db_events db')"
      using upd(2) q by auto
    have keep: "\<exists>z\<in>set (db_events db'). re_venue_id z = re_venue_id p \<and> re_event_identity z = re_event_identity p"
      if "p \<in> set (db_events db)" for p
    proof (cases "re_event_id p = re_event_id q")
      case True
      then have "p = q" using assms(1) that q
        by (metis db_ok_def distinct_map events_ok_def inj_onD log_ok_def)
      then show ?thesis using mem m cq by metis
    next
      case False
      then have "p \<in> set (db_events db')" using upd(2) that by force
      then show ?thesis by blast
    qed
    have "recorded_event now db e \<longrightarrow> recorded_event now db' e"
      unfolding recorded_event_def Let_def using keep by metis
    moreover have "recorded_event now db' event"
      unfolding recorded_event_def Let_def using mem m nk nv by metis
    moreover have "\<forall>q\<in>set (db_events db'). row_identity_ok q" using rows sub cq(3) by blast
    ultimately show ?thesis by blast
  qed
  then show "\<forall>q\<in>set (db_events db'). row_identity_ok q"
    "recorded_event now db e \<Longrightarrow> recorded_event now db' e"
    "is_ok r \<Longrightarrow> recorded_event now db' event" by blast+
qed

lemma recorded_event_events: "db_events db = db_events db' \<Longrightarrow> recorded_event now db e = recorded_event now db' e"
  by (simp add: recorded_event_def)

lemma stmt_events:
  assumes "\<And>d. R (db_events d) (db_events (snd (m d)))" "\<And>x. R x x"
  shows "R (db_events db) (db_events (snd (stmt m db)))"
proof -
  have "db_events (snd (next_fault db)) = db_events db" by (simp add: next_fault_def split: list.splits)
  then show ?thesis using assms
    by (cases "next_fault db"; cases "fst (next_fault db)") (auto simp: stmt_def, metis+)
qed

interpretation logged: db_invariant "\<lambda>db. log_ok db \<and> (P \<longrightarrow> recorded_event now db e)" for P now e
proof
  show "(log_ok (db\<lparr>db_faults := fs\<rparr>) \<and> (P \<longrightarrow> recorded_event now (db\<lparr>db_faults := fs\<rparr>) e))
     \<longleftrightarrow> (log_ok db \<and> (P \<longrightarrow> recorded_event now db e))" for db fs
    by (simp add: log_ok_def recorded_event_def integrity.faults_irrelevant)
qed

lemma logged_of_integrity:
  assumes "integrity.preserves m" "\<And>db. db_events (snd (m db)) = db_events db"
  shows "logged.preserves P now e m"
proof (rule logged.preservesI)
  fix db
  assume "log_ok db \<and> (P \<longrightarrow> recorded_event now db e)"
  moreover from this have "db_ok (snd (m db))" using assms(1) integrity.preservesD by (auto simp: log_ok_def)
  ultimately show "log_ok (snd (m db)) \<and> (P \<longrightarrow> recorded_event now (snd (m db)) e)"
    using recorded_event_events [OF assms(2) [of db]] by (simp add: log_ok_def assms(2))
qed

lemma insert_event_logged: "logged.preserves P now e (insert_event now (normalized_event now event))"
proof (rule logged.preservesI)
  fix db
  assume a: "log_ok db \<and> (P \<longrightarrow> recorded_event now db e)"
  obtain r db' where r: "insert_event now (normalized_event now event) db = (r, db')" by fastforce
  have "db_ok db'" using a integrity.preservesD [OF insert_event_ok, of db now "normalized_event now event"] r
    by (simp add: log_ok_def)
  then show "log_ok (snd (insert_event now (normalized_event now event) db))
     \<and> (P \<longrightarrow> recorded_event now (snd (insert_event now (normalized_event now event) db)) e)"
    using insert_event_log [OF _ r] a r by (simp add: log_ok_def)
qed

lemma backfill_logged: "logged.preserves P now e (backfillOrderFillFromLifecycleEvent t event)"
  by (intro logged_of_integrity backfill_ok) (rule frame_eqD(2) [OF backfill_frame])

lemma SaveLifecycleEvent_logged: "logged.preserves P now e (SaveLifecycleEvent now event)"
proof (rule logged.preservesI)
  fix db
  assume ok: "log_ok db \<and> (P \<longrightarrow> recorded_event now db e)"
  have "logged.preserves P now e (then_db (wrap_db m (stmt (insert_event now (normalized_event now event))))
      (\<lambda>(eid, created). let saved = g eid created
         in then_db (backfillOrderFillFromLifecycleEvent now saved) (\<lambda>_ db. (Inr saved, db))))"
    for m and g :: "int \<Rightarrow> time \<Rightarrow> Event"
    by (auto simp: Let_def split: prod.splits
        intro!: logged.preserves_rules insert_event_logged backfill_logged)
  note P = logged.preservesD [OF this ok]
  show "log_ok (snd (SaveLifecycleEvent now event db)) \<and> (P \<longrightarrow> recorded_event now (snd (SaveLifecycleEvent now event db)) e)"
    using ok P by (auto simp: SaveLifecycleEvent_def Let_def split: option.splits)
qed

lemma update_order_rows_events: "db_events (snd (update_order_rows i f db)) = db_events db"
  by (simp add: update_order_rows_def)

lemma then_events:
  assumes "\<And>db. db_events (snd (m db)) = db_events db" "\<And>x db. db_events (snd (f x db)) = db_events db"
  shows "db_events (snd (then_db m f db)) = db_events db"
  using assms(1) [of db] assms(2) by (auto simp: then_db_def split: prod.splits sum.splits)

lemma mark_events:
  "db_events (snd (then_db (wrap_db msg (stmt (update_order_rows i f))) not_found_if_zero db)) = db_events db"
proof (rule then_events)
  show "db_events (snd (wrap_db msg (stmt (update_order_rows i f)) db)) = db_events db" for db
    using stmt_events [of "\<lambda>x y. y = x" "update_order_rows i f" db] by (simp add: snd_wrap_db update_order_rows_events)
qed (simp add: not_found_if_zero_def)

lemma MarkRecoveryExpired_events: "db_events (snd (MarkRecoveryExpired now i t m db)) = db_events db"
  by (simp add: MarkRecoveryExpired_def Let_def mark_events)

lemma MarkRecoveryResolved_events: "db_events (snd (MarkRecoveryResolved now i state t db)) = db_events db"
  by (simp add: MarkRecoveryResolved_def Let_def mark_events)

lemma SaveLifecycleEvent_records:
  assumes "log_ok db" "SaveLifecycleEvent now event db = (Inr x, db')"
  shows "recorded_event now db' event"
proof -
  from SaveLifecycleEvent_Inr [OF assms(2)] obtain d d' created where
    "tables d = tables db" "frame db' = frame d'"
    "insert_event now (normalized_event now event) d = (Inr (ev_EventID x, created), d')" by metis
  moreover from this(1) have "log_ok d" using assms(1)
    by (metis integrity.faults_irrelevant log_ok_def tables_def tables_eqD(5))
  ultimately show ?thesis
    using insert_event_log(3) [of d now event "Inr (ev_EventID x, created)" d'] recorded_event_events [OF frame_eqD(2), of db' d' now event]
    by simp
qed

lemma query_events: "db_events (snd (wrap_db msg (query g) db)) = db_events db"
  using stmt_events [of "\<lambda>x y. y = x" "\<lambda>db. (Inr (g db), db)" db] by (simp add: snd_wrap_db query_def)

interpretation timescale: recovery_store "timescaleStore now" log_ok "recorded_event now" for now
proof
  fix db e f i t m state n x db'
  show "log_ok db \<Longrightarrow> log_ok (snd (ss_SaveLifecycleEvent (timescaleStore now) e db))"
    using logged.preservesD [OF SaveLifecycleEvent_logged [of False]] by (simp add: timescaleStore_def)
  show "log_ok db \<Longrightarrow> log_ok (snd (ss_ListDueOpenOrders (timescaleStore now) n db))"
    using logged.preservesD [OF logged.wrap_preserves [OF logged.query_preserves], where P = False]
    by (simp add: timescaleStore_def ListDueOpenOrders_def listOpenOrders_def)
  show "log_ok db \<Longrightarrow> log_ok (snd (ss_MarkRecoveryExpired (timescaleStore now) i t m db))"
    using integrity.preservesD [OF MarkRecoveryExpired_ok]
    by (simp add: timescaleStore_def log_ok_def MarkRecoveryExpired_events)
  show "log_ok db \<Longrightarrow> log_ok (snd (ss_MarkRecoveryResolved (timescaleStore now) i state t db))"
    using integrity.preservesD [OF MarkRecoveryResolved_ok]
    by (simp add: timescaleStore_def log_ok_def MarkRecoveryResolved_events)
  show "log_ok db \<Longrightarrow> ss_SaveLifecycleEvent (timescaleStore now) e db = (Inr x, db') \<Longrightarrow> recorded_event now db' e"
    using SaveLifecycleEvent_records by (simp add: timescaleStore_def)
  show "log_ok db \<Longrightarrow> recorded_event now db e \<Longrightarrow> recorded_event now (snd (ss_SaveLifecycleEvent (timescaleStore now) f db)) e"
    using logged.preservesD [OF SaveLifecycleEvent_logged [of True]] by (simp add: timescaleStore_def)
  show "recorded_event now db e \<Longrightarrow> recorded_event now (snd (ss_ListDueOpenOrders (timescaleStore now) n db)) e"
    by (simp add: timescaleStore_def ListDueOpenOrders_def listOpenOrders_def recorded_event_def query_events)
  show "recorded_event now db e \<Longrightarrow> recorded_event now (snd (ss_MarkRecoveryExpired (timescaleStore now) i t m db)) e"
    by (simp add: timescaleStore_def recorded_event_def MarkRecoveryExpired_events)
  show "recorded_event now db e \<Longrightarrow> recorded_event now (snd (ss_MarkRecoveryResolved (timescaleStore now) i state t db)) e"
    by (simp add: timescaleStore_def recorded_event_def MarkRecoveryResolved_events)
qed

end
