(* ===== verification/User_Data.thy ===== *)
theory User_Data
  imports Executor Scanner "HOL-Library.Multiset"
begin

text \<open>
  Models \<^verbatim>\<open>internal/order/lifecycle/user_data_ingestor.go\<close> and \<^verbatim>\<open>ingestor.go\<close>, which turn the
  pushes of an exchange's user data stream into lifecycle events, and
  \<^verbatim>\<open>internal/order/executor/user_data_stream_manager.go\<close>, which keeps one stream per route.

  The manager is shared by the goroutine that synchronises and by one goroutine per stream.  Its map
  of active streams is a set of keys; the running goroutines are a multiset of keys, and the step
  relation \<open>manager_step\<close> interleaves the operations the mutex makes atomic.
\<close>

subsection \<open>Ingestion\<close>

record 'db IngestStore =
  is_SaveLifecycleEvent :: "Event \<Rightarrow> 'db \<Rightarrow> Event result \<times> 'db"
  is_ResolveOpenOrderByExchangeRef :: "int \<Rightarrow> string \<Rightarrow> string \<Rightarrow> 'db \<Rightarrow> OpenOrder result \<times> 'db"

definition Ingestor_Ingest :: "'db IngestStore \<Rightarrow> Event \<Rightarrow> 'db \<Rightarrow> Event result \<times> 'db" where
  "Ingestor_Ingest st event db = (case is_SaveLifecycleEvent st event db of
     (Inl err, db') \<Rightarrow> (Inl err, db') | (Inr saved, db') \<Rightarrow> (Inr saved, db'))"

definition isTerminalUserDataStatus :: "string \<Rightarrow> bool" where
  "isTerminalUserDataStatus status = (status \<in> {''FILLED'', ''CANCELED'', ''EXPIRED'', ''REJECTED''})"

definition userDataEvent :: "OpenOrder \<Rightarrow> UserDataOrderEvent \<Rightarrow> time \<Rightarrow> Event" where
  "userDataEvent order event now =
     (let execType = norm_sym (ud_ExecutionType event); status = norm_sym (ud_OrderStatus event);
          occurredAt = (if is_zero (ud_EventTime event) then now else ud_EventTime event);
          exchangeOrderID = firstNonEmpty [ud_ExchangeOrderID event, oo_ExchangeOrderID order];
          symbol = firstNonEmpty [ud_Symbol event, oo_Symbol order];
          lifecycleEvent = zero_Event\<lparr>ev_SessionID := oo_SessionID order, ev_AccountID := oo_AccountID order,
            ev_VenueID := oo_VenueID order, ev_Environment := oo_Environment order,
            ev_Exchange := oo_Exchange order, ev_Market := oo_Market order,
            ev_PositionSide := oo_PositionSide order, ev_Side := firstNonEmpty [ud_Side event, oo_Side order],
            ev_IntentID := oo_IntentID order, ev_AttemptID := oo_AttemptID order,
            ev_OrderID := oo_OrderID order, ev_ExchangeOrderID := exchangeOrderID,
            ev_ExchangeTradeID := ud_ExchangeTradeID event, ev_EventSource := EventSourceWebsocket,
            ev_OrderStatus := status,
            ev_OrderState := zero_OrderState\<lparr>os_ExchangeOrderID := exchangeOrderID,
              os_ClientOrderID := firstNonEmpty [ud_ClientOrderID event, oo_ClientOrderID order],
              os_Symbol := symbol, os_Status := status, os_ExecutedQty := ud_AccumulatedFilledQty event,
              os_AvgPrice := ud_LastFilledPrice event, os_UpdatedAt := occurredAt\<rparr>,
            ev_OccurredAt := occurredAt\<rparr>
      in if execType = ''TRADE'' \<and> 0 < ud_LastFilledQty event
         then lifecycleEvent\<lparr>ev_EventType := ''fill'',
           ev_FillDelta := zero_FillDelta\<lparr>fd_ExchangeTradeID := ud_ExchangeTradeID event,
             fd_ExchangeOrderID := exchangeOrderID, fd_Symbol := symbol, fd_Qty := ud_LastFilledQty event,
             fd_FillPrice := ud_LastFilledPrice event, fd_Fee := ud_Fee event,
             fd_FeeAsset := ud_FeeAsset event, fd_TradeTime := occurredAt\<rparr>\<rparr>
         else lifecycleEvent\<lparr>ev_EventType := ''terminal''\<rparr>)"

definition UserDataIngestor_Ingest :: "'db IngestStore \<Rightarrow> time \<Rightarrow> int \<Rightarrow> UserDataOrderEvent \<Rightarrow> 'db \<Rightarrow> error option \<times> 'db" where
  "UserDataIngestor_Ingest st now venueID event db =
     (let execType = norm_sym (ud_ExecutionType event); status = norm_sym (ud_OrderStatus event) in
      if execType \<noteq> ''TRADE'' \<and> \<not> isTerminalUserDataStatus status then (None, db)
      else case is_ResolveOpenOrderByExchangeRef st venueID (ud_ExchangeOrderID event) (ud_ClientOrderID event) db of
        (Inl err, db1) \<Rightarrow> (Some err, db1)
      | (Inr order, db1) \<Rightarrow>
          let lifecycleEvent = userDataEvent order event now in
          (case ValidateEventRouteFacts lifecycleEvent of
             Some err \<Rightarrow> (Some err, db1)
           | None \<Rightarrow> (case is_SaveLifecycleEvent st lifecycleEvent db1 of
               (Inl err, db2) \<Rightarrow> (Some err, db2) | (Inr _, db2) \<Rightarrow> (None, db2))))"

definition timescaleIngestStore :: "time \<Rightarrow> order_db IngestStore" where
  "timescaleIngestStore now = \<lparr>is_SaveLifecycleEvent = SaveLifecycleEvent now,
     is_ResolveOpenOrderByExchangeRef = ResolveOpenOrderByExchangeRef\<rparr>"

subsection \<open>The stream manager\<close>

record userDataStreamKey =
  uk_accountID :: int
  uk_venueID :: int
  uk_exchange :: int
  uk_environment :: int
  uk_market :: int

definition userDataStreamKeyFromOrder :: "OpenOrder \<Rightarrow> userDataStreamKey" where
  "userDataStreamKeyFromOrder order = \<lparr>uk_accountID = oo_AccountID order, uk_venueID = oo_VenueID order,
     uk_exchange = oo_Exchange order, uk_environment = oo_Environment order, uk_market = oo_Market order\<rparr>"

definition streamKeyValid :: "userDataStreamKey \<Rightarrow> bool" where
  "streamKeyValid k = (0 < uk_accountID k \<and> 0 < uk_venueID k \<and> uk_exchange k \<noteq> 0
     \<and> uk_environment k \<noteq> EnvironmentBacktest \<and> uk_market k \<noteq> 0)"

definition isUserDataStreamUnsupported :: "error \<Rightarrow> bool" where
  "isUserDataStreamUnsupported err =
     (errors_is err CodeRouteUnsupported \<or> errors_is err CodeCapabilityUnsupported)"

primrec firstPositiveInt64 :: "int list \<Rightarrow> int" where
  "firstPositiveInt64 [] = 0"
| "firstPositiveInt64 (v # vs) = (if 0 < v then v else firstPositiveInt64 vs)"

definition resolveStream :: "(int \<Rightarrow> int \<Rightarrow> int \<Rightarrow> Meta result) \<Rightarrow> (Route \<Rightarrow> Meta \<Rightarrow> unit result) \<Rightarrow>
    (Route \<Rightarrow> unit result) \<Rightarrow> OpenOrder \<Rightarrow> int result" where
  "resolveStream getMeta validate streamOf order =
     bind_result (getMeta (oo_AccountID order) (oo_Exchange order) (oo_Market order)) (\<lambda>meta.
       let route = routeFromMeta meta in
       bind_result (parseCredential validate route meta) (\<lambda>_.
       bind_result (streamOf route) (\<lambda>_.
         Inr (firstPositiveInt64 [me_VenueID meta, oo_VenueID order]))))"

record manager_state =
  ms_active :: "userDataStreamKey set"
  ms_running :: "userDataStreamKey multiset"

definition isActive :: "userDataStreamKey \<Rightarrow> manager_state \<Rightarrow> bool" where
  "isActive key m = (key \<in> ms_active m)"

definition markActive :: "userDataStreamKey \<Rightarrow> manager_state \<Rightarrow> bool \<times> manager_state" where
  "markActive key m = (if key \<in> ms_active m then (False, m)
     else (True, m\<lparr>ms_active := insert key (ms_active m)\<rparr>))"

definition clearActive :: "userDataStreamKey \<Rightarrow> manager_state \<Rightarrow> manager_state" where
  "clearActive key m = m\<lparr>ms_active := ms_active m - {key}\<rparr>"

definition startStream :: "userDataStreamKey \<Rightarrow> manager_state \<Rightarrow> bool \<times> manager_state" where
  "startStream key m = (case markActive key m of
     (False, m') \<Rightarrow> (False, m')
   | (True, m') \<Rightarrow> (True, m'\<lparr>ms_running := add_mset key (ms_running m')\<rparr>))"

definition endStream :: "userDataStreamKey \<Rightarrow> manager_state \<Rightarrow> manager_state" where
  "endStream key m = clearActive key (m\<lparr>ms_running := ms_running m - {#key#}\<rparr>)"

fun syncOrders :: "(OpenOrder \<Rightarrow> int result) \<Rightarrow> OpenOrder list \<Rightarrow> nat \<Rightarrow> error option \<Rightarrow> manager_state \<Rightarrow>
    nat \<times> error option \<times> manager_state" where
  "syncOrders resolve [] started lastErr m = (started, lastErr, m)"
| "syncOrders resolve (order # orders) started lastErr m =
     (let key = userDataStreamKeyFromOrder order in
      if \<not> streamKeyValid key \<or> isActive key m then syncOrders resolve orders started lastErr m
      else case resolve order of
        Inl err \<Rightarrow> syncOrders resolve orders started (if isUserDataStreamUnsupported err then lastErr else Some err) m
      | Inr req \<Rightarrow> (case startStream key m of
          (False, m') \<Rightarrow> syncOrders resolve orders started lastErr m'
        | (True, m') \<Rightarrow> syncOrders resolve orders (Suc started) lastErr m'))"

text \<open>
  One synchronisation, from the listing to the last order, as one sequential run: a stream that ends while SyncOnce goes over the
  orders is not interleaved with it.  The step relation below leaves starts and ends of streams in any order.
\<close>

definition SyncOnce :: "(int \<Rightarrow> 'db \<Rightarrow> OpenOrder list result \<times> 'db) \<Rightarrow> (OpenOrder \<Rightarrow> int result) \<Rightarrow> int \<Rightarrow>
    'db \<Rightarrow> manager_state \<Rightarrow> (nat \<times> error option \<times> manager_state) \<times> 'db" where
  "SyncOnce listOpen resolve batchSize db m = (case listOpen batchSize db of
     (Inl err, db') \<Rightarrow> ((0, Some err, m), db')
   | (Inr orders, db') \<Rightarrow> (syncOrders resolve orders 0 None m, db'))"

definition handleUserData :: "'db IngestStore \<Rightarrow> time \<Rightarrow> int \<Rightarrow> UserDataOrderEvent \<Rightarrow> 'db \<Rightarrow> error option \<times> 'db" where
  "handleUserData st now venueID event db = (case UserDataIngestor_Ingest st now venueID event db of
     (Some err, db') \<Rightarrow> (if errors_is err ''open order not found'' then (None, db') else (Some err, db'))
   | (None, db') \<Rightarrow> (None, db'))"

subsection \<open>One stream per route\<close>

inductive manager_step :: "manager_state \<Rightarrow> manager_state \<Rightarrow> bool" where
  start: "streamKeyValid key \<Longrightarrow> manager_step m (snd (startStream key m))"
| finish: "key \<in># ms_running m \<Longrightarrow> manager_step m (endStream key m)"

inductive_cases manager_stepE: "manager_step m m'"

definition one_each :: "manager_state \<Rightarrow> bool" where
  "one_each m = ((\<forall>key. count (ms_running m) key = (if key \<in> ms_active m then 1 else 0))
     \<and> (\<forall>key\<in>ms_active m. streamKeyValid key))"

definition no_streams :: manager_state where
  "no_streams = \<lparr>ms_active = {}, ms_running = {#}\<rparr>"

lemma manager_step_one_each: "manager_step m m' \<Longrightarrow> one_each m \<Longrightarrow> one_each m'"
proof (induction rule: manager_step.induct)
  case (start key m)
  then show ?case by (auto simp: startStream_def markActive_def one_each_def split: if_splits)
next
  case (finish key m)
  then have "key \<in> ms_active m" by (auto simp: one_each_def split: if_splits dest: spec [of _ key])
  then show ?case using finish by (auto simp: endStream_def clearActive_def one_each_def)
qed

lemma manager_steps_one_each: "manager_step\<^sup>*\<^sup>* m m' \<Longrightarrow> one_each m \<Longrightarrow> one_each m'"
  by (induction rule: rtranclp_induct) (blast intro: manager_step_one_each)+

lemma reachable_one_each: "manager_step\<^sup>*\<^sup>* no_streams m \<Longrightarrow> one_each m"
  by (erule manager_steps_one_each) (simp add: one_each_def no_streams_def)

lemma startStream_fresh:
  "key \<notin> ms_active m \<Longrightarrow> startStream key m =
     (True, m\<lparr>ms_active := insert key (ms_active m), ms_running := add_mset key (ms_running m)\<rparr>)"
  by (simp add: startStream_def markActive_def)

lemma syncOrders_cases:
  assumes "syncOrders resolve (order # orders) n e m = (n', e', m')"
  obtains (skip) f where "syncOrders resolve orders n f m = (n', e', m')"
      "streamKeyValid (userDataStreamKeyFromOrder order) \<Longrightarrow> is_ok (resolve order) \<Longrightarrow>
         userDataStreamKeyFromOrder order \<in> ms_active m"
    | (started) m1 where "streamKeyValid (userDataStreamKeyFromOrder order)"
      "userDataStreamKeyFromOrder order \<notin> ms_active m"
      "startStream (userDataStreamKeyFromOrder order) m = (True, m1)"
      "ms_active m1 = insert (userDataStreamKeyFromOrder order) (ms_active m)"
      "syncOrders resolve orders (Suc n) e m1 = (n', e', m')"
proof -
  let ?key = "userDataStreamKeyFromOrder order"
  show thesis
  proof (cases "streamKeyValid ?key \<and> ?key \<notin> ms_active m")
    case False
    then show thesis using assms that(1) by (auto simp: Let_def isActive_def)
  next
    case True
    then show thesis
      using assms that startStream_fresh [of ?key m] by (cases "resolve order") (auto simp: Let_def isActive_def)
  qed
qed

lemma syncOrders_steps:
  assumes "syncOrders resolve orders n e m = (n', e', m')" "finite (ms_active m)"
  shows "manager_step\<^sup>*\<^sup>* m m' \<and> n \<le> n' \<and> n' \<le> n + length orders
    \<and> card (ms_active m') = card (ms_active m) + (n' - n) \<and> ms_active m \<subseteq> ms_active m'"
  using assms
proof (induction orders arbitrary: n e m)
  case (Cons order orders)
  from Cons.prems(1) show ?case
  proof (cases rule: syncOrders_cases)
    case (skip f)
    then show ?thesis using Cons.IH [OF skip(1) Cons.prems(2)] by auto
  next
    case (started m1)
    have "manager_step m m1" using manager_step.start [OF started(1), of m] started(3) by simp
    moreover have "finite (ms_active m1)" using started(4) Cons.prems(2) by simp
    note IH = Cons.IH [OF started(5) this]
    ultimately show ?thesis using IH started(2,4) Cons.prems(2)
      by (auto intro: converse_rtranclp_into_rtranclp)
  qed
qed simp

lemma syncOrders_covers:
  assumes "syncOrders resolve orders n e m = (n', e', m')" "finite (ms_active m)" "order \<in> set orders"
    "streamKeyValid (userDataStreamKeyFromOrder order)" "resolve order = Inr r"
  shows "userDataStreamKeyFromOrder order \<in> ms_active m'"
  using assms(1-3)
proof (induction orders arbitrary: n e m)
  case (Cons o' orders)
  from Cons.prems(1) show ?case
  proof (cases rule: syncOrders_cases)
    case (skip f)
    then show ?thesis
      using Cons.IH [OF skip(1) Cons.prems(2)] syncOrders_steps [OF skip(1) Cons.prems(2)] Cons.prems(3) assms(4,5)
      by auto
  next
    case (started m1)
    have fin: "finite (ms_active m1)" using started(4) Cons.prems(2) by simp
    then show ?thesis
      using Cons.IH [OF started(5) fin] syncOrders_steps [OF started(5) fin] Cons.prems(3) started(4) by auto
  qed
qed simp

lemma one_each_finite: "one_each m \<Longrightarrow> finite (ms_active m)"
proof -
  assume "one_each m"
  then have "ms_active m \<subseteq> set_mset (ms_running m)"
    by (auto simp: one_each_def set_mset_def)
  then show ?thesis using finite_set_mset finite_subset by blast
qed

subsection \<open>What an ingested push leaves behind\<close>

definition relevant_push :: "UserDataOrderEvent \<Rightarrow> bool" where
  "relevant_push event = (norm_sym (ud_ExecutionType event) = ''TRADE''
     \<or> isTerminalUserDataStatus (norm_sym (ud_OrderStatus event)))"

locale ingest_store =
  fixes st :: "'db IngestStore" and inv :: "'db \<Rightarrow> bool" and recorded_in :: "'db \<Rightarrow> Event \<Rightarrow> bool"
  assumes save_inv: "inv db \<Longrightarrow> inv (snd (is_SaveLifecycleEvent st e db))"
    and lookup_inv: "inv db \<Longrightarrow> inv (snd (is_ResolveOpenOrderByExchangeRef st v x c db))"
    and save_records: "inv db \<Longrightarrow> is_SaveLifecycleEvent st e db = (Inr saved, db') \<Longrightarrow> recorded_in db' e"
begin

lemma ingest_inv: "inv db \<Longrightarrow> inv (snd (handleUserData st now venueID event db))"
  using lookup_inv [of db venueID "ud_ExchangeOrderID event" "ud_ClientOrderID event"] save_inv
  by (auto simp: handleUserData_def UserDataIngestor_Ingest_def Let_def
      split: prod.splits sum.splits option.splits if_splits) (metis snd_conv)+

lemma ingest_irrelevant:
  "\<not> relevant_push event \<Longrightarrow> UserDataIngestor_Ingest st now venueID event db = (None, db)"
  by (simp add: relevant_push_def UserDataIngestor_Ingest_def Let_def)

lemma ingest_records:
  assumes "inv db" "relevant_push event" "UserDataIngestor_Ingest st now venueID event db = (None, db')"
  obtains order where "fst (is_ResolveOpenOrderByExchangeRef st venueID (ud_ExchangeOrderID event)
      (ud_ClientOrderID event) db) = Inr order"
    "ValidateEventRouteFacts (userDataEvent order event now) = None"
    "recorded_in db' (userDataEvent order event now)"
proof -
  let ?look = "is_ResolveOpenOrderByExchangeRef st venueID (ud_ExchangeOrderID event) (ud_ClientOrderID event) db"
  obtain r db1 where look: "?look = (r, db1)" by fastforce
  then have inv1: "inv db1" using lookup_inv [OF assms(1)] by (metis snd_conv)
  obtain order where r: "r = Inr order"
    using assms(2,3) look by (cases r) (auto simp: relevant_push_def UserDataIngestor_Ingest_def Let_def)
  then have v: "ValidateEventRouteFacts (userDataEvent order event now) = None"
    using assms(2,3) look
    by (auto simp: relevant_push_def UserDataIngestor_Ingest_def Let_def split: option.splits)
  then obtain x where "is_SaveLifecycleEvent st (userDataEvent order event now) db1 = (Inr x, db')"
    using assms(2,3) look r
    by (auto simp: relevant_push_def UserDataIngestor_Ingest_def Let_def split: prod.splits sum.splits)
  then have "recorded_in db' (userDataEvent order event now)" by (rule save_records [OF inv1])
  with that look r v show thesis by simp
qed

end

definition open_ref_rows :: "int \<Rightarrow> string \<Rightarrow> string \<Rightarrow> order_db \<Rightarrow> (order_row \<times> intent_row \<times> attempt_row) list" where
  "open_ref_rows venueID exchangeOrderID clientOrderID db =
     sort_key open_order_key (filter (\<lambda>(o', i, a). is_open_row o' \<and> ri_venue_id i = venueID
       \<and> ((exchangeOrderID \<noteq> [] \<and> coalesce_str (ro_exchange_order_id o') = exchangeOrderID)
          \<or> (clientOrderID \<noteq> [] \<and> effective_client_id o' a = clientOrderID))) (join_order db))"

lemma Resolve_reads:
  "snd (ResolveOpenOrderByExchangeRef v x c db) =
     (if v \<le> 0 \<or> (trim_space x = [] \<and> trim_space c = []) then db
      else snd (wrap_db ''resolve open order by exchange ref: '' (query (open_ref_rows v (trim_space x) (trim_space c))) db))"
  by (auto simp: ResolveOpenOrderByExchangeRef_def Let_def open_ref_rows_def [abs_def]
      split: prod.splits sum.splits list.splits)

lemma Resolve_same_events:
  "db_events (snd (ResolveOpenOrderByExchangeRef v x c db)) = db_events db"
  by (simp add: Resolve_reads query_events)

lemma Resolve_log_ok:
  assumes "log_ok db"
  shows "log_ok (snd (ResolveOpenOrderByExchangeRef v x c db))"
proof -
  have "db_ok (snd (wrap_db m (query (open_ref_rows a b d)) db))" for m a b d
    using assms integrity.preservesD [OF integrity.wrap_preserves [OF integrity.query_preserves]]
    by (auto simp: log_ok_def)
  then have "db_ok (snd (ResolveOpenOrderByExchangeRef v x c db))"
    using assms by (simp add: Resolve_reads log_ok_def)
  then show ?thesis using assms by (simp add: log_ok_def Resolve_same_events)
qed

interpretation stream: ingest_store "timescaleIngestStore now" log_ok "recorded_event now" for now
proof
  show "log_ok db \<Longrightarrow> log_ok (snd (is_SaveLifecycleEvent (timescaleIngestStore now) e db))" for db e
    using logged.preservesD [OF SaveLifecycleEvent_logged [of False]] by (simp add: timescaleIngestStore_def)
  show "log_ok db \<Longrightarrow> log_ok (snd (is_ResolveOpenOrderByExchangeRef (timescaleIngestStore now) v x c db))" for db v x c
    using Resolve_log_ok by (simp add: timescaleIngestStore_def)
  show "log_ok db \<Longrightarrow> is_SaveLifecycleEvent (timescaleIngestStore now) e db = (Inr x, db') \<Longrightarrow> recorded_event now db' e"
    for db e x db' using SaveLifecycleEvent_records by (simp add: timescaleIngestStore_def)
qed

end
