(* ===== verification/Order_Service.thy ===== *)
theory Order_Service
  imports Risk_Facts User_Data
begin

text \<open>
  Models \<^verbatim>\<open>internal/order/service/grpc.go\<close>: the order service that places orders, records what
  it asked of the exchange and what came back, and resolves attempts whose outcome is unknown.

  The collaborators of the service are the fields of \<open>OrderService\<close>: the account metadata, the
  exchange router (whose answers may depend on when they are asked for, hence the tick), the risk
  gate, the clock and the generator of identifiers.  The state is the order store, the tick, which
  every reading of the clock and every new identifier advances, and the trace of what the service
  did: the statements that succeeded, the reviews, the calls to the exchange and the notifications.
  Log lines are left out.  Protobuf messages are the records of their fields, and the entries of a
  response are the repository records they are copied from.
\<close>

subsection \<open>Requests and responses\<close>

record Timestamp =
  ts_Seconds :: int
  ts_Nanos :: int

definition AsTime :: "Timestamp \<Rightarrow> time" where
  "AsTime t = (ts_Seconds t + 62135596800) * 1000000000 + ts_Nanos t"

definition CheckValid :: "Timestamp \<Rightarrow> bool" where
  "CheckValid t = (- 62135596800 \<le> ts_Seconds t \<and> ts_Seconds t \<le> 253402300799
     \<and> 0 \<le> ts_Nanos t \<and> ts_Nanos t < 1000000000)"

record PlaceOrderRequest =
  pr_AccountId :: int
  pr_Symbol :: string
  pr_Side :: string
  pr_Qty :: float64
  pr_Price :: "float64 option"
  pr_MarkPrice :: float64
  pr_StrategyId :: int
  pr_SessionId :: string
  pr_IntentId :: string
  pr_Exchange :: int
  pr_Market :: int
  pr_PositionSide :: int
  pr_MarketTime :: "Timestamp option"
  pr_OrderType :: string
  pr_TimeInForce :: string
  pr_PostOnly :: bool
  pr_GoodTillDate :: "Timestamp option"
  pr_ReduceOnly :: bool

record PlaceOrderResponse =
  ps_IntentId :: string
  ps_AttemptId :: string
  ps_AttemptStatus :: string
  ps_ErrorMessage :: string
  ps_ClientOrderId :: string
  ps_Order :: "Order option"
  ps_FillDeltas :: "OrderFill list"

record ResolveRequest =
  rs_AccountId :: int
  rs_IntentId :: string
  rs_AttemptId :: string
  rs_ClientOrderId :: string

record OrderNotification =
  on_SchemaVersion :: int
  on_UserID :: int
  on_Category :: string
  on_EventType :: string
  on_Severity :: string
  on_AccountID :: int
  on_StrategyID :: int
  on_SessionID :: string
  on_OrderID :: string
  on_AttemptID :: string
  on_Title :: string
  on_Message :: string
  on_DedupeKey :: string
  on_Metadata :: "(string \<times> string) list"

definition GetPrice :: "PlaceOrderRequest \<Rightarrow> float64" where
  "GetPrice req = (case pr_Price req of Some p \<Rightarrow> p | None \<Rightarrow> 0)"

definition goodTillDate :: "PlaceOrderRequest \<Rightarrow> time option" where
  "goodTillDate req = map_option AsTime (pr_GoodTillDate req)"

subsection \<open>The service and its state\<close>

record OrderService =
  sv_GetMeta :: "int \<Rightarrow> int \<Rightarrow> int \<Rightarrow> Meta result"
  sv_ValidateActiveSession :: "Meta \<Rightarrow> int \<Rightarrow> string \<Rightarrow> error option"
  sv_Execute :: "nat \<Rightarrow> OrderRequest \<Rightarrow> Meta \<Rightarrow> OrderResult result"
  sv_Resolve :: "nat \<Rightarrow> RecoveryRequest \<Rightarrow> Meta \<Rightarrow> OrderResult result"
  sv_riskGate :: "(time \<Rightarrow> ReviewRequest \<Rightarrow> order_db \<Rightarrow> Decision result \<times> order_db) option"
  sv_clock :: "nat \<Rightarrow> time"
  sv_uuid :: "nat \<Rightarrow> string"

datatype svc_action =
    IntentStored string
  | AttemptCreated string string
  | Reviewed string
  | ExecuteCalled OrderRequest
  | ResolveCalled RecoveryRequest
  | AttemptFinalized string string
  | EventSaved Event
  | Notified OrderNotification

record svc_state =
  svc_db :: order_db
  svc_tick :: nat
  svc_trace :: "svc_action list"

definition act :: "svc_action \<Rightarrow> svc_state \<Rightarrow> svc_state" where
  "act a s = s\<lparr>svc_trace := svc_trace s @ [a]\<rparr>"

definition timeNow :: "OrderService \<Rightarrow> svc_state \<Rightarrow> time \<times> svc_state" where
  "timeNow sv s = (sv_clock sv (svc_tick s), s\<lparr>svc_tick := Suc (svc_tick s)\<rparr>)"

definition newUUID :: "OrderService \<Rightarrow> svc_state \<Rightarrow> string \<times> svc_state" where
  "newUUID sv s = (sv_uuid sv (svc_tick s), s\<lparr>svc_tick := Suc (svc_tick s)\<rparr>)"

definition repo :: "'a dbm \<Rightarrow> svc_action \<Rightarrow> svc_state \<Rightarrow> 'a result \<times> svc_state" where
  "repo m a s = (case m (svc_db s) of
     (Inl e, db) \<Rightarrow> (Inl e, s\<lparr>svc_db := db\<rparr>)
   | (Inr x, db) \<Rightarrow> (Inr x, act a (s\<lparr>svc_db := db\<rparr>)))"

definition finalizeAttempt :: "OrderAttempt \<Rightarrow> Order option \<Rightarrow> OrderFill list \<Rightarrow> svc_state \<Rightarrow> unit result \<times> svc_state" where
  "finalizeAttempt attempt order fills =
     repo (FinalizeOrderAttempt attempt order fills) (AttemptFinalized (oa_AttemptID attempt) (oa_Status attempt))"

subsection \<open>Validation and normalisation\<close>

definition nonEmpty :: "string \<Rightarrow> string \<Rightarrow> string" where
  "nonEmpty v fallback = (if trim_space v = [] then fallback else v)"

definition absQty :: "float64 \<Rightarrow> float64" where
  "absQty v = (if v < 0 then - v else v)"

definition fallbackPositive :: "float64 \<Rightarrow> float64 \<Rightarrow> float64" where
  "fallbackPositive primary fallback = (if 0 < primary then primary else fallback)"

definition fallbackRemaining :: "float64 \<Rightarrow> float64 \<Rightarrow> float64 \<Rightarrow> float64 \<Rightarrow> float64" where
  "fallbackRemaining origQty executedQty remainingQty fallbackOrig =
     (if 0 \<le> remainingQty then remainingQty
      else let orig = fallbackPositive origQty fallbackOrig
           in if orig \<le> executedQty then 0 else orig - executedQty)"

definition normalizePage :: "int \<Rightarrow> int \<Rightarrow> int \<times> int" where
  "normalizePage limitRaw offsetRaw =
     (let limit = (if limitRaw \<le> 0 then 100 else limitRaw)
      in (if 1000 < limit then 1000 else limit, if offsetRaw < 0 then 0 else offsetRaw))"

definition marketTimeOrNow :: "Timestamp option \<Rightarrow> time \<Rightarrow> time" where
  "marketTimeOrNow v fallback = (case v of None \<Rightarrow> fallback
     | Some t \<Rightarrow> if \<not> CheckValid t then fallback else if is_zero (AsTime t) then fallback else AsTime t)"

definition buildClientOrderID :: "string \<Rightarrow> string \<Rightarrow> string" where
  "buildClientOrderID intentID attemptID =
     ''h-'' @ take 12 (remove_char (CHR ''-'') (trim_space intentID)) @ ''-''
     @ take 12 (remove_char (CHR ''-'') (trim_space attemptID))"

definition validateRouteRequest :: "int \<Rightarrow> int \<Rightarrow> int \<Rightarrow> error option" where
  "validateRouteRequest exchange market positionSide = check_first
     [(exchange \<notin> {1, 2}, Status InvalidArgument (''unsupported exchange: '' @ show_int exchange)),
      (market \<notin> {1, 2, 3}, Status InvalidArgument (''unsupported market: '' @ show_int market)),
      (positionSide \<notin> {0, 1, 2}, Status InvalidArgument (''unsupported position_side: '' @ show_int positionSide))]"

definition hex_digit :: "int \<Rightarrow> char" where
  "hex_digit n = (if n < 10 then char_of (48 + n) else char_of (87 + n))"

definition hex2 :: "int \<Rightarrow> string" where
  "hex2 n = [hex_digit (n div 16), hex_digit (n mod 16)]"

definition quote_char :: "char \<Rightarrow> string" where
  "quote_char c = (let n = of_char c :: int in
     if c = CHR 0x22 then [CHR 0x5C, c] else if n = 92 then [CHR 0x5C, c]
     else if n = 7 then CHR 0x5C # ''a'' else if n = 8 then CHR 0x5C # ''b''
     else if n = 12 then CHR 0x5C # ''f'' else if n = 10 then CHR 0x5C # ''n''
     else if n = 13 then CHR 0x5C # ''r'' else if n = 9 then CHR 0x5C # ''t''
     else if n = 11 then CHR 0x5C # ''v''
     else if n < 32 \<or> n = 127 then CHR 0x5C # CHR ''x'' # hex2 n else [c])"

definition quote_str :: "string \<Rightarrow> string" where
  "quote_str s = [CHR 0x22] @ concat (map quote_char s) @ [CHR 0x22]"

definition normalizeOrderSide :: "string \<Rightarrow> string result" where
  "normalizeOrderSide side = (let normalized = norm_sym side in
     if normalized = ''BUY'' \<or> normalized = ''SELL'' then Inr normalized
     else Inl (Status InvalidArgument (''unsupported order side: '' @ quote_str side)))"

record OrderContract =
  oc_Code :: int
  oc_Type :: string
  oc_TimeInForce :: string

definition orderTypeMarket :: int where "orderTypeMarket = 1"
definition orderTypeLimit :: int where "orderTypeLimit = 2"

definition normalizeOrderContract :: "PlaceOrderRequest \<Rightarrow> OrderContract result" where
  "normalizeOrderContract req =
     (let orderType0 = norm_sym (pr_OrderType req);
          orderType = (if orderType0 = [] then (if pr_Price req \<noteq> None then ''LIMIT'' else ''MARKET'') else orderType0)
      in if orderType = ''MARKET'' then
           (case check_first
              [(pr_Price req \<noteq> None, Status InvalidArgument ''market order must not set price''),
               (pr_PostOnly req, Status InvalidArgument ''market order must not set post_only''),
               (trim_space (pr_TimeInForce req) \<noteq> [], Status InvalidArgument ''market order must not set time_in_force''),
               (pr_GoodTillDate req \<noteq> None, Status InvalidArgument ''market order must not set good_till_date'')] of
              Some err \<Rightarrow> Inl err
            | None \<Rightarrow> Inr \<lparr>oc_Code = orderTypeMarket, oc_Type = ''MARKET'', oc_TimeInForce = []\<rparr>)
         else if orderType = ''LIMIT'' then
           (let tif0 = norm_sym (pr_TimeInForce req); tif = (if tif0 = [] then ''GTC'' else tif0)
            in case check_first
              [(pr_Price req = None \<or> GetPrice req \<le> 0, Status InvalidArgument ''limit order requires positive price''),
               (tif = ''GTD'' \<and> pr_GoodTillDate req = None, Status InvalidArgument ''gtd limit order requires good_till_date''),
               (tif \<notin> {''GTC'', ''IOC'', ''FOK'', ''GTD''},
                  Status FailedPrecondition (''unsupported time_in_force: '' @ tif))] of
              Some err \<Rightarrow> Inl err
            | None \<Rightarrow> Inr \<lparr>oc_Code = orderTypeLimit, oc_Type = ''LIMIT'', oc_TimeInForce = tif\<rparr>)
         else Inl (Status FailedPrecondition (''unsupported order_type: '' @ orderType)))"

definition isAuditableOrderContractError :: "error \<Rightarrow> bool" where
  "isAuditableOrderContractError err = (case err of Status c m \<Rightarrow> c = FailedPrecondition | _ \<Rightarrow> False)"

definition statusMessage :: "error \<Rightarrow> string" where
  "statusMessage err = (case err of Status c m \<Rightarrow> m | _ \<Rightarrow> err_text err)"

definition orderTypeCodeForRejectedContract :: "PlaceOrderRequest \<Rightarrow> int" where
  "orderTypeCodeForRejectedContract req = (let t = norm_sym (pr_OrderType req) in
     if t = ''LIMIT'' then orderTypeLimit else if t = ''MARKET'' then orderTypeMarket
     else if pr_Price req \<noteq> None then orderTypeLimit else orderTypeMarket)"

definition validatePositionSide :: "Meta \<Rightarrow> int \<Rightarrow> error option" where
  "validatePositionSide meta positionSide =
     (if me_Market meta = MarketSpot then
        (if positionSide \<noteq> 0 then Some (Status InvalidArgument ''spot orders must not set position_side'') else None)
      else if equal_fold (me_PositionMode meta) ''hedge''
        then Some (Status FailedPrecondition ''hedge futures orders are not supported yet'')
      else if positionSide \<noteq> 0
        then Some (Status InvalidArgument ''one-way futures orders must use position_side=BOTH'')
      else None)"

definition checkPlaceOrder :: "PlaceOrderRequest \<Rightarrow> error option" where
  "checkPlaceOrder req = (case check_first
     [(pr_AccountId req = 0, Status InvalidArgument ''account_id is required''),
      (pr_Symbol req = [], Status InvalidArgument ''symbol is required''),
      (feq (pr_Qty req) 0, Status InvalidArgument ''qty must be non-zero'')] of
     Some err \<Rightarrow> Some err
   | None \<Rightarrow> validateRouteRequest (pr_Exchange req) (pr_Market req) (pr_PositionSide req))"

subsection \<open>Responses\<close>

definition buildPlaceOrderResponse :: "OrderAttempt \<Rightarrow> Order option \<Rightarrow> OrderFill list \<Rightarrow> PlaceOrderResponse" where
  "buildPlaceOrderResponse attempt order fills = \<lparr>ps_IntentId = oa_IntentID attempt,
     ps_AttemptId = oa_AttemptID attempt, ps_AttemptStatus = oa_Status attempt,
     ps_ErrorMessage = nonEmpty (oa_ErrorMessage attempt) (oa_RecoveryError attempt),
     ps_ClientOrderId = oa_ClientOrderID attempt, ps_Order = order, ps_FillDeltas = fills\<rparr>"

definition buildRecoveryFailedResponse :: "OrderAttempt \<Rightarrow> string \<Rightarrow> PlaceOrderResponse" where
  "buildRecoveryFailedResponse attempt recoveryErr = buildPlaceOrderResponse
     (attempt\<lparr>oa_Status := ''RECOVERY_FAILED'', oa_RecoveryError := recoveryErr,
       oa_ErrorMessage := (if trim_space (oa_ErrorMessage attempt) = [] then ''recovery failed''
         else oa_ErrorMessage attempt)\<rparr>) None []"

subsection \<open>Notifications\<close>

definition format_rfc3339 :: "time \<Rightarrow> string" where
  "format_rfc3339 t = format_rfc3339nano (t div 1000000000 * 1000000000)"

definition orderNotificationClass :: "string \<Rightarrow> (string \<times> string \<times> string) option" where
  "orderNotificationClass status =
     (if status = ''ACCEPTED'' then Some (''order.accepted'', ''info'', ''Order accepted'')
      else if status = ''RECOVERED'' then Some (''order.recovered'', ''info'', ''Order recovered'')
      else if status = ''RISK_REJECTED'' then Some (''order.failed'', ''error'', ''Order risk rejected'')
      else if status = ''FAILED'' then Some (''order.failed'', ''error'', ''Order failed'')
      else if status = ''RECOVERY_FAILED'' then Some (''order.recovery_failed'', ''error'', ''Order recovery failed'')
      else if status = ''RECOVERING'' \<or> status = ''UNKNOWN'' then Some (''order.recovering'', ''warn'', ''Order recovering'')
      else None)"

definition orderNotificationTriggerTime :: "OrderAttempt \<Rightarrow> Order option \<Rightarrow> time" where
  "orderNotificationTriggerTime attempt order = (case order of
     Some ord \<Rightarrow> if \<not> is_zero (or_Time ord) then or_Time ord else oa_Time attempt
   | None \<Rightarrow> oa_Time attempt)"

definition dashIfEmpty :: "string \<Rightarrow> string" where
  "dashIfEmpty s = (if s = [] then ''-'' else s)"

definition orderNotificationDetails :: "OrderAttempt \<Rightarrow> Order option \<Rightarrow> string" where
  "orderNotificationDetails attempt order =
     (let orderID0 = trim_space (oa_OrderID attempt); exchangeOrderID0 = trim_space (oa_ExchangeOrderID attempt);
          orderID = (case order of Some ord \<Rightarrow> nonEmpty (or_OrderID ord) orderID0 | None \<Rightarrow> orderID0);
          exchangeOrderID = (case order of Some ord \<Rightarrow> nonEmpty (or_ExchangeOrderID ord) exchangeOrderID0
            | None \<Rightarrow> exchangeOrderID0);
          triggerTime = orderNotificationTriggerTime attempt order
      in ''order_id='' @ dashIfEmpty orderID @ '' exchange_order_id='' @ dashIfEmpty exchangeOrderID
         @ '' attempt_id='' @ oa_AttemptID attempt @ '' trigger_time=''
         @ (if is_zero triggerTime then ''-'' else format_rfc3339 triggerTime))"

definition orderNotificationMessage :: "OrderAttempt \<Rightarrow> Order option \<Rightarrow> string" where
  "orderNotificationMessage attempt order =
     (let base = oa_Side attempt @ '' '' @ oa_Symbol attempt @ '' qty='' @ format_g (oa_RequestedQty attempt)
            @ '' status='' @ oa_Status attempt;
          msg = trim_space (nonEmpty (oa_ErrorMessage attempt) (oa_RecoveryError attempt))
      in base @ (if msg \<noteq> [] then '': '' @ msg else []) @ [CHR 0x0A] @ orderNotificationDetails attempt order)"

definition orderNotification :: "OrderAttempt \<Rightarrow> Order option \<Rightarrow> string \<times> string \<times> string \<Rightarrow> OrderNotification" where
  "orderNotification attempt order = (\<lambda>(eventType, severity, title).
     let triggerTime = orderNotificationTriggerTime attempt order in
     \<lparr>on_SchemaVersion = 1, on_UserID = oa_UserID attempt, on_Category = ''strategy'',
      on_EventType = eventType, on_Severity = severity, on_AccountID = oa_AccountID attempt,
      on_StrategyID = oa_StrategyID attempt, on_SessionID = oa_SessionID attempt,
      on_OrderID = (case order of Some ord \<Rightarrow> or_OrderID ord | None \<Rightarrow> []),
      on_AttemptID = oa_AttemptID attempt, on_Title = title,
      on_Message = orderNotificationMessage attempt order,
      on_DedupeKey = ''order:'' @ oa_AttemptID attempt @ '':'' @ eventType,
      on_Metadata =
        [(''attempt_id'', oa_AttemptID attempt), (''intent_id'', oa_IntentID attempt),
         (''symbol'', oa_Symbol attempt), (''side'', oa_Side attempt),
         (''attempt_status'', oa_Status attempt), (''client_order_id'', oa_ClientOrderID attempt)]
        @ (if is_zero triggerTime then [] else [(''trigger_time'', format_rfc3339 triggerTime)])
        @ (case order of None \<Rightarrow> []
           | Some ord \<Rightarrow> [(''order_id'', or_OrderID ord), (''exchange_order_id'', or_ExchangeOrderID ord),
               (''order_status'', or_Status ord)])\<rparr>)"

definition publishOrderNotification :: "OrderAttempt \<Rightarrow> Order option \<Rightarrow> svc_state \<Rightarrow> svc_state" where
  "publishOrderNotification attempt order s =
     (if oa_Environment attempt = EnvironmentBacktest then s
      else case orderNotificationClass (oa_Status attempt) of
        None \<Rightarrow> s | Some c \<Rightarrow> act (Notified (orderNotification attempt order c)) s)"

subsection \<open>What is persisted of an execution\<close>

definition recoveryStatusForExecution :: "OrderResult \<Rightarrow> string" where
  "recoveryStatusForExecution result =
     (if xr_FillPending result then ''FILL_PENDING''
      else if \<exists>fill\<in>set (xr_Fills result). fl_FeeMissing fill then ''FEE_MISSING''
      else let status = norm_sym (xr_Status result) in
      if status = ''PARTIALLY_FILLED'' then ''PARTIALLY_FILLED''
      else if status = ''NEW'' then ''OPEN'' else [])"

definition applyRecoveryTracking :: "Order \<Rightarrow> OrderResult \<Rightarrow> time \<Rightarrow> Order" where
  "applyRecoveryTracking order result now =
     (let status = recoveryStatusForExecution result in
      if status = [] then order
      else order\<lparr>or_RecoveryStatus := status, or_RecoveryStartedAt := Some now,
             or_NextCheckAt := Some (now + 5 * second),
             or_RecoveryDeadlineAt := Some (now + 14 * 24 * hour),
             or_LastRecoveryError := trim_space (xr_ErrorMessage result)\<rparr>)"

definition persistedOrder :: "Meta \<Rightarrow> OrderAttempt \<Rightarrow> int \<Rightarrow> string \<Rightarrow> int \<Rightarrow> OrderResult \<Rightarrow> time \<Rightarrow> string \<Rightarrow> Order" where
  "persistedOrder meta attempt strategyID sessionID market result now localOrderID =
     applyRecoveryTracking
      \<lparr>or_OrderID = localOrderID, or_ExchangeOrderID = xr_ExchangeOrderID result,
       or_ClientOrderID = nonEmpty (xr_ClientOrderID result) (oa_ClientOrderID attempt),
       or_AttemptID = oa_AttemptID attempt, or_IntentID = oa_IntentID attempt, or_Time = now,
       or_AccountID = oa_AccountID attempt, or_VenueID = oa_VenueID attempt,
       or_UserID = me_UserID meta, or_StrategyID = strategyID, or_SessionID = sessionID,
       or_Environment = oa_Environment attempt, or_Exchange = oa_Exchange attempt, or_Market = market,
       or_PositionSide = oa_PositionSide attempt,
       or_Symbol = nonEmpty (xr_Symbol result) (oa_Symbol attempt),
       or_Side = nonEmpty (xr_Side result) (oa_Side attempt),
       or_OrigQty = fallbackPositive (xr_OrigQty result) (absQty (oa_RequestedQty attempt)),
       or_ExecutedQty = xr_ExecutedQty result,
       or_RemainingQty = fallbackRemaining (xr_OrigQty result) (xr_ExecutedQty result) (xr_RemainingQty result)
         (absQty (oa_RequestedQty attempt)),
       or_AvgPrice = xr_AvgPrice result, or_Price = xr_Price result, or_PostOnly = oa_PostOnly attempt,
       or_GoodTillDate = oa_GoodTillDate attempt, or_ReduceOnly = oa_ReduceOnly attempt,
       or_Status = nonEmpty (xr_Status result) ''NEW'', or_ErrorMessage = xr_ErrorMessage result,
       or_RecoveryStatus = [], or_RecoveryStartedAt = None, or_NextCheckAt = None,
       or_RecoveryDeadlineAt = None, or_LastRecoveryError = [], or_ForceClosedAt = None\<rparr> result now"

definition persistedFill :: "Order \<Rightarrow> OrderResult \<Rightarrow> FillResult \<Rightarrow> string \<Rightarrow> OrderFill" where
  "persistedFill order result fill fillID =
     \<lparr>of_FillID = fillID, of_ExchangeTradeID = fl_ExchangeTradeID fill, of_OrderID = or_OrderID order,
      of_ExchangeOrderID = xr_ExchangeOrderID result, of_AttemptID = or_AttemptID order,
      of_IntentID = or_IntentID order, of_Time = or_Time order, of_AccountID = or_AccountID order,
      of_VenueID = or_VenueID order, of_UserID = or_UserID order, of_Symbol = or_Symbol order,
      of_Side = or_Side order, of_Qty = fl_Qty fill, of_FillPrice = fl_FillPrice fill, of_Fee = fl_Fee fill,
      of_Status = (if fl_FeeMissing fill then ''FEE_MISSING'' else nonEmpty (xr_Status result) ''FILLED''),
      of_StrategyID = or_StrategyID order, of_Environment = or_Environment order,
      of_Exchange = or_Exchange order, of_Market = or_Market order,
      of_PositionSide = or_PositionSide order, of_SessionID = or_SessionID order\<rparr>"

fun persistedFills :: "OrderService \<Rightarrow> Order \<Rightarrow> OrderResult \<Rightarrow> FillResult list \<Rightarrow> svc_state \<Rightarrow> OrderFill list \<times> svc_state" where
  "persistedFills sv order result [] s = ([], s)"
| "persistedFills sv order result (fill # fills) s =
     (let (fillID, s1) = newUUID sv s; (rest, s2) = persistedFills sv order result fills s1
      in (persistedFill order result fill fillID # rest, s2))"

definition buildPersistedExecution :: "OrderService \<Rightarrow> Meta \<Rightarrow> OrderAttempt \<Rightarrow> int \<Rightarrow> string \<Rightarrow> int \<Rightarrow> OrderResult \<Rightarrow> time \<Rightarrow>
    svc_state \<Rightarrow> (Order \<times> OrderFill list) \<times> svc_state" where
  "buildPersistedExecution sv meta attempt strategyID sessionID market result eventTime s0 =
     (let (now, s1) = (if is_zero eventTime then timeNow sv s0 else (eventTime, s0));
          (fresh, s2) = newUUID sv s1;
          order = persistedOrder meta attempt strategyID sessionID market result now (nonEmpty (oa_OrderID attempt) fresh);
          (fills, s3) = persistedFills sv order result (xr_Fills result) s2
      in ((order, fills), s3))"

definition lifecycleFillEvent :: "Order \<Rightarrow> OrderFill \<Rightarrow> Event" where
  "lifecycleFillEvent order fill = zero_Event
     \<lparr>ev_SessionID := of_SessionID fill, ev_AccountID := of_AccountID fill, ev_VenueID := of_VenueID fill,
      ev_Environment := of_Environment fill, ev_Exchange := of_Exchange fill, ev_Market := of_Market fill,
      ev_PositionSide := of_PositionSide fill, ev_Side := of_Side fill, ev_IntentID := of_IntentID fill,
      ev_AttemptID := of_AttemptID fill, ev_OrderID := of_OrderID fill,
      ev_ExchangeOrderID := of_ExchangeOrderID fill, ev_ExchangeTradeID := of_ExchangeTradeID fill,
      ev_EventType := ''fill'', ev_EventSource := EventSourcePlaceOrder, ev_OrderStatus := or_Status order,
      ev_FillDelta := zero_FillDelta\<lparr>fd_ExchangeTradeID := of_ExchangeTradeID fill,
        fd_ExchangeOrderID := of_ExchangeOrderID fill, fd_Symbol := of_Symbol fill, fd_Qty := of_Qty fill,
        fd_FillPrice := of_FillPrice fill, fd_Fee := of_Fee fill,
        fd_FeeMissing := equal_fold (of_Status fill) ''FEE_MISSING'', fd_TradeTime := of_Time fill\<rparr>,
      ev_OrderState := zero_OrderState\<lparr>os_ExchangeOrderID := or_ExchangeOrderID order,
        os_ClientOrderID := or_ClientOrderID order, os_Symbol := or_Symbol order,
        os_Status := or_Status order, os_OrigQty := or_OrigQty order,
        os_ExecutedQty := or_ExecutedQty order, os_RemainingQty := or_RemainingQty order,
        os_AvgPrice := or_AvgPrice order, os_UpdatedAt := or_Time order\<rparr>,
      ev_OccurredAt := of_Time fill\<rparr>"

fun emitLifecycleEvents :: "OrderService \<Rightarrow> Order \<Rightarrow> OrderFill list \<Rightarrow> svc_state \<Rightarrow> svc_state" where
  "emitLifecycleEvents sv order [] s = s"
| "emitLifecycleEvents sv order (fill # fills) s =
     (let event = lifecycleFillEvent order fill in
      if ValidateEventRouteFacts event \<noteq> None then emitLifecycleEvents sv order fills s
      else let (now, s1) = timeNow sv s;
               (_, s2) = repo (SaveLifecycleEvent now event) (EventSaved event) s1
           in emitLifecycleEvents sv order fills s2)"

subsection \<open>Resolving an attempt\<close>

definition stampAttempt :: "OrderService \<Rightarrow> OrderAttempt \<Rightarrow> svc_state \<Rightarrow> OrderAttempt \<times> svc_state" where
  "stampAttempt sv attempt s = (let (now, s1) = timeNow sv s in (attempt\<lparr>oa_Time := now\<rparr>, s1))"

definition confirmAbsent :: "OrderService \<Rightarrow> OrderAttempt \<Rightarrow> svc_state \<Rightarrow> PlaceOrderResponse \<times> svc_state" where
  "confirmAbsent sv attempt0 s0 =
     (let (attempt, s1) = stampAttempt sv (attempt0\<lparr>oa_Status := ''FAILED'',
            oa_ErrorMessage := nonEmpty (oa_ErrorMessage attempt0) ''attempt confirmed absent after recovery query'',
            oa_RecoveryError := []\<rparr>) s0
      in case finalizeAttempt attempt None [] s1 of
           (Inl err, s2) \<Rightarrow> (buildRecoveryFailedResponse attempt
             (''failed to persist confirmed absence: '' @ err_text err), s2)
         | (Inr _, s2) \<Rightarrow> (buildPlaceOrderResponse attempt None [], publishOrderNotification attempt None s2))"

definition recoveryQueryFailed :: "OrderService \<Rightarrow> OrderAttempt \<Rightarrow> error \<Rightarrow> svc_state \<Rightarrow> PlaceOrderResponse \<times> svc_state" where
  "recoveryQueryFailed sv attempt0 err s0 =
     (let (attempt, s1) = stampAttempt sv (attempt0\<lparr>oa_Status := ''RECOVERY_FAILED'', oa_RecoveryError := err_text err,
            oa_ErrorMessage := nonEmpty (oa_ErrorMessage attempt0) ''recovery query failed''\<rparr>) s0;
          (_, s2) = finalizeAttempt attempt None [] s1
      in (buildRecoveryFailedResponse attempt (err_text err), publishOrderNotification attempt None s2))"

definition pendingOr :: "string \<Rightarrow> OrderResult \<Rightarrow> Order \<Rightarrow> OrderAttempt \<Rightarrow> OrderAttempt" where
  "pendingOr accepted result order attempt =
     (let a = attempt\<lparr>oa_OrderID := or_OrderID order, oa_ExchangeOrderID := or_ExchangeOrderID order\<rparr>;
          msg = nonEmpty (xr_ErrorMessage result) ''exchange order filled but trade details are pending''
      in if xr_FillPending result
         then a\<lparr>oa_Status := ''RECOVERING'', oa_ErrorMessage := msg, oa_RecoveryError := msg\<rparr>
         else a\<lparr>oa_Status := accepted, oa_ErrorMessage := [], oa_RecoveryError := []\<rparr>)"

definition persistRecovered :: "OrderService \<Rightarrow> Meta \<Rightarrow> OrderAttempt \<Rightarrow> int \<Rightarrow> string \<Rightarrow> int \<Rightarrow> OrderResult \<Rightarrow> svc_state \<Rightarrow>
    PlaceOrderResponse \<times> svc_state" where
  "persistRecovered sv meta attempt0 strategyID sessionID market result s0 =
     (let (now, s1) = timeNow sv s0;
          ((order, fills), s2) = buildPersistedExecution sv meta attempt0 strategyID sessionID market result now s1;
          (attempt, s3) = stampAttempt sv (pendingOr ''RECOVERED'' result order attempt0) s2
      in case finalizeAttempt attempt (Some order) fills s3 of
           (Inl err, s4) \<Rightarrow> (buildRecoveryFailedResponse attempt
             (''failed to persist recovered execution: '' @ err_text err), s4)
         | (Inr _, s4) \<Rightarrow> (buildPlaceOrderResponse attempt (Some order) fills,
             publishOrderNotification attempt (Some order) (emitLifecycleEvents sv order fills s4)))"

definition recoveryRequest :: "OrderAttempt \<Rightarrow> RecoveryRequest" where
  "recoveryRequest attempt = \<lparr>rr_AccountID = oa_AccountID attempt, rr_Symbol = oa_Symbol attempt,
     rr_ClientOrderID = oa_ClientOrderID attempt, rr_ExchangeOrderID = oa_ExchangeOrderID attempt\<rparr>"

definition callResolve :: "OrderService \<Rightarrow> RecoveryRequest \<Rightarrow> Meta \<Rightarrow> svc_state \<Rightarrow> OrderResult result \<times> svc_state" where
  "callResolve sv req meta s = (sv_Resolve sv (svc_tick s) req meta, act (ResolveCalled req) s)"

definition resolveAttempt :: "OrderService \<Rightarrow> Meta \<Rightarrow> OrderAttempt \<Rightarrow> int \<Rightarrow> string \<Rightarrow> int \<Rightarrow> svc_state \<Rightarrow>
    PlaceOrderResponse \<times> svc_state" where
  "resolveAttempt sv meta attempt0 strategyID sessionID market s0 =
     (let (attempt, s1) = stampAttempt sv (attempt0\<lparr>oa_Status := ''RECOVERING''\<rparr>) s0;
          (_, s2) = finalizeAttempt attempt None [] s1;
          (answer, s3) = callResolve sv (recoveryRequest attempt0) meta s2
      in case answer of
           Inl err \<Rightarrow> if err = ErrOrderNotFound then confirmAbsent sv attempt s3
             else recoveryQueryFailed sv attempt err s3
         | Inr result \<Rightarrow> if trim_space (xr_ExchangeOrderID result) = [] then confirmAbsent sv attempt s3
             else persistRecovered sv meta attempt strategyID sessionID market result s3)"

definition loadPersistedExecution :: "string \<Rightarrow> svc_state \<Rightarrow> (Order option \<times> OrderFill list) \<times> svc_state" where
  "loadPersistedExecution attemptID s0 =
     (let (order, db1) = FindOrderByAttempt attemptID (svc_db s0);
          (fills, db2) = ListOrderFillsByAttempt attemptID db1
      in ((case order of Inl _ \<Rightarrow> None | Inr ord \<Rightarrow> Some ord, case fills of Inl _ \<Rightarrow> [] | Inr fs \<Rightarrow> fs),
          s0\<lparr>svc_db := db2\<rparr>))"

definition attemptNotFoundResponse :: "ResolveRequest \<Rightarrow> PlaceOrderResponse" where
  "attemptNotFoundResponse req = \<lparr>ps_IntentId = rs_IntentId req, ps_AttemptId = [],
     ps_AttemptStatus = ''FAILED'', ps_ErrorMessage = ''attempt not found; no local execution record exists'',
     ps_ClientOrderId = rs_ClientOrderId req, ps_Order = None, ps_FillDeltas = []\<rparr>"

definition isSettledAttempt :: "string \<Rightarrow> bool" where
  "isSettledAttempt status = (status \<in> {''FAILED'', ''ACCEPTED'', ''RECOVERED'', ''RISK_REJECTED''})"

definition ResolveOrderAttempt :: "OrderService \<Rightarrow> ResolveRequest \<Rightarrow> svc_state \<Rightarrow> PlaceOrderResponse result \<times> svc_state" where
  "ResolveOrderAttempt sv req s0 =
     (if rs_AccountId req = 0 then (Inl (Status InvalidArgument ''account_id is required''), s0)
      else if trim_space (rs_IntentId req) = [] \<and> trim_space (rs_AttemptId req) = [] \<and> trim_space (rs_ClientOrderId req) = []
        then (Inl (Status InvalidArgument ''intent_id, attempt_id, or client_order_id is required''), s0)
      else let (found, db1) = FindOrderAttempt 0 (rs_AccountId req) (rs_IntentId req) (rs_AttemptId req)
                 (rs_ClientOrderId req) (svc_db s0); s1 = s0\<lparr>svc_db := db1\<rparr>
      in case found of
           Inl err \<Rightarrow> if err = ErrNotFound then (Inr (attemptNotFoundResponse req), s1)
             else (Inl (Status Internal (''find order attempt: '' @ err_text err)), s1)
         | Inr attempt \<Rightarrow>
             if isSettledAttempt (oa_Status attempt)
             then let ((order, fills), s2) = loadPersistedExecution (oa_AttemptID attempt) s1
                  in (Inr (buildPlaceOrderResponse attempt order fills), s2)
             else case sv_GetMeta sv (rs_AccountId req) (oa_Exchange attempt) (oa_Market attempt) of
               Inl err \<Rightarrow> (Inl err, s1)
             | Inr meta \<Rightarrow>
                 let (resp, s2) = resolveAttempt sv meta attempt (oa_StrategyID attempt) (oa_SessionID attempt)
                       (oa_Market attempt) s1
                 in (Inr resp, s2))"

subsection \<open>Placing an order\<close>

definition json_char :: "char \<Rightarrow> string" where
  "json_char c = (let n = of_char c :: int in
     if n = 34 \<or> n = 92 then [CHR 0x5C, c]
     else if n = 8 then CHR 0x5C # ''b'' else if n = 12 then CHR 0x5C # ''f''
     else if n = 10 then CHR 0x5C # ''n'' else if n = 13 then CHR 0x5C # ''r''
     else if n = 9 then CHR 0x5C # ''t''
     else if n < 32 \<or> n = 60 \<or> n = 62 \<or> n = 38 then CHR 0x5C # ''u00'' @ hex2 n
     else [c])"

definition json_string :: "string \<Rightarrow> string" where
  "json_string s = [CHR 0x22] @ concat (map json_char s) @ [CHR 0x22]"

definition json_violation :: "Violation \<Rightarrow> string" where
  "json_violation v = ''{'' @ json_string ''code'' @ '':'' @ json_string (vi_Code v) @ '',''
     @ json_string ''message'' @ '':'' @ json_string (vi_Message v) @ ''}''"

definition marshalRiskReasons :: "Decision \<Rightarrow> string" where
  "marshalRiskReasons decision =
     (let violations = (if dc_Violations decision = [] \<and> trim_space (dc_ReasonCode decision) \<noteq> []
            then [violation (dc_ReasonCode decision) []] else dc_Violations decision)
      in if violations = [] then ''[]'' else ''['' @ join (map json_violation violations) '','' @ '']'')"

definition riskRejectMessage :: "Decision \<Rightarrow> string" where
  "riskRejectMessage decision = (case dc_Violations decision of v # _ \<Rightarrow> vi_Message v | [] \<Rightarrow> dc_ReasonCode decision)"

definition reviewRequest :: "PlaceOrderRequest \<Rightarrow> Meta \<Rightarrow> string \<Rightarrow> OrderContract \<Rightarrow> ReviewRequest" where
  "reviewRequest req meta side contract = \<lparr>rq_AccountID = pr_AccountId req, rq_VenueID = me_VenueID meta,
     rq_UserID = me_UserID meta, rq_Environment = me_Environment meta, rq_Exchange = me_Exchange meta,
     rq_Market = me_Market meta, rq_PositionSide = pr_PositionSide req, rq_Symbol = pr_Symbol req,
     rq_Side = side, rq_Qty = pr_Qty req, rq_Price = pr_Price req, rq_MarkPrice = pr_MarkPrice req,
     rq_OrderType = oc_Type contract, rq_TimeInForce = oc_TimeInForce contract,
     rq_PostOnly = pr_PostOnly req, rq_GoodTillDate = goodTillDate req, rq_ReduceOnly = pr_ReduceOnly req\<rparr>"

definition reviewErrorDecision :: "error \<Rightarrow> time \<Rightarrow> Decision" where
  "reviewErrorDecision err now = rejectViolation now (violation ''RISK_REVIEW_ERROR'' (err_text err))"

definition reviewRisk :: "OrderService \<Rightarrow> ReviewRequest \<Rightarrow> svc_state \<Rightarrow> Decision \<times> svc_state" where
  "reviewRisk sv req s0 =
     (let gate = (case sv_riskGate sv of None \<Rightarrow> AllowGate_Review | Some g \<Rightarrow> g);
          (now, s1) = timeNow sv s0;
          (answer, db) = gate now req (svc_db s1); s2 = s1\<lparr>svc_db := db\<rparr>
      in case answer of
           Inr decision \<Rightarrow> (decision, act (Reviewed (dc_Status decision)) s2)
         | Inl err \<Rightarrow> (let (now', s3) = timeNow sv s2 in
             (reviewErrorDecision err now', act (Reviewed DecisionReject) s3)))"

definition orderIntentOf :: "PlaceOrderRequest \<Rightarrow> Meta \<Rightarrow> string \<Rightarrow> int \<Rightarrow> string \<Rightarrow> time \<Rightarrow> OrderIntent" where
  "orderIntentOf req meta side orderTypeCode intentID eventTime =
     \<lparr>oi_IntentID = intentID, oi_Time = eventTime, oi_AccountID = pr_AccountId req,
      oi_VenueID = me_VenueID meta, oi_UserID = me_UserID meta, oi_StrategyID = pr_StrategyId req,
      oi_SessionID = pr_SessionId req, oi_Environment = me_Environment meta,
      oi_Exchange = me_Exchange meta, oi_Market = me_Market meta,
      oi_PositionSide = pr_PositionSide req, oi_OrderType = orderTypeCode, oi_Symbol = pr_Symbol req,
      oi_Side = side, oi_RequestedQty = pr_Qty req, oi_RequestedPrice = GetPrice req,
      oi_PostOnly = pr_PostOnly req, oi_GoodTillDate = goodTillDate req,
      oi_ReduceOnly = pr_ReduceOnly req, oi_Status = ''REQUESTED'', oi_RejectCode = [],
      oi_RejectMessage = []\<rparr>"

definition orderAttemptOf :: "PlaceOrderRequest \<Rightarrow> Meta \<Rightarrow> string \<Rightarrow> int \<Rightarrow> string \<Rightarrow> string \<Rightarrow> time \<Rightarrow> OrderAttempt" where
  "orderAttemptOf req meta side orderTypeCode intentID attemptID eventTime =
     \<lparr>oa_AttemptID = attemptID, oa_IntentID = intentID, oa_Time = eventTime,
      oa_AccountID = pr_AccountId req, oa_VenueID = me_VenueID meta, oa_UserID = me_UserID meta,
      oa_StrategyID = pr_StrategyId req, oa_SessionID = pr_SessionId req,
      oa_Environment = me_Environment meta, oa_Exchange = me_Exchange meta, oa_Market = me_Market meta,
      oa_PositionSide = pr_PositionSide req, oa_OrderType = orderTypeCode, oa_Symbol = pr_Symbol req,
      oa_Side = side, oa_RequestedQty = pr_Qty req, oa_RequestedPrice = GetPrice req,
      oa_PostOnly = pr_PostOnly req, oa_GoodTillDate = goodTillDate req,
      oa_ReduceOnly = pr_ReduceOnly req, oa_MarkPrice = pr_MarkPrice req, oa_Status = ''PENDING'',
      oa_ErrorMessage = [], oa_ClientOrderID = buildClientOrderID intentID attemptID,
      oa_RecoveryError = [], oa_RiskStatus = [], oa_RiskReasonsJSON = [], oa_OrderID = [],
      oa_ExchangeOrderID = []\<rparr>"

definition executorRequest :: "PlaceOrderRequest \<Rightarrow> Meta \<Rightarrow> string \<Rightarrow> OrderContract \<Rightarrow> string \<Rightarrow> OrderRequest" where
  "executorRequest req meta side contract clientOrderID =
     \<lparr>xq_AccountID = pr_AccountId req, xq_Exchange = me_Exchange meta, xq_Market = me_Market meta,
      xq_Symbol = pr_Symbol req, xq_Side = side, xq_PositionSide = pr_PositionSide req,
      xq_OrderType = oc_Type contract, xq_TimeInForce = oc_TimeInForce contract,
      xq_PostOnly = pr_PostOnly req, xq_GoodTillDate = goodTillDate req, xq_ReduceOnly = pr_ReduceOnly req,
      xq_Qty = pr_Qty req, xq_Price = pr_Price req, xq_MarkPrice = pr_MarkPrice req,
      xq_ClientOrderID = clientOrderID\<rparr>"

definition freshIDs :: "OrderService \<Rightarrow> PlaceOrderRequest \<Rightarrow> svc_state \<Rightarrow> (time \<times> string \<times> string) \<times> svc_state" where
  "freshIDs sv req s0 =
     (let (now, s1) = timeNow sv s0;
          intentID0 = trim_space (pr_IntentId req);
          (intentID, s2) = (if intentID0 = [] then newUUID sv s1 else (intentID0, s1));
          (attemptID, s3) = newUUID sv s2
      in ((marketTimeOrNow (pr_MarketTime req) now, intentID, attemptID), s3))"

definition rejectByRisk :: "OrderService \<Rightarrow> OrderIntent \<Rightarrow> OrderAttempt \<Rightarrow> Decision \<Rightarrow> svc_state \<Rightarrow>
    PlaceOrderResponse result \<times> svc_state" where
  "rejectByRisk sv intent0 attempt0 decision s0 =
     (let code = nonEmpty (dc_ReasonCode decision) ''RISK_REJECTED'';
          (attempt, s1) = stampAttempt sv (attempt0\<lparr>oa_Status := ''RISK_REJECTED'', oa_ErrorMessage := code\<rparr>) s0;
          intent = intent0\<lparr>oi_Status := ''REJECTED'', oi_RejectCode := code,
            oi_RejectMessage := riskRejectMessage decision\<rparr>
      in case repo (FinalizeRiskRejectedAttempt intent attempt)
             (AttemptFinalized (oa_AttemptID attempt) (oa_Status attempt)) s1 of
           (Inl err, s2) \<Rightarrow> (Inl (Status Internal (''finalize risk rejected attempt: '' @ err_text err)), s2)
         | (Inr _, s2) \<Rightarrow> (Inr (buildPlaceOrderResponse attempt None []), publishOrderNotification attempt None s2))"

definition executionUnknown :: "OrderService \<Rightarrow> Meta \<Rightarrow> PlaceOrderRequest \<Rightarrow> OrderAttempt \<Rightarrow> string \<Rightarrow> string \<Rightarrow> svc_state \<Rightarrow>
    PlaceOrderResponse result \<times> svc_state" where
  "executionUnknown sv meta req attempt0 message recoveryError s0 =
     (let (attempt, s1) = stampAttempt sv (attempt0\<lparr>oa_Status := ''UNKNOWN'', oa_ErrorMessage := message,
            oa_RecoveryError := recoveryError\<rparr>) s0;
          (_, s2) = finalizeAttempt attempt None [] s1;
          (resp, s3) = resolveAttempt sv meta attempt (pr_StrategyId req) (pr_SessionId req) (me_Market meta) s2
      in (Inr resp, s3))"

definition finalizeExecution :: "OrderService \<Rightarrow> Meta \<Rightarrow> PlaceOrderRequest \<Rightarrow> OrderAttempt \<Rightarrow> time \<Rightarrow> OrderResult \<Rightarrow> svc_state \<Rightarrow>
    PlaceOrderResponse result \<times> svc_state" where
  "finalizeExecution sv meta req attempt0 eventTime result s0 =
     (if trim_space (xr_ExchangeOrderID result) = [] then
        let (attempt, s1) = stampAttempt sv (attempt0\<lparr>oa_Status := ''FAILED'',
              oa_ErrorMessage := nonEmpty (xr_ErrorMessage result) ''order attempt failed'', oa_RecoveryError := []\<rparr>) s0
        in case finalizeAttempt attempt None [] s1 of
             (Inl err, s2) \<Rightarrow> (Inl (Status Internal (''finalize order attempt: '' @ err_text err)), s2)
           | (Inr _, s2) \<Rightarrow> (Inr (buildPlaceOrderResponse attempt None []), publishOrderNotification attempt None s2)
      else
        let ((order, fills), s1) = buildPersistedExecution sv meta attempt0 (pr_StrategyId req) (pr_SessionId req)
              (me_Market meta) result eventTime s0;
            (attempt, s2) = stampAttempt sv (pendingOr ''ACCEPTED'' result order attempt0) s1
        in case finalizeAttempt attempt (Some order) fills s2 of
             (Inl err, s3) \<Rightarrow>
               let msg = ''local finalize failed after exchange acceptance: '' @ err_text err
               in executionUnknown sv meta req (attempt\<lparr>oa_OrderID := [], oa_ExchangeOrderID := []\<rparr>) msg msg s3
           | (Inr _, s3) \<Rightarrow> (Inr (buildPlaceOrderResponse attempt (Some order) fills),
               publishOrderNotification attempt (Some order) (emitLifecycleEvents sv order fills s3)))"

definition callExecute :: "OrderService \<Rightarrow> OrderRequest \<Rightarrow> Meta \<Rightarrow> svc_state \<Rightarrow> OrderResult result \<times> svc_state" where
  "callExecute sv orderReq meta s = (sv_Execute sv (svc_tick s) orderReq meta, act (ExecuteCalled orderReq) s)"

definition executeAttempt :: "OrderService \<Rightarrow> Meta \<Rightarrow> PlaceOrderRequest \<Rightarrow> OrderRequest \<Rightarrow> OrderAttempt \<Rightarrow> time \<Rightarrow> svc_state \<Rightarrow>
    PlaceOrderResponse result \<times> svc_state" where
  "executeAttempt sv meta req orderReq attempt eventTime s0 =
     (let (answer, s1) = callExecute sv orderReq meta s0 in
      case answer of
        Inl execErr \<Rightarrow> executionUnknown sv meta req attempt (''execution result unknown: '' @ err_text execErr)
          (err_text execErr) s1
      | Inr result \<Rightarrow> finalizeExecution sv meta req attempt eventTime result s1)"

definition placeValidated :: "OrderService \<Rightarrow> PlaceOrderRequest \<Rightarrow> Meta \<Rightarrow> string \<Rightarrow> OrderContract \<Rightarrow> svc_state \<Rightarrow>
    PlaceOrderResponse result \<times> svc_state" where
  "placeValidated sv req meta side contract s0 =
     (let ((eventTime, intentID, attemptID), s1) = freshIDs sv req s0;
          intent = orderIntentOf req meta side (oc_Code contract) intentID eventTime;
          attempt0 = orderAttemptOf req meta side (oc_Code contract) intentID attemptID eventTime
      in case repo (UpsertOrderIntent intent) (IntentStored intentID) s1 of
           (Inl err, s2) \<Rightarrow> (Inl (Status Internal (''upsert order intent: '' @ err_text err)), s2)
         | (Inr _, s2) \<Rightarrow>
             (case repo (CreateOrderAttempt attempt0) (AttemptCreated attemptID (oa_ClientOrderID attempt0)) s2 of
                (Inl err, s3) \<Rightarrow> (Inl (Status Internal (''create order attempt: '' @ err_text err)), s3)
              | (Inr _, s3) \<Rightarrow>
                  let (decision, s4) = reviewRisk sv (reviewRequest req meta side contract) s3;
                      attempt = attempt0\<lparr>oa_RiskStatus := dc_Status decision,
                        oa_RiskReasonsJSON := marshalRiskReasons decision\<rparr>
                  in if dc_Status decision = DecisionReject then rejectByRisk sv intent attempt decision s4
                     else executeAttempt sv meta req
                       (executorRequest req meta side contract (oa_ClientOrderID attempt0)) attempt eventTime s4))"

definition rejectedContractDecision :: "string \<Rightarrow> time \<Rightarrow> Decision" where
  "rejectedContractDecision message now = rejectViolation now (violation ''ORDER_CONTRACT_INVALID'' message)"

definition recordOrderContractFailure :: "OrderService \<Rightarrow> PlaceOrderRequest \<Rightarrow> string \<Rightarrow> error \<Rightarrow> svc_state \<Rightarrow>
    PlaceOrderResponse result \<times> svc_state" where
  "recordOrderContractFailure sv req side contractErr s0 =
     (case sv_GetMeta sv (pr_AccountId req) (pr_Exchange req) (pr_Market req) of
        Inl _ \<Rightarrow> (Inl contractErr, s0)
      | Inr meta \<Rightarrow>
          if validatePositionSide meta (pr_PositionSide req) \<noteq> None then (Inl contractErr, s0)
          else case sv_ValidateActiveSession sv meta (pr_StrategyId req) (pr_SessionId req) of
            Some err \<Rightarrow> (Inl err, s0)
          | None \<Rightarrow>
              let ((eventTime, intentID, attemptID), s1) = freshIDs sv req s0;
                  message = statusMessage contractErr; code = orderTypeCodeForRejectedContract req;
                  decision = rejectedContractDecision message (fst (timeNow sv s0));
                  intent = (orderIntentOf req meta side code intentID eventTime)
                    \<lparr>oi_Status := ''REJECTED'', oi_RejectCode := ''ORDER_CONTRACT_INVALID'', oi_RejectMessage := message\<rparr>;
                  attempt = (orderAttemptOf req meta side code intentID attemptID eventTime)
                    \<lparr>oa_Status := ''FAILED'', oa_ErrorMessage := message, oa_RiskStatus := DecisionReject,
                     oa_RiskReasonsJSON := marshalRiskReasons decision\<rparr>
              in case repo (UpsertOrderIntent intent) (IntentStored intentID) s1 of
                   (Inl err, s2) \<Rightarrow> (Inl (Status Internal (''upsert rejected order intent: '' @ err_text err)), s2)
                 | (Inr _, s2) \<Rightarrow>
                     (case repo (CreateOrderAttempt attempt) (AttemptCreated attemptID (oa_ClientOrderID attempt)) s2 of
                        (Inl err, s3) \<Rightarrow> (Inl (Status Internal (''create rejected order attempt: '' @ err_text err)), s3)
                      | (Inr _, s3) \<Rightarrow> (Inr (buildPlaceOrderResponse attempt None []),
                          publishOrderNotification attempt None s3)))"

definition PlaceOrder :: "OrderService \<Rightarrow> PlaceOrderRequest \<Rightarrow> svc_state \<Rightarrow> PlaceOrderResponse result \<times> svc_state" where
  "PlaceOrder sv req s =
     (case checkPlaceOrder req of
        Some err \<Rightarrow> (Inl err, s)
      | None \<Rightarrow>
     (case normalizeOrderSide (pr_Side req) of
        Inl err \<Rightarrow> (Inl err, s)
      | Inr side \<Rightarrow>
     (case normalizeOrderContract req of
        Inl err \<Rightarrow> if isAuditableOrderContractError err then recordOrderContractFailure sv req side err s else (Inl err, s)
      | Inr contract \<Rightarrow>
     (case sv_GetMeta sv (pr_AccountId req) (pr_Exchange req) (pr_Market req) of
        Inl err \<Rightarrow> (Inl err, s)
      | Inr meta \<Rightarrow>
     (case validatePositionSide meta (pr_PositionSide req) of
        Some err \<Rightarrow> (Inl err, s)
      | None \<Rightarrow>
     (case sv_ValidateActiveSession sv meta (pr_StrategyId req) (pr_SessionId req) of
        Some err \<Rightarrow> (Inl err, s)
      | None \<Rightarrow> placeValidated sv req meta side contract s))))))"

subsection \<open>Queries\<close>

definition pagedQuery :: "int \<Rightarrow> int \<Rightarrow> int \<Rightarrow> string \<Rightarrow> (int \<Rightarrow> int \<Rightarrow> 'a dbm) \<Rightarrow> 'a dbm" where
  "pagedQuery userID limitRaw offsetRaw what fetch db =
     (if userID \<le> 0 then (Inl (Status InvalidArgument ''user_id is required''), db)
      else let (limit, offset) = normalizePage limitRaw offsetRaw in
        case fetch limit offset db of
          (Inl err, db') \<Rightarrow> (Inl (Status Internal (what @ '': '' @ err_text err)), db')
        | (Inr items, db') \<Rightarrow> (Inr items, db'))"

definition QueryOrderIntents :: "int \<Rightarrow> int \<Rightarrow> int \<Rightarrow> string \<Rightarrow> int \<Rightarrow> int \<Rightarrow> (OrderIntent list \<times> int) dbm" where
  "QueryOrderIntents userID accountID strategyID sessionID limit offset =
     pagedQuery userID limit offset ''query order intents''
       (QueryOrderIntentsPaginated userID accountID strategyID sessionID)"

definition QueryOrderAttempts :: "int \<Rightarrow> int \<Rightarrow> int \<Rightarrow> string \<Rightarrow> string \<Rightarrow> int \<Rightarrow> int \<Rightarrow> (OrderAttempt list \<times> int) dbm" where
  "QueryOrderAttempts userID accountID strategyID sessionID intentID limit offset =
     pagedQuery userID limit offset ''query order attempts''
       (QueryOrderAttemptsPaginated userID accountID strategyID sessionID intentID)"

definition QueryOrders :: "int \<Rightarrow> int \<Rightarrow> int \<Rightarrow> string \<Rightarrow> string \<Rightarrow> string \<Rightarrow> int \<Rightarrow> int \<Rightarrow> (Order list \<times> int) dbm" where
  "QueryOrders userID accountID strategyID sessionID intentID attemptID limit offset =
     pagedQuery userID limit offset ''query orders''
       (QueryOrdersPaginated userID accountID strategyID sessionID intentID attemptID)"

definition QueryOrderFills :: "int \<Rightarrow> int \<Rightarrow> int \<Rightarrow> string \<Rightarrow> string \<Rightarrow> string \<Rightarrow> string \<Rightarrow> int \<Rightarrow> int \<Rightarrow> (OrderFill list \<times> int) dbm" where
  "QueryOrderFills userID accountID strategyID sessionID intentID attemptID orderID limit offset =
     pagedQuery userID limit offset ''query order fills''
       (QueryOrderFillsPaginated userID accountID strategyID sessionID intentID attemptID orderID)"

definition ListOrderLifecycleEvents :: "string \<Rightarrow> int \<Rightarrow> int \<Rightarrow> Event list dbm" where
  "ListOrderLifecycleEvents sessionID0 afterEventID limitRaw db =
     (let sessionID = trim_space sessionID0; (limit, _) = normalizePage limitRaw 0 in
      if sessionID = [] then (Inl (Status InvalidArgument ''session_id is required''), db)
      else case ListLifecycleEvents sessionID afterEventID limit db of
        (Inl err, db') \<Rightarrow> (Inl (Status Internal (''list order lifecycle events: '' @ err_text err)), db')
      | (Inr items, db') \<Rightarrow> (Inr items, db'))"

end
