(* ===== verification/Go_Parse.thy ===== *)
theory Go_Parse
  imports Go_Format
begin

text \<open>
  Reading numbers: \<^verbatim>\<open>strconv.ParseFloat(s, 64)\<close> and \<^verbatim>\<open>strconv.ParseInt(s, 10, 64)\<close> on their
  whole syntax, and the proof that the shortest decimal of \<^verbatim>\<open>strconv.FormatFloat(x, 'f', -1, 64)\<close> reads
  back as \<open>x\<close>: seventeen digits are enough for a double.
\<close>

subsection \<open>Reading a float\<close>

definition ErrSyntax :: error where "ErrSyntax = Sentinel ''invalid syntax''"
definition ErrRange :: error where "ErrRange = Sentinel ''value out of range''"

definition digit_value :: "bool \<Rightarrow> char \<Rightarrow> int option" where
  "digit_value hex c = (let n = of_char c :: int in
     if 48 \<le> n \<and> n \<le> 57 then Some (n - 48)
     else if hex \<and> 97 \<le> n \<and> n \<le> 102 then Some (n - 87)
     else if hex \<and> 65 \<le> n \<and> n \<le> 70 then Some (n - 55) else None)"

text \<open>An optional sign: whether it is negative, and the rest.\<close>

definition take_sign :: "string \<Rightarrow> bool \<times> string" where
  "take_sign s = (case s of [] \<Rightarrow> (False, []) | c # cs \<Rightarrow> if c = CHR ''-'' then (True, cs) else if c = CHR ''+'' then (False, cs) else (False, s))"

definition special_float :: "string \<Rightarrow> float64 option" where
  "special_float s = (case take_sign s of (neg, rest) \<Rightarrow>
     if to_lower rest = ''inf'' \<or> to_lower rest = ''infinity'' then Some (Inf neg)
     else if to_lower s = ''nan'' then Some NaN else None)"

text \<open>The mantissa: its value without the point, the digits after the point, whether there was a digit, and the rest.\<close>

fun scan_mantissa :: "bool \<Rightarrow> bool \<Rightarrow> int \<Rightarrow> int \<Rightarrow> bool \<Rightarrow> string \<Rightarrow> int \<times> int \<times> bool \<times> string" where
  "scan_mantissa hex dot m f seen [] = (m, f, seen, [])"
| "scan_mantissa hex dot m f seen (c # cs) =
     (if c = CHR ''_'' then scan_mantissa hex dot m f seen cs
      else if c = CHR ''.'' then (if dot then (m, f, seen, c # cs) else scan_mantissa hex True m f seen cs)
      else case digit_value hex c of
        None \<Rightarrow> (m, f, seen, c # cs)
      | Some d \<Rightarrow> scan_mantissa hex dot ((if hex then 16 else 10) * m + d) (if dot then f + 1 else f) True cs)"

fun scan_exponent :: "int \<Rightarrow> string \<Rightarrow> int \<times> string" where
  "scan_exponent e [] = (e, [])"
| "scan_exponent e (c # cs) =
     (if c = CHR ''_'' then scan_exponent e cs
      else case digit_value False c of None \<Rightarrow> (e, c # cs) | Some d \<Rightarrow> scan_exponent (if e < 10000 then 10 * e + d else e) cs)"

text \<open>An exponent after its letter: a sign and at least one digit, up to the end.\<close>

definition exponent_of :: "string \<Rightarrow> int option" where
  "exponent_of s = (case take_sign s of (neg, rest) \<Rightarrow>
     (case rest of [] \<Rightarrow> None | c # cs \<Rightarrow>
        if digit_value False c = None then None
        else case scan_exponent 0 rest of (e, []) \<Rightarrow> Some (if neg then - e else e) | _ \<Rightarrow> None))"

text \<open>Underscores stand between digits, or between the base prefix and a digit.\<close>

fun underscores_ok :: "bool \<Rightarrow> char \<Rightarrow> string \<Rightarrow> bool" where
  "underscores_ok hex saw [] = (saw \<noteq> CHR ''_'')"
| "underscores_ok hex saw (c # cs) =
     (if digit_value hex c \<noteq> None then underscores_ok hex (CHR ''0'') cs
      else if c = CHR ''_'' then saw = CHR ''0'' \<and> underscores_ok hex c cs
      else saw \<noteq> CHR ''_'' \<and> underscores_ok hex (CHR ''!'') cs)"

definition underscoreOK :: "string \<Rightarrow> bool" where
  "underscoreOK s0 = (let s = snd (take_sign s0) in
     if has_prefix (to_lower s) ''0b'' \<or> has_prefix (to_lower s) ''0o'' then underscores_ok False (CHR ''0'') (drop 2 s)
     else if has_prefix (to_lower s) ''0x'' then underscores_ok True (CHR ''0'') (drop 2 s)
     else underscores_ok False (CHR ''^'') s)"

text \<open>A number: the exact value its text denotes.\<close>

definition number_value :: "bool \<Rightarrow> string \<Rightarrow> rat option" where
  "number_value hex s = (case scan_mantissa hex False 0 0 False s of (m, f, seen, rest) \<Rightarrow>
     if \<not> seen then None
     else case rest of
       [] \<Rightarrow> if hex then None else Some (of_int m * pow10 (- f))
     | c # cs \<Rightarrow> if to_lower [c] \<noteq> (if hex then ''p'' else ''e'') then None
         else (case exponent_of cs of None \<Rightarrow> None
           | Some e \<Rightarrow> Some (if hex then of_int m * pow2 (e - 4 * f) else of_int m * pow10 (e - f))))"

definition ParseFloat :: "string \<Rightarrow> float64 result" where
  "ParseFloat s = (case special_float s of Some x \<Rightarrow> Inr x
     | None \<Rightarrow> (case take_sign s of (neg, body) \<Rightarrow>
         let hex = (2 < length body \<and> has_prefix (to_lower body) ''0x'') in
         (case number_value hex (if hex then drop 2 body else body) of
            None \<Rightarrow> Inl ErrSyntax
          | Some v \<Rightarrow> if CHR ''_'' \<in> set s \<and> \<not> underscoreOK s then Inl ErrSyntax
              else case rnd64 (if neg then - v else v) of Inf b \<Rightarrow> Inl ErrRange | x \<Rightarrow> Inr x)))"

definition ParseInt :: "string \<Rightarrow> int result" where
  "ParseInt s = (case take_sign s of (neg, body) \<Rightarrow>
     if body = [] then Inl ErrSyntax
     else case parse_digits 0 body of None \<Rightarrow> Inl ErrSyntax
       | Some n \<Rightarrow> let i = (if neg then - n else n) in if - (2 ^ 63) \<le> i \<and> i < 2 ^ 63 then Inr i else Inl ErrRange)"

lemma ParseFloat_fraction: "ParseFloat ''0.001'' = Inr (flit (1 / 1000))"
  by code_simp

lemma ParseFloat_negative: "ParseFloat ''-12.50'' = Inr (Fin (- 25 / 2))"
  by code_simp

lemma ParseFloat_samples:
  "ParseFloat ''1e3'' = Inr (Fin 1000) \<and> ParseFloat ''1_0.5'' = Inr (Fin (21 / 2)) \<and> ParseFloat '''' = Inl ErrSyntax
   \<and> ParseFloat ''1e'' = Inl ErrSyntax \<and> ParseFloat ''Inf'' = Inr (Inf False) \<and> ParseFloat ''nan'' = Inr NaN"
  by code_simp

lemma ParseFloat_hex: "ParseFloat ''0x1.8p1'' = Inr (Fin 3)"
  by code_simp

subsection \<open>Seventeen digits are enough\<close>

lemma pow10_pos [simp]: "0 < pow10 k"
  by (simp add: pow10_def)

lemma pow10_nonzero [simp]: "pow10 k \<noteq> 0"
  using pow10_pos [of k] by linarith

lemma abs_pow10 [simp]: "\<bar>pow10 k\<bar> = pow10 k"
  by (simp add: abs_if pow10_pos [THEN less_not_sym])

lemma pow10_powi: "pow10 k = 10 powi k"
  by (simp add: pow10_def power_int_def inverse_eq_divide power_one_over)

lemma pow10_add: "pow10 (a + b) = pow10 a * pow10 b"
  by (simp add: pow10_powi power_int_add)

lemma pow10_Suc: "pow10 (k + 1) = 10 * pow10 k"
  by (simp add: pow10_add) (simp add: pow10_def)

lemma dec_exp_up_bounds:
  "1 \<le> q \<Longrightarrow> q < 10 ^ n \<Longrightarrow> pow10 (dec_exp_up n q) \<le> q \<and> q < pow10 (dec_exp_up n q + 1)"
proof (induction n arbitrary: q)
  case (Suc n)
  show ?case
  proof (cases "q < 10")
    case True
    then show ?thesis using Suc.prems by (simp add: pow10_def)
  next
    case False
    then have "pow10 (dec_exp_up n (q / 10)) \<le> q / 10 \<and> q / 10 < pow10 (dec_exp_up n (q / 10) + 1)"
      using Suc.prems by (intro Suc.IH) simp_all
    then show ?thesis
      using False pow10_Suc [of "dec_exp_up n (q / 10)"] pow10_Suc [of "dec_exp_up n (q / 10) + 1"] by (simp add: add.commute)
  qed
qed simp

lemma dec_exp_down_bounds:
  "0 < q \<Longrightarrow> q < 10 \<Longrightarrow> 1 \<le> q * 10 ^ n \<Longrightarrow> pow10 (dec_exp_down n q) \<le> q \<and> q < pow10 (dec_exp_down n q + 1)"
proof (induction n arbitrary: q)
  case 0
  then show ?case by (simp add: pow10_def)
next
  case (Suc n)
  show ?case
  proof (cases "1 \<le> q")
    case True
    then show ?thesis using Suc.prems by (simp add: pow10_def)
  next
    case False
    then have "pow10 (dec_exp_down n (q * 10)) \<le> q * 10 \<and> q * 10 < pow10 (dec_exp_down n (q * 10) + 1)"
      using Suc.prems by (intro Suc.IH) (simp_all add: mult.assoc)
    then show ?thesis
      using False pow10_Suc [of "dec_exp_down n (q * 10) - 1"] pow10_Suc [of "dec_exp_down n (q * 10)"] by simp
  qed
qed

lemma big_power: "n \<le> 1200 \<Longrightarrow> (2::rat) ^ n \<le> 10 ^ 400"
proof -
  assume "n \<le> 1200"
  then have "(2::rat) ^ n \<le> 2 ^ (3 * 400)" by (intro power_increasing) simp_all
  also have "\<dots> = (2 ^ 3) ^ 400" by (rule power_mult)
  also have "\<dots> \<le> 10 ^ 400" by (rule power_mono) simp_all
  finally show ?thesis .
qed

lemma small_power: "(1::rat) \<le> pow2 (-1074) * 10 ^ 400"
proof -
  have "pow2 (-1074) * 2 ^ 1074 \<le> pow2 (-1074) * 10 ^ 400" by (intro mult_left_mono big_power) (simp_all only: less_imp_le pow2_pos)
  moreover have "pow2 (-1074) * 2 ^ 1074 = 1" using pow2_add [of "-1074" 1074] pow2_nat [of 1074] by (simp only: of_nat_numeral) (simp add: pow2_def)
  ultimately show ?thesis by linarith
qed

lemma max_finite_small: "max_finite < 10 ^ 400"
proof -
  have "max_finite < 2 ^ 53 * 2 ^ 971" unfolding max_finite_def by (intro mult_strict_right_mono) simp_all
  also have "\<dots> = 2 ^ 1024" by (simp only: power_add [symmetric]) simp
  also have "\<dots> \<le> 10 ^ 400" by (rule big_power) simp
  finally show ?thesis .
qed

lemma rep_at_least: assumes "rndq q = q" "0 < q" shows "pow2 (-1074) \<le> q"
proof -
  let ?n = "round_ne (q / pow2 (ulp_exp q))"
  have q: "q = of_int ?n * pow2 (ulp_exp q)" using assms by (simp add: rndq_def)
  then have "0 < ?n" using assms(2) by (metis zero_less_mult_pos2 of_int_0_less_iff pow2_pos)
  then have "1 * pow2 (ulp_exp q) \<le> of_int ?n * pow2 (ulp_exp q)" by (intro mult_right_mono) (simp_all add: less_imp_le)
  moreover have "pow2 (-1074) \<le> pow2 (ulp_exp q)" by (rule pow2_mono) (simp add: ulp_exp_def)
  ultimately show ?thesis using q by simp
qed

lemma dec_exp_bounds:
  assumes "rndq q = q" "0 < q" "q \<le> max_finite" shows "pow10 (dec_exp q) \<le> q \<and> q < pow10 (dec_exp q + 1)"
proof (cases "1 \<le> q")
  case True
  have "dec_exp q = dec_exp_up 400 q" unfolding dec_exp_def using True by (rule if_P)
  moreover have "q < 10 ^ 400" using assms(3) max_finite_small by (rule le_less_trans)
  ultimately show ?thesis using dec_exp_up_bounds [OF True] by presburger
next
  case False
  have e: "dec_exp q = dec_exp_down 400 q" unfolding dec_exp_def using False by (rule if_not_P)
  have "(0::rat) \<le> 10 ^ 400" by (rule zero_le_power) simp
  then have "pow2 (-1074) * 10 ^ 400 \<le> q * 10 ^ 400" by (rule mult_right_mono [OF rep_at_least [OF assms(1,2)]])
  with small_power have "1 \<le> q * 10 ^ 400" by (rule order_trans)
  moreover have "q < 10" using False by simp
  ultimately show ?thesis unfolding e by (intro dec_exp_down_bounds assms(2))
qed

lemma quarter_ulp:
  fixes d :: rat assumes "d * 20000000000000000 \<le> q" "0 \<le> d" "0 < q" "q - r \<le> d"
  shows "d * 18014398509481984 < r"
proof (cases "d = 0")
  case False
  then have "d * 18014398509481985 < d * 20000000000000000" using assms(2) by simp
  then show ?thesis using assms by (simp add: algebra_simps)
qed (use assms in simp)

text \<open>A number this close to a double rounds to it.\<close>

lemma close_rounds:
  assumes rep: "rndq q = q" and q: "0 < q" and close: "\<bar>r - q\<bar> \<le> q / (2 * 10 ^ 16)"
  shows "rndq r = q"
proof -
  let ?k = "ilog2 q" and ?e = "ulp_exp q"
  let ?u = "pow2 (ulp_exp r)"
  have "q - r \<le> q / (2 * 10 ^ 16)" using close abs_ge_minus_self [of "r - q"] by linarith
  then have rpos: "0 < r" using q by (simp add: field_simps)
  have kq: "pow2 ?k \<le> q" "q < pow2 (?k + 1)" using ilog2_bounds [of q] q by simp_all
  have kr: "pow2 (ilog2 r) \<le> r" "r < pow2 (ilog2 r + 1)" using ilog2_bounds [of r] rpos by simp_all
  have n: "q = of_int (round_ne (q / pow2 ?e)) * pow2 ?e" using rep q by (simp add: rndq_def)
  have e: "?k - 52 \<le> ?e" "ilog2 r - 52 \<le> ulp_exp r" by (simp_all add: ulp_exp_def)
  have lt: "\<bar>r - q\<bar> < q / 2 ^ 53" using close q by (simp add: field_simps)
  have le: "ulp_exp r \<le> ?e"
  proof (rule ccontr)
    assume "\<not> ulp_exp r \<le> ?e"
    then have up: "?e < ilog2 r - 52" "?k < ilog2 r" by (auto simp: ulp_exp_def)
    have "pow2 (-1074) < pow2 (?k + 1)" by (rule le_less_trans [OF rep_at_least [OF rep q] kq(2)])
    then have "- 1074 < ?k + 1" using pow2_mono_iff by (meson not_le)
    then have m: "?e \<le> ?k + 1" by (simp add: ulp_exp_def)
    have "pow2 (?k + 1) = of_int (2 ^ nat (?k + 1 - ?e)) * pow2 ?e"
      using m pow2_add [of "?k + 1 - ?e" ?e] by (simp add: pow2_int)
    then have "(of_int (round_ne (q / pow2 ?e)) :: rat) * pow2 ?e < of_int (2 ^ nat (?k + 1 - ?e)) * pow2 ?e"
      using kq(2) n by simp
    then have "round_ne (q / pow2 ?e) < 2 ^ nat (?k + 1 - ?e)"
      by (simp only: mult_less_cancel_right_pos pow2_pos of_int_less_iff)
    then have "round_ne (q / pow2 ?e) + 1 \<le> 2 ^ nat (?k + 1 - ?e)" by simp
    then have "(of_int (round_ne (q / pow2 ?e) + 1) :: rat) * pow2 ?e \<le> of_int (2 ^ nat (?k + 1 - ?e)) * pow2 ?e"
      by (intro mult_right_mono) (simp_all only: of_int_le_iff less_imp_le pow2_pos)
    then have "q + pow2 ?e \<le> pow2 (?k + 1)"
      using n \<open>pow2 (?k + 1) = _\<close> by (simp add: distrib_right)
    also have "\<dots> \<le> pow2 (ilog2 r)" using up by (intro pow2_mono) simp
    also have "\<dots> \<le> r" by (rule kr(1))
    finally have "pow2 ?e \<le> r - q" by simp
    moreover have "q / 2 ^ 53 < pow2 (?k - 52)"
    proof -
      have "pow2 (?k + 1) = pow2 (?k - 52) * pow2 53" using pow2_add [of "?k - 52" 53] by (simp add: add.commute)
      then have "pow2 (?k + 1) = pow2 (?k - 52) * 2 ^ 53" by (simp add: pow2_def)
      then show ?thesis using kq(2) by (simp add: pos_divide_less_eq)
    qed
    moreover have "pow2 (?k - 52) \<le> pow2 ?e" by (rule pow2_mono [OF e(1)])
    ultimately show False using lt by linarith
  qed
  let ?n = "round_ne (q / pow2 ?e) * 2 ^ nat (?e - ulp_exp r)"
  have qn: "q / ?u = of_int ?n"
  proof -
    have "pow2 ?e = of_int (2 ^ nat (?e - ulp_exp r)) * ?u"
      using le pow2_add [of "?e - ulp_exp r" "ulp_exp r"] by (simp add: pow2_int)
    then have "q = of_int ?n * ?u" using n by (simp add: mult.assoc)
    then show ?thesis by (metis nonzero_mult_div_cancel_right pow2_nonzero)
  qed
  have "\<bar>r - q\<bar> * 20000000000000000 \<le> q" using close by (simp add: field_simps)
  then have "\<bar>r - q\<bar> * 18014398509481984 < r" using abs_ge_minus_self [of "r - q"] q by (intro quarter_ulp [of _ q]) simp_all
  then have "\<bar>r - q\<bar> < r / 2 ^ 54" by (simp add: field_simps)
  also have "r / 2 ^ 54 < pow2 (ilog2 r - 52) / 2"
  proof -
    have "pow2 (ilog2 r + 1) = pow2 (ilog2 r - 52) * pow2 53" using pow2_add [of "ilog2 r - 52" 53] by (simp add: add.commute)
    then have "pow2 (ilog2 r + 1) = pow2 (ilog2 r - 52) * 2 ^ 53" by (simp add: pow2_def)
    then show ?thesis using kr(2) by (simp add: pos_divide_less_eq)
  qed
  also have "\<dots> \<le> ?u / 2" using pow2_mono [OF e(2)] by simp
  finally have "\<bar>r - q\<bar> / ?u < 1 / 2" by (simp add: pos_divide_less_eq)
  moreover have "\<bar>r - q\<bar> / ?u = \<bar>r / ?u - of_int ?n\<bar>"
    unfolding qn [symmetric] by (simp add: diff_divide_distrib [symmetric])
  ultimately have "\<bar>r / ?u - of_int ?n\<bar> < 1 / 2" by simp
  then have "round_ne (r / ?u) = ?n" using round_ne_error [of "r / ?u"] by linarith
  then have "rndq r = of_int ?n * ?u" using rpos by (simp add: rndq_def)
  then show ?thesis using qn by (metis nonzero_divide_eq_eq pow2_nonzero)
qed

lemma shortest_at_17:
  assumes rep: "rndq q = q" and q: "0 < q" "q \<le> max_finite" and s: "s = dec_exp q - 17 + 1"
  shows "rndq (of_int (round_ne (q / pow10 s)) * pow10 s) = q"
proof (rule close_rounds [OF rep q(1)])
  let ?r = "of_int (round_ne (q / pow10 s)) * pow10 s"
  have "?r - q = (of_int (round_ne (q / pow10 s)) - q / pow10 s) * pow10 s" by (simp add: left_diff_distrib)
  then have "\<bar>?r - q\<bar> = \<bar>of_int (round_ne (q / pow10 s)) - q / pow10 s\<bar> * pow10 s" by (simp add: abs_mult)
  also have "\<dots> \<le> 1 / 2 * pow10 s" by (intro mult_right_mono round_ne_error) (simp add: less_imp_le)
  also have "pow10 s * 10 ^ 16 = pow10 (dec_exp q)"
    using pow10_add [of s 16] s by (simp add: pow10_def [of 16])
  then have "1 / 2 * pow10 s \<le> q / (2 * 10 ^ 16)" using dec_exp_bounds [OF rep q] by (simp add: field_simps)
  finally show "\<bar>?r - q\<bar> \<le> q / (2 * 10 ^ 16)" .
qed

lemma shortest_reads_back:
  assumes "rndq q = q" "0 < q" "q \<le> max_finite" "fuel + p = 17" "shortest fuel p q = (m, s)"
  shows "rndq (of_int m * pow10 s) = q"
  using assms(4,5)
proof (induction fuel arbitrary: p)
  case 0
  let ?s = "dec_exp q - int p + 1"
  have "rndq (of_int (round_ne (q / pow10 ?s)) * pow10 ?s) = q" using 0(1) by (intro shortest_at_17 assms) simp
  then show ?case using 0(2) by (subst (asm) shortest.simps) (auto simp: Let_def split: if_splits)
next
  case (Suc fuel)
  let ?s = "dec_exp q - int p + 1"
  have near: "round_ne (q / pow10 ?s) = \<lfloor>q / pow10 ?s\<rfloor> \<or> round_ne (q / pow10 ?s) = \<lfloor>q / pow10 ?s\<rfloor> + 1"
    by (auto simp: round_ne_def Let_def)
  show ?case using Suc.IH [of "Suc p"] Suc.prems near
    by (subst (asm) shortest.simps) (auto simp: Let_def split: if_splits)
qed

subsection \<open>Printed numbers read back\<close>

lemma char_digit_value: "char_digit c = Some d \<Longrightarrow> digit_value False c = Some d \<and> c \<noteq> CHR ''_'' \<and> c \<noteq> CHR ''.''"
  by (auto simp: char_digit_def digit_value_def Let_def split: if_splits)

lemma char_digit_digit_char [simp]: "0 \<le> d \<Longrightarrow> d < 10 \<Longrightarrow> char_digit (digit_char d) = Some d"
  by (simp add: char_digit_def digit_char_def Let_def)

lemma parse_digits_append:
  "parse_digits a (xs @ ys) = (case parse_digits a xs of None \<Rightarrow> None | Some b \<Rightarrow> parse_digits b ys)"
  by (induction xs arbitrary: a) (auto split: option.splits)

lemma parse_digits_zeros: "parse_digits a (replicate k (CHR ''0'')) = Some (a * 10 ^ k)"
  by (induction k arbitrary: a) (simp_all add: char_digit_def)

lemma parse_show_digits:
  "0 \<le> n \<Longrightarrow> parse_digits a (show_digits n) = Some (a * 10 ^ length (show_digits n) + n)"
proof (induction n arbitrary: a rule: show_digits.induct)
  case (1 n)
  show ?case
  proof (cases "n < 10")
    case True
    then show ?thesis using 1(2) by (simp add: show_digits.simps [of n])
  next
    case False
    then have "parse_digits a (show_digits (n div 10)) = Some (a * 10 ^ length (show_digits (n div 10)) + n div 10)"
      using 1 by simp
    then show ?thesis
      using False 1(2) by (simp add: show_digits.simps [of n] parse_digits_append algebra_simps)
  qed
qed

lemma length_show_digits: "0 \<le> n \<Longrightarrow> n < 10 ^ Suc k \<Longrightarrow> length (show_digits n) \<le> Suc k"
proof (induction k arbitrary: n)
  case 0
  then show ?case by (simp add: show_digits.simps [of n])
next
  case (Suc k)
  show ?case
  proof (cases "n < 10")
    case False
    have "n div 10 < 10 ^ Suc k" using Suc.prems by simp
    then have "length (show_digits (n div 10)) \<le> Suc k" using Suc.prems by (intro Suc.IH) simp_all
    then show ?thesis using False by (simp add: show_digits.simps [of n])
  qed (simp add: show_digits.simps [of n])
qed

lemma show_nonneg: "0 \<le> n \<Longrightarrow> show_int n = show_digits n"
  by (simp add: show_int_def)

lemma show_digits_not_Nil [simp]: "show_digits n \<noteq> []"
  by (simp add: show_digits.simps [of n])

lemma scan_digits:
  "parse_digits m xs = Some n \<Longrightarrow> scan_mantissa False dot m f seen (xs @ ys)
     = scan_mantissa False dot n (if dot then f + int (length xs) else f) (seen \<or> xs \<noteq> []) ys"
proof (induction xs arbitrary: m f seen)
  case (Cons c xs)
  then obtain d where "char_digit c = Some d" "parse_digits (10 * m + d) xs = Some n"
    by (auto split: option.splits)
  then show ?case using Cons.IH [of "10 * m + d"] char_digit_value [of c d] by (cases dot) (simp_all add: add.assoc)
qed simp

lemma scan_digits_end:
  "parse_digits m xs = Some n \<Longrightarrow> scan_mantissa False dot m f seen xs
     = (n, if dot then f + int (length xs) else f, seen \<or> xs \<noteq> [], [])"
  using scan_digits [of m xs n dot f seen "[]"] by simp

text \<open>The characters of a printed number: digits and the point.\<close>

definition number_char :: "char \<Rightarrow> bool" where
  "number_char c = (char_digit c \<noteq> None \<or> c = CHR ''.'')"

lemma number_char_lit [simp]: "number_char (CHR ''.'')" "number_char (CHR ''0'')"
  by (simp_all add: number_char_def char_digit_def)

lemma list_all_replicate: "list_all P (replicate n x) = (n = 0 \<or> P x)"
  by (induction n) auto

lemma parse_digits_chars: "parse_digits a xs \<noteq> None \<Longrightarrow> list_all number_char xs"
  by (induction xs arbitrary: a) (auto simp: number_char_def split: option.splits)

lemma show_digits_chars: "0 \<le> n \<Longrightarrow> list_all number_char (show_digits n)"
  by (rule parse_digits_chars [of 0]) (simp add: parse_show_digits)

lemma hd_show_digits: "0 \<le> n \<Longrightarrow> char_digit (hd (show_digits n)) \<noteq> None"
  using parse_show_digits [of n 0] by (cases "show_digits n") (auto split: option.splits)

lemma lower_number_char [simp]: "number_char c \<Longrightarrow> lower_char c = c"
  by (auto simp: number_char_def char_digit_def lower_char_def Let_def split: if_splits)

lemma to_lower_number [simp]: "list_all number_char s \<Longrightarrow> to_lower s = s"
  by (induction s) (simp_all add: to_lower_def)

lemma render_dec_value:
  assumes "0 \<le> m"
  shows "number_value False (render_dec m s) = Some (of_int m * pow10 s)" "list_all number_char (render_dec m s)"
    "char_digit (hd (render_dec m s)) \<noteq> None" "render_dec m s \<noteq> []"
proof -
  show "render_dec m s \<noteq> []" by (simp add: render_dec_def Let_def show_int_def)
  show "number_value False (render_dec m s) = Some (of_int m * pow10 s)"
  proof (cases "0 \<le> s")
    case True
    then have "parse_digits 0 (render_dec m s) = Some (m * 10 ^ nat s)"
      using assms by (simp add: render_dec_def show_nonneg parse_show_digits)
    from scan_digits_end [OF this, of False 0 False] show ?thesis
      using True \<open>render_dec m s \<noteq> []\<close> by (simp add: number_value_def) (simp add: pow10_def)
  next
    case False
    let ?k = "nat (- s)" and ?w = "show_digits (m mod 10 ^ nat (- s))"
    let ?z = "replicate (?k - length ?w) (CHR ''0'')"
    have r: "render_dec m s = show_digits (m div 10 ^ ?k) @ ''.'' @ ?z @ ?w"
      using False assms by (simp add: render_dec_def Let_def show_nonneg pos_imp_zdiv_nonneg_iff)
    obtain j where j: "?k = Suc j" using False by (cases ?k) auto
    have len: "length ?w \<le> ?k" unfolding j by (rule length_show_digits) (simp_all add: j)
    have f: "parse_digits 0 (show_digits (m div 10 ^ ?k)) = Some (m div 10 ^ ?k)"
      using assms by (simp add: parse_show_digits pos_imp_zdiv_nonneg_iff)
    have "10 ^ (?k - length ?w) * (10::int) ^ length ?w = 10 ^ ?k" using len by (simp add: power_add [symmetric])
    then have g: "parse_digits (m div 10 ^ ?k) (?z @ ?w) = Some m"
      by (simp add: parse_digits_append parse_digits_zeros parse_show_digits mult.assoc div_mult_mod_eq)
    have "scan_mantissa False False 0 0 False (render_dec m s) = (m, int ?k, True, [])"
      unfolding r using len by (simp add: scan_digits [OF f] scan_digits_end [OF g])
    then show ?thesis using False by (simp add: number_value_def)
  qed
  show "list_all number_char (render_dec m s)"
    using assms show_digits_chars by (simp add: render_dec_def Let_def show_nonneg pos_imp_zdiv_nonneg_iff list_all_replicate)
  show "char_digit (hd (render_dec m s)) \<noteq> None"
    using assms hd_show_digits [of "m * 10 ^ nat s"] hd_show_digits [of "m div 10 ^ nat (- s)"]
    by (simp add: render_dec_def Let_def show_nonneg pos_imp_zdiv_nonneg_iff)
qed

text \<open>An unsigned number, and the same after a minus sign.\<close>

lemma ParseFloat_number:
  assumes "list_all number_char b" "char_digit (hd b) \<noteq> None" "b \<noteq> []" "number_value False b = Some v" "rnd64 v = Fin q"
  shows "ParseFloat b = Inr (Fin q)" "ParseFloat (CHR ''-'' # b) = Inr (Fin (- q))"
proof -
  obtain c cs where b: "b = c # cs" using assms(3) by (cases b) auto
  have c: "char_digit c \<noteq> None" "number_char c" using assms(1,2) b by simp_all
  then have c': "c \<noteq> CHR ''-''" "c \<noteq> CHR ''+''" "c \<noteq> CHR ''i''" "c \<noteq> CHR ''n''" by (auto simp: char_digit_def Let_def)
  have x: "\<not> has_prefix b ''0x''" using assms(1) b
    by (cases cs) (auto simp: has_prefix_def number_char_def char_digit_def)
  have u: "CHR ''_'' \<notin> set b" using assms(1) by (auto simp: list_all_iff number_char_def char_digit_def)
  have t: "take_sign b = (False, b)" "take_sign (CHR ''-'' # b) = (True, b)" using c' by (simp_all add: take_sign_def b)
  have l: "to_lower b = b" using assms(1) by simp
  have l': "to_lower (CHR ''-'' # b) = CHR ''-'' # b" using l by (simp add: to_lower_def lower_char_def)
  have s: "special_float b = None" "special_float (CHR ''-'' # b) = None"
    using c' by (simp_all add: special_float_def t l l') (simp_all add: b)
  show "ParseFloat b = Inr (Fin q)" using assms(4,5) x u by (simp add: ParseFloat_def s t l)
  show "ParseFloat (CHR ''-'' # b) = Inr (Fin (- q))"
    using assms(4,5) x u by (simp add: ParseFloat_def s t l rnd64_neg)
qed

lemma ParseFloat_zero: "ParseFloat ''0'' = Inr (Fin 0)"
  by code_simp

lemma ParseFloat_format:
  assumes "wf64 (Fin q)" shows "ParseFloat (format_float (Fin q)) = Inr (Fin q)"
proof (cases "q = 0")
  case True
  then show ?thesis by (simp add: format_float_def ParseFloat_zero)
next
  case False
  have rep: "rndq \<bar>q\<bar> = \<bar>q\<bar>" "0 < \<bar>q\<bar>" "\<bar>q\<bar> \<le> max_finite" using assms False by (auto simp: abs_if rndq_neg)
  obtain m s where ms: "shortest 16 1 \<bar>q\<bar> = (m, s)" by (cases "shortest 16 1 \<bar>q\<bar>")
  have reads: "rndq (of_int m * pow10 s) = \<bar>q\<bar>" using shortest_reads_back [OF rep _ ms] by simp
  have m: "0 \<le> m"
  proof (rule ccontr)
    assume "\<not> 0 \<le> m"
    then have "of_int m * pow10 s \<le> 0" by (intro mult_nonpos_nonneg) (simp_all add: less_imp_le)
    then have "rndq (of_int m * pow10 s) \<le> rndq 0" by (rule rndq_mono)
    then show False using reads rep(2) by simp
  qed
  have v: "rnd64 (of_int m * pow10 s) = Fin \<bar>q\<bar>" using reads rep(3) by (simp add: rnd64_def)
  note p = ParseFloat_number [OF render_dec_value(2,3,4) [OF m] render_dec_value(1) [OF m] v]
  show ?thesis using False p ms by (auto simp: format_float_def)
qed

end
