(* ===== verification/Binance_Http.thy ===== *)
theory Binance_Http
  imports Order_Service Account_Service Go_Parse
begin

text \<open>
  The REST transport of the Binance clients: parameters, their encoding (\<^verbatim>\<open>url.Values\<close>), requests with an
  HMAC signature, and programs that send requests one after the other.

  The network is an argument.  Its answer to a request may depend on all requests sent before, and so may the
  clock, so that an order can be partly filled at one query and filled at the next.  A program is a function on the
  list of requests sent so far; its lemmas bound what it adds to that list.
\<close>

record HttpRequest =
  hq_Method :: string
  hq_URL :: string
  hq_Body :: string
  hq_APIKey :: string

text \<open>A status with a body, no response, or a status whose body cannot be read.\<close>

datatype HttpAnswer = Answer int string | NoAnswer error | NoBody int error

record Web =
  wb_now :: "HttpRequest list \<Rightarrow> time"
  wb_answer :: "HttpRequest list \<Rightarrow> HttpAnswer"
  wb_wait :: "HttpRequest list \<Rightarrow> error option"
  wb_bad_url :: "string \<Rightarrow> error option"
  wb_hmac :: "string \<Rightarrow> string \<Rightarrow> int list"

type_synonym 'a web = "HttpRequest list \<Rightarrow> 'a result \<times> HttpRequest list"

definition give :: "'a \<Rightarrow> 'a web" where "give x sent = (Inr x, sent)"
definition fail :: "error \<Rightarrow> 'a web" where "fail e sent = (Inl e, sent)"
definition lift_web :: "'a result \<Rightarrow> 'a web" where "lift_web r sent = (r, sent)"

text \<open>What follows a program sees its outcome, or only its result.\<close>

definition after :: "'a web \<Rightarrow> ('a result \<Rightarrow> 'b web) \<Rightarrow> 'b web" where
  "after m f sent = (case m sent of (r, sent') \<Rightarrow> f r sent')"

definition then_web :: "'a web \<Rightarrow> ('a \<Rightarrow> 'b web) \<Rightarrow> 'b web" where
  "then_web m f = after m (\<lambda>r. case r of Inl e \<Rightarrow> fail e | Inr x \<Rightarrow> f x)"

definition with_now :: "Web \<Rightarrow> (time \<Rightarrow> 'a web) \<Rightarrow> 'a web" where
  "with_now web f sent = f (wb_now web sent) sent"

subsection \<open>Parameters\<close>

type_synonym params = "(string \<times> string) list"

definition set_param :: "string \<Rightarrow> string \<Rightarrow> params \<Rightarrow> params" where
  "set_param k v ps = AList.update k v ps"

definition set_if :: "bool \<Rightarrow> string \<Rightarrow> string \<Rightarrow> params \<Rightarrow> params" where
  "set_if b k v ps = (if b then set_param k v ps else ps)"

definition upper_hex :: "int \<Rightarrow> char" where
  "upper_hex n = char_of (if n < 10 then 48 + n else 55 + n)"

definition unreserved :: "char \<Rightarrow> bool" where
  "unreserved c = (let n = of_char c :: int in (48 \<le> n \<and> n \<le> 57) \<or> (65 \<le> n \<and> n \<le> 90) \<or> (97 \<le> n \<and> n \<le> 122)
     \<or> c = CHR ''-'' \<or> c = CHR ''_'' \<or> c = CHR ''.'' \<or> c = CHR ''~'')"

definition escape_char :: "char \<Rightarrow> string" where
  "escape_char c = (let n = of_char c :: int in
     if unreserved c then [c] else if n = 32 then ''+'' else [CHR ''%'', upper_hex (n div 16), upper_hex (n mod 16)])"

definition query_escape :: "string \<Rightarrow> string" where
  "query_escape s = concat (map escape_char s)"

definition encode_pair :: "string \<times> string \<Rightarrow> string" where
  "encode_pair p = query_escape (fst p) @ ''='' @ query_escape (snd p)"

text \<open>\<^verbatim>\<open>Values.Encode\<close> sorts by key.\<close>

definition encode_params :: "params \<Rightarrow> string" where
  "encode_params ps = join (map encode_pair (sort_key fst ps)) ''&''"

definition trim_slashes :: "string \<Rightarrow> string" where
  "trim_slashes s = rev (dropWhile (\<lambda>c. c = CHR ''/'') (rev s))"

subsection \<open>Requests\<close>

text \<open>\<^verbatim>\<open>UnixMilli\<close> of a time, in decimal.\<close>

definition millis :: "time \<Rightarrow> string" where
  "millis t = show_int ((t - unix_epoch) div millisecond)"

definition signature :: "Web \<Rightarrow> string \<Rightarrow> string \<Rightarrow> string" where
  "signature web payload secret = hex_string (wb_hmac web secret payload)"

definition sign_params :: "Web \<Rightarrow> params \<Rightarrow> string \<Rightarrow> params" where
  "sign_params web ps secret = set_param ''signature'' (signature web (encode_params ps) secret) ps"

text \<open>Send a request, and read the body of the response; two functions wrap the errors of doing so.\<close>

definition transmit :: "Web \<Rightarrow> (error \<Rightarrow> error) \<Rightarrow> (int \<Rightarrow> error \<Rightarrow> error) \<Rightarrow> HttpRequest \<Rightarrow> (string \<times> int) web" where
  "transmit web call unread r sent = (case wb_answer web (sent @ [r]) of
     Answer status body \<Rightarrow> Inr (body, status) | NoAnswer e \<Rightarrow> Inl (call e) | NoBody status e \<Rightarrow> Inl (unread status e), sent @ [r])"

text \<open>The same after building the request, which fails on a bad address.\<close>

definition send :: "Web \<Rightarrow> (error \<Rightarrow> error) \<Rightarrow> (error \<Rightarrow> error) \<Rightarrow> (int \<Rightarrow> error \<Rightarrow> error) \<Rightarrow> HttpRequest \<Rightarrow> (string \<times> int) web" where
  "send web build call unread r =
     (case wb_bad_url web (hq_URL r) of Some e \<Rightarrow> fail (build e) | None \<Rightarrow> transmit web call unread r)"

text \<open>A request whose parameters are in the query of a GET and in the body of another method.\<close>

definition form_request :: "string \<Rightarrow> string \<Rightarrow> params \<Rightarrow> string \<Rightarrow> HttpRequest" where
  "form_request verb endpoint ps key = \<lparr>hq_Method = verb,
     hq_URL = (if verb = ''GET'' then endpoint @ ''?'' @ encode_params ps else endpoint),
     hq_Body = (if verb = ''GET'' then [] else encode_params ps), hq_APIKey = key\<rparr>"

subsection \<open>What a program sends\<close>

text \<open>At most \<open>n\<close> requests, each of a kind.\<close>

definition sends :: "(HttpRequest \<Rightarrow> bool) \<Rightarrow> nat \<Rightarrow> 'a web \<Rightarrow> bool" where
  "sends P n m = (\<forall>sent. \<exists>rs. snd (m sent) = sent @ rs \<and> length rs \<le> n \<and> list_all P rs)"

named_theorems sends_intros \<open>rules on the requests of a program\<close>

lemma sends_mono: "sends P n m \<Longrightarrow> n \<le> k \<Longrightarrow> sends P k m"
  unfolding sends_def by (meson order.trans)

lemma sends_weaken: "sends P n m \<Longrightarrow> (\<And>r. P r \<Longrightarrow> Q r) \<Longrightarrow> sends Q n m"
  unfolding sends_def by (meson list_all_iff)

lemma sends_give [sends_intros]: "sends P n (give x)" and sends_fail [sends_intros]: "sends P n (fail e)"
  and sends_lift [sends_intros]: "sends P n (lift_web r)"
  by (simp_all add: sends_def give_def fail_def lift_web_def)

lemma sends_after:
  assumes "sends P n m" "\<And>r. sends P k (f r)" shows "sends P (n + k) (after m f)"
  unfolding sends_def
proof
  fix sent
  obtain r sent' where m: "m sent = (r, sent')" by (cases "m sent")
  from assms(1) obtain rs where rs: "sent' = sent @ rs" "length rs \<le> n" "list_all P rs"
    unfolding sends_def using m by (metis snd_conv)
  from assms(2) obtain ts where ts: "snd (f r sent') = sent' @ ts" "length ts \<le> k" "list_all P ts"
    unfolding sends_def by meson
  show "\<exists>us. snd (after m f sent) = sent @ us \<and> length us \<le> n + k \<and> list_all P us"
    by (rule exI [of _ "rs @ ts"]) (use m rs ts in \<open>simp add: after_def\<close>)
qed

lemma sends_then:
  assumes "sends P n m" "\<And>x. sends P k (f x)" shows "sends P (n + k) (then_web m f)"
  unfolding then_web_def
  by (rule sends_after [OF assms(1)]) (auto split: sum.split intro: assms(2) sends_fail)

lemma sends_now [sends_intros]: "(\<And>t. sends P n (f t)) \<Longrightarrow> sends P n (with_now web f)"
  unfolding sends_def with_now_def by meson

lemma sends_transmit: "P r \<Longrightarrow> sends P (Suc 0) (transmit web c d r)"
  by (simp add: sends_def transmit_def)

lemma sends_send: "P r \<Longrightarrow> sends P (Suc 0) (send web b c d r)"
  by (auto simp: send_def intro: sends_transmit sends_fail split: option.split)

lemma web_fst_snd: "m sent = (fst (m sent), snd (m sent))"
  by simp

end
