(* ===== verification/Binance_Futures.thy ===== *)
theory Binance_Futures
  imports Binance_Http
begin

text \<open>
  The client that places and recovers orders on Binance USDT-M futures
  (\<^verbatim>\<open>internal/order/executor/binance.go\<close>): the order contract, the signed request, the result built from
  the exchange's answer, and the trades of an executed order, asked for until they cover the executed quantity.

  Reading a JSON body is an argument (\<open>FuturesJson\<close>), a function from the body to the decoded value or an error.
  Logging of the HTTP client is left out.
\<close>

subsection \<open>Data\<close>

definition binanceLiveBaseURL :: string where "binanceLiveBaseURL = ''https://fapi.binance.com''"
definition binanceTestnetBaseURL :: string where "binanceTestnetBaseURL = ''https://testnet.binancefuture.com''"
definition defaultTradeLookupAttempts :: int where "defaultTradeLookupAttempts = 5"
definition defaultTradeLookupDelay :: duration where "defaultTradeLookupDelay = 250 * millisecond"
definition tradeQtyEpsilon :: float64 where "tradeQtyEpsilon = flit (1 / 10 ^ 12)"
definition binanceGTDMinLead :: duration where "binanceGTDMinLead = 600 * second"

record BinanceExecutor =
  bx_baseURL :: string
  bx_tradeLookupAttempts :: int
  bx_tradeLookupDelay :: duration

definition NewBinanceExecutorWithBaseURL :: "string \<Rightarrow> BinanceExecutor" where
  "NewBinanceExecutorWithBaseURL baseURL = \<lparr>bx_baseURL = trim_slashes (trim_space baseURL),
     bx_tradeLookupAttempts = defaultTradeLookupAttempts, bx_tradeLookupDelay = defaultTradeLookupDelay\<rparr>"

record binanceOrderResponse =
  bor_OrderID :: int
  bor_ClientOrderID :: string
  bor_Symbol :: string
  bor_Side :: string
  bor_OrigQty :: string
  bor_AvgPrice :: string
  bor_ExecutedQty :: string
  bor_Status :: string
  bor_Code :: int
  bor_Msg :: string

record binanceTradeResponse =
  btr_ID :: int
  btr_OrderID :: int
  btr_Price :: string
  btr_Qty :: string
  btr_Commission :: string

record FuturesJson =
  fj_order :: "string \<Rightarrow> binanceOrderResponse result"
  fj_trades :: "string \<Rightarrow> binanceTradeResponse list result"

record OrderTerms =
  ct_OrderType :: string
  ct_TimeInForce :: string
  ct_Price :: "float64 option"
  ct_GoodTillDateMS :: string
  ct_ReduceOnly :: bool

subsection \<open>The order contract\<close>

definition normalizeBinanceOrderSide :: "string \<Rightarrow> string \<Rightarrow> (string \<times> string) result" where
  "normalizeBinanceOrderSide side positionMode =
     (let sideUpper = norm_sym side; m = to_lower (trim_space positionMode); mode = (if m = [] then ''one_way'' else m)
      in if mode = ''one_way'' then
           (if sideUpper = ''BUY'' \<or> sideUpper = ''SELL'' then Inr (sideUpper, [])
            else Inl (Errorf (''unsupported order side for one-way mode: '' @ quote_str side)))
         else if mode = ''hedge'' then Inl (Errorf
           (''hedge position mode is not supported by binance executor: order side '' @ quote_str side @ '' lacks explicit open/close intent''))
         else Inl (Errorf (''unsupported position mode: '' @ quote_str positionMode)))"

definition validateBinanceFuturesGoodTillDate :: "time option \<Rightarrow> time \<Rightarrow> error option" where
  "validateBinanceFuturesGoodTillDate gtd now = (case gtd of
     None \<Rightarrow> Some (Errorf ''gtd limit order requires good_till_date'')
   | Some t \<Rightarrow> if t < now + binanceGTDMinLead then Some (Errorf ''good_till_date must be at least 600s in the future'') else None)"

definition contractType :: "string \<Rightarrow> float64 option \<Rightarrow> string" where
  "contractType orderType price = (let t = norm_sym orderType in
     if t = [] then (if price \<noteq> None then ''LIMIT'' else ''MARKET'') else t)"

definition contractTimeInForce :: "string \<Rightarrow> string" where
  "contractTimeInForce tif = (if norm_sym tif = [] then ''GTC'' else norm_sym tif)"

definition marketChecks :: "float64 option \<Rightarrow> bool \<Rightarrow> string \<Rightarrow> time option \<Rightarrow> error option" where
  "marketChecks price postOnly timeInForce gtd = check_first
     [(price \<noteq> None, Errorf ''market order must not set price''),
      (postOnly, Errorf ''market order must not set post_only''),
      (trim_space timeInForce \<noteq> [], Errorf ''market order must not set time_in_force''),
      (gtd \<noteq> None, Errorf ''market order must not set good_till_date'')]"

definition postOnlyChecks :: "string \<Rightarrow> time option \<Rightarrow> error option" where
  "postOnlyChecks tif gtd = check_first
     [(tif \<in> {''IOC'', ''FOK'', ''GTD''}, Errorf (''post_only cannot be combined with time_in_force='' @ tif)),
      (gtd \<noteq> None, Errorf ''post_only cannot be combined with good_till_date'')]"

definition noPositivePrice :: "float64 option \<Rightarrow> bool" where
  "noPositivePrice price = (case price of None \<Rightarrow> True | Some p \<Rightarrow> p \<le> 0)"

definition normalizeBinanceFuturesOrderContract :: "time \<Rightarrow> OrderRequest \<Rightarrow> OrderTerms result" where
  "normalizeBinanceFuturesOrderContract now req =
     (let orderType = contractType (xq_OrderType req) (xq_Price req) in
      if orderType = ''MARKET'' then
        (case marketChecks (xq_Price req) (xq_PostOnly req) (xq_TimeInForce req) (xq_GoodTillDate req) of
           Some err \<Rightarrow> Inl err
         | None \<Rightarrow> Inr \<lparr>ct_OrderType = ''MARKET'', ct_TimeInForce = [], ct_Price = None, ct_GoodTillDateMS = [], ct_ReduceOnly = xq_ReduceOnly req\<rparr>)
      else if orderType = ''LIMIT'' then
        (let tif = contractTimeInForce (xq_TimeInForce req);
             limit = \<lambda>t ms. \<lparr>ct_OrderType = ''LIMIT'', ct_TimeInForce = t, ct_Price = xq_Price req, ct_GoodTillDateMS = ms, ct_ReduceOnly = xq_ReduceOnly req\<rparr>
         in if noPositivePrice (xq_Price req) then Inl (Errorf ''limit order requires positive price'')
            else if xq_PostOnly req then
              (case postOnlyChecks tif (xq_GoodTillDate req) of Some err \<Rightarrow> Inl err | None \<Rightarrow> Inr (limit ''GTX'' []))
            else if xq_GoodTillDate req \<noteq> None \<and> tif \<noteq> ''GTD'' then Inl (Errorf ''good_till_date requires time_in_force=GTD'')
            else if tif = ''GTC'' \<or> tif = ''IOC'' \<or> tif = ''FOK'' then Inr (limit tif [])
            else if tif = ''GTD'' then
              (case xq_GoodTillDate req of None \<Rightarrow> Inl (Errorf ''gtd limit order requires good_till_date'')
               | Some t \<Rightarrow> (case validateBinanceFuturesGoodTillDate (Some t) now of Some err \<Rightarrow> Inl err | None \<Rightarrow> Inr (limit ''GTD'' (millis t))))
            else Inl (Errorf (''unsupported time_in_force: '' @ tif)))
      else Inl (Errorf (''unsupported order_type: '' @ orderType)))"

subsection \<open>Requests\<close>

definition futuresRequest :: "Web \<Rightarrow> BinanceExecutor \<Rightarrow> string \<Rightarrow> string \<Rightarrow> params \<Rightarrow> Meta \<Rightarrow> (string \<times> int) web" where
  "futuresRequest web e verb path ps meta = send web (Wrapf ''build request: '') id (\<lambda>_. Wrapf ''read body: '')
     (form_request verb (bx_baseURL e @ path) (sign_params web ps (me_APISecret meta)) (me_APIKey meta))"

definition orderParams :: "OrderRequest \<Rightarrow> string \<Rightarrow> string \<Rightarrow> OrderTerms \<Rightarrow> time \<Rightarrow> params" where
  "orderParams req side positionSide contract now =
     (let ps = set_param ''side'' side (set_param ''symbol'' (to_upper (xq_Symbol req)) []);
          ps = set_param ''type'' (ct_OrderType contract) (set_if (positionSide \<noteq> []) ''positionSide'' positionSide ps);
          ps = set_if (ct_TimeInForce contract \<noteq> []) ''timeInForce'' (ct_TimeInForce contract) ps;
          ps = (case ct_Price contract of None \<Rightarrow> ps | Some p \<Rightarrow> set_param ''price'' (format_float p) ps);
          ps = set_if (ct_GoodTillDateMS contract \<noteq> []) ''goodTillDate'' (ct_GoodTillDateMS contract) ps;
          ps = set_if (ct_ReduceOnly contract) ''reduceOnly'' ''true'' ps;
          ps = set_param ''quantity'' (format_float (xq_Qty req)) (set_param ''newOrderRespType'' ''RESULT'' ps);
          ps = set_if (trim_space (xq_ClientOrderID req) \<noteq> []) ''newClientOrderId'' (trim_space (xq_ClientOrderID req)) ps
      in set_param ''timestamp'' (millis now) ps)"

definition http_error :: "int \<Rightarrow> string \<Rightarrow> string" where
  "http_error status body = ''HTTP '' @ show_int status @ '': '' @ body"

definition binance_error :: "int \<Rightarrow> string \<Rightarrow> string" where
  "binance_error code msg = ''binance error '' @ show_int code @ '': '' @ msg"

definition isBinanceOrderNotFound :: "string \<Rightarrow> bool" where
  "isBinanceOrderNotFound body = (let t = to_lower body in
     contains_str t ''order does not exist'' \<or> contains_str t ([CHR 0x22] @ ''code'' @ [CHR 0x22] @ '':-2013''))"

definition price_or_zero :: "float64 option \<Rightarrow> float64" where
  "price_or_zero price = (case price of None \<Rightarrow> 0 | Some p \<Rightarrow> p)"

definition failed :: "OrderRequest \<Rightarrow> string \<Rightarrow> OrderResult" where
  "failed req msg = zero_OrderResult\<lparr>xr_Symbol := xq_Symbol req, xr_Side := xq_Side req, xr_Status := ''FAILED'',
     xr_ClientOrderID := xq_ClientOrderID req, xr_OrderType := xq_OrderType req, xr_TimeInForce := xq_TimeInForce req,
     xr_OrigQty := \<bar>xq_Qty req\<bar>, xr_ExecutedQty := 0, xr_RemainingQty := \<bar>xq_Qty req\<bar>, xr_ErrorMessage := msg,
     xr_Price := price_or_zero (xq_Price req)\<rparr>"

subsection \<open>Trades\<close>

definition totalFillQty :: "FillResult list \<Rightarrow> float64" where
  "totalFillQty fills = foldl (\<lambda>total fill. total + \<bar>fl_Qty fill\<bar>) 0 fills"

definition parse_field :: "string \<Rightarrow> string \<Rightarrow> float64 result" where
  "parse_field what s = (case ParseFloat s of Inl _ \<Rightarrow> Inl (Errorf (''invalid '' @ what @ '': '' @ quote_str s)) | Inr x \<Rightarrow> Inr x)"

definition tradeFill :: "binanceTradeResponse \<Rightarrow> FillResult result" where
  "tradeFill trade = bind_result (parse_field ''trade qty'' (btr_Qty trade)) (\<lambda>qty.
     bind_result (parse_field ''trade price'' (btr_Price trade)) (\<lambda>price.
     bind_result (parse_field ''trade commission'' (btr_Commission trade)) (\<lambda>fee.
     Inr \<lparr>fl_ExchangeTradeID = show_int (btr_ID trade), fl_Qty = qty, fl_FillPrice = price, fl_Fee = fee, fl_FeeMissing = False\<rparr>)))"

primrec each_result :: "('a \<Rightarrow> 'b result) \<Rightarrow> 'a list \<Rightarrow> 'b list result" where
  "each_result f [] = Inr []"
| "each_result f (x # xs) = bind_result (f x) (\<lambda>y. bind_result (each_result f xs) (\<lambda>ys. Inr (y # ys)))"

definition queryTrades :: "Web \<Rightarrow> FuturesJson \<Rightarrow> BinanceExecutor \<Rightarrow> string \<Rightarrow> int \<Rightarrow> Meta \<Rightarrow> FillResult list web" where
  "queryTrades web js e symbol orderID meta =
     (if orderID = 0 then give []
      else with_now web (\<lambda>now.
        then_web (futuresRequest web e ''GET'' ''/fapi/v1/userTrades''
          (set_param ''timestamp'' (millis now) (set_param ''orderId'' (show_int orderID) (set_param ''symbol'' symbol []))) meta)
        (\<lambda>(body, status). lift_web
          (if status \<noteq> 200 then Inl (Errorf (http_error status body))
           else case fj_trades js body of Inl err \<Rightarrow> Inl (Wrapf ''parse trades response: '' err)
             | Inr trades \<Rightarrow> each_result tradeFill trades))))"

definition incompleteTrades :: "float64 \<Rightarrow> string \<Rightarrow> error" where
  "incompleteTrades executedQty tradeQty =
     Errorf (''incomplete trade details: executed_qty='' @ format_g executedQty @ '' trade_qty='' @ tradeQty)"

text \<open>A wait ends with the context's error, or lets the next attempt go on.\<close>

definition wait_for :: "Web \<Rightarrow> bool \<Rightarrow> unit web" where
  "wait_for web b sent = (if b then (case wb_wait web sent of Some err \<Rightarrow> (Inl err, sent) | None \<Rightarrow> (Inr (), sent)) else (Inr (), sent))"

text \<open>The attempts left, the error of the last one.\<close>

primrec tradeAttempts :: "Web \<Rightarrow> FillResult list web \<Rightarrow> duration \<Rightarrow> float64 \<Rightarrow> nat \<Rightarrow> error \<Rightarrow> FillResult list web" where
  "tradeAttempts web ask delay executedQty 0 lastErr = fail lastErr"
| "tradeAttempts web ask delay executedQty (Suc n) lastErr =
     after ask (\<lambda>answer.
       case bind_result answer (\<lambda>fills. if executedQty \<le> totalFillQty fills + tradeQtyEpsilon then Inr fills
           else Inl (incompleteTrades executedQty (format_g (totalFillQty fills)))) of
         Inr fills \<Rightarrow> give fills
       | Inl err \<Rightarrow> then_web (wait_for web (0 < n \<and> 0 < delay)) (\<lambda>_. tradeAttempts web ask delay executedQty n err))"

definition tradeLookupRetry :: "BinanceExecutor \<Rightarrow> int \<times> duration" where
  "tradeLookupRetry e = (if bx_tradeLookupAttempts e \<le> 0 then defaultTradeLookupAttempts else bx_tradeLookupAttempts e,
     if bx_tradeLookupDelay e < 0 then 0 else bx_tradeLookupDelay e)"

definition queryTradesUntilComplete :: "Web \<Rightarrow> FuturesJson \<Rightarrow> BinanceExecutor \<Rightarrow> string \<Rightarrow> int \<Rightarrow> float64 \<Rightarrow> Meta \<Rightarrow> FillResult list web" where
  "queryTradesUntilComplete web js e symbol orderID executedQty meta =
     (case tradeLookupRetry e of (attempts, delay) \<Rightarrow>
        tradeAttempts web (queryTrades web js e symbol orderID meta) delay executedQty (nat attempts)
          (incompleteTrades executedQty ''0''))"

subsection \<open>Results\<close>

definition nonEmptyStr :: "string \<Rightarrow> string \<Rightarrow> string" where
  "nonEmptyStr primary fallback = (if trim_space primary \<noteq> [] then primary else fallback)"

definition confirmedResult :: "binanceOrderResponse \<Rightarrow> OrderRequest \<Rightarrow> float64 \<Rightarrow> FillResult list result \<Rightarrow> OrderResult" where
  "confirmedResult resp req executedQty trades =
     (let fillPrice = (case ParseFloat (bor_AvgPrice resp) of Inl _ \<Rightarrow> xq_MarkPrice req
            | Inr p \<Rightarrow> if feq p 0 then xq_MarkPrice req else p);
          origQty = (case ParseFloat (bor_OrigQty resp) of Inl _ \<Rightarrow> \<bar>xq_Qty req\<bar> | Inr q \<Rightarrow> if q \<le> 0 then \<bar>xq_Qty req\<bar> else q);
          remainingQty = (if origQty - executedQty < 0 then 0 else origQty - executedQty);
          status = norm_sym (bor_Status resp)
      in \<lparr>xr_ExchangeOrderID = show_int (bor_OrderID resp),
          xr_ClientOrderID = nonEmptyStr (bor_ClientOrderID resp) (xq_ClientOrderID req),
          xr_Symbol = nonEmptyStr (bor_Symbol resp) (xq_Symbol req), xr_Side = nonEmptyStr (bor_Side resp) (xq_Side req),
          xr_OrderType = norm_sym (xq_OrderType req), xr_TimeInForce = norm_sym (xq_TimeInForce req),
          xr_Status = (if status = [] then ''NEW'' else status), xr_OrigQty = origQty, xr_ExecutedQty = executedQty,
          xr_RemainingQty = remainingQty, xr_AvgPrice = fillPrice, xr_Price = price_or_zero (xq_Price req),
          xr_Fills = (case trades of Inl _ \<Rightarrow> [] | Inr fills \<Rightarrow> fills),
          xr_ErrorMessage = (case trades of Inl err \<Rightarrow> ''binance trade fee data not available after confirmed execution: '' @ err_text err
            | Inr _ \<Rightarrow> []),
          xr_FillPending = (case trades of Inl _ \<Rightarrow> True | Inr _ \<Rightarrow> False)\<rparr>)"

definition orderResultFromResponse :: "Web \<Rightarrow> FuturesJson \<Rightarrow> BinanceExecutor \<Rightarrow> binanceOrderResponse \<Rightarrow> OrderRequest \<Rightarrow> Meta \<Rightarrow> OrderResult web" where
  "orderResultFromResponse web js e resp req meta =
     (case parse_field ''executed quantity'' (bor_ExecutedQty resp) of
        Inl err \<Rightarrow> fail err
      | Inr executedQty \<Rightarrow>
          if executedQty < 0 then fail (Errorf (''invalid executed quantity: '' @ quote_str (bor_ExecutedQty resp)))
          else if 0 < executedQty
            then after (queryTradesUntilComplete web js e (to_upper (xq_Symbol req)) (bor_OrderID resp) executedQty meta)
              (\<lambda>trades. give (confirmedResult resp req executedQty trades))
          else give (confirmedResult resp req executedQty (Inr [])))"

definition placedResult :: "Web \<Rightarrow> FuturesJson \<Rightarrow> BinanceExecutor \<Rightarrow> OrderRequest \<Rightarrow> Meta \<Rightarrow> string \<Rightarrow> int \<Rightarrow> OrderResult web" where
  "placedResult web js e req meta body status =
     (if status \<noteq> 200 then give (failed req (http_error status body))
      else case fj_order js body of Inl err \<Rightarrow> fail (Wrapf ''parse response: '' err)
        | Inr resp \<Rightarrow>
            if bor_Code resp \<noteq> 0 then give (failed req (binance_error (bor_Code resp) (bor_Msg resp)))
            else after (orderResultFromResponse web js e resp req meta)
              (\<lambda>r. case r of Inl err \<Rightarrow> give (failed req (err_text err)) | Inr result \<Rightarrow> give result))"

definition Execute :: "Web \<Rightarrow> FuturesJson \<Rightarrow> BinanceExecutor \<Rightarrow> OrderRequest \<Rightarrow> Meta \<Rightarrow> OrderResult web" where
  "Execute web js e req meta = with_now web (\<lambda>now.
     case bind_result (normalizeBinanceOrderSide (xq_Side req) (me_PositionMode meta)) (\<lambda>(side, positionSide).
       bind_result (normalizeBinanceFuturesOrderContract now req) (\<lambda>contract. Inr (side, positionSide, contract))) of
       Inl err \<Rightarrow> give (failed req (err_text err))
     | Inr (side, positionSide, contract) \<Rightarrow>
         then_web (futuresRequest web e ''POST'' ''/fapi/v1/order'' (orderParams req side positionSide contract now) meta)
           (\<lambda>(body, status). placedResult web js e req meta body status))"

definition recoveryParams :: "RecoveryRequest \<Rightarrow> time \<Rightarrow> params option" where
  "recoveryParams req now =
     (let ps = set_param ''symbol'' (to_upper (rr_Symbol req)) [];
          client = trim_space (rr_ClientOrderID req); exchange = trim_space (rr_ExchangeOrderID req)
      in if client \<noteq> [] then Some (set_param ''timestamp'' (millis now) (set_param ''origClientOrderId'' client ps))
         else if exchange \<noteq> [] then Some (set_param ''timestamp'' (millis now) (set_param ''orderId'' exchange ps))
         else None)"

definition zero_OrderRequest :: OrderRequest where
  "zero_OrderRequest = \<lparr>xq_AccountID = 0, xq_Exchange = 0, xq_Market = 0, xq_Symbol = [], xq_Side = [], xq_PositionSide = 0, xq_OrderType = [],
     xq_TimeInForce = [], xq_PostOnly = False, xq_GoodTillDate = None, xq_ReduceOnly = False, xq_Qty = 0, xq_Price = None, xq_MarkPrice = 0,
     xq_ClientOrderID = []\<rparr>"

definition recoveredOrder :: "Web \<Rightarrow> FuturesJson \<Rightarrow> BinanceExecutor \<Rightarrow> RecoveryRequest \<Rightarrow> Meta \<Rightarrow> string \<Rightarrow> int \<Rightarrow> OrderResult web" where
  "recoveredOrder web js e req meta body status =
     (if status \<noteq> 200 then fail (if isBinanceOrderNotFound body then ErrOrderNotFound else Errorf (http_error status body))
      else case fj_order js body of Inl err \<Rightarrow> fail (Wrapf ''parse response: '' err)
        | Inr resp \<Rightarrow>
            if bor_Code resp \<noteq> 0
              then fail (if isBinanceOrderNotFound body then ErrOrderNotFound else Errorf (binance_error (bor_Code resp) (bor_Msg resp)))
            else orderResultFromResponse web js e resp (zero_OrderRequest\<lparr>xq_AccountID := rr_AccountID req,
              xq_Symbol := rr_Symbol req, xq_ClientOrderID := rr_ClientOrderID req\<rparr>) meta)"

definition Resolve :: "Web \<Rightarrow> FuturesJson \<Rightarrow> BinanceExecutor \<Rightarrow> RecoveryRequest \<Rightarrow> Meta \<Rightarrow> OrderResult web" where
  "Resolve web js e req meta = with_now web (\<lambda>now. case recoveryParams req now of
     None \<Rightarrow> fail ErrOrderNotFound
   | Some ps \<Rightarrow> then_web (futuresRequest web e ''GET'' ''/fapi/v1/order'' ps meta)
       (\<lambda>(body, status). recoveredOrder web js e req meta body status))"

end
