(* ===== verification/Binance_Adapter.thy ===== *)
theory Binance_Adapter
  imports Binance_Futures
begin

text \<open>
  The Binance implementation of the exchange adapter (\<^verbatim>\<open>internal/exchange/binance\<close>): credentials, endpoints,
  order capabilities, the contract of an order, the spot client, the simulated executor of backtests, the
  canceller, symbol rules, and the factory that hands them out by route.

  As in \<open>Binance_Futures\<close>, reading JSON is an argument (\<open>SpotJson\<close>).  Environment variables are a function.
\<close>

subsection \<open>Credentials\<close>

record BinanceCredential = ParsedCredential +
  cr_Metadata :: "string \<rightharpoonup> string"

definition ErrInvalidCredential :: error where "ErrInvalidCredential = Sentinel ''invalid_binance_credential''"

definition invalid_credential :: "string \<Rightarrow> error" where
  "invalid_credential why = Unwrapping (err_text ErrInvalidCredential @ '': '' @ why) ErrInvalidCredential"

primrec firstString :: "(string \<times> JsonValue) list \<Rightarrow> string list \<Rightarrow> string" where
  "firstString payload [] = []"
| "firstString payload (key # keys) = (case map_of payload key of
     Some (JsonText v) \<Rightarrow> if trim_space v \<noteq> [] then trim_space v else firstString payload keys
   | _ \<Rightarrow> firstString payload keys)"

definition ValidateCredential :: "(string \<Rightarrow> (string \<times> JsonValue) list option result) \<Rightarrow> Route \<Rightarrow> string \<Rightarrow> BinanceCredential result" where
  "ValidateCredential unmarshal route raw = (case unmarshal raw of
     Inl err \<Rightarrow> Inl (invalid_credential (''decode json: '' @ err_text err))
   | Inr decoded \<Rightarrow>
       let payload = (case decoded of None \<Rightarrow> [] | Some p \<Rightarrow> p);
           apiKey = firstString payload [''api_key'', ''key'', ''apiKey''];
           apiSecret = firstString payload [''api_secret'', ''secret'', ''secret_key'', ''apiSecret'']
       in if apiKey = [] then Inl (invalid_credential ''missing api_key'')
          else if apiSecret = [] then Inl (invalid_credential ''missing api_secret'')
          else Inr \<lparr>cr_Exchange = rt_Exchange route, cr_Environment = rt_Environment route, cr_Raw = raw,
            cr_Metadata = [''api_key'' \<mapsto> apiKey, ''api_secret'' \<mapsto> apiSecret]\<rparr>)"

definition metadata :: "BinanceCredential \<Rightarrow> string \<Rightarrow> string" where
  "metadata c k = (case cr_Metadata c k of None \<Rightarrow> [] | Some v \<Rightarrow> v)"

subsection \<open>Endpoints\<close>

record Endpoints =
  ep_RESTBaseURL :: string
  ep_WSBaseURL :: string

definition defaultEndpoints :: "Route \<Rightarrow> Endpoints" where
  "defaultEndpoints route =
     (if rt_Market route = MarketSpot then
        (if rt_Environment route = EnvironmentDemo
           then \<lparr>ep_RESTBaseURL = ''https://demo-api.binance.com'', ep_WSBaseURL = ''wss://testnet.binance.vision''\<rparr>
           else \<lparr>ep_RESTBaseURL = ''https://api.binance.com'', ep_WSBaseURL = ''wss://stream.binance.com:9443''\<rparr>)
      else if rt_Market route = MarketPerpetualFutures then
        (if rt_Environment route = EnvironmentLive
           then \<lparr>ep_RESTBaseURL = ''https://fapi.binance.com'', ep_WSBaseURL = ''wss://fstream.binance.com''\<rparr>
           else \<lparr>ep_RESTBaseURL = ''https://demo-fapi.binance.com'', ep_WSBaseURL = ''wss://stream.binancefuture.com''\<rparr>)
      else \<lparr>ep_RESTBaseURL = [], ep_WSBaseURL = []\<rparr>)"

definition envOrDefault :: "(string \<Rightarrow> string) \<Rightarrow> string \<Rightarrow> string \<Rightarrow> string" where
  "envOrDefault getenv key fallback = (let v = trim_space (getenv key) in trim_slashes (if v = [] then fallback else v))"

definition EndpointsFromEnv :: "(string \<Rightarrow> string) \<Rightarrow> Route \<Rightarrow> Endpoints" where
  "EndpointsFromEnv getenv route =
     (let d = defaultEndpoints route;
          from = \<lambda>rest ws. \<lparr>ep_RESTBaseURL = envOrDefault getenv rest (ep_RESTBaseURL d), ep_WSBaseURL = envOrDefault getenv ws (ep_WSBaseURL d)\<rparr>
      in if rt_Market route = MarketSpot then from ''BINANCE_SPOT_REST_BASE_URL'' ''BINANCE_SPOT_WS_BASE_URL''
         else if rt_Market route = MarketPerpetualFutures then from ''BINANCE_FUTURES_REST_BASE_URL'' ''BINANCE_FUTURES_WS_BASE_URL''
         else d)"

definition NewFactoryWithEndpoints :: "(string \<Rightarrow> string) \<Rightarrow> Route \<Rightarrow> Endpoints \<Rightarrow> Endpoints" where
  "NewFactoryWithEndpoints getenv route ep =
     (let d = EndpointsFromEnv getenv route
      in \<lparr>ep_RESTBaseURL = (if ep_RESTBaseURL ep = [] then ep_RESTBaseURL d else ep_RESTBaseURL ep),
          ep_WSBaseURL = (if ep_WSBaseURL ep = [] then ep_WSBaseURL d else ep_WSBaseURL ep)\<rparr>)"

subsection \<open>Capabilities and the order contract\<close>

definition BinanceOrderCapability :: "Route \<Rightarrow> OrderCapability result" where
  "BinanceOrderCapability route =
     (let base = \<lparr>cap_Market = rt_Market route, cap_OrderTypes = [''MARKET'', ''LIMIT''], cap_TimeInForce = [''GTC'', ''IOC'', ''FOK''],
            cap_SupportsPostOnly = True, cap_SupportsGTD = False, cap_SupportsReduceOnly = True\<rparr>
      in if rt_Market route = MarketSpot then Inr base
         else if rt_Market route = MarketPerpetualFutures then
           Inr (if rt_Environment route \<noteq> EnvironmentBacktest
                then base\<lparr>cap_TimeInForce := cap_TimeInForce base @ [''GTD''], cap_SupportsGTD := True\<rparr> else base)
         else Inl (CapabilityUnsupported ''order_capability_provider''))"

definition validateBinanceGoodTillDate :: "time option \<Rightarrow> time \<Rightarrow> error option" where
  "validateBinanceGoodTillDate gtd now = (case gtd of
     None \<Rightarrow> Some (Errorf ''gtd limit order requires good_till_date'')
   | Some t \<Rightarrow> if t < now + binanceGTDMinLead then Some (Errorf ''good_till_date must be at least 600s in the future'') else None)"

definition normalizeBinanceOrderContract :: "time \<Rightarrow> AdapterOrderRequest \<Rightarrow> int \<Rightarrow> bool \<Rightarrow> OrderTerms result" where
  "normalizeBinanceOrderContract now req market supports =
     (let orderType = contractType (aq_OrderType req) (aq_Price req);
          futuresReduce = (market = MarketPerpetualFutures \<and> aq_ReduceOnly req)
      in if market = MarketSpot \<and> aq_ReduceOnly req \<and> equal_fold (trim_space (aq_Side req)) ''BUY''
         then Inl (Errorf ''spot reduce_only BUY is unsupported'')
      else if orderType = ''MARKET'' then
        (case marketChecks (aq_Price req) (aq_PostOnly req) (aq_TimeInForce req) (aq_GoodTillDate req) of
           Some err \<Rightarrow> Inl err
         | None \<Rightarrow> Inr \<lparr>ct_OrderType = ''MARKET'', ct_TimeInForce = [], ct_Price = None, ct_GoodTillDateMS = [], ct_ReduceOnly = futuresReduce\<rparr>)
      else if orderType = ''LIMIT'' then
        (let tif = contractTimeInForce (aq_TimeInForce req);
             limit = \<lambda>t ms red. \<lparr>ct_OrderType = ''LIMIT'', ct_TimeInForce = t, ct_Price = aq_Price req, ct_GoodTillDateMS = ms, ct_ReduceOnly = red\<rparr>
         in if noPositivePrice (aq_Price req) then Inl (Errorf ''limit order requires positive price'')
            else if aq_PostOnly req then
              (case postOnlyChecks tif (aq_GoodTillDate req) of Some err \<Rightarrow> Inl err
               | None \<Rightarrow> Inr (if market = MarketSpot then (limit [] [] False)\<lparr>ct_OrderType := ''LIMIT_MAKER''\<rparr> else limit ''GTX'' [] futuresReduce))
            else if aq_GoodTillDate req \<noteq> None \<and> tif \<noteq> ''GTD'' then Inl (Errorf ''good_till_date requires time_in_force=GTD'')
            else if tif = ''GTC'' \<or> tif = ''IOC'' \<or> tif = ''FOK'' then Inr (limit tif [] futuresReduce)
            else if tif = ''GTD'' then
              (if market = MarketSpot \<or> \<not> supports
               then Inl (Errorf (''binance '' @ Market_String market @ '' does not support time_in_force=GTD''))
               else case aq_GoodTillDate req of None \<Rightarrow> Inl (Errorf ''gtd limit order requires good_till_date'')
                 | Some t \<Rightarrow> (case validateBinanceGoodTillDate (Some t) now of Some err \<Rightarrow> Inl err
                     | None \<Rightarrow> Inr (limit ''GTD'' (millis t) (aq_ReduceOnly req))))
            else Inl (Errorf (''unsupported time_in_force: '' @ tif)))
      else Inl (Errorf (''unsupported order_type: '' @ orderType)))"

subsection \<open>Results and conversions\<close>

definition binanceFirstNonEmpty :: "string list \<Rightarrow> string" where
  "binanceFirstNonEmpty vs = (case filter (\<lambda>v. v \<noteq> []) (map trim_space vs) of [] \<Rightarrow> [] | v # _ \<Rightarrow> v)"

definition zero_AdapterOrderResult :: AdapterOrderResult where
  "zero_AdapterOrderResult = \<lparr>ar_ExchangeOrderID = [], ar_ClientOrderID = [], ar_Symbol = [], ar_Side = [], ar_PositionSide = [], ar_OrderType = [],
     ar_TimeInForce = [], ar_Status = [], ar_OrigQty = 0, ar_ExecutedQty = 0, ar_RemainingQty = 0, ar_AvgPrice = 0, ar_Price = 0,
     ar_Fills = [], ar_ErrorMessage = [], ar_FillPending = False\<rparr>"

definition failedAdapterOrder :: "AdapterOrderRequest \<Rightarrow> string \<Rightarrow> AdapterOrderResult" where
  "failedAdapterOrder req message = zero_AdapterOrderResult\<lparr>ar_ClientOrderID := trim_space (aq_ClientOrderID req),
     ar_Symbol := norm_sym (aq_Symbol req), ar_Side := norm_sym (aq_Side req), ar_PositionSide := aq_PositionSide req,
     ar_OrderType := norm_sym (aq_OrderType req), ar_TimeInForce := norm_sym (aq_TimeInForce req), ar_Status := ''FAILED'',
     ar_OrigQty := \<bar>aq_Qty req\<bar>, ar_RemainingQty := \<bar>aq_Qty req\<bar>, ar_Price := price_or_zero (aq_Price req), ar_ErrorMessage := message\<rparr>"

definition binanceOrderSide :: "string \<Rightarrow> string result" where
  "binanceOrderSide side = (let normalized = norm_sym side in
     if normalized = ''BUY'' \<or> normalized = ''SELL'' then Inr normalized
     else Inl (Errorf (''unsupported order side: '' @ quote_str side)))"

definition positionSideCode :: "string \<Rightarrow> int" where
  "positionSideCode positionSide = (let s = norm_sym positionSide in if s = ''LONG'' then 1 else if s = ''SHORT'' then 2 else 0)"

definition binancePositionModeText :: "int \<Rightarrow> string" where
  "binancePositionModeText mode = (if mode = PositionModeHedge then ''hedge'' else ''one_way'')"

definition binanceMarginModeText :: "int \<Rightarrow> string" where
  "binanceMarginModeText mode = (if mode = MarginModeCross then ''cross'' else if mode = MarginModeIsolated then ''isolated'' else [])"

definition toLegacyOrderRequest :: "AdapterOrderRequest \<Rightarrow> OrderRequest" where
  "toLegacyOrderRequest req = \<lparr>xq_AccountID = aq_AccountID req, xq_Exchange = aq_Exchange req, xq_Market = aq_Market req,
     xq_Symbol = aq_Symbol req, xq_Side = aq_Side req, xq_PositionSide = positionSideCode (aq_PositionSide req),
     xq_OrderType = aq_OrderType req, xq_TimeInForce = aq_TimeInForce req, xq_PostOnly = aq_PostOnly req,
     xq_GoodTillDate = aq_GoodTillDate req, xq_ReduceOnly = aq_ReduceOnly req, xq_Qty = aq_Qty req, xq_Price = aq_Price req,
     xq_MarkPrice = aq_MarkPrice req, xq_ClientOrderID = aq_ClientOrderID req\<rparr>"

definition toAccountMeta :: "AdapterOrderRequest \<Rightarrow> BinanceCredential \<Rightarrow> Meta" where
  "toAccountMeta req cred = \<lparr>me_AccountID = aq_AccountID req, me_VenueID = aq_VenueID req, me_UserID = aq_UserID req,
     me_Environment = aq_Environment req, me_Exchange = aq_Exchange req, me_Market = aq_Market req,
     me_MarginMode = binanceMarginModeText (aq_MarginMode req), me_PositionMode = binancePositionModeText (aq_PositionMode req),
     me_APIKey = metadata cred ''api_key'', me_APISecret = metadata cred ''api_secret'', me_CredentialJSON = cr_Raw cred,
     me_DefaultFeeRate = 0, me_SlippageBps = 0\<rparr>"

definition legacyFill :: "string \<Rightarrow> FillResult \<Rightarrow> FillDelta" where
  "legacyFill symbol fill = zero_FillDelta\<lparr>fd_ExchangeTradeID := fl_ExchangeTradeID fill, fd_Symbol := symbol, fd_Qty := fl_Qty fill,
     fd_FillPrice := fl_FillPrice fill, fd_Fee := fl_Fee fill, fd_FeeMissing := fl_FeeMissing fill\<rparr>"

definition fromLegacyOrderResult :: "OrderResult \<Rightarrow> AdapterOrderResult" where
  "fromLegacyOrderResult result = \<lparr>ar_ExchangeOrderID = xr_ExchangeOrderID result, ar_ClientOrderID = xr_ClientOrderID result,
     ar_Symbol = xr_Symbol result, ar_Side = xr_Side result, ar_PositionSide = [], ar_OrderType = xr_OrderType result,
     ar_TimeInForce = xr_TimeInForce result, ar_Status = xr_Status result, ar_OrigQty = xr_OrigQty result,
     ar_ExecutedQty = xr_ExecutedQty result, ar_RemainingQty = xr_RemainingQty result, ar_AvgPrice = xr_AvgPrice result,
     ar_Price = xr_Price result, ar_Fills = map (legacyFill (xr_Symbol result)) (xr_Fills result),
     ar_ErrorMessage = xr_ErrorMessage result, ar_FillPending = xr_FillPending result\<rparr>"

subsection \<open>The spot client\<close>

record spotFill =
  sf_Price :: string
  sf_Qty :: string
  sf_Commission :: string
  sf_CommissionAsset :: string
  sf_TradeID :: string

record spotOrderResponse =
  so_OrderID :: int
  so_ClientOrderID :: string
  so_Symbol :: string
  so_Side :: string
  so_Type :: string
  so_TimeInForce :: string
  so_Price :: string
  so_OrigQty :: string
  so_ExecutedQty :: string
  so_CummulativeQuoteQty :: string
  so_Status :: string
  so_Time :: int
  so_UpdateTime :: int
  so_Code :: int
  so_Msg :: string
  so_Fills :: "spotFill list"

record spotTradeResponse =
  st_ID :: int
  st_OrderID :: int
  st_Price :: string
  st_Qty :: string
  st_Commission :: string
  st_CommissionAsset :: string
  st_Time :: int

record cancelOrderResponse =
  co_OrderID :: int
  co_ClientOrderID :: string
  co_Symbol :: string
  co_Status :: string
  co_Code :: int
  co_Msg :: string

record exchangeInfoFilter =
  xf_FilterType :: string
  xf_TickSize :: string
  xf_StepSize :: string
  xf_MinQty :: string
  xf_MinNotional :: string
  xf_MinNotionalAlt :: string

record exchangeInfoSymbol =
  xs_Symbol :: string
  xs_Filters :: "exchangeInfoFilter list"

record SpotJson =
  sj_order :: "string \<Rightarrow> spotOrderResponse result"
  sj_trades :: "string \<Rightarrow> spotTradeResponse list result"
  sj_cancel :: "string \<Rightarrow> cancelOrderResponse result"
  sj_info :: "string \<Rightarrow> exchangeInfoSymbol list result"
  sj_int :: "string \<Rightarrow> int option"
  sj_text :: "string \<Rightarrow> string option"

definition spotFillQtyEpsilon :: float64 where "spotFillQtyEpsilon = flit (1 / 10 ^ 12)"

definition parseFloatOrDefault :: "string \<Rightarrow> float64 \<Rightarrow> float64" where
  "parseFloatOrDefault raw fallback = (case ParseFloat (trim_space raw) of Inl _ \<Rightarrow> fallback | Inr v \<Rightarrow> v)"

definition parseStrictPositiveFloat :: "string \<Rightarrow> string \<Rightarrow> float64 result" where
  "parseStrictPositiveFloat raw what = (case ParseFloat (trim_space raw) of Inl _ \<Rightarrow> Inl (Errorf (''invalid '' @ what))
     | Inr v \<Rightarrow> if v \<le> 0 then Inl (Errorf (''invalid '' @ what)) else Inr v)"

definition parseStrictNonNegativeFloat :: "string \<Rightarrow> string \<Rightarrow> float64 result" where
  "parseStrictNonNegativeFloat raw what = (case ParseFloat (trim_space raw) of Inl _ \<Rightarrow> Inl (Errorf (''invalid '' @ what))
     | Inr v \<Rightarrow> if v < 0 then Inl (Errorf (''invalid '' @ what)) else Inr v)"

definition parseSpotTradeID :: "SpotJson \<Rightarrow> string \<Rightarrow> int result" where
  "parseSpotTradeID js raw =
     (let invalid = Inl (Errorf ''invalid spot fill trade_id'') in
      if raw = [] \<or> raw = ''null'' then invalid
      else case sj_int js raw of Some n \<Rightarrow> if 0 < n then Inr n else invalid
        | None \<Rightarrow> (case sj_text js raw of None \<Rightarrow> invalid
            | Some t \<Rightarrow> (case ParseInt (trim_space t) of Inl _ \<Rightarrow> invalid | Inr n \<Rightarrow> if 0 < n then Inr n else invalid)))"

definition spotFillDelta :: "SpotJson \<Rightarrow> time \<Rightarrow> string \<Rightarrow> string \<Rightarrow> spotFill \<Rightarrow> FillDelta result" where
  "spotFillDelta js now symbol exchangeOrderID fill =
     bind_result (parseSpotTradeID js (sf_TradeID fill)) (\<lambda>tradeID.
     bind_result (parseStrictPositiveFloat (sf_Qty fill) ''spot fill qty'') (\<lambda>qty.
     bind_result (parseStrictPositiveFloat (sf_Price fill) ''spot fill price'') (\<lambda>price.
     bind_result (parseStrictNonNegativeFloat (sf_Commission fill) ''spot fill commission'') (\<lambda>fee.
     Inr (zero_FillDelta\<lparr>fd_ExchangeTradeID := show_int tradeID, fd_ExchangeOrderID := exchangeOrderID, fd_Symbol := symbol,
       fd_Qty := qty, fd_FillPrice := price, fd_Fee := fee, fd_FeeAsset := sf_CommissionAsset fill, fd_TradeTime := now\<rparr>)))))"

definition spotFills :: "SpotJson \<Rightarrow> time \<Rightarrow> spotOrderResponse \<Rightarrow> string \<Rightarrow> FillDelta list result" where
  "spotFills js now raw exchangeOrderID = each_result (spotFillDelta js now (so_Symbol raw) exchangeOrderID) (so_Fills raw)"

definition spotFillQty :: "FillDelta list \<Rightarrow> float64" where
  "spotFillQty fills = foldl (\<lambda>q fill. q + \<bar>fd_Qty fill\<bar>) 0 fills"

definition spotFillResult :: "SpotJson \<Rightarrow> time \<Rightarrow> spotOrderResponse \<Rightarrow> string \<Rightarrow> float64 \<Rightarrow> FillDelta list \<times> bool \<times> string" where
  "spotFillResult js now raw exchangeOrderID executedQty =
     (if executedQty \<le> 0 then ([], False, [])
      else if so_Fills raw = [] then ([], True, ''missing spot fills for executed order'')
      else case spotFills js now raw exchangeOrderID of
        Inl err \<Rightarrow> ([], True, err_text err)
      | Inr fills \<Rightarrow>
          let quantities = ''executed_qty='' @ format_g executedQty @ '' fill_qty='' @ format_g (spotFillQty fills) in
          if spotFillQty fills + spotFillQtyEpsilon < executedQty then ([], True, ''incomplete spot fills: '' @ quantities)
          else if executedQty + spotFillQtyEpsilon < spotFillQty fills then ([], True, ''excessive spot fills: '' @ quantities)
          else (fills, False, []))"

definition spotOrderLooksExecuted :: "spotOrderResponse \<Rightarrow> bool" where
  "spotOrderLooksExecuted raw = (let status = norm_sym (so_Status raw) in
     status = ''FILLED'' \<or> status = ''PARTIALLY_FILLED'' \<or> so_Fills raw \<noteq> [])"

definition spotAveragePrice :: "spotOrderResponse \<Rightarrow> float64 \<Rightarrow> float64 \<Rightarrow> float64 \<Rightarrow> float64" where
  "spotAveragePrice raw executedQty fallbackPrice markPrice =
     (let quoteQty = parseFloatOrDefault (so_CummulativeQuoteQty raw) 0;
          totals = foldl (\<lambda>(totalQty, totalQuote) fill. let qty = parseFloatOrDefault (sf_Qty fill) 0; price = parseFloatOrDefault (sf_Price fill) 0
            in (totalQty + qty, totalQuote + qty * price)) (0, 0) (so_Fills raw)
      in if 0 < executedQty \<and> 0 < quoteQty then quoteQty / executedQty
         else if 0 < fst totals then snd totals / fst totals
         else if 0 < fallbackPrice then fallbackPrice else markPrice)"

definition remaining :: "float64 \<Rightarrow> float64 \<Rightarrow> float64" where
  "remaining origQty executedQty = (if origQty - executedQty < 0 then 0 else origQty - executedQty)"

definition idText :: "int \<Rightarrow> string" where
  "idText n = (if n \<noteq> 0 then show_int n else [])"

definition spotOrderResultFromResponse :: "SpotJson \<Rightarrow> time \<Rightarrow> AdapterOrderRequest \<Rightarrow> spotOrderResponse \<Rightarrow> AdapterOrderResult" where
  "spotOrderResultFromResponse js now req raw =
     (let origQty = parseFloatOrDefault (so_OrigQty raw) \<bar>aq_Qty req\<bar>;
          executed = parseStrictNonNegativeFloat (so_ExecutedQty raw) ''spot executed_qty'';
          executedQty = (case executed of Inl _ \<Rightarrow> 0 | Inr q \<Rightarrow> q);
          price = parseFloatOrDefault (so_Price raw) (price_or_zero (aq_Price req));
          exchangeOrderID = idText (so_OrderID raw);
          (fills, pending, msg) = (case executed of
             Inl err \<Rightarrow> if spotOrderLooksExecuted raw then ([], True, err_text err) else spotFillResult js now raw exchangeOrderID executedQty
           | Inr _ \<Rightarrow> spotFillResult js now raw exchangeOrderID executedQty)
      in \<lparr>ar_ExchangeOrderID = exchangeOrderID, ar_ClientOrderID = binanceFirstNonEmpty [so_ClientOrderID raw, aq_ClientOrderID req],
          ar_Symbol = binanceFirstNonEmpty [so_Symbol raw, aq_Symbol req], ar_Side = binanceFirstNonEmpty [so_Side raw, aq_Side req],
          ar_PositionSide = [], ar_OrderType = to_upper (binanceFirstNonEmpty [so_Type raw, aq_OrderType req]),
          ar_TimeInForce = to_upper (binanceFirstNonEmpty [so_TimeInForce raw, aq_TimeInForce req]),
          ar_Status = to_upper (binanceFirstNonEmpty [so_Status raw, ''NEW'']), ar_OrigQty = origQty, ar_ExecutedQty = executedQty,
          ar_RemainingQty = remaining origQty executedQty, ar_AvgPrice = spotAveragePrice raw executedQty price (aq_MarkPrice req),
          ar_Price = price, ar_Fills = fills, ar_ErrorMessage = msg, ar_FillPending = pending\<rparr>)"

definition missing_keys :: "BinanceCredential \<Rightarrow> bool" where
  "missing_keys cred = (trim_space (metadata cred ''api_key'') = [] \<or> trim_space (metadata cred ''api_secret'') = [])"

definition spotRequest :: "Web \<Rightarrow> string \<Rightarrow> string \<Rightarrow> string \<Rightarrow> params \<Rightarrow> BinanceCredential \<Rightarrow> (string \<times> int) web" where
  "spotRequest web baseURL verb path ps cred =
     (if missing_keys cred then fail (invalid_credential ''missing api_key or api_secret'')
      else send web id id (\<lambda>_. id) (form_request verb (trim_slashes baseURL @ path)
        (sign_params web ps (metadata cred ''api_secret'')) (metadata cred ''api_key'')))"

definition spotOrderParams :: "AdapterOrderRequest \<Rightarrow> string \<Rightarrow> OrderTerms \<Rightarrow> time \<Rightarrow> params" where
  "spotOrderParams req side contract now =
     (let ps = set_param ''side'' side (set_param ''symbol'' (norm_sym (aq_Symbol req)) []);
          ps = set_param ''quantity'' (format_float \<bar>aq_Qty req\<bar>) (set_param ''type'' (ct_OrderType contract) ps);
          ps = set_if (ct_TimeInForce contract \<noteq> []) ''timeInForce'' (ct_TimeInForce contract) ps;
          ps = (case ct_Price contract of None \<Rightarrow> ps | Some p \<Rightarrow> set_param ''price'' (format_float p) ps);
          ps = set_if (trim_space (aq_ClientOrderID req) \<noteq> []) ''newClientOrderId'' (trim_space (aq_ClientOrderID req)) ps
      in set_param ''timestamp'' (millis now) (set_param ''newOrderRespType'' ''FULL'' ps))"

definition placeSpotOrder :: "Web \<Rightarrow> SpotJson \<Rightarrow> string \<Rightarrow> AdapterOrderRequest \<Rightarrow> BinanceCredential \<Rightarrow> OrderTerms \<Rightarrow> AdapterOrderResult web" where
  "placeSpotOrder web js baseURL req cred contract = (case binanceOrderSide (aq_Side req) of
     Inl err \<Rightarrow> give (failedAdapterOrder req (err_text err))
   | Inr side \<Rightarrow> with_now web (\<lambda>now.
       then_web (spotRequest web baseURL ''POST'' ''/api/v3/order'' (spotOrderParams req side contract now) cred) (\<lambda>(body, status).
         if status \<noteq> 200 then give (failedAdapterOrder req (http_error status body))
         else case sj_order js body of Inl err \<Rightarrow> fail (Wrapf ''decode binance spot order response: '' err)
           | Inr raw \<Rightarrow> if so_Code raw \<noteq> 0 then give (failedAdapterOrder req (binance_error (so_Code raw) (so_Msg raw)))
               else with_now web (\<lambda>now. give (spotOrderResultFromResponse js now req raw)))))"

end
