(* ===== verification/Binance_Clients.thy ===== *)
theory Binance_Clients
  imports Binance_Adapter
begin

text \<open>
  The capabilities of the Binance adapter as the rest of the program uses them: placing an order on a remote
  venue or in a simulation, cancelling, reading an order and its trades, reading symbol rules, and the factory that
  chooses among them by route (\<^verbatim>\<open>order_executor.go\<close>, \<^verbatim>\<open>order_canceller.go\<close>,
  \<^verbatim>\<open>order_state_reader.go\<close>, \<^verbatim>\<open>symbol_rules.go\<close>, \<^verbatim>\<open>factory.go\<close>).
\<close>

subsection \<open>Placing orders\<close>

record RemoteOrderExecutor =
  ox_route :: Route
  ox_baseURL :: string
  ox_exec :: "BinanceExecutor option"

definition firstMarket :: "int list \<Rightarrow> int" where
  "firstMarket vs = (case filter (\<lambda>v. v \<noteq> 0) vs of [] \<Rightarrow> MarketPerpetualFutures | v # _ \<Rightarrow> v)"

definition supportsGTD :: "Route \<Rightarrow> int \<Rightarrow> bool" where
  "supportsGTD route market = (market = MarketPerpetualFutures \<and> rt_Environment route \<noteq> EnvironmentBacktest)"

definition RemoteOrderExecutor_PlaceOrder ::
  "Web \<Rightarrow> FuturesJson \<Rightarrow> SpotJson \<Rightarrow> RemoteOrderExecutor \<Rightarrow> BinanceCredential \<Rightarrow> AdapterOrderRequest \<Rightarrow> AdapterOrderResult web" where
  "RemoteOrderExecutor_PlaceOrder web fj sj e cred req = with_now web (\<lambda>now.
     let market = firstMarket [aq_Market req, rt_Market (ox_route e)] in
     case normalizeBinanceOrderContract now req market (supportsGTD (ox_route e) market) of
       Inl err \<Rightarrow> give (failedAdapterOrder req (err_text err))
     | Inr contract \<Rightarrow>
         if market = MarketSpot then placeSpotOrder web sj (ox_baseURL e) req cred contract
         else case ox_exec e of
           None \<Rightarrow> give (failedAdapterOrder req ''binance futures order executor is not configured'')
         | Some exec \<Rightarrow> then_web (Execute web fj exec (toLegacyOrderRequest req) (toAccountMeta req cred))
             (\<lambda>result. give (fromLegacyOrderResult result)))"

text \<open>The simulation: identifiers are made from the clock.\<close>

definition unix_nanos :: "time \<Rightarrow> string" where "unix_nanos now = show_int (now - unix_epoch)"

definition simulatedLimitOrder :: "AdapterOrderRequest \<Rightarrow> string \<Rightarrow> string \<Rightarrow> float64 \<Rightarrow> BacktestLimitOrder" where
  "simulatedLimitOrder req exchangeOrderID side limitPrice = zero_BacktestLimitOrder
     \<lparr>bo_AccountID := aq_AccountID req, bo_VenueID := aq_VenueID req, bo_Environment := aq_Environment req, bo_Exchange := aq_Exchange req,
      bo_Market := aq_Market req, bo_PositionSide := positionSideCode (aq_PositionSide req), bo_ExchangeOrderID := exchangeOrderID,
      bo_ClientOrderID := trim_space (aq_ClientOrderID req), bo_Symbol := norm_sym (aq_Symbol req), bo_Side := side,
      bo_Qty := aq_Qty req, bo_LimitPrice := limitPrice, bo_FeeRate := aq_DefaultFeeRate req\<rparr>"

definition placeSimulatedLimitOrder :: "time \<Rightarrow> AdapterOrderRequest \<Rightarrow> string \<Rightarrow> AdapterOrderResult result" where
  "placeSimulatedLimitOrder now req orderType =
     bind_result (binanceOrderSide (aq_Side req)) (\<lambda>side.
       let limitPrice = price_or_zero (aq_Price req); exchangeOrderID = ''sim-'' @ unix_nanos now in
       if limitPrice \<le> 0 then Inl (Errorf ''simulated limit order requires positive limit price'')
       else
         let m = MatchBacktestLimitGTC (simulatedLimitOrder req exchangeOrderID side limitPrice)
               \<lparr>bar_Symbol = norm_sym (aq_Symbol req), bar_Time = now, bar_Open = aq_MarkPrice req, bar_High = aq_MarkPrice req,
                bar_Low = aq_MarkPrice req, bar_Close = aq_MarkPrice req\<rparr>;
             state = bm_State m
         in Inr (zero_AdapterOrderResult\<lparr>ar_ExchangeOrderID := exchangeOrderID, ar_ClientOrderID := trim_space (aq_ClientOrderID req),
              ar_Symbol := os_Symbol state, ar_Side := side, ar_PositionSide := aq_PositionSide req, ar_OrderType := orderType,
              ar_TimeInForce := binanceFirstNonEmpty [aq_TimeInForce req, ''GTC''], ar_Status := os_Status state,
              ar_OrigQty := os_OrigQty state, ar_ExecutedQty := os_ExecutedQty state, ar_RemainingQty := os_RemainingQty state,
              ar_AvgPrice := os_AvgPrice state, ar_Price := limitPrice,
              ar_Fills := (case bm_Event m of None \<Rightarrow> []
                | Some event \<Rightarrow> [zero_FillDelta\<lparr>fd_ExchangeTradeID := ''sim-trade-'' @ unix_nanos now, fd_ExchangeOrderID := exchangeOrderID,
                    fd_Symbol := os_Symbol state, fd_Qty := fd_Qty (ev_FillDelta event), fd_FillPrice := fd_FillPrice (ev_FillDelta event),
                    fd_Fee := fd_Fee (ev_FillDelta event), fd_TradeTime := now\<rparr>])\<rparr>))"

definition placeSimulatedMarketOrder :: "time \<Rightarrow> AdapterOrderRequest \<Rightarrow> string \<Rightarrow> AdapterOrderResult result" where
  "placeSimulatedMarketOrder now req orderType =
     (let price = (case aq_Price req of None \<Rightarrow> aq_MarkPrice req | Some p \<Rightarrow> p); qty = \<bar>aq_Qty req\<bar>;
          slippageFactor = aq_SlippageBps req / Fin 10000; symbol = norm_sym (aq_Symbol req)
      in if price \<le> 0 then Inl (Errorf ''simulated order requires positive mark or limit price'')
         else bind_result (binanceOrderSide (aq_Side req)) (\<lambda>side.
           let fillPrice = mockFillPrice side price slippageFactor
           in Inr (zero_AdapterOrderResult\<lparr>ar_ExchangeOrderID := ''sim-'' @ unix_nanos now, ar_ClientOrderID := trim_space (aq_ClientOrderID req),
                ar_Symbol := symbol, ar_Side := side, ar_PositionSide := aq_PositionSide req, ar_OrderType := orderType,
                ar_TimeInForce := aq_TimeInForce req, ar_Status := ''FILLED'', ar_OrigQty := qty, ar_ExecutedQty := qty, ar_RemainingQty := 0,
                ar_AvgPrice := fillPrice, ar_Price := price,
                ar_Fills := [zero_FillDelta\<lparr>fd_ExchangeTradeID := ''sim-trade-'' @ unix_nanos now, fd_Symbol := symbol, fd_Qty := qty,
                  fd_FillPrice := fillPrice, fd_Fee := qty * fillPrice * aq_DefaultFeeRate req, fd_TradeTime := now\<rparr>]\<rparr>)))"

definition SimulatedOrderExecutor_PlaceOrder :: "Route \<Rightarrow> time \<Rightarrow> AdapterOrderRequest \<Rightarrow> AdapterOrderResult result" where
  "SimulatedOrderExecutor_PlaceOrder route now req =
     (case normalizeBinanceOrderContract now req (firstMarket [aq_Market req, rt_Market route]) False of
        Inl err \<Rightarrow> Inr (failedAdapterOrder req (err_text err))
      | Inr _ \<Rightarrow> (let orderType = binanceFirstNonEmpty [aq_OrderType req, ''MARKET''] in
          if equal_fold orderType ''LIMIT'' then placeSimulatedLimitOrder now req orderType
          else placeSimulatedMarketOrder now req orderType))"

subsection \<open>Cancelling orders\<close>

record CancelOrderRequest =
  cq_AccountID :: int
  cq_VenueID :: int
  cq_Symbol :: string
  cq_ClientOrderID :: string
  cq_ExchangeOrderID :: string

record CancelOrderResult =
  cn_ExchangeOrderID :: string
  cn_ClientOrderID :: string
  cn_Symbol :: string
  cn_Status :: string
  cn_CancelledAt :: time

definition orderPath :: "Route \<Rightarrow> string" where
  "orderPath route = (if rt_Market route = MarketSpot then ''/api/v3/order'' else ''/fapi/v1/order'')"

definition cancelParams :: "CancelOrderRequest \<Rightarrow> time \<Rightarrow> params result" where
  "cancelParams req now =
     (let symbol = norm_sym (cq_Symbol req); client = trim_space (cq_ClientOrderID req); exchange = trim_space (cq_ExchangeOrderID req);
          ps = set_param ''symbol'' symbol []
      in if symbol = [] then Inl (Errorf ''cancel order requires symbol'')
         else if client \<noteq> [] then Inr (set_param ''timestamp'' (millis now) (set_param ''origClientOrderId'' client ps))
         else if exchange \<noteq> [] then Inr (set_param ''timestamp'' (millis now) (set_param ''orderId'' exchange ps))
         else Inl (Errorf ''cancel order requires client_order_id or exchange_order_id''))"

definition cancelRequest :: "Web \<Rightarrow> Route \<Rightarrow> string \<Rightarrow> BinanceCredential \<Rightarrow> params \<Rightarrow> HttpRequest" where
  "cancelRequest web route baseURL cred ps = \<lparr>hq_Method = ''DELETE'',
     hq_URL = trim_slashes baseURL @ orderPath route @ ''?'' @ encode_params (sign_params web ps (metadata cred ''api_secret'')),
     hq_Body = [], hq_APIKey = metadata cred ''api_key''\<rparr>"

definition cancelledResult :: "SpotJson \<Rightarrow> time \<Rightarrow> string \<Rightarrow> int \<Rightarrow> CancelOrderResult result" where
  "cancelledResult js now body status =
     (if status \<noteq> 200 then Inl (Errorf (''binance cancel '' @ http_error status body))
      else case sj_cancel js body of Inl err \<Rightarrow> Inl (Wrapf ''decode binance cancel response: '' err)
        | Inr raw \<Rightarrow> if co_Code raw \<noteq> 0 then Inl (Errorf (''binance cancel error '' @ show_int (co_Code raw) @ '': '' @ co_Msg raw))
            else Inr \<lparr>cn_ExchangeOrderID = show_int (co_OrderID raw), cn_ClientOrderID = co_ClientOrderID raw, cn_Symbol = co_Symbol raw,
              cn_Status = co_Status raw, cn_CancelledAt = now\<rparr>)"

definition cancelRemote :: "Web \<Rightarrow> SpotJson \<Rightarrow> Route \<Rightarrow> string \<Rightarrow> BinanceCredential \<Rightarrow> CancelOrderRequest \<Rightarrow> CancelOrderResult web" where
  "cancelRemote web js route baseURL cred req = with_now web (\<lambda>now.
     case cancelParams req now of Inl err \<Rightarrow> fail err
     | Inr ps \<Rightarrow>
         if missing_keys cred then fail (invalid_credential ''missing api_key or api_secret'')
         else then_web (send web id id (\<lambda>_. id) (cancelRequest web route baseURL cred ps))
           (\<lambda>(body, status). with_now web (\<lambda>now. lift_web (cancelledResult js now body status))))"

definition Binance_CancelOrder :: "Web \<Rightarrow> SpotJson \<Rightarrow> Route \<Rightarrow> string \<Rightarrow> BinanceCredential \<Rightarrow> CancelOrderRequest \<Rightarrow> CancelOrderResult web" where
  "Binance_CancelOrder web js route baseURL cred req =
     (if rt_Environment route \<noteq> EnvironmentBacktest then cancelRemote web js route baseURL cred req
      else with_now web (\<lambda>now. give \<lparr>cn_ExchangeOrderID = trim_space (cq_ExchangeOrderID req), cn_ClientOrderID = trim_space (cq_ClientOrderID req),
        cn_Symbol = norm_sym (cq_Symbol req), cn_Status = ''CANCELED'', cn_CancelledAt = now\<rparr>))"

subsection \<open>Reading orders\<close>

definition recoveryMeta :: "int \<Rightarrow> int \<Rightarrow> BinanceCredential \<Rightarrow> Meta" where
  "recoveryMeta accountID venueID cred = \<lparr>me_AccountID = accountID, me_VenueID = venueID, me_UserID = 0, me_Environment = 0, me_Exchange = 0,
     me_Market = 0, me_MarginMode = [], me_PositionMode = [], me_APIKey = metadata cred ''api_key'', me_APISecret = metadata cred ''api_secret'',
     me_CredentialJSON = cr_Raw cred, me_DefaultFeeRate = 0, me_SlippageBps = 0\<rparr>"

definition futuresQueryOrder :: "Web \<Rightarrow> FuturesJson \<Rightarrow> BinanceExecutor \<Rightarrow> BinanceCredential \<Rightarrow> QueryOrderRequest \<Rightarrow> OrderState web" where
  "futuresQueryOrder web js exec cred req =
     then_web (Resolve web js exec \<lparr>rr_AccountID = qo_AccountID req, rr_Symbol = qo_Symbol req, rr_ClientOrderID = qo_ClientOrderID req,
         rr_ExchangeOrderID = qo_ExchangeOrderID req\<rparr> (recoveryMeta (qo_AccountID req) (qo_VenueID req) cred))
       (\<lambda>r. give (zero_OrderState\<lparr>os_ExchangeOrderID := xr_ExchangeOrderID r, os_ClientOrderID := xr_ClientOrderID r, os_Symbol := xr_Symbol r,
          os_Status := xr_Status r, os_OrigQty := xr_OrigQty r, os_ExecutedQty := xr_ExecutedQty r, os_RemainingQty := xr_RemainingQty r,
          os_AvgPrice := xr_AvgPrice r\<rparr>))"

definition futuresQueryTrades :: "Web \<Rightarrow> FuturesJson \<Rightarrow> BinanceExecutor \<Rightarrow> BinanceCredential \<Rightarrow> QueryTradesRequest \<Rightarrow> FillDelta list web" where
  "futuresQueryTrades web js exec cred req =
     then_web (Resolve web js exec \<lparr>rr_AccountID = qt_AccountID req, rr_Symbol = qt_Symbol req, rr_ClientOrderID = [],
         rr_ExchangeOrderID = qt_ExchangeOrderID req\<rparr> (recoveryMeta (qt_AccountID req) (qt_VenueID req) cred))
       (\<lambda>r. if xr_FillPending r then fail (Errorf (''order fills pending: '' @ xr_ErrorMessage r))
          else give (ar_Fills (fromLegacyOrderResult r)))"

definition isSpotOrderNotFound :: "string \<Rightarrow> bool" where
  "isSpotOrderNotFound body = (let t = to_lower body in
     contains_str t ''order does not exist'' \<or> contains_str t ([CHR 0x22] @ ''code'' @ [CHR 0x22] @ '':-2013''))"

definition spotUpdatedAt :: "time \<Rightarrow> spotOrderResponse \<Rightarrow> time" where
  "spotUpdatedAt now raw = (if 0 < so_UpdateTime raw then unix_milli (so_UpdateTime raw)
     else if 0 < so_Time raw then unix_milli (so_Time raw) else now)"

definition spotOrderStateFromResponse :: "time \<Rightarrow> spotOrderResponse \<Rightarrow> string \<Rightarrow> OrderState result" where
  "spotOrderStateFromResponse now raw fallbackSymbol =
     bind_result (parseStrictPositiveFloat (so_OrigQty raw) ''spot order orig_qty'') (\<lambda>origQty.
     bind_result (parseStrictNonNegativeFloat (so_ExecutedQty raw) ''spot order executed_qty'') (\<lambda>executedQty.
     Inr \<lparr>os_ExchangeOrderID = idText (so_OrderID raw), os_ClientOrderID = so_ClientOrderID raw,
       os_Symbol = binanceFirstNonEmpty [so_Symbol raw, fallbackSymbol], os_Status = to_upper (binanceFirstNonEmpty [so_Status raw, ''NEW'']),
       os_OrigQty = origQty, os_ExecutedQty = executedQty, os_RemainingQty = remaining origQty executedQty,
       os_AvgPrice = spotAveragePrice raw executedQty 0 0, os_UpdatedAt = spotUpdatedAt now raw\<rparr>))"

definition spotOrderParamsOf :: "QueryOrderRequest \<Rightarrow> time \<Rightarrow> params result" where
  "spotOrderParamsOf req now =
     (let symbol = norm_sym (qo_Symbol req); client = trim_space (qo_ClientOrderID req); exchange = trim_space (qo_ExchangeOrderID req);
          ps = set_param ''symbol'' symbol []
      in if symbol = [] then Inl (Errorf ''symbol is required'')
         else if client \<noteq> [] then Inr (set_param ''timestamp'' (millis now) (set_param ''origClientOrderId'' client ps))
         else if exchange \<noteq> [] then Inr (set_param ''timestamp'' (millis now) (set_param ''orderId'' exchange ps))
         else Inl ErrOrderNotFound)"

definition spotQueriedState :: "SpotJson \<Rightarrow> time \<Rightarrow> string \<Rightarrow> string \<Rightarrow> int \<Rightarrow> OrderState result" where
  "spotQueriedState js now symbol body status =
     (if status \<noteq> 200 then Inl (if isSpotOrderNotFound body then ErrOrderNotFound else Errorf (http_error status body))
      else case sj_order js body of Inl err \<Rightarrow> Inl (Wrapf ''decode binance spot order query response: '' err)
        | Inr raw \<Rightarrow> if so_Code raw \<noteq> 0
            then Inl (if isSpotOrderNotFound body then ErrOrderNotFound else Errorf (binance_error (so_Code raw) (so_Msg raw)))
            else spotOrderStateFromResponse now raw symbol)"

definition spotQueryOrder :: "Web \<Rightarrow> SpotJson \<Rightarrow> string \<Rightarrow> BinanceCredential \<Rightarrow> QueryOrderRequest \<Rightarrow> OrderState web" where
  "spotQueryOrder web js baseURL cred req = with_now web (\<lambda>now. case spotOrderParamsOf req now of
     Inl err \<Rightarrow> fail err
   | Inr ps \<Rightarrow> then_web (spotRequest web baseURL ''GET'' ''/api/v3/order'' ps cred)
       (\<lambda>(body, status). with_now web (\<lambda>now. lift_web (spotQueriedState js now (norm_sym (qo_Symbol req)) body status))))"

definition spotTradeDelta :: "time \<Rightarrow> string \<Rightarrow> string \<Rightarrow> spotTradeResponse \<Rightarrow> FillDelta result" where
  "spotTradeDelta now symbol orderID trade =
     (if st_ID trade \<le> 0 then Inl (Errorf ''invalid spot trade id'')
      else bind_result (parseStrictPositiveFloat (st_Qty trade) ''spot trade qty'') (\<lambda>qty.
        bind_result (parseStrictPositiveFloat (st_Price trade) ''spot trade price'') (\<lambda>price.
        bind_result (parseStrictNonNegativeFloat (st_Commission trade) ''spot trade commission'') (\<lambda>fee.
        Inr \<lparr>fd_ExchangeTradeID = show_int (st_ID trade), fd_ExchangeOrderID = orderID, fd_Symbol = symbol, fd_Qty = qty, fd_FillPrice = price,
          fd_Fee = fee, fd_FeeAsset = st_CommissionAsset trade, fd_FeeMissing = False,
          fd_TradeTime = (if 0 < st_Time trade then unix_milli (st_Time trade) else now)\<rparr>))))"

definition spotQueryTrades :: "Web \<Rightarrow> SpotJson \<Rightarrow> string \<Rightarrow> BinanceCredential \<Rightarrow> QueryTradesRequest \<Rightarrow> FillDelta list web" where
  "spotQueryTrades web js baseURL cred req = with_now web (\<lambda>now.
     let symbol = norm_sym (qt_Symbol req); orderID = trim_space (qt_ExchangeOrderID req) in
     if symbol = [] then fail (Errorf ''symbol is required'')
     else if orderID = [] then fail (Errorf ''exchange_order_id is required'')
     else then_web (spotRequest web baseURL ''GET'' ''/api/v3/myTrades''
         (set_param ''timestamp'' (millis now) (set_param ''orderId'' orderID (set_param ''symbol'' symbol []))) cred)
       (\<lambda>(body, status). with_now web (\<lambda>now. lift_web
         (if status \<noteq> 200 then Inl (Errorf (http_error status body))
          else case sj_trades js body of Inl err \<Rightarrow> Inl (Wrapf ''decode binance spot trades response: '' err)
            | Inr trades \<Rightarrow> each_result (spotTradeDelta now symbol orderID) trades))))"

subsection \<open>Symbol rules\<close>

definition parsePositiveFloat :: "string \<Rightarrow> float64" where
  "parsePositiveFloat raw = (case ParseFloat (trim_space raw) of Inl _ \<Rightarrow> 0 | Inr v \<Rightarrow> if v < 0 then 0 else v)"

definition symbolSet :: "string list \<Rightarrow> string set" where
  "symbolSet symbols = set (filter (\<lambda>s. s \<noteq> []) (map norm_sym symbols))"

definition applyFilter :: "SymbolRule \<Rightarrow> exchangeInfoFilter \<Rightarrow> SymbolRule" where
  "applyFilter rule f =
     (if xf_FilterType f = ''PRICE_FILTER'' then rule\<lparr>sy_TickSize := parsePositiveFloat (xf_TickSize f)\<rparr>
      else if xf_FilterType f = ''LOT_SIZE''
        then rule\<lparr>sy_StepSize := parsePositiveFloat (xf_StepSize f), sy_MinQty := parsePositiveFloat (xf_MinQty f)\<rparr>
      else if xf_FilterType f = ''MIN_NOTIONAL''
        then rule\<lparr>sy_MinNotional := parsePositiveFloat (binanceFirstNonEmpty [xf_MinNotional f, xf_MinNotionalAlt f])\<rparr>
      else rule)"

definition parseSymbolRules :: "SpotJson \<Rightarrow> string \<Rightarrow> string list \<Rightarrow> SymbolRule list result" where
  "parseSymbolRules js body symbols = (case sj_info js body of
     Inl err \<Rightarrow> Inl (Wrapf ''decode binance exchangeInfo: '' err)
   | Inr items \<Rightarrow> (let allowed = symbolSet symbols in
       Inr (map (\<lambda>item. foldl applyFilter \<lparr>sy_Symbol = norm_sym (xs_Symbol item), sy_Market = MarketPerpetualFutures, sy_MinQty = 0, sy_StepSize = 0,
             sy_MinNotional = 0, sy_TickSize = 0\<rparr> (xs_Filters item))
         (filter (\<lambda>item. allowed = {} \<or> norm_sym (xs_Symbol item) \<in> allowed) items))))"

definition ReadSymbolRules :: "Web \<Rightarrow> SpotJson \<Rightarrow> string \<Rightarrow> string list \<Rightarrow> SymbolRule list web" where
  "ReadSymbolRules web js baseURL symbols =
     then_web (send web id id (\<lambda>_. id) \<lparr>hq_Method = ''GET'', hq_URL = trim_slashes baseURL @ ''/fapi/v1/exchangeInfo'', hq_Body = [], hq_APIKey = []\<rparr>)
       (\<lambda>(body, status). lift_web (if status \<noteq> 200 then Inl (Errorf (''binance exchangeInfo '' @ http_error status body))
          else parseSymbolRules js body symbols))"

subsection \<open>The factory\<close>

datatype PlacingExecutor = SimulatedExecutor Route | RemoteExecutor RemoteOrderExecutor
datatype OrderReader = SimulatedReader | SpotReader string | FuturesReader BinanceExecutor
datatype RulesReader = NoRules | RemoteRules string

definition requirePerpetualFutures :: "Route \<Rightarrow> string \<Rightarrow> unit result" where
  "requirePerpetualFutures route capability =
     (if rt_Market route \<noteq> MarketPerpetualFutures then Inl (CapabilityUnsupported capability) else Inr ())"

definition requireOrderMarket :: "Route \<Rightarrow> string \<Rightarrow> unit result" where
  "requireOrderMarket route capability =
     (if rt_Market route = MarketSpot \<or> rt_Market route = MarketPerpetualFutures then Inr () else Inl (CapabilityUnsupported capability))"

definition known_remote :: "Route \<Rightarrow> bool" where
  "known_remote route = (rt_Environment route = EnvironmentDemo \<or> rt_Environment route = EnvironmentLive)"

definition remoteOrderExecutor :: "Route \<Rightarrow> Endpoints \<Rightarrow> RemoteOrderExecutor" where
  "remoteOrderExecutor route ep = \<lparr>ox_route = route,
     ox_baseURL = (if rt_Market route = MarketSpot \<or> rt_Market route = MarketPerpetualFutures then ep_RESTBaseURL ep else []),
     ox_exec = (if rt_Market route = MarketPerpetualFutures then Some (NewBinanceExecutorWithBaseURL (ep_RESTBaseURL ep)) else None)\<rparr>"

definition Binance_OrderExecutor :: "Route \<Rightarrow> Endpoints \<Rightarrow> PlacingExecutor result" where
  "Binance_OrderExecutor route ep = bind_result (requireOrderMarket route ''order_executor'') (\<lambda>_.
     if rt_Environment route = EnvironmentBacktest then Inr (SimulatedExecutor route)
     else if known_remote route then Inr (RemoteExecutor (remoteOrderExecutor route ep))
     else Inl (CapabilityUnsupported ''order_executor''))"

definition Binance_OrderCapabilityProvider :: "Route \<Rightarrow> OrderCapability result result" where
  "Binance_OrderCapabilityProvider route = bind_result (requireOrderMarket route ''order_capability_provider'') (\<lambda>_. Inr (BinanceOrderCapability route))"

definition Binance_OrderStateReader :: "Route \<Rightarrow> Endpoints \<Rightarrow> OrderReader result" where
  "Binance_OrderStateReader route ep = bind_result (requireOrderMarket route ''order_state_reader'') (\<lambda>_.
     if rt_Environment route = EnvironmentBacktest then Inr SimulatedReader
     else if known_remote route then Inr (if rt_Market route = MarketSpot then SpotReader (ep_RESTBaseURL ep)
        else FuturesReader (NewBinanceExecutorWithBaseURL (ep_RESTBaseURL ep)))
     else Inl (CapabilityUnsupported ''order_state_reader''))"

definition Binance_OrderCanceller :: "Route \<Rightarrow> Endpoints \<Rightarrow> string result" where
  "Binance_OrderCanceller route ep = bind_result (requireOrderMarket route ''order_canceller'') (\<lambda>_. Inr (ep_RESTBaseURL ep))"

definition Binance_SymbolRulesReader :: "Route \<Rightarrow> Endpoints \<Rightarrow> RulesReader result" where
  "Binance_SymbolRulesReader route ep = bind_result (requirePerpetualFutures route ''symbol_rules_reader'') (\<lambda>_.
     Inr (if rt_Environment route = EnvironmentBacktest then NoRules else RemoteRules (ep_RESTBaseURL ep)))"

text \<open>What the capabilities do when the rest of the program calls them.\<close>

definition place_order :: "Web \<Rightarrow> FuturesJson \<Rightarrow> SpotJson \<Rightarrow> BinanceCredential \<Rightarrow> PlacingExecutor \<Rightarrow> AdapterOrderRequest \<Rightarrow> AdapterOrderResult web" where
  "place_order web fj sj cred e req = (case e of
     SimulatedExecutor route \<Rightarrow> with_now web (\<lambda>now. lift_web (SimulatedOrderExecutor_PlaceOrder route now req))
   | RemoteExecutor r \<Rightarrow> RemoteOrderExecutor_PlaceOrder web fj sj r cred req)"

definition query_order :: "Web \<Rightarrow> FuturesJson \<Rightarrow> SpotJson \<Rightarrow> BinanceCredential \<Rightarrow> OrderReader \<Rightarrow> QueryOrderRequest \<Rightarrow> OrderState web" where
  "query_order web fj sj cred rd req = (case rd of
     SimulatedReader \<Rightarrow> fail (CapabilityUnsupported ''order_state_reader'')
   | SpotReader baseURL \<Rightarrow> spotQueryOrder web sj baseURL cred req
   | FuturesReader exec \<Rightarrow> futuresQueryOrder web fj exec cred req)"

definition query_trades :: "Web \<Rightarrow> FuturesJson \<Rightarrow> SpotJson \<Rightarrow> BinanceCredential \<Rightarrow> OrderReader \<Rightarrow> QueryTradesRequest \<Rightarrow> FillDelta list web" where
  "query_trades web fj sj cred rd req = (case rd of
     SimulatedReader \<Rightarrow> fail (CapabilityUnsupported ''order_state_reader'')
   | SpotReader baseURL \<Rightarrow> spotQueryTrades web sj baseURL cred req
   | FuturesReader exec \<Rightarrow> futuresQueryTrades web fj exec cred req)"

definition read_rules :: "Web \<Rightarrow> SpotJson \<Rightarrow> RulesReader \<Rightarrow> string list \<Rightarrow> SymbolRule list web" where
  "read_rules web js rd symbols = (case rd of NoRules \<Rightarrow> give [] | RemoteRules baseURL \<Rightarrow> ReadSymbolRules web js baseURL symbols)"

end
