(* ===== verification/Binance_Guarantees.thy ===== *)
theory Binance_Guarantees
  imports Binance_Clients
begin

text \<open>
  What the Binance clients guarantee: the requests they send, the completeness of the executions they report, the
  numbers they put on the wire, and the agreement of the contracts checked on the way to the exchange.
\<close>

subsection \<open>Requests\<close>

abbreviation is_get :: "HttpRequest \<Rightarrow> bool" where "is_get r \<equiv> hq_Method r = ''GET''"

text \<open>Nothing, or a request of one kind followed by a bounded number of GETs.\<close>

definition leads :: "(HttpRequest \<Rightarrow> bool) \<Rightarrow> nat \<Rightarrow> 'a web \<Rightarrow> bool" where
  "leads P n m = (\<forall>sent. \<exists>rs. snd (m sent) = sent @ rs \<and> length rs \<le> Suc n \<and> list_all is_get (drop 1 rs) \<and> (rs = [] \<or> P (hd rs)))"

lemma leads_give [sends_intros]: "leads P n (give x)" and leads_fail [sends_intros]: "leads P n (fail e)"
  and leads_lift [sends_intros]: "leads P n (lift_web r)"
  by (simp_all add: leads_def give_def fail_def lift_web_def)

lemma leads_now [sends_intros]: "(\<And>t. leads P n (f t)) \<Longrightarrow> leads P n (with_now web f)"
  unfolding leads_def with_now_def by meson

lemma leads_request:
  assumes "P r" "\<And>x. sends is_get n (f x)" shows "leads P n (then_web (send web b c d r) f)"
  unfolding leads_def
proof
  fix sent
  let ?R = "\<lambda>us. snd (then_web (send web b c d r) f sent) = sent @ us \<and> length us \<le> Suc n \<and> list_all is_get (drop 1 us) \<and> (us = [] \<or> P (hd us))"
  show "\<exists>us. ?R us"
  proof (cases "wb_bad_url web (hq_URL r)")
    case (Some e)
    then have "?R []" by (simp add: then_web_def after_def send_def transmit_def fail_def)
    then show ?thesis ..
  next
    case None
    show ?thesis
    proof (cases "wb_answer web (sent @ [r])")
      case (Answer status body)
      from assms(2) obtain ts where "snd (f (body, status) (sent @ [r])) = (sent @ [r]) @ ts" "length ts \<le> n" "list_all is_get ts"
        unfolding sends_def by meson
      then have "?R (r # ts)" using None Answer assms(1) by (simp add: then_web_def after_def send_def transmit_def)
      then show ?thesis ..
    next
      case (NoAnswer e)
      then have "?R [r]" using None assms(1) by (simp add: then_web_def after_def send_def transmit_def fail_def)
      then show ?thesis ..
    next
      case (NoBody status e)
      then have "?R [r]" using None assms(1) by (simp add: then_web_def after_def send_def transmit_def fail_def)
      then show ?thesis ..
    qed
  qed
qed

lemma leads_then_give: "leads P n m \<Longrightarrow> leads P n (then_web m (\<lambda>x. give (g x)))"
  unfolding leads_def then_web_def after_def by (auto simp: give_def fail_def split: sum.split prod.split) (metis snd_conv)+

lemma get_request [sends_intros]: "sends is_get (Suc 0) (futuresRequest web e ''GET'' path ps meta)"
  unfolding futuresRequest_def by (rule sends_send) (simp add: form_request_def)

lemma spot_get_request [sends_intros]: "sends is_get (Suc 0) (spotRequest web baseURL ''GET'' path ps cred)"
  unfolding spotRequest_def by (auto simp: form_request_def intro: sends_intros sends_send)

lemma sends_wait [sends_intros]: "sends P 0 (wait_for web b)"
  by (auto simp: sends_def wait_for_def split: option.split)

lemma sends_get_then:
  "(\<And>x. sends is_get n (f x)) \<Longrightarrow> sends is_get (Suc n) (then_web (futuresRequest web e ''GET'' path ps meta) f)"
  using sends_then [OF get_request, of n f] by simp

lemma sends_queryTrades: "sends is_get (Suc 0) (queryTrades web js e symbol orderID meta)"
  unfolding queryTrades_def
  by (cases "orderID = 0") (simp_all add: sends_give, intro sends_now sends_get_then, simp add: case_prod_beta sends_lift)

lemma sends_tradeAttempts: "sends is_get (Suc 0) ask \<Longrightarrow> sends is_get n (tradeAttempts web ask delay executedQty n err)"
proof (induction n arbitrary: err)
  case (Suc n)
  have "sends is_get (Suc 0 + (0 + n)) (tradeAttempts web ask delay executedQty (Suc n) err)"
    unfolding tradeAttempts.simps
    by (rule sends_after [OF Suc.prems]) (auto split: sum.split intro: sends_intros sends_then [where n = 0 and k = n, simplified] Suc)
  then show ?case by simp
qed (simp add: sends_fail)

text \<open>An executor made by its constructor asks for trades at most five times.\<close>

definition standard :: "BinanceExecutor \<Rightarrow> bool" where
  "standard e = (tradeLookupRetry e = (5, 250 * millisecond))"

lemma standard_new [simp]: "standard (NewBinanceExecutorWithBaseURL baseURL)"
  by (simp add: standard_def NewBinanceExecutorWithBaseURL_def tradeLookupRetry_def defaultTradeLookupAttempts_def
      defaultTradeLookupDelay_def millisecond_def)

lemma sends_trades: "standard e \<Longrightarrow> sends is_get 5 (queryTradesUntilComplete web js e symbol orderID executedQty meta)"
  unfolding queryTradesUntilComplete_def standard_def by (simp add: sends_tradeAttempts [OF sends_queryTrades])

lemma sends_orderResult: "standard e \<Longrightarrow> sends is_get 5 (orderResultFromResponse web js e resp req meta)"
  unfolding orderResultFromResponse_def
  by (auto split: sum.split intro: sends_intros sends_after [where n = 5 and k = 0, simplified] sends_trades)

lemma sends_placedResult: "standard e \<Longrightarrow> sends is_get 5 (placedResult web js e req meta body status)"
  unfolding placedResult_def
  by (auto split: sum.split intro!: sends_intros sends_after [where n = 5 and k = 0, simplified] sends_orderResult)

lemma sends_recoveredOrder: "standard e \<Longrightarrow> sends is_get 5 (recoveredOrder web js e req meta body status)"
  unfolding recoveredOrder_def by (auto split: sum.split intro!: sends_intros sends_orderResult)

lemma sends_Resolve: "standard e \<Longrightarrow> sends is_get 6 (Resolve web js e req meta)"
proof -
  assume s: "standard e"
  have "sends is_get (Suc 5) (then_web (futuresRequest web e ''GET'' path ps meta) (\<lambda>x. case x of (body, status) \<Rightarrow> recoveredOrder web js e req meta body status))" for path ps
    by (intro sends_get_then) (simp add: case_prod_beta sends_recoveredOrder s)
  then show ?thesis unfolding Resolve_def by (intro sends_now) (simp add: sends_fail split: option.split)
qed

text \<open>The request that places an order: the address, the body and the key.\<close>

definition order_post :: "HttpRequest \<Rightarrow> bool" where
  "order_post r = (hq_Method r = ''POST'' \<and> (has_suffix (hq_URL r) ''/fapi/v1/order'' \<or> has_suffix (hq_URL r) ''/api/v3/order''))"

lemma has_suffix_append [simp]: "has_suffix (s @ t) t"
  by (simp add: has_suffix_def)

lemma leads_Execute: "standard e \<Longrightarrow> leads order_post 5 (Execute web js e req meta)"
proof -
  assume s: "standard e"
  have "leads order_post 5 (then_web (futuresRequest web e ''POST'' ''/fapi/v1/order'' ps meta) (\<lambda>(body, status). placedResult web js e req meta body status))" for ps
    unfolding futuresRequest_def
    by (rule leads_request) (simp_all add: form_request_def order_post_def case_prod_beta sends_placedResult s)
  then show ?thesis unfolding Execute_def by (intro leads_now) (simp add: leads_give split: sum.split prod.split)
qed

lemma leads_placeSpotOrder: "leads order_post 5 (placeSpotOrder web js baseURL req cred contract)"
proof -
  have "leads order_post 5 (then_web (spotRequest web baseURL ''POST'' ''/api/v3/order'' ps cred) f)"
    if "\<And>x. sends is_get 5 (f x)" for ps and f :: "string \<times> int \<Rightarrow> AdapterOrderResult web"
  proof (cases "missing_keys cred")
    case True
    then have "then_web (spotRequest web baseURL ''POST'' ''/api/v3/order'' ps cred) f = fail (invalid_credential ''missing api_key or api_secret'')"
      by (simp add: fun_eq_iff spotRequest_def then_web_def after_def fail_def)
    then show ?thesis by (simp add: leads_fail)
  next
    case False
    then show ?thesis unfolding spotRequest_def
      by (simp, intro leads_request that) (simp add: form_request_def order_post_def)
  qed
  note request = this
  show ?thesis unfolding placeSpotOrder_def
    by (cases "binanceOrderSide (aq_Side req)")
      (simp_all add: leads_give, intro leads_now request, auto simp: case_prod_beta split: sum.split intro!: sends_intros)
qed

lemma leads_place_order:
  assumes "Binance_OrderExecutor route ep = Inr e" shows "leads order_post 5 (place_order web fj sj cred e req)"
proof (cases e)
  case (SimulatedExecutor route)
  then show ?thesis by (auto simp: place_order_def intro: sends_intros)
next
  case (RemoteExecutor r)
  then have r: "r = remoteOrderExecutor route ep"
    using assms by (auto simp: Binance_OrderExecutor_def bind_result_Inr split: if_splits)
  have "leads order_post 5 (RemoteOrderExecutor_PlaceOrder web fj sj r cred req)"
    unfolding RemoteOrderExecutor_PlaceOrder_def Let_def r remoteOrderExecutor_def
    by (auto split: sum.split option.split intro!: sends_intros leads_placeSpotOrder leads_then_give leads_Execute)
  then show ?thesis using RemoteExecutor by (simp add: place_order_def)
qed

lemma backtest_sends_nothing:
  "Binance_OrderExecutor route ep = Inr e \<Longrightarrow> rt_Environment route = EnvironmentBacktest \<Longrightarrow> snd (place_order web fj sj cred e req sent) = sent"
  by (auto simp: Binance_OrderExecutor_def bind_result_Inr place_order_def with_now_def lift_web_def split: if_splits)

subsection \<open>Results\<close>

text \<open>What holds of the result of a program, whatever was sent before.\<close>

definition yields :: "('a \<Rightarrow> bool) \<Rightarrow> 'a web \<Rightarrow> bool" where
  "yields Q m = (\<forall>sent x. fst (m sent) = Inr x \<longrightarrow> Q x)"

named_theorems yields_intros \<open>rules on the results of a program\<close>

lemma yields_give [yields_intros]: "Q x \<Longrightarrow> yields Q (give x)" and yields_fail [yields_intros]: "yields Q (fail e)"
  and yields_now [yields_intros]: "(\<And>t. yields Q (f t)) \<Longrightarrow> yields Q (with_now web f)"
  by (simp_all add: yields_def give_def fail_def with_now_def)

lemma yields_after:
  assumes "yields R m" "\<And>e. yields Q (f (Inl e))" "\<And>x. R x \<Longrightarrow> yields Q (f (Inr x))" shows "yields Q (after m f)"
  unfolding yields_def
proof (intro allI impI)
  fix sent y assume y: "fst (after m f sent) = Inr y"
  obtain r sent' where m: "m sent = (r, sent')" by (cases "m sent")
  show "Q y"
  proof (cases r)
    case (Inl e)
    then show ?thesis using y assms(2) m by (auto simp: after_def yields_def)
  next
    case (Inr x)
    then have "R x" using assms(1) m unfolding yields_def by (metis fst_conv)
    then show ?thesis using y assms(3) [of x] m Inr by (auto simp: after_def yields_def)
  qed
qed

lemma yields_then: "yields R m \<Longrightarrow> (\<And>x. R x \<Longrightarrow> yields Q (f x)) \<Longrightarrow> yields Q (then_web m f)"
  unfolding then_web_def by (rule yields_after [of R]) (simp_all add: yields_fail)

lemma yields_True [simp]: "yields (\<lambda>_. True) m"
  by (simp add: yields_def)

lemma yields_any: "(\<And>x. yields Q (f x)) \<Longrightarrow> yields Q (then_web m f)"
  by (rule yields_then [of "\<lambda>_. True"]) simp_all

text \<open>An execution is reported with trades that cover it, or as pending without trades.\<close>

definition accounted :: "AdapterOrderResult \<Rightarrow> bool" where
  "accounted r = (if ar_FillPending r then ar_Fills r = [] else \<not> spotFillQty (ar_Fills r) + spotFillQtyEpsilon < ar_ExecutedQty r)"

definition accounted_legacy :: "OrderResult \<Rightarrow> bool" where
  "accounted_legacy r = (if xr_FillPending r then xr_Fills r = [] else \<not> totalFillQty (xr_Fills r) + tradeQtyEpsilon < xr_ExecutedQty r)"

lemma legacy_total: "foldl (\<lambda>q fill. q + \<bar>fd_Qty fill\<bar>) a (map (legacyFill symbol) fills) = foldl (\<lambda>total fill. total + \<bar>fl_Qty fill\<bar>) a fills"
  by (induction fills arbitrary: a) (simp_all add: legacyFill_def)

lemma accounted_fromLegacy: "accounted_legacy r \<Longrightarrow> accounted (fromLegacyOrderResult r)"
  by (auto simp: accounted_def accounted_legacy_def fromLegacyOrderResult_def spotFillQty_def totalFillQty_def legacy_total
      spotFillQtyEpsilon_def tradeQtyEpsilon_def split: if_splits)

lemma yields_tradeAttempts:
  "yields (\<lambda>fills. executedQty \<le> totalFillQty fills + tradeQtyEpsilon) (tradeAttempts web ask delay executedQty n err)"
proof (induction n arbitrary: err)
  case (Suc n)
  show ?case unfolding tradeAttempts.simps
    by (rule yields_after [of "\<lambda>_. True"]) (auto intro!: yields_give yields_any Suc)
qed (simp add: yields_fail)

lemma float_le_not_less: "x \<le> y \<Longrightarrow> \<not> y < (x::float64)"
  using float_le_less_trans float_less_irrefl by blast

lemma epsilon_not_negative: "0 \<le> 0 + tradeQtyEpsilon"
  by code_simp

lemma not_executed_accounted: "\<not> 0 < x \<Longrightarrow> \<not> 0 + tradeQtyEpsilon < (x::float64)"
  using epsilon_not_negative float_le_less_trans by blast

lemma yields_orderResult: "yields accounted_legacy (orderResultFromResponse web js e resp req meta)"
  unfolding orderResultFromResponse_def
proof (cases "parse_field ''executed quantity'' (bor_ExecutedQty resp)")
  case (Inr q)
  let ?c = "confirmedResult resp req q"
  have c: "accounted_legacy (?c (Inl err))" for err
    by (simp add: accounted_legacy_def confirmedResult_def Let_def)
  have "accounted_legacy (?c (Inr []))" if "\<not> 0 < q"
    using not_executed_accounted [OF that] by (simp add: accounted_legacy_def confirmedResult_def Let_def totalFillQty_def)
  moreover have "accounted_legacy (?c (Inr fills))" if "q \<le> totalFillQty fills + tradeQtyEpsilon" for fills
    using float_le_not_less [OF that] by (simp add: accounted_legacy_def confirmedResult_def Let_def)
  moreover have "yields (\<lambda>fills. q \<le> totalFillQty fills + tradeQtyEpsilon) (queryTradesUntilComplete web js e symbol orderID q meta)" for symbol orderID
    unfolding queryTradesUntilComplete_def by (simp add: yields_tradeAttempts split: prod.split)
  ultimately show "yields accounted_legacy (case parse_field ''executed quantity'' (bor_ExecutedQty resp) of Inl err \<Rightarrow> fail err
      | Inr executedQty \<Rightarrow>
          if executedQty < 0 then fail (Errorf (''invalid executed quantity: '' @ quote_str (bor_ExecutedQty resp)))
          else if 0 < executedQty
            then after (queryTradesUntilComplete web js e (to_upper (xq_Symbol req)) (bor_OrderID resp) executedQty meta)
              (\<lambda>trades. give (confirmedResult resp req executedQty trades))
          else give (confirmedResult resp req executedQty (Inr [])))"
    using Inr c by (auto intro!: yields_intros yields_after)
qed (simp add: yields_fail)

lemma accounted_failed: "accounted_legacy (failed req msg)"
  using not_executed_accounted [of 0] by (simp add: accounted_legacy_def failed_def zero_OrderResult_def totalFillQty_def)

lemma yields_Execute: "yields accounted_legacy (Execute web js e req meta)"
  unfolding Execute_def placedResult_def
  by (auto split: sum.split prod.split intro!: yields_intros yields_any yields_after [OF yields_orderResult] accounted_failed)

lemma spot_epsilon: "spotFillQtyEpsilon = tradeQtyEpsilon"
  by (simp add: spotFillQtyEpsilon_def tradeQtyEpsilon_def)

lemma spotFillResult_accounted:
  "spotFillResult js now raw orderID q = (fills, pending, msg) \<Longrightarrow>
     if pending then fills = [] else \<not> spotFillQty fills + spotFillQtyEpsilon < q"
  using not_executed_accounted [of q] float_le_not_less [of q 0]
  by (auto simp: spotFillResult_def spotFillQty_def spot_epsilon Let_def split: if_splits sum.splits)

lemma accounted_spot: "accounted (spotOrderResultFromResponse js now req raw)"
  using spotFillResult_accounted [of js now raw "idText (so_OrderID raw)"] not_executed_accounted [of 0]
  by (auto simp: spotOrderResultFromResponse_def accounted_def Let_def split: sum.splits prod.splits)

lemma accounted_failed_spot: "accounted (failedAdapterOrder req msg)"
  using not_executed_accounted [of 0]
  by (simp add: accounted_def failedAdapterOrder_def zero_AdapterOrderResult_def spotFillQty_def spot_epsilon)

lemma yields_RemoteOrderExecutor: "yields accounted (RemoteOrderExecutor_PlaceOrder web fj sj e cred req)"
  unfolding RemoteOrderExecutor_PlaceOrder_def placeSpotOrder_def Let_def
  by (auto split: sum.split option.split prod.split intro!: yields_intros yields_any yields_then [OF yields_Execute]
      accounted_failed_spot accounted_spot accounted_fromLegacy)

subsection \<open>Contracts\<close>

text \<open>The futures client and the adapter in front of it accept the same orders with the same terms.\<close>

lemma legacy_fields [simp]:
  "xq_OrderType (toLegacyOrderRequest req) = aq_OrderType req" "xq_TimeInForce (toLegacyOrderRequest req) = aq_TimeInForce req"
  "xq_Price (toLegacyOrderRequest req) = aq_Price req" "xq_PostOnly (toLegacyOrderRequest req) = aq_PostOnly req"
  "xq_GoodTillDate (toLegacyOrderRequest req) = aq_GoodTillDate req" "xq_ReduceOnly (toLegacyOrderRequest req) = aq_ReduceOnly req"
  by (simp_all add: toLegacyOrderRequest_def)

lemma futures_contract_agrees:
  "normalizeBinanceOrderContract now req MarketPerpetualFutures True = normalizeBinanceFuturesOrderContract now (toLegacyOrderRequest req)"
  by (simp add: normalizeBinanceOrderContract_def normalizeBinanceFuturesOrderContract_def Let_def
      validateBinanceGoodTillDate_def validateBinanceFuturesGoodTillDate_def code_tables split: option.split)

text \<open>The terms in which the gate and the adapter see one order.\<close>

definition same_terms :: "ReviewRequest \<Rightarrow> AdapterOrderRequest \<Rightarrow> bool" where
  "same_terms rq aq = (rq_OrderType rq = aq_OrderType aq \<and> rq_TimeInForce rq = aq_TimeInForce aq \<and> rq_Price rq = aq_Price aq
     \<and> rq_PostOnly rq = aq_PostOnly aq \<and> rq_GoodTillDate rq = aq_GoodTillDate aq \<and> rq_ReduceOnly rq = aq_ReduceOnly aq \<and> rq_Side rq = aq_Side aq)"

text \<open>What the adapter still refuses when the capability check has passed.\<close>

definition refused_by_adapter :: "time \<Rightarrow> AdapterOrderRequest \<Rightarrow> int \<Rightarrow> bool" where
  "refused_by_adapter now req market =
     ((market = MarketSpot \<and> aq_ReduceOnly req \<and> equal_fold (trim_space (aq_Side req)) ''BUY'')
      \<or> norm_sym (aq_OrderType req) = ''LIMIT'' \<and> (noPositivePrice (aq_Price req)
        \<or> aq_GoodTillDate req \<noteq> None \<and> (aq_PostOnly req \<or> contractTimeInForce (aq_TimeInForce req) \<noteq> ''GTD'')
        \<or> \<not> aq_PostOnly req \<and> contractTimeInForce (aq_TimeInForce req) = ''GTD''
            \<and> (case aq_GoodTillDate req of None \<Rightarrow> True | Some t \<Rightarrow> t < now + binanceGTDMinLead)))"

lemma norm_literals: "trim_space ''MARKET'' = ''MARKET''" "trim_space ''LIMIT'' = ''LIMIT''" "trim_space ''GTC'' = ''GTC''"
  "trim_space ''IOC'' = ''IOC''" "trim_space ''FOK'' = ''FOK''" "trim_space ''GTD'' = ''GTD''"
  "to_upper ''MARKET'' = ''MARKET''" "to_upper ''LIMIT'' = ''LIMIT''" "to_upper ''GTC'' = ''GTC''"
  "to_upper ''IOC'' = ''IOC''" "to_upper ''FOK'' = ''FOK''" "to_upper ''GTD'' = ''GTD''"
  by code_simp+

lemma capability_passed:
  assumes "vi_Code (validateCapability rq cap) = []"
  defines "t \<equiv> (if norm_sym (rq_OrderType rq) = [] then ''MARKET'' else norm_sym (rq_OrderType rq))"
  defines "tif \<equiv> (if t = ''LIMIT'' \<and> norm_sym (rq_TimeInForce rq) = [] then ''GTC'' else norm_sym (rq_TimeInForce rq))"
  shows "containsFold (cap_OrderTypes cap) t"
    "t = ''MARKET'' \<Longrightarrow> rq_Price rq = None \<and> \<not> rq_PostOnly rq \<and> trim_space (rq_TimeInForce rq) = [] \<and> rq_GoodTillDate rq = None"
    "tif = [] \<or> containsFold (cap_TimeInForce cap) tif" "rq_PostOnly rq \<Longrightarrow> tif \<noteq> ''IOC'' \<and> tif \<noteq> ''FOK'' \<and> tif \<noteq> ''GTD''"
proof -
  note v = assms(1) [unfolded validateCapability_def Let_def, folded t_def, folded tif_def]
  show "containsFold (cap_OrderTypes cap) t" using v by (rule contrapos_pp) simp
  show "rq_Price rq = None \<and> \<not> rq_PostOnly rq \<and> trim_space (rq_TimeInForce rq) = [] \<and> rq_GoodTillDate rq = None" if "t = ''MARKET''"
    using v that by (auto split: if_splits)
  show "tif = [] \<or> containsFold (cap_TimeInForce cap) tif" using v by (rule contrapos_pp) simp
  show "tif \<noteq> ''IOC'' \<and> tif \<noteq> ''FOK'' \<and> tif \<noteq> ''GTD''" if "rq_PostOnly rq"
    using v by (rule contrapos_pp) (use that in auto)
qed

lemma gate_checks:
  assumes gate: "vi_Code (validateCapability rq cap) = []" and caps: "cap_OrderTypes cap = [''MARKET'', ''LIMIT'']"
    "cap_TimeInForce cap = [''GTC'', ''IOC'', ''FOK''] @ (if g then [''GTD''] else [])"
  defines "t \<equiv> norm_sym (rq_OrderType rq)" and "tif \<equiv> contractTimeInForce (rq_TimeInForce rq)"
  shows "(t = [] \<or> t = ''MARKET'') \<and> rq_Price rq = None \<and> \<not> rq_PostOnly rq \<and> trim_space (rq_TimeInForce rq) = [] \<and> rq_GoodTillDate rq = None
    \<or> t = ''LIMIT'' \<and> (tif = ''GTC'' \<or> \<not> rq_PostOnly rq \<and> (tif = ''IOC'' \<or> tif = ''FOK'' \<or> g \<and> tif = ''GTD''))"
proof -
  let ?t = "if norm_sym (rq_OrderType rq) = [] then ''MARKET'' else norm_sym (rq_OrderType rq)"
  note passed = capability_passed [OF gate]
  have n: "norm_sym (norm_sym s) = norm_sym s" for s by (simp add: trim_space_to_upper)
  have "?t = ''MARKET'' \<or> ?t = ''LIMIT''"
    using passed(1) by (auto simp: containsFold_def caps norm_literals n split: if_splits)
  then show ?thesis
  proof
    assume m: "?t = ''MARKET''"
    then have "t = [] \<or> t = ''MARKET''" by (auto simp: t_def split: if_splits)
    then show ?thesis using passed(2) [OF m] by blast
  next
    assume l: "?t = ''LIMIT''"
    then have t: "t = ''LIMIT''" by (auto simp: t_def split: if_splits)
    have tif: "tif = (if ?t = ''LIMIT'' \<and> norm_sym (rq_TimeInForce rq) = [] then ''GTC'' else norm_sym (rq_TimeInForce rq))"
      using l by (simp add: tif_def contractTimeInForce_def)
    have ne: "tif \<noteq> []" by (simp add: tif_def contractTimeInForce_def)
    have u: "norm_sym tif = tif" by (simp add: tif_def contractTimeInForce_def n norm_literals)
    have "containsFold (cap_TimeInForce cap) tif" using passed(3) ne unfolding tif by blast
    then have "tif = ''GTC'' \<or> tif = ''IOC'' \<or> tif = ''FOK'' \<or> g \<and> tif = ''GTD''"
      unfolding containsFold_def u caps by (auto simp: norm_literals split: if_splits)
    then show ?thesis using t passed(4) unfolding tif by blast
  qed
qed

lemma known_capability:
  assumes "BinanceOrderCapability route = Inr cap"
  shows "cap_OrderTypes cap = [''MARKET'', ''LIMIT'']"
    "cap_TimeInForce cap = [''GTC'', ''IOC'', ''FOK''] @ (if supportsGTD route (rt_Market route) then [''GTD''] else [])"
    "rt_Market route = MarketSpot \<or> rt_Market route = MarketPerpetualFutures"
  using assms by (auto simp: BinanceOrderCapability_def supportsGTD_def Let_def code_tables split: if_splits)

lemma gated_order_refused_only:
  assumes cap: "BinanceOrderCapability route = Inr cap" and gate: "vi_Code (validateCapability rq cap) = []" and same: "same_terms rq aq"
  shows "is_ok (normalizeBinanceOrderContract now aq (rt_Market route) (supportsGTD route (rt_Market route)))
    \<longleftrightarrow> \<not> refused_by_adapter now aq (rt_Market route)"
proof -
  let ?t = "norm_sym (aq_OrderType aq)" and ?tif = "contractTimeInForce (aq_TimeInForce aq)"
  let ?g = "supportsGTD route (rt_Market route)" and ?m = "rt_Market route"
  have g: "?g \<Longrightarrow> ?m \<noteq> MarketSpot" by (simp add: supportsGTD_def code_tables)
  from gate_checks [OF gate known_capability(1,2) [OF cap]]
  have "((?t = [] \<or> ?t = ''MARKET'') \<and> aq_Price aq = None \<and> \<not> aq_PostOnly aq \<and> trim_space (aq_TimeInForce aq) = [] \<and> aq_GoodTillDate aq = None)
    \<or> (?t = ''LIMIT'' \<and> (?tif = ''GTC'' \<or> \<not> aq_PostOnly aq \<and> (?tif = ''IOC'' \<or> ?tif = ''FOK'' \<or> ?g \<and> ?tif = ''GTD'')))"
    using same by (simp add: same_terms_def)
  then show ?thesis
  proof
    assume "(?t = [] \<or> ?t = ''MARKET'') \<and> aq_Price aq = None \<and> \<not> aq_PostOnly aq \<and> trim_space (aq_TimeInForce aq) = [] \<and> aq_GoodTillDate aq = None"
    then show ?thesis
      by (auto simp: normalizeBinanceOrderContract_def refused_by_adapter_def contractType_def marketChecks_def Let_def)
  next
    assume "?t = ''LIMIT'' \<and> (?tif = ''GTC'' \<or> \<not> aq_PostOnly aq \<and> (?tif = ''IOC'' \<or> ?tif = ''FOK'' \<or> ?g \<and> ?tif = ''GTD''))"
    then show ?thesis using g
      by (auto simp: normalizeBinanceOrderContract_def refused_by_adapter_def contractType_def postOnlyChecks_def
          validateBinanceGoodTillDate_def Let_def split: option.split)
  qed
qed

subsection \<open>The guarantees\<close>

text \<open>
  C25.  An executor of the factory posts an order at most once: it sends nothing, or first the order and then at most
  five GETs, and it sends nothing at all in a backtest.
\<close>

theorem orders_posted_once:
  assumes "Binance_OrderExecutor route ep = Inr e"
  shows "\<exists>rs. snd (place_order web fj sj cred e req sent) = sent @ rs \<and> length rs \<le> 6 \<and> list_all is_get (drop 1 rs)
    \<and> (rs = [] \<or> order_post (hd rs)) \<and> (rt_Environment route = EnvironmentBacktest \<longrightarrow> rs = [])"
proof -
  obtain rs where rs: "snd (place_order web fj sj cred e req sent) = sent @ rs" "length rs \<le> Suc 5"
    "list_all is_get (drop 1 rs)" "rs = [] \<or> order_post (hd rs)"
    using leads_place_order [OF assms, of web fj sj cred req] unfolding leads_def by meson
  have "rs = []" if "rt_Environment route = EnvironmentBacktest"
    using backtest_sends_nothing [OF assms that, of web fj sj cred req sent] rs(1) by simp
  then show ?thesis using rs by (intro exI [of _ rs]) simp
qed

text \<open>A live futures order of one contract, on a network that accepts it and lists one trade.\<close>

definition sample_credential :: BinanceCredential where
  "sample_credential = \<lparr>cr_Exchange = 1, cr_Environment = 2, cr_Raw = [], cr_Metadata = [''api_key'' \<mapsto> ''k'', ''api_secret'' \<mapsto> ''s'']\<rparr>"

definition sample_order :: AdapterOrderRequest where
  "sample_order = \<lparr>aq_UserID = 3, aq_AccountID = 7, aq_VenueID = 1, aq_Exchange = 1, aq_Environment = 2, aq_Market = 2, aq_Symbol = ''BTCUSDT'',
     aq_Side = ''buy'', aq_PositionSide = ''BOTH'', aq_MarginMode = 1, aq_PositionMode = 1, aq_OrderType = ''LIMIT'', aq_TimeInForce = [],
     aq_PostOnly = False, aq_GoodTillDate = None, aq_ReduceOnly = False, aq_Qty = Fin 2, aq_Price = Some (Fin 3), aq_MarkPrice = Fin 4,
     aq_DefaultFeeRate = 0, aq_SlippageBps = 0, aq_ClientOrderID = ''c1''\<rparr>"

definition sample_network :: Web where
  "sample_network = \<lparr>wb_now = \<lambda>_. unix_epoch, wb_answer = \<lambda>_. Answer 200 [], wb_wait = \<lambda>_. None, wb_bad_url = \<lambda>_. None, wb_hmac = \<lambda>_ _. [1, 255]\<rparr>"

definition sample_futures :: FuturesJson where
  "sample_futures = \<lparr>fj_order = \<lambda>_. Inr \<lparr>bor_OrderID = 9, bor_ClientOrderID = ''c1'', bor_Symbol = ''BTCUSDT'', bor_Side = ''BUY'', bor_OrigQty = ''2'',
       bor_AvgPrice = ''3'', bor_ExecutedQty = ''2'', bor_Status = ''FILLED'', bor_Code = 0, bor_Msg = []\<rparr>,
     fj_trades = \<lambda>_. Inr [\<lparr>btr_ID = 11, btr_OrderID = 9, btr_Price = ''3'', btr_Qty = ''2'', btr_Commission = ''0''\<rparr>]\<rparr>"

definition sample_spot :: SpotJson where
  "sample_spot = \<lparr>sj_order = \<lambda>_. Inl (Errorf ''no order''), sj_trades = \<lambda>_. Inr [], sj_cancel = \<lambda>_. Inl (Errorf ''no order''),
     sj_info = \<lambda>_. Inr [], sj_int = \<lambda>_. Some 5, sj_text = \<lambda>_. None\<rparr>"

definition sample_route :: Route where "sample_route = \<lparr>rt_Exchange = 1, rt_Environment = 2, rt_Market = 2\<rparr>"

definition sample_endpoints :: Endpoints where "sample_endpoints = \<lparr>ep_RESTBaseURL = ''https://x'', ep_WSBaseURL = ''wss://x''\<rparr>"

definition sample_executor :: RemoteOrderExecutor where
  "sample_executor = remoteOrderExecutor sample_route sample_endpoints"

lemma sample_executor_made: "Binance_OrderExecutor sample_route sample_endpoints = Inr (RemoteExecutor sample_executor)"
  by (simp add: Binance_OrderExecutor_def requireOrderMarket_def known_remote_def sample_executor_def sample_route_def code_tables)

theorem orders_posted_once_witness:
  "\<exists>rs. snd (place_order sample_network sample_futures sample_spot sample_credential (RemoteExecutor sample_executor) sample_order [])
       = [] @ rs \<and> length rs \<le> 6 \<and> list_all is_get (drop 1 rs) \<and> (rs = [] \<or> order_post (hd rs))
    \<and> (rt_Environment sample_route = EnvironmentBacktest \<longrightarrow> rs = [])"
  by (rule orders_posted_once [OF sample_executor_made])

text \<open>
  C22.  What a remote executor reports as executed is accounted for: the trades it reports cover the executed quantity,
  or the execution is marked pending and reported without trades.
\<close>

theorem executions_accounted:
  assumes "fst (RemoteOrderExecutor_PlaceOrder web fj sj e cred req sent) = Inr r"
  shows "if ar_FillPending r then ar_Fills r = [] else \<not> spotFillQty (ar_Fills r) + spotFillQtyEpsilon < ar_ExecutedQty r"
  using yields_RemoteOrderExecutor [of web fj sj e cred req] assms unfolding yields_def accounted_def by blast

definition sample_result :: AdapterOrderResult where
  "sample_result = \<lparr>ar_ExchangeOrderID = ''9'', ar_ClientOrderID = ''c1'', ar_Symbol = ''BTCUSDT'', ar_Side = ''BUY'', ar_PositionSide = [],
     ar_OrderType = ''LIMIT'', ar_TimeInForce = [], ar_Status = ''FILLED'', ar_OrigQty = Fin 2, ar_ExecutedQty = Fin 2, ar_RemainingQty = Fin 0,
     ar_AvgPrice = Fin 3, ar_Price = Fin 3,
     ar_Fills = [\<lparr>fd_ExchangeTradeID = ''11'', fd_ExchangeOrderID = [], fd_Symbol = ''BTCUSDT'', fd_Qty = Fin 2, fd_FillPrice = Fin 3, fd_Fee = Fin 0,
       fd_FeeAsset = [], fd_FeeMissing = False, fd_TradeTime = 0\<rparr>], ar_ErrorMessage = [], ar_FillPending = False\<rparr>"

lemma sample_run: "fst (RemoteOrderExecutor_PlaceOrder sample_network sample_futures sample_spot sample_executor sample_credential sample_order []) = Inr sample_result"
  by code_simp

theorem executions_accounted_witness: "\<not> spotFillQty (ar_Fills sample_result) + spotFillQtyEpsilon < ar_ExecutedQty sample_result"
  using executions_accounted [OF sample_run] by (simp add: sample_result_def)

text \<open>
  C33.  The risk gate and the Binance adapter agree on the orders they let through: of the orders that pass the gate's
  check against the capability of the route, the adapter refuses exactly the reduce-only spot purchases, the limit
  orders without a positive price, those with a date and no GTD or with a date and post-only, and the GTD orders with
  no date or a date less than ten minutes ahead.
\<close>

theorem gated_order_accepted:
  assumes "BinanceOrderCapability route = Inr cap" "vi_Code (validateCapability rq cap) = []" "same_terms rq aq"
  shows "is_ok (normalizeBinanceOrderContract now aq (rt_Market route) (supportsGTD route (rt_Market route)))
    \<longleftrightarrow> \<not> refused_by_adapter now aq (rt_Market route)"
  by (rule gated_order_refused_only [OF assms])

definition sample_review :: ReviewRequest where
  "sample_review = \<lparr>rq_AccountID = 7, rq_VenueID = 1, rq_UserID = 3, rq_Environment = 2, rq_Exchange = 1, rq_Market = 2, rq_PositionSide = 0,
     rq_Symbol = ''BTCUSDT'', rq_Side = ''buy'', rq_Qty = Fin 2, rq_Price = Some (Fin 3), rq_MarkPrice = Fin 4, rq_OrderType = ''LIMIT'',
     rq_TimeInForce = [], rq_PostOnly = False, rq_GoodTillDate = None, rq_ReduceOnly = False\<rparr>"

definition sample_capability :: OrderCapability where
  "sample_capability = \<lparr>cap_Market = 2, cap_OrderTypes = [''MARKET'', ''LIMIT''], cap_TimeInForce = [''GTC'', ''IOC'', ''FOK'', ''GTD''],
     cap_SupportsPostOnly = True, cap_SupportsGTD = True, cap_SupportsReduceOnly = True\<rparr>"

lemma sample_reviewed:
  "BinanceOrderCapability sample_route = Inr sample_capability" "vi_Code (validateCapability sample_review sample_capability) = []"
  "same_terms sample_review sample_order"
  by code_simp+

theorem gated_order_accepted_witness:
  "is_ok (normalizeBinanceOrderContract 0 sample_order (rt_Market sample_route) (supportsGTD sample_route (rt_Market sample_route)))
    \<longleftrightarrow> \<not> refused_by_adapter 0 sample_order (rt_Market sample_route)"
  by (rule gated_order_accepted [OF sample_reviewed])

end
