(* ===== verification/Binance_Wire.thy ===== *)
theory Binance_Wire
  imports Binance_Guarantees
begin

text \<open>
  What the exchange reads from an order request: the form decodes to the parameters that were set, the numbers
  read back as the floats of the order, and the signature covers all other parameters.
\<close>

subsection \<open>Reading a form\<close>

text \<open>The decoder of the receiver: \<^verbatim>\<open>url.ParseQuery\<close> of well-formed text.\<close>

fun unescape :: "string \<Rightarrow> string" where
  "unescape [] = []"
| "unescape (c # cs) = (if c = CHR ''+'' then CHR '' '' # unescape cs
     else if c = CHR ''%'' then (case cs of a # b # rest \<Rightarrow>
       char_of (16 * the (digit_value True a) + the (digit_value True b)) # unescape rest | _ \<Rightarrow> [])
     else c # unescape cs)"

fun split_on :: "char \<Rightarrow> string \<Rightarrow> string list" where
  "split_on d [] = [[]]"
| "split_on d (c # s) = (if c = d then [] # split_on d s else (c # hd (split_on d s)) # tl (split_on d s))"

definition decode_pair :: "string \<Rightarrow> string \<times> string" where
  "decode_pair p = (unescape (takeWhile (\<lambda>c. c \<noteq> CHR ''='') p), unescape (drop 1 (dropWhile (\<lambda>c. c \<noteq> CHR ''='') p)))"

definition decode_params :: "string \<Rightarrow> params" where
  "decode_params s = (if s = [] then [] else map decode_pair (split_on (CHR ''&'') s))"

lemma split_on_not_Nil [simp]: "split_on d s \<noteq> []"
  by (cases s) auto

lemma split_on_none: "d \<notin> set w \<Longrightarrow> split_on d w = [w]"
  by (induction w) auto

lemma split_on_append: "d \<notin> set w \<Longrightarrow> split_on d (w @ d # s) = w # split_on d s"
  by (induction w) auto

lemma split_on_join: "ws \<noteq> [] \<Longrightarrow> (\<And>w. w \<in> set ws \<Longrightarrow> d \<notin> set w) \<Longrightarrow> split_on d (join ws [d]) = ws"
proof (induction ws rule: induct_list012)
  case (2 w)
  then show ?case by (simp add: split_on_none)
next
  case (3 w w' ws)
  then show ?case by (simp add: split_on_append)
qed simp

lemma hex_pair:
  assumes "0 \<le> n" "n < 16"
  shows "digit_value True (upper_hex n) = Some n" "upper_hex n \<noteq> CHR ''&''" "upper_hex n \<noteq> CHR ''=''"
proof -
  have "list_all (\<lambda>n. digit_value True (upper_hex n) = Some n \<and> upper_hex n \<noteq> CHR ''&'' \<and> upper_hex n \<noteq> CHR ''='') [0..15]"
    by code_simp
  moreover have "n \<in> set [0..15]" using assms by simp
  ultimately show "digit_value True (upper_hex n) = Some n" "upper_hex n \<noteq> CHR ''&''" "upper_hex n \<noteq> CHR ''=''"
    unfolding list_all_iff by blast+
qed

lemma char_code_bounds: "0 \<le> (of_char c :: int)" "(of_char c :: int) < 256" "(of_char c :: int) div 16 < 16" "0 \<le> (of_char c :: int) div 16"
proof -
  have n: "(of_char c :: int) = int (of_char c)" by (simp add: of_nat_of_char)
  show "0 \<le> (of_char c :: int)" "(of_char c :: int) < 256" unfolding n using nat_of_char_less_256 [of c] by simp_all
  then show "(of_char c :: int) div 16 < 16" "0 \<le> (of_char c :: int) div 16" by presburger+
qed

lemma escape_char_clean: "CHR ''&'' \<notin> set (escape_char c)" "CHR ''='' \<notin> set (escape_char c)"
  using hex_pair(2,3) [of "of_char c div 16"] hex_pair(2,3) [of "of_char c mod 16"] char_code_bounds(3,4) [of c]
  by (auto simp: escape_char_def unreserved_def Let_def)

lemma unescape_char: "unescape (escape_char c @ s) = c # unescape s"
proof (cases "unreserved c")
  case True
  then have "c \<noteq> CHR ''+''" "c \<noteq> CHR ''%''" by (auto simp: unreserved_def Let_def)
  then show ?thesis using True by (simp add: escape_char_def Let_def)
next
  case False
  let ?n = "of_char c :: int"
  have c: "char_of ?n = c" by simp
  show ?thesis
  proof (cases "?n = 32")
    case True
    moreover have "char_of (32::int) = CHR '' ''" by code_simp
    ultimately have "c = CHR '' ''" using c by simp
    then show ?thesis using False by (simp add: escape_char_def Let_def)
  next
    case n: False
    have "16 * (?n div 16) + ?n mod 16 = ?n" by simp
    then show ?thesis
      using False n hex_pair(1) [of "?n div 16"] hex_pair(1) [of "?n mod 16"] char_code_bounds(3,4) [of c]
      by (simp add: escape_char_def Let_def)
  qed
qed

lemma unescape_escape [simp]: "unescape (query_escape s) = s"
  by (induction s) (simp_all add: query_escape_def unescape_char)

lemma query_escape_clean [simp]: "CHR ''&'' \<notin> set (query_escape s)" "CHR ''='' \<notin> set (query_escape s)"
  using escape_char_clean by (auto simp: query_escape_def)

lemma decode_encode_pair [simp]: "decode_pair (encode_pair p) = p"
proof -
  have "takeWhile (\<lambda>c. c \<noteq> CHR ''='') (query_escape k @ CHR ''='' # v) = query_escape k"
    "dropWhile (\<lambda>c. c \<noteq> CHR ''='') (query_escape k @ CHR ''='' # v) = CHR ''='' # v" for k v
    using query_escape_clean(2) [of k] by (auto simp: takeWhile_append dropWhile_append)
  then show ?thesis by (simp add: decode_pair_def encode_pair_def)
qed

lemma encode_pair_clean: "CHR ''&'' \<notin> set (encode_pair p)"
  by (simp add: encode_pair_def)

lemma join_eq_Nil: "sep \<noteq> [] \<Longrightarrow> join ws sep = [] \<Longrightarrow> ws = [] \<or> ws = [[]]"
  by (cases "(ws, sep)" rule: join.cases) auto

lemma decode_encode_params [simp]: "decode_params (encode_params ps) = sort_key fst ps"
proof (cases "sort_key fst ps = []")
  case True
  then show ?thesis by (simp add: encode_params_def decode_params_def)
next
  case False
  let ?ws = "map encode_pair (sort_key fst ps)"
  have "join ?ws ''&'' \<noteq> []" using join_eq_Nil [of "''&''" ?ws] False by (auto simp: encode_pair_def)
  moreover have "split_on (CHR ''&'') (join ?ws ''&'') = ?ws"
    using False encode_pair_clean by (intro split_on_join) auto
  ultimately show ?thesis by (simp add: encode_params_def decode_params_def comp_def)
qed

subsection \<open>Reading an order\<close>

definition form_field :: "HttpRequest \<Rightarrow> string \<Rightarrow> string option" where
  "form_field r k = map_of (decode_params (hq_Body r)) k"

lemma map_of_set_param [simp]: "map_of (set_param k v ps) = (map_of ps)(k \<mapsto> v)"
  by (simp add: set_param_def AList.update_conv')

lemma map_of_set_if [simp]: "map_of (set_if b k v ps) = (if b then (map_of ps)(k \<mapsto> v) else map_of ps)"
  by (simp add: set_if_def)

lemma distinct_params [simp]:
  "distinct (map fst ps) \<Longrightarrow> distinct (map fst (set_param k v ps))"
  "distinct (map fst ps) \<Longrightarrow> distinct (map fst (set_if b k v ps))"
  by (simp_all add: set_param_def set_if_def AList.distinct_update)

lemma map_of_sorted: "distinct (map fst ps) \<Longrightarrow> map_of (sort_key fst ps) = map_of ps"
proof -
  assume d: "distinct (map fst ps)"
  have "mset (map fst (sort_key fst ps)) = mset (map fst ps)" by (simp only: mset_map mset_sort)
  then have "distinct (map fst (sort_key fst ps))" using d by (metis mset_eq_imp_distinct_iff)
  then show ?thesis using d by (simp add: map_of_inject_set)
qed

lemma filter_set_param:
  "k \<notin> fst ` set ps \<Longrightarrow> filter (\<lambda>p. fst p \<noteq> k) (set_param k v ps) = ps"
  by (induction ps) (auto simp: set_param_def)

lemma sort_key_idem [simp]: "sort_key f (sort_key f xs) = sort_key f xs"
  by (rule sort_key_id_if_sorted) simp

lemma distinct_orderParams [simp]: "distinct (map fst (orderParams req side positionSide contract now))"
  by (simp add: orderParams_def Let_def split: option.split)

lemma orderParams_fields:
  "map_of (orderParams req side positionSide contract now) ''quantity'' = Some (format_float (xq_Qty req))"
  "map_of (orderParams req side positionSide contract now) ''symbol'' = Some (to_upper (xq_Symbol req))"
  "map_of (orderParams req side positionSide contract now) ''price'' = map_option format_float (ct_Price contract)"
  "map_of (orderParams req side positionSide contract now) ''newClientOrderId''
     = (if trim_space (xq_ClientOrderID req) \<noteq> [] then Some (trim_space (xq_ClientOrderID req)) else None)"
  "map_of (orderParams req side positionSide contract now) ''signature'' = None"
  by (simp_all add: orderParams_def Let_def del: map_of_eq_Some_iff map_of_eq_None_iff split: option.split)

lemma contract_price: "normalizeBinanceFuturesOrderContract now req = Inr contract \<Longrightarrow> ct_Price contract = xq_Price req"
  by (auto simp: normalizeBinanceFuturesOrderContract_def marketChecks_def Let_def split: if_splits option.splits)

text \<open>The request an order starts with.\<close>

lemma Execute_post:
  assumes "standard e" "snd (Execute web js e req meta sent) = sent @ r # rs"
  shows "\<exists>side positionSide contract. normalizeBinanceFuturesOrderContract (wb_now web sent) req = Inr contract
     \<and> r = form_request ''POST'' (bx_baseURL e @ ''/fapi/v1/order'')
         (sign_params web (orderParams req side positionSide contract (wb_now web sent)) (me_APISecret meta)) (me_APIKey meta)"
proof -
  let ?now = "wb_now web sent"
  show ?thesis
  proof (cases "bind_result (normalizeBinanceOrderSide (xq_Side req) (me_PositionMode meta)) (\<lambda>(side, positionSide).
       bind_result (normalizeBinanceFuturesOrderContract ?now req) (\<lambda>contract. Inr (side, positionSide, contract)))")
    case (Inl err)
    then show ?thesis using assms(2) by (simp add: Execute_def with_now_def give_def)
  next
    case (Inr x)
    obtain side positionSide contract where x: "x = (side, positionSide, contract)" by (cases x)
    let ?r = "form_request ''POST'' (bx_baseURL e @ ''/fapi/v1/order'')
         (sign_params web (orderParams req side positionSide contract ?now) (me_APISecret meta)) (me_APIKey meta)"
    have c: "normalizeBinanceFuturesOrderContract ?now req = Inr contract"
      using Inr x by (auto simp: bind_result_Inr split: prod.splits)
    have "snd (then_web (send web (Wrapf ''build request: '') id (\<lambda>_. Wrapf ''read body: '') ?r)
        (\<lambda>(body, status). placedResult web js e req meta body status) sent) = sent @ r # rs"
      using assms(2) Inr x by (simp add: Execute_def with_now_def futuresRequest_def)
    moreover have "\<exists>ts. snd (placedResult web js e req meta body status (sent @ [?r])) = (sent @ [?r]) @ ts" for body status
      using sends_placedResult [OF assms(1)] unfolding sends_def by meson
    ultimately have "r = ?r"
      by (auto simp: then_web_def after_def send_def transmit_def fail_def split: option.splits HttpAnswer.splits) (metis append_assoc append_Cons list.inject same_append_eq)+
    then show ?thesis using c by blast
  qed
qed

lemma ParseFloat_format_any: assumes "wf64 x" shows "ParseFloat (format_float x) = Inr x"
proof (cases x)
  case NaN
  have "ParseFloat ''NaN'' = Inr NaN" by code_simp
  then show ?thesis using NaN by (simp add: format_float_def)
next
  case (Inf b)
  have "ParseFloat ''+Inf'' = Inr (Inf False)" "ParseFloat ''-Inf'' = Inr (Inf True)" by code_simp+
  then show ?thesis using Inf by (simp add: format_float_def)
next
  case (Fin q)
  then show ?thesis using assms ParseFloat_format by simp
qed

lemma form_of_post:
  fixes endpoint secret key :: string and web :: Web
  assumes "distinct (map fst ps)" "map_of ps ''signature'' = None"
  defines "r \<equiv> form_request ''POST'' endpoint (sign_params web ps secret) key"
  shows "form_field r k = (if k = ''signature'' then Some (signature web (encode_params ps) secret) else map_of ps k)"
    "encode_params (filter (\<lambda>p. fst p \<noteq> ''signature'') (decode_params (hq_Body r))) = encode_params ps"
proof -
  have d: "decode_params (hq_Body r) = sort_key fst (sign_params web ps secret)" by (simp add: r_def form_request_def)
  have m: "map_of (sort_key fst (sign_params web ps secret)) = map_of (sign_params web ps secret)"
    by (rule map_of_sorted) (simp add: sign_params_def assms(1))
  show "form_field r k = (if k = ''signature'' then Some (signature web (encode_params ps) secret) else map_of ps k)"
    unfolding form_field_def d m by (simp add: sign_params_def)
  have "filter (\<lambda>p. fst p \<noteq> ''signature'') (decode_params (hq_Body r)) = sort_key fst ps"
    unfolding d sign_params_def using assms(2) by (simp only: filter_sort filter_set_param map_of_eq_None_iff simp_thms)
  then show "encode_params (filter (\<lambda>p. fst p \<noteq> ''signature'') (decode_params (hq_Body r))) = encode_params ps"
    by (simp add: encode_params_def)
qed

text \<open>
  C24.  The order the exchange reads is the order that was asked for: quantity and price read back as exactly the floats
  of the request, the symbol and the client order id are those of the request, and the signature in the form is the one
  of all its other fields.
\<close>

theorem order_reads_back:
  assumes "snd (Execute web js (NewBinanceExecutorWithBaseURL url) req meta sent) = sent @ r # rs" "wf64 (xq_Qty req)"
    "\<And>p. xq_Price req = Some p \<Longrightarrow> wf64 p"
  shows "(\<exists>text. form_field r ''quantity'' = Some text \<and> ParseFloat text = Inr (xq_Qty req))
    \<and> (case xq_Price req of None \<Rightarrow> form_field r ''price'' = None | Some p \<Rightarrow> \<exists>text. form_field r ''price'' = Some text \<and> ParseFloat text = Inr p)
    \<and> form_field r ''symbol'' = Some (to_upper (xq_Symbol req))
    \<and> form_field r ''newClientOrderId'' = (if trim_space (xq_ClientOrderID req) \<noteq> [] then Some (trim_space (xq_ClientOrderID req)) else None)
    \<and> form_field r ''signature'' = Some (signature web
        (encode_params (filter (\<lambda>p. fst p \<noteq> ''signature'') (decode_params (hq_Body r)))) (me_APISecret meta))"
proof -
  obtain side positionSide contract where c: "normalizeBinanceFuturesOrderContract (wb_now web sent) req = Inr contract"
    and r: "r = form_request ''POST'' (bx_baseURL (NewBinanceExecutorWithBaseURL url) @ ''/fapi/v1/order'')
      (sign_params web (orderParams req side positionSide contract (wb_now web sent)) (me_APISecret meta)) (me_APIKey meta)"
    using Execute_post [OF standard_new assms(1)] by blast
  note form = form_of_post [where ps = "orderParams req side positionSide contract (wb_now web sent)" and web = web
      and endpoint = "bx_baseURL (NewBinanceExecutorWithBaseURL url) @ ''/fapi/v1/order''" and secret = "me_APISecret meta"
      and key = "me_APIKey meta", OF distinct_orderParams orderParams_fields(5), folded r]
  show ?thesis
    using assms(2,3) contract_price [OF c]
    by (auto simp: form orderParams_fields ParseFloat_format_any split: option.split)
qed

definition sample_request :: OrderRequest where "sample_request = toLegacyOrderRequest sample_order"
definition sample_meta :: Meta where "sample_meta = toAccountMeta sample_order sample_credential"

definition sample_post :: HttpRequest where
  "sample_post = hd (snd (Execute sample_network sample_futures (NewBinanceExecutorWithBaseURL ''https://x'') sample_request sample_meta []))"

definition sample_rest :: "HttpRequest list" where
  "sample_rest = tl (snd (Execute sample_network sample_futures (NewBinanceExecutorWithBaseURL ''https://x'') sample_request sample_meta []))"

lemma sample_sent: "snd (Execute sample_network sample_futures (NewBinanceExecutorWithBaseURL ''https://x'') sample_request sample_meta []) = [] @ sample_post # sample_rest"
proof -
  have "snd (Execute sample_network sample_futures (NewBinanceExecutorWithBaseURL ''https://x'') sample_request sample_meta []) \<noteq> []" by code_simp
  then show ?thesis by (simp add: sample_post_def sample_rest_def)
qed

lemma sample_floats: "wf64 (xq_Qty sample_request)" "xq_Price sample_request = Some p \<Longrightarrow> wf64 p"
proof -
  have "wf64 (Fin (of_int 2))" "wf64 (Fin (of_int 3))" by (rule wf64_int53, simp)+
  then show "wf64 (xq_Qty sample_request)" "xq_Price sample_request = Some p \<Longrightarrow> wf64 p"
    by (auto simp: sample_request_def toLegacyOrderRequest_def sample_order_def)
qed

theorem order_reads_back_witness:
  "\<exists>text. form_field sample_post ''quantity'' = Some text \<and> ParseFloat text = Inr (Fin 2)"
  using order_reads_back [OF sample_sent sample_floats] by (simp add: sample_request_def toLegacyOrderRequest_def sample_order_def)

subsection \<open>Where the clients deviate\<close>

text \<open>
  The reader of the account puts the signature last, because Binance checks it against the original query; the order
  clients encode the parameters again, which sorts the signature before the symbol.
\<close>

lemma signature_not_last:
  "encode_params (sign_params sample_network [(''symbol'', ''BTC''), (''timestamp'', ''0'')] ''s'') = ''signature=01ff&symbol=BTC&timestamp=0''"
  by code_simp

text \<open>
  An order that the exchange may have taken, answered with a status such as 503, is reported as failed and without an
  exchange order id, not as unknown.
\<close>

lemma unknown_outcome_failed:
  "status \<noteq> 200 \<Longrightarrow> placedResult web js e req meta body status sent = (Inr (failed req (http_error status body)), sent)"
  "xr_Status (failed req msg) = ''FAILED''" "xr_ExchangeOrderID (failed req msg) = []"
  by (simp_all add: placedResult_def give_def failed_def zero_OrderResult_def)

text \<open>The same for an accepted order whose executed quantity cannot be read.\<close>

lemma accepted_order_failed:
  "fj_order js body = Inr resp \<Longrightarrow> bor_Code resp = 0 \<Longrightarrow> parse_field ''executed quantity'' (bor_ExecutedQty resp) = Inl err
    \<Longrightarrow> placedResult web js e req meta body 200 sent = (Inr (failed req (err_text err)), sent)"
  by (simp add: placedResult_def orderResultFromResponse_def after_def fail_def give_def)

text \<open>A negative quantity goes to the futures exchange with its sign, to the spot exchange without.\<close>

lemma negative_quantity_sent:
  "map_of (orderParams (sample_request\<lparr>xq_Qty := Fin (- 2)\<rparr>) ''BUY'' [] contract now) ''quantity'' = Some ''-2''"
  "map_of (spotOrderParams (sample_order\<lparr>aq_Qty := Fin (- 2)\<rparr>) ''BUY'' contract now) ''quantity'' = Some ''2''"
proof -
  have "format_float (Fin (- 2)) = ''-2''" "format_float \<bar>Fin (- 2)\<bar> = ''2''" by code_simp+
  then show "map_of (orderParams (sample_request\<lparr>xq_Qty := Fin (- 2)\<rparr>) ''BUY'' [] contract now) ''quantity'' = Some ''-2''"
    "map_of (spotOrderParams (sample_order\<lparr>aq_Qty := Fin (- 2)\<rparr>) ''BUY'' contract now) ''quantity'' = Some ''2''"
    by (simp_all add: orderParams_fields(1) spotOrderParams_def Let_def del: map_of_eq_Some_iff split: option.split)
qed

text \<open>A fill of quantity NaN passes for the complete execution of a spot order.\<close>

lemma nan_fill_completes:
  "snd (spotFillResult sample_spot 0 \<lparr>so_OrderID = 1, so_ClientOrderID = [], so_Symbol = ''X'', so_Side = [], so_Type = [], so_TimeInForce = [],
     so_Price = [], so_OrigQty = ''5'', so_ExecutedQty = ''5'', so_CummulativeQuoteQty = [], so_Status = ''FILLED'', so_Time = 0, so_UpdateTime = 0,
     so_Code = 0, so_Msg = [], so_Fills = [\<lparr>sf_Price = ''1'', sf_Qty = ''NaN'', sf_Commission = ''0'', sf_CommissionAsset = [], sf_TradeID = ''5''\<rparr>]\<rparr>
     ''1'' (Fin 5)) = (False, [])"
  by code_simp

text \<open>
  In a simulation, an order with a price and no type is checked as a limit order but filled at once as a market order,
  and a purchase with a limit is filled when there is no mark price, where the simulation of \<open>Executor\<close> lets it rest.
\<close>

definition simulated_order :: AdapterOrderRequest where
  "simulated_order = sample_order\<lparr>aq_Environment := 0, aq_Price := Some (Fin 3), aq_MarkPrice := Fin 200\<rparr>"

lemma untyped_limit_filled:
  "map_sum id ar_Status (SimulatedOrderExecutor_PlaceOrder (sample_route\<lparr>rt_Environment := 0\<rparr>) unix_epoch simulated_order) = Inr ''NEW''"
  "map_sum id ar_Status (SimulatedOrderExecutor_PlaceOrder (sample_route\<lparr>rt_Environment := 0\<rparr>) unix_epoch (simulated_order\<lparr>aq_OrderType := []\<rparr>)) = Inr ''FILLED''"
  by code_simp+

lemma unknown_mark_fills:
  "map_sum id ar_Status (SimulatedOrderExecutor_PlaceOrder (sample_route\<lparr>rt_Environment := 0\<rparr>) unix_epoch (simulated_order\<lparr>aq_MarkPrice := 0\<rparr>)) = Inr ''FILLED''"
  "map_sum id xr_Status (MockExecutor_Execute ''u'' unix_epoch (toLegacyOrderRequest (simulated_order\<lparr>aq_MarkPrice := 0\<rparr>)) sample_meta) = Inr ''NEW''"
  by code_simp+

end
