(* ===== verification/Binance_Streams.thy ===== *)
theory Binance_Streams
  imports Binance_Clients
begin

text \<open>
  The user data streams of Binance (\<^verbatim>\<open>user_data_events.go\<close>, \<^verbatim>\<open>user_data_stream.go\<close>,
  \<^verbatim>\<open>user_data_stream_client.go\<close>): parsing a pushed message into an order event, and the loop that reads
  messages and hands their events on.

  The connection is a list of what arrives: messages, or an error that ends it.  The loop runs over this list; when
  the list is used up the loop waits for more, which is the result \<open>None\<close>.  The handler is a function of the events
  handed on before and the event itself.
\<close>

subsection \<open>Messages\<close>

record spotUserDataOrderPayload =
  sp_EventType :: string
  sp_EventTime :: int
  sp_Symbol :: string
  sp_ClientOrderID :: string
  sp_Side :: string
  sp_OrderType :: string
  sp_TimeInForce :: string
  sp_ExecutionType :: string
  sp_OrderStatus :: string
  sp_ExchangeOrderID :: int
  sp_ExchangeTradeID :: int
  sp_LastFilledQty :: string
  sp_LastFilledPrice :: string
  sp_AccumulatedFilledQty :: string
  sp_Fee :: string
  sp_FeeAsset :: string

record futuresUserDataOrderPayload =
  fu_Symbol :: string
  fu_ClientOrderID :: string
  fu_Side :: string
  fu_PositionSide :: string
  fu_OrderType :: string
  fu_TimeInForce :: string
  fu_ExecutionType :: string
  fu_OrderStatus :: string
  fu_ExchangeOrderID :: int
  fu_ExchangeTradeID :: int
  fu_LastFilledQty :: string
  fu_LastFilledPrice :: string
  fu_AccumulatedFilledQty :: string
  fu_Fee :: string
  fu_FeeAsset :: string
  fu_ReduceOnly :: bool

record futuresUserDataOrderEnvelope =
  en_EventType :: string
  en_EventTime :: int
  en_Order :: futuresUserDataOrderPayload

record StreamJson =
  tj_spot :: "string \<Rightarrow> spotUserDataOrderPayload result"
  tj_futures :: "string \<Rightarrow> futuresUserDataOrderEnvelope result"
  tj_listenKey :: "string \<Rightarrow> string result"

definition parseUserDataFloat :: "string \<Rightarrow> string \<Rightarrow> float64 result" where
  "parseUserDataFloat raw0 label = (let raw = trim_space raw0 in
     if raw = [] then Inr 0
     else case ParseFloat raw of Inl _ \<Rightarrow> Inl (Errorf (''invalid '' @ label @ '': '' @ quote_str raw)) | Inr v \<Rightarrow> Inr v)"

definition normalizeUserDataText :: "string \<Rightarrow> string" where
  "normalizeUserDataText v = to_upper (trim_space v)"

definition formatUserDataID :: "int \<Rightarrow> string" where
  "formatUserDataID v = (if v \<le> 0 then [] else show_int v)"

text \<open>The four numbers of a message, in the order they are read.\<close>

definition userDataFloats :: "string \<Rightarrow> string \<Rightarrow> string \<Rightarrow> string \<Rightarrow> (float64 \<times> float64 \<times> float64 \<times> float64) result" where
  "userDataFloats lastQty lastPrice accumulated charge =
     bind_result (parseUserDataFloat lastQty ''last filled qty'') (\<lambda>q.
     bind_result (parseUserDataFloat lastPrice ''last filled price'') (\<lambda>p.
     bind_result (parseUserDataFloat accumulated ''accumulated filled qty'') (\<lambda>a.
     bind_result (parseUserDataFloat charge ''fee'') (\<lambda>f. Inr (q, p, a, f)))))"

definition normalizeSpotUserDataOrder :: "spotUserDataOrderPayload \<Rightarrow> UserDataOrderEvent result" where
  "normalizeSpotUserDataOrder raw =
     bind_result (userDataFloats (sp_LastFilledQty raw) (sp_LastFilledPrice raw) (sp_AccumulatedFilledQty raw) (sp_Fee raw)) (\<lambda>(q, p, a, f).
     Inr \<lparr>ud_EventSource = ''websocket'', ud_EventTime = unix_milli (sp_EventTime raw), ud_Symbol = normalizeUserDataText (sp_Symbol raw),
       ud_ClientOrderID = trim_space (sp_ClientOrderID raw), ud_ExchangeOrderID = formatUserDataID (sp_ExchangeOrderID raw),
       ud_ExchangeTradeID = formatUserDataID (sp_ExchangeTradeID raw), ud_Side = normalizeUserDataText (sp_Side raw), ud_PositionSide = [],
       ud_OrderType = normalizeUserDataText (sp_OrderType raw), ud_TimeInForce = normalizeUserDataText (sp_TimeInForce raw),
       ud_OrderStatus = normalizeUserDataText (sp_OrderStatus raw), ud_ExecutionType = normalizeUserDataText (sp_ExecutionType raw),
       ud_LastFilledQty = q, ud_LastFilledPrice = p, ud_AccumulatedFilledQty = a, ud_Fee = f, ud_FeeAsset = normalizeUserDataText (sp_FeeAsset raw),
       ud_ReduceOnly = False\<rparr>)"

definition normalizeFuturesUserDataOrder :: "int \<Rightarrow> futuresUserDataOrderPayload \<Rightarrow> UserDataOrderEvent result" where
  "normalizeFuturesUserDataOrder eventTime raw =
     bind_result (userDataFloats (fu_LastFilledQty raw) (fu_LastFilledPrice raw) (fu_AccumulatedFilledQty raw) (fu_Fee raw)) (\<lambda>(q, p, a, f).
     Inr \<lparr>ud_EventSource = ''websocket'', ud_EventTime = unix_milli eventTime, ud_Symbol = normalizeUserDataText (fu_Symbol raw),
       ud_ClientOrderID = trim_space (fu_ClientOrderID raw), ud_ExchangeOrderID = formatUserDataID (fu_ExchangeOrderID raw),
       ud_ExchangeTradeID = formatUserDataID (fu_ExchangeTradeID raw), ud_Side = normalizeUserDataText (fu_Side raw),
       ud_PositionSide = normalizeUserDataText (fu_PositionSide raw), ud_OrderType = normalizeUserDataText (fu_OrderType raw),
       ud_TimeInForce = normalizeUserDataText (fu_TimeInForce raw), ud_OrderStatus = normalizeUserDataText (fu_OrderStatus raw),
       ud_ExecutionType = normalizeUserDataText (fu_ExecutionType raw), ud_LastFilledQty = q, ud_LastFilledPrice = p,
       ud_AccumulatedFilledQty = a, ud_Fee = f, ud_FeeAsset = normalizeUserDataText (fu_FeeAsset raw), ud_ReduceOnly = fu_ReduceOnly raw\<rparr>)"

definition validateUserDataOrderEvent :: "UserDataOrderEvent \<Rightarrow> error option" where
  "validateUserDataOrderEvent event =
     (if ud_TimeInForce event = ''FOK'' \<and> ud_OrderStatus event = ''PARTIALLY_FILLED''
      then Some (Errorf ''invalid websocket order update: FOK order cannot be PARTIALLY_FILLED'') else None)"

definition validated :: "UserDataOrderEvent \<Rightarrow> UserDataOrderEvent result" where
  "validated event = (case validateUserDataOrderEvent event of Some err \<Rightarrow> Inl err | None \<Rightarrow> Inr event)"

definition ParseSpotUserDataOrderEvent :: "StreamJson \<Rightarrow> string \<Rightarrow> UserDataOrderEvent result" where
  "ParseSpotUserDataOrderEvent js payload = (case tj_spot js payload of
     Inl err \<Rightarrow> Inl (Wrapf ''decode spot user data order event: '' err)
   | Inr raw \<Rightarrow>
       if trim_space (sp_EventType raw) \<noteq> ''executionReport''
         then Inl (Errorf (''unsupported spot user data event type: '' @ sp_EventType raw))
       else bind_result (normalizeSpotUserDataOrder raw) validated)"

definition ParseFuturesUserDataOrderEvent :: "StreamJson \<Rightarrow> string \<Rightarrow> UserDataOrderEvent result" where
  "ParseFuturesUserDataOrderEvent js payload = (case tj_futures js payload of
     Inl err \<Rightarrow> Inl (Wrapf ''decode futures user data order event: '' err)
   | Inr raw \<Rightarrow>
       if trim_space (en_EventType raw) \<noteq> ''ORDER_TRADE_UPDATE''
         then Inl (Errorf (''unsupported futures user data event type: '' @ en_EventType raw))
       else bind_result (normalizeFuturesUserDataOrder (en_EventTime raw) (en_Order raw)) validated)"

definition ParseOrderEvent :: "StreamJson \<Rightarrow> int \<Rightarrow> string \<Rightarrow> UserDataOrderEvent result" where
  "ParseOrderEvent js market payload =
     (if market = MarketSpot then ParseSpotUserDataOrderEvent js payload
      else if market = MarketPerpetualFutures then ParseFuturesUserDataOrderEvent js payload
      else Inl (Errorf (''unsupported binance user data stream market: '' @ Market_String market)))"

subsection \<open>The stream\<close>

definition listenKeyPath :: "Route \<Rightarrow> string" where
  "listenKeyPath route = (if rt_Market route = MarketSpot then ''/api/v3/userDataStream'' else ''/fapi/v1/listenKey'')"

definition createListenKey :: "Web \<Rightarrow> StreamJson \<Rightarrow> Route \<Rightarrow> Endpoints \<Rightarrow> BinanceCredential \<Rightarrow> string web" where
  "createListenKey web js route ep cred =
     (let apiKey = trim_space (metadata cred ''api_key'') in
      if apiKey = [] then fail (invalid_credential ''missing api_key'')
      else then_web (send web id id
          (\<lambda>status err. if status \<noteq> 200 then Errorf (''binance listenKey HTTP '' @ show_int status) else Wrapf ''decode binance listenKey: '' err)
          \<lparr>hq_Method = ''POST'', hq_URL = trim_slashes (ep_RESTBaseURL ep) @ listenKeyPath route, hq_Body = [], hq_APIKey = apiKey\<rparr>)
        (\<lambda>(body, status). lift_web
          (if status \<noteq> 200 then Inl (Errorf (''binance listenKey HTTP '' @ show_int status))
           else case tj_listenKey js body of Inl err \<Rightarrow> Inl (Wrapf ''decode binance listenKey: '' err)
             | Inr key \<Rightarrow> if trim_space key = [] then Inl (Errorf ''binance listenKey response missing listenKey'') else Inr key)))"

text \<open>
  What comes from the connection: a message, an error of the connection, or the end of the context, seen by the
  check before a read or by a read that it interrupts.
\<close>

datatype arrival = Message string | ReadError error | ContextDone error

fun listen_loop :: "(string \<Rightarrow> UserDataOrderEvent result) \<Rightarrow> (UserDataOrderEvent list \<Rightarrow> UserDataOrderEvent \<Rightarrow> error option)
    \<Rightarrow> UserDataOrderEvent list \<Rightarrow> arrival list \<Rightarrow> error option \<times> UserDataOrderEvent list" where
  "listen_loop parse handle seen [] = (None, seen)"
| "listen_loop parse handle seen (ContextDone err # rest) = (Some err, seen)"
| "listen_loop parse handle seen (ReadError err # rest) = (Some (Wrapf ''read binance user data stream: '' err), seen)"
| "listen_loop parse handle seen (Message payload # rest) = (case parse payload of
     Inl err \<Rightarrow> (Some err, seen)
   | Inr event \<Rightarrow> (case handle seen event of Some err \<Rightarrow> (Some err, seen @ [event])
       | None \<Rightarrow> listen_loop parse handle (seen @ [event]) rest))"

definition Listen :: "Web \<Rightarrow> StreamJson \<Rightarrow> Route \<Rightarrow> Endpoints \<Rightarrow> BinanceCredential \<Rightarrow> (string \<Rightarrow> arrival list result)
    \<Rightarrow> (UserDataOrderEvent list \<Rightarrow> UserDataOrderEvent \<Rightarrow> error option) \<Rightarrow> (error option \<times> UserDataOrderEvent list) web" where
  "Listen web js route ep cred dial handle =
     then_web (createListenKey web js route ep cred) (\<lambda>listenKey. lift_web
       (case dial (trim_slashes (ep_WSBaseURL ep) @ ''/ws/'' @ listenKey) of
          Inl err \<Rightarrow> Inl (Wrapf ''connect binance user data stream: '' err)
        | Inr arrivals \<Rightarrow> Inr (listen_loop (ParseOrderEvent js (rt_Market route)) handle [] arrivals)))"

definition Binance_UserDataStream :: "Route \<Rightarrow> unit result" where
  "Binance_UserDataStream route = bind_result (requireOrderMarket route ''user_data_stream'') (\<lambda>_.
     if rt_Environment route = EnvironmentBacktest then Inl (CapabilityUnsupported ''user_data_stream'') else Inr ())"

subsection \<open>What is handed on\<close>

text \<open>The events of the messages up to the first that is not an order event.\<close>

fun order_events :: "(string \<Rightarrow> UserDataOrderEvent result) \<Rightarrow> arrival list \<Rightarrow> UserDataOrderEvent list" where
  "order_events parse (Message payload # rest) = (case parse payload of Inl _ \<Rightarrow> [] | Inr event \<Rightarrow> event # order_events parse rest)"
| "order_events parse _ = []"

text \<open>The first cause for which the loop ends.\<close>

fun ends_with :: "(string \<Rightarrow> UserDataOrderEvent result) \<Rightarrow> arrival list \<Rightarrow> error option" where
  "ends_with parse [] = None"
| "ends_with parse (ContextDone err # rest) = Some err"
| "ends_with parse (ReadError err # rest) = Some (Wrapf ''read binance user data stream: '' err)"
| "ends_with parse (Message payload # rest) = (case parse payload of Inl err \<Rightarrow> Some err | Inr _ \<Rightarrow> ends_with parse rest)"

lemma listen_loop_events:
  assumes "\<And>seen event. handle seen event = None"
  shows "listen_loop parse handle seen arrivals = (ends_with parse arrivals, seen @ order_events parse arrivals)"
proof (induction arrivals arbitrary: seen)
  case (Cons a arrivals)
  then show ?case by (cases a) (auto simp: assms split: sum.split)
qed simp

text \<open>A handler's error ends the loop; the events before it were handed on.\<close>

lemma listen_loop_prefix:
  "\<exists>es. snd (listen_loop parse handle seen arrivals) = seen @ es \<and> es = take (length es) (order_events parse arrivals)"
proof (induction arrivals arbitrary: seen)
  case (Cons a arrivals)
  show ?case
  proof (cases a)
    case (Message payload)
    show ?thesis
    proof (cases "parse payload")
      case (Inr event)
      show ?thesis
      proof (cases "handle seen event")
        case None
        from Cons.IH [of "seen @ [event]"] obtain es where
          "snd (listen_loop parse handle (seen @ [event]) arrivals) = (seen @ [event]) @ es" "es = take (length es) (order_events parse arrivals)" by blast
        then show ?thesis using Message Inr None by (intro exI [of _ "event # es"]) simp
      next
        case (Some err)
        then show ?thesis using Message Inr by (intro exI [of _ "[event]"]) simp
      qed
    qed (use Message in simp)
  qed simp_all
qed simp

lemma parsed_event_sound:
  assumes "ParseOrderEvent js market payload = Inr event"
  shows "ud_EventSource event = ''websocket''" "\<not> (ud_TimeInForce event = ''FOK'' \<and> ud_OrderStatus event = ''PARTIALLY_FILLED'')"
    "norm_sym (ud_Symbol event) = ud_Symbol event" "norm_sym (ud_OrderStatus event) = ud_OrderStatus event"
    "ud_ExchangeOrderID event \<noteq> ''0''"
proof -
  have n: "norm_sym (normalizeUserDataText s) = normalizeUserDataText s" for s
    by (simp add: normalizeUserDataText_def trim_space_to_upper)
  have i: "formatUserDataID v \<noteq> ''0''" for v
  proof (cases "v \<le> 0")
    case False
    then have "parse_digits 0 (show_digits v) = Some v" using parse_show_digits [of v 0] by simp
    moreover have "parse_digits 0 ''0'' = Some 0" by (simp add: char_digit_def)
    ultimately have "show_digits v \<noteq> ''0''" using False by auto
    then show ?thesis using False by (simp add: formatUserDataID_def show_int_def)
  qed (simp add: formatUserDataID_def)
  show "ud_EventSource event = ''websocket''" "\<not> (ud_TimeInForce event = ''FOK'' \<and> ud_OrderStatus event = ''PARTIALLY_FILLED'')"
    "norm_sym (ud_Symbol event) = ud_Symbol event" "norm_sym (ud_OrderStatus event) = ud_OrderStatus event"
    "ud_ExchangeOrderID event \<noteq> ''0''"
    using assms i
    by (auto simp: ParseOrderEvent_def ParseSpotUserDataOrderEvent_def ParseFuturesUserDataOrderEvent_def normalizeSpotUserDataOrder_def
        normalizeFuturesUserDataOrder_def bind_result_Inr validated_def validateUserDataOrderEvent_def n
        split: if_splits sum.splits option.splits)
qed

text \<open>
  C20.  A user data stream whose handler accepts everything hands on exactly the events of the messages up to the first
  arrival that is not a valid order event, in order; that arrival ends the stream, a message with its parse error.
  Every event handed on has normalized texts and no number in place of a missing order id.
\<close>

theorem stream_hands_on:
  assumes "fst (createListenKey web js route ep cred sent) = Inr key"
    "dial (trim_slashes (ep_WSBaseURL ep) @ ''/ws/'' @ key) = Inr arrivals" "\<And>seen event. handle seen event = None"
  shows "fst (Listen web js route ep cred dial handle sent)
      = Inr (ends_with (ParseOrderEvent js (rt_Market route)) arrivals, order_events (ParseOrderEvent js (rt_Market route)) arrivals)
    \<and> list_all (\<lambda>event. norm_sym (ud_Symbol event) = ud_Symbol event \<and> norm_sym (ud_OrderStatus event) = ud_OrderStatus event
        \<and> ud_ExchangeOrderID event \<noteq> ''0'') (order_events (ParseOrderEvent js (rt_Market route)) arrivals)"
proof
  show "fst (Listen web js route ep cred dial handle sent)
      = Inr (ends_with (ParseOrderEvent js (rt_Market route)) arrivals, order_events (ParseOrderEvent js (rt_Market route)) arrivals)"
    using assms listen_loop_events [of handle "ParseOrderEvent js (rt_Market route)" "[]" arrivals]
    by (cases "createListenKey web js route ep cred sent") (simp add: Listen_def then_web_def after_def lift_web_def)
  show "list_all (\<lambda>event. norm_sym (ud_Symbol event) = ud_Symbol event \<and> norm_sym (ud_OrderStatus event) = ud_OrderStatus event
      \<and> ud_ExchangeOrderID event \<noteq> ''0'') (order_events (ParseOrderEvent js (rt_Market route)) arrivals)"
  proof (induction arrivals)
    case (Cons a arrivals)
    then show ?case using parsed_event_sound [of js "rt_Market route"] by (cases a) (auto split: sum.split)
  qed simp
qed

text \<open>A stream with an order update, an account update, and another order update.\<close>

definition stream_json :: StreamJson where
  "stream_json = \<lparr>tj_spot = \<lambda>_. Inl (Errorf ''no order''),
     tj_futures = \<lambda>payload. Inr \<lparr>en_EventType = (if payload = ''account'' then ''ACCOUNT_UPDATE'' else ''ORDER_TRADE_UPDATE''), en_EventTime = 1,
       en_Order = \<lparr>fu_Symbol = ''BTCUSDT'', fu_ClientOrderID = payload, fu_Side = ''BUY'', fu_PositionSide = ''BOTH'', fu_OrderType = ''LIMIT'',
         fu_TimeInForce = ''GTC'', fu_ExecutionType = ''TRADE'', fu_OrderStatus = ''FILLED'', fu_ExchangeOrderID = 9, fu_ExchangeTradeID = 11,
         fu_LastFilledQty = ''2'', fu_LastFilledPrice = ''3'', fu_AccumulatedFilledQty = ''2'', fu_Fee = [], fu_FeeAsset = [], fu_ReduceOnly = False\<rparr>\<rparr>,
     tj_listenKey = \<lambda>_. Inr ''key''\<rparr>"

definition stream_web :: Web where
  "stream_web = \<lparr>wb_now = \<lambda>_. 0, wb_answer = \<lambda>_. Answer 200 [], wb_wait = \<lambda>_. None, wb_bad_url = \<lambda>_. None, wb_hmac = \<lambda>_ _. []\<rparr>"

definition stream_route :: Route where "stream_route = \<lparr>rt_Exchange = 1, rt_Environment = 2, rt_Market = 2\<rparr>"

definition stream_credential :: BinanceCredential where
  "stream_credential = \<lparr>cr_Exchange = 1, cr_Environment = 2, cr_Raw = [], cr_Metadata = [''api_key'' \<mapsto> ''k'']\<rparr>"

definition stream_arrivals :: "arrival list" where
  "stream_arrivals = [Message ''c1'', Message ''account'', Message ''c2'']"

lemma stream_key:
  "fst (createListenKey stream_web stream_json stream_route \<lparr>ep_RESTBaseURL = ''https://x'', ep_WSBaseURL = ''wss://x''\<rparr> stream_credential []) = Inr ''key''"
  by code_simp

text \<open>The account update ends the stream: the second order update is never handed on.\<close>

lemma account_update_ends_stream:
  "map ud_ClientOrderID (order_events (ParseOrderEvent stream_json 2) stream_arrivals) = [''c1'']"
  "ends_with (ParseOrderEvent stream_json 2) stream_arrivals = Some (Errorf ''unsupported futures user data event type: ACCOUNT_UPDATE'')"
  by code_simp+

theorem stream_hands_on_witness:
  "\<exists>events. fst (Listen stream_web stream_json stream_route \<lparr>ep_RESTBaseURL = ''https://x'', ep_WSBaseURL = ''wss://x''\<rparr> stream_credential
      (\<lambda>_. Inr stream_arrivals) (\<lambda>_ _. None) [])
    = Inr (Some (Errorf ''unsupported futures user data event type: ACCOUNT_UPDATE''), events) \<and> map ud_ClientOrderID events = [''c1'']"
  using stream_hands_on [of stream_web stream_json stream_route _ stream_credential "[]" "''key''" "\<lambda>_. Inr stream_arrivals" stream_arrivals "\<lambda>_ _. None"]
    stream_key account_update_ends_stream by (auto simp: stream_route_def)

end
