(* ===== verification/Binance_Wallet.thy ===== *)
theory Binance_Wallet
  imports Binance_Clients
begin

text \<open>
  The reader of a Binance account (\<^verbatim>\<open>internal/exchange/binance.go\<close>), the router over the readers
  (\<^verbatim>\<open>router.go\<close>), and the portfolio snapshots made from it (\<^verbatim>\<open>binance/portfolio_snapshot.go\<close>): the
  futures wallet with its positions and risk metadata, the spot wallet with prices, and the display totals in USD.

  Warnings are only logged, so they are left out; where an error is only logged, its text is left out too.  A Go map
  from symbols is an association list with one entry per symbol, which is read by key or in sorted order.
\<close>

subsection \<open>Data\<close>

record BinanceAdapter =
  bw_env :: string
  bw_futuresBase :: string
  bw_spotBase :: string

definition NewBinanceLiveAdapter :: BinanceAdapter where
  "NewBinanceLiveAdapter = \<lparr>bw_env = ''live'', bw_futuresBase = ''https://fapi.binance.com'', bw_spotBase = ''https://api.binance.com''\<rparr>"

definition NewBinanceTestnetAdapter :: BinanceAdapter where
  "NewBinanceTestnetAdapter = \<lparr>bw_env = ''demo'', bw_futuresBase = ''https://demo-fapi.binance.com'', bw_spotBase = ''https://demo-api.binance.com''\<rparr>"

record binanceFuturesAssetV3 =
  fa_Asset :: string
  fa_WalletBalance :: string
  fa_UnrealizedProfit :: string
  fa_MarginBalance :: string

record binanceFuturesAccountV3 =
  ba_TotalWalletBalance :: string
  ba_TotalUnrealizedProfit :: string
  ba_TotalMarginBalance :: string
  ba_TotalPositionInitialMargin :: string
  ba_TotalOpenOrderInitialMargin :: string
  ba_TotalMaintMargin :: string
  ba_TotalCrossWalletBalance :: string
  ba_TotalCrossUnPnl :: string
  ba_AvailableBalance :: string
  ba_Assets :: "binanceFuturesAssetV3 list"

record binanceFuturesBalanceV3 =
  bb_Asset :: string
  bb_Balance :: string
  bb_CrossWalletBalance :: string
  bb_CrossUnPnl :: string
  bb_AvailableBalance :: string
  bb_MarginAvailable :: bool

record binanceFuturesPositionRiskV3 =
  pr3_Symbol :: string
  pr3_PositionSide :: string
  pr3_PositionAmt :: string
  pr3_EntryPrice :: string
  pr3_BreakEvenPrice :: string
  pr3_MarkPrice :: string
  pr3_UnrealizedProfit :: string
  pr3_LiquidationPrice :: string
  pr3_MarginType :: string
  pr3_IsolatedWallet :: string
  pr3_Notional :: string
  pr3_InitialMargin :: string
  pr3_PositionInitialMargin :: string
  pr3_OpenOrderInitialMargin :: string
  pr3_MaintMargin :: string

record binanceSymbolConfig =
  sc_Symbol :: string
  sc_Leverage :: float64
  sc_MarginType :: string

record binanceBracketDetails =
  bd_Bracket :: int
  bd_InitialLeverage :: int
  bd_NotionalCap :: float64
  bd_NotionalFloor :: float64
  bd_MaintMarginRatio :: float64
  bd_Cum :: float64

record binanceLeverageBracket =
  lb_Symbol :: string
  lb_Brackets :: "binanceBracketDetails list"

record binanceExchangeInfoSymbol =
  xi_Symbol :: string
  xi_PricePrecision :: int
  xi_QuantityPrecision :: int
  xi_Filters :: "exchangeInfoFilter list"

record phaseABracketMetadata =
  pb_Bracket :: int
  pb_InitialLeverage :: float64
  pb_NotionalCap :: float64
  pb_NotionalFloor :: float64
  pb_MaintMarginRatio :: float64
  pb_Cumulative :: float64

record phaseASymbolMetadata =
  pm_Symbol :: string
  pm_MarginType :: string
  pm_InitialLeverage :: float64
  pm_PricePrecision :: int
  pm_QuantityPrecision :: int
  pm_TickSize :: float64
  pm_StepSize :: float64
  pm_Brackets :: "phaseABracketMetadata list"

record binanceBalance =
  bl_Asset :: string
  bl_Free :: string
  bl_Locked :: string

record WalletJson =
  wj_account :: "string \<Rightarrow> binanceFuturesAccountV3 result"
  wj_multi :: "string \<Rightarrow> bool result"
  wj_balance :: "string \<Rightarrow> binanceFuturesBalanceV3 list result"
  wj_index :: "string \<Rightarrow> (string \<times> string) list result"
  wj_risk :: "string \<Rightarrow> binanceFuturesPositionRiskV3 list result"
  wj_config :: "string \<Rightarrow> binanceSymbolConfig list result"
  wj_brackets :: "string \<Rightarrow> binanceLeverageBracket list result"
  wj_info :: "string \<Rightarrow> binanceExchangeInfoSymbol list result"
  wj_spot :: "string \<Rightarrow> binanceBalance list result"
  wj_ticker :: "string \<Rightarrow> string result"

subsection \<open>Requests\<close>

text \<open>\<^verbatim>\<open>strconv.ParseFloat\<close> gives an infinity beside the error of a number out of range.\<close>

definition parseFloat :: "string \<Rightarrow> float64" where
  "parseFloat s = (if s = [] then 0 else case ParseFloat s of Inr v \<Rightarrow> v
     | Inl err \<Rightarrow> if err = ErrRange then Inf (fst (take_sign s)) else 0)"

definition api_error :: "int \<Rightarrow> string \<Rightarrow> error" where
  "api_error status body = Errorf (''binance API error '' @ show_int status @ '': '' @ body)"

definition get_body :: "Web \<Rightarrow> string \<Rightarrow> string \<Rightarrow> string \<Rightarrow> string web" where
  "get_body web endpoint query_text key = (case wb_bad_url web endpoint of
     Some err \<Rightarrow> fail err
   | None \<Rightarrow> then_web (transmit web (Wrapf (''http get '' @ endpoint @ '': '')) (\<lambda>_. id)
         \<lparr>hq_Method = ''GET'', hq_URL = (if query_text = [] then endpoint else endpoint @ ''?'' @ query_text), hq_Body = [], hq_APIKey = key\<rparr>)
       (\<lambda>(body, status). if status \<noteq> 200 then fail (api_error status body) else give body))"

definition publicGet :: "Web \<Rightarrow> string \<Rightarrow> params \<Rightarrow> string web" where
  "publicGet web endpoint ps = get_body web endpoint (encode_params ps) []"

definition signed_query :: "Web \<Rightarrow> string \<Rightarrow> params \<Rightarrow> string" where
  "signed_query web secret ps =
     (let payload = encode_params ps; prefix = (if payload = [] then [] else payload @ ''&'')
      in prefix @ ''signature='' @ query_escape (signature web payload secret))"

definition signedGet :: "Web \<Rightarrow> Account \<Rightarrow> string \<Rightarrow> params \<Rightarrow> string web" where
  "signedGet web account endpoint ps = with_now web (\<lambda>now.
     get_body web endpoint (signed_query web (ac_APISecret account) (set_param ''timestamp'' (millis now) ps)) (ac_APIKey account))"

definition decode_as :: "string \<Rightarrow> (string \<Rightarrow> 'a result) \<Rightarrow> string \<Rightarrow> 'a web" where
  "decode_as what f body = lift_web (case f body of Inl err \<Rightarrow> Inl (Wrapf (''decode '' @ what @ '': '') err) | Inr x \<Rightarrow> Inr x)"

primrec each_web :: "('a \<Rightarrow> 'b list web) \<Rightarrow> 'a list \<Rightarrow> 'b list web" where
  "each_web f [] = give []"
| "each_web f (x # xs) = then_web (f x) (\<lambda>ys. then_web (each_web f xs) (\<lambda>zs. give (ys @ zs)))"

subsection \<open>Display totals\<close>

definition isKnownStablecoin :: "string \<Rightarrow> bool" where
  "isKnownStablecoin asset = (asset \<in> {''USDC'', ''BUSD'', ''FDUSD'', ''USDP'', ''TUSD'', ''USDS'', ''USD1'', ''UUSD''})"

definition fetchPublicSpotTickerPrice :: "Web \<Rightarrow> WalletJson \<Rightarrow> BinanceAdapter \<Rightarrow> string \<Rightarrow> float64 web" where
  "fetchPublicSpotTickerPrice web js a symbol =
     then_web (publicGet web (bw_spotBase a @ ''/api/v3/ticker/price'') (set_param ''symbol'' symbol [])) (\<lambda>body.
     then_web (decode_as ''/api/v3/ticker/price'' (wj_ticker js) body) (\<lambda>text.
       let price = parseFloat text in
       if price \<le> 0 then fail (Errorf (''ticker price for '' @ symbol @ '' is non-positive'')) else give price))"

text \<open>A positive price of a ticker, or nothing.\<close>

definition ticker :: "Web \<Rightarrow> WalletJson \<Rightarrow> BinanceAdapter \<Rightarrow> string \<Rightarrow> float64 option web" where
  "ticker web js a symbol = after (fetchPublicSpotTickerPrice web js a symbol)
     (\<lambda>r. give (case r of Inl _ \<Rightarrow> None | Inr price \<Rightarrow> if 0 < price then Some price else None))"

definition fetchFuturesAssetIndex :: "Web \<Rightarrow> WalletJson \<Rightarrow> BinanceAdapter \<Rightarrow> (string \<rightharpoonup> float64) web" where
  "fetchFuturesAssetIndex web js a =
     then_web (publicGet web (bw_futuresBase a @ ''/fapi/v1/assetIndex'') []) (\<lambda>body.
     then_web (decode_as ''/fapi/v1/assetIndex'' (wj_index js) body) (\<lambda>items.
       give (foldl (\<lambda>m (symbol, index). if symbol \<noteq> [] \<and> 0 < parseFloat index then m(symbol \<mapsto> parseFloat index) else m) Map.empty items)))"

definition futuresDisplayUSDRate :: "Web \<Rightarrow> WalletJson \<Rightarrow> BinanceAdapter \<Rightarrow> string \<Rightarrow> (string \<rightharpoonup> float64) \<Rightarrow> float64 web" where
  "futuresDisplayUSDRate web js a asset index =
     (if asset = ''USDT'' then give 1
      else if isKnownStablecoin asset
        then then_web (ticker web js a (asset @ ''USDT'')) (\<lambda>price. give (case price of None \<Rightarrow> 1 | Some p \<Rightarrow> p))
      else case index (asset @ ''USD'') of
        Some rate \<Rightarrow> if 0 < rate then give rate else fail (Errorf (''missing USD conversion rate for futures asset '' @ asset))
      | None \<Rightarrow> fail (Errorf (''missing USD conversion rate for futures asset '' @ asset)))"

definition holds_something :: "binanceFuturesAssetV3 \<Rightarrow> bool" where
  "holds_something asset = (\<not> (feq (parseFloat (fa_WalletBalance asset)) 0 \<and> feq (parseFloat (fa_MarginBalance asset)) 0
     \<and> feq (parseFloat (fa_UnrealizedProfit asset)) 0))"

primrec displayTotals :: "Web \<Rightarrow> WalletJson \<Rightarrow> BinanceAdapter \<Rightarrow> (string \<rightharpoonup> float64) \<Rightarrow> float64 \<times> float64 \<times> float64 \<Rightarrow> binanceFuturesAssetV3 list
    \<Rightarrow> (float64 \<times> float64 \<times> float64) web" where
  "displayTotals web js a index acc [] = give acc"
| "displayTotals web js a index acc (asset # assets) =
     then_web (futuresDisplayUSDRate web js a (fa_Asset asset) index) (\<lambda>rate.
       case acc of (walletUSD, marginUSD, unrealizedUSD) \<Rightarrow>
       displayTotals web js a index (walletUSD + parseFloat (fa_WalletBalance asset) * rate,
         marginUSD + parseFloat (fa_MarginBalance asset) * rate, unrealizedUSD + parseFloat (fa_UnrealizedProfit asset) * rate) assets)"

definition applyFuturesDisplayUSDTotals :: "Web \<Rightarrow> WalletJson \<Rightarrow> BinanceAdapter \<Rightarrow> FuturesWallet \<Rightarrow> binanceFuturesAssetV3 list \<Rightarrow> FuturesWallet web" where
  "applyFuturesDisplayUSDTotals web js a wallet assets =
     (if assets = [] then give wallet
      else then_web (if \<exists>asset\<in>set assets. holds_something asset \<and> fa_Asset asset \<noteq> ''USDT'' then fetchFuturesAssetIndex web js a else give Map.empty)
        (\<lambda>index. then_web (displayTotals web js a index (0, 0, 0) assets)
        (\<lambda>(walletUSD, marginUSD, unrealizedUSD). give (wallet\<lparr>fw_DisplayWalletBalanceUsd := walletUSD,
           fw_DisplayMarginBalanceUsd := marginUSD, fw_DisplayUnrealizedPnlUsd := unrealizedUSD\<rparr>))))"

subsection \<open>The futures wallet\<close>

definition canonicalWallet :: "binanceFuturesAccountV3 \<Rightarrow> FuturesWallet" where
  "canonicalWallet raw = zero_FuturesWallet\<lparr>fw_MarginMode := ''cross'', fw_PositionMode := ''one_way'',
     fw_WalletBalance := parseFloat (ba_TotalWalletBalance raw), fw_AvailableBalance := parseFloat (ba_AvailableBalance raw),
     fw_TotalUnrealizedPnl := parseFloat (ba_TotalUnrealizedProfit raw), fw_UnrealizedPnl := parseFloat (ba_TotalUnrealizedProfit raw),
     fw_TotalMarginBalance := parseFloat (ba_TotalMarginBalance raw), fw_MarginBalance := parseFloat (ba_TotalMarginBalance raw),
     fw_TotalPositionInitialMargin := parseFloat (ba_TotalPositionInitialMargin raw),
     fw_TotalOpenOrderInitialMargin := parseFloat (ba_TotalOpenOrderInitialMargin raw),
     fw_TotalMaintMargin := parseFloat (ba_TotalMaintMargin raw), fw_TotalCrossWalletBalance := parseFloat (ba_TotalCrossWalletBalance raw),
     fw_TotalCrossUnPnl := parseFloat (ba_TotalCrossUnPnl raw), fw_DisplayWalletBalanceUsd := parseFloat (ba_TotalWalletBalance raw),
     fw_DisplayMarginBalanceUsd := parseFloat (ba_TotalMarginBalance raw), fw_DisplayUnrealizedPnlUsd := parseFloat (ba_TotalUnrealizedProfit raw)\<rparr>"

definition fetchFuturesAccount :: "Web \<Rightarrow> WalletJson \<Rightarrow> BinanceAdapter \<Rightarrow> Account \<Rightarrow> FuturesWallet web" where
  "fetchFuturesAccount web js a account =
     then_web (signedGet web account (bw_futuresBase a @ ''/fapi/v3/account'') []) (\<lambda>body.
     then_web (decode_as ''/fapi/v3/account'' (wj_account js) body) (\<lambda>raw.
       after (applyFuturesDisplayUSDTotals web js a (canonicalWallet raw) (ba_Assets raw))
         (\<lambda>r. give (case r of Inl _ \<Rightarrow> canonicalWallet raw | Inr wallet \<Rightarrow> wallet))))"

definition fetchMultiAssetsMode :: "Web \<Rightarrow> WalletJson \<Rightarrow> BinanceAdapter \<Rightarrow> Account \<Rightarrow> bool web" where
  "fetchMultiAssetsMode web js a account =
     then_web (signedGet web account (bw_futuresBase a @ ''/fapi/v1/multiAssetsMargin'') []) (decode_as ''/fapi/v1/multiAssetsMargin'' (wj_multi js))"

definition fetchFuturesBalance :: "Web \<Rightarrow> WalletJson \<Rightarrow> BinanceAdapter \<Rightarrow> Account \<Rightarrow> binanceFuturesBalanceV3 list web" where
  "fetchFuturesBalance web js a account =
     then_web (signedGet web account (bw_futuresBase a @ ''/fapi/v3/balance'') []) (decode_as ''/fapi/v3/balance'' (wj_balance js))"

definition pickPrimaryFuturesBalance :: "binanceFuturesBalanceV3 list \<Rightarrow> binanceFuturesBalanceV3 option" where
  "pickPrimaryFuturesBalance balances =
     (case List.find (\<lambda>b. bb_Asset b = ''USDT'') balances of Some b \<Rightarrow> Some b
      | None \<Rightarrow> (case List.find bb_MarginAvailable balances of Some b \<Rightarrow> Some b
          | None \<Rightarrow> (case balances of [] \<Rightarrow> None | b # _ \<Rightarrow> Some b)))"

definition mergeFuturesBalanceSummary :: "FuturesWallet \<Rightarrow> binanceFuturesBalanceV3 list \<Rightarrow> FuturesWallet" where
  "mergeFuturesBalanceSummary wallet balances = (case pickPrimaryFuturesBalance balances of
     None \<Rightarrow> wallet
   | Some summary \<Rightarrow>
       let summaryWallet = parseFloat (bb_Balance summary); summaryAvailable = parseFloat (bb_AvailableBalance summary);
           crossWallet = parseFloat (bb_CrossWalletBalance summary); crossUnPnl = parseFloat (bb_CrossUnPnl summary);
           margin = summaryWallet + crossUnPnl
       in if fw_MultiAssetsMode wallet
          then wallet\<lparr>fw_WalletBalance := summaryWallet, fw_AvailableBalance := summaryAvailable, fw_UnrealizedPnl := crossUnPnl,
            fw_TotalUnrealizedPnl := crossUnPnl, fw_MarginBalance := margin, fw_TotalMarginBalance := margin,
            fw_TotalCrossWalletBalance := crossWallet, fw_TotalCrossUnPnl := crossUnPnl\<rparr>
          else wallet\<lparr>fw_WalletBalance := or_else (fw_WalletBalance wallet) summaryWallet,
            fw_AvailableBalance := or_else (fw_AvailableBalance wallet) summaryAvailable,
            fw_TotalCrossWalletBalance := or_else (fw_TotalCrossWalletBalance wallet) crossWallet,
            fw_TotalCrossUnPnl := or_else (fw_TotalCrossUnPnl wallet) crossUnPnl\<rparr>)"

definition riskPosition :: "binanceFuturesPositionRiskV3 \<Rightarrow> FuturesPosition" where
  "riskPosition p = zero_FuturesPosition\<lparr>fp_Symbol := pr3_Symbol p, fp_PositionSide := pr3_PositionSide p,
     fp_Qty := parseFloat (pr3_PositionAmt p), fp_PositionQty := parseFloat (pr3_PositionAmt p), fp_EntryPrice := parseFloat (pr3_EntryPrice p),
     fp_MarkPrice := parseFloat (pr3_MarkPrice p), fp_UnrealizedPnl := parseFloat (pr3_UnrealizedProfit p), fp_MarginType := pr3_MarginType p,
     fp_MarginMode := pr3_MarginType p, fp_Notional := parseFloat (pr3_Notional p), fp_InitialMargin := parseFloat (pr3_InitialMargin p),
     fp_PositionInitialMargin := parseFloat (pr3_PositionInitialMargin p), fp_OpenOrderInitialMargin := parseFloat (pr3_OpenOrderInitialMargin p),
     fp_MaintMargin := parseFloat (pr3_MaintMargin p), fp_IsolatedWallet := parseFloat (pr3_IsolatedWallet p),
     fp_LiquidationPrice := parseFloat (pr3_LiquidationPrice p), fp_BreakEvenPrice := parseFloat (pr3_BreakEvenPrice p)\<rparr>"

definition fetchFuturesPositionRisk :: "Web \<Rightarrow> WalletJson \<Rightarrow> BinanceAdapter \<Rightarrow> Account \<Rightarrow> FuturesPosition list web" where
  "fetchFuturesPositionRisk web js a account =
     then_web (signedGet web account (bw_futuresBase a @ ''/fapi/v3/positionRisk'') []) (\<lambda>body.
     then_web (decode_as ''/fapi/v3/positionRisk'' (wj_risk js) body) (\<lambda>raw.
       give (map riskPosition (filter (\<lambda>p. \<not> feq (parseFloat (pr3_PositionAmt p)) 0) raw))))"

end
