(* ===== verification/Binance_Account.thy ===== *)
theory Binance_Account
  imports Binance_Wallet Session_Service Binance_Guarantees
begin

text \<open>
  Reading a whole Binance account: metadata of the symbols with positions, the spot wallet, the account information
  put together from all requests, the router that selects a reader by environment, and the portfolio snapshot.
\<close>

subsection \<open>Symbols\<close>

definition maxTargetedMetadataSymbols :: nat where "maxTargetedMetadataSymbols = 3"

definition normalizeSymbols :: "string list \<Rightarrow> string list" where
  "normalizeSymbols symbols = sort (remdups (filter (\<lambda>s. s \<noteq> []) (map norm_sym symbols)))"

definition symbolsFromPositions :: "FuturesPosition list \<Rightarrow> string list" where
  "symbolsFromPositions positions = normalizeSymbols (filter (\<lambda>s. s \<noteq> []) (map (\<lambda>p. norm_sym (fp_Symbol p)) positions))"

definition symbolAllowed :: "string \<Rightarrow> string list \<Rightarrow> bool" where
  "symbolAllowed symbol allowlist = (norm_sym symbol \<in> set allowlist)"

subsection \<open>Metadata\<close>

text \<open>All rows in one request and filtered, or one request per symbol when there are few.\<close>

definition fetch_rows :: "Web \<Rightarrow> BinanceAdapter \<Rightarrow> Account \<Rightarrow> string \<Rightarrow> (string \<Rightarrow> 'a list result) \<Rightarrow> ('a \<Rightarrow> string) \<Rightarrow> string list \<Rightarrow> 'a list web" where
  "fetch_rows web a account path parse name symbols0 = (let symbols = normalizeSymbols symbols0 in
     if symbols = [] then give []
     else if maxTargetedMetadataSymbols < length symbols
       then then_web (signedGet web account (bw_futuresBase a @ path) []) (\<lambda>body.
         then_web (decode_as path parse body) (\<lambda>raw. give (filter (\<lambda>item. symbolAllowed (name item) symbols) raw)))
     else each_web (\<lambda>symbol. then_web (signedGet web account (bw_futuresBase a @ path) (set_param ''symbol'' symbol [])) (decode_as path parse)) symbols)"

definition fetchSymbolConfig :: "Web \<Rightarrow> WalletJson \<Rightarrow> BinanceAdapter \<Rightarrow> Account \<Rightarrow> string list \<Rightarrow> binanceSymbolConfig list web" where
  "fetchSymbolConfig web js a account = fetch_rows web a account ''/fapi/v1/symbolConfig'' (wj_config js) sc_Symbol"

definition fetchLeverageBrackets :: "Web \<Rightarrow> WalletJson \<Rightarrow> BinanceAdapter \<Rightarrow> Account \<Rightarrow> string list \<Rightarrow> binanceLeverageBracket list web" where
  "fetchLeverageBrackets web js a account = fetch_rows web a account ''/fapi/v1/leverageBracket'' (wj_brackets js) lb_Symbol"

definition fetchExchangeInfo :: "Web \<Rightarrow> WalletJson \<Rightarrow> BinanceAdapter \<Rightarrow> binanceExchangeInfoSymbol list web" where
  "fetchExchangeInfo web js a = then_web (publicGet web (bw_futuresBase a @ ''/fapi/v1/exchangeInfo'') []) (decode_as ''/fapi/v1/exchangeInfo'' (wj_info js))"

type_synonym metadata_map = "(string \<times> phaseASymbolMetadata) list"

definition zero_metadata :: phaseASymbolMetadata where
  "zero_metadata = \<lparr>pm_Symbol = [], pm_MarginType = [], pm_InitialLeverage = 0, pm_PricePrecision = 0, pm_QuantityPrecision = 0, pm_TickSize = 0,
     pm_StepSize = 0, pm_Brackets = []\<rparr>"

text \<open>Change the entry of a symbol, which starts as the zero entry.\<close>

definition update_entry :: "string \<Rightarrow> (phaseASymbolMetadata \<Rightarrow> phaseASymbolMetadata) \<Rightarrow> metadata_map \<Rightarrow> metadata_map" where
  "update_entry symbol f m = AList.update symbol (f ((case map_of m symbol of None \<Rightarrow> zero_metadata | Some e \<Rightarrow> e)\<lparr>pm_Symbol := symbol\<rparr>)) m"

definition bracketMetadata :: "binanceBracketDetails \<Rightarrow> phaseABracketMetadata" where
  "bracketMetadata b = \<lparr>pb_Bracket = bd_Bracket b, pb_InitialLeverage = flit (of_int (bd_InitialLeverage b)), pb_NotionalCap = bd_NotionalCap b,
     pb_NotionalFloor = bd_NotionalFloor b, pb_MaintMarginRatio = bd_MaintMarginRatio b, pb_Cumulative = bd_Cum b\<rparr>"

definition applySymbolFilter :: "phaseASymbolMetadata \<Rightarrow> exchangeInfoFilter \<Rightarrow> phaseASymbolMetadata" where
  "applySymbolFilter e f =
     (if xf_FilterType f = ''PRICE_FILTER'' then e\<lparr>pm_TickSize := parseFloat (xf_TickSize f)\<rparr>
      else if xf_FilterType f = ''LOT_SIZE'' then e\<lparr>pm_StepSize := parseFloat (xf_StepSize f)\<rparr> else e)"

definition collectMetadata :: "binanceSymbolConfig list \<Rightarrow> binanceLeverageBracket list \<Rightarrow> binanceExchangeInfoSymbol list \<Rightarrow> string list \<Rightarrow> metadata_map" where
  "collectMetadata configs brackets infos symbols =
     (let m = foldl (\<lambda>m c. update_entry (sc_Symbol c) (\<lambda>e. e\<lparr>pm_MarginType := sc_MarginType c, pm_InitialLeverage := sc_Leverage c\<rparr>) m) [] configs;
          m = foldl (\<lambda>m b. update_entry (lb_Symbol b) (\<lambda>e. e\<lparr>pm_Brackets := map bracketMetadata (lb_Brackets b)\<rparr>) m) m brackets
      in foldl (\<lambda>m i. update_entry (xi_Symbol i) (\<lambda>e. foldl applySymbolFilter
             (e\<lparr>pm_PricePrecision := xi_PricePrecision i, pm_QuantityPrecision := xi_QuantityPrecision i\<rparr>) (xi_Filters i)) m) m
           (filter (\<lambda>i. symbolAllowed (xi_Symbol i) symbols) infos))"

definition fetchPhaseAMetadata :: "Web \<Rightarrow> WalletJson \<Rightarrow> BinanceAdapter \<Rightarrow> Account \<Rightarrow> string list \<Rightarrow> metadata_map web" where
  "fetchPhaseAMetadata web js a account symbols0 = (let symbols = normalizeSymbols symbols0 in
     if symbols = [] then give []
     else then_web (fetchSymbolConfig web js a account symbols) (\<lambda>configs.
       then_web (fetchLeverageBrackets web js a account symbols) (\<lambda>brackets.
       then_web (fetchExchangeInfo web js a) (\<lambda>infos. give (collectMetadata configs brackets infos symbols)))))"

definition applyPositionMetadata :: "metadata_map \<Rightarrow> FuturesPosition \<Rightarrow> FuturesPosition" where
  "applyPositionMetadata m p = (case map_of m (fp_Symbol p) of None \<Rightarrow> p
     | Some e \<Rightarrow>
         let p = (if fp_MarginType p = [] then p\<lparr>fp_MarginType := pm_MarginType e\<rparr> else p);
             p = (if fp_MarginMode p = [] then p\<lparr>fp_MarginMode := fp_MarginType p\<rparr> else p)
         in if feq (fp_Leverage p) 0 \<and> 0 < pm_InitialLeverage e then p\<lparr>fp_Leverage := pm_InitialLeverage e\<rparr> else p)"

definition riskBracket :: "phaseABracketMetadata \<Rightarrow> FuturesRiskBracket" where
  "riskBracket b = \<lparr>rb_Bracket = int32_of (pb_Bracket b), rb_NotionalFloor = pb_NotionalFloor b, rb_NotionalCap = pb_NotionalCap b,
     rb_InitialLeverage = pb_InitialLeverage b, rb_MaintMarginRatio = pb_MaintMarginRatio b, rb_Cumulative = pb_Cumulative b\<rparr>"

definition metadataToDomainRiskMetadata :: "metadata_map \<Rightarrow> WalletRiskMetadata list" where
  "metadataToDomainRiskMetadata m = map (\<lambda>(_, e). \<lparr>wm_Symbol = pm_Symbol e, wm_ConfiguredLeverage = pm_InitialLeverage e,
     wm_ConfiguredMarginMode = pm_MarginType e, wm_PricePrecision = int32_of (pm_PricePrecision e),
     wm_QuantityPrecision = int32_of (pm_QuantityPrecision e), wm_TickSize = pm_TickSize e, wm_StepSize = pm_StepSize e,
     wm_Brackets = map riskBracket (pm_Brackets e)\<rparr>) (sort_key fst m)"

subsection \<open>The spot wallet\<close>

definition addBalance :: "SpotWallet \<Rightarrow> binanceBalance \<Rightarrow> SpotWallet" where
  "addBalance wallet b = (let free = parseFloat (bl_Free b); locked = parseFloat (bl_Locked b) in
     if feq free 0 \<and> feq locked 0 then wallet
     else if bl_Asset b = ''USDT'' then wallet\<lparr>sw_Free := sw_Free wallet + free, sw_Locked := sw_Locked wallet + locked\<rparr>
     else wallet\<lparr>sw_Assets := sw_Assets wallet @ [\<lparr>sa_Symbol = bl_Asset b, sa_Qty = free, sa_Locked = locked, sa_AvgEntryPrice = 0, sa_Price = None\<rparr>]\<rparr>)"

definition lookupSpotAssetPrice :: "Web \<Rightarrow> WalletJson \<Rightarrow> BinanceAdapter \<Rightarrow> string \<Rightarrow> float64 option web" where
  "lookupSpotAssetPrice web js a asset =
     (if asset = [] \<or> asset = ''USDT'' then give None
      else then_web (ticker web js a (asset @ ''USDT'')) (\<lambda>direct. case direct of Some price \<Rightarrow> give (Some price)
        | None \<Rightarrow> then_web (ticker web js a (''USDT'' @ asset)) (\<lambda>inverse. give (case inverse of Some price \<Rightarrow> Some (1 / price) | None \<Rightarrow> None))))"

definition priceAsset :: "Web \<Rightarrow> WalletJson \<Rightarrow> BinanceAdapter \<Rightarrow> SpotAsset \<Rightarrow> SpotAsset list web" where
  "priceAsset web js a asset = (if sa_Price asset \<noteq> None then give [asset]
     else then_web (lookupSpotAssetPrice web js a (sa_Symbol asset)) (\<lambda>price. give [asset\<lparr>sa_Price := price\<rparr>]))"

definition enrichSpotAssetPrices :: "Web \<Rightarrow> WalletJson \<Rightarrow> BinanceAdapter \<Rightarrow> SpotWallet \<Rightarrow> SpotWallet web" where
  "enrichSpotAssetPrices web js a wallet =
     then_web (each_web (priceAsset web js a) (sw_Assets wallet)) (\<lambda>assets. give (wallet\<lparr>sw_Assets := assets\<rparr>))"

definition fetchSpotAccount :: "Web \<Rightarrow> WalletJson \<Rightarrow> BinanceAdapter \<Rightarrow> Account \<Rightarrow> SpotWallet web" where
  "fetchSpotAccount web js a account =
     then_web (signedGet web account (bw_spotBase a @ ''/api/v3/account'') []) (\<lambda>body.
     then_web (decode_as ''spot account'' (wj_spot js) body) (\<lambda>balances.
       enrichSpotAssetPrices web js a (foldl addBalance zero_SpotWallet balances)))"

definition spotEstimatedValue :: "SpotWallet \<Rightarrow> float64" where
  "spotEstimatedValue w = foldl (\<lambda>t asset. case sa_Price asset of None \<Rightarrow> t | Some price \<Rightarrow> t + (sa_Qty asset + sa_Locked asset) * price)
     (sw_Free w + sw_Locked w) (sw_Assets w)"

subsection \<open>The account\<close>

definition wrapped :: "string \<Rightarrow> 'a web \<Rightarrow> ('a \<Rightarrow> 'b web) \<Rightarrow> 'b web" where
  "wrapped what m f = after m (\<lambda>r. case r of Inl err \<Rightarrow> fail (Wrapf what err) | Inr x \<Rightarrow> f x)"

definition with_metadata :: "metadata_map result \<Rightarrow> FuturesPosition list \<Rightarrow> FuturesWallet \<Rightarrow> FuturesWallet" where
  "with_metadata r positions futures = (case r of Inl _ \<Rightarrow> futures\<lparr>fw_Positions := positions\<rparr>
     | Inr m \<Rightarrow> futures\<lparr>fw_Positions := map (applyPositionMetadata m) positions, fw_RiskMetadata := metadataToDomainRiskMetadata m\<rparr>)"

definition fetchFuturesWallet :: "Web \<Rightarrow> WalletJson \<Rightarrow> BinanceAdapter \<Rightarrow> Account \<Rightarrow> FuturesWallet web" where
  "fetchFuturesWallet web js a account =
     wrapped ''futures account (v3): '' (fetchFuturesAccount web js a account) (\<lambda>futures.
     wrapped ''futures multi-assets mode: '' (fetchMultiAssetsMode web js a account) (\<lambda>mode.
     wrapped ''futures balance (v3): '' (fetchFuturesBalance web js a account) (\<lambda>balances.
     let futures = mergeFuturesBalanceSummary (futures\<lparr>fw_MultiAssetsMode := mode, fw_PortfolioMargin := False\<rparr>) balances in
     wrapped ''futures positionRisk (v3): '' (fetchFuturesPositionRisk web js a account) (\<lambda>positions.
     after (fetchPhaseAMetadata web js a account (symbolsFromPositions positions)) (\<lambda>r. give (with_metadata r positions futures))))))"

definition totalValue :: "FuturesWallet \<Rightarrow> SpotWallet \<Rightarrow> float64" where
  "totalValue futures spot =
     (if feq (fw_MarginBalance futures) 0 \<and> feq (fw_TotalMarginBalance futures) 0 then fw_WalletBalance futures + spotEstimatedValue spot
      else if feq (fw_MarginBalance futures) 0 then fw_TotalMarginBalance futures + spotEstimatedValue spot
      else fw_MarginBalance futures + spotEstimatedValue spot)"

definition FetchOnlineAccountInfo :: "Web \<Rightarrow> WalletJson \<Rightarrow> BinanceAdapter \<Rightarrow> Account \<Rightarrow> OnlineAccountInfo web" where
  "FetchOnlineAccountInfo web js a account =
     (if ac_APIKey account = [] \<or> ac_APISecret account = []
      then fail (Errorf (''account '' @ show_int (ac_AccountID account) @ '' missing binance api credentials (env='' @ bw_env a @ '')''))
      else then_web (fetchFuturesWallet web js a account) (\<lambda>futures.
        after (fetchSpotAccount web js a account) (\<lambda>r. with_now web (\<lambda>now.
          let spot = (case r of Inl _ \<Rightarrow> zero_SpotWallet | Inr s \<Rightarrow> s)
          in give \<lparr>oai_AccountID = ac_AccountID account, oai_Environment = 0, oai_Futures = futures, oai_Spot = spot,
               oai_TotalValue = totalValue futures spot, oai_WalletBalance = fw_WalletBalance futures,
               oai_AvailableBalance = fw_AvailableBalance futures, oai_UpdatedAt = now\<rparr>))))"

subsection \<open>The router\<close>

datatype ExchangeTarget = LocalTarget | BinanceTarget string

definition ResolveTarget :: "int \<Rightarrow> ExchangeTarget result" where
  "ResolveTarget env = (if env = EnvironmentBacktest then Inr LocalTarget
     else if env = EnvironmentDemo then Inr (BinanceTarget ''demo'')
     else if env = EnvironmentLive then Inr (BinanceTarget ''live'')
     else Inl (Errorf (''unsupported account environment: '' @ show_int env)))"

definition GetOnlineInfo :: "(string \<Rightarrow> (Account \<Rightarrow> OnlineAccountInfo web) option) \<Rightarrow> (int \<Rightarrow> OnlineAccountInfo result) \<Rightarrow> Account \<Rightarrow> OnlineAccountInfo web" where
  "GetOnlineInfo fetchers getFromDB account = (case ResolveTarget (ac_Environment account) of
     Inl err \<Rightarrow> fail err
   | Inr LocalTarget \<Rightarrow> lift_web (case getFromDB (ac_AccountID account) of
         Inl err \<Rightarrow> Inl (Wrapf ''backtest: fetch from db: '' err) | Inr info \<Rightarrow> Inr (info\<lparr>oai_Environment := EnvironmentBacktest\<rparr>))
   | Inr (BinanceTarget env) \<Rightarrow> (case fetchers env of
         None \<Rightarrow> fail (Errorf (''exchange adapter not configured: provider=binance env='' @ env))
       | Some fetch \<Rightarrow> wrapped (''binance '' @ env @ '': '') (fetch account) (\<lambda>info. give (info\<lparr>oai_Environment := ac_Environment account\<rparr>))))"

subsection \<open>Portfolio snapshots\<close>

definition balancesFromOnlineInfo :: "OnlineAccountInfo \<Rightarrow> BalanceEntry list" where
  "balancesFromOnlineInfo info =
     \<lparr>be_Asset = ''USDT'', be_WalletBalance = fw_WalletBalance (oai_Futures info), be_AvailableBalance = fw_AvailableBalance (oai_Futures info),
      be_Locked = 0, be_ValueUSDT = fw_MarginBalance (oai_Futures info)\<rparr>
     # map (\<lambda>asset. \<lparr>be_Asset = sa_Symbol asset, be_WalletBalance = sa_Qty asset, be_AvailableBalance = sa_Qty asset - sa_Locked asset,
         be_Locked = sa_Locked asset, be_ValueUSDT = (case sa_Price asset of None \<Rightarrow> 0 | Some price \<Rightarrow> sa_Qty asset * price)\<rparr>)
       (sw_Assets (oai_Spot info))"

definition positionsFromOnlineInfo :: "OnlineAccountInfo \<Rightarrow> PositionEntry list" where
  "positionsFromOnlineInfo info = map (\<lambda>p. \<lparr>pe_Symbol = fp_Symbol p, pe_PositionSide = fp_PositionSide p, pe_Qty = fp_PositionQty p,
     pe_EntryPrice = fp_EntryPrice p, pe_MarkPrice = fp_MarkPrice p, pe_UnrealizedPnl = fp_UnrealizedPnl p, pe_MarginBalance = 0,
     pe_LiquidationPrice = fp_LiquidationPrice p\<rparr>) (fw_Positions (oai_Futures info))"

text \<open>The account a request is made for, with the keys of its credential.\<close>

definition requestAccount :: "Route \<Rightarrow> PortfolioSnapshotRequest \<Rightarrow> BinanceCredential \<Rightarrow> Account \<Rightarrow> Account" where
  "requestAccount route req cred blank = blank\<lparr>ac_AccountID := pq_AccountID req, ac_UserID := pq_UserID req, ac_Environment := rt_Environment route,
     ac_APIKey := metadata cred ''api_key'', ac_APISecret := metadata cred ''api_secret''\<rparr>"

definition ReadPortfolioSnapshot :: "(OnlineAccountInfo \<Rightarrow> string result) \<Rightarrow> Route \<Rightarrow> (Account \<Rightarrow> OnlineAccountInfo web)
    \<Rightarrow> PortfolioSnapshotRequest \<Rightarrow> BinanceCredential \<Rightarrow> Account \<Rightarrow> VenuePortfolio web" where
  "ReadPortfolioSnapshot marshal route fetch req cred blank =
     then_web (fetch (requestAccount route req cred blank)) (\<lambda>info. lift_web (bind_result (marshal info) (\<lambda>raw.
       Inr (zero_VenuePortfolio\<lparr>pf_UserID := pq_UserID req, pf_AccountID := pq_AccountID req, pf_VenueID := pq_VenueID req,
         pf_Exchange := rt_Exchange route, pf_Environment := rt_Environment route, pf_Market := rt_Market route,
         pf_TotalValue := oai_TotalValue info, pf_WalletBalance := oai_WalletBalance info, pf_AvailableBalance := oai_AvailableBalance info,
         pf_Balances := balancesFromOnlineInfo info, pf_Positions := positionsFromOnlineInfo info, pf_OnlineInfo := Some info,
         pf_UpdatedAt := oai_UpdatedAt info, pf_RawPayload := raw\<rparr>))))"

definition backtestPortfolioSnapshot :: "time \<Rightarrow> PortfolioSnapshotRequest \<Rightarrow> VenuePortfolio" where
  "backtestPortfolioSnapshot now req = zero_VenuePortfolio\<lparr>pf_UserID := pq_UserID req, pf_AccountID := pq_AccountID req,
     pf_VenueID := pq_VenueID req, pf_UpdatedAt := now\<rparr>"

datatype SnapshotReader = BacktestSnapshot | ExchangeSnapshot Route BinanceAdapter

definition Binance_AccountSnapshotReader :: "Route \<Rightarrow> SnapshotReader result" where
  "Binance_AccountSnapshotReader route = bind_result (requirePerpetualFutures route ''account_snapshot_reader'') (\<lambda>_.
     if rt_Environment route = EnvironmentBacktest then Inr BacktestSnapshot
     else if rt_Environment route = EnvironmentDemo then Inr (ExchangeSnapshot route NewBinanceTestnetAdapter)
     else if rt_Environment route = EnvironmentLive then Inr (ExchangeSnapshot route NewBinanceLiveAdapter)
     else Inl (CapabilityUnsupported ''account_snapshot_reader''))"

subsection \<open>Symbol lists\<close>

lemma normalizeSymbols_sound:
  "sorted (normalizeSymbols ss)" "distinct (normalizeSymbols ss)" "set (normalizeSymbols ss) = norm_sym ` set ss - {[]}"
  "normalizeSymbols (normalizeSymbols ss) = normalizeSymbols ss"
proof -
  have n: "norm_sym (norm_sym s) = norm_sym s" for s by (simp add: trim_space_to_upper)
  show 1: "sorted (normalizeSymbols ss)" "distinct (normalizeSymbols ss)" "set (normalizeSymbols ss) = norm_sym ` set ss - {[]}"
    by (auto simp: normalizeSymbols_def)
  have "set (normalizeSymbols (normalizeSymbols ss)) = set (normalizeSymbols ss)"
    by (auto simp: normalizeSymbols_def n image_iff)
  then show "normalizeSymbols (normalizeSymbols ss) = normalizeSymbols ss"
    by (intro sorted_distinct_set_unique) (auto simp: normalizeSymbols_def)
qed

subsection \<open>Reading changes nothing\<close>

definition only :: "(HttpRequest \<Rightarrow> bool) \<Rightarrow> 'a web \<Rightarrow> bool" where
  "only P m = (\<forall>sent. \<exists>rs. snd (m sent) = sent @ rs \<and> list_all P rs)"

named_theorems only_intros \<open>rules on the kind of requests of a program\<close>

lemma only_give [only_intros]: "only P (give x)" and only_fail [only_intros]: "only P (fail e)" and only_lift [only_intros]: "only P (lift_web r)"
  by (simp_all add: only_def give_def fail_def lift_web_def)

lemma only_now [only_intros]: "(\<And>t. only P (f t)) \<Longrightarrow> only P (with_now web f)"
  unfolding only_def with_now_def by meson

lemma only_transmit: "P r \<Longrightarrow> only P (transmit web c d r)"
  by (simp add: only_def transmit_def)

lemma only_after [only_intros]:
  assumes "only P m" "\<And>r. only P (f r)" shows "only P (after m f)"
  unfolding only_def
proof
  fix sent
  obtain r sent' where m: "m sent = (r, sent')" by (cases "m sent")
  from assms(1) m obtain rs where rs: "sent' = sent @ rs" "list_all P rs" unfolding only_def by (metis snd_conv)
  from assms(2) obtain ts where "snd (f r sent') = sent' @ ts" "list_all P ts" unfolding only_def by meson
  then show "\<exists>us. snd (after m f sent) = sent @ us \<and> list_all P us"
    using m rs by (intro exI [of _ "rs @ ts"]) (simp add: after_def)
qed

lemma only_then [only_intros]: "only P m \<Longrightarrow> (\<And>x. only P (f x)) \<Longrightarrow> only P (then_web m f)"
  unfolding then_web_def by (auto intro!: only_intros split: sum.split)

lemma only_wrapped [only_intros]: "only P m \<Longrightarrow> (\<And>x. only P (f x)) \<Longrightarrow> only P (wrapped what m f)"
  unfolding wrapped_def by (auto intro!: only_intros split: sum.split)

lemma only_decode [only_intros]: "only P (decode_as what f body)"
  by (simp add: decode_as_def only_lift)

lemma only_each [only_intros]: "(\<And>x. only P (f x)) \<Longrightarrow> only P (each_web f xs)"
  by (induction xs) (simp_all add: only_intros)

text \<open>A GET request without a key, or with the key of the account.\<close>

definition reads_as :: "Account \<Rightarrow> HttpRequest \<Rightarrow> bool" where
  "reads_as account r = (hq_Method r = ''GET'' \<and> hq_Body r = [] \<and> hq_APIKey r \<in> {[], ac_APIKey account})"

lemma only_get [only_intros]: "key \<in> {[], ac_APIKey account} \<Longrightarrow> only (reads_as account) (get_body web endpoint text key)"
  unfolding get_body_def by (auto simp: reads_as_def intro!: only_intros only_transmit split: option.split)

lemma only_public [only_intros]: "only (reads_as account) (publicGet web endpoint ps)"
  by (simp add: publicGet_def only_intros)

lemma only_signed [only_intros]: "only (reads_as account) (signedGet web account endpoint ps)"
  by (simp add: signedGet_def only_intros)

lemma only_ticker [only_intros]: "only (reads_as account) (ticker web js a symbol)"
  unfolding ticker_def fetchPublicSpotTickerPrice_def Let_def by (auto intro!: only_intros)

lemma only_display [only_intros]: "only (reads_as account) (displayTotals web js a index acc assets)"
proof (induction assets arbitrary: acc)
  case (Cons asset assets)
  have "only (reads_as account) (futuresDisplayUSDRate web js a (fa_Asset asset) index)"
    unfolding futuresDisplayUSDRate_def by (auto intro!: only_intros split: option.split)
  then show ?case using Cons by (auto intro!: only_intros split: prod.split)
qed (simp add: only_intros)

lemma only_futuresAccount [only_intros]: "only (reads_as account) (fetchFuturesAccount web js a account)"
  unfolding fetchFuturesAccount_def applyFuturesDisplayUSDTotals_def fetchFuturesAssetIndex_def
  by (auto intro!: only_intros split: prod.split)

lemma only_rows [only_intros]: "only (reads_as account) (fetch_rows web a account path parse name symbols)"
  unfolding fetch_rows_def Let_def by (auto intro!: only_intros)

lemma only_metadata [only_intros]: "only (reads_as account) (fetchPhaseAMetadata web js a account symbols)"
  unfolding fetchPhaseAMetadata_def fetchSymbolConfig_def fetchLeverageBrackets_def fetchExchangeInfo_def Let_def
  by (auto intro!: only_intros)

lemma only_futuresWallet [only_intros]: "only (reads_as account) (fetchFuturesWallet web js a account)"
  unfolding fetchFuturesWallet_def fetchMultiAssetsMode_def fetchFuturesBalance_def fetchFuturesPositionRisk_def Let_def
  by (auto intro!: only_intros)

lemma only_lookup [only_intros]: "only (reads_as account) (lookupSpotAssetPrice web js a asset)"
  unfolding lookupSpotAssetPrice_def by (auto intro!: only_intros split: option.split)

lemma only_spot [only_intros]: "only (reads_as account) (fetchSpotAccount web js a account)"
  unfolding fetchSpotAccount_def enrichSpotAssetPrices_def priceAsset_def by (auto intro!: only_intros)

lemma account_reads_only: "only (reads_as account) (FetchOnlineAccountInfo web js a account)"
  unfolding FetchOnlineAccountInfo_def Let_def by (auto intro!: only_intros)

subsection \<open>Reading succeeds when the futures endpoints answer\<close>

text \<open>
  An endpoint whose every request is answered with a body that decodes to the same value, and an endpoint that never
  gives a body that can be decoded.
\<close>

definition serves :: "Web \<Rightarrow> string \<Rightarrow> (string \<Rightarrow> 'a result) \<Rightarrow> 'a \<Rightarrow> bool" where
  "serves web endpoint f x = (wb_bad_url web endpoint = None \<and> (\<forall>sent r. has_prefix (hq_URL r) (endpoint @ ''?'')
     \<longrightarrow> (\<exists>body. wb_answer web (sent @ [r]) = Answer 200 body \<and> f body = Inr x)))"

definition refuses :: "Web \<Rightarrow> string \<Rightarrow> (string \<Rightarrow> 'a result) \<Rightarrow> bool" where
  "refuses web endpoint f = (\<forall>sent r body. hq_URL r = endpoint \<or> has_prefix (hq_URL r) (endpoint @ ''?'')
     \<longrightarrow> wb_answer web (sent @ [r]) = Answer 200 body \<longrightarrow> \<not> is_ok (f body))"

text \<open>What is known of the outcome of a program, whatever was sent before.\<close>

definition ends :: "('a result \<Rightarrow> bool) \<Rightarrow> 'a web \<Rightarrow> bool" where
  "ends P m = (\<forall>sent. P (fst (m sent)))"

definition delivered :: "('a \<Rightarrow> bool) \<Rightarrow> 'a result \<Rightarrow> bool" where
  "delivered P r = (case r of Inl e \<Rightarrow> False | Inr x \<Rightarrow> P x)"

definition broken :: "'a result \<Rightarrow> bool" where
  "broken r = (case r of Inl e \<Rightarrow> True | Inr x \<Rightarrow> False)"

lemma outcome_simps [simp]: "delivered P (Inr x) = P x" "\<not> delivered P (Inl e)" "broken (Inl e)" "\<not> broken (Inr x)"
  by (simp_all add: delivered_def broken_def)

lemma ends_give: "P (Inr x) \<Longrightarrow> ends P (give x)"
  by (simp add: ends_def give_def)

lemma ends_mono: "ends Q m \<Longrightarrow> (\<And>r. Q r \<Longrightarrow> P r) \<Longrightarrow> ends P m"
  by (simp add: ends_def)

lemma ends_any: "ends (\<lambda>_. True) m"
  by (simp add: ends_def)

lemma ends_after: "ends Q m \<Longrightarrow> (\<And>r. Q r \<Longrightarrow> ends P (f r)) \<Longrightarrow> ends P (after m f)"
  unfolding ends_def after_def by (metis (no_types, lifting) prod.case prod.collapse)

lemma ends_now: "(\<And>t. ends P (f t)) \<Longrightarrow> ends P (with_now web f)"
  by (simp add: ends_def with_now_def)

lemma ends_then: "ends (delivered Q) m \<Longrightarrow> (\<And>x. Q x \<Longrightarrow> ends P (f x)) \<Longrightarrow> ends P (then_web m f)"
  unfolding then_web_def by (rule ends_after, assumption) (auto simp: delivered_def split: sum.splits)

lemma ends_wrapped: "ends (delivered Q) m \<Longrightarrow> (\<And>x. Q x \<Longrightarrow> ends P (f x)) \<Longrightarrow> ends P (wrapped what m f)"
  unfolding wrapped_def by (rule ends_after, assumption) (auto simp: delivered_def split: sum.splits)

lemma broken_fail: "ends broken (fail e)"
  by (simp add: ends_def fail_def)

lemma broken_then: "ends broken m \<Longrightarrow> ends broken (then_web m f)"
  unfolding then_web_def by (rule ends_after, assumption) (auto simp: broken_def broken_fail split: sum.splits)

lemma broken_later: "(\<And>x. ends broken (f x)) \<Longrightarrow> ends broken (then_web m f)"
  unfolding then_web_def by (rule ends_after [OF ends_any]) (auto simp: broken_fail split: sum.split)

lemma then_give: "then_web m give = m"
  by (auto simp: fun_eq_iff then_web_def after_def give_def fail_def split: prod.split sum.split)

lemma served:
  assumes "serves web endpoint f x" "ends P (g x)"
  shows "ends P (then_web (signedGet web account endpoint ps) (\<lambda>body. then_web (decode_as what f body) g))"
  unfolding ends_def
proof
  fix sent
  let ?q = "signed_query web (ac_APISecret account) (set_param ''timestamp'' (millis (wb_now web sent)) ps)"
  let ?r = "\<lparr>hq_Method = ''GET'', hq_URL = endpoint @ ''?'' @ ?q, hq_Body = [], hq_APIKey = ac_APIKey account\<rparr>"
  have q: "?q \<noteq> []" by (simp add: signed_query_def Let_def)
  have "has_prefix (hq_URL ?r) (endpoint @ ''?'')" by (simp add: has_prefix_def)
  then obtain body where "wb_answer web (sent @ [?r]) = Answer 200 body" "f body = Inr x"
    using assms(1) unfolding serves_def by blast
  then show "P (fst (then_web (signedGet web account endpoint ps) (\<lambda>body. then_web (decode_as what f body) g) sent))"
    using assms q by (simp add: serves_def then_web_def after_def signedGet_def with_now_def get_body_def transmit_def decode_as_def
        lift_web_def give_def ends_def)
qed

lemma served_plain: "serves web endpoint f x \<Longrightarrow> ends (delivered ((=) x)) (then_web (signedGet web account endpoint ps) (decode_as what f))"
  using served [of web endpoint f x "delivered ((=) x)" give account ps what] by (simp add: ends_give then_give)

lemma get_body_shape:
  assumes "fst (get_body web endpoint q key sent) = Inr body"
  shows "\<exists>r. (hq_URL r = endpoint \<or> has_prefix (hq_URL r) (endpoint @ ''?'')) \<and> wb_answer web (sent @ [r]) = Answer 200 body"
proof -
  let ?r = "\<lparr>hq_Method = ''GET'', hq_URL = (if q = [] then endpoint else endpoint @ ''?'' @ q), hq_Body = [], hq_APIKey = key\<rparr>"
  have "hq_URL ?r = endpoint \<or> has_prefix (hq_URL ?r) (endpoint @ ''?'')" by (simp add: has_prefix_def)
  moreover have "wb_answer web (sent @ [?r]) = Answer 200 body"
    using assms by (auto simp: get_body_def transmit_def then_web_def after_def fail_def give_def split: option.splits HttpAnswer.splits if_splits)
  ultimately show ?thesis by blast
qed

lemma refused_body:
  assumes "refuses web endpoint f" shows "ends broken (then_web (get_body web endpoint q key) (decode_as what f))"
proof -
  have "ends (\<lambda>r. \<forall>body. r = Inr body \<longrightarrow> \<not> is_ok (f body)) (get_body web endpoint q key)"
    unfolding ends_def using get_body_shape assms unfolding refuses_def by blast
  then show ?thesis unfolding then_web_def
    by (rule ends_after) (auto simp: ends_def fail_def decode_as_def lift_web_def split: sum.splits)
qed

lemma refused: "refuses web endpoint f \<Longrightarrow> ends broken (then_web (signedGet web account endpoint ps) (decode_as what f))"
  "refuses web endpoint f \<Longrightarrow> ends broken (then_web (publicGet web endpoint ps) (decode_as what f))"
  using refused_body [of web endpoint f] unfolding signedGet_def publicGet_def
  by (auto simp: ends_def then_web_def after_def with_now_def)

lemma then_assoc: "then_web (then_web m f) g = then_web m (\<lambda>x. then_web (f x) g)"
  by (auto simp: fun_eq_iff then_web_def after_def fail_def split: prod.split sum.split)

lemma refused_then: "refuses web endpoint f \<Longrightarrow> ends broken (then_web (signedGet web account endpoint ps) (\<lambda>body. then_web (decode_as what f body) g))"
  "refuses web endpoint f \<Longrightarrow> ends broken (then_web (publicGet web endpoint ps) (\<lambda>body. then_web (decode_as what f body) g))"
  unfolding then_assoc [symmetric] by (auto intro: broken_then refused)

text \<open>The parts that may fail: conversion rates, metadata, the spot account and its prices.\<close>

definition display_totals :: "FuturesWallet \<Rightarrow> float64 \<times> float64 \<times> float64" where
  "display_totals w = (fw_DisplayWalletBalanceUsd w, fw_DisplayMarginBalanceUsd w, fw_DisplayUnrealizedPnlUsd w)"

definition without_display :: "FuturesWallet \<Rightarrow> FuturesWallet" where
  "without_display w = w\<lparr>fw_DisplayWalletBalanceUsd := 0, fw_DisplayMarginBalanceUsd := 0, fw_DisplayUnrealizedPnlUsd := 0\<rparr>"

definition needs_rates :: "binanceFuturesAccountV3 \<Rightarrow> bool" where
  "needs_rates acc = (\<exists>asset\<in>set (ba_Assets acc). holds_something asset \<and> fa_Asset asset \<noteq> ''USDT'')"

lemma account_delivered:
  assumes "serves web (bw_futuresBase a @ ''/fapi/v3/account'') (wj_account js) acc"
  shows "ends (delivered (\<lambda>w. without_display w = without_display (canonicalWallet acc)
      \<and> (refuses web (bw_futuresBase a @ ''/fapi/v1/assetIndex'') (wj_index js) \<and> needs_rates acc \<longrightarrow> w = canonicalWallet acc)))
    (fetchFuturesAccount web js a account)"
  unfolding fetchFuturesAccount_def
proof (rule served [OF assms])
  let ?m = "applyFuturesDisplayUSDTotals web js a (canonicalWallet acc) (ba_Assets acc)"
  let ?refused = "refuses web (bw_futuresBase a @ ''/fapi/v1/assetIndex'') (wj_index js) \<and> needs_rates acc"
  have any: "ends (\<lambda>r. case r of Inl e \<Rightarrow> True | Inr w \<Rightarrow> without_display w = without_display (canonicalWallet acc)) ?m"
    unfolding applyFuturesDisplayUSDTotals_def ends_def
    by (auto simp: then_web_def after_def give_def fail_def without_display_def split: prod.splits sum.splits)
  have "ends broken ?m" if "?refused"
  proof -
    have "ends broken (fetchFuturesAssetIndex web js a)" using that unfolding fetchFuturesAssetIndex_def by (intro refused_then) simp
    moreover have "ba_Assets acc \<noteq> []" "\<exists>asset\<in>set (ba_Assets acc). holds_something asset \<and> fa_Asset asset \<noteq> ''USDT''"
      using that by (auto simp: needs_rates_def)
    ultimately show ?thesis unfolding applyFuturesDisplayUSDTotals_def by (simp add: broken_then)
  qed
  then have "ends (\<lambda>r. (case r of Inl e \<Rightarrow> True | Inr w \<Rightarrow> without_display w = without_display (canonicalWallet acc))
      \<and> (?refused \<longrightarrow> broken r)) ?m" using any by (auto simp: ends_def)
  then show "ends (delivered (\<lambda>w. without_display w = without_display (canonicalWallet acc) \<and> (?refused \<longrightarrow> w = canonicalWallet acc)))
    (after ?m (\<lambda>r. give (case r of Inl _ \<Rightarrow> canonicalWallet acc | Inr wallet \<Rightarrow> wallet)))"
    by (rule ends_after) (auto intro!: ends_give simp: broken_def split: sum.splits)
qed

lemma positions_delivered:
  assumes "serves web (bw_futuresBase a @ ''/fapi/v3/positionRisk'') (wj_risk js) risk"
  shows "ends (delivered ((=) (map riskPosition (filter (\<lambda>p. \<not> feq (parseFloat (pr3_PositionAmt p)) 0) risk))))
    (fetchFuturesPositionRisk web js a account)"
  unfolding fetchFuturesPositionRisk_def by (rule served [OF assms]) (simp add: ends_give)

definition metadata_refused :: "Web \<Rightarrow> WalletJson \<Rightarrow> BinanceAdapter \<Rightarrow> bool" where
  "metadata_refused web js a \<longleftrightarrow> refuses web (bw_futuresBase a @ ''/fapi/v1/symbolConfig'') (wj_config js)
     \<or> refuses web (bw_futuresBase a @ ''/fapi/v1/leverageBracket'') (wj_brackets js)
     \<or> refuses web (bw_futuresBase a @ ''/fapi/v1/exchangeInfo'') (wj_info js)"

lemma rows_refused:
  assumes "refuses web (bw_futuresBase a @ path) parse" "normalizeSymbols symbols \<noteq> []"
  shows "ends broken (fetch_rows web a account path parse name symbols)"
proof -
  obtain x xs where "normalizeSymbols symbols = x # xs" using assms(2) by (cases "normalizeSymbols symbols") auto
  then show ?thesis
    by (auto simp: fetch_rows_def Let_def intro!: refused_then(1) [OF assms(1)] broken_then [OF refused(1) [OF assms(1)]])
qed

lemma metadata_outcome:
  assumes "metadata_refused web js a"
  shows "ends (\<lambda>r. broken r \<or> r = Inr []) (fetchPhaseAMetadata web js a account symbols)"
proof (cases "normalizeSymbols symbols = []")
  case True
  then show ?thesis by (simp add: fetchPhaseAMetadata_def ends_give)
next
  case False
  then have "normalizeSymbols (normalizeSymbols symbols) \<noteq> []" by (simp add: normalizeSymbols_sound(4))
  then have "ends broken (fetchPhaseAMetadata web js a account symbols)"
    using assms False unfolding fetchPhaseAMetadata_def metadata_refused_def fetchSymbolConfig_def fetchLeverageBrackets_def fetchExchangeInfo_def
    by (auto simp: Let_def intro: broken_then broken_later rows_refused refused)
  then show ?thesis by (rule ends_mono) simp
qed

text \<open>A position as the exchange reports it; the metadata may only fill in its margin mode and its leverage.\<close>

definition position_read :: "binanceFuturesPositionRiskV3 \<Rightarrow> FuturesPosition \<Rightarrow> bool" where
  "position_read p q \<longleftrightarrow> fp_Symbol q = pr3_Symbol p \<and> fp_PositionSide q = pr3_PositionSide p
     \<and> fp_Qty q = parseFloat (pr3_PositionAmt p) \<and> fp_PositionQty q = parseFloat (pr3_PositionAmt p)
     \<and> fp_EntryPrice q = parseFloat (pr3_EntryPrice p) \<and> fp_MarkPrice q = parseFloat (pr3_MarkPrice p)
     \<and> fp_UnrealizedPnl q = parseFloat (pr3_UnrealizedProfit p) \<and> fp_Notional q = parseFloat (pr3_Notional p)
     \<and> fp_InitialMargin q = parseFloat (pr3_InitialMargin p) \<and> fp_PositionInitialMargin q = parseFloat (pr3_PositionInitialMargin p)
     \<and> fp_OpenOrderInitialMargin q = parseFloat (pr3_OpenOrderInitialMargin p) \<and> fp_MaintMargin q = parseFloat (pr3_MaintMargin p)
     \<and> fp_IsolatedWallet q = parseFloat (pr3_IsolatedWallet p) \<and> fp_LiquidationPrice q = parseFloat (pr3_LiquidationPrice p)
     \<and> fp_BreakEvenPrice q = parseFloat (pr3_BreakEvenPrice p)
     \<and> (pr3_MarginType p \<noteq> [] \<longrightarrow> fp_MarginType q = pr3_MarginType p \<and> fp_MarginMode q = pr3_MarginType p)"

lemma riskPosition_read: "position_read p (riskPosition p)" "position_read p (applyPositionMetadata m (riskPosition p))"
  by (auto simp: position_read_def riskPosition_def applyPositionMetadata_def Let_def split: option.split)

lemma empty_metadata: "map (applyPositionMetadata []) ps = ps" "metadataToDomainRiskMetadata [] = []"
  by (simp_all add: applyPositionMetadata_def metadataToDomainRiskMetadata_def map_idI)

text \<open>The balances of the futures wallet, from the account and the primary one of the balances.\<close>

definition balances_read :: "binanceFuturesAccountV3 \<Rightarrow> bool \<Rightarrow> binanceFuturesBalanceV3 list \<Rightarrow> FuturesWallet \<Rightarrow> bool" where
  "balances_read acc mode balances w \<longleftrightarrow> fw_MultiAssetsMode w = mode \<and> \<not> fw_PortfolioMargin w
     \<and> fw_TotalPositionInitialMargin w = parseFloat (ba_TotalPositionInitialMargin acc)
     \<and> fw_TotalOpenOrderInitialMargin w = parseFloat (ba_TotalOpenOrderInitialMargin acc)
     \<and> fw_TotalMaintMargin w = parseFloat (ba_TotalMaintMargin acc)
     \<and> (case pickPrimaryFuturesBalance balances of
          Some b \<Rightarrow>
            if mode then fw_WalletBalance w = parseFloat (bb_Balance b) \<and> fw_AvailableBalance w = parseFloat (bb_AvailableBalance b)
              \<and> fw_MarginBalance w = parseFloat (bb_Balance b) + parseFloat (bb_CrossUnPnl b)
              \<and> fw_TotalMarginBalance w = parseFloat (bb_Balance b) + parseFloat (bb_CrossUnPnl b)
              \<and> fw_UnrealizedPnl w = parseFloat (bb_CrossUnPnl b) \<and> fw_TotalUnrealizedPnl w = parseFloat (bb_CrossUnPnl b)
              \<and> fw_TotalCrossWalletBalance w = parseFloat (bb_CrossWalletBalance b) \<and> fw_TotalCrossUnPnl w = parseFloat (bb_CrossUnPnl b)
            else fw_WalletBalance w = or_else (parseFloat (ba_TotalWalletBalance acc)) (parseFloat (bb_Balance b))
              \<and> fw_AvailableBalance w = or_else (parseFloat (ba_AvailableBalance acc)) (parseFloat (bb_AvailableBalance b))
              \<and> fw_MarginBalance w = parseFloat (ba_TotalMarginBalance acc) \<and> fw_TotalMarginBalance w = parseFloat (ba_TotalMarginBalance acc)
              \<and> fw_UnrealizedPnl w = parseFloat (ba_TotalUnrealizedProfit acc) \<and> fw_TotalUnrealizedPnl w = parseFloat (ba_TotalUnrealizedProfit acc)
              \<and> fw_TotalCrossWalletBalance w = or_else (parseFloat (ba_TotalCrossWalletBalance acc)) (parseFloat (bb_CrossWalletBalance b))
              \<and> fw_TotalCrossUnPnl w = or_else (parseFloat (ba_TotalCrossUnPnl acc)) (parseFloat (bb_CrossUnPnl b))
        | None \<Rightarrow> fw_WalletBalance w = parseFloat (ba_TotalWalletBalance acc) \<and> fw_AvailableBalance w = parseFloat (ba_AvailableBalance acc)
              \<and> fw_MarginBalance w = parseFloat (ba_TotalMarginBalance acc) \<and> fw_UnrealizedPnl w = parseFloat (ba_TotalUnrealizedProfit acc))"

lemma without_display_eq:
  assumes "without_display w = without_display v"
  obtains x y z where "w = v\<lparr>fw_DisplayWalletBalanceUsd := x, fw_DisplayMarginBalanceUsd := y, fw_DisplayUnrealizedPnlUsd := z\<rparr>"
proof -
  have "w = (without_display w)\<lparr>fw_DisplayWalletBalanceUsd := fw_DisplayWalletBalanceUsd w,
      fw_DisplayMarginBalanceUsd := fw_DisplayMarginBalanceUsd w, fw_DisplayUnrealizedPnlUsd := fw_DisplayUnrealizedPnlUsd w\<rparr>"
    by (simp add: without_display_def)
  then show thesis using that unfolding assms by (simp add: without_display_def)
qed

lemma merged_read:
  assumes "without_display w = without_display (canonicalWallet acc)"
  shows "balances_read acc mode bal (mergeFuturesBalanceSummary (w\<lparr>fw_MultiAssetsMode := mode, fw_PortfolioMargin := False\<rparr>) bal)"
    "display_totals (mergeFuturesBalanceSummary (w\<lparr>fw_MultiAssetsMode := mode, fw_PortfolioMargin := False\<rparr>) bal) = display_totals w"
    "fw_RiskMetadata (mergeFuturesBalanceSummary (w\<lparr>fw_MultiAssetsMode := mode, fw_PortfolioMargin := False\<rparr>) bal) = fw_RiskMetadata (canonicalWallet acc)"
proof -
  obtain x y z where w: "w = (canonicalWallet acc)\<lparr>fw_DisplayWalletBalanceUsd := x, fw_DisplayMarginBalanceUsd := y, fw_DisplayUnrealizedPnlUsd := z\<rparr>"
    using without_display_eq [OF assms] .
  note defs = w mergeFuturesBalanceSummary_def canonicalWallet_def Let_def
  show "balances_read acc mode bal (mergeFuturesBalanceSummary (w\<lparr>fw_MultiAssetsMode := mode, fw_PortfolioMargin := False\<rparr>) bal)"
    by (cases "pickPrimaryFuturesBalance bal") (simp_all add: defs balances_read_def)
  show "display_totals (mergeFuturesBalanceSummary (w\<lparr>fw_MultiAssetsMode := mode, fw_PortfolioMargin := False\<rparr>) bal) = display_totals w"
    "fw_RiskMetadata (mergeFuturesBalanceSummary (w\<lparr>fw_MultiAssetsMode := mode, fw_PortfolioMargin := False\<rparr>) bal) = fw_RiskMetadata (canonicalWallet acc)"
    by (cases "pickPrimaryFuturesBalance bal"; simp add: defs display_totals_def)+
qed

definition wallet_read :: "Web \<Rightarrow> WalletJson \<Rightarrow> BinanceAdapter \<Rightarrow> binanceFuturesAccountV3 \<Rightarrow> bool \<Rightarrow> binanceFuturesBalanceV3 list
    \<Rightarrow> binanceFuturesPositionRiskV3 list \<Rightarrow> FuturesWallet \<Rightarrow> bool" where
  "wallet_read web js a acc mode balances risk w \<longleftrightarrow> balances_read acc mode balances w
     \<and> list_all2 position_read (filter (\<lambda>p. \<not> feq (parseFloat (pr3_PositionAmt p)) 0) risk) (fw_Positions w)
     \<and> (refuses web (bw_futuresBase a @ ''/fapi/v1/assetIndex'') (wj_index js) \<and> needs_rates acc \<longrightarrow>
          display_totals w = (parseFloat (ba_TotalWalletBalance acc), parseFloat (ba_TotalMarginBalance acc), parseFloat (ba_TotalUnrealizedProfit acc)))
     \<and> (metadata_refused web js a \<longrightarrow> fw_RiskMetadata w = []
          \<and> fw_Positions w = map riskPosition (filter (\<lambda>p. \<not> feq (parseFloat (pr3_PositionAmt p)) 0) risk))"

lemma with_metadata_read:
  assumes "without_display w = without_display (canonicalWallet acc)"
    "refuses web (bw_futuresBase a @ ''/fapi/v1/assetIndex'') (wj_index js) \<and> needs_rates acc \<longrightarrow> w = canonicalWallet acc"
    "metadata_refused web js a \<longrightarrow> broken r \<or> r = Inr []"
  shows "wallet_read web js a acc mode bal risk (with_metadata r
      (map riskPosition (filter (\<lambda>p. \<not> feq (parseFloat (pr3_PositionAmt p)) 0) risk))
      (mergeFuturesBalanceSummary (w\<lparr>fw_MultiAssetsMode := mode, fw_PortfolioMargin := False\<rparr>) bal))" (is "wallet_read _ _ _ _ _ _ _ (with_metadata r ?ps ?w)")
proof -
  have parts: "balances_read acc mode bal (with_metadata r ?ps ?w) = balances_read acc mode bal ?w"
    "display_totals (with_metadata r ?ps ?w) = display_totals ?w"
    by (cases r; simp add: with_metadata_def balances_read_def display_totals_def split: option.split)+
  have positions: "list_all2 position_read (filter (\<lambda>p. \<not> feq (parseFloat (pr3_PositionAmt p)) 0) risk) (fw_Positions (with_metadata r ?ps ?w))"
    by (cases r) (simp_all add: with_metadata_def riskPosition_read list_all2_conv_all_nth)
  have totals: "display_totals w = (parseFloat (ba_TotalWalletBalance acc), parseFloat (ba_TotalMarginBalance acc), parseFloat (ba_TotalUnrealizedProfit acc))"
    if "w = canonicalWallet acc" by (simp add: that display_totals_def canonicalWallet_def)
  have "fw_RiskMetadata (with_metadata r ?ps ?w) = [] \<and> fw_Positions (with_metadata r ?ps ?w) = ?ps" if "broken r \<or> r = Inr []"
    using that merged_read(3) [OF assms(1), of mode bal] empty_metadata
    by (cases r) (auto simp: with_metadata_def canonicalWallet_def zero_FuturesWallet_def)
  then show ?thesis unfolding wallet_read_def parts using merged_read(1,2) [OF assms(1), of mode bal] positions totals assms(2,3) by auto
qed

lemma wallet_delivered:
  assumes "serves web (bw_futuresBase a @ ''/fapi/v3/account'') (wj_account js) acc"
    "serves web (bw_futuresBase a @ ''/fapi/v1/multiAssetsMargin'') (wj_multi js) mode"
    "serves web (bw_futuresBase a @ ''/fapi/v3/balance'') (wj_balance js) balances"
    "serves web (bw_futuresBase a @ ''/fapi/v3/positionRisk'') (wj_risk js) risk"
  shows "ends (delivered (wallet_read web js a acc mode balances risk)) (fetchFuturesWallet web js a account)"
proof -
  have metadata: "ends (\<lambda>r. metadata_refused web js a \<longrightarrow> broken r \<or> r = Inr []) (fetchPhaseAMetadata web js a account symbols)" for symbols
    using metadata_outcome [of web js a account symbols] by (auto simp: ends_def)
  show ?thesis unfolding fetchFuturesWallet_def fetchMultiAssetsMode_def fetchFuturesBalance_def Let_def
    by (intro ends_wrapped [OF account_delivered [OF assms(1)]] ends_wrapped [OF served_plain [OF assms(2)]]
        ends_wrapped [OF served_plain [OF assms(3)]] ends_wrapped [OF positions_delivered [OF assms(4)]] ends_after [OF metadata] ends_give)
      (auto intro: with_metadata_read)
qed

text \<open>The spot wallet: prices are looked up for the assets that the exchange reports, and change nothing else.\<close>

definition unpriced :: "SpotWallet \<Rightarrow> SpotWallet" where
  "unpriced w = w\<lparr>sw_Assets := map (\<lambda>asset. asset\<lparr>sa_Price := None\<rparr>) (sw_Assets w)\<rparr>"

lemma addBalance_unpriced: "\<forall>asset\<in>set (sw_Assets w). sa_Price asset = None \<Longrightarrow> \<forall>asset\<in>set (sw_Assets (addBalance w b)). sa_Price asset = None"
  by (simp add: addBalance_def Let_def)

lemma balances_unpriced: "\<forall>asset\<in>set (sw_Assets (foldl addBalance zero_SpotWallet balances)). sa_Price asset = None"
proof (induction balances rule: rev_induct)
  case Nil
  then show ?case by (simp add: zero_SpotWallet_def)
next
  case (snoc b balances)
  then show ?case using addBalance_unpriced by simp
qed

lemma ticker_outcome: "ends (delivered (\<lambda>price. refuses web (bw_spotBase a @ ''/api/v3/ticker/price'') (wj_ticker js) \<longrightarrow> price = None)) (ticker web js a symbol)"
proof -
  have "ends broken (fetchPublicSpotTickerPrice web js a symbol)" if "refuses web (bw_spotBase a @ ''/api/v3/ticker/price'') (wj_ticker js)"
    unfolding fetchPublicSpotTickerPrice_def by (rule refused_then(2) [OF that])
  then have "ends (\<lambda>r. refuses web (bw_spotBase a @ ''/api/v3/ticker/price'') (wj_ticker js) \<longrightarrow> broken r) (fetchPublicSpotTickerPrice web js a symbol)"
    by (auto simp: ends_def)
  then show ?thesis unfolding ticker_def by (rule ends_after) (auto intro!: ends_give simp: broken_def split: sum.splits)
qed

lemma lookup_outcome: "ends (delivered (\<lambda>price. refuses web (bw_spotBase a @ ''/api/v3/ticker/price'') (wj_ticker js) \<longrightarrow> price = None)) (lookupSpotAssetPrice web js a asset)"
  unfolding lookupSpotAssetPrice_def
  by (auto intro!: ends_give ends_then [OF ticker_outcome] split: option.split)

lemma priced_assets:
  "ends (delivered (\<lambda>assets'. map (\<lambda>asset. asset\<lparr>sa_Price := None\<rparr>) assets' = map (\<lambda>asset. asset\<lparr>sa_Price := None\<rparr>) assets
      \<and> (refuses web (bw_spotBase a @ ''/api/v3/ticker/price'') (wj_ticker js) \<and> (\<forall>asset\<in>set assets. sa_Price asset = None) \<longrightarrow> assets' = assets)))
    (each_web (priceAsset web js a) assets)"
proof (induction assets)
  case (Cons asset assets)
  let ?none = "refuses web (bw_spotBase a @ ''/api/v3/ticker/price'') (wj_ticker js)"
  have "ends (delivered (\<lambda>xs. \<exists>price. xs = [asset\<lparr>sa_Price := price\<rparr>] \<and> (sa_Price asset = None \<and> ?none \<longrightarrow> price = None)))
    (priceAsset web js a asset)"
  proof (cases "sa_Price asset")
    case None
    then show ?thesis unfolding priceAsset_def by (auto intro!: ends_then [OF lookup_outcome] ends_give)
  next
    case (Some p)
    then have "asset = asset\<lparr>sa_Price := Some p\<rparr>" by (cases asset) simp
    then have "\<exists>price. asset = asset\<lparr>sa_Price := price\<rparr>" by blast
    then show ?thesis using Some unfolding priceAsset_def by (auto intro!: ends_give)
  qed
  then show ?case by (auto intro!: ends_then [OF Cons.IH] ends_give elim!: ends_then)
qed (simp add: ends_give)

lemma spot_delivered:
  assumes "serves web (bw_spotBase a @ ''/api/v3/account'') (wj_spot js) balances"
  shows "ends (delivered (\<lambda>w. unpriced w = foldl addBalance zero_SpotWallet balances
      \<and> (refuses web (bw_spotBase a @ ''/api/v3/ticker/price'') (wj_ticker js) \<longrightarrow> w = foldl addBalance zero_SpotWallet balances)))
    (fetchSpotAccount web js a account)"
proof -
  let ?w = "foldl addBalance zero_SpotWallet balances"
  have none: "\<forall>asset\<in>set (sw_Assets ?w). sa_Price asset = None" by (rule balances_unpriced)
  then have same: "map (\<lambda>asset. asset\<lparr>sa_Price := None\<rparr>) (sw_Assets ?w) = sw_Assets ?w" by (intro map_idI) auto
  show ?thesis unfolding fetchSpotAccount_def enrichSpotAssetPrices_def
    by (rule served [OF assms], rule ends_then [OF priced_assets], rule ends_give)
      (use none same in \<open>simp add: unpriced_def\<close>)
qed

lemma spot_outcome:
  "ends (\<lambda>r. (refuses web (bw_spotBase a @ ''/api/v3/account'') (wj_spot js) \<longrightarrow> broken r)
      \<and> (\<forall>balances. serves web (bw_spotBase a @ ''/api/v3/account'') (wj_spot js) balances \<longrightarrow>
          delivered (\<lambda>w. unpriced w = foldl addBalance zero_SpotWallet balances
            \<and> (refuses web (bw_spotBase a @ ''/api/v3/ticker/price'') (wj_ticker js) \<longrightarrow> w = foldl addBalance zero_SpotWallet balances)) r))
    (fetchSpotAccount web js a account)"
proof -
  have "ends broken (fetchSpotAccount web js a account)" if "refuses web (bw_spotBase a @ ''/api/v3/account'') (wj_spot js)"
    unfolding fetchSpotAccount_def by (rule refused_then(1) [OF that])
  then show ?thesis using spot_delivered [of web a js _ account] unfolding ends_def by blast
qed


definition sample_account :: Account where
  "sample_account = \<lparr>ac_AccountID = 7, ac_UserID = 3, ac_Name = [], ac_Description = [], ac_Environment = 2, ac_Status = 1, ac_APIKey = ''k'',
     ac_APISecret = ''s'', ac_MarginMode = [], ac_PositionMode = [], ac_SlippageBps = 0, ac_DefaultFeeRate = 0, ac_CreatedAt = 0,
     ac_FuturesJSON = None, ac_SpotJSON = None, ac_TotalValue = 0, ac_WalletBalance = 0, ac_AvailableBalance = 0, ac_StateUpdatedAt = None\<rparr>"

definition sample_web :: Web where
  "sample_web = \<lparr>wb_now = \<lambda>_. 0, wb_answer = \<lambda>_. Answer 200 [], wb_wait = \<lambda>_. None, wb_bad_url = \<lambda>_. None, wb_hmac = \<lambda>_ _. [1, 255]\<rparr>"

definition sample_account_answer :: binanceFuturesAccountV3 where
  "sample_account_answer = \<lparr>ba_TotalWalletBalance = ''5'', ba_TotalUnrealizedProfit = [], ba_TotalMarginBalance = ''5'',
       ba_TotalPositionInitialMargin = [], ba_TotalOpenOrderInitialMargin = [], ba_TotalMaintMargin = [], ba_TotalCrossWalletBalance = [],
       ba_TotalCrossUnPnl = [], ba_AvailableBalance = ''5'', ba_Assets = []\<rparr>"

definition sample_json :: WalletJson where
  "sample_json = \<lparr>wj_account = \<lambda>_. Inr sample_account_answer,
     wj_multi = \<lambda>_. Inr False, wj_balance = \<lambda>_. Inr [], wj_index = \<lambda>_. Inl (Errorf ''no index''), wj_risk = \<lambda>_. Inr [],
     wj_config = \<lambda>_. Inl (Errorf ''no configuration''), wj_brackets = \<lambda>_. Inl (Errorf ''no brackets''), wj_info = \<lambda>_. Inl (Errorf ''no information''),
     wj_spot = \<lambda>_. Inl (Errorf ''no spot account''), wj_ticker = \<lambda>_. Inl (Errorf ''no ticker'')\<rparr>"


text \<open>
  Reading an account changes nothing at the exchange: every request is a GET without a body, and carries no key
  or the key of that account.
\<close>

lemma account_read_sends_gets:
  "\<exists>rs. snd (FetchOnlineAccountInfo web js a account sent) = sent @ rs \<and> list_all (reads_as account) rs"
  using account_reads_only [of account web js a] unfolding only_def by blast

text \<open>
  A spot balance of the exchange counts its free part as the quantity, and the snapshot then subtracts the locked part
  from it again: what is free besides an open order is reported as less than it is.
\<close>

lemma locked_part_subtracted_twice:
  "be_AvailableBalance (balancesFromOnlineInfo (zero_OnlineAccountInfo\<lparr>oai_Spot := addBalance zero_SpotWallet
     \<lparr>bl_Asset = ''BTC'', bl_Free = ''3'', bl_Locked = ''2''\<rparr>\<rparr>) ! 1) = Fin 1"
  by code_simp

end
