(* ===== verification/Order_Service_Facts.thy ===== *)
theory Order_Service_Facts
  imports Order_Service
begin

text \<open>
  The behaviour of the order service as sequences of steps.  Once an attempt is created, everything
  the service does for it, the call to \<^verbatim>\<open>Execute\<close> apart, is a sequence of the steps of
  \<open>svc_step\<close>: it finalises that attempt and no other, saves events, asks the exchange for the state of
  the order and notifies.  The theorems on single calls and on whole histories of the service follow
  from this by rule induction.
\<close>

subsection \<open>Steps\<close>

inductive svc_step :: "string \<Rightarrow> string \<Rightarrow> svc_state \<Rightarrow> svc_state \<Rightarrow> bool" for aid cid where
  tick: "svc_step aid cid s (s\<lparr>svc_tick := n\<rparr>)"
| finalize: "oa_AttemptID attempt = aid \<Longrightarrow> oa_ClientOrderID attempt = cid \<Longrightarrow>
    svc_step aid cid s (snd (finalizeAttempt attempt order fills s))"
| reject: "oa_AttemptID attempt = aid \<Longrightarrow> oa_ClientOrderID attempt = cid \<Longrightarrow>
    svc_step aid cid s (snd (repo (FinalizeRiskRejectedAttempt intent attempt) (AttemptFinalized aid st) s))"
| event: "svc_step aid cid s (snd (repo (SaveLifecycleEvent now e) (EventSaved e) s))"
| read: "same_tables (svc_db s) db \<Longrightarrow> svc_step aid cid s (s\<lparr>svc_db := db\<rparr>)"
| asked: "svc_step aid cid s (act (ResolveCalled r) s)"
| notified: "svc_step aid cid s (act (Notified n) s)"
| reviewed: "svc_step aid cid s (act (Reviewed d) s)"

abbreviation svc_runs :: "OrderAttempt \<Rightarrow> svc_state \<Rightarrow> svc_state \<Rightarrow> bool" where
  "svc_runs attempt \<equiv> (svc_step (oa_AttemptID attempt) (oa_ClientOrderID attempt))\<^sup>*\<^sup>*"

definition same_attempt :: "OrderAttempt \<Rightarrow> OrderAttempt \<Rightarrow> bool" where
  "same_attempt a b = (oa_AttemptID a = oa_AttemptID b \<and> oa_ClientOrderID a = oa_ClientOrderID b)"

named_theorems run_intros \<open>closure of runs under one more step of the service\<close>

lemma runs_step: "svc_runs a s t \<Longrightarrow> svc_step (oa_AttemptID a) (oa_ClientOrderID a) t t' \<Longrightarrow> svc_runs a s t'"
  by (rule rtranclp.rtrancl_into_rtrancl)

lemma runs_timeNow [run_intros]: "timeNow sv t = (x, t') \<Longrightarrow> svc_runs a s t \<Longrightarrow> svc_runs a s t'"
  by (auto simp: timeNow_def intro: runs_step tick)

lemma runs_newUUID [run_intros]: "newUUID sv t = (x, t') \<Longrightarrow> svc_runs a s t \<Longrightarrow> svc_runs a s t'"
  by (auto simp: newUUID_def intro: runs_step tick)

lemma stampAttempt_run:
  "stampAttempt sv b t = (b', t') \<Longrightarrow> same_attempt b a \<Longrightarrow> svc_runs a s t \<Longrightarrow> same_attempt b' a \<and> svc_runs a s t'
     \<and> oa_Status b' = oa_Status b \<and> oa_ErrorMessage b' = oa_ErrorMessage b"
  by (auto simp: stampAttempt_def timeNow_def same_attempt_def intro: runs_step tick)

lemma runs_finalize:
  "finalizeAttempt b order fills t = (r, t') \<Longrightarrow> same_attempt b a \<Longrightarrow> svc_runs a s t \<Longrightarrow> svc_runs a s t'"
  using finalize [of b "oa_AttemptID a" "oa_ClientOrderID a" t order fills]
  by (auto simp: same_attempt_def intro: runs_step)

lemma runs_publish [run_intros]: "svc_runs a s t \<Longrightarrow> svc_runs a s (publishOrderNotification b order t)"
  by (auto simp: publishOrderNotification_def intro: runs_step notified split: option.splits)

lemma runs_event: "repo (SaveLifecycleEvent now e) (EventSaved e) t = (r, t') \<Longrightarrow> svc_runs a s t \<Longrightarrow> svc_runs a s t'"
  using event [of "oa_AttemptID a" "oa_ClientOrderID a" t now e] by (auto intro: runs_step)

lemma runs_emit [run_intros]: "svc_runs a s t \<Longrightarrow> svc_runs a s (emitLifecycleEvents sv order fills t)"
proof (induction fills arbitrary: t)
  case (Cons fill fills)
  then show ?case
    by (auto simp: Let_def split: prod.splits intro!: Cons.IH intro: runs_event runs_timeNow)
qed simp

lemma runs_fills: "persistedFills sv order result fs t = (fills, t') \<Longrightarrow> svc_runs a s t \<Longrightarrow> svc_runs a s t'"
  by (induction fs arbitrary: t fills) (auto simp: Let_def split: prod.splits dest: runs_newUUID)

lemma runs_build:
  "buildPersistedExecution sv meta b strategyID sessionID market result et t = (ofs, t') \<Longrightarrow> svc_runs a s t \<Longrightarrow> svc_runs a s t'"
proof -
  assume run: "buildPersistedExecution sv meta b strategyID sessionID market result et t = (ofs, t')" and t: "svc_runs a s t"
  obtain now t1 where 1: "(if is_zero et then timeNow sv t else (et, t)) = (now, t1)" by fastforce
  obtain fresh t2 where 2: "newUUID sv t1 = (fresh, t2)" by fastforce
  have "svc_runs a s t1" using 1 t by (auto intro: runs_timeNow split: if_splits)
  then have "svc_runs a s t2" by (rule runs_newUUID [OF 2])
  then show "svc_runs a s t'" using run 
    by (auto simp: buildPersistedExecution_def 1 2 Let_def split: prod.splits intro: runs_fills)
qed

lemma runs_resolve: "callResolve sv req meta t = (r, t') \<Longrightarrow> svc_runs a s t \<Longrightarrow> svc_runs a s t'"
  by (auto simp: callResolve_def intro: runs_step asked)

lemma same_attempt_updates [simp]:
  "same_attempt (b\<lparr>oa_Status := x\<rparr>) a = same_attempt b a" "same_attempt (b\<lparr>oa_ErrorMessage := m\<rparr>) a = same_attempt b a"
  "same_attempt (b\<lparr>oa_RecoveryError := e\<rparr>) a = same_attempt b a" "same_attempt (b\<lparr>oa_OrderID := i\<rparr>) a = same_attempt b a"
  "same_attempt (b\<lparr>oa_ExchangeOrderID := i\<rparr>) a = same_attempt b a" "same_attempt a a"
  "same_attempt (b\<lparr>oa_RiskStatus := x\<rparr>) a = same_attempt b a" "same_attempt (b\<lparr>oa_RiskReasonsJSON := x\<rparr>) a = same_attempt b a"
  by (simp_all add: same_attempt_def)

lemma same_attempt_pendingOr [simp]: "same_attempt (pendingOr acc result order b) a = same_attempt b a"
  by (simp add: pendingOr_def Let_def)

subsection \<open>The parts of a call\<close>

lemma confirmAbsent_run:
  assumes "confirmAbsent sv b t = (resp, t')" "same_attempt b a" "svc_runs a s t"
  shows "svc_runs a s t' \<and> ps_AttemptStatus resp \<in> {''FAILED'', ''RECOVERY_FAILED''}"
proof -
  obtain c t1 where 1: "stampAttempt sv (b\<lparr>oa_Status := ''FAILED'',
      oa_ErrorMessage := nonEmpty (oa_ErrorMessage b) ''attempt confirmed absent after recovery query'',
      oa_RecoveryError := []\<rparr>) t = (c, t1)" by fastforce
  obtain r t2 where 2: "finalizeAttempt c None [] t1 = (r, t2)" by fastforce
  have c: "same_attempt c a" "svc_runs a s t1" "oa_Status c = ''FAILED''"
    using stampAttempt_run [OF 1 _ assms(3)] assms(2) by simp_all
  then have "svc_runs a s t2" using runs_finalize [OF 2] by simp
  then show ?thesis using assms(1) c(3)
    by (cases r) (auto simp: confirmAbsent_def 1 2 buildRecoveryFailedResponse_def buildPlaceOrderResponse_def
        intro: runs_publish)
qed

lemma recoveryQueryFailed_run:
  assumes "recoveryQueryFailed sv b err t = (resp, t')" "same_attempt b a" "svc_runs a s t"
  shows "svc_runs a s t' \<and> ps_AttemptStatus resp = ''RECOVERY_FAILED''"
proof -
  obtain c t1 where 1: "stampAttempt sv (b\<lparr>oa_Status := ''RECOVERY_FAILED'', oa_RecoveryError := err_text err,
      oa_ErrorMessage := nonEmpty (oa_ErrorMessage b) ''recovery query failed''\<rparr>) t = (c, t1)" by fastforce
  obtain r t2 where 2: "finalizeAttempt c None [] t1 = (r, t2)" by fastforce
  have "same_attempt c a" "svc_runs a s t1" using stampAttempt_run [OF 1 _ assms(3)] assms(2) by simp_all
  then have "svc_runs a s t2" using runs_finalize [OF 2] by simp
  then show ?thesis using assms(1)
    by (auto simp: recoveryQueryFailed_def 1 2 buildRecoveryFailedResponse_def buildPlaceOrderResponse_def
        intro: runs_publish)
qed

lemma pendingOr_status: "oa_Status (pendingOr acc result order b) = (if xr_FillPending result then ''RECOVERING'' else acc)"
  by (simp add: pendingOr_def Let_def)

lemma persistRecovered_run:
  assumes "persistRecovered sv meta b strategyID sessionID market result t = (resp, t')" "same_attempt b a" "svc_runs a s t"
  shows "svc_runs a s t' \<and> ps_AttemptStatus resp \<in> {''RECOVERING'', ''RECOVERED'', ''RECOVERY_FAILED''}"
proof -
  obtain now t0 where 0: "timeNow sv t = (now, t0)" by fastforce
  obtain order fills t1 where
    1: "buildPersistedExecution sv meta b strategyID sessionID market result now t0 = ((order, fills), t1)"
    by (metis prod.exhaust)
  obtain c t2 where 2: "stampAttempt sv (pendingOr ''RECOVERED'' result order b) t1 = (c, t2)" by fastforce
  obtain r t3 where 3: "finalizeAttempt c (Some order) fills t2 = (r, t3)" by fastforce
  have "svc_runs a s t1" using runs_build [OF 1 runs_timeNow [OF 0 assms(3)]] .
  then have c: "same_attempt c a" "svc_runs a s t2" "oa_Status c = (if xr_FillPending result then ''RECOVERING'' else ''RECOVERED'')"
    using stampAttempt_run [OF 2] assms(2) by (simp_all add: pendingOr_status)
  then have "svc_runs a s t3" using runs_finalize [OF 3] by simp
  then show ?thesis using assms(1) c(3)
    by (cases r) (auto simp: persistRecovered_def 0 1 2 3 buildRecoveryFailedResponse_def buildPlaceOrderResponse_def
        intro: run_intros split: if_splits)
qed

definition resolve_statuses :: "string set" where
  "resolve_statuses = {''FAILED'', ''RECOVERING'', ''RECOVERED'', ''RECOVERY_FAILED''}"

lemma resolveAttempt_run:
  assumes "resolveAttempt sv meta b strategyID sessionID market t = (resp, t')" "same_attempt b a" "svc_runs a s t"
  shows "svc_runs a s t' \<and> ps_AttemptStatus resp \<in> resolve_statuses"
proof -
  obtain c t1 where 1: "stampAttempt sv (b\<lparr>oa_Status := ''RECOVERING''\<rparr>) t = (c, t1)" by fastforce
  obtain r t2 where 2: "finalizeAttempt c None [] t1 = (r, t2)" by fastforce
  obtain answer t3 where 3: "callResolve sv (recoveryRequest b) meta t2 = (answer, t3)" by fastforce
  have c: "same_attempt c a" "svc_runs a s t1" using stampAttempt_run [OF 1 _ assms(3)] assms(2) by simp_all
  then have "svc_runs a s t2" using runs_finalize [OF 2] by simp
  then have t3: "svc_runs a s t3" by (rule runs_resolve [OF 3])
  note parts = confirmAbsent_run [OF _ c(1) t3] recoveryQueryFailed_run [OF _ c(1) t3]
    persistRecovered_run [OF _ c(1) t3]
  show ?thesis using assms(1) parts
    by (auto simp: resolveAttempt_def 1 2 3 Let_def resolve_statuses_def split: sum.splits if_splits) 
qed

lemma executionUnknown_run:
  assumes "executionUnknown sv meta req b m e t = (r, t')" "same_attempt b a" "svc_runs a s t"
  shows "svc_runs a s t' \<and> (\<exists>resp. r = Inr resp \<and> ps_AttemptStatus resp \<in> resolve_statuses)"
proof -
  obtain c t1 where 1: "stampAttempt sv (b\<lparr>oa_Status := ''UNKNOWN'', oa_ErrorMessage := m, oa_RecoveryError := e\<rparr>) t = (c, t1)"
    by fastforce
  obtain u t2 where 2: "finalizeAttempt c None [] t1 = (u, t2)" by fastforce
  have c: "same_attempt c a" "svc_runs a s t1" using stampAttempt_run [OF 1 _ assms(3)] assms(2) by simp_all
  then have "svc_runs a s t2" using runs_finalize [OF 2] by simp
  with c(1) show ?thesis using assms(1) resolveAttempt_run [of sv meta c "pr_StrategyId req" "pr_SessionId req" "me_Market meta" t2]
    by (auto simp: executionUnknown_def 1 2 split: prod.splits)
qed

definition place_statuses :: "string set" where
  "place_statuses = {''FAILED'', ''ACCEPTED'', ''RECOVERING'', ''RECOVERED'', ''RECOVERY_FAILED'', ''RISK_REJECTED''}"

lemma resolve_place: "resolve_statuses \<subseteq> place_statuses"
  by (auto simp: resolve_statuses_def place_statuses_def)

lemma finalizeExecution_run:
  assumes "finalizeExecution sv meta req b et result t = (r, t')" "same_attempt b a" "svc_runs a s t"
  shows "svc_runs a s t' \<and> (\<forall>resp. r = Inr resp \<longrightarrow> ps_AttemptStatus resp \<in> place_statuses)"
proof (cases "trim_space (xr_ExchangeOrderID result) = []")
  case True
  obtain c t1 where 1: "stampAttempt sv (b\<lparr>oa_Status := ''FAILED'',
      oa_ErrorMessage := nonEmpty (xr_ErrorMessage result) ''order attempt failed'', oa_RecoveryError := []\<rparr>) t = (c, t1)"
    by fastforce
  obtain u t2 where 2: "finalizeAttempt c None [] t1 = (u, t2)" by fastforce
  have c: "same_attempt c a" "svc_runs a s t1" "oa_Status c = ''FAILED''"
    using stampAttempt_run [OF 1 _ assms(3)] assms(2) by simp_all
  then have "svc_runs a s t2" using runs_finalize [OF 2] by simp
  then show ?thesis using assms(1) c(3) True
    by (cases u) (auto simp: finalizeExecution_def 1 2 buildPlaceOrderResponse_def place_statuses_def intro: runs_publish)
next
  case False
  obtain order fills t1 where
    1: "buildPersistedExecution sv meta b (pr_StrategyId req) (pr_SessionId req) (me_Market meta) result et t
      = ((order, fills), t1)" by (metis prod.exhaust)
  obtain c t2 where 2: "stampAttempt sv (pendingOr ''ACCEPTED'' result order b) t1 = (c, t2)" by fastforce
  obtain u t3 where 3: "finalizeAttempt c (Some order) fills t2 = (u, t3)" by fastforce
  have "svc_runs a s t1" using runs_build [OF 1 assms(3)] .
  then have c: "same_attempt c a" "svc_runs a s t2" "oa_Status c = (if xr_FillPending result then ''RECOVERING'' else ''ACCEPTED'')"
    using stampAttempt_run [OF 2] assms(2) by (simp_all add: pendingOr_status)
  then have t3: "svc_runs a s t3" using runs_finalize [OF 3] by simp
  show ?thesis
  proof (cases u)
    case (Inl err)
    then show ?thesis using assms(1) False executionUnknown_run [OF _ _ t3] c(1) resolve_place
      by (fastforce simp: finalizeExecution_def 1 2 3 Let_def)
  next
    case (Inr x)
    then show ?thesis using assms(1) False t3 c(3)
      by (auto simp: finalizeExecution_def 1 2 3 buildPlaceOrderResponse_def place_statuses_def
          intro: run_intros split: if_splits)
  qed
qed

subsection \<open>What the steps keep\<close>

definition executions :: "svc_action list \<Rightarrow> OrderRequest list" where
  "executions tr = concat (map (\<lambda>a. case a of ExecuteCalled q \<Rightarrow> [q] | _ \<Rightarrow> []) tr)"

lemma executions_simps [simp]:
  "executions [] = []" "executions (t @ u) = executions t @ executions u"
  "executions (a # t) = (case a of ExecuteCalled q \<Rightarrow> [q] | _ \<Rightarrow> []) @ executions t"
  by (simp_all add: executions_def)

lemma repo_db [simp]: "svc_db (snd (repo m a s)) = snd (m (svc_db s))"
  by (auto simp: repo_def act_def split: prod.splits sum.splits)

lemma repo_trace: "svc_trace (snd (repo m a s)) = svc_trace s @ (if is_ok (fst (m (svc_db s))) then [a] else [])"
  by (auto simp: repo_def act_def split: prod.splits sum.splits)

lemma act_simps [simp]: "svc_db (act a s) = svc_db s" "svc_trace (act a s) = svc_trace s @ [a]" "svc_tick (act a s) = svc_tick s"
  by (simp_all add: act_def)

definition quiet :: "svc_state \<Rightarrow> svc_state \<Rightarrow> bool" where
  "quiet s s' = (\<exists>ext. svc_trace s' = svc_trace s @ ext \<and> executions ext = [])"

lemma step_quiet: "svc_step aid cid s s' \<Longrightarrow> quiet s s'"
  by (induction rule: svc_step.induct) (auto simp: quiet_def finalizeAttempt_def repo_trace)

lemma quiet_trans: "quiet s t \<Longrightarrow> quiet t u \<Longrightarrow> quiet s u"
  by (auto simp: quiet_def)

lemma runs_quiet: "(svc_step aid cid)\<^sup>*\<^sup>* s s' \<Longrightarrow> quiet s s'"
proof (induction rule: rtranclp_induct)
  case base
  then show ?case by (simp add: quiet_def)
next
  case (step t u)
  then show ?case using step_quiet quiet_trans by blast
qed

lemma same_tables_ok: "same_tables db db' \<Longrightarrow> db_ok db' = db_ok db"
  unfolding same_tables_def by (metis integrity.faults_irrelevant)

lemma step_ok: "svc_step aid cid s s' \<Longrightarrow> db_ok (svc_db s) \<Longrightarrow> db_ok (svc_db s')"
  by (induction rule: svc_step.induct)
    (auto simp: finalizeAttempt_def same_tables_ok intro: repository_ok [THEN integrity.preservesD])

lemma runs_ok: "(svc_step aid cid)\<^sup>*\<^sup>* s s' \<Longrightarrow> db_ok (svc_db s) \<Longrightarrow> db_ok (svc_db s')"
  by (induction rule: rtranclp_induct) (auto intro: step_ok)

text \<open>No step changes which attempts exist or which client order id each of them has.\<close>

definition attempt_ids :: "order_db \<Rightarrow> (string \<times> string option) list" where
  "attempt_ids db = map (\<lambda>q. (ra_attempt_id q, ra_client_order_id q)) (db_attempts db)"

interpretation ids: db_invariant "\<lambda>db. attempt_ids db = L" for L
  by unfold_locales (simp add: attempt_ids_def)

definition owned :: "(string \<times> string option) list \<Rightarrow> string \<Rightarrow> string \<Rightarrow> bool" where
  "owned L aid cid = (\<forall>c. (aid, c) \<in> set L \<longrightarrow> c = nullableString cid)"

lemma update_attempt_ids:
  assumes "owned L (oa_AttemptID attempt) (oa_ClientOrderID attempt)"
  shows "ids.preserves L (update_attempt_row attempt)"
proof (rule ids.preservesI)
  fix db
  assume L: "attempt_ids db = L"
  have "ra_client_order_id q = nullableString (oa_ClientOrderID attempt)"
    if "q \<in> set (db_attempts db)" "ra_attempt_id q = oa_AttemptID attempt" for q
  proof -
    have "(oa_AttemptID attempt, ra_client_order_id q) \<in> set L"
      using that by (auto simp: L [symmetric] attempt_ids_def image_iff intro!: bexI [of _ q])
    then show ?thesis using assms by (simp add: owned_def)
  qed
  then show "attempt_ids (snd (update_attempt_row attempt db)) = L"
    unfolding L [symmetric]
    by (auto simp: update_attempt_row_def attempt_ids_def finalized_row_def attempt_row_of_def)
qed

lemma upsert_order_ids: "ids.preserves L (upsert_order_row r)"
  by (rule ids.preservesI) (auto simp: upsert_order_row_def attempt_ids_def Let_def split: option.splits)

lemma insert_fills_ids: "ids.preserves L (insert_fills fills)"
proof (induction fills)
  case (Cons fill fills)
  have "ids.preserves L (insert_fill_row r)" for r
    by (rule ids.preservesI) (auto simp: insert_fill_row_def attempt_ids_def)
  with Cons show ?case by (auto intro!: ids.preserves_rules split: sum.splits)
qed (auto intro: ids.return_preserves)

lemma FinalizeOrderAttempt_ids:
  assumes "owned L (oa_AttemptID attempt) (oa_ClientOrderID attempt)"
  shows "ids.preserves L (FinalizeOrderAttempt attempt order fills)"
  unfolding FinalizeOrderAttempt_def finalize_body_def
  using update_attempt_ids [OF assms]
  by (cases order) (auto intro!: ids.preserves_rules upsert_order_ids insert_fills_ids)

lemma FinalizeRiskRejectedAttempt_ids:
  assumes "owned L (oa_AttemptID attempt) (oa_ClientOrderID attempt)"
  shows "ids.preserves L (FinalizeRiskRejectedAttempt intent attempt)"
proof -
  have "ids.preserves L (update_rejected_intent intent attempt)"
    by (rule ids.preservesI) (simp add: update_rejected_intent_def attempt_ids_def)
  then show ?thesis unfolding FinalizeRiskRejectedAttempt_def
    by (intro ids.preserves_rules update_attempt_ids [OF assms])
qed

lemma frame_attempts: "frame db = frame db' \<Longrightarrow> db_attempts db = db_attempts db'"
  by (cases db; cases db') (simp add: frame_def)

lemma SaveLifecycleEvent_ids: "ids.preserves L (SaveLifecycleEvent now event)"
proof (rule ids.preservesI)
  fix db
  assume L: "attempt_ids db = L"
  have i: "ids.preserves L (insert_event now e)" for e
    by (rule ids.preservesI) (auto simp: insert_event_def upsert_event_row_def attempt_ids_def Let_def split: option.splits)
  have b: "ids.preserves L (backfillOrderFillFromLifecycleEvent now e)" for e
    by (rule ids.preservesI) (simp add: attempt_ids_def frame_attempts [OF backfill_frame])
  have "ids.preserves L (then_db (wrap_db m (stmt (insert_event now e)))
      (\<lambda>(eid, created). let saved = g eid created
         in then_db (backfillOrderFillFromLifecycleEvent now saved) (\<lambda>_ db. (Inr saved, db))))"
    for m e and g :: "int \<Rightarrow> time \<Rightarrow> Event"
    by (auto simp: Let_def split: prod.splits intro!: ids.preserves_rules i b)
  note P = ids.preservesD [OF this L]
  show "attempt_ids (snd (SaveLifecycleEvent now event db)) = L"
    using L P by (auto simp: SaveLifecycleEvent_def Let_def split: option.splits)
qed

lemma same_tables_ids: "same_tables db db' \<Longrightarrow> attempt_ids db' = attempt_ids db"
  by (metis attempt_ids_def order_db.select_convs(2) order_db.surjective order_db.update_convs(7) same_tables_def)

lemma step_ids:
  "svc_step aid cid s s' \<Longrightarrow> owned (attempt_ids (svc_db s)) aid cid \<Longrightarrow> attempt_ids (svc_db s') = attempt_ids (svc_db s)"
  by (induction rule: svc_step.induct)
    (auto simp: finalizeAttempt_def same_tables_ids FinalizeOrderAttempt_ids [THEN ids.preservesD]
      FinalizeRiskRejectedAttempt_ids [THEN ids.preservesD] SaveLifecycleEvent_ids [THEN ids.preservesD])

lemma runs_ids:
  assumes "(svc_step aid cid)\<^sup>*\<^sup>* s s'" "owned (attempt_ids (svc_db s)) aid cid"
  shows "attempt_ids (svc_db s') = attempt_ids (svc_db s)"
  using assms(1)
proof (induction rule: rtranclp_induct)
  case (step t u)
  then show ?case using step_ids [of aid cid t u] assms(2) by simp
qed simp

subsection \<open>Client order ids\<close>

lemma buildClientOrderID_length: "length (buildClientOrderID i a) \<le> 27"
  by (simp add: buildClientOrderID_def)

lemma trim_space_cons: "\<not> is_space c \<Longrightarrow> trim_space (c # cs) \<noteq> []"
  by (simp add: trim_space_def dropWhile_eq_Nil_conv)

lemma nullable_client_id [simp]: "nullableString (buildClientOrderID i a) = Some (buildClientOrderID i a)"
  using trim_space_cons [of "CHR ''h''"] by (simp add: nullableString_def buildClientOrderID_def is_space_def)

lemma client_id_nonempty [simp]: "buildClientOrderID i a \<noteq> []"
  by (simp add: buildClientOrderID_def)

definition client_used :: "order_db \<Rightarrow> string \<Rightarrow> bool" where
  "client_used db c = (Some c \<in> snd ` set (attempt_ids db))"

lemma insert_attempt_ids:
  assumes "insert_attempt_row (attempt_row_of attempt) db = (r, db')"
    "nullableString (oa_ClientOrderID attempt) = Some c" "c \<noteq> []"
  shows "(\<not> is_ok r \<and> attempt_ids db' = attempt_ids db)
    \<or> (attempt_ids db' = attempt_ids db @ [(oa_AttemptID attempt, Some c)]
       \<and> oa_AttemptID attempt \<notin> fst ` set (attempt_ids db) \<and> \<not> client_used db c)"
  using assms
  by (auto simp: insert_attempt_row_def attempt_row_of_def attempt_ids_def client_used_def client_id_free_def
      split: if_splits)

lemma CreateOrderAttempt_ids:
  assumes "CreateOrderAttempt attempt db = (r, db')"
    "nullableString (oa_ClientOrderID attempt) = Some c" "c \<noteq> []"
  shows "(\<not> is_ok r \<and> attempt_ids db' = attempt_ids db)
    \<or> (attempt_ids db' = attempt_ids db @ [(oa_AttemptID attempt, Some c)]
       \<and> oa_AttemptID attempt \<notin> fst ` set (attempt_ids db) \<and> \<not> client_used db c)"
proof -
  obtain f d where n: "next_fault db = (f, d)" by fastforce
  have d: "attempt_ids d = attempt_ids db" using n
    by (auto simp: next_fault_def attempt_ids_def split: list.splits)
  then have u: "client_used d c = client_used db c" by (simp add: client_used_def)
  obtain r1 d1 where i: "insert_attempt_row (attempt_row_of attempt) d = (r1, d1)" by fastforce
  note ins = insert_attempt_ids [OF i assms(2,3), unfolded d u]
  show ?thesis
  proof (cases f)
    case NoFault
    then show ?thesis using ins assms(1) n i by (auto simp: CreateOrderAttempt_def stmt_def)
  next
    case (FailBefore e)
    then show ?thesis using assms(1) n d by (auto simp: CreateOrderAttempt_def stmt_def)
  next
    case (FailAfter e)
    then have "r = Inl e" "db' = d1" using assms(1) n i by (auto simp: CreateOrderAttempt_def stmt_def)
    then show ?thesis using ins by auto
  qed
qed

lemma UpsertOrderIntent_ids: "attempt_ids (snd (UpsertOrderIntent intent db)) = attempt_ids db"
proof -
  have "ids.preserves L (upsert_intent_row r)" for r L
    by (rule ids.preservesI) (auto simp: upsert_intent_row_def attempt_ids_def)
  note keep = ids.preservesD [OF ids.stmt_preserves [OF this] refl]
  show ?thesis by (auto simp: UpsertOrderIntent_def keep split: sum.splits)
qed

subsection \<open>One call of PlaceOrder\<close>

definition executed_call :: "svc_state \<Rightarrow> svc_state \<Rightarrow> bool" where
  "executed_call s s' = (\<exists>i a q rest.
     svc_trace s' = svc_trace s @ [IntentStored i, AttemptCreated a (buildClientOrderID i a),
       Reviewed DecisionAllow, ExecuteCalled q] @ rest
     \<and> executions rest = [] \<and> xq_ClientOrderID q = buildClientOrderID i a
     \<and> \<not> client_used (svc_db s) (buildClientOrderID i a)
     \<and> attempt_ids (svc_db s') = attempt_ids (svc_db s) @ [(a, Some (buildClientOrderID i a))])"

definition unexecuted_call :: "svc_state \<Rightarrow> svc_state \<Rightarrow> bool" where
  "unexecuted_call s s' = (quiet s s' \<and> (attempt_ids (svc_db s') = attempt_ids (svc_db s)
     \<or> (\<exists>i a. attempt_ids (svc_db s') = attempt_ids (svc_db s) @ [(a, Some (buildClientOrderID i a))]
            \<and> a \<notin> fst ` set (attempt_ids (svc_db s)))))"

lemma intent_stored:
  assumes "repo (UpsertOrderIntent intent) (IntentStored i) s = (u, s')"
  shows "attempt_ids (svc_db s') = attempt_ids (svc_db s)" "db_ok (svc_db s) \<Longrightarrow> db_ok (svc_db s')"
    "svc_trace s' = svc_trace s @ (if is_ok u then [IntentStored i] else [])"
proof -
  have s': "s' = snd (repo (UpsertOrderIntent intent) (IntentStored i) s)" "u = fst (UpsertOrderIntent intent (svc_db s))"
    using assms by (auto simp: repo_def split: prod.splits sum.splits)
  show "attempt_ids (svc_db s') = attempt_ids (svc_db s)" "db_ok (svc_db s) \<Longrightarrow> db_ok (svc_db s')"
    "svc_trace s' = svc_trace s @ (if is_ok u then [IntentStored i] else [])"
    using UpsertOrderIntent_ok [THEN integrity.preservesD]
    by (simp_all add: s' UpsertOrderIntent_ids repo_trace)
qed

definition created_attempt :: "svc_state \<Rightarrow> string \<Rightarrow> string \<Rightarrow> svc_state \<Rightarrow> bool" where
  "created_attempt s a c s' = (attempt_ids (svc_db s') = attempt_ids (svc_db s) @ [(a, Some c)]
     \<and> a \<notin> fst ` set (attempt_ids (svc_db s)) \<and> \<not> client_used (svc_db s) c)"

lemma created_owned: "created_attempt s a c s' \<Longrightarrow> nullableString c = Some c \<Longrightarrow> owned (attempt_ids (svc_db s')) a c"
  by (auto simp: created_attempt_def owned_def image_iff)

lemma attempt_created:
  assumes "repo (CreateOrderAttempt attempt) (AttemptCreated a c) s = (v, s')"
    "oa_AttemptID attempt = a" "oa_ClientOrderID attempt = c" "nullableString c = Some c" "c \<noteq> []"
  shows "(\<not> is_ok v \<and> attempt_ids (svc_db s') = attempt_ids (svc_db s)) \<or> created_attempt s a c s'"
    "db_ok (svc_db s) \<Longrightarrow> db_ok (svc_db s')"
    "svc_trace s' = svc_trace s @ (if is_ok v then [AttemptCreated a c] else [])"
proof -
  have s': "s' = snd (repo (CreateOrderAttempt attempt) (AttemptCreated a c) s)" "v = fst (CreateOrderAttempt attempt (svc_db s))"
    using assms(1) by (auto simp: repo_def split: prod.splits sum.splits)
  have "CreateOrderAttempt attempt (svc_db s) = (v, svc_db s')" by (simp add: s' prod_eq_iff)
  from CreateOrderAttempt_ids [OF this, of c]
  show "(\<not> is_ok v \<and> attempt_ids (svc_db s') = attempt_ids (svc_db s)) \<or> created_attempt s a c s'"
    using assms(2-5) by (auto simp: created_attempt_def)
  show "db_ok (svc_db s) \<Longrightarrow> db_ok (svc_db s')"
    "svc_trace s' = svc_trace s @ (if is_ok v then [AttemptCreated a c] else [])"
    using CreateOrderAttempt_ok [THEN integrity.preservesD] by (simp_all add: s' repo_trace)
qed

lemma freshIDs_keeps:
  "freshIDs sv req s = (x, s1) \<Longrightarrow> svc_db s1 = svc_db s \<and> svc_trace s1 = svc_trace s"
  by (auto simp: freshIDs_def timeNow_def newUUID_def Let_def split: if_splits)

lemma orderAttemptOf_ids [simp]:
  "oa_AttemptID (orderAttemptOf req meta side code i a et) = a"
  "oa_ClientOrderID (orderAttemptOf req meta side code i a et) = buildClientOrderID i a"
  by (simp_all add: orderAttemptOf_def)

lemma publish_keeps [simp]: "svc_db (publishOrderNotification b order s) = svc_db s"
  by (auto simp: publishOrderNotification_def split: option.splits)

lemma publish_quiet: "quiet s t \<Longrightarrow> quiet s (publishOrderNotification b order t)"
  by (auto simp: publishOrderNotification_def quiet_def split: option.splits)

lemma recordOrderContractFailure_call:
  assumes "recordOrderContractFailure sv req side err s = (r, s')"
  shows "unexecuted_call s s' \<and> (db_ok (svc_db s) \<longrightarrow> db_ok (svc_db s'))
    \<and> (\<forall>resp. r = Inr resp \<longrightarrow> ps_AttemptStatus resp = ''FAILED'')"
proof -
  have unchanged: ?thesis if "s' = s" "\<not> is_ok r"
    using that by (auto simp: unexecuted_call_def quiet_def)
  show ?thesis
  proof (cases "sv_GetMeta sv (pr_AccountId req) (pr_Exchange req) (pr_Market req)")
    case (Inl e)
    then show ?thesis using assms unchanged by (auto simp: recordOrderContractFailure_def)
  next
    case meta: (Inr meta)
    show ?thesis
    proof (cases "validatePositionSide meta (pr_PositionSide req) = None
        \<and> sv_ValidateActiveSession sv meta (pr_StrategyId req) (pr_SessionId req) = None")
      case False
      then show ?thesis using assms unchanged meta
        by (auto simp: recordOrderContractFailure_def split: if_splits option.splits)
    next
      case True
      obtain et i a s1 where 1: "freshIDs sv req s = ((et, i, a), s1)" by (metis prod.exhaust)
      note s1 = freshIDs_keeps [OF 1]
      let ?message = "statusMessage err" and ?code = "orderTypeCodeForRejectedContract req" and ?c = "buildClientOrderID i a"
      let ?intent = "(orderIntentOf req meta side ?code i et)\<lparr>oi_Status := ''REJECTED'',
        oi_RejectCode := ''ORDER_CONTRACT_INVALID'', oi_RejectMessage := ?message\<rparr>"
      let ?attempt = "(orderAttemptOf req meta side ?code i a et)\<lparr>oa_Status := ''FAILED'', oa_ErrorMessage := ?message,
        oa_RiskStatus := DecisionReject,
        oa_RiskReasonsJSON := marshalRiskReasons (rejectedContractDecision ?message (fst (timeNow sv s)))\<rparr>"
      obtain u s2 where 2: "repo (UpsertOrderIntent ?intent) (IntentStored i) s1 = (u, s2)" by fastforce
      note s2 = intent_stored [OF 2, unfolded s1 [THEN conjunct1] s1 [THEN conjunct2]]
      obtain v s3 where 3: "repo (CreateOrderAttempt ?attempt) (AttemptCreated a ?c) s2 = (v, s3)" by fastforce
      have s3: "(\<not> is_ok v \<and> attempt_ids (svc_db s3) = attempt_ids (svc_db s2)) \<or> created_attempt s2 a ?c s3"
        "db_ok (svc_db s2) \<Longrightarrow> db_ok (svc_db s3)"
        "svc_trace s3 = svc_trace s2 @ (if is_ok v then [AttemptCreated a ?c] else [])"
        using attempt_created [OF 3] by simp_all
      have end_state: "s' = (if is_ok u then (if is_ok v then publishOrderNotification ?attempt None s3 else s3) else s2)"
        "\<forall>resp. r = Inr resp \<longrightarrow> ps_AttemptStatus resp = ''FAILED''"
        using assms meta True 1 2 3
        by (cases u; cases v; simp add: recordOrderContractFailure_def Let_def; auto simp: buildPlaceOrderResponse_def)+
      have q: "quiet s s2" "quiet s s3" using s2(3) s3(3) by (auto simp: quiet_def)
      have "unexecuted_call s s2" "unexecuted_call s s3"
        using q s2(1) s3(1) by (auto simp: unexecuted_call_def created_attempt_def)
      then have "unexecuted_call s s'" using end_state(1) publish_quiet [OF q(2)] by (auto simp: unexecuted_call_def)
      then show ?thesis using end_state s2(2) s3(2) by auto
    qed
  qed
qed

locale order_service = gate_contract review same_tables
  for review :: "time \<Rightarrow> ReviewRequest \<Rightarrow> order_db \<Rightarrow> Decision result \<times> order_db" +
  fixes sv :: OrderService
  assumes gate: "review = (case sv_riskGate sv of None \<Rightarrow> AllowGate_Review | Some g \<Rightarrow> g)"
begin

lemma reviewRisk_run:
  assumes "reviewRisk sv req t = (d, t')"
  shows "svc_runs a t t'" "svc_trace t' = svc_trace t @ [Reviewed (dc_Status d)]"
    "dc_Status d = DecisionAllow \<or> dc_Status d = DecisionReject"
proof -
  obtain now t1 where 1: "timeNow sv t = (now, t1)" by fastforce
  obtain r db where 2: "review now req (svc_db t1) = (r, db)" by fastforce
  have tr1: "svc_trace t1 = svc_trace t" "svc_runs a t t1" using 1 runs_timeNow [OF 1, of a t]
    by (auto simp: timeNow_def)
  have "same_tables (svc_db t1) db" using reads_only [of "svc_db t1" now req] 2 by simp
  then have r2: "svc_runs a t (t1\<lparr>svc_db := db\<rparr>)" using tr1(2) runs_step read by blast
  have "svc_runs a t t' \<and> svc_trace t' = svc_trace t @ [Reviewed (dc_Status d)]
    \<and> (dc_Status d = DecisionAllow \<or> dc_Status d = DecisionReject)"
  proof (cases r)
    case (Inr dec)
    then have "d = dec" "t' = act (Reviewed (dc_Status dec)) (t1\<lparr>svc_db := db\<rparr>)"
      using assms 1 2 by (auto simp: reviewRisk_def gate [symmetric])
    then show ?thesis using r2 tr1(1) decision [of now req "svc_db t1" dec] 2 Inr
      by (auto intro: runs_step reviewed)
  next
    case (Inl err)
    obtain now' t3 where 3: "timeNow sv (t1\<lparr>svc_db := db\<rparr>) = (now', t3)" by fastforce
    then have "d = reviewErrorDecision err now'" "t' = act (Reviewed DecisionReject) t3"
      using assms 1 2 Inl by (auto simp: reviewRisk_def gate [symmetric])
    moreover have "svc_trace t3 = svc_trace t" using 3 tr1(1) by (auto simp: timeNow_def)
    moreover have "svc_runs a t t3" using runs_timeNow [OF 3 r2] .
    ultimately show ?thesis by (auto simp: reviewErrorDecision_def intro: runs_step reviewed)
  qed
  then show "svc_runs a t t'" "svc_trace t' = svc_trace t @ [Reviewed (dc_Status d)]"
    "dc_Status d = DecisionAllow \<or> dc_Status d = DecisionReject" by simp_all
qed

lemma rejectByRisk_run:
  assumes "rejectByRisk sv intent b d t = (r, t')" "same_attempt b a" "svc_runs a s t"
  shows "svc_runs a s t' \<and> (\<forall>resp. r = Inr resp \<longrightarrow> ps_AttemptStatus resp = ''RISK_REJECTED'')"
proof -
  obtain c t1 where 1: "stampAttempt sv (b\<lparr>oa_Status := ''RISK_REJECTED'',
      oa_ErrorMessage := nonEmpty (dc_ReasonCode d) ''RISK_REJECTED''\<rparr>) t = (c, t1)" by fastforce
  let ?intent = "intent\<lparr>oi_Status := ''REJECTED'', oi_RejectCode := nonEmpty (dc_ReasonCode d) ''RISK_REJECTED'',
    oi_RejectMessage := riskRejectMessage d\<rparr>"
  obtain u t2 where 2: "repo (FinalizeRiskRejectedAttempt ?intent c) (AttemptFinalized (oa_AttemptID c) (oa_Status c)) t1 = (u, t2)"
    by fastforce
  have c: "same_attempt c a" "svc_runs a s t1" "oa_Status c = ''RISK_REJECTED''"
    using stampAttempt_run [OF 1 _ assms(3)] assms(2) by simp_all
  then have "svc_runs a s t2"
    using svc_step.reject [of c "oa_AttemptID a" "oa_ClientOrderID a" t1 ?intent "oa_Status c"] 2
    by (auto simp: same_attempt_def intro: runs_step)
  then show ?thesis using assms(1) c(3)
    by (cases u) (auto simp: rejectByRisk_def 1 2 [unfolded c(3)] Let_def buildPlaceOrderResponse_def intro: runs_publish)
qed

lemma executeAttempt_run:
  assumes "executeAttempt sv meta req q b et t = (r, t')" "same_attempt b a"
  shows "\<exists>t1. svc_trace t1 = svc_trace t @ [ExecuteCalled q] \<and> svc_db t1 = svc_db t \<and> svc_runs a t1 t'
    \<and> (\<forall>resp. r = Inr resp \<longrightarrow> ps_AttemptStatus resp \<in> place_statuses)"
proof -
  let ?t1 = "act (ExecuteCalled q) t"
  have "svc_runs a ?t1 t' \<and> (\<forall>resp. r = Inr resp \<longrightarrow> ps_AttemptStatus resp \<in> place_statuses)"
  proof (cases "sv_Execute sv (svc_tick t) q meta")
    case (Inl err)
    then have "executionUnknown sv meta req b (''execution result unknown: '' @ err_text err) (err_text err) ?t1 = (r, t')"
      using assms(1) by (simp add: executeAttempt_def callExecute_def)
    from executionUnknown_run [OF this assms(2) rtranclp.rtrancl_refl] show ?thesis using resolve_place by auto
  next
    case (Inr result)
    then have "finalizeExecution sv meta req b et result ?t1 = (r, t')"
      using assms(1) by (simp add: executeAttempt_def callExecute_def)
    from finalizeExecution_run [OF this assms(2) rtranclp.rtrancl_refl] show ?thesis .
  qed
  then show ?thesis by (intro exI [of _ ?t1]) simp
qed

lemma created_call:
  assumes new: "created_attempt s2 a (buildClientOrderID i a) s3"
    and base: "attempt_ids (svc_db s2) = attempt_ids (svc_db s)"
    and tr: "svc_trace s3 = svc_trace s @ [IntentStored i, AttemptCreated a (buildClientOrderID i a)]"
    and b: "oa_AttemptID b = a" "oa_ClientOrderID b = buildClientOrderID i a"
    and run: "(let (decision, s4) = reviewRisk sv rq s3;
          attempt = b\<lparr>oa_RiskStatus := dc_Status decision, oa_RiskReasonsJSON := marshalRiskReasons decision\<rparr>
        in if dc_Status decision = DecisionReject then rejectByRisk sv intent attempt decision s4
           else executeAttempt sv meta req q attempt et s4) = (r, s')"
    and q: "xq_ClientOrderID q = buildClientOrderID i a"
  shows "(executed_call s s' \<or> unexecuted_call s s') \<and> (db_ok (svc_db s3) \<longrightarrow> db_ok (svc_db s'))
    \<and> (\<forall>resp. r = Inr resp \<longrightarrow> ps_AttemptStatus resp \<in> place_statuses)"
proof -
  let ?c = "buildClientOrderID i a"
  obtain d s4 where 4: "reviewRisk sv rq s3 = (d, s4)" by fastforce
  note rev = reviewRisk_run(1) [OF 4, of b] reviewRisk_run(2,3) [OF 4]
  let ?b = "b\<lparr>oa_RiskStatus := dc_Status d, oa_RiskReasonsJSON := marshalRiskReasons d\<rparr>"
  have own: "owned (attempt_ids (svc_db s3)) a ?c" using created_owned [OF new] by simp
  have same: "attempt_ids (svc_db t) = attempt_ids (svc_db s3)" if "svc_runs b s3 t" for t
    using runs_ids [of a ?c s3 t] that own b by simp
  have ids3: "attempt_ids (svc_db s3) = attempt_ids (svc_db s) @ [(a, Some ?c)]" "a \<notin> fst ` set (attempt_ids (svc_db s))"
    "\<not> client_used (svc_db s) ?c" using new base by (auto simp: created_attempt_def client_used_def)
  show ?thesis
  proof (cases "dc_Status d = DecisionReject")
    case True
    then have "rejectByRisk sv intent ?b d s4 = (r, s')" using run 4 by simp
    from rejectByRisk_run [OF this _ rev(1)]
    have fin: "svc_runs b s3 s'" "\<forall>resp. r = Inr resp \<longrightarrow> ps_AttemptStatus resp = ''RISK_REJECTED''" by auto
    moreover have "quiet s s3" using tr by (simp add: quiet_def)
    ultimately show ?thesis using ids3 same [OF fin(1)] runs_quiet quiet_trans runs_ok [OF fin(1)]
      by (auto simp: unexecuted_call_def place_statuses_def)
  next
    case False
    then have "executeAttempt sv meta req q ?b et s4 = (r, s')" using run 4 by simp
    from executeAttempt_run [OF this, of b] obtain t1 where
      t1: "svc_trace t1 = svc_trace s4 @ [ExecuteCalled q]" "svc_db t1 = svc_db s4" "svc_runs b t1 s'"
      "\<forall>resp. r = Inr resp \<longrightarrow> ps_AttemptStatus resp \<in> place_statuses" by auto
    from runs_quiet [OF t1(3)] obtain rest where rest: "svc_trace s' = svc_trace t1 @ rest" "executions rest = []"
      by (auto simp: quiet_def)
    have "attempt_ids (svc_db s') = attempt_ids (svc_db s3)"
      using runs_ids [of a ?c t1 s'] t1(2,3) own b same [OF rev(1)] by simp
    moreover have "dc_Status d = DecisionAllow" using rev(3) False by simp
    ultimately have "executed_call s s'"
      unfolding executed_call_def using ids3 rest t1(1) rev(2) tr q
      by (intro exI [of _ i] exI [of _ a] exI [of _ q] exI [of _ rest]) simp
    then show ?thesis using t1(4) runs_ok [OF t1(3)] t1(2) runs_ok [OF rev(1)] by auto
  qed
qed

lemma placeValidated_call:
  assumes "placeValidated sv req meta side contract s = (r, s')"
  shows "(executed_call s s' \<or> unexecuted_call s s') \<and> (db_ok (svc_db s) \<longrightarrow> db_ok (svc_db s'))
    \<and> (\<forall>resp. r = Inr resp \<longrightarrow> ps_AttemptStatus resp \<in> place_statuses)"
proof -
  obtain et i a s1 where 1: "freshIDs sv req s = ((et, i, a), s1)" by (metis prod.exhaust)
  note s1 = freshIDs_keeps [OF 1]
  let ?intent = "orderIntentOf req meta side (oc_Code contract) i et"
  let ?attempt = "orderAttemptOf req meta side (oc_Code contract) i a et"
  let ?c = "buildClientOrderID i a"
  obtain u s2 where 2: "repo (UpsertOrderIntent ?intent) (IntentStored i) s1 = (u, s2)" by fastforce
  note s2 = intent_stored [OF 2, unfolded s1 [THEN conjunct1] s1 [THEN conjunct2]]
  obtain v s3 where 3: "repo (CreateOrderAttempt ?attempt) (AttemptCreated a ?c) s2 = (v, s3)" by fastforce
  have s3: "(\<not> is_ok v \<and> attempt_ids (svc_db s3) = attempt_ids (svc_db s2)) \<or> created_attempt s2 a ?c s3"
    "db_ok (svc_db s2) \<Longrightarrow> db_ok (svc_db s3)"
    "svc_trace s3 = svc_trace s2 @ (if is_ok v then [AttemptCreated a ?c] else [])"
    using attempt_created [OF 3] by simp_all
  show ?thesis
  proof (cases "is_ok u \<and> is_ok v")
    case True
    then have "created_attempt s2 a ?c s3" "svc_trace s3 = svc_trace s @ [IntentStored i, AttemptCreated a ?c]"
      using s3 s2(3) by auto
    note call = created_call [OF this(1) s2(1) this(2), of ?attempt]
    let ?q = "executorRequest req meta side contract (oa_ClientOrderID ?attempt)"
    have "(let (decision, s4) = reviewRisk sv (reviewRequest req meta side contract) s3;
          attempt = ?attempt\<lparr>oa_RiskStatus := dc_Status decision, oa_RiskReasonsJSON := marshalRiskReasons decision\<rparr>
        in if dc_Status decision = DecisionReject then rejectByRisk sv ?intent attempt decision s4
           else executeAttempt sv meta req ?q attempt et s4) = (r, s')"
      using assms 1 2 3 True by (cases u; cases v) (simp_all add: placeValidated_def Let_def)
    from call [OF _ _ this] show ?thesis using s2(2) s3(2) by (simp add: executorRequest_def)
  next
    case False
    then have "s' = (if is_ok u then s3 else s2)" "\<not> is_ok r"
      using assms 1 2 3 by (cases u; cases v; auto simp: placeValidated_def)+
    moreover have "quiet s s2" "quiet s s3" using s2(3) s3(3) by (auto simp: quiet_def)
    ultimately show ?thesis using s2(1,2) s3(1,2) by (auto simp: unexecuted_call_def created_attempt_def)
  qed
qed

lemma PlaceOrder_call:
  assumes "PlaceOrder sv req s = (r, s')"
  shows "(executed_call s s' \<or> unexecuted_call s s') \<and> (db_ok (svc_db s) \<longrightarrow> db_ok (svc_db s'))
    \<and> (\<forall>resp. r = Inr resp \<longrightarrow> ps_AttemptStatus resp \<in> place_statuses)"
proof -
  have unchanged: ?thesis if "s' = s" "\<not> is_ok r"
    using that by (auto simp: unexecuted_call_def quiet_def)
  show ?thesis
  proof (cases "\<exists>meta side contract. placeValidated sv req meta side contract s = (r, s')")
    case True
    then show ?thesis using placeValidated_call by blast
  next
    case False
    then consider "s' = s" "\<not> is_ok r" | side err where "recordOrderContractFailure sv req side err s = (r, s')"
      using assms by (auto simp: PlaceOrder_def split: option.splits sum.splits if_splits)
    then show ?thesis
    proof cases
      case 2
      from recordOrderContractFailure_call [OF this] show ?thesis by (auto simp: place_statuses_def)
    qed (rule unchanged)
  qed
qed

end

definition SetRiskGate :: "(time \<Rightarrow> ReviewRequest \<Rightarrow> order_db \<Rightarrow> Decision result \<times> order_db) option \<Rightarrow> OrderService \<Rightarrow> OrderService" where
  "SetRiskGate gate sv = sv\<lparr>sv_riskGate := gate\<rparr>"

definition coreService :: "range_order \<Rightarrow> Registry \<Rightarrow> (int \<Rightarrow> int \<Rightarrow> OnlineAccountInfo result) \<Rightarrow> OrderService \<Rightarrow> OrderService" where
  "coreService iter registry walletState =
     SetRiskGate (Some (\<lambda>t. Review iter (coreGate registry walletState t) t))"

interpretation core_service: order_service "\<lambda>t. Review iter (coreGate registry walletState t) t"
  "coreService iter registry walletState sv" for iter registry walletState sv
  by unfold_locales (simp add: coreService_def SetRiskGate_def)

interpretation allow_tables: gate_contract AllowGate_Review same_tables
  by unfold_locales (simp_all add: AllowGate_Review_def)

interpretation open_service: order_service AllowGate_Review "SetRiskGate None sv" for sv
  by unfold_locales (simp add: SetRiskGate_def)

subsection \<open>What a response promises\<close>

definition holds_attempt :: "svc_state \<Rightarrow> OrderAttempt \<Rightarrow> bool" where
  "holds_attempt t b = (oa_AttemptID b \<in> fst ` set (attempt_ids (svc_db t))
     \<and> owned (attempt_ids (svc_db t)) (oa_AttemptID b) (oa_ClientOrderID b))"

lemma holds_same: "same_attempt b a \<Longrightarrow> holds_attempt t b = holds_attempt t a"
  by (simp add: same_attempt_def holds_attempt_def)

lemma runs_holds: "svc_runs a s t \<Longrightarrow> holds_attempt s a \<Longrightarrow> holds_attempt t a"
  using runs_ids by (simp add: holds_attempt_def)

text \<open>
  A reported execution is stored: the row of its attempt, the row of the order with every column that the write sets, and a
  row for every fill.  The columns that only an insertion sets are those of the order when its id is new.
\<close>

definition fill_columns :: "OrderFill \<Rightarrow> fill_row \<Rightarrow> bool" where
  "fill_columns f r \<longleftrightarrow> rf_fill_id r = of_FillID f \<and> rf_time r = of_Time f \<and> rf_exchange_trade_id r = nullableString (of_ExchangeTradeID f)
     \<and> rf_order_id r = of_OrderID f \<and> rf_exchange_order_id r = nullableString (of_ExchangeOrderID f) \<and> rf_attempt_id r = of_AttemptID f
     \<and> rf_intent_id r = of_IntentID f \<and> rf_qty r = of_Qty f \<and> rf_fill_price r = of_FillPrice f \<and> rf_fee r = of_Fee f
     \<and> rf_status r = fillStatusCode (of_Status f)"

definition recorded_execution :: "bool \<Rightarrow> PlaceOrderResponse \<Rightarrow> Order \<Rightarrow> order_db \<Rightarrow> bool" where
  "recorded_execution new resp order db =
     ((\<exists>q\<in>set (db_attempts db). ra_attempt_id q = ps_AttemptId resp
         \<and> ra_status q = attemptStatusCode (ps_AttemptStatus resp)
         \<and> nonEmpty (ra_error_message q) (ra_recovery_error q) = ps_ErrorMessage resp
         \<and> ra_client_order_id q = nullableString (ps_ClientOrderId resp)
         \<and> ra_exchange_order_id q = nullableString (or_ExchangeOrderID order))
      \<and> (\<exists>r\<in>set (db_orders db). order_columns order r \<and> (new \<longrightarrow> inserted_columns order r))
      \<and> (\<forall>f\<in>set (ps_FillDeltas resp). \<exists>r\<in>set (db_fills db). fill_columns f r))"

lemma finalize_records:
  assumes "finalizeAttempt c (Some order) fills t = (Inr x, t')" "holds_attempt t c"
    "oa_ExchangeOrderID c = or_ExchangeOrderID order" "new \<Longrightarrow> or_OrderID order \<notin> order_ids (svc_db t)"
  shows "recorded_execution new (buildPlaceOrderResponse c (Some order) fills) order (svc_db t')"
proof -
  have "FinalizeOrderAttempt c (Some order) fills (svc_db t) = (Inr x, svc_db t')"
    using assms(1) by (auto simp: finalizeAttempt_def repo_def act_def split: prod.splits sum.splits)
  from FinalizeOrderAttempt_cases [OF this] have fin: "finalized c (Some order) fills (svc_db t) (svc_db t')" by simp
  obtain q where "q \<in> set (db_attempts (svc_db t))" "ra_attempt_id q = oa_AttemptID c"
    using assms(2) by (auto simp: holds_attempt_def attempt_ids_def)
  then have q: "finalized_row c q \<in> set (db_attempts (svc_db t'))" using fin by (auto simp: finalized_def image_iff)
  have "fill_columns f (fill_row_of f)" for f by (simp add: fill_columns_def fill_row_of_def)
  moreover have "fill_row_of f \<in> set (db_fills (svc_db t'))" if "f \<in> set fills" for f
    using fin that by (simp add: finalized_def)
  moreover obtain r where "r \<in> set (db_orders (svc_db t'))" "order_columns order r" "new \<longrightarrow> inserted_columns order r"
    using fin assms(4) by (auto simp: finalized_def)
  ultimately show ?thesis using q assms(3) \<open>ra_attempt_id q = oa_AttemptID c\<close> unfolding recorded_execution_def
    by (intro conjI bexI [OF _ q]) (auto simp: buildPlaceOrderResponse_def finalized_row_def attempt_row_of_def)
qed

text \<open>
  During a call the orders of the store are those from before and those whose id the call has drawn.  So an id drawn from a
  source without repetition is new, unless an order from before has it.
\<close>

definition known_ids :: "OrderService \<Rightarrow> string set \<Rightarrow> svc_state \<Rightarrow> bool" where
  "known_ids sv known t \<longleftrightarrow> (\<forall>i\<in>order_ids (svc_db t). i \<in> known \<or> (\<exists>n < svc_tick t. i = sv_uuid sv n))"

definition adds_no_order :: "svc_state \<Rightarrow> svc_state \<Rightarrow> bool" where
  "adds_no_order t t' \<longleftrightarrow> order_ids (svc_db t') = order_ids (svc_db t) \<and> svc_tick t \<le> svc_tick t'"

lemma known_later: "adds_no_order t t' \<Longrightarrow> known_ids sv known t \<Longrightarrow> known_ids sv known t'"
  by (fastforce simp: adds_no_order_def known_ids_def intro: less_le_trans)

lemma adds_no_order_trans: "adds_no_order s t \<Longrightarrow> adds_no_order t u \<Longrightarrow> adds_no_order s u"
  by (simp add: adds_no_order_def)

lemma finalize_order_ids:
  assumes "finalizeAttempt c order fills t = (r, t')"
  shows "order_ids (svc_db t') \<subseteq> (case order of None \<Rightarrow> {} | Some ord \<Rightarrow> {or_OrderID ord}) \<union> order_ids (svc_db t)"
    "order = None \<Longrightarrow> order_ids (svc_db t') = order_ids (svc_db t)" "svc_tick t' = svc_tick t"
proof -
  obtain r' where f: "FinalizeOrderAttempt c order fills (svc_db t) = (r', svc_db t')" and tick: "svc_tick t' = svc_tick t"
    using assms by (auto simp: finalizeAttempt_def repo_def act_def split: prod.splits sum.splits)
  show "svc_tick t' = svc_tick t" by (rule tick)
  have same: "order_ids (svc_db t') = order_ids (svc_db t)" if "tables (svc_db t') = tables (svc_db t)"
    using tables_eqD [OF that] by (simp add: order_ids_def)
  show "order_ids (svc_db t') \<subseteq> (case order of None \<Rightarrow> {} | Some ord \<Rightarrow> {or_OrderID ord}) \<union> order_ids (svc_db t)"
    using FinalizeOrderAttempt_cases [OF f] same by (cases order) (auto simp: finalized_def order_ids_def)
  show "order_ids (svc_db t') = order_ids (svc_db t)" if "order = None"
    using FinalizeOrderAttempt_cases [OF f] same that by (auto simp: finalized_def order_ids_def)
qed

lemma known_finalized:
  assumes "finalizeAttempt c (Some order) fills t = (r, t')" "known_ids sv known t" "or_OrderID order = sv_uuid sv n" "n < svc_tick t"
  shows "known_ids sv known t'"
  unfolding known_ids_def finalize_order_ids(3) [OF assms(1)]
proof
  fix i
  assume "i \<in> order_ids (svc_db t')"
  then have "i = or_OrderID order \<or> i \<in> order_ids (svc_db t)" using finalize_order_ids(1) [OF assms(1)] by auto
  then show "i \<in> known \<or> (\<exists>n < svc_tick t. i = sv_uuid sv n)" using assms(2-4) unfolding known_ids_def by blast
qed

interpretation order_keys: db_invariant "\<lambda>db. order_ids db = I" for I
  by unfold_locales (simp add: order_ids_def)

lemma store_adds_no_order:
  "repo (UpsertOrderIntent intent) a t = (u, t') \<Longrightarrow> adds_no_order t t'" (is "?p \<Longrightarrow> _")
  "repo (CreateOrderAttempt attempt) a t = (u, t') \<Longrightarrow> adds_no_order t t'" (is "?q \<Longrightarrow> _")
proof -
  have intent: "order_keys.preserves I (upsert_intent_row r)" for r I
    by (rule order_keys.preservesI) (auto simp: upsert_intent_row_def order_ids_def)
  have attempt: "order_keys.preserves I (insert_attempt_row q)" for q I
    by (rule order_keys.preservesI) (auto simp: insert_attempt_row_def order_ids_def)
  note keep = intent attempt
  note keep = keep [THEN order_keys.stmt_preserves, THEN order_keys.preservesD, OF refl]
  have "order_ids (snd (UpsertOrderIntent intent (svc_db t))) = order_ids (svc_db t)"
    "order_ids (snd (CreateOrderAttempt attempt (svc_db t))) = order_ids (svc_db t)"
    by (auto simp: UpsertOrderIntent_def CreateOrderAttempt_def keep split: sum.splits)
  then show "?p \<Longrightarrow> adds_no_order t t'" "?q \<Longrightarrow> adds_no_order t t'"
    by (auto simp: adds_no_order_def repo_def act_def split: prod.splits sum.splits)
qed

lemma clock_adds_no_order:
  "timeNow sv t = (now, t') \<Longrightarrow> adds_no_order t t'" "newUUID sv t = (i, t') \<Longrightarrow> adds_no_order t t'"
  "stampAttempt sv b t = (c, t') \<Longrightarrow> adds_no_order t t'" "callResolve sv q meta t = (r, t') \<Longrightarrow> adds_no_order t t'"
  "finalizeAttempt c None fills t = (u, t') \<Longrightarrow> adds_no_order t t'" "adds_no_order t (act a t)"
  using finalize_order_ids(2,3) [of c None fills t u t']
  by (auto simp: adds_no_order_def timeNow_def newUUID_def stampAttempt_def callResolve_def)

lemma fills_add_no_order: "persistedFills sv order result fs t = (fills, t') \<Longrightarrow> svc_db t' = svc_db t \<and> svc_tick t \<le> svc_tick t'"
  by (induction fs arbitrary: t fills) (fastforce simp: newUUID_def Let_def split: prod.splits)+

lemma fresh_adds_no_order: "freshIDs sv req t = (ids, t') \<Longrightarrow> adds_no_order t t'"
  by (auto simp: freshIDs_def timeNow_def newUUID_def adds_no_order_def Let_def split: if_splits prod.splits)

lemma persistedOrder_id: "or_OrderID (persistedOrder meta b strategyID sessionID market result now i) = i"
  by (simp add: persistedOrder_def applyRecoveryTracking_def Let_def)

text \<open>The order of a persisted execution has the id drawn for it.\<close>

lemma build_draws_id:
  assumes "buildPersistedExecution sv meta b strategyID sessionID market result et t = ((order, fills), t')" "oa_OrderID b = []"
  obtains n where "svc_tick t \<le> n" "n < svc_tick t'" "or_OrderID order = sv_uuid sv n" "adds_no_order t t'"
proof -
  obtain now t1 where 1: "(if is_zero et then timeNow sv t else (et, t)) = (now, t1)" by fastforce
  then have t1: "svc_tick t \<le> svc_tick t1" "svc_db t1 = svc_db t" by (auto simp: timeNow_def split: if_splits)
  obtain fresh t2 where 2: "newUUID sv t1 = (fresh, t2)" by fastforce
  then have t2: "fresh = sv_uuid sv (svc_tick t1)" "svc_tick t2 = Suc (svc_tick t1)" "svc_db t2 = svc_db t1" by (auto simp: newUUID_def)
  have order: "order = persistedOrder meta b strategyID sessionID market result now (nonEmpty (oa_OrderID b) fresh)"
    and f: "persistedFills sv order result (xr_Fills result) t2 = (fills, t')"
    using assms(1) by (auto simp: buildPersistedExecution_def 1 2 Let_def split: prod.splits)
  note f = fills_add_no_order [OF f]
  show thesis
  proof (rule that [of "svc_tick t1"])
    show "or_OrderID order = sv_uuid sv (svc_tick t1)" by (simp add: order persistedOrder_id assms(2) nonEmpty_def t2(1))
    show "adds_no_order t t'" using f t1 t2 by (simp add: adds_no_order_def)
  qed (use f t1 t2 in simp_all)
qed

lemma drawn_is_new:
  assumes "known_ids sv known t" "svc_tick t \<le> n" "inj (sv_uuid sv)" "sv_uuid sv n \<notin> known"
  shows "sv_uuid sv n \<notin> order_ids (svc_db t)"
  using assms by (fastforce simp: known_ids_def dest: injD)

definition order_tables :: "order_db \<Rightarrow> attempt_row list \<times> order_row list \<times> fill_row list" where
  "order_tables db = (db_attempts db, db_orders db, db_fills db)"

interpretation order_rows: db_invariant "\<lambda>db. order_tables db = T" for T
  by unfold_locales (simp add: order_tables_def)

lemma save_placed_event:
  assumes "ev_EventSource event = EventSourcePlaceOrder"
  shows "order_rows.preserves T (SaveLifecycleEvent now event)"
proof (rule order_rows.preservesI)
  fix db
  assume T: "order_tables db = T"
  have src: "trim_space EventSourcePlaceOrder = EventSourcePlaceOrder" by code_simp
  have b: "order_rows.preserves T (backfillOrderFillFromLifecycleEvent now
      ((normalized_event now event)\<lparr>ev_EventID := i, ev_CreatedAt := c\<rparr>))" for i c using assms
    by (intro order_rows.preservesI)
      (simp add: backfillOrderFillFromLifecycleEvent_def shouldBackfillOrderFill_def normalized_event_def src)
  have i: "order_rows.preserves T (insert_event now e)" for e
    by (rule order_rows.preservesI)
      (auto simp: insert_event_def upsert_event_row_def order_tables_def Let_def split: option.splits)
  have "order_rows.preserves T (then_db (wrap_db m (stmt (insert_event now e)))
      (\<lambda>(eid, created). let saved = (normalized_event now event)\<lparr>ev_EventID := eid, ev_CreatedAt := created\<rparr>
         in then_db (backfillOrderFillFromLifecycleEvent now saved) (\<lambda>_ db. (Inr saved, db))))" for m e
    by (auto simp: Let_def split: prod.splits intro!: order_rows.preserves_rules i b)
  note P = order_rows.preservesD [OF this T]
  show "order_tables (snd (SaveLifecycleEvent now event db)) = T"
    using T P by (auto simp: SaveLifecycleEvent_def Let_def split: option.splits)
qed

lemma emit_keeps: "order_tables (svc_db (emitLifecycleEvents sv order fills t)) = order_tables (svc_db t)"
proof (induction fills arbitrary: t)
  case (Cons fill fills)
  have "order_tables (snd (SaveLifecycleEvent now (lifecycleFillEvent order fill) db)) = order_tables db" for now db
    using order_rows.preservesD [OF save_placed_event refl, of "lifecycleFillEvent order fill"]
    by (simp add: lifecycleFillEvent_def)
  moreover obtain now t1 where 1: "timeNow sv t = (now, t1)" by fastforce
  moreover from this have "svc_db t1 = svc_db t" by (auto simp: timeNow_def)
  moreover obtain u t2 where 2: "repo (SaveLifecycleEvent now (lifecycleFillEvent order fill))
      (EventSaved (lifecycleFillEvent order fill)) t1 = (u, t2)" by fastforce
  moreover from this have "svc_db t2 = snd (SaveLifecycleEvent now (lifecycleFillEvent order fill) (svc_db t1))"
    using repo_db by (metis snd_conv)
  ultimately show ?case using Cons.IH by (simp add: Let_def)
qed simp

lemma recorded_cong: "order_tables db' = order_tables db \<Longrightarrow> recorded_execution new resp order db' = recorded_execution new resp order db"
  by (simp add: order_tables_def recorded_execution_def)

definition honest :: "OrderService \<Rightarrow> string set \<Rightarrow> PlaceOrderResponse \<Rightarrow> svc_state \<Rightarrow> bool" where
  "honest sv known resp s = (\<forall>order. ps_Order resp = Some order \<longrightarrow>
     recorded_execution (inj (sv_uuid sv) \<and> or_OrderID order \<notin> known) resp order (svc_db s))"

lemma honest_without_order: "ps_Order resp = None \<Longrightarrow> honest sv known resp s"
  by (simp add: honest_def)

lemma finalized_honest:
  assumes "finalizeAttempt c (Some order) fills t = (Inr x, t')" "holds_attempt t c"
    "oa_ExchangeOrderID c = or_ExchangeOrderID order"
    "inj (sv_uuid sv) \<and> or_OrderID order \<notin> known \<Longrightarrow> or_OrderID order \<notin> order_ids (svc_db t)"
  shows "honest sv known (buildPlaceOrderResponse c (Some order) fills)
    (publishOrderNotification b o' (emitLifecycleEvents sv order fills t'))"
  using finalize_records [OF assms(1-3), of "inj (sv_uuid sv) \<and> or_OrderID order \<notin> known"] assms(4)
  by (simp add: honest_def recorded_cong [OF emit_keeps]) (simp add: buildPlaceOrderResponse_def)

lemma stamp_exchange: "stampAttempt sv b t = (c, t') \<Longrightarrow> oa_ExchangeOrderID c = oa_ExchangeOrderID b"
  and stamp_order: "stampAttempt sv b t = (c, t') \<Longrightarrow> oa_OrderID c = oa_OrderID b"
  by (auto simp: stampAttempt_def timeNow_def)

text \<open>An execution that is built and stamped is ready to be stored: its id is new, and stays known afterwards.\<close>

lemma built_is_new:
  assumes "buildPersistedExecution sv meta b strategyID sessionID market result et t = ((order, fills), t1)" "oa_OrderID b = []"
    "stampAttempt sv b' t1 = (c, t2)" "known_ids sv known t"
  shows "inj (sv_uuid sv) \<and> or_OrderID order \<notin> known \<Longrightarrow> or_OrderID order \<notin> order_ids (svc_db t2)"
    "finalizeAttempt c (Some order) fills t2 = (u, t3) \<Longrightarrow> known_ids sv known t3"
proof -
  obtain n where n: "svc_tick t \<le> n" "n < svc_tick t1" "or_OrderID order = sv_uuid sv n" "adds_no_order t t1"
    using build_draws_id [OF assms(1,2)] .
  have t2: "adds_no_order t1 t2" using clock_adds_no_order(3) [OF assms(3)] .
  show "or_OrderID order \<notin> order_ids (svc_db t2)" if "inj (sv_uuid sv) \<and> or_OrderID order \<notin> known"
    using drawn_is_new [OF assms(4) n(1)] that n(3,4) t2 by (simp add: adds_no_order_def)
  have "known_ids sv known t2" using known_later [OF adds_no_order_trans [OF n(4) t2] assms(4)] .
  then show "finalizeAttempt c (Some order) fills t2 = (u, t3) \<Longrightarrow> known_ids sv known t3"
    using known_finalized [of c order fills t2 u t3 sv known n] n(2,3) t2 by (simp add: adds_no_order_def)
qed

lemma pendingOr_exchange [simp]: "oa_ExchangeOrderID (pendingOr acc result order b) = or_ExchangeOrderID order"
  by (simp add: pendingOr_def Let_def)

lemma build_responses [simp]:
  "ps_Order (buildRecoveryFailedResponse b m) = None" "ps_Order (buildPlaceOrderResponse b order fills) = order"
  by (simp_all add: buildRecoveryFailedResponse_def buildPlaceOrderResponse_def)

lemma persistRecovered_honest:
  assumes "persistRecovered sv meta b strategyID sessionID market result t = (resp, t')" "holds_attempt t b"
    "known_ids sv known t" "oa_OrderID b = []"
  shows "honest sv known resp t'"
proof -
  obtain now t0 where 0: "timeNow sv t = (now, t0)" by fastforce
  obtain order fills t1 where
    1: "buildPersistedExecution sv meta b strategyID sessionID market result now t0 = ((order, fills), t1)"
    by (metis prod.exhaust)
  obtain c t2 where 2: "stampAttempt sv (pendingOr ''RECOVERED'' result order b) t1 = (c, t2)" by fastforce
  obtain r t3 where 3: "finalizeAttempt c (Some order) fills t2 = (r, t3)" by fastforce
  have "svc_runs b t t1" using runs_build [OF 1 runs_timeNow [OF 0 rtranclp.rtrancl_refl]] .
  from stampAttempt_run [OF 2 _ this] have c: "same_attempt c b" "svc_runs b t t2" by simp_all
  then have h: "holds_attempt t2 c" using assms(2) runs_holds holds_same by blast
  have x: "oa_ExchangeOrderID c = or_ExchangeOrderID order" using stamp_exchange [OF 2] by simp
  show ?thesis
  proof (cases r)
    case (Inl e)
    then show ?thesis using assms(1) by (auto simp: persistRecovered_def 0 1 2 3 intro: honest_without_order)
  next
    case (Inr y)
    have "known_ids sv known t0" using known_later [OF clock_adds_no_order(1) [OF 0] assms(3)] .
    note new = built_is_new(1) [OF 1 assms(4) 2 this]
    show ?thesis using assms(1) Inr finalized_honest [where sv = sv and known = known, OF 3 [unfolded Inr] h x new]
      by (auto simp: persistRecovered_def 0 1 2 3)
  qed
qed

lemma resolveAttempt_honest:
  assumes "resolveAttempt sv meta b strategyID sessionID market t = (resp, t')" "holds_attempt t b"
    "known_ids sv known t" "oa_OrderID b = []"
  shows "honest sv known resp t'"
proof -
  obtain c t1 where 1: "stampAttempt sv (b\<lparr>oa_Status := ''RECOVERING''\<rparr>) t = (c, t1)" by fastforce
  obtain r t2 where 2: "finalizeAttempt c None [] t1 = (r, t2)" by fastforce
  obtain answer t3 where 3: "callResolve sv (recoveryRequest b) meta t2 = (answer, t3)" by fastforce
  have c: "same_attempt c b" "svc_runs b t t1" using stampAttempt_run [OF 1 _ rtranclp.rtrancl_refl] by simp_all
  then have "svc_runs b t t3" using runs_resolve [OF 3] runs_finalize [OF 2] by blast
  then have h: "holds_attempt t3 c" using assms(2) runs_holds holds_same c(1) by blast
  have absent: "confirmAbsent sv c t3 = (resp, t') \<Longrightarrow> honest sv known resp t'"
    by (auto simp: confirmAbsent_def Let_def split: prod.splits sum.splits intro!: honest_without_order)
  have failed: "recoveryQueryFailed sv c e t3 = (resp, t') \<Longrightarrow> honest sv known resp t'" for e
    by (auto simp: recoveryQueryFailed_def Let_def split: prod.splits intro!: honest_without_order)
  have "adds_no_order t t3" using 1 2 3 clock_adds_no_order adds_no_order_trans by meson
  then have k: "known_ids sv known t3" using known_later assms(3) by blast
  have o: "oa_OrderID c = []" using stamp_order [OF 1] assms(4) by simp
  show ?thesis using assms(1) absent failed persistRecovered_honest [OF _ h k o]
    by (auto simp: resolveAttempt_def 1 2 3 Let_def split: sum.splits if_splits)
qed

lemma executionUnknown_honest:
  assumes "executionUnknown sv meta req b m e t = (Inr resp, t')" "holds_attempt t b"
    "known_ids sv known t" "oa_OrderID b = []"
  shows "honest sv known resp t'"
proof -
  obtain c t1 where 1: "stampAttempt sv (b\<lparr>oa_Status := ''UNKNOWN'', oa_ErrorMessage := m, oa_RecoveryError := e\<rparr>) t = (c, t1)"
    by fastforce
  obtain u t2 where 2: "finalizeAttempt c None [] t1 = (u, t2)" by fastforce
  have c: "same_attempt c b" "svc_runs b t t1" using stampAttempt_run [OF 1 _ rtranclp.rtrancl_refl] by simp_all
  then have h: "holds_attempt t2 c" using runs_finalize [OF 2] assms(2) runs_holds holds_same by blast
  have "adds_no_order t t2" using 1 2 clock_adds_no_order adds_no_order_trans by meson
  then have k: "known_ids sv known t2" using known_later assms(3) by blast
  have "oa_OrderID c = []" using stamp_order [OF 1] assms(4) by simp
  then show ?thesis using assms(1) resolveAttempt_honest [OF _ h k]
    by (auto simp: executionUnknown_def 1 2 split: prod.splits)
qed

lemma finalizeExecution_honest:
  assumes "finalizeExecution sv meta req b et result t = (Inr resp, t')" "holds_attempt t b"
    "known_ids sv known t" "oa_OrderID b = []"
  shows "honest sv known resp t'"
proof (cases "trim_space (xr_ExchangeOrderID result) = []")
  case True
  then show ?thesis using assms(1)
    by (auto simp: finalizeExecution_def Let_def split: prod.splits sum.splits intro!: honest_without_order)
next
  case False
  obtain order fills t1 where
    1: "buildPersistedExecution sv meta b (pr_StrategyId req) (pr_SessionId req) (me_Market meta) result et t
      = ((order, fills), t1)" by (metis prod.exhaust)
  obtain c t2 where 2: "stampAttempt sv (pendingOr ''ACCEPTED'' result order b) t1 = (c, t2)" by fastforce
  obtain u t3 where 3: "finalizeAttempt c (Some order) fills t2 = (u, t3)" by fastforce
  have "svc_runs b t t1" using runs_build [OF 1 rtranclp.rtrancl_refl] .
  from stampAttempt_run [OF 2 _ this] have c: "same_attempt c b" "svc_runs b t t2" by simp_all
  then have h: "holds_attempt t2 c" using assms(2) runs_holds holds_same by blast
  have x: "oa_ExchangeOrderID c = or_ExchangeOrderID order" using stamp_exchange [OF 2] by simp
  have "svc_runs b t t3" using runs_finalize [OF 3] c by blast
  then have h3: "holds_attempt t3 (c\<lparr>oa_OrderID := [], oa_ExchangeOrderID := []\<rparr>)"
    using assms(2) runs_holds holds_same c(1) by (metis same_attempt_updates(4,5))
  show ?thesis
  proof (cases u)
    case (Inl e)
    then show ?thesis using assms(1) False executionUnknown_honest [OF _ h3 built_is_new(2) [OF 1 assms(4) 2 assms(3) 3]]
      by (auto simp: finalizeExecution_def 1 2 3 Let_def)
  next
    case (Inr y)
    then show ?thesis using assms(1) False finalized_honest [where sv = sv and known = known, OF 3 [unfolded Inr] h x built_is_new(1) [OF 1 assms(4) 2 assms(3)]]
      by (auto simp: finalizeExecution_def 1 2 3)
  qed
qed

context order_service
begin

lemma executeAttempt_honest:
  assumes "executeAttempt sv meta req q b et t = (Inr resp, t')" "holds_attempt t b"
    "known_ids sv known t" "oa_OrderID b = []"
  shows "honest sv known resp t'"
proof -
  have "holds_attempt (act (ExecuteCalled q) t) b" using assms(2) by (simp add: holds_attempt_def)
  moreover have "known_ids sv known (act (ExecuteCalled q) t)" using known_later [OF clock_adds_no_order(6) assms(3)] .
  ultimately show ?thesis using assms(1,4) executionUnknown_honest finalizeExecution_honest
    by (auto simp: executeAttempt_def callExecute_def split: sum.splits)
qed

lemma reviewRisk_adds_no_order: "reviewRisk sv rq t = (d, t') \<Longrightarrow> adds_no_order t t'"
proof -
  have "order_ids (snd (review now rq db)) = order_ids db" for now rq db
    using reads_only [of db now rq] unfolding same_tables_def order_ids_def by (metis order_db.ext_inject order_db.surjective order_db.update_convs(7))
  then show "reviewRisk sv rq t = (d, t') \<Longrightarrow> adds_no_order t t'"
    by (auto simp: reviewRisk_def gate [symmetric] timeNow_def act_def adds_no_order_def Let_def split: prod.splits sum.splits) (metis snd_conv)+
qed

lemma rejectByRisk_honest: "rejectByRisk sv intent b d t = (Inr resp, t') \<Longrightarrow> honest sv known resp t'"
  by (auto simp: rejectByRisk_def Let_def split: prod.splits sum.splits intro!: honest_without_order)

lemma contractFailure_honest: "recordOrderContractFailure sv req side err t = (Inr resp, t') \<Longrightarrow> honest sv known resp t'"
  by (auto simp: recordOrderContractFailure_def Let_def split: prod.splits sum.splits if_splits option.splits
      intro!: honest_without_order)

lemma placeValidated_honest:
  assumes "placeValidated sv req meta side contract s = (Inr resp, s')"
  shows "honest sv (order_ids (svc_db s)) resp s'"
proof -
  obtain et i a s1 where 1: "freshIDs sv req s = ((et, i, a), s1)" by (metis prod.exhaust)
  let ?attempt = "orderAttemptOf req meta side (oc_Code contract) i a et" and ?c = "buildClientOrderID i a"
  obtain u s2 where 2: "repo (UpsertOrderIntent (orderIntentOf req meta side (oc_Code contract) i et)) (IntentStored i) s1 = (u, s2)"
    by fastforce
  obtain v s3 where 3: "repo (CreateOrderAttempt ?attempt) (AttemptCreated a ?c) s2 = (v, s3)" by fastforce
  have ok: "is_ok u" "is_ok v" using assms 1 2 3 by (cases u; cases v; auto simp: placeValidated_def)+
  then have "created_attempt s2 a ?c s3" using attempt_created [OF 3] by simp
  then have h3: "holds_attempt s3 ?attempt"
    using created_owned by (auto simp: holds_attempt_def created_attempt_def)
  obtain d s4 where 4: "reviewRisk sv (reviewRequest req meta side contract) s3 = (d, s4)" by fastforce
  let ?b = "?attempt\<lparr>oa_RiskStatus := dc_Status d, oa_RiskReasonsJSON := marshalRiskReasons d\<rparr>"
  have "holds_attempt s4 ?attempt" using runs_holds [OF reviewRisk_run(1) [OF 4] h3] .
  then have h4: "holds_attempt s4 ?b" by (simp add: holds_attempt_def)
  have "adds_no_order s s4" using fresh_adds_no_order [OF 1] store_adds_no_order(1) [OF 2] store_adds_no_order(2) [OF 3]
    reviewRisk_adds_no_order [OF 4] adds_no_order_trans by meson
  then have k4: "known_ids sv (order_ids (svc_db s)) s4" by (simp add: adds_no_order_def known_ids_def)
  have o4: "oa_OrderID ?b = []" by (simp add: orderAttemptOf_def)
  show ?thesis using assms 1 2 3 4 ok rejectByRisk_honest executeAttempt_honest [OF _ h4 k4 o4]
    by (cases u; cases v) (auto simp: placeValidated_def Let_def split: if_splits)
qed

lemma PlaceOrder_honest: "PlaceOrder sv req s = (Inr resp, s') \<Longrightarrow> honest sv (order_ids (svc_db s)) resp s'"
  using placeValidated_honest contractFailure_honest
  by (auto simp: PlaceOrder_def split: option.splits sum.splits if_splits)

end

subsection \<open>Histories of the service\<close>

end
