(* ===== verification/Order_History.thy ===== *)
theory Order_History
  imports Order_Service_Facts
begin

text \<open>
  Histories of the order service: calls of its operations interleaved with everything else that
  uses the store.  The facts of this theory carry the identifiers of the attempts through such
  a history.
\<close>

text \<open>
  A history interleaves calls of the service with everything else that uses the store: the scanner,
  the streams, and new faults of the connection, which may do anything that keeps the integrity
  of the store and the identifiers of its attempts.
\<close>

inductive history :: "OrderService \<Rightarrow> svc_state \<Rightarrow> bool" for sv where
  start: "history sv \<lparr>svc_db = empty_db\<lparr>db_faults := fs\<rparr>, svc_tick = n, svc_trace = []\<rparr>"
| place: "history sv s \<Longrightarrow> history sv (snd (PlaceOrder sv req s))"
| resolve: "history sv s \<Longrightarrow> history sv (snd (ResolveOrderAttempt sv rq s))"
| elsewhere: "history sv s \<Longrightarrow> db_ok db \<Longrightarrow> attempt_ids db = attempt_ids (svc_db s) \<Longrightarrow> history sv (s\<lparr>svc_db := db\<rparr>)"

definition client_ids_nonblank :: "order_db \<Rightarrow> bool" where
  "client_ids_nonblank db = (\<forall>a c. (a, Some c) \<in> set (attempt_ids db) \<longrightarrow> trim_space c \<noteq> [])"

lemma same_tables_trans [trans]: "same_tables a b \<Longrightarrow> same_tables b c \<Longrightarrow> same_tables a c"
  unfolding same_tables_def by (metis order_db.update_convs(7) order_db.surjective)

lemma query_reads: "query f db = (r, db') \<Longrightarrow> same_tables db db'"
  using query_same_tables [of db f] by simp

lemma wrap_query_reads: "wrap_db m (query f) db = (r, db') \<Longrightarrow> same_tables db db'"
  using query_same_tables [of db f] snd_wrap_db [of m "query f" db] by simp

lemma query_Inr: "query f db = (Inr x, db') \<Longrightarrow> x = f db'"
  by (auto simp: query_def stmt_def split: prod.splits fault.splits)

lemma FindOrderAttempt_reads: "FindOrderAttempt u acc i a c db = (r, db') \<Longrightarrow> same_tables db db'"
  by (auto simp: FindOrderAttempt_def Let_def split: prod.splits sum.splits list.splits if_splits
      dest: wrap_query_reads query_reads)

lemma join_intent_in: "(r, i) \<in> set (join_intent db iid rows) \<Longrightarrow> r \<in> set rows"
  by (auto simp: join_intent_def split: option.splits)

lemma first_row:
  assumes "(case wrap_db m (query (\<lambda>db. sort_key k (filter P (join_intent db iid (T db))))) db of
      (Inl e, d) \<Rightarrow> (Inl e, d) | (Inr [], d) \<Rightarrow> (Inl err, d) | (Inr ((a, i) # _), d) \<Rightarrow> (Inr (g d a i), d)) = (Inr x, db')"
  shows "\<exists>a i. a \<in> set (T db') \<and> x = g db' a i"
proof -
  obtain a i rest where q: "query (\<lambda>db. sort_key k (filter P (join_intent db iid (T db)))) db = (Inr ((a, i) # rest), db')"
    "x = g db' a i"
    using assms by (auto split: prod.splits sum.splits list.splits)
  then have "(a, i) \<in> set (sort_key k (filter P (join_intent db' iid (T db'))))"
    using query_Inr [OF q(1)] by (metis list.set_intros(1))
  then have "a \<in> set (T db')" by (auto dest: join_intent_in)
  with q(2) show ?thesis by blast
qed

lemma FindOrderAttempt_row:
  assumes "FindOrderAttempt u acc i a c db = (Inr attempt, db')"
  shows "\<exists>q\<in>set (db_attempts db'). oa_AttemptID attempt = ra_attempt_id q
    \<and> oa_ClientOrderID attempt = coalesce_str (ra_client_order_id q)"
proof -
  have "\<exists>q j. q \<in> set (db_attempts db') \<and> attempt = scan_attempt db' q j"
    using assms unfolding FindOrderAttempt_def Let_def by (auto split: if_splits dest!: first_row)
  then show ?thesis by (auto simp: scan_attempt_def)
qed

lemma found_owned:
  assumes "FindOrderAttempt u acc i a c db = (Inr attempt, db')" "db_ok db" "client_ids_nonblank db"
  shows "owned (attempt_ids db') (oa_AttemptID attempt) (oa_ClientOrderID attempt)"
proof -
  have same: "attempt_ids db' = attempt_ids db" "db_ok db'"
    using FindOrderAttempt_reads [OF assms(1)] assms(2) same_tables_ids same_tables_ok by blast+
  obtain q where q: "q \<in> set (db_attempts db')" "oa_AttemptID attempt = ra_attempt_id q"
    "oa_ClientOrderID attempt = coalesce_str (ra_client_order_id q)" using FindOrderAttempt_row [OF assms(1)] by blast
  have "distinct (map ra_attempt_id (db_attempts db'))" using same(2) by (simp add: db_ok_def keys_ok_def)
  then have uniq: "q' = q" if "q' \<in> set (db_attempts db')" "ra_attempt_id q' = ra_attempt_id q" for q'
    using that q(1) by (auto simp: distinct_map inj_on_def)
  have "trim_space c \<noteq> []" if "ra_client_order_id q = Some c" for c
  proof -
    have "(ra_attempt_id q, Some c) \<in> set (attempt_ids db')" using that q(1) by (force simp: attempt_ids_def)
    then show ?thesis using assms(3) same(1) by (simp add: client_ids_nonblank_def)
  qed
  then have "ra_client_order_id q = nullableString (coalesce_str (ra_client_order_id q))"
    by (cases "ra_client_order_id q") (auto simp: coalesce_str_def nullableString_def)
  moreover have "c = ra_client_order_id q" if "(ra_attempt_id q, c) \<in> set (attempt_ids db')" for c
  proof -
    from that obtain q' where "q' \<in> set (db_attempts db')" "ra_attempt_id q' = ra_attempt_id q" "c = ra_client_order_id q'"
      unfolding attempt_ids_def by force
    with uniq show ?thesis by blast
  qed
  ultimately show ?thesis unfolding owned_def q(2,3) by metis
qed

lemma loadPersistedExecution_reads:
  assumes "loadPersistedExecution aid s = (x, s')"
  shows "same_tables (svc_db s) (svc_db s')" "svc_trace s' = svc_trace s"
proof -
  obtain ord db1 where 1: "FindOrderByAttempt aid (svc_db s) = (ord, db1)" by fastforce
  obtain fs db2 where 2: "ListOrderFillsByAttempt aid db1 = (fs, db2)" by fastforce
  have "same_tables (svc_db s) db1" using 1
    by (auto simp: FindOrderByAttempt_def split: prod.splits sum.splits list.splits dest: wrap_query_reads query_reads)
  moreover have "same_tables db1 db2" using 2 by (auto simp: ListOrderFillsByAttempt_def dest: wrap_query_reads)
  ultimately have "same_tables (svc_db s) db2" by (rule same_tables_trans)
  then show "same_tables (svc_db s) (svc_db s')" "svc_trace s' = svc_trace s"
    using assms by (auto simp: loadPersistedExecution_def 1 2)
qed

lemma ResolveOrderAttempt_call:
  assumes "ResolveOrderAttempt sv req s = (r, s')" "db_ok (svc_db s)" "client_ids_nonblank (svc_db s)"
  shows "quiet s s' \<and> attempt_ids (svc_db s') = attempt_ids (svc_db s) \<and> db_ok (svc_db s')"
proof -
  obtain found db1 where f: "FindOrderAttempt 0 (rs_AccountId req) (rs_IntentId req) (rs_AttemptId req)
      (rs_ClientOrderId req) (svc_db s) = (found, db1)" by fastforce
  let ?s1 = "s\<lparr>svc_db := db1\<rparr>"
  have s1: "attempt_ids db1 = attempt_ids (svc_db s)" "db_ok db1"
    using FindOrderAttempt_reads [OF f] assms(2) same_tables_ids same_tables_ok by blast+
  have same: ?thesis if "s' = s \<or> s' = ?s1" using that s1 assms(2) by (auto simp: quiet_def)
  have loaded: ?thesis if "loadPersistedExecution aid ?s1 = (x, s')" for aid x
  proof -
    have l: "same_tables db1 (svc_db s')" "svc_trace s' = svc_trace s" using loadPersistedExecution_reads [OF that] by simp_all
    show ?thesis using same_tables_ids [OF l(1)] same_tables_ok [OF l(1)] l(2) s1 by (simp add: quiet_def)
  qed
  have resolved: ?thesis if "found = Inr attempt"
    "resolveAttempt sv meta attempt st se mk ?s1 = (resp, s')" for attempt meta st se mk resp
  proof -
    have run: "svc_runs attempt ?s1 s'" using resolveAttempt_run [OF that(2) _ rtranclp.rtrancl_refl] by simp
    have "owned (attempt_ids (svc_db ?s1)) (oa_AttemptID attempt) (oa_ClientOrderID attempt)"
      using found_owned [OF f [unfolded that(1)] assms(2,3)] by simp
    from runs_ids [OF run this] runs_quiet [OF run] runs_ok [OF run] s1 show ?thesis by (simp add: quiet_def)
  qed
  show ?thesis using assms(1) f same loaded resolved
    by (auto simp: ResolveOrderAttempt_def Let_def split: prod.splits sum.splits if_splits)
qed

lemma settled_no_exchange_call:
  assumes "ResolveOrderAttempt sv req s = (r, s')" "svc_trace s' \<noteq> svc_trace s"
  shows "\<exists>attempt db. FindOrderAttempt 0 (rs_AccountId req) (rs_IntentId req) (rs_AttemptId req)
      (rs_ClientOrderId req) (svc_db s) = (Inr attempt, db) \<and> \<not> isSettledAttempt (oa_Status attempt)"
  using assms loadPersistedExecution_reads(2)
  by (auto simp: ResolveOrderAttempt_def Let_def split: prod.splits sum.splits if_splits)

text \<open>
  What every history keeps: the tables are sound, no client order id is blank, the orders sent to
  an executor carry pairwise different client order ids, and each of these ids belongs to a stored attempt.
\<close>

definition history_inv :: "svc_state \<Rightarrow> bool" where
  "history_inv s = (db_ok (svc_db s) \<and> client_ids_nonblank (svc_db s)
     \<and> distinct (map xq_ClientOrderID (executions (svc_trace s)))
     \<and> (\<forall>q\<in>set (executions (svc_trace s)). client_used (svc_db s) (xq_ClientOrderID q)))"

lemma quiet_inv:
  assumes "history_inv s" "quiet s s'" "db_ok (svc_db s')" "client_ids_nonblank (svc_db s')"
    "set (attempt_ids (svc_db s)) \<subseteq> set (attempt_ids (svc_db s'))"
  shows "history_inv s'"
proof -
  have "client_used (svc_db s') c" if "client_used (svc_db s) c" for c
    using that assms(5) unfolding client_used_def by (rule subsetD [OF image_mono, rotated])
  then show ?thesis using assms(1-4) by (auto simp: history_inv_def quiet_def)
qed

lemma nonblank_append:
  assumes "client_ids_nonblank db" "attempt_ids db' = attempt_ids db @ [(a, Some (buildClientOrderID i a))]"
  shows "client_ids_nonblank db'"
  using assms trim_space_cons [of "CHR ''h''"]
  by (auto simp: client_ids_nonblank_def buildClientOrderID_def is_space_def)

lemma nonblank_cong: "attempt_ids db' = attempt_ids db \<Longrightarrow> client_ids_nonblank db' = client_ids_nonblank db"
  by (simp add: client_ids_nonblank_def)

lemma executed_inv:
  assumes "history_inv s" "executed_call s s'" "db_ok (svc_db s')"
  shows "history_inv s'"
proof -
  obtain i a q rest where q: "svc_trace s' = svc_trace s @ [IntentStored i, AttemptCreated a (buildClientOrderID i a),
       Reviewed DecisionAllow, ExecuteCalled q] @ rest" "executions rest = []" "xq_ClientOrderID q = buildClientOrderID i a"
    "\<not> client_used (svc_db s) (buildClientOrderID i a)"
    "attempt_ids (svc_db s') = attempt_ids (svc_db s) @ [(a, Some (buildClientOrderID i a))]"
    using assms(2) unfolding executed_call_def by blast
  have ex: "executions (svc_trace s') = executions (svc_trace s) @ [q]" using q(1,2) by simp
  have "client_used (svc_db s') c \<longleftrightarrow> client_used (svc_db s) c \<or> c = buildClientOrderID i a" for c
    using q(5) by (auto simp: client_used_def)
  then show ?thesis
    using assms nonblank_append [OF _ q(5)] q(3,4) unfolding history_inv_def ex by auto
qed

context order_service
begin

lemma place_inv:
  assumes "history_inv s"
  shows "history_inv (snd (PlaceOrder sv req s))"
proof -
  obtain r s' where c: "PlaceOrder sv req s = (r, s')" by fastforce
  have ok: "db_ok (svc_db s')" using PlaceOrder_call [OF c] assms by (simp add: history_inv_def)
  have nb: "client_ids_nonblank (svc_db s)" using assms by (simp add: history_inv_def)
  consider "executed_call s s'" | "unexecuted_call s s'" using PlaceOrder_call [OF c] by blast
  then have "history_inv s'"
  proof cases
    case 1
    then show ?thesis using executed_inv assms ok by blast
  next
    case 2
    then have "client_ids_nonblank (svc_db s')" "set (attempt_ids (svc_db s)) \<subseteq> set (attempt_ids (svc_db s'))"
      using nonblank_append [OF nb] nonblank_cong [of "svc_db s'" "svc_db s"] nb by (auto simp: unexecuted_call_def)
    then show ?thesis using quiet_inv [OF assms _ ok] 2 by (simp add: unexecuted_call_def)
  qed
  then show ?thesis by (simp add: c)
qed

lemma history_keeps: "history sv s \<Longrightarrow> history_inv s"
proof (induction rule: history.induct)
  case (start fs n)
  then show ?case using empty_db_ok integrity.faults_irrelevant [of fs empty_db]
    by (simp add: history_inv_def client_ids_nonblank_def attempt_ids_def empty_db_def)
next
  case (place s req)
  show ?case by (rule place_inv [OF place.IH])
next
  case (resolve s rq)
  obtain r s' where c: "ResolveOrderAttempt sv rq s = (r, s')" by fastforce
  have s': "quiet s s'" "attempt_ids (svc_db s') = attempt_ids (svc_db s)" "db_ok (svc_db s')"
    using ResolveOrderAttempt_call [OF c] resolve.IH by (simp_all add: history_inv_def)
  have "client_ids_nonblank (svc_db s')" using nonblank_cong [OF s'(2)] resolve.IH by (simp add: history_inv_def)
  then have "history_inv s'" using quiet_inv [OF resolve.IH s'(1,3)] s'(2) by simp
  then show ?case by (simp add: c)
next
  case (elsewhere s db)
  then show ?case by (simp add: history_inv_def client_ids_nonblank_def client_used_def)
qed

end

end
