(* ===== verification/Order_Queries.thy ===== *)
theory Order_Queries
  imports Order_Service_Facts
begin

text \<open>
  What the read operations of the order store return: rows of the asking user only, pages that
  partition the result, the open orders in the order they were touched, and the event log
  by cursor.
\<close>

subsection \<open>Pages\<close>

lemma set_applyLimitOffset: "set (applyLimitOffset limit offset rows) \<subseteq> set rows"
  by (auto simp: applyLimitOffset_def Let_def dest: in_set_takeD in_set_dropD)

lemma applyLimitOffset_page:
  "0 < limit \<Longrightarrow> applyLimitOffset (int limit) (int k * int limit) rows = take limit (drop (k * limit) rows)"
  by (auto simp: applyLimitOffset_def simp flip: of_nat_mult)

lemma pages_partition:
  assumes "0 < limit"
  shows "concat (map (\<lambda>k. applyLimitOffset (int limit) (int k * int limit) rows) [0..<n]) = take (n * limit) rows"
proof (induction n)
  case (Suc n)
  have "take (n * limit) rows @ take limit (drop (n * limit) rows) = take (n * limit + limit) rows"
    by (simp add: take_add)
  then show ?case using Suc applyLimitOffset_page [OF assms, of n rows] by (simp add: add.commute)
qed simp

lemma query_result: "query f db = (Inr x, db') \<Longrightarrow> x = f db'"
  by (auto simp: query_def stmt_def split: prod.splits fault.splits)

lemma query_tables: "query f db = (r, db') \<Longrightarrow> tables db' = tables db"
  by (auto simp: query_def stmt_def next_fault_def split: prod.splits fault.splits list.splits)

lemma paginated_Inr:
  assumes "paginated table wh rows scan limit offset db = (Inr (items, cnt), db')"
  obtains p d where "wh = Inr p" "items = map (scan db') (applyLimitOffset limit offset (rows db' p))"
    "cnt = int (length (rows d p))" "tables d = tables db" "tables db' = tables db"
proof -
  from assms obtain p where p: "wh = Inr p" by (cases wh) (simp_all add: paginated_def)
  with assms obtain d where d: "query (\<lambda>db. int (length (rows db p))) db = (Inr cnt, d)"
    "query (\<lambda>db. map (scan db) (applyLimitOffset limit offset (rows db p))) d = (Inr items, db')"
    by (auto simp: paginated_def then_db_Inr)
  show thesis
    using that [OF p query_result [OF d(2)] query_result [OF d(1)] query_tables [OF d(1)]]
      query_tables [OF d(1)] query_tables [OF d(2)] by simp
qed

lemma scoped_user: "buildIntentScopedWhere u acc st se = Inr p \<Longrightarrow> p i \<Longrightarrow> ri_user_id i = u"
  by (auto simp: buildIntentScopedWhere_def split: if_splits)

lemma pagedQuery_Inr:
  "pagedQuery u limit offset what fetch db = (Inr x, db') \<Longrightarrow>
     0 < u \<and> (\<exists>l k. normalizePage limit offset = (l, k) \<and> fetch l k db = (Inr x, db'))"
  by (auto simp: pagedQuery_def split: prod.splits sum.splits if_splits)

text \<open>The rows a query scopes to a user carry that user.\<close>

lemma scoped_rows:
  assumes "pagedQuery u limit offset what (paginated table (buildIntentScopedWhere u acc st se) rows scan) db
      = (Inr (items, cnt), db')"
    and "\<And>db p r. r \<in> set (rows db p) \<Longrightarrow> \<exists>i. p i \<and> user (scan db r) = ri_user_id i"
  shows "\<forall>x\<in>set items. user x = u"
proof -
  from pagedQuery_Inr [OF assms(1)] obtain l k where
    "paginated table (buildIntentScopedWhere u acc st se) rows scan l k db = (Inr (items, cnt), db')" by blast
  from paginated_Inr [OF this] obtain p where p: "buildIntentScopedWhere u acc st se = Inr p"
    and items: "items = map (scan db') (applyLimitOffset l k (rows db' p))" by metis
  have "user (scan db' r) = u" if "r \<in> set (applyLimitOffset l k (rows db' p))" for r
    using assms(2) [of r db' p] that set_applyLimitOffset scoped_user [OF p] by (metis subsetD)
  then show ?thesis by (simp add: items)
qed

lemma QueryOrderIntents_user:
  assumes "QueryOrderIntents u acc st se limit offset db = (Inr (items, cnt), db')"
  shows "\<forall>x\<in>set items. oi_UserID x = u"
  using assms unfolding QueryOrderIntents_def QueryOrderIntentsPaginated_def
  by (rule scoped_rows) (auto simp: scan_intent_def)

lemma QueryOrderAttempts_user:
  assumes "QueryOrderAttempts u acc st se i limit offset db = (Inr (items, cnt), db')"
  shows "\<forall>x\<in>set items. oa_UserID x = u"
  using assms unfolding QueryOrderAttempts_def QueryOrderAttemptsPaginated_def
  by (rule scoped_rows) (auto simp: scan_attempt_def)

lemma QueryOrders_user:
  assumes "QueryOrders u acc st se i a limit offset db = (Inr (items, cnt), db')"
  shows "\<forall>x\<in>set items. or_UserID x = u"
  using assms unfolding QueryOrders_def QueryOrdersPaginated_def
  by (rule scoped_rows) (auto simp: scan_order_def)

lemma QueryOrderFills_user:
  assumes "QueryOrderFills u acc st se i a ord limit offset db = (Inr (items, cnt), db')"
  shows "\<forall>x\<in>set items. of_UserID x = u"
  using assms unfolding QueryOrderFills_def QueryOrderFillsPaginated_def
  by (rule scoped_rows) (auto simp: scan_fill_def)

subsection \<open>Open orders\<close>

lemma join_order_in: "(o', i, a) \<in> set (join_order db) \<Longrightarrow> o' \<in> set (db_orders db) \<and> attempt_of db (ro_attempt_id o') = Some a"
  by (auto simp: join_order_def join_intent_def split: option.splits)

lemma open_order_limit_bounds: "0 < open_order_limit limit" "open_order_limit limit \<le> 500"
  by (auto simp: open_order_limit_def Let_def)

lemma sorted_keys_append: "sorted (map k (xs @ ys)) \<Longrightarrow> x \<in> set xs \<Longrightarrow> y \<in> set ys \<Longrightarrow> k x \<le> k y"
  by (induction xs) auto

text \<open>
  The listing returns the oldest open orders: what it leaves out was touched no earlier than
  everything it returns.
\<close>

lemma listOpenOrders_oldest:
  assumes "listOpenOrders now limit dueOnly db = (Inr listed, db')"
  obtains kept left where "listed = map (\<lambda>(o', i, a). scanOpenOrder o' i a) kept"
    "mset (kept @ left) = mset (filter (listed_open now dueOnly) (join_order db'))"
    "sorted (map open_order_key (kept @ left))"
    "int (length kept) \<le> open_order_limit limit" "left \<noteq> [] \<Longrightarrow> int (length kept) = open_order_limit limit"
proof -
  let ?rows = "sort_key open_order_key (filter (listed_open now dueOnly) (join_order db'))"
  let ?n = "nat (open_order_limit limit)"
  have "listed = map (\<lambda>(o', i, a). scanOpenOrder o' i a) (take ?n ?rows)"
    using assms unfolding listOpenOrders_def wrap_db_Inr by (rule query_result)
  moreover have "mset (take ?n ?rows @ drop ?n ?rows) = mset (filter (listed_open now dueOnly) (join_order db'))" by simp
  moreover have "sorted (map open_order_key (take ?n ?rows @ drop ?n ?rows))" by simp
  moreover have "int (length (take ?n ?rows)) \<le> open_order_limit limit"
    using open_order_limit_bounds(1) [of limit] by auto
  moreover have "int (length (take ?n ?rows)) = open_order_limit limit" if "drop ?n ?rows \<noteq> []"
    using that open_order_limit_bounds(1) [of limit] by auto
  ultimately show thesis using that [of "take ?n ?rows" "drop ?n ?rows"] by blast
qed

text \<open>
  What the work list of the scanner is meant to hold, column by column, independently of the query: the row of an order with its intent
  and its attempt, an open recovery status (an order never recovered counts by its status, NEW or PARTIALLY_FILLED), a next
  check that has come or was never set, a venue, and one of the three identifiers; first the oldest update, then the oldest order,
  then the smallest order id.
\<close>

definition due_order :: "time \<Rightarrow> order_db \<Rightarrow> order_row \<times> intent_row \<times> attempt_row \<Rightarrow> bool" where
  "due_order now db = (\<lambda>(o', i, a). o' \<in> set (db_orders db)
     \<and> find (\<lambda>i. ri_intent_id i = ro_intent_id o') (db_intents db) = Some i
     \<and> find (\<lambda>a. ra_attempt_id a = ro_attempt_id o') (db_attempts db) = Some a
     \<and> (ro_recovery_status o' \<in> {''OPEN'', ''PARTIALLY_FILLED'', ''FILL_PENDING'', ''FEE_MISSING'', ''RECOVERING''}
        \<or> ro_recovery_status o' = [] \<and> ro_status o' \<in> {1, 2})
     \<and> (\<forall>t. ro_next_check_at o' = Some t \<longrightarrow> t \<le> now)
     \<and> 0 < ri_venue_id i
     \<and> \<not> {ro_exchange_order_id o', ro_client_order_id o', ra_client_order_id a} \<subseteq> {None, Some []})"

definition no_later :: "order_row \<Rightarrow> order_row \<Rightarrow> bool" where
  "no_later x y \<longleftrightarrow> ro_updated_at x < ro_updated_at y
     \<or> ro_updated_at x = ro_updated_at y \<and> (ro_time x < ro_time y \<or> ro_time x = ro_time y \<and> ro_order_id x \<le> ro_order_id y)"

definition item_of_rows :: "OpenOrder \<Rightarrow> order_row \<times> intent_row \<times> attempt_row \<Rightarrow> bool" where
  "item_of_rows item = (\<lambda>(o', i, a). oo_OrderID item = ro_order_id o' \<and> oo_AttemptID item = ro_attempt_id o'
     \<and> oo_IntentID item = ri_intent_id i \<and> oo_AccountID item = ri_account_id i \<and> oo_VenueID item = ri_venue_id i
     \<and> oo_Exchange item = ri_exchange i \<and> oo_Market item = ri_market i \<and> oo_Environment item = ri_environment i
     \<and> oo_Symbol item = ri_symbol i \<and> oo_PositionSide item = ri_position_side i
     \<and> oo_SessionID item = (case ri_session_id i of None \<Rightarrow> [] | Some x \<Rightarrow> x)
     \<and> oo_RecoveryStatus item = (if ro_recovery_status o' \<noteq> [] then ro_recovery_status o'
          else if ro_status o' = 1 then ''OPEN'' else if ro_status o' = 2 then ''PARTIALLY_FILLED'' else [])
     \<and> oo_RecoveryStartedAt item = (case ro_recovery_started_at o' of None \<Rightarrow> 0 | Some t \<Rightarrow> t)
     \<and> oo_NextCheckAt item = (case ro_next_check_at o' of None \<Rightarrow> 0 | Some t \<Rightarrow> t)
     \<and> oo_ExchangeOrderID item = (case ro_exchange_order_id o' of None \<Rightarrow> [] | Some x \<Rightarrow> x)
     \<and> (\<forall>c. c \<noteq> [] \<and> (ro_client_order_id o' = Some c \<or> ro_client_order_id o' \<in> {None, Some []} \<and> ra_client_order_id a = Some c)
          \<longrightarrow> oo_ClientOrderID item = c)
     \<and> oo_RecoveryDeadlineAt item = (case ro_recovery_deadline_at o' of None \<Rightarrow> 0 | Some t \<Rightarrow> t))"

lemma scanned_item: "item_of_rows (scanOpenOrder o' i a) (o', i, a)"
  by (auto simp: item_of_rows_def scanOpenOrder_def coalesce_str_def effective_client_id_def nullif_empty_def or_else_def
      zero_if_null_def effective_recovery_status_def split: option.split)

lemma due_order_listed: "x \<in> set (filter (listed_open now True) (join_order db)) \<longleftrightarrow> due_order now db x"
proof -
  obtain o' i a where x: "x = (o', i, a)" by (cases x) auto
  have "x \<in> set (join_order db) \<longleftrightarrow> o' \<in> set (db_orders db) \<and> intent_of db (ro_intent_id o') = Some i
      \<and> attempt_of db (ro_attempt_id o') = Some a"
    by (auto simp: x join_order_def join_intent_def split: option.splits)
  moreover have "listed_open now True x \<longleftrightarrow>
      (ro_recovery_status o' \<in> {''OPEN'', ''PARTIALLY_FILLED'', ''FILL_PENDING'', ''FEE_MISSING'', ''RECOVERING''}
        \<or> ro_recovery_status o' = [] \<and> ro_status o' \<in> {1, 2})
     \<and> (\<forall>t. ro_next_check_at o' = Some t \<longrightarrow> t \<le> now) \<and> 0 < ri_venue_id i
     \<and> \<not> {ro_exchange_order_id o', ro_client_order_id o', ra_client_order_id a} \<subseteq> {None, Some []}"
    unfolding x listed_open_def is_open_row_def effective_recovery_status_def open_recovery_statuses_def coalesce_str_def
    by (auto split: option.splits if_splits)
  ultimately show ?thesis by (auto simp: x due_order_def intent_of_def attempt_of_def)
qed

lemma join_order_rows: "mset (map fst (join_order db)) \<subseteq># mset (db_orders db)"
proof -
  have "mset (map fst (concat (map (\<lambda>(o', i). case attempt_of db (ro_attempt_id o') of None \<Rightarrow> [] | Some a \<Rightarrow> [(o', i, a)])
      (join_intent db ro_intent_id rows)))) \<subseteq># mset rows" for rows
  proof (induction rows)
    case (Cons r rows)
    then show ?case
      by (auto simp: join_intent_def intro: subset_mset.order_trans mset_subset_eq_add_right split: option.split)
  qed (simp add: join_intent_def)
  then show ?thesis by (simp add: join_order_def)
qed

lemma no_later_key: "open_order_key x \<le> open_order_key y \<longleftrightarrow> no_later (fst x) (fst y)"
  by (cases x; cases y) (auto simp: open_order_key_def no_later_def less_eq_prod_def less_prod_def)

lemma due_orders_listed:
  assumes "ListDueOpenOrders now limit db = (Inr listing, db')"
  obtains kept left where "list_all2 item_of_rows listing kept" "\<forall>x. x \<in> set (kept @ left) \<longleftrightarrow> due_order now db' x"
    "mset (map fst (kept @ left)) \<subseteq># mset (db_orders db')" "sorted_wrt no_later (map fst (kept @ left))"
    "length listing = min (length (kept @ left)) (nat (if limit \<le> 0 then 50 else min limit 500))"
proof -
  obtain kept left where k: "listing = map (\<lambda>(o', i, a). scanOpenOrder o' i a) kept"
    "mset (kept @ left) = mset (filter (listed_open now True) (join_order db'))"
    "sorted (map open_order_key (kept @ left))" "int (length kept) \<le> open_order_limit limit"
    "left \<noteq> [] \<Longrightarrow> int (length kept) = open_order_limit limit"
    using listOpenOrders_oldest [OF assms [unfolded ListDueOpenOrders_def]] by blast
  have "list_all2 item_of_rows listing kept"
    unfolding k(1) by (auto simp: list_all2_conv_all_nth scanned_item split: prod.split)
  moreover have "x \<in> set (kept @ left) \<longleftrightarrow> due_order now db' x" for x
    using mset_eq_setD [OF k(2)] due_order_listed by blast
  moreover have "mset (map fst (kept @ left)) \<subseteq># mset (db_orders db')"
  proof -
    have "mset (map fst (kept @ left)) = image_mset fst (mset (kept @ left))" by simp
    also have "\<dots> \<subseteq># mset (map fst (join_order db'))" unfolding k(2) by (simp add: image_mset_subseteq_mono)
    finally show ?thesis using join_order_rows subset_mset.order_trans by blast
  qed
  moreover have "sorted_wrt no_later (map fst (kept @ left))"
    using k(3) by (simp only: sorted_wrt_map no_later_key)
  moreover have "length listing = min (length (kept @ left)) (nat (if limit \<le> 0 then 50 else min limit 500))"
  proof -
    have "open_order_limit limit = (if limit \<le> 0 then 50 else min limit 500)" by (simp add: open_order_limit_def Let_def)
    then show ?thesis using k(1,4,5) by (cases "left = []") auto
  qed
  ultimately show thesis using that by blast
qed

subsection \<open>The event log by cursor\<close>

lemma take_sorted_prefix:
  assumes "sorted (map k xs)" "x \<in> set xs" "take n xs \<noteq> []" "k x < k (last (take n xs))"
  shows "x \<in> set (take n xs)"
proof (rule ccontr)
  assume "x \<notin> set (take n xs)"
  then have "x \<in> set (drop n xs)" using assms(2) by (metis Un_iff append_take_drop_id set_append)
  then have "k (last (take n xs)) \<le> k x"
    using assms(1,3) sorted_keys_append [of k "take n xs" "drop n xs"] by simp
  with assms(4) show False by simp
qed

lemma ListLifecycleEvents_page:
  assumes "ListLifecycleEvents sessionID after limit db = (Inr page, db')"
  shows "\<exists>rows. page = map scan_event rows \<and> sorted (map re_event_id rows)
    \<and> (\<forall>r\<in>set rows. r \<in> set (db_events db') \<and> re_session_id r = Some (trim_space sessionID) \<and> after < re_event_id r)
    \<and> int (length rows) \<le> event_limit limit
    \<and> (\<forall>r\<in>set (db_events db'). re_session_id r = Some (trim_space sessionID) \<and> after < re_event_id r
        \<and> (rows \<noteq> [] \<longrightarrow> re_event_id r < re_event_id (last rows)) \<longrightarrow> r \<in> set rows)"
proof -
  let ?f = "\<lambda>r. re_session_id r = Some (trim_space sessionID) \<and> after < re_event_id r"
  let ?sorted = "sort_key re_event_id (filter ?f (db_events db'))"
  let ?n = "nat (event_limit limit)"
  have n: "0 < event_limit limit" by (simp add: event_limit_def Let_def)
  from assms have "query (\<lambda>db. map scan_event (take ?n (sort_key re_event_id (filter ?f (db_events db))))) db = (Inr page, db')"
    by (auto simp: ListLifecycleEvents_def Let_def split: if_splits)
  then have "page = map scan_event (take ?n ?sorted)" by (rule query_result)
  moreover have "sorted (map re_event_id (take ?n ?sorted))" 
    by (simp only: take_map [symmetric] sorted_wrt_take sorted_sort_key)
  moreover have "\<forall>r\<in>set (take ?n ?sorted). r \<in> set (db_events db') \<and> ?f r" by (auto dest: in_set_takeD)
  moreover have "int (length (take ?n ?sorted)) \<le> event_limit limit" using n by auto
  moreover have "r \<in> set (take ?n ?sorted)" if "r \<in> set (db_events db')" "?f r"
    "take ?n ?sorted \<noteq> [] \<longrightarrow> re_event_id r < re_event_id (last (take ?n ?sorted))" for r
  proof -
    have r: "r \<in> set ?sorted" using that(1,2) by simp
    then have "?sorted \<noteq> []" by (metis list.set(1) empty_iff)
    then have "take ?n ?sorted \<noteq> []" using n by simp
    with that(3) r show ?thesis by (intro take_sorted_prefix) simp_all
  qed
  ultimately show ?thesis by (intro exI [of _ "take ?n ?sorted"]) blast
qed

end
