(* ===== verification/Scenario.thy ===== *)
theory Scenario
  imports Order_History Order_Queries Scanner User_Data
begin

text \<open>
  Concrete inputs for the theorems of the development: a demo spot venue with one symbol, its
  registry and wallet, an order service over the backtest executor, and requests for it.
\<close>

definition demoMeta :: Meta where
  "demoMeta = \<lparr>me_AccountID = 7, me_VenueID = 3, me_UserID = 11, me_Environment = EnvironmentDemo,
     me_Exchange = ExchangeBinance, me_Market = MarketSpot, me_MarginMode = [], me_PositionMode = [],
     me_APIKey = ''key'', me_APISecret = ''secret'', me_CredentialJSON = ''{}'', me_DefaultFeeRate = 0,
     me_SlippageBps = 0\<rparr>"

definition demoRule :: SymbolRule where
  "demoRule = \<lparr>sy_Symbol = ''BTCUSDT'', sy_Market = MarketSpot, sy_MinQty = 1, sy_StepSize = 1,
     sy_MinNotional = Fin 5, sy_TickSize = 1\<rparr>"

definition demoCapability :: OrderCapability where
  "demoCapability = \<lparr>cap_Market = MarketSpot, cap_OrderTypes = [''MARKET'', ''LIMIT''], cap_TimeInForce = [''GTC''],
     cap_SupportsPostOnly = False, cap_SupportsGTD = False, cap_SupportsReduceOnly = False\<rparr>"

definition demoFactory :: Factory where
  "demoFactory = \<lparr>fac_SymbolRulesReader = Inr (\<lambda>_. Inr [demoRule]), fac_OrderExecutor = Inl (CapabilityUnsupported []),
     fac_OrderCapabilityProvider = Inr (Inr demoCapability), fac_OrderStateReader = Inl (CapabilityUnsupported [])\<rparr>"

definition demoRegistry :: Registry where
  "demoRegistry = Register \<lparr>rt_Exchange = ExchangeBinance, rt_Environment = EnvironmentDemo, rt_Market = MarketSpot\<rparr>
     demoFactory NewRegistry"

definition demoWallet :: OnlineAccountInfo where
  "demoWallet = zero_OnlineAccountInfo\<lparr>oai_Spot := \<lparr>sw_Free = Fin 1000, sw_Locked = 0,
     sw_Assets = [\<lparr>sa_Symbol = ''USDT'', sa_Qty = Fin 1000, sa_Locked = 0, sa_AvgEntryPrice = 1, sa_Price = None\<rparr>,
       \<lparr>sa_Symbol = ''BTC'', sa_Qty = Fin 4, sa_Locked = 1, sa_AvgEntryPrice = Fin 90, sa_Price = None\<rparr>]\<rparr>\<rparr>"

definition demoUUID :: "nat \<Rightarrow> string" where
  "demoUUID n = CHR ''u'' # show_int (int n) @ ''-0000-4000-8000''"

definition demoClock :: "nat \<Rightarrow> time" where
  "demoClock n = 63858672000000000000 + int n"

definition demoService :: OrderService where
  "demoService = \<lparr>sv_GetMeta = (\<lambda>_ _ _. Inr demoMeta), sv_ValidateActiveSession = (\<lambda>_ _ _. None),
     sv_Execute = (\<lambda>n req meta. MockExecutor_Execute (demoUUID n) (demoClock n) req meta),
     sv_Resolve = (\<lambda>_ req meta. MockExecutor_Resolve req meta),
     sv_riskGate = None, sv_clock = demoClock, sv_uuid = demoUUID\<rparr>"

definition demoCore :: OrderService where
  "demoCore = coreService id demoRegistry (\<lambda>_ _. Inr demoWallet) demoService"

definition demoRequest :: PlaceOrderRequest where
  "demoRequest = \<lparr>pr_AccountId = 7, pr_Symbol = ''BTCUSDT'', pr_Side = ''buy'', pr_Qty = Fin 2, pr_Price = None,
     pr_MarkPrice = Fin 100, pr_StrategyId = 5, pr_SessionId = ''s1'', pr_IntentId = ''intent-1'', pr_Exchange = 1,
     pr_Market = 1, pr_PositionSide = 0, pr_MarketTime = None, pr_OrderType = ''MARKET'', pr_TimeInForce = [],
     pr_PostOnly = False, pr_GoodTillDate = None, pr_ReduceOnly = False\<rparr>"

definition demoStart :: svc_state where
  "demoStart = \<lparr>svc_db = empty_db, svc_tick = 0, svc_trace = []\<rparr>"

text \<open>
  One evaluation of the order service on the demo venue: a market buy of 2 BTC at 100 against 1000 USDT
  is allowed, executed once, stored and reported.
\<close>

definition demoPlaced :: svc_state where
  "demoPlaced = snd (PlaceOrder demoCore demoRequest demoStart)"

definition demoResolve :: ResolveRequest where
  "demoResolve = \<lparr>rs_AccountId = 7, rs_IntentId = ''intent-1'', rs_AttemptId = [], rs_ClientOrderId = []\<rparr>"

definition demoFind :: "svc_state \<Rightarrow> OrderAttempt result \<times> order_db" where
  "demoFind s = FindOrderAttempt 0 (rs_AccountId demoResolve) (rs_IntentId demoResolve) (rs_AttemptId demoResolve)
     (rs_ClientOrderId demoResolve) (svc_db s)"

definition demo_ok :: "PlaceOrderResponse result \<times> svc_state \<Rightarrow> bool" where
  "demo_ok = (\<lambda>(r, s).
     (case r of Inr resp \<Rightarrow> ps_AttemptStatus resp = ''ACCEPTED'' \<and> ps_Order resp \<noteq> None \<and> length (ps_FillDeltas resp) = 1
      | Inl _ \<Rightarrow> False)
     \<and> length (executions (svc_trace s)) = 1
     \<and> (case fst (demoFind s) of Inr attempt \<Rightarrow> isSettledAttempt (oa_Status attempt) | Inl _ \<Rightarrow> False)
     \<and> (case fst (QueryOrders 11 0 0 [] [] [] 10 0 (svc_db s)) of Inr (items, n) \<Rightarrow> items \<noteq> [] | Inl _ \<Rightarrow> False)
     \<and> (case fst (ListLifecycleEvents ''s1'' 0 10 (svc_db s)) of Inr page \<Rightarrow> page \<noteq> [] | Inl _ \<Rightarrow> False))"

lemma demo_run: "demo_ok (PlaceOrder demoCore demoRequest demoStart)"
  by code_simp

lemma demo_placed:
  "\<exists>resp order. PlaceOrder demoCore demoRequest demoStart = (Inr resp, demoPlaced)
     \<and> ps_AttemptStatus resp = ''ACCEPTED'' \<and> ps_Order resp = Some order \<and> executions (svc_trace demoPlaced) \<noteq> []"
proof -
  obtain r s where p: "PlaceOrder demoCore demoRequest demoStart = (r, s)" by fastforce
  then have "demo_ok (r, s)" "s = demoPlaced" using demo_run by (simp_all add: demoPlaced_def)
  then show ?thesis using p by (cases r) (auto simp: demo_ok_def)
qed

lemma demo_found: "\<exists>attempt db. demoFind demoPlaced = (Inr attempt, db) \<and> isSettledAttempt (oa_Status attempt)"
proof -
  have "case fst (demoFind demoPlaced) of Inr attempt \<Rightarrow> isSettledAttempt (oa_Status attempt) | Inl _ \<Rightarrow> False"
    using demo_run unfolding demo_ok_def demoPlaced_def by (simp add: case_prod_beta)
  then show ?thesis by (cases "demoFind demoPlaced"; cases "fst (demoFind demoPlaced)") auto
qed

lemma demo_history: "history demoCore demoPlaced"
  using history.place [OF history.start [of demoCore "[]" 0]]
  by (simp add: demoPlaced_def demoStart_def empty_db_def)

lemma demo_query: "\<exists>items n db. QueryOrders 11 0 0 [] [] [] 10 0 (svc_db demoPlaced) = (Inr (items, n), db) \<and> items \<noteq> []"
proof -
  let ?q = "QueryOrders 11 0 0 [] [] [] 10 0 (svc_db demoPlaced)"
  have "case fst ?q of Inr (items, n) \<Rightarrow> items \<noteq> [] | Inl _ \<Rightarrow> False"
    using demo_run unfolding demo_ok_def demoPlaced_def by (simp add: case_prod_beta)
  then show ?thesis by (cases ?q; cases "fst ?q") auto
qed

lemma demo_events: "\<exists>page db. ListLifecycleEvents ''s1'' 0 10 (svc_db demoPlaced) = (Inr page, db) \<and> page \<noteq> []"
proof -
  let ?q = "ListLifecycleEvents ''s1'' 0 10 (svc_db demoPlaced)"
  have "case fst ?q of Inr page \<Rightarrow> page \<noteq> [] | Inl _ \<Rightarrow> False"
    using demo_run unfolding demo_ok_def demoPlaced_def by (simp add: case_prod_beta)
  then show ?thesis by (cases ?q; cases "fst ?q") auto
qed

lemma demo_db_ok: "db_ok (svc_db demoPlaced)"
  using core_service.history_keeps [OF demo_history [unfolded demoCore_def]] by (simp add: history_inv_def)

text \<open>
  A limit buy at 50 rests on the book.  While it is open the gate refuses the next order of its route, and
  the scanner, once the exchange reports it filled, records its trade and its end.
\<close>

definition demoLater :: time where
  "demoLater = demoClock 0 + 6 * second"

definition demoLimit :: PlaceOrderRequest where
  "demoLimit = demoRequest\<lparr>pr_Price := Some (Fin 50), pr_OrderType := ''LIMIT'', pr_IntentId := ''intent-2''\<rparr>"

definition demoResting :: svc_state where
  "demoResting = snd (PlaceOrder demoCore demoLimit demoStart)"

definition demoReader :: OrderStateReader where
  "demoReader = \<lparr>rd_QueryOrder = (\<lambda>_ order. Inr (zero_OrderState\<lparr>os_Status := ''FILLED'', os_OrigQty := Fin 2,
       os_ExecutedQty := Fin 2, os_AvgPrice := Fin 50\<rparr>)),
     rd_QueryTrades = (\<lambda>_ order. Inr [zero_FillDelta\<lparr>fd_ExchangeTradeID := ''t1'', fd_Qty := Fin 2, fd_FillPrice := Fin 50\<rparr>]),
     rd_CancelOrder = None\<rparr>"

definition demoConfig :: ScannerConfig where
  "demoConfig = NewScannerWithCanceller \<lparr>cfg_BatchSize = 0, cfg_InitialBackoff = 0, cfg_MaxBackoff = 0, cfg_RecoveryDeadline = 0\<rparr>"

definition demoScanStart :: "svc_state \<Rightarrow> order_db scan_state" where
  "demoScanStart s = \<lparr>scn_db = svc_db s, scn_backoff = (\<lambda>_. None), scn_calls = 0, scn_trace = []\<rparr>"

definition demoScan :: "svc_state \<Rightarrow> nat \<times> error option \<times> order_db scan_state" where
  "demoScan s = ScanOnce (timescaleStore demoLater) demoReader demoConfig demoLater demoLater (demoScanStart s)"

definition demo_review :: "svc_state \<Rightarrow> Decision result \<times> order_db" where
  "demo_review s = Review id (coreGate demoRegistry (\<lambda>_ _. Inr demoWallet) demoLater) demoLater
     (reviewRequest demoRequest demoMeta ''BUY'' \<lparr>oc_Code = 1, oc_Type = ''MARKET'', oc_TimeInForce = []\<rparr>) (svc_db s)"

definition demoPush :: UserDataOrderEvent where
  "demoPush = \<lparr>ud_EventSource = EventSourceWebsocket, ud_EventTime = demoLater, ud_Symbol = ''BTCUSDT'', ud_ClientOrderID = [],
     ud_ExchangeOrderID = ''u3-0000-4000-8000'', ud_ExchangeTradeID = ''t7'', ud_Side = ''BUY'', ud_PositionSide = [],
     ud_OrderType = ''LIMIT'', ud_TimeInForce = ''GTC'', ud_OrderStatus = ''FILLED'', ud_ExecutionType = ''TRADE'',
     ud_LastFilledQty = Fin 2, ud_LastFilledPrice = Fin 50, ud_AccumulatedFilledQty = Fin 2, ud_Fee = 0, ud_FeeAsset = ''USDT'',
     ud_ReduceOnly = False\<rparr>"

definition resting_ok :: "svc_state \<Rightarrow> bool" where
  "resting_ok s = (db_events (svc_db s) = []
     \<and> (case fst (ListDueOpenOrders demoLater 10 (svc_db s)) of Inr os \<Rightarrow> length os = 1 | Inl _ \<Rightarrow> False)
     \<and> (case fst (demo_review s) of Inr d \<Rightarrow> dc_Status d = DecisionReject \<and> dc_ReasonCode d = ''ROUTE_PENDING_EXECUTION'' | Inl _ \<Rightarrow> False)
     \<and> fst (demoScan s) = 2
     \<and> is_ok (fst (ListOpenOrders demoLater 50 (svc_db s)))
     \<and> fst (UserDataIngestor_Ingest (timescaleIngestStore demoLater) demoLater 3 demoPush (svc_db s)) = None)"

lemma resting_run: "resting_ok demoResting"
  by code_simp

lemma resting_listed:
  "\<exists>listed db. ListDueOpenOrders demoLater 10 (svc_db demoResting) = (Inr listed, db) \<and> length listed = 1"
proof -
  let ?q = "ListDueOpenOrders demoLater 10 (svc_db demoResting)"
  have "case fst ?q of Inr os \<Rightarrow> length os = 1 | Inl _ \<Rightarrow> False"
    using resting_run unfolding resting_ok_def by simp
  then show ?thesis by (cases ?q; cases "fst ?q") auto
qed

lemma resting_log_ok: "log_ok (svc_db demoResting)"
proof -
  have "history demoCore demoResting"
    using history.place [OF history.start [of demoCore "[]" 0]] by (simp add: demoResting_def demoStart_def empty_db_def)
  from core_service.history_keeps [OF this [unfolded demoCore_def]] resting_run show ?thesis
    by (simp add: history_inv_def log_ok_def resting_ok_def)
qed

text \<open>An event of the user data stream for a trade.\<close>

definition demoEvent :: Event where
  "demoEvent = zero_Event\<lparr>ev_SessionID := ''s1'', ev_AccountID := 7, ev_VenueID := 3, ev_Environment := 1, ev_Exchange := 1,
     ev_Market := 1, ev_Side := ''BUY'', ev_OrderID := ''o1'', ev_ExchangeOrderID := ''x1'', ev_ExchangeTradeID := ''t1'',
     ev_EventType := ''fill'', ev_EventSource := EventSourceWebsocket,
     ev_FillDelta := zero_FillDelta\<lparr>fd_Symbol := ''BTCUSDT'', fd_Qty := Fin 2, fd_FillPrice := Fin 50\<rparr>, ev_OccurredAt := 5\<rparr>"

lemma demo_saved: "\<exists>saved db1. SaveLifecycleEvent 10 demoEvent empty_db = (Inr saved, db1) \<and> db_faults db1 = []"
proof -
  let ?q = "SaveLifecycleEvent 10 demoEvent empty_db"
  have "case ?q of (r, db) \<Rightarrow> is_ok r \<and> db_faults db = []" by code_simp
  then show ?thesis by (cases ?q; cases "fst ?q") auto
qed

lemma demo_event_key: "\<not> is_zero (ev_OccurredAt demoEvent)" "EventIdentityKey (normalized_event 10 demoEvent) \<noteq> []"
  by code_simp+

text \<open>What the gate decides on the demo venue, with nothing pending.\<close>

definition demoReview :: ReviewRequest where
  "demoReview = reviewRequest demoRequest demoMeta ''BUY'' \<lparr>oc_Code = 1, oc_Type = ''MARKET'', oc_TimeInForce = []\<rparr>"

definition demoGate :: "order_db DefaultGate" where
  "demoGate = coreGate demoRegistry (\<lambda>_ _. Inr demoWallet) demoLater"

definition allows :: "Decision result \<times> order_db \<Rightarrow> bool" where
  "allows r = (case fst r of Inr d \<Rightarrow> dc_Status d = DecisionAllow | Inl _ \<Rightarrow> False)"

lemma allowsE: "allows r \<Longrightarrow> \<exists>d. fst r = Inr d \<and> dc_Status d = DecisionAllow"
  by (auto simp: allows_def split: sum.splits)

lemma demo_allowed: "allows (Review id demoGate demoLater demoReview empty_db)"
  by code_simp

lemma demo_sell_allowed: "allows (Review id demoGate demoLater (demoReview\<lparr>rq_Side := ''SELL''\<rparr>) empty_db)"
  by code_simp

definition demoFuturesWallet :: OnlineAccountInfo where
  "demoFuturesWallet = zero_OnlineAccountInfo\<lparr>oai_AvailableBalance := Fin 30, oai_Futures := zero_FuturesWallet
     \<lparr>fw_RiskMetadata := [\<lparr>wm_Symbol = ''BTCUSDT'', wm_ConfiguredLeverage = Fin 10, wm_ConfiguredMarginMode = ''cross'',
        wm_PricePrecision = 2, wm_QuantityPrecision = 3, wm_TickSize = 1, wm_StepSize = 1, wm_Brackets = []\<rparr>]\<rparr>\<rparr>"

definition demoFuturesRegistry :: Registry where
  "demoFuturesRegistry = Register \<lparr>rt_Exchange = ExchangeBinance, rt_Environment = EnvironmentDemo,
     rt_Market = MarketPerpetualFutures\<rparr> demoFactory NewRegistry"

lemma demo_futures_allowed:
  "allows (Review id (coreGate demoFuturesRegistry (\<lambda>_ _. Inr demoFuturesWallet) demoLater) demoLater
     (demoReview\<lparr>rq_Market := MarketPerpetualFutures\<rparr>) empty_db)"
  by code_simp

text \<open>
  An exchange that fills an order at once but reports its trades late.  The scanner records the trade, and a
  later recovery of the attempt stores it again.
\<close>

definition lateResult :: "FillResult list \<Rightarrow> OrderResult" where
  "lateResult fills = zero_OrderResult\<lparr>xr_ExchangeOrderID := ''x9'', xr_Symbol := ''BTCUSDT'', xr_Side := ''BUY'',
     xr_Status := ''FILLED'', xr_OrigQty := Fin 2, xr_ExecutedQty := Fin 2, xr_AvgPrice := Fin 50, xr_Fills := fills,
     xr_FillPending := (fills = [])\<rparr>"

definition lateService :: OrderService where
  "lateService = coreService id demoRegistry (\<lambda>_ _. Inr demoWallet) (demoService
     \<lparr>sv_Execute := (\<lambda>_ _ _. Inr (lateResult [])),
      sv_Resolve := (\<lambda>_ _ _. Inr (lateResult [\<lparr>fl_ExchangeTradeID = ''t1'', fl_Qty = Fin 2, fl_FillPrice = Fin 50,
        fl_Fee = 0, fl_FeeMissing = False\<rparr>]))\<rparr>)"

definition lateScan :: "svc_state \<Rightarrow> svc_state" where
  "lateScan s = s\<lparr>svc_db := scn_db (snd (snd (demoScan s)))\<rparr>"

definition lateRun :: svc_state where
  "lateRun = snd (ResolveOrderAttempt lateService demoResolve
     (lateScan (snd (PlaceOrder lateService demoRequest demoStart))))"

definition stored_fills :: "string \<Rightarrow> order_db \<Rightarrow> nat" where
  "stored_fills tradeID db = length (filter (\<lambda>f. rf_exchange_trade_id f = Some tradeID) (db_fills db))"

text \<open>An order for the backtest executor and the key of a stream.\<close>

definition demoOrder :: OrderRequest where
  "demoOrder = (executorRequest demoRequest demoMeta ''BUY'' \<lparr>oc_Code = 2, oc_Type = ''LIMIT'', oc_TimeInForce = ''GTC''\<rparr> ''c1'')
     \<lparr>xq_Price := Some (Fin 120)\<rparr>"

definition demoKey :: userDataStreamKey where
  "demoKey = \<lparr>uk_accountID = 7, uk_venueID = 3, uk_exchange = 1, uk_environment = 1, uk_market = 1\<rparr>"

lemma resting_open: "\<exists>orders db. ListOpenOrders demoLater 50 (svc_db demoResting) = (Inr orders, db)"
proof -
  let ?q = "ListOpenOrders demoLater 50 (svc_db demoResting)"
  have "is_ok (fst ?q)" using resting_run unfolding resting_ok_def by simp
  then show ?thesis by (cases ?q; cases "fst ?q") auto
qed

lemma push_ingested:
  "\<exists>db. UserDataIngestor_Ingest (timescaleIngestStore demoLater) demoLater 3 demoPush (svc_db demoResting) = (None, db)"
  using resting_run unfolding resting_ok_def by (metis prod.collapse)

lemma push_relevant: "relevant_push demoPush"
  by code_simp

end
