(* ===== verification/Account_Meta.thy ===== *)
theory Account_Meta
  imports Account_Scenario Scenario
begin

text \<open>
  The metadata the order service reads from the account store (\<^verbatim>\<open>internal/order/accountmeta/adapter.go\<close>): the route of an
  account's active venue with its credential, and the check of the session an order names.  Here the two halves of the
  program meet.  The locale \<open>metadata_source\<close> says what the order service can rely on, and its interpretation on the account
  tables shows that an order placed in a session goes to a venue the session has captured.
\<close>

subsection \<open>The adapter\<close>

definition metaMarginModeText :: "int \<Rightarrow> string" where
  "metaMarginModeText mode = (if mode = MarginModeCross then ''cross'' else if mode = MarginModeIsolated then ''isolated'' else [])"

definition metaPositionModeText :: "int \<Rightarrow> string" where
  "metaPositionModeText mode = (if mode = PositionModeOneWay then ''one_way'' else if mode = PositionModeHedge then ''hedge'' else [])"

text \<open>The decrypted credential and its secret; a simulated venue needs none.\<close>

definition routeCredential :: "AccountEnv \<Rightarrow> VenueRouteMeta \<Rightarrow> (string \<times> string) result" where
  "routeCredential env m =
     (if vm_Environment m = EnvironmentBacktest then Inr ([], [])
      else case ae_creds env of None \<Rightarrow> Inl (Status FailedPrecondition ''credential manager is not configured'')
      | Some creds \<Rightarrow>
          if trim_space (vm_CredentialInfo m) = [] then Inl (Status FailedPrecondition ''venue credential is missing'')
          else case cm_Decrypt creds (vm_CredentialInfo m) of
            Inl err \<Rightarrow> Inl (coded FailedPrecondition ''decrypt venue credential: '' err)
          | Inr json \<Rightarrow> bind_result (apiSecretFromCredentialJSON env json) (\<lambda>secret. Inr (json, secret)))"

definition routeMeta :: "VenueRouteMeta \<Rightarrow> string \<Rightarrow> string \<Rightarrow> Meta" where
  "routeMeta m credentialJSON apiSecret = \<lparr>me_AccountID = vm_AccountID m, me_VenueID = vm_VenueID m, me_UserID = vm_UserID m,
     me_Environment = vm_Environment m, me_Exchange = vm_Exchange m, me_Market = vm_Market m,
     me_MarginMode = metaMarginModeText (vm_MarginMode m), me_PositionMode = metaPositionModeText (vm_PositionMode m),
     me_APIKey = vm_APIKey m, me_APISecret = apiSecret, me_CredentialJSON = credentialJSON,
     me_DefaultFeeRate = vm_DefaultFeeRate m, me_SlippageBps = vm_SlippageBps m\<rparr>"

definition noRouteError :: "error \<Rightarrow> error" where
  "noRouteError err = (if errors_is err ''not found'' then Status FailedPrecondition ''no active venue route for account/exchange/market''
     else mapRepositoryError err)"

definition Adapter_Get :: "AccountEnv \<Rightarrow> int \<Rightarrow> int \<Rightarrow> int \<Rightarrow> Meta adb" where
  "Adapter_Get env accountID exchange market =
     then_sql (map_error noRouteError (ResolveVenueRouteMeta accountID (int16_of exchange) (int16_of market))) (\<lambda>m.
       return_sql (bind_result (routeCredential env m) (\<lambda>(json, secret). Inr (routeMeta m json secret))))"

text \<open>The adapter on tables that do not change during the call.\<close>

definition stored_meta :: "AccountEnv \<Rightarrow> account_tables \<Rightarrow> int \<Rightarrow> int \<Rightarrow> int \<Rightarrow> Meta result" where
  "stored_meta env t accountID exchange market = fst (Adapter_Get env accountID exchange market (connected t))"

definition stored_session :: "account_tables \<Rightarrow> string \<Rightarrow> int \<Rightarrow> SessionFacts result" where
  "stored_session t sessionID userID = bind_result (fst (GetSession sessionID userID (connected t)))
     (\<lambda>s. Inr \<lparr>se_AccountID = ss_AccountID s, se_StrategyID = ss_StrategyID s, se_Status = ss_Status s\<rparr>)"

definition metaService :: "AccountEnv \<Rightarrow> account_tables \<Rightarrow> OrderService \<Rightarrow> OrderService" where
  "metaService env t sv = sv\<lparr>sv_GetMeta := stored_meta env t, sv_ValidateActiveSession := ValidateActiveSession (stored_session t)\<rparr>"

subsection \<open>What is read\<close>

lemma stored_meta_Inr:
  "stored_meta env t a e m = Inr meta \<longleftrightarrow> (\<exists>r json secret. fst (ResolveVenueRouteMeta a (int16_of e) (int16_of m) (connected t)) = Inr r
     \<and> routeCredential env r = Inr (json, secret) \<and> meta = routeMeta r json secret)"
  by (auto simp: stored_meta_def Adapter_Get_def then_sql_def map_error_def return_sql_def bind_result_Inr split: prod.splits sum.splits)

lemma query_row_connected: "fst (query_row rows (connected t)) = first_or_not_found (rows t)"
  by (simp add: query_row_def then_sql_def query_sql_def exec_sql_def take_fault_def connected_def return_sql_def)

lemma first_route_row: "first_or_not_found rows = Inr r \<Longrightarrow> r \<in> set rows"
  by (cases rows) (simp_all add: first_or_not_found_def)

text \<open>The route of a venue: active, bound to the active account that was asked for, on the exchange and market asked for.\<close>

definition routes :: "account_tables \<Rightarrow> int \<Rightarrow> int \<Rightarrow> int \<Rightarrow> Meta \<Rightarrow> Venue \<Rightarrow> bool" where
  "routes t a e m meta v \<longleftrightarrow> v \<in> set (tb_venues t) \<and> ve_Status v = VenueStatusActive \<and> ve_AccountID v = Some a
     \<and> ve_Exchange v = int16_of e \<and> ve_Market v = int16_of m
     \<and> me_AccountID meta = a \<and> me_VenueID meta = ve_VenueID v \<and> me_Exchange meta = ve_Exchange v \<and> me_Market meta = ve_Market v
     \<and> owned_by t a (me_UserID meta) (me_Environment meta)"

lemma stored_meta_routes:
  assumes "stored_meta env t a e m = Inr meta" shows "\<exists>v. routes t a e m meta v"
proof -
  obtain r json secret where r: "fst (ResolveVenueRouteMeta a (int16_of e) (int16_of m) (connected t)) = Inr r"
    and meta: "meta = routeMeta r json secret" using assms by (auto simp: stored_meta_Inr)
  from first_route_row [OF r [unfolded ResolveVenueRouteMeta_def query_row_connected]]
  obtain account v where "account \<in> set (tb_accounts t)" "ar_account_id account = a" "v \<in> set (tb_venues t)" "ve_AccountID v = Some a"
    "ve_Status v = VenueStatusActive" "ve_Exchange v = int16_of e" "ve_Market v = int16_of m"
    "vm_AccountID r = a" "vm_VenueID r = ve_VenueID v" "vm_Exchange r = ve_Exchange v" "vm_Market r = ve_Market v"
    "vm_UserID r = ar_user_id account" "vm_Environment r = ar_environment account" by auto
  then have "routes t a e m meta v" by (auto simp: meta routes_def routeMeta_def owned_by_def)
  then show ?thesis ..
qed

lemma active_status_text:
  "to_lower (trim_space (sessionStatusText n)) = ''running'' \<or> to_lower (trim_space (sessionStatusText n)) = ''stopping'' \<Longrightarrow> is_active_code n"
proof -
  have texts: "to_lower (trim_space ''pending'') = ''pending''" "to_lower (trim_space ''preflight'') = ''preflight''"
    "to_lower (trim_space ''recoverable'') = ''recoverable''" "to_lower (trim_space ''finished'') = ''finished''"
    "to_lower (trim_space ''stopped'') = ''stopped''" "to_lower (trim_space ''failed'') = ''failed''"
    "to_lower (trim_space SessionStatusPreflightFailed) = ''preflight_failed''" by code_simp+
  show "to_lower (trim_space (sessionStatusText n)) = ''running'' \<or> to_lower (trim_space (sessionStatusText n)) = ''stopping'' \<Longrightarrow> ?thesis"
    by (auto simp: sessionStatusText_def is_active_code_def texts split: if_splits)
qed

lemma validated_session:
  assumes "ValidateActiveSession (stored_session t) meta strategyID sid = None" "trim_space sid \<noteq> []"
  obtains s where "s \<in> set (tb_sessions t)" "sr_session_id s = trim_space sid" "is_active_code (sr_status s)"
    "sr_account_id s = me_AccountID meta" "0 < me_UserID meta \<Longrightarrow> sr_user_id s = me_UserID meta"
proof -
  obtain facts where f: "stored_session t (trim_space sid) (me_UserID meta) = Inr facts" "se_AccountID facts = me_AccountID meta"
    "to_lower (trim_space (se_Status facts)) = ''running'' \<or> to_lower (trim_space (se_Status facts)) = ''stopping''"
    using assms by (auto simp: ValidateActiveSession_def Let_def split: sum.splits if_splits)
  then obtain session where "first_or_not_found (map scanSession
      (filter (\<lambda>r. sr_session_id r = trim_space sid \<and> (0 < me_UserID meta \<longrightarrow> sr_user_id r = me_UserID meta)) (tb_sessions t))) = Inr session"
    and facts: "facts = \<lparr>se_AccountID = ss_AccountID session, se_StrategyID = ss_StrategyID session, se_Status = ss_Status session\<rparr>"
    by (auto simp: stored_session_def bind_result_Inr GetSession_def query_row_connected)
  from first_route_row [OF this(1)] obtain s where "s \<in> set (tb_sessions t)" "sr_session_id s = trim_space sid" "session = scanSession s"
    "0 < me_UserID meta \<Longrightarrow> sr_user_id s = me_UserID meta" by auto
  then show ?thesis using that [of s] f(2,3) active_status_text [of "sr_status s"] by (simp add: facts scanSession_def)
qed

subsection \<open>What the order service relies on\<close>

text \<open>
  A source of metadata reads a route for an account, exchange and market, and says whether a session may use it.  A call of
  PlaceOrder that does anything at all, with or without an error, has a route, and if it names a session, one the session may use.
\<close>

locale metadata_source =
  fixes get :: "int \<Rightarrow> int \<Rightarrow> int \<Rightarrow> Meta result"
    and validate :: "Meta \<Rightarrow> int \<Rightarrow> string \<Rightarrow> error option"
    and routed :: "int \<Rightarrow> int \<Rightarrow> int \<Rightarrow> Meta \<Rightarrow> bool"
    and in_session :: "string \<Rightarrow> Meta \<Rightarrow> bool"
  assumes get_routed: "get a e m = Inr meta \<Longrightarrow> routed a e m meta"
    and validate_session: "routed a e m meta \<Longrightarrow> validate meta strategyID sid = None \<Longrightarrow> trim_space sid \<noteq> [] \<Longrightarrow> in_session (trim_space sid) meta"
begin

lemma effective_order_checked:
  assumes "sv_GetMeta sv = get" "sv_ValidateActiveSession sv = validate" "\<And>err. PlaceOrder sv req s \<noteq> (Inl err, s)"
  shows "\<exists>meta. get (pr_AccountId req) (pr_Exchange req) (pr_Market req) = Inr meta \<and> validate meta (pr_StrategyId req) (pr_SessionId req) = None"
proof (rule ccontr)
  assume "\<not> ?thesis"
  then have "sv_GetMeta sv (pr_AccountId req) (pr_Exchange req) (pr_Market req) = Inr meta
      \<Longrightarrow> sv_ValidateActiveSession sv meta (pr_StrategyId req) (pr_SessionId req) \<noteq> None" for meta
    using assms(1,2) by auto
  then have "\<exists>err. PlaceOrder sv req s = (Inl err, s)"
    by (auto simp: PlaceOrder_def recordOrderContractFailure_def split: option.split sum.split)
  then show False using assms(3) by blast
qed

lemma effective_order_routed:
  assumes "sv_GetMeta sv = get" "sv_ValidateActiveSession sv = validate" "\<And>err. PlaceOrder sv req s \<noteq> (Inl err, s)"
  shows "\<exists>meta. get (pr_AccountId req) (pr_Exchange req) (pr_Market req) = Inr meta
    \<and> routed (pr_AccountId req) (pr_Exchange req) (pr_Market req) meta
    \<and> (trim_space (pr_SessionId req) \<noteq> [] \<longrightarrow> in_session (trim_space (pr_SessionId req)) meta)"
  using effective_order_checked [OF assms] get_routed validate_session by meson

end

text \<open>An open session of an account that has captured the venue of a route.\<close>

definition captured_by :: "account_tables \<Rightarrow> string \<Rightarrow> Meta \<Rightarrow> session_row \<Rightarrow> bool" where
  "captured_by t sid meta session \<longleftrightarrow> session \<in> set (tb_sessions t) \<and> sr_session_id session = sid \<and> is_active_code (sr_status session)
     \<and> sr_account_id session = me_AccountID meta \<and> sr_user_id session = me_UserID meta \<and> me_VenueID meta \<in> captured sid t"

lemma validated_captured:
  assumes ok: "account_ok t" and v: "routes t a e m meta v"
    and valid: "ValidateActiveSession (stored_session t) meta strategyID sid = None" "trim_space sid \<noteq> []"
  shows "\<exists>session. captured_by t (trim_space sid) meta session"
proof -
  obtain s where s: "s \<in> set (tb_sessions t)" "sr_session_id s = trim_space sid" "is_active_code (sr_status s)"
    "sr_account_id s = me_AccountID meta" using validated_session [OF valid] by blast
  have "captured (trim_space sid) t = bound_venues a t" using ok s v by (auto simp: account_ok_def frozen_def routes_def)
  moreover have "me_VenueID meta \<in> bound_venues a t" using v by (auto simp: routes_def bound_venues_def)
  moreover have "sr_user_id s = me_UserID meta"
    using ok s v owned_unique [of t a "sr_user_id s" "sr_environment s"] by (auto simp: account_ok_def sessions_ok_def routes_def)
  ultimately show ?thesis using s by (auto simp: captured_by_def)
qed

interpretation stored: metadata_source "stored_meta env t" "ValidateActiveSession (stored_session t)" "\<lambda>a e m meta. \<exists>v. routes t a e m meta v"
  "\<lambda>sid meta. account_ok t \<longrightarrow> (\<exists>session. captured_by t sid meta session)" for env t
proof unfold_locales
  show "\<exists>v. routes t a e m meta v" if "stored_meta env t a e m = Inr meta" for a e m meta using stored_meta_routes [OF that] .
  show "account_ok t \<longrightarrow> (\<exists>session. captured_by t (trim_space sid) meta session)"
    if "\<exists>v. routes t a e m meta v" "ValidateActiveSession (stored_session t) meta strategyID sid = None" "trim_space sid \<noteq> []"
    for a e m meta strategyID sid using validated_captured that by blast
qed

subsection \<open>Orders of a session\<close>

text \<open>
  C15.  An order stays in its session.  Over every history of the account service: a call of PlaceOrder that names a session and does
  anything at all goes to an active venue bound to the account, on the exchange and market of the request, and the session is
  an open session of that account and its owner which has captured this venue.
\<close>

theorem session_orders_on_captured_venues:
  assumes "account_history empty_tables t" "\<And>err. PlaceOrder (metaService env t sv) req s \<noteq> (Inl err, s)" "trim_space (pr_SessionId req) \<noteq> []"
  shows "\<exists>meta venue session. stored_meta env t (pr_AccountId req) (pr_Exchange req) (pr_Market req) = Inr meta
    \<and> routes t (pr_AccountId req) (pr_Exchange req) (pr_Market req) meta venue
    \<and> captured_by t (trim_space (pr_SessionId req)) meta session"
proof -
  have "account_ok t" using history_integrity [OF assms(1) empty_tables_ok] .
  then show ?thesis
    using stored.effective_order_routed [of "metaService env t sv" env t req s] assms(2,3) by (auto simp: metaService_def)
qed

definition homeOrder :: PlaceOrderRequest where
  "homeOrder = demoRequest\<lparr>pr_AccountId := 1, pr_SessionId := '' s1'', pr_StrategyId := 3, pr_Exchange := 1, pr_Market := 2\<rparr>"

lemma home_order: "is_ok (fst (PlaceOrder (metaService homeEnv (after_calls homeStart) demoService) homeOrder demoStart))"
  by code_simp

theorem session_orders_on_captured_venues_witness:
  "\<exists>meta venue session. routes (after_calls homeStart) 1 1 2 meta venue \<and> captured_by (after_calls homeStart) ''s1'' meta session"
proof -
  have "PlaceOrder (metaService homeEnv (after_calls homeStart) demoService) homeOrder demoStart \<noteq> (Inl err, demoStart)" for err
    using home_order by (metis fst_conv is_ok.simps(1))
  moreover have "trim_space (pr_SessionId homeOrder) = ''s1''" "pr_AccountId homeOrder = 1" "pr_Exchange homeOrder = 1" "pr_Market homeOrder = 2"
    by code_simp+
  ultimately show ?thesis using session_orders_on_captured_venues [OF after_calls_history] by fastforce
qed

text \<open>
  The session is looked up under its trimmed id, but the order is stored under the id as it was sent.  Queries trim the id
  they are asked for, so they never find the order.
\<close>

lemma padded_session_stored:
  "oi_SessionID (orderIntentOf homeOrder meta side code intentID now) = '' s1''" "trim_space sid \<noteq> '' s1''"
proof -
  show "oi_SessionID (orderIntentOf homeOrder meta side code intentID now) = '' s1''" by (simp add: orderIntentOf_def homeOrder_def)
  have "trim_space '' s1'' \<noteq> '' s1''" by code_simp
  then show "trim_space sid \<noteq> '' s1''" by (metis trim_space_idem)
qed

end
