(* ===== verification/Credentials.thy ===== *)
theory Credentials
  imports Account_Service
begin

text \<open>
  The encryption of venue credentials (\<^verbatim>\<open>internal/credential/crypto.go\<close>): the choice of the key, the text form of a
  ciphertext with the version of its key, and \<^verbatim>\<open>encoding/base64\<close>, which it goes through.  The cipher itself, AES in Galois
  counter mode, the random nonce and SHA-256 are arguments.  What is encrypted reads back, provided the version of the key has
  no colon; with a colon nothing that was encrypted can be read again.
\<close>

subsection \<open>Base64\<close>

definition b64_alphabet :: string where
  "b64_alphabet = ''ABCDEFGHIJKLMNOPQRSTUVWXYZabcdefghijklmnopqrstuvwxyz0123456789+/''"

definition b64_char :: "nat \<Rightarrow> char" where
  "b64_char n = b64_alphabet ! n"

definition b64_value :: "char \<Rightarrow> nat option" where
  "b64_value c = map_of (zip b64_alphabet [0..<64]) c"

text \<open>Three bytes are four digits of six bits; one or two bytes at the end are padded.\<close>

definition b64_digits :: "nat \<Rightarrow> nat \<Rightarrow> nat \<Rightarrow> nat list" where
  "b64_digits a b c = [a div 4, a mod 4 * 16 + b div 16, b mod 16 * 4 + c div 64, c mod 64]"

fun b64_encode :: "string \<Rightarrow> string" where
  "b64_encode [] = []"
| "b64_encode [x] = map b64_char (take 2 (b64_digits (of_char x) 0 0)) @ ''==''"
| "b64_encode [x, y] = map b64_char (take 3 (b64_digits (of_char x) (of_char y) 0)) @ ''=''"
| "b64_encode (x # y # z # rest) = map b64_char (b64_digits (of_char x) (of_char y) (of_char z)) @ b64_encode rest"

definition b64_bytes :: "nat list \<Rightarrow> string" where
  "b64_bytes ds = map char_of (case ds of
     [a, b] \<Rightarrow> [a * 4 + b div 16]
   | [a, b, c] \<Rightarrow> [a * 4 + b div 16, b mod 16 * 16 + c div 4]
   | [a, b, c, d] \<Rightarrow> [a * 4 + b div 16, b mod 16 * 16 + c div 4, c mod 4 * 64 + d]
   | _ \<Rightarrow> [])"

definition is_line_end :: "char \<Rightarrow> bool" where
  "is_line_end c = (c = CHR 0x0A \<or> c = CHR 0x0D)"

text \<open>
  Decoding collects the digits of a group and skips line ends; an error is the position of the byte that does not fit.
  After the padding only line ends may follow.
\<close>

definition b64_end :: "nat list \<Rightarrow> nat \<Rightarrow> string \<Rightarrow> nat + string" where
  "b64_end ds i cs = (let rest = dropWhile is_line_end cs
     in if rest = [] then Inr (b64_bytes ds) else Inl (i + (length cs - length rest)))"

definition b64_padding :: "nat list \<Rightarrow> nat \<Rightarrow> string \<Rightarrow> nat + string" where
  "b64_padding ds i cs =
     (if length ds = 2
      then let rest = dropWhile is_line_end cs; j = i + (length cs - length rest)
           in case rest of [] \<Rightarrow> Inl j | c # cs' \<Rightarrow> if c \<noteq> CHR ''='' then Inl (j - 1) else b64_end ds (j + 1) cs'
      else b64_end ds i cs)"

fun b64_decode :: "nat list \<Rightarrow> nat \<Rightarrow> string \<Rightarrow> nat + string" where
  "b64_decode ds i [] = (if ds = [] then Inr [] else Inl (i - length ds))"
| "b64_decode ds i (c # cs) = (case b64_value c of
     Some v \<Rightarrow> if length ds = 3 then (case b64_decode [] (i + 1) cs of Inl e \<Rightarrow> Inl e | Inr s \<Rightarrow> Inr (b64_bytes (ds @ [v]) @ s))
         else b64_decode (ds @ [v]) (i + 1) cs
   | None \<Rightarrow> if is_line_end c then b64_decode ds (i + 1) cs
         else if c \<noteq> CHR ''='' \<or> length ds < 2 then Inl i
         else b64_padding ds (i + 1) cs)"

definition DecodeString :: "string \<Rightarrow> string result" where
  "DecodeString s = (case b64_decode [] 0 s of
     Inl i \<Rightarrow> Inl (Errorf (''illegal base64 data at input byte '' @ show_int (int i))) | Inr out \<Rightarrow> Inr out)"

subsection \<open>The manager\<close>

definition keySize :: nat where "keySize = 32"
definition nonceSize :: nat where "nonceSize = 12"

definition ErrEmptyKey :: error where "ErrEmptyKey = Sentinel ''credential encryption key is required''"
definition ErrInvalidKey :: error where "ErrInvalidKey = Sentinel ''credential encryption key must be 32 bytes''"
definition ErrEmptyPlaintext :: error where "ErrEmptyPlaintext = Sentinel ''credential plaintext is required''"

text \<open>The cipher: seal and open take the key and the nonce; sealing a text appends its authentication tag.\<close>

record Cipher =
  ci_seal :: "string \<Rightarrow> string \<Rightarrow> string \<Rightarrow> string"
  ci_open :: "string \<Rightarrow> string \<Rightarrow> string \<Rightarrow> string result"

record Manager =
  mn_key :: string
  mn_keyVersion :: string

definition parseKey :: "string \<Rightarrow> string result" where
  "parseKey rawKey0 = (let rawKey = trim_space rawKey0 in
     if rawKey = [] then Inl ErrEmptyKey
     else if length rawKey = keySize then Inr rawKey
     else case DecodeString rawKey of
       Inr decoded \<Rightarrow> if length decoded = keySize then Inr decoded else Inl ErrInvalidKey
     | Inl _ \<Rightarrow> Inl ErrInvalidKey)"

definition NewManager :: "string \<Rightarrow> string \<Rightarrow> Manager result" where
  "NewManager rawKey keyVersion = bind_result (parseKey rawKey) (\<lambda>key.
     Inr \<lparr>mn_key = key, mn_keyVersion = (if trim_space keyVersion = [] then ''v1'' else trim_space keyVersion)\<rparr>)"

text \<open>A key of a length that AES does not have is refused; \<^verbatim>\<open>NewManager\<close> makes none.\<close>

definition newCipher :: "Manager \<Rightarrow> unit result" where
  "newCipher m = (if length (mn_key m) \<in> {16, 24, 32} then Inr ()
     else Inl (Wrapf ''new cipher: '' (Errorf (''crypto/aes: invalid key size '' @ show_int (int (length (mn_key m)))))))"

definition Encrypt :: "Cipher \<Rightarrow> Manager \<Rightarrow> string result \<Rightarrow> string \<Rightarrow> string result" where
  "Encrypt ci m random plaintext0 = (let plaintext = trim_space plaintext0 in
     if plaintext = [] then Inl ErrEmptyPlaintext
     else bind_result (newCipher m) (\<lambda>_. case random of
       Inl err \<Rightarrow> Inl (Wrapf ''read nonce: '' err)
     | Inr nonce \<Rightarrow> Inr (mn_keyVersion m @ '':'' @ b64_encode (nonce @ ci_seal ci (mn_key m) nonce plaintext))))"

text \<open>The text up to the first occurrence of a character, and what follows it.\<close>

definition cut_at :: "char \<Rightarrow> string \<Rightarrow> (string \<times> string) option" where
  "cut_at c s = (if c \<in> set s then Some (takeWhile (\<lambda>x. x \<noteq> c) s, tl (dropWhile (\<lambda>x. x \<noteq> c) s)) else None)"

definition Decrypt :: "Cipher \<Rightarrow> Manager \<Rightarrow> string \<Rightarrow> string result" where
  "Decrypt ci m ciphertext = (case cut_at (CHR '':'') (trim_space ciphertext) of
     None \<Rightarrow> Inl (Errorf ''invalid credential ciphertext format'')
   | Some (version, payload) \<Rightarrow>
       if trim_space version = [] \<or> trim_space payload = [] then Inl (Errorf ''invalid credential ciphertext format'')
       else case DecodeString payload of Inl err \<Rightarrow> Inl (Wrapf ''decode credential ciphertext: '' err)
       | Inr raw \<Rightarrow> bind_result (newCipher m) (\<lambda>_.
           if length raw \<le> nonceSize then Inl (Errorf ''credential ciphertext too short'')
           else case ci_open ci (mn_key m) (take nonceSize raw) (drop nonceSize raw) of
             Inl err \<Rightarrow> Inl (Wrapf ''decrypt credential ciphertext: '' err) | Inr plaintext \<Rightarrow> Inr plaintext))"

definition Fingerprint :: "(string \<Rightarrow> string) \<Rightarrow> string \<Rightarrow> string" where
  "Fingerprint sha256_hex apiKey = (if trim_space apiKey = [] then [] else sha256_hex (trim_space apiKey))"

text \<open>The manager as the account service uses it.\<close>

definition credentialManager :: "Cipher \<Rightarrow> Manager \<Rightarrow> string result \<Rightarrow> CredentialManager" where
  "credentialManager ci m random = \<lparr>cm_Encrypt = Encrypt ci m random, cm_Decrypt = Decrypt ci m, cm_KeyVersion = mn_keyVersion m\<rparr>"

subsection \<open>Decoding what was encoded\<close>

lemma b64_alphabet_props: "distinct b64_alphabet" "length b64_alphabet = 64"
  "list_all (\<lambda>c. \<not> is_space c \<and> \<not> is_line_end c \<and> c \<noteq> CHR '':'') b64_alphabet"
  by code_simp+

lemma b64_value_char [simp]: "n < 64 \<Longrightarrow> b64_value (b64_char n) = Some n"
  unfolding b64_value_def b64_char_def using b64_alphabet_props(1,2) by (simp add: map_of_zip_nth)

lemma b64_value_pad [simp]: "b64_value (CHR ''='') = None"
  by code_simp

lemma b64_value_alphabet: "b64_value c \<noteq> None \<Longrightarrow> c \<in> set b64_alphabet"
  unfolding b64_value_def by (metis map_of_SomeD not_None_eq set_zip_leftD)

lemma char_byte [simp]: "(of_char (c :: char) :: nat) < 256"
  using of_char_of [of "of_char c :: nat"] by (metis mod_less_divisor of_char_mod_256 zero_less_numeral)

lemma six_bits:
  fixes a b c :: nat assumes "a < 256" "b < 256" "c < 256"
  shows "a div 4 < 64" "a mod 4 * 16 + b div 16 < 64" "b mod 16 * 4 + c div 64 < 64" "c mod 64 < 64"
    "(a mod 4 * 16 + b div 16) div 16 = a mod 4" "(a mod 4 * 16 + b div 16) mod 16 = b div 16"
    "(b mod 16 * 4 + c div 64) div 4 = b mod 16" "(b mod 16 * 4 + c div 64) mod 4 = c div 64"
proof -
  have small: "a div 4 < 64" "b div 16 < 16" "c div 64 < 4" using assms by (simp_all add: div_less_iff_less_mult)
  moreover have "a mod 4 \<le> 3" "b mod 16 \<le> 15" using mod_less_divisor [of 4 a] mod_less_divisor [of 16 b] by linarith+
  ultimately show "a div 4 < 64" "a mod 4 * 16 + b div 16 < 64" "b mod 16 * 4 + c div 64 < 64" by linarith+
  show "c mod 64 < 64" by simp
  show "(a mod 4 * 16 + b div 16) div 16 = a mod 4" "(a mod 4 * 16 + b div 16) mod 16 = b div 16"
    "(b mod 16 * 4 + c div 64) div 4 = b mod 16" "(b mod 16 * 4 + c div 64) mod 4 = c div 64" using small by simp_all
qed

lemma b64_bytes_digits:
  assumes "a < 256" "b < 256" "c < 256"
  shows "b64_bytes (b64_digits a b c) = map char_of [a, b, c]" "b64_bytes (take 2 (b64_digits a 0 0)) = [char_of a]"
    "b64_bytes (take 3 (b64_digits a b 0)) = map char_of [a, b]"
proof -
  have "b64_bytes (b64_digits a b c) = map char_of [a div 4 * 4 + a mod 4, b div 16 * 16 + b mod 16, c div 64 * 64 + c mod 64]"
    unfolding b64_digits_def b64_bytes_def list.case six_bits [OF assms] ..
  then show "b64_bytes (b64_digits a b c) = map char_of [a, b, c]" unfolding div_mult_mod_eq .
  have "b64_bytes (take 2 (b64_digits a 0 0)) = map char_of [a div 4 * 4 + a mod 4]"
    using six_bits(5) [OF assms(1), of 0 0] by (simp add: b64_digits_def b64_bytes_def numeral_2_eq_2)
  then show "b64_bytes (take 2 (b64_digits a 0 0)) = [char_of a]" unfolding div_mult_mod_eq by simp
  have "b64_bytes (take 3 (b64_digits a b 0)) = map char_of [a div 4 * 4 + (a mod 4 * 16 + b div 16) div 16,
      (a mod 4 * 16 + b div 16) mod 16 * 16 + (b mod 16 * 4 + 0 div 64) div 4]"
    by (simp only: b64_digits_def b64_bytes_def numeral_3_eq_3 take_Suc_Cons take_0 list.case)
  also have "\<dots> = map char_of [a div 4 * 4 + a mod 4, b div 16 * 16 + b mod 16]"
    unfolding six_bits(5-7) [OF assms(1,2) zero_less_numeral] ..
  finally show "b64_bytes (take 3 (b64_digits a b 0)) = map char_of [a, b]" unfolding div_mult_mod_eq .
qed

lemma b64_decode_digits:
  assumes "d1 < 64" "d2 < 64"
  shows "b64_decode [] i (map b64_char [d1, d2] @ ''=='') = Inr (b64_bytes [d1, d2])"
    "d3 < 64 \<Longrightarrow> b64_decode [] i (map b64_char [d1, d2, d3] @ ''='') = Inr (b64_bytes [d1, d2, d3])"
    "d3 < 64 \<Longrightarrow> d4 < 64 \<Longrightarrow> b64_decode [] i (map b64_char [d1, d2, d3, d4] @ rest)
      = (case b64_decode [] (Suc (Suc (Suc (Suc i)))) rest of Inl e \<Rightarrow> Inl e | Inr s \<Rightarrow> Inr (b64_bytes [d1, d2, d3, d4] @ s))"
  using assms by (simp_all add: b64_padding_def b64_end_def is_line_end_def split: sum.split)

lemma b64_digits_less:
  fixes a b c :: nat assumes "a < 256" "b < 256" "c < 256"
  obtains d1 d2 d3 d4 where "b64_digits a b c = [d1, d2, d3, d4]" "d1 < 64" "d2 < 64" "d3 < 64" "d4 < 64"
  using six_bits(1-4) [OF assms] unfolding b64_digits_def by blast

lemma b64_decode_encode: "b64_decode [] i (b64_encode s) = Inr s"
proof (induction s arbitrary: i rule: b64_encode.induct)
  case (2 x)
  obtain d1 d2 d3 d4 where d: "b64_digits (of_char x) 0 0 = [d1, d2, d3, d4]" "d1 < 64" "d2 < 64" "d3 < 64" "d4 < 64"
    by (rule b64_digits_less [of "of_char x" 0 0]) simp_all
  then have "b64_encode [x] = map b64_char [d1, d2] @ ''==''" by (simp add: numeral_2_eq_2)
  moreover have "b64_bytes [d1, d2] = [x]" using b64_bytes_digits(2) [of "of_char x" 0 0] d(1) by (simp add: numeral_2_eq_2)
  ultimately show ?case using b64_decode_digits(1) [OF d(2,3)] by presburger
next
  case (3 x y)
  obtain d1 d2 d3 d4 where d: "b64_digits (of_char x) (of_char y) 0 = [d1, d2, d3, d4]" "d1 < 64" "d2 < 64" "d3 < 64" "d4 < 64"
    by (rule b64_digits_less [of "of_char x" "of_char y" 0]) simp_all
  then have "b64_encode [x, y] = map b64_char [d1, d2, d3] @ ''=''" by (simp add: numeral_3_eq_3)
  moreover have "b64_bytes [d1, d2, d3] = [x, y]" using b64_bytes_digits(3) [of "of_char x" "of_char y" 0] d(1) by (simp add: numeral_3_eq_3)
  ultimately show ?case using b64_decode_digits(2) [OF d(2-4)] by presburger
next
  case (4 x y z rest)
  obtain d1 d2 d3 d4 where d: "b64_digits (of_char x) (of_char y) (of_char z) = [d1, d2, d3, d4]" "d1 < 64" "d2 < 64" "d3 < 64" "d4 < 64"
    by (rule b64_digits_less [of "of_char x" "of_char y" "of_char z"]) simp_all
  moreover have "b64_bytes [d1, d2, d3, d4] = [x, y, z]" using b64_bytes_digits(1) [of "of_char x" "of_char y" "of_char z"] d(1) by simp
  ultimately show ?case using b64_decode_digits(3) [OF d(2-5)] 4 by simp
qed simp

lemma DecodeString_encode: "DecodeString (b64_encode s) = Inr s"
  by (simp add: DecodeString_def b64_decode_encode)

text \<open>The characters of an encoded text, and of a text that can be decoded.\<close>

definition b64_text_char :: "char \<Rightarrow> bool" where
  "b64_text_char c = (b64_value c \<noteq> None \<or> c = CHR ''='')"

lemma b64_text_char_plain: "b64_text_char c \<Longrightarrow> \<not> is_space c"
proof -
  assume "b64_text_char c"
  then consider "c \<in> set b64_alphabet" | "c = CHR ''=''" using b64_value_alphabet [of c] unfolding b64_text_char_def by blast
  then show "\<not> is_space c"
  proof cases
    case 1
    then show ?thesis using b64_alphabet_props(3) unfolding list_all_iff by blast
  next
    case 2
    have "\<not> is_space (CHR ''='')" by code_simp
    then show ?thesis unfolding 2 .
  qed
qed

lemma b64_encode_chars: "list_all b64_text_char (b64_encode s)"
proof (induction s rule: b64_encode.induct)
  case (2 x)
  obtain d1 d2 d3 d4 where "b64_digits (of_char x) 0 0 = [d1, d2, d3, d4]" "d1 < 64" "d2 < 64" "d3 < 64" "d4 < 64"
    by (rule b64_digits_less [of "of_char x" 0 0]) simp_all
  then show ?case by (simp add: b64_text_char_def numeral_2_eq_2)
next
  case (3 x y)
  obtain d1 d2 d3 d4 where "b64_digits (of_char x) (of_char y) 0 = [d1, d2, d3, d4]" "d1 < 64" "d2 < 64" "d3 < 64" "d4 < 64"
    by (rule b64_digits_less [of "of_char x" "of_char y" 0]) simp_all
  then show ?case by (simp add: b64_text_char_def numeral_3_eq_3)
next
  case (4 x y z rest)
  obtain d1 d2 d3 d4 where "b64_digits (of_char x) (of_char y) (of_char z) = [d1, d2, d3, d4]" "d1 < 64" "d2 < 64" "d3 < 64" "d4 < 64"
    by (rule b64_digits_less [of "of_char x" "of_char y" "of_char z"]) simp_all
  then show ?case using 4 by (simp add: b64_text_char_def)
qed simp

lemma b64_end_chars: "b64_end ds i cs = Inr out \<Longrightarrow> list_all is_line_end cs"
  by (auto simp: b64_end_def list_all_iff split: if_splits)

lemma b64_padding_chars: "b64_padding ds i cs = Inr out \<Longrightarrow> list_all (\<lambda>c. is_line_end c \<or> c = CHR ''='') cs"
proof -
  have all: "list_all P (takeWhile P xs @ ys) = list_all P ys" for P :: "char \<Rightarrow> bool" and xs ys
    by (auto simp: list_all_iff dest: set_takeWhileD)
  assume padded: "b64_padding ds i cs = Inr out"
  show ?thesis
  proof (cases "length ds = 2")
    case True
    then obtain c cs' where c: "dropWhile is_line_end cs = c # cs'" "c = CHR ''=''" "list_all is_line_end cs'"
      using padded b64_end_chars by (auto simp: b64_padding_def Let_def split: list.splits if_splits)
    have "set cs = set (takeWhile is_line_end cs) \<union> set (c # cs')" using takeWhile_dropWhile_id [of is_line_end cs] c(1) by (metis set_append)
    then show ?thesis using c by (auto simp: list_all_iff dest: set_takeWhileD)
  next
    case False
    then show ?thesis using padded b64_end_chars by (fastforce simp: b64_padding_def list_all_iff)
  qed
qed

lemma b64_decode_chars: "b64_decode ds i cs = Inr out \<Longrightarrow> list_all (\<lambda>c. b64_text_char c \<or> is_line_end c) cs"
proof (induction ds i cs arbitrary: out rule: b64_decode.induct)
  case (2 ds i c cs)
  have pad: "list_all (\<lambda>c. is_line_end c \<or> c = CHR ''='') xs \<Longrightarrow> list_all (\<lambda>c. b64_text_char c \<or> is_line_end c) xs" for xs
    by (auto simp: list_all_iff b64_text_char_def)
  show ?case
  proof (cases "b64_value c")
    case None
    then show ?thesis using 2 pad b64_padding_chars [of ds "i + 1" cs out] by (auto simp: b64_text_char_def split: if_splits)
  next
    case (Some v)
    then show ?thesis using 2 by (auto simp: b64_text_char_def split: if_splits sum.splits)
  qed
qed simp

subsection \<open>Encrypted credentials read back\<close>

lemma trim_space_id: assumes "s \<noteq> []" "\<not> is_space (hd s)" "\<not> is_space (last s)" shows "trim_space s = s"
proof -
  have d: "dropWhile is_space s = s" using assms(1,2) by (cases s) simp_all
  have "dropWhile is_space (rev s) = rev s" using assms(1,3) by (cases "rev s") (auto simp: last_rev dest: arg_cong [of _ _ rev] simp: hd_rev [symmetric])
  then show ?thesis by (simp add: trim_space_def d)
qed

lemma trimmed_hd: assumes "trim_space s = s" "s \<noteq> []" shows "\<not> is_space (hd s)"
proof
  assume "is_space (hd s)"
  then have "length (dropWhile is_space s) < length s" using assms(2) length_dropWhile_le [of is_space "tl s"] by (cases s) auto
  moreover have "length (trim_space s) \<le> length (dropWhile is_space s)"
    using length_dropWhile_le [of is_space "rev (dropWhile is_space s)"] by (simp add: trim_space_def)
  ultimately show False using assms(1) by simp
qed

lemma cut_at_first: "c \<notin> set v \<Longrightarrow> cut_at c (v @ c # p) = Some (v, p)"
  by (induction v) (auto simp: cut_at_def)

lemma NewManager_made:
  assumes "NewManager rawKey version = Inr m"
  shows "length (mn_key m) = 32" "trim_space (mn_keyVersion m) = mn_keyVersion m" "mn_keyVersion m \<noteq> []"
proof -
  have "length key = 32" if "parseKey rawKey = Inr key" for key
    using that by (auto simp: parseKey_def keySize_def Let_def split: if_splits sum.splits)
  then show "length (mn_key m) = 32" using assms by (auto simp: NewManager_def bind_result_Inr)
  have "trim_space ''v1'' = ''v1''" by code_simp
  then show "trim_space (mn_keyVersion m) = mn_keyVersion m" "mn_keyVersion m \<noteq> []"
    using assms by (auto simp: NewManager_def bind_result_Inr split: if_splits)
qed

text \<open>What Decrypt sees of a text that Encrypt has made.\<close>

lemma encrypted_text:
  assumes "NewManager rawKey version = Inr m" "Encrypt ci m random plaintext = Inr text"
  obtains nonce where "random = Inr nonce" "trim_space plaintext \<noteq> []"
    "text = mn_keyVersion m @ '':'' @ b64_encode (nonce @ ci_seal ci (mn_key m) nonce (trim_space plaintext))"
  using assms(2) by (auto simp: Encrypt_def Let_def bind_result_Inr split: if_splits sum.splits)

lemma text_trimmed:
  assumes "trim_space v = v" "v \<noteq> []" "raw \<noteq> []" shows "trim_space (v @ '':'' @ b64_encode raw) = v @ '':'' @ b64_encode raw"
    "trim_space (b64_encode raw) = b64_encode raw" "b64_encode raw \<noteq> []"
proof -
  show ne: "b64_encode raw \<noteq> []" using assms(3) by (cases raw rule: b64_encode.cases) (simp_all add: b64_digits_def)
  have plain: "\<not> is_space c" if "c \<in> set (b64_encode raw)" for c
    using b64_encode_chars [of raw] that b64_text_char_plain by (auto simp: list_all_iff)
  have "hd (b64_encode raw) \<in> set (b64_encode raw)" "last (b64_encode raw) \<in> set (b64_encode raw)" using ne by simp_all
  note ends = this [THEN plain]
  show "trim_space (b64_encode raw) = b64_encode raw" by (rule trim_space_id [OF ne ends])
  show "trim_space (v @ '':'' @ b64_encode raw) = v @ '':'' @ b64_encode raw"
    using trimmed_hd [OF assms(1,2)] ends(2) assms(2) ne by (intro trim_space_id) simp_all
qed

text \<open>
  C18.  Encrypted credentials read back.  With a key that the manager accepted and a cipher that opens what it sealed, a credential
  reads back as it was written, up to white space around it, unless the version of the key has a colon.
\<close>

theorem credential_reads_back:
  assumes cipher: "\<And>key nonce p. length key = 32 \<Longrightarrow> length nonce = 12 \<Longrightarrow> ci_open ci key nonce (ci_seal ci key nonce p) = Inr p"
      "\<And>key nonce p. length (ci_seal ci key nonce p) = length p + 16"
    and made: "NewManager rawKey version = Inr m" "CHR '':'' \<notin> set (mn_keyVersion m)"
    and encrypted: "Encrypt ci m (Inr nonce) plaintext = Inr text" "length nonce = 12"
  shows "Decrypt ci m text = Inr (trim_space plaintext)"
proof -
  let ?v = "mn_keyVersion m" and ?sealed = "ci_seal ci (mn_key m) nonce (trim_space plaintext)"
  note m = NewManager_made [OF made(1)]
  have shape: "text = ?v @ '':'' @ b64_encode (nonce @ ?sealed)" using encrypted_text [OF made(1) encrypted(1)] by auto
  have "nonce @ ?sealed \<noteq> []" using encrypted(2) by auto
  note trimmed = text_trimmed [OF m(2,3) this]
  have cut: "cut_at (CHR '':'') (trim_space text) = Some (?v, b64_encode (nonce @ ?sealed))"
    unfolding shape trimmed(1) using cut_at_first [OF made(2)] by simp
  show ?thesis
    unfolding Decrypt_def cut using m trimmed(2,3) encrypted(2) cipher
    by (simp add: DecodeString_encode newCipher_def nonceSize_def bind_result_def)
qed

text \<open>A cipher that tags a text and leaves it in the clear, a manager with a key of 32 letters, and a nonce.\<close>

definition clearCipher :: Cipher where
  "clearCipher = \<lparr>ci_seal = \<lambda>key nonce p. p @ replicate 16 CHR ''t'', ci_open = \<lambda>key nonce sealed. Inr (take (length sealed - 16) sealed)\<rparr>"

definition plainManager :: Manager where
  "plainManager = \<lparr>mn_key = replicate 32 CHR ''k'', mn_keyVersion = ''v1''\<rparr>"

definition sampleNonce :: string where "sampleNonce = replicate 12 CHR ''n''"

theorem credential_reads_back_witness:
  "\<exists>text. Encrypt clearCipher plainManager (Inr sampleNonce) '' secret '' = Inr text
    \<and> Decrypt clearCipher plainManager text = Inr ''secret''"
proof -
  have made: "NewManager (replicate 32 CHR ''k'') [] = Inr plainManager" by code_simp
  have version: "CHR '':'' \<notin> set (mn_keyVersion plainManager)" and nonce: "length sampleNonce = 12"
    by (simp_all add: plainManager_def sampleNonce_def)
  have "is_ok (Encrypt clearCipher plainManager (Inr sampleNonce) '' secret '')" by code_simp
  then obtain x where x: "Encrypt clearCipher plainManager (Inr sampleNonce) '' secret '' = Inr x"
    by (cases "Encrypt clearCipher plainManager (Inr sampleNonce) '' secret ''") simp_all
  have "Decrypt clearCipher plainManager x = Inr (trim_space '' secret '')"
    by (rule credential_reads_back [OF _ _ made version x nonce]) (simp_all add: clearCipher_def)
  moreover have "trim_space '' secret '' = ''secret''" by code_simp
  ultimately show ?thesis using x by simp
qed

text \<open>With a colon in the version, the text is cut inside the version, and nothing reads back.\<close>

theorem colon_version_unreadable:
  assumes "NewManager rawKey version = Inr m" "CHR '':'' \<in> set (mn_keyVersion m)"
    "Encrypt ci m (Inr nonce) plaintext = Inr text" "length nonce = 12"
  shows "\<not> is_ok (Decrypt ci m text)"
proof -
  let ?v = "mn_keyVersion m" and ?raw = "nonce @ ci_seal ci (mn_key m) nonce (trim_space plaintext)"
  note m = NewManager_made [OF assms(1)]
  have shape: "text = ?v @ '':'' @ b64_encode ?raw" using encrypted_text [OF assms(1,3)] by auto
  have trimmed: "trim_space text = text" unfolding shape using text_trimmed(1) [OF m(2,3)] assms(4) by (metis append_is_Nil_conv list.size(3) zero_neq_numeral)
  obtain a b where v: "?v = a @ CHR '':'' # b" "CHR '':'' \<notin> set a" using split_list_first [OF assms(2)] by blast
  then have cut: "cut_at (CHR '':'') text = Some (a, b @ '':'' @ b64_encode ?raw)" unfolding shape using cut_at_first [OF v(2)] by simp
  have "\<not> (b64_text_char (CHR '':'') \<or> is_line_end (CHR '':''))" by code_simp
  then have "\<not> list_all (\<lambda>c. b64_text_char c \<or> is_line_end c) (b @ '':'' @ b64_encode ?raw)" by simp
  moreover have "\<not> is_ok (DecodeString p)" if "\<not> list_all (\<lambda>c. b64_text_char c \<or> is_line_end c) p" for p
    using that b64_decode_chars [of "[]" 0 p] by (auto simp: DecodeString_def split: sum.split)
  ultimately have "\<not> is_ok (DecodeString (b @ '':'' @ b64_encode ?raw))" by blast
  then show ?thesis unfolding Decrypt_def trimmed cut by (auto split: sum.splits)
qed

end
