(* ===== verification/Configuration.thy ===== *)
theory Configuration
  imports Go_Parse Reconciliation
begin

text \<open>
  The configuration of the process (\<^verbatim>\<open>internal/config/config.go\<close>): its defaults, the overrides from the environment, and the
  connection string of a database in both directions.  Reading the file and decoding YAML are arguments, and the settings of
  the logging library are left out, because they belong to code outside this repository.
\<close>

subsection \<open>The settings\<close>

record ServerConfig =
  sc_HTTPAddr :: string
  sc_GRPCAddr :: string

record DatabaseConfig =
  dc_Host :: string
  dc_Port :: int
  dc_User :: string
  dc_Password :: string
  dc_DBName :: string
  dc_SSLMode :: string

record NotificationKafkaConfig =
  nk_Brokers :: "string list"
  nk_Topic :: string
  nk_GroupID :: string

record NotificationTelegramConfig =
  nt_Enabled :: bool
  nt_BotToken :: string
  nt_BotUsername :: string
  nt_BindCodeTTLSeconds :: int
  nt_PollIntervalSeconds :: int

record NotificationDeliveryConfig =
  nd_Enabled :: bool
  nd_SendTimeoutSeconds :: int

record NotificationConfig =
  nc_Enabled :: bool
  nc_Kafka :: NotificationKafkaConfig
  nc_Telegram :: NotificationTelegramConfig
  nc_Delivery :: NotificationDeliveryConfig

record CredentialConfig =
  cc_EncryptionKey :: string
  cc_KeyVersion :: string

record ReconciliationConfig =
  rc_Enabled :: bool
  rc_GoroutineTimeoutSeconds :: int
  rc_OrderFillRunMode :: string
  rc_PeriodicSampleEveryBars :: int
  rc_PeriodicSampleMaxIdleSeconds :: int
  rc_Thresholds :: ReconciliationThresholds

record ExchangeConfig =
  ec_MockBinance :: bool
  ec_SymbolCacheTTL :: string
  ec_Reconciliation :: ReconciliationConfig

record Config =
  cf_Server :: ServerConfig
  cf_Database :: DatabaseConfig
  cf_OrderDatabase :: DatabaseConfig
  cf_Exchange :: ExchangeConfig
  cf_Credential :: CredentialConfig
  cf_Notification :: NotificationConfig

definition DefaultReconciliationConfig :: ReconciliationConfig where
  "DefaultReconciliationConfig = \<lparr>rc_Enabled = False, rc_GoroutineTimeoutSeconds = 5, rc_OrderFillRunMode = ''all'',
     rc_PeriodicSampleEveryBars = 20, rc_PeriodicSampleMaxIdleSeconds = 300, rc_Thresholds = DefaultThresholds\<rparr>"

definition GoroutineTimeout :: "ReconciliationConfig \<Rightarrow> duration" where
  "GoroutineTimeout r = (if rc_GoroutineTimeoutSeconds r \<le> 0 then 5 * second else rc_GoroutineTimeoutSeconds r * second)"

definition defaultDatabase :: "string \<Rightarrow> DatabaseConfig" where
  "defaultDatabase dbName = \<lparr>dc_Host = ''192.168.88.10'', dc_Port = 5432, dc_User = ''postgres'', dc_Password = ''postgres'',
     dc_DBName = dbName, dc_SSLMode = ''disable''\<rparr>"

definition DefaultConfig :: Config where
  "DefaultConfig = \<lparr>cf_Server = \<lparr>sc_HTTPAddr = '':8080'', sc_GRPCAddr = '':50051''\<rparr>,
     cf_Database = defaultDatabase ''account'', cf_OrderDatabase = defaultDatabase ''order'',
     cf_Exchange = \<lparr>ec_MockBinance = False, ec_SymbolCacheTTL = ''6h'', ec_Reconciliation = DefaultReconciliationConfig\<rparr>,
     cf_Credential = \<lparr>cc_EncryptionKey = [], cc_KeyVersion = ''v1''\<rparr>,
     cf_Notification = \<lparr>nc_Enabled = False,
       nc_Kafka = \<lparr>nk_Brokers = [''192.168.88.10:19092''], nk_Topic = ''notification.events'', nk_GroupID = ''core-service-notification''\<rparr>,
       nc_Telegram = \<lparr>nt_Enabled = False, nt_BotToken = [], nt_BotUsername = [], nt_BindCodeTTLSeconds = 600, nt_PollIntervalSeconds = 2\<rparr>,
       nc_Delivery = \<lparr>nd_Enabled = True, nd_SendTimeoutSeconds = 5\<rparr>\<rparr>\<rparr>"

text \<open>The file is decoded over the defaults.\<close>

definition Load :: "(string \<Rightarrow> string result) \<Rightarrow> (string \<Rightarrow> Config \<Rightarrow> Config result) \<Rightarrow> string \<Rightarrow> Config result" where
  "Load readFile unmarshal path = (case readFile path of
     Inl err \<Rightarrow> Inl (Wrapf (''read config '' @ path @ '': '') err)
   | Inr data \<Rightarrow> (case unmarshal data DefaultConfig of
       Inl err \<Rightarrow> Inl (Wrapf (''parse config '' @ path @ '': '') err) | Inr cfg \<Rightarrow> Inr cfg))"

subsection \<open>Connection strings\<close>

definition DSN :: "DatabaseConfig \<Rightarrow> string" where
  "DSN d = ''host='' @ dc_Host d @ '' port='' @ show_int (dc_Port d) @ '' user='' @ dc_User d @ '' password='' @ dc_Password d
     @ '' dbname='' @ dc_DBName d @ '' sslmode='' @ dc_SSLMode d"

text \<open>\<^verbatim>\<open>strings.Fields\<close>: the words between white space.\<close>

fun fields_from :: "string \<Rightarrow> string \<Rightarrow> string list" where
  "fields_from word [] = (if word = [] then [] else [word])"
| "fields_from word (c # cs) =
     (if is_space c then (if word = [] then fields_from [] cs else word # fields_from [] cs) else fields_from (word @ [c]) cs)"

definition fields :: "string \<Rightarrow> string list" where "fields s = fields_from [] s"

text \<open>\<^verbatim>\<open>fmt.Sscanf(s, "%d", &n)\<close> on a word: a sign, then digits as far as they go; n is left alone if there are none or too many.\<close>

definition scan_decimal :: "string \<Rightarrow> int \<Rightarrow> int" where
  "scan_decimal s n = (case take_sign s of (neg, body) \<Rightarrow>
     let digits = takeWhile (\<lambda>c. char_digit c \<noteq> None) body
     in case ParseInt ((if neg then ''-'' else []) @ digits) of Inl _ \<Rightarrow> n | Inr i \<Rightarrow> i)"

definition set_dsn_field :: "string \<Rightarrow> DatabaseConfig \<Rightarrow> DatabaseConfig" where
  "set_dsn_field kv d =
     (if CHR ''='' \<notin> set kv then d
      else let key = takeWhile (\<lambda>c. c \<noteq> CHR ''='') kv; val = tl (dropWhile (\<lambda>c. c \<noteq> CHR ''='') kv)
      in if key = ''host'' then d\<lparr>dc_Host := val\<rparr>
         else if key = ''port'' then d\<lparr>dc_Port := scan_decimal val (dc_Port d)\<rparr>
         else if key = ''user'' then d\<lparr>dc_User := val\<rparr>
         else if key = ''password'' then d\<lparr>dc_Password := val\<rparr>
         else if key = ''dbname'' then d\<lparr>dc_DBName := val\<rparr>
         else if key = ''sslmode'' then d\<lparr>dc_SSLMode := val\<rparr> else d)"

definition parseDSN :: "string \<Rightarrow> DatabaseConfig \<Rightarrow> DatabaseConfig" where
  "parseDSN dsn d = fold set_dsn_field (fields dsn) d"

subsection \<open>The environment\<close>

type_synonym environment = "string \<Rightarrow> string"

text \<open>A variable that is set overrides; a number only if it is one and positive.\<close>

definition override :: "environment \<Rightarrow> string \<Rightarrow> (string \<Rightarrow> 'a \<Rightarrow> 'a) \<Rightarrow> 'a \<Rightarrow> 'a" where
  "override env name = (\<lambda>change x. if env name \<noteq> [] then change (env name) x else x)"

definition positive_number :: "(int \<Rightarrow> 'a \<Rightarrow> 'a) \<Rightarrow> string \<Rightarrow> 'a \<Rightarrow> 'a" where
  "positive_number change v x = (case ParseInt v of Inl _ \<Rightarrow> x | Inr n \<Rightarrow> if 0 < n then change n x else x)"

definition parseBool :: "string \<Rightarrow> bool" where
  "parseBool v = (v = ''1'' \<or> equal_fold v ''true'' \<or> equal_fold v ''yes'')"

fun split_at_char :: "char \<Rightarrow> string \<Rightarrow> string list" where
  "split_at_char sep [] = [[]]"
| "split_at_char sep (c # cs) = (if c = sep then [] # split_at_char sep cs
     else case split_at_char sep cs of [] \<Rightarrow> [[c]] | part # parts \<Rightarrow> (c # part) # parts)"

definition splitCSV :: "string \<Rightarrow> string list" where
  "splitCSV v = filter (\<lambda>p. p \<noteq> []) (map trim_space (split_at_char (CHR '','') v))"

definition serverOverrides :: "environment \<Rightarrow> ServerConfig \<Rightarrow> ServerConfig" where
  "serverOverrides env s =
     (let s = (if env ''SERVER_HTTP_ADDR'' \<noteq> [] then s\<lparr>sc_HTTPAddr := env ''SERVER_HTTP_ADDR''\<rparr>
               else override env ''HTTP_ADDR'' (\<lambda>v. sc_HTTPAddr_update (\<lambda>_. v)) s)
      in if env ''SERVER_GRPC_ADDR'' \<noteq> [] then s\<lparr>sc_GRPCAddr := env ''SERVER_GRPC_ADDR''\<rparr>
         else override env ''GRPC_ADDR'' (\<lambda>v. sc_GRPCAddr_update (\<lambda>_. v)) s)"

text \<open>The variables of a database: the connection string first, then the single fields.\<close>

definition databaseOverrides :: "environment \<Rightarrow> string \<Rightarrow> string \<Rightarrow> DatabaseConfig \<Rightarrow> DatabaseConfig" where
  "databaseOverrides env dsnName prefix d =
     override env (prefix @ ''SSLMODE'') (\<lambda>v. dc_SSLMode_update (\<lambda>_. v))
    (override env (prefix @ ''DBNAME'') (\<lambda>v. dc_DBName_update (\<lambda>_. v))
    (override env (prefix @ ''PASSWORD'') (\<lambda>v. dc_Password_update (\<lambda>_. v))
    (override env (prefix @ ''USER'') (\<lambda>v. dc_User_update (\<lambda>_. v))
    (override env (prefix @ ''PORT'') (positive_number (\<lambda>n. dc_Port_update (\<lambda>_. n)))
    (override env (prefix @ ''HOST'') (\<lambda>v. dc_Host_update (\<lambda>_. v))
    (override env dsnName parseDSN d))))))"

definition exchangeOverrides :: "environment \<Rightarrow> ExchangeConfig \<Rightarrow> ExchangeConfig" where
  "exchangeOverrides env e =
     override env ''SYMBOL_CACHE_TTL'' (\<lambda>v. ec_SymbolCacheTTL_update (\<lambda>_. v))
    (override env ''MOCK_BINANCE'' (\<lambda>v. ec_MockBinance_update (\<lambda>_. v = ''1'' \<or> equal_fold v ''true'')) e)"

definition credentialOverrides :: "environment \<Rightarrow> CredentialConfig \<Rightarrow> CredentialConfig" where
  "credentialOverrides env c =
     override env ''CORE_CREDENTIAL_KEY_VERSION'' (\<lambda>v. cc_KeyVersion_update (\<lambda>_. v))
    (override env ''CORE_CREDENTIAL_ENCRYPTION_KEY'' (\<lambda>v. cc_EncryptionKey_update (\<lambda>_. v)) c)"

definition kafkaOverrides :: "environment \<Rightarrow> NotificationKafkaConfig \<Rightarrow> NotificationKafkaConfig" where
  "kafkaOverrides env k =
     override env ''NOTIFICATION_KAFKA_GROUP_ID'' (\<lambda>v. nk_GroupID_update (\<lambda>_. v))
    (override env ''NOTIFICATION_KAFKA_TOPIC'' (\<lambda>v. nk_Topic_update (\<lambda>_. v))
    (override env ''NOTIFICATION_KAFKA_BROKERS'' (\<lambda>v. nk_Brokers_update (\<lambda>_. splitCSV v)) k))"

definition telegramOverrides :: "environment \<Rightarrow> NotificationTelegramConfig \<Rightarrow> NotificationTelegramConfig" where
  "telegramOverrides env t =
     override env ''NOTIFICATION_BIND_CODE_TTL_SECONDS'' (positive_number (\<lambda>n. nt_BindCodeTTLSeconds_update (\<lambda>_. n)))
    (override env ''TELEGRAM_BOT_USERNAME'' (\<lambda>v. nt_BotUsername_update (\<lambda>_. v))
    (override env ''TELEGRAM_BOT_TOKEN'' (\<lambda>v. nt_BotToken_update (\<lambda>_. v))
    (override env ''NOTIFICATION_TELEGRAM_ENABLED'' (\<lambda>v. nt_Enabled_update (\<lambda>_. parseBool v)) t)))"

definition deliveryOverrides :: "environment \<Rightarrow> NotificationDeliveryConfig \<Rightarrow> NotificationDeliveryConfig" where
  "deliveryOverrides env d =
     override env ''NOTIFICATION_DELIVERY_ENABLED'' (\<lambda>v. nd_Enabled_update (\<lambda>_. parseBool v))
    (override env ''NOTIFICATION_SEND_TIMEOUT_SECONDS'' (positive_number (\<lambda>n. nd_SendTimeoutSeconds_update (\<lambda>_. n))) d)"

definition notificationOverrides :: "environment \<Rightarrow> NotificationConfig \<Rightarrow> NotificationConfig" where
  "notificationOverrides env n =
     (override env ''NOTIFICATION_ENABLED'' (\<lambda>v. nc_Enabled_update (\<lambda>_. parseBool v)) n)
       \<lparr>nc_Kafka := kafkaOverrides env (nc_Kafka n), nc_Telegram := telegramOverrides env (nc_Telegram n),
        nc_Delivery := deliveryOverrides env (nc_Delivery n)\<rparr>"

definition ApplyEnvOverrides :: "environment \<Rightarrow> Config \<Rightarrow> Config" where
  "ApplyEnvOverrides env c = \<lparr>cf_Server = serverOverrides env (cf_Server c),
     cf_Database = databaseOverrides env ''TIMESCALEDB_DSN'' ''DATABASE_'' (cf_Database c),
     cf_OrderDatabase = databaseOverrides env ''ORDER_TIMESCALEDB_DSN'' ''ORDER_DATABASE_'' (cf_OrderDatabase c),
     cf_Exchange = exchangeOverrides env (cf_Exchange c), cf_Credential = credentialOverrides env (cf_Credential c),
     cf_Notification = notificationOverrides env (cf_Notification c)\<rparr>"

subsection \<open>A connection string reads back\<close>

text \<open>A word without white space is one field.\<close>

definition word :: "string \<Rightarrow> bool" where "word s = list_all (\<lambda>c. \<not> is_space c) s"

lemma word_append [simp]: "word (s @ t) = (word s \<and> word t)"
  by (simp add: word_def)

lemma fields_from_word: "word w \<Longrightarrow> fields_from acc (w @ rest) = fields_from (acc @ w) rest"
  by (induction w arbitrary: acc) (simp_all add: word_def)

lemma fields_word: "word w \<Longrightarrow> w \<noteq> [] \<Longrightarrow> fields (w @ '' '' @ rest) = w # fields rest"
  by (simp add: fields_def fields_from_word is_space_def)

lemma fields_last: "word w \<Longrightarrow> w \<noteq> [] \<Longrightarrow> fields w = [w]"
  using fields_from_word [of w "[]" "[]"] by (simp add: fields_def)

lemma show_int_word: "word (show_int n)"
proof -
  have digit: "\<not> is_space c" if "number_char c" for c
    using that by (auto simp: number_char_def char_digit_def is_space_def Let_def split: if_splits)
  have "word (show_digits n)" if "0 \<le> n" for n
    using show_digits_chars [OF that] digit by (auto simp: word_def list_all_iff)
  moreover have "\<not> is_space (CHR ''-'')" by code_simp
  ultimately show ?thesis by (simp add: show_int_def word_def)
qed

lemma digits_digit: "0 \<le> n \<Longrightarrow> list_all (\<lambda>c. char_digit c \<noteq> None) (show_digits n)"
proof -
  have "parse_digits a xs \<noteq> None \<Longrightarrow> list_all (\<lambda>c. char_digit c \<noteq> None) xs" for a xs
    by (induction xs arbitrary: a) (auto split: option.splits)
  then show "0 \<le> n \<Longrightarrow> ?thesis" by (metis parse_show_digits option.distinct(1))
qed

lemma take_sign_digits: "0 \<le> n \<Longrightarrow> take_sign (show_digits n) = (False, show_digits n)"
  using hd_show_digits [of n] by (cases "show_digits n") (auto simp: take_sign_def char_digit_def Let_def split: if_splits)

lemma ParseInt_show: assumes "- (2 ^ 63) \<le> i" "i < 2 ^ 63" shows "ParseInt (show_int i) = Inr i"
proof (cases "i < 0")
  case True
  then show ?thesis using assms parse_show_digits [of "- i" 0] by (simp add: ParseInt_def show_int_def take_sign_def)
next
  case False
  then show ?thesis using assms parse_show_digits [of i 0] by (simp add: ParseInt_def show_int_def take_sign_digits)
qed

lemma scan_show: assumes "- (2 ^ 63) \<le> i" "i < 2 ^ 63" shows "scan_decimal (show_int i) n = i"
proof -
  have all: "takeWhile (\<lambda>c. char_digit c \<noteq> None) (show_digits k) = show_digits k" if "0 \<le> k" for k
    using digits_digit [OF that] unfolding takeWhile_eq_all_conv list_all_iff .
  have "case take_sign (show_int i) of (neg, body) \<Rightarrow> (if neg then ''-'' else []) @ takeWhile (\<lambda>c. char_digit c \<noteq> None) body = show_int i"
  proof (cases "i < 0")
    case True
    then show ?thesis using all [of "- i"] by (simp only: show_int_def if_True take_sign_def list.case prod.case) simp
  next
    case False
    then have nonneg: "0 \<le> i" by simp
    show ?thesis unfolding show_nonneg [OF nonneg] take_sign_digits [OF nonneg] prod.case if_False append_Nil by (rule all [OF nonneg])
  qed
  then show ?thesis using ParseInt_show [OF assms] by (auto simp: scan_decimal_def Let_def split: prod.splits)
qed

definition plain_database :: "DatabaseConfig \<Rightarrow> bool" where
  "plain_database d = (list_all word [dc_Host d, dc_User d, dc_Password d, dc_DBName d, dc_SSLMode d]
     \<and> - (2 ^ 63) \<le> dc_Port d \<and> dc_Port d < 2 ^ 63)"

lemma set_dsn_fields:
  "set_dsn_field (''host='' @ v) d = d\<lparr>dc_Host := v\<rparr>"
  "set_dsn_field (''port='' @ v) d = d\<lparr>dc_Port := scan_decimal v (dc_Port d)\<rparr>"
  "set_dsn_field (''user='' @ v) d = d\<lparr>dc_User := v\<rparr>"
  "set_dsn_field (''password='' @ v) d = d\<lparr>dc_Password := v\<rparr>"
  "set_dsn_field (''dbname='' @ v) d = d\<lparr>dc_DBName := v\<rparr>"
  "set_dsn_field (''sslmode='' @ v) d = d\<lparr>dc_SSLMode := v\<rparr>"
  by (simp_all add: set_dsn_field_def)

lemma field_words: "word ''host=''" "word ''port=''" "word ''user=''" "word ''password=''" "word ''dbname=''" "word ''sslmode=''"
  by code_simp+

lemma fields_DSN:
  assumes "plain_database d"
  shows "fields (DSN d) = [''host='' @ dc_Host d, ''port='' @ show_int (dc_Port d), ''user='' @ dc_User d, ''password='' @ dc_Password d,
    ''dbname='' @ dc_DBName d, ''sslmode='' @ dc_SSLMode d]"
proof -
  have words: "word (dc_Host d)" "word (dc_User d)" "word (dc_Password d)" "word (dc_DBName d)" "word (dc_SSLMode d)"
    using assms by (simp_all add: plain_database_def)
  have step: "fields (k @ v @ '' '' @ rest) = (k @ v) # fields rest" if "word k" "word v" "k \<noteq> []" for k v rest
    using fields_word [of "k @ v" rest] that by simp
  have last: "fields (k @ v) = [k @ v]" if "word k" "word v" "k \<noteq> []" for k v
    using fields_last [of "k @ v"] that by simp
  have sep: "'' port='' = '' '' @ ''port=''" "'' user='' = '' '' @ ''user=''" "'' password='' = '' '' @ ''password=''"
    "'' dbname='' = '' '' @ ''dbname=''" "'' sslmode='' = '' '' @ ''sslmode=''" by simp_all
  show ?thesis unfolding DSN_def sep append_assoc
    by (simp only: step last field_words show_int_word words list.simps not_False_eq_True)
qed

text \<open>Whatever was configured before: the connection string of a database with values free of white space sets them all.\<close>

theorem parse_DSN: "plain_database d \<Longrightarrow> parseDSN (DSN d) d' = d"
proof -
  assume plain: "plain_database d"
  then have "scan_decimal (show_int (dc_Port d)) n = dc_Port d" for n by (simp add: plain_database_def scan_show)
  then show ?thesis unfolding parseDSN_def fields_DSN [OF plain] by (simp only: fold_simps set_dsn_fields) simp
qed

text \<open>Values are not quoted, so that a password with a space is cut at it.\<close>

lemma spaced_password_cut:
  "dc_Password (parseDSN (DSN ((defaultDatabase ''account'')\<lparr>dc_Password := ''a b''\<rparr>)) (defaultDatabase [])) = ''a''"
  by code_simp

subsection \<open>Overriding\<close>

lemma override_unset: "env name = [] \<Longrightarrow> override env name change x = x"
  by (simp add: override_def)

text \<open>Without variables nothing changes, and the order database is its own: no variable of the account database touches it.\<close>

lemma no_overrides: "(\<And>name. env name = []) \<Longrightarrow> ApplyEnvOverrides env c = c"
  by (simp add: ApplyEnvOverrides_def serverOverrides_def databaseOverrides_def exchangeOverrides_def credentialOverrides_def
      notificationOverrides_def kafkaOverrides_def telegramOverrides_def deliveryOverrides_def override_unset Let_def)

lemma order_database_independent:
  assumes "\<And>name. has_prefix name ''ORDER_'' \<Longrightarrow> env name = env' name"
  shows "cf_OrderDatabase (ApplyEnvOverrides env c) = cf_OrderDatabase (ApplyEnvOverrides env' c)"
proof -
  have field: "override env (''ORDER_DATABASE_'' @ n) = override env' (''ORDER_DATABASE_'' @ n)" for n
  proof -
    have "env (''ORDER_DATABASE_'' @ n) = env' (''ORDER_DATABASE_'' @ n)" by (rule assms) (simp add: has_prefix_def)
    then show ?thesis by (simp only: override_def)
  qed
  have "env ''ORDER_TIMESCALEDB_DSN'' = env' ''ORDER_TIMESCALEDB_DSN''" by (rule assms) (simp add: has_prefix_def)
  then have dsn: "override env ''ORDER_TIMESCALEDB_DSN'' = override env' ''ORDER_TIMESCALEDB_DSN''" by (simp only: override_def)
  show ?thesis unfolding ApplyEnvOverrides_def databaseOverrides_def field dsn by (simp only: Config.simps)
qed

end
