(* ===== verification/Spec2Isabelle.thy ===== *)
theory Spec2Isabelle
  imports Reconciliation Account_Guarantees Service_Errors Audit_Log Notification_Guarantees
    Binance_Wire Binance_Streams Binance_Account Account_Meta Credentials Symbol_Catalog Configuration Scenario
begin

text \<open>
  A verification of core-service: its order path, and the account service beside it.

  The program.  core-service holds trading accounts and places their orders.  The order path
  (\<^verbatim>\<open>internal/order\<close>) is: the order service (\<^verbatim>\<open>service/grpc.go\<close>) validates a request,
  stores an intent and an attempt in the order store (\<^verbatim>\<open>repository/timescale.go\<close>), asks the risk gate
  (\<^verbatim>\<open>risk\<close>), hands the order to an executor (\<^verbatim>\<open>executor\<close>), stores what the exchange answered and
  notifies the user.  An order whose outcome is unknown or still open is followed up in three ways: by
  ResolveOrderAttempt, by the recovery scanner (\<^verbatim>\<open>lifecycle/scanner.go\<close>), and by the user data streams
  (\<^verbatim>\<open>executor/user_data_stream_manager.go\<close>, \<^verbatim>\<open>lifecycle/user_data_ingestor.go\<close>).  All three write
  the same tables, and all of them may fail between any two statements.  The account service
  (\<^verbatim>\<open>internal/service/grpc.go\<close> over \<^verbatim>\<open>internal/repository/timescale.go\<close>) keeps users, accounts, the venues
  bound to them, strategies, the sessions that run them and the wallets; an update of a wallet may start a reconciliation
  (\<^verbatim>\<open>internal/reconciliation\<close>) of the stored wallet with the exchange.

  The theories, in the order of their imports.
  \<^item> \<open>Go_Prelude\<close>, \<open>Float64\<close>, \<open>Go_Format\<close>, \<open>Go_Regexp\<close>: the parts of Go the code uses: strings as byte lists, errors
    with wrapping and gRPC codes, times as nanoseconds since year one, IEEE doubles with rounding
    (rationals, infinities, NaN; \<open>wf64\<close> are the representable ones), the formatting verbs, and regular expressions.
  \<^item> \<open>Lifecycle\<close>: events, identity keys, the backtest matcher, stop cancellation.
  \<^item> \<open>Order_Tables\<close>, \<open>Order_Repository\<close>: the tables as lists of rows, a connection whose
    statements fail before or after taking effect (\<open>fault\<close>), transactions, and every SQL operation of
    the repository.  \<open>Store_Invariant\<close> states the integrity of the tables and proves that every write keeps
    it (locale \<open>db_invariant\<close>, whose rules for statements and transactions every invariant of the store
    reuses); \<open>Store_Effects\<close> what finalising and saving an event do; \<open>Order_Queries\<close> what the reads return.
  \<^item> \<open>Scanner\<close>: the recovery scanner as a function and as a step relation over any store that meets the
    locale \<open>recovery_store\<close>, interpreted on the order store.
  \<^item> \<open>Domain\<close>, \<open>Exchange_Adapter\<close>, \<open>Risk_Gate\<close>, \<open>Risk_Facts\<close>: enumerations and wallets, the adapter registry, and
    the gate with its readers; the locale \<open>gate_contract\<close> is what the order service relies on.
  \<^item> \<open>Executor\<close>, \<open>User_Data\<close>: the backtest executor, the routers and recovery through adapters, account metadata;
    the stream manager as a step relation and the ingestor (locale \<open>ingest_store\<close>).
  \<^item> \<open>Order_Service\<close>, \<open>Order_Service_Facts\<close>, \<open>Order_History\<close>: the service, its calls as sequences of effects (a
    trace of what was stored, executed, asked and sent), and whole histories.  The lemmas are proved
    in the locale \<open>order_service\<close> for any gate that meets its contract, and interpreted on the gate main wires.
  \<^item> \<open>Reconciliation\<close>: the comparison of two wallets per venue and the coordinator that runs it.
  \<^item> \<open>Sql_Store\<close>, \<open>Account_Tables\<close>, \<open>Account_Repository\<close>: the connection again, generic in its tables, with the locale
    \<open>sql_relation\<close> (a relation between the tables before and after that statements and transactions compose to); the account
    tables with the constraints of the migrations; every operation of the account store.
  \<^item> \<open>Wallet_View\<close>, \<open>Portfolio\<close>, \<open>Account_Service\<close>, \<open>Session_Service\<close>, \<open>Wallet_Service\<close>: the handlers of the account service, by
    subject, with the display metrics of wallets (\<^verbatim>\<open>walletmetrics\<close>) and the keys of simulated venues (\<^verbatim>\<open>venuekeys\<close>).
    The exchange adapters, encryption, the JSON decoder, random bytes and the clock are fields of \<open>AccountEnv\<close>.
  \<^item> \<open>Account_Invariant\<close>: the integrity of the account tables (\<open>account_ok\<close>), kept by every write.
    \<open>Account_Calls\<close>: the requests on the account tables as a datatype, the locale \<open>account_writes\<close> (the laws a relation must have on the writes) and what follows
    for every handler.  \<open>Account_History\<close>: two interpretations, integrity and what no call takes back, and histories of
    calls.  \<open>Account_Scenario\<close>, \<open>Account_Guarantees\<close>, \<open>Account_Errors\<close>: concrete runs and the properties.  \<open>Service_Errors\<close>: all methods of
    the service, with those on notifications, reconciliation runs and symbols, and the errors they answer with.
  \<^item> \<open>Account_Meta\<close>: the metadata of an order read from the account tables (\<^verbatim>\<open>order/accountmeta\<close>), where the two services meet
    (locale \<open>metadata_source\<close>).  \<open>Credentials\<close>: encrypted credentials (\<^verbatim>\<open>credential\<close>) over base64, the cipher being a parameter.
    \<open>Symbol_Catalog\<close>: the cache of symbols (\<^verbatim>\<open>catalog\<close>) as a step relation of concurrent calls.  \<open>Configuration\<close>: settings,
    overrides and connection strings (\<^verbatim>\<open>config\<close>).
  \<^item> \<open>Audit_Log\<close>: the stored reconciliation runs, and the paged lists of a session (locale \<open>audit_list\<close>).
  \<^item> \<open>Go_Parse\<close>: \<^verbatim>\<open>strconv.ParseFloat\<close> and \<^verbatim>\<open>ParseInt\<close> with their full syntax; a printed double reads back.
  \<^item> \<open>Binance_Http\<close>: an HTTP exchange as a program over the requests sent so far.  The network (\<open>Web\<close>) is a function of
    those requests and the next one, so it may answer the same request differently each time; a program (\<open>'a web\<close>) returns
    its result and the requests it has sent.  Escaping, encoding and signing of parameters are the code's.
  \<^item> \<open>Binance_Futures\<close>: the futures executor (\<^verbatim>\<open>order/executor/binance.go\<close>).  \<open>Binance_Adapter\<close>, \<open>Binance_Clients\<close>: the adapter
    (\<^verbatim>\<open>exchange/binance\<close>): credentials, endpoints, capability and order contract, the spot client, the remote and the simulated
    executor, cancelling, reading orders and symbol rules, and the factory.  \<open>Binance_Streams\<close>: its user data stream.
    \<open>Binance_Wallet\<close>, \<open>Binance_Account\<close>: reading an account (\<^verbatim>\<open>exchange/binance.go\<close>), the router over environments
    (\<^verbatim>\<open>exchange/router.go\<close>) and the portfolio snapshot.  \<open>Binance_Guarantees\<close>, \<open>Binance_Wire\<close>: what these clients send and
    report; the rules \<open>sends\<close>, \<open>leads\<close> and \<open>yields\<close> follow the structure of the programs.
  \<^item> \<open>Notification_Store\<close>, \<open>Notification_Service\<close>, \<open>Notification_Guarantees\<close>: the notification settings, channels and plans;
    events, rate limiter, delivery and the binding of a chat (\<^verbatim>\<open>internal/notification\<close>) with its handlers; histories of
    calls with the log of the codes issued and presented, newest first.
  \<^item> \<open>Scenario\<close>: concrete inputs, evaluated in the kernel, for the witnesses.

  Parameters.  The exchange, the account repository behind the metadata, the clock and the UUID source are
  arguments of the definitions, arbitrary functions of the call; nothing is assumed of them, so UUIDs may
  collide and the clock may stand still.  Go's map iteration order is an argument too (\<open>range_order\<close>).
  In the Binance clients the decoding of JSON into the structures of the code, the HMAC and the environment
  variables are parameters as well, and a clock reads the requests sent so far.
  SQL leaves the order of rows with equal sort keys open; the model fixes it to the insertion order.

  What is shown.  C1 to C5: the order service executes an order at most once per client order id over
  every history, in the right order of effects, reports the values it stored, column by column, and never executes on recovery.
  C7 to C13: integrity, atomicity, idempotence, tenant isolation and completeness of the order store.
  C14, C16 and C17: recovery, cancellation and event identity.  C15: orders of a session go to the venues it has captured, over
  every history of the account service.  C18: encrypted credentials read back.  C19 to C23: the risk gate.
  C20, C22, C24, C25 and C33: the Binance clients: what a stream hands on, that reported executions are covered by
  trades, that an order is read by the exchange as it was asked for and posted once, and that gate and adapter agree on the
  orders they accept; C6: an account is read whenever the futures requests are answered, and what each other failing request leaves
  out.  C27 to C29: streams.
  C26 and C30: notifications.  C31 and C32: reconciliation.  C34 to C36: integrity of the account tables over every history,
  sessions that never come back, the atomic binding of a venue.  C37 and C40: the audit lists.  C38 and C39: the errors of the account service and
  its recovery from a lost runtime.  C11, C16 and C23 are stated column by column, call by call and limit by limit, independently of the
  definitions they are about (\<open>due_order\<close>, \<open>answered_by\<close>, \<open>futures_fits\<close>).  Parts of C37 and C38 are runs that show a defect, and so are
  \<open>late_trade_stored_twice\<close>, \<open>nan_quantity_allowed\<close>, \<open>padded_session_stored\<close>, \<open>colon_version_unreadable\<close>, \<open>spaced_password_cut\<close> and the last lemmas of \<open>Binance_Wire\<close>, \<open>Binance_Streams\<close> and \<open>Binance_Account\<close>.

  Bounds.  There is no fuel: every loop of the modelled code is over a list or bounded by a
  counter with a termination proof (the trades of an order are asked for at most five times, as in the code); the client that follows pages (\<open>follow_pages\<close>) is partial, and C40 shows that it ends.

  Not modelled.  The conversions of orders to protobuf messages, connecting and migrating the database, the Kafka and
  Telegram clients, the transport below an HTTP request (redirects, time limits) and its logging, the mock exchange server, the
  decoding of YAML and JSON and the cipher (parameters), the settings of the log library, process wiring, the rounding of NUMERIC columns to 18 decimals and of
  timestamps to microseconds, and the metadata of parsed credentials.  SyncOnce is one sequential run: a stream that ends while it goes over the
  orders is not interleaved with it (the steps of C27 are in any order).  Calls of the account service run one after another;
  \<open>create_venue_races_with_save_session\<close> shows what two concurrent ones can do.
\<close>

section \<open>The order service\<close>

text \<open>
  C1.  An order is never sent to an exchange twice.  Over any history of the order service (calls of
  PlaceOrder and ResolveOrderAttempt in any order, every failure of the store, the executor and the exchange,
  and anything else that uses the store in between), the orders handed to an executor carry
  pairwise different client order ids, so that a retry or a recovery never repeats an order
  under the same id.
\<close>

theorem client_orders_executed_once:
  assumes "history (coreService iter registry walletState sv) s"
  shows "distinct (map xq_ClientOrderID (executions (svc_trace s)))"
  using core_service.history_keeps [OF assms] by (simp add: history_inv_def)

theorem client_orders_executed_once_witness:
  "history demoCore demoPlaced \<and> executions (svc_trace demoPlaced) \<noteq> []
   \<and> distinct (map xq_ClientOrderID (executions (svc_trace demoPlaced)))"
  using demo_history client_orders_executed_once [OF demo_history [unfolded demoCore_def]] demo_placed by blast

text \<open>
  C2.  The order of effects of PlaceOrder.  Whatever the store, the gate and the executor answer, a call
  either sends nothing to the executor, or it sends exactly one order, and then only after the
  intent and the attempt were stored and the gate answered ALLOW, in this order, under a client order id
  that no stored attempt had before; the stored attempts gain that attempt and nothing else.
\<close>

theorem PlaceOrder_effects:
  "executed_call s (snd (PlaceOrder (coreService iter registry walletState sv) req s))
   \<or> unexecuted_call s (snd (PlaceOrder (coreService iter registry walletState sv) req s))"
proof -
  obtain r s' where "PlaceOrder (coreService iter registry walletState sv) req s = (r, s')" by fastforce
  with core_service.PlaceOrder_call [OF this] show ?thesis by simp
qed

text \<open>
  C3.  What PlaceOrder reports is what the store holds.  If a response carries an order, then after the call the attempt row has
  the reported status, error, client order id and exchange order id; the order row has every reported value that the write
  sets: identifiers, executed and remaining quantity, average and limit price, status, error, flags and the recovery columns; and every reported fill is a
  row of the fills table with its quantity, price, fee, status and identifiers.  The columns that only an insertion sets
  (attempt, intent, time and original quantity) hold the reported values too when the source of ids never repeats
  itself and no earlier order has the id.
\<close>

theorem PlaceOrder_reports_stored:
  assumes "PlaceOrder (coreService iter registry walletState sv) req s = (Inr resp, s')" "ps_Order resp = Some order"
  shows "recorded_execution (inj (sv_uuid sv) \<and> or_OrderID order \<notin> order_ids (svc_db s)) resp order (svc_db s')"
  using core_service.PlaceOrder_honest [OF assms(1)] assms(2) by (simp add: honest_def coreService_def SetRiskGate_def)

lemma parse_shown: "0 \<le> n \<Longrightarrow> parse_digits 0 (show_digits n) = Some n"
  by (subst parse_show_digits) simp_all

lemma inj_demoUUID: "inj demoUUID"
proof (rule injI)
  fix m n
  assume "demoUUID m = demoUUID n"
  then have "show_digits (int m) = show_digits (int n)" by (simp add: demoUUID_def show_nonneg)
  then have "Some (int m) = Some (int n)" using parse_shown [of "int m"] parse_shown [of "int n"] by (metis of_nat_0_le_iff)
  then show "m = n" by simp
qed

theorem PlaceOrder_reports_stored_witness:
  "\<exists>resp order. PlaceOrder demoCore demoRequest demoStart = (Inr resp, demoPlaced) \<and> ps_Order resp = Some order
     \<and> recorded_execution True resp order (svc_db demoPlaced)"
proof -
  obtain resp order where p: "PlaceOrder demoCore demoRequest demoStart = (Inr resp, demoPlaced)" "ps_Order resp = Some order"
    using demo_placed by blast
  have "inj (sv_uuid demoService)" by (simp add: demoService_def inj_demoUUID)
  moreover have "or_OrderID order \<notin> order_ids (svc_db demoStart)" by (simp add: demoStart_def empty_db_def order_ids_def)
  ultimately show ?thesis using PlaceOrder_reports_stored [OF p(1) [unfolded demoCore_def] p(2)] p by simp
qed

text \<open>
  C4.  PlaceOrder keeps the tables sound under every failure of the connection (a statement that fails before
  or after it took effect), and reports one of the documented attempt statuses.
\<close>

theorem PlaceOrder_keeps_store:
  assumes "PlaceOrder (coreService iter registry walletState sv) req s = (r, s')" "db_ok (svc_db s)"
  shows "db_ok (svc_db s') \<and> (\<forall>resp. r = Inr resp \<longrightarrow> ps_AttemptStatus resp \<in> place_statuses)"
  using core_service.PlaceOrder_call [OF assms(1)] assms(2) by simp

theorem PlaceOrder_keeps_store_witness:
  "\<exists>resp. PlaceOrder demoCore demoRequest demoStart = (Inr resp, demoPlaced)
     \<and> db_ok (svc_db demoPlaced) \<and> ps_AttemptStatus resp \<in> place_statuses"
proof -
  obtain resp where p: "PlaceOrder demoCore demoRequest demoStart = (Inr resp, demoPlaced)" using demo_placed by blast
  have "db_ok (svc_db demoStart)" by (simp add: demoStart_def empty_db_ok)
  from PlaceOrder_keeps_store [OF p [unfolded demoCore_def] this] p show ?thesis by blast
qed

text \<open>
  C5.  Resolving an attempt never sends an order to an executor, keeps the tables sound, and neither adds an
  attempt nor changes the client order id of one.
\<close>

theorem ResolveOrderAttempt_never_executes:
  assumes "history (coreService iter registry walletState sv) s"
    "ResolveOrderAttempt (coreService iter registry walletState sv) req s = (r, s')"
  shows "executions (svc_trace s') = executions (svc_trace s) \<and> attempt_ids (svc_db s') = attempt_ids (svc_db s)
    \<and> db_ok (svc_db s')"
  using ResolveOrderAttempt_call [OF assms(2)] core_service.history_keeps [OF assms(1)]
  by (auto simp: history_inv_def quiet_def)

theorem ResolveOrderAttempt_never_executes_witness:
  "\<exists>r s'. ResolveOrderAttempt demoCore demoResolve demoPlaced = (r, s')
     \<and> executions (svc_trace s') = executions (svc_trace demoPlaced) \<and> db_ok (svc_db s')"
proof -
  obtain r s' where r: "ResolveOrderAttempt demoCore demoResolve demoPlaced = (r, s')" by fastforce
  from ResolveOrderAttempt_never_executes [OF demo_history [unfolded demoCore_def] r [unfolded demoCore_def]] r
  show ?thesis by blast
qed

text \<open>
  A settled attempt is final: resolving an attempt whose stored status is FAILED, ACCEPTED, RECOVERED or
  RISK_REJECTED only reads.  It asks the exchange nothing, stores nothing and notifies nobody.
\<close>

theorem settled_attempt_only_read:
  assumes "FindOrderAttempt 0 (rs_AccountId req) (rs_IntentId req) (rs_AttemptId req) (rs_ClientOrderId req) (svc_db s)
      = (Inr attempt, db)" "isSettledAttempt (oa_Status attempt)"
  shows "svc_trace (snd (ResolveOrderAttempt sv req s)) = svc_trace s"
  using settled_no_exchange_call [of sv req s] assms by (cases "ResolveOrderAttempt sv req s") auto

theorem settled_attempt_only_read_witness:
  "\<exists>attempt db. demoFind demoPlaced = (Inr attempt, db) \<and> isSettledAttempt (oa_Status attempt)
     \<and> svc_trace (snd (ResolveOrderAttempt demoCore demoResolve demoPlaced)) = svc_trace demoPlaced"
  using settled_attempt_only_read [of demoResolve demoPlaced _ _ demoCore]
  unfolding demoFind_def [symmetric] using demo_found by blast

section \<open>The order store\<close>

text \<open>
  C7.  Every write of the order store keeps its tables sound (unique keys, foreign keys, status codes in their
  ranges, unique client order ids, a consistent event log), whatever statements fail and whether
  they fail before or after taking effect.
\<close>

theorem store_writes_keep_integrity:
  assumes "db_ok db"
  shows "db_ok (snd (UpsertOrderIntent intent db)) \<and> db_ok (snd (CreateOrderAttempt attempt db))
    \<and> db_ok (snd (FinalizeOrderAttempt attempt order fills db))
    \<and> db_ok (snd (FinalizeRiskRejectedAttempt intent attempt db))
    \<and> db_ok (snd (MarkRecoveryExpired now orderID at_time lastError db))
    \<and> db_ok (snd (MarkRecoveryResolved now orderID state at_time db))
    \<and> db_ok (snd (SaveLifecycleEvent now event db))"
  using assms by (intro conjI repository_ok [THEN integrity.preservesD])

theorem store_writes_keep_integrity_witness:
  "db_ok (svc_db demoPlaced) \<and> db_ok (snd (MarkRecoveryExpired 1 ''o'' 2 ''late'' (svc_db demoPlaced)))"
  using store_writes_keep_integrity [OF demo_db_ok] demo_db_ok by blast

text \<open>
  C8.  FinalizeOrderAttempt is atomic: it either changes no table, or it has stored the attempt, the order and
  all the fills.  When it reports success it has stored them.
\<close>

theorem FinalizeOrderAttempt_atomic:
  "case FinalizeOrderAttempt attempt order fills db of
     (Inr _, db') \<Rightarrow> finalized attempt order fills db db'
   | (Inl _, db') \<Rightarrow> tables db' = tables db \<or> finalized attempt order fills db db'"
proof -
  obtain r db' where f: "FinalizeOrderAttempt attempt order fills db = (r, db')" by fastforce
  from FinalizeOrderAttempt_cases [OF f] show ?thesis by (cases r) (auto simp: f)
qed

text \<open>
  C9.  Recording a lifecycle event is idempotent.  When an event that has an identity was saved and is
  delivered again later, the save succeeds, returns the same event id, and adds neither an event nor a fill.
\<close>

theorem SaveLifecycleEvent_idempotent:
  assumes "db_ok db" "SaveLifecycleEvent now event db = (Inr saved, db1)" "db_faults db1 = []"
    "\<not> is_zero (ev_OccurredAt event)" "EventIdentityKey (normalized_event now event) \<noteq> []"
  shows "\<exists>saved' db2. SaveLifecycleEvent now' event db1 = (Inr saved', db2) \<and> ev_EventID saved' = ev_EventID saved
    \<and> map re_event_id (db_events db2) = map re_event_id (db_events db1)
    \<and> (\<forall>x y. fill_count x y db2 = fill_count x y db1)"
  using assms by (rule save_again)

theorem SaveLifecycleEvent_idempotent_witness:
  "\<exists>saved db1 saved' db2. SaveLifecycleEvent 10 demoEvent empty_db = (Inr saved, db1)
     \<and> SaveLifecycleEvent 20 demoEvent db1 = (Inr saved', db2) \<and> ev_EventID saved' = ev_EventID saved"
proof -
  obtain saved db1 where s: "SaveLifecycleEvent 10 demoEvent empty_db = (Inr saved, db1)" "db_faults db1 = []"
    using demo_saved by blast
  from SaveLifecycleEvent_idempotent [OF empty_db_ok s demo_event_key, of 20] s(1) show ?thesis by blast
qed

text \<open>
  C10.  Fills are not duplicated by the event log: over any sequence of saved events, with any failures in
  between, an order has at most one fill row per exchange trade, if it had at most one before.
\<close>

theorem events_never_duplicate_fills:
  assumes "fill_count orderID tradeID db \<le> 1"
  shows "fill_count orderID tradeID (foldl (\<lambda>db (now, event). snd (SaveLifecycleEvent now event db)) db events) \<le> 1"
  using assms
proof (induction events arbitrary: db)
  case (Cons e events)
  then show ?case using fill_bound.preservesD [OF SaveLifecycleEvent_bound [of 1]] by (cases e) simp
qed simp

theorem events_never_duplicate_fills_witness:
  "fill_count ''o1'' ''t1'' empty_db \<le> 1
   \<and> fill_count ''o1'' ''t1'' (foldl (\<lambda>db (now, event). snd (SaveLifecycleEvent now event db)) empty_db
       [(10, demoEvent), (20, demoEvent)]) \<le> 1"
  using events_never_duplicate_fills [of "''o1''" "''t1''" empty_db "[(10, demoEvent), (20, demoEvent)]"]
  by (simp add: fill_count_def empty_db_def)



text \<open>
  C12.  Tenants are isolated: the four order queries return only rows of the user they were asked for.
\<close>

theorem queries_return_own_rows:
  "(\<forall>items n db'. QueryOrderIntents user acc st se limit offset db = (Inr (items, n), db') \<longrightarrow> (\<forall>x\<in>set items. oi_UserID x = user))
   \<and> (\<forall>items n db'. QueryOrderAttempts user acc st se i limit offset db = (Inr (items, n), db') \<longrightarrow> (\<forall>x\<in>set items. oa_UserID x = user))
   \<and> (\<forall>items n db'. QueryOrders user acc st se i a limit offset db = (Inr (items, n), db') \<longrightarrow> (\<forall>x\<in>set items. or_UserID x = user))
   \<and> (\<forall>items n db'. QueryOrderFills user acc st se i a ord limit offset db = (Inr (items, n), db') \<longrightarrow> (\<forall>x\<in>set items. of_UserID x = user))"
  by (intro conjI allI impI)
    (erule QueryOrderIntents_user QueryOrderAttempts_user QueryOrders_user QueryOrderFills_user)+

theorem queries_return_own_rows_witness:
  "\<exists>items n db'. QueryOrders 11 0 0 [] [] [] 10 0 (svc_db demoPlaced) = (Inr (items, n), db')
     \<and> items \<noteq> [] \<and> (\<forall>x\<in>set items. or_UserID x = 11)"
proof -
  obtain items n db' where q: "QueryOrders 11 0 0 [] [] [] 10 0 (svc_db demoPlaced) = (Inr (items, n), db')" "items \<noteq> []"
    using demo_query by blast
  then show ?thesis
    using queries_return_own_rows [THEN conjunct2, THEN conjunct2, THEN conjunct1, rule_format, OF q(1)] by metis
qed

text \<open>
  C13.  The event log can be read by cursor without gaps: a page holds events of the session after the cursor in
  ascending order of id, and no event of the session between the cursor and the end of the page is missing.
\<close>

theorem ListLifecycleEvents_no_gap:
  assumes "ListLifecycleEvents sessionID cursor limit db = (Inr page, db')"
  shows "\<exists>rows. page = map scan_event rows \<and> sorted (map re_event_id rows)
    \<and> (\<forall>r\<in>set rows. r \<in> set (db_events db') \<and> re_session_id r = Some (trim_space sessionID) \<and> cursor < re_event_id r)
    \<and> (\<forall>r\<in>set (db_events db'). re_session_id r = Some (trim_space sessionID) \<and> cursor < re_event_id r
        \<and> (rows \<noteq> [] \<longrightarrow> re_event_id r < re_event_id (last rows)) \<longrightarrow> r \<in> set rows)"
  using ListLifecycleEvents_page [OF assms] by blast

theorem ListLifecycleEvents_no_gap_witness:
  "\<exists>page db' rows. ListLifecycleEvents ''s1'' 0 10 (svc_db demoPlaced) = (Inr page, db') \<and> page \<noteq> []
     \<and> page = map scan_event rows \<and> sorted (map re_event_id rows)"
proof -
  obtain page db' where p: "ListLifecycleEvents ''s1'' 0 10 (svc_db demoPlaced) = (Inr page, db')" "page \<noteq> []"
    using demo_events by blast
  from ListLifecycleEvents_no_gap [OF p(1)] p show ?thesis by blast
qed

section \<open>Recovery\<close>

text \<open>
  C14.  One pass of the recovery scanner, whatever the exchange answers and whatever statements of the store fail:
  the store keeps its integrity, every event the scanner reports as saved is in the event log under its identity,
  and an order is marked resolved or expired only after its terminal event was saved.  The count
  it returns is the number of events saved.
\<close>

theorem ScanOnce_records_before_resolving:
  assumes "ScanOnce (timescaleStore now) rd cfg clock now s = (w, e, s')" "log_ok (scn_db s)" "scn_trace s = []"
  shows "log_ok (scn_db s') \<and> (\<forall>ev. Saved ev \<in> set (scn_trace s') \<longrightarrow> recorded_event now (scn_db s') ev)
    \<and> (\<forall>i x. Resolved i x \<in> set (scn_trace s') \<longrightarrow> terminal_saved s' i)
    \<and> (\<forall>i. Expired i \<in> set (scn_trace s') \<longrightarrow> terminal_saved s' i)
    \<and> saved_count s' = w"
proof -
  have "timescale.good now s" using assms(2,3) by (simp add: timescale.good_def)
  moreover have "saved_count s = 0" using assms(3) by (simp add: saved_count_def)
  ultimately show ?thesis using timescale.ScanOnce_good [OF assms(1)] by (simp add: timescale.good_def)
qed

theorem ScanOnce_records_before_resolving_witness:
  "\<exists>e s'. demoScan demoResting = (2, e, s') \<and> log_ok (scn_db s') \<and> saved_count s' = 2
     \<and> (\<forall>ev. Saved ev \<in> set (scn_trace s') \<longrightarrow> recorded_event demoLater (scn_db s') ev)"
proof -
  have "fst (demoScan demoResting) = 2" using resting_run by (simp add: resting_ok_def)
  then obtain e s' where d: "demoScan demoResting = (2, e, s')" by (metis prod.collapse)
  from ScanOnce_records_before_resolving [OF d [unfolded demoScan_def]] resting_log_ok d show ?thesis
    by (simp add: demoScanStart_def)
qed

text \<open>
  Two writers, one trade (a defect): an order whose trades are reported late is stored as pending, the
  scanner records its trade from the exchange, and a later ResolveOrderAttempt stores the same trade again,
  because FinalizeOrderAttempt inserts its fills without looking for the trade.  The run below ends with two
  fill rows for one exchange trade.
\<close>

theorem late_trade_stored_twice: "stored_fills ''t1'' (svc_db lateRun) = 2"
  by code_simp

text \<open>
  C16.  Stopping a session cancels its open orders one after the other.  The calls to the exchange come in one block per order: a
  cancelled order has its failures and one success, together at most the configured number of calls (three by
  default).  Either every order was cancelled, or the stop failed at one order after exactly that number of failures: the orders
  before it were cancelled, none after it was touched, and the message tells its last error.  The log holds what the
  exchange answered.
\<close>

theorem CancelOpenOrders_outcome:
  "case CancelOpenOrders targets canceller maxAttempts of (calls, r) \<Rightarrow>
     let m = (if maxAttempts \<le> 0 then 3 else maxAttempts) in
     answered_by canceller calls
     \<and> (\<exists>cancelled rest blocks. targets = cancelled @ rest \<and> sc_Cancelled r = length cancelled
        \<and> list_all2 (\<lambda>t b. \<exists>errs. b = map (\<lambda>e. (t, Some e)) errs @ [(t, None)] \<and> int (length b) \<le> m) cancelled blocks
        \<and> (if sc_StoppingFailed r
           then \<exists>t left errs. rest = t # left \<and> calls = concat blocks @ map (\<lambda>e. (t, Some e)) errs \<and> int (length errs) = m
             \<and> sc_ErrorMessage r = ''cancel open order failed after '' @ show_int m @ '' attempts: '' @ cancelTargetKey t @ '': '' @ err_text (last errs)
           else rest = [] \<and> calls = concat blocks))"
proof -
  obtain m where m: "m = (if maxAttempts \<le> 0 then 3 else maxAttempts)" by blast
  let ?r0 = "\<lparr>sc_Cancelled = 0, sc_StoppingFailed = False, sc_ErrorMessage = [], sc_AttemptsPerOrder = Map.empty\<rparr>"
  have pos: "1 \<le> m" by (simp add: m)
  obtain calls r where c: "cancelTargets canceller m targets ([], ?r0) = (calls, r)" by fastforce
  then have o: "CancelOpenOrders targets canceller maxAttempts = (calls, r)" by (simp add: CancelOpenOrders_def cancelLimit_def m)
  have a: "answered_by canceller calls" using cancelTargets_answers [OF c] by (simp add: answered_by_def)
  show ?thesis
    unfolding o prod.case Let_def m [symmetric] using a cancelTargets_blocks [OF pos _ c, unfolded append_Nil] by simp
qed

text \<open>
  C17.  The identity of a lifecycle event: two events that carry a trade and whose order references have no vertical bar, the
  separator of the key, have the same identity key exactly when they name the same order and the same trade, up to letter
  case, and no event without a trade shares their key.  With a bar in an order reference the keys of two trades
  can collide: the lemma after the witness has such a pair.
\<close>

theorem EventIdentityKey_trades:
  assumes "hasTradeIdentity e" "CHR ''|'' \<notin> set (eventOrderRef e)"
  shows "(hasTradeIdentity f \<and> CHR ''|'' \<notin> set (eventOrderRef f) \<longrightarrow>
      (EventIdentityKey e = EventIdentityKey f \<longleftrightarrow> to_upper (eventOrderRef e) = to_upper (eventOrderRef f)
         \<and> to_upper (eventTradeRef e) = to_upper (eventTradeRef f)))
    \<and> (\<not> hasTradeIdentity f \<longrightarrow> EventIdentityKey e \<noteq> EventIdentityKey f)"
  using trade_keys_equal_iff [OF assms(1) _ assms(2)] trade_key_not_state_key [OF assms(1)] by blast

theorem EventIdentityKey_trades_witness:
  "EventIdentityKey demoEvent = EventIdentityKey (demoEvent\<lparr>ev_ExchangeOrderID := ''X1''\<rparr>)
   \<and> EventIdentityKey demoEvent \<noteq> EventIdentityKey (demoEvent\<lparr>ev_ExchangeTradeID := ''t2''\<rparr>)"
proof -
  have h: "hasTradeIdentity demoEvent" "hasTradeIdentity (demoEvent\<lparr>ev_ExchangeOrderID := ''X1''\<rparr>)"
    "hasTradeIdentity (demoEvent\<lparr>ev_ExchangeTradeID := ''t2''\<rparr>)" by code_simp+
  have o: "CHR ''|'' \<notin> set (eventOrderRef demoEvent)" "CHR ''|'' \<notin> set (eventOrderRef (demoEvent\<lparr>ev_ExchangeOrderID := ''X1''\<rparr>))"
    "CHR ''|'' \<notin> set (eventOrderRef (demoEvent\<lparr>ev_ExchangeTradeID := ''t2''\<rparr>))" by code_simp+
  have u: "to_upper (eventOrderRef demoEvent) = to_upper (eventOrderRef (demoEvent\<lparr>ev_ExchangeOrderID := ''X1''\<rparr>))"
    "to_upper (eventTradeRef demoEvent) = to_upper (eventTradeRef (demoEvent\<lparr>ev_ExchangeOrderID := ''X1''\<rparr>))"
    "to_upper (eventTradeRef demoEvent) \<noteq> to_upper (eventTradeRef (demoEvent\<lparr>ev_ExchangeTradeID := ''t2''\<rparr>))" by code_simp+
  show ?thesis
    using EventIdentityKey_trades [OF h(1) o(1), of "demoEvent\<lparr>ev_ExchangeOrderID := ''X1''\<rparr>"]
      EventIdentityKey_trades [OF h(1) o(1), of "demoEvent\<lparr>ev_ExchangeTradeID := ''t2''\<rparr>"] h o u by metis
qed

lemma barred_references_collide:
  "let e = demoEvent\<lparr>ev_ExchangeOrderID := ''a|b'', ev_ExchangeTradeID := ''c''\<rparr>; f = demoEvent\<lparr>ev_ExchangeOrderID := ''a'', ev_ExchangeTradeID := ''b|c''\<rparr>
   in EventIdentityKey e = EventIdentityKey f \<and> eventOrderRef e \<noteq> eventOrderRef f"
  by code_simp

text \<open>
  Status columns round trip: writing a status and reading it back is idempotent for all four tables, and
  every attempt status that PlaceOrder or ResolveOrderAttempt reports is read back unchanged.
\<close>

theorem statuses_round_trip:
  "intentStatusText (intentStatusCode (intentStatusText (intentStatusCode s))) = intentStatusText (intentStatusCode s)
   \<and> attemptStatusText (attemptStatusCode (attemptStatusText (attemptStatusCode s))) = attemptStatusText (attemptStatusCode s)
   \<and> orderStatusText (orderStatusCode (orderStatusText (orderStatusCode s))) = orderStatusText (orderStatusCode s)
   \<and> fillStatusText (fillStatusCode (fillStatusText (fillStatusCode s))) = fillStatusText (fillStatusCode s)
   \<and> place_statuses \<union> resolve_statuses \<subseteq> {t. attemptStatusText (attemptStatusCode t) = t}"
proof (intro conjI)
  show "place_statuses \<union> resolve_statuses \<subseteq> {t. attemptStatusText (attemptStatusCode t) = t}"
    by (auto simp: place_statuses_def resolve_statuses_def attemptStatusCode_def attemptStatusText_def)
qed (rule intent_codec.canonical_idem attempt_codec.canonical_idem order_codec.canonical_idem fill_codec.canonical_idem)+

section \<open>The risk gate\<close>

text \<open>
  C19.  The decision does not depend on Go's unspecified map iteration order: whatever order the merged symbol
  rules come out in, the gate answers the same.
\<close>

theorem Review_order_independent:
  assumes "iteration_order iter" "iteration_order iter'"
  shows "Review iter g t req db = Review iter' g t req db"
  using Review_order [OF assms(1), of g t req db] Review_order [OF assms(2), of g t req db] by simp

theorem Review_order_independent_witness:
  "iteration_order rev \<and> iteration_order id
   \<and> Review rev demoGate demoLater demoReview empty_db = Review id demoGate demoLater demoReview empty_db"
proof -
  have i: "iteration_order rev" "iteration_order id" by (simp_all add: iteration_order_def)
  show ?thesis by (intro conjI i Review_order_independent [OF i])
qed

text \<open>
  One pending order per route: the gate of the service allows an order only if none of the open orders it
  listed (the 500 least recently updated) is on the same account, venue, route, side and symbol.
\<close>

theorem allowed_order_has_no_pending:
  assumes "fst (Review iter (coreGate registry walletState now) t req db) = Inr d" "dc_Status d = DecisionAllow"
  shows "\<exists>os db'. ListOpenOrders now 500 db = (Inr os, db') \<and> list_all (\<lambda>order. \<not> pendingOrderMatches order (pendingKey (normalizeReview req))) os"
proof -
  from Review_allowE [OF assms] have "fst (hasPending (coreGate registry walletState now) (normalizeReview req) db) = Inr False"
    by blast
  then show ?thesis
    by (auto simp: hasPending_def coreGate_def NewOpenOrderPendingReader_def HasPendingRoute_def Let_def bind_result_Inr
        list_all_iff split: prod.splits)
qed

theorem allowed_order_has_no_pending_witness:
  "allows (Review id demoGate demoLater demoReview empty_db)
   \<and> (\<exists>os db'. ListOpenOrders demoLater 500 empty_db = (Inr os, db'))"
proof -
  obtain d where d: "fst (Review id demoGate demoLater demoReview empty_db) = Inr d" "dc_Status d = DecisionAllow"
    using allowsE [OF demo_allowed] by blast
  from allowed_order_has_no_pending [OF d [unfolded demoGate_def]] demo_allowed show ?thesis by blast
qed

text \<open>
  C21.  An allowed spot order is covered by the wallet of its venue: a sell by the free balance of the base asset,
  a buy by the free balance of the quote asset, within the tolerance of the gate.  (The comparisons are those
  of IEEE doubles, which a NaN quantity also passes.)
\<close>

theorem allowed_spot_order_covered:
  assumes "fst (Review iter (coreGate registry walletState now) t req db) = Inr d" "dc_Status d = DecisionAllow"
    "int16_of (rq_Market req) = MarketSpot"
  shows "\<exists>info. walletState (rq_VenueID req) (rq_UserID req) = Inr info
    \<and> (equal_fold (norm_sym (rq_Side req)) ''SELL'' \<longrightarrow>
         \<not> short_of (availableBalance (snapshotFromOnlineInfo info) (baseAsset (rq_Symbol req))) \<bar>rq_Qty req\<bar>)
    \<and> (equal_fold (norm_sym (rq_Side req)) ''BUY'' \<longrightarrow> \<not> rq_ReduceOnly req
         \<and> \<not> short_of (availableBalance (snapshotFromOnlineInfo info) (quoteAsset (rq_Symbol req))) (orderNotional req))"
proof -
  from core_allowE [OF assms(1,2)] obtain info where i: "walletState (rq_VenueID req) (rq_UserID req) = Inr info" by blast
  show ?thesis using spot_sell_covered [OF assms] spot_buy_covered [OF assms] i by (intro exI [of _ info]) force
qed

theorem allowed_spot_order_covered_witness:
  "\<not> short_of (availableBalance (snapshotFromOnlineInfo demoWallet) (baseAsset ''BTCUSDT'')) \<bar>Fin 2\<bar>"
proof -
  let ?req = "demoReview\<lparr>rq_Side := ''SELL''\<rparr>"
  obtain d where d: "fst (Review id demoGate demoLater ?req empty_db) = Inr d" "dc_Status d = DecisionAllow"
    using allowsE [OF demo_sell_allowed] by blast
  have m: "int16_of (rq_Market ?req) = MarketSpot \<and> equal_fold (norm_sym (rq_Side ?req)) ''SELL''
    \<and> rq_Symbol ?req = ''BTCUSDT'' \<and> rq_Qty ?req = Fin 2" by code_simp
  from allowed_spot_order_covered [OF d [unfolded demoGate_def] m [THEN conjunct1]] m show ?thesis by auto
qed

text \<open>
  A sell order of quantity NaN passes the gate (a defect): every balance comparison with NaN is
  false, so no branch rejects it, and PlaceOrder's own check only refuses a quantity equal to zero.
\<close>

theorem nan_quantity_allowed:
  "allows (Review id demoGate demoLater (demoReview\<lparr>rq_Side := ''SELL'', rq_Qty := NaN\<rparr>) empty_db)
   \<and> checkPlaceOrder (demoRequest\<lparr>pr_Qty := NaN\<rparr>) = None"
  by code_simp

text \<open>
  C23.  An allowed perpetual futures order has a leverage in the wallet of its venue: that of the wallet's entry for its symbol, and not zero or
  less.  Its
  quantity meets the minimum and the step, its notional the minimum, and a limit price the tick of the symbol, where the
  limits are those the exchange reports for the symbol and the wallet's own step and tick where it reports none.  And either its notional at
  that leverage fits the available balance, or, when it only reduces, its size and side fit the position.
  As everywhere in the gate, a comparison with NaN rejects nothing.
\<close>

theorem allowed_futures_order_fits:
  assumes "iteration_order iter" "fst (Review iter (coreGate registry walletState now) t req db) = Inr d" "dc_Status d = DecisionAllow"
    "int16_of (rq_Market req) = MarketPerpetualFutures"
  shows "\<exists>info rules own. walletState (rq_VenueID req) (rq_UserID req) = Inr info \<and> rules_of_order registry req = Inr rules
    \<and> futures_fits req info rules own"
  using assms by (rule futures_covered)

theorem allowed_futures_order_fits_witness:
  "\<exists>rules own. rules_of_order demoFuturesRegistry (demoReview\<lparr>rq_Market := MarketPerpetualFutures\<rparr>) = Inr rules
     \<and> futures_fits (demoReview\<lparr>rq_Market := MarketPerpetualFutures\<rparr>) demoFuturesWallet rules own"
proof -
  let ?req = "demoReview\<lparr>rq_Market := MarketPerpetualFutures\<rparr>"
  have m: "int16_of (rq_Market ?req) = MarketPerpetualFutures" by code_simp
  obtain d where d: "fst (Review id (coreGate demoFuturesRegistry (\<lambda>_ _. Inr demoFuturesWallet) demoLater) demoLater ?req empty_db)
      = Inr d" "dc_Status d = DecisionAllow" using allowsE [OF demo_futures_allowed] by blast
  have "iteration_order id" by (simp add: iteration_order_def)
  from allowed_futures_order_fits [OF this d m] show ?thesis by auto
qed

section \<open>Executors and streams\<close>

text \<open>
  The backtest executor fills a limit order exactly when the mark price has reached the limit, completely
  and at the limit price; otherwise the order rests with nothing executed.
\<close>

theorem mock_limit_order:
  assumes "normalizeMockOrderSide (xq_Side req) = Some side" "xq_Price req = Some limit" "\<not> limit \<le> 0"
    "\<not> xq_MarkPrice req \<le> 0" "\<not> feq (xq_Qty req) 0"
  shows "if limit_reached req side limit
    then complete_fill (executeLimit uuid now req meta) req \<and> xr_AvgPrice (executeLimit uuid now req meta) = limit
    else resting (executeLimit uuid now req meta) req"
  using executeLimit_cases [OF assms] by simp

theorem mock_limit_order_witness:
  "limit_reached demoOrder ''BUY'' (Fin 120) \<and> complete_fill (executeLimit ''u'' 1 demoOrder demoMeta) demoOrder"
proof -
  have h: "normalizeMockOrderSide (xq_Side demoOrder) = Some ''BUY''" "xq_Price demoOrder = Some (Fin 120)"
    "\<not> Fin 120 \<le> 0" "\<not> xq_MarkPrice demoOrder \<le> 0" "\<not> feq (xq_Qty demoOrder) 0"
    "limit_reached demoOrder ''BUY'' (Fin 120)" by code_simp+
  from mock_limit_order [OF h(1-5), of "''u''" 1 demoMeta] h(6) show ?thesis by simp
qed

text \<open>
  A recovered execution is complete or pending, never partly reported: when the trades could not be read the
  result is pending, and when they were read it is pending exactly if the order executed something and the
  trades are missing or do not add up to the executed quantity within the tolerance.  A pending result carries no
  fills.
\<close>

theorem recovered_result_complete_or_pending:
  "xr_FillPending (recoveredResult state (Inl e)) \<and> xr_Fills (recoveredResult state (Inl e)) = []
   \<and> (xr_FillPending (recoveredResult state (Inr trades)) \<longleftrightarrow>
        \<not> os_ExecutedQty state \<le> 0 \<and> (trades = [] \<or> adapterRecoveredFillQtyEpsilon < \<bar>tradedQty trades - os_ExecutedQty state\<bar>))
   \<and> xr_Fills (recoveredResult state (Inr trades))
       = (if xr_FillPending (recoveredResult state (Inr trades)) then [] else map fillResultOf trades)"
  using recoveredResult_pending [of state "Inl e"] recoveredResult_pending [of state "Inr trades"]
  by (auto simp: recoveredResult_def Let_def)

text \<open>
  The account metadata cache returns what was last stored for the account, exchange and market, for as long as
  its time to live and no longer, and storing one key does not touch another.
\<close>

theorem Cache_Get_after_Set:
  "Cache_Get t' a' e' m' (Cache_Set t a e m meta c) =
     (if (a', e', m') = (a, e, m) then (if t' \<le> t + ch_ttl c then Some meta else None) else Cache_Get t' a' e' m' c)"
  by (rule Cache_Get_Set)

text \<open>
  C27.  One stream per route: however synchronisations start streams and streams end, at every moment the
  running streams are exactly one per active key, and every active key is valid.
\<close>

theorem one_stream_per_route:
  assumes "manager_step\<^sup>*\<^sup>* no_streams m"
  shows "one_each m"
  using assms by (rule reachable_one_each)

theorem one_stream_per_route_witness:
  "one_each (snd (startStream demoKey (snd (startStream demoKey no_streams)))) \<and> streamKeyValid demoKey"
proof -
  have k: "streamKeyValid demoKey" by code_simp
  have "manager_step\<^sup>*\<^sup>* no_streams (snd (startStream demoKey (snd (startStream demoKey no_streams))))"
    using manager_step.start [OF k] by (meson rtranclp.rtrancl_into_rtrancl rtranclp.rtrancl_refl)
  from one_stream_per_route [OF this] k show ?thesis by simp
qed

text \<open>
  C28.  A synchronisation that runs alone covers the open orders: after SyncOnce listed them, every one of them with a valid key
  whose stream could be resolved has an active stream, no stream was ended, and the count
  returned is the number of streams started.
\<close>

theorem SyncOnce_covers_open_orders:
  assumes "one_each m" "listOpen batchSize db = (Inr orders, db1)"
    "SyncOnce listOpen resolve batchSize db m = ((n, e, m'), db')"
  shows "one_each m' \<and> ms_active m \<subseteq> ms_active m' \<and> card (ms_active m') = card (ms_active m) + n
    \<and> (\<forall>order\<in>set orders. streamKeyValid (userDataStreamKeyFromOrder order) \<and> is_ok (resolve order)
         \<longrightarrow> userDataStreamKeyFromOrder order \<in> ms_active m')"
proof -
  have run: "syncOrders resolve orders 0 None m = (n, e, m')" using assms(2,3) by (simp add: SyncOnce_def)
  have fin: "finite (ms_active m)" using assms(1) by (rule one_each_finite)
  have "one_each m'" using syncOrders_steps [OF run fin] assms(1)
    by (metis (mono_tags, lifting) manager_steps_one_each)
  moreover have "userDataStreamKeyFromOrder order \<in> ms_active m'" if "order \<in> set orders"
    "streamKeyValid (userDataStreamKeyFromOrder order)" "is_ok (resolve order)" for order
    using syncOrders_covers [OF run fin that(1,2)] that(3) by (cases "resolve order") auto
  ultimately show ?thesis using syncOrders_steps [OF run fin] by auto
qed

theorem SyncOnce_covers_open_orders_witness:
  "\<exists>orders db1 n e m' db'. ListOpenOrders demoLater 50 (svc_db demoResting) = (Inr orders, db1)
     \<and> SyncOnce (ListOpenOrders demoLater) (\<lambda>_. Inr 1) 50 (svc_db demoResting) no_streams = ((n, e, m'), db')
     \<and> one_each m' \<and> card (ms_active m') = n"
proof -
  obtain orders db1 where l: "ListOpenOrders demoLater 50 (svc_db demoResting) = (Inr orders, db1)"
    using resting_open by blast
  obtain n e m' db' where r: "SyncOnce (ListOpenOrders demoLater) (\<lambda>_. Inr 1) 50 (svc_db demoResting) no_streams = ((n, e, m'), db')"
    by (metis prod.exhaust)
  have "one_each no_streams" by (simp add: one_each_def no_streams_def)
  from SyncOnce_covers_open_orders [OF this l r] have "one_each m'" "card (ms_active m') = n"
    by (simp_all add: no_streams_def)
  with l r show ?thesis by blast
qed

text \<open>
  C29.  A push of the user data stream that is a trade or ends an order is recorded: when the ingestor reports no
  error it found the open order of the venue, the event passed the route checks and is in the log under its identity.
\<close>

theorem ingested_push_recorded:
  assumes "log_ok db" "relevant_push event" "UserDataIngestor_Ingest (timescaleIngestStore now) now venueID event db = (None, db')"
  shows "\<exists>order. fst (ResolveOpenOrderByExchangeRef venueID (ud_ExchangeOrderID event) (ud_ClientOrderID event) db) = Inr order
    \<and> ValidateEventRouteFacts (userDataEvent order event now) = None
    \<and> recorded_event now db' (userDataEvent order event now)"
  using stream.ingest_records [OF assms] by (auto simp: timescaleIngestStore_def)

theorem ingested_push_recorded_witness:
  "\<exists>order db'. UserDataIngestor_Ingest (timescaleIngestStore demoLater) demoLater 3 demoPush (svc_db demoResting) = (None, db')
     \<and> recorded_event demoLater db' (userDataEvent order demoPush demoLater)"
proof -
  obtain db' where i: "UserDataIngestor_Ingest (timescaleIngestStore demoLater) demoLater 3 demoPush (svc_db demoResting) = (None, db')"
    using push_ingested by blast
  from ingested_push_recorded [OF resting_log_ok push_relevant i] i show ?thesis by blast
qed

text \<open>
  Alignment to a step is not too strict: every exact multiple of a positive step, up to 2 to the power 53
  steps, passes the step check in spite of rounding.
\<close>

theorem multiples_align:
  assumes "wf64 (Fin i)" "0 < i" "\<bar>k\<bar> < 2 ^ 53"
  shows "alignsToIncrement (Fin (of_int k * i)) (Fin i)"
  using assms by (rule alignsToIncrement_multiple)

theorem multiples_align_witness: "alignsToIncrement (Fin (of_int 7 * (1 / 8))) (Fin (1 / 8))"
proof -
  have "wf64 (Fin (1 / 8))" by code_simp
  from multiples_align [OF this, of 7] show ?thesis by simp
qed

end
